(* ===== verification/Wenyan_Prelude.thy ===== *)
theory Wenyan_Prelude
  imports Complex_Main "HOL-Library.Char_ord" "HOL-Library.List_Lexorder" "HOL-Library.Product_Lexorder"
begin

text \<open>
  Shared vocabulary of the development: the result type of operations that may throw, the
  reading of the SQL clauses \<open>ORDER BY\<close> and \<open>LIMIT\<close> on lists of rows, and generic lemmas on
  lists and maps.

  Strings are \<open>char list\<close>: one \<open>char\<close> is one UTF-16 code unit of the JavaScript string, restricted
  to U+0000..U+00FF. Their order (\<open>List_Lexorder\<close> over \<open>Char_ord\<close>) is the code-unit order of
  JavaScript's \<open><\<close> and the order of SQLite's \<open>BINARY\<close> collation on such strings. ISO-8601 times
  are such strings, and the code compares them as strings.
\<close>

named_theorems row_simps \<open>equations of the row-level helpers\<close>
named_theorems frame_simps \<open>what an operation leaves unchanged\<close>
named_theorems out_simps \<open>equations of the result type\<close>

type_synonym iso = string

section \<open>Results: a value or a thrown error, with the state reached\<close>

text \<open>
  The archive commits each SQL statement by itself, so a handler that throws keeps the effects of
  the statements before the throw: an error carries the state at the throw.
\<close>

datatype err =
    Error_msg string                     \<comment> \<open>\<open>new Error(message)\<close>\<close>
  | Constraint string                    \<comment> \<open>an SQL constraint violation, with the constraint\<close>
  | Insufficient_imperial_authority      \<comment> \<open>\<open>InsufficientImperialAuthorityError\<close>\<close>
  | Seal_invalid                         \<comment> \<open>\<open>SealInvalidError\<close>\<close>
  | Pbft_validation string               \<comment> \<open>\<open>PbftValidationError\<close> with its code\<close>
  | Zod_invalid                          \<comment> \<open>a zod validation error\<close>
  | Schema_undefined string              \<comment> \<open>\<open>SchemaUndefinedError\<close> with the genre\<close>

datatype ('s, 'a) out = Done (out_val: 'a) (out_state: 's) | Fail (out_err: err) (out_state: 's)

fun and_then :: "('s, 'a) out \<Rightarrow> ('a \<Rightarrow> 's \<Rightarrow> ('s, 'b) out) \<Rightarrow> ('s, 'b) out" where
  "and_then (Done a s) k = k a s"
| "and_then (Fail e s) k = Fail e s"

lemma and_then_Done_iff [out_simps]:
  "and_then m k = Done b t \<longleftrightarrow> (\<exists>a s. m = Done a s \<and> k a s = Done b t)"
  by (cases m) auto

lemma and_then_Fail_iff [out_simps]:
  "and_then m k = Fail e t \<longleftrightarrow> m = Fail e t \<or> (\<exists>a s. m = Done a s \<and> k a s = Fail e t)"
  by (cases m) auto

lemma out_state_simps [simp]: "out_state (Done a s) = s" "out_state (Fail e s) = s"
  by simp_all

text \<open>A property of the state that every step keeps is kept by a sequence of steps.\<close>

lemma and_then_state_inv:
  assumes "P (out_state m)" and "\<And>a s. m = Done a s \<Longrightarrow> P s \<Longrightarrow> P (out_state (k a s))"
  shows "P (out_state (and_then m k))"
  using assms by (cases m) auto

section \<open>Rows: ORDER BY, LIMIT 1, keyed update\<close>

definition first_row :: "'a list \<Rightarrow> 'a option" where
  "first_row xs = (case xs of [] \<Rightarrow> None | x # _ \<Rightarrow> Some x)"

text \<open>
  \<open>ORDER BY k ASC\<close> and \<open>ORDER BY k DESC\<close>. Rows with equal keys come in rowid order, which SQLite
  does not promise but does; the theorems that depend on a tie say so.
\<close>

definition order_asc :: "('a \<Rightarrow> 'k::linorder) \<Rightarrow> 'a list \<Rightarrow> 'a list" where
  "order_asc k xs = sort_key k xs"

definition order_desc :: "('a \<Rightarrow> 'k::linorder) \<Rightarrow> 'a list \<Rightarrow> 'a list" where
  "order_desc k xs = rev (sort_key k (rev xs))"

lemma first_row_simps [simp, row_simps]: "first_row [] = None" "first_row (x # xs) = Some x"
  by (simp_all add: first_row_def)

lemma first_row_None [simp]: "first_row xs = None \<longleftrightarrow> xs = []"
  by (cases xs) auto

lemma first_row_Some_in: "first_row xs = Some x \<Longrightarrow> x \<in> set xs"
  by (cases xs) auto

lemma first_row_take: "0 < n \<Longrightarrow> first_row (take n xs) = first_row xs"
  by (cases xs; cases n) auto

lemma set_order_asc [simp]: "set (order_asc k xs) = set xs"
  by (simp add: order_asc_def)

lemma set_order_desc [simp]: "set (order_desc k xs) = set xs"
  by (simp add: order_desc_def)

lemma length_order [simp]:
  "length (order_asc k xs) = length xs" "length (order_desc k xs) = length xs"
  by (simp_all add: order_asc_def order_desc_def)

lemma order_Nil [simp]: "order_asc k [] = []" "order_desc k [] = []"
  by (simp_all add: order_asc_def order_desc_def)

lemma order_Nil_iff [simp]: "order_asc k xs = [] \<longleftrightarrow> xs = []" "order_desc k xs = [] \<longleftrightarrow> xs = []"
  by (metis length_0_conv length_order(1)) (metis length_0_conv length_order(2))

lemma sorted_order_asc: "sorted (map k (order_asc k xs))"
  by (simp add: order_asc_def)

lemma sorted_order_desc: "sorted_wrt (\<lambda>x y. k y \<le> k x) (order_desc k xs)"
proof -
  have "sorted (map k (sort_key k (rev xs)))" by simp
  then have "sorted_wrt (\<lambda>x y. k x \<le> k y) (sort_key k (rev xs))" by (simp add: sorted_map)
  then show ?thesis by (simp add: order_desc_def sorted_wrt_rev)
qed

lemma order_desc_first_max:
  assumes "first_row (order_desc k xs) = Some x" and "y \<in> set xs"
  shows "k y \<le> k x"
proof -
  from assms(1) obtain zs where zs: "order_desc k xs = x # zs"
    by (cases "order_desc k xs") auto
  from assms(2) have "y \<in> set (x # zs)" by (metis set_order_desc zs)
  with sorted_order_desc [of k xs] show ?thesis unfolding zs by auto
qed

lemma order_asc_first_min:
  assumes "first_row (order_asc k xs) = Some x" and "y \<in> set xs"
  shows "k x \<le> k y"
proof -
  from assms(1) obtain zs where zs: "order_asc k xs = x # zs"
    by (cases "order_asc k xs") auto
  from assms(2) have "y \<in> set (x # zs)" by (metis set_order_asc zs)
  with sorted_order_asc [of k xs] show ?thesis unfolding zs by auto
qed

text \<open>Rows already in ascending order of the key are left as they are.\<close>

lemma order_asc_sorted: "sorted (map k xs) \<Longrightarrow> order_asc k xs = xs"
  by (simp add: order_asc_def sort_key_id_if_sorted)

text \<open>With distinct keys the order is determined by the rows alone.\<close>

lemma distinct_order_asc [simp]: "distinct (map k (order_asc k xs)) \<longleftrightarrow> distinct (map k xs)"
  by (simp add: order_asc_def distinct_map)

lemma order_asc_unique:
  assumes "distinct (map k xs)" "sorted (map k ys)" "distinct (map k ys)" "set ys = set xs"
  shows "order_asc k xs = ys"
proof -
  have "map k (order_asc k xs) = map k ys"
    using assms sorted_order_asc [of k xs] by (intro sorted_distinct_set_unique) simp_all
  moreover have "inj_on k (set (order_asc k xs) \<union> set ys)"
    using assms(1,4) by (simp add: distinct_map)
  ultimately show ?thesis by (rule map_inj_on)
qed

lemma order_desc_rev: "distinct (map k xs) \<Longrightarrow> order_desc k xs = rev (order_asc k xs)"
  unfolding order_desc_def
  by (rule arg_cong [where f = rev], fold order_asc_def, rule order_asc_unique)
    (simp_all add: sorted_order_asc rev_map [symmetric])

lemma order_asc_snoc:
  assumes "distinct (map k xs)" "\<And>y. y \<in> set xs \<Longrightarrow> k y < k x"
  shows "order_asc k (xs @ [x]) = order_asc k xs @ [x]"
proof (rule order_asc_unique)
  show "distinct (map k (xs @ [x]))" "distinct (map k (order_asc k xs @ [x]))"
    using assms by (auto simp del: map_append simp: map_append dest: assms(2))
  show "sorted (map k (order_asc k xs @ [x]))"
    using assms(2) sorted_order_asc [of k xs] by (fastforce simp: sorted_append)
qed simp

lemma first_row_rev: "first_row (rev xs) = (if xs = [] then None else Some (last xs))"
  by (cases xs rule: rev_cases) simp_all

lemma first_row_order_desc_snoc:
  assumes "\<And>y. y \<in> set xs \<Longrightarrow> k y < k x"
  shows "first_row (order_desc k (xs @ [x])) = Some x"
proof (cases "first_row (order_desc k (xs @ [x]))")
  case None
  then show ?thesis by simp
next
  case (Some z)
  then have "z \<in> set (xs @ [x])" by (metis first_row_Some_in set_order_desc)
  moreover have "k x \<le> k z" using order_desc_first_max [OF Some, of x] by simp
  ultimately have "z = x" using assms by fastforce
  with Some show ?thesis by simp
qed

text \<open>\<open>LIMIT n\<close>; a negative limit is none.\<close>

definition limit_rows :: "int \<Rightarrow> 'a list \<Rightarrow> 'a list" where
  "limit_rows n xs = (if n < 0 then xs else take (nat n) xs)"

lemma set_limit_rows: "set (limit_rows n xs) \<subseteq> set xs"
  by (simp add: limit_rows_def set_take_subset)

lemma length_limit_rows: "0 \<le> n \<Longrightarrow> length (limit_rows n xs) \<le> nat n"
  by (simp add: limit_rows_def)

text \<open>\<open>UPDATE ... WHERE\<close>: every row that matches is changed.\<close>

definition update_where :: "('a \<Rightarrow> bool) \<Rightarrow> ('a \<Rightarrow> 'a) \<Rightarrow> 'a list \<Rightarrow> 'a list" where
  "update_where p f xs = map (\<lambda>x. if p x then f x else x) xs"

text \<open>\<open>INSERT ... ON CONFLICT(key) DO UPDATE\<close>: the row with the key is changed, or the row added.\<close>

definition upsert :: "('a \<Rightarrow> 'k) \<Rightarrow> 'a \<Rightarrow> ('a \<Rightarrow> 'a) \<Rightarrow> 'a list \<Rightarrow> 'a list" where
  "upsert key new f xs =
     (if key new \<in> key ` set xs then update_where (\<lambda>x. key x = key new) f xs else xs @ [new])"

lemma length_update_where [simp]: "length (update_where p f xs) = length xs"
  by (simp add: update_where_def)

lemma update_where_Nil [simp]: "update_where p f [] = []"
  by (simp add: update_where_def)

lemma map_update_where:
  "(\<And>x. p x \<Longrightarrow> g (f x) = g x) \<Longrightarrow> map g (update_where p f xs) = map g xs"
  by (simp add: update_where_def)

lemma map_key_upsert:
  assumes "key (f new) = key new" "\<And>x. key x = key new \<Longrightarrow> key (f x) = key x"
  shows "map key (upsert key new f xs) =
    (if key new \<in> key ` set xs then map key xs else map key xs @ [key new])"
  using assms by (auto simp: upsert_def update_where_def)

lemma distinct_upsert:
  assumes "distinct (map key xs)" "\<And>x. key x = key new \<Longrightarrow> key (f x) = key x"
  shows "distinct (map key (upsert key new f xs))"
  using assms map_update_where [of "\<lambda>x. key x = key new" key f xs]
  by (auto simp: upsert_def)

section \<open>Lookup in a list of rows by key\<close>

definition find_row :: "('a \<Rightarrow> 'k) \<Rightarrow> 'k \<Rightarrow> 'a list \<Rightarrow> 'a option" where
  "find_row key k xs = find (\<lambda>x. key x = k) xs"

lemma find_row_Some_in: "find_row key k xs = Some x \<Longrightarrow> x \<in> set xs \<and> key x = k"
  by (auto simp: find_row_def find_Some_iff)

lemma find_row_None_iff: "find_row key k xs = None \<longleftrightarrow> k \<notin> key ` set xs"
  by (auto simp: find_row_def find_None_iff)

lemma find_row_append:
  "find_row key k (xs @ ys) =
    (case find_row key k xs of None \<Rightarrow> find_row key k ys | Some x \<Rightarrow> Some x)"
  by (induction xs) (auto simp: find_row_def)

lemma find_row_simps [simp]:
  "find_row key k [] = None"
  "find_row key k (x # xs) = (if key x = k then Some x else find_row key k xs)"
  by (simp_all add: find_row_def)

lemma find_row_update_where:
  assumes "\<And>x. p x \<Longrightarrow> key (f x) = key x"
  shows "find_row key k (update_where p f xs) =
    map_option (\<lambda>x. if p x then f x else x) (find_row key k xs)"
  using assms by (induction xs) (auto simp: update_where_def)

lemma find_row_upsert:
  assumes "\<And>x. key x = key new \<Longrightarrow> key (f x) = key x"
  shows "find_row key k (upsert key new f xs) =
    (if k = key new
     then Some (case find_row key k xs of None \<Rightarrow> new | Some x \<Rightarrow> f x)
     else find_row key k xs)"
proof (cases "key new \<in> key ` set xs")
  case True
  then obtain r where r: "find_row key (key new) xs = Some r"
    by (metis find_row_None_iff not_None_eq)
  show ?thesis
  proof (cases "k = key new")
    case True
    with r \<open>key new \<in> key ` set xs\<close>
      find_row_update_where [of "\<lambda>x. key x = key new" key f k xs] assms
    show ?thesis by (simp add: upsert_def) (use find_row_Some_in in fastforce)
  next
    case False
    with \<open>key new \<in> key ` set xs\<close>
      find_row_update_where [of "\<lambda>x. key x = key new" key f k xs] assms
    show ?thesis
      by (cases "find_row key k xs") (auto simp: upsert_def dest: find_row_Some_in)
  qed
next
  case False
  then have "find_row key (key new) xs = None" by (simp add: find_row_None_iff)
  with False show ?thesis
    by (auto simp: upsert_def find_row_append split: option.splits)
qed

lemma find_row_distinct:
  "distinct (map key xs) \<Longrightarrow> x \<in> set xs \<Longrightarrow> find_row key (key x) xs = Some x"
  by (induction xs) (auto simp: rev_image_eqI)

end
