(* ===== verification/Js_Json.thy ===== *)
theory Js_Json
  imports Wenyan_Prelude
begin

text \<open>
  JSON values as the code handles them, with \<open>JSON.stringify\<close>, \<open>JSON.parse\<close> and \<open>String(x)\<close>.

  A number is a decimal: \<open>JNum m e\<close> is \<open>m / 10^e\<close>, normalised so that \<open>e = 0\<close> or \<open>m\<close> does not end in
  0. This is the shortest decimal a JavaScript number prints; numbers that print with an exponent
  (from \<open>10^21\<close>, below \<open>10^-6\<close>) print here in full. Objects are lists of properties in insertion
  order; \<open>obj_put\<close> keeps the place of a property it overwrites, as JavaScript does. Keys that are
  array indices, which JavaScript moves to the front, do not occur in the objects of this code.
\<close>

datatype json =
    JNull
  | JBool bool
  | JNum int nat
  | JStr string
  | JArr "json list"
  | JObj "(string \<times> json) list"

type_synonym obj = "(string \<times> json) list"

section \<open>Objects\<close>

definition obj_get :: "obj \<Rightarrow> string \<Rightarrow> json option" where
  "obj_get o' k = map_of o' k"

fun obj_put :: "string \<Rightarrow> 'v \<Rightarrow> (string \<times> 'v) list \<Rightarrow> (string \<times> 'v) list" where
  "obj_put k v [] = [(k, v)]"
| "obj_put k v ((k', v') # ps) = (if k = k' then (k, v) # ps else (k', v') # obj_put k v ps)"

text \<open>\<open>{ ...a, ...b }\<close>.\<close>

definition obj_spread :: "(string \<times> 'v) list \<Rightarrow> (string \<times> 'v) list \<Rightarrow> (string \<times> 'v) list" where
  "obj_spread a b = fold (\<lambda>(k, v). obj_put k v) b a"

lemma map_of_obj_put [simp]: "map_of (obj_put k v ps) = (map_of ps)(k \<mapsto> v)"
  by (induction ps) auto

lemma keys_obj_put: "fst ` set (obj_put k v ps) = insert k (fst ` set ps)"
proof (induction ps)
  case (Cons p ps)
  then show ?case by (cases p) (simp add: insert_commute)
qed simp

lemma distinct_obj_put [simp]:
  "distinct (map fst ps) \<Longrightarrow> distinct (map fst (obj_put k v ps))"
proof (induction ps)
  case (Cons p ps)
  then show ?case using keys_obj_put [of k v ps] by (cases p) auto
qed simp

lemma obj_put_not_Nil [simp]: "obj_put k v ps \<noteq> []"
  by (cases "(k, v, ps)" rule: obj_put.cases) auto

lemma map_of_obj_spread: "map_of (obj_spread a b) k =
    (case map_of (rev b) k of Some v \<Rightarrow> Some v | None \<Rightarrow> map_of a k)"
  unfolding obj_spread_def
  by (induction b arbitrary: a) (auto simp: map_add_def split: option.splits)

text \<open>\<open>typeof x === 'string'\<close> and \<open>typeof x === 'object' && x && !Array.isArray(x)\<close>.\<close>

fun as_str :: "json option \<Rightarrow> string option" where
  "as_str (Some (JStr s)) = Some s"
| "as_str _ = None"

fun as_obj :: "json option \<Rightarrow> obj option" where
  "as_obj (Some (JObj ps)) = Some ps"
| "as_obj _ = None"

fun as_arr :: "json option \<Rightarrow> json list option" where
  "as_arr (Some (JArr xs)) = Some xs"
| "as_arr _ = None"

lemma as_str_Some_iff [simp]: "as_str j = Some s \<longleftrightarrow> j = Some (JStr s)"
  by (cases j rule: as_str.cases) auto

lemma as_obj_Some_iff [simp]: "as_obj j = Some ps \<longleftrightarrow> j = Some (JObj ps)"
  by (cases j rule: as_obj.cases) auto

section \<open>Text of numbers and strings\<close>

definition digit_char :: "nat \<Rightarrow> char" where
  "digit_char d = char_of (48 + d)"

definition char_digit :: "char \<Rightarrow> nat" where
  "char_digit c = of_char c - 48"

definition is_digit :: "char \<Rightarrow> bool" where
  "is_digit c \<longleftrightarrow> 48 \<le> (of_char c :: nat) \<and> (of_char c :: nat) \<le> 57"

fun nat_str :: "nat \<Rightarrow> string" where
  "nat_str n = (if n < 10 then [digit_char n] else nat_str (n div 10) @ [digit_char (n mod 10)])"

declare nat_str.simps [simp del]

fun pad_str :: "nat \<Rightarrow> nat \<Rightarrow> string" where
  "pad_str 0 n = []"
| "pad_str (Suc e) n = pad_str e (n div 10) @ [digit_char (n mod 10)]"

definition int_str :: "int \<Rightarrow> string" where
  "int_str i = (if i < 0 then ''-'' @ nat_str (nat (- i)) else nat_str (nat i))"

definition num_str :: "int \<Rightarrow> nat \<Rightarrow> string" where
  "num_str m e = (if e = 0 then int_str m
     else (if m < 0 then ''-'' else []) @
       nat_str (nat \<bar>m\<bar> div 10 ^ e) @ ''.'' @ pad_str e (nat \<bar>m\<bar> mod 10 ^ e))"

definition hex_digit :: "nat \<Rightarrow> char" where
  "hex_digit d = (if d < 10 then char_of (48 + d) else char_of (87 + d))"

definition escape_char :: "char \<Rightarrow> string" where
  "escape_char c =
    (let n = (of_char c :: nat) in
     if n = 34 then [CHR 0x5C, CHR 0x22]
     else if n = 92 then [CHR 0x5C, CHR 0x5C]
     else if n = 8 then [CHR 0x5C, CHR ''b'']
     else if n = 9 then [CHR 0x5C, CHR ''t'']
     else if n = 10 then [CHR 0x5C, CHR ''n'']
     else if n = 12 then [CHR 0x5C, CHR ''f'']
     else if n = 13 then [CHR 0x5C, CHR ''r'']
     else if n < 32 then [CHR 0x5C, CHR ''u'', CHR ''0'', CHR ''0'', hex_digit (n div 16), hex_digit (n mod 16)]
     else [c])"

definition quote_str :: "string \<Rightarrow> string" where
  "quote_str s = [CHR 0x22] @ concat (map escape_char s) @ [CHR 0x22]"

fun join_with :: "string \<Rightarrow> string list \<Rightarrow> string" where
  "join_with sep [] = []"
| "join_with sep [x] = x"
| "join_with sep (x # y # ys) = x @ sep @ join_with sep (y # ys)"

section \<open>JSON.stringify\<close>

fun stringify :: "json \<Rightarrow> string" where
  "stringify JNull = ''null''"
| "stringify (JBool b) = (if b then ''true'' else ''false'')"
| "stringify (JNum m e) = num_str m e"
| "stringify (JStr s) = quote_str s"
| "stringify (JArr xs) = ''['' @ join_with '','' (map stringify xs) @ '']''"
| "stringify (JObj ps) =
     ''{'' @ join_with '','' (map (\<lambda>(k, v). quote_str k @ '':'' @ stringify v) ps) @ ''}''"

text \<open>\<open>String(x)\<close>; an array joins its elements, with null as the empty string.\<close>

fun js_String :: "json \<Rightarrow> string" where
  "js_String JNull = ''null''"
| "js_String (JBool b) = (if b then ''true'' else ''false'')"
| "js_String (JNum m e) = num_str m e"
| "js_String (JStr s) = s"
| "js_String (JArr xs) = join_with '','' (map (\<lambda>x. if x = JNull then [] else js_String x) xs)"
| "js_String (JObj ps) = ''[object Object]''"

text \<open>\<open>x ?? d\<close> on a property: \<open>undefined\<close> and \<open>null\<close> take the default.\<close>

definition nullish :: "json option \<Rightarrow> json \<Rightarrow> json" where
  "nullish j d = (case j of None \<Rightarrow> d | Some JNull \<Rightarrow> d | Some x \<Rightarrow> x)"

text \<open>The truth value of a JSON value: \<open>null\<close>, \<open>false\<close>, \<open>0\<close> and the empty string are falsy.\<close>

fun truthy :: "json \<Rightarrow> bool" where
  "truthy JNull = False"
| "truthy (JBool b) = b"
| "truthy (JNum m e) = (m \<noteq> 0)"
| "truthy (JStr s) = (s \<noteq> [])"
| "truthy (JArr xs) = True"
| "truthy (JObj ps) = True"

section \<open>JSON.parse\<close>

definition is_ws :: "char \<Rightarrow> bool" where
  "is_ws c \<longleftrightarrow> (of_char c :: nat) \<in> {32, 9, 10, 13}"

definition skip_ws :: "string \<Rightarrow> string" where
  "skip_ws s = dropWhile is_ws s"

fun strip_prefix :: "string \<Rightarrow> string \<Rightarrow> string option" where
  "strip_prefix [] s = Some s"
| "strip_prefix (p # ps) [] = None"
| "strip_prefix (p # ps) (c # cs) = (if p = c then strip_prefix ps cs else None)"

definition hex_val :: "char \<Rightarrow> nat option" where
  "hex_val c = (let n = (of_char c :: nat) in
     if 48 \<le> n \<and> n \<le> 57 then Some (n - 48)
     else if 97 \<le> n \<and> n \<le> 102 then Some (n - 87)
     else if 65 \<le> n \<and> n \<le> 70 then Some (n - 55)
     else None)"

text \<open>
  The text of a string up to its closing quote. An escaped code unit above U+00FF is outside the
  string type and is refused.
\<close>

fun unescape_simple :: "nat \<Rightarrow> char option" where
  "unescape_simple n =
    (if n = 34 then Some (char_of (34::nat)) else if n = 92 then Some (char_of (92::nat))
     else if n = 47 then Some (char_of (47::nat)) else if n = 98 then Some (char_of (8::nat))
     else if n = 102 then Some (char_of (12::nat)) else if n = 110 then Some (char_of (10::nat))
     else if n = 114 then Some (char_of (13::nat)) else if n = 116 then Some (char_of (9::nat))
     else None)"

fun parse_str :: "string \<Rightarrow> (string \<times> string) option" where
  "parse_str [] = None"
| "parse_str (c # cs) =
    (if (of_char c :: nat) = 34 then Some ([], cs)
     else if (of_char c :: nat) = 92 then
       (case cs of [] \<Rightarrow> None
        | e # r \<Rightarrow>
          (if (of_char e :: nat) = 117 then
             (case r of h1 # h2 # h3 # h4 # r' \<Rightarrow>
                (case (hex_val h1, hex_val h2, hex_val h3, hex_val h4) of
                   (Some a, Some b, Some d, Some f) \<Rightarrow>
                     (if a = 0 \<and> b = 0
                      then map_option (\<lambda>(t, w). (char_of (16 * d + f) # t, w)) (parse_str r')
                      else None)
                 | _ \<Rightarrow> None)
              | _ \<Rightarrow> None)
           else (case unescape_simple (of_char e) of
                   Some u \<Rightarrow> map_option (\<lambda>(t, w). (u # t, w)) (parse_str r)
                 | None \<Rightarrow> None)))
     else if (of_char c :: nat) < 32 then None
     else map_option (\<lambda>(t, w). (c # t, w)) (parse_str cs))"

definition digits_val :: "string \<Rightarrow> nat" where
  "digits_val ds = foldl (\<lambda>a c. 10 * a + char_digit c) 0 ds"

fun norm_num :: "int \<Rightarrow> nat \<Rightarrow> int \<times> nat" where
  "norm_num m 0 = (m, 0)"
| "norm_num m (Suc e) = (if m mod 10 = 0 then norm_num (m div 10) e else (m, Suc e))"

text \<open>The fraction and the exponent of a number literal; the integer part is read before.\<close>

definition parse_frac :: "string \<Rightarrow> (string \<times> string) option" where
  "parse_frac s = (case s of
      c # cs \<Rightarrow> (if c = CHR ''.'' then
          (let ds = takeWhile is_digit cs in
           if ds = [] then None else Some (ds, dropWhile is_digit cs))
        else Some ([], s))
    | [] \<Rightarrow> Some ([], s))"

definition parse_exp :: "string \<Rightarrow> (int \<times> string) option" where
  "parse_exp s = (case s of
      c # cs \<Rightarrow> (if c = CHR ''e'' \<or> c = CHR ''E'' then
          (let (sg, r) = (case cs of
               d # ds \<Rightarrow> (if d = CHR ''-'' then (- 1, ds) else if d = CHR ''+'' then (1, ds) else (1, cs))
             | [] \<Rightarrow> (1, cs));
             ds = takeWhile is_digit r
           in if ds = [] then None else Some (sg * int (digits_val ds), dropWhile is_digit r))
        else Some (0, s))
    | [] \<Rightarrow> Some (0, s))"

definition parse_num :: "string \<Rightarrow> (json \<times> string) option" where
  "parse_num s =
    (let neg = (case s of c # _ \<Rightarrow> c = CHR ''-'' | [] \<Rightarrow> False);
         s1 = (if neg then tl s else s);
         ds = takeWhile is_digit s1;
         s2 = dropWhile is_digit s1
     in if ds = [] \<or> (hd ds = CHR ''0'' \<and> 1 < length ds) then None
        else (case parse_frac s2 of None \<Rightarrow> None
          | Some (fs, s3) \<Rightarrow> (case parse_exp s3 of None \<Rightarrow> None
            | Some (x, s4) \<Rightarrow>
              (let m = int (digits_val (ds @ fs));
                   m' = (if neg then - m else m);
                   e = int (length fs) - x;
                   (n, k) = (if e \<ge> 0 then norm_num m' (nat e) else (m' * 10 ^ nat (- e), 0))
               in Some (JNum n k, s4)))))"

fun parse_val :: "nat \<Rightarrow> string \<Rightarrow> (json \<times> string) option"
  and parse_arr :: "nat \<Rightarrow> string \<Rightarrow> (json list \<times> string) option"
  and parse_obj :: "nat \<Rightarrow> string \<Rightarrow> (obj \<times> string) option" where
  "parse_val 0 s = None"
| "parse_val (Suc n) s =
    (case skip_ws s of [] \<Rightarrow> None
     | c # cs \<Rightarrow>
       (if c = CHR ''n'' then map_option (\<lambda>r. (JNull, r)) (strip_prefix ''ull'' cs)
        else if c = CHR ''t'' then map_option (\<lambda>r. (JBool True, r)) (strip_prefix ''rue'' cs)
        else if c = CHR ''f'' then map_option (\<lambda>r. (JBool False, r)) (strip_prefix ''alse'' cs)
        else if (of_char c :: nat) = 34 then map_option (\<lambda>(t, r). (JStr t, r)) (parse_str cs)
        else if c = CHR ''['' then
          (if first_row (skip_ws cs) = Some (CHR '']'') then Some (JArr [], tl (skip_ws cs))
           else map_option (\<lambda>(xs, r). (JArr xs, r)) (parse_arr n cs))
        else if c = CHR ''{'' then
          (if first_row (skip_ws cs) = Some (CHR ''}'') then Some (JObj [], tl (skip_ws cs))
           else map_option (\<lambda>(ps, r). (JObj (obj_spread [] ps), r)) (parse_obj n cs))
        else parse_num (c # cs)))"
| "parse_arr 0 s = None"
| "parse_arr (Suc n) s =
    (case parse_val n s of None \<Rightarrow> None
     | Some (v, r) \<Rightarrow>
       (case skip_ws r of [] \<Rightarrow> None
        | c # cs \<Rightarrow>
          (if c = CHR '','' then map_option (\<lambda>(vs, w). (v # vs, w)) (parse_arr n cs)
           else if c = CHR '']'' then Some ([v], cs) else None)))"
| "parse_obj 0 s = None"
| "parse_obj (Suc n) s =
    (case skip_ws s of [] \<Rightarrow> None
     | q # qs \<Rightarrow>
       (if (of_char q :: nat) \<noteq> 34 then None
        else (case parse_str qs of None \<Rightarrow> None
          | Some (k, r) \<Rightarrow>
            (case skip_ws r of [] \<Rightarrow> None
             | c # cs \<Rightarrow>
               (if c \<noteq> CHR '':'' then None
                else (case parse_val n cs of None \<Rightarrow> None
                  | Some (v, w) \<Rightarrow>
                    (case skip_ws w of [] \<Rightarrow> None
                     | d # ds \<Rightarrow>
                       (if d = CHR '','' then map_option (\<lambda>(ps, z). ((k, v) # ps, z)) (parse_obj n ds)
                        else if d = CHR ''}'' then Some ([(k, v)], ds) else None))))))))"

text \<open>Each nested value costs at most two units of fuel per character read.\<close>

definition json_parse :: "string \<Rightarrow> json option" where
  "json_parse s =
    (case parse_val (2 * length s + 2) s of None \<Rightarrow> None
     | Some (v, r) \<Rightarrow> if skip_ws r = [] then Some v else None)"

section \<open>Round trip: parsing what was printed\<close>

subsection \<open>Numbers\<close>

lemma is_digit_digit_char [simp]: "d < 10 \<Longrightarrow> is_digit (digit_char d)"
  by (simp add: is_digit_def digit_char_def)

lemma char_digit_digit_char [simp]: "d < 10 \<Longrightarrow> char_digit (digit_char d) = d"
  by (simp add: char_digit_def digit_char_def)

lemma digits_val_simps [simp]:
  "digits_val [] = 0" "digits_val (xs @ [c]) = 10 * digits_val xs + char_digit c"
  by (simp_all add: digits_val_def)

lemma digits_val_nat_str [simp]: "digits_val (nat_str n) = n"
proof (induction n rule: nat_str.induct)
  case (1 n)
  show ?case
  proof (cases "n < 10")
    case True
    then show ?thesis using digits_val_simps(2) [of "[]"] by (simp add: nat_str.simps [of n])
  next
    case False
    with 1 show ?thesis by (subst nat_str.simps) simp
  qed
qed

lemma digits_nat_str [simp]: "\<forall>c\<in>set (nat_str n). is_digit c"
proof (induction n rule: nat_str.induct)
  case (1 n)
  then show ?case by (subst nat_str.simps) auto
qed

lemma nat_str_not_Nil [simp]: "nat_str n \<noteq> []"
  by (subst nat_str.simps) simp

lemma hd_nat_str: "hd (nat_str n) = CHR ''0'' \<Longrightarrow> n = 0"
proof (induction n rule: nat_str.induct)
  case (1 n)
  have z: "char_digit (CHR ''0'') = 0" by (simp add: char_digit_def)
  show ?case
  proof (cases "n < 10")
    case True
    with "1.prems" have "digit_char n = CHR ''0''" by (simp add: nat_str.simps [of n])
    with True z show ?thesis by (metis char_digit_digit_char)
  next
    case False
    with "1.prems" have "hd (nat_str (n div 10)) = CHR ''0''"
      by (simp add: nat_str.simps [of n])
    with 1 False have "n div 10 = 0" by blast
    with False show ?thesis by simp
  qed
qed

lemma hd_nat_str_length: "hd (nat_str n) = CHR ''0'' \<Longrightarrow> length (nat_str n) = 1"
  using hd_nat_str [of n] by (simp add: nat_str.simps)

lemma length_pad_str [simp]: "length (pad_str e n) = e"
  by (induction e arbitrary: n) auto

lemma digits_pad_str [simp]: "\<forall>c\<in>set (pad_str e n). is_digit c"
  by (induction e arbitrary: n) auto

lemma digits_val_pad_str [simp]:
  "digits_val (xs @ pad_str e n) = digits_val xs * 10 ^ e + n mod 10 ^ e"
proof (induction e arbitrary: n)
  case (Suc e)
  have "digits_val (xs @ pad_str (Suc e) n) = 10 * digits_val (xs @ pad_str e (n div 10)) + n mod 10"
    using digits_val_simps(2) [of "xs @ pad_str e (n div 10)"] by simp
  also have "\<dots> = digits_val xs * 10 ^ Suc e + (10 * (n div 10 mod 10 ^ e) + n mod 10)"
    by (simp add: Suc)
  also have "10 * (n div 10 mod 10 ^ e) + n mod 10 = n mod 10 ^ Suc e"
    using mod_mult2_eq [of n 10 "10 ^ e"] by simp
  finally show ?case .
qed simp

lemma norm_num_id: "e = 0 \<or> m mod 10 \<noteq> 0 \<Longrightarrow> norm_num m e = (m, e)"
  by (cases e) auto

text \<open>What may follow a value in printed JSON: nothing, or a delimiter.\<close>

definition delimited :: "string \<Rightarrow> bool" where
  "delimited r \<longleftrightarrow> (case r of [] \<Rightarrow> True | c # _ \<Rightarrow> c \<in> {CHR '','', CHR '']'', CHR ''}''})"

lemma delimited_simps [simp]:
  "delimited []" "delimited (CHR '','' # r)" "delimited (CHR '']'' # r)" "delimited (CHR ''}'' # r)"
  by (simp_all add: delimited_def)

lemma delimited_not_digit: "delimited (c # r) \<Longrightarrow> \<not> is_digit c"
  by (auto simp: delimited_def is_digit_def)

lemma takeWhile_digits:
  assumes "\<forall>c\<in>set ds. is_digit c" "r = [] \<or> \<not> is_digit (hd r)"
  shows "takeWhile is_digit (ds @ r) = ds" "dropWhile is_digit (ds @ r) = r"
  using assms by (auto simp: takeWhile_append dropWhile_append takeWhile_eq_Nil_iff
      dropWhile_eq_self_iff)

lemma delimited_frac: "delimited r \<Longrightarrow> parse_frac r = Some ([], r)"
  by (auto simp: parse_frac_def delimited_def split: list.splits)

lemma delimited_exp: "delimited r \<Longrightarrow> parse_exp r = Some (0, r)"
  by (auto simp: parse_exp_def delimited_def split: list.splits)

lemma delimited_hd: "delimited r \<Longrightarrow> r = [] \<or> \<not> is_digit (hd r)"
  by (cases r) (auto dest: delimited_not_digit)

lemma hd_nat_str_not_minus: "nat_str n = c # cs \<Longrightarrow> c \<noteq> CHR ''-''"
  using digits_nat_str [of n] by (auto simp: is_digit_def)

lemma parse_num_pos:
  assumes "\<And>fs s3. parse_frac w = Some (fs, s3) \<Longrightarrow> fs = gs \<and> s3 = r"
    and "parse_frac w \<noteq> None" and r: "delimited r" and w: "w = [] \<or> \<not> is_digit (hd w)"
    and nn: "length gs = 0 \<or> int (digits_val (nat_str n @ gs)) mod 10 \<noteq> 0"
  shows "parse_num (nat_str n @ w) = Some (JNum (int (digits_val (nat_str n @ gs))) (length gs), r)"
    and "length gs = 0 \<or> (- int (digits_val (nat_str n @ gs))) mod 10 \<noteq> 0 \<Longrightarrow>
      parse_num (''-'' @ nat_str n @ w) =
        Some (JNum (- int (digits_val (nat_str n @ gs))) (length gs), r)"
proof -
  have pf: "parse_frac w = Some (gs, r)" using assms(1,2) by fastforce
  have hd0: "\<not> (hd (nat_str n) = CHR ''0'' \<and> 1 < length (nat_str n))"
    using hd_nat_str_length [of n] by auto
  obtain c cs where cc: "nat_str n = c # cs" by (cases "nat_str n") auto
  have td: "takeWhile is_digit (nat_str n @ w) = nat_str n"
    "dropWhile is_digit (nat_str n @ w) = w"
    using takeWhile_digits [OF digits_nat_str w] by auto
  have ng: "(case nat_str n @ w of c # _ \<Rightarrow> c = CHR ''-'' | [] \<Rightarrow> False) = False"
    using hd_nat_str_not_minus [OF cc] by (simp add: cc)
  show "parse_num (nat_str n @ w) = Some (JNum (int (digits_val (nat_str n @ gs))) (length gs), r)"
    unfolding parse_num_def ng using nn hd0
    by (simp add: td pf delimited_exp [OF r] norm_num_id Let_def)
  assume "length gs = 0 \<or> (- int (digits_val (nat_str n @ gs))) mod 10 \<noteq> 0"
  then show "parse_num (''-'' @ nat_str n @ w) =
        Some (JNum (- int (digits_val (nat_str n @ gs))) (length gs), r)"
    unfolding parse_num_def using hd0
    by (simp add: td pf delimited_exp [OF r] norm_num_id Let_def)
qed

fun num_wf :: "int \<Rightarrow> nat \<Rightarrow> bool" where
  "num_wf m e = (e = 0 \<or> m mod 10 \<noteq> 0)"

lemma parse_frac_dot:
  "delimited r \<Longrightarrow> 0 < e \<Longrightarrow> parse_frac (CHR ''.'' # pad_str e n @ r) = Some (pad_str e n, r)"
  using takeWhile_digits [OF digits_pad_str [of e n] delimited_hd, of r] length_pad_str [of e n]
  by (auto simp: parse_frac_def Let_def simp del: length_pad_str)

lemma neg_mod_10: "(- k) mod 10 \<noteq> (0::int) \<longleftrightarrow> k mod 10 \<noteq> 0"
  by presburger

lemma parse_num_num_str:
  assumes "num_wf m e" and r: "delimited r"
  shows "parse_num (num_str m e @ r) = Some (JNum m e, r)"
proof (cases "e = 0")
  case True
  have pf: "parse_frac r = Some ([], r)" by (rule delimited_frac [OF r])
  note P = parse_num_pos [where w = r and gs = "[]" and r = r, OF _ _ r delimited_hd [OF r]]
  show ?thesis
  proof (cases "m < 0")
    case True
    with \<open>e = 0\<close> P(2) [of "nat (- m)"] pf show ?thesis by (simp add: num_str_def int_str_def)
  next
    case False
    with \<open>e = 0\<close> P(1) [of "nat m"] pf show ?thesis by (simp add: num_str_def int_str_def)
  qed
next
  case False
  then have e: "0 < e" by simp
  define a where "a = nat \<bar>m\<bar>"
  let ?n = "a div 10 ^ e" and ?g = "pad_str e (a mod 10 ^ e)"
  have dv: "digits_val (nat_str ?n @ ?g) = a"
    using div_mult_mod_eq [of a "10 ^ e"] by (simp del: div_mult_mod_eq)
  have w: "CHR ''.'' # ?g @ r = [] \<or> \<not> is_digit (hd (CHR ''.'' # ?g @ r))"
    by (simp add: is_digit_def)
  have a: "int a mod 10 \<noteq> 0" using assms(1) False neg_mod_10 [of m] by (auto simp: a_def abs_if)
  note P = parse_num_pos [where w = "CHR ''.'' # ?g @ r" and gs = ?g and r = r, OF _ _ r w,
      where n = ?n, unfolded dv]
  show ?thesis
  proof (cases "m < 0")
    case True
    then have "- int a = m" by (simp add: a_def)
    with P(2) parse_frac_dot [OF r e] a neg_mod_10 [of "int a"] True False show ?thesis
      by (simp add: num_str_def a_def)
  next
    case nn: False
    then have "int a = m" by (simp add: a_def)
    moreover have "num_str m e = nat_str ?n @ CHR ''.'' # ?g" using nn False by (simp add: num_str_def a_def)
    ultimately show ?thesis using P(1) parse_frac_dot [OF r e] a by simp
  qed
qed

subsection \<open>Strings\<close>

lemma hex_val_hex_digit: "d < 16 \<Longrightarrow> hex_val (hex_digit d) = Some d"
  by (auto simp: hex_val_def hex_digit_def Let_def)

lemma parse_str_escape:
  "parse_str (escape_char c @ t) = map_option (\<lambda>(x, w). (c # x, w)) (parse_str t)"
proof -
  define n where "n = (of_char c :: nat)"
  have c: "c = char_of n" by (simp add: n_def)
  have n256: "n < 256" by (simp add: n_def)
  have u: "n < 32 \<Longrightarrow> n div 16 < 16" by simp
  show ?thesis
  proof (cases "n = 34 \<or> n = 92 \<or> n = 8 \<or> n = 9 \<or> n = 10 \<or> n = 12 \<or> n = 13")
    case True
    then show ?thesis
      by (elim disjE) (simp_all add: escape_char_def n_def [symmetric] c)
  next
    case False
    show ?thesis
    proof (cases "n < 32")
      case True
      have "char_of (16 * (n div 16) + n mod 16) = c" by (simp add: c)
      with False True show ?thesis
        by (simp add: escape_char_def Let_def n_def [symmetric] hex_val_hex_digit
            hex_val_def [of "CHR ''0''"])
    next
      case ge: False
      with False show ?thesis
        by (simp add: escape_char_def Let_def n_def [symmetric])
    qed
  qed
qed

lemma parse_str_quoted:
  "parse_str (concat (map escape_char s) @ CHR 0x22 # r) = Some (s, r)"
  by (induction s) (simp_all add: parse_str_escape)

lemma skip_ws_id [simp]: "\<not> is_ws c \<Longrightarrow> skip_ws (c # s) = c # s"
  by (simp add: skip_ws_def)

lemma skip_ws_delimited: "delimited r \<Longrightarrow> skip_ws r = r"
  by (cases r) (auto simp: delimited_def skip_ws_def is_ws_def)

subsection \<open>Values\<close>

fun json_wf :: "json \<Rightarrow> bool" where
  "json_wf (JNum m e) = num_wf m e"
| "json_wf (JArr xs) = (\<forall>x\<in>set xs. json_wf x)"
| "json_wf (JObj ps) = (distinct (map fst ps) \<and> (\<forall>p\<in>set ps. json_wf (snd p)))"
| "json_wf _ = True"

lemma obj_spread_id: "distinct (map fst (ps @ qs)) \<Longrightarrow> obj_spread ps qs = ps @ qs"
proof (induction qs arbitrary: ps)
  case (Cons q qs)
  have put: "k \<notin> fst ` set xs \<Longrightarrow> obj_put k v xs = xs @ [(k, v)]" for k v and xs :: "(string \<times> 'a) list"
    by (induction xs) auto
  obtain k v where q: "q = (k, v)" by (cases q)
  with Cons.prems have "k \<notin> fst ` set ps" by auto
  then have "obj_spread ps (q # qs) = obj_spread (ps @ [(k, v)]) qs"
    by (simp add: obj_spread_def q put)
  with Cons.IH [of "ps @ [(k, v)]"] Cons.prems show ?case by (simp add: q)
qed (simp add: obj_spread_def)

lemma num_str_hd:
  obtains c cs where "num_str m e = c # cs" "c = CHR ''-'' \<or> is_digit c"
proof -
  have D: "\<exists>c cs. nat_str n @ t = c # cs \<and> is_digit c" for n t
    using digits_nat_str [of n] by (cases "nat_str n") auto
  have "\<exists>c cs. num_str m e = c # cs \<and> (c = CHR ''-'' \<or> is_digit c)"
    using D [of _ "[]"] D by (auto simp: num_str_def int_str_def) (metis append_Nil2)+
  then show ?thesis using that by blast
qed

text \<open>The first character of a printed value is no white space and no closing bracket.\<close>

lemma stringify_hd:
  obtains c cs where "stringify j = c # cs" "\<not> is_ws c" "c \<noteq> CHR '']''"
proof (cases j)
  case (JNum m e)
  obtain c cs where "num_str m e = c # cs" "c = CHR ''-'' \<or> is_digit c" by (rule num_str_hd)
  moreover from this have "c \<noteq> CHR '']''" by (auto simp: is_digit_def)
  ultimately show ?thesis using that JNum by (auto simp: is_ws_def is_digit_def)
next
  case (JBool b)
  then show ?thesis using that by (cases b) (auto simp: is_ws_def)
qed (use that in \<open>auto simp: is_ws_def quote_str_def split: if_splits\<close>)

definition pair_str :: "string \<times> json \<Rightarrow> string" where
  "pair_str p = quote_str (fst p) @ '':'' @ stringify (snd p)"

lemma pair_str_append:
  "pair_str (k, v) @ w = CHR 0x22 # concat (map escape_char k) @ CHR 0x22 # CHR '':'' # stringify v @ w"
  by (simp add: pair_str_def quote_str_def)

lemma stringify_obj: "stringify (JObj ps) = ''{'' @ join_with '','' (map pair_str ps) @ ''}''"
proof -
  have "(\<lambda>(k, v). quote_str k @ '':'' @ stringify v) = pair_str"
    by (auto simp: pair_str_def fun_eq_iff)
  then show ?thesis by simp
qed

text \<open>The statement proved by induction: with enough fuel a printed value is read back.\<close>

definition reads :: "json \<Rightarrow> bool" where
  "reads j \<longleftrightarrow> (\<forall>n r. 2 * length (stringify j) \<le> n \<longrightarrow> delimited r \<longrightarrow>
     parse_val n (stringify j @ r) = Some (j, r))"

lemma length_join:
  "x \<in> set xs \<Longrightarrow> length x \<le> length (join_with sep xs)"
  by (induction sep xs rule: join_with.induct) auto

lemma parse_arr_join:
  assumes "xs \<noteq> []" "\<forall>x\<in>set xs. reads x" "2 * length (join_with '','' (map stringify xs)) + 1 \<le> n"
  shows "parse_arr n (join_with '','' (map stringify xs) @ CHR '']'' # r) = Some (xs, r)"
  using assms
proof (induction xs arbitrary: n)
  case (Cons x xs)
  then obtain n' where n: "n = Suc n'" by (cases n) auto
  show ?case
  proof (cases xs)
    case Nil
    with Cons.prems n have "parse_val n' (stringify x @ CHR '']'' # r) = Some (x, CHR '']'' # r)"
      by (simp add: reads_def)
    with Nil n show ?thesis by (simp add: is_ws_def)
  next
    case (Cons y ys)
    let ?rest = "join_with '','' (map stringify xs) @ CHR '']'' # r"
    have "parse_val n' (stringify x @ CHR '','' # ?rest) = Some (x, CHR '','' # ?rest)"
      using Cons.prems n Cons by (simp add: reads_def)
    moreover have "parse_arr n' ?rest = Some (xs, r)"
      by (rule Cons.IH) (use Cons.prems n Cons in auto)
    ultimately show ?thesis using Cons n by (simp add: is_ws_def)
  qed
qed simp

lemma parse_obj_join:
  assumes "ps \<noteq> []" "\<forall>p\<in>set ps. reads (snd p)" "2 * length (join_with '','' (map pair_str ps)) + 1 \<le> n"
  shows "parse_obj n (join_with '','' (map pair_str ps) @ CHR ''}'' # r) = Some (ps, r)"
  using assms
proof (induction ps arbitrary: n)
  case (Cons p ps)
  then obtain n' where n: "n = Suc n'" by (cases n) auto
  obtain k v where p: "p = (k, v)" by (cases p)
  have val: "parse_val n' (stringify v @ w) = Some (v, w)" if "delimited w" for w
  proof -
    have "length (pair_str p) \<le> length (join_with '','' (map pair_str (p # ps)))"
      by (rule length_join) simp
    moreover have "length (stringify v) \<le> length (pair_str p)" by (simp add: p pair_str_def)
    ultimately have "2 * length (stringify v) \<le> n'" using Cons.prems(3) n by linarith
    with Cons.prems(2) p that show ?thesis by (simp add: reads_def)
  qed
  show ?case
  proof (cases ps)
    case Nil
    with val [of "CHR ''}'' # r"] n p show ?thesis
      by (simp add: pair_str_append parse_str_quoted is_ws_def)
  next
    case (Cons q qs)
    let ?rest = "join_with '','' (map pair_str ps) @ CHR ''}'' # r"
    have "parse_obj n' ?rest = Some (ps, r)"
      by (rule Cons.IH) (use Cons.prems n Cons in auto)
    with val [of "CHR '','' # ?rest"] Cons n p show ?thesis
      by (simp add: pair_str_append parse_str_quoted is_ws_def)
  qed
qed simp

lemma join_hd:
  assumes "stringify x = c # cs"
  shows "\<exists>ds. join_with '','' (map stringify (x # xs)) @ r = c # ds"
  using assms by (cases xs) auto

lemma reads_bool: "reads (JBool b)"
proof -
  have "parse_val n (stringify (JBool b) @ r) = Some (JBool b, r)" if "8 \<le> n" for n r
    using that by (cases n) (auto simp: is_ws_def)
  then show ?thesis by (auto simp: reads_def)
qed

lemma reads_text: "reads (JStr s)"
  by (auto simp: reads_def is_ws_def quote_str_def parse_str_quoted dest!: Suc_le_D)

lemma reads_json: "json_wf j \<Longrightarrow> reads j"
proof (induction j rule: json_wf.induct)
  case (1 m e)
  obtain c cs where c: "num_str m e = c # cs" "c = CHR ''-'' \<or> is_digit c" by (rule num_str_hd)
  have "parse_val n (num_str m e @ r) = Some (JNum m e, r)"
    if "2 * length (num_str m e) \<le> n" "delimited r" for n r
  proof -
    from that c obtain n' where n: "n = Suc n'" by (cases n) auto
    from c have "\<not> is_ws c" "c \<noteq> CHR ''n''" "c \<noteq> CHR ''t''" "c \<noteq> CHR ''f''" "(of_char c :: nat) \<noteq> 34"
      "c \<noteq> CHR ''[''" "c \<noteq> CHR ''{''" by (auto simp: is_ws_def is_digit_def)
    with parse_num_num_str [of m e r] 1 that c n show ?thesis by simp
  qed
  then show ?case by (simp add: reads_def)
next
  case (2 xs)
  then have IH: "\<forall>x\<in>set xs. reads x" by auto
  have "parse_val n (stringify (JArr xs) @ r) = Some (JArr xs, r)"
    if "2 * length (stringify (JArr xs)) \<le> n" for n r
  proof -
    from that obtain n' where n: "n = Suc n'" by (cases n) auto
    show ?thesis
    proof (cases xs)
      case Nil
      then show ?thesis using n by (simp add: is_ws_def)
    next
      case (Cons x ys)
      obtain c cs where c: "stringify x = c # cs" "\<not> is_ws c" "c \<noteq> CHR '']''" by (rule stringify_hd)
      from join_hd [OF c(1)] obtain ds
        where ds: "join_with '','' (map stringify xs) @ CHR '']'' # r = c # ds" unfolding Cons by blast
      have "parse_arr n' (join_with '','' (map stringify xs) @ CHR '']'' # r) = Some (xs, r)"
        by (rule parse_arr_join) (use that n IH Cons in auto)
      with c n show ?thesis by (simp add: ds is_ws_def [of "CHR ''[''"])
    qed
  qed
  then show ?case by (simp add: reads_def)
next
  case (3 ps)
  then have IH: "\<forall>p\<in>set ps. reads (snd p)" by auto
  have "parse_val n (stringify (JObj ps) @ r) = Some (JObj ps, r)"
    if "2 * length (stringify (JObj ps)) \<le> n" for n r
  proof -
    from that obtain n' where n: "n = Suc n'" by (cases n) auto
    show ?thesis
    proof (cases ps)
      case Nil
      then show ?thesis using n by (simp add: is_ws_def)
    next
      case (Cons p qs)
      have "\<exists>ds. join_with '','' (map pair_str ps) @ CHR ''}'' # r = CHR 0x22 # ds"
        unfolding Cons by (cases qs) (auto simp: pair_str_def quote_str_def)
      then obtain ds where ds: "join_with '','' (map pair_str ps) @ CHR ''}'' # r = CHR 0x22 # ds" ..
      have "parse_obj n' (join_with '','' (map pair_str ps) @ CHR ''}'' # r) = Some (ps, r)"
        by (rule parse_obj_join) (use that n IH Cons in \<open>auto simp: stringify_obj simp del: stringify.simps\<close>)
      moreover have "obj_spread [] ps = ps" using obj_spread_id [of "[]" ps] 3 by simp
      ultimately show ?thesis using n
        by (simp add: stringify_obj ds is_ws_def [of "CHR 0x22"] is_ws_def [of "CHR ''{''"]
            del: stringify.simps)
    qed
  qed
  then show ?case by (simp add: reads_def)
next
  case "4_1"
  have "parse_val n (''null'' @ r) = Some (JNull, r)" if "8 \<le> n" for n r
    using that by (cases n) (auto simp: is_ws_def)
  then show ?case by (simp add: reads_def)
next
  case "4_2"
  show ?case by (rule reads_bool)
next
  case "4_3"
  show ?case by (rule reads_text)
qed

lemma json_parse_stringify: "json_wf j \<Longrightarrow> json_parse (stringify j) = Some j"
proof -
  assume "json_wf j"
  then have "reads j" by (rule reads_json)
  then have "parse_val (2 * length (stringify j) + 2) (stringify j @ []) = Some (j, [])"
    unfolding reads_def using delimited_simps(1) le_add1 by blast
  then show ?thesis by (simp add: json_parse_def skip_ws_def)
qed

lemma stringify_inject:
  "json_wf a \<Longrightarrow> json_wf b \<Longrightarrow> stringify a = stringify b \<longleftrightarrow> a = b"
  by (metis json_parse_stringify option.inject)

end
