(* ===== verification/Core_Envelope.thy ===== *)
theory Core_Envelope
  imports Js_Json "HOL-Library.Monad_Syntax"
begin

text \<open>
  \<open>packages/core\<close>: message states and their allowed transitions (\<open>kinds.ts\<close>), the envelope,
  actor, transition and TI-definition schemas (\<open>ti.ts\<close>), the edict and law-content schemas
  (\<open>law.ts\<close>), and the role permissions of \<open>packages/actor\<close>.

  A zod schema is a parser from JSON to a record, \<open>None\<close> for a validation error. The combinators
  state the documented behaviour of the zod calls the schemas are built from: unknown keys are
  stripped, a missing key takes its default, \<open>int()\<close> accepts safe integers. The check of
  \<open>z.string().datetime()\<close> is the parameter \<open>dt\<close> of the parsers that use it.
\<close>

section \<open>kinds.ts: states and transitions\<close>

datatype message_state = Pending | Validated | Reviewed | Authorized | Rejected | Archived

fun state_str :: "message_state \<Rightarrow> string" where
  "state_str Pending = ''pending''"
| "state_str Validated = ''validated''"
| "state_str Reviewed = ''reviewed''"
| "state_str Authorized = ''authorized''"
| "state_str Rejected = ''rejected''"
| "state_str Archived = ''archived''"

definition all_states :: "message_state list" where
  "all_states = [Pending, Validated, Reviewed, Authorized, Rejected, Archived]"

definition MessageStateSchema :: "json \<Rightarrow> message_state option" where
  "MessageStateSchema j = find (\<lambda>s. j = JStr (state_str s)) all_states"

fun AllowedTransitions :: "message_state \<Rightarrow> message_state list" where
  "AllowedTransitions Pending = [Validated, Authorized, Rejected]"
| "AllowedTransitions Validated = [Reviewed, Rejected]"
| "AllowedTransitions Reviewed = [Pending, Authorized, Rejected]"
| "AllowedTransitions Authorized = [Archived]"
| "AllowedTransitions Rejected = []"
| "AllowedTransitions Archived = []"

definition canTransition :: "message_state \<Rightarrow> message_state \<Rightarrow> bool" where
  "canTransition fromState toState \<longleftrightarrow> toState \<in> set (AllowedTransitions fromState)"

lemma state_str_inject [simp]: "state_str a = state_str b \<longleftrightarrow> a = b"
  by (cases a; cases b) auto

lemma MessageStateSchema_state_str [simp]: "MessageStateSchema (JStr (state_str s)) = Some s"
  by (cases s) (simp_all add: MessageStateSchema_def all_states_def)

lemma canTransition_simps [simp]:
  "canTransition Pending s \<longleftrightarrow> s = Validated \<or> s = Authorized \<or> s = Rejected"
  "canTransition Validated s \<longleftrightarrow> s = Reviewed \<or> s = Rejected"
  "canTransition Reviewed s \<longleftrightarrow> s = Pending \<or> s = Authorized \<or> s = Rejected"
  "canTransition Authorized s \<longleftrightarrow> s = Archived"
  "canTransition Rejected s \<longleftrightarrow> False" "canTransition Archived s \<longleftrightarrow> False"
  by (auto simp: canTransition_def)

section \<open>zod combinators\<close>

definition z_field :: "obj \<Rightarrow> string \<Rightarrow> (json \<Rightarrow> 'a option) \<Rightarrow> 'a option" where
  "z_field ob k p = Option.bind (obj_get ob k) p"

definition z_default :: "obj \<Rightarrow> string \<Rightarrow> 'a \<Rightarrow> (json \<Rightarrow> 'a option) \<Rightarrow> 'a option" where
  "z_default ob k d p = (case obj_get ob k of None \<Rightarrow> Some d | Some j \<Rightarrow> p j)"

definition z_optional :: "obj \<Rightarrow> string \<Rightarrow> (json \<Rightarrow> 'a option) \<Rightarrow> 'a option option" where
  "z_optional ob k p = (case obj_get ob k of None \<Rightarrow> Some None | Some j \<Rightarrow> map_option Some (p j))"

fun z_string :: "json \<Rightarrow> string option" where
  "z_string (JStr s) = Some s"
| "z_string _ = None"

fun z_string1 :: "json \<Rightarrow> string option" where
  "z_string1 (JStr s) = (if s = [] then None else Some s)"
| "z_string1 _ = None"

fun z_bool :: "json \<Rightarrow> bool option" where
  "z_bool (JBool b) = Some b"
| "z_bool _ = None"

definition max_safe :: int where "max_safe = 9007199254740991"

fun z_int :: "json \<Rightarrow> int option" where
  "z_int (JNum m e) = (if e = 0 \<and> \<bar>m\<bar> \<le> max_safe then Some m else None)"
| "z_int _ = None"

definition z_nonneg :: "json \<Rightarrow> nat option" where
  "z_nonneg j = (case z_int j of Some i \<Rightarrow> if 0 \<le> i then Some (nat i) else None | None \<Rightarrow> None)"

definition z_positive :: "json \<Rightarrow> nat option" where
  "z_positive j = (case z_int j of Some i \<Rightarrow> if 0 < i then Some (nat i) else None | None \<Rightarrow> None)"

fun z_record :: "json \<Rightarrow> obj option" where
  "z_record (JObj ps) = Some ps"
| "z_record _ = None"

fun all_some :: "'a option list \<Rightarrow> 'a list option" where
  "all_some [] = Some []"
| "all_some (None # xs) = None"
| "all_some (Some x # xs) = map_option (Cons x) (all_some xs)"

fun z_array :: "(json \<Rightarrow> 'a option) \<Rightarrow> json \<Rightarrow> 'a list option" where
  "z_array p (JArr xs) = all_some (map p xs)"
| "z_array p _ = None"

fun z_record_of :: "(json \<Rightarrow> 'a option) \<Rightarrow> json \<Rightarrow> (string \<times> 'a) list option" where
  "z_record_of p (JObj ps) = all_some (map (\<lambda>(k, j). map_option (Pair k) (p j)) ps)"
| "z_record_of p _ = None"

definition z_datetime :: "(string \<Rightarrow> bool) \<Rightarrow> json \<Rightarrow> string option" where
  "z_datetime dt j = (case z_string j of Some s \<Rightarrow> if dt s then Some s else None | None \<Rightarrow> None)"

definition z_literal :: "string \<Rightarrow> json \<Rightarrow> string option" where
  "z_literal s j = (if j = JStr s then Some s else None)"

lemma all_some_map [simp]: "(\<And>x. x \<in> set xs \<Longrightarrow> f x = Some (g x)) \<Longrightarrow> all_some (map f xs) = Some (map g xs)"
  by (induction xs) auto

lemma z_string1_Some: "z_string1 j = Some s \<longleftrightarrow> j = JStr s \<and> s \<noteq> []"
  by (cases j) auto

section \<open>ti.ts: envelopes and transitions\<close>

record envelope =
  e_id :: string
  e_genre :: string
  e_payload :: obj
  e_actor_id :: string
  e_actor_role :: string
  e_submittedAt :: iso
  e_metadata :: obj

definition ActorSchema :: "json \<Rightarrow> (string \<times> string) option" where
  "ActorSchema j = do {
     ob \<leftarrow> z_record j;
     i \<leftarrow> z_field ob ''id'' z_string1;
     r \<leftarrow> z_field ob ''role'' z_string1;
     Some (i, r) }"

definition MessageEnvelopeSchema :: "(string \<Rightarrow> bool) \<Rightarrow> json \<Rightarrow> envelope option" where
  "MessageEnvelopeSchema dt j = do {
     ob \<leftarrow> z_record j;
     i \<leftarrow> z_field ob ''id'' z_string1;
     g \<leftarrow> z_field ob ''genre'' z_string1;
     p \<leftarrow> z_field ob ''payload'' z_record;
     a \<leftarrow> z_field ob ''actor'' ActorSchema;
     t \<leftarrow> z_field ob ''submittedAt'' (z_datetime dt);
     m \<leftarrow> z_default ob ''metadata'' [] z_record;
     Some \<lparr>e_id = i, e_genre = g, e_payload = p, e_actor_id = fst a, e_actor_role = snd a,
       e_submittedAt = t, e_metadata = m\<rparr> }"

definition envelope_json :: "envelope \<Rightarrow> json" where
  "envelope_json m = JObj [
     (''id'', JStr (e_id m)), (''genre'', JStr (e_genre m)), (''payload'', JObj (e_payload m)),
     (''actor'', JObj [(''id'', JStr (e_actor_id m)), (''role'', JStr (e_actor_role m))]),
     (''submittedAt'', JStr (e_submittedAt m)), (''metadata'', JObj (e_metadata m))]"

record ti_definition_payload =
  td_target_genre :: string
  td_version :: string
  td_schema :: obj
  td_superseded_by :: "string option"

definition TiDefinitionPayloadSchema :: "json \<Rightarrow> ti_definition_payload option" where
  "TiDefinitionPayloadSchema j = do {
     ob \<leftarrow> z_record j;
     g \<leftarrow> z_field ob ''target_genre'' z_string1;
     v \<leftarrow> z_field ob ''version'' z_string1;
     s \<leftarrow> z_field ob ''schema'' z_record;
     b \<leftarrow> z_optional ob ''superseded_by'' z_string1;
     Some \<lparr>td_target_genre = g, td_version = v, td_schema = s, td_superseded_by = b\<rparr> }"

definition TiDefinitionSchema :: "(string \<Rightarrow> bool) \<Rightarrow> json \<Rightarrow> (envelope \<times> ti_definition_payload) option" where
  "TiDefinitionSchema dt j = do {
     m \<leftarrow> MessageEnvelopeSchema dt j;
     _ \<leftarrow> z_literal ''ti_definition'' (JStr (e_genre m));
     p \<leftarrow> TiDefinitionPayloadSchema (JObj (e_payload m));
     Some (m, p) }"

record transition =
  t_messageId :: string
  t_fromState :: message_state
  t_toState :: message_state
  t_sequenceNo :: int
  t_actorId :: "string option"
  t_reason :: "string option"
  t_sealedAt :: "iso option"
  t_prevTransitionHash :: "string option"
  t_at :: iso

section \<open>law.ts: edicts and law contents\<close>

datatype law_type = Appointment | Classification | Routing | Admission | Protocol | Regulation
  | Access_control | Detection_rule

fun law_type_str :: "law_type \<Rightarrow> string" where
  "law_type_str Appointment = ''appointment''"
| "law_type_str Classification = ''classification''"
| "law_type_str Routing = ''routing''"
| "law_type_str Admission = ''admission''"
| "law_type_str Protocol = ''protocol''"
| "law_type_str Regulation = ''regulation''"
| "law_type_str Access_control = ''access_control''"
| "law_type_str Detection_rule = ''detection_rule''"

definition EdictLawTypeValues :: "law_type list" where
  "EdictLawTypeValues = [Appointment, Classification, Routing, Admission, Protocol, Regulation,
     Access_control, Detection_rule]"

definition law_type_of :: "string \<Rightarrow> law_type option" where
  "law_type_of s = find (\<lambda>t. law_type_str t = s) EdictLawTypeValues"

lemma law_type_str_inject [simp]: "law_type_str a = law_type_str b \<longleftrightarrow> a = b"
  by (cases a; cases b) auto

lemma set_EdictLawTypeValues [simp]: "set EdictLawTypeValues = UNIV"
  by (auto simp: EdictLawTypeValues_def) (metis law_type.exhaust)

lemma law_type_of_Some: "law_type_of s = Some t \<longleftrightarrow> s = law_type_str t"
proof
  assume "law_type_of s = Some t"
  then show "s = law_type_str t" by (auto simp: law_type_of_def find_Some_iff)
next
  assume "s = law_type_str t"
  then show "law_type_of s = Some t"
    by (cases t) (simp_all add: law_type_of_def EdictLawTypeValues_def)
qed

record edict_payload =
  ep_law_type :: law_type
  ep_target_genre :: "string option"
  ep_version :: string
  ep_content :: obj
  ep_precedence :: int
  ep_effective_date :: iso
  ep_superseded_edict_id :: "string option"

definition EdictPayloadSchema :: "(string \<Rightarrow> bool) \<Rightarrow> json \<Rightarrow> edict_payload option" where
  "EdictPayloadSchema dt j = do {
     ob \<leftarrow> z_record j;
     l \<leftarrow> z_field ob ''law_type'' (\<lambda>x. Option.bind (z_string x) law_type_of);
     g \<leftarrow> z_optional ob ''target_genre'' z_string1;
     v \<leftarrow> z_field ob ''version'' z_string1;
     c \<leftarrow> z_field ob ''content'' z_record;
     p \<leftarrow> z_default ob ''precedence'' 0 z_int;
     d \<leftarrow> z_field ob ''effective_date'' (z_datetime dt);
     s \<leftarrow> z_optional ob ''superseded_edict_id'' z_string1;
     Some \<lparr>ep_law_type = l, ep_target_genre = g, ep_version = v, ep_content = c,
       ep_precedence = p, ep_effective_date = d, ep_superseded_edict_id = s\<rparr> }"

definition EdictSchema :: "(string \<Rightarrow> bool) \<Rightarrow> json \<Rightarrow> (envelope \<times> edict_payload) option" where
  "EdictSchema dt j = do {
     m \<leftarrow> MessageEnvelopeSchema dt j;
     _ \<leftarrow> z_literal ''edict'' (JStr (e_genre m));
     p \<leftarrow> EdictPayloadSchema dt (JObj (e_payload m));
     Some (m, p) }"

record appointment_role_rule =
  ar_permissions :: "string list"
  ar_allowed_genres :: "string list"
  ar_max_pending :: "nat option"

type_synonym appointment_law = "(string \<times> appointment_role_rule) list"

definition AppointmentRoleRuleSchema :: "json \<Rightarrow> appointment_role_rule option" where
  "AppointmentRoleRuleSchema j = do {
     ob \<leftarrow> z_record j;
     p \<leftarrow> z_default ob ''permissions'' [] (z_array z_string);
     g \<leftarrow> z_default ob ''allowed_genres'' [] (z_array z_string);
     m \<leftarrow> z_optional ob ''max_pending'' z_nonneg;
     Some \<lparr>ar_permissions = p, ar_allowed_genres = g, ar_max_pending = m\<rparr> }"

definition AppointmentLawContentSchema :: "json \<Rightarrow> appointment_law option" where
  "AppointmentLawContentSchema j = do {
     ob \<leftarrow> z_record j;
     z_field ob ''roles'' (z_record_of AppointmentRoleRuleSchema) }"

record classification_law =
  cl_levels :: "string list"
  cl_strict :: bool
  cl_compartmentalization :: bool

definition hierarchy_schema :: "json \<Rightarrow> bool option" where
  "hierarchy_schema j = (if j = JStr ''strict'' then Some True
     else if j = JStr ''flat'' then Some False else None)"

definition ClassificationLawContentSchema :: "json \<Rightarrow> classification_law option" where
  "ClassificationLawContentSchema j = do {
     ob \<leftarrow> z_record j;
     l \<leftarrow> z_field ob ''levels'' (z_array z_string);
     h \<leftarrow> z_default ob ''hierarchy'' True hierarchy_schema;
     c \<leftarrow> z_default ob ''compartmentalization'' False z_bool;
     (if l = [] then None
      else Some \<lparr>cl_levels = l, cl_strict = h, cl_compartmentalization = c\<rparr>) }"

record routing_law =
  rl_table :: "(string \<times> string list) list"
  rl_broadcast_policy :: string

definition RoutingLawContentSchema :: "json \<Rightarrow> routing_law option" where
  "RoutingLawContentSchema j = do {
     ob \<leftarrow> z_record j;
     t \<leftarrow> z_field ob ''table'' (z_record_of (z_array z_string));
     b \<leftarrow> z_default ob ''broadcast_policy'' ''hierarchical'' z_string;
     Some \<lparr>rl_table = t, rl_broadcast_policy = b\<rparr> }"

definition AdmissionLawContentSchema :: "json \<Rightarrow> string list option" where
  "AdmissionLawContentSchema j = do {
     ob \<leftarrow> z_record j;
     z_default ob ''allowed_genres'' [] (z_array z_string) }"

definition ProtocolLawContentSchema :: "json \<Rightarrow> (string \<times> nat) list option" where
  "ProtocolLawContentSchema j = do {
     ob \<leftarrow> z_record j;
     z_default ob ''required_acks_by_genre'' [] (z_record_of z_positive) }"

record regulation_law =
  rg_retention_days :: "nat option"
  rg_rate_limits :: "(string \<times> nat) list option"

definition RegulationLawContentSchema :: "json \<Rightarrow> regulation_law option" where
  "RegulationLawContentSchema j = do {
     ob \<leftarrow> z_record j;
     d \<leftarrow> z_optional ob ''retention_days'' z_positive;
     l \<leftarrow> z_optional ob ''rate_limits'' (z_record_of z_positive);
     Some \<lparr>rg_retention_days = d, rg_rate_limits = l\<rparr> }"

record access_control_law =
  ac_read_permissions :: "(string \<times> string list) list"
  ac_anonymous_read :: bool
  ac_query_hash_only :: bool

definition AccessControlLawContentSchema :: "json \<Rightarrow> access_control_law option" where
  "AccessControlLawContentSchema j = do {
     ob \<leftarrow> z_record j;
     p \<leftarrow> z_default ob ''read_permissions'' [] (z_record_of (z_array z_string));
     a \<leftarrow> z_default ob ''anonymous_read'' False z_bool;
     q \<leftarrow> z_default ob ''query_hash_only'' True z_bool;
     Some \<lparr>ac_read_permissions = p, ac_anonymous_read = a, ac_query_hash_only = q\<rparr> }"

record resolved_law =
  rw_messageId :: string
  rw_lawType :: law_type
  rw_version :: string
  rw_content :: json
  rw_precedence :: rat
  rw_effectiveDate :: iso
  rw_sealedAt :: iso

section \<open>actor/index.ts: permissions from the appointment law\<close>

definition permissionsFromLaw :: "string \<Rightarrow> appointment_law option \<Rightarrow> string list option" where
  "permissionsFromLaw role law =
    (case law of None \<Rightarrow> None | Some l \<Rightarrow> map_option ar_permissions (map_of l role))"

definition canDraft :: "string \<Rightarrow> appointment_law option \<Rightarrow> bool" where
  "canDraft role law =
    (case permissionsFromLaw role law of None \<Rightarrow> False | Some perms \<Rightarrow> ''draft'' \<in> set perms)"

definition canReview :: "string \<Rightarrow> appointment_law option \<Rightarrow> bool" where
  "canReview role law =
    (case permissionsFromLaw role law of None \<Rightarrow> False | Some perms \<Rightarrow> ''review'' \<in> set perms)"

definition canAuthorize :: "string \<Rightarrow> appointment_law option \<Rightarrow> bool" where
  "canAuthorize role law =
    (case permissionsFromLaw role law of None \<Rightarrow> False | Some perms \<Rightarrow> ''authorize'' \<in> set perms)"

definition allowedGenresForRole :: "string \<Rightarrow> appointment_law option \<Rightarrow> string list" where
  "allowedGenresForRole role law =
    (case law of None \<Rightarrow> []
     | Some l \<Rightarrow> (case map_of l role of None \<Rightarrow> [] | Some r \<Rightarrow> ar_allowed_genres r))"

datatype provenance =
    Human_actor string            \<comment> \<open>\<open>yubikey_attestation\<close>\<close>
  | Agent_actor string string     \<comment> \<open>\<open>service_account\<close>, \<open>mtls_fingerprint\<close>\<close>

text \<open>An appointment grants nothing to a role it does not name.\<close>

lemma no_rule_no_permission:
  "map_of l role = None \<Longrightarrow> \<not> canDraft role (Some l) \<and> \<not> canReview role (Some l)
    \<and> \<not> canAuthorize role (Some l) \<and> allowedGenresForRole role (Some l) = []"
  by (simp add: canDraft_def canReview_def canAuthorize_def permissionsFromLaw_def
      allowedGenresForRole_def)

section \<open>Envelopes survive serialisation\<close>

definition envelope_ok :: "(string \<Rightarrow> bool) \<Rightarrow> envelope \<Rightarrow> bool" where
  "envelope_ok dt m \<longleftrightarrow> e_id m \<noteq> [] \<and> e_genre m \<noteq> [] \<and> e_actor_id m \<noteq> [] \<and> e_actor_role m \<noteq> []
     \<and> dt (e_submittedAt m)"

lemma z_field_Some: "z_field ob k p = Some x \<longleftrightarrow> (\<exists>j. obj_get ob k = Some j \<and> p j = Some x)"
  by (cases "obj_get ob k") (simp_all add: z_field_def)

lemma z_datetime_Some: "z_datetime dt j = Some s \<longleftrightarrow> z_string j = Some s \<and> dt s"
  by (cases "z_string j") (auto simp: z_datetime_def)

lemma ActorSchema_Some: "ActorSchema j = Some a \<Longrightarrow> fst a \<noteq> [] \<and> snd a \<noteq> []"
  by (auto simp: ActorSchema_def bind_eq_Some_conv z_field_Some z_string1_Some)

lemma MessageEnvelopeSchema_ok: "MessageEnvelopeSchema dt j = Some m \<Longrightarrow> envelope_ok dt m"
  unfolding MessageEnvelopeSchema_def bind_eq_Some_conv z_field_Some z_datetime_Some z_string1_Some
  by (elim exE conjE) (drule ActorSchema_Some, simp add: envelope_ok_def, elim conjE, hypsubst, simp)

lemma MessageEnvelopeSchema_envelope_json:
  "envelope_ok dt m \<Longrightarrow> MessageEnvelopeSchema dt (envelope_json m) = Some m"
  by (simp add: MessageEnvelopeSchema_def envelope_json_def ActorSchema_def envelope_ok_def z_field_def
      z_default_def z_datetime_def obj_get_def)

end
