(* ===== verification/Merkle.thy ===== *)
theory Merkle
  imports Core_Envelope
begin

text \<open>
  The three Merkle roots of the program and the inclusion proofs of the archive:
  \<open>packages/archive/src/merkle-dag.ts\<close>, \<open>packages/channel/src/merkle.ts\<close> and
  \<open>packages/seal/src/merkle.ts\<close>. The hash (SHA-256 in hex, from \<open>node:crypto\<close> or
  \<open>@noble/hashes\<close>) is the parameter \<open>H\<close>. The locale \<open>merkle_root\<close> is the contract the three
  implementations share; its lemmas say what a root commits to.
\<close>

section \<open>One layer and the loop over layers\<close>

fun layer_pairs :: "'a list \<Rightarrow> ('a \<times> 'a) list" where
  "layer_pairs [] = []"
| "layer_pairs [x] = [(x, x)]"
| "layer_pairs (x # y # zs) = (x, y) # layer_pairs zs"

definition next_layer :: "('a \<Rightarrow> 'a \<Rightarrow> 'a) \<Rightarrow> 'a list \<Rightarrow> 'a list" where
  "next_layer node layer = map (\<lambda>(left, right). node left right) (layer_pairs layer)"

lemma length_layer_pairs [simp]: "length (layer_pairs xs) = (length xs + 1) div 2"
  by (induction xs rule: layer_pairs.induct) auto

lemma length_next_layer [simp]: "length (next_layer node xs) = (length xs + 1) div 2"
  by (simp add: next_layer_def)

text \<open>\<open>while (layer.length > 1) layer = next; return layer[0]\<close>.\<close>

function reduce_layers :: "('a \<Rightarrow> 'a \<Rightarrow> 'a) \<Rightarrow> 'a list \<Rightarrow> 'a" where
  "reduce_layers node layer =
     (if 1 < length layer then reduce_layers node (next_layer node layer) else hd layer)"
  by pat_completeness auto
termination
  by (relation "measure (\<lambda>(node, layer). length layer)") auto

declare reduce_layers.simps [simp del]

text \<open>Every pair the loop hashes, over all layers.\<close>

function node_pairs :: "('a \<Rightarrow> 'a \<Rightarrow> 'a) \<Rightarrow> 'a list \<Rightarrow> ('a \<times> 'a) list" where
  "node_pairs node layer =
     (if 1 < length layer then layer_pairs layer @ node_pairs node (next_layer node layer) else [])"
  by pat_completeness auto
termination
  by (relation "measure (\<lambda>(node, layer). length layer)") auto

declare node_pairs.simps [simp del]

lemma reduce_layers_simps [simp]:
  "reduce_layers node [x] = x"
  "reduce_layers node (x # y # zs) = reduce_layers node (next_layer node (x # y # zs))"
  by (subst reduce_layers.simps, simp)+

lemma next_layer_simps [simp]:
  "next_layer node [] = []" "next_layer node [x] = [node x x]"
  "next_layer node (x # y # zs) = node x y # next_layer node zs"
  by (simp_all add: next_layer_def)

lemma layer_pairs_inj: "length xs = length ys \<Longrightarrow> layer_pairs xs = layer_pairs ys \<Longrightarrow> xs = ys"
proof (induction xs arbitrary: ys rule: layer_pairs.induct)
  case (2 x)
  then show ?case by (cases ys rule: layer_pairs.cases) auto
next
  case (3 x y zs)
  then show ?case by (cases ys rule: layer_pairs.cases) auto
qed simp

lemma layer_pairs_nth:
  "i < length xs \<Longrightarrow> layer_pairs xs ! (i div 2) =
    (if even i then (xs ! i, if Suc i < length xs then xs ! Suc i else xs ! i)
     else (xs ! (i - 1), xs ! i))"
proof (induction xs arbitrary: i rule: layer_pairs.induct)
  case (3 x y zs)
  consider "i = 0" | "i = 1" | j where "i = Suc (Suc j)" by (metis One_nat_def not0_implies_Suc)
  then show ?case
  proof cases
    case 3
    with "3.prems" have "j < length zs" by simp
    with "3.IH" [OF this] 3 show ?thesis by (auto simp: nth_Cons' odd_pos)
  qed auto
qed auto

lemma next_layer_nth:
  assumes "i < length xs"
  shows "next_layer node xs ! (i div 2) =
    (if even i then node (xs ! i) (if Suc i < length xs then xs ! Suc i else xs ! i)
     else node (xs ! (i - 1)) (xs ! i))"
proof -
  have "i div 2 < length (layer_pairs xs)" using assms by simp
  then show ?thesis by (simp add: next_layer_def layer_pairs_nth [OF assms])
qed

text \<open>An odd layer pairs its last element with itself.\<close>

lemma layer_pairs_odd_last:
  "odd (length xs) \<Longrightarrow> layer_pairs (xs @ [last xs]) = layer_pairs xs"
  by (induction xs rule: layer_pairs.induct) auto

section \<open>The contract of a Merkle root\<close>

locale merkle_root =
  fixes leaf :: "string \<Rightarrow> string" and node :: "string \<Rightarrow> string \<Rightarrow> string"
    and empty_root :: string and rt :: "string list \<Rightarrow> string"
  assumes root_Nil: "rt [] = empty_root"
    and root_reduce: "xs \<noteq> [] \<Longrightarrow> rt xs = reduce_layers node (map leaf xs)"
begin

lemma root_single: "rt [x] = leaf x"
  by (simp add: root_reduce)

lemma root_pair: "rt [x, y] = node (leaf x) (leaf y)"
  by (simp add: root_reduce)

text \<open>A root does not commit to the number of leaves: repeating the last of an odd number of
  leaves keeps the root.\<close>

lemma root_repeat_last:
  assumes "odd (length xs)" "1 < length xs"
  shows "rt (xs @ [last xs]) = rt xs"
proof -
  have ne: "xs \<noteq> []" using assms by auto
  have "next_layer node (map leaf (xs @ [last xs])) = next_layer node (map leaf xs)"
    using layer_pairs_odd_last [of "map leaf xs"] assms(1) ne
    by (simp add: next_layer_def last_map)
  moreover have R: "reduce_layers node (map leaf zs) = reduce_layers node (next_layer node (map leaf zs))"
    if "1 < length zs" for zs
    using that by (subst reduce_layers.simps) simp
  ultimately show ?thesis
    using R [of xs] R [of "xs @ [last xs]"] assms(2) ne by (simp add: root_reduce del: map_append)
qed

lemma reduce_inj:
  assumes "length xs = length ys" "reduce_layers node xs = reduce_layers node ys" "xs \<noteq> []"
    and "inj_on (\<lambda>(l, r). node l r) (set (node_pairs node xs) \<union> set (node_pairs node ys))"
  shows "xs = ys"
  using assms
proof (induction node xs arbitrary: ys rule: reduce_layers.induct)
  case (1 node xs)
  show ?case
  proof (cases "1 < length xs")
    case True
    have P: "node_pairs node zs = layer_pairs zs @ node_pairs node (next_layer node zs)"
      and R: "reduce_layers node zs = reduce_layers node (next_layer node zs)"
      if "length zs = length xs" for zs
      using that True by (subst node_pairs.simps reduce_layers.simps, simp)+
    have "length (next_layer node xs) \<noteq> 0" using True by simp
    then have "next_layer node xs \<noteq> []" by (metis list.size(3))
    with "1.IH" [of "next_layer node ys"] "1.prems" True
    have "next_layer node xs = next_layer node ys"
      by (simp add: P R) (meson inj_on_subset sup_ge2 le_sup_iff sup_ge1 order_trans Un_mono)
    moreover have "inj_on (\<lambda>(l, r). node l r) (set (layer_pairs xs) \<union> set (layer_pairs ys))"
      using "1.prems"(4) by (rule inj_on_subset) (use "1.prems"(1) in \<open>auto simp: P\<close>)
    ultimately have "layer_pairs xs = layer_pairs ys"
      unfolding next_layer_def by (metis map_inj_on)
    with "1.prems"(1) show ?thesis by (rule layer_pairs_inj)
  next
    case False
    with "1.prems" obtain x y where "xs = [x]" "ys = [y]"
      by (cases xs; cases ys) (auto simp: length_Suc_conv)
    with "1.prems" show ?thesis by simp
  qed
qed

text \<open>Among lists of one length a root commits to the leaves, unless the hash collides on the
  strings hashed for the two roots.\<close>

lemma root_binds:
  assumes "length xs = length ys" "rt xs = rt ys" "inj_on leaf (set xs \<union> set ys)"
    and "inj_on (\<lambda>(l, r). node l r)
      (set (node_pairs node (map leaf xs)) \<union> set (node_pairs node (map leaf ys)))"
  shows "xs = ys"
proof (cases "xs = []")
  case False
  with assms(1) have "ys \<noteq> []" by auto
  with False assms have "map leaf xs = map leaf ys"
    using reduce_inj [of "map leaf xs" "map leaf ys"] by (simp add: root_reduce)
  with assms(3) show ?thesis by (metis map_inj_on)
qed (use assms in simp)

end

section \<open>archive/merkle-dag.ts\<close>

definition merkleLeaf :: "(string \<Rightarrow> string) \<Rightarrow> string \<Rightarrow> string \<Rightarrow> string \<Rightarrow> string" where
  "merkleLeaf H transitionHash parentHash documentHash =
     H (transitionHash @ '':'' @ parentHash @ '':'' @ documentHash)"

definition pair_text :: "string \<Rightarrow> string \<Rightarrow> string" where
  "pair_text left right = left @ '':'' @ right"

definition merkleRootForLeaves :: "(string \<Rightarrow> string) \<Rightarrow> string list \<Rightarrow> string" where
  "merkleRootForLeaves H leaves =
     (if leaves = [] then H ''EMPTY''
      else reduce_layers (\<lambda>left right. H (pair_text left right)) (map H leaves))"

datatype side = Left_side | Right_side

record proof_step =
  ps_siblingHash :: string
  ps_side :: side

record merkle_proof =
  mp_leafHash :: string
  mp_rootHash :: string
  mp_path :: "proof_step list"

definition proof_fold :: "(string \<Rightarrow> string) \<Rightarrow> string \<Rightarrow> proof_step list \<Rightarrow> string" where
  "proof_fold H start path = foldl (\<lambda>hash step.
     case ps_side step of
       Left_side \<Rightarrow> H (pair_text (ps_siblingHash step) hash)
     | Right_side \<Rightarrow> H (pair_text hash (ps_siblingHash step))) start path"

definition verifyMerkleProof :: "(string \<Rightarrow> string) \<Rightarrow> merkle_proof \<Rightarrow> bool" where
  "verifyMerkleProof H pf \<longleftrightarrow> proof_fold H (H (mp_leafHash pf)) (mp_path pf) = mp_rootHash pf"

definition path_step :: "string list \<Rightarrow> nat \<Rightarrow> proof_step" where
  "path_step layer idx =
     (let isRight = odd idx;
          siblingIndex = (if isRight then idx - 1 else idx + 1);
          siblingHash = (if siblingIndex < length layer then layer ! siblingIndex else layer ! idx)
      in \<lparr>ps_siblingHash = siblingHash, ps_side = (if isRight then Left_side else Right_side)\<rparr>)"

function proof_loop :: "(string \<Rightarrow> string) \<Rightarrow> string list \<Rightarrow> nat \<Rightarrow> proof_step list \<Rightarrow> string \<times> proof_step list" where
  "proof_loop H layer idx path =
     (if 1 < length layer then
        proof_loop H (next_layer (\<lambda>left right. H (pair_text left right)) layer) (idx div 2)
          (path @ [path_step layer idx])
      else (hd layer, path))"
  by pat_completeness auto
termination
  by (relation "measure (\<lambda>(H, layer, idx, path). length layer)") auto

declare proof_loop.simps [simp del]

definition buildMerkleProofFromLeaves :: "(string \<Rightarrow> string) \<Rightarrow> string list \<Rightarrow> int \<Rightarrow> err + merkle_proof" where
  "buildMerkleProofFromLeaves H rawLeaves targetIndex =
     (if targetIndex < 0 \<or> int (length rawLeaves) \<le> targetIndex
      then Inl (Error_msg ''merkle-target-out-of-range'')
      else if rawLeaves = [] then Inl (Error_msg ''merkle-empty-leaves'')
      else (let (rt, path) = proof_loop H (map H rawLeaves) (nat targetIndex) []
            in Inr \<lparr>mp_leafHash = rawLeaves ! nat targetIndex, mp_rootHash = rt, mp_path = path\<rparr>))"

text \<open>The loop climbs to the root of the layer and its steps lead there.\<close>

lemma proof_loop_climbs:
  assumes "idx < length layer" "proof_fold H h0 path = layer ! idx"
    "proof_loop H layer idx path = (rt, path')"
  shows "rt = reduce_layers (\<lambda>left right. H (pair_text left right)) layer \<and> proof_fold H h0 path' = rt"
  using assms
proof (induction H layer idx path rule: proof_loop.induct)
  case (1 H layer idx path)
  show ?case
  proof (cases "1 < length layer")
    case True
    let ?nd = "\<lambda>left right. H (pair_text left right)"
    have idx: "idx < length layer" by (rule "1.prems"(1))
    have "proof_fold H h0 (path @ [path_step layer idx]) = next_layer ?nd layer ! (idx div 2)"
      using "1.prems"(2) idx
      by (auto simp: proof_fold_def next_layer_nth path_step_def Let_def)
    moreover have "proof_loop H (next_layer ?nd layer) (idx div 2) (path @ [path_step layer idx]) = (rt, path')"
      using "1.prems"(3) True by (subst (asm) proof_loop.simps) simp
    moreover have "idx div 2 < length (next_layer ?nd layer)" using idx by simp
    ultimately have "rt = reduce_layers ?nd (next_layer ?nd layer) \<and> proof_fold H h0 path' = rt"
      by (intro "1.IH" [OF True]) auto
    with True show ?thesis by (subst reduce_layers.simps) simp
  next
    case False
    with "1.prems" obtain x where "layer = [x]" by (cases layer) (auto simp: length_Suc_conv)
    with "1.prems" show ?thesis by (simp add: proof_loop.simps)
  qed
qed

lemma buildMerkleProof_sound:
  assumes "buildMerkleProofFromLeaves H leaves i = Inr pf"
  shows "0 \<le> i \<and> i < int (length leaves)" "verifyMerkleProof H pf"
    "mp_rootHash pf = merkleRootForLeaves H leaves" "mp_leafHash pf = leaves ! nat i"
proof -
  from assms have i: "0 \<le> i" "i < int (length leaves)" and ne: "leaves \<noteq> []"
    by (auto simp: buildMerkleProofFromLeaves_def split: if_splits)
  obtain rt path where loop: "proof_loop H (map H leaves) (nat i) [] = (rt, path)"
    by (cases "proof_loop H (map H leaves) (nat i) []")
  from i have n: "nat i < length (map H leaves)" by simp
  have start: "proof_fold H (H (leaves ! nat i)) [] = map H leaves ! nat i"
    using n by (simp add: proof_fold_def)
  note C = proof_loop_climbs [OF n start loop]
  have pf: "pf = \<lparr>mp_leafHash = leaves ! nat i, mp_rootHash = rt, mp_path = path\<rparr>"
    using assms i ne loop by (auto simp: buildMerkleProofFromLeaves_def)
  show "0 \<le> i \<and> i < int (length leaves)" using i by simp
  show "verifyMerkleProof H pf" using C by (simp add: pf verifyMerkleProof_def)
  show "mp_rootHash pf = merkleRootForLeaves H leaves" using C ne by (simp add: pf merkleRootForLeaves_def)
  show "mp_leafHash pf = leaves ! nat i" by (simp add: pf)
qed

text \<open>The path has one step per layer, the binary logarithm of the number of leaves.\<close>

lemma proof_loop_length:
  assumes "layer \<noteq> []" "proof_loop H layer idx path = (rt, path')"
  shows "length layer \<le> 2 ^ (length path' - length path) \<and> length path \<le> length path'
    \<and> 2 ^ (length path' - length path) < 2 * length layer"
  using assms
proof (induction H layer idx path rule: proof_loop.induct)
  case (1 H layer idx path)
  show ?case
  proof (cases "1 < length layer")
    case True
    let ?nl = "next_layer (\<lambda>left right. H (pair_text left right)) layer"
    from "1.prems"(2) True
    have L: "proof_loop H ?nl (idx div 2) (path @ [path_step layer idx]) = (rt, path')"
      by (subst (asm) proof_loop.simps) simp
    have "length ?nl \<noteq> 0" using True by simp
    then have ne: "?nl \<noteq> []" by (metis list.size(3))
    have IH: "length ?nl \<le> 2 ^ (length path' - Suc (length path)) \<and> Suc (length path) \<le> length path'
        \<and> 2 ^ (length path' - Suc (length path)) < 2 * length ?nl"
      using "1.IH" [OF True ne L] by simp
    then obtain k where k: "length path' - length path = Suc k"
        "length path' - Suc (length path) = k" by (metis Suc_diff_le diff_Suc_Suc)
    have "length layer \<le> 2 ^ Suc k \<and> 2 ^ Suc k < 2 * length layer"
    proof -
      have a: "(length layer + 1) div 2 \<le> 2 ^ k" and b: "2 ^ k < 2 * ((length layer + 1) div 2)"
        using IH k by simp_all
      have e: "even ((2::nat) ^ k) \<or> k = 0" by (cases k) auto
      have "2 ^ k < length layer"
      proof (cases "k = 0")
        case False
        with e have "even ((2::nat) ^ k)" by simp
        with b show ?thesis by presburger
      qed (use True in simp)
      moreover from a have "length layer \<le> 2 * 2 ^ k" by linarith
      ultimately show ?thesis by simp
    qed
    with IH show ?thesis using k by simp
  next
    case False
    with "1.prems" obtain x where "layer = [x]" by (cases layer) (auto simp: length_Suc_conv)
    with "1.prems" show ?thesis by (simp add: proof_loop.simps)
  qed
qed

section \<open>channel/merkle.ts\<close>

definition channel_merkleRoot :: "(string \<Rightarrow> string) \<Rightarrow> string list \<Rightarrow> string" where
  "channel_merkleRoot H items =
     (if items = [] then H ''EMPTY''
      else reduce_layers (\<lambda>left right. H (left @ '':'' @ right)) (map H items))"

section \<open>seal/merkle.ts\<close>

definition toLeaf :: "(string \<Rightarrow> string) \<Rightarrow> string \<Rightarrow> string" where
  "toLeaf H value = H (''leaf:'' @ value)"

definition seal_merkleRoot :: "(string \<Rightarrow> string) \<Rightarrow> string list \<Rightarrow> string" where
  "seal_merkleRoot H values =
     (if values = [] then H ''merkle:empty''
      else reduce_layers (\<lambda>left right. H (''node:'' @ left @ '':'' @ right)) (map (toLeaf H) values))"

section \<open>The three roots meet the contract\<close>

interpretation archive_merkle: merkle_root H "\<lambda>left right. H (pair_text left right)" "H ''EMPTY''" "merkleRootForLeaves H" for H
  by unfold_locales (simp_all add: merkleRootForLeaves_def)

interpretation channel_merkle: merkle_root H "\<lambda>left right. H (left @ '':'' @ right)" "H ''EMPTY''" "channel_merkleRoot H" for H
  by unfold_locales (simp_all add: channel_merkleRoot_def)

interpretation seal_merkle: merkle_root "toLeaf H" "\<lambda>left right. H (''node:'' @ left @ '':'' @ right)" "H ''merkle:empty''" "seal_merkleRoot H" for H
  by unfold_locales (simp_all add: seal_merkleRoot_def)

text \<open>The archive's and the channel's roots are one function.\<close>

lemma channel_merkleRoot_eq: "channel_merkleRoot H = merkleRootForLeaves H"
  by (simp add: fun_eq_iff channel_merkleRoot_def merkleRootForLeaves_def pair_text_def)

text \<open>The strings hashed for a root of the archive.\<close>

definition merkle_inputs :: "(string \<Rightarrow> string) \<Rightarrow> string list \<Rightarrow> string list" where
  "merkle_inputs H leaves = leaves @
     map (\<lambda>(l, r). pair_text l r) (node_pairs (\<lambda>left right. H (pair_text left right)) (map H leaves))"

lemma pair_text_inject:
  assumes "CHR '':'' \<notin> set l" "CHR '':'' \<notin> set l'" "pair_text l r = pair_text l' r'"
  shows "l = l' \<and> r = r'"
  using assms unfolding pair_text_def
proof (induction l arbitrary: l')
  case Nil
  then show ?case by (cases l') auto
next
  case (Cons c l)
  then show ?case by (cases l') auto
qed

lemma node_pairs_image:
  assumes "\<And>x. x \<in> set layer \<Longrightarrow> P x" "\<And>l r. P (node l r)" "(l, r) \<in> set (node_pairs node layer)"
  shows "P l \<and> P r"
  using assms
proof (induction node layer rule: node_pairs.induct)
  case (1 node layer)
  have LP: "(a, b) \<in> set (layer_pairs xs) \<Longrightarrow> a \<in> set xs \<and> b \<in> set xs" for a b and xs :: "'a list"
    by (induction xs rule: layer_pairs.induct) auto
  from "1.prems"(3) have len: "1 < length layer" by (subst (asm) node_pairs.simps) (simp split: if_splits)
  with "1.prems"(3) consider "(l, r) \<in> set (layer_pairs layer)"
    | "(l, r) \<in> set (node_pairs node (next_layer node layer))"
    by (subst (asm) node_pairs.simps) auto
  then show ?case
  proof cases
    case 1
    then show ?thesis using LP "1.prems"(1) by blast
  next
    case 2
    then show ?thesis
      by (intro "1.IH" [OF len _ "1.prems"(2)]) (auto simp: next_layer_def "1.prems"(2))
  qed
qed

lemma node_inj_from_hash:
  assumes inj: "inj_on H (set (merkle_inputs H xs) \<union> set (merkle_inputs H ys))"
    and hex: "\<And>s. CHR '':'' \<notin> set (H s)"
  shows "inj_on (\<lambda>(l, r). H (pair_text l r))
    (set (node_pairs (\<lambda>left right. H (pair_text left right)) (map H xs)) \<union>
     set (node_pairs (\<lambda>left right. H (pair_text left right)) (map H ys)))"
    (is "inj_on ?f (set (?N xs) \<union> set (?N ys))")
proof (rule inj_onI)
  fix p q assume p: "p \<in> set (?N xs) \<union> set (?N ys)" and q: "q \<in> set (?N xs) \<union> set (?N ys)"
    and e: "?f p = ?f q"
  obtain l r l' r' where pq: "p = (l, r)" "q = (l', r')" by (cases p; cases q)
  have free: "CHR '':'' \<notin> set a \<and> CHR '':'' \<notin> set b" if "(a, b) \<in> set (?N zs)" for a b zs
    using node_pairs_image [where P = "\<lambda>s. CHR '':'' \<notin> set s", OF _ _ that] hex by auto
  have mem: "pair_text a b \<in> set (merkle_inputs H xs) \<union> set (merkle_inputs H ys)"
    if "(a, b) \<in> set (?N xs) \<union> set (?N ys)" for a b
    using that by (force simp: merkle_inputs_def)
  from e have "pair_text l r = pair_text l' r'"
    using inj_onD [OF inj, of "pair_text l r" "pair_text l' r'"] mem p q by (simp add: pq)
  with pair_text_inject free p q show "p = q" unfolding pq by (metis Un_iff)
qed

lemma merkleRootForLeaves_binds:
  assumes "length xs = length ys" "merkleRootForLeaves H xs = merkleRootForLeaves H ys"
    and inj: "inj_on H (set (merkle_inputs H xs) \<union> set (merkle_inputs H ys))"
    and hex: "\<And>s. CHR '':'' \<notin> set (H s)"
  shows "xs = ys"
  using assms(1,2)
proof (rule archive_merkle.root_binds)
  show "inj_on H (set xs \<union> set ys)"
    using inj by (rule inj_on_subset) (auto simp: merkle_inputs_def)
  show "inj_on (\<lambda>(l, r). H (pair_text l r))
     (set (node_pairs (\<lambda>left right. H (pair_text left right)) (map H xs)) \<union>
      set (node_pairs (\<lambda>left right. H (pair_text left right)) (map H ys)))"
    using inj hex by (rule node_inj_from_hash)
qed

end
