(* ===== verification/Seal_Crypto.thy ===== *)
theory Seal_Crypto
  imports Merkle "HOL-Library.Word"
begin

unbundle bit_operations_syntax

text \<open>
  \<open>packages/seal/src/crypto.ts\<close>: base64url, JSON web tokens with HMAC-SHA-256, and the Ed25519
  wrappers. SHA-256, HMAC and Ed25519 are the library \<open>@noble\<close>: fields of the record \<open>crypto\<close>.
  UTF-8, \<open>btoa\<close> and \<open>atob\<close> are the runtime's and are defined here; bytes are \<open>8 word\<close>.
\<close>

type_synonym bytes = "8 word list"

record crypto =
  sha256 :: "string \<Rightarrow> string"                    \<comment> \<open>hex digest of the UTF-8 of a string\<close>
  hmac_sha256 :: "bytes \<Rightarrow> bytes \<Rightarrow> bytes"         \<comment> \<open>key, message\<close>
  ed_sign :: "string \<Rightarrow> string \<Rightarrow> string"         \<comment> \<open>message, private key; all in hex\<close>
  ed_public :: "string \<Rightarrow> string"
  ed_verify :: "string \<Rightarrow> string \<Rightarrow> string \<Rightarrow> bool"  \<comment> \<open>signature, message, public key\<close>

section \<open>UTF-8 and base64\<close>

fun utf8_char :: "char \<Rightarrow> nat list" where
  "utf8_char c = (let n = (of_char c :: nat) in
     if n < 128 then [n] else [192 + n div 64, 128 + n mod 64])"

definition utf8 :: "string \<Rightarrow> nat list" where
  "utf8 s = concat (map utf8_char s)"

definition utf8ToBytes :: "string \<Rightarrow> bytes" where
  "utf8ToBytes s = map of_nat (utf8 s)"

text \<open>\<open>TextDecoder\<close>; a text with a code unit above U+00FF is outside the string type.\<close>

fun utf8_decode :: "nat list \<Rightarrow> string option" where
  "utf8_decode [] = Some []"
| "utf8_decode (b # bs) =
     (if b < 128 then map_option (Cons (char_of b)) (utf8_decode bs)
      else if b = 194 \<or> b = 195 then
        (case bs of [] \<Rightarrow> None
         | d # ds \<Rightarrow> (if 128 \<le> d \<and> d < 192
             then map_option (Cons (char_of ((b - 192) * 64 + (d - 128)))) (utf8_decode ds) else None))
      else None)"

definition b64_char :: "nat \<Rightarrow> char" where
  "b64_char i = (if i < 26 then char_of (65 + i) else if i < 52 then char_of (71 + i)
     else if i < 62 then char_of (i - 4) else if i = 62 then CHR ''+'' else CHR ''/'')"

definition b64_val :: "char \<Rightarrow> nat option" where
  "b64_val c = (let n = (of_char c :: nat) in
     if 65 \<le> n \<and> n \<le> 90 then Some (n - 65) else if 97 \<le> n \<and> n \<le> 122 then Some (n - 71)
     else if 48 \<le> n \<and> n \<le> 57 then Some (n + 4) else if n = 43 then Some 62
     else if n = 47 then Some 63 else None)"

fun sextets :: "nat list \<Rightarrow> nat list" where
  "sextets [] = []"
| "sextets [a] = [a div 4, (a mod 4) * 16]"
| "sextets [a, b] = [a div 4, (a mod 4) * 16 + b div 16, (b mod 16) * 4]"
| "sextets (a # b # c # r) =
     a div 4 # ((a mod 4) * 16 + b div 16) # ((b mod 16) * 4 + c div 64) # (c mod 64) # sextets r"

fun octets :: "nat list \<Rightarrow> nat list" where
  "octets (a # b # c # d # r) =
     (a * 4 + b div 16) # ((b mod 16) * 16 + c div 4) # ((c mod 4) * 64 + d) # octets r"
| "octets [a, b, c] = [a * 4 + b div 16, (b mod 16) * 16 + c div 4]"
| "octets [a, b] = [a * 4 + b div 16]"
| "octets _ = []"

definition pad_len :: "nat \<Rightarrow> nat" where
  "pad_len n = (4 - n mod 4) mod 4"

definition btoa :: "nat list \<Rightarrow> string" where
  "btoa bs = (let t = map b64_char (sextets bs) in t @ replicate (pad_len (length t)) (CHR ''=''))"

definition strip_pad :: "string \<Rightarrow> string" where
  "strip_pad s = rev (dropWhile (\<lambda>c. c = CHR ''='') (rev s))"

definition drop_pad2 :: "string \<Rightarrow> string" where
  "drop_pad2 s = (let s1 = (if s \<noteq> [] \<and> last s = CHR ''='' then butlast s else s)
     in if s1 \<noteq> s \<and> s1 \<noteq> [] \<and> last s1 = CHR ''='' then butlast s1 else s1)"

text \<open>\<open>atob\<close>: white space is ignored, up to two pad characters are dropped, anything else outside
  the alphabet throws.\<close>

definition atob :: "string \<Rightarrow> nat list option" where
  "atob s =
     (let s0 = filter (\<lambda>c. (of_char c :: nat) \<notin> {9, 10, 12, 13, 32}) s;
          s1 = (if length s0 mod 4 = 0 then drop_pad2 s0 else s0)
      in if length s1 mod 4 = 1 then None
         else map_option octets (all_some (map b64_val s1)))"

section \<open>crypto.ts\<close>

definition digestHex :: "crypto \<Rightarrow> string \<Rightarrow> string" where
  "digestHex C input = sha256 C input"

definition bytesToBase64 :: "bytes \<Rightarrow> string" where
  "bytesToBase64 bs = btoa (map unat bs)"

definition base64ToBytes :: "string \<Rightarrow> bytes option" where
  "base64ToBytes s = map_option (map of_nat) (atob s)"

definition url_char :: "char \<Rightarrow> char" where
  "url_char c = (if c = CHR ''+'' then CHR ''-'' else if c = CHR ''/'' then CHR ''_'' else c)"

definition std_char :: "char \<Rightarrow> char" where
  "std_char c = (if c = CHR ''-'' then CHR ''+'' else if c = CHR ''_'' then CHR ''/'' else c)"

definition base64UrlEncodeBytes :: "bytes \<Rightarrow> string" where
  "base64UrlEncodeBytes bs = strip_pad (map url_char (bytesToBase64 bs))"

definition base64UrlEncode :: "string \<Rightarrow> string" where
  "base64UrlEncode s = strip_pad (map url_char (bytesToBase64 (utf8ToBytes s)))"

definition url_padded :: "string \<Rightarrow> string" where
  "url_padded s = map std_char s @ replicate (pad_len (length s)) (CHR ''='')"

definition base64UrlDecode :: "string \<Rightarrow> string option" where
  "base64UrlDecode s = Option.bind (base64ToBytes (url_padded s)) (\<lambda>bs. utf8_decode (map unat bs))"

definition constantTimeEqual :: "bytes \<Rightarrow> bytes \<Rightarrow> bool" where
  "constantTimeEqual a b \<longleftrightarrow>
     (if length a \<noteq> length b then False
      else fold (\<lambda>(x, y) out. out OR (x XOR y)) (zip a b) 0 = 0)"

fun split_on :: "char \<Rightarrow> string \<Rightarrow> string list" where
  "split_on d [] = [[]]"
| "split_on d (c # cs) =
     (if c = d then [] # split_on d cs
      else (case split_on d cs of [] \<Rightarrow> [[c]] | p # ps \<Rightarrow> (c # p) # ps))"

record jwt_options =
  jo_alg :: "string option"
  jo_aud :: "string option"
  jo_iss :: "string option"
  jo_sub :: "string option"
  jo_nowSeconds :: "int option"
  jo_requireIat :: bool

definition encodeJwtHs256 :: "crypto \<Rightarrow> obj \<Rightarrow> string \<Rightarrow> obj \<Rightarrow> string" where
  "encodeJwtHs256 C payload secret header =
     (let head = base64UrlEncode (stringify (JObj (obj_spread
            [(''alg'', JStr ''HS256''), (''typ'', JStr ''JWT'')] header)));
          body = base64UrlEncode (stringify (JObj payload));
          sig = hmac_sha256 C (utf8ToBytes secret) (utf8ToBytes (head @ ''.'' @ body))
      in head @ ''.'' @ body @ ''.'' @ base64UrlEncodeBytes sig)"

text \<open>
  \<open>Jwt_throw\<close> is an exception that leaves \<open>verifyJwtHs256\<close>: the property access on a parsed
  \<open>null\<close>, or \<open>atob\<close> on a signature part outside the alphabet, neither of which is in its \<open>try\<close>.
\<close>

datatype jwt_result = Jwt_ok obj | Jwt_fail string | Jwt_throw

definition props_of :: "json \<Rightarrow> obj option" where
  "props_of j = (case j of JNull \<Rightarrow> None | JObj ps \<Rightarrow> Some ps | _ \<Rightarrow> Some [])"

definition num_above :: "json option \<Rightarrow> int \<Rightarrow> bool" where
  "num_above j n = (case j of Some (JNum m e) \<Rightarrow> n * 10 ^ e < m | _ \<Rightarrow> False)"

definition num_below :: "json option \<Rightarrow> int \<Rightarrow> bool" where
  "num_below j n = (case j of Some (JNum m e) \<Rightarrow> m < n * 10 ^ e | _ \<Rightarrow> False)"

definition is_num :: "json option \<Rightarrow> bool" where
  "is_num j = (case j of Some (JNum m e) \<Rightarrow> True | _ \<Rightarrow> False)"

definition mismatch :: "string option \<Rightarrow> json option \<Rightarrow> bool" where
  "mismatch opt claim = (case opt of None \<Rightarrow> False | Some s \<Rightarrow> s \<noteq> [] \<and> claim \<noteq> Some (JStr s))"

definition check_claims :: "obj \<Rightarrow> jwt_options \<Rightarrow> int \<Rightarrow> jwt_result" where
  "check_claims claims opts now =
     (let iat = obj_get claims ''iat''; exp = obj_get claims ''exp'' in
      if jo_requireIat opts \<and> \<not> is_num iat then Jwt_fail ''iat-required''
      else if num_above iat (now + 30) then Jwt_fail ''iat-future''
      else if num_below exp now then Jwt_fail ''expired''
      else if mismatch (jo_aud opts) (obj_get claims ''aud'') then Jwt_fail ''aud-mismatch''
      else if mismatch (jo_iss opts) (obj_get claims ''iss'') then Jwt_fail ''iss-mismatch''
      else if mismatch (jo_sub opts) (obj_get claims ''sub'') then Jwt_fail ''sub-mismatch''
      else Jwt_ok claims)"

definition verifyJwtHs256 :: "crypto \<Rightarrow> int \<Rightarrow> string \<Rightarrow> string \<Rightarrow> jwt_options \<Rightarrow> jwt_result" where
  "verifyJwtHs256 C now_ms token secret opts =
     (case split_on (CHR ''.'') token of
        [headEnc, bodyEnc, sigEnc] \<Rightarrow>
          (case (Option.bind (base64UrlDecode headEnc) json_parse,
                 Option.bind (base64UrlDecode bodyEnc) json_parse) of
             (Some header, Some claims) \<Rightarrow>
               (case props_of header of None \<Rightarrow> Jwt_throw
                | Some hs \<Rightarrow>
                  (if obj_get hs ''alg'' \<noteq> Some (JStr (case jo_alg opts of None \<Rightarrow> ''HS256'' | Some a \<Rightarrow> a))
                   then Jwt_fail ''alg-mismatch''
                   else
                    (let expected = hmac_sha256 C (utf8ToBytes secret) (utf8ToBytes (headEnc @ ''.'' @ bodyEnc))
                     in case base64ToBytes (url_padded sigEnc) of None \<Rightarrow> Jwt_throw
                        | Some actual \<Rightarrow>
                          (if \<not> constantTimeEqual expected actual then Jwt_fail ''signature-invalid''
                           else (case props_of claims of None \<Rightarrow> Jwt_throw
                             | Some cs \<Rightarrow> check_claims cs opts
                                 (case jo_nowSeconds opts of Some n \<Rightarrow> n | None \<Rightarrow> now_ms div 1000))))))
           | _ \<Rightarrow> Jwt_fail ''invalid-json'')
      | _ \<Rightarrow> Jwt_fail ''malformed'')"

definition encodeCapabilityToken :: "crypto \<Rightarrow> obj \<Rightarrow> string \<Rightarrow> string" where
  "encodeCapabilityToken C payload secret = encodeJwtHs256 C payload secret []"

text \<open>\<open>None\<close> where \<open>verifyJwtHs256\<close> throws.\<close>

definition verifyCapabilityToken :: "crypto \<Rightarrow> int \<Rightarrow> string \<Rightarrow> string \<Rightarrow> jwt_options \<Rightarrow> bool option" where
  "verifyCapabilityToken C now_ms token secret opts =
     (case verifyJwtHs256 C now_ms token secret (opts\<lparr>jo_alg := Some ''HS256'', jo_requireIat := True\<rparr>) of
        Jwt_ok _ \<Rightarrow> Some True | Jwt_fail _ \<Rightarrow> Some False | Jwt_throw \<Rightarrow> None)"

text \<open>\<open>hexToBytes\<close> throws on an odd length or a character that is no hex digit.\<close>

definition is_hex :: "string \<Rightarrow> bool" where
  "is_hex s \<longleftrightarrow> even (length s) \<and> (\<forall>c\<in>set s. hex_val c \<noteq> None)"

definition signEd25519Hash :: "crypto \<Rightarrow> string \<Rightarrow> string \<Rightarrow> string option" where
  "signEd25519Hash C hashHex privateKeyHex =
     (if is_hex privateKeyHex \<and> is_hex hashHex then Some (ed_sign C hashHex privateKeyHex) else None)"

definition verifyEd25519Hash :: "crypto \<Rightarrow> string \<Rightarrow> string \<Rightarrow> string \<Rightarrow> string option \<Rightarrow> bool option" where
  "verifyEd25519Hash C signatureHex hashHex privateKeyHex publicKeyHex =
     (case (case publicKeyHex of Some p \<Rightarrow> Some p
            | None \<Rightarrow> if is_hex privateKeyHex then Some (ed_public C privateKeyHex) else None) of
        None \<Rightarrow> None
      | Some pub \<Rightarrow>
        (if is_hex signatureHex \<and> is_hex hashHex \<and> is_hex pub
         then Some (ed_verify C signatureHex hashHex pub) else None))"

section \<open>Decoding what was encoded\<close>

lemma b64_val_char [simp]: "i < 64 \<Longrightarrow> b64_val (b64_char i) = Some i"
  by (auto simp: b64_val_def b64_char_def Let_def)

lemma of_char_b64:
  "i < 64 \<Longrightarrow> (of_char (b64_char i) :: nat) =
    (if i < 26 then 65 + i else if i < 52 then 71 + i else if i < 62 then i - 4 else if i = 62 then 43 else 47)"
  by (auto simp: b64_char_def)

lemma char_eq_iff_nat: "c = d \<longleftrightarrow> (of_char c :: nat) = of_char d"
  by simp

lemma b64_char_plain:
  assumes "i < 64"
  shows "b64_char i \<noteq> CHR ''=''" "b64_char i \<noteq> CHR ''-''" "b64_char i \<noteq> CHR ''_''" "b64_char i \<noteq> CHR ''.''"
    "(of_char (b64_char i) :: nat) \<notin> {9, 10, 12, 13, 32}"
  using assms by (auto simp: char_eq_iff_nat of_char_b64 simp del: of_char_eq_iff)

lemma sextets_lt: "\<forall>b\<in>set bs. b < 256 \<Longrightarrow> \<forall>i\<in>set (sextets bs). i < 64"
proof (induction bs rule: sextets.induct)
  case (4 a b c r)
  then have "b div 16 < 16" "c div 64 < 4" "a div 4 < 64" by auto
  then show ?case using 4 by (auto intro: order.strict_trans2)
qed auto

lemma split_digits:
  "b < 256 \<Longrightarrow> ((a mod 4) * 16 + b div 16) div 16 = a mod (4::nat)"
  "b < 256 \<Longrightarrow> ((a mod 4) * 16 + b div 16) mod 16 = b div (16::nat)"
  "c < 256 \<Longrightarrow> ((b mod 16) * 4 + c div 64) div 4 = b mod (16::nat)"
  "c < 256 \<Longrightarrow> ((b mod 16) * 4 + c div 64) mod 4 = c div (64::nat)"
proof -
  assume "b < 256"
  then have "b div 16 < 16" by linarith
  then show "((a mod 4) * 16 + b div 16) div 16 = a mod (4::nat)"
    "((a mod 4) * 16 + b div 16) mod 16 = b div (16::nat)" by simp_all
next
  assume "c < 256"
  then have "c div 64 < 4" by linarith
  then show "((b mod 16) * 4 + c div 64) div 4 = b mod (16::nat)"
    "((b mod 16) * 4 + c div 64) mod 4 = c div (64::nat)" by simp_all
qed

lemma octets_sextets: "\<forall>b\<in>set bs. b < 256 \<Longrightarrow> octets (sextets bs) = bs"
proof (induction bs rule: sextets.induct)
  case (3 a b)
  then have b: "b < 256" by simp
  have "octets (sextets [a, b]) = [a div 4 * 4 + a mod 4, b div 16 * 16 + b mod 16]"
    unfolding sextets.simps octets.simps split_digits [OF b] by simp
  then show ?case by (simp only: div_mult_mod_eq)
next
  case (4 a b c r)
  then have b: "b < 256" and c: "c < 256" and r: "octets (sextets r) = r" by simp_all
  have "octets (sextets (a # b # c # r)) =
    (a div 4 * 4 + a mod 4) # (b div 16 * 16 + b mod 16) # (c div 64 * 64 + c mod 64) # r"
    unfolding sextets.simps octets.simps split_digits [OF b] split_digits [OF c] r by (rule refl)
  then show ?case by (simp only: div_mult_mod_eq)
qed auto

lemma length_sextets: "length (sextets bs) mod 4 \<noteq> 1"
  by (induction bs rule: sextets.induct) auto

lemma url_std: "i < 64 \<Longrightarrow> std_char (url_char (b64_char i)) = b64_char i"
  using b64_char_plain [of i] by (auto simp: std_char_def url_char_def)

lemma dropWhile_pad: "dropWhile (\<lambda>c. c = p) (replicate n p @ xs) = dropWhile (\<lambda>c. c = p) xs"
  by (induction n) simp_all

lemma strip_pad_append:
  assumes "\<forall>c\<in>set t. c \<noteq> CHR ''=''"
  shows "strip_pad (t @ replicate n (CHR ''='')) = t"
proof -
  have "dropWhile (\<lambda>c. c = CHR ''='') (rev t) = rev t"
    using assms by (cases t rule: rev_cases) simp_all
  then show ?thesis by (simp add: strip_pad_def dropWhile_pad del: dropWhile_eq_self_iff)
qed

lemma url_char_plain: "i < 64 \<Longrightarrow> url_char (b64_char i) \<noteq> CHR ''=''"
  using b64_char_plain(1) [of i] by (simp add: url_char_def)

lemma url_text:
  assumes "\<forall>b\<in>set bs. b < 256"
  shows "strip_pad (map url_char (btoa bs)) = map (\<lambda>i. url_char (b64_char i)) (sextets bs)"
proof -
  have "\<forall>c\<in>set (map (\<lambda>i. url_char (b64_char i)) (sextets bs)). c \<noteq> CHR ''=''"
    using sextets_lt [OF assms] url_char_plain by simp
  from strip_pad_append [OF this, of "pad_len (length (sextets bs))"]
  show ?thesis by (simp add: btoa_def Let_def url_char_def comp_def)
qed

lemma drop_pad2_append:
  assumes "\<forall>c\<in>set t. c \<noteq> CHR ''=''" "n \<le> 2"
  shows "drop_pad2 (t @ replicate n (CHR ''='')) = t"
proof -
  have t: "t = [] \<or> last t \<noteq> CHR ''=''" using assms(1) last_in_set by blast
  then have "drop_pad2 t = t" unfolding drop_pad2_def Let_def by auto
  moreover have "drop_pad2 (t @ [CHR ''='']) = t"
    unfolding drop_pad2_def Let_def butlast_snoc last_snoc using t by auto
  moreover have "drop_pad2 ((t @ [CHR ''='']) @ [CHR ''='']) = t"
    unfolding drop_pad2_def Let_def butlast_snoc last_snoc by simp
  moreover have "n = 0 \<or> n = Suc 0 \<or> n = Suc (Suc 0)" using assms(2) by linarith
  ultimately show ?thesis by auto
qed

lemma atob_padded:
  assumes "\<forall>i\<in>set is. i < 64" "length is mod 4 \<noteq> 1"
  shows "atob (map b64_char is @ replicate (pad_len (length is)) (CHR ''='')) = Some (octets is)"
proof -
  let ?t = "map b64_char is" and ?n = "pad_len (length is)"
  have plain: "\<forall>c\<in>set ?t. c \<noteq> CHR ''='' \<and> (of_char c :: nat) \<notin> {9, 10, 12, 13, 32}"
    using assms(1) b64_char_plain by auto
  then have f: "filter (\<lambda>c. (of_char c :: nat) \<notin> {9, 10, 12, 13, 32}) (?t @ replicate ?n (CHR ''=''))
    = ?t @ replicate ?n (CHR ''='')"
    by (subst filter_True) auto
  have "length is mod 4 = 0 \<or> length is mod 4 = 2 \<or> length is mod 4 = 3"
    using assms(2) by linarith
  then have n: "?n \<le> 2" "(length is + ?n) mod 4 = 0"
    by (auto simp: pad_len_def mod_add_left_eq [symmetric, of "length is"])
  have "all_some (map b64_val ?t) = Some is"
    using all_some_map [of "is" "\<lambda>i. b64_val (b64_char i)" "\<lambda>i. i"] assms(1) by (simp add: comp_def)
  with assms(2) n plain show ?thesis
    unfolding atob_def Let_def f by (simp add: drop_pad2_append)
qed

lemma base64_url_bytes:
  assumes "\<forall>b\<in>set bs. b < 256"
  shows "atob (url_padded (strip_pad (map url_char (btoa bs)))) = Some bs"
proof -
  have six: "\<forall>i\<in>set (sextets bs). i < 64" by (rule sextets_lt [OF assms])
  then have "map std_char (map (\<lambda>i. url_char (b64_char i)) (sextets bs)) = map b64_char (sextets bs)"
    using url_std by simp
  then have "url_padded (strip_pad (map url_char (btoa bs))) =
      map b64_char (sextets bs) @ replicate (pad_len (length (sextets bs))) (CHR ''='')"
    by (simp add: url_text [OF assms] url_padded_def)
  with atob_padded [OF six length_sextets] octets_sextets [OF assms] show ?thesis by simp
qed

lemma unat_lt_256: "unat (b :: 8 word) < 256"
  using unsigned_less [of b] by simp

lemma base64UrlBytes_decode: "base64ToBytes (url_padded (base64UrlEncodeBytes bs)) = Some bs"
  using base64_url_bytes [of "map unat bs"] unat_lt_256
  by (simp add: base64ToBytes_def base64UrlEncodeBytes_def bytesToBase64_def comp_def)

lemma utf8_lt: "\<forall>b\<in>set (utf8 s). b < 256"
proof -
  have "b < 256" if "b \<in> set (utf8_char c)" for b c
  proof -
    have "(of_char c :: nat) < 256" by simp
    then have "(of_char c :: nat) div 64 < 4" by linarith
    with that show ?thesis by (auto simp: Let_def split: if_splits)
  qed
  then show ?thesis by (auto simp: utf8_def)
qed

lemma utf8_decode_char: "utf8_decode (utf8_char c @ bs) = map_option (Cons c) (utf8_decode bs)"
proof -
  define n where "n = (of_char c :: nat)"
  have c: "c = char_of n" and n: "n < 256" by (simp_all add: n_def)
  show ?thesis
  proof (cases "n < 128")
    case True
    then show ?thesis by (simp add: n_def [symmetric] c)
  next
    case False
    then have "n div 64 = 2 \<or> n div 64 = 3" using n by linarith
    moreover have "n div 64 * 64 + n mod 64 = n" by simp
    ultimately show ?thesis using False by (auto simp: n_def [symmetric] c Let_def)
  qed
qed

lemma utf8_decode_utf8: "utf8_decode (utf8 s) = Some s"
  by (induction s) (simp_all add: utf8_def utf8_decode_char del: utf8_char.simps)

lemma unat_utf8ToBytes: "map unat (utf8ToBytes s) = utf8 s"
  using utf8_lt [of s] by (simp add: utf8ToBytes_def unat_of_nat map_idI)

lemma base64UrlDecode_encode: "base64UrlDecode (base64UrlEncode s) = Some s"
  using base64_url_bytes [OF utf8_lt, of s]
  by (simp add: base64UrlDecode_def base64UrlEncode_def bytesToBase64_def base64ToBytes_def
      unat_utf8ToBytes utf8_decode_utf8 comp_def)
    (use utf8_lt [of s] in \<open>simp add: unat_of_nat map_idI utf8_decode_utf8\<close>)

lemma constantTimeEqual_iff [simp]: "constantTimeEqual a b \<longleftrightarrow> a = b"
proof (cases "length a = length b")
  case True
  have "fold (\<lambda>(x, y) out. out OR (x XOR y)) (zip a b) z = 0 \<longleftrightarrow> z = 0 \<and> a = b" for z
    using True
  proof (induction a b arbitrary: z rule: list_induct2)
    case (Cons x xs y ys)
    have "z OR (x XOR y) = 0 \<longleftrightarrow> z = 0 \<and> x = y"
      by (auto simp: bit_eq_iff bit_simps)
    with Cons show ?case by auto
  qed simp
  with True show ?thesis by (simp add: constantTimeEqual_def)
qed (auto simp: constantTimeEqual_def)

section \<open>JSON web tokens: what was signed is accepted, what is accepted was signed\<close>

lemma json_wf_put: "json_wf (JObj ps) \<Longrightarrow> json_wf v \<Longrightarrow> json_wf (JObj (obj_put k v ps))"
proof -
  have "p \<in> set (obj_put k v ps) \<Longrightarrow> p = (k, v) \<or> p \<in> set ps" for p
    by (induction ps) (auto split: if_splits)
  then show "json_wf (JObj ps) \<Longrightarrow> json_wf v \<Longrightarrow> json_wf (JObj (obj_put k v ps))"
    by fastforce
qed

lemma json_wf_spread:
  "json_wf (JObj ps) \<Longrightarrow> \<forall>q\<in>set qs. json_wf (snd q) \<Longrightarrow> json_wf (JObj (obj_spread ps qs))"
proof (induction qs arbitrary: ps)
  case (Cons q qs)
  have "json_wf (JObj (obj_put (fst q) (snd q) ps))"
    using Cons.prems by (intro json_wf_put) auto
  with Cons.IH [OF this] Cons.prems show ?case
    by (simp add: obj_spread_def case_prod_beta)
qed (simp add: obj_spread_def)

lemma split_on_free: "d \<notin> set a \<Longrightarrow> split_on d a = [a]"
  by (induction a) auto

lemma split_on_append: "d \<notin> set a \<Longrightarrow> split_on d (a @ d # b) = a # split_on d b"
  by (induction a) auto

lemma split_on_join:
  "split_on d s = ps \<Longrightarrow> ps \<noteq> [] \<and> s = join_with [d] ps \<and> (\<forall>p\<in>set ps. d \<notin> set p)"
proof (induction s arbitrary: ps)
  case (Cons c cs)
  obtain q qs where q: "split_on d cs = q # qs" using Cons.IH [OF refl] by (cases "split_on d cs") auto
  from Cons.IH [OF q] have "cs = join_with [d] (q # qs)" "\<forall>p\<in>set (q # qs). d \<notin> set p" by auto
  with q Cons.prems show ?case by (cases qs) (auto split: if_splits)
qed auto

lemma no_dot_url:
  assumes "\<forall>b\<in>set bs. b < 256"
  shows "CHR ''.'' \<notin> set (strip_pad (map url_char (btoa bs)))"
proof -
  have "url_char (b64_char i) \<noteq> CHR ''.''" if "i < 64" for i
    using b64_char_plain(4) [OF that] by (simp add: url_char_def)
  with sextets_lt [OF assms] show ?thesis by (auto simp: url_text [OF assms]) (metis)
qed

lemma no_dot_bytes: "CHR ''.'' \<notin> set (base64UrlEncodeBytes bs)"
  using no_dot_url [of "map unat bs"] unat_lt_256
  by (simp add: base64UrlEncodeBytes_def bytesToBase64_def)

lemma no_dot_encode: "CHR ''.'' \<notin> set (base64UrlEncode s)"
  using no_dot_url [OF utf8_lt, of s]
  by (simp add: base64UrlEncode_def bytesToBase64_def unat_utf8ToBytes)

lemma verify_parts:
  assumes "split_on (CHR ''.'') token = [h, b, sig]"
    "base64UrlDecode h = Some th" "json_parse th = Some (JObj hs)"
    "base64UrlDecode b = Some tb" "json_parse tb = Some (JObj cs)"
    "obj_get hs ''alg'' = Some (JStr ''HS256'')" "jo_alg opts = None \<or> jo_alg opts = Some ''HS256''"
    "base64ToBytes (url_padded sig) = Some bs"
  shows "verifyJwtHs256 C now_ms token secret opts =
    (if bs = hmac_sha256 C (utf8ToBytes secret) (utf8ToBytes (h @ ''.'' @ b))
     then check_claims cs opts (case jo_nowSeconds opts of Some n \<Rightarrow> n | None \<Rightarrow> now_ms div 1000)
     else Jwt_fail ''signature-invalid'')"
  using assms by (auto simp: verifyJwtHs256_def props_of_def Let_def)

lemma verify_encoded:
  assumes "json_wf (JObj payload)" "\<forall>q\<in>set header. json_wf (snd q)" "''alg'' \<notin> fst ` set header"
    "jo_alg opts = None \<or> jo_alg opts = Some ''HS256''"
  shows "verifyJwtHs256 C now_ms (encodeJwtHs256 C payload secret header) secret' opts =
    (let h = base64UrlEncode (stringify (JObj (obj_spread [(''alg'', JStr ''HS256''), (''typ'', JStr ''JWT'')] header)));
         b = base64UrlEncode (stringify (JObj payload));
         m = utf8ToBytes (h @ ''.'' @ b)
     in if hmac_sha256 C (utf8ToBytes secret) m = hmac_sha256 C (utf8ToBytes secret') m
        then check_claims payload opts (case jo_nowSeconds opts of Some n \<Rightarrow> n | None \<Rightarrow> now_ms div 1000)
        else Jwt_fail ''signature-invalid'')"
proof -
  let ?hd = "obj_spread [(''alg'', JStr ''HS256''), (''typ'', JStr ''JWT'')] header"
  let ?h = "base64UrlEncode (stringify (JObj ?hd))" and ?b = "base64UrlEncode (stringify (JObj payload))"
  let ?sig = "hmac_sha256 C (utf8ToBytes secret) (utf8ToBytes (?h @ ''.'' @ ?b))"
  have wf: "json_wf (JObj ?hd)" using assms(2) by (intro json_wf_spread) auto
  have alg: "obj_get ?hd ''alg'' = Some (JStr ''HS256'')"
  proof -
    have "map_of (rev header) ''alg'' = None" using assms(3) by (simp add: map_of_eq_None_iff)
    then show ?thesis by (simp add: obj_get_def map_of_obj_spread)
  qed
  have parts: "split_on (CHR ''.'') (encodeJwtHs256 C payload secret header)
    = [?h, ?b, base64UrlEncodeBytes ?sig]"
    by (simp add: encodeJwtHs256_def Let_def split_on_append split_on_free no_dot_encode no_dot_bytes)
  show ?thesis
    using verify_parts [OF parts base64UrlDecode_encode json_parse_stringify [OF wf]
        base64UrlDecode_encode json_parse_stringify [OF assms(1)] alg assms(4) base64UrlBytes_decode]
    unfolding Let_def .
qed

lemma verify_ok_cases:
  assumes "verifyJwtHs256 C now_ms token secret opts = Jwt_ok claims"
  obtains h b sig hs cs where
    "token = h @ ''.'' @ b @ ''.'' @ sig"
    "Option.bind (base64UrlDecode h) json_parse = Some hs" "props_of hs \<noteq> None"
    "obj_get (the (props_of hs)) ''alg'' = Some (JStr (case jo_alg opts of None \<Rightarrow> ''HS256'' | Some a \<Rightarrow> a))"
    "Option.bind (base64UrlDecode b) json_parse = Some cs" "props_of cs = Some claims"
    "base64ToBytes (url_padded sig) =
       Some (hmac_sha256 C (utf8ToBytes secret) (utf8ToBytes (h @ ''.'' @ b)))"
    "check_claims claims opts (case jo_nowSeconds opts of Some n \<Rightarrow> n | None \<Rightarrow> now_ms div 1000) = Jwt_ok claims"
proof -
  obtain h b sig where parts: "split_on (CHR ''.'') token = [h, b, sig]"
    using assms by (auto simp: verifyJwtHs256_def split: list.splits)
  have tok: "token = h @ ''.'' @ b @ ''.'' @ sig" using split_on_join [OF parts] by simp
  have chk: "check_claims x opts n = Jwt_ok claims \<Longrightarrow> x = claims" for x n
    by (auto simp: check_claims_def Let_def split: if_splits)
  have "\<exists>hs cs x. Option.bind (base64UrlDecode h) json_parse = Some hs \<and> props_of hs \<noteq> None
    \<and> obj_get (the (props_of hs)) ''alg'' = Some (JStr (case jo_alg opts of None \<Rightarrow> ''HS256'' | Some a \<Rightarrow> a))
    \<and> Option.bind (base64UrlDecode b) json_parse = Some cs \<and> props_of cs = Some x
    \<and> base64ToBytes (url_padded sig) =
         Some (hmac_sha256 C (utf8ToBytes secret) (utf8ToBytes (h @ ''.'' @ b)))
    \<and> check_claims x opts (case jo_nowSeconds opts of Some n \<Rightarrow> n | None \<Rightarrow> now_ms div 1000) = Jwt_ok claims"
    using assms unfolding verifyJwtHs256_def parts Let_def
    by (auto split: option.splits if_splits)
  then show thesis using that [OF tok] chk by blast
qed

end
