(* ===== verification/Js_Time.thy ===== *)
theory Js_Time
  imports Js_Json
begin

text \<open>
  The part of the JavaScript \<open>Date\<close> the code uses: \<open>new Date(s).getTime()\<close> on the ISO-8601 texts of
  the system (UTC, with or without milliseconds, or a date alone) and \<open>new Date(ms).toISOString()\<close>
  for the years 0000 to 9999. Other texts are \<open>None\<close>, which stands for \<open>NaN\<close>. The readings of the
  clock are arguments of the operations.
\<close>

definition days_from_civil :: "int \<Rightarrow> int \<Rightarrow> int \<Rightarrow> int" where
  "days_from_civil y m d =
     (let y1 = (if m \<le> 2 then y - 1 else y); era = y1 div 400; yoe = y1 mod 400;
          doy = (153 * ((m + 9) mod 12) + 2) div 5 + d - 1;
          doe = yoe * 365 + yoe div 4 - yoe div 100 + doy
      in era * 146097 + doe - 719468)"

definition civil_from_days :: "int \<Rightarrow> int \<times> int \<times> int" where
  "civil_from_days days =
     (let z = days + 719468; era = z div 146097; doe = z mod 146097;
          yoe = (doe - doe div 1460 + doe div 36524 - doe div 146096) div 365;
          doy = doe - (365 * yoe + yoe div 4 - yoe div 100);
          mp = (5 * doy + 2) div 153; d = doy - (153 * mp + 2) div 5 + 1;
          m = (if mp < 10 then mp + 3 else mp - 9)
      in (yoe + era * 400 + (if m \<le> 2 then 1 else 0), m, d))"

text \<open>A text matches a pattern in which \<open>#\<close> stands for a digit.\<close>

fun matches :: "string \<Rightarrow> string \<Rightarrow> bool" where
  "matches [] [] = True"
| "matches (p # ps) (c # cs) =
     ((if p = CHR 0x23 then is_digit c else c = p) \<and> matches ps cs)"
| "matches _ _ = False"

definition num_at :: "nat \<Rightarrow> nat \<Rightarrow> string \<Rightarrow> int" where
  "num_at i n s = int (digits_val (take n (drop i s)))"

definition date_ms :: "string \<Rightarrow> int option" where
  "date_ms s = (let m = num_at 5 2 s; d = num_at 8 2 s in
     if 1 \<le> m \<and> m \<le> 12 \<and> 1 \<le> d \<and> d \<le> 31
     then Some (days_from_civil (num_at 0 4 s) m d * 86400000) else None)"

definition time_ms :: "string \<Rightarrow> int option" where
  "time_ms s = (let h = num_at 11 2 s; mi = num_at 14 2 s; se = num_at 17 2 s in
     if h \<le> 23 \<and> mi \<le> 59 \<and> se \<le> 59 then Some ((h * 60 + mi) * 60000 + se * 1000) else None)"

definition ms_of_iso :: "iso \<Rightarrow> int option" where
  "ms_of_iso s =
     (if matches ''####-##-##'' s then date_ms s
      else if matches ''####-##-##T##:##:##Z'' s
      then (case (date_ms s, time_ms s) of (Some a, Some b) \<Rightarrow> Some (a + b) | _ \<Rightarrow> None)
      else if matches ''####-##-##T##:##:##.###Z'' s
      then (case (date_ms s, time_ms s) of (Some a, Some b) \<Rightarrow> Some (a + b + num_at 20 3 s) | _ \<Rightarrow> None)
      else None)"

definition iso_of_ms :: "int \<Rightarrow> iso" where
  "iso_of_ms ms =
     (let t = ms mod 86400000; (y, m, d) = civil_from_days (ms div 86400000); p = (\<lambda>n i. pad_str n (nat i))
      in p 4 y @ ''-'' @ p 2 m @ ''-'' @ p 2 d @ ''T'' @ p 2 (t div 3600000) @ '':'' @
         p 2 (t div 60000 mod 60) @ '':'' @ p 2 (t div 1000 mod 60) @ ''.'' @ p 3 (t mod 1000) @ ''Z'')"

text \<open>A number of milliseconds or seconds as JSON: \<open>NaN\<close> is written as \<open>null\<close>.\<close>

definition json_int :: "int \<Rightarrow> json" where
  "json_int i = JNum i 0"

definition json_nan_int :: "int option \<Rightarrow> json" where
  "json_nan_int i = (case i of None \<Rightarrow> JNull | Some n \<Rightarrow> JNum n 0)"

lemma json_wf_ints [simp]: "json_wf (json_int i)" "json_wf (json_nan_int j)"
  by (simp_all add: json_int_def json_nan_int_def split: option.split)

lemma ms_of_iso_example: "ms_of_iso ''2024-02-29T12:34:56.789Z'' = Some 1709210096789"
  by (simp add: ms_of_iso_def date_ms_def time_ms_def num_at_def days_from_civil_def Let_def is_digit_def
      digits_val_def char_digit_def)

end
