(* ===== verification/Hash_Chain.thy ===== *)
theory Hash_Chain
  imports Wenyan_Prelude
begin

text \<open>
  The hash chain the seals of a message and the transitions of a message both form: each record
  carries the hash of the record before it. The lemmas are proved once, from a digest, the value a
  record hashes, the link field of a record and the link a digest is stored as.
\<close>

locale hash_chain =
  fixes digest :: "'v \<Rightarrow> 'h"
    and hashed :: "'r \<Rightarrow> 'v"
    and link :: "'r \<Rightarrow> 'l"
    and as_link :: "'h \<Rightarrow> 'l"
  assumes hashed_link: "hashed a = hashed b \<Longrightarrow> link a = link b"
    and as_link_inj: "as_link g = as_link h \<Longrightarrow> g = h"
begin

fun linked :: "'l \<Rightarrow> 'r list \<Rightarrow> bool" where
  "linked p [] = True"
| "linked p (r # rs) = (link r = p \<and> linked (as_link (digest (hashed r))) rs)"

fun tip :: "'l \<Rightarrow> 'r list \<Rightarrow> 'l" where
  "tip p [] = p"
| "tip p (r # rs) = tip (as_link (digest (hashed r))) rs"

lemma tip_snoc [simp]: "tip p (rs @ [r]) = as_link (digest (hashed r))"
  by (induction rs arbitrary: p) auto

lemma linked_snoc [simp]: "linked p (rs @ [r]) \<longleftrightarrow> linked p rs \<and> link r = tip p rs"
  by (induction rs arbitrary: p) auto

lemma linked_nth:
  "linked p rs \<Longrightarrow> Suc i < length rs \<Longrightarrow> link (rs ! Suc i) = as_link (digest (hashed (rs ! i)))"
proof (induction rs arbitrary: p i)
  case (Cons r rs)
  then show ?case by (cases i; cases rs) auto
qed simp

text \<open>A chain is determined by its tip: the log below a hash cannot be rewritten.\<close>

lemma tip_binds:
  assumes "linked p xs" "linked p ys" "tip p xs = tip p ys"
    and "inj_on digest (hashed ` (set xs \<union> set ys))"
    and "p \<notin> (\<lambda>r. as_link (digest (hashed r))) ` (set xs \<union> set ys)"
  shows "map hashed xs = map hashed ys"
  using assms
proof (induction xs arbitrary: ys rule: rev_induct)
  case Nil
  then show ?case by (cases ys rule: rev_cases) auto
next
  case (snoc x xs)
  have "ys \<noteq> []" using snoc.prems(3,5) by (cases ys) auto
  then obtain zs y where ys: "ys = zs @ [y]" by (cases ys rule: rev_cases) auto
  have "digest (hashed x) = digest (hashed y)"
    using snoc.prems(3) as_link_inj by (simp add: ys)
  then have eq: "hashed x = hashed y"
    by (rule inj_onD [OF snoc.prems(4)]) (simp_all add: ys)
  then have tips: "tip p xs = tip p zs"
    using snoc.prems(1,2) hashed_link [OF eq] by (simp add: ys)
  have inj: "inj_on digest (hashed ` (set xs \<union> set zs))"
    using snoc.prems(4) by (rule inj_on_subset) (simp add: ys image_mono subset_insertI2)
  have sub: "set xs \<union> set zs \<subseteq> set (xs @ [x]) \<union> set ys" by (auto simp: ys)
  have l: "linked p xs" "linked p zs" using snoc.prems(1,2) by (simp_all add: ys)
  have fresh: "p \<notin> (\<lambda>r. as_link (digest (hashed r))) ` (set xs \<union> set zs)"
    using snoc.prems(5) sub by (meson image_mono subsetD)
  have "map hashed xs = map hashed zs"
    by (rule snoc.IH [OF l tips inj fresh])
  with eq show ?case by (simp add: ys)
qed

end

end
