(* ===== verification/Seal_Chain.thy ===== *)
theory Seal_Chain
  imports Seal_Crypto Js_Time Hash_Chain
begin

text \<open>
  \<open>packages/seal/src/chain.ts\<close> and \<open>thresholds.ts\<close>: the six seals of a message, each bound to the
  hash of the one before. The clock of \<open>createSealChain\<close> is a function of the stage; a throw of the
  signature library or of the threshold check is a left value.
\<close>

datatype seal_stage = Caoni | Shenfu1 | Shenfu2 | Shenfu3 | Shenfu4 | Pizhun

fun stage_str :: "seal_stage \<Rightarrow> string" where
  "stage_str Caoni = ''caoni''"
| "stage_str Shenfu1 = ''shenfu-1''"
| "stage_str Shenfu2 = ''shenfu-2''"
| "stage_str Shenfu3 = ''shenfu-3''"
| "stage_str Shenfu4 = ''shenfu-4''"
| "stage_str Pizhun = ''pizhun''"

definition stageOrder :: "seal_stage list" where
  "stageOrder = [Caoni, Shenfu1, Shenfu2, Shenfu3, Shenfu4, Pizhun]"

record seal_record =
  s_sealId :: string
  s_messageId :: string
  s_stage :: seal_stage
  s_prevHash :: string
  s_hash :: string
  s_signature :: string
  s_createdAt :: iso
  s_payload :: "obj option"

record seal_context =
  c_draftPrivateKeyHex :: string
  c_draftPublicKeyHex :: "string option"
  c_masterPrivateKeyHex :: string
  c_masterPublicKeyHex :: "string option"
  c_capabilitySecret :: string
  c_lamportClock :: int
  c_routeKey :: string
  c_provenance :: "provenance option"
  c_imperialSignatures :: "string list option"
  c_thresholdOverrides :: "(string \<times> nat) list option"

definition DEFAULT_THRESHOLD_POLICY :: "(string \<times> nat) list" where
  "DEFAULT_THRESHOLD_POLICY = [(''ti_definition'', 3), (''edict'', 1)]"

definition resolveRequiredImperialSignatures :: "string \<Rightarrow> (string \<times> nat) list option \<Rightarrow> nat" where
  "resolveRequiredImperialSignatures genre overrides =
     (let merged = obj_spread DEFAULT_THRESHOLD_POLICY (case overrides of None \<Rightarrow> [] | Some o' \<Rightarrow> o')
      in case map_of merged genre of Some n \<Rightarrow> n | None \<Rightarrow> 1)"

definition required_signatures :: "envelope \<Rightarrow> seal_context \<Rightarrow> nat" where
  "required_signatures m ctx = resolveRequiredImperialSignatures (e_genre m) (c_thresholdOverrides ctx)"

definition provided_signatures :: "seal_context \<Rightarrow> nat" where
  "provided_signatures ctx = (case c_imperialSignatures ctx of None \<Rightarrow> 0 | Some xs \<Rightarrow> length xs)"

definition unix_seconds :: "iso \<Rightarrow> int option" where
  "unix_seconds nowIso = map_option (\<lambda>ms. ms div 1000) (ms_of_iso nowIso)"

definition capability_claims :: "envelope \<Rightarrow> int option \<Rightarrow> obj" where
  "capability_claims m iat = [
     (''sub'', JStr (e_actor_id m)), (''clearance'', JStr (e_actor_role m)),
     (''aud'', JStr ''wenyan-pipeline''), (''iss'', JStr ''wenyan-seal''),
     (''iat'', json_nan_int iat), (''exp'', json_nan_int (map_option (\<lambda>i. i + 300) iat))]"

definition payloadForStage :: "crypto \<Rightarrow> seal_stage \<Rightarrow> envelope \<Rightarrow> seal_context \<Rightarrow> iso \<Rightarrow> obj" where
  "payloadForStage C stage m ctx nowIso =
     (case stage of
        Caoni \<Rightarrow> [(''documentHash'', JStr (digestHex C (stringify (JObj (e_payload m))))),
                  (''draftedBy'', JStr (e_actor_id m))]
      | Shenfu1 \<Rightarrow> [(''schemaMerkleRoot'', JStr (digestHex C
                     (stringify (JArr (map JStr (sort (map fst (e_payload m))))))))]
      | Shenfu2 \<Rightarrow> [(''unixTimestamp'', json_nan_int (unix_seconds nowIso)),
                    (''lamportClock'', json_int (c_lamportClock ctx))]
      | Shenfu3 \<Rightarrow> [(''capability'', JStr (encodeCapabilityToken C
                     (capability_claims m (unix_seconds nowIso)) (c_capabilitySecret ctx)))]
      | Shenfu4 \<Rightarrow> [(''routeCommitment'', JStr (digestHex C (c_routeKey ctx)))]
      | Pizhun \<Rightarrow> [(''imperialCommitment'', JStr (digestHex C
                     (e_id m @ '':'' @ c_routeKey ctx @ '':'' @ nowIso))),
                   (''required_signatures'', json_int (int (required_signatures m ctx))),
                   (''provided_signatures'', json_int (int (provided_signatures ctx)))])"

definition signStage :: "crypto \<Rightarrow> string \<Rightarrow> seal_stage \<Rightarrow> seal_context \<Rightarrow> string option" where
  "signStage C hash stage ctx =
     (case stage of
        Caoni \<Rightarrow> signEd25519Hash C hash (c_draftPrivateKeyHex ctx)
      | Pizhun \<Rightarrow> signEd25519Hash C hash (c_masterPrivateKeyHex ctx)
      | _ \<Rightarrow> Some (digestHex C (hash @ '':'' @ c_capabilitySecret ctx)))"

definition provenance_ok :: "provenance option \<Rightarrow> bool" where
  "provenance_ok p =
     (case p of None \<Rightarrow> True
      | Some (Human_actor yubikey) \<Rightarrow> yubikey \<noteq> []
      | Some (Agent_actor service_account fingerprint) \<Rightarrow> fingerprint \<noteq> [] \<and> service_account \<noteq> [])"

text \<open>\<open>None\<close> where the signature library throws.\<close>

definition verifyStageSignature :: "crypto \<Rightarrow> seal_record \<Rightarrow> seal_stage \<Rightarrow> seal_context \<Rightarrow> bool option" where
  "verifyStageSignature C s stage ctx =
     (case stage of
        Caoni \<Rightarrow> map_option (\<lambda>sigOk. sigOk \<and> provenance_ok (c_provenance ctx))
          (verifyEd25519Hash C (s_signature s) (s_hash s) (c_draftPrivateKeyHex ctx) (c_draftPublicKeyHex ctx))
      | Pizhun \<Rightarrow>
          verifyEd25519Hash C (s_signature s) (s_hash s) (c_masterPrivateKeyHex ctx) (c_masterPublicKeyHex ctx)
      | _ \<Rightarrow> Some (s_signature s = digestHex C (s_hash s @ '':'' @ c_capabilitySecret ctx)))"

text \<open>What a seal hashes, the same in \<open>createSealChain\<close> and \<open>verifySealChain\<close>.\<close>

definition seal_json :: "string \<Rightarrow> seal_stage \<Rightarrow> string \<Rightarrow> obj \<Rightarrow> iso \<Rightarrow> json" where
  "seal_json messageId stage prevHash payload createdAt = JObj [
     (''messageId'', JStr messageId), (''stage'', JStr (stage_str stage)), (''prevHash'', JStr prevHash),
     (''payload'', JObj payload), (''createdAt'', JStr createdAt)]"

definition seal_digest :: "crypto \<Rightarrow> json \<Rightarrow> string" where
  "seal_digest C j = digestHex C (stringify j)"

fun seal_loop :: "crypto \<Rightarrow> envelope \<Rightarrow> seal_context \<Rightarrow> (seal_stage \<Rightarrow> iso) \<Rightarrow> string \<Rightarrow> seal_stage list
    \<Rightarrow> err + seal_record list" where
  "seal_loop C m ctx clock prevHash [] = Inr []"
| "seal_loop C m ctx clock prevHash (stage # rest) =
     (if stage = Pizhun \<and> provided_signatures ctx < required_signatures m ctx
      then Inl Insufficient_imperial_authority
      else
       (let createdAt = clock stage;
            payload = payloadForStage C stage m ctx createdAt;
            hash = seal_digest C (seal_json (e_id m) stage prevHash payload createdAt)
        in case signStage C hash stage ctx of
             None \<Rightarrow> Inl (Error_msg ''hex'')
           | Some signature \<Rightarrow>
               (case seal_loop C m ctx clock hash rest of
                  Inl e \<Rightarrow> Inl e
                | Inr seals \<Rightarrow> Inr (
                    \<lparr>s_sealId = e_id m @ ''-'' @ stage_str stage @ ''-'' @ createdAt,
                     s_messageId = e_id m, s_stage = stage, s_prevHash = prevHash, s_hash = hash,
                     s_signature = signature, s_createdAt = createdAt, s_payload = Some payload\<rparr> # seals))))"

definition createSealChain :: "crypto \<Rightarrow> envelope \<Rightarrow> seal_context \<Rightarrow> (seal_stage \<Rightarrow> iso) \<Rightarrow> string
    \<Rightarrow> err + seal_record list" where
  "createSealChain C m ctx clock startPrevHash = seal_loop C m ctx clock startPrevHash stageOrder"

definition capability_options :: "envelope \<Rightarrow> jwt_options" where
  "capability_options m = \<lparr>jo_alg = None, jo_aud = Some ''wenyan-pipeline'', jo_iss = Some ''wenyan-seal'',
     jo_sub = Some (e_actor_id m), jo_nowSeconds = None, jo_requireIat = False\<rparr>"

definition capability_text :: "seal_record \<Rightarrow> string" where
  "capability_text s =
     (case s_payload s of None \<Rightarrow> []
      | Some p \<Rightarrow> (case obj_get p ''capability'' of None \<Rightarrow> [] | Some JNull \<Rightarrow> [] | Some j \<Rightarrow> js_String j))"

text \<open>The loop of \<open>verifySealChain\<close>, over the stages and the seals; \<open>None\<close> where it throws.\<close>

fun verify_loop :: "crypto \<Rightarrow> envelope \<Rightarrow> seal_context \<Rightarrow> int \<Rightarrow> string \<Rightarrow> seal_stage list \<Rightarrow> seal_record list
    \<Rightarrow> bool option" where
  "verify_loop C m ctx now_ms prevHash [] seals = Some True"
| "verify_loop C m ctx now_ms prevHash (stage # rest) [] = Some False"
| "verify_loop C m ctx now_ms prevHash (stage # rest) (s # seals) =
     (if s_stage s \<noteq> stage \<or> s_messageId s \<noteq> e_id m \<or> s_prevHash s \<noteq> prevHash then Some False
      else if seal_digest C (seal_json (e_id m) stage prevHash
                (case s_payload s of None \<Rightarrow> [] | Some p \<Rightarrow> p) (s_createdAt s)) \<noteq> s_hash s then Some False
      else case verifyStageSignature C s stage ctx of
          None \<Rightarrow> None
        | Some False \<Rightarrow> Some False
        | Some True \<Rightarrow>
            (case (if stage = Shenfu3
                   then verifyCapabilityToken C now_ms (capability_text s) (c_capabilitySecret ctx)
                          (capability_options m)
                   else Some True) of
               None \<Rightarrow> None
             | Some False \<Rightarrow> Some False
             | Some True \<Rightarrow>
                 (if stage = Pizhun \<and> provided_signatures ctx < required_signatures m ctx then Some False
                  else verify_loop C m ctx now_ms (s_hash s) rest seals)))"

definition verifySealChain :: "crypto \<Rightarrow> envelope \<Rightarrow> seal_record list \<Rightarrow> seal_context \<Rightarrow> int \<Rightarrow> bool option" where
  "verifySealChain C m seals ctx now_ms =
     (if length seals \<noteq> 6 then Some False
      else verify_loop C m ctx now_ms ''GENESIS'' stageOrder seals)"

section \<open>The seals as a hash chain\<close>

lemma stage_str_inject [simp]: "stage_str a = stage_str b \<longleftrightarrow> a = b"
  by (cases a; cases b) auto

definition seal_hashed :: "seal_record \<Rightarrow> json" where
  "seal_hashed s = seal_json (s_messageId s) (s_stage s) (s_prevHash s)
     (case s_payload s of None \<Rightarrow> [] | Some p \<Rightarrow> p) (s_createdAt s)"

interpretation seals: hash_chain "seal_digest C" seal_hashed s_prevHash "\<lambda>h. h" for C
  by unfold_locales (auto simp: seal_hashed_def seal_json_def)

definition seal_accepted :: "crypto \<Rightarrow> envelope \<Rightarrow> seal_context \<Rightarrow> int \<Rightarrow> seal_record \<Rightarrow> bool" where
  "seal_accepted C m ctx now_ms s \<longleftrightarrow>
     s_messageId s = e_id m \<and> s_hash s = seal_digest C (seal_hashed s)
     \<and> verifyStageSignature C s (s_stage s) ctx = Some True
     \<and> (s_stage s = Shenfu3 \<longrightarrow> verifyCapabilityToken C now_ms (capability_text s)
          (c_capabilitySecret ctx) (capability_options m) = Some True)
     \<and> (s_stage s = Pizhun \<longrightarrow> required_signatures m ctx \<le> provided_signatures ctx)"

lemma verify_loop_Cons_True:
  "verify_loop C m ctx now_ms p (stage # rest) (s # ss) = Some True \<longleftrightarrow>
     s_stage s = stage \<and> s_prevHash s = p \<and> seal_accepted C m ctx now_ms s
     \<and> verify_loop C m ctx now_ms (s_hash s) rest ss = Some True"
  unfolding verify_loop.simps seal_accepted_def seal_hashed_def
  by (cases "verifyStageSignature C s stage ctx"; cases "stage = Shenfu3"; cases "s_stage s = stage")
    (auto split: option.splits bool.splits)

lemma verify_loop_True_iff:
  "length ss = length stages \<Longrightarrow> verify_loop C m ctx now_ms p stages ss = Some True \<longleftrightarrow>
    seals.linked C p ss \<and> map s_stage ss = stages \<and> (\<forall>s\<in>set ss. seal_accepted C m ctx now_ms s)"
proof (induction ss stages arbitrary: p rule: list_induct2)
  case (Cons s ss stage rest)
  have "seal_accepted C m ctx now_ms s \<Longrightarrow> s_hash s = seal_digest C (seal_hashed s)"
    by (simp add: seal_accepted_def)
  with Cons.IH show ?case
    by (auto simp: verify_loop_Cons_True simp del: verify_loop.simps)
qed simp

lemma verify_loop_cong:
  assumes "e_id m = e_id m'" "e_actor_id m = e_actor_id m'" "e_genre m = e_genre m'"
  shows "verify_loop C m ctx now_ms p stages ss = verify_loop C m' ctx now_ms p stages ss"
proof -
  have "required_signatures m = required_signatures m'" "capability_options m = capability_options m'"
    by (auto simp: assms required_signatures_def capability_options_def)
  with assms(1) show ?thesis
    by (induction stages arbitrary: p ss) (case_tac [!] ss, simp_all cong: option.case_cong bool.case_cong)
qed

section \<open>What was created\<close>

text \<open>What the code relies on in \<open>@noble\<close>: digests, signatures and public keys are hex, and a signature
  verifies under the public key of its private key.\<close>

definition crypto_law :: "crypto \<Rightarrow> bool" where
  "crypto_law C \<longleftrightarrow> (\<forall>s. is_hex (sha256 C s)) \<and> (\<forall>h k. is_hex h \<longrightarrow> is_hex k \<longrightarrow> is_hex (ed_sign C h k) \<and> is_hex (ed_public C k)
     \<and> ed_verify C (ed_sign C h k) h (ed_public C k))"

text \<open>The keys of the context are hex, and a public key that is given belongs to its private key.\<close>

definition keys_ok :: "crypto \<Rightarrow> seal_context \<Rightarrow> bool" where
  "keys_ok C ctx \<longleftrightarrow> is_hex (c_draftPrivateKeyHex ctx) \<and> is_hex (c_masterPrivateKeyHex ctx)
     \<and> c_draftPublicKeyHex ctx \<in> {None, Some (ed_public C (c_draftPrivateKeyHex ctx))}
     \<and> c_masterPublicKeyHex ctx \<in> {None, Some (ed_public C (c_masterPrivateKeyHex ctx))}"

lemma verify_signed:
  assumes "crypto_law C" "is_hex h" "is_hex k" "pub \<in> {None, Some (ed_public C k)}"
    "signEd25519Hash C h k = Some sig"
  shows "verifyEd25519Hash C sig h k pub = Some True"
  using assms by (auto simp: crypto_law_def signEd25519Hash_def verifyEd25519Hash_def)

lemma verify_stage_signed:
  assumes "crypto_law C" "keys_ok C ctx" "is_hex (s_hash s)"
    "signStage C (s_hash s) stage ctx = Some (s_signature s)"
  shows "verifyStageSignature C s stage ctx = Some (stage = Caoni \<longrightarrow> provenance_ok (c_provenance ctx))"
  using assms verify_signed
  by (cases stage) (auto simp: verifyStageSignature_def signStage_def keys_ok_def)

lemma capability_accepted:
  assumes "unix_seconds t = Some iat"
  shows "verifyCapabilityToken C now_ms (encodeCapabilityToken C (capability_claims m (unix_seconds t)) secret)
      secret (capability_options m) = Some (iat \<le> now_ms div 1000 + 30 \<and> now_ms div 1000 \<le> iat + 300)"
proof -
  have wf: "json_wf (JObj (capability_claims m (unix_seconds t)))"
    by (simp add: capability_claims_def)
  show ?thesis
    unfolding verifyCapabilityToken_def encodeCapabilityToken_def
    by (subst verify_encoded [OF wf])
      (auto simp: Let_def capability_options_def check_claims_def capability_claims_def obj_get_def assms
        json_nan_int_def is_num_def num_above_def num_below_def mismatch_def)
qed

definition in_window :: "int \<Rightarrow> int \<Rightarrow> bool" where
  "in_window iat now_ms \<longleftrightarrow> iat \<le> now_ms div 1000 + 30 \<and> now_ms div 1000 \<le> iat + 300"

lemma signStage_ok:
  assumes "crypto_law C" "keys_ok C ctx"
  obtains sig where "signStage C (seal_digest C j) stage ctx = Some sig"
  using assms by (cases stage)
    (auto simp: signStage_def signEd25519Hash_def crypto_law_def keys_ok_def seal_digest_def digestHex_def)

lemma seal_loop_total:
  assumes "crypto_law C" "keys_ok C ctx" "Pizhun \<in> set stages \<longrightarrow> required_signatures m ctx \<le> provided_signatures ctx"
  shows "\<exists>ss. seal_loop C m ctx clock p stages = Inr ss"
  using assms(3)
proof (induction stages arbitrary: p)
  case (Cons stage rest)
  let ?h = "seal_digest C (seal_json (e_id m) stage p (payloadForStage C stage m ctx (clock stage)) (clock stage))"
  obtain sig where "signStage C ?h stage ctx = Some sig" using signStage_ok [OF assms(1,2)] .
  moreover obtain ss where "seal_loop C m ctx clock ?h rest = Inr ss" using Cons by auto
  ultimately show ?case using Cons.prems by (auto simp: Let_def)
qed simp

lemma seal_loop_refuses:
  assumes "crypto_law C" "keys_ok C ctx" "Pizhun \<in> set stages" "provided_signatures ctx < required_signatures m ctx"
  shows "seal_loop C m ctx clock p stages = Inl Insufficient_imperial_authority"
  using assms(3)
proof (induction stages arbitrary: p)
  case (Cons stage rest)
  let ?h = "seal_digest C (seal_json (e_id m) stage p (payloadForStage C stage m ctx (clock stage)) (clock stage))"
  obtain sig where "signStage C ?h stage ctx = Some sig" using signStage_ok [OF assms(1,2)] .
  with Cons assms(4) show ?case by (cases "stage = Pizhun") (auto simp: Let_def)
qed simp

lemma seal_loop_Cons:
  assumes "seal_loop C m ctx clock p (stage # rest) = Inr ss"
  shows "\<exists>s ss'. ss = s # ss' \<and> s_stage s = stage \<and> s_messageId s = e_id m \<and> s_prevHash s = p
    \<and> s_payload s = Some (payloadForStage C stage m ctx (clock stage)) \<and> s_createdAt s = clock stage
    \<and> s_hash s = seal_digest C (seal_hashed s) \<and> signStage C (s_hash s) stage ctx = Some (s_signature s)
    \<and> (stage = Pizhun \<longrightarrow> required_signatures m ctx \<le> provided_signatures ctx)
    \<and> seal_loop C m ctx clock (s_hash s) rest = Inr ss'"
proof -
  let ?p = "payloadForStage C stage m ctx (clock stage)"
  let ?h = "seal_digest C (seal_json (e_id m) stage p ?p (clock stage))"
  obtain sig ss' where sig: "signStage C ?h stage ctx = Some sig"
    and rest: "seal_loop C m ctx clock ?h rest = Inr ss'"
    and thr: "stage = Pizhun \<longrightarrow> required_signatures m ctx \<le> provided_signatures ctx"
    using assms by (auto simp: Let_def split: if_splits option.splits sum.splits)
  then have "ss = \<lparr>s_sealId = e_id m @ ''-'' @ stage_str stage @ ''-'' @ clock stage,
      s_messageId = e_id m, s_stage = stage, s_prevHash = p, s_hash = ?h,
      s_signature = sig, s_createdAt = clock stage, s_payload = Some ?p\<rparr> # ss'"
    using assms by (auto simp: Let_def split: if_splits)
  with sig rest thr show ?thesis by (simp add: seal_hashed_def)
qed

lemma verify_created:
  assumes "crypto_law C" "keys_ok C ctx" "provenance_ok (c_provenance ctx)"
    "unix_seconds (clock Shenfu3) = Some iat"
  shows "seal_loop C m ctx clock p stages = Inr ss \<Longrightarrow>
    verify_loop C m ctx now_ms p stages ss = Some (Shenfu3 \<in> set stages \<longrightarrow> in_window iat now_ms)"
proof (induction stages arbitrary: p ss)
  case (Cons stage rest)
  from Cons.prems obtain s ss' where s: "ss = s # ss'" "s_stage s = stage" "s_messageId s = e_id m"
    "s_prevHash s = p" "s_payload s = Some (payloadForStage C stage m ctx (clock stage))"
    "s_createdAt s = clock stage" "s_hash s = seal_digest C (seal_hashed s)"
    "signStage C (s_hash s) stage ctx = Some (s_signature s)"
    "stage = Pizhun \<longrightarrow> required_signatures m ctx \<le> provided_signatures ctx"
    "seal_loop C m ctx clock (s_hash s) rest = Inr ss'" using seal_loop_Cons [OF Cons.prems] by blast
  have "is_hex (s_hash s)" using assms(1) s(7) by (simp add: crypto_law_def seal_digest_def digestHex_def)
  with verify_stage_signed [OF assms(1,2) _ s(8)] assms(3)
  have sig: "verifyStageSignature C s stage ctx = Some True" by simp
  have hash: "seal_digest C (seal_json (e_id m) stage p (case s_payload s of None \<Rightarrow> [] | Some q \<Rightarrow> q)
      (s_createdAt s)) = s_hash s"
    using s(2-4,7) by (simp add: seal_hashed_def)
  show ?case
  proof (cases "stage = Shenfu3")
    case True
    then have "capability_text s = encodeCapabilityToken C
        (capability_claims m (unix_seconds (clock Shenfu3))) (c_capabilitySecret ctx)"
      using s(5) by (simp add: capability_text_def payloadForStage_def obj_get_def)
    then have "verifyCapabilityToken C now_ms (capability_text s) (c_capabilitySecret ctx)
        (capability_options m) = Some (in_window iat now_ms)"
      using capability_accepted [OF assms(4)] by (simp add: in_window_def)
    with s hash sig Cons.IH [OF s(10)] True show ?thesis
      by (cases "in_window iat now_ms") auto
  next
    case False
    with s hash sig Cons.IH [OF s(10)] show ?thesis by (cases "stage = Pizhun") auto
  qed
qed simp

lemma length_created: "seal_loop C m ctx clock p stages = Inr ss \<Longrightarrow> length ss = length stages"
proof (induction stages arbitrary: p ss)
  case (Cons stage rest)
  from seal_loop_Cons [OF Cons.prems] Cons.IH show ?case by auto
qed simp

section \<open>Properties\<close>

text \<open>With hex keys, sealing returns the six seals exactly when the context brings as many imperial
  signatures as the threshold of the genre asks for, and throws the authority error otherwise.\<close>

theorem createSealChain_threshold:
  assumes "crypto_law C" "keys_ok C ctx"
  shows "case createSealChain C m ctx clock start of
      Inr ss \<Rightarrow> length ss = 6
        \<and> resolveRequiredImperialSignatures (e_genre m) (c_thresholdOverrides ctx) \<le> provided_signatures ctx
    | Inl e \<Rightarrow> e = Insufficient_imperial_authority
        \<and> provided_signatures ctx < resolveRequiredImperialSignatures (e_genre m) (c_thresholdOverrides ctx)"
proof (cases "required_signatures m ctx \<le> provided_signatures ctx")
  case True
  then obtain ss where ss: "createSealChain C m ctx clock start = Inr ss"
    using seal_loop_total [OF assms] unfolding createSealChain_def by blast
  then have "length ss = 6" using length_created [OF ss [unfolded createSealChain_def]] by (simp add: stageOrder_def)
  with ss True show ?thesis by (simp add: required_signatures_def)
next
  case False
  then have "createSealChain C m ctx clock start = Inl Insufficient_imperial_authority"
    unfolding createSealChain_def by (intro seal_loop_refuses assms) (auto simp: stageOrder_def)
  with False show ?thesis by (simp add: required_signatures_def)
qed

text \<open>C13: A chain created by \<open>createSealChain\<close> is accepted by \<open>verifySealChain\<close> under the same context
  exactly while its capability token is valid: from 30 seconds before to 300 seconds after the time of
  the third review seal. Later the verification of an untouched chain fails.\<close>

theorem createSealChain_verifies:
  assumes "crypto_law C" "keys_ok C ctx" "provenance_ok (c_provenance ctx)"
    and "unix_seconds (clock Shenfu3) = Some iat"
    and "createSealChain C m ctx clock ''GENESIS'' = Inr ss"
  shows "verifySealChain C m ss ctx now_ms = Some (iat \<le> now_ms div 1000 + 30 \<and> now_ms div 1000 \<le> iat + 300)"
proof -
  have "verify_loop C m ctx now_ms ''GENESIS'' stageOrder ss = Some (in_window iat now_ms)"
    using verify_created [where clock = clock, OF assms(1-4)] assms(5) by (simp add: createSealChain_def stageOrder_def)
  moreover have "length ss = 6" using length_created [OF assms(5) [unfolded createSealChain_def]] by (simp add: stageOrder_def)
  ultimately show ?thesis by (simp add: verifySealChain_def in_window_def)
qed

definition hex_text :: "string \<Rightarrow> string" where
  "hex_text s = concat (map (\<lambda>c. [hex_digit (of_char c div 16), hex_digit (of_char c mod 16)]) s)"

definition demo_crypto :: crypto where
  "demo_crypto = \<lparr>sha256 = hex_text, hmac_sha256 = \<lambda>k m. m, ed_sign = \<lambda>h k. h,
     ed_public = \<lambda>k. k, ed_verify = \<lambda>s h k. s = h\<rparr>"

definition demo_context :: seal_context where
  "demo_context = \<lparr>c_draftPrivateKeyHex = ''11'', c_draftPublicKeyHex = None, c_masterPrivateKeyHex = ''22'',
     c_masterPublicKeyHex = None, c_capabilitySecret = ''secret'', c_lamportClock = 1, c_routeKey = ''r'',
     c_provenance = Some (Agent_actor ''a'' ''b''), c_imperialSignatures = Some [''local-dev''],
     c_thresholdOverrides = None\<rparr>"

definition demo_memo :: envelope where
  "demo_memo = \<lparr>e_id = ''m1'', e_genre = ''memo'', e_payload = [(''a'', JNum 1 0)], e_actor_id = ''u1'',
     e_actor_role = ''admin'', e_submittedAt = ''2024-02-29T00:00:00Z'', e_metadata = []\<rparr>"

lemma hex_val_digits:
  "hex_val (hex_digit (of_char c div 16)) = Some (of_char c div 16)"
  "hex_val (hex_digit (of_char c mod 16)) = Some (of_char c mod 16)"
proof -
  have "(of_char c :: nat) < 256" by simp
  then have "(of_char c :: nat) div 16 < 16" by linarith
  then show "hex_val (hex_digit (of_char c div 16)) = Some (of_char c div 16)" by (rule hex_val_hex_digit)
  show "hex_val (hex_digit (of_char c mod 16)) = Some (of_char c mod 16)" by (rule hex_val_hex_digit) simp
qed

lemma is_hex_text: "is_hex (hex_text s)"
  by (induction s) (auto simp: is_hex_def hex_text_def hex_val_digits)

lemma hex_text_Cons:
  "hex_text (c # s) = hex_digit (of_char c div 16) # hex_digit (of_char c mod 16) # hex_text s"
  by (simp add: hex_text_def)

lemma hex_text_inject: "hex_text a = hex_text b \<Longrightarrow> a = b"
proof (induction a b rule: list_induct2')
  case (4 x xs y ys)
  then have d: "hex_digit (of_char x div 16) = hex_digit (of_char y div 16)"
    "hex_digit (of_char x mod 16) = hex_digit (of_char y mod 16)" "hex_text xs = hex_text ys"
    unfolding hex_text_Cons list.inject by blast+
  from d(1) have "(of_char x :: nat) div 16 = of_char y div 16"
    by (metis hex_val_digits(1) option.inject)
  moreover from d(2) have "(of_char x :: nat) mod 16 = of_char y mod 16"
    by (metis hex_val_digits(2) option.inject)
  ultimately have "(of_char x :: nat) = of_char y" by (metis div_mult_mod_eq)
  then have "x = y" by simp
  with 4 d(3) show ?case by simp
qed (simp_all add: hex_text_def)

lemma demo_crypto_law: "crypto_law demo_crypto"
  by (simp add: crypto_law_def demo_crypto_def is_hex_text)

lemma demo_keys_ok: "keys_ok demo_crypto demo_context"
  by (simp add: keys_ok_def demo_context_def is_hex_def hex_val_def)

lemma demo_created: "\<exists>ss. createSealChain demo_crypto demo_memo demo_context clock start = Inr ss"
  unfolding createSealChain_def
  by (rule seal_loop_total [OF demo_crypto_law demo_keys_ok])
    (simp add: required_signatures_def resolveRequiredImperialSignatures_def DEFAULT_THRESHOLD_POLICY_def
      provided_signatures_def demo_memo_def demo_context_def obj_spread_def)

theorem createSealChain_threshold_witness:
  "createSealChain demo_crypto (demo_memo\<lparr>e_genre := ''ti_definition''\<rparr>) demo_context (\<lambda>_. []) ''GENESIS''
    = Inl Insufficient_imperial_authority"
proof -
  have "resolveRequiredImperialSignatures ''ti_definition'' (c_thresholdOverrides demo_context) = 3"
    "provided_signatures demo_context = 1"
    by (simp_all add: resolveRequiredImperialSignatures_def DEFAULT_THRESHOLD_POLICY_def obj_spread_def
        provided_signatures_def demo_context_def)
  with createSealChain_threshold [OF demo_crypto_law demo_keys_ok,
      of "demo_memo\<lparr>e_genre := ''ti_definition''\<rparr>" "\<lambda>_. []" "''GENESIS''"]
  show ?thesis by (simp split: sum.splits)
qed

lemma demo_seconds: "unix_seconds ''2024-02-29T12:34:56.789Z'' = Some 1709210096"
  by (simp add: unix_seconds_def ms_of_iso_example)

theorem createSealChain_verifies_witness:
  "\<exists>ss. createSealChain demo_crypto demo_memo demo_context (\<lambda>_. ''2024-02-29T12:34:56.789Z'') ''GENESIS'' = Inr ss
    \<and> verifySealChain demo_crypto demo_memo ss demo_context 1709210097000 = Some True
    \<and> verifySealChain demo_crypto demo_memo ss demo_context 1709210397000 = Some False"
proof -
  obtain ss where ss: "createSealChain demo_crypto demo_memo demo_context
      (\<lambda>_. ''2024-02-29T12:34:56.789Z'') ''GENESIS'' = Inr ss"
    using demo_created by blast
  have "provenance_ok (c_provenance demo_context)"
    by (simp add: provenance_ok_def demo_context_def)
  from createSealChain_verifies [OF demo_crypto_law demo_keys_ok this, of "\<lambda>_. ''2024-02-29T12:34:56.789Z''",
      OF demo_seconds ss] ss
  show ?thesis by simp
qed

text \<open>What a seal is about: everything but its id and its signature, an absent payload being the empty object.\<close>

definition seal_content :: "seal_record \<Rightarrow> string \<times> seal_stage \<times> string \<times> obj \<times> iso \<times> string" where
  "seal_content s = (s_messageId s, s_stage s, s_prevHash s, (case s_payload s of None \<Rightarrow> [] | Some q \<Rightarrow> q), s_createdAt s, s_hash s)"

lemma seal_hashed_content:
  "seal_hashed s = seal_hashed s' \<Longrightarrow> s_hash s = s_hash s' \<Longrightarrow> seal_content s = seal_content s'"
  by (simp add: seal_hashed_def seal_json_def seal_content_def)

lemma signature_ids [simp]:
  "verifyStageSignature C (s\<lparr>s_sealId := i\<rparr>) stage ctx = verifyStageSignature C s stage ctx"
  "capability_text (s\<lparr>s_sealId := i\<rparr>) = capability_text s"
  by (cases stage; simp add: verifyStageSignature_def) (simp add: capability_text_def)

lemma verify_loop_ids:
  "verify_loop C m ctx now_ms p stages (map (\<lambda>s. s\<lparr>s_sealId := f s\<rparr>) ss) = verify_loop C m ctx now_ms p stages ss"
proof (induction stages arbitrary: p ss)
  case (Cons stage rest)
  then show ?case by (cases ss) (simp_all cong: if_cong option.case_cong bool.case_cong)
qed simp

text \<open>C27: Two chains that verify and end in the same hash hold the same seals, whatever messages, contexts and clocks they were
  verified with: at every position the same message id, stage, link to the seal before, payload, time and hash. Only the
  ids and the signatures of the seals may differ. The hypotheses are about the digest: it tells the objects that were sealed apart, and
  none of the hashes is the word \<open>GENESIS\<close>.\<close>

theorem verifySealChain_tamper_evident:
  assumes "verifySealChain C m ss ctx now_ms = Some True" "verifySealChain C m' ss' ctx' now_ms' = Some True"
    and "s_hash (last ss) = s_hash (last ss')"
    and "inj_on (seal_digest C) (seal_hashed ` (set ss \<union> set ss'))"
    and "\<forall>s\<in>set ss \<union> set ss'. s_hash s \<noteq> ''GENESIS''"
  shows "map seal_content ss = map seal_content ss'"
proof -
  have len: "length ss = length stageOrder" "length ss' = length stageOrder"
    using assms(1,2) by (auto simp: verifySealChain_def stageOrder_def split: if_splits)
  then have l: "seals.linked C ''GENESIS'' ss" "seals.linked C ''GENESIS'' ss'"
    and h: "\<forall>s\<in>set ss \<union> set ss'. s_hash s = seal_digest C (seal_hashed s)"
    using assms(1,2) verify_loop_True_iff [OF len(1)] verify_loop_True_iff [OF len(2)]
    by (auto simp: verifySealChain_def seal_accepted_def split: if_splits)
  obtain xs x ys y where e: "ss = xs @ [x]" "ss' = ys @ [y]"
    using len by (cases ss rule: rev_cases; cases ss' rule: rev_cases) (auto simp: stageOrder_def)
  have t: "seals.tip C ''GENESIS'' ss = seals.tip C ''GENESIS'' ss'"
    using assms(3) h by (simp add: e)
  have f: "''GENESIS'' \<notin> (\<lambda>r. seal_digest C (seal_hashed r)) ` (set ss \<union> set ss')"
    using assms(5) h by auto
  have eq: "map seal_hashed ss = map seal_hashed ss'"
    by (rule seals.tip_binds [OF l t assms(4) f])
  have "map s_hash ss = map (seal_digest C) (map seal_hashed ss)"
    "map s_hash ss' = map (seal_digest C) (map seal_hashed ss')" using h by simp_all
  with eq have hash: "map s_hash ss = map s_hash ss'" by simp
  have "length ss = length ss'" using len by simp
  with eq hash show ?thesis
    by (auto simp: list_eq_iff_nth_eq intro!: seal_hashed_content)
qed

lemma payload_json_wf: "json_wf (JObj (payloadForStage C stage m ctx t))"
  by (cases stage) (simp_all add: payloadForStage_def)

lemma seal_loop_json_wf: "seal_loop C m ctx clock p stages = Inr ss \<Longrightarrow> \<forall>s\<in>set ss. json_wf (seal_hashed s)"
proof (induction stages arbitrary: p ss)
  case (Cons stage rest)
  from seal_loop_Cons [OF Cons.prems] obtain s ss' where s: "ss = s # ss'"
    "s_payload s = Some (payloadForStage C stage m ctx (clock stage))"
    "seal_loop C m ctx clock (s_hash s) rest = Inr ss'" by blast
  have "json_wf (seal_hashed s)"
    using payload_json_wf [of C stage m ctx "clock stage"] s(2) by (simp add: seal_hashed_def seal_json_def)
  with Cons.IH [OF s(3)] s(1) show ?case by simp
qed simp

lemma demo_verifies:
  "\<exists>ss. verifySealChain demo_crypto demo_memo ss demo_context 1709210097000 = Some True
    \<and> (\<forall>s\<in>set ss. json_wf (seal_hashed s) \<and> is_hex (s_hash s))"
proof -
  let ?clock = "\<lambda>_ :: seal_stage. ''2024-02-29T12:34:56.789Z''"
  obtain ss where ss: "createSealChain demo_crypto demo_memo demo_context ?clock ''GENESIS'' = Inr ss"
    using demo_created by blast
  note loop = ss [unfolded createSealChain_def]
  have "provenance_ok (c_provenance demo_context)" by (simp add: provenance_ok_def demo_context_def)
  from verify_created [where clock = ?clock, OF demo_crypto_law demo_keys_ok this demo_seconds loop]
  have v: "verify_loop demo_crypto demo_memo demo_context 1709210097000 ''GENESIS'' stageOrder ss = Some True"
    by (simp add: in_window_def)
  moreover have "length ss = length stageOrder" using length_created [OF loop] .
  ultimately have "\<forall>s\<in>set ss. is_hex (s_hash s)"
    using verify_loop_True_iff by (auto simp: seal_accepted_def seal_digest_def digestHex_def
        demo_crypto_def is_hex_text)
  moreover have "length ss = 6" using length_created [OF loop] by (simp add: stageOrder_def)
  ultimately show ?thesis using v seal_loop_json_wf [OF loop]
    by (intro exI [of _ ss]) (simp add: verifySealChain_def)
qed

theorem verifySealChain_tamper_evident_witness:
  "\<exists>ss ss'. ss \<noteq> ss' \<and> verifySealChain demo_crypto demo_memo ss demo_context 1709210097000 = Some True
    \<and> verifySealChain demo_crypto demo_memo ss' demo_context 1709210097000 = Some True
    \<and> map seal_content ss = map seal_content ss'"
proof -
  obtain ss where ss: "verifySealChain demo_crypto demo_memo ss demo_context 1709210097000 = Some True"
    and wf: "\<forall>s\<in>set ss. json_wf (seal_hashed s) \<and> is_hex (s_hash s)"
    using demo_verifies by blast
  let ?other = "\<lambda>s :: seal_record. s\<lparr>s_sealId := CHR ''x'' # s_sealId s\<rparr>"
  let ?ss = "map ?other ss"
  have len: "length ss = 6" using ss by (auto simp: verifySealChain_def split: if_splits)
  have ss': "verifySealChain demo_crypto demo_memo ?ss demo_context 1709210097000 = Some True"
    using ss len by (simp add: verifySealChain_def verify_loop_ids)
  have h: "seal_hashed (?other s) = seal_hashed s" "s_hash (?other s) = s_hash s" for s by (simp_all add: seal_hashed_def)
  have "ss \<noteq> ?ss"
  proof
    assume "ss = ?ss"
    then have "s_sealId (hd ss) = CHR ''x'' # s_sealId (hd ss)" using len by (cases ss) (auto dest: arg_cong [of _ _ s_sealId])
    then show False by simp
  qed
  moreover have "inj_on (seal_digest demo_crypto) (seal_hashed ` (set ss \<union> set ?ss))"
    using wf by (auto simp: h inj_on_def seal_digest_def digestHex_def demo_crypto_def stringify_inject
        dest!: hex_text_inject)
  moreover have "\<forall>s\<in>set ss \<union> set ?ss. s_hash s \<noteq> ''GENESIS''"
    using wf by (auto simp: is_hex_def h)
  moreover have "s_hash (last ss) = s_hash (last ?ss)" using len by (cases ss rule: rev_cases) simp_all
  ultimately show ?thesis using verifySealChain_tamper_evident [OF ss ss'] ss ss' by blast
qed

text \<open>The verification never looks at the document: two messages with the same id, genre and actor
  are accepted with the same seals, whatever their payloads, although the first seal records the hash of
  the payload.\<close>

theorem verifySealChain_ignores_payload:
  "verifySealChain C m ss ctx now_ms = verifySealChain C (m\<lparr>e_payload := p, e_metadata := md, e_actor_role := r\<rparr>) ss ctx now_ms"
  unfolding verifySealChain_def by (simp add: verify_loop_cong [of "m\<lparr>e_payload := p, e_metadata := md, e_actor_role := r\<rparr>" m])

end
