(* ===== verification/Archive_Db.thy ===== *)
theory Archive_Db
  imports Seal_Chain
begin

text \<open>
  \<open>packages/archive/src/sqlite.ts\<close>, the tables and the write path of messages, transitions and seals.

  A table is the list of its rows in rowid order; the database is the record of the tables. A column
  that holds JSON text written and read by \<open>JSON.stringify\<close> and \<open>JSON.parse\<close> holds the value; a
  nullable column is an option. Primary keys, \<open>UNIQUE\<close> and foreign keys are checked where a statement
  can violate them, and a violation throws \<open>Constraint\<close>. Each statement commits by itself: a handler
  that throws keeps what it wrote before. \<open>db_seq\<close> is the last id of each \<open>AUTOINCREMENT\<close> table.
  \<open>sha\<close> is SHA-256 in hex (\<open>node:crypto\<close>); the readings of the clock are arguments.
\<close>

section \<open>Tables\<close>

record message_row =
  mr_id :: string
  mr_genre :: "string option"
  mr_message :: envelope                     \<comment> \<open>\<open>payload_json\<close>: the whole envelope\<close>
  mr_seal_chain :: "seal_record list"
  mr_origin_node_id :: "string option"
  mr_vector_clock :: "json option"
  mr_content_hash :: "string option"
  mr_constitutional :: bool
  mr_superseded_by :: "string option"
  mr_received_at :: iso
  mr_submitted_at :: "iso option"
  mr_archived_at :: "iso option"

record transition_row =
  tr_id :: nat
  tr_messageId :: string
  tr_fromState :: message_state
  tr_toState :: message_state
  tr_sequenceNo :: int
  tr_actorId :: "string option"
  tr_sealedAt :: "iso option"
  tr_reason :: "string option"
  tr_prevHash :: "string option"
  tr_hash :: string
  tr_at :: iso

record docket_row =
  dk_id :: string
  dk_messageId :: string
  dk_attempts :: nat
  dk_availableAt :: iso

record idempotency_row =
  ik_key :: string
  ik_responseJson :: string
  ik_expiresAt :: iso
  ik_createdAt :: iso

record approval_row =
  oa_messageId :: string
  oa_office :: string
  oa_approvedAt :: iso

record migration_row =
  mg_version :: nat
  mg_hash :: string
  mg_prevHash :: "string option"
  mg_appliedAt :: iso

record edict_row =
  er_messageId :: string
  er_lawType :: string
  er_version :: string
  er_content :: json
  er_precedence :: rat
  er_effectiveDate :: iso
  er_supersededEdictId :: "string option"
  er_sealedAt :: iso

record ti_row =
  ti_messageId :: string
  ti_targetGenre :: string
  ti_version :: string
  ti_schema :: json
  ti_supersededBy :: "string option"
  ti_sealedAt :: iso

record archive_state_row =
  as_scope :: string
  as_merkleRoot :: string
  as_updatedAt :: iso

record content_row =
  cs_hash :: string
  cs_blob :: bytes
  cs_refCount :: nat

record gossip_row =
  gl_id :: nat
  gl_messageId :: string
  gl_peerNodeId :: string
  gl_sealSeq :: int
  gl_receivedAt :: iso
  gl_kind :: string

record foreign_sync_row =
  fs_documentId :: string
  fs_adapterId :: string
  fs_adapterProtocol :: string
  fs_foreignId :: string
  fs_foreignVectorClockJson :: "string option"
  fs_lastSyncAt :: iso
  fs_conflictStatus :: string
  fs_lastError :: "string option"

record foreign_rejected_row =
  fr_id :: nat
  fr_adapterId :: string
  fr_foreignId :: "string option"
  fr_reasonCode :: string
  fr_reasonDetail :: "string option"
  fr_payloadJson :: "string option"
  fr_receivedAt :: iso

datatype outbound_status = Queued | Sending | Failed_status | Sent

record outbound_row =
  bo_id :: nat
  bo_adapterId :: string
  bo_messageId :: string
  bo_attempts :: nat
  bo_availableAt :: iso
  bo_lastError :: "string option"
  bo_status :: outbound_status

record dead_letter_row =
  dl_id :: nat
  dl_adapterId :: string
  dl_messageId :: "string option"
  dl_payloadJson :: string
  dl_reason :: string
  dl_attempts :: nat
  dl_nextRetryAt :: iso
  dl_createdAt :: iso

record site_row =
  sr_key :: string
  sr_value :: json
  sr_updatedAt :: iso

record seal0_row =
  s0_id :: string
  s0_document_id :: "string option"
  s0_actor_id :: string
  s0_genre :: "string option"
  s0_query_timestamp :: iso
  s0_query_parameters_hash :: string
  s0_result_hash :: string
  s0_result_status :: string
  s0_reason :: "string option"
  s0_signature :: string
  s0_trace_id :: "string option"
  s0_node_id :: "string option"

record alert_row =
  al_id :: string
  al_alertType :: string
  al_severity :: string
  al_actorId :: "string option"
  al_nodeId :: "string option"
  al_evidence :: obj
  al_createdAt :: iso
  al_actionTaken :: "string option"

record checkpoint_row =
  ck_id :: string
  ck_scope :: string
  ck_merkleRoot :: string
  ck_sealCount :: int
  ck_nodeSignatures :: "string list"
  ck_createdAt :: iso

record db =
  db_messages :: "message_row list"
  db_transitions :: "transition_row list"
  db_seals :: "seal_record list"
  db_docket :: "docket_row list"
  db_idempotency :: "idempotency_row list"
  db_approvals :: "approval_row list"
  db_migrations :: "migration_row list"
  db_edicts :: "edict_row list"
  db_ti :: "ti_row list"
  db_state :: "archive_state_row list"
  db_content :: "content_row list"
  db_gossip :: "gossip_row list"
  db_foreign_sync :: "foreign_sync_row list"
  db_foreign_rejected :: "foreign_rejected_row list"
  db_outbound :: "outbound_row list"
  db_dead_letter :: "dead_letter_row list"
  db_site :: "site_row list"
  db_seal0 :: "seal0_row list"
  db_alerts :: "alert_row list"
  db_checkpoints :: "checkpoint_row list"
  db_seq :: "string \<Rightarrow> nat"

definition empty_db :: db where
  "empty_db = \<lparr>db_messages = [], db_transitions = [], db_seals = [], db_docket = [], db_idempotency = [],
     db_approvals = [], db_migrations = [], db_edicts = [], db_ti = [], db_state = [], db_content = [],
     db_gossip = [], db_foreign_sync = [], db_foreign_rejected = [], db_outbound = [], db_dead_letter = [],
     db_site = [], db_seal0 = [], db_alerts = [], db_checkpoints = [], db_seq = (\<lambda>_. 0)\<rparr>"

definition message_ids :: "db \<Rightarrow> string set" where
  "message_ids d = set (map mr_id (db_messages d))"

definition next_id :: "string \<Rightarrow> db \<Rightarrow> nat" where
  "next_id table d = Suc (db_seq d table)"

definition use_id :: "string \<Rightarrow> db \<Rightarrow> db" where
  "use_id table d = d\<lparr>db_seq := (db_seq d)(table := Suc (db_seq d table))\<rparr>"

section \<open>JavaScript conversions the write path uses\<close>

text \<open>\<open>Number(x)\<close>, with the hexadecimal, octal and binary literals; \<open>None\<close> is \<open>NaN\<close>, and \<open>Infinity\<close>, which is no rational, is read as \<open>NaN\<close> too.\<close>

definition digit_in :: "nat \<Rightarrow> char \<Rightarrow> nat option" where
  "digit_in base c =
     (let n = of_char c; v = (if 48 \<le> n \<and> n \<le> 57 then n - 48 else if 65 \<le> n \<and> n \<le> 70 then n - 55 else if 97 \<le> n \<and> n \<le> 102 then n - 87 else 16)
      in if v < base then Some v else None)"

fun digits_in :: "nat \<Rightarrow> string \<Rightarrow> nat \<Rightarrow> nat option" where
  "digits_in base [] acc = Some acc"
| "digits_in base (c # cs) acc = (case digit_in base c of None \<Rightarrow> None | Some v \<Rightarrow> digits_in base cs (base * acc + v))"

definition radix_of :: "char \<Rightarrow> nat option" where
  "radix_of c = map_of [(CHR ''x'', 16), (CHR ''X'', 16), (CHR ''o'', 8), (CHR ''O'', 8), (CHR ''b'', 2), (CHR ''B'', 2)] c"

definition radix_literal :: "string \<Rightarrow> nat option" where
  "radix_literal t =
     (case t of
        z # r # c # cs \<Rightarrow> (if z = CHR ''0'' then Option.bind (radix_of r) (\<lambda>base. digits_in base (c # cs) 0) else None)
      | _ \<Rightarrow> None)"

definition str_Number :: "string \<Rightarrow> rat option" where
  "str_Number s =
     (let t = rev (skip_ws (rev (skip_ws s)));
          neg = (t \<noteq> [] \<and> hd t = CHR ''-'');
          u = (if t \<noteq> [] \<and> (hd t = CHR ''-'' \<or> hd t = CHR ''+'') then tl t else t);
          ds = takeWhile is_digit u; r = dropWhile is_digit u;
          fs = (if r \<noteq> [] \<and> hd r = CHR ''.'' then takeWhile is_digit (tl r) else []);
          r2 = (if r \<noteq> [] \<and> hd r = CHR ''.'' then dropWhile is_digit (tl r) else r)
      in if t = [] then Some 0
         else if radix_literal t \<noteq> None then map_option of_nat (radix_literal t)
         else if ds = [] \<and> fs = [] then None
         else case parse_exp r2 of
            Some (e, []) \<Rightarrow>
              (let v = of_nat (digits_val (ds @ fs)) / 10 ^ length fs;
                   w = (if 0 \<le> e then v * 10 ^ nat e else v / 10 ^ nat (- e))
               in Some (if neg then - w else w))
          | _ \<Rightarrow> None)"

fun js_Number :: "json \<Rightarrow> rat option" where
  "js_Number JNull = Some 0"
| "js_Number (JBool b) = Some (if b then 1 else 0)"
| "js_Number (JNum m e) = Some (of_int m / 10 ^ e)"
| "js_Number (JStr s) = str_Number s"
| "js_Number (JArr xs) = str_Number (js_String (JArr xs))"
| "js_Number (JObj ps) = None"

definition opt_json :: "string option \<Rightarrow> json" where
  "opt_json x = (case x of None \<Rightarrow> JNull | Some s \<Rightarrow> JStr s)"

section \<open>Messages\<close>

definition is_constitutional :: "envelope \<Rightarrow> bool" where
  "is_constitutional m \<longleftrightarrow>
     e_genre m = ''ti_definition'' \<or> obj_get (e_metadata m) ''constitutional'' = Some (JBool True)"

definition superseded_by_of :: "obj \<Rightarrow> string option" where
  "superseded_by_of payload =
     (case as_str (obj_get payload ''superseded_by'') of Some s \<Rightarrow> Some s
      | None \<Rightarrow> as_str (obj_get payload ''superseded_edict_id''))"

definition consort_of :: "envelope \<Rightarrow> obj" where
  "consort_of m = (case obj_get (e_metadata m) ''consort'' of Some (JObj ps) \<Rightarrow> ps | _ \<Rightarrow> [])"

definition origin_node_of :: "envelope \<Rightarrow> string" where
  "origin_node_of m =
     (case as_str (obj_get (consort_of m) ''origin_node_id'') of Some s \<Rightarrow> s | None \<Rightarrow> ''local-node'')"

definition vector_clock_of :: "envelope \<Rightarrow> json" where
  "vector_clock_of m =
     (case obj_get (consort_of m) ''vector_clock'' of
        Some (JObj ps) \<Rightarrow> JObj ps
      | Some (JArr xs) \<Rightarrow> JArr xs
      | _ \<Rightarrow> JObj [(origin_node_of m, JNum 1 0)])"

definition message_row_of :: "(string \<Rightarrow> string) \<Rightarrow> iso \<Rightarrow> envelope \<Rightarrow> message_row" where
  "message_row_of sha now m = \<lparr>mr_id = e_id m, mr_genre = Some (e_genre m), mr_message = m, mr_seal_chain = [],
     mr_origin_node_id = Some (origin_node_of m), mr_vector_clock = Some (vector_clock_of m),
     mr_content_hash = Some (sha (stringify (JObj (e_payload m)))),
     mr_constitutional = is_constitutional m, mr_superseded_by = superseded_by_of (e_payload m),
     mr_received_at = now, mr_submitted_at = Some (e_submittedAt m), mr_archived_at = None\<rparr>"

definition fk_ok :: "string option \<Rightarrow> string set \<Rightarrow> bool" where
  "fk_ok k ids \<longleftrightarrow> (case k of None \<Rightarrow> True | Some x \<Rightarrow> x \<in> ids)"

definition appendMessage :: "(string \<Rightarrow> string) \<Rightarrow> iso \<Rightarrow> envelope \<Rightarrow> db \<Rightarrow> (db, unit) out" where
  "appendMessage sha now m d =
     (if e_id m \<in> message_ids d then Fail (Constraint ''UNIQUE messages.id'') d
      else if \<not> fk_ok (superseded_by_of (e_payload m)) (insert (e_id m) (message_ids d))
      then Fail (Constraint ''FOREIGN KEY'') d
      else Done () (d\<lparr>db_messages := db_messages d @ [message_row_of sha now m]\<rparr>))"

definition getMessage :: "string \<Rightarrow> db \<Rightarrow> envelope option" where
  "getMessage messageId d = map_option mr_message (find_row mr_id messageId (db_messages d))"

definition update_message :: "string \<Rightarrow> (message_row \<Rightarrow> message_row) \<Rightarrow> db \<Rightarrow> db" where
  "update_message messageId f d =
     d\<lparr>db_messages := update_where (\<lambda>r. mr_id r = messageId) f (db_messages d)\<rparr>"

section \<open>The indexes of archived edicts and TI definitions\<close>

definition edict_row_of :: "envelope \<Rightarrow> string \<Rightarrow> rat \<Rightarrow> iso \<Rightarrow> edict_row" where
  "edict_row_of m lawType precedence sealedAt =
     (let payload = e_payload m; sup = obj_get payload ''superseded_edict_id'' in
      \<lparr>er_messageId = e_id m, er_lawType = lawType,
       er_version = js_String (nullish (obj_get payload ''version'') (JStr ''1.0.0'')),
       er_content = nullish (obj_get payload ''content'') (JObj []),
       er_precedence = precedence,
       er_effectiveDate = js_String (nullish (obj_get payload ''effective_date'') (JStr (e_submittedAt m))),
       er_supersededEdictId = (case sup of None \<Rightarrow> None | Some j \<Rightarrow> if truthy j then Some (js_String j) else None),
       er_sealedAt = sealedAt\<rparr>)"

definition ti_row_of :: "envelope \<Rightarrow> string \<Rightarrow> iso \<Rightarrow> ti_row" where
  "ti_row_of m targetGenre sealedAt =
     (let payload = e_payload m; sup = obj_get payload ''superseded_by'' in
      \<lparr>ti_messageId = e_id m, ti_targetGenre = targetGenre,
       ti_version = js_String (nullish (obj_get payload ''version'') (JStr ''1.0.0'')),
       ti_schema = nullish (obj_get payload ''schema'') (JObj []),
       ti_supersededBy = (case sup of None \<Rightarrow> None | Some j \<Rightarrow> if truthy j then Some (js_String j) else None),
       ti_sealedAt = sealedAt\<rparr>)"

text \<open>A precedence that is \<open>NaN\<close> is stored as \<open>NULL\<close> and violates \<open>NOT NULL\<close>.\<close>

definition indexArchivedMessage :: "string \<Rightarrow> iso \<Rightarrow> db \<Rightarrow> (db, unit) out" where
  "indexArchivedMessage messageId sealedAt d =
     (case getMessage messageId d of
        None \<Rightarrow> Done () d
      | Some m \<Rightarrow>
        (let sup = superseded_by_of (e_payload m);
             d1 = update_message messageId
                (\<lambda>r. r\<lparr>mr_constitutional := is_constitutional m, mr_superseded_by := sup\<rparr>) d
         in if \<not> fk_ok sup (message_ids d) then Fail (Constraint ''FOREIGN KEY'') d
            else if e_genre m = ''edict'' then
              (case as_str (obj_get (e_payload m) ''law_type'') of
                 None \<Rightarrow> Done () d1
               | Some lawType \<Rightarrow>
                   (case js_Number (nullish (obj_get (e_payload m) ''precedence'') (JNum 0 0)) of
                      None \<Rightarrow> Fail (Constraint ''NOT NULL edict_index.precedence'') d1
                    | Some p \<Rightarrow>
                        (let row = (edict_row_of m lawType p sealedAt)\<lparr>er_messageId := messageId\<rparr>
                         in Done () (d1\<lparr>db_edicts := upsert er_messageId row (\<lambda>_. row) (db_edicts d1)\<rparr>))))
            else if e_genre m = ''ti_definition'' then
              (case as_str (obj_get (e_payload m) ''target_genre'') of
                 None \<Rightarrow> Done () d1
               | Some targetGenre \<Rightarrow>
                   (let row = (ti_row_of m targetGenre sealedAt)\<lparr>ti_messageId := messageId\<rparr>
                    in Done () (d1\<lparr>db_ti := upsert ti_messageId row (\<lambda>_. row) (db_ti d1)\<rparr>)))
            else Done () d1))"

section \<open>Transitions\<close>

definition rows_of :: "string \<Rightarrow> db \<Rightarrow> transition_row list" where
  "rows_of messageId d = filter (\<lambda>r. tr_messageId r = messageId) (db_transitions d)"

definition last_row :: "string \<Rightarrow> db \<Rightarrow> transition_row option" where
  "last_row messageId d = first_row (order_desc tr_sequenceNo (rows_of messageId d))"

definition snapshotState :: "string \<Rightarrow> db \<Rightarrow> message_state option" where
  "snapshotState messageId d = map_option tr_toState (last_row messageId d)"

text \<open>What the hash of a transition covers.\<close>

definition transition_json :: "transition \<Rightarrow> string \<Rightarrow> json" where
  "transition_json t prevTransitionHash = JObj [
     (''messageId'', JStr (t_messageId t)), (''fromState'', JStr (state_str (t_fromState t))),
     (''toState'', JStr (state_str (t_toState t))), (''sequenceNo'', json_int (t_sequenceNo t)),
     (''actorId'', opt_json (t_actorId t)), (''prevTransitionHash'', JStr prevTransitionHash),
     (''at'', JStr (t_at t))]"

definition prev_hash_for :: "transition \<Rightarrow> db \<Rightarrow> string" where
  "prev_hash_for t d =
     (case t_prevTransitionHash t of Some h \<Rightarrow> h
      | None \<Rightarrow> (case last_row (t_messageId t) d of Some r \<Rightarrow> tr_hash r | None \<Rightarrow> ''GENESIS''))"

definition transition_row_of :: "(string \<Rightarrow> string) \<Rightarrow> nat \<Rightarrow> transition \<Rightarrow> string \<Rightarrow> transition_row" where
  "transition_row_of sha i t prevTransitionHash =
     \<lparr>tr_id = i, tr_messageId = t_messageId t, tr_fromState = t_fromState t, tr_toState = t_toState t,
      tr_sequenceNo = t_sequenceNo t, tr_actorId = t_actorId t, tr_sealedAt = t_sealedAt t,
      tr_reason = t_reason t, tr_prevHash = Some prevTransitionHash,
      tr_hash = sha (stringify (transition_json t prevTransitionHash)), tr_at = t_at t\<rparr>"

definition transition_of_row :: "transition_row \<Rightarrow> transition" where
  "transition_of_row r = \<lparr>t_messageId = tr_messageId r, t_fromState = tr_fromState r, t_toState = tr_toState r,
     t_sequenceNo = tr_sequenceNo r, t_actorId = tr_actorId r, t_reason = tr_reason r,
     t_sealedAt = tr_sealedAt r, t_prevTransitionHash = tr_prevHash r, t_at = tr_at r\<rparr>"

definition appendTransition :: "(string \<Rightarrow> string) \<Rightarrow> transition \<Rightarrow> db \<Rightarrow> (db, unit) out" where
  "appendTransition sha t d =
     (let current = (case snapshotState (t_messageId t) d of None \<Rightarrow> Pending | Some s \<Rightarrow> s) in
      if \<not> canTransition current (t_toState t) \<and> current \<noteq> t_fromState t
      then Fail (Error_msg (''Invalid transition '' @ state_str current @ '' -> '' @ state_str (t_toState t))) d
      else if t_messageId t \<notin> message_ids d then Fail (Constraint ''FOREIGN KEY'') d
      else if t_sequenceNo t \<in> tr_sequenceNo ` set (rows_of (t_messageId t) d)
      then Fail (Constraint ''UNIQUE transitions.message_id, transitions.sequence_no'') d
      else
       (let row = transition_row_of sha (next_id ''transitions'' d) t (prev_hash_for t d);
            d1 = use_id ''transitions'' (d\<lparr>db_transitions := db_transitions d @ [row]\<rparr>)
        in if t_toState t = Archived
           then (let sealedAt = (case t_sealedAt t of Some s \<Rightarrow> s | None \<Rightarrow> t_at t);
                     d2 = update_message (t_messageId t) (\<lambda>r. r\<lparr>mr_archived_at := Some sealedAt\<rparr>) d1
                 in indexArchivedMessage (t_messageId t) sealedAt d2)
           else Done () d1))"

definition getTransitions :: "string \<Rightarrow> db \<Rightarrow> transition list" where
  "getTransitions messageId d = map transition_of_row (order_asc tr_sequenceNo (rows_of messageId d))"

definition stateAt :: "string \<Rightarrow> iso \<Rightarrow> db \<Rightarrow> message_state option" where
  "stateAt messageId timestampIso d =
     map_option tr_toState (first_row (order_desc tr_sequenceNo
       (filter (\<lambda>r. case tr_sealedAt r of None \<Rightarrow> False | Some s \<Rightarrow> s \<le> timestampIso) (rows_of messageId d))))"

section \<open>query.ts and replay.ts\<close>

definition stateAtFromTransitions :: "transition list \<Rightarrow> iso \<Rightarrow> message_state" where
  "stateAtFromTransitions transitions atIso =
     (let candidate = first_row (order_desc t_sequenceNo
        (filter (\<lambda>t. (case t_sealedAt t of Some s \<Rightarrow> s | None \<Rightarrow> t_at t) \<le> atIso) transitions))
      in case candidate of None \<Rightarrow> Pending | Some t \<Rightarrow> t_toState t)"

definition replay :: "transition list \<Rightarrow> message_state" where
  "replay transitions = foldl (\<lambda>_ t. t_toState t) Pending (order_asc t_sequenceNo transitions)"

section \<open>Seals\<close>

definition getSeals :: "string \<Rightarrow> db \<Rightarrow> seal_record list" where
  "getSeals messageId d = order_asc s_createdAt (filter (\<lambda>s. s_messageId s = messageId) (db_seals d))"

definition appendSeal :: "seal_record \<Rightarrow> db \<Rightarrow> (db, unit) out" where
  "appendSeal seal d =
     (if s_sealId seal \<in> s_sealId ` set (db_seals d) then Fail (Constraint ''UNIQUE seals.seal_id'') d
      else if s_messageId seal \<notin> message_ids d then Fail (Constraint ''FOREIGN KEY'') d
      else (let d1 = d\<lparr>db_seals := db_seals d @ [seal]\<rparr>;
                seals = getSeals (s_messageId seal) d1
            in Done () (update_message (s_messageId seal) (\<lambda>r. r\<lparr>mr_seal_chain := seals\<rparr>) d1)))"

end
