(* ===== verification/Archive_Log.thy ===== *)
theory Archive_Log
  imports Archive_Db
begin

text \<open>
  What the transition log of \<open>sqlite.ts\<close> keeps: the table invariant, the current state as a replay of
  the log, the guard of \<open>appendTransition\<close>, and the hash chain of a message.
\<close>

section \<open>The table invariant\<close>

definition log_key :: "transition_row \<Rightarrow> string \<times> int" where
  "log_key r = (tr_messageId r, tr_sequenceNo r)"

definition row_hashed :: "transition_row \<Rightarrow> json" where
  "row_hashed r = transition_json (transition_of_row r)
     (case tr_prevHash r of None \<Rightarrow> [] | Some h \<Rightarrow> h)"

definition row_ok :: "(string \<Rightarrow> string) \<Rightarrow> transition_row \<Rightarrow> bool" where
  "row_ok sha r \<longleftrightarrow> tr_prevHash r \<noteq> None \<and> tr_hash r = sha (stringify (row_hashed r))"

text \<open>
  Keys are unique, foreign keys are met, ids come from the counter, and a row stores its own hash.
\<close>

definition archive_inv :: "(string \<Rightarrow> string) \<Rightarrow> db \<Rightarrow> bool" where
  "archive_inv sha d \<longleftrightarrow>
     distinct (map mr_id (db_messages d)) \<and> (\<forall>r\<in>set (db_messages d). e_id (mr_message r) = mr_id r)
     \<and> distinct (map log_key (db_transitions d))
     \<and> (\<forall>r\<in>set (db_transitions d). tr_messageId r \<in> message_ids d \<and> row_ok sha r
          \<and> tr_id r \<le> db_seq d ''transitions'')
     \<and> sorted_wrt (<) (map tr_id (db_transitions d))
     \<and> distinct (map s_sealId (db_seals d)) \<and> (\<forall>s\<in>set (db_seals d). s_messageId s \<in> message_ids d)
     \<and> distinct (map er_messageId (db_edicts d)) \<and> er_messageId ` set (db_edicts d) \<subseteq> message_ids d
     \<and> distinct (map ti_messageId (db_ti d)) \<and> ti_messageId ` set (db_ti d) \<subseteq> message_ids d"

lemma archive_inv_empty: "archive_inv sha empty_db"
  by (simp add: archive_inv_def empty_db_def)

lemma message_ids_update [simp]:
  "(\<And>r. mr_id (f r) = mr_id r) \<Longrightarrow> message_ids (update_message i f d) = message_ids d"
  by (simp add: message_ids_def update_message_def map_update_where)

lemma update_message_frame [frame_simps]:
  "db_transitions (update_message i f d) = db_transitions d"
  "db_seals (update_message i f d) = db_seals d"
  "db_edicts (update_message i f d) = db_edicts d"
  "db_ti (update_message i f d) = db_ti d"
  "db_seq (update_message i f d) = db_seq d"
  by (simp_all add: update_message_def)

lemma archive_inv_update_message:
  assumes "archive_inv sha d" "\<And>r. mr_id (f r) = mr_id r" "\<And>r. mr_message (f r) = mr_message r"
  shows "archive_inv sha (update_message i f d)"
proof -
  have "distinct (map mr_id (db_messages (update_message i f d)))"
    using assms(1,2) by (simp add: update_message_def map_update_where archive_inv_def)
  moreover have "\<forall>r\<in>set (db_messages (update_message i f d)). e_id (mr_message r) = mr_id r"
    using assms by (auto simp: update_message_def update_where_def archive_inv_def)
  ultimately show ?thesis
    using assms(1,2) by (simp add: archive_inv_def frame_simps)
qed

lemma message_ids_frame [simp]:
  "message_ids (db_edicts_update f d) = message_ids d" "message_ids (db_ti_update g d) = message_ids d"
  "message_ids (db_seals_update h d) = message_ids d" "message_ids (db_transitions_update u d) = message_ids d"
  "message_ids (db_seq_update v d) = message_ids d"
  by (simp_all add: message_ids_def)

lemma keys_upsert: "key ` set (upsert key row (\<lambda>_. row) xs) \<subseteq> insert (key row) (key ` set xs)"
  by (auto simp: upsert_def update_where_def split: if_splits)

lemma archive_inv_edict:
  assumes "archive_inv sha d" "er_messageId row \<in> message_ids d"
  shows "archive_inv sha (d\<lparr>db_edicts := upsert er_messageId row (\<lambda>_. row) (db_edicts d)\<rparr>)"
proof -
  have "er_messageId ` set (upsert er_messageId row (\<lambda>_. row) (db_edicts d)) \<subseteq> message_ids d"
    by (rule order_trans [OF keys_upsert]) (use assms in \<open>simp add: archive_inv_def\<close>)
  moreover have "distinct (map er_messageId (upsert er_messageId row (\<lambda>_. row) (db_edicts d)))"
    using assms(1) by (intro distinct_upsert) (simp_all add: archive_inv_def)
  ultimately show ?thesis using assms(1) by (simp add: archive_inv_def)
qed

lemma archive_inv_ti:
  assumes "archive_inv sha d" "ti_messageId row \<in> message_ids d"
  shows "archive_inv sha (d\<lparr>db_ti := upsert ti_messageId row (\<lambda>_. row) (db_ti d)\<rparr>)"
proof -
  have "ti_messageId ` set (upsert ti_messageId row (\<lambda>_. row) (db_ti d)) \<subseteq> message_ids d"
    by (rule order_trans [OF keys_upsert]) (use assms in \<open>simp add: archive_inv_def\<close>)
  moreover have "distinct (map ti_messageId (upsert ti_messageId row (\<lambda>_. row) (db_ti d)))"
    using assms(1) by (intro distinct_upsert) (simp_all add: archive_inv_def)
  ultimately show ?thesis using assms(1) by (simp add: archive_inv_def)
qed

lemma getMessage_id: "getMessage i d = Some m \<Longrightarrow> i \<in> message_ids d"
  by (auto simp: getMessage_def message_ids_def dest: find_row_Some_in)

lemma index_inv:
  assumes "archive_inv sha d"
  shows "archive_inv sha (out_state (indexArchivedMessage i t d))"
proof (cases "getMessage i d")
  case (Some m)
  let ?d1 = "update_message i (\<lambda>r. r\<lparr>mr_constitutional := is_constitutional m,
    mr_superseded_by := superseded_by_of (e_payload m)\<rparr>) d"
  have d1: "archive_inv sha ?d1" by (rule archive_inv_update_message [OF assms]) simp_all
  have i: "i \<in> message_ids ?d1" using getMessage_id [OF Some] by simp
  from Some assms d1 i show ?thesis
    by (auto simp: indexArchivedMessage_def Let_def intro!: archive_inv_edict archive_inv_ti
        split: option.splits)
qed (simp add: indexArchivedMessage_def assms)

lemma appendMessage_inv: "archive_inv sha d \<Longrightarrow> archive_inv sha (out_state (appendMessage sha now m d))"
  by (auto simp: appendMessage_def archive_inv_def message_ids_def message_row_of_def)

lemma appendSeal_inv: "archive_inv sha d \<Longrightarrow> archive_inv sha (out_state (appendSeal s d))"
proof -
  assume inv: "archive_inv sha d"
  then have "archive_inv sha (d\<lparr>db_seals := db_seals d @ [s]\<rparr>)"
    if "s_sealId s \<notin> s_sealId ` set (db_seals d)" "s_messageId s \<in> message_ids d"
    using that by (auto simp: archive_inv_def message_ids_def)
  with inv show ?thesis
    by (auto simp: appendSeal_def Let_def intro!: archive_inv_update_message)
qed

lemma row_ok_new: "row_ok sha (transition_row_of sha i t p)"
  by (simp add: row_ok_def row_hashed_def transition_row_of_def transition_of_row_def transition_json_def)

lemma appendTransition_row_inv:
  assumes "archive_inv sha d" "t_messageId t \<in> message_ids d"
    "t_sequenceNo t \<notin> tr_sequenceNo ` set (rows_of (t_messageId t) d)"
  shows "archive_inv sha (use_id ''transitions'' (d\<lparr>db_transitions := db_transitions d @
    [transition_row_of sha (next_id ''transitions'' d) t p]\<rparr>))"
proof -
  let ?r = "transition_row_of sha (next_id ''transitions'' d) t p"
  have f: "tr_messageId ?r = t_messageId t" "tr_sequenceNo ?r = t_sequenceNo t"
    "tr_id ?r = Suc (db_seq d ''transitions'')"
    by (simp_all add: transition_row_of_def next_id_def)
  have "log_key ?r \<notin> log_key ` set (db_transitions d)"
    using assms(3) by (auto simp: log_key_def f rows_of_def)
  moreover have "\<forall>r\<in>set (db_transitions d). tr_id r < tr_id ?r"
    using assms(1) by (auto simp: archive_inv_def f)
  ultimately show ?thesis
    using assms(1,2) row_ok_new [of sha "next_id ''transitions'' d" t p]
    by (auto simp: archive_inv_def use_id_def message_ids_def f sorted_wrt_append)
qed

lemma appendTransition_inv:
  assumes "archive_inv sha d"
  shows "archive_inv sha (out_state (appendTransition sha t d))"
  using appendTransition_row_inv [OF assms, of t] assms
  by (auto simp: appendTransition_def Let_def intro!: index_inv archive_inv_update_message)

section \<open>The log of a message\<close>

definition log_of :: "string \<Rightarrow> db \<Rightarrow> transition_row list" where
  "log_of i d = order_asc tr_sequenceNo (rows_of i d)"

lemma rows_distinct: "archive_inv sha d \<Longrightarrow> distinct (map tr_sequenceNo (rows_of i d))"
  unfolding archive_inv_def rows_of_def log_key_def
  by (auto simp: distinct_map inj_on_def)

lemma last_row_log:
  assumes "archive_inv sha d"
  shows "last_row i d = (if log_of i d = [] then None else Some (last (log_of i d)))"
  using order_desc_rev [OF rows_distinct [OF assms, of i]]
  by (simp add: last_row_def log_of_def first_row_rev)

lemma getTransitions_log: "getTransitions i d = map transition_of_row (log_of i d)"
  by (simp add: getTransitions_def log_of_def)

lemma log_ok:
  assumes "archive_inv sha d" "r \<in> set (log_of i d)"
  shows "tr_messageId r = i" "row_ok sha r"
  using assms by (auto simp: log_of_def rows_of_def archive_inv_def)

lemma rows_of_append [simp]:
  "rows_of i (use_id s (d\<lparr>db_transitions := db_transitions d @ [r]\<rparr>)) =
    (if tr_messageId r = i then rows_of i d @ [r] else rows_of i d)"
  by (simp add: rows_of_def use_id_def)

lemma index_transitions: "db_transitions (out_state (indexArchivedMessage i t d)) = db_transitions d"
  by (auto simp: indexArchivedMessage_def Let_def frame_simps split: option.splits)

lemma index_Done: "indexArchivedMessage i t d = Done u d' \<Longrightarrow> db_transitions d' = db_transitions d"
  by (metis index_transitions out_state_simps(1))

lemma rows_of_cong: "db_transitions d = db_transitions d' \<Longrightarrow> rows_of i d = rows_of i d'"
  by (simp add: rows_of_def)

lemma appendTransition_rows:
  assumes "appendTransition sha t d = Done () d'"
  shows "rows_of i d' = (if t_messageId t = i
    then rows_of i d @ [transition_row_of sha (next_id ''transitions'' d) t (prev_hash_for t d)]
    else rows_of i d)"
proof -
  let ?r = "transition_row_of sha (next_id ''transitions'' d) t (prev_hash_for t d)"
  have "db_transitions d' = db_transitions (use_id ''transitions'' (d\<lparr>db_transitions := db_transitions d @ [?r]\<rparr>))"
    using assms
    by (auto simp: appendTransition_def Let_def frame_simps split: if_splits dest!: index_Done)
  then show ?thesis
    using rows_of_append [of i "''transitions''" d ?r] rows_of_cong
    by (simp add: transition_row_of_def)
qed

interpretation log: hash_chain "\<lambda>j. sha (stringify j)" row_hashed
  "\<lambda>r. case tr_prevHash r of None \<Rightarrow> [] | Some h \<Rightarrow> h" "\<lambda>h. h" for sha :: "string \<Rightarrow> string"
  by unfold_locales (auto simp: row_hashed_def transition_json_def)

lemma rows_new_distinct:
  "appendTransition sha t d = Done u d' \<Longrightarrow>
    t_messageId t \<in> message_ids d \<and> t_sequenceNo t \<notin> tr_sequenceNo ` set (rows_of (t_messageId t) d)"
  by (auto simp: appendTransition_def Let_def split: if_splits)

definition above_log :: "transition \<Rightarrow> db \<Rightarrow> bool" where
  "above_log t d \<longleftrightarrow> (\<forall>r\<in>set (rows_of (t_messageId t) d). tr_sequenceNo r < t_sequenceNo t)"

lemma appendTransition_log:
  assumes inv: "archive_inv sha d" and ok: "appendTransition sha t d = Done () d'" and above: "above_log t d"
  shows "log_of (t_messageId t) d' = log_of (t_messageId t) d @
    [transition_row_of sha (next_id ''transitions'' d) t (prev_hash_for t d)]"
  unfolding log_of_def appendTransition_rows [OF ok] if_P [OF refl]
  using rows_distinct [OF inv] above
  by (intro order_asc_snoc) (simp_all add: above_log_def transition_row_of_def)

lemma row_new_hash: "tr_hash (transition_row_of sha i t p) = sha (stringify (row_hashed (transition_row_of sha i t p)))"
  using row_ok_new [of sha i t p] by (simp add: row_ok_def)

lemma tip_log:
  assumes "archive_inv sha d" "t_prevTransitionHash t = None"
  shows "log.tip sha ''GENESIS'' (log_of (t_messageId t) d) = prev_hash_for t d"
proof (cases "log_of (t_messageId t) d" rule: rev_cases)
  case (snoc rs r)
  then have "tr_hash r = sha (stringify (row_hashed r))"
    using log_ok(2) [OF assms(1), of r "t_messageId t"] by (simp add: row_ok_def)
  with snoc assms(2) last_row_log [OF assms(1), of "t_messageId t"] show ?thesis
    by (simp add: prev_hash_for_def)
qed (use assms last_row_log [OF assms(1)] in \<open>simp add: prev_hash_for_def\<close>)

lemma linked_append:
  assumes "archive_inv sha d" "appendTransition sha t d = Done () d'" "above_log t d"
    "t_prevTransitionHash t = None" "log.linked sha ''GENESIS'' (log_of (t_messageId t) d)"
  shows "log.linked sha ''GENESIS'' (log_of (t_messageId t) d')"
  using assms(5) tip_log [OF assms(1,4)]
  by (simp add: appendTransition_log [OF assms(1-3)] transition_row_of_def)

section \<open>Runs of the write path\<close>

inductive archive_step :: "(string \<Rightarrow> string) \<Rightarrow> db \<Rightarrow> db \<Rightarrow> bool" for sha where
  step_message: "d' = out_state (appendMessage sha now m d) \<Longrightarrow> archive_step sha d d'"
| step_transition: "d' = out_state (appendTransition sha t d) \<Longrightarrow> archive_step sha d d'"
| step_seal: "d' = out_state (appendSeal s d) \<Longrightarrow> archive_step sha d d'"

inductive_cases archive_stepE: "archive_step sha d d'"

inductive archive_reachable :: "(string \<Rightarrow> string) \<Rightarrow> db \<Rightarrow> bool" for sha where
  reach_empty: "archive_reachable sha empty_db"
| reach_step: "archive_reachable sha d \<Longrightarrow> archive_step sha d d' \<Longrightarrow> archive_reachable sha d'"

lemma archive_step_inv: "archive_step sha d d' \<Longrightarrow> archive_inv sha d \<Longrightarrow> archive_inv sha d'"
  by (auto elim!: archive_stepE simp: appendMessage_inv appendTransition_inv appendSeal_inv)

lemma reachable_inv: "archive_reachable sha d \<Longrightarrow> archive_inv sha d"
  by (induction rule: archive_reachable.induct) (auto simp: archive_inv_empty intro: archive_step_inv)

fun append_all :: "(string \<Rightarrow> string) \<Rightarrow> transition list \<Rightarrow> db \<Rightarrow> (db, unit) out" where
  "append_all sha [] d = Done () d"
| "append_all sha (t # ts) d = and_then (appendTransition sha t d) (\<lambda>_. append_all sha ts)"

lemma replay_log:
  assumes "archive_inv sha d"
  shows "replay (getTransitions i d) = (case snapshotState i d of None \<Rightarrow> Pending | Some s \<Rightarrow> s)"
proof -
  have "sorted (map t_sequenceNo (map transition_of_row (log_of i d)))"
    using sorted_order_asc [of tr_sequenceNo "rows_of i d"]
    by (simp add: log_of_def transition_of_row_def comp_def)
  then have "replay (getTransitions i d) = foldl (\<lambda>_ t. t_toState t) Pending (map transition_of_row (log_of i d))"
    by (simp add: replay_def getTransitions_log order_asc_sorted del: map_map)
  also have "\<dots> = (case snapshotState i d of None \<Rightarrow> Pending | Some s \<Rightarrow> s)"
    unfolding snapshotState_def last_row_log [OF assms]
    by (cases "log_of i d" rule: rev_cases) (simp_all add: transition_of_row_def)
  finally show ?thesis .
qed

lemma appendTransition_ok:
  assumes "canTransition (case snapshotState (t_messageId t) d of None \<Rightarrow> Pending | Some s \<Rightarrow> s) (t_toState t)"
    "t_messageId t \<in> message_ids d" "t_sequenceNo t \<notin> tr_sequenceNo ` set (rows_of (t_messageId t) d)"
    "t_toState t \<noteq> Archived"
  shows "appendTransition sha t d = Done () (use_id ''transitions'' (d\<lparr>db_transitions := db_transitions d @
    [transition_row_of sha (next_id ''transitions'' d) t (prev_hash_for t d)]\<rparr>))"
  using assms by (simp add: appendTransition_def Let_def)

lemma append_all_log:
  assumes "archive_inv sha d" "append_all sha ts d = Done () d'"
    "\<forall>t\<in>set ts. t_messageId t = i \<and> t_prevTransitionHash t = None" "sorted_wrt (<) (map t_sequenceNo ts)"
    "\<forall>r\<in>set (rows_of i d). \<forall>t\<in>set ts. tr_sequenceNo r < t_sequenceNo t"
    "log.linked sha ''GENESIS'' (log_of i d)"
  shows "log.linked sha ''GENESIS'' (log_of i d') \<and> archive_inv sha d'
    \<and> map (\<lambda>t. t\<lparr>t_prevTransitionHash := None\<rparr>) (getTransitions i d') =
        map (\<lambda>t. t\<lparr>t_prevTransitionHash := None\<rparr>) (getTransitions i d) @ ts"
  using assms
proof (induction ts arbitrary: d)
  case (Cons t ts)
  from Cons.prems(2) obtain d1 where d1: "appendTransition sha t d = Done () d1" "append_all sha ts d1 = Done () d'"
    by (auto simp: out_simps)
  have t: "t_messageId t = i" "t_prevTransitionHash t = None" using Cons.prems(3) by simp_all
  have above: "above_log t d" using Cons.prems(5) by (simp add: above_log_def t)
  have inv1: "archive_inv sha d1" using appendTransition_inv [OF Cons.prems(1), of t] d1(1) by simp
  have link1: "log.linked sha ''GENESIS'' (log_of i d1)"
    using linked_append [OF Cons.prems(1) d1(1) above t(2)] Cons.prems(6) by (simp add: t)
  have rows1: "\<forall>r\<in>set (rows_of i d1). \<forall>t\<in>set ts. tr_sequenceNo r < t_sequenceNo t"
    using Cons.prems(4,5) t(1) by (auto simp: appendTransition_rows [OF d1(1)] transition_row_of_def)
  note IH = Cons.IH [OF inv1 d1(2) _ _ rows1 link1]
  have "(transition_of_row (transition_row_of sha n t p))\<lparr>t_prevTransitionHash := None\<rparr> = t" for n p
    using t(2) by (simp add: transition_of_row_def transition_row_of_def)
  with IH Cons.prems(3,4) show ?case
    by (simp add: getTransitions_log appendTransition_log [OF Cons.prems(1) d1(1) above, unfolded t])
qed simp

lemma opt_json_inject [simp]: "opt_json a = opt_json b \<longleftrightarrow> a = b"
  by (cases a; cases b) (simp_all add: opt_json_def)

text \<open>What a transition hash leaves open: the reason and the sealing time.\<close>

definition without_notes :: "transition \<Rightarrow> transition" where
  "without_notes t = t\<lparr>t_reason := None, t_sealedAt := None\<rparr>"

lemma row_hashed_fields:
  assumes "row_ok sha r" "row_ok sha r'" "row_hashed r = row_hashed r'"
  shows "without_notes (transition_of_row r) = without_notes (transition_of_row r')"
  using assms
  by (auto simp: row_hashed_def transition_json_def transition_of_row_def without_notes_def json_int_def row_ok_def)

lemma row_json_wf: "json_wf (row_hashed r)"
  by (simp add: row_hashed_def transition_json_def opt_json_def split: option.split)

section \<open>Properties\<close>

text \<open>C5: Whatever sequence of writes of messages, transitions and seals runs against an empty archive, failed
  ones included, message ids, sequence numbers per message and seal ids stay unique, every row refers
  to a message of the archive, the index tables have one row per message, and each transition stores
  the hash of its own fields.\<close>

theorem archive_invariant:
  "archive_reachable sha d \<Longrightarrow> archive_inv sha d"
  by (rule reachable_inv)

definition demo_db :: "(string \<Rightarrow> string) \<Rightarrow> db" where
  "demo_db sha = out_state (appendMessage sha ''2024-02-29T00:00:01Z'' demo_memo empty_db)"

lemma demo_db_reachable: "archive_reachable sha (demo_db sha)"
  unfolding demo_db_def by (intro reach_step [OF reach_empty] step_message) (rule refl)

lemma demo_db_ids: "message_ids (demo_db sha) = {''m1''}" "rows_of i (demo_db sha) = []"
  by (simp_all add: demo_db_def appendMessage_def empty_db_def message_ids_def demo_memo_def fk_ok_def
      superseded_by_of_def obj_get_def message_row_of_def rows_of_def)

theorem archive_invariant_witness:
  "archive_inv (\<lambda>s. s) (demo_db (\<lambda>s. s)) \<and> message_ids (demo_db (\<lambda>s. s)) = {''m1''}"
  using archive_invariant [OF demo_db_reachable] demo_db_ids by blast

text \<open>C30: The state the archive reports for a message is the replay of its transitions, \<open>pending\<close> before the
  first.\<close>

theorem snapshot_is_replay:
  "archive_reachable sha d \<Longrightarrow>
    (case snapshotState i d of None \<Rightarrow> Pending | Some s \<Rightarrow> s) = replay (getTransitions i d)"
  by (rule replay_log [OF reachable_inv, symmetric])

theorem snapshot_is_replay_witness:
  "(case snapshotState ''m1'' (demo_db (\<lambda>s. s)) of None \<Rightarrow> Pending | Some s \<Rightarrow> s)
    = replay (getTransitions ''m1'' (demo_db (\<lambda>s. s)))"
  by (rule snapshot_is_replay [OF demo_db_reachable])

text \<open>The guard of \<open>appendTransition\<close> does not make any state final: in every reachable archive, a message
  in any state - \<open>archived\<close> and \<open>rejected\<close> included - can be moved to any state but \<open>archived\<close> by a transition
  that names the current state as its \<open>fromState\<close>.\<close>

theorem appendTransition_any_target:
  assumes "archive_reachable sha d" "i \<in> message_ids d" "q \<noteq> Archived"
  shows "\<exists>t d'. t_messageId t = i \<and> t_toState t = q \<and> appendTransition sha t d = Done () d'
    \<and> snapshotState i d' = Some q"
proof -
  have inv: "archive_inv sha d" using assms(1) by (rule reachable_inv)
  define cur where "cur = (case snapshotState i d of None \<Rightarrow> Pending | Some s \<Rightarrow> s)"
  define n where "n = Max (insert 0 (tr_sequenceNo ` set (rows_of i d))) + 1"
  define t where "t = \<lparr>t_messageId = i, t_fromState = cur, t_toState = q, t_sequenceNo = n, t_actorId = None,
    t_reason = None, t_sealedAt = None, t_prevTransitionHash = None, t_at = []\<rparr>"
  have f: "t_messageId t = i" "t_fromState t = cur" "t_toState t = q" "t_sequenceNo t = n"
    by (simp_all add: t_def)
  have above: "above_log t d"
    using Max_ge [of "insert 0 (tr_sequenceNo ` set (rows_of i d))"]
    by (fastforce simp: above_log_def f n_def intro: zle_add1_eq_le [THEN iffD2])
  then have "n \<notin> tr_sequenceNo ` set (rows_of i d)" by (auto simp: above_log_def f)
  with assms(2,3) obtain d' where d': "appendTransition sha t d = Done () d'"
    by (auto simp: appendTransition_def f cur_def)
  then have "archive_inv sha d'" using appendTransition_inv [OF inv, of t] by simp
  then have "snapshotState i d' = Some q"
    using appendTransition_log [OF inv d' above]
    by (simp add: snapshotState_def last_row_log f transition_row_of_def)
  with d' show ?thesis using f by blast
qed

theorem appendTransition_any_target_witness:
  "\<exists>t d'. t_messageId t = ''m1'' \<and> t_toState t = Authorized
    \<and> appendTransition (\<lambda>s. s) t (demo_db (\<lambda>s. s)) = Done () d' \<and> snapshotState ''m1'' d' = Some Authorized"
  by (rule appendTransition_any_target [OF demo_db_reachable]) (simp_all add: demo_db_ids)

text \<open>C31: A rejected transition leaves the archive as it was, unless it archives a message whose edict index
  row cannot be written: then the transition is recorded although the call throws.\<close>

theorem appendTransition_failure:
  "appendTransition sha t d = Fail e d' \<Longrightarrow>
    d' = d \<or> (t_toState t = Archived \<and> length (db_transitions d') = Suc (length (db_transitions d)))"
proof -
  assume fail: "appendTransition sha t d = Fail e d'"
  have index: "db_transitions d' = db_transitions d0" if "indexArchivedMessage i s d0 = Fail e d'" for i s d0
    using index_transitions [of i s d0] that by simp
  from fail show ?thesis
    by (auto simp: appendTransition_def Let_def use_id_def frame_simps split: if_splits dest!: index)
qed

definition demo_transition :: "message_state \<Rightarrow> message_state \<Rightarrow> int \<Rightarrow> transition" where
  "demo_transition p q n = \<lparr>t_messageId = ''m1'', t_fromState = p, t_toState = q, t_sequenceNo = n,
     t_actorId = Some ''u1'', t_reason = None, t_sealedAt = None, t_prevTransitionHash = None,
     t_at = ''2024-02-29T00:00:02Z''\<rparr>"

theorem appendTransition_failure_witness:
  "\<exists>e. appendTransition (\<lambda>s. s) (demo_transition Reviewed Archived 1) (demo_db (\<lambda>s. s))
    = Fail e (demo_db (\<lambda>s. s))"
proof -
  have "snapshotState ''m1'' (demo_db (\<lambda>s. s)) = None"
    by (simp add: snapshotState_def last_row_def demo_db_ids)
  then obtain e d' where e: "appendTransition (\<lambda>s. s) (demo_transition Reviewed Archived 1) (demo_db (\<lambda>s. s)) = Fail e d'"
    and "d' = demo_db (\<lambda>s. s)"
    by (simp add: appendTransition_def demo_transition_def)
  with appendTransition_failure [OF e] show ?thesis by auto
qed

text \<open>C28: A run of appends in ascending order of sequence numbers, without hashes of their own, leaves a log that
  lists exactly those transitions and in which every transition carries the hash of the one before it,
  the first \<open>GENESIS\<close>.\<close>

theorem append_all_hash_chain:
  assumes "archive_reachable sha d" "rows_of i d = []" "append_all sha ts d = Done () d'"
    and "\<forall>t\<in>set ts. t_messageId t = i \<and> t_prevTransitionHash t = None"
    and "sorted_wrt (<) (map t_sequenceNo ts)"
  shows "hash_chain.linked (\<lambda>j. sha (stringify j)) row_hashed
      (\<lambda>r. case tr_prevHash r of None \<Rightarrow> [] | Some h \<Rightarrow> h) (\<lambda>h. h) ''GENESIS'' (log_of i d')
    \<and> map (\<lambda>t. t\<lparr>t_prevTransitionHash := None\<rparr>) (getTransitions i d') = ts"
  using append_all_log [OF reachable_inv [OF assms(1)] assms(3-5)] assms(2)
  by (simp add: log_of_def getTransitions_log)

theorem append_all_hash_chain_witness:
  "\<exists>d'. append_all (\<lambda>s. s) [demo_transition Pending Validated 1, demo_transition Validated Reviewed 2]
      (demo_db (\<lambda>s. s)) = Done () d'
    \<and> map (\<lambda>t. t\<lparr>t_prevTransitionHash := None\<rparr>) (getTransitions ''m1'' d') =
        [demo_transition Pending Validated 1, demo_transition Validated Reviewed 2]"
proof -
  let ?ts = "[demo_transition Pending Validated 1, demo_transition Validated Reviewed 2]"
  let ?t1 = "demo_transition Pending Validated 1" and ?t2 = "demo_transition Validated Reviewed 2"
  have f: "t_messageId (demo_transition p q n) = ''m1''" "t_toState (demo_transition p q n) = q"
    "t_sequenceNo (demo_transition p q n) = n" for p q n by (simp_all add: demo_transition_def)
  define r where "r = transition_row_of (\<lambda>s. s) (next_id ''transitions'' (demo_db (\<lambda>s. s))) ?t1
    (prev_hash_for ?t1 (demo_db (\<lambda>s. s)))"
  define d1 where "d1 = use_id ''transitions'' ((demo_db (\<lambda>s. s))\<lparr>db_transitions :=
    db_transitions (demo_db (\<lambda>s. s)) @ [r]\<rparr>)"
  have d1: "appendTransition (\<lambda>s. s) ?t1 (demo_db (\<lambda>s. s)) = Done () d1"
    unfolding d1_def r_def
    by (rule appendTransition_ok) (simp_all add: f snapshotState_def last_row_def demo_db_ids)
  have ids: "message_ids d1 = {''m1''}" by (simp add: d1_def use_id_def demo_db_ids)
  have "tr_messageId r = ''m1''" by (simp add: r_def transition_row_of_def f)
  then have r: "rows_of ''m1'' d1 = [r]" "tr_toState r = Validated" "tr_sequenceNo r = 1"
    by (simp_all add: d1_def demo_db_ids) (simp_all add: r_def transition_row_of_def f)
  have snap: "snapshotState ''m1'' d1 = Some Validated"
    using r by (simp add: snapshotState_def last_row_def order_desc_def)
  have "\<exists>d'. appendTransition (\<lambda>s. s) ?t2 d1 = Done () d'"
    by (rule exI, rule appendTransition_ok) (simp_all add: f snap ids r)
  then obtain d' where d2: "appendTransition (\<lambda>s. s) ?t2 d1 = Done () d'" ..
  have d': "append_all (\<lambda>s. s) ?ts (demo_db (\<lambda>s. s)) = Done () d'" by (simp add: d1 d2)
  have "\<forall>t\<in>set ?ts. t_messageId t = ''m1'' \<and> t_prevTransitionHash t = None"
    "sorted_wrt (<) (map t_sequenceNo ?ts)" by (simp_all add: demo_transition_def)
  from append_all_hash_chain [OF demo_db_reachable demo_db_ids(2) d' this]
  have "map (\<lambda>t. t\<lparr>t_prevTransitionHash := None\<rparr>) (getTransitions ''m1'' d') = ?ts" by (rule conjunct2)
  with d' show ?thesis by (intro exI conjI)
qed


lemma reachable_append:
  "archive_reachable sha d \<Longrightarrow> appendTransition sha t d = Done () d' \<Longrightarrow> archive_reachable sha d'"
  by (rule reach_step, assumption, rule step_transition [where t = t]) simp

definition demo_noted :: "string option \<Rightarrow> transition" where
  "demo_noted reason = (demo_transition Pending Validated 1)\<lparr>t_reason := reason\<rparr>"

lemma demo_log:
  "\<exists>d. archive_reachable (\<lambda>s. s) d \<and> log.linked (\<lambda>s. s) ''GENESIS'' (log_of ''m1'' d)
    \<and> log_of ''m1'' d = [transition_row_of (\<lambda>s. s) (next_id ''transitions'' (demo_db (\<lambda>s. s))) (demo_noted reason) ''GENESIS'']"
proof -
  let ?sha = "\<lambda>s :: string. s" and ?t = "demo_noted reason"
  have i: "t_messageId ?t = ''m1''" "t_prevTransitionHash ?t = None" by (simp_all add: demo_noted_def demo_transition_def)
  have "\<exists>d'. appendTransition ?sha ?t (demo_db ?sha) = Done () d'"
    by (rule exI, rule appendTransition_ok)
      (simp_all add: demo_noted_def demo_transition_def snapshotState_def last_row_def demo_db_ids)
  then obtain d where d: "appendTransition ?sha ?t (demo_db ?sha) = Done () d" ..
  have above: "above_log ?t (demo_db ?sha)" by (simp add: above_log_def demo_db_ids i)
  note inv = reachable_inv [OF demo_db_reachable, of ?sha]
  have empty: "log_of ''m1'' (demo_db ?sha) = []" by (simp add: log_of_def demo_db_ids)
  have prev: "prev_hash_for ?t (demo_db ?sha) = ''GENESIS''" by (simp add: prev_hash_for_def i last_row_def demo_db_ids)
  have "log.linked ?sha ''GENESIS'' (log_of ''m1'' d)"
    using linked_append [OF inv d above] i empty by (simp add: log.linked.simps(1) [of ?sha])
  moreover have "log_of ''m1'' d = [transition_row_of ?sha (next_id ''transitions'' (demo_db ?sha)) ?t ''GENESIS'']"
    using appendTransition_log [OF inv d above] i empty prev by simp
  ultimately show ?thesis using reachable_append [OF demo_db_reachable d] by blast
qed


end
