(* ===== verification/Archive_Laws.thy ===== *)
theory Archive_Laws
  imports Archive_Log
begin

text \<open>
  The law and TI-definition queries of \<open>sqlite.ts\<close>: \<open>getCurrentTiDefinition\<close>, \<open>getActiveGenreSchema\<close>,
  \<open>getCurrentLaw\<close>, \<open>getLawSet\<close> and \<open>getConstitutionalDocuments\<close>. The \<open>ORDER BY\<close> keys are the types
  \<open>law_rank\<close> and \<open>ti_rank\<close> with a linear order. Times are compared as texts.
\<close>

section \<open>The keys of the two queries\<close>

datatype law_rank = Law_rank (rk_precedence: rat) (rk_effective: iso) (rk_sealed: iso) (rk_messageId: string)

fun rank_key :: "law_rank \<Rightarrow> rat \<times> iso \<times> iso \<times> string" where
  "rank_key (Law_rank p e s m) = (p, e, s, m)"

lemma rank_key_inject: "rank_key a = rank_key b \<Longrightarrow> a = b"
  by (cases a; cases b) simp

instantiation law_rank :: linorder
begin

definition less_eq_law_rank :: "law_rank \<Rightarrow> law_rank \<Rightarrow> bool" where
  "a \<le> b \<longleftrightarrow> rank_key a \<le> rank_key b"

definition less_law_rank :: "law_rank \<Rightarrow> law_rank \<Rightarrow> bool" where
  "a < b \<longleftrightarrow> rank_key a < rank_key b"

instance
  by standard (auto simp: less_eq_law_rank_def less_law_rank_def intro: rank_key_inject)

end

section \<open>Laws\<close>

definition edict_rank :: "edict_row \<Rightarrow> law_rank" where
  "edict_rank e = Law_rank (er_precedence e) (er_effectiveDate e) (er_sealedAt e) (er_messageId e)"

definition in_force :: "law_type \<Rightarrow> iso \<Rightarrow> edict_row \<Rightarrow> bool" where
  "in_force lawType atIso e \<longleftrightarrow> er_lawType e = law_type_str lawType \<and> er_effectiveDate e \<le> atIso"

definition superseding :: "law_type \<Rightarrow> iso \<Rightarrow> edict_row \<Rightarrow> edict_row \<Rightarrow> bool" where
  "superseding lawType atIso e s \<longleftrightarrow> er_lawType s = er_lawType e
     \<and> er_supersededEdictId s = Some (er_messageId e) \<and> er_effectiveDate s \<le> atIso"

definition law_candidates :: "law_type \<Rightarrow> iso \<Rightarrow> db \<Rightarrow> edict_row list" where
  "law_candidates lawType atIso d =
     filter (\<lambda>e. in_force lawType atIso e \<and> \<not> list_ex (superseding lawType atIso e) (db_edicts d)) (db_edicts d)"

definition law_of_row :: "law_type \<Rightarrow> edict_row \<Rightarrow> resolved_law" where
  "law_of_row lawType e = \<lparr>rw_messageId = er_messageId e, rw_lawType = lawType, rw_version = er_version e,
     rw_content = er_content e, rw_precedence = er_precedence e, rw_effectiveDate = er_effectiveDate e,
     rw_sealedAt = er_sealedAt e\<rparr>"

definition tied :: "edict_row \<Rightarrow> edict_row \<Rightarrow> bool" where
  "tied a b \<longleftrightarrow> er_precedence a = er_precedence b \<and> er_effectiveDate a = er_effectiveDate b
     \<and> er_sealedAt a = er_sealedAt b"

definition getCurrentLaw :: "law_type \<Rightarrow> iso \<Rightarrow> db \<Rightarrow> err + resolved_law option" where
  "getCurrentLaw lawType atIso d =
     (case limit_rows 2 (order_desc edict_rank (law_candidates lawType atIso d)) of
        [] \<Rightarrow> Inr None
      | a # rest \<Rightarrow>
        (case rest of
           b # _ \<Rightarrow> if tied a b then Inl (Error_msg ''ambiguous-law'') else Inr (Some (law_of_row lawType a))
         | [] \<Rightarrow> Inr (Some (law_of_row lawType a))))"

text \<open>The loop of \<open>getLawSet\<close> stops at the first ambiguous type.\<close>

fun law_set_loop :: "law_type list \<Rightarrow> iso \<Rightarrow> db \<Rightarrow> err + (law_type \<times> resolved_law option) list" where
  "law_set_loop [] atIso d = Inr []"
| "law_set_loop (t # ts) atIso d =
     (case getCurrentLaw t atIso d of Inl e \<Rightarrow> Inl e
      | Inr l \<Rightarrow> (case law_set_loop ts atIso d of Inl e \<Rightarrow> Inl e | Inr ls \<Rightarrow> Inr ((t, l) # ls)))"

definition getLawSet :: "iso \<Rightarrow> db \<Rightarrow> err + (law_type \<times> resolved_law option) list" where
  "getLawSet atIso d = law_set_loop EdictLawTypeValues atIso d"

section \<open>TI definitions and constitutional documents\<close>

record ti_definition_record =
  tr_def_messageId :: string
  tr_def_targetGenre :: string
  tr_def_version :: string
  tr_def_schema :: json
  tr_def_sealedAt :: iso

definition ti_superseding :: "iso \<Rightarrow> ti_row \<Rightarrow> ti_row \<Rightarrow> bool" where
  "ti_superseding atIso t s \<longleftrightarrow> ti_targetGenre s = ti_targetGenre t
     \<and> ti_supersededBy s = Some (ti_messageId t) \<and> ti_sealedAt s \<le> atIso"

definition ti_candidates :: "string \<Rightarrow> iso \<Rightarrow> db \<Rightarrow> ti_row list" where
  "ti_candidates genre atIso d =
     filter (\<lambda>t. ti_targetGenre t = genre \<and> ti_sealedAt t \<le> atIso \<and> \<not> list_ex (ti_superseding atIso t) (db_ti d))
       (db_ti d)"

definition getCurrentTiDefinition :: "string \<Rightarrow> iso \<Rightarrow> db \<Rightarrow> ti_definition_record option" where
  "getCurrentTiDefinition genre atIso d =
     map_option (\<lambda>t. \<lparr>tr_def_messageId = ti_messageId t, tr_def_targetGenre = ti_targetGenre t,
         tr_def_version = ti_version t, tr_def_schema = ti_schema t, tr_def_sealedAt = ti_sealedAt t\<rparr>)
       (first_row (order_desc (\<lambda>t. (ti_sealedAt t, ti_messageId t)) (ti_candidates genre atIso d)))"

definition getActiveGenreSchema :: "string \<Rightarrow> iso \<Rightarrow> db \<Rightarrow> json option" where
  "getActiveGenreSchema targetGenre now d = map_option tr_def_schema (getCurrentTiDefinition targetGenre now d)"

definition getConstitutionalDocuments :: "db \<Rightarrow> (string \<times> iso) list" where
  "getConstitutionalDocuments d =
     map (\<lambda>r. (mr_id r, the (mr_archived_at r)))
       (order_asc (\<lambda>r. (the (mr_archived_at r), mr_id r))
         (filter (\<lambda>r. mr_constitutional r \<and> mr_archived_at r \<noteq> None) (db_messages d)))"

section \<open>The law that is in force\<close>

lemma limit_two: "limit_rows 2 xs = take 2 xs"
  by (simp add: limit_rows_def)

lemma take_two_cases:
  "take 2 xs = (case xs of [] \<Rightarrow> [] | [a] \<Rightarrow> [a] | a # b # _ \<Rightarrow> [a, b])"
  by (cases xs rule: list.exhaust; simp split: list.split add: numeral_2_eq_2)

lemma getCurrentLaw_cases:
  "getCurrentLaw lawType atIso d =
     (case order_desc edict_rank (law_candidates lawType atIso d) of
        [] \<Rightarrow> Inr None
      | [a] \<Rightarrow> Inr (Some (law_of_row lawType a))
      | a # b # _ \<Rightarrow> if tied a b then Inl (Error_msg ''ambiguous-law'') else Inr (Some (law_of_row lawType a)))"
  by (simp add: getCurrentLaw_def limit_two take_two_cases split: list.split)

lemma edict_rank_mono:
  "edict_rank a \<le> edict_rank b \<Longrightarrow>
    (er_precedence a, er_effectiveDate a, er_sealedAt a) \<le> (er_precedence b, er_effectiveDate b, er_sealedAt b)"
  by (auto simp: less_eq_law_rank_def edict_rank_def)

definition law_key :: "edict_row \<Rightarrow> rat \<times> iso \<times> iso" where
  "law_key e = (er_precedence e, er_effectiveDate e, er_sealedAt e)"

lemma tied_key: "tied a b \<longleftrightarrow> law_key a = law_key b"
  by (auto simp: tied_def law_key_def)

lemma candidates_distinct:
  "archive_inv sha d \<Longrightarrow> distinct (law_candidates lawType atIso d)"
  by (simp add: law_candidates_def archive_inv_def distinct_map)

text \<open>
  The query against its meaning: a law is returned when one candidate is strictly above all others in
  precedence, effective date and sealing time; the ambiguity error says that the top two tie.
\<close>

lemma getCurrentLaw_spec:
  assumes "distinct (law_candidates lawType atIso d)"
  shows "case getCurrentLaw lawType atIso d of
      Inr None \<Rightarrow> law_candidates lawType atIso d = []
    | Inr (Some l) \<Rightarrow> (\<exists>e\<in>set (law_candidates lawType atIso d). l = law_of_row lawType e
        \<and> (\<forall>e'\<in>set (law_candidates lawType atIso d). e' \<noteq> e \<longrightarrow> law_key e' < law_key e))
    | Inl er \<Rightarrow> er = Error_msg ''ambiguous-law'' \<and> (\<exists>e e'. e \<noteq> e' \<and> {e, e'} \<subseteq> set (law_candidates lawType atIso d)
        \<and> law_key e = law_key e' \<and> (\<forall>x\<in>set (law_candidates lawType atIso d). law_key x \<le> law_key e))"
proof -
  define xs where "xs = order_desc edict_rank (law_candidates lawType atIso d)"
  have set: "set xs = set (law_candidates lawType atIso d)" and dist: "distinct xs"
    using assms by (simp_all add: xs_def order_desc_def)
  have mono: "edict_rank a \<le> edict_rank b \<Longrightarrow> law_key a \<le> law_key b" for a b
    using edict_rank_mono by (simp add: law_key_def)
  have "sorted_wrt (\<lambda>a b. edict_rank b \<le> edict_rank a) xs"
    unfolding xs_def by (rule sorted_order_desc)
  then have srt: "sorted_wrt (\<lambda>a b. law_key b \<le> law_key a) xs"
    by (rule sorted_wrt_mono_rel [rotated]) (rule mono)
  show ?thesis
  proof (cases xs)
    case Nil
    then show ?thesis using set by (simp add: getCurrentLaw_cases xs_def)
  next
    case (Cons a as)
    show ?thesis
    proof (cases as)
      case Nil
      with Cons set [symmetric] show ?thesis by (simp add: getCurrentLaw_cases xs_def [symmetric])
    next
      case (Cons b bs)
      with \<open>xs = a # as\<close> have xs: "xs = a # b # bs" by simp
      have top: "\<forall>x\<in>set xs. law_key x \<le> law_key a" and second: "\<forall>x\<in>set xs. x \<noteq> a \<longrightarrow> law_key x \<le> law_key b"
        using srt by (auto simp: xs)
      show ?thesis
      proof (cases "tied a b")
        case True
        have "a \<noteq> b" "{a, b} \<subseteq> set xs" using dist by (auto simp: xs)
        with True top have "\<exists>e e'. e \<noteq> e' \<and> {e, e'} \<subseteq> set xs \<and> law_key e = law_key e'
            \<and> (\<forall>x\<in>set xs. law_key x \<le> law_key e)"
          unfolding tied_key by blast
        with True show ?thesis
          by (simp add: getCurrentLaw_cases xs_def [symmetric] xs set [symmetric])
      next
        case False
        then have "law_key b < law_key a"
          using top by (auto simp: tied_key xs)
        with second have "\<forall>x\<in>set xs. x \<noteq> a \<longrightarrow> law_key x < law_key a" by (auto intro: order.strict_trans1)
        moreover have "a \<in> set xs" by (simp add: xs)
        ultimately have "\<exists>e\<in>set xs. law_of_row lawType a = law_of_row lawType e
            \<and> (\<forall>e'\<in>set xs. e' \<noteq> e \<longrightarrow> law_key e' < law_key e)" by blast
        with False show ?thesis
          by (simp add: getCurrentLaw_cases xs_def [symmetric] xs set [symmetric])
      qed
    qed
  qed
qed

lemma candidate_iff:
  "e \<in> set (law_candidates lawType atIso d) \<longleftrightarrow> e \<in> set (db_edicts d) \<and> in_force lawType atIso e
    \<and> (\<forall>s\<in>set (db_edicts d). \<not> superseding lawType atIso e s)"
  by (auto simp: law_candidates_def list_ex_iff)

section \<open>Archiving indexes the message\<close>

lemma find_message_update:
  assumes "\<And>r. mr_id (f r) = mr_id r"
  shows "find_row mr_id j (db_messages (update_message i f d)) =
    map_option (\<lambda>r. if mr_id r = i then f r else r) (find_row mr_id j (db_messages d))"
  using assms by (simp add: update_message_def find_row_update_where)

lemma getMessage_update [simp]:
  assumes "\<And>r. mr_id (f r) = mr_id r" "\<And>r. mr_message (f r) = mr_message r"
  shows "getMessage j (update_message i f d) = getMessage j d"
  using assms by (simp add: getMessage_def find_message_update option.map_comp comp_def if_distrib cong: if_cong)

lemma getMessage_frame [simp]:
  "getMessage j (use_id s d) = getMessage j d" "getMessage j (db_transitions_update u d) = getMessage j d"
  by (simp_all add: getMessage_def use_id_def)

lemma index_edict:
  assumes "indexArchivedMessage i t d = Done () d'" "getMessage i d = Some m" "e_id m = i" "e_genre m = ''edict''"
    "obj_get (e_payload m) ''law_type'' = Some (JStr l)"
  obtains p where "js_Number (nullish (obj_get (e_payload m) ''precedence'') (JNum 0 0)) = Some p"
    "find_row er_messageId i (db_edicts d') = Some (edict_row_of m l p t)"
proof -
  have i: "er_messageId (edict_row_of m l p t) = i" for p by (simp add: edict_row_of_def Let_def assms(3))
  have row: "(edict_row_of m l p t)\<lparr>er_messageId := i\<rparr> = edict_row_of m l p t" for p
    by (simp add: edict_row_of_def Let_def assms(3))
  from assms obtain p where p: "js_Number (nullish (obj_get (e_payload m) ''precedence'') (JNum 0 0)) = Some p"
    and d': "db_edicts d' = upsert er_messageId (edict_row_of m l p t) (\<lambda>_. edict_row_of m l p t) (db_edicts d)"
    by (auto simp: indexArchivedMessage_def Let_def row frame_simps split: if_splits option.splits)
  have "find_row er_messageId i (db_edicts d') = Some (edict_row_of m l p t)"
    unfolding d' by (subst find_row_upsert) (simp_all add: i split: option.split)
  with p that show thesis by blast
qed

lemma edicts_in_find: "find_row er_messageId i es = Some e \<Longrightarrow> e \<in> set es"
  by (auto dest: find_row_Some_in)

section \<open>Properties\<close>

text \<open>C4: In every reachable archive \<open>getCurrentLaw\<close> answers for a law type and a time: no law when no archived
  edict of the type is effective and unsuperseded at that time; the edict that is strictly first in
  precedence, then effective date, then sealing time when there is one; and the error \<open>ambiguous-law\<close>
  exactly when two distinct edicts share the first place.\<close>

theorem getCurrentLaw_correct:
  assumes "archive_reachable sha d"
  shows "let L = {e \<in> set (db_edicts d). in_force lawType atIso e
        \<and> (\<forall>s\<in>set (db_edicts d). \<not> superseding lawType atIso e s)}
    in case getCurrentLaw lawType atIso d of
        Inr None \<Rightarrow> L = {}
      | Inr (Some l) \<Rightarrow> (\<exists>e\<in>L. l = law_of_row lawType e \<and> (\<forall>e'\<in>L. e' \<noteq> e \<longrightarrow> law_key e' < law_key e))
      | Inl er \<Rightarrow> er = Error_msg ''ambiguous-law''
          \<and> (\<exists>e\<in>L. \<exists>e'\<in>L. e \<noteq> e' \<and> law_key e = law_key e' \<and> (\<forall>x\<in>L. law_key x \<le> law_key e))"
proof -
  have L: "{e \<in> set (db_edicts d). in_force lawType atIso e
        \<and> (\<forall>s\<in>set (db_edicts d). \<not> superseding lawType atIso e s)} = set (law_candidates lawType atIso d)"
    by (auto simp: candidate_iff)
  show ?thesis
    unfolding L Let_def
    using getCurrentLaw_spec [OF candidates_distinct [OF reachable_inv [OF assms]], of lawType atIso]
    by (auto split: sum.splits option.splits)
qed

definition demo_edict :: "string \<Rightarrow> int \<Rightarrow> envelope" where
  "demo_edict i p = \<lparr>e_id = i, e_genre = ''edict'', e_payload = [(''law_type'', JStr ''routing''),
     (''version'', JStr ''1.0.0''), (''content'', JObj []), (''precedence'', JNum p 0),
     (''effective_date'', JStr ''2024-01-01T00:00:00Z'')], e_actor_id = ''u1'', e_actor_role = ''minister'',
     e_submittedAt = ''2024-01-01T00:00:00Z'', e_metadata = []\<rparr>"

definition seal_transition :: "string \<Rightarrow> message_state \<Rightarrow> message_state \<Rightarrow> int \<Rightarrow> transition" where
  "seal_transition i p q n = \<lparr>t_messageId = i, t_fromState = p, t_toState = q, t_sequenceNo = n,
     t_actorId = Some ''u1'', t_reason = None, t_sealedAt = Some ''2024-01-02T00:00:00Z'',
     t_prevTransitionHash = None, t_at = ''2024-01-02T00:00:00Z''\<rparr>"

definition demo_law_db :: db where
  "demo_law_db =
     (let s = (\<lambda>x :: string. x); n = ''2024-01-02T00:00:00Z'';
          d1 = out_state (appendMessage s n (demo_edict ''a'' 1) empty_db);
          d2 = out_state (appendMessage s n (demo_edict ''b'' 2) d1);
          d3 = out_state (appendTransition s (seal_transition ''a'' Pending Authorized 1) d2);
          d4 = out_state (appendTransition s (seal_transition ''a'' Authorized Archived 2) d3);
          d5 = out_state (appendTransition s (seal_transition ''b'' Pending Authorized 1) d4)
      in out_state (appendTransition s (seal_transition ''b'' Authorized Archived 2) d5))"

lemma demo_law_reachable: "archive_reachable (\<lambda>x. x) demo_law_db"
  unfolding demo_law_db_def Let_def
  by (intro reach_step [OF _ step_transition [OF refl]] reach_step [OF _ step_message [OF refl]] reach_empty)

lemma demo_law_current:
  "(case getCurrentLaw Routing ''2024-06-01T00:00:00Z'' demo_law_db of
      Inr (Some l) \<Rightarrow> rw_messageId l | _ \<Rightarrow> []) = ''b''"
  by code_simp

theorem getCurrentLaw_correct_witness:
  "\<exists>l. getCurrentLaw Routing ''2024-06-01T00:00:00Z'' demo_law_db = Inr (Some l) \<and> rw_messageId l = ''b''
    \<and> (\<exists>e\<in>set (db_edicts demo_law_db). l = law_of_row Routing e)"
proof -
  obtain l where l: "getCurrentLaw Routing ''2024-06-01T00:00:00Z'' demo_law_db = Inr (Some l)" "rw_messageId l = ''b''"
    using demo_law_current by (auto split: sum.splits option.splits)
  from getCurrentLaw_correct [OF demo_law_reachable, of Routing "''2024-06-01T00:00:00Z''"]
  have "\<exists>e\<in>set (db_edicts demo_law_db). l = law_of_row Routing e"
    unfolding l(1) Let_def by auto
  with l show ?thesis by blast
qed

text \<open>When a transition archives an edict with a law type, the law index holds exactly the fields of the
  archived payload for it afterwards: defaults for the missing ones, the sealing time of the transition,
  and a numeric precedence.\<close>

theorem archived_edict_indexed:
  assumes "archive_reachable sha d" "getMessage i d = Some m" "e_genre m = ''edict''"
    and "obj_get (e_payload m) ''law_type'' = Some (JStr l)"
    and "t_messageId t = i" "t_toState t = Archived" "appendTransition sha t d = Done () d'"
  shows "\<exists>p. js_Number (nullish (obj_get (e_payload m) ''precedence'') (JNum 0 0)) = Some p
    \<and> find_row er_messageId i (db_edicts d') =
        Some (edict_row_of m l p (case t_sealedAt t of Some s \<Rightarrow> s | None \<Rightarrow> t_at t))"
proof -
  have i: "e_id m = i"
    using reachable_inv [OF assms(1)] assms(2)
    by (auto simp: archive_inv_def getMessage_def dest!: find_row_Some_in)
  obtain d2 where "indexArchivedMessage i (case t_sealedAt t of Some s \<Rightarrow> s | None \<Rightarrow> t_at t) d2 = Done () d'"
    and "getMessage i d2 = getMessage i d"
    using assms(5-7) by (auto simp: appendTransition_def Let_def split: if_splits)
  from index_edict [OF this(1) _ i assms(3,4)] this(2) assms(2) show ?thesis by metis
qed

theorem archived_edict_indexed_witness:
  "\<exists>d' p. appendTransition (\<lambda>x. x) (seal_transition ''e1'' Pending Archived 1)
      (out_state (appendMessage (\<lambda>x. x) [] (demo_edict ''e1'' 7) empty_db)) = Done () d'
    \<and> find_row er_messageId ''e1'' (db_edicts d') =
        Some (edict_row_of (demo_edict ''e1'' 7) ''routing'' p ''2024-01-02T00:00:00Z'')"
proof -
  let ?d = "out_state (appendMessage (\<lambda>x. x) [] (demo_edict ''e1'' 7) empty_db)"
  let ?t = "seal_transition ''e1'' Pending Archived 1"
  have r: "archive_reachable (\<lambda>x. x) ?d" by (intro reach_step [OF reach_empty] step_message) (rule refl)
  have m: "getMessage ''e1'' ?d = Some (demo_edict ''e1'' 7)"
    by (simp add: appendMessage_def demo_edict_def empty_db_def message_ids_def fk_ok_def superseded_by_of_def
        obj_get_def getMessage_def message_row_of_def)
  have "(case appendTransition (\<lambda>x. x) ?t ?d of Done _ _ \<Rightarrow> True | _ \<Rightarrow> False)" by code_simp
  then obtain d' where d': "appendTransition (\<lambda>x. x) ?t ?d = Done () d'"
    by (cases "appendTransition (\<lambda>x. x) ?t ?d") auto
  have "\<exists>p. js_Number (nullish (obj_get (e_payload (demo_edict ''e1'' 7)) ''precedence'') (JNum 0 0)) = Some p
    \<and> find_row er_messageId ''e1'' (db_edicts d') =
        Some (edict_row_of (demo_edict ''e1'' 7) ''routing'' p (case t_sealedAt ?t of Some s \<Rightarrow> s | None \<Rightarrow> t_at ?t))"
    by (rule archived_edict_indexed [OF r m _ _ _ _ d']) (simp_all add: demo_edict_def seal_transition_def obj_get_def)
  with d' show ?thesis by (auto simp: seal_transition_def)
qed

text \<open>\<open>getCurrentTiDefinition\<close> returns the definition of the genre that was sealed last by the given time among
  those no other definition sealed by then replaces, the higher message id on a tie, and nothing when
  there is none.\<close>

theorem getCurrentTiDefinition_correct:
  "let T = {t \<in> set (db_ti d). ti_targetGenre t = genre \<and> ti_sealedAt t \<le> atIso
        \<and> (\<forall>s\<in>set (db_ti d). \<not> ti_superseding atIso t s)}
   in case getCurrentTiDefinition genre atIso d of
        None \<Rightarrow> T = {}
      | Some r \<Rightarrow> (\<exists>t\<in>T. tr_def_messageId r = ti_messageId t \<and> tr_def_schema r = ti_schema t
          \<and> tr_def_version r = ti_version t \<and> tr_def_sealedAt r = ti_sealedAt t
          \<and> (\<forall>t'\<in>T. (ti_sealedAt t', ti_messageId t') \<le> (ti_sealedAt t, ti_messageId t)))"
proof -
  let ?k = "\<lambda>t. (ti_sealedAt t, ti_messageId t)"
  have T: "{t \<in> set (db_ti d). ti_targetGenre t = genre \<and> ti_sealedAt t \<le> atIso
      \<and> (\<forall>s\<in>set (db_ti d). \<not> ti_superseding atIso t s)} = set (ti_candidates genre atIso d)"
    by (auto simp: ti_candidates_def list_ex_iff)
  show ?thesis
  proof (cases "first_row (order_desc ?k (ti_candidates genre atIso d))")
    case None
    then show ?thesis unfolding T Let_def getCurrentTiDefinition_def by simp
  next
    case (Some t)
    then have "t \<in> set (ti_candidates genre atIso d)" by (metis first_row_Some_in set_order_desc)
    moreover have "\<forall>t'\<in>set (ti_candidates genre atIso d). ?k t' \<le> ?k t"
      using order_desc_first_max [OF Some] by blast
    ultimately show ?thesis unfolding T Let_def getCurrentTiDefinition_def Some by auto
  qed
qed

definition demo_ti :: "string \<Rightarrow> iso \<Rightarrow> string option \<Rightarrow> ti_row" where
  "demo_ti i sealedAt old = \<lparr>ti_messageId = i, ti_targetGenre = ''memo'', ti_version = ''1.0.0'', ti_schema = JObj [],
     ti_supersededBy = old, ti_sealedAt = sealedAt\<rparr>"

theorem getCurrentTiDefinition_correct_witness:
  "\<exists>r. getCurrentTiDefinition ''memo'' ''2024-03-01''
      (empty_db\<lparr>db_ti := [demo_ti ''t1'' ''2024-01-01'' None, demo_ti ''t2'' ''2024-02-01'' (Some ''t1'')]\<rparr>) = Some r
    \<and> tr_def_messageId r = ''t2''
    \<and> r = \<lparr>tr_def_messageId = ''t2'', tr_def_targetGenre = tr_def_targetGenre r, tr_def_version = ''1.0.0'',
        tr_def_schema = JObj [], tr_def_sealedAt = ''2024-02-01''\<rparr>"
proof -
  let ?d = "empty_db\<lparr>db_ti := [demo_ti ''t1'' ''2024-01-01'' None, demo_ti ''t2'' ''2024-02-01'' (Some ''t1'')]\<rparr>"
  have "map_option tr_def_messageId (getCurrentTiDefinition ''memo'' ''2024-03-01'' ?d) = Some ''t2''" by code_simp
  then obtain r where r: "getCurrentTiDefinition ''memo'' ''2024-03-01'' ?d = Some r" "tr_def_messageId r = ''t2''" by auto
  from getCurrentTiDefinition_correct [of ?d "''memo''" "''2024-03-01''"] obtain t where
    "t \<in> set (db_ti ?d)" "tr_def_messageId r = ti_messageId t" "tr_def_schema r = ti_schema t"
    "tr_def_version r = ti_version t" "tr_def_sealedAt r = ti_sealedAt t"
    unfolding r(1) Let_def by auto
  with r(2) have "tr_def_version r = ''1.0.0''" "tr_def_schema r = JObj []" "tr_def_sealedAt r = ''2024-02-01''"
    by (auto simp: demo_ti_def)
  with r show ?thesis by (cases r) simp
qed

end
