(* ===== verification/Law_Resolver.thy ===== *)
theory Law_Resolver
  imports Archive_Laws
begin

text \<open>
  \<open>packages/pipeline/src/law-resolver.ts\<close>, \<open>law-access.ts\<close> and \<open>packages/archive/src/ti-resolver.ts\<close>: the
  time-limited caches in front of the law and TI queries. A lookup takes the answer the archive would
  give now (\<open>err + value\<close>) and the clock in milliseconds. Both caches meet the contract \<open>ttl_cache\<close>,
  whose lemmas say how old an answer can be.
\<close>

section \<open>LawResolver\<close>

datatype law_event_kind = Law_loaded | Law_missing | Law_ambiguous | Law_cache_hit | Law_cache_miss

record law_event =
  le_type :: law_event_kind
  le_lawType :: law_type
  le_at :: iso
  le_detail :: "string option"

datatype law_mode = Strict_mode | Lenient_mode

record law_resolver =
  lr_mode :: law_mode
  lr_cacheTtlSeconds :: int
  lr_preloadTypes :: "law_type list"
  lr_cache :: "law_type \<Rightarrow> (int \<times> resolved_law option) option"
  lr_events :: "law_event list"        \<comment> \<open>what \<open>onEvent\<close> was called with\<close>

definition new_LawResolver :: "law_mode option \<Rightarrow> int option \<Rightarrow> law_type list option \<Rightarrow> law_resolver" where
  "new_LawResolver mode ttl preloads = \<lparr>
     lr_mode = (case mode of None \<Rightarrow> Strict_mode | Some m \<Rightarrow> m),
     lr_cacheTtlSeconds = (case ttl of None \<Rightarrow> 60 | Some t \<Rightarrow> t),
     lr_preloadTypes = (case preloads of None \<Rightarrow> [Appointment, Classification] | Some ts \<Rightarrow> ts),
     lr_cache = (\<lambda>_. None), lr_events = []\<rparr>"

definition law_emit :: "law_event_kind \<Rightarrow> law_type \<Rightarrow> iso \<Rightarrow> string option \<Rightarrow> law_resolver \<Rightarrow> law_resolver" where
  "law_emit kind lawType atIso detail r = r\<lparr>lr_events := lr_events r @
     [\<lparr>le_type = kind, le_lawType = lawType, le_at = atIso, le_detail = detail\<rparr>]\<rparr>"

definition law_invalidate :: "law_type option \<Rightarrow> law_resolver \<Rightarrow> law_resolver" where
  "law_invalidate lawType r =
     (case lawType of None \<Rightarrow> r\<lparr>lr_cache := (\<lambda>_. None)\<rparr> | Some t \<Rightarrow> r\<lparr>lr_cache := (lr_cache r)(t := None)\<rparr>)"

definition law_get :: "err + resolved_law option \<Rightarrow> int \<Rightarrow> law_type \<Rightarrow> iso \<Rightarrow> law_resolver
    \<Rightarrow> (err + resolved_law option) \<times> law_resolver" where
  "law_get answer nowMs lawType atIso r =
     (case (case lr_cache r lawType of Some (x, v) \<Rightarrow> if nowMs < x then Some v else None | None \<Rightarrow> None) of
        Some v \<Rightarrow> (Inr v, law_emit Law_cache_hit lawType atIso None r)
      | None \<Rightarrow>
        (let r1 = law_emit Law_cache_miss lawType atIso None r in
         case answer of
           Inl e \<Rightarrow> (Inl e, if e = Error_msg ''ambiguous-law'' then law_emit Law_ambiguous lawType atIso None r1 else r1)
         | Inr law \<Rightarrow>
            (let r2 = (case law of None \<Rightarrow> law_emit Law_missing lawType atIso None r1
                       | Some l \<Rightarrow> law_emit Law_loaded lawType atIso (Some (rw_messageId l)) r1)
             in (Inr law, r2\<lparr>lr_cache := (lr_cache r2)(lawType \<mapsto> (nowMs + lr_cacheTtlSeconds r2 * 1000, law))\<rparr>))))"

fun law_get_each :: "db \<Rightarrow> (law_type \<Rightarrow> int) \<Rightarrow> law_type list \<Rightarrow> iso \<Rightarrow> law_resolver
    \<Rightarrow> (err + (law_type \<times> resolved_law option) list) \<times> law_resolver" where
  "law_get_each d nowMs [] atIso r = (Inr [], r)"
| "law_get_each d nowMs (t # ts) atIso r =
     (case law_get (getCurrentLaw t atIso d) (nowMs t) t atIso r of
        (Inl e, r1) \<Rightarrow> (Inl e, r1)
      | (Inr l, r1) \<Rightarrow>
        (case law_get_each d nowMs ts atIso r1 of
           (Inl e, r2) \<Rightarrow> (Inl e, r2)
         | (Inr ls, r2) \<Rightarrow> (Inr ((t, l) # ls), r2)))"

definition law_preload :: "db \<Rightarrow> (law_type \<Rightarrow> int) \<Rightarrow> iso \<Rightarrow> law_resolver \<Rightarrow> (err + unit) \<times> law_resolver" where
  "law_preload d nowMs atIso r =
     (case law_get_each d nowMs (lr_preloadTypes r) atIso r of
        (Inl e, r1) \<Rightarrow> (Inl e, r1) | (Inr _, r1) \<Rightarrow> (Inr (), r1))"

definition law_getLawSet :: "db \<Rightarrow> (law_type \<Rightarrow> int) \<Rightarrow> iso \<Rightarrow> law_resolver
    \<Rightarrow> (err + (law_type \<times> resolved_law option) list) \<times> law_resolver" where
  "law_getLawSet d nowMs atIso r = law_get_each d nowMs EdictLawTypeValues atIso r"

section \<open>law-access.ts\<close>

record strict_errors =
  se_missing :: string
  se_ambiguous :: string
  se_invalid :: string

text \<open>The inner sum is the code's \<open>ok\<close> flag: an error text, or the content. The outer left is a throw.\<close>

definition loadLawContent :: "(json \<Rightarrow> 'a option) \<Rightarrow> strict_errors \<Rightarrow> db \<Rightarrow> int \<Rightarrow> law_type \<Rightarrow> iso \<Rightarrow> law_resolver
    \<Rightarrow> (err + (string + 'a)) \<times> law_resolver" where
  "loadLawContent schema errors d nowMs lawType atIso r =
     (case law_get (getCurrentLaw lawType atIso d) nowMs lawType atIso r of
        (Inl e, r1) \<Rightarrow> (if e = Error_msg ''ambiguous-law'' then Inr (Inl (se_ambiguous errors)) else Inl e, r1)
      | (Inr law, r1) \<Rightarrow>
        (case (case law of None \<Rightarrow> None | Some l \<Rightarrow> if truthy (rw_content l) then Some (rw_content l) else None) of
           None \<Rightarrow> (Inr (Inl (se_missing errors)), r1)
         | Some raw \<Rightarrow>
           (case schema raw of
              None \<Rightarrow> (Inr (Inl (se_invalid errors)), r1)
            | Some content \<Rightarrow> (Inr (Inr content), r1))))"

section \<open>TiResolver\<close>

record ti_resolver =
  tv_ttlSeconds :: int
  tv_cache :: "string \<Rightarrow> (int \<times> ti_definition_record option) option"

definition ti_invalidate :: "string option \<Rightarrow> ti_resolver \<Rightarrow> ti_resolver" where
  "ti_invalidate genre r =
     (if genre = None \<or> genre = Some [] then r\<lparr>tv_cache := (\<lambda>_. None)\<rparr>
      else r\<lparr>tv_cache := (tv_cache r)(the genre := None)\<rparr>)"

definition ti_get :: "err + ti_definition_record option \<Rightarrow> int \<Rightarrow> string \<Rightarrow> ti_resolver
    \<Rightarrow> (err + ti_definition_record option) \<times> ti_resolver" where
  "ti_get answer nowMs genre r =
     (case (case tv_cache r genre of Some (x, v) \<Rightarrow> if nowMs < x then Some v else None | None \<Rightarrow> None) of
        Some v \<Rightarrow> (Inr v, r)
      | None \<Rightarrow>
        (case answer of
           Inl e \<Rightarrow> (Inl e, r)
         | Inr v \<Rightarrow> (Inr v, r\<lparr>tv_cache := (tv_cache r)(genre \<mapsto> (nowMs + tv_ttlSeconds r * 1000, v))\<rparr>)))"

definition resolver_getCurrentTiDefinition :: "db \<Rightarrow> int \<Rightarrow> string \<Rightarrow> iso \<Rightarrow> ti_resolver
    \<Rightarrow> (err + ti_definition_record option) \<times> ti_resolver" where
  "resolver_getCurrentTiDefinition d nowMs genre atIso r =
     ti_get (Inr (getCurrentTiDefinition genre atIso d)) nowMs genre r"

section \<open>The contract of a time-limited cache\<close>

locale ttl_cache =
  fixes entry :: "'c \<Rightarrow> 'k \<Rightarrow> (int \<times> 'v) option"
    and life :: "'c \<Rightarrow> int"
    and get :: "'e + 'v \<Rightarrow> int \<Rightarrow> 'k \<Rightarrow> 'c \<Rightarrow> ('e + 'v) \<times> 'c"
    and drop_key :: "'k \<Rightarrow> 'c \<Rightarrow> 'c"
  assumes get_hit: "entry c k = Some (x, v) \<Longrightarrow> now < x \<Longrightarrow>
      fst (get a now k c) = Inr v \<and> entry (snd (get a now k c)) = entry c"
    and get_miss: "\<forall>x v. entry c k = Some (x, v) \<longrightarrow> x \<le> now \<Longrightarrow> fst (get a now k c) = a
      \<and> entry (snd (get a now k c)) =
          (case a of Inl _ \<Rightarrow> entry c | Inr v \<Rightarrow> (entry c)(k \<mapsto> (now + life c, v)))"
    and life_get: "life (snd (get a now k c)) = life c"
    and dropped: "entry (drop_key k c) k = None"
begin

text \<open>\<open>h\<close> is the set of answers the archive gave so far: key, time and value.\<close>

definition backed :: "('k \<times> int \<times> 'v) set \<Rightarrow> 'c \<Rightarrow> bool" where
  "backed h c \<longleftrightarrow> (\<forall>k x v. entry c k = Some (x, v) \<longrightarrow> (k, x - life c, v) \<in> h)"

lemma lookup_cases:
  obtains (live) x v where "entry c k = Some (x, v)" "now < x"
  | (dead) "\<forall>x v. entry c k = Some (x, v) \<longrightarrow> x \<le> now"
  by (cases "entry c k") (auto simp: not_less [symmetric])

lemma get_backed:
  assumes "backed h c"
  shows "case get a now k c of
      (Inl e, c') \<Rightarrow> a = Inl e \<and> backed h c'
    | (Inr v, c') \<Rightarrow> a = Inr v \<and> backed (insert (k, now, v) h) c'
        \<or> (\<exists>t. (k, t, v) \<in> h \<and> now < t + life c) \<and> backed h c'"
proof (cases rule: lookup_cases [of c k now])
  case (live x v)
  then have old: "(k, x - life c, v) \<in> h" "now < (x - life c) + life c"
    using assms by (auto simp: backed_def)
  note H = get_hit [OF live, where a = a]
  then have "backed h (snd (get a now k c))" using assms by (simp add: backed_def life_get)
  with H old show ?thesis by (auto simp: case_prod_beta)
next
  case dead
  note M = get_miss [OF dead, where a = a]
  show ?thesis
  proof (cases a)
    case (Inl e)
    with M assms show ?thesis by (simp add: case_prod_beta backed_def life_get)
  next
    case (Inr v)
    with M assms show ?thesis by (auto simp: case_prod_beta backed_def life_get)
  qed
qed

lemma get_coherent:
  assumes "\<And>k' x v. entry c k' = Some (x, v) \<Longrightarrow> truth k' = Inr v"
  shows "fst (get (truth k) now k c) = truth k"
proof (cases rule: lookup_cases [of c k now])
  case (live x v)
  then show ?thesis using get_hit [OF live] assms by simp
next
  case dead
  then show ?thesis using get_miss [OF dead] by blast
qed

lemma get_after_drop: "fst (get a now k (drop_key k c)) = a"
  by (rule get_miss [THEN conjunct1]) (simp add: dropped)

lemma repeat_get:
  assumes "fst (get a now k c) = Inr v" "\<forall>x v. entry c k = Some (x, v) \<longrightarrow> x \<le> now" "now' < now + life c"
  shows "fst (get b now' k (snd (get a now k c))) = Inr v"
proof -
  have "entry (snd (get a now k c)) k = Some (now + life c, v)"
    using get_miss [OF assms(2), of a] assms(1) by auto
  from get_hit [OF this assms(3)] show ?thesis by blast
qed

end

lemma law_get_hit:
  "lr_cache r t = Some (x, v) \<Longrightarrow> now < x \<Longrightarrow> law_get a now t at' r = (Inr v, law_emit Law_cache_hit t at' None r)"
  by (simp add: law_get_def)

lemma law_get_miss:
  assumes "\<forall>x v. lr_cache r t = Some (x, v) \<longrightarrow> x \<le> now"
  shows "fst (law_get a now t at' r) = a"
    "lr_cache (snd (law_get a now t at' r)) =
      (case a of Inl _ \<Rightarrow> lr_cache r | Inr v \<Rightarrow> (lr_cache r)(t \<mapsto> (now + lr_cacheTtlSeconds r * 1000, v)))"
proof -
  have "(case lr_cache r t of Some (x, v) \<Rightarrow> if now < x then Some v else None | None \<Rightarrow> None) = None"
    using assms by (auto split: option.split)
  then show "fst (law_get a now t at' r) = a"
    "lr_cache (snd (law_get a now t at' r)) =
      (case a of Inl _ \<Rightarrow> lr_cache r | Inr v \<Rightarrow> (lr_cache r)(t \<mapsto> (now + lr_cacheTtlSeconds r * 1000, v)))"
    by (auto simp: law_get_def Let_def law_emit_def split: sum.split option.split)
qed

lemma law_get_ttl [simp]: "lr_cacheTtlSeconds (snd (law_get a now t at' r)) = lr_cacheTtlSeconds r"
  by (auto simp: law_get_def Let_def law_emit_def split: sum.split option.split)

interpretation law_cache: ttl_cache lr_cache "\<lambda>r. lr_cacheTtlSeconds r * 1000"
  "\<lambda>a now t. law_get a now t at'" "\<lambda>t. law_invalidate (Some t)" for at' :: iso
  by unfold_locales (simp_all add: law_get_hit law_get_miss law_emit_def law_invalidate_def)

lemma ti_get_miss:
  assumes "\<forall>x v. tv_cache r g = Some (x, v) \<longrightarrow> x \<le> now"
  shows "ti_get a now g r = (a, case a of Inl _ \<Rightarrow> r
    | Inr v \<Rightarrow> r\<lparr>tv_cache := (tv_cache r)(g \<mapsto> (now + tv_ttlSeconds r * 1000, v))\<rparr>)"
proof -
  have "(case tv_cache r g of Some (x, v) \<Rightarrow> if now < x then Some v else None | None \<Rightarrow> None) = None"
    using assms by (auto split: option.split)
  then show ?thesis by (simp add: ti_get_def split: sum.split)
qed

lemma ti_get_hit: "tv_cache r g = Some (x, v) \<Longrightarrow> now < x \<Longrightarrow> ti_get a now g r = (Inr v, r)"
  by (simp add: ti_get_def)

lemma ti_get_ttl [simp]: "tv_ttlSeconds (snd (ti_get a now g r)) = tv_ttlSeconds r"
  by (auto simp: ti_get_def split: sum.split option.split)

interpretation ti_cache: ttl_cache tv_cache "\<lambda>r. tv_ttlSeconds r * 1000" ti_get "\<lambda>g. ti_invalidate (Some g)"
proof unfold_locales
  fix c k x v now and a :: "err + ti_definition_record option"
  show "tv_cache c k = Some (x, v) \<Longrightarrow> now < x \<Longrightarrow>
      fst (ti_get a now k c) = Inr v \<and> tv_cache (snd (ti_get a now k c)) = tv_cache c"
    by (simp add: ti_get_hit)
  show "\<forall>x v. tv_cache c k = Some (x, v) \<longrightarrow> x \<le> now \<Longrightarrow> fst (ti_get a now k c) = a
      \<and> tv_cache (snd (ti_get a now k c)) =
          (case a of Inl _ \<Rightarrow> tv_cache c | Inr v \<Rightarrow> (tv_cache c)(k \<mapsto> (now + tv_ttlSeconds c * 1000, v)))"
    by (simp add: ti_get_miss split: sum.split)
  show "tv_cache (ti_invalidate (Some k) c) k = None" by (simp add: ti_invalidate_def)
qed simp

section \<open>Properties\<close>

text \<open>An answer of the law resolver is the archive's current answer, or one the archive gave for the same law
  type less than the time to live ago; errors are never cached. \<open>h\<close> collects the archive's earlier answers.\<close>

theorem law_get_bounded_staleness:
  assumes "\<forall>t x v. lr_cache r t = Some (x, v) \<longrightarrow> (t, x - lr_cacheTtlSeconds r * 1000, v) \<in> h"
  shows "case law_get a now t atIso r of
      (Inl e, r') \<Rightarrow> a = Inl e
    | (Inr v, r') \<Rightarrow> a = Inr v \<or> (\<exists>t0. (t, t0, v) \<in> h \<and> now < t0 + lr_cacheTtlSeconds r * 1000)"
  using law_cache.get_backed [where h = h and c = r and a = a and now = now and k = t and at' = atIso] assms
  unfolding law_cache.backed_def by (auto split: prod.splits sum.splits)

theorem law_get_bounded_staleness_witness:
  "case law_get (Inr None) 5 Routing [] (new_LawResolver None None None) of
      (Inl e, r') \<Rightarrow> False | (Inr v, r') \<Rightarrow> v = None"
proof -
  have "\<forall>t x v. lr_cache (new_LawResolver None None None) t = Some (x, v) \<longrightarrow>
      (t, x - lr_cacheTtlSeconds (new_LawResolver None None None) * 1000, v) \<in> {}"
    by (simp add: new_LawResolver_def)
  from law_get_bounded_staleness [OF this, where a = "Inr None" and now = 5 and t = Routing and atIso = "[]"]
  show ?thesis by (auto split: prod.splits sum.splits)
qed

text \<open>The cache is keyed by the law type alone. Within the time to live a lookup for another time returns the
  law found for the first time, whatever law is in force at the other time and whatever was archived in
  between; after \<open>invalidate\<close> the archive is asked again.\<close>

theorem law_get_ignores_time:
  assumes "lr_cache r t = None" "getCurrentLaw t at1 d1 = Inr l" "now2 < now1 + lr_cacheTtlSeconds r * 1000"
  shows "let r1 = snd (law_get (getCurrentLaw t at1 d1) now1 t at1 r) in
    fst (law_get (getCurrentLaw t at2 d2) now2 t at2 r1) = Inr l
    \<and> fst (law_get (getCurrentLaw t at2 d2) now2 t at2 (law_invalidate (Some t) r1)) = getCurrentLaw t at2 d2"
proof -
  have m: "\<forall>x v. lr_cache r t = Some (x, v) \<longrightarrow> x \<le> now1" by (simp add: assms(1))
  have "lr_cache (snd (law_get (Inr l) now1 t at1 r)) t = Some (now1 + lr_cacheTtlSeconds r * 1000, l)"
    using law_get_miss(2) [OF m, of "Inr l" at1] by simp
  from law_get_hit [OF this assms(3)] show ?thesis
    unfolding Let_def assms(2) using law_cache.get_after_drop by simp
qed

theorem law_get_ignores_time_witness:
  "let r = new_LawResolver None None None; t = ''2024-06-01T00:00:00Z'';
       r1 = snd (law_get (getCurrentLaw Routing t empty_db) 0 Routing t r)
   in fst (law_get (getCurrentLaw Routing t demo_law_db) 59999 Routing t r1) = Inr None"
proof -
  have "lr_cache (new_LawResolver None None None) Routing = None"
    "59999 < 0 + lr_cacheTtlSeconds (new_LawResolver None None None) * 1000"
    by (simp_all add: new_LawResolver_def)
  moreover have "getCurrentLaw Routing ''2024-06-01T00:00:00Z'' empty_db = Inr None"
    by (simp add: getCurrentLaw_cases law_candidates_def empty_db_def)
  ultimately show ?thesis using law_get_ignores_time unfolding Let_def by blast
qed

end
