(* ===== verification/Archive_Queues.thy ===== *)
theory Archive_Queues
  imports Archive_Log
begin

text \<open>
  \<open>sqlite.ts\<close>: the docket, idempotency keys, office approvals, the content store, the gossip log,
  foreign rejections and sync state, the outbound queue and dead letters of the bridge, the site status.
\<close>

section \<open>Docket\<close>

definition enqueueDocket :: "int \<Rightarrow> iso \<Rightarrow> string \<Rightarrow> db \<Rightarrow> (db, unit) out" where
  "enqueueDocket now_ms nowIso messageId d =
     (let i = messageId @ '':'' @ int_str now_ms in
      if i \<in> dk_id ` set (db_docket d) then Fail (Constraint ''UNIQUE docket.id'') d
      else if messageId \<notin> message_ids d then Fail (Constraint ''FOREIGN KEY'') d
      else Done () (d\<lparr>db_docket := db_docket d @
        [\<lparr>dk_id = i, dk_messageId = messageId, dk_attempts = 0, dk_availableAt = nowIso\<rparr>]\<rparr>))"

definition dequeueDocket :: "iso \<Rightarrow> db \<Rightarrow> docket_row option \<times> db" where
  "dequeueDocket nowIso d =
     (case first_row (order_asc dk_availableAt (filter (\<lambda>r. dk_availableAt r \<le> nowIso) (db_docket d))) of
        None \<Rightarrow> (None, d)
      | Some row \<Rightarrow> (Some row, d\<lparr>db_docket := filter (\<lambda>r. dk_id r \<noteq> dk_id row) (db_docket d)\<rparr>))"

section \<open>Idempotency keys\<close>

definition getIdempotency :: "string \<Rightarrow> iso \<Rightarrow> db \<Rightarrow> (string \<times> string \<times> iso) option" where
  "getIdempotency key nowIso d =
     (case find_row ik_key key (db_idempotency d) of
        None \<Rightarrow> None
      | Some row \<Rightarrow> (if ik_expiresAt row < nowIso then None
          else Some (ik_key row, ik_responseJson row, ik_expiresAt row)))"

definition putIdempotency :: "iso \<Rightarrow> string \<Rightarrow> string \<Rightarrow> iso \<Rightarrow> db \<Rightarrow> db" where
  "putIdempotency now key responseJson expiresAt d =
     d\<lparr>db_idempotency := upsert ik_key
         \<lparr>ik_key = key, ik_responseJson = responseJson, ik_expiresAt = expiresAt, ik_createdAt = now\<rparr>
         (\<lambda>r. r\<lparr>ik_responseJson := responseJson, ik_expiresAt := expiresAt\<rparr>) (db_idempotency d)\<rparr>"

section \<open>Office approvals\<close>

definition addOfficeApproval :: "iso \<Rightarrow> string \<Rightarrow> string \<Rightarrow> db \<Rightarrow> (db, nat) out" where
  "addOfficeApproval now messageId office d =
     (let dup = list_ex (\<lambda>r. oa_messageId r = messageId \<and> oa_office r = office) (db_approvals d);
          d1 = (if dup then d else d\<lparr>db_approvals := db_approvals d @
            [\<lparr>oa_messageId = messageId, oa_office = office, oa_approvedAt = now\<rparr>]\<rparr>)
      in if \<not> dup \<and> messageId \<notin> message_ids d then Fail (Constraint ''FOREIGN KEY'') d
         else Done (length (filter (\<lambda>r. oa_messageId r = messageId) (db_approvals d1))) d1)"

definition getOfficeApprovals :: "string \<Rightarrow> db \<Rightarrow> string list" where
  "getOfficeApprovals messageId d =
     map oa_office (order_asc oa_office (filter (\<lambda>r. oa_messageId r = messageId) (db_approvals d)))"

section \<open>Content store and logs\<close>

datatype content_payload = Bytes_payload bytes | Text_payload string

definition upsertContentBlob :: "string \<Rightarrow> content_payload \<Rightarrow> db \<Rightarrow> db" where
  "upsertContentBlob hash payload d =
     (let blob = (case payload of Text_payload s \<Rightarrow> utf8ToBytes s | Bytes_payload b \<Rightarrow> b)
      in d\<lparr>db_content := upsert cs_hash \<lparr>cs_hash = hash, cs_blob = blob, cs_refCount = 1\<rparr>
           (\<lambda>r. r\<lparr>cs_refCount := cs_refCount r + 1\<rparr>) (db_content d)\<rparr>)"

definition getContentBlob :: "string \<Rightarrow> db \<Rightarrow> bytes option" where
  "getContentBlob hash d = map_option cs_blob (find_row cs_hash hash (db_content d))"

record gossip_entry =
  ge_messageId :: string
  ge_peerNodeId :: string
  ge_sealSeq :: int
  ge_receivedAt :: iso
  ge_kind :: string

definition appendGossipLog :: "gossip_entry \<Rightarrow> db \<Rightarrow> db" where
  "appendGossipLog e d = use_id ''gossip_log'' (d\<lparr>db_gossip := db_gossip d @
     [\<lparr>gl_id = next_id ''gossip_log'' d, gl_messageId = ge_messageId e, gl_peerNodeId = ge_peerNodeId e,
       gl_sealSeq = ge_sealSeq e, gl_receivedAt = ge_receivedAt e, gl_kind = ge_kind e\<rparr>]\<rparr>)"

section \<open>Bridge tables\<close>

record foreign_rejected =
  fj_adapterId :: string
  fj_foreignId :: "string option"
  fj_reasonCode :: string
  fj_reasonDetail :: "string option"
  fj_payloadJson :: "string option"
  fj_receivedAt :: iso

definition appendForeignRejected :: "foreign_rejected \<Rightarrow> db \<Rightarrow> db" where
  "appendForeignRejected e d = use_id ''foreign_rejected'' (d\<lparr>db_foreign_rejected := db_foreign_rejected d @
     [\<lparr>fr_id = next_id ''foreign_rejected'' d, fr_adapterId = fj_adapterId e, fr_foreignId = fj_foreignId e,
       fr_reasonCode = fj_reasonCode e, fr_reasonDetail = fj_reasonDetail e,
       fr_payloadJson = fj_payloadJson e, fr_receivedAt = fj_receivedAt e\<rparr>]\<rparr>)"

definition upsertForeignSyncState :: "foreign_sync_row \<Rightarrow> db \<Rightarrow> (db, unit) out" where
  "upsertForeignSyncState e d =
     (if fs_documentId e \<notin> message_ids d then Fail (Constraint ''FOREIGN KEY'') d
      else Done () (d\<lparr>db_foreign_sync := upsert fs_documentId e (\<lambda>_. e) (db_foreign_sync d)\<rparr>))"

definition getForeignSyncState :: "string \<Rightarrow> db \<Rightarrow> foreign_sync_row option" where
  "getForeignSyncState documentId d = find_row fs_documentId documentId (db_foreign_sync d)"

definition enqueueBridgeOutbound :: "string \<Rightarrow> string \<Rightarrow> iso \<Rightarrow> db \<Rightarrow> (db, unit) out" where
  "enqueueBridgeOutbound adapterId messageId availableAt d =
     (if messageId \<notin> message_ids d then Fail (Constraint ''FOREIGN KEY'') d
      else Done () (use_id ''bridge_outbound_queue'' (d\<lparr>db_outbound := db_outbound d @
        [\<lparr>bo_id = next_id ''bridge_outbound_queue'' d, bo_adapterId = adapterId, bo_messageId = messageId,
          bo_attempts = 0, bo_availableAt = availableAt, bo_lastError = None, bo_status = Queued\<rparr>]\<rparr>)))"

definition dequeueBridgeOutbound :: "iso \<Rightarrow> int \<Rightarrow> db \<Rightarrow> outbound_row list" where
  "dequeueBridgeOutbound nowIso limit d =
     limit_rows limit (order_asc (\<lambda>r. (bo_availableAt r, bo_id r))
       (filter (\<lambda>r. bo_availableAt r \<le> nowIso \<and> bo_status r \<in> {Queued, Failed_status}) (db_outbound d)))"

definition markBridgeOutboundResult :: "iso \<Rightarrow> nat \<Rightarrow> outbound_status \<Rightarrow> string option \<Rightarrow> db \<Rightarrow> db" where
  "markBridgeOutboundResult now i status lastError d =
     (if status = Sent then d\<lparr>db_outbound := filter (\<lambda>r. bo_id r \<noteq> i) (db_outbound d)\<rparr>
      else d\<lparr>db_outbound := update_where (\<lambda>r. bo_id r = i)
        (\<lambda>r. r\<lparr>bo_status := status, bo_attempts := bo_attempts r + 1, bo_lastError := lastError,
               bo_availableAt := now\<rparr>) (db_outbound d)\<rparr>)"

record dead_letter =
  de_adapterId :: string
  de_messageId :: "string option"
  de_payloadJson :: string
  de_reason :: string
  de_attempts :: nat
  de_nextRetryAt :: iso
  de_createdAt :: iso

definition appendBridgeDeadLetter :: "dead_letter \<Rightarrow> db \<Rightarrow> db" where
  "appendBridgeDeadLetter e d = use_id ''bridge_dead_letter'' (d\<lparr>db_dead_letter := db_dead_letter d @
     [\<lparr>dl_id = next_id ''bridge_dead_letter'' d, dl_adapterId = de_adapterId e, dl_messageId = de_messageId e,
       dl_payloadJson = de_payloadJson e, dl_reason = de_reason e, dl_attempts = de_attempts e,
       dl_nextRetryAt = de_nextRetryAt e, dl_createdAt = de_createdAt e\<rparr>]\<rparr>)"

definition dequeueBridgeDeadLetter :: "iso \<Rightarrow> int \<Rightarrow> db \<Rightarrow> dead_letter_row list" where
  "dequeueBridgeDeadLetter nowIso limit d =
     limit_rows limit (order_asc (\<lambda>r. (dl_nextRetryAt r, dl_id r))
       (filter (\<lambda>r. dl_nextRetryAt r \<le> nowIso) (db_dead_letter d)))"

definition markBridgeDeadLetterResult :: "iso \<Rightarrow> nat \<Rightarrow> bool \<Rightarrow> iso option \<Rightarrow> string option \<Rightarrow> db \<Rightarrow> db" where
  "markBridgeDeadLetterResult now i success nextRetryAt reason d =
     (if success then d\<lparr>db_dead_letter := filter (\<lambda>r. dl_id r \<noteq> i) (db_dead_letter d)\<rparr>
      else d\<lparr>db_dead_letter := update_where (\<lambda>r. dl_id r = i)
        (\<lambda>r. r\<lparr>dl_attempts := dl_attempts r + 1,
               dl_nextRetryAt := (case nextRetryAt of None \<Rightarrow> now | Some t \<Rightarrow> t),
               dl_reason := (case reason of None \<Rightarrow> ''retry'' | Some x \<Rightarrow> x)\<rparr>) (db_dead_letter d)\<rparr>)"

section \<open>Site status\<close>

datatype site_status = Active | Quarantined | Resumed

fun site_str :: "site_status \<Rightarrow> string" where
  "site_str Active = ''ACTIVE''"
| "site_str Quarantined = ''QUARANTINED''"
| "site_str Resumed = ''RESUMED''"

definition setSiteStatus :: "iso \<Rightarrow> site_status \<Rightarrow> string option \<Rightarrow> db \<Rightarrow> db" where
  "setSiteStatus now status reason d =
     (let v = JObj [(''status'', JStr (site_str status)), (''reason'', opt_json reason)]
      in d\<lparr>db_site := upsert sr_key \<lparr>sr_key = ''site_status'', sr_value = v, sr_updatedAt = now\<rparr>
           (\<lambda>r. r\<lparr>sr_value := v, sr_updatedAt := now\<rparr>) (db_site d)\<rparr>)"

definition getSiteStatus :: "db \<Rightarrow> site_status" where
  "getSiteStatus d =
     (case find_row sr_key ''site_status'' (db_site d) of
        None \<Rightarrow> Active
      | Some row \<Rightarrow>
        (case sr_value row of
           JObj ps \<Rightarrow>
             (if obj_get ps ''status'' = Some (JStr ''QUARANTINED'') then Quarantined
              else if obj_get ps ''status'' = Some (JStr ''RESUMED'') then Resumed else Active)
         | _ \<Rightarrow> Active))"

section \<open>Laws of the queues\<close>

text \<open>
  The docket and the outbound queue share the contract of a time-ordered work queue: what comes out was
  put in, is due, and is the earliest; the rest stays.
\<close>

locale due_queue =
  fixes due_at :: "'r \<Rightarrow> iso"
    and rows :: "'s \<Rightarrow> 'r list"
    and ready :: "iso \<Rightarrow> 'r \<Rightarrow> bool"
    and pick :: "iso \<Rightarrow> 's \<Rightarrow> 'r option"
  assumes pick_None: "pick now s = None \<longleftrightarrow> (\<forall>r\<in>set (rows s). \<not> ready now r)"
    and pick_Some: "pick now s = Some r \<Longrightarrow> r \<in> set (rows s) \<and> ready now r
      \<and> (\<forall>x\<in>set (rows s). ready now x \<longrightarrow> due_at r \<le> due_at x)"
    and ready_due: "ready now r \<Longrightarrow> due_at r \<le> now"
begin

lemma pick_due: "pick now s = Some r \<Longrightarrow> due_at r \<le> now"
  using pick_Some ready_due by blast

lemma pick_earliest: "pick now s = Some r \<Longrightarrow> x \<in> set (rows s) \<Longrightarrow> ready now x \<Longrightarrow> due_at r \<le> due_at x"
  using pick_Some by blast

lemma pick_progress: "r \<in> set (rows s) \<Longrightarrow> ready now r \<Longrightarrow> \<exists>x. pick now s = Some x"
  using pick_None by fastforce

end

interpretation docket: due_queue dk_availableAt db_docket "\<lambda>now r. dk_availableAt r \<le> now"
  "\<lambda>now d. fst (dequeueDocket now d)"
proof unfold_locales
  fix now :: iso and d :: db and r
  let ?q = "first_row (order_asc dk_availableAt (filter (\<lambda>r. dk_availableAt r \<le> now) (db_docket d)))"
  have fst: "fst (dequeueDocket now d) = ?q"
    by (simp add: dequeueDocket_def split: option.split)
  show "fst (dequeueDocket now d) = None \<longleftrightarrow> (\<forall>r\<in>set (db_docket d). \<not> dk_availableAt r \<le> now)"
    unfolding fst first_row_None order_Nil_iff filter_empty_conv by (rule refl)
  assume "fst (dequeueDocket now d) = Some r"
  then have q: "?q = Some r" by (simp add: fst)
  then have "r \<in> set (filter (\<lambda>r. dk_availableAt r \<le> now) (db_docket d))"
    by (metis first_row_Some_in set_order_asc)
  with order_asc_first_min [OF q]
  show "r \<in> set (db_docket d) \<and> dk_availableAt r \<le> now
      \<and> (\<forall>x\<in>set (db_docket d). dk_availableAt x \<le> now \<longrightarrow> dk_availableAt r \<le> dk_availableAt x)"
    by simp
qed

interpretation outbound: due_queue bo_availableAt db_outbound
  "\<lambda>now r. bo_availableAt r \<le> now \<and> bo_status r \<in> {Queued, Failed_status}"
  "\<lambda>now d. first_row (dequeueBridgeOutbound now 1 d)"
proof unfold_locales
  fix now :: iso and d :: db and r
  let ?f = "filter (\<lambda>r. bo_availableAt r \<le> now \<and> bo_status r \<in> {Queued, Failed_status}) (db_outbound d)"
  let ?q = "first_row (order_asc (\<lambda>r. (bo_availableAt r, bo_id r)) ?f)"
  have q: "first_row (dequeueBridgeOutbound now 1 d) = ?q"
    unfolding dequeueBridgeOutbound_def limit_rows_def using first_row_take [of 1] by simp
  show "first_row (dequeueBridgeOutbound now 1 d) = None \<longleftrightarrow>
      (\<forall>r\<in>set (db_outbound d). \<not> (bo_availableAt r \<le> now \<and> bo_status r \<in> {Queued, Failed_status}))"
    unfolding q first_row_None order_Nil_iff filter_empty_conv by (rule refl)
  assume "first_row (dequeueBridgeOutbound now 1 d) = Some r"
  then have q': "?q = Some r" by (simp add: q)
  then have "r \<in> set ?f" by (rule first_row_Some_in [THEN set_order_asc [THEN equalityD1, THEN subsetD]])
  moreover have "bo_availableAt r \<le> bo_availableAt x" if "x \<in> set ?f" for x
    using order_asc_first_min [OF q' that] by auto
  ultimately show "r \<in> set (db_outbound d) \<and> (bo_availableAt r \<le> now \<and> bo_status r \<in> {Queued, Failed_status})
      \<and> (\<forall>x\<in>set (db_outbound d). bo_availableAt x \<le> now \<and> bo_status x \<in> {Queued, Failed_status} \<longrightarrow>
          bo_availableAt r \<le> bo_availableAt x)" by simp
qed simp

section \<open>Properties\<close>

text \<open>C33: Taking from the docket removes exactly the row it returns, which is due and the earliest of the due
  rows; when nothing is due it returns nothing and changes nothing. So with unique row ids, repeated
  dequeuing hands out every due row once, in order of availability.\<close>

theorem dequeueDocket_correct:
  assumes "distinct (map dk_id (db_docket d))"
  shows "case dequeueDocket now d of
      (None, d') \<Rightarrow> d' = d \<and> (\<forall>r\<in>set (db_docket d). now < dk_availableAt r)
    | (Some r, d') \<Rightarrow> r \<in> set (db_docket d) \<and> dk_availableAt r \<le> now
        \<and> (\<forall>x\<in>set (db_docket d). dk_availableAt x \<le> now \<longrightarrow> dk_availableAt r \<le> dk_availableAt x)
        \<and> set (db_docket d') = set (db_docket d) - {r} \<and> d' = d\<lparr>db_docket := db_docket d'\<rparr>"
proof (cases "fst (dequeueDocket now d)")
  case None
  then have "d = snd (dequeueDocket now d)" by (simp add: dequeueDocket_def split: option.splits)
  with None docket.pick_None [of now d] show ?thesis by (auto simp: case_prod_beta not_le)
next
  case (Some r)
  then have d': "snd (dequeueDocket now d) = d\<lparr>db_docket := filter (\<lambda>x. dk_id x \<noteq> dk_id r) (db_docket d)\<rparr>"
    by (auto simp: dequeueDocket_def split: option.splits)
  note P = docket.pick_Some [OF Some]
  have "{x \<in> set (db_docket d). dk_id x \<noteq> dk_id r} = set (db_docket d) - {r}"
    using assms P by (auto simp: distinct_map inj_on_def)
  with P d' Some show ?thesis by (auto simp: case_prod_beta)
qed

definition demo_docket :: db where
  "demo_docket = empty_db\<lparr>db_docket :=
     [\<lparr>dk_id = ''a'', dk_messageId = ''a'', dk_attempts = 0, dk_availableAt = ''2''\<rparr>,
      \<lparr>dk_id = ''b'', dk_messageId = ''b'', dk_attempts = 0, dk_availableAt = ''1''\<rparr>]\<rparr>"

theorem dequeueDocket_correct_witness:
  "\<exists>r d'. dequeueDocket ''3'' demo_docket = (Some r, d') \<and> dk_id r = ''b''
    \<and> set (db_docket d') = set (db_docket demo_docket) - {r}"
proof -
  have "distinct (map dk_id (db_docket demo_docket))" by (simp add: demo_docket_def)
  note D = dequeueDocket_correct [OF this, of "''3''"]
  have "(case dequeueDocket ''3'' demo_docket of (Some r, _) \<Rightarrow> dk_id r = ''b'' | _ \<Rightarrow> False)" by code_simp
  with D show ?thesis by (auto split: prod.splits option.splits)
qed

text \<open>A stored response is returned for its key until its expiry time, inclusive, and not after; storing again
  replaces response and expiry, and other keys are not affected.\<close>

theorem idempotency_get_put:
  "getIdempotency key nowIso (putIdempotency t key' response expires d) =
    (if key = key' then (if expires < nowIso then None else Some (key, response, expires))
     else getIdempotency key nowIso d)"
  unfolding getIdempotency_def putIdempotency_def
  by (cases "find_row ik_key key (db_idempotency d)")
    (auto simp: find_row_upsert dest: find_row_Some_in)

definition offices_of :: "string \<Rightarrow> db \<Rightarrow> string set" where
  "offices_of i d = oa_office ` {r \<in> set (db_approvals d). oa_messageId r = i}"

definition approvals_unique :: "db \<Rightarrow> bool" where
  "approvals_unique d \<longleftrightarrow> distinct (map (\<lambda>r. (oa_messageId r, oa_office r)) (db_approvals d))"

lemma offices_card:
  assumes "approvals_unique d"
  shows "length (filter (\<lambda>r. oa_messageId r = i) (db_approvals d)) = card (offices_of i d)"
proof -
  let ?f = "filter (\<lambda>r. oa_messageId r = i) (db_approvals d)"
  have "distinct (map oa_office ?f)"
    using assms by (auto simp: approvals_unique_def distinct_map inj_on_def)
  then have "card (set (map oa_office ?f)) = length (map oa_office ?f)" by (rule distinct_card)
  then show ?thesis by (simp add: offices_of_def)
qed

lemma addOfficeApproval_effect:
  assumes "approvals_unique d" "addOfficeApproval now i office d = Done n d'"
  shows "approvals_unique d'" "offices_of i d' = insert office (offices_of i d)"
    "n = length (filter (\<lambda>r. oa_messageId r = i) (db_approvals d'))"
proof -
  let ?new = "\<lparr>oa_messageId = i, oa_office = office, oa_approvedAt = now\<rparr>"
  have "approvals_unique d' \<and> offices_of i d' = insert office (offices_of i d)
    \<and> n = length (filter (\<lambda>r. oa_messageId r = i) (db_approvals d'))"
  proof (cases "list_ex (\<lambda>r. oa_messageId r = i \<and> oa_office r = office) (db_approvals d)")
    case True
    then have "office \<in> offices_of i d" by (auto simp: list_ex_iff offices_of_def)
    with True assms show ?thesis by (auto simp: addOfficeApproval_def)
  next
    case False
    then have d': "d' = d\<lparr>db_approvals := db_approvals d @ [?new]\<rparr>"
      using assms(2) by (simp add: addOfficeApproval_def Let_def split: if_splits)
    have "{r \<in> set (db_approvals d'). oa_messageId r = i} = insert ?new {r \<in> set (db_approvals d). oa_messageId r = i}"
      by (auto simp: d')
    then have "offices_of i d' = insert office (offices_of i d)" by (simp add: offices_of_def)
    moreover have "approvals_unique d'"
      using False assms(1) by (auto simp: d' approvals_unique_def list_ex_iff)
    moreover have "n = length (filter (\<lambda>r. oa_messageId r = i) (db_approvals d'))"
      using assms(2) False d' by (simp add: addOfficeApproval_def Let_def split: if_splits)
    ultimately show ?thesis by blast
  qed
  then show "approvals_unique d'" "offices_of i d' = insert office (offices_of i d)"
    "n = length (filter (\<lambda>r. oa_messageId r = i) (db_approvals d'))" by blast+
qed

text \<open>Office approvals are counted per office: approving twice does not count twice, and the number
  \<open>addOfficeApproval\<close> returns is the number of distinct offices that have approved the message, which
  \<open>getOfficeApprovals\<close> lists.\<close>

theorem addOfficeApproval_counts_offices:
  assumes "approvals_unique d" "addOfficeApproval now i office d = Done n d'"
  shows "approvals_unique d' \<and> n = card (insert office (offices_of i d))
    \<and> set (getOfficeApprovals i d') = insert office (offices_of i d)"
proof -
  note E = addOfficeApproval_effect [OF assms]
  have "set (getOfficeApprovals i d') = offices_of i d'" by (simp add: getOfficeApprovals_def offices_of_def)
  with E offices_card [OF E(1), of i] show ?thesis by simp
qed

definition demo_approvals :: db where
  "demo_approvals = (demo_db (\<lambda>x. x))\<lparr>db_approvals :=
     [\<lparr>oa_messageId = ''m1'', oa_office = ''shangshu'', oa_approvedAt = []\<rparr>]\<rparr>"

theorem addOfficeApproval_counts_offices_witness:
  "\<exists>n d'. addOfficeApproval [] ''m1'' ''shangshu'' demo_approvals = Done n d'
    \<and> n = card (insert ''shangshu'' (offices_of ''m1'' demo_approvals))"
proof -
  have u: "approvals_unique demo_approvals" by (simp add: approvals_unique_def demo_approvals_def)
  obtain n d' where d: "addOfficeApproval [] ''m1'' ''shangshu'' demo_approvals = Done n d'"
    by (simp add: addOfficeApproval_def demo_approvals_def)
  from addOfficeApproval_counts_offices [OF u d] d show ?thesis by blast
qed

end
