(* ===== verification/Archive_Sync.thy ===== *)
theory Archive_Sync
  imports Archive_Laws
begin

text \<open>
  \<open>sqlite.ts\<close>: Merkle roots and proofs over the archive, the sync range; \<open>sync.ts\<close>: \<open>syncWithPeer\<close>. The
  peer is a record of its answers. A call reads the clock once here: its readings only reach the
  \<open>updated_at\<close> and \<open>received_at\<close> columns.
\<close>

section \<open>Merkle roots and proofs of the archive\<close>

text \<open>The three scopes the code declares, and any other text a request may name: it is neither filtered nor given the other leaves.\<close>

datatype scope = All_scope | Constitutional | Legislative | Other_scope string

fun scope_str :: "scope \<Rightarrow> string" where
  "scope_str All_scope = ''all''"
| "scope_str Constitutional = ''constitutional''"
| "scope_str Legislative = ''legislative''"
| "scope_str (Other_scope s) = s"

definition message_leaf_rows :: "scope \<Rightarrow> db \<Rightarrow> (string \<times> string) list" where
  "message_leaf_rows scope d =
     map (\<lambda>r. (mr_id r, case mr_content_hash r of Some h \<Rightarrow> h | None \<Rightarrow> mr_id r))
       (order_asc (\<lambda>r. (the (mr_archived_at r), mr_id r))
         (filter (\<lambda>r. mr_archived_at r \<noteq> None
             \<and> (scope = Constitutional \<longrightarrow> mr_constitutional r)
             \<and> (scope = Legislative \<longrightarrow> mr_genre r = Some ''edict'')) (db_messages d)))"

definition collectMerkleLeaves :: "(string \<Rightarrow> string) \<Rightarrow> scope \<Rightarrow> db \<Rightarrow> string list \<times> (string \<times> string) list" where
  "collectMerkleLeaves sha scope d =
     (let messageLeafRows = message_leaf_rows scope d;
          leaves = map snd messageLeafRows;
          reads = map (\<lambda>r. sha (s0_query_timestamp r @ '':'' @ s0_id r @ '':'' @ s0_result_hash r))
            (order_asc (\<lambda>r. (s0_query_timestamp r, s0_id r)) (db_seal0 d));
          alerts = map (\<lambda>a. sha (al_createdAt a @ '':'' @ al_id a))
            (order_asc (\<lambda>a. (al_createdAt a, al_id a)) (db_alerts d));
          checkpoints = map (\<lambda>c. sha (ck_createdAt c @ '':'' @ ck_id c))
            (order_asc (\<lambda>c. (ck_createdAt c, ck_id c)) (db_checkpoints d))
      in (leaves @ (if scope = All_scope then reads @ alerts @ checkpoints else []), messageLeafRows))"

definition archive_root :: "(string \<Rightarrow> string) \<Rightarrow> scope \<Rightarrow> db \<Rightarrow> string" where
  "archive_root sha scope d = merkleRootForLeaves sha (fst (collectMerkleLeaves sha scope d))"

definition getMerkleRoot :: "(string \<Rightarrow> string) \<Rightarrow> iso \<Rightarrow> scope \<Rightarrow> db \<Rightarrow> string \<times> db" where
  "getMerkleRoot sha now scope d =
     (let rt = archive_root sha scope d;
          row = \<lparr>as_scope = scope_str scope, as_merkleRoot = rt, as_updatedAt = now\<rparr>
      in (rt, d\<lparr>db_state := upsert as_scope row (\<lambda>r. r\<lparr>as_merkleRoot := rt, as_updatedAt := now\<rparr>) (db_state d)\<rparr>))"

fun find_index :: "('a \<Rightarrow> bool) \<Rightarrow> 'a list \<Rightarrow> nat option" where
  "find_index p [] = None"
| "find_index p (x # xs) = (if p x then Some 0 else map_option Suc (find_index p xs))"

definition getMerkleProof :: "(string \<Rightarrow> string) \<Rightarrow> string \<Rightarrow> db \<Rightarrow> err + merkle_proof option" where
  "getMerkleProof sha messageId d =
     (let (leaves, messageLeafRows) = collectMerkleLeaves sha All_scope d in
      case find_index (\<lambda>r. fst r = messageId) messageLeafRows of
        None \<Rightarrow> Inr None
      | Some idx \<Rightarrow> map_sum id Some (buildMerkleProofFromLeaves sha leaves (int idx)))"

section \<open>The sync range\<close>

definition cursor_of :: "string \<Rightarrow> rat" where
  "cursor_of fromCursor = (case str_Number fromCursor of None \<Rightarrow> 0 | Some n \<Rightarrow> n)"

definition getSyncRange :: "string \<Rightarrow> int \<Rightarrow> db \<Rightarrow> transition list" where
  "getSyncRange fromCursor limit d =
     map transition_of_row (limit_rows limit
       (order_asc tr_id (filter (\<lambda>r. cursor_of fromCursor < of_nat (tr_id r)) (db_transitions d))))"

section \<open>sync.ts\<close>

record sync_remote =
  rem_getMerkleRoot :: "scope \<Rightarrow> string"
  rem_getSyncRange :: "string \<Rightarrow> int \<Rightarrow> obj list"
  rem_getMessage :: "(string \<Rightarrow> envelope option) option"

record sync_result =
  sy_localRoot :: string
  sy_remoteRoot :: string
  sy_diverged :: bool
  sy_fetched :: nat
  sy_applied :: nat
  sy_skipped :: nat
  sy_unresolved :: nat

text \<open>
  \<open>asTransition\<close>: the \<open>typeof\<close> tests on a row of the peer, and nothing else. The states are cast unchecked: a text that is none of the six
  states is taken, as a state of which nothing is known; so is a sequence number that is not whole.
\<close>

definition cast_state :: "string \<Rightarrow> message_state" where
  "cast_state s = (case MessageStateSchema (JStr s) of Some q \<Rightarrow> q | None \<Rightarrow> undefined)"

definition cast_number :: "int \<Rightarrow> nat \<Rightarrow> int" where
  "cast_number m e = (if e = 0 then m else undefined)"

definition asTransition :: "obj \<Rightarrow> transition option" where
  "asTransition raw =
     (case (as_str (obj_get raw ''messageId''), as_str (obj_get raw ''fromState''),
            as_str (obj_get raw ''toState''), obj_get raw ''sequenceNo'', as_str (obj_get raw ''at'')) of
        (Some m, Some p, Some q, Some (JNum n e), Some a) \<Rightarrow>
          Some \<lparr>t_messageId = m, t_fromState = cast_state p, t_toState = cast_state q, t_sequenceNo = cast_number n e,
            t_actorId = as_str (obj_get raw ''actorId''), t_reason = as_str (obj_get raw ''reason''),
            t_sealedAt = as_str (obj_get raw ''sealedAt''),
            t_prevTransitionHash = as_str (obj_get raw ''prevTransitionHash''), t_at = a\<rparr>
      | _ \<Rightarrow> None)"

text \<open>The local message of a row, fetched from the peer when it is missing: the new state, and whether
  there is one.\<close>

definition resolve_message :: "(string \<Rightarrow> string) \<Rightarrow> iso \<Rightarrow> sync_remote \<Rightarrow> string \<Rightarrow> db \<Rightarrow> (db, bool) out" where
  "resolve_message sha now remote messageId d =
     (if getMessage messageId d \<noteq> None then Done True d
      else case rem_getMessage remote of
          None \<Rightarrow> Done False d
        | Some get \<Rightarrow>
          (case get messageId of
             None \<Rightarrow> Done False d
           | Some remoteMsg \<Rightarrow> and_then (appendMessage sha now remoteMsg d) (\<lambda>_ d1. Done True d1)))"

definition same_step :: "transition \<Rightarrow> transition \<Rightarrow> bool" where
  "same_step t x \<longleftrightarrow> t_sequenceNo x = t_sequenceNo t \<and> t_fromState x = t_fromState t \<and> t_toState x = t_toState t"

fun sync_loop :: "(string \<Rightarrow> string) \<Rightarrow> iso \<Rightarrow> sync_remote \<Rightarrow> obj list \<Rightarrow> nat \<Rightarrow> nat \<Rightarrow> nat \<Rightarrow> db
    \<Rightarrow> (db, nat \<times> nat \<times> nat) out" where
  "sync_loop sha now remote [] applied skipped unresolved d = Done (applied, skipped, unresolved) d"
| "sync_loop sha now remote (raw # rows) applied skipped unresolved d =
     (case asTransition raw of
        None \<Rightarrow> sync_loop sha now remote rows applied (Suc skipped) unresolved d
      | Some t \<Rightarrow>
        and_then (resolve_message sha now remote (t_messageId t) d) (\<lambda>found d1.
          if \<not> found then sync_loop sha now remote rows applied skipped (Suc unresolved) d1
          else if list_ex (same_step t) (getTransitions (t_messageId t) d1)
          then sync_loop sha now remote rows applied (Suc skipped) unresolved d1
          else and_then (appendTransition sha t d1) (\<lambda>_ d2.
            sync_loop sha now remote rows (Suc applied) skipped unresolved d2)))"

definition syncWithPeer :: "(string \<Rightarrow> string) \<Rightarrow> iso \<Rightarrow> sync_remote \<Rightarrow> string option \<Rightarrow> int option \<Rightarrow> scope option
    \<Rightarrow> db \<Rightarrow> (db, sync_result) out" where
  "syncWithPeer sha now remote fromCursor limit scope_opt d =
     (let scope = (case scope_opt of None \<Rightarrow> All_scope | Some s \<Rightarrow> s);
          (localRoot, d1) = getMerkleRoot sha now scope d;
          remoteRoot = rem_getMerkleRoot remote scope
      in if localRoot = remoteRoot
         then Done \<lparr>sy_localRoot = localRoot, sy_remoteRoot = remoteRoot, sy_diverged = False,
                sy_fetched = 0, sy_applied = 0, sy_skipped = 0, sy_unresolved = 0\<rparr> d1
         else
          (let rows = rem_getSyncRange remote
                 (case fromCursor of None \<Rightarrow> ''0'' | Some c \<Rightarrow> c) (case limit of None \<Rightarrow> 200 | Some n \<Rightarrow> n)
           in and_then (sync_loop sha now remote rows 0 0 0 d1) (\<lambda>(applied, skipped, unresolved) d2.
                (let (newRoot, d3) = getMerkleRoot sha now scope d2
                 in Done \<lparr>sy_localRoot = newRoot, sy_remoteRoot = remoteRoot, sy_diverged = True,
                      sy_fetched = length rows, sy_applied = applied, sy_skipped = skipped,
                      sy_unresolved = unresolved\<rparr> d3))))"

section \<open>What a sync keeps and does\<close>

lemma getMerkleRoot_inv:
  "archive_inv sha d \<Longrightarrow> archive_inv sha (snd (getMerkleRoot sha' now scope d))"
  by (simp add: getMerkleRoot_def Let_def archive_inv_def message_ids_def)

lemma resolve_cases:
  obtains "getMessage i d \<noteq> None" "resolve_message sha now remote i d = Done True d"
  | "getMessage i d = None" "Option.bind (rem_getMessage remote) (\<lambda>get. get i) = None"
    "resolve_message sha now remote i d = Done False d"
  | m where "getMessage i d = None" "Option.bind (rem_getMessage remote) (\<lambda>get. get i) = Some m"
    "resolve_message sha now remote i d = and_then (appendMessage sha now m d) (\<lambda>_ d1. Done True d1)"
  by (cases "getMessage i d"; cases "rem_getMessage remote")
    (auto simp: resolve_message_def split: option.splits)

lemma resolve_inv:
  assumes "archive_inv sha d"
  shows "archive_inv sha (out_state (resolve_message sha now remote i d))"
proof (rule resolve_cases [of i d sha now remote])
  fix m assume "resolve_message sha now remote i d = and_then (appendMessage sha now m d) (\<lambda>_ d1. Done True d1)"
  then show ?thesis
    using appendMessage_inv [OF assms, of now m] by (cases "appendMessage sha now m d") simp_all
qed (simp_all add: assms)

lemma sync_row_inv:
  assumes "archive_inv sha d" "\<And>a s u d. archive_inv sha d \<Longrightarrow> archive_inv sha (out_state (k a s u d))"
  shows "archive_inv sha (out_state (and_then (resolve_message sha now remote i d) (\<lambda>found d1.
    if \<not> found then k a s (Suc u) d1
    else if p d1 then k a (Suc s) u d1
    else and_then (appendTransition sha t d1) (\<lambda>_ d2. k (Suc a) s u d2))))"
proof (rule and_then_state_inv)
  fix found d1 assume "archive_inv sha d1"
  moreover have "archive_inv sha (out_state (and_then (appendTransition sha t d1) (\<lambda>_ d2. k (Suc a) s u d2)))"
    if "archive_inv sha d1"
    by (rule and_then_state_inv) (use appendTransition_inv [OF that] assms(2) in simp_all)
  ultimately show "archive_inv sha (out_state (if \<not> found then k a s (Suc u) d1
    else if p d1 then k a (Suc s) u d1
    else and_then (appendTransition sha t d1) (\<lambda>_ d2. k (Suc a) s u d2)))"
    using assms(2) by simp
qed (rule resolve_inv [OF assms(1)])

lemma sync_loop_inv:
  "archive_inv sha d \<Longrightarrow> archive_inv sha (out_state (sync_loop sha now remote rows a s u d))"
proof (induction rows arbitrary: a s u d)
  case (Cons raw rows)
  show ?case
  proof (cases "asTransition raw")
    case (Some t)
    have "archive_inv sha (out_state (and_then (resolve_message sha now remote (t_messageId t) d) (\<lambda>found d1.
      if \<not> found then sync_loop sha now remote rows a s (Suc u) d1
      else if list_ex (same_step t) (getTransitions (t_messageId t) d1) then sync_loop sha now remote rows a (Suc s) u d1
      else and_then (appendTransition sha t d1) (\<lambda>_ d2. sync_loop sha now remote rows (Suc a) s u d2))))"
      by (rule sync_row_inv [OF Cons.prems Cons.IH])
    with Some show ?thesis by simp
  qed (use Cons in simp)
qed simp

lemma sync_inv:
  assumes "archive_inv sha d"
  shows "archive_inv sha (out_state (syncWithPeer sha now remote c l sc d))"
proof -
  define scope where "scope = (case sc of None \<Rightarrow> All_scope | Some s \<Rightarrow> s)"
  obtain rt d1 where g: "getMerkleRoot sha now scope d = (rt, d1)" by (cases "getMerkleRoot sha now scope d")
  have d1: "archive_inv sha d1" using getMerkleRoot_inv [OF assms, of sha now scope] by (simp add: g)
  show ?thesis
    unfolding syncWithPeer_def Let_def scope_def [symmetric] g prod.case
    by (cases "rt = rem_getMerkleRoot remote scope")
      (auto intro!: and_then_state_inv [where P = "archive_inv sha"] sync_loop_inv d1
        simp: case_prod_beta getMerkleRoot_inv)
qed

text \<open>Appending keeps what is there: messages and transitions are never removed or changed.\<close>

definition extends_db :: "db \<Rightarrow> db \<Rightarrow> bool" where
  "extends_db d d' \<longleftrightarrow> (\<exists>rs. db_transitions d' = db_transitions d @ rs)
     \<and> (\<forall>i. getMessage i d \<noteq> None \<longrightarrow> getMessage i d' = getMessage i d)"

lemma extends_refl [simp]: "extends_db d d"
  by (simp add: extends_db_def)

lemma extends_trans [trans]: "extends_db d d1 \<Longrightarrow> extends_db d1 d2 \<Longrightarrow> extends_db d d2"
  unfolding extends_db_def by (metis append.assoc)

lemma appendMessage_Done:
  "appendMessage sha now m d = Done u d' \<Longrightarrow> e_id m \<notin> message_ids d
    \<and> d' = d\<lparr>db_messages := db_messages d @ [message_row_of sha now m]\<rparr>"
  by (simp add: appendMessage_def split: if_splits)

lemma getMessage_new:
  "getMessage i (d\<lparr>db_messages := db_messages d @ [message_row_of sha now m]\<rparr>) =
    (case getMessage i d of Some x \<Rightarrow> Some x | None \<Rightarrow> if e_id m = i then Some m else None)"
  by (cases "find_row mr_id i (db_messages d)")
    (simp_all add: getMessage_def find_row_append message_row_of_def)

lemma extends_message: "appendMessage sha now m d = Done u d' \<Longrightarrow> extends_db d d'"
  by (auto simp: extends_db_def getMessage_new dest!: appendMessage_Done)

lemma index_getMessage: "getMessage j (out_state (indexArchivedMessage i t d)) = getMessage j d"
proof -
  have frame: "getMessage j (db_edicts_update f e) = getMessage j e" "getMessage j (db_ti_update g e) = getMessage j e"
    for f g e by (simp_all add: getMessage_def)
  show ?thesis
    by (cases "getMessage i d") (auto simp: indexArchivedMessage_def Let_def frame split: option.split)
qed

lemma appendTransition_getMessage:
  assumes "appendTransition sha t d = Done () d'"
  shows "getMessage j d' = getMessage j d"
proof -
  have idx: "getMessage j d' = getMessage j e" if "indexArchivedMessage i x e = Done () d'" for i x e
    using index_getMessage [of j i x e] that by simp
  show ?thesis
    using assms by (auto simp: appendTransition_def Let_def split: if_splits dest!: idx)
qed

lemma extends_transition:
  assumes "appendTransition sha t d = Done () d'"
  shows "extends_db d d'"
proof -
  have "\<exists>rs. db_transitions d' = db_transitions d @ rs"
    using assms by (auto simp: appendTransition_def Let_def use_id_def frame_simps split: if_splits dest!: index_Done)
  then show ?thesis by (simp add: extends_db_def appendTransition_getMessage [OF assms])
qed

section \<open>A sync settles every row it fetched\<close>

text \<open>A peer answers \<open>getMessage(id)\<close> with the message of that id.\<close>

definition answers_by_id :: "sync_remote \<Rightarrow> bool" where
  "answers_by_id remote \<longleftrightarrow> (\<forall>get. rem_getMessage remote = Some get \<longrightarrow> (\<forall>i m. get i = Some m \<longrightarrow> e_id m = i))"

definition known_to :: "sync_remote \<Rightarrow> string \<Rightarrow> bool" where
  "known_to remote i \<longleftrightarrow> Option.bind (rem_getMessage remote) (\<lambda>get. get i) \<noteq> None"

definition sync_ext :: "sync_remote \<Rightarrow> db \<Rightarrow> db \<Rightarrow> bool" where
  "sync_ext remote d d' \<longleftrightarrow> extends_db d d'
     \<and> (\<forall>j. getMessage j d = None \<longrightarrow> getMessage j d' \<noteq> None \<longrightarrow> known_to remote j)"

definition unresolved_row :: "db \<Rightarrow> obj \<Rightarrow> bool" where
  "unresolved_row d raw \<longleftrightarrow> (case asTransition raw of None \<Rightarrow> False | Some t \<Rightarrow> getMessage (t_messageId t) d = None)"

definition settled :: "sync_remote \<Rightarrow> db \<Rightarrow> obj \<Rightarrow> bool" where
  "settled remote d raw \<longleftrightarrow> (case asTransition raw of None \<Rightarrow> True
     | Some t \<Rightarrow> (if getMessage (t_messageId t) d = None then \<not> known_to remote (t_messageId t)
                 else list_ex (same_step t) (getTransitions (t_messageId t) d)))"

lemma sync_ext_refl [simp]: "sync_ext remote d d"
  by (simp add: sync_ext_def)

lemma sync_ext_trans: "sync_ext remote d d1 \<Longrightarrow> sync_ext remote d1 d2 \<Longrightarrow> sync_ext remote d d2"
  unfolding sync_ext_def using extends_trans by blast

lemma list_ex_transitions:
  "list_ex p (getTransitions i d) \<longleftrightarrow> (\<exists>r\<in>set (db_transitions d). tr_messageId r = i \<and> p (transition_of_row r))"
  by (auto simp: list_ex_iff getTransitions_log log_of_def rows_of_def)

lemma settled_ext:
  assumes "settled remote d raw" "sync_ext remote d d'"
  shows "settled remote d' raw" "unresolved_row d' raw \<longleftrightarrow> unresolved_row d raw"
proof -
  have "settled remote d' raw \<and> (unresolved_row d' raw \<longleftrightarrow> unresolved_row d raw)"
  proof (cases "asTransition raw")
    case (Some t)
    with assms show ?thesis
      by (cases "getMessage (t_messageId t) d"; cases "getMessage (t_messageId t) d'")
        (auto simp: settled_def unresolved_row_def sync_ext_def extends_db_def list_ex_transitions)
  qed (simp add: settled_def unresolved_row_def)
  then show "settled remote d' raw" "unresolved_row d' raw \<longleftrightarrow> unresolved_row d raw" by blast+
qed

lemma resolve_Done:
  assumes "answers_by_id remote" "resolve_message sha now remote i d = Done found d1"
  shows "sync_ext remote d d1" "found \<longleftrightarrow> getMessage i d1 \<noteq> None" "\<not> found \<Longrightarrow> \<not> known_to remote i"
proof -
  have "sync_ext remote d d1 \<and> (found \<longleftrightarrow> getMessage i d1 \<noteq> None) \<and> (\<not> found \<longrightarrow> \<not> known_to remote i)"
  proof (rule resolve_cases [of i d sha now remote])
    fix m assume m: "getMessage i d = None" "Option.bind (rem_getMessage remote) (\<lambda>get. get i) = Some m"
      and "resolve_message sha now remote i d = and_then (appendMessage sha now m d) (\<lambda>_ d1. Done True d1)"
    with assms(2) have app: "appendMessage sha now m d = Done () d1" and f: found by (auto simp: out_simps)
    have id: "e_id m = i"
      using m(2) assms(1) by (auto simp: answers_by_id_def bind_eq_Some_conv)
    have d1: "getMessage j d1 = (case getMessage j d of Some x \<Rightarrow> Some x | None \<Rightarrow> if i = j then Some m else None)" for j
      using appendMessage_Done [OF app] getMessage_new id by simp
    have k: "known_to remote i" by (simp add: known_to_def m(2))
    show ?thesis
      using extends_message [OF app] f id k m(1)
      by (auto simp: sync_ext_def d1 split: option.splits if_splits)
  qed (use assms(2) in \<open>auto simp: known_to_def\<close>)
  then show "sync_ext remote d d1" "found \<longleftrightarrow> getMessage i d1 \<noteq> None" "\<not> found \<Longrightarrow> \<not> known_to remote i" by blast+
qed

lemma append_settles:
  assumes "appendTransition sha t d = Done () d'" "getMessage (t_messageId t) d \<noteq> None" "asTransition raw = Some t"
  shows "sync_ext remote d d'" "settled remote d' raw" "\<not> unresolved_row d' raw"
proof -
  have e: "extends_db d d'" by (rule extends_transition [OF assms(1)])
  then show "sync_ext remote d d'" by (simp add: sync_ext_def appendTransition_getMessage [OF assms(1)])
  have new: "getMessage (t_messageId t) d' \<noteq> None" using e assms(2) by (simp add: extends_db_def)
  let ?r = "transition_row_of sha (next_id ''transitions'' d) t (prev_hash_for t d)"
  have "?r \<in> set (rows_of (t_messageId t) d')" by (simp add: appendTransition_rows [OF assms(1)])
  then have "?r \<in> set (db_transitions d')" "tr_messageId ?r = t_messageId t" by (auto simp: rows_of_def)
  moreover have "same_step t (transition_of_row ?r)"
    by (simp add: same_step_def transition_of_row_def transition_row_of_def)
  ultimately have "list_ex (same_step t) (getTransitions (t_messageId t) d')"
    unfolding list_ex_transitions by blast
  with new show "settled remote d' raw" "\<not> unresolved_row d' raw"
    by (auto simp: settled_def unresolved_row_def assms(3))
qed

lemma sync_loop_Done:
  assumes "answers_by_id remote"
  shows "sync_loop sha now remote rows a s u d = Done (a', s', u') d' \<Longrightarrow>
    sync_ext remote d d' \<and> (\<forall>raw\<in>set rows. settled remote d' raw) \<and> a \<le> a'
    \<and> u' = u + length (filter (unresolved_row d') rows) \<and> a' + s' + u' = a + s + u + length rows"
proof (induction rows arbitrary: a s u d)
  case (Cons raw rows)
  show ?case
  proof (cases "asTransition raw")
    case None
    then have "settled remote d' raw" "\<not> unresolved_row d' raw" by (simp_all add: settled_def unresolved_row_def)
    with None Cons show ?thesis by fastforce
  next
    case (Some t)
    from Cons.prems Some obtain found d1 where r: "resolve_message sha now remote (t_messageId t) d = Done found d1"
      by (auto simp: out_simps)
    note R = resolve_Done [OF assms r]
    show ?thesis
    proof (cases "found \<and> \<not> list_ex (same_step t) (getTransitions (t_messageId t) d1)")
      case True
      with Cons.prems Some r obtain d2 where d2: "appendTransition sha t d1 = Done () d2"
        and rest: "sync_loop sha now remote rows (Suc a) s u d2 = Done (a', s', u') d'"
        by (auto simp: out_simps)
      have m: "getMessage (t_messageId t) d1 \<noteq> None" using True R(2) by simp
      note S = append_settles [OF d2 m Some]
      note IH = Cons.IH [OF rest]
      have "settled remote d' raw" "\<not> unresolved_row d' raw"
        using settled_ext [OF S(2)] S(3) IH by blast+
      with IH sync_ext_trans [OF R(1) sync_ext_trans [OF S(1)]] show ?thesis by auto
    next
      case False
      then have s1: "settled remote d1 raw" and ur: "unresolved_row d1 raw \<longleftrightarrow> \<not> found"
        using R(2,3) by (auto simp: settled_def unresolved_row_def Some)
      have rest: "sync_loop sha now remote rows a (if found then Suc s else s) (if found then u else Suc u) d1
          = Done (a', s', u') d'"
        using Cons.prems Some r False by (cases found) simp_all
      note IH = Cons.IH [OF rest]
      have "settled remote d' raw" "unresolved_row d' raw \<longleftrightarrow> \<not> found"
        using settled_ext [OF s1] ur IH by blast+
      with IH sync_ext_trans [OF R(1)] show ?thesis by (cases found) auto
    qed
  qed
qed simp

lemma sync_loop_settled:
  "\<forall>raw\<in>set rows. settled remote d raw \<Longrightarrow> sync_loop sha now remote rows a s u d =
    Done (a, s + length (filter (\<lambda>raw. \<not> unresolved_row d raw) rows),
      u + length (filter (unresolved_row d) rows)) d"
proof (induction rows arbitrary: s u)
  case (Cons raw rows)
  then have "settled remote d raw" by simp
  with Cons show ?case
    by (auto simp: settled_def unresolved_row_def resolve_message_def known_to_def split: option.splits)
qed simp

lemma find_index_Some: "find_index p xs = Some i \<Longrightarrow> i < length xs \<and> p (xs ! i)"
  by (induction xs arbitrary: i) (auto split: if_splits)

lemma find_index_None: "find_index p xs = None \<longleftrightarrow> (\<forall>x\<in>set xs. \<not> p x)"
  by (induction xs) auto

lemma leaf_rows_keys: "fst ` set (message_leaf_rows All_scope d) =
    {mr_id r | r. r \<in> set (db_messages d) \<and> mr_archived_at r \<noteq> None}"
  by (simp add: message_leaf_rows_def image_image) blast

section \<open>Properties\<close>

text \<open>A sync that returns has applied, skipped or left unresolved every row it fetched. Running it again
  against the same peer applies nothing and leaves messages and transitions as they are.\<close>

theorem syncWithPeer_idempotent:
  assumes "answers_by_id remote" "syncWithPeer sha now remote c l sc d = Done r d'" "sy_diverged r"
  shows "sy_fetched r = sy_applied r + sy_skipped r + sy_unresolved r
    \<and> (\<exists>r' d''. syncWithPeer sha now' remote c l sc d' = Done r' d'' \<and> sy_applied r' = 0
        \<and> db_transitions d'' = db_transitions d' \<and> db_messages d'' = db_messages d')"
proof -
  define scope where "scope = (case sc of None \<Rightarrow> All_scope | Some s \<Rightarrow> s)"
  define rows where "rows = rem_getSyncRange remote (case c of None \<Rightarrow> ''0'' | Some c \<Rightarrow> c)
    (case l of None \<Rightarrow> 200 | Some n \<Rightarrow> n)"
  have state: "db_transitions (snd (getMerkleRoot sha n scope e)) = db_transitions e"
    "db_messages (snd (getMerkleRoot sha n scope e)) = db_messages e" for n e
    by (simp_all add: getMerkleRoot_def Let_def)
  from assms(2,3) obtain a s u d2 where
    loop: "sync_loop sha now remote rows 0 0 0 (snd (getMerkleRoot sha now scope d)) = Done (a, s, u) d2"
    and r: "sy_fetched r = length rows" "sy_applied r = a" "sy_skipped r = s" "sy_unresolved r = u"
    and d': "d' = snd (getMerkleRoot sha now scope d2)"
    unfolding syncWithPeer_def Let_def scope_def [symmetric] rows_def [symmetric]
    by (auto simp: case_prod_beta out_simps split: if_splits)
  note L = sync_loop_Done [OF assms(1) loop]
  define e where "e = snd (getMerkleRoot sha now' scope d')"
  have same: "getMessage i e = getMessage i d2" "db_transitions e = db_transitions d2" for i
    by (simp_all add: e_def d' getMessage_def state)
  have "\<forall>raw\<in>set rows. settled remote e raw"
    using L by (auto simp: settled_def same list_ex_transitions split: option.splits)
  from sync_loop_settled [OF this, of sha now' 0 0 0]
  have again: "\<exists>s' u'. sync_loop sha now' remote rows 0 0 0 e = Done (0, s', u') e" by blast
  have "\<exists>r' d''. syncWithPeer sha now' remote c l sc d' = Done r' d'' \<and> sy_applied r' = 0
        \<and> db_transitions d'' = db_transitions d' \<and> db_messages d'' = db_messages d'"
    using again unfolding syncWithPeer_def Let_def scope_def [symmetric] rows_def [symmetric]
    by (auto simp: case_prod_beta state e_def)
  with L r show ?thesis by simp
qed

definition demo_remote :: sync_remote where
  "demo_remote = \<lparr>rem_getMerkleRoot = \<lambda>_. ''other'', rem_getSyncRange = \<lambda>_ _.
     [[(''messageId'', JStr ''m1''), (''fromState'', JStr ''pending''), (''toState'', JStr ''validated''),
       (''sequenceNo'', JNum 1 0), (''at'', JStr ''2024-02-29T00:00:02Z'')], []],
     rem_getMessage = Some (\<lambda>i. if i = ''m1'' then Some demo_memo else None)\<rparr>"

lemma demo_remote_ok: "answers_by_id demo_remote"
  by (auto simp: answers_by_id_def demo_remote_def demo_memo_def)

theorem syncWithPeer_idempotent_witness:
  "\<exists>r d'. syncWithPeer (\<lambda>x. x) [] demo_remote None None None empty_db = Done r d' \<and> sy_applied r = 1
    \<and> (\<exists>r' d''. syncWithPeer (\<lambda>x. x) [] demo_remote None None None d' = Done r' d'' \<and> sy_applied r' = 0
        \<and> db_transitions d'' = db_transitions d' \<and> db_messages d'' = db_messages d')"
proof -
  have "(case syncWithPeer (\<lambda>x. x) [] demo_remote None None None empty_db of
      Done r _ \<Rightarrow> sy_diverged r \<and> sy_applied r = 1 | _ \<Rightarrow> False)" by code_simp
  then obtain r d' where r: "syncWithPeer (\<lambda>x. x) [] demo_remote None None None empty_db = Done r d'"
    "sy_diverged r" "sy_applied r = 1"
    by (cases "syncWithPeer (\<lambda>x. x) [] demo_remote None None None empty_db") auto
  from syncWithPeer_idempotent [OF demo_remote_ok r(1,2)] r show ?thesis by blast
qed

text \<open>A peer's data never breaks the archive: whatever rows and messages the peer sends, and whether the sync
  returns or throws half-way, the table invariant holds afterwards.\<close>

theorem syncWithPeer_keeps_invariant:
  "archive_inv sha d \<Longrightarrow> archive_inv sha (out_state (syncWithPeer sha now remote c l sc d))"
  by (rule sync_inv)

theorem syncWithPeer_keeps_invariant_witness:
  "archive_inv (\<lambda>x. x) (out_state (syncWithPeer (\<lambda>x. x) [] demo_remote None None None empty_db))"
  by (rule syncWithPeer_keeps_invariant [OF archive_inv_empty])

text \<open>C32: \<open>getMerkleProof\<close> returns a proof for a message exactly when it is archived; the proof verifies, leads to
  the root \<open>getMerkleRoot\<close> computes for the scope \<open>all\<close>, and starts at the content hash of the message.\<close>

theorem getMerkleProof_correct:
  "case getMerkleProof sha i d of
      Inl e \<Rightarrow> False
    | Inr None \<Rightarrow> \<not> (\<exists>r\<in>set (db_messages d). mr_id r = i \<and> mr_archived_at r \<noteq> None)
    | Inr (Some pf) \<Rightarrow> verifyMerkleProof sha pf \<and> mp_rootHash pf = fst (getMerkleRoot sha now All_scope d)
        \<and> (\<exists>r\<in>set (db_messages d). mr_id r = i \<and> mr_archived_at r \<noteq> None
            \<and> mp_leafHash pf = (case mr_content_hash r of Some h \<Rightarrow> h | None \<Rightarrow> i))"
proof -
  obtain leaves rows where c: "collectMerkleLeaves sha All_scope d = (leaves, rows)"
    by (cases "collectMerkleLeaves sha All_scope d")
  then have rows: "rows = message_leaf_rows All_scope d" and pre: "\<exists>zs. leaves = map snd rows @ zs"
    by (auto simp: collectMerkleLeaves_def Let_def)
  show ?thesis
  proof (cases "find_index (\<lambda>r. fst r = i) rows")
    case None
    have "i \<notin> fst ` set rows" using None by (auto simp: find_index_None)
    then show ?thesis
      using None leaf_rows_keys [of d] by (auto simp: getMerkleProof_def c rows)
  next
    case (Some idx)
    then have idx: "idx < length rows" "fst (rows ! idx) = i" by (auto dest: find_index_Some)
    then have len: "idx < length leaves" and leaf: "leaves ! idx = snd (rows ! idx)"
      using pre by (auto simp: nth_append)
    then obtain pf where pf: "buildMerkleProofFromLeaves sha leaves (int idx) = Inr pf"
      by (cases "buildMerkleProofFromLeaves sha leaves (int idx)")
        (auto simp: buildMerkleProofFromLeaves_def split: if_splits prod.splits)
    have "rows ! idx \<in> set rows" using idx(1) by simp
    then obtain r where r: "r \<in> set (db_messages d)" "mr_archived_at r \<noteq> None"
      "rows ! idx = (mr_id r, case mr_content_hash r of Some h \<Rightarrow> h | None \<Rightarrow> mr_id r)"
      unfolding rows message_leaf_rows_def by auto
    have root: "fst (getMerkleRoot sha now All_scope d) = merkleRootForLeaves sha leaves"
      by (simp add: getMerkleRoot_def Let_def archive_root_def c)
    have "getMerkleProof sha i d = Inr (Some pf)" by (simp add: getMerkleProof_def c Some pf)
    then show ?thesis
      using buildMerkleProof_sound [OF pf] r idx(2) leaf by (auto simp: root)
  qed
qed

end
