(* ===== verification/Archive_Audit.thy ===== *)
theory Archive_Audit
  imports Archive_Queues Archive_Sync
begin

text \<open>
  \<open>sqlite.ts\<close>: the read receipts (\<open>seal_0_log\<close>), the alerts of the censorate and the audit
  checkpoints. The three tables feed the Merkle root of the scope \<open>all\<close>.
\<close>

definition appendSeal0Receipt :: "seal0_row \<Rightarrow> db \<Rightarrow> (db, unit) out" where
  "appendSeal0Receipt r d =
     (if s0_id r \<in> s0_id ` set (db_seal0 d) then Fail (Constraint ''UNIQUE seal_0_log.id'') d
      else Done () (d\<lparr>db_seal0 := db_seal0 d @ [r]\<rparr>))"

record receipt_filters =
  rf_since :: "iso option"
  rf_actorId :: "string option"
  rf_limit :: "int option"

definition receipt_matches :: "receipt_filters \<Rightarrow> seal0_row \<Rightarrow> bool" where
  "receipt_matches f r \<longleftrightarrow>
     (case rf_since f of None \<Rightarrow> True | Some t \<Rightarrow> t \<le> s0_query_timestamp r)
     \<and> (case rf_actorId f of None \<Rightarrow> True | Some a \<Rightarrow> s0_actor_id r = a)"

definition or_limit :: "int option \<Rightarrow> int" where
  "or_limit l = (case l of None \<Rightarrow> 100 | Some n \<Rightarrow> n)"

definition querySeal0ByDocument :: "string \<Rightarrow> receipt_filters \<Rightarrow> db \<Rightarrow> seal0_row list" where
  "querySeal0ByDocument documentId filters d =
     limit_rows (or_limit (rf_limit filters)) (order_desc s0_query_timestamp
       (filter (\<lambda>r. s0_document_id r = Some documentId \<and> receipt_matches filters r) (db_seal0 d)))"

definition querySeal0ByGenre :: "string \<Rightarrow> receipt_filters \<Rightarrow> db \<Rightarrow> seal0_row list" where
  "querySeal0ByGenre genre filters d =
     limit_rows (or_limit (rf_limit filters)) (order_desc s0_query_timestamp
       (filter (\<lambda>r. s0_genre r = Some genre \<and> receipt_matches filters r) (db_seal0 d)))"

record censorate_alert =
  ca_id :: "string option"
  ca_alertType :: string
  ca_severity :: string
  ca_actorId :: "string option"
  ca_nodeId :: "string option"
  ca_evidence :: obj
  ca_createdAt :: iso
  ca_actionTaken :: "string option"

definition appendCensorateAlert :: "int \<Rightarrow> censorate_alert \<Rightarrow> db \<Rightarrow> (db, unit) out" where
  "appendCensorateAlert now_ms a d =
     (let i = (case ca_id a of Some x \<Rightarrow> x | None \<Rightarrow> ca_alertType a @ '':'' @ int_str now_ms) in
      if i \<in> al_id ` set (db_alerts d) then Fail (Constraint ''UNIQUE censorate_alerts.id'') d
      else Done () (d\<lparr>db_alerts := db_alerts d @
        [\<lparr>al_id = i, al_alertType = ca_alertType a, al_severity = ca_severity a, al_actorId = ca_actorId a,
          al_nodeId = ca_nodeId a, al_evidence = ca_evidence a, al_createdAt = ca_createdAt a,
          al_actionTaken = ca_actionTaken a\<rparr>]\<rparr>))"

record alert_window =
  aw_since :: "iso option"
  aw_limit :: "int option"
  aw_type :: "string option"

definition queryCensorateAlerts :: "alert_window \<Rightarrow> db \<Rightarrow> alert_row list" where
  "queryCensorateAlerts window d =
     limit_rows (or_limit (aw_limit window)) (order_desc al_createdAt
       (filter (\<lambda>r. (case aw_since window of None \<Rightarrow> True | Some t \<Rightarrow> t \<le> al_createdAt r)
          \<and> (case aw_type window of None \<Rightarrow> True | Some t \<Rightarrow> al_alertType r = t)) (db_alerts d)))"

record audit_checkpoint =
  ac_id :: "string option"
  ac_scope :: scope
  ac_merkleRoot :: string
  ac_sealCount :: int
  ac_nodeSignatures :: "string list"
  ac_createdAt :: iso

definition appendAuditCheckpoint :: "audit_checkpoint \<Rightarrow> db \<Rightarrow> (db, unit) out" where
  "appendAuditCheckpoint e d =
     (let i = (case ac_id e of Some x \<Rightarrow> x
                | None \<Rightarrow> ''checkpoint:'' @ scope_str (ac_scope e) @ '':'' @ ac_createdAt e) in
      if i \<in> ck_id ` set (db_checkpoints d) then Fail (Constraint ''UNIQUE audit_checkpoints.id'') d
      else Done () (d\<lparr>db_checkpoints := db_checkpoints d @
        [\<lparr>ck_id = i, ck_scope = scope_str (ac_scope e), ck_merkleRoot = ac_merkleRoot e,
          ck_sealCount = ac_sealCount e, ck_nodeSignatures = ac_nodeSignatures e,
          ck_createdAt = ac_createdAt e\<rparr>]\<rparr>))"

section \<open>Receipts are found again\<close>

lemma receipt_listed:
  assumes "appendSeal0Receipt r d = Done () d'" "s0_document_id r = Some i" "receipt_matches f r"
    "rf_limit f = Some n" "n < 0"
  shows "r \<in> set (querySeal0ByDocument i f d')"
  using assms
  by (auto simp: appendSeal0Receipt_def querySeal0ByDocument_def or_limit_def limit_rows_def split: if_splits)

lemma receipts_newest_first:
  "sorted_wrt (\<lambda>x y. s0_query_timestamp y \<le> s0_query_timestamp x) (querySeal0ByDocument i f d)"
  unfolding querySeal0ByDocument_def limit_rows_def
  using sorted_order_desc [of s0_query_timestamp] by (auto intro: sorted_wrt_take)

text \<open>A receipt changes the set of leaves of the scope \<open>all\<close> by exactly its own leaf.\<close>

lemma receipt_leaves:
  assumes "appendSeal0Receipt r d = Done () d'"
  shows "set (fst (collectMerkleLeaves sha All_scope d')) =
    insert (sha (s0_query_timestamp r @ '':'' @ s0_id r @ '':'' @ s0_result_hash r))
      (set (fst (collectMerkleLeaves sha All_scope d)))"
proof -
  have "d' = d\<lparr>db_seal0 := db_seal0 d @ [r]\<rparr>"
    using assms by (simp add: appendSeal0Receipt_def split: if_splits)
  then show ?thesis
    by (auto simp: collectMerkleLeaves_def Let_def message_leaf_rows_def)
qed

end
