(* ===== verification/Imperial_Works.thy ===== *)
theory Imperial_Works
  imports Archive_Audit
begin

text \<open>
  \<open>packages/imperial-works\<close>: the genres and roles of the works domain, who may draft, review and
  authorize which genre, the emergency router and the corruption detectors. Quantities the detectors
  compare are rationals; a speed over no time is infinite and exceeds every bound.
\<close>

definition IMPERIAL_WORKS_GENRES :: "string list" where
  "IMPERIAL_WORKS_GENRES =
     [''blueprint_change'', ''work_order'', ''safety_incident'', ''completion_report'', ''material_request'']"

definition isImperialWorksGenre :: "string \<Rightarrow> bool" where
  "isImperialWorksGenre genre \<longleftrightarrow> genre \<in> set IMPERIAL_WORKS_GENRES"

definition startsWith :: "string \<Rightarrow> string \<Rightarrow> bool" where
  "startsWith s p \<longleftrightarrow> take (length p) s = p"

definition workerRole :: "string \<Rightarrow> bool" where
  "workerRole role \<longleftrightarrow> startsWith role ''worker_''"

definition isImperialWorksRole :: "string \<Rightarrow> bool" where
  "isImperialWorksRole role \<longleftrightarrow> workerRole role \<or> startsWith role ''foreman_''
     \<or> role \<in> {''emperor'', ''minister_works'', ''minister_finance'', ''censor_chief''}"

definition emergencyAudience :: "string list" where
  "emergencyAudience = [''emperor'', ''minister_works'', ''minister_finance'', ''censor_chief'']"

definition DRAFT_RULES :: "(string \<times> string list) list" where
  "DRAFT_RULES = [
     (''genesis_admin'', [''*'']),
     (''emperor'', [''*'']),
     (''minister_works'', [''work_order'', ''material_request'', ''edict'', ''safety_incident'', ''completion_report'']),
     (''minister_finance'', [''work_order'', ''material_request'', ''edict'']),
     (''censor_chief'', [''safety_incident'', ''completion_report'', ''edict'']),
     (''foreman_electrical'', [''safety_incident'', ''completion_report'']),
     (''foreman_structural'', [''safety_incident'', ''completion_report'']),
     (''foreman_hydraulic'', [''safety_incident'', ''completion_report''])]"

definition REVIEW_RULES :: "(string \<times> string list) list" where
  "REVIEW_RULES = [
     (''genesis_admin'', [''*'']),
     (''emperor'', [''*'']),
     (''minister_works'', [''*'']),
     (''minister_finance'', [''work_order'', ''material_request'', ''completion_report'']),
     (''censor_chief'', [''*'']),
     (''foreman_electrical'', [''work_order'', ''completion_report'', ''safety_incident'']),
     (''foreman_structural'', [''work_order'', ''completion_report'', ''safety_incident'']),
     (''foreman_hydraulic'', [''work_order'', ''completion_report'', ''safety_incident''])]"

definition AUTHORIZE_RULES :: "(string \<times> string list) list" where
  "AUTHORIZE_RULES = [
     (''genesis_admin'', [''*'']),
     (''emperor'', [''*'']),
     (''minister_works'', [''work_order'', ''material_request'', ''completion_report'', ''safety_incident'']),
     (''minister_finance'', [''material_request'', ''completion_report''])]"

definition rule_allows :: "(string \<times> string list) list \<Rightarrow> string \<Rightarrow> string \<Rightarrow> bool" where
  "rule_allows rules role genre =
     (let allowed = (case map_of rules role of None \<Rightarrow> [] | Some g \<Rightarrow> g)
      in ''*'' \<in> set allowed \<or> genre \<in> set allowed)"

definition canDraftGenre :: "string \<Rightarrow> string \<Rightarrow> bool" where
  "canDraftGenre role genre =
     (if workerRole role then genre \<in> set [''completion_report'', ''safety_incident'']
      else rule_allows DRAFT_RULES role genre)"

definition canReviewGenre :: "string \<Rightarrow> string \<Rightarrow> bool" where
  "canReviewGenre role genre = (if workerRole role then False else rule_allows REVIEW_RULES role genre)"

definition canAuthorizeGenre :: "string \<Rightarrow> string \<Rightarrow> bool" where
  "canAuthorizeGenre role genre = (if workerRole role then False else rule_allows AUTHORIZE_RULES role genre)"

definition canAmendConstitution :: "string \<Rightarrow> bool" where
  "canAmendConstitution role \<longleftrightarrow> role = ''emperor'' \<or> role = ''minister_works'' \<or> role = ''censor_chief''"

section \<open>EmergencyRouter\<close>

datatype severity = Low | Medium | High | Critical

record safety_incident =
  si_messageId :: string
  si_severity :: severity
  si_location :: string
  si_actorId :: string

definition setSiteQuarantined :: "iso \<Rightarrow> string \<Rightarrow> db \<Rightarrow> db" where
  "setSiteQuarantined now reason d = setSiteStatus now Quarantined (Some reason) d"

definition resumeSite :: "iso \<Rightarrow> string \<Rightarrow> db \<Rightarrow> db" where
  "resumeSite now reason d = setSiteStatus now Resumed (Some reason) d"

definition routeSafetyIncident :: "int \<Rightarrow> iso \<Rightarrow> safety_incident \<Rightarrow> db \<Rightarrow> (db, string list \<times> bool) out" where
  "routeSafetyIncident now_ms now input d =
     (let d1 = setSiteQuarantined now (''safety:'' @ si_messageId input @ '':'' @ si_location input) d
      in and_then (appendCensorateAlert now_ms
            \<lparr>ca_id = None, ca_alertType = ''safety_incident'',
             ca_severity = (if si_severity input = Critical then ''critical'' else ''warning''),
             ca_actorId = Some (si_actorId input), ca_nodeId = None,
             ca_evidence = [(''location'', JStr (si_location input)), (''messageId'', JStr (si_messageId input))],
             ca_createdAt = now, ca_actionTaken = Some ''quarantine''\<rparr> d1)
          (\<lambda>_ d2. Done (emergencyAudience, True) d2))"

section \<open>ConstructionCorruptionDetector\<close>

definition detectGhostWorker :: "rat \<Rightarrow> rat \<Rightarrow> bool" where
  "detectGhostWorker distanceKm deltaSeconds =
     (if deltaSeconds \<le> 0 then True else 1000 < distanceKm / deltaSeconds * 3600)"

definition detectMaterialDiversion :: "string \<Rightarrow> string \<Rightarrow> rat \<Rightarrow> bool" where
  "detectMaterialDiversion projectClass materialTier priorLuxuryApprovals \<longleftrightarrow>
     projectClass = ''frugal'' \<and> materialTier = ''luxury'' \<and> 3 \<le> priorLuxuryApprovals"

definition detectScheduleImpossible :: "rat \<Rightarrow> rat \<Rightarrow> bool" where
  "detectScheduleImpossible approvedHours windowHours \<longleftrightarrow> windowHours < approvedHours"

definition detectStructuralCabal :: "rat \<Rightarrow> rat \<Rightarrow> rat \<Rightarrow> bool" where
  "detectStructuralCabal mutualApprovals baselinePerHour windowHours \<longleftrightarrow>
     baselinePerHour * 10 < mutualApprovals / max windowHours 1"

section \<open>The role hierarchy\<close>

lemma rule_allows_AUTHORIZE:
  "rule_allows AUTHORIZE_RULES role genre \<Longrightarrow> role \<in> {''genesis_admin'', ''emperor''}
    \<or> role = ''minister_works'' \<and> genre \<in> {''work_order'', ''material_request'', ''completion_report'', ''safety_incident''}
    \<or> role = ''minister_finance'' \<and> genre \<in> {''material_request'', ''completion_report''}"
  by (auto simp: rule_allows_def AUTHORIZE_RULES_def Let_def split: if_splits)

lemma rule_allows_REVIEW:
  "role \<in> {''genesis_admin'', ''emperor'', ''minister_works''} \<Longrightarrow> rule_allows REVIEW_RULES role genre"
  "genre \<in> {''material_request'', ''completion_report''} \<Longrightarrow> rule_allows REVIEW_RULES ''minister_finance'' genre"
  by (auto simp: rule_allows_def REVIEW_RULES_def Let_def)

lemma site_status_after: "getSiteStatus (setSiteStatus now st reason d) = st"
  by (cases "find_row sr_key ''site_status'' (db_site d)"; cases st)
    (auto simp: getSiteStatus_def setSiteStatus_def Let_def find_row_upsert obj_get_def)

section \<open>Properties\<close>

text \<open>Among the works roles authority is nested: a role that may authorize a genre may also review it, and a
  worker may neither review nor authorize anything, whatever the suffix of the role name.\<close>

theorem works_authority_nested:
  "(canAuthorizeGenre role genre \<longrightarrow> canReviewGenre role genre)
    \<and> \<not> canReviewGenre (''worker_'' @ suffix) genre \<and> \<not> canAuthorizeGenre (''worker_'' @ suffix) genre"
proof -
  have "rule_allows AUTHORIZE_RULES role genre \<longrightarrow> rule_allows REVIEW_RULES role genre"
    using rule_allows_AUTHORIZE [of role genre] rule_allows_REVIEW by blast
  moreover have "workerRole (''worker_'' @ suffix)" by (simp add: workerRole_def startsWith_def)
  ultimately show ?thesis by (simp add: canAuthorizeGenre_def canReviewGenre_def)
qed

theorem works_authority_nested_witness:
  "canAuthorizeGenre ''minister_finance'' ''material_request'' \<and> canReviewGenre ''minister_finance'' ''material_request''
    \<and> \<not> canReviewGenre ''worker_7'' ''work_order''"
proof -
  have "canAuthorizeGenre ''minister_finance'' ''material_request''" by code_simp
  with works_authority_nested [of "''minister_finance''" "''material_request''" "''7''"]
    works_authority_nested [of "''minister_finance''" "''work_order''" "''7''"]
  show ?thesis by simp
qed

text \<open>A safety incident quarantines the site in every case: the site status reads \<open>QUARANTINED\<close> afterwards even
  when storing the alert fails, and the audience is the four chief offices.\<close>

theorem safety_incident_quarantines:
  "getSiteStatus (out_state (routeSafetyIncident now_ms now input d)) = Quarantined
    \<and> (\<forall>v d'. routeSafetyIncident now_ms now input d = Done v d' \<longrightarrow> v = (emergencyAudience, True)
        \<and> length (db_alerts d') = length (db_alerts d) + 1)"
proof -
  let ?d1 = "setSiteQuarantined now (''safety:'' @ si_messageId input @ '':'' @ si_location input) d"
  have alerts: "getSiteStatus (d'\<lparr>db_alerts := as\<rparr>) = getSiteStatus d'" for d' as
    by (simp add: getSiteStatus_def)
  have "getSiteStatus ?d1 = Quarantined" by (simp add: setSiteQuarantined_def site_status_after)
  moreover have "db_alerts ?d1 = db_alerts d"
    by (simp add: setSiteQuarantined_def setSiteStatus_def Let_def)
  ultimately show ?thesis
    by (simp add: routeSafetyIncident_def Let_def appendCensorateAlert_def alerts)
qed

theorem safety_incident_quarantines_witness:
  "\<exists>d'. routeSafetyIncident 1 [] \<lparr>si_messageId = ''m'', si_severity = Critical, si_location = ''s'', si_actorId = ''a''\<rparr>
      empty_db = Done (emergencyAudience, True) d' \<and> length (db_alerts d') = 1 \<and> getSiteStatus d' = Quarantined"
proof -
  let ?i = "\<lparr>si_messageId = ''m'', si_severity = Critical, si_location = ''s'', si_actorId = ''a''\<rparr>"
  have "(case routeSafetyIncident 1 [] ?i empty_db of Done _ _ \<Rightarrow> True | _ \<Rightarrow> False)" by code_simp
  then obtain v d' where d': "routeSafetyIncident 1 [] ?i empty_db = Done v d'"
    by (cases "routeSafetyIncident 1 [] ?i empty_db") auto
  note S = safety_incident_quarantines [of 1 "[]" ?i empty_db]
  have "db_alerts empty_db = []" by (simp add: empty_db_def)
  with S [THEN conjunct2, rule_format, OF d'] have "v = (emergencyAudience, True)" "length (db_alerts d') = 1"
    by auto
  moreover from S d' have "getSiteStatus d' = Quarantined" by simp
  ultimately show ?thesis using d' by blast
qed

end
