(* ===== verification/Pipeline.thy ===== *)
theory Pipeline
  imports Law_Resolver Imperial_Works
begin

text \<open>
  \<open>packages/pipeline/src/index.ts\<close>: the way of a message from the docket to the archive. The state is
  the archive and the law resolver; an operation that throws keeps what it did before. The readings of
  the clock are a record; the PBFT instance of the options is a record of its answers.
\<close>

section \<open>State, clock and options\<close>

record pipe =
  pp_db :: db
  pp_resolver :: law_resolver

record pipe_clock =
  k_snapshot :: iso                    \<comment> \<open>the law snapshot\<close>
  k_sealedAt :: "nat \<Rightarrow> iso"           \<comment> \<open>by sequence number of the transition\<close>
  k_at :: "nat \<Rightarrow> iso"
  k_schema :: iso                      \<comment> \<open>the default time of \<open>getActiveGenreSchema\<close>\<close>
  k_law_ms :: "nat \<Rightarrow> int"             \<comment> \<open>the resolver's clock, by lookup in the run\<close>
  k_seal :: "seal_stage \<Rightarrow> iso"
  k_verify_ms :: int

record pbft_port =
  pb_propose :: "string \<Rightarrow> string \<Rightarrow> bool"       \<comment> \<open>proposal and node; \<open>False\<close> when it throws\<close>
  pb_commitIfThreshold :: "string \<Rightarrow> bool"

record pipe_options =
  po_consort :: bool                   \<comment> \<open>\<open>distributedMode === 'consort'\<close>\<close>
  po_pbft_kind :: bool                 \<comment> \<open>\<open>consensusKind === 'pbft'\<close>\<close>
  po_pbft :: "pbft_port option"
  po_nodeId :: "string option"

record pipeline_result =
  pr_messageId :: string
  pr_finalState :: message_state
  pr_reason :: "string option"

definition resolverFor :: "law_resolver option \<Rightarrow> law_mode option \<Rightarrow> int option \<Rightarrow> law_type list option \<Rightarrow> law_resolver" where
  "resolverFor given mode ttl preloads =
     (case given of Some r \<Rightarrow> r
      | None \<Rightarrow> new_LawResolver (Some (case mode of None \<Rightarrow> Strict_mode | Some m \<Rightarrow> m))
          (Some (case ttl of None \<Rightarrow> 60 | Some t \<Rightarrow> t)) preloads)"

definition on_db :: "(db \<Rightarrow> (db, 'a) out) \<Rightarrow> pipe \<Rightarrow> (pipe, 'a) out" where
  "on_db f p = (case f (pp_db p) of Done a d \<Rightarrow> Done a (p\<lparr>pp_db := d\<rparr>) | Fail e d \<Rightarrow> Fail e (p\<lparr>pp_db := d\<rparr>))"

section \<open>Reading the message\<close>

definition transition_for :: "pipe_clock \<Rightarrow> envelope \<Rightarrow> message_state \<Rightarrow> message_state \<Rightarrow> nat \<Rightarrow> string option
    \<Rightarrow> transition" where
  "transition_for clock m fromState toState sequenceNo reason =
     \<lparr>t_messageId = e_id m, t_fromState = fromState, t_toState = toState, t_sequenceNo = int sequenceNo,
      t_actorId = Some (e_actor_id m), t_reason = reason, t_sealedAt = Some (k_sealedAt clock sequenceNo),
      t_prevTransitionHash = None, t_at = k_at clock sequenceNo\<rparr>"

definition routing_of :: "envelope \<Rightarrow> obj" where
  "routing_of m = (case obj_get (e_payload m) ''routing'' of Some (JObj ps) \<Rightarrow> ps | _ \<Rightarrow> [])"

definition destinationList :: "envelope \<Rightarrow> string list" where
  "destinationList m =
     (case obj_get (routing_of m) ''destination'' of
        Some (JArr vs) \<Rightarrow> map js_String vs
      | Some (JStr s) \<Rightarrow> [s]
      | _ \<Rightarrow> [])"

definition destinationCount :: "envelope \<Rightarrow> nat" where
  "destinationCount m = (let count = length (destinationList m) in if count = 0 then 1 else count)"

definition extractClearance :: "envelope \<Rightarrow> string option" where
  "extractClearance m =
     (case as_str (obj_get (e_metadata m) ''clearance'') of Some s \<Rightarrow> Some s
      | None \<Rightarrow> as_str (obj_get (routing_of m) ''clearance''))"

definition parseRoutingObject :: "envelope \<Rightarrow> obj" where
  "parseRoutingObject m = routing_of m"

definition withRouting :: "envelope \<Rightarrow> obj \<Rightarrow> envelope" where
  "withRouting m routing = m\<lparr>e_payload := obj_spread (e_payload m) [(''routing'', JObj routing)]\<rparr>"

definition withLawSnapshot :: "envelope \<Rightarrow> iso \<Rightarrow> envelope" where
  "withLawSnapshot m atIso =
     m\<lparr>e_metadata := obj_spread (e_metadata m) [(''law_snapshot'', JObj [(''at'', JStr atIso)])]\<rparr>"

definition lawSnapshotAt :: "envelope \<Rightarrow> iso" where
  "lawSnapshotAt m =
     (case obj_get (e_metadata m) ''law_snapshot'' of
        Some (JObj ps) \<Rightarrow>
          (case obj_get ps ''at'' of Some (JStr s) \<Rightarrow> if s \<noteq> [] then s else e_submittedAt m
           | _ \<Rightarrow> e_submittedAt m)
      | _ \<Rightarrow> e_submittedAt m)"

text \<open>\<open>String.prototype.trim\<close> on the characters of the model.\<close>

definition js_space :: "char \<Rightarrow> bool" where
  "js_space c \<longleftrightarrow> (of_char c :: nat) \<in> {9, 10, 11, 12, 13, 32, 160}"

definition js_trim :: "string \<Rightarrow> string" where
  "js_trim s = rev (dropWhile js_space (rev (dropWhile js_space s)))"

definition caoni :: "envelope \<Rightarrow> envelope" where
  "caoni m = m\<lparr>e_payload := obj_spread [] (map (\<lambda>(k, v). (js_trim k, v)) (e_payload m))\<rparr>"

definition shenfu :: "envelope \<Rightarrow> string + unit" where
  "shenfu m =
     (if e_payload m = [] then Inl ''empty-payload''
      else if isImperialWorksGenre (e_genre m) \<and> \<not> canDraftGenre (e_actor_role m) (e_genre m)
      then Inl ''hierarchy_violation''
      else Inr ())"

text \<open>\<open>key in payload\<close> also finds the properties of \<open>Object.prototype\<close>.\<close>

definition object_prototype_keys :: "string list" where
  "object_prototype_keys = [''constructor'', ''toString'', ''toLocaleString'', ''valueOf'', ''hasOwnProperty'',
     ''isPrototypeOf'', ''propertyIsEnumerable'', ''__proto__'', ''__defineGetter__'', ''__defineSetter__'',
     ''__lookupGetter__'', ''__lookupSetter__'']"

definition key_in :: "string \<Rightarrow> obj \<Rightarrow> bool" where
  "key_in k ps \<longleftrightarrow> k \<in> fst ` set ps \<or> k \<in> set object_prototype_keys"

definition required_keys :: "json \<Rightarrow> string list" where
  "required_keys schema =
     (case schema of
        JObj ps \<Rightarrow> (case obj_get ps ''required'' of
            Some (JArr xs) \<Rightarrow> concat (map (\<lambda>x. case x of JStr s \<Rightarrow> [s] | _ \<Rightarrow> []) xs) | _ \<Rightarrow> [])
      | _ \<Rightarrow> [])"

definition validateTiDefinition :: "(string \<Rightarrow> bool) \<Rightarrow> envelope \<Rightarrow> bool" where
  "validateTiDefinition dt m \<longleftrightarrow> TiDefinitionSchema dt (envelope_json m) \<noteq> None"

definition schema_check :: "pipe_clock \<Rightarrow> envelope \<Rightarrow> db \<Rightarrow> string + unit" where
  "schema_check clock m d =
     (case getActiveGenreSchema (e_genre m) (k_schema clock) d of
        None \<Rightarrow> Inr ()
      | Some schema \<Rightarrow>
        (if \<not> truthy schema then Inr ()
         else if list_ex (\<lambda>key. \<not> key_in key (e_payload m)) (required_keys schema)
         then Inl ''schema-noncompliant'' else Inr ()))"

definition shenfuSchema :: "(string \<Rightarrow> bool) \<Rightarrow> pipe_clock \<Rightarrow> envelope \<Rightarrow> db \<Rightarrow> string + unit" where
  "shenfuSchema dt clock m d =
     (if e_genre m = ''ti_definition''
      then (if validateTiDefinition dt m then Inr () else Inl ''invalid-ti-definition'')
      else case (if e_genre m = ''edict'' then as_str (obj_get (e_payload m) ''target_genre'') else None) of
          Some targetGenre \<Rightarrow>
            (if targetGenre \<noteq> [] \<and> getCurrentTiDefinition targetGenre (lawSnapshotAt m) d = None
             then Inl ''invalid-constitutional-reference'' else schema_check clock m d)
        | None \<Rightarrow> schema_check clock m d)"

definition appointmentAllowsGenre :: "envelope \<Rightarrow> appointment_law \<Rightarrow> bool" where
  "appointmentAllowsGenre m law =
     (let allowed = allowedGenresForRole (e_actor_role m) (Some law)
      in ''*'' \<in> set allowed \<or> e_genre m \<in> set allowed)"

section \<open>The law gates\<close>

definition consult :: "(json \<Rightarrow> 'a option) \<Rightarrow> strict_errors \<Rightarrow> int \<Rightarrow> law_type \<Rightarrow> envelope \<Rightarrow> pipe
    \<Rightarrow> (pipe, string + 'a) out" where
  "consult schema errors nowMs lawType m p =
     (case loadLawContent schema errors (pp_db p) nowMs lawType (lawSnapshotAt m) (pp_resolver p) of
        (Inl e, r) \<Rightarrow> Fail e (p\<lparr>pp_resolver := r\<rparr>)
      | (Inr x, r) \<Rightarrow> Done x (p\<lparr>pp_resolver := r\<rparr>))"

definition gate :: "('a \<Rightarrow> string + 'b) \<Rightarrow> (pipe, string + 'a) out \<Rightarrow> (pipe, string + 'b) out" where
  "gate f o' = and_then o' (\<lambda>law p. Done (case law of Inl e \<Rightarrow> Inl e | Inr content \<Rightarrow> f content) p)"

definition law_errors :: "string \<Rightarrow> strict_errors" where
  "law_errors t = \<lparr>se_missing = t @ ''-law-missing-'' @ t, se_ambiguous = t @ ''-law-ambiguous-'' @ t,
     se_invalid = t @ ''-law-invalid''\<rparr>"

definition route_message :: "envelope \<Rightarrow> routing_law \<Rightarrow> string + envelope" where
  "route_message m content =
     (case map_of (rl_table content) (e_genre m) of
        None \<Rightarrow> Inr m
      | Some expected \<Rightarrow>
        (if expected = [] then Inr m
         else if destinationList m = []
         then Inr (withRouting m (obj_put ''destination'' (JArr (map JStr expected)) (parseRoutingObject m)))
         else if filter (\<lambda>d. d \<notin> set expected) (destinationList m) \<noteq> []
         then Inl ''routing-destination-disallowed''
         else Inr m))"

definition applyRoutingLaw :: "pipe_clock \<Rightarrow> envelope \<Rightarrow> pipe \<Rightarrow> (pipe, string + envelope) out" where
  "applyRoutingLaw clock m p = gate (route_message m)
     (consult RoutingLawContentSchema (law_errors ''routing'') (k_law_ms clock 0) Routing m p)"

definition may_review :: "envelope \<Rightarrow> appointment_law \<Rightarrow> string + unit" where
  "may_review m law =
     (if \<not> canReview (e_actor_role m) (Some law) then Inl ''actor-cannot-review''
      else if isImperialWorksGenre (e_genre m) \<and> \<not> canReviewGenre (e_actor_role m) (e_genre m)
      then Inl ''hierarchy_violation''
      else if \<not> appointmentAllowsGenre m law then Inl ''genre-not-allowed-for-role''
      else Inr ())"

definition reviewByLaw :: "pipe_clock \<Rightarrow> envelope \<Rightarrow> pipe \<Rightarrow> (pipe, string + unit) out" where
  "reviewByLaw clock m p = gate (may_review m)
     (consult AppointmentLawContentSchema (law_errors ''appointment'') (k_law_ms clock 1) Appointment m p)"

definition may_authorize :: "envelope \<Rightarrow> appointment_law \<Rightarrow> string + unit" where
  "may_authorize m law =
     (if \<not> canAuthorize (e_actor_role m) (Some law) then Inl ''actor-cannot-authorize''
      else if isImperialWorksGenre (e_genre m) \<and> \<not> canAuthorizeGenre (e_actor_role m) (e_genre m)
      then Inl ''hierarchy_violation''
      else Inr ())"

definition authorizeByLaw :: "pipe_clock \<Rightarrow> envelope \<Rightarrow> pipe \<Rightarrow> (pipe, string + unit) out" where
  "authorizeByLaw clock m p = gate (may_authorize m)
     (consult AppointmentLawContentSchema (law_errors ''appointment'') (k_law_ms clock 3) Appointment m p)"

definition clearance_ok :: "envelope \<Rightarrow> classification_law \<Rightarrow> string + unit" where
  "clearance_ok m law =
     (case extractClearance m of
        None \<Rightarrow> Inr ()
      | Some clearance \<Rightarrow>
        (if clearance = [] then Inr ()
         else if clearance \<notin> set (cl_levels law) then Inl ''classification-clearance-invalid'' else Inr ()))"

definition classificationCheck :: "pipe_clock \<Rightarrow> envelope \<Rightarrow> pipe \<Rightarrow> (pipe, string + unit) out" where
  "classificationCheck clock m p = gate (clearance_ok m)
     (consult ClassificationLawContentSchema (law_errors ''classification'') (k_law_ms clock 2) Classification m p)"

definition acks_of :: "envelope \<Rightarrow> (string \<times> nat) list \<Rightarrow> nat" where
  "acks_of m content = (case map_of content (e_genre m) of Some n \<Rightarrow> n | None \<Rightarrow> destinationCount m)"

definition requiredAcksByLaw :: "pipe_clock \<Rightarrow> envelope \<Rightarrow> pipe \<Rightarrow> (pipe, string + nat) out" where
  "requiredAcksByLaw clock m p = gate (\<lambda>content. Inr (acks_of m content))
     (consult ProtocolLawContentSchema (law_errors ''protocol'') (k_law_ms clock 4) Protocol m p)"

definition pbft_pending :: "pipe_options \<Rightarrow> envelope \<Rightarrow> string \<Rightarrow> bool" where
  "pbft_pending opts m messageId \<longleftrightarrow>
     po_consort opts \<and> po_pbft_kind opts \<and> e_genre m = ''ti_definition''
     \<and> (case po_pbft opts of
          None \<Rightarrow> True
        | Some pbft \<Rightarrow>
            \<not> pb_propose pbft messageId (case po_nodeId opts of None \<Rightarrow> ''local-node'' | Some n \<Rightarrow> n)
            \<or> \<not> pb_commitIfThreshold pbft messageId)"

section \<open>Writing\<close>

definition appendNextTransition :: "crypto \<Rightarrow> pipe_clock \<Rightarrow> envelope \<Rightarrow> message_state \<Rightarrow> message_state
    \<Rightarrow> string option \<Rightarrow> pipe \<Rightarrow> (pipe, unit) out" where
  "appendNextTransition C clock m fromState toState reason p =
     (let sequenceNo = length (getTransitions (e_id m) (pp_db p)) + 1
      in on_db (appendTransition (sha256 C) (transition_for clock m fromState toState sequenceNo reason)) p)"

definition reject_with :: "crypto \<Rightarrow> pipe_clock \<Rightarrow> string \<Rightarrow> envelope \<Rightarrow> message_state \<Rightarrow> string \<Rightarrow> pipe
    \<Rightarrow> (pipe, pipeline_result) out" where
  "reject_with C clock messageId m fromState reason p =
     and_then (appendNextTransition C clock m fromState Rejected (Some reason) p)
       (\<lambda>_. Done \<lparr>pr_messageId = messageId, pr_finalState = Rejected, pr_reason = Some reason\<rparr>)"

definition current_state :: "string \<Rightarrow> pipe \<Rightarrow> message_state" where
  "current_state i p = (case snapshotState i (pp_db p) of None \<Rightarrow> Pending | Some s \<Rightarrow> s)"

fun append_seals :: "seal_record list \<Rightarrow> pipe \<Rightarrow> (pipe, unit) out" where
  "append_seals [] p = Done () p"
| "append_seals (s # ss) p = and_then (on_db (appendSeal s) p) (\<lambda>_. append_seals ss)"

definition applySealsAndArchive :: "crypto \<Rightarrow> seal_context \<Rightarrow> pipe_clock \<Rightarrow> envelope \<Rightarrow> pipe
    \<Rightarrow> (pipe, pipeline_result) out" where
  "applySealsAndArchive C ctx clock m p =
     (case createSealChain C m ctx (k_seal clock) ''GENESIS'' of
        Inl e \<Rightarrow> Fail e p
      | Inr seals \<Rightarrow>
        (if verifySealChain C m seals ctx (k_verify_ms clock) \<noteq> Some True then Fail Seal_invalid p
         else and_then (append_seals seals p) (\<lambda>_ p1.
           and_then (appendNextTransition C clock m (current_state (e_id m) p1) Authorized None p1) (\<lambda>_ p2.
             and_then (appendNextTransition C clock m Authorized Archived None p2) (\<lambda>_.
               Done \<lparr>pr_messageId = e_id m, pr_finalState = Archived, pr_reason = None\<rparr>)))))"

definition mapSealFailure :: "err \<Rightarrow> string option" where
  "mapSealFailure e =
     (if e = Insufficient_imperial_authority then Some ''insufficient-imperial-authority''
      else if e = Seal_invalid then Some ''invalid-seal-chain'' else None)"

definition maybeInvalidateLawFromMessage :: "envelope \<Rightarrow> law_resolver \<Rightarrow> law_resolver" where
  "maybeInvalidateLawFromMessage m r =
     (if e_genre m \<noteq> ''edict'' then r
      else case Option.bind (as_str (obj_get (e_payload m) ''law_type'')) law_type_of of
          Some t \<Rightarrow> law_invalidate (Some t) r
        | None \<Rightarrow> law_invalidate None r)"

text \<open>The \<open>try\<close> block that ends both entry points.\<close>

definition seal_or_reject :: "crypto \<Rightarrow> seal_context \<Rightarrow> pipe_clock \<Rightarrow> string \<Rightarrow> envelope \<Rightarrow> pipe
    \<Rightarrow> (pipe, pipeline_result) out" where
  "seal_or_reject C ctx clock messageId m p =
     (case applySealsAndArchive C ctx clock m p of
        Done result p1 \<Rightarrow> Done result (p1\<lparr>pp_resolver := maybeInvalidateLawFromMessage m (pp_resolver p1)\<rparr>)
      | Fail e p1 \<Rightarrow>
        (case mapSealFailure e of
           None \<Rightarrow> Fail e p1
         | Some reason \<Rightarrow> reject_with C clock messageId m (current_state (e_id m) p1) reason p1))"

section \<open>finalizePendingMessage and processDocketMessage\<close>

definition pending_result :: "string \<Rightarrow> string option \<Rightarrow> pipeline_result" where
  "pending_result messageId reason = \<lparr>pr_messageId = messageId, pr_finalState = Pending, pr_reason = reason\<rparr>"

definition finalizePendingMessage :: "crypto \<Rightarrow> seal_context \<Rightarrow> pipe_options \<Rightarrow> pipe_clock \<Rightarrow> string \<Rightarrow> pipe
    \<Rightarrow> (pipe, pipeline_result) out" where
  "finalizePendingMessage C ctx opts clock messageId p =
     (case getMessage messageId (pp_db p) of
        None \<Rightarrow> Fail (Error_msg (''Message not found: '' @ messageId)) p
      | Some message \<Rightarrow>
        (let withSnapshot = withLawSnapshot message (k_snapshot clock) in
         and_then (requiredAcksByLaw clock withSnapshot p) (\<lambda>requiredAcks p1.
           case requiredAcks of
             Inl reason \<Rightarrow> Done \<lparr>pr_messageId = messageId, pr_finalState = Rejected, pr_reason = Some reason\<rparr> p1
           | Inr required \<Rightarrow>
             (if 1 < required \<and> length (getOfficeApprovals messageId (pp_db p1)) < required
              then Done (pending_result messageId (Some ''awaiting-protocol-acks'')) p1
              else if pbft_pending opts withSnapshot messageId
              then Done (pending_result messageId (Some ''awaiting-pbft-consensus'')) p1
              else seal_or_reject C ctx clock messageId withSnapshot p1))))"

text \<open>\<open>processDocketMessage\<close>, from its end: the approvals and the consensus of a reviewed message.\<close>

definition process_acked :: "crypto \<Rightarrow> seal_context \<Rightarrow> pipe_options \<Rightarrow> pipe_clock \<Rightarrow> string \<Rightarrow> envelope
    \<Rightarrow> string + nat \<Rightarrow> pipe \<Rightarrow> (pipe, pipeline_result) out" where
  "process_acked C ctx opts clock messageId m requiredAcks p =
     (case requiredAcks of
        Inl reason \<Rightarrow> reject_with C clock messageId m Reviewed reason p
      | Inr required \<Rightarrow>
        (if 1 < required \<and> length (getOfficeApprovals messageId (pp_db p)) < required
         then and_then (appendNextTransition C clock m Reviewed Pending
                (Some (''awaiting-protocol-acks-'' @ nat_str required)) p)
                (\<lambda>_. Done (pending_result messageId None))
         else if pbft_pending opts m messageId
         then and_then (appendNextTransition C clock m Reviewed Pending (Some ''awaiting-pbft-consensus'') p)
                (\<lambda>_. Done (pending_result messageId (Some ''awaiting-pbft-consensus'')))
         else seal_or_reject C ctx clock messageId m p))"

definition process_authorized :: "crypto \<Rightarrow> seal_context \<Rightarrow> pipe_options \<Rightarrow> pipe_clock \<Rightarrow> string \<Rightarrow> envelope
    \<Rightarrow> string + unit \<Rightarrow> pipe \<Rightarrow> (pipe, pipeline_result) out" where
  "process_authorized C ctx opts clock messageId m auth p =
     (case auth of
        Inl reason \<Rightarrow> reject_with C clock messageId m Reviewed reason p
      | Inr _ \<Rightarrow> and_then (requiredAcksByLaw clock m p) (process_acked C ctx opts clock messageId m))"

text \<open>From the result of the classification check on.\<close>

definition process_classified :: "crypto \<Rightarrow> seal_context \<Rightarrow> pipe_options \<Rightarrow> pipe_clock \<Rightarrow> string \<Rightarrow> envelope
    \<Rightarrow> string + unit \<Rightarrow> pipe \<Rightarrow> (pipe, pipeline_result) out" where
  "process_classified C ctx opts clock messageId m classification p =
     (case classification of
        Inl reason \<Rightarrow> reject_with C clock messageId m Validated reason p
      | Inr _ \<Rightarrow> and_then (appendNextTransition C clock m Validated Reviewed None p) (\<lambda>_ p1.
          and_then (authorizeByLaw clock m p1) (process_authorized C ctx opts clock messageId m)))"

text \<open>From the result of the review on.\<close>

definition process_reviewed :: "crypto \<Rightarrow> seal_context \<Rightarrow> pipe_options \<Rightarrow> pipe_clock \<Rightarrow> string \<Rightarrow> envelope
    \<Rightarrow> string + unit \<Rightarrow> pipe \<Rightarrow> (pipe, pipeline_result) out" where
  "process_reviewed C ctx opts clock messageId m lawReview p =
     (case lawReview of
        Inl reason \<Rightarrow> reject_with C clock messageId m Validated reason p
      | Inr _ \<Rightarrow> and_then (classificationCheck clock m p) (process_classified C ctx opts clock messageId m))"

text \<open>From the transition to \<open>validated\<close> on.\<close>

definition process_validated :: "crypto \<Rightarrow> (string \<Rightarrow> bool) \<Rightarrow> seal_context \<Rightarrow> pipe_options \<Rightarrow> pipe_clock \<Rightarrow> string
    \<Rightarrow> envelope \<Rightarrow> pipe \<Rightarrow> (pipe, pipeline_result) out" where
  "process_validated C dt ctx opts clock messageId m p =
     (case shenfu m of
        Inl reason \<Rightarrow> reject_with C clock messageId m Validated reason p
      | Inr _ \<Rightarrow>
        (case shenfuSchema dt clock m (pp_db p) of
           Inl reason \<Rightarrow> reject_with C clock messageId m Validated reason p
         | Inr _ \<Rightarrow> and_then (reviewByLaw clock m p) (process_reviewed C ctx opts clock messageId m)))"

definition processDocketMessage :: "crypto \<Rightarrow> (string \<Rightarrow> bool) \<Rightarrow> seal_context \<Rightarrow> pipe_options \<Rightarrow> pipe_clock \<Rightarrow> string
    \<Rightarrow> pipe \<Rightarrow> (pipe, pipeline_result) out" where
  "processDocketMessage C dt ctx opts clock messageId p =
     (case getMessage messageId (pp_db p) of
        None \<Rightarrow> Fail (Error_msg (''Message not found: '' @ messageId)) p
      | Some message \<Rightarrow>
        (let normalized = withLawSnapshot (caoni message) (k_snapshot clock) in
         and_then (applyRoutingLaw clock normalized p) (\<lambda>routed p1.
           case routed of
             Inl reason \<Rightarrow> reject_with C clock messageId normalized Pending reason p1
           | Inr materialized \<Rightarrow>
               and_then (appendNextTransition C clock materialized Pending Validated None p1)
                 (\<lambda>_. process_validated C dt ctx opts clock messageId materialized))))"

end
