(* ===== verification/Pipeline_Log.thy ===== *)
theory Pipeline_Log
  imports Pipeline
begin

text \<open>
  What a run of the pipeline leaves in the transition log, and under which laws it archives. An
  \<open>outcome\<close> is a result with a property of the returned value and state, or a thrown error with a
  property of the state it leaves; the lemmas go through the handlers step by step.
\<close>

section \<open>Outcomes\<close>

definition outcome :: "('s \<Rightarrow> bool) \<Rightarrow> ('a \<Rightarrow> 's \<Rightarrow> bool) \<Rightarrow> ('s, 'a) out \<Rightarrow> bool" where
  "outcome E Q r = (case r of Done a p \<Rightarrow> Q a p | Fail e p \<Rightarrow> E p)"

lemma outcome_simps [simp]: "outcome E Q (Done a p) = Q a p" "outcome E Q (Fail e p) = E p"
  by (simp_all add: outcome_def)

lemma outcome_bind:
  "outcome E Q m \<Longrightarrow> (\<And>a p. Q a p \<Longrightarrow> outcome E R (k a p)) \<Longrightarrow> outcome E R (and_then m k)"
  by (cases m) auto

lemma outcome_mono:
  "outcome E Q m \<Longrightarrow> (\<And>p. E p \<Longrightarrow> E' p) \<Longrightarrow> (\<And>a p. Q a p \<Longrightarrow> Q' a p) \<Longrightarrow> outcome E' Q' m"
  by (cases m) auto

section \<open>Legal logs\<close>

fun legal_from :: "message_state \<Rightarrow> transition list \<Rightarrow> bool" where
  "legal_from s [] = True"
| "legal_from s (t # ts) = (t_fromState t = s \<and> canTransition s (t_toState t) \<and> legal_from (t_toState t) ts)"

definition end_state :: "message_state \<Rightarrow> transition list \<Rightarrow> message_state" where
  "end_state s ts = foldl (\<lambda>_ t. t_toState t) s ts"

lemma legal_from_snoc:
  "legal_from s (ts @ [t]) \<longleftrightarrow> legal_from s ts \<and> t_fromState t = end_state s ts
    \<and> canTransition (end_state s ts) (t_toState t)"
  by (induction ts arbitrary: s) (auto simp: end_state_def)

definition numbered :: "string \<Rightarrow> db \<Rightarrow> bool" where
  "numbered i d \<longleftrightarrow> map tr_sequenceNo (log_of i d) = map (\<lambda>n. int n + 1) [0..<length (log_of i d)]"

definition state_of_log :: "string \<Rightarrow> db \<Rightarrow> message_state" where
  "state_of_log i d = (case snapshotState i d of None \<Rightarrow> Pending | Some s \<Rightarrow> s)"

text \<open>A message whose log is numbered from 1, legal step by step, and ends in a state.\<close>

definition logged :: "crypto \<Rightarrow> string \<Rightarrow> message_state \<Rightarrow> db \<Rightarrow> bool" where
  "logged C i s d \<longleftrightarrow> archive_inv (sha256 C) d \<and> numbered i d
     \<and> legal_from Pending (getTransitions i d) \<and> state_of_log i d = s"

lemma state_of_log_end:
  assumes "archive_inv sha d"
  shows "state_of_log i d = end_state Pending (getTransitions i d)"
  unfolding state_of_log_def snapshotState_def last_row_log [OF assms] end_state_def getTransitions_log
  by (cases "log_of i d" rule: rev_cases) (simp_all add: transition_of_row_def)

lemma log_of_cong: "db_transitions d = db_transitions d' \<Longrightarrow> log_of i d = log_of i d'"
  by (simp add: log_of_def rows_of_def)

lemma logged_cong:
  assumes "logged C i s d" "db_transitions d' = db_transitions d" "archive_inv (sha256 C) d'"
  shows "logged C i s d'"
proof -
  have log: "log_of i d' = log_of i d" by (rule log_of_cong [OF assms(2)])
  then have "state_of_log i d' = state_of_log i d"
    using assms(1) state_of_log_end [of "sha256 C" d i] state_of_log_end [OF assms(3), of i]
    by (simp add: logged_def getTransitions_log)
  with assms log show ?thesis by (simp add: logged_def numbered_def getTransitions_log)
qed

lemma numbered_above:
  assumes "numbered i d" "t_messageId t = i" "t_sequenceNo t = int (length (log_of i d)) + 1"
  shows "above_log t d"
proof -
  have "tr_sequenceNo r < t_sequenceNo t" if "r \<in> set (log_of i d)" for r
  proof -
    from that have "tr_sequenceNo r \<in> set (map tr_sequenceNo (log_of i d))" by simp
    with assms(1,3) show ?thesis by (auto simp: numbered_def simp del: set_map) auto
  qed
  then show ?thesis by (simp add: above_log_def assms(2) log_of_def)
qed

lemma numbered_snoc:
  "numbered i d \<Longrightarrow> log_of i d' = log_of i d @ [r] \<Longrightarrow> tr_sequenceNo r = int (length (log_of i d)) + 1
    \<Longrightarrow> numbered i d'"
  by (simp add: numbered_def)

text \<open>What \<open>appendTransition\<close> does to the log when it throws.\<close>

lemma appendTransition_Fail_log:
  assumes "archive_inv sha d" "appendTransition sha t d = Fail e d'" "above_log t d"
  shows "db_transitions d' = db_transitions d \<or>
    (t_toState t = Archived \<and> log_of (t_messageId t) d' = log_of (t_messageId t) d @
      [transition_row_of sha (next_id ''transitions'' d) t (prev_hash_for t d)])"
proof -
  let ?r = "transition_row_of sha (next_id ''transitions'' d) t (prev_hash_for t d)"
  have index: "db_transitions d' = db_transitions d0" if "indexArchivedMessage i x d0 = Fail e d'" for i x d0
    using index_transitions [of i x d0] that by simp
  from assms(2) have "db_transitions d' = db_transitions d
      \<or> t_toState t = Archived \<and> db_transitions d' = db_transitions d @ [?r]"
    by (auto simp: appendTransition_def Let_def use_id_def frame_simps split: if_splits dest!: index)
  moreover have "log_of (t_messageId t) d' = log_of (t_messageId t) d @ [?r]"
    if "db_transitions d' = db_transitions d @ [?r]"
  proof -
    have "rows_of (t_messageId t) d' = rows_of (t_messageId t) d @ [?r]"
      by (simp add: rows_of_def that transition_row_of_def)
    then show ?thesis
      unfolding log_of_def using rows_distinct [OF assms(1)] assms(3)
      by (simp only:) (intro order_asc_snoc, simp_all add: above_log_def transition_row_of_def)
  qed
  ultimately show ?thesis by blast
qed

lemma logged_step:
  assumes "logged C i s d" "archive_inv (sha256 C) d'" "log_of i d' = log_of i d @ [r]"
    "tr_sequenceNo r = int (length (log_of i d)) + 1" "tr_fromState r = s" "canTransition s q" "tr_toState r = q"
  shows "logged C i q d'"
proof -
  have inv: "archive_inv (sha256 C) d" using assms(1) by (simp add: logged_def)
  have T: "getTransitions i d' = getTransitions i d @ [transition_of_row r]"
    by (simp add: getTransitions_log assms(3))
  have s: "end_state Pending (getTransitions i d) = s"
    using assms(1) state_of_log_end [OF inv] by (simp add: logged_def)
  have "legal_from Pending (getTransitions i d')"
    using assms(1,5-7) by (simp add: T legal_from_snoc s logged_def transition_of_row_def)
  moreover have "state_of_log i d' = q"
    using state_of_log_end [OF assms(2), of i] by (simp add: T end_state_def transition_of_row_def assms(7))
  ultimately show ?thesis
    using assms(1,2) numbered_snoc [OF _ assms(3,4)] by (simp add: logged_def)
qed

definition logged_any :: "crypto \<Rightarrow> string \<Rightarrow> pipe \<Rightarrow> bool" where
  "logged_any C i p \<longleftrightarrow> (\<exists>s. logged C i s (pp_db p))"

definition appended :: "crypto \<Rightarrow> string \<Rightarrow> message_state \<Rightarrow> pipe \<Rightarrow> pipe \<Rightarrow> bool" where
  "appended C i q p p' \<longleftrightarrow> logged C i q (pp_db p') \<and> pp_resolver p' = pp_resolver p
     \<and> (q \<noteq> Archived \<longrightarrow> (\<exists>ts n. pp_db p' = (pp_db p)\<lparr>db_transitions := ts, db_seq := n\<rparr>))"

lemma appendTransition_frame:
  assumes "appendTransition sha t d = Done () d'" "t_toState t \<noteq> Archived"
  shows "\<exists>ts n. d' = d\<lparr>db_transitions := ts, db_seq := n\<rparr>"
  using assms by (auto simp: appendTransition_def Let_def use_id_def split: if_splits)

lemma appendNext_outcome:
  assumes "logged C i s (pp_db p)" "e_id m = i" "canTransition s q"
  shows "outcome (logged_any C i) (\<lambda>_ p'. appended C i q p p') (appendNextTransition C clock m s q reason p)"
proof -
  let ?d = "pp_db p"
  let ?t = "transition_for clock m s q (length (getTransitions i ?d) + 1) reason"
  have f: "t_messageId ?t = i" "t_toState ?t = q" "t_fromState ?t = s"
    "t_sequenceNo ?t = int (length (log_of i ?d)) + 1"
    by (simp_all add: transition_for_def assms(2) getTransitions_log)
  have inv: "archive_inv (sha256 C) ?d" and num: "numbered i ?d" using assms(1) by (simp_all add: logged_def)
  have above: "above_log ?t ?d" by (rule numbered_above [OF num f(1,4)])
  let ?r = "transition_row_of (sha256 C) (next_id ''transitions'' ?d) ?t (prev_hash_for ?t ?d)"
  have r: "tr_sequenceNo ?r = int (length (log_of i ?d)) + 1" "tr_fromState ?r = s" "tr_toState ?r = q"
    using f by (simp_all add: transition_row_of_def)
  have inv': "archive_inv (sha256 C) (out_state (appendTransition (sha256 C) ?t ?d))"
    by (rule appendTransition_inv [OF inv])
  show ?thesis
  proof (cases "appendTransition (sha256 C) ?t ?d")
    case (Done u d')
    then have ok: "appendTransition (sha256 C) ?t ?d = Done () d'" by simp
    have log: "log_of i d' = log_of i ?d @ [?r]"
      using appendTransition_log [OF inv ok above] f(1) by simp
    have "logged C i q d'"
      by (rule logged_step [OF assms(1) _ log r(1,2) assms(3) r(3)]) (use inv' ok in simp)
    then show ?thesis
      using appendTransition_frame [OF ok] f(2) Done
      by (simp add: appendNextTransition_def Let_def on_db_def assms(2) appended_def)
  next
    case (Fail e d')
    have inv'': "archive_inv (sha256 C) d'" using inv' Fail by simp
    have "\<exists>s'. logged C i s' d'"
      using appendTransition_Fail_log [OF inv Fail above]
    proof
      assume "db_transitions d' = db_transitions ?d"
      from logged_cong [OF assms(1) this inv''] show ?thesis by blast
    next
      assume "t_toState ?t = Archived \<and> log_of (t_messageId ?t) d' = log_of (t_messageId ?t) ?d @ [?r]"
      then have "log_of i d' = log_of i ?d @ [?r]" using f(1) by simp
      from logged_step [OF assms(1) inv'' this r(1,2) assms(3) r(3)] show ?thesis by blast
    qed
    with Fail show ?thesis
      by (simp add: appendNextTransition_def Let_def on_db_def assms(2) logged_any_def)
  qed
qed

section \<open>The laws a run consults\<close>

text \<open>The answer a lookup gets: a cached answer as long as it was alive at this lookup and at every earlier one of the
  run for the same type of law, and otherwise what the archive says for the time of the snapshot. \<open>nows\<close> are the clocks
  of these lookups.\<close>

definition law_heard :: "law_resolver \<Rightarrow> db \<Rightarrow> iso \<Rightarrow> int list \<Rightarrow> law_type \<Rightarrow> err + resolved_law option" where
  "law_heard r d atIso nows t =
     (case lr_cache r t of
        Some (x, v) \<Rightarrow> if \<forall>now \<in> set nows. now < x then Inr v else getCurrentLaw t atIso d
      | None \<Rightarrow> getCurrentLaw t atIso d)"

definition law_text :: "(json \<Rightarrow> 'a option) \<Rightarrow> err + resolved_law option \<Rightarrow> 'a option" where
  "law_text schema answer =
     (case answer of
        Inr (Some l) \<Rightarrow> (if truthy (rw_content l) then schema (rw_content l) else None)
      | _ \<Rightarrow> None)"

text \<open>\<open>r\<close> is the resolver a run that started with \<open>r0\<close> has after the successful lookups \<open>past\<close>: what it holds for a type
  is still the answer it started with, alive at all of them, or else the archive's.\<close>

definition times_of :: "law_type \<Rightarrow> (law_type \<times> int) list \<Rightarrow> int list" where
  "times_of t past = map snd (filter (\<lambda>l. fst l = t) past)"

lemma times_of_simps [simp]:
  "times_of t [] = []" "times_of t ((t', now) # past) = (if t' = t then now # times_of t past else times_of t past)"
  by (simp_all add: times_of_def)

definition heard_so_far :: "law_resolver \<Rightarrow> db \<Rightarrow> iso \<Rightarrow> (law_type \<times> int) list \<Rightarrow> law_resolver \<Rightarrow> bool" where
  "heard_so_far r0 d atIso past r \<longleftrightarrow> (\<forall>t.
     lr_cache r t = lr_cache r0 t \<and> (\<forall>x v. lr_cache r0 t = Some (x, v) \<longrightarrow> (\<forall>now \<in> set (times_of t past). now < x))
     \<or> (\<forall>x v. lr_cache r0 t = Some (x, v) \<longrightarrow> (\<exists>now \<in> set (times_of t past). x \<le> now))
       \<and> (\<forall>x v. lr_cache r t = Some (x, v) \<longrightarrow> getCurrentLaw t atIso d = Inr v))"

definition stage :: "crypto \<Rightarrow> string \<Rightarrow> db \<Rightarrow> message_state \<Rightarrow> pipe \<Rightarrow> bool" where
  "stage C i d0 s p \<longleftrightarrow> logged C i s (pp_db p) \<and> (\<exists>ts n. pp_db p = d0\<lparr>db_transitions := ts, db_seq := n\<rparr>)"

lemma law_frame [simp]:
  "getCurrentLaw t atIso (d\<lparr>db_transitions := ts, db_seq := n\<rparr>) = getCurrentLaw t atIso d"
  by (simp add: getCurrentLaw_def law_candidates_def)

lemma approvals_frame [simp]:
  "getOfficeApprovals i (d\<lparr>db_transitions := ts, db_seq := n\<rparr>) = getOfficeApprovals i d"
  by (simp add: getOfficeApprovals_def)

lemma heard_at_start: "heard_so_far r d atIso [] r"
  by (simp add: heard_so_far_def)

lemma law_get_heard:
  assumes "heard_so_far r0 d atIso past r"
  shows "fst (law_get (getCurrentLaw t atIso d) now t atIso r) = law_heard r0 d atIso (now # times_of t past) t"
proof (cases rule: law_cache.lookup_cases [of r t now])
  case (live x v)
  note H = law_get_hit [OF live, where a = "getCurrentLaw t atIso d" and at' = atIso]
  from assms have "lr_cache r t = lr_cache r0 t \<and> (\<forall>x v. lr_cache r0 t = Some (x, v) \<longrightarrow> (\<forall>now \<in> set (times_of t past). now < x))
     \<or> (\<forall>x v. lr_cache r0 t = Some (x, v) \<longrightarrow> (\<exists>now \<in> set (times_of t past). x \<le> now))
       \<and> getCurrentLaw t atIso d = Inr v"
    using live(1) unfolding heard_so_far_def by blast
  with live H show ?thesis by (fastforce simp: law_heard_def not_less [symmetric] split: option.split)
next
  case dead
  from assms have "lr_cache r t = lr_cache r0 t \<or> (\<forall>x v. lr_cache r0 t = Some (x, v) \<longrightarrow> (\<exists>now \<in> set (times_of t past). x \<le> now))"
    unfolding heard_so_far_def by blast
  with dead law_get_miss(1) [OF dead, of "getCurrentLaw t atIso d" atIso] show ?thesis
    by (fastforce simp: law_heard_def not_less [symmetric] split: option.split)
qed

lemma law_get_so_far:
  assumes "heard_so_far r0 d atIso past r" "fst (law_get (getCurrentLaw t atIso d) now t atIso r) = Inr v"
  shows "heard_so_far r0 d atIso ((t, now) # past) (snd (law_get (getCurrentLaw t atIso d) now t atIso r))"
proof (cases rule: law_cache.lookup_cases [of r t now])
  case (live x w)
  note H = law_get_hit [OF live, where a = "getCurrentLaw t atIso d" and at' = atIso]
  show ?thesis
    unfolding heard_so_far_def
  proof
    fix t'
    from assms(1) have t': "lr_cache r t' = lr_cache r0 t' \<and> (\<forall>x v. lr_cache r0 t' = Some (x, v) \<longrightarrow> (\<forall>now \<in> set (times_of t' past). now < x))
     \<or> (\<forall>x v. lr_cache r0 t' = Some (x, v) \<longrightarrow> (\<exists>now \<in> set (times_of t' past). x \<le> now))
       \<and> (\<forall>x v. lr_cache r t' = Some (x, v) \<longrightarrow> getCurrentLaw t' atIso d = Inr v)"
      unfolding heard_so_far_def by blast
    then show "lr_cache (snd (law_get (getCurrentLaw t atIso d) now t atIso r)) t' = lr_cache r0 t'
        \<and> (\<forall>x v. lr_cache r0 t' = Some (x, v) \<longrightarrow> (\<forall>now \<in> set (times_of t' ((t, now) # past)). now < x))
     \<or> (\<forall>x v. lr_cache r0 t' = Some (x, v) \<longrightarrow> (\<exists>now \<in> set (times_of t' ((t, now) # past)). x \<le> now))
       \<and> (\<forall>x v. lr_cache (snd (law_get (getCurrentLaw t atIso d) now t atIso r)) t' = Some (x, v) \<longrightarrow> getCurrentLaw t' atIso d = Inr v)"
      using live unfolding H by (cases "t' = t") (auto simp: law_emit_def)
  qed
next
  case dead
  note M = law_get_miss [OF dead, of "getCurrentLaw t atIso d" atIso]
  then have cur: "getCurrentLaw t atIso d = Inr v" using assms(2) by simp
  have c: "lr_cache (snd (law_get (getCurrentLaw t atIso d) now t atIso r)) =
      (lr_cache r)(t \<mapsto> (now + lr_cacheTtlSeconds r * 1000, v))"
    using M(2) by (simp add: cur)
  have "lr_cache r t = lr_cache r0 t \<or> (\<forall>x v. lr_cache r0 t = Some (x, v) \<longrightarrow> (\<exists>now \<in> set (times_of t past). x \<le> now))"
    using assms(1) unfolding heard_so_far_def by blast
  with dead have d: "\<forall>x v. lr_cache r0 t = Some (x, v) \<longrightarrow> (\<exists>now' \<in> set (now # times_of t past). x \<le> now')" by auto
  show ?thesis
    unfolding heard_so_far_def c using assms(1) d cur unfolding heard_so_far_def by auto
qed

lemma consult_outcome:
  assumes "stage C i d0 s p" "lawSnapshotAt m = atIso"
  shows "outcome (logged_any C i)
    (\<lambda>v p'. stage C i d0 s p' \<and> (\<forall>c. v = Inr c \<longrightarrow> heard_so_far r0 d0 atIso past (pp_resolver p) \<longrightarrow>
      law_text schema (law_heard r0 d0 atIso (now # times_of t past) t) = Some c
      \<and> heard_so_far r0 d0 atIso ((t, now) # past) (pp_resolver p')))
    (consult schema errors now t m p)"
proof -
  have law: "getCurrentLaw t atIso (pp_db p) = getCurrentLaw t atIso d0" and any: "logged_any C i p"
    using assms(1) by (auto simp: stage_def logged_any_def)
  obtain x r where g: "law_get (getCurrentLaw t atIso d0) now t atIso (pp_resolver p) = (x, r)"
    by (cases "law_get (getCurrentLaw t atIso d0) now t atIso (pp_resolver p)")
  have x: "heard_so_far r0 d0 atIso past (pp_resolver p) \<Longrightarrow> law_heard r0 d0 atIso (now # times_of t past) t = x"
    and r: "\<And>l. heard_so_far r0 d0 atIso past (pp_resolver p) \<Longrightarrow> x = Inr l \<Longrightarrow> heard_so_far r0 d0 atIso ((t, now) # past) r"
    using law_get_heard [of r0 d0 atIso past "pp_resolver p" t now]
      law_get_so_far [of r0 d0 atIso past "pp_resolver p" t now] unfolding g fst_conv snd_conv by blast+
  have st: "stage C i d0 s (p\<lparr>pp_resolver := r\<rparr>)" "logged_any C i (p\<lparr>pp_resolver := r\<rparr>)"
    using assms(1) any by (simp_all add: stage_def logged_any_def)
  from st x r show ?thesis
    unfolding consult_def loadLawContent_def assms(2) law law_text_def g
    by (auto split: sum.split option.split)
qed

lemma gate_outcome:
  assumes "stage C i d0 s p" "lawSnapshotAt m = atIso"
  shows "outcome (logged_any C i)
    (\<lambda>v p'. stage C i d0 s p' \<and> (\<forall>b. v = Inr b \<longrightarrow> heard_so_far r0 d0 atIso past (pp_resolver p) \<longrightarrow>
      (\<exists>c. law_text schema (law_heard r0 d0 atIso (now # times_of t past) t) = Some c \<and> f c = Inr b)
      \<and> heard_so_far r0 d0 atIso ((t, now) # past) (pp_resolver p')))
    (gate f (consult schema errors now t m p))"
  unfolding gate_def
  by (rule outcome_bind [OF consult_outcome [OF assms]]) (auto split: sum.splits)

lemma stage_appended:
  "stage C i d0 s p \<Longrightarrow> appended C i q p p' \<Longrightarrow> q \<noteq> Archived \<Longrightarrow> stage C i d0 q p'"
proof -
  assume st: "stage C i d0 s p" and ap: "appended C i q p p'" and q: "q \<noteq> Archived"
  from st obtain ts n where p: "pp_db p = d0\<lparr>db_transitions := ts, db_seq := n\<rparr>" by (auto simp: stage_def)
  from ap q obtain ts' n' where "pp_db p' = (pp_db p)\<lparr>db_transitions := ts', db_seq := n'\<rparr>"
    by (auto simp: appended_def)
  then have "pp_db p' = d0\<lparr>db_transitions := ts', db_seq := n'\<rparr>" by (simp add: p)
  then have "\<exists>ts n. pp_db p' = d0\<lparr>db_transitions := ts, db_seq := n\<rparr>" by blast
  with st ap show "stage C i d0 q p'" by (simp add: stage_def appended_def)
qed

lemma stage_step:
  assumes "stage C i d0 s p" "e_id m = i" "canTransition s q" "q \<noteq> Archived"
  shows "outcome (logged_any C i) (\<lambda>_ p'. stage C i d0 q p' \<and> pp_resolver p' = pp_resolver p)
    (appendNextTransition C clock m s q reason p)"
proof (rule outcome_mono)
  show "outcome (logged_any C i) (\<lambda>_ p'. appended C i q p p') (appendNextTransition C clock m s q reason p)"
    using assms(1) by (intro appendNext_outcome assms) (simp add: stage_def)
qed (use stage_appended [OF assms(1) _ assms(4)] in \<open>auto simp: appended_def\<close>)

section \<open>The conditions under which a message is archived\<close>

text \<open>The laws are the ones the run hears, the appointment law twice: at the review and again at the authorisation.\<close>

definition approved :: "pipe_options \<Rightarrow> (string \<Rightarrow> bool) \<Rightarrow> pipe_clock \<Rightarrow> string \<Rightarrow> envelope \<Rightarrow> pipe \<Rightarrow> bool" where
  "approved opts dt clock i m p \<longleftrightarrow> (\<exists>review authority classes protocol.
     let heard = (\<lambda>ks. law_heard (pp_resolver p) (pp_db p) (k_snapshot clock) (map (k_law_ms clock) ks)) in
     shenfu m = Inr () \<and> shenfuSchema dt clock m (pp_db p) = Inr ()
     \<and> law_text AppointmentLawContentSchema (heard [1] Appointment) = Some review \<and> may_review m review = Inr ()
     \<and> law_text ClassificationLawContentSchema (heard [2] Classification) = Some classes \<and> clearance_ok m classes = Inr ()
     \<and> law_text AppointmentLawContentSchema (heard [3, 1] Appointment) = Some authority \<and> may_authorize m authority = Inr ()
     \<and> law_text ProtocolLawContentSchema (heard [4] Protocol) = Some protocol
     \<and> (acks_of m protocol \<le> 1 \<or> acks_of m protocol \<le> length (getOfficeApprovals i (pp_db p)))
     \<and> \<not> pbft_pending opts m i)"

definition cleared :: "pipe_options \<Rightarrow> (string \<Rightarrow> bool) \<Rightarrow> pipe_clock \<Rightarrow> string \<Rightarrow> envelope \<Rightarrow> pipe \<Rightarrow> bool" where
  "cleared opts dt clock i m p \<longleftrightarrow> (\<exists>routing m'.
     law_text RoutingLawContentSchema (law_heard (pp_resolver p) (pp_db p) (k_snapshot clock) [k_law_ms clock 0] Routing) = Some routing
     \<and> route_message m routing = Inr m' \<and> approved opts dt clock i m' p)"

lemma withRouting_keeps [simp]:
  "e_id (withRouting m r) = e_id m" "e_genre (withRouting m r) = e_genre m"
  "e_metadata (withRouting m r) = e_metadata m" "e_submittedAt (withRouting m r) = e_submittedAt m"
  by (simp_all add: withRouting_def)

lemma lawSnapshotAt_withRouting [simp]: "lawSnapshotAt (withRouting m r) = lawSnapshotAt m"
  by (simp only: lawSnapshotAt_def withRouting_keeps)

lemma route_keeps:
  "route_message m content = Inr m' \<Longrightarrow> e_id m' = e_id m \<and> lawSnapshotAt m' = lawSnapshotAt m \<and> e_genre m' = e_genre m"
  by (auto simp: route_message_def split: option.splits if_splits)

lemma snapshot_at [simp]: "at' \<noteq> [] \<Longrightarrow> lawSnapshotAt (withLawSnapshot m at') = at'"
  by (simp add: lawSnapshotAt_def withLawSnapshot_def obj_get_def map_of_obj_spread)

lemma snapshot_id [simp]: "e_id (withLawSnapshot m at') = e_id m" "e_id (caoni m) = e_id m"
  by (simp_all add: withLawSnapshot_def caoni_def)

lemma reject_outcome:
  assumes "stage C i d0 s p" "e_id m = i" "canTransition s Rejected"
  shows "outcome (logged_any C i)
    (\<lambda>r p'. logged C i (pr_finalState r) (pp_db p') \<and> (pr_finalState r = Archived \<longrightarrow> K))
    (reject_with C clock messageId m s reason p)"
  unfolding reject_with_def
  by (rule outcome_bind [OF stage_step [OF assms]]) (simp_all add: stage_def)

lemma on_db_appendSeal:
  assumes "logged C i s (pp_db p)"
  shows "outcome (logged_any C i) (\<lambda>_ p'. logged C i s (pp_db p')) (on_db (appendSeal seal) p)"
proof -
  have t: "db_transitions (out_state (appendSeal seal (pp_db p))) = db_transitions (pp_db p)"
    by (simp add: appendSeal_def Let_def frame_simps)
  have "archive_inv (sha256 C) (out_state (appendSeal seal (pp_db p)))"
    using assms by (intro appendSeal_inv) (simp add: logged_def)
  from logged_cong [OF assms t this] have "logged C i s (out_state (appendSeal seal (pp_db p)))" .
  then show ?thesis
    by (cases "appendSeal seal (pp_db p)") (auto simp: on_db_def logged_any_def)
qed

lemma append_seals_outcome:
  "logged C i s (pp_db p) \<Longrightarrow> outcome (logged_any C i) (\<lambda>_ p'. logged C i s (pp_db p')) (append_seals seals p)"
proof (induction seals arbitrary: p)
  case (Cons x seals)
  show ?case
    unfolding append_seals.simps
    by (rule outcome_bind [OF on_db_appendSeal [OF Cons.prems]]) (rule Cons.IH)
qed simp

lemma applySeals_outcome:
  assumes "logged C i Reviewed (pp_db p)" "e_id m = i"
  shows "outcome (logged_any C i) (\<lambda>r p'. logged C i Archived (pp_db p') \<and> pr_finalState r = Archived)
    (applySealsAndArchive C ctx clock m p)"
proof (cases "createSealChain C m ctx (k_seal clock) ''GENESIS''")
  case (Inl e)
  with assms show ?thesis by (auto simp: applySealsAndArchive_def logged_any_def)
next
  case (Inr seals)
  have "outcome (logged_any C i) (\<lambda>r p'. logged C i Archived (pp_db p') \<and> pr_finalState r = Archived)
    (and_then (append_seals seals p) (\<lambda>_ p1.
      and_then (appendNextTransition C clock m (current_state (e_id m) p1) Authorized None p1) (\<lambda>_ p2.
        and_then (appendNextTransition C clock m Authorized Archived None p2) (\<lambda>_.
          Done \<lparr>pr_messageId = e_id m, pr_finalState = Archived, pr_reason = None\<rparr>))))"
  proof (rule outcome_bind [OF append_seals_outcome [OF assms(1)]], rule outcome_bind)
    fix p1 :: pipe assume l: "logged C i Reviewed (pp_db p1)"
    then have "current_state (e_id m) p1 = Reviewed"
      using assms(2) by (simp add: logged_def current_state_def state_of_log_def)
    then show "outcome (logged_any C i) (\<lambda>_ p2. appended C i Authorized p1 p2)
        (appendNextTransition C clock m (current_state (e_id m) p1) Authorized None p1)"
      by (simp only:) (rule appendNext_outcome [OF l assms(2)], simp)
  next
    fix p1 p2 :: pipe assume "appended C i Authorized p1 p2"
    then have l: "logged C i Authorized (pp_db p2)" by (simp add: appended_def)
    show "outcome (logged_any C i) (\<lambda>r p'. logged C i Archived (pp_db p') \<and> pr_finalState r = Archived)
      (and_then (appendNextTransition C clock m Authorized Archived None p2) (\<lambda>_.
          Done \<lparr>pr_messageId = e_id m, pr_finalState = Archived, pr_reason = None\<rparr>))"
      by (rule outcome_bind [OF appendNext_outcome [OF l assms(2)]]) (simp_all add: appended_def)
  qed
  with Inr assms show ?thesis by (auto simp: applySealsAndArchive_def logged_any_def)
qed

text \<open>The errors that are mapped to a rejection are thrown before anything is written.\<close>

lemma appendTransition_error: "appendTransition sha t d = Fail e d' \<Longrightarrow> mapSealFailure e = None"
  by (auto simp: appendTransition_def indexArchivedMessage_def Let_def mapSealFailure_def
      split: if_splits option.splits)

lemma appendNext_error: "appendNextTransition C clock m s q reason p = Fail e p' \<Longrightarrow> mapSealFailure e = None"
  by (auto simp: appendNextTransition_def Let_def on_db_def split: out.splits dest: appendTransition_error)

lemma append_seals_error: "append_seals seals p = Fail e p' \<Longrightarrow> mapSealFailure e = None"
proof (induction seals arbitrary: p)
  case (Cons x seals)
  then show ?case
    by (auto simp: out_simps on_db_def appendSeal_def Let_def mapSealFailure_def split: if_splits out.splits)
qed simp

lemma applySeals_error:
  assumes "applySealsAndArchive C ctx clock m p = Fail e p'" "mapSealFailure e \<noteq> None"
  shows "p' = p"
  using assms
  by (auto simp: applySealsAndArchive_def out_simps split: sum.splits if_splits
      dest: appendNext_error append_seals_error)

lemma seal_or_reject_outcome:
  assumes "stage C i d0 Reviewed p" "e_id m = i" K
  shows "outcome (logged_any C i)
    (\<lambda>r p'. logged C i (pr_finalState r) (pp_db p') \<and> (pr_finalState r = Archived \<longrightarrow> K))
    (seal_or_reject C ctx clock messageId m p)"
proof -
  have l: "logged C i Reviewed (pp_db p)" using assms(1) by (simp add: stage_def)
  note A = applySeals_outcome [OF l assms(2), of ctx clock]
  show ?thesis
  proof (cases "applySealsAndArchive C ctx clock m p")
    case (Done r p')
    with A assms(3) show ?thesis by (simp add: seal_or_reject_def)
  next
    case (Fail e p')
    show ?thesis
    proof (cases "mapSealFailure e")
      case None
      with A Fail show ?thesis by (simp add: seal_or_reject_def)
    next
      case (Some reason)
      then have "p' = p" using applySeals_error [OF Fail] by simp
      moreover have "current_state (e_id m) p = Reviewed"
        using l assms(2) by (simp add: logged_def current_state_def state_of_log_def)
      ultimately show ?thesis
        using Fail Some reject_outcome [OF assms(1,2), of K] by (simp add: seal_or_reject_def)
    qed
  qed
qed

section \<open>A run\<close>

text \<open>What a run that returns has done: the result is the state of the log, and archiving needs \<open>K\<close>.\<close>

abbreviation run_ends :: "crypto \<Rightarrow> string \<Rightarrow> bool \<Rightarrow> (pipe, pipeline_result) out \<Rightarrow> bool" where
  "run_ends C i K \<equiv> outcome (logged_any C i)
    (\<lambda>r p'. logged C i (pr_finalState r) (pp_db p') \<and> (pr_finalState r = Archived \<longrightarrow> K))"

lemma pend_outcome:
  assumes "stage C i d0 Reviewed p" "e_id m = i"
  shows "run_ends C i K (and_then (appendNextTransition C clock m Reviewed Pending reason p)
    (\<lambda>_. Done (pending_result messageId r)))"
  by (rule outcome_bind [OF stage_step [OF assms]]) (simp_all add: stage_def pending_result_def)

text \<open>A gate: its refusal rejects, its content goes on under the law it heard.\<close>

lemma gate_bind:
  assumes "stage C i d0 s p" "lawSnapshotAt m = atIso" "heard_so_far r0 d0 atIso past (pp_resolver p)"
    "\<And>v p'. stage C i d0 s p' \<Longrightarrow>
      (\<And>b. v = Inr b \<Longrightarrow> (\<exists>c. law_text schema (law_heard r0 d0 atIso (now # times_of t past) t) = Some c \<and> f c = Inr b)) \<Longrightarrow>
      (\<And>b. v = Inr b \<Longrightarrow> heard_so_far r0 d0 atIso ((t, now) # past) (pp_resolver p')) \<Longrightarrow>
      outcome (logged_any C i) Q (k v p')"
  shows "outcome (logged_any C i) Q (and_then (gate f (consult schema errors now t m p)) k)"
  by (rule outcome_bind [OF gate_outcome [OF assms(1,2), of r0 past]]) (use assms(3,4) in blast)

lemma process_acked_outcome:
  assumes "stage C i d0 Reviewed p" "e_id m = i"
    and K: "\<And>n. acks = Inr n \<Longrightarrow> n \<le> 1 \<or> n \<le> length (getOfficeApprovals i d0) \<Longrightarrow> \<not> pbft_pending opts m i \<Longrightarrow> K"
  shows "run_ends C i K (process_acked C ctx opts clock i m acks p)"
proof (cases acks)
  case (Inl reason)
  then show ?thesis using reject_outcome [OF assms(1,2)] by (simp add: process_acked_def)
next
  case (Inr n)
  have a: "getOfficeApprovals i (pp_db p) = getOfficeApprovals i d0" using assms(1) by (auto simp: stage_def)
  then have k: "\<not> (1 < n \<and> length (getOfficeApprovals i (pp_db p)) < n) \<Longrightarrow> \<not> pbft_pending opts m i \<Longrightarrow> K"
    using K [OF Inr] by auto
  show ?thesis
    using Inr pend_outcome [OF assms(1,2)] seal_or_reject_outcome [OF assms(1,2) k, of ctx clock i]
    by (simp add: process_acked_def)
qed

definition acknowledged :: "pipe_options \<Rightarrow> envelope \<Rightarrow> string \<Rightarrow> err + resolved_law option \<Rightarrow> db \<Rightarrow> bool" where
  "acknowledged opts m i answer d \<longleftrightarrow> (\<exists>protocol. law_text ProtocolLawContentSchema answer = Some protocol
     \<and> (acks_of m protocol \<le> 1 \<or> acks_of m protocol \<le> length (getOfficeApprovals i d)) \<and> \<not> pbft_pending opts m i)"

lemma process_authorized_outcome:
  assumes "stage C i d0 Reviewed p" "e_id m = i" "lawSnapshotAt m = atIso"
    and H: "\<And>u. auth = Inr u \<Longrightarrow> heard_so_far r0 d0 atIso past (pp_resolver p)"
    and K: "\<And>u. auth = Inr u \<Longrightarrow>
      acknowledged opts m i (law_heard r0 d0 atIso (k_law_ms clock 4 # times_of Protocol past) Protocol) d0 \<Longrightarrow> K"
  shows "run_ends C i K (process_authorized C ctx opts clock i m auth p)"
proof (cases auth)
  case (Inl reason)
  then show ?thesis using reject_outcome [OF assms(1,2)] by (simp add: process_authorized_def)
next
  case (Inr u)
  show ?thesis
    unfolding Inr process_authorized_def requiredAcksByLaw_def sum.case
    by (intro gate_bind [OF assms(1,3) H [OF Inr]] process_acked_outcome [OF _ assms(2)], assumption)
      (use K [OF Inr] in \<open>auto simp: acknowledged_def\<close>)
qed

lemma process_classified_outcome:
  assumes "stage C i d0 Validated p" "e_id m = i" "lawSnapshotAt m = atIso"
    and H: "\<And>u. classification = Inr u \<Longrightarrow> heard_so_far r0 d0 atIso past (pp_resolver p)"
    and K: "\<And>authority u. classification = Inr u
      \<Longrightarrow> law_text AppointmentLawContentSchema (law_heard r0 d0 atIso (k_law_ms clock 3 # times_of Appointment past) Appointment) = Some authority
      \<Longrightarrow> may_authorize m authority = Inr ()
      \<Longrightarrow> acknowledged opts m i (law_heard r0 d0 atIso (k_law_ms clock 4 # times_of Protocol past) Protocol) d0 \<Longrightarrow> K"
  shows "run_ends C i K (process_classified C ctx opts clock i m classification p)"
proof (cases classification)
  case (Inl reason)
  then show ?thesis using reject_outcome [OF assms(1,2)] by (simp add: process_classified_def)
next
  case (Inr u)
  have "run_ends C i K (and_then (authorizeByLaw clock m p1) (process_authorized C ctx opts clock i m))"
    if st: "stage C i d0 Reviewed p1" and r: "pp_resolver p1 = pp_resolver p" for p1
    unfolding authorizeByLaw_def
  proof (rule gate_bind [OF st assms(3) H [OF Inr, folded r]])
    fix v :: "string + unit" and p'
    assume st': "stage C i d0 Reviewed p'"
      and v: "\<And>b. v = Inr b \<Longrightarrow> \<exists>c. law_text AppointmentLawContentSchema
          (law_heard r0 d0 atIso (k_law_ms clock 3 # times_of Appointment past) Appointment) = Some c \<and> may_authorize m c = Inr b"
      and h: "\<And>b. v = Inr b \<Longrightarrow> heard_so_far r0 d0 atIso ((Appointment, k_law_ms clock 3) # past) (pp_resolver p')"
    show "run_ends C i K (process_authorized C ctx opts clock i m v p')"
      by (rule process_authorized_outcome [OF st' assms(2,3) h]) (use v K [OF Inr] in auto)
  qed
  then show ?thesis
    unfolding process_classified_def Inr sum.case
    by (intro outcome_bind [OF stage_step [OF assms(1,2)]]) simp_all
qed

lemma process_reviewed_outcome:
  assumes "stage C i d0 Validated p" "e_id m = i" "lawSnapshotAt m = atIso"
    and H: "\<And>u. lawReview = Inr u \<Longrightarrow> heard_so_far r0 d0 atIso past (pp_resolver p)"
    and K: "\<And>classes authority u. lawReview = Inr u
      \<Longrightarrow> law_text ClassificationLawContentSchema (law_heard r0 d0 atIso (k_law_ms clock 2 # times_of Classification past) Classification) = Some classes
      \<Longrightarrow> clearance_ok m classes = Inr ()
      \<Longrightarrow> law_text AppointmentLawContentSchema (law_heard r0 d0 atIso (k_law_ms clock 3 # times_of Appointment past) Appointment) = Some authority
      \<Longrightarrow> may_authorize m authority = Inr ()
      \<Longrightarrow> acknowledged opts m i (law_heard r0 d0 atIso (k_law_ms clock 4 # times_of Protocol past) Protocol) d0 \<Longrightarrow> K"
  shows "run_ends C i K (process_reviewed C ctx opts clock i m lawReview p)"
proof (cases lawReview)
  case (Inl reason)
  then show ?thesis using reject_outcome [OF assms(1,2)] by (simp add: process_reviewed_def)
next
  case (Inr u)
  show ?thesis
    unfolding Inr process_reviewed_def classificationCheck_def sum.case
  proof (rule gate_bind [OF assms(1,3) H [OF Inr]])
    fix v :: "string + unit" and p'
    assume st': "stage C i d0 Validated p'"
      and v: "\<And>b. v = Inr b \<Longrightarrow> \<exists>c. law_text ClassificationLawContentSchema
          (law_heard r0 d0 atIso (k_law_ms clock 2 # times_of Classification past) Classification) = Some c \<and> clearance_ok m c = Inr b"
      and h: "\<And>b. v = Inr b \<Longrightarrow> heard_so_far r0 d0 atIso ((Classification, k_law_ms clock 2) # past) (pp_resolver p')"
    show "run_ends C i K (process_classified C ctx opts clock i m v p')"
      by (rule process_classified_outcome [OF st' assms(2,3) h]) (use v K [OF Inr] in auto)
  qed
qed

lemma schema_check_frame [simp]:
  "shenfuSchema dt clock m (d\<lparr>db_transitions := ts, db_seq := n\<rparr>) = shenfuSchema dt clock m d"
proof -
  have ti: "getCurrentTiDefinition g a (d\<lparr>db_transitions := ts, db_seq := n\<rparr>) = getCurrentTiDefinition g a d" for g a
    by (simp add: getCurrentTiDefinition_def ti_candidates_def)
  then have "getActiveGenreSchema g a (d\<lparr>db_transitions := ts, db_seq := n\<rparr>) = getActiveGenreSchema g a d" for g a
    by (simp add: getActiveGenreSchema_def)
  with ti show ?thesis by (simp add: shenfuSchema_def schema_check_def cong: option.case_cong if_cong)
qed

lemma process_validated_outcome:
  assumes st: "stage C i (pp_db p0) Validated p" and m: "e_id m = i" "lawSnapshotAt m = k_snapshot clock"
    and H: "heard_so_far (pp_resolver p0) (pp_db p0) (k_snapshot clock) [(Routing, now)] (pp_resolver p)"
    and K: "approved opts dt clock i m p0 \<Longrightarrow> K"
  shows "run_ends C i K (process_validated C dt ctx opts clock i m p)"
proof -
  let ?heard = "law_heard (pp_resolver p0) (pp_db p0) (k_snapshot clock)"
  have eq: "shenfuSchema dt clock m (pp_db p) = shenfuSchema dt clock m (pp_db p0)"
    using st by (auto simp: stage_def)
  have "run_ends C i K (and_then (reviewByLaw clock m p) (process_reviewed C ctx opts clock i m))"
    if ok: "shenfu m = Inr ()" "shenfuSchema dt clock m (pp_db p0) = Inr ()"
    unfolding reviewByLaw_def
  proof (rule gate_bind [OF st m(2) H])
    fix v :: "string + unit" and p'
    assume st': "stage C i (pp_db p0) Validated p'"
      and v: "\<And>b. v = Inr b \<Longrightarrow> \<exists>c. law_text AppointmentLawContentSchema
          (?heard (k_law_ms clock 1 # times_of Appointment [(Routing, now)]) Appointment) = Some c \<and> may_review m c = Inr b"
      and h: "\<And>b. v = Inr b \<Longrightarrow> heard_so_far (pp_resolver p0) (pp_db p0) (k_snapshot clock)
          [(Appointment, k_law_ms clock 1), (Routing, now)] (pp_resolver p')"
    show "run_ends C i K (process_reviewed C ctx opts clock i m v p')"
      by (rule process_reviewed_outcome [OF st' m h])
        (use v K ok in \<open>auto simp: approved_def acknowledged_def\<close>)
  qed
  then show ?thesis
    using reject_outcome [OF st m(1)]
    by (auto simp: process_validated_def eq split: sum.split)
qed

lemma processDocketMessage_outcome:
  assumes st: "stage C i (pp_db p) Pending p" and at': "k_snapshot clock \<noteq> []"
    and m: "getMessage i (pp_db p) = Some message" "e_id message = i"
  shows "run_ends C i (cleared opts dt clock i (withLawSnapshot (caoni message) (k_snapshot clock)) p)
    (processDocketMessage C dt ctx opts clock i p)"
proof -
  let ?n = "withLawSnapshot (caoni message) (k_snapshot clock)" and ?at = "k_snapshot clock" and ?d = "pp_db p"
  let ?routing = "law_heard (pp_resolver p) ?d ?at [k_law_ms clock 0] Routing"
  have n: "lawSnapshotAt ?n = ?at" "e_id ?n = i" using at' m(2) by simp_all
  have body: "run_ends C i (cleared opts dt clock i ?n p)
      (and_then (appendNextTransition C clock m' Pending Validated None p1)
                 (\<lambda>_. process_validated C dt ctx opts clock i m'))"
    if st1: "stage C i ?d Pending p1"
      and h: "heard_so_far (pp_resolver p) ?d ?at [(Routing, k_law_ms clock 0)] (pp_resolver p1)"
      and r: "law_text RoutingLawContentSchema ?routing = Some c" "route_message ?n c = Inr m'" for c m' p1
  proof -
    from route_keeps [OF r(2)] n have m': "e_id m' = i" "lawSnapshotAt m' = ?at" by simp_all
    show ?thesis
    proof (rule outcome_bind [OF stage_step [OF st1 m'(1)]])
      fix u and p2 :: pipe
      assume "stage C i ?d Validated p2 \<and> pp_resolver p2 = pp_resolver p1"
      then have s2: "stage C i ?d Validated p2"
        and h2: "heard_so_far (pp_resolver p) ?d ?at [(Routing, k_law_ms clock 0)] (pp_resolver p2)"
        using h by simp_all
      show "run_ends C i (cleared opts dt clock i ?n p) (process_validated C dt ctx opts clock i m' p2)"
        by (rule process_validated_outcome [OF s2 m' h2, where opts = opts and dt = dt])
          (use r in \<open>auto simp: cleared_def\<close>)
    qed simp_all
  qed
  show ?thesis
    unfolding processDocketMessage_def m(1) option.case Let_def applyRoutingLaw_def
  proof (rule gate_bind [OF st n(1) heard_at_start])
    fix v :: "string + envelope" and p1 :: pipe
    assume s1: "stage C i ?d Pending p1"
      and v: "\<And>b. v = Inr b \<Longrightarrow> \<exists>c. law_text RoutingLawContentSchema
        (law_heard (pp_resolver p) ?d ?at (k_law_ms clock 0 # times_of Routing []) Routing) = Some c \<and> route_message ?n c = Inr b"
      and h: "\<And>b. v = Inr b \<Longrightarrow> heard_so_far (pp_resolver p) ?d ?at [(Routing, k_law_ms clock 0)] (pp_resolver p1)"
    show "run_ends C i (cleared opts dt clock i ?n p) (case v of
        Inl reason \<Rightarrow> reject_with C clock i ?n Pending reason p1
      | Inr m' \<Rightarrow> and_then (appendNextTransition C clock m' Pending Validated None p1)
                 (\<lambda>_. process_validated C dt ctx opts clock i m'))"
    proof (cases v)
      case (Inl reason)
      then show ?thesis using reject_outcome [OF s1 n(2)] by simp
    next
      case (Inr m')
      from v [OF Inr] obtain c where "law_text RoutingLawContentSchema ?routing = Some c" "route_message ?n c = Inr m'" by auto
      from body [OF s1 h [OF Inr] this] Inr show ?thesis by simp
    qed
  qed
qed

end
