(* ===== verification/Pipeline_Demo.thy ===== *)
theory Pipeline_Demo
  imports Pipeline_Log
begin

text \<open>
  A concrete archive with the four laws a run consults and one memo, as the pipeline runs it.
\<close>

definition court_law :: "string \<Rightarrow> obj \<Rightarrow> envelope" where
  "court_law l content = \<lparr>e_id = l, e_genre = ''edict'', e_payload = [(''law_type'', JStr l),
     (''version'', JStr ''1.0.0''), (''content'', JObj content), (''effective_date'', JStr ''1970-01-01'')],
     e_actor_id = ''u1'', e_actor_role = ''minister'', e_submittedAt = ''2024-01-01'', e_metadata = []\<rparr>"

definition court_digest :: "string \<Rightarrow> string" where
  "court_digest s = ''a1''"

definition court_message :: "envelope \<Rightarrow> message_row" where
  "court_message m = message_row_of court_digest ''2024-01-02'' m"

definition court_edict :: "string \<Rightarrow> obj \<Rightarrow> edict_row" where
  "court_edict l content = edict_row_of (court_law l content) l 0 ''2024-01-02''"

definition court_roles :: obj where
  "court_roles = [(''roles'', JObj [(''admin'', JObj
     [(''permissions'', JArr [JStr ''review'', JStr ''authorize'']), (''allowed_genres'', JArr [JStr ''*''])])])]"

definition court_statutes :: "(string \<times> obj) list" where
  "court_statutes = [(''routing'', [(''table'', JObj [(''memo'', JArr [JStr ''archives''])])]),
     (''appointment'', court_roles), (''classification'', [(''levels'', JArr [JStr ''public''])]),
     (''protocol'', [(''required_acks_by_genre'', JObj [(''petition'', JNum 2 0)])])]"

definition court_memo :: "string \<Rightarrow> envelope" where
  "court_memo genre = \<lparr>e_id = ''m1'', e_genre = genre, e_payload = [(''a'', JNum 1 0)], e_actor_id = ''u1'',
     e_actor_role = ''admin'', e_submittedAt = ''2024-02-29T00:00:00Z'', e_metadata = []\<rparr>"

definition court :: "string \<Rightarrow> pipe" where
  "court genre = \<lparr>pp_db = empty_db\<lparr>
       db_messages := court_message (court_memo genre) # map (\<lambda>(l, c). court_message (court_law l c)) court_statutes,
       db_edicts := map (\<lambda>(l, c). court_edict l c) court_statutes\<rparr>,
     pp_resolver = new_LawResolver None None None\<rparr>"

definition court_crypto :: crypto where
  "court_crypto = \<lparr>sha256 = court_digest, hmac_sha256 = \<lambda>k m. [], ed_sign = \<lambda>h k. h,
     ed_public = \<lambda>k. k, ed_verify = \<lambda>s h k. s = h\<rparr>"

definition court_clock :: pipe_clock where
  "court_clock = \<lparr>k_snapshot = ''1970-01-01T00:00:01.000Z'', k_sealedAt = \<lambda>_. ''1970-01-01T00:00:01.000Z'',
     k_at = \<lambda>_. ''1970-01-01T00:00:01.000Z'', k_schema = ''1970-01-01T00:00:01.000Z'', k_law_ms = \<lambda>_. 0,
     k_seal = \<lambda>_. ''1970-01-01T00:00:01.000Z'', k_verify_ms = 2000\<rparr>"

definition court_options :: pipe_options where
  "court_options = \<lparr>po_consort = False, po_pbft_kind = False, po_pbft = None, po_nodeId = None\<rparr>"

definition court_run :: "string \<Rightarrow> (pipe, pipeline_result) out" where
  "court_run genre = processDocketMessage court_crypto (\<lambda>_. True) demo_context court_options court_clock ''m1'' (court genre)"

end
