(* ===== verification/Pipeline_Archive.thy ===== *)
theory Pipeline_Archive
  imports Pipeline_Demo
begin

text \<open>
  The properties of the pipeline. \<open>Pipeline_Log\<close> says what a run needs to archive; here the converse is
  proved as well: with the laws in force, the approvals, a sealing context that produces valid seals
  and an indexable message, the run returns and archives.
\<close>

section \<open>Going forward\<close>

lemma consult_answer:
  assumes "stage C i d0 s p" "lawSnapshotAt m = atIso" "heard_so_far r0 d0 atIso past (pp_resolver p)"
    "law_heard r0 d0 atIso (now # times_of t past) t = Inr v"
  obtains r where "stage C i d0 s (p\<lparr>pp_resolver := r\<rparr>)" "heard_so_far r0 d0 atIso ((t, now) # past) r"
    "consult schema errors now t m p = Done (case law_text schema (Inr v) of
       Some c \<Rightarrow> Inr c
     | None \<Rightarrow> Inl (case v of None \<Rightarrow> se_missing errors | Some l \<Rightarrow>
         if truthy (rw_content l) then se_invalid errors else se_missing errors)) (p\<lparr>pp_resolver := r\<rparr>)"
proof -
  have law: "getCurrentLaw t atIso (pp_db p) = getCurrentLaw t atIso d0"
    using assms(1) by (auto simp: stage_def)
  obtain x r where g: "law_get (getCurrentLaw t atIso d0) now t atIso (pp_resolver p) = (x, r)"
    by (cases "law_get (getCurrentLaw t atIso d0) now t atIso (pp_resolver p)")
  have x: "x = Inr v"
    using law_get_heard [OF assms(3), of t now] unfolding g assms(4) fst_conv .
  have r: "heard_so_far r0 d0 atIso ((t, now) # past) r"
    using law_get_so_far [OF assms(3), of t now v] unfolding g x fst_conv snd_conv by blast
  have "stage C i d0 s (p\<lparr>pp_resolver := r\<rparr>)" using assms(1) by (simp add: stage_def)
  moreover have "consult schema errors now t m p = Done (case law_text schema (Inr v) of
       Some c \<Rightarrow> Inr c
     | None \<Rightarrow> Inl (case v of None \<Rightarrow> se_missing errors | Some l \<Rightarrow>
         if truthy (rw_content l) then se_invalid errors else se_missing errors)) (p\<lparr>pp_resolver := r\<rparr>)"
    unfolding consult_def loadLawContent_def assms(2) law g x
    by (simp add: law_text_def split: option.split)
  ultimately show thesis using r by (intro that)
qed

lemma gate_pass_db:
  assumes "stage C i d0 s p" "lawSnapshotAt m = atIso" "heard_so_far r0 d0 atIso past (pp_resolver p)"
    "law_text schema (law_heard r0 d0 atIso (now # times_of t past) t) = Some c" "f c = Inr b"
  shows "\<exists>r. gate f (consult schema errors now t m p) = Done (Inr b) (p\<lparr>pp_resolver := r\<rparr>)
    \<and> stage C i d0 s (p\<lparr>pp_resolver := r\<rparr>) \<and> heard_so_far r0 d0 atIso ((t, now) # past) r"
proof -
  obtain v where v: "law_heard r0 d0 atIso (now # times_of t past) t = Inr v"
    using assms(4) by (auto simp: law_text_def split: sum.splits)
  obtain r where "stage C i d0 s (p\<lparr>pp_resolver := r\<rparr>)" "heard_so_far r0 d0 atIso ((t, now) # past) r"
    "consult schema errors now t m p = Done (Inr c) (p\<lparr>pp_resolver := r\<rparr>)"
    using consult_answer [OF assms(1-3) v, of schema errors] unfolding assms(4) [unfolded v] option.case by blast
  with assms(5) show ?thesis by (auto simp: gate_def)
qed

lemma gate_pass:
  assumes "stage C i d0 s p" "lawSnapshotAt m = atIso" "heard_so_far r0 d0 atIso past (pp_resolver p)"
    "law_text schema (law_heard r0 d0 atIso (now # times_of t past) t) = Some c" "f c = Inr b"
  obtains p' where "gate f (consult schema errors now t m p) = Done (Inr b) p'" "stage C i d0 s p'"
    "heard_so_far r0 d0 atIso ((t, now) # past) (pp_resolver p')"
proof -
  obtain r where "gate f (consult schema errors now t m p) = Done (Inr b) (p\<lparr>pp_resolver := r\<rparr>)"
    "stage C i d0 s (p\<lparr>pp_resolver := r\<rparr>)" "heard_so_far r0 d0 atIso ((t, now) # past) r"
    using gate_pass_db [where f = f, OF assms] by blast
  then show thesis by (intro that [of "p\<lparr>pp_resolver := r\<rparr>"]) simp_all
qed

lemma gate_refuses:
  assumes "stage C i d0 s p" "lawSnapshotAt m = atIso" "heard_so_far r0 d0 atIso past (pp_resolver p)"
    "law_text schema (law_heard r0 d0 atIso (now # times_of t past) t) = None"
    "law_heard r0 d0 atIso (now # times_of t past) t = Inr v"
  shows "\<exists>e r. gate f (consult schema errors now t m p) = Done (Inl e) (p\<lparr>pp_resolver := r\<rparr>)"
proof -
  obtain e r where "consult schema errors now t m p = Done (Inl e) (p\<lparr>pp_resolver := r\<rparr>)"
    using consult_answer [OF assms(1-3,5), of schema errors] unfolding assms(4) [unfolded assms(5)] option.case by blast
  then show ?thesis by (auto simp: gate_def)
qed

lemma transition_fresh:
  "numbered i d \<Longrightarrow> 1 + int (length (log_of i d)) \<notin> tr_sequenceNo ` set (rows_of i d)"
proof
  assume n: "numbered i d" and "1 + int (length (log_of i d)) \<in> tr_sequenceNo ` set (rows_of i d)"
  then have "1 + int (length (log_of i d)) \<in> set (map tr_sequenceNo (log_of i d))" by (simp add: log_of_def)
  then have "1 + int (length (log_of i d)) \<in> (\<lambda>n. int n + 1) ` {..<length (log_of i d)}"
    using n by (simp add: numbered_def lessThan_atLeast0 del: set_map) simp
  then show False by auto
qed

lemma step_Done:
  assumes "logged C i s (pp_db p)" "e_id m = i" "canTransition s q" "q \<noteq> Archived" "i \<in> message_ids (pp_db p)"
  obtains p' where "appendNextTransition C clock m s q reason p = Done () p'" "appended C i q p p'"
proof -
  let ?t = "transition_for clock m s q (length (getTransitions i (pp_db p)) + 1) reason"
  have s: "(case snapshotState (t_messageId ?t) (pp_db p) of None \<Rightarrow> Pending | Some s \<Rightarrow> s) = s"
    using assms(1,2) by (simp add: transition_for_def logged_def state_of_log_def)
  have "t_sequenceNo ?t \<notin> tr_sequenceNo ` set (rows_of (t_messageId ?t) (pp_db p))"
    using transition_fresh [of i "pp_db p"] assms(1,2)
    by (simp add: transition_for_def getTransitions_log logged_def)
  from appendTransition_ok [OF _ _ this] s assms(2-5)
  obtain d' where d': "appendTransition (sha256 C) ?t (pp_db p) = Done () d'" by (auto simp: transition_for_def)
  then have "appendNextTransition C clock m s q reason p = Done () (p\<lparr>pp_db := d'\<rparr>)"
    by (simp add: appendNextTransition_def Let_def on_db_def assms(2))
  with appendNext_outcome [OF assms(1-3), of clock reason] show thesis by (intro that) auto
qed

lemma stage_ids: "stage C i d0 s p \<Longrightarrow> message_ids (pp_db p) = message_ids d0"
  by (auto simp: stage_def message_ids_def)

lemma stage_step_Done:
  assumes "stage C i d0 s p" "e_id m = i" "canTransition s q" "q \<noteq> Archived" "i \<in> message_ids d0"
  obtains p' where "appendNextTransition C clock m s q reason p = Done () p'" "stage C i d0 q p'"
    "pp_resolver p' = pp_resolver p"
proof -
  have l: "logged C i s (pp_db p)" and i: "i \<in> message_ids (pp_db p)"
    using assms(1,5) stage_ids [OF assms(1)] by (simp_all add: stage_def)
  obtain p' where p': "appendNextTransition C clock m s q reason p = Done () p'" "appended C i q p p'"
    using step_Done [OF l assms(2-4) i] .
  show thesis
    by (rule that [OF p'(1) stage_appended [OF assms(1) p'(2) assms(4)]]) (use p'(2) in \<open>simp add: appended_def\<close>)
qed

section \<open>Sealing and indexing succeed\<close>

text \<open>The message in the archive can be indexed once it is archived.\<close>

definition indexable :: "string \<Rightarrow> db \<Rightarrow> bool" where
  "indexable i d \<longleftrightarrow> (case getMessage i d of None \<Rightarrow> False | Some m \<Rightarrow>
     fk_ok (superseded_by_of (e_payload m)) (message_ids d)
     \<and> (e_genre m = ''edict'' \<and> as_str (obj_get (e_payload m) ''law_type'') \<noteq> None \<longrightarrow>
          js_Number (nullish (obj_get (e_payload m) ''precedence'') (JNum 0 0)) \<noteq> None))"

definition sealable :: "crypto \<Rightarrow> seal_context \<Rightarrow> pipe_clock \<Rightarrow> envelope \<Rightarrow> db \<Rightarrow> bool" where
  "sealable C ctx clock m d \<longleftrightarrow> (case createSealChain C m ctx (k_seal clock) ''GENESIS'' of
     Inl _ \<Rightarrow> False
   | Inr seals \<Rightarrow> verifySealChain C m seals ctx (k_verify_ms clock) = Some True
       \<and> s_sealId ` set seals \<inter> s_sealId ` set (db_seals d) = {})"

lemma indexable_cong:
  "getMessage i d' = getMessage i d \<Longrightarrow> message_ids d' = message_ids d \<Longrightarrow> indexable i d' = indexable i d"
  unfolding indexable_def by (simp only:)

lemma indexable_frame:
  "indexable i (d\<lparr>db_transitions := ts, db_seq := n\<rparr>) = indexable i d"
  by (rule indexable_cong) (simp_all add: getMessage_def)

lemma getMessage_db_seq [simp]: "getMessage i (db_seq_update f d) = getMessage i d"
  by (simp add: getMessage_def)

lemma seal_loop_ids:
  "seal_loop C m ctx clock p stages = Inr ss \<Longrightarrow>
    map s_sealId ss = map (\<lambda>t. e_id m @ ''-'' @ stage_str t @ ''-'' @ clock t) stages \<and> (\<forall>s\<in>set ss. s_messageId s = e_id m)"
proof (induction stages arbitrary: p ss)
  case (Cons t rest)
  then show ?case by (auto simp: Let_def split: if_splits option.splits sum.splits)
qed simp

lemma created_ids:
  assumes "createSealChain C m ctx clock start = Inr ss"
  shows "distinct (map s_sealId ss)" "\<forall>s\<in>set ss. s_messageId s = e_id m"
  using seal_loop_ids [OF assms [unfolded createSealChain_def]] by (simp_all add: stageOrder_def)

lemma indexable_Done:
  assumes "indexable i d"
  shows "\<exists>d'. indexArchivedMessage i t d = Done () d'"
  using assms by (auto simp: indexable_def indexArchivedMessage_def Let_def split: option.splits)

lemma archive_Done:
  assumes "logged C i Authorized (pp_db p)" "e_id m = i" "i \<in> message_ids (pp_db p)" "indexable i (pp_db p)"
  obtains p' where "appendNextTransition C clock m Authorized Archived reason p = Done () p'"
proof -
  let ?t = "transition_for clock m Authorized Archived (length (getTransitions i (pp_db p)) + 1) reason"
  have "t_sequenceNo ?t \<notin> tr_sequenceNo ` set (rows_of i (pp_db p))"
    using transition_fresh [of i "pp_db p"] assms(1) by (simp add: transition_for_def getTransitions_log logged_def)
  moreover have "indexable i (update_message i (\<lambda>r. r\<lparr>mr_archived_at := Some x\<rparr>)
      (use_id ''transitions'' ((pp_db p)\<lparr>db_transitions := y\<rparr>)))" for x y
    using assms(4) by (subst indexable_cong [of _ _ "pp_db p"]) (simp_all add: use_id_def)
  note indexable_Done [OF this]
  ultimately have "\<exists>d'. appendTransition (sha256 C) ?t (pp_db p) = Done () d'"
    using assms(1-3) by (auto simp: appendTransition_def transition_for_def Let_def logged_def state_of_log_def)
  then show thesis
    using that by (auto simp: appendNextTransition_def Let_def on_db_def assms(2))
qed

lemma appendSeal_Done:
  assumes "s_sealId x \<notin> s_sealId ` set (db_seals d)" "s_messageId x \<in> message_ids d"
  obtains d' where "appendSeal x d = Done () d'" "db_seals d' = db_seals d @ [x]" "message_ids d' = message_ids d"
    "getMessage i d' = getMessage i d"
proof (rule that)
  let ?d1 = "d\<lparr>db_seals := db_seals d @ [x]\<rparr>"
  let ?d2 = "update_message (s_messageId x) (\<lambda>r. r\<lparr>mr_seal_chain := getSeals (s_messageId x) ?d1\<rparr>) ?d1"
  show "appendSeal x d = Done () ?d2" using assms by (simp add: appendSeal_def Let_def)
  show "db_seals ?d2 = db_seals d @ [x]" "message_ids ?d2 = message_ids d" by (simp_all add: frame_simps)
  have "getMessage i ?d1 = getMessage i d" by (simp add: getMessage_def)
  then show "getMessage i ?d2 = getMessage i d" by simp
qed

lemma append_seals_Done:
  assumes "logged C i s (pp_db p)" "i \<in> message_ids (pp_db p)" "indexable i (pp_db p)"
    "distinct (map s_sealId ss)" "\<forall>x\<in>set ss. s_messageId x = i" "s_sealId ` set ss \<inter> s_sealId ` set (db_seals (pp_db p)) = {}"
  shows "\<exists>p'. append_seals ss p = Done () p' \<and> logged C i s (pp_db p') \<and> i \<in> message_ids (pp_db p')
    \<and> indexable i (pp_db p')"
  using assms
proof (induction ss arbitrary: p)
  case (Cons x ss)
  let ?d = "pp_db p"
  obtain d' where d': "appendSeal x ?d = Done () d'" "db_seals d' = db_seals ?d @ [x]" "message_ids d' = message_ids ?d"
    "getMessage i d' = getMessage i ?d"
    using appendSeal_Done [of x ?d] Cons.prems by auto
  have ob: "on_db (appendSeal x) p = Done () (p\<lparr>pp_db := d'\<rparr>)" using d'(1) by (simp add: on_db_def)
  have l: "logged C i s d'" using on_db_appendSeal [OF Cons.prems(1), of x] ob by simp
  have ix: "indexable i d'" using Cons.prems(3) indexable_cong [OF d'(4,3)] by simp
  have "\<exists>p'. append_seals ss (p\<lparr>pp_db := d'\<rparr>) = Done () p' \<and> logged C i s (pp_db p')
      \<and> i \<in> message_ids (pp_db p') \<and> indexable i (pp_db p')"
    by (rule Cons.IH) (use Cons.prems l ix d' in auto)
  with ob show ?case by simp
qed simp

lemma seal_and_archive_Done:
  assumes "stage C i d0 s p" "canTransition s Authorized" "e_id m = i" "i \<in> message_ids d0" "indexable i d0"
    "sealable C ctx clock m d0"
  shows "\<exists>r p'. seal_or_reject C ctx clock i m p = Done r p' \<and> pr_finalState r = Archived \<and> pr_reason r = None"
proof -
  have l: "logged C i s (pp_db p)" using assms(1) by (simp add: stage_def)
  have fr: "message_ids (pp_db p) = message_ids d0" "getMessage i (pp_db p) = getMessage i d0" "db_seals (pp_db p) = db_seals d0"
    using assms(1) by (auto simp: stage_def message_ids_def getMessage_def)
  obtain ss where ss: "createSealChain C m ctx (k_seal clock) ''GENESIS'' = Inr ss"
    "verifySealChain C m ss ctx (k_verify_ms clock) = Some True" "s_sealId ` set ss \<inter> s_sealId ` set (db_seals d0) = {}"
    using assms(6) by (auto simp: sealable_def split: sum.splits)
  obtain p1 where p1: "append_seals ss p = Done () p1" "logged C i s (pp_db p1)" "i \<in> message_ids (pp_db p1)"
    "indexable i (pp_db p1)"
    using append_seals_Done [OF l, of ss] created_ids [OF ss(1)] assms(3-5) ss(3) fr
      indexable_cong [OF fr(2,1)] by auto
  then have cur: "current_state (e_id m) p1 = s"
    using assms(3) by (simp add: logged_def current_state_def state_of_log_def)
  obtain p2 where p2: "appendNextTransition C clock m s Authorized None p1 = Done () p2" "appended C i Authorized p1 p2"
    using step_Done [OF p1(2) assms(3,2)] p1(3) by auto
  from p2(2) obtain ts n where "pp_db p2 = (pp_db p1)\<lparr>db_transitions := ts, db_seq := n\<rparr>" by (auto simp: appended_def)
  then have "i \<in> message_ids (pp_db p2)" "indexable i (pp_db p2)"
    using p1(3,4) by (simp_all add: indexable_frame)
  moreover have "logged C i Authorized (pp_db p2)" using p2(2) by (simp add: appended_def)
  ultimately obtain p3 where "appendNextTransition C clock m Authorized Archived None p2 = Done () p3"
    using archive_Done assms(3) by metis
  with ss p1(1) cur p2(1) show ?thesis
    by (simp add: seal_or_reject_def applySealsAndArchive_def)
qed

section \<open>The whole run\<close>

definition archives :: "(pipe, pipeline_result) out \<Rightarrow> bool" where
  "archives r = (case r of Done x p \<Rightarrow> pr_finalState x = Archived | Fail e p \<Rightarrow> False)"

lemma approved_archives:
  assumes st: "stage C i (pp_db p0) Validated p" and m: "e_id m = i" "lawSnapshotAt m = k_snapshot clock"
    and h: "heard_so_far (pp_resolver p0) (pp_db p0) (k_snapshot clock) [(Routing, now)] (pp_resolver p)"
    and ok: "approved opts dt clock i m p0" "i \<in> message_ids (pp_db p0)" "indexable i (pp_db p0)" "sealable C ctx clock m (pp_db p0)"
  shows "archives (process_validated C dt ctx opts clock i m p)"
proof -
  let ?heard = "law_heard (pp_resolver p0) (pp_db p0) (k_snapshot clock)"
  let ?k = "k_law_ms clock"
  obtain r a c pr where A: "shenfu m = Inr ()" "shenfuSchema dt clock m (pp_db p0) = Inr ()"
    "law_text AppointmentLawContentSchema (?heard [?k 1] Appointment) = Some r" "may_review m r = Inr ()"
    "law_text ClassificationLawContentSchema (?heard [?k 2] Classification) = Some c" "clearance_ok m c = Inr ()"
    "law_text AppointmentLawContentSchema (?heard [?k 3, ?k 1] Appointment) = Some a" "may_authorize m a = Inr ()"
    "law_text ProtocolLawContentSchema (?heard [?k 4] Protocol) = Some pr"
    "acks_of m pr \<le> 1 \<or> acks_of m pr \<le> length (getOfficeApprovals i (pp_db p0))" "\<not> pbft_pending opts m i"
    using ok(1) unfolding approved_def Let_def list.map by blast
  have eq: "shenfuSchema dt clock m (pp_db p) = shenfuSchema dt clock m (pp_db p0)"
    using st by (auto simp: stage_def)
  obtain p1 where p1: "reviewByLaw clock m p = Done (Inr ()) p1" "stage C i (pp_db p0) Validated p1"
    "heard_so_far (pp_resolver p0) (pp_db p0) (k_snapshot clock) [(Appointment, ?k 1), (Routing, now)] (pp_resolver p1)"
    unfolding reviewByLaw_def
    using gate_pass [OF st m(2) h, of AppointmentLawContentSchema "?k 1" Appointment r "may_review m" "()"] A(3,4) by auto
  obtain p2 where p2: "classificationCheck clock m p1 = Done (Inr ()) p2" "stage C i (pp_db p0) Validated p2"
    "heard_so_far (pp_resolver p0) (pp_db p0) (k_snapshot clock) [(Classification, ?k 2), (Appointment, ?k 1), (Routing, now)] (pp_resolver p2)"
    unfolding classificationCheck_def
    using gate_pass [OF p1(2) m(2) p1(3), of ClassificationLawContentSchema "?k 2" Classification c "clearance_ok m" "()"] A(5,6) by auto
  obtain p3 where p3: "appendNextTransition C clock m Validated Reviewed None p2 = Done () p3"
    "stage C i (pp_db p0) Reviewed p3" "pp_resolver p3 = pp_resolver p2"
    using stage_step_Done [OF p2(2) m(1), of Reviewed] ok(2) by auto
  obtain p4 where p4: "authorizeByLaw clock m p3 = Done (Inr ()) p4" "stage C i (pp_db p0) Reviewed p4"
    "heard_so_far (pp_resolver p0) (pp_db p0) (k_snapshot clock)
      [(Appointment, ?k 3), (Classification, ?k 2), (Appointment, ?k 1), (Routing, now)] (pp_resolver p4)"
    unfolding authorizeByLaw_def
    using gate_pass [OF p3(2) m(2) p2(3) [folded p3(3)], of AppointmentLawContentSchema "?k 3" Appointment a "may_authorize m" "()"]
      A(7,8) by auto
  obtain p5 where p5: "requiredAcksByLaw clock m p4 = Done (Inr (acks_of m pr)) p5" "stage C i (pp_db p0) Reviewed p5"
    unfolding requiredAcksByLaw_def
    using gate_pass [OF p4(2) m(2) p4(3), of ProtocolLawContentSchema "?k 4" Protocol pr "\<lambda>content. Inr (acks_of m content)" "acks_of m pr"] A(9) by auto
  have "getOfficeApprovals i (pp_db p5) = getOfficeApprovals i (pp_db p0)" using p5(2) by (auto simp: stage_def)
  then have "process_acked C ctx opts clock i m (Inr (acks_of m pr)) p5 = seal_or_reject C ctx clock i m p5"
    using A(10,11) by (auto simp: process_acked_def)
  moreover have "archives (seal_or_reject C ctx clock i m p5)"
    using seal_and_archive_Done [OF p5(2) _ m(1) ok(2-4)] by (auto simp: archives_def)
  ultimately show ?thesis
    using A(1,2) p1 p2 p3 p4 p5
    by (simp add: process_validated_def eq process_reviewed_def process_classified_def process_authorized_def)
qed

lemma docket_archives:
  assumes st: "stage C i (pp_db p) Pending p" and at': "k_snapshot clock \<noteq> []"
    and m: "getMessage i (pp_db p) = Some message" "e_id message = i"
    and routing: "law_text RoutingLawContentSchema
        (law_heard (pp_resolver p) (pp_db p) (k_snapshot clock) [k_law_ms clock 0] Routing) = Some routing"
      "route_message (withLawSnapshot (caoni message) (k_snapshot clock)) routing = Inr m'"
    and ok: "approved opts dt clock i m' p" "i \<in> message_ids (pp_db p)" "indexable i (pp_db p)"
      "sealable C ctx clock m' (pp_db p)"
  shows "archives (processDocketMessage C dt ctx opts clock i p)"
proof -
  let ?n = "withLawSnapshot (caoni message) (k_snapshot clock)"
  have n: "lawSnapshotAt ?n = k_snapshot clock" "e_id ?n = i" using at' m(2) by simp_all
  obtain p1 where p1: "applyRoutingLaw clock ?n p = Done (Inr m') p1" "stage C i (pp_db p) Pending p1"
    "heard_so_far (pp_resolver p) (pp_db p) (k_snapshot clock) [(Routing, k_law_ms clock 0)] (pp_resolver p1)"
    unfolding applyRoutingLaw_def
    using gate_pass [OF st n(1) heard_at_start, of RoutingLawContentSchema "k_law_ms clock 0" Routing routing "route_message ?n" m']
      routing by auto
  from route_keeps [OF routing(2)] n have m': "e_id m' = i" "lawSnapshotAt m' = k_snapshot clock" by simp_all
  obtain p2 where p2: "appendNextTransition C clock m' Pending Validated None p1 = Done () p2"
    "stage C i (pp_db p) Validated p2" "pp_resolver p2 = pp_resolver p1"
    using stage_step_Done [OF p1(2) m'(1), of Validated] ok(2) by auto
  from approved_archives [OF p2(2) m' p1(3) [folded p2(3)] ok] p1(1) p2(1) show ?thesis
    by (simp add: processDocketMessage_def m(1) Let_def)
qed

text \<open>Sealing succeeds with well-formed keys, enough signatures and clocks in the window of the token.\<close>

lemma sealable_ok:
  assumes "crypto_law C" "keys_ok C ctx" "provenance_ok (c_provenance ctx)" "required_signatures m ctx \<le> provided_signatures ctx"
    "unix_seconds (k_seal clock Shenfu3) = Some iat" "in_window iat (k_verify_ms clock)" "db_seals d = []"
  shows "sealable C ctx clock m d"
proof -
  obtain ss where ss: "createSealChain C m ctx (k_seal clock) ''GENESIS'' = Inr ss"
    using seal_loop_total [OF assms(1,2)] assms(4) unfolding createSealChain_def by blast
  have "length ss = 6" using length_created [OF ss [unfolded createSealChain_def]] by (simp add: stageOrder_def)
  moreover have "verify_loop C m ctx (k_verify_ms clock) ''GENESIS'' stageOrder ss = Some True"
    using verify_created [where clock = "k_seal clock", OF assms(1-3,5) ss [unfolded createSealChain_def]] assms(6) by simp
  ultimately show ?thesis using ss assms(7) by (simp add: sealable_def verifySealChain_def)
qed

lemma finalize_archives:
  assumes st: "stage C i (pp_db p) s p" "canTransition s Authorized" and at': "k_snapshot clock \<noteq> []"
    and m: "getMessage i (pp_db p) = Some message" "e_id message = i"
    and pr: "law_text ProtocolLawContentSchema
        (law_heard (pp_resolver p) (pp_db p) (k_snapshot clock) [k_law_ms clock 4] Protocol) = Some protocol"
    and n: "m = withLawSnapshot message (k_snapshot clock)"
      "acks_of m protocol \<le> 1 \<or> acks_of m protocol \<le> length (getOfficeApprovals i (pp_db p))" "\<not> pbft_pending opts m i"
    and ok: "i \<in> message_ids (pp_db p)" "indexable i (pp_db p)" "sealable C ctx clock m (pp_db p)"
  shows "archives (finalizePendingMessage C ctx opts clock i p)"
proof -
  have n': "lawSnapshotAt m = k_snapshot clock" "e_id m = i" using n(1) at' m(2) by simp_all
  obtain p1 where p1: "requiredAcksByLaw clock m p = Done (Inr (acks_of m protocol)) p1" "stage C i (pp_db p) s p1"
    unfolding requiredAcksByLaw_def
    using gate_pass [OF st(1) n'(1) heard_at_start, of ProtocolLawContentSchema "k_law_ms clock 4" Protocol protocol
      "\<lambda>content. Inr (acks_of m content)" "acks_of m protocol"] pr by auto
  have "getOfficeApprovals i (pp_db p1) = getOfficeApprovals i (pp_db p)" using p1(2) by (auto simp: stage_def)
  then have "finalizePendingMessage C ctx opts clock i p = seal_or_reject C ctx clock i m p1"
    using n(2,3) p1(1) by (auto simp: finalizePendingMessage_def m(1) n(1) [symmetric] Let_def)
  with seal_and_archive_Done [OF p1(2) st(2) n'(2) ok] show ?thesis by (auto simp: archives_def)
qed

end
