(* ===== verification/Pipeline_Correct.thy ===== *)
theory Pipeline_Correct
  imports Pipeline_Archive
begin

text \<open>
  What a run of the pipeline does: the state of its log whatever happens, the laws a message passed when it is
  archived, that a message that passes them is archived, and what finalising a pending message skips.
\<close>

text \<open>A message that waits in state \<open>pending\<close>, in an archive that meets its invariant. Nothing is asked of the law cache.\<close>

definition docketed :: "crypto \<Rightarrow> pipe_clock \<Rightarrow> string \<Rightarrow> envelope \<Rightarrow> pipe \<Rightarrow> bool" where
  "docketed C clock i message p \<longleftrightarrow> logged C i Pending (pp_db p) \<and> getMessage i (pp_db p) = Some message
     \<and> k_snapshot clock \<noteq> []"

lemma docketed_stage:
  assumes "docketed C clock i message p"
  shows "stage C i (pp_db p) Pending p" "e_id message = i" "k_snapshot clock \<noteq> []"
    "getMessage i (pp_db p) = Some message" "i \<in> message_ids (pp_db p)"
proof -
  have m: "getMessage i (pp_db p) = Some message" and inv: "archive_inv (sha256 C) (pp_db p)"
    using assms by (simp_all add: docketed_def logged_def)
  have "\<exists>ts n. pp_db p = (pp_db p)\<lparr>db_transitions := ts, db_seq := n\<rparr>"
    by (rule exI [of _ "db_transitions (pp_db p)"], rule exI [of _ "db_seq (pp_db p)"]) simp
  then show "stage C i (pp_db p) Pending p" using assms by (simp add: stage_def docketed_def)
  show "e_id message = i" using inv m by (auto simp: archive_inv_def getMessage_def dest!: find_row_Some_in)
  show "k_snapshot clock \<noteq> []" "getMessage i (pp_db p) = Some message" using assms by (simp_all add: docketed_def)
  show "i \<in> message_ids (pp_db p)"
    using m by (auto simp: getMessage_def message_ids_def dest!: find_row_Some_in)
qed

lemma docketed_outcome:
  assumes "docketed C clock i message p"
  shows "run_ends C i (cleared opts dt clock i (withLawSnapshot (caoni message) (k_snapshot clock)) p)
    (processDocketMessage C dt ctx opts clock i p)"
  using docketed_stage [OF assms] by (intro processDocketMessage_outcome) simp_all

section \<open>The court\<close>

lemma docketed_fresh:
  assumes "archive_inv (sha256 C) (pp_db p)" "db_transitions (pp_db p) = []" "getMessage i (pp_db p) = Some message"
    "k_snapshot clock \<noteq> []"
  shows "docketed C clock i message p"
proof -
  have l: "log_of i (pp_db p) = []" using assms(2) by (simp add: log_of_def rows_of_def)
  then have "logged C i Pending (pp_db p)"
    using assms(1) state_of_log_end [OF assms(1), of i]
    by (simp add: logged_def numbered_def getTransitions_log end_state_def)
  with assms(3,4) show ?thesis by (simp add: docketed_def)
qed

lemma court_inv: "archive_inv (sha256 court_crypto) (pp_db (court ''memo''))"
  unfolding court_crypto_def crypto.simps by code_simp

lemma court_docketed: "docketed court_crypto court_clock ''m1'' (court_memo ''memo'') (court ''memo'')"
proof (rule docketed_fresh [OF court_inv])
  show "getMessage ''m1'' (pp_db (court ''memo'')) = Some (court_memo ''memo'')"
    by (simp add: court_def getMessage_def court_message_def message_row_of_def court_memo_def)
qed (simp_all add: court_def empty_db_def court_clock_def)

definition court_routed :: envelope where
  "court_routed = withRouting (withLawSnapshot (caoni (court_memo ''memo'')) (k_snapshot court_clock))
     [(''destination'', JArr [JStr ''archives''])]"

definition admin_law :: appointment_law where
  "admin_law = [(''admin'', \<lparr>ar_permissions = [''review'', ''authorize''], ar_allowed_genres = [''*''], ar_max_pending = None\<rparr>)]"

definition routing_law_of_court :: routing_law where
  "routing_law_of_court = \<lparr>rl_table = [(''memo'', [''archives''])], rl_broadcast_policy = ''hierarchical''\<rparr>"

definition classes_of_court :: classification_law where
  "classes_of_court = \<lparr>cl_levels = [''public''], cl_strict = True, cl_compartmentalization = False\<rparr>"

lemma court_laws:
  "law_text RoutingLawContentSchema (getCurrentLaw Routing (k_snapshot court_clock) (pp_db (court ''memo''))) = Some routing_law_of_court"
  "law_text AppointmentLawContentSchema (getCurrentLaw Appointment (k_snapshot court_clock) (pp_db (court ''memo''))) = Some admin_law"
  "law_text ClassificationLawContentSchema (getCurrentLaw Classification (k_snapshot court_clock) (pp_db (court ''memo''))) = Some classes_of_court"
  "law_text ProtocolLawContentSchema (getCurrentLaw Protocol (k_snapshot court_clock) (pp_db (court ''memo''))) = Some [(''petition'', 2)]"
  by code_simp+

lemma fresh_heard: "law_heard (new_LawResolver m ttl ts) d atIso nows t = getCurrentLaw t atIso d"
  by (simp add: law_heard_def new_LawResolver_def)

lemma court_heard: "law_heard (pp_resolver (court g)) d atIso nows t = getCurrentLaw t atIso d"
  by (simp add: court_def fresh_heard)

lemma court_route:
  "route_message (withLawSnapshot (caoni (court_memo ''memo'')) (k_snapshot court_clock)) routing_law_of_court = Inr court_routed"
  by code_simp

lemma court_gate_shenfu: "shenfu court_routed = Inr ()"
  by code_simp

lemma court_gate_schema: "shenfuSchema (\<lambda>_. True) court_clock court_routed (pp_db (court ''memo'')) = Inr ()"
  by code_simp

lemma court_gate_review: "may_review court_routed admin_law = Inr ()"
  by code_simp

lemma court_gate_authorize: "may_authorize court_routed admin_law = Inr ()"
  by code_simp

lemma court_gate_clearance: "clearance_ok court_routed classes_of_court = Inr ()"
  by code_simp

lemma court_gate_acks: "acks_of court_routed [(''petition'', 2)] = 1"
  by code_simp

lemma court_gate_pbft: "\<not> pbft_pending court_options court_routed ''m1''"
  by code_simp

lemmas court_gates = court_gate_shenfu court_gate_schema court_gate_review court_gate_authorize
  court_gate_clearance court_gate_acks court_gate_pbft

lemma court_approved: "approved court_options (\<lambda>_. True) court_clock ''m1'' court_routed (court ''memo'')"
  using court_gates court_laws unfolding approved_def court_heard Let_def by fastforce

lemma court_routing:
  "law_text RoutingLawContentSchema (law_heard (pp_resolver (court ''memo'')) (pp_db (court ''memo'')) (k_snapshot court_clock)
    [k_law_ms court_clock 0] Routing) = Some routing_law_of_court"
  unfolding court_heard by (rule court_laws(1))

lemma court_indexable: "indexable ''m1'' (pp_db (court ''memo''))"
proof -
  have "getMessage ''m1'' (pp_db (court ''memo'')) = Some (court_memo ''memo'')"
    using court_docketed by (simp add: docketed_def)
  then show ?thesis by (simp add: indexable_def court_memo_def superseded_by_of_def obj_get_def fk_ok_def)
qed

lemma court_crypto_law: "crypto_law court_crypto"
  by (simp add: crypto_law_def court_crypto_def court_digest_def is_hex_def hex_val_def)

lemma court_sealable:
  assumes "e_genre m \<in> {''memo'', ''petition''}" "db_seals d = []"
  shows "sealable court_crypto demo_context court_clock m d"
proof (rule sealable_ok [OF court_crypto_law])
  show "keys_ok court_crypto demo_context"
    by (simp add: keys_ok_def demo_context_def is_hex_def hex_val_def)
  show "provenance_ok (c_provenance demo_context)" by (simp add: provenance_ok_def demo_context_def)
  show "unix_seconds (k_seal court_clock Shenfu3) = Some 1" by code_simp
  show "in_window 1 (k_verify_ms court_clock)" by (simp add: in_window_def court_clock_def)
  show "db_seals d = []" by (rule assms)
  have "required_signatures m demo_context = 1" if "e_genre m = g" "g \<in> {''memo'', ''petition''}" for g
    using that by (auto simp: required_signatures_def resolveRequiredImperialSignatures_def DEFAULT_THRESHOLD_POLICY_def
        demo_context_def obj_spread_def)
  with assms(1) show "required_signatures m demo_context \<le> provided_signatures demo_context"
    by (simp add: provided_signatures_def demo_context_def)
qed

lemma court_no_seals: "db_seals (pp_db (court ''memo'')) = []"
  by (simp add: court_def empty_db_def)

lemma court_archives:
  "archives (processDocketMessage court_crypto (\<lambda>_. True) demo_context court_options court_clock ''m1'' (court ''memo''))"
proof -
  note d = docketed_stage [OF court_docketed]
  have "e_genre court_routed \<in> {''memo'', ''petition''}" by (simp add: court_routed_def withLawSnapshot_def caoni_def court_memo_def)
  from docket_archives [OF d(1,3,4,2) court_routing court_route court_approved d(5) court_indexable court_sealable [OF this court_no_seals]]
  show ?thesis .
qed

section \<open>Properties\<close>

text \<open>C3: Whatever happens in a run, from the docket to any return or throw, the log of the message stays a legal
  sequence of transitions from \<open>pending\<close>, numbered 1, 2, 3 and so on, and the archive keeps its invariant; when the run
  returns, the final state of its result is the state of the message in the archive.\<close>

theorem processDocketMessage_keeps_log:
  assumes "docketed C clock i message p"
  shows "case processDocketMessage C dt ctx opts clock i p of
      Done r p' \<Rightarrow> logged C i (pr_finalState r) (pp_db p')
    | Fail e p' \<Rightarrow> (\<exists>s. logged C i s (pp_db p'))"
  using docketed_outcome [OF assms, of opts dt ctx]
  by (auto simp: outcome_def logged_any_def split: out.splits)

theorem processDocketMessage_keeps_log_witness:
  "\<exists>r p'. processDocketMessage court_crypto (\<lambda>_. True) demo_context court_options court_clock ''m1'' (court ''memo'') = Done r p'
    \<and> logged court_crypto ''m1'' Archived (pp_db p')"
  using court_archives processDocketMessage_keeps_log [OF court_docketed, of "\<lambda>_. True" demo_context court_options]
  by (auto simp: archives_def split: out.splits)





text \<open>What the cache costs: a law that was replaced is still obeyed until its entry expires. The archive of \<open>court\<close> asks
  two approvals of a petition; with the earlier protocol law still in the cache the petition is archived without any.\<close>

definition stale_court :: pipe where
  "stale_court = (court ''petition'')\<lparr>pp_resolver := (new_LawResolver None None None)\<lparr>lr_cache := [Protocol \<mapsto> (60000, Some
     \<lparr>rw_messageId = ''old'', rw_lawType = Protocol, rw_version = ''0.9.0'', rw_content = JObj [(''required_acks_by_genre'', JObj [])],
       rw_precedence = 0, rw_effectiveDate = ''1970-01-01'', rw_sealedAt = ''1970-01-01''\<rparr>)]\<rparr>\<rparr>"

lemma stale_court_heard:
  "t \<noteq> Protocol \<Longrightarrow> law_heard (pp_resolver stale_court) (pp_db (court ''petition'')) at' nows t = getCurrentLaw t at' (pp_db (court ''petition''))"
  "law_text ProtocolLawContentSchema (law_heard (pp_resolver stale_court) (pp_db (court ''petition'')) at' [k_law_ms court_clock 4] Protocol) = Some []"
proof -
  show "t \<noteq> Protocol \<Longrightarrow> law_heard (pp_resolver stale_court) (pp_db (court ''petition'')) at' nows t = getCurrentLaw t at' (pp_db (court ''petition''))"
    by (simp add: stale_court_def law_heard_def new_LawResolver_def)
  have "ProtocolLawContentSchema (JObj [(''required_acks_by_genre'', JObj [])]) = Some []" by code_simp
  then show "law_text ProtocolLawContentSchema (law_heard (pp_resolver stale_court) (pp_db (court ''petition'')) at' [k_law_ms court_clock 4] Protocol) = Some []"
    by (simp add: stale_court_def law_heard_def law_text_def court_clock_def)
qed

definition stale_petition :: envelope where
  "stale_petition = withLawSnapshot (caoni (court_memo ''petition'')) (k_snapshot court_clock)"

lemma petition_laws:
  "law_text RoutingLawContentSchema (getCurrentLaw Routing (k_snapshot court_clock) (pp_db (court ''petition''))) = Some routing_law_of_court"
  "law_text AppointmentLawContentSchema (getCurrentLaw Appointment (k_snapshot court_clock) (pp_db (court ''petition''))) = Some admin_law"
  "law_text ClassificationLawContentSchema (getCurrentLaw Classification (k_snapshot court_clock) (pp_db (court ''petition''))) = Some classes_of_court"
  "law_text ProtocolLawContentSchema (getCurrentLaw Protocol (k_snapshot court_clock) (pp_db (court ''petition''))) = Some [(''petition'', 2)]"
  by code_simp+

lemma petition_gates:
  "route_message stale_petition routing_law_of_court = Inr stale_petition"
  "shenfu stale_petition = Inr ()"
  "shenfuSchema (\<lambda>_. True) court_clock stale_petition (pp_db (court ''petition'')) = Inr ()"
  "may_review stale_petition admin_law = Inr ()" "may_authorize stale_petition admin_law = Inr ()"
  "clearance_ok stale_petition classes_of_court = Inr ()" "acks_of stale_petition [] = 1"
  "acks_of stale_petition [(''petition'', 2)] = 2" "\<not> pbft_pending court_options stale_petition ''m1''"
  by code_simp+

lemma petition_docketed: "docketed court_crypto court_clock ''m1'' (court_memo ''petition'') (court ''petition'')"
proof (rule docketed_fresh)
  show "archive_inv (sha256 court_crypto) (pp_db (court ''petition''))"
    unfolding court_crypto_def crypto.simps by code_simp
  show "getMessage ''m1'' (pp_db (court ''petition'')) = Some (court_memo ''petition'')"
    by (simp add: court_def getMessage_def court_message_def message_row_of_def court_memo_def)
qed (simp_all add: court_def empty_db_def court_clock_def)

theorem stale_law_archives:
  "law_text ProtocolLawContentSchema (getCurrentLaw Protocol (k_snapshot court_clock) (pp_db stale_court)) = Some [(''petition'', 2)]
   \<and> acks_of stale_petition [(''petition'', 2)] = 2 \<and> getOfficeApprovals ''m1'' (pp_db stale_court) = []
   \<and> archives (processDocketMessage court_crypto (\<lambda>_. True) demo_context court_options court_clock ''m1'' stale_court)"
proof -
  have db: "pp_db stale_court = pp_db (court ''petition'')" by (simp add: stale_court_def)
  note d = docketed_stage [OF petition_docketed]
  have ap: "approved court_options (\<lambda>_. True) court_clock ''m1'' stale_petition stale_court"
    unfolding approved_def Let_def list.map
    by (rule exI [of _ admin_law], rule exI [of _ admin_law], rule exI [of _ classes_of_court], rule exI [of _ "[]"])
      (simp add: stale_court_heard petition_laws petition_gates db)
  have ix: "indexable ''m1'' (pp_db stale_court)"
    using d(4) by (simp add: db indexable_def court_memo_def superseded_by_of_def obj_get_def fk_ok_def)
  have seal: "sealable court_crypto demo_context court_clock stale_petition (pp_db stale_court)"
    by (rule court_sealable) (simp_all add: stale_petition_def withLawSnapshot_def caoni_def court_memo_def db court_def empty_db_def)
  have "archives (processDocketMessage court_crypto (\<lambda>_. True) demo_context court_options court_clock ''m1'' stale_court)"
    by (rule docket_archives [where message = "court_memo ''petition''", OF _ _ _ _ _ petition_gates(1) [unfolded stale_petition_def] ap [unfolded stale_petition_def]])
      (use d ix seal in \<open>simp_all add: stale_court_heard petition_laws db stale_petition_def stage_def\<close>)
  moreover have "getOfficeApprovals ''m1'' (pp_db stale_court) = []"
    by (simp add: db court_def empty_db_def getOfficeApprovals_def)
  ultimately show ?thesis by (simp add: db petition_laws petition_gates)
qed

text \<open>Finalising skips the review: a pending message is archived by \<open>finalizePendingMessage\<close> as soon as the protocol
  law asks for no more approvals than it has and it can be sealed and indexed. The routing, appointment and
  classification laws, the rules of the hierarchy and the schema of the genre are not consulted.\<close>

theorem finalize_skips_review:
  assumes "docketed C clock i message p"
    and "law_text ProtocolLawContentSchema (law_heard (pp_resolver p) (pp_db p) (k_snapshot clock) [k_law_ms clock 4] Protocol) = Some protocol"
    and "acks_of (withLawSnapshot message (k_snapshot clock)) protocol \<le> max 1 (length (getOfficeApprovals i (pp_db p)))"
    and "\<not> pbft_pending opts (withLawSnapshot message (k_snapshot clock)) i"
    and "indexable i (pp_db p)" "sealable C ctx clock (withLawSnapshot message (k_snapshot clock)) (pp_db p)"
  shows "archives (finalizePendingMessage C ctx opts clock i p)"
  using docketed_stage [OF assms(1)] assms(2-6) by (intro finalize_archives [OF _ _ _ _ _ assms(2) refl]) auto

text \<open>The same memo from a role that no law knows, where only the protocol law exists.\<close>

definition outsider_memo :: envelope where
  "outsider_memo = (court_memo ''memo'')\<lparr>e_actor_role := ''nobody''\<rparr>"

definition outsider :: pipe where
  "outsider = \<lparr>pp_db = empty_db\<lparr>
       db_messages := map court_message [outsider_memo, court_law ''protocol'' [(''required_acks_by_genre'', JObj [])]],
       db_edicts := [court_edict ''protocol'' [(''required_acks_by_genre'', JObj [])]]\<rparr>,
     pp_resolver = new_LawResolver None None None\<rparr>"

lemma outsider_inv: "archive_inv (sha256 court_crypto) (pp_db outsider)"
  unfolding court_crypto_def crypto.simps by code_simp

lemma outsider_message: "getMessage ''m1'' (pp_db outsider) = Some outsider_memo"
  by (simp add: outsider_def getMessage_def court_message_def message_row_of_def outsider_memo_def court_memo_def)

lemma outsider_law:
  "law_text ProtocolLawContentSchema (getCurrentLaw Protocol (k_snapshot court_clock) (pp_db outsider)) = Some []"
  "law_text AppointmentLawContentSchema (getCurrentLaw Appointment (k_snapshot court_clock) (pp_db outsider)) = None"
  by code_simp+

theorem finalize_skips_review_witness:
  "law_text AppointmentLawContentSchema (getCurrentLaw Appointment (k_snapshot court_clock) (pp_db outsider)) = None
    \<and> archives (finalizePendingMessage court_crypto demo_context court_options court_clock ''m1'' outsider)"
proof -
  let ?m = "withLawSnapshot outsider_memo (k_snapshot court_clock)"
  have d: "docketed court_crypto court_clock ''m1'' outsider_memo outsider"
    by (rule docketed_fresh [OF outsider_inv _ outsider_message]) (simp_all add: outsider_def empty_db_def court_clock_def)
  have "acks_of ?m [] = 1" by code_simp
  then have acks: "acks_of ?m [] \<le> max 1 (length (getOfficeApprovals ''m1'' (pp_db outsider)))" by simp
  have pbft: "\<not> pbft_pending court_options ?m ''m1''" by (simp add: pbft_pending_def court_options_def)
  have ix: "indexable ''m1'' (pp_db outsider)"
    using outsider_message by (simp add: indexable_def outsider_memo_def court_memo_def superseded_by_of_def obj_get_def fk_ok_def)
  have seal: "sealable court_crypto demo_context court_clock ?m (pp_db outsider)"
    by (rule court_sealable) (simp_all add: withLawSnapshot_def outsider_memo_def court_memo_def outsider_def empty_db_def)
  have law: "law_text ProtocolLawContentSchema (law_heard (pp_resolver outsider) (pp_db outsider) (k_snapshot court_clock)
      [k_law_ms court_clock 4] Protocol) = Some []"
    using outsider_law(1) by (simp add: outsider_def fresh_heard)
  from finalize_skips_review [OF d law acks pbft ix seal] outsider_law(2) show ?thesis by simp
qed

text \<open>A message that waits for approvals is left as it is: when the protocol law asks for more approvals than there are,
  finalising it answers \<open>pending\<close> and does not touch the archive; and when the law is missing or malformed it answers
  \<open>rejected\<close> although the archive still says \<open>pending\<close>.\<close>

theorem finalize_waits:
  assumes "docketed C clock i message p"
    and "case law_text ProtocolLawContentSchema (law_heard (pp_resolver p) (pp_db p) (k_snapshot clock) [k_law_ms clock 4] Protocol) of
        None \<Rightarrow> \<exists>v. law_heard (pp_resolver p) (pp_db p) (k_snapshot clock) [k_law_ms clock 4] Protocol = Inr v
      | Some protocol \<Rightarrow> max 1 (length (getOfficeApprovals i (pp_db p))) < acks_of (withLawSnapshot message (k_snapshot clock)) protocol"
  shows "\<exists>r p'. finalizePendingMessage C ctx opts clock i p = Done r p' \<and> pp_db p' = pp_db p
    \<and> pr_finalState r = (if law_text ProtocolLawContentSchema (law_heard (pp_resolver p) (pp_db p) (k_snapshot clock) [k_law_ms clock 4] Protocol) = None
        then Rejected else Pending)"
proof -
  note st = docketed_stage [OF assms(1)]
  let ?m = "withLawSnapshot message (k_snapshot clock)"
  have m: "lawSnapshotAt ?m = k_snapshot clock" using st(3) by simp
  show ?thesis
  proof (cases "law_text ProtocolLawContentSchema (law_heard (pp_resolver p) (pp_db p) (k_snapshot clock) [k_law_ms clock 4] Protocol)")
    case None
    with assms(2) obtain v where v: "law_heard (pp_resolver p) (pp_db p) (k_snapshot clock) [k_law_ms clock 4] Protocol = Inr v" by auto
    have "\<exists>e r. requiredAcksByLaw clock ?m p = Done (Inl e) (p\<lparr>pp_resolver := r\<rparr>)"
      using gate_refuses [OF st(1) m heard_at_start, of ProtocolLawContentSchema "k_law_ms clock 4" Protocol v] None v
      unfolding requiredAcksByLaw_def by simp
    then obtain e r where "requiredAcksByLaw clock ?m p = Done (Inl e) (p\<lparr>pp_resolver := r\<rparr>)" by blast
    then show ?thesis by (simp add: finalizePendingMessage_def st(4) Let_def None)
  next
    case (Some protocol)
    have "\<exists>r. requiredAcksByLaw clock ?m p = Done (Inr (acks_of ?m protocol)) (p\<lparr>pp_resolver := r\<rparr>)"
      using gate_pass_db [OF st(1) m heard_at_start, of ProtocolLawContentSchema "k_law_ms clock 4" Protocol protocol
        "\<lambda>content. Inr (acks_of ?m content)" "acks_of ?m protocol"] Some
      unfolding requiredAcksByLaw_def by auto
    then obtain r where "requiredAcksByLaw clock ?m p = Done (Inr (acks_of ?m protocol)) (p\<lparr>pp_resolver := r\<rparr>)" by blast
    then show ?thesis using assms(2) by (auto simp: finalizePendingMessage_def st(4) Let_def Some pending_result_def)
  qed
qed

theorem finalize_waits_witness:
  "\<exists>r p'. finalizePendingMessage court_crypto demo_context court_options court_clock ''m1'' (court ''petition'') = Done r p'
    \<and> pp_db p' = pp_db (court ''petition'') \<and> pr_finalState r = Pending"
proof -
  have law: "law_text ProtocolLawContentSchema (getCurrentLaw Protocol (k_snapshot court_clock) (pp_db (court ''petition''))) = Some [(''petition'', 2)]"
    by code_simp
  have "acks_of (withLawSnapshot (court_memo ''petition'') (k_snapshot court_clock)) [(''petition'', 2)] = 2" by code_simp
  moreover have "getOfficeApprovals ''m1'' (pp_db (court ''petition'')) = []"
    by (simp add: court_def empty_db_def getOfficeApprovals_def)
  ultimately show ?thesis
    using finalize_waits [OF petition_docketed, of demo_context court_options] by (simp add: court_heard law)
qed

end
