(* ===== verification/Crdt.thy ===== *)
theory Crdt
  imports Js_Json
begin

text \<open>
  \<open>packages/crdt/src/index.ts\<close>: vector clocks and the merge of concurrent edicts. A clock is a JavaScript object
  from node ids to counters. \<open>localeCompare\<close> depends on the collation of the host: \<open>leq a b\<close> stands for
  \<open>a.localeCompare(b) <= 0\<close>.
\<close>

section \<open>Vector clocks\<close>

type_synonym vector_clock = "(string \<times> int) list"

definition clock_at :: "vector_clock \<Rightarrow> string \<Rightarrow> int" where
  "clock_at c k = (case map_of c k of None \<Rightarrow> 0 | Some v \<Rightarrow> v)"

datatype vector_order = Dominates | Dominated | Concurrent | Equal

definition mergedClock :: "vector_clock \<Rightarrow> vector_clock \<Rightarrow> vector_clock" where
  "mergedClock a b = fold (\<lambda>(k, v) out. obj_put k (max (clock_at out k) v) out) b a"

definition compareVectorClock :: "vector_clock \<Rightarrow> vector_clock \<Rightarrow> vector_order" where
  "compareVectorClock a b =
     (let keys = map fst a @ map fst b;
          aGreater = list_ex (\<lambda>k. clock_at b k < clock_at a k) keys;
          bGreater = list_ex (\<lambda>k. clock_at a k < clock_at b k) keys
      in if \<not> aGreater \<and> \<not> bGreater then Equal
         else if aGreater \<and> \<not> bGreater then Dominates
         else if \<not> aGreater \<and> bGreater then Dominated
         else Concurrent)"

lemma clock_at_Nil [simp]: "clock_at [] k = 0"
  by (simp add: clock_at_def)

lemma clock_at_absent: "k \<notin> fst ` set c \<Longrightarrow> clock_at c k = 0"
  using map_of_eq_None_iff [of c k] by (simp add: clock_at_def)

lemma clock_at_put [simp]: "clock_at (obj_put k v c) j = (if j = k then v else clock_at c j)"
  by (simp add: clock_at_def)

text \<open>The comparison is the pointwise order of the counters.\<close>

lemma greater_iff:
  assumes "fst ` set a \<union> fst ` set b \<subseteq> set keys"
  shows "list_ex (\<lambda>k. clock_at b k < clock_at a k) keys \<longleftrightarrow> \<not> clock_at a \<le> clock_at b"
proof -
  have "k \<in> set keys" if "clock_at b k < clock_at a k" for k
  proof (rule ccontr)
    assume "k \<notin> set keys"
    then have "clock_at a k = 0" "clock_at b k = 0" using assms by (auto intro!: clock_at_absent)
    with that show False by simp
  qed
  then show ?thesis by (auto simp: list_ex_iff le_fun_def not_le)
qed

lemma compare_pointwise:
  "compareVectorClock a b =
    (if clock_at a = clock_at b then Equal
     else if clock_at b \<le> clock_at a then Dominates
     else if clock_at a \<le> clock_at b then Dominated
     else Concurrent)"
proof -
  let ?keys = "map fst a @ map fst b"
  have A: "list_ex (\<lambda>k. clock_at b k < clock_at a k) ?keys \<longleftrightarrow> \<not> clock_at a \<le> clock_at b"
    by (rule greater_iff) auto
  have B: "list_ex (\<lambda>k. clock_at a k < clock_at b k) ?keys \<longleftrightarrow> \<not> clock_at b \<le> clock_at a"
    by (rule greater_iff) auto
  show ?thesis
    unfolding compareVectorClock_def Let_def A B
    by (cases "clock_at a \<le> clock_at b"; cases "clock_at b \<le> clock_at a") (auto dest: antisym)
qed

lemma mergedClock_at:
  assumes "distinct (map fst b)"
  shows "clock_at (mergedClock a b) k = (if k \<in> fst ` set b then max (clock_at a k) (clock_at b k) else clock_at a k)"
  using assms
proof (induction b arbitrary: a)
  case (Cons p b)
  obtain j v where p: "p = (j, v)" by (cases p)
  let ?a = "obj_put j (max (clock_at a j) v) a"
  have step: "mergedClock a (p # b) = mergedClock ?a b" by (simp add: mergedClock_def p)
  have at': "clock_at (p # b) k = (if k = j then v else clock_at b k)" by (simp add: clock_at_def p)
  have "clock_at (mergedClock ?a b) k = (if k \<in> fst ` set b then max (clock_at ?a k) (clock_at b k) else clock_at ?a k)"
    using Cons by simp
  with Cons.prems show ?case unfolding step at' by (simp add: p)
qed (simp add: mergedClock_def)

section \<open>Edicts\<close>

record edict_like =
  el_id :: string
  el_nodeId :: string
  el_precedence :: int
  el_clock :: vector_clock
  el_payload :: obj

datatype merge_reason = Clock_dominance | By_precedence | By_node_id

record merge_result =
  mg_winner :: edict_like
  mg_mergedClock :: vector_clock
  mg_reason :: merge_reason

definition mergeEdict :: "(string \<Rightarrow> string \<Rightarrow> bool) \<Rightarrow> edict_like \<Rightarrow> edict_like \<Rightarrow> merge_result" where
  "mergeEdict leq a b =
     (let cmp = compareVectorClock (el_clock a) (el_clock b);
          clock = mergedClock (el_clock a) (el_clock b)
      in if cmp = Dominates then \<lparr>mg_winner = a, mg_mergedClock = clock, mg_reason = Clock_dominance\<rparr>
         else if cmp = Dominated then \<lparr>mg_winner = b, mg_mergedClock = clock, mg_reason = Clock_dominance\<rparr>
         else if el_precedence a \<noteq> el_precedence b
         then \<lparr>mg_winner = (if el_precedence b < el_precedence a then a else b), mg_mergedClock = clock,
               mg_reason = By_precedence\<rparr>
         else \<lparr>mg_winner = (if leq (el_nodeId a) (el_nodeId b) then a else b), mg_mergedClock = clock,
               mg_reason = By_node_id\<rparr>)"

text \<open>The left result is the pair of ids of a schism.\<close>

definition resolveConcurrentEdict :: "(string \<Rightarrow> string \<Rightarrow> bool) \<Rightarrow> edict_like \<Rightarrow> edict_like
    \<Rightarrow> (string \<times> string) + edict_like" where
  "resolveConcurrentEdict leq a b =
     (let cmp = compareVectorClock (el_clock a) (el_clock b)
      in if cmp = Concurrent \<and> el_precedence a = el_precedence b \<and> el_nodeId a = el_nodeId b
         then Inl (el_id a, el_id b)
         else Inr (mg_winner (mergeEdict leq a b)))"

lemma compare_swap:
  "compareVectorClock b a =
    (case compareVectorClock a b of Dominates \<Rightarrow> Dominated | Dominated \<Rightarrow> Dominates | c \<Rightarrow> c)"
  by (auto simp: compare_pointwise)

section \<open>Properties\<close>

text \<open>The comparison of two vector clocks is the pointwise order of their counters, absent counters being 0: equal,
  above, below or neither.\<close>

theorem compareVectorClock_pointwise:
  "(compareVectorClock a b = Equal \<longleftrightarrow> (\<forall>k. clock_at a k = clock_at b k))
    \<and> (compareVectorClock a b = Dominates \<longleftrightarrow> (\<forall>k. clock_at b k \<le> clock_at a k) \<and> (\<exists>k. clock_at b k < clock_at a k))
    \<and> (compareVectorClock b a = Dominated \<longleftrightarrow> compareVectorClock a b = Dominates)
    \<and> (compareVectorClock b a = Concurrent \<longleftrightarrow> compareVectorClock a b = Concurrent)"
proof -
  have strict: "clock_at a \<noteq> clock_at b \<and> clock_at b \<le> clock_at a \<longleftrightarrow> clock_at b < clock_at a" by auto
  have "compareVectorClock a b = Equal \<longleftrightarrow> clock_at a = clock_at b"
    "compareVectorClock a b = Dominates \<longleftrightarrow> clock_at a \<noteq> clock_at b \<and> clock_at b \<le> clock_at a"
    by (simp_all add: compare_pointwise)
  then show ?thesis
    unfolding strict less_fun_def compare_swap [of b a]
    by (auto simp: fun_eq_iff le_fun_def not_le split: vector_order.split)
qed

text \<open>The merge of two clocks of counters from 0 is their least upper bound: it is the pointwise maximum, so merging is
  commutative, associative and idempotent as a function of the counters.\<close>

theorem mergedClock_is_join:
  assumes "distinct (map fst a)" "distinct (map fst b)" "\<forall>(k, v)\<in>set a. 0 \<le> v" "\<forall>(k, v)\<in>set b. 0 \<le> v"
  shows "clock_at (mergedClock a b) k = max (clock_at a k) (clock_at b k)
    \<and> clock_at (mergedClock a b) k = clock_at (mergedClock b a) k"
proof -
  have nonneg: "0 \<le> clock_at c j" if "\<forall>(k, v)\<in>set c. 0 \<le> v" for c j
    using that by (auto simp: clock_at_def split: option.splits dest: map_of_SomeD)
  have join: "clock_at (mergedClock x y) k = max (clock_at x k) (clock_at y k)"
    if "distinct (map fst y)" "\<forall>(k, v)\<in>set x. 0 \<le> v" for x y
    using mergedClock_at [OF that(1)] clock_at_absent [of k y] nonneg [OF that(2), of k] by auto
  have "clock_at (mergedClock a b) k = max (clock_at a k) (clock_at b k)" by (rule join) (rule assms)+
  with join [of a b] assms show ?thesis by (simp add: join max.commute)
qed

theorem mergedClock_is_join_witness:
  "clock_at (mergedClock [(''x'', 2), (''y'', 1)] [(''y'', 3), (''z'', 4)]) ''y'' = 3
    \<and> clock_at (mergedClock [(''x'', 2), (''y'', 1)] [(''y'', 3), (''z'', 4)]) ''x'' = 2"
  using mergedClock_is_join [of "[(''x'', 2), (''y'', 1)]" "[(''y'', 3), (''z'', 4)]" "''y''"]
    mergedClock_is_join [of "[(''x'', 2), (''y'', 1)]" "[(''y'', 3), (''z'', 4)]" "''x''"]
  by (simp add: clock_at_def)

text \<open>Two replicas that merge the same two edicts in either order choose the same winner for the same reason, whenever
  the collation tells their node ids apart or the clocks or the precedences decide.\<close>

theorem mergeEdict_commutes:
  assumes "\<forall>x y. leq x y \<or> leq y x"
    and "compareVectorClock (el_clock a) (el_clock b) \<in> {Dominates, Dominated} \<or> el_precedence a \<noteq> el_precedence b
      \<or> \<not> (leq (el_nodeId a) (el_nodeId b) \<and> leq (el_nodeId b) (el_nodeId a))"
  shows "mg_winner (mergeEdict leq a b) = mg_winner (mergeEdict leq b a)
    \<and> mg_reason (mergeEdict leq a b) = mg_reason (mergeEdict leq b a)"
proof -
  have total: "leq (el_nodeId a) (el_nodeId b) \<or> leq (el_nodeId b) (el_nodeId a)" using assms(1) by blast
  show ?thesis
    using assms(2) total compare_swap [of "el_clock b" "el_clock a"]
    by (cases "compareVectorClock (el_clock a) (el_clock b)") (auto simp: mergeEdict_def Let_def not_less)
qed

definition demo_edict_like :: "string \<Rightarrow> string \<Rightarrow> int \<Rightarrow> vector_clock \<Rightarrow> edict_like" where
  "demo_edict_like i n p c = \<lparr>el_id = i, el_nodeId = n, el_precedence = p, el_clock = c, el_payload = []\<rparr>"

theorem mergeEdict_commutes_witness:
  "mg_winner (mergeEdict (\<le>) (demo_edict_like ''e1'' ''n1'' 1 [(''n1'', 1)]) (demo_edict_like ''e2'' ''n2'' 1 [(''n2'', 1)]))
    = mg_winner (mergeEdict (\<le>) (demo_edict_like ''e2'' ''n2'' 1 [(''n2'', 1)]) (demo_edict_like ''e1'' ''n1'' 1 [(''n1'', 1)]))"
proof -
  let ?a = "demo_edict_like ''e1'' ''n1'' 1 [(''n1'', 1)]" and ?b = "demo_edict_like ''e2'' ''n2'' 1 [(''n2'', 1)]"
  have total: "\<forall>x y :: string. x \<le> y \<or> y \<le> x" by (simp add: linear)
  have apart: "\<not> (el_nodeId ?a \<le> el_nodeId ?b \<and> el_nodeId ?b \<le> el_nodeId ?a)"
    by (simp add: demo_edict_like_def)
  from mergeEdict_commutes [OF total disjI2 [OF disjI2 [OF apart]]] show ?thesis by (rule conjunct1)
qed

text \<open>Merging is not associative, because the winner keeps its own clock and forgets the merged one: three replicas that
  fold the same three edicts in different orders end with different laws.\<close>

theorem mergeEdict_not_associative:
  "\<exists>a b c. mg_winner (mergeEdict leq (mg_winner (mergeEdict leq a b)) c)
    \<noteq> mg_winner (mergeEdict leq a (mg_winner (mergeEdict leq b c)))"
proof (intro exI)
  let ?a = "demo_edict_like ''e1'' ''n1'' 1 [(''x'', 2)]" and ?b = "demo_edict_like ''e2'' ''n1'' 5 [(''x'', 1)]"
    and ?c = "demo_edict_like ''e3'' ''n1'' 3 [(''y'', 1)]"
  show "mg_winner (mergeEdict leq (mg_winner (mergeEdict leq ?a ?b)) ?c)
      \<noteq> mg_winner (mergeEdict leq ?a (mg_winner (mergeEdict leq ?b ?c)))"
    by (simp add: mergeEdict_def Let_def compareVectorClock_def demo_edict_like_def clock_at_def)
qed

text \<open>A schism is declared exactly for concurrent clocks with the same precedence and the same node, it is declared by both
  replicas or by neither, and otherwise the answer is one of the two edicts.\<close>

theorem resolveConcurrentEdict_schism:
  "((\<exists>x. resolveConcurrentEdict leq a b = Inl x) \<longleftrightarrow>
      compareVectorClock (el_clock a) (el_clock b) = Concurrent \<and> el_precedence a = el_precedence b \<and> el_nodeId a = el_nodeId b)
    \<and> ((\<exists>x. resolveConcurrentEdict leq a b = Inl x) \<longleftrightarrow> (\<exists>x. resolveConcurrentEdict leq b a = Inl x))
    \<and> resolveConcurrentEdict leq a b \<in> {Inl (el_id a, el_id b), Inr a, Inr b}"
  using compare_swap [of "el_clock b" "el_clock a"]
  by (auto simp: resolveConcurrentEdict_def mergeEdict_def Let_def split: vector_order.splits)

end
