(* ===== verification/Dedup.thy ===== *)
theory Dedup
  imports Wenyan_Prelude
begin

text \<open>
  The three receivers of the system that drop what they have seen (the channel, the broadcast and the bridge) keep a set of
  ids. The contract of such a receiver, and what it means for a stream of deliveries: each id is accepted exactly once, at its
  first delivery.
\<close>

locale dedup =
  fixes offer :: "'m \<Rightarrow> 's \<Rightarrow> bool \<times> 's"
    and ident :: "'m \<Rightarrow> 'i"
    and known :: "'s \<Rightarrow> 'i set"
  assumes offer_accepts: "fst (offer m s) \<longleftrightarrow> ident m \<notin> known s"
    and offer_known: "known (snd (offer m s)) = insert (ident m) (known s)"
begin

fun offer_all :: "'m list \<Rightarrow> 's \<Rightarrow> 'm list \<times> 's" where
  "offer_all [] s = ([], s)"
| "offer_all (m # ms) s = (case offer m s of (ok, s1) \<Rightarrow>
     (case offer_all ms s1 of (accepted, s2) \<Rightarrow> (if ok then m # accepted else accepted, s2)))"

lemma offer_all_known: "known (snd (offer_all ms s)) = ident ` set ms \<union> known s"
proof (induction ms arbitrary: s)
  case (Cons m ms)
  then show ?case using offer_known [of m s] by (simp add: split_beta)
qed simp

lemma offer_all_ids: "ident ` set (fst (offer_all ms s)) = ident ` set ms - known s"
proof (induction ms arbitrary: s)
  case (Cons m ms)
  have "ident ` set (fst (offer_all ms (snd (offer m s)))) = ident ` set ms - insert (ident m) (known s)"
    using Cons.IH offer_known by simp
  then show ?case using offer_accepts [of m s] by (auto simp: split_beta)
qed simp

lemma offer_all_once: "distinct (map ident (fst (offer_all ms s)))"
proof (induction ms arbitrary: s)
  case (Cons m ms)
  have "ident m \<notin> ident ` set (fst (offer_all ms (snd (offer m s))))"
    using offer_all_ids [of ms "snd (offer m s)"] offer_known [of m s] by simp
  then show ?case using Cons.IH [of "snd (offer m s)"] by (simp add: split_beta)
qed simp

text \<open>Delivering a stream again changes nothing.\<close>

lemma offer_all_again: "fst (offer_all ms (snd (offer_all ms s))) = []"
proof -
  have "ident ` set (fst (offer_all ms (snd (offer_all ms s)))) = {}"
    unfolding offer_all_ids offer_all_known by auto
  then show ?thesis by simp
qed

end

end
