(* ===== verification/Gossip.thy ===== *)
theory Gossip
  imports Dedup Js_Time
begin

text \<open>
  \<open>packages/gossip/src/index.ts\<close> (SWIM membership, Plumtree push, broadcast) and \<open>packages/channel/src/index.ts\<close>. A
  JavaScript \<open>Map\<close> or \<open>Set\<close> is a list in insertion order. \<open>leq a b\<close> stands for \<open>a.localeCompare(b) <= 0\<close>. The readings of
  the clock are arguments: an ISO text where the code stores one, milliseconds where it compares.
\<close>

section \<open>SwimMembership\<close>

datatype membership_state = Alive | Suspect | Dead

record member =
  mb_nodeId :: string
  mb_address :: string
  mb_state :: membership_state
  mb_lastSeenAt :: iso

record swim =
  sw_members :: "member list"
  sw_suspicionTimeoutMs :: int

definition swim_new :: "int option \<Rightarrow> swim" where
  "swim_new timeout = \<lparr>sw_members = [], sw_suspicionTimeoutMs = (case timeout of None \<Rightarrow> 5000 | Some t \<Rightarrow> t)\<rparr>"

definition swim_set :: "string \<Rightarrow> (member \<Rightarrow> member) \<Rightarrow> swim \<Rightarrow> swim" where
  "swim_set nodeId f s = s\<lparr>sw_members := update_where (\<lambda>m. mb_nodeId m = nodeId) f (sw_members s)\<rparr>"

definition swim_upsert :: "iso \<Rightarrow> string \<Rightarrow> string \<Rightarrow> swim \<Rightarrow> swim" where
  "swim_upsert now nodeId address s =
     (let prev = find_row mb_nodeId nodeId (sw_members s);
          m = \<lparr>mb_nodeId = nodeId, mb_address = address,
               mb_state = (case prev of None \<Rightarrow> Alive | Some p \<Rightarrow> mb_state p), mb_lastSeenAt = now\<rparr>
      in s\<lparr>sw_members := upsert mb_nodeId m (\<lambda>_. m) (sw_members s)\<rparr>)"

definition swim_heartbeat :: "iso \<Rightarrow> string \<Rightarrow> swim \<Rightarrow> swim" where
  "swim_heartbeat now nodeId s = swim_set nodeId (\<lambda>m. m\<lparr>mb_state := Alive, mb_lastSeenAt := now\<rparr>) s"

definition swim_suspect :: "string \<Rightarrow> swim \<Rightarrow> swim" where
  "swim_suspect nodeId s = swim_set nodeId (\<lambda>m. m\<lparr>mb_state := Suspect\<rparr>) s"

definition swim_markDead :: "string \<Rightarrow> swim \<Rightarrow> swim" where
  "swim_markDead nodeId s = swim_set nodeId (\<lambda>m. m\<lparr>mb_state := Dead\<rparr>) s"

text \<open>\<open>now - NaN > timeout\<close> is false.\<close>

definition overdue :: "int \<Rightarrow> int \<Rightarrow> member \<Rightarrow> bool" where
  "overdue now_ms timeout m \<longleftrightarrow>
     (case ms_of_iso (mb_lastSeenAt m) of None \<Rightarrow> False | Some seen \<Rightarrow> timeout < now_ms - seen)"

definition sweep :: "int \<Rightarrow> swim \<Rightarrow> swim" where
  "sweep now_ms s = s\<lparr>sw_members := map (\<lambda>m. if mb_state m = Alive \<and> overdue now_ms (sw_suspicionTimeoutMs s) m
     then m\<lparr>mb_state := Suspect\<rparr> else m) (sw_members s)\<rparr>"

text \<open>\<open>Array.prototype.sort\<close> with a comparator is stable.\<close>

fun insert_by :: "('a \<Rightarrow> 'a \<Rightarrow> bool) \<Rightarrow> 'a \<Rightarrow> 'a list \<Rightarrow> 'a list" where
  "insert_by le x [] = [x]"
| "insert_by le x (y # ys) = (if le x y then x # y # ys else y # insert_by le x ys)"

definition sort_by :: "('a \<Rightarrow> 'a \<Rightarrow> bool) \<Rightarrow> 'a list \<Rightarrow> 'a list" where
  "sort_by le xs = foldr (insert_by le) xs []"

definition swim_list :: "(string \<Rightarrow> string \<Rightarrow> bool) \<Rightarrow> int \<Rightarrow> swim \<Rightarrow> member list \<times> swim" where
  "swim_list leq now_ms s =
     (let s1 = sweep now_ms s in (sort_by (\<lambda>a b. leq (mb_nodeId a) (mb_nodeId b)) (sw_members s1), s1))"

definition swim_isPartitioned :: "(string \<Rightarrow> string \<Rightarrow> bool) \<Rightarrow> int \<Rightarrow> swim \<Rightarrow> bool \<times> swim" where
  "swim_isPartitioned leq now_ms s =
     (let (ms, s1) = swim_list leq now_ms s in (list_ex (\<lambda>m. mb_state m \<noteq> Alive) ms, s1))"

section \<open>InMemoryPlumtree and ImperialBroadcast\<close>

record broadcast_message =
  bm_id :: string
  bm_topic :: string
  bm_payload :: obj
  bm_traceparent :: "string option"
  bm_tracestate :: "string option"

record plumtree =
  pt_seen :: "string list"
  pt_peers :: "string list"
  pt_fanout :: int

definition set_add :: "'a \<Rightarrow> 'a list \<Rightarrow> 'a list" where
  "set_add x xs = (if x \<in> set xs then xs else xs @ [x])"

definition plumtree_new :: "int option \<Rightarrow> string list \<Rightarrow> plumtree" where
  "plumtree_new fanout initialPeers = \<lparr>pt_seen = [], pt_peers = fold set_add initialPeers [],
     pt_fanout = (case fanout of None \<Rightarrow> 3 | Some n \<Rightarrow> n)\<rparr>"

definition setPeers :: "string list \<Rightarrow> plumtree \<Rightarrow> plumtree" where
  "setPeers peers s = s\<lparr>pt_peers := fold (\<lambda>p ps. if p = [] then ps else set_add p ps) peers []\<rparr>"

definition peerCount :: "plumtree \<Rightarrow> nat" where
  "peerCount s = length (pt_peers s)"

text \<open>\<open>slice(0, n)\<close> counts a negative end from the back.\<close>

definition slice_to :: "int \<Rightarrow> 'a list \<Rightarrow> 'a list" where
  "slice_to n xs = take (nat (if n < 0 then int (length xs) + n else n)) xs"

definition eagerPush :: "broadcast_message \<Rightarrow> plumtree \<Rightarrow> string list \<times> plumtree" where
  "eagerPush m s = (slice_to (pt_fanout s) (sort (pt_peers s)), s\<lparr>pt_seen := set_add (bm_id m) (pt_seen s)\<rparr>)"

definition lazyDigest :: "string list \<Rightarrow> plumtree \<Rightarrow> string list" where
  "lazyDigest digestIds s = filter (\<lambda>i. i \<notin> set (pt_seen s)) digestIds"

type_synonym imperial_broadcast = "string list"      \<comment> \<open>\<open>delivered\<close>\<close>

definition deliver :: "broadcast_message \<Rightarrow> imperial_broadcast \<Rightarrow> bool \<times> imperial_broadcast" where
  "deliver m delivered = (if bm_id m \<in> set delivered then (False, delivered) else (True, set_add (bm_id m) delivered))"

definition deliveredCount :: "imperial_broadcast \<Rightarrow> nat" where
  "deliveredCount delivered = length delivered"

section \<open>ReliableChannel\<close>

datatype event_type = Transition_committed | Message_rejected | Archive_appended

record channel_event =
  ev_id :: string
  ev_type :: event_type
  ev_messageId :: string
  ev_payload :: obj
  ev_at :: iso
  ev_traceparent :: "string option"
  ev_tracestate :: "string option"

text \<open>A subscriber is a name; \<open>ch_calls\<close> is what the subscribers were called with, in order. A subscriber returns and does not
  call the channel.\<close>

record channel =
  ch_subscribers :: "nat list"
  ch_seen :: "string list"
  ch_log :: "channel_event list"
  ch_calls :: "(nat \<times> channel_event) list"

definition channel_new :: channel where
  "channel_new = \<lparr>ch_subscribers = [], ch_seen = [], ch_log = [], ch_calls = []\<rparr>"

definition subscribe :: "nat \<Rightarrow> channel \<Rightarrow> channel" where
  "subscribe f c = c\<lparr>ch_subscribers := set_add f (ch_subscribers c)\<rparr>"

definition unsubscribe :: "nat \<Rightarrow> channel \<Rightarrow> channel" where
  "unsubscribe f c = c\<lparr>ch_subscribers := filter (\<lambda>g. g \<noteq> f) (ch_subscribers c)\<rparr>"

definition publish :: "channel_event \<Rightarrow> channel \<Rightarrow> bool \<times> channel" where
  "publish e c =
     (if ev_id e \<in> set (ch_seen c) then (False, c)
      else (True, c\<lparr>ch_seen := set_add (ev_id e) (ch_seen c), ch_log := ch_log c @ [e],
                    ch_calls := ch_calls c @ map (\<lambda>f. (f, e)) (ch_subscribers c)\<rparr>))"

definition channel_replay :: "iso \<Rightarrow> channel \<Rightarrow> channel_event list" where
  "channel_replay sinceIso c = filter (\<lambda>e. sinceIso \<le> ev_at e) (ch_log c)"

lemma set_set_add [simp]: "set (set_add x xs) = insert x (set xs)"
  by (auto simp: set_add_def)

lemma distinct_set_add [simp]: "distinct (set_add x xs) = distinct xs"
  by (auto simp: set_add_def)

interpretation broadcast: dedup deliver bm_id set
  by unfold_locales (auto simp: deliver_def)

interpretation events: dedup publish ev_id "\<lambda>c. set (ch_seen c)"
  by unfold_locales (auto simp: publish_def)

section \<open>Membership\<close>

lemma set_insert_by [simp]: "set (insert_by le x ys) = insert x (set ys)"
  by (induction ys) auto

lemma set_sort_by [simp]: "set (sort_by le xs) = set xs"
  unfolding sort_by_def by (induction xs) auto

lemma length_sort_by [simp]: "length (sort_by le xs) = length xs"
proof -
  have "length (insert_by le x ys) = Suc (length ys)" for x and ys :: "'a list"
    by (induction ys) auto
  then show ?thesis unfolding sort_by_def by (induction xs) auto
qed

text \<open>One record per node.\<close>

definition swim_inv :: "swim \<Rightarrow> bool" where
  "swim_inv s \<longleftrightarrow> distinct (map mb_nodeId (sw_members s))"

inductive swim_step :: "swim \<Rightarrow> swim \<Rightarrow> bool" where
  step_upsert: "swim_step s (swim_upsert now nodeId address s)"
| step_heartbeat: "swim_step s (swim_heartbeat now nodeId s)"
| step_suspect: "swim_step s (swim_suspect nodeId s)"
| step_dead: "swim_step s (swim_markDead nodeId s)"
| step_list: "swim_step s (snd (swim_list leq now_ms s))"

inductive_cases swim_stepE: "swim_step s s'"

lemma swim_set_inv: "(\<And>m. mb_nodeId (f m) = mb_nodeId m) \<Longrightarrow> swim_inv s \<Longrightarrow> swim_inv (swim_set i f s)"
  by (simp add: swim_inv_def swim_set_def map_update_where)

lemma sweep_ids: "map mb_nodeId (sw_members (sweep now s)) = map mb_nodeId (sw_members s)"
  by (simp add: sweep_def comp_def if_distrib cong: if_cong)

lemma swim_step_inv: "swim_step s s' \<Longrightarrow> swim_inv s \<Longrightarrow> swim_inv s'"
  by (erule swim_stepE)
    (auto simp: swim_heartbeat_def swim_suspect_def swim_markDead_def swim_list_def Let_def sweep_ids swim_inv_def
      swim_upsert_def distinct_upsert swim_set_def map_update_where)

lemma sweep_twice: "now \<le> later \<Longrightarrow> sweep now (sweep later s) = sweep later s"
  by (auto simp: sweep_def overdue_def comp_def split: option.splits)

lemma find_swim_set:
  "(\<And>m. mb_nodeId (f m) = mb_nodeId m) \<Longrightarrow>
    find_row mb_nodeId k (sw_members (swim_set i f s)) =
      map_option (\<lambda>m. if mb_nodeId m = i then f m else m) (find_row mb_nodeId k (sw_members s))"
  by (simp add: swim_set_def find_row_update_where)

lemma find_state_set:
  assumes "\<And>m. mb_nodeId (f m) = mb_nodeId m" "\<And>m. mb_state (f m) = x"
  shows "map_option mb_state (find_row mb_nodeId k (sw_members (swim_set i f s))) =
    (case find_row mb_nodeId k (sw_members s) of None \<Rightarrow> None | Some m \<Rightarrow> Some (if k = i then x else mb_state m))"
  using assms by (auto simp: find_swim_set split: option.split dest!: find_row_Some_in)

section \<open>The channel\<close>

inductive channel_reachable :: "channel \<Rightarrow> bool" where
  ch_new: "channel_reachable channel_new"
| ch_subscribe: "channel_reachable c \<Longrightarrow> channel_reachable (subscribe f c)"
| ch_unsubscribe: "channel_reachable c \<Longrightarrow> channel_reachable (unsubscribe f c)"
| ch_publish: "channel_reachable c \<Longrightarrow> channel_reachable (snd (publish e c))"

definition channel_inv :: "channel \<Rightarrow> bool" where
  "channel_inv c \<longleftrightarrow> distinct (ch_subscribers c) \<and> ch_seen c = map ev_id (ch_log c) \<and> distinct (ch_seen c)
     \<and> distinct (map (\<lambda>(f, e). (f, ev_id e)) (ch_calls c)) \<and> snd ` set (ch_calls c) \<subseteq> set (ch_log c)"

lemma publish_inv:
  assumes "channel_inv c"
  shows "channel_inv (snd (publish e c))"
proof (cases "ev_id e \<in> set (ch_seen c)")
  case False
  have old: "ev_id e' \<noteq> ev_id e" if "(f, e') \<in> set (ch_calls c)" for f e'
  proof -
    from that assms have "e' \<in> set (ch_log c)" by (force simp: channel_inv_def)
    then have "ev_id e' \<in> set (ch_seen c)" using assms by (simp add: channel_inv_def)
    with False show ?thesis by auto
  qed
  have "distinct (map (\<lambda>(f, e). (f, ev_id e)) (map (\<lambda>f. (f, e)) (ch_subscribers c)))"
    using assms by (simp add: channel_inv_def comp_def distinct_map inj_on_def)
  with assms False old show ?thesis
    by (auto simp: publish_def channel_inv_def set_add_def comp_def)
qed (use assms in \<open>simp add: publish_def\<close>)

lemma channel_reachable_inv: "channel_reachable c \<Longrightarrow> channel_inv c"
proof (induction rule: channel_reachable.induct)
  case (ch_publish c e)
  then show ?case by (simp add: publish_inv)
qed (auto simp: channel_inv_def channel_new_def subscribe_def unsubscribe_def)

section \<open>Properties\<close>

text \<open>Listing the members returns every known node once; no member that is listed as
  alive has been silent for longer than the timeout, and the only change of state is from alive to suspect.\<close>

theorem swim_list_no_stale_member:
  assumes "swim_inv s" "swim_list leq now_ms s = (ms, s1)"
  shows "mb_nodeId ` set ms = mb_nodeId ` set (sw_members s) \<and> length ms = length (sw_members s)
    \<and> (\<forall>m\<in>set ms. mb_state m = Alive \<longrightarrow> \<not> overdue now_ms (sw_suspicionTimeoutMs s) m)
    \<and> (\<forall>m1\<in>set ms. \<exists>m\<in>set (sw_members s). mb_nodeId m1 = mb_nodeId m \<and> mb_lastSeenAt m1 = mb_lastSeenAt m
        \<and> (mb_state m1 = mb_state m \<or> mb_state m = Alive \<and> mb_state m1 = Suspect))
    \<and> swim_inv s1 \<and> snd (swim_list leq now_ms s1) = s1"
proof -
  have ms: "set ms = set (sw_members (sweep now_ms s))" "length ms = length (sw_members s)" and s1: "s1 = sweep now_ms s"
    using assms(2) by (auto simp: swim_list_def Let_def sweep_def)
  have "swim_inv s1" using assms swim_step_inv [OF step_list, of s leq now_ms] by simp
  moreover have "snd (swim_list leq now_ms s1) = s1" by (simp add: s1 swim_list_def Let_def sweep_twice)
  moreover have "mb_nodeId ` set ms = mb_nodeId ` set (sw_members s)"
    using sweep_ids [of now_ms s] unfolding ms by (metis set_map)
  ultimately show ?thesis
    using ms(2) unfolding ms(1) by (auto simp: sweep_def overdue_def)
qed

definition demo_swim :: swim where
  "demo_swim = swim_suspect ''c'' (swim_upsert ''1970-01-01T00:00:09Z'' ''c'' ''h3''
     (swim_upsert ''1970-01-01T00:00:01Z'' ''b'' ''h2'' (swim_upsert ''1970-01-01T00:00:09Z'' ''a'' ''h1'' (swim_new None))))"

theorem swim_list_no_stale_member_witness:
  "map (\<lambda>m. (mb_nodeId m, mb_state m)) (fst (swim_list (\<le>) 10000 demo_swim)) = [(''a'', Alive), (''b'', Suspect), (''c'', Suspect)]
    \<and> (\<forall>m\<in>set (fst (swim_list (\<le>) 10000 demo_swim)). mb_state m = Alive \<longrightarrow> \<not> overdue 10000 5000 m)"
proof -
  have "swim_inv demo_swim"
    unfolding demo_swim_def
    by (intro swim_step_inv [OF step_suspect] swim_step_inv [OF step_upsert]) (simp add: swim_inv_def swim_new_def)
  moreover have "sw_suspicionTimeoutMs demo_swim = 5000"
    by (simp add: demo_swim_def swim_suspect_def swim_set_def swim_upsert_def Let_def swim_new_def)
  moreover have "map (\<lambda>m. (mb_nodeId m, mb_state m)) (fst (swim_list (\<le>) 10000 demo_swim)) =
      [(''a'', Alive), (''b'', Suspect), (''c'', Suspect)]" by code_simp
  ultimately show ?thesis
    using swim_list_no_stale_member [of demo_swim "(\<le>)" 10000 "fst (swim_list (\<le>) 10000 demo_swim)" "snd (swim_list (\<le>) 10000 demo_swim)"]
    by simp
qed

text \<open>The state of a node after each operation: a heartbeat makes a known node alive, a dead one too; suspecting and marking
  dead set the state; registering again keeps the state, so a dead node that joins again stays dead; none of them touches
  another node, and only registering adds one.\<close>

theorem swim_states:
  "map_option mb_state (find_row mb_nodeId k (sw_members (swim_heartbeat now i s))) =
      (case find_row mb_nodeId k (sw_members s) of None \<Rightarrow> None | Some m \<Rightarrow> Some (if k = i then Alive else mb_state m))
    \<and> map_option mb_state (find_row mb_nodeId k (sw_members (swim_suspect i s))) =
      (case find_row mb_nodeId k (sw_members s) of None \<Rightarrow> None | Some m \<Rightarrow> Some (if k = i then Suspect else mb_state m))
    \<and> map_option mb_state (find_row mb_nodeId k (sw_members (swim_markDead i s))) =
      (case find_row mb_nodeId k (sw_members s) of None \<Rightarrow> None | Some m \<Rightarrow> Some (if k = i then Dead else mb_state m))
    \<and> map_option mb_state (find_row mb_nodeId k (sw_members (swim_upsert now i address s))) =
      (case find_row mb_nodeId k (sw_members s) of None \<Rightarrow> (if k = i then Some Alive else None) | Some m \<Rightarrow> Some (mb_state m))"
  by (simp add: swim_heartbeat_def swim_suspect_def swim_markDead_def find_state_set)
    (auto simp: swim_upsert_def Let_def find_row_upsert split: option.split)

fun deliver_all :: "broadcast_message list \<Rightarrow> imperial_broadcast \<Rightarrow> broadcast_message list \<times> imperial_broadcast" where
  "deliver_all [] d = ([], d)"
| "deliver_all (m # ms) d = (case deliver m d of (ok, d1) \<Rightarrow>
     (case deliver_all ms d1 of (accepted, d2) \<Rightarrow> (if ok then m # accepted else accepted, d2)))"

lemma deliver_all_offers: "deliver_all ms d = broadcast.offer_all ms d"
  by (induction ms arbitrary: d) (simp_all split: prod.split)

text \<open>A stream of broadcast messages is accepted exactly once per id, the ids accepted are those of the stream that were not
  delivered before, and the same stream delivered again is refused completely.\<close>

theorem broadcast_exactly_once:
  "let (accepted, d1) = deliver_all ms d in
     distinct (map bm_id accepted) \<and> bm_id ` set accepted = bm_id ` set ms - set d
     \<and> fst (deliver_all ms d1) = []"
  using broadcast.offer_all_once [of ms d] broadcast.offer_all_ids [of ms d] broadcast.offer_all_again [of ms d]
  by (simp add: deliver_all_offers split_beta)

text \<open>C38: In every state a channel can reach, its log holds each event id once, every call of a subscriber was for a logged
  event, and no subscriber was called twice for the same id, even when it subscribed twice or an event was published again.\<close>

theorem channel_delivers_once:
  assumes "channel_reachable c"
  shows "distinct (map ev_id (ch_log c)) \<and> (\<forall>(f, e)\<in>set (ch_calls c). e \<in> set (ch_log c))
    \<and> distinct (map (\<lambda>(f, e). (f, ev_id e)) (ch_calls c))
    \<and> (fst (publish e c) \<longleftrightarrow> ev_id e \<notin> ev_id ` set (ch_log c))"
  using channel_reachable_inv [OF assms] events.offer_accepts [of e c] by (force simp: channel_inv_def)

definition demo_event :: "string \<Rightarrow> channel_event" where
  "demo_event i = \<lparr>ev_id = i, ev_type = Archive_appended, ev_messageId = ''m'', ev_payload = [], ev_at = ''2024-01-01'',
     ev_traceparent = None, ev_tracestate = None\<rparr>"

definition demo_channel :: channel where
  "demo_channel = snd (publish (demo_event ''x'') (snd (publish (demo_event ''x'') (subscribe 1 (subscribe 1 channel_new)))))"

theorem channel_delivers_once_witness:
  "ch_calls demo_channel = [(1, demo_event ''x'')] \<and> \<not> fst (publish (demo_event ''x'') demo_channel)
    \<and> distinct (map ev_id (ch_log demo_channel))"
proof -
  have "channel_reachable demo_channel"
    unfolding demo_channel_def by (intro channel_reachable.intros)
  moreover have "ch_calls demo_channel = [(1, demo_event ''x'')]" "ch_log demo_channel = [demo_event ''x'']"
    by (simp_all add: demo_channel_def publish_def subscribe_def set_add_def channel_new_def)
  ultimately show ?thesis using channel_delivers_once [of demo_channel "demo_event ''x''"] by simp
qed

text \<open>An eager push goes to the alphabetically first peers, each at most once and as many as the fanout allows, and the digest of
  what is missing no longer asks for the pushed message.\<close>

theorem eagerPush_fanout:
  assumes "distinct (pt_peers s)" "eagerPush m s = (targets, s1)" "0 \<le> pt_fanout s"
  shows "length targets = min (nat (pt_fanout s)) (peerCount s) \<and> distinct targets \<and> set targets \<subseteq> set (pt_peers s)
    \<and> (\<forall>p\<in>set (pt_peers s) - set targets. \<forall>q\<in>set targets. q \<le> p)
    \<and> lazyDigest ids s1 = filter (\<lambda>i. i \<noteq> bm_id m) (lazyDigest ids s)"
proof -
  let ?ps = "sort (pt_peers s)" and ?n = "nat (pt_fanout s)"
  have t: "targets = take ?n ?ps" and s1: "s1 = s\<lparr>pt_seen := set_add (bm_id m) (pt_seen s)\<rparr>"
    using assms(2,3) by (auto simp: eagerPush_def slice_to_def)
  have split: "?ps = take ?n ?ps @ drop ?n ?ps" by simp
  have "sorted (take ?n ?ps @ drop ?n ?ps)" by simp
  then have le: "\<forall>q\<in>set (take ?n ?ps). \<forall>p\<in>set (drop ?n ?ps). q \<le> p" unfolding sorted_append by blast
  have "set (pt_peers s) = set (take ?n ?ps) \<union> set (drop ?n ?ps)" by (metis set_append append_take_drop_id set_sort)
  with le have "\<forall>p\<in>set (pt_peers s) - set targets. \<forall>q\<in>set targets. q \<le> p" by (auto simp: t)
  moreover have "set targets \<subseteq> set (pt_peers s)" unfolding t by (metis set_sort set_take_subset)
  moreover have "lazyDigest ids s1 = filter (\<lambda>i. i \<noteq> bm_id m) (lazyDigest ids s)"
    by (simp add: lazyDigest_def s1) (metis (lifting) filter_cong)
  ultimately show ?thesis using assms(1) by (simp add: t peerCount_def min.commute)
qed

theorem eagerPush_fanout_witness:
  "fst (eagerPush \<lparr>bm_id = ''x'', bm_topic = [], bm_payload = [], bm_traceparent = None, bm_tracestate = None\<rparr>
     (plumtree_new (Some 2) [''c'', ''a'', ''b'', ''a''])) = [''a'', ''b'']"
proof -
  let ?m = "\<lparr>bm_id = ''x'', bm_topic = [], bm_payload = [], bm_traceparent = None, bm_tracestate = None\<rparr>"
  let ?s = "plumtree_new (Some 2) [''c'', ''a'', ''b'', ''a'']"
  have "distinct (pt_peers ?s)" "0 \<le> pt_fanout ?s" by (simp_all add: plumtree_new_def set_add_def)
  from eagerPush_fanout [OF this(1) prod.collapse [symmetric] this(2), of ?m]
  have "length (fst (eagerPush ?m ?s)) = 2" by (simp add: plumtree_new_def set_add_def peerCount_def)
  then show ?thesis by (simp add: eagerPush_def plumtree_new_def set_add_def slice_to_def)
qed

end
