(* ===== verification/Consensus.thy ===== *)
theory Consensus
  imports Seal_Crypto
begin

text \<open>
  \<open>packages/consensus/src/index.ts\<close>: the PBFT message log. Ed25519 is a field of \<open>crypto\<close>; the bytes signed are the
  UTF-8 of the canonical text, in hex. The operations are atomic: the code awaits the signature check before it looks at the
  log, and touches the log without a further await.
\<close>

section \<open>Messages and signatures\<close>

datatype pbft_phase = Pre_prepare | Prepare | Commit | View_change

fun phase_str :: "pbft_phase \<Rightarrow> string" where
  "phase_str Pre_prepare = ''pre-prepare''"
| "phase_str Prepare = ''prepare''"
| "phase_str Commit = ''commit''"
| "phase_str View_change = ''view-change''"

record pbft_message =
  pm_proposalId :: string
  pm_viewNo :: nat
  pm_nodeId :: string
  pm_phase :: pbft_phase
  pm_signature :: string
  pm_at :: iso

definition canonicalPbftPayload :: "pbft_message \<Rightarrow> string" where
  "canonicalPbftPayload m = stringify (JObj [
     (''proposalId'', JStr (pm_proposalId m)), (''viewNo'', JNum (int (pm_viewNo m)) 0),
     (''nodeId'', JStr (pm_nodeId m)), (''phase'', JStr (phase_str (pm_phase m))), (''at'', JStr (pm_at m))])"

definition utf8_hex :: "string \<Rightarrow> string" where
  "utf8_hex s = concat (map (\<lambda>n. [hex_digit (n div 16), hex_digit (n mod 16)]) (utf8 s))"

text \<open>\<open>None\<close> where \<open>hexToBytes\<close> throws.\<close>

definition signPbftMessage :: "crypto \<Rightarrow> pbft_message \<Rightarrow> string \<Rightarrow> string option" where
  "signPbftMessage C m privateKeyHex =
     (if is_hex privateKeyHex then Some (ed_sign C (utf8_hex (canonicalPbftPayload m)) privateKeyHex) else None)"

definition verifyPbftMessageSignature :: "crypto \<Rightarrow> pbft_message \<Rightarrow> string \<Rightarrow> bool option" where
  "verifyPbftMessageSignature C m publicKeyHex =
     (if is_hex (pm_signature m) \<and> is_hex publicKeyHex
      then Some (ed_verify C (pm_signature m) (utf8_hex (canonicalPbftPayload m)) publicKeyHex) else None)"

section \<open>PbftConsensus\<close>

record pbft_options =
  px_replicaPublicKeys :: "(string \<times> string) list"
  px_replicaPrivateKeys :: "(string \<times> string) list option"
  px_allowSingleReplica :: bool
  px_replicaSet :: "string list"
  px_threshold :: int

record pbft =
  pf_log :: "string \<Rightarrow> pbft_message list option"
  pf_viewNo :: nat
  pf_publicKeys :: "(string \<times> string) list"
  pf_privateKeys :: "(string \<times> string) list"
  pf_replicaSet :: "string list"
  pf_threshold :: int

definition pbft_new :: "pbft_options \<Rightarrow> err + pbft" where
  "pbft_new options =
     (if px_threshold options < 2 \<and> \<not> px_allowSingleReplica options then Inl (Pbft_validation ''invalid-threshold'')
      else Inr \<lparr>pf_log = (\<lambda>_. None), pf_viewNo = 0, pf_publicKeys = px_replicaPublicKeys options,
        pf_privateKeys = (case px_replicaPrivateKeys options of None \<Rightarrow> [] | Some ks \<Rightarrow> ks),
        pf_replicaSet = px_replicaSet options, pf_threshold = px_threshold options\<rparr>)"

definition log_at :: "string \<Rightarrow> pbft \<Rightarrow> pbft_message list" where
  "log_at proposalId s = (case pf_log s proposalId of None \<Rightarrow> [] | Some ms \<Rightarrow> ms)"

definition key_of :: "(string \<times> string) list \<Rightarrow> string \<Rightarrow> string" where
  "key_of keys nodeId = (case map_of keys nodeId of None \<Rightarrow> [] | Some k \<Rightarrow> k)"

definition pbft_append :: "crypto \<Rightarrow> pbft_message \<Rightarrow> pbft_phase \<Rightarrow> pbft \<Rightarrow> (pbft, bool) out" where
  "pbft_append C msg phase s =
     (if pm_nodeId msg \<notin> set (pf_replicaSet s) then Fail (Pbft_validation ''unknown-node'') s
      else if pm_phase msg \<noteq> phase then Fail (Pbft_validation ''invalid-phase'') s
      else
       (let publicKey = key_of (pf_publicKeys s) (pm_nodeId msg) in
        if publicKey = [] then Fail (Pbft_validation ''invalid-signature'') s
        else case verifyPbftMessageSignature C msg publicKey of
            None \<Rightarrow> Fail (Error_msg ''hex'') s
          | Some False \<Rightarrow> Fail (Pbft_validation ''invalid-signature'') s
          | Some True \<Rightarrow>
             (let arr = log_at (pm_proposalId msg) s in
              if list_ex (\<lambda>m. pm_nodeId m = pm_nodeId msg \<and> pm_phase m = pm_phase msg \<and> pm_viewNo m = pm_viewNo msg) arr
              then Done False s
              else Done True (s\<lparr>pf_log := (pf_log s)(pm_proposalId msg \<mapsto> arr @ [msg])\<rparr>))))"

text \<open>The part \<open>proposeTiDefinition\<close> and \<open>onViewChange\<close> share: keys, signing and appending.\<close>

definition sign_and_append :: "crypto \<Rightarrow> pbft_message \<Rightarrow> pbft \<Rightarrow> (pbft, pbft_message) out" where
  "sign_and_append C toSign s =
     (let nodeId = pm_nodeId toSign; privateKey = key_of (pf_privateKeys s) nodeId in
      if privateKey = [] then Fail (Pbft_validation ''missing-private-key'') s
      else if key_of (pf_publicKeys s) nodeId = [] \<and> \<not> is_hex privateKey then Fail (Error_msg ''hex'') s
      else
       (let s1 = (if key_of (pf_publicKeys s) nodeId = []
                  then s\<lparr>pf_publicKeys := obj_put nodeId (ed_public C privateKey) (pf_publicKeys s)\<rparr> else s)
        in case signPbftMessage C toSign privateKey of
             None \<Rightarrow> Fail (Error_msg ''hex'') s1
           | Some signature \<Rightarrow>
              (let msg = toSign\<lparr>pm_signature := signature\<rparr>
               in and_then (pbft_append C msg (pm_phase toSign) s1) (\<lambda>_. Done msg))))"

definition proposeTiDefinition :: "crypto \<Rightarrow> iso \<Rightarrow> string \<Rightarrow> string \<Rightarrow> pbft \<Rightarrow> (pbft, pbft_message) out" where
  "proposeTiDefinition C now proposalId leaderNodeId s =
     sign_and_append C \<lparr>pm_proposalId = proposalId, pm_viewNo = pf_viewNo s, pm_nodeId = leaderNodeId,
       pm_phase = Pre_prepare, pm_signature = [], pm_at = now\<rparr> s"

definition onPrePrepare :: "crypto \<Rightarrow> pbft_message \<Rightarrow> pbft \<Rightarrow> (pbft, bool) out" where
  "onPrePrepare C msg s = pbft_append C msg Pre_prepare s"

definition onPrepare :: "crypto \<Rightarrow> pbft_message \<Rightarrow> pbft \<Rightarrow> (pbft, bool) out" where
  "onPrepare C msg s = pbft_append C msg Prepare s"

definition onCommit :: "crypto \<Rightarrow> pbft_message \<Rightarrow> pbft \<Rightarrow> (pbft, bool) out" where
  "onCommit C msg s = pbft_append C msg Commit s"

definition onViewChange :: "crypto \<Rightarrow> iso \<Rightarrow> string \<Rightarrow> pbft \<Rightarrow> (pbft, pbft_message) out" where
  "onViewChange C now nodeId s =
     (let s1 = s\<lparr>pf_viewNo := pf_viewNo s + 1\<rparr>
      in sign_and_append C \<lparr>pm_proposalId = ''view-change-'' @ nat_str (pf_viewNo s1), pm_viewNo = pf_viewNo s1,
           pm_nodeId = nodeId, pm_phase = View_change, pm_signature = [], pm_at = now\<rparr> s1)"

definition voters :: "pbft_phase \<Rightarrow> pbft_message list \<Rightarrow> string list" where
  "voters phase messages = remdups (map pm_nodeId (filter (\<lambda>m. pm_phase m = phase) messages))"

definition commitIfThreshold :: "string \<Rightarrow> pbft \<Rightarrow> bool" where
  "commitIfThreshold proposalId s =
     (let messages = log_at proposalId s in
      if \<not> list_ex (\<lambda>m. pm_phase m = Pre_prepare) messages then False
      else pf_threshold s \<le> int (length (voters Prepare messages)) \<and> pf_threshold s \<le> int (length (voters Commit messages)))"

definition currentView :: "pbft \<Rightarrow> nat" where
  "currentView s = pf_viewNo s"

section \<open>The log\<close>

inductive pbft_step :: "crypto \<Rightarrow> pbft \<Rightarrow> pbft \<Rightarrow> bool" for C where
  step_propose: "pbft_step C s (out_state (proposeTiDefinition C now proposalId leaderNodeId s))"
| step_pre_prepare: "pbft_step C s (out_state (onPrePrepare C msg s))"
| step_prepare: "pbft_step C s (out_state (onPrepare C msg s))"
| step_commit: "pbft_step C s (out_state (onCommit C msg s))"
| step_view_change: "pbft_step C s (out_state (onViewChange C now nodeId s))"

inductive_cases pbft_stepE: "pbft_step C s s'"

inductive pbft_reachable :: "crypto \<Rightarrow> pbft_options \<Rightarrow> pbft \<Rightarrow> bool" for C options where
  reach_new: "pbft_new options = Inr s \<Longrightarrow> pbft_reachable C options s"
| reach_step: "pbft_reachable C options s \<Longrightarrow> pbft_step C s s' \<Longrightarrow> pbft_reachable C options s'"

definition vote_key :: "pbft_message \<Rightarrow> string \<times> pbft_phase \<times> nat" where
  "vote_key m = (pm_nodeId m, pm_phase m, pm_viewNo m)"

text \<open>A message in the log is filed under its proposal, comes from a replica and carries its signature.\<close>

definition genuine :: "crypto \<Rightarrow> pbft \<Rightarrow> pbft_message \<Rightarrow> bool" where
  "genuine C s m \<longleftrightarrow> pm_nodeId m \<in> set (pf_replicaSet s) \<and> key_of (pf_publicKeys s) (pm_nodeId m) \<noteq> []
     \<and> verifyPbftMessageSignature C m (key_of (pf_publicKeys s) (pm_nodeId m)) = Some True"

definition pbft_inv :: "crypto \<Rightarrow> pbft \<Rightarrow> bool" where
  "pbft_inv C s \<longleftrightarrow> (\<forall>p. distinct (map vote_key (log_at p s)) \<and> (\<forall>m\<in>set (log_at p s). pm_proposalId m = p \<and> genuine C s m))"

text \<open>What every operation leaves alone: the configuration, the keys that are known and the messages that are logged.\<close>

definition grows :: "pbft \<Rightarrow> pbft \<Rightarrow> bool" where
  "grows s s' \<longleftrightarrow> pf_replicaSet s' = pf_replicaSet s \<and> pf_threshold s' = pf_threshold s
     \<and> (\<forall>n. key_of (pf_publicKeys s) n \<noteq> [] \<longrightarrow> key_of (pf_publicKeys s') n = key_of (pf_publicKeys s) n)
     \<and> (\<forall>p. \<exists>ms. log_at p s' = log_at p s @ ms) \<and> pf_viewNo s \<le> pf_viewNo s'"

lemma grows_refl [simp]: "grows s s"
  by (simp add: grows_def)

lemma grows_trans: "grows s t \<Longrightarrow> grows t u \<Longrightarrow> grows s u"
  unfolding grows_def by (metis (no_types, lifting) append.assoc le_trans)

lemma append_cases:
  obtains (refused) e where "pbft_append C msg phase s = Fail e s"
  | (known) "pbft_append C msg phase s = Done False s" "vote_key msg \<in> vote_key ` set (log_at (pm_proposalId msg) s)"
  | (added) "pbft_append C msg phase s = Done True (s\<lparr>pf_log := (pf_log s)(pm_proposalId msg \<mapsto> log_at (pm_proposalId msg) s @ [msg])\<rparr>)"
    "vote_key msg \<notin> vote_key ` set (log_at (pm_proposalId msg) s)" "genuine C s msg" "pm_phase msg = phase"
proof -
  have k: "list_ex (\<lambda>m. pm_nodeId m = pm_nodeId msg \<and> pm_phase m = pm_phase msg \<and> pm_viewNo m = pm_viewNo msg) ms
      \<longleftrightarrow> vote_key msg \<in> vote_key ` set ms" for ms
    by (simp add: list_ex_iff vote_key_def image_iff) metis
  let ?key = "key_of (pf_publicKeys s) (pm_nodeId msg)"
  show thesis
  proof (cases "genuine C s msg \<and> pm_phase msg = phase")
    case True
    then have "pbft_append C msg phase s = (if vote_key msg \<in> vote_key ` set (log_at (pm_proposalId msg) s) then Done False s
        else Done True (s\<lparr>pf_log := (pf_log s)(pm_proposalId msg \<mapsto> log_at (pm_proposalId msg) s @ [msg])\<rparr>))"
      unfolding pbft_append_def Let_def k genuine_def by simp
    with True show thesis using known added
      by (cases "vote_key msg \<in> vote_key ` set (log_at (pm_proposalId msg) s)") simp_all
  next
    case False
    then have "\<exists>e. pbft_append C msg phase s = Fail e s"
      by (auto simp: pbft_append_def Let_def genuine_def split: option.split bool.split)
    then show thesis using refused by blast
  qed
qed

lemma genuine_accepted: "genuine C s msg \<Longrightarrow> pbft_append C msg (pm_phase msg) s \<noteq> Fail e s"
  by (auto simp: pbft_append_def Let_def genuine_def)

lemma append_state:
  shows "pbft_inv C s \<Longrightarrow> pbft_inv C (out_state (pbft_append C msg phase s))" "grows s (out_state (pbft_append C msg phase s))"
proof -
  let ?s' = "s\<lparr>pf_log := (pf_log s)(pm_proposalId msg \<mapsto> log_at (pm_proposalId msg) s @ [msg])\<rparr>"
  have at': "log_at p ?s' = (if p = pm_proposalId msg then log_at p s @ [msg] else log_at p s)" for p
    by (simp add: log_at_def)
  have gen: "genuine C ?s' m = genuine C s m" for m by (simp add: genuine_def)
  show "pbft_inv C s \<Longrightarrow> pbft_inv C (out_state (pbft_append C msg phase s))"
    by (cases rule: append_cases [of C msg phase s]) (auto simp: pbft_inv_def at' gen)
  show "grows s (out_state (pbft_append C msg phase s))"
    by (cases rule: append_cases [of C msg phase s]) (auto simp: grows_def at')
qed

lemma keys_state:
  assumes "key_of (pf_publicKeys s) n = []"
  shows "pbft_inv C s \<Longrightarrow> pbft_inv C (s\<lparr>pf_publicKeys := obj_put n k (pf_publicKeys s)\<rparr>)"
    "grows s (s\<lparr>pf_publicKeys := obj_put n k (pf_publicKeys s)\<rparr>)"
proof -
  let ?s' = "s\<lparr>pf_publicKeys := obj_put n k (pf_publicKeys s)\<rparr>"
  have key: "key_of (obj_put n k (pf_publicKeys s)) j = (if j = n then k else key_of (pf_publicKeys s) j)" for j
    by (simp add: key_of_def)
  have "genuine C s m \<Longrightarrow> genuine C ?s' m" for m using assms by (auto simp: genuine_def key)
  then show "pbft_inv C s \<Longrightarrow> pbft_inv C ?s'" by (auto simp: pbft_inv_def log_at_def)
  show "grows s ?s'" using assms by (auto simp: grows_def key log_at_def)
qed

lemma sign_and_append_state:
  shows "pbft_inv C s \<Longrightarrow> pbft_inv C (out_state (sign_and_append C m s))" "grows s (out_state (sign_and_append C m s))"
proof -
  let ?n = "pm_nodeId m"
  let ?s1 = "if key_of (pf_publicKeys s) ?n = []
    then s\<lparr>pf_publicKeys := obj_put ?n (ed_public C (key_of (pf_privateKeys s) ?n)) (pf_publicKeys s)\<rparr> else s"
  have s1: "pbft_inv C s \<Longrightarrow> pbft_inv C ?s1" "grows s ?s1" using keys_state [of s ?n] by simp_all
  have st: "out_state (sign_and_append C m s) = s \<or> out_state (sign_and_append C m s) = ?s1
      \<or> (\<exists>x. out_state (sign_and_append C m s) = out_state (pbft_append C x (pm_phase m) ?s1))"
  proof -
    have "out_state (and_then (pbft_append C x ph t) (\<lambda>_. Done x)) = out_state (pbft_append C x ph t)" for x ph t
      by (cases "pbft_append C x ph t") simp_all
    note app = this
    show ?thesis
    proof (cases "key_of (pf_privateKeys s) ?n = [] \<or> key_of (pf_publicKeys s) ?n = [] \<and> \<not> is_hex (key_of (pf_privateKeys s) ?n)")
      case True
      then show ?thesis by (auto simp: sign_and_append_def Let_def)
    next
      case False
      show ?thesis
      proof (cases "signPbftMessage C m (key_of (pf_privateKeys s) ?n)")
        case None
        with False show ?thesis by (simp add: sign_and_append_def Let_def)
      next
        case (Some signature)
        with False have "sign_and_append C m s = and_then (pbft_append C (m\<lparr>pm_signature := signature\<rparr>) (pm_phase m) ?s1)
            (\<lambda>_. Done (m\<lparr>pm_signature := signature\<rparr>))" by (auto simp: sign_and_append_def Let_def)
        then show ?thesis using app by metis
      qed
    qed
  qed
  from st show "pbft_inv C s \<Longrightarrow> pbft_inv C (out_state (sign_and_append C m s))"
    by (elim disjE exE) (simp_all only: s1(1) append_state(1))
  from st show "grows s (out_state (sign_and_append C m s))"
    by (elim disjE exE) (simp_all only: s1(2) grows_refl grows_trans [OF s1(2) append_state(2)])
qed

lemma step_state:
  assumes "pbft_step C s s'"
  shows "pbft_inv C s \<Longrightarrow> pbft_inv C s'" "grows s s'"
proof -
  have view: "pbft_inv C (s\<lparr>pf_viewNo := v\<rparr>) = pbft_inv C s" for v
    by (simp add: pbft_inv_def log_at_def genuine_def)
  have up: "grows s (s\<lparr>pf_viewNo := pf_viewNo s + 1\<rparr>)" by (simp add: grows_def log_at_def)
  from assms show "pbft_inv C s \<Longrightarrow> pbft_inv C s'"
    by (elim pbft_stepE) (auto simp: proposeTiDefinition_def onPrePrepare_def onPrepare_def onCommit_def onViewChange_def Let_def
        append_state sign_and_append_state view intro!: sign_and_append_state(1) append_state(1))
  from assms show "grows s s'"
    by (elim pbft_stepE) (auto simp: proposeTiDefinition_def onPrePrepare_def onPrepare_def onCommit_def onViewChange_def Let_def
        append_state sign_and_append_state intro: grows_trans [OF up])
qed

lemma pbft_reachable_inv:
  assumes "pbft_reachable C options s"
  shows "pbft_inv C s \<and> pf_threshold s = px_threshold options \<and> pf_replicaSet s = px_replicaSet options
    \<and> (px_allowSingleReplica options \<or> 2 \<le> pf_threshold s)"
  using assms
proof (induction rule: pbft_reachable.induct)
  case (reach_new s)
  then show ?case by (auto simp: pbft_new_def pbft_inv_def log_at_def split: if_splits)
next
  case (reach_step s s')
  then show ?case using step_state [of C s s'] by (auto simp: grows_def)
qed

section \<open>Quorums\<close>

locale quorums =
  fixes quorum :: "'a set \<Rightarrow> bool" and universe :: "'a set"
  assumes quorum_sub: "quorum Q \<Longrightarrow> Q \<subseteq> universe"
    and quorum_meet: "quorum Q \<Longrightarrow> quorum R \<Longrightarrow> Q \<inter> R \<noteq> {}"
begin

lemma common_voter:
  assumes "quorum Q" "quorum R"
  obtains x where "x \<in> Q" "x \<in> R" "x \<in> universe"
  using quorum_meet [OF assms] quorum_sub [OF assms(1)] by blast

end

definition majority :: "'a set \<Rightarrow> int \<Rightarrow> 'a set \<Rightarrow> bool" where
  "majority U t Q \<longleftrightarrow> Q \<subseteq> U \<and> t \<le> int (card Q) \<and> int (card U) < 2 * t"

interpretation majorities: quorums "majority (set replicas) t" "set replicas" for replicas t
proof
  fix Q R assume m: "majority (set replicas) t Q" "majority (set replicas) t R"
  then have "finite Q" "finite R" "Q \<union> R \<subseteq> set replicas" by (auto simp: majority_def intro: finite_subset)
  then have "card (Q \<union> R) \<le> card (set replicas)" by (intro card_mono) auto
  moreover have "card Q + card R = card (Q \<union> R) + card (Q \<inter> R)"
    using \<open>finite Q\<close> \<open>finite R\<close> by (rule card_Un_Int)
  ultimately have "0 < card (Q \<inter> R)" using m by (auto simp: majority_def)
  then show "Q \<inter> R \<noteq> {}" by auto
qed (simp add: majority_def)

definition voter_set :: "pbft_phase \<Rightarrow> string \<Rightarrow> pbft \<Rightarrow> string set" where
  "voter_set phase p s = {pm_nodeId m |m. m \<in> set (log_at p s) \<and> pm_phase m = phase}"

lemma voterE:
  assumes "n \<in> voter_set phase p s"
  obtains m where "m \<in> set (log_at p s)" "pm_nodeId m = n" "pm_phase m = phase"
  using assms by (auto simp: voter_set_def)

lemma voters_set: "set (voters phase (log_at p s)) = voter_set phase p s"
  by (auto simp: voters_def voter_set_def)

lemma voters_card: "length (voters phase (log_at p s)) = card (voter_set phase p s)"
  unfolding voters_set [symmetric] by (rule distinct_card [symmetric]) (simp add: voters_def)

lemma commit_iff:
  "commitIfThreshold p s \<longleftrightarrow> voter_set Pre_prepare p s \<noteq> {} \<and> pf_threshold s \<le> int (card (voter_set Prepare p s))
    \<and> pf_threshold s \<le> int (card (voter_set Commit p s))"
  by (auto simp: commitIfThreshold_def Let_def voters_card list_ex_iff voter_set_def)

lemma voter_set_finite [simp]: "finite (voter_set phase p s)"
  unfolding voters_set [symmetric] by simp

lemma voter_set_grows: "grows s s' \<Longrightarrow> voter_set phase p s \<subseteq> voter_set phase p s'"
proof -
  assume "grows s s'"
  then obtain ms where "log_at p s' = log_at p s @ ms" by (auto simp: grows_def)
  then show ?thesis by (auto simp: voter_set_def)
qed

section \<open>Properties\<close>


text \<open>Three replicas, whose signatures are the signed text, and a proposal in each of two views.\<close>

definition vote_crypto :: crypto where
  "vote_crypto = \<lparr>sha256 = (\<lambda>s. s), hmac_sha256 = \<lambda>k m. m, ed_sign = \<lambda>h k. ''ab'', ed_public = \<lambda>k. k,
     ed_verify = \<lambda>s h k. True\<rparr>"

definition vote_options :: pbft_options where
  "vote_options = \<lparr>px_replicaPublicKeys = [(''r1'', ''01''), (''r2'', ''02''), (''r3'', ''03'')],
     px_replicaPrivateKeys = Some [(''r1'', ''01'')], px_allowSingleReplica = False,
     px_replicaSet = [''r1'', ''r2'', ''r3''], px_threshold = 2\<rparr>"

definition vote :: "string \<Rightarrow> string \<Rightarrow> pbft_phase \<Rightarrow> nat \<Rightarrow> pbft_message" where
  "vote p n phase v = \<lparr>pm_proposalId = p, pm_viewNo = v, pm_nodeId = n, pm_phase = phase, pm_signature = ''ab'', pm_at = ''t''\<rparr>"

definition receive :: "pbft_message \<Rightarrow> pbft \<Rightarrow> pbft" where
  "receive m s = out_state (case pm_phase m of Prepare \<Rightarrow> onPrepare vote_crypto m s | Commit \<Rightarrow> onCommit vote_crypto m s
     | _ \<Rightarrow> onPrePrepare vote_crypto m s)"

definition demo_pbft :: pbft where
  "demo_pbft = fold receive
     [vote ''p'' ''r1'' Pre_prepare 0, vote ''p'' ''r1'' Prepare 0, vote ''p'' ''r2'' Prepare 1, vote ''p'' ''r1'' Commit 0,
      vote ''p'' ''r3'' Commit 1, vote ''q'' ''r1'' Pre_prepare 0, vote ''q'' ''r2'' Prepare 0, vote ''q'' ''r3'' Prepare 0,
      vote ''q'' ''r2'' Commit 0, vote ''q'' ''r3'' Commit 0]
     (projr (pbft_new vote_options))"

lemma demo_pbft_reachable: "pbft_reachable vote_crypto vote_options demo_pbft"
proof -
  have receive: "pbft_reachable vote_crypto vote_options s \<Longrightarrow> pbft_reachable vote_crypto vote_options (receive m s)" for m s
    by (cases "pm_phase m") (auto simp: receive_def intro: reach_step pbft_step.intros)
  have "pbft_reachable vote_crypto vote_options s \<Longrightarrow> pbft_reachable vote_crypto vote_options (fold receive ms s)" for ms s
    by (induction ms arbitrary: s) (simp_all add: receive)
  moreover have "pbft_reachable vote_crypto vote_options (projr (pbft_new vote_options))"
    by (rule reach_new) (simp add: pbft_new_def vote_options_def)
  ultimately show ?thesis unfolding demo_pbft_def by blast
qed

definition ready :: "pbft \<Rightarrow> bool" where
  "ready s \<longleftrightarrow> pf_replicaSet s = px_replicaSet vote_options \<and> pf_publicKeys s = px_replicaPublicKeys vote_options
     \<and> pf_threshold s = 2"

lemma vote_simps [simp]:
  "pm_proposalId (vote p n ph v) = p" "pm_nodeId (vote p n ph v) = n" "pm_phase (vote p n ph v) = ph"
  "pm_viewNo (vote p n ph v) = v" "pm_signature (vote p n ph v) = ''ab''" "vote_key (vote p n ph v) = (n, ph, v)"
  by (simp_all add: vote_def vote_key_def)

definition valid_vote :: "pbft_message \<Rightarrow> bool" where
  "valid_vote m \<longleftrightarrow> pm_nodeId m \<in> {''r1'', ''r2'', ''r3''} \<and> pm_phase m \<noteq> View_change \<and> pm_signature m = ''ab''"

lemma receive_vote:
  assumes "ready s" "valid_vote m" "vote_key m \<notin> vote_key ` set (log_at (pm_proposalId m) s)"
  shows "ready (receive m s)"
    "log_at q (receive m s) = (if q = pm_proposalId m then log_at q s @ [m] else log_at q s)"
proof -
  have "receive m s = out_state (pbft_append vote_crypto m (pm_phase m) s)"
    using assms(2) by (cases "pm_phase m") (simp_all add: receive_def valid_vote_def onPrepare_def onCommit_def onPrePrepare_def)
  moreover have g: "genuine vote_crypto s m"
    using assms(1,2) by (auto simp: genuine_def valid_vote_def ready_def vote_options_def verifyPbftMessageSignature_def vote_crypto_def
        key_of_def is_hex_def hex_val_def)
  ultimately have "receive m s = s\<lparr>pf_log := (pf_log s)(pm_proposalId m \<mapsto> log_at (pm_proposalId m) s @ [m])\<rparr>"
    using assms(3) genuine_accepted [OF g] by (cases rule: append_cases [of vote_crypto m "pm_phase m" s]) auto
  then show "ready (receive m s)"
    "log_at q (receive m s) = (if q = pm_proposalId m then log_at q s @ [m] else log_at q s)"
    using assms(1) by (simp_all add: ready_def log_at_def)
qed

lemma receive_all:
  assumes "ready s" "\<forall>m\<in>set ms. valid_vote m" "distinct (map (\<lambda>m. (pm_proposalId m, vote_key m)) ms)"
    "\<forall>m\<in>set ms. vote_key m \<notin> vote_key ` set (log_at (pm_proposalId m) s)"
  shows "ready (fold receive ms s) \<and> log_at q (fold receive ms s) = log_at q s @ filter (\<lambda>m. pm_proposalId m = q) ms"
  using assms
proof (induction ms arbitrary: s)
  case (Cons m ms)
  have r: "ready (receive m s)" and at': "log_at p (receive m s) = (if p = pm_proposalId m then log_at p s @ [m] else log_at p s)" for p
    using receive_vote [of s m] Cons.prems by simp_all
  have "ready (fold receive ms (receive m s)) \<and> log_at q (fold receive ms (receive m s))
      = log_at q (receive m s) @ filter (\<lambda>m. pm_proposalId m = q) ms"
  proof (rule Cons.IH [OF r])
    show "\<forall>k\<in>set ms. vote_key k \<notin> vote_key ` set (log_at (pm_proposalId k) (receive m s))"
    proof
      fix k assume "k \<in> set ms"
      then have "(pm_proposalId m, vote_key m) \<noteq> (pm_proposalId k, vote_key k)" using Cons.prems(3) by (metis (mono_tags, lifting)
            distinct.simps(2) image_eqI image_set list.map(2))
      with Cons.prems(4) \<open>k \<in> set ms\<close> show "vote_key k \<notin> vote_key ` set (log_at (pm_proposalId k) (receive m s))"
        by (simp add: at') metis
    qed
  qed (use Cons.prems in simp_all)
  then show ?case by (simp add: at')
qed simp

lemma demo_pbft_state:
  "ready demo_pbft"
  "log_at ''p'' demo_pbft = [vote ''p'' ''r1'' Pre_prepare 0, vote ''p'' ''r1'' Prepare 0, vote ''p'' ''r2'' Prepare 1,
      vote ''p'' ''r1'' Commit 0, vote ''p'' ''r3'' Commit 1]"
  "log_at ''q'' demo_pbft = [vote ''q'' ''r1'' Pre_prepare 0, vote ''q'' ''r2'' Prepare 0, vote ''q'' ''r3'' Prepare 0,
      vote ''q'' ''r2'' Commit 0, vote ''q'' ''r3'' Commit 0]"
proof -
  let ?s = "projr (pbft_new vote_options)"
  have new: "ready ?s" "log_at p ?s = []" for p
    by (simp_all add: ready_def pbft_new_def vote_options_def log_at_def)
  have "ready demo_pbft \<and> log_at q demo_pbft = log_at q ?s @ filter (\<lambda>m. pm_proposalId m = q)
     [vote ''p'' ''r1'' Pre_prepare 0, vote ''p'' ''r1'' Prepare 0, vote ''p'' ''r2'' Prepare 1, vote ''p'' ''r1'' Commit 0,
      vote ''p'' ''r3'' Commit 1, vote ''q'' ''r1'' Pre_prepare 0, vote ''q'' ''r2'' Prepare 0, vote ''q'' ''r3'' Prepare 0,
      vote ''q'' ''r2'' Commit 0, vote ''q'' ''r3'' Commit 0]" for q
    unfolding demo_pbft_def by (rule receive_all [OF new(1)]) (simp_all add: valid_vote_def new)
  then show "ready demo_pbft"
  "log_at ''p'' demo_pbft = [vote ''p'' ''r1'' Pre_prepare 0, vote ''p'' ''r1'' Prepare 0, vote ''p'' ''r2'' Prepare 1,
      vote ''p'' ''r1'' Commit 0, vote ''p'' ''r3'' Commit 1]"
  "log_at ''q'' demo_pbft = [vote ''q'' ''r1'' Pre_prepare 0, vote ''q'' ''r2'' Prepare 0, vote ''q'' ''r3'' Prepare 0,
      vote ''q'' ''r2'' Commit 0, vote ''q'' ''r3'' Commit 0]"
    by (simp_all add: new)
qed

lemma demo_pbft_commits: "commitIfThreshold ''p'' demo_pbft" "commitIfThreshold ''q'' demo_pbft"
proof -
  have "pf_threshold demo_pbft = 2" using demo_pbft_state(1) by (simp add: ready_def)
  then show "commitIfThreshold ''p'' demo_pbft" "commitIfThreshold ''q'' demo_pbft"
    by (simp_all add: commitIfThreshold_def Let_def demo_pbft_state voters_def)
qed


lemma nonempty_member: "A \<noteq> {} \<Longrightarrow> (\<And>x. x \<in> A \<Longrightarrow> P) \<Longrightarrow> P"
  by blast

lemma bex_forget: "\<exists>x\<in>A. P x \<and> Q x \<Longrightarrow> \<exists>x\<in>A. Q x"
  by blast

text \<open>C37: A proposal is committed only if a pre-prepare is logged for it and at least the threshold many distinct replicas have each
  signed a prepare for it, and as many a commit.\<close>

theorem commit_needs_quorum:
  assumes "pbft_reachable C options s" "commitIfThreshold p s"
  shows "\<exists>ps cs. ps \<subseteq> set (px_replicaSet options) \<and> cs \<subseteq> set (px_replicaSet options)
    \<and> px_threshold options \<le> int (card ps) \<and> px_threshold options \<le> int (card cs)
    \<and> (\<forall>n\<in>ps. \<exists>m\<in>set (log_at p s). pm_nodeId m = n \<and> pm_phase m = Prepare \<and> genuine C s m)
    \<and> (\<forall>n\<in>cs. \<exists>m\<in>set (log_at p s). pm_nodeId m = n \<and> pm_phase m = Commit \<and> genuine C s m)
    \<and> (\<exists>m\<in>set (log_at p s). pm_phase m = Pre_prepare \<and> genuine C s m)"
proof -
  have inv: "pbft_inv C s" and t: "pf_threshold s = px_threshold options" and r: "pf_replicaSet s = px_replicaSet options"
    using pbft_reachable_inv [OF assms(1)] by simp_all
  then have gen: "\<forall>m\<in>set (log_at p s). genuine C s m" by (simp add: pbft_inv_def)
  then have sub: "voter_set phase p s \<subseteq> set (px_replicaSet options)" for phase
    by (auto simp: voter_set_def genuine_def r)
  have c: "voter_set Pre_prepare p s \<noteq> {}" "px_threshold options \<le> int (card (voter_set Prepare p s))"
    "px_threshold options \<le> int (card (voter_set Commit p s))"
    using assms(2) t by (simp_all add: commit_iff)
  have voted: "\<exists>m\<in>set (log_at p s). pm_nodeId m = n \<and> pm_phase m = phase \<and> genuine C s m"
    if "n \<in> voter_set phase p s" for n phase
    using that by (rule voterE) (use gen in \<open>auto intro!: bexI\<close>)
  obtain l where "l \<in> voter_set Pre_prepare p s" using c(1) by (rule nonempty_member)
  from voted [OF this] have "\<exists>m\<in>set (log_at p s). pm_phase m = Pre_prepare \<and> genuine C s m" by (rule bex_forget)
  then show ?thesis using sub [of Prepare] sub [of Commit] c(2,3) voted
    by (intro exI [of _ "voter_set Prepare p s"] exI [of _ "voter_set Commit p s"] conjI ballI) simp_all
qed

theorem commit_needs_quorum_witness:
  "\<exists>cs. cs \<subseteq> {''r1'', ''r2'', ''r3''} \<and> 2 \<le> int (card cs)
    \<and> cs \<subseteq> pm_nodeId ` {m \<in> set (log_at ''p'' demo_pbft). pm_phase m = Commit}"
proof -
  have c: "px_threshold vote_options = 2" "set (px_replicaSet vote_options) = {''r1'', ''r2'', ''r3''}"
    by (simp_all add: vote_options_def)
  obtain cs where "cs \<subseteq> {''r1'', ''r2'', ''r3''}" "2 \<le> int (card cs)"
    "\<forall>n\<in>cs. \<exists>m\<in>set (log_at ''p'' demo_pbft). pm_nodeId m = n \<and> pm_phase m = Commit \<and> genuine vote_crypto demo_pbft m"
    using commit_needs_quorum [OF demo_pbft_reachable demo_pbft_commits(1), unfolded c] by (elim exE conjE)
  moreover from this(3) have "cs \<subseteq> pm_nodeId ` {m \<in> set (log_at ''p'' demo_pbft). pm_phase m = Commit}" by force
  ultimately show ?thesis by (intro exI [of _ cs] conjI)
qed

text \<open>With a threshold above half of the replicas, any two committed proposals have a replica in common that signed a commit for
  both: agreement rests on that replica not signing conflicting proposals.\<close>

theorem commits_share_replica:
  assumes "pbft_reachable C options s" "commitIfThreshold p s" "commitIfThreshold q s"
    and "int (card (set (px_replicaSet options))) < 2 * px_threshold options"
  shows "\<exists>n\<in>set (px_replicaSet options). \<exists>m\<in>set (log_at p s). \<exists>m'\<in>set (log_at q s).
    pm_nodeId m = n \<and> pm_nodeId m' = n \<and> pm_phase m = Commit \<and> pm_phase m' = Commit"
proof -
  have inv: "pbft_inv C s" and t: "pf_threshold s = px_threshold options" and r: "pf_replicaSet s = px_replicaSet options"
    using pbft_reachable_inv [OF assms(1)] by simp_all
  have "majority (set (px_replicaSet options)) (px_threshold options) (voter_set Commit x s)" if "commitIfThreshold x s" for x
  proof -
    have "voter_set Commit x s \<subseteq> set (px_replicaSet options)"
      using inv unfolding pbft_inv_def genuine_def voter_set_def r by blast
    moreover have "px_threshold options \<le> int (card (voter_set Commit x s))" using that by (simp add: commit_iff t)
    ultimately show ?thesis using assms(4) by (simp add: majority_def)
  qed
  from majorities.common_voter [OF this [OF assms(2)] this [OF assms(3)]]
  obtain n where "n \<in> voter_set Commit p s" "n \<in> voter_set Commit q s" "n \<in> set (px_replicaSet options)" .
  then show ?thesis by (metis voterE)
qed

theorem commits_share_replica_witness:
  "\<exists>n. \<exists>m\<in>set (log_at ''p'' demo_pbft). \<exists>m'\<in>set (log_at ''q'' demo_pbft).
    pm_nodeId m = n \<and> pm_nodeId m' = n \<and> pm_phase m = Commit \<and> pm_phase m' = Commit"
proof -
  have "int (card (set (px_replicaSet vote_options))) < 2 * px_threshold vote_options" by (simp add: vote_options_def)
  from commits_share_replica [OF demo_pbft_reachable demo_pbft_commits this] show ?thesis by blast
qed

text \<open>A committed proposal stays committed, whatever is received afterwards and in whatever order.\<close>

theorem commit_is_stable:
  assumes "pbft_step C s s'" "commitIfThreshold p s"
  shows "commitIfThreshold p s'"
proof -
  have g: "grows s s'" by (rule step_state(2) [OF assms(1)])
  have mono: "card (voter_set phase p s) \<le> card (voter_set phase p s')" for phase
    by (rule card_mono [OF voter_set_finite voter_set_grows [OF g]])
  have "pf_threshold s' = pf_threshold s" using g by (simp add: grows_def)
  with assms(2) mono [of Prepare] mono [of Commit] voter_set_grows [OF g, of Pre_prepare p]
  show ?thesis by (auto simp: commit_iff)
qed

theorem commit_is_stable_witness:
  "commitIfThreshold ''p'' (out_state (onViewChange vote_crypto ''t'' ''r2'' demo_pbft))"
  by (rule commit_is_stable [OF step_view_change demo_pbft_commits(1)])

text \<open>The decision ignores the view: shifting every logged message to any other view, different ones for different messages, gives
  the same answer, so prepares and commits of different views are counted together.\<close>

theorem commit_ignores_view:
  "commitIfThreshold p (s\<lparr>pf_log := (\<lambda>q. map_option (map (\<lambda>m. m\<lparr>pm_viewNo := v m\<rparr>)) (pf_log s q))\<rparr>) = commitIfThreshold p s"
proof -
  let ?s = "s\<lparr>pf_log := (\<lambda>q. map_option (map (\<lambda>m. m\<lparr>pm_viewNo := v m\<rparr>)) (pf_log s q))\<rparr>"
  have "log_at p ?s = map (\<lambda>m. m\<lparr>pm_viewNo := v m\<rparr>) (log_at p s)"
    by (simp add: log_at_def split: option.split)
  then have "voters phase (log_at p ?s) = voters phase (log_at p s)" for phase
    by (simp add: voters_def filter_map comp_def)
  then have "voter_set phase p ?s = voter_set phase p s" for phase
    unfolding voters_set [symmetric] by simp
  then show ?thesis by (simp add: commit_iff)
qed

text \<open>Requesting a view change moves to the next view even when the node has no key and the request fails.\<close>

theorem view_change_advances:
  "pf_viewNo (out_state (onViewChange C now nodeId s)) = pf_viewNo s + 1
    \<and> (key_of (pf_privateKeys s) nodeId = [] \<longleftrightarrow>
        onViewChange C now nodeId s = Fail (Pbft_validation ''missing-private-key'') (s\<lparr>pf_viewNo := pf_viewNo s + 1\<rparr>))"
proof -
  have app: "pf_viewNo (out_state (pbft_append C m ph t)) = pf_viewNo t"
    "pbft_append C m ph t \<noteq> Fail (Pbft_validation ''missing-private-key'') t'" for m ph t t'
    by (auto simp: pbft_append_def Let_def split: option.split bool.split)
  have "pf_viewNo (out_state (and_then (pbft_append C m ph t) (\<lambda>_. Done x))) = pf_viewNo t" for m ph t and x :: pbft_message
    using app(1) [of m ph t] by (cases "pbft_append C m ph t") simp_all
  moreover have "and_then (pbft_append C m ph t) (\<lambda>_. Done x) \<noteq> Fail (Pbft_validation ''missing-private-key'') t'"
    for m ph t t' and x :: pbft_message
    using app(2) [of m ph t] by (cases "pbft_append C m ph t") (auto simp: pbft_append_def Let_def split: option.splits bool.splits if_splits)
  ultimately show ?thesis
    by (auto simp: onViewChange_def Let_def sign_and_append_def split: option.split)
qed

end
