(* ===== verification/Bridge_Sync.thy ===== *)
theory Bridge_Sync
  imports Crdt Core_Envelope Js_Time
begin

text \<open>
  \<open>packages/bridge/src/sync.ts\<close>: which of two versions of a document wins when the archive and a foreign system both changed
  it. \<open>leq a b\<close> stands for \<open>a.localeCompare(b) <= 0\<close>, as in the merge of edicts it calls.
\<close>

datatype conflict_strategy = Lww | Merge | Schism

record sync_resolution_input =
  si_local :: envelope
  si_remote :: envelope
  si_localClock :: vector_clock
  si_remoteClock :: vector_clock
  si_localHasImperialSeal :: bool
  si_remoteVerified :: bool
  si_strategy :: "conflict_strategy option"

datatype resolution_reason = Local_imperial | Vector_clock_reason | Lww_reason | Merge_reason | Schism_reason

record sync_resolution_result =
  sr_winner :: envelope
  sr_mergedClock :: vector_clock
  sr_schism :: bool                 \<comment> \<open>\<open>status\<close>: resolved or schism\<close>
  sr_reason :: resolution_reason

definition mergePayload :: "obj \<Rightarrow> obj \<Rightarrow> obj" where
  "mergePayload left right = obj_spread left right"

text \<open>\<open>left >= right\<close> is false when a date does not parse.\<close>

definition at_least :: "int option \<Rightarrow> int option \<Rightarrow> bool" where
  "at_least left right = (case (left, right) of (Some l, Some r) \<Rightarrow> r \<le> l | _ \<Rightarrow> False)"

definition edict_side :: "string \<Rightarrow> envelope \<Rightarrow> vector_clock \<Rightarrow> edict_like" where
  "edict_side nodeId m clock = \<lparr>el_id = e_id m, el_nodeId = nodeId, el_precedence = 0, el_clock = clock, el_payload = e_payload m\<rparr>"

definition resolveBridgeConflict :: "(string \<Rightarrow> string \<Rightarrow> bool) \<Rightarrow> sync_resolution_input \<Rightarrow> sync_resolution_result" where
  "resolveBridgeConflict leq i =
     (let result = \<lambda>winner schism reason. \<lparr>sr_winner = winner,
            sr_mergedClock = obj_spread (si_localClock i) (si_remoteClock i), sr_schism = schism, sr_reason = reason\<rparr>
      in
      if si_localHasImperialSeal i \<and> \<not> si_remoteVerified i then result (si_local i) False Local_imperial
      else
        (case compareVectorClock (si_localClock i) (si_remoteClock i) of
           Dominates \<Rightarrow> result (si_local i) False Vector_clock_reason
         | Dominated \<Rightarrow> result (si_remote i) False Vector_clock_reason
         | _ \<Rightarrow>
           (case (case si_strategy i of None \<Rightarrow> Lww | Some s \<Rightarrow> s) of
              Lww \<Rightarrow>
                (let left = ms_of_iso (e_submittedAt (si_local i)); right = ms_of_iso (e_submittedAt (si_remote i))
                 in result (if at_least left right then si_local i else si_remote i) False Lww_reason)
            | Merge \<Rightarrow>
                result ((si_local i)\<lparr>e_payload := mergePayload (e_payload (si_local i)) (e_payload (si_remote i))\<rparr>)
                  False Merge_reason
            | Schism \<Rightarrow>
                (let winner = mg_winner (mergeEdict leq (edict_side ''wenyan'' (si_local i) (si_localClock i))
                       (edict_side ''foreign'' (si_remote i) (si_remoteClock i)))
                 in result (if el_id winner = e_id (si_local i) then si_local i else si_remote i) True Schism_reason))))"

section \<open>Properties\<close>

lemma clock_at_spread:
  assumes "distinct (map fst b)"
  shows "clock_at (obj_spread a b) k = (if k \<in> fst ` set b then clock_at b k else clock_at a k)"
proof (cases "map_of b k")
  case None
  then have "map_of (rev b) k = None" "k \<notin> fst ` set b" by (auto simp: map_of_eq_None_iff)
  then show ?thesis by (simp add: clock_at_def map_of_obj_spread)
next
  case (Some v)
  then have "(k, v) \<in> set (rev b)" by (simp add: map_of_SomeD)
  moreover have "distinct (map fst (rev b))" using assms by (simp add: rev_map [symmetric])
  ultimately have "map_of (rev b) k = Some v" "k \<in> fst ` set b" by (auto intro: rev_image_eqI)
  with Some show ?thesis by (simp add: clock_at_def map_of_obj_spread)
qed

lemma result_clock: "sr_mergedClock (resolveBridgeConflict leq i) = obj_spread (si_localClock i) (si_remoteClock i)"
  by (simp add: resolveBridgeConflict_def Let_def split: vector_order.split option.split conflict_strategy.split)

text \<open>A document with the imperial seal is never replaced by a remote version that is not verified; otherwise the version whose
  clock is strictly above the other's wins whatever strategy is configured, and only when neither is above does the strategy decide.\<close>

theorem conflict_winner:
  "sr_winner (resolveBridgeConflict leq i) =
    (if si_localHasImperialSeal i \<and> \<not> si_remoteVerified i then si_local i
     else if clock_at (si_remoteClock i) < clock_at (si_localClock i) then si_local i
     else if clock_at (si_localClock i) < clock_at (si_remoteClock i) then si_remote i
     else case si_strategy i of
       Some Merge \<Rightarrow> (si_local i)\<lparr>e_payload := mergePayload (e_payload (si_local i)) (e_payload (si_remote i))\<rparr>
     | Some Schism \<Rightarrow> if leq ''wenyan'' ''foreign'' \<or> e_id (si_local i) = e_id (si_remote i) then si_local i else si_remote i
     | _ \<Rightarrow> if at_least (ms_of_iso (e_submittedAt (si_local i))) (ms_of_iso (e_submittedAt (si_remote i)))
            then si_local i else si_remote i)"
proof -
  have schism: "mg_winner (mergeEdict leq (edict_side ''wenyan'' (si_local i) (si_localClock i))
       (edict_side ''foreign'' (si_remote i) (si_remoteClock i)))
     = (if leq ''wenyan'' ''foreign'' then edict_side ''wenyan'' (si_local i) (si_localClock i)
        else edict_side ''foreign'' (si_remote i) (si_remoteClock i))"
    if "compareVectorClock (si_localClock i) (si_remoteClock i) \<in> {Concurrent, Equal}"
    using that by (auto simp: mergeEdict_def edict_side_def Let_def)
  show ?thesis
    by (simp add: resolveBridgeConflict_def Let_def compare_pointwise less_le_not_le [where 'a = "string \<Rightarrow> int"] schism
        split: option.split conflict_strategy.split) (auto simp: edict_side_def compare_pointwise schism)
qed

text \<open>The clock recorded for the winner is the remote clock laid over the local one, not their maximum: it is below the local
  clock at every node where the remote clock lists a smaller counter, even when the local version wins.\<close>

theorem conflict_clock_regresses:
  assumes "distinct (map fst (si_remoteClock i))" "k \<in> fst ` set (si_remoteClock i)"
    "clock_at (si_remoteClock i) k < clock_at (si_localClock i) k"
  shows "clock_at (sr_mergedClock (resolveBridgeConflict leq i)) k < clock_at (si_localClock i) k"
  using assms by (simp add: result_clock clock_at_spread)

definition demo_conflict :: sync_resolution_input where
  "demo_conflict = (let m = \<lparr>e_id = ''d'', e_genre = ''memo'', e_payload = [], e_actor_id = ''a'', e_actor_role = ''clerk'',
       e_submittedAt = ''2024-01-01T00:00:00.000Z'', e_metadata = []\<rparr>
     in \<lparr>si_local = m, si_remote = m\<lparr>e_actor_id := ''b''\<rparr>, si_localClock = [(''x'', 2)], si_remoteClock = [(''x'', 1)],
         si_localHasImperialSeal = False, si_remoteVerified = True, si_strategy = None\<rparr>)"

theorem conflict_clock_regresses_witness:
  "sr_winner (resolveBridgeConflict (\<le>) demo_conflict) = si_local demo_conflict
    \<and> clock_at (sr_mergedClock (resolveBridgeConflict (\<le>) demo_conflict)) ''x'' < clock_at (si_localClock demo_conflict) ''x''"
proof -
  have "compareVectorClock [(''x'', 2)] [(''x'', 1)] = Dominates" by (simp add: compareVectorClock_def Let_def clock_at_def)
  then have "sr_winner (resolveBridgeConflict (\<le>) demo_conflict) = si_local demo_conflict"
    by (simp add: resolveBridgeConflict_def demo_conflict_def Let_def)
  moreover have "clock_at (sr_mergedClock (resolveBridgeConflict (\<le>) demo_conflict)) ''x'' < clock_at (si_localClock demo_conflict) ''x''"
    by (rule conflict_clock_regresses) (simp_all add: demo_conflict_def Let_def clock_at_def)
  ultimately show ?thesis ..
qed

end
