(* ===== verification/Core_Bootstrap.thy ===== *)
theory Core_Bootstrap
  imports Core_Envelope
begin

text \<open>
  \<open>packages/core/src/bootstrap.ts\<close>: the configuration of a node, parsed from JSON. The checks of \<open>z.string().url()\<close> and
  \<open>z.string().uuid()\<close> are the parameters \<open>url\<close> and \<open>uuid\<close>; \<open>toml\<close> is the parser of \<open>smol-toml\<close>, \<open>None\<close> where it throws. A default
  of an object is taken as it is written, without being parsed, and a refinement runs on a value that has parsed.
\<close>

section \<open>Enumerations and numbers\<close>

definition z_enum :: "(string \<times> 'a) list \<Rightarrow> json \<Rightarrow> 'a option" where
  "z_enum table j = (case j of JStr s \<Rightarrow> map_of table s | _ \<Rightarrow> None)"

fun z_number :: "json \<Rightarrow> rat option" where
  "z_number (JNum m e) = Some (of_int m / 10 ^ e)"
| "z_number _ = None"

definition z_string_if :: "(string \<Rightarrow> bool) \<Rightarrow> json \<Rightarrow> string option" where
  "z_string_if p j = (case z_string j of Some s \<Rightarrow> if p s then Some s else None | None \<Rightarrow> None)"

definition z_array1 :: "(json \<Rightarrow> 'a option) \<Rightarrow> json \<Rightarrow> 'a list option" where
  "z_array1 p j = (case z_array p j of Some (x # xs) \<Rightarrow> Some (x # xs) | _ \<Rightarrow> None)"

datatype archive_engine = Sqlite | Cloudflare
datatype distributed_mode = Single | Consort
datatype consensus_kind = No_consensus | Pbft
datatype jwt_alg = HS256 | EdDSA
datatype bridge_mode = Embedded | Standalone
datatype bridge_protocol = Nats | Kafka | Mqtt | Erp | Payroll | Regulatory
datatype sync_mode = Poll | Push | Hybrid

fun protocol_str :: "bridge_protocol \<Rightarrow> string" where
  "protocol_str Nats = ''nats''"
| "protocol_str Kafka = ''kafka''"
| "protocol_str Mqtt = ''mqtt''"
| "protocol_str Erp = ''erp''"
| "protocol_str Payroll = ''payroll''"
| "protocol_str Regulatory = ''regulatory''"

definition DistributedModeSchema :: "json \<Rightarrow> distributed_mode option" where
  "DistributedModeSchema = z_enum [(''single'', Single), (''consort'', Consort)]"

definition ConsensusKindSchema :: "json \<Rightarrow> consensus_kind option" where
  "ConsensusKindSchema = z_enum [(''none'', No_consensus), (''pbft'', Pbft)]"

definition BridgeModeSchema :: "json \<Rightarrow> bridge_mode option" where
  "BridgeModeSchema = z_enum [(''embedded'', Embedded), (''standalone'', Standalone)]"

definition BridgeProtocolSchema :: "json \<Rightarrow> bridge_protocol option" where
  "BridgeProtocolSchema = z_enum (map (\<lambda>p. (protocol_str p, p)) [Nats, Kafka, Mqtt, Erp, Payroll, Regulatory])"

definition BridgeSyncModeSchema :: "json \<Rightarrow> sync_mode option" where
  "BridgeSyncModeSchema = z_enum [(''poll'', Poll), (''push'', Push), (''hybrid'', Hybrid)]"

text \<open>\<open>compat\<close> is true, \<open>strict\<close> is false.\<close>

definition BridgeMetadataModeSchema :: "json \<Rightarrow> bool option" where
  "BridgeMetadataModeSchema = z_enum [(''strict'', False), (''compat'', True)]"

text \<open>The only mode of the law.\<close>

definition LawModeSchema :: "json \<Rightarrow> unit option" where
  "LawModeSchema = z_enum [(''strict'', ())]"

section \<open>Archive, genesis, gateway, law\<close>

record archive_config =
  cf_engine :: archive_engine
  cf_path :: string

definition ArchiveConfigSchema :: "json \<Rightarrow> archive_config option" where
  "ArchiveConfigSchema j = do {
     ob \<leftarrow> z_record j;
     e \<leftarrow> z_field ob ''engine'' (z_enum [(''sqlite'', Sqlite), (''cloudflare'', Cloudflare)]);
     p \<leftarrow> z_field ob ''path'' z_string1;
     Some \<lparr>cf_engine = e, cf_path = p\<rparr> }"

record genesis_config =
  cf_node_id :: string
  cf_genesis_key :: string

definition GenesisConfigSchema :: "(string \<Rightarrow> bool) \<Rightarrow> json \<Rightarrow> genesis_config option" where
  "GenesisConfigSchema uuid j = do {
     ob \<leftarrow> z_record j;
     n \<leftarrow> z_field ob ''node_id'' (z_string_if uuid);
     k \<leftarrow> z_field ob ''genesis_key'' z_string1;
     Some \<lparr>cf_node_id = n, cf_genesis_key = k\<rparr> }"

record gateway_config =
  cf_host :: string
  cf_port :: nat
  cf_upstream :: "string option"

definition GatewayListenSchema :: "json \<Rightarrow> (string \<times> nat) option" where
  "GatewayListenSchema j = do {
     ob \<leftarrow> z_record j;
     h \<leftarrow> z_field ob ''host'' z_string1;
     p \<leftarrow> z_field ob ''port'' z_positive;
     Some (h, p) }"

definition GatewayConfigSchema :: "(string \<Rightarrow> bool) \<Rightarrow> json \<Rightarrow> gateway_config option" where
  "GatewayConfigSchema url j = do {
     ob \<leftarrow> z_record j;
     l \<leftarrow> z_field ob ''listen'' GatewayListenSchema;
     u \<leftarrow> z_optional ob ''upstream'' (z_string_if url);
     _ \<leftarrow> z_default ob ''stream_mode'' () (z_enum [(''sse'', ())]);
     Some \<lparr>cf_host = fst l, cf_port = snd l, cf_upstream = u\<rparr> }"

definition LawConfigSchema :: "json \<Rightarrow> unit option" where
  "LawConfigSchema j = do { ob \<leftarrow> z_record j; z_default ob ''mode'' () LawModeSchema }"

record law_cache_config =
  cf_ttl_seconds :: nat
  cf_preload_types :: "law_type list"

definition LawCacheConfigSchema :: "json \<Rightarrow> law_cache_config option" where
  "LawCacheConfigSchema j = do {
     ob \<leftarrow> z_record j;
     t \<leftarrow> z_default ob ''ttl_seconds'' 60 z_positive;
     p \<leftarrow> z_default ob ''preload_types'' [Appointment, Classification] (z_array (\<lambda>x. Option.bind (z_string x) law_type_of));
     Some \<lparr>cf_ttl_seconds = t, cf_preload_types = p\<rparr> }"

section \<open>Distribution, consensus, authentication, synchronisation\<close>

record distributed_config =
  cf_mode :: distributed_mode
  cf_local_node :: string
  cf_bind_gossip :: string
  cf_seeds :: "string list"
  cf_fanout :: nat
  cf_suspicion_timeout_ms :: nat

definition DistributedConfigSchema :: "json \<Rightarrow> distributed_config option" where
  "DistributedConfigSchema j = do {
     ob \<leftarrow> z_record j;
     m \<leftarrow> z_default ob ''mode'' Single DistributedModeSchema;
     n \<leftarrow> z_default ob ''node_id'' ''local-node'' z_string1;
     b \<leftarrow> z_default ob ''bind_gossip'' ''127.0.0.1:7946'' z_string1;
     s \<leftarrow> z_default ob ''seeds'' [] (z_array z_string1);
     f \<leftarrow> z_default ob ''fanout'' 3 z_positive;
     t \<leftarrow> z_default ob ''suspicion_timeout_ms'' 5000 z_positive;
     Some \<lparr>cf_mode = m, cf_local_node = n, cf_bind_gossip = b, cf_seeds = s, cf_fanout = f, cf_suspicion_timeout_ms = t\<rparr> }"

record consensus_config =
  cf_kind :: consensus_kind
  cf_replica_set :: "string list"
  cf_constitutional_threshold :: nat
  cf_view_change_timeout_ms :: nat
  cf_allow_single_replica :: bool

definition ConsensusConfigSchema :: "json \<Rightarrow> consensus_config option" where
  "ConsensusConfigSchema j = do {
     ob \<leftarrow> z_record j;
     k \<leftarrow> z_default ob ''kind'' No_consensus ConsensusKindSchema;
     r \<leftarrow> z_default ob ''replica_set'' [] (z_array z_string1);
     t \<leftarrow> z_default ob ''constitutional_threshold'' 3 z_positive;
     v \<leftarrow> z_default ob ''view_change_timeout_ms'' 5000 z_positive;
     a \<leftarrow> z_default ob ''allow_single_replica'' False z_bool;
     Some \<lparr>cf_kind = k, cf_replica_set = r, cf_constitutional_threshold = t, cf_view_change_timeout_ms = v,
       cf_allow_single_replica = a\<rparr> }"

record auth_config =
  cf_jwt_issuer :: string
  cf_jwt_audience :: string
  cf_jwt_alg :: jwt_alg
  cf_jwt_secret :: "string option"
  cf_jwt_public_keys :: "(string \<times> string) list option"
  cf_allow_header_actor :: bool

text \<open>The \<open>superRefine\<close> of the section: the algorithm has its key.\<close>

definition auth_refined :: "auth_config \<Rightarrow> bool" where
  "auth_refined a \<longleftrightarrow>
     \<not> (cf_jwt_alg a = HS256 \<and> (case cf_jwt_secret a of None \<Rightarrow> True | Some s \<Rightarrow> s = []))
     \<and> \<not> (cf_jwt_alg a = EdDSA \<and> (case cf_jwt_public_keys a of None \<Rightarrow> True | Some ks \<Rightarrow> ks = []))"

definition AuthConfigSchema :: "json \<Rightarrow> auth_config option" where
  "AuthConfigSchema j = do {
     ob \<leftarrow> z_record j;
     i \<leftarrow> z_default ob ''jwt_issuer'' ''wenyan.local'' z_string1;
     u \<leftarrow> z_default ob ''jwt_audience'' ''wenyan-gateway'' z_string1;
     l \<leftarrow> z_default ob ''jwt_alg'' HS256 (z_enum [(''HS256'', HS256), (''EdDSA'', EdDSA)]);
     s \<leftarrow> z_optional ob ''jwt_secret'' z_string1;
     k \<leftarrow> z_optional ob ''jwt_public_keys'' (z_record_of z_string1);
     h \<leftarrow> z_default ob ''allow_header_actor'' False z_bool;
     (let a = \<lparr>cf_jwt_issuer = i, cf_jwt_audience = u, cf_jwt_alg = l, cf_jwt_secret = s, cf_jwt_public_keys = k,
          cf_allow_header_actor = h\<rparr>
      in if auth_refined a then Some a else None) }"

record peer_sync_config =
  cf_batch_size :: nat
  cf_max_inflight :: nat
  cf_retry_backoff_ms :: nat

definition SyncConfigSchema :: "json \<Rightarrow> peer_sync_config option" where
  "SyncConfigSchema j = do {
     ob \<leftarrow> z_record j;
     b \<leftarrow> z_default ob ''batch_size'' 200 z_positive;
     m \<leftarrow> z_default ob ''max_inflight'' 4 z_positive;
     r \<leftarrow> z_default ob ''retry_backoff_ms'' 300 z_positive;
     Some \<lparr>cf_batch_size = b, cf_max_inflight = m, cf_retry_backoff_ms = r\<rparr> }"

section \<open>Bridge\<close>

record adapter_base =
  ab_id :: string
  ab_target_genre :: string
  ab_trust_provenance :: bool
  ab_metadata_compat :: bool

datatype bridge_adapter_config =
    Nats_config adapter_base string "string list" string         \<comment> \<open>url, subject pattern, idempotency header\<close>
  | Kafka_config adapter_base "string list" "string list" string  \<comment> \<open>brokers, topics, consumer group\<close>
  | Mqtt_config adapter_base string "string list" nat             \<comment> \<open>url, topics, qos\<close>
  | Erp_config adapter_base string string                         \<comment> \<open>endpoint, path\<close>
  | Payroll_config adapter_base string string                     \<comment> \<open>endpoint, webhook path\<close>
  | Regulatory_config adapter_base string string                  \<comment> \<open>url, topic\<close>

fun config_base :: "bridge_adapter_config \<Rightarrow> adapter_base" where
  "config_base (Nats_config b _ _ _) = b"
| "config_base (Kafka_config b _ _ _) = b"
| "config_base (Mqtt_config b _ _ _) = b"
| "config_base (Erp_config b _ _) = b"
| "config_base (Payroll_config b _ _) = b"
| "config_base (Regulatory_config b _ _) = b"

fun config_protocol :: "bridge_adapter_config \<Rightarrow> bridge_protocol" where
  "config_protocol (Nats_config _ _ _ _) = Nats"
| "config_protocol (Kafka_config _ _ _ _) = Kafka"
| "config_protocol (Mqtt_config _ _ _ _) = Mqtt"
| "config_protocol (Erp_config _ _ _) = Erp"
| "config_protocol (Payroll_config _ _ _) = Payroll"
| "config_protocol (Regulatory_config _ _ _) = Regulatory"

definition BaseBridgeAdapterConfigSchema :: "obj \<Rightarrow> adapter_base option" where
  "BaseBridgeAdapterConfigSchema ob = do {
     i \<leftarrow> z_field ob ''id'' z_string1;
     g \<leftarrow> z_field ob ''target_genre'' z_string1;
     t \<leftarrow> z_default ob ''trust_provenance'' False z_bool;
     m \<leftarrow> z_default ob ''metadata_mode'' False BridgeMetadataModeSchema;
     Some \<lparr>ab_id = i, ab_target_genre = g, ab_trust_provenance = t, ab_metadata_compat = m\<rparr> }"

definition z_qos :: "json \<Rightarrow> nat option" where
  "z_qos j = (case z_int j of Some i \<Rightarrow> if 0 \<le> i \<and> i \<le> 2 then Some (nat i) else None | None \<Rightarrow> None)"

text \<open>The discriminated union chooses by \<open>protocol\<close>.\<close>

definition adapter_fields :: "(string \<Rightarrow> bool) \<Rightarrow> obj \<Rightarrow> adapter_base \<Rightarrow> bridge_protocol \<Rightarrow> bridge_adapter_config option" where
  "adapter_fields url ob b p =
     (case p of
        Nats \<Rightarrow> do {
          u \<leftarrow> z_field ob ''url'' z_string1;
          s \<leftarrow> z_field ob ''subject_pattern'' (z_array1 z_string1);
          h \<leftarrow> z_default ob ''idempotency_header'' ''Nats-Msg-Id'' z_string1;
          Some (Nats_config b u s h) }
      | Kafka \<Rightarrow> do {
          k \<leftarrow> z_field ob ''brokers'' (z_array1 z_string1);
          t \<leftarrow> z_field ob ''topics'' (z_array1 z_string1);
          c \<leftarrow> z_field ob ''consumer_group'' z_string1;
          Some (Kafka_config b k t c) }
      | Mqtt \<Rightarrow> do {
          u \<leftarrow> z_field ob ''url'' z_string1;
          t \<leftarrow> z_field ob ''topics'' (z_array1 z_string1);
          q \<leftarrow> z_default ob ''qos'' 1 z_qos;
          Some (Mqtt_config b u t q) }
      | Erp \<Rightarrow> do {
          e \<leftarrow> z_field ob ''endpoint'' (z_string_if url);
          x \<leftarrow> z_default ob ''path'' ''/purchase-orders'' z_string1;
          Some (Erp_config b e x) }
      | Payroll \<Rightarrow> do {
          e \<leftarrow> z_field ob ''endpoint'' (z_string_if url);
          x \<leftarrow> z_default ob ''webhook_path'' ''/webhooks/payroll'' z_string1;
          Some (Payroll_config b e x) }
      | Regulatory \<Rightarrow> do {
          u \<leftarrow> z_field ob ''url'' z_string1;
          x \<leftarrow> z_default ob ''topic'' ''regulatory/safety'' z_string1;
          Some (Regulatory_config b u x) })"

definition BridgeAdapterConfigSchema :: "(string \<Rightarrow> bool) \<Rightarrow> json \<Rightarrow> bridge_adapter_config option" where
  "BridgeAdapterConfigSchema url j = do {
     ob \<leftarrow> z_record j;
     p \<leftarrow> z_field ob ''protocol'' BridgeProtocolSchema;
     b \<leftarrow> BaseBridgeAdapterConfigSchema ob;
     adapter_fields url ob b p }"

record bridge_sync_config =
  cf_sync_mode :: sync_mode
  cf_poll_interval_ms :: nat
  cf_sync_batch_size :: nat

definition BridgeSyncConfigSchema :: "json \<Rightarrow> bridge_sync_config option" where
  "BridgeSyncConfigSchema j = do {
     ob \<leftarrow> z_record j;
     m \<leftarrow> z_default ob ''mode'' Hybrid BridgeSyncModeSchema;
     p \<leftarrow> z_default ob ''poll_interval_ms'' 1000 z_positive;
     b \<leftarrow> z_default ob ''batch_size'' 100 z_positive;
     Some \<lparr>cf_sync_mode = m, cf_poll_interval_ms = p, cf_sync_batch_size = b\<rparr> }"

record circuit_breaker_config =
  cf_failure_rate_threshold :: rat
  cf_cool_down_ms :: nat
  cf_max_retries :: nat

definition z_rate :: "json \<Rightarrow> rat option" where
  "z_rate j = (case z_number j of Some r \<Rightarrow> if 0 < r \<and> r \<le> 1 then Some r else None | None \<Rightarrow> None)"

definition BridgeCircuitBreakerSchema :: "json \<Rightarrow> circuit_breaker_config option" where
  "BridgeCircuitBreakerSchema j = do {
     ob \<leftarrow> z_record j;
     f \<leftarrow> z_default ob ''failure_rate_threshold'' (5 / 100) z_rate;
     c \<leftarrow> z_default ob ''cool_down_ms'' 30000 z_positive;
     m \<leftarrow> z_default ob ''max_retries'' 10 z_nonneg;
     Some \<lparr>cf_failure_rate_threshold = f, cf_cool_down_ms = c, cf_max_retries = m\<rparr> }"

record bridge_section =
  cf_enabled :: bool
  cf_bridge_mode :: bridge_mode
  cf_adapters :: "bridge_adapter_config list"
  cf_bridge_sync :: bridge_sync_config
  cf_circuit_breaker :: circuit_breaker_config

definition default_bridge_sync :: bridge_sync_config where
  "default_bridge_sync = \<lparr>cf_sync_mode = Hybrid, cf_poll_interval_ms = 1000, cf_sync_batch_size = 100\<rparr>"

definition default_breaker :: circuit_breaker_config where
  "default_breaker = \<lparr>cf_failure_rate_threshold = 5 / 100, cf_cool_down_ms = 30000, cf_max_retries = 10\<rparr>"

text \<open>The \<open>superRefine\<close> of the section: adapter ids are unique.\<close>

definition bridge_refined :: "bridge_section \<Rightarrow> bool" where
  "bridge_refined b \<longleftrightarrow> distinct (map (\<lambda>a. ab_id (config_base a)) (cf_adapters b))"

definition BridgeConfigSchema :: "(string \<Rightarrow> bool) \<Rightarrow> json \<Rightarrow> bridge_section option" where
  "BridgeConfigSchema url j = do {
     ob \<leftarrow> z_record j;
     e \<leftarrow> z_default ob ''enabled'' False z_bool;
     m \<leftarrow> z_default ob ''mode'' Standalone BridgeModeSchema;
     a \<leftarrow> z_default ob ''adapters'' [] (z_array (BridgeAdapterConfigSchema url));
     s \<leftarrow> z_default ob ''sync'' default_bridge_sync BridgeSyncConfigSchema;
     c \<leftarrow> z_default ob ''circuit_breaker'' default_breaker BridgeCircuitBreakerSchema;
     (let b = \<lparr>cf_enabled = e, cf_bridge_mode = m, cf_adapters = a, cf_bridge_sync = s, cf_circuit_breaker = c\<rparr>
      in if bridge_refined b then Some b else None) }"

section \<open>The configuration\<close>

record bootstrap_config =
  cf_archive :: archive_config
  cf_genesis :: genesis_config
  cf_gateway :: gateway_config
  cf_auth :: auth_config
  cf_law_cache :: "law_cache_config option"
  cf_distributed :: distributed_config
  cf_consensus :: consensus_config
  cf_sync :: peer_sync_config
  cf_bridge :: bridge_section

definition default_auth :: auth_config where
  "default_auth = \<lparr>cf_jwt_issuer = ''wenyan.local'', cf_jwt_audience = ''wenyan-gateway'', cf_jwt_alg = HS256,
     cf_jwt_secret = Some ''wenyan-local-jwt-secret'', cf_jwt_public_keys = None, cf_allow_header_actor = False\<rparr>"

definition default_distributed :: distributed_config where
  "default_distributed = \<lparr>cf_mode = Single, cf_local_node = ''local-node'', cf_bind_gossip = ''127.0.0.1:7946'', cf_seeds = [],
     cf_fanout = 3, cf_suspicion_timeout_ms = 5000\<rparr>"

definition default_consensus :: consensus_config where
  "default_consensus = \<lparr>cf_kind = No_consensus, cf_replica_set = [], cf_constitutional_threshold = 3,
     cf_view_change_timeout_ms = 5000, cf_allow_single_replica = False\<rparr>"

definition default_sync :: peer_sync_config where
  "default_sync = \<lparr>cf_batch_size = 200, cf_max_inflight = 4, cf_retry_backoff_ms = 300\<rparr>"

definition default_bridge :: bridge_section where
  "default_bridge = \<lparr>cf_enabled = False, cf_bridge_mode = Standalone, cf_adapters = [], cf_bridge_sync = default_bridge_sync,
     cf_circuit_breaker = default_breaker\<rparr>"

definition config_refined :: "bootstrap_config \<Rightarrow> bool" where
  "config_refined c \<longleftrightarrow> \<not> (cf_mode (cf_distributed c) = Consort \<and> cf_kind (cf_consensus c) = Pbft
     \<and> cf_constitutional_threshold (cf_consensus c) < 2 \<and> \<not> cf_allow_single_replica (cf_consensus c))"

definition BootstrapConfigSchema :: "(string \<Rightarrow> bool) \<Rightarrow> (string \<Rightarrow> bool) \<Rightarrow> json \<Rightarrow> bootstrap_config option" where
  "BootstrapConfigSchema url uuid j = do {
     ob \<leftarrow> z_record j;
     a \<leftarrow> z_field ob ''archive'' ArchiveConfigSchema;
     g \<leftarrow> z_field ob ''genesis'' (GenesisConfigSchema uuid);
     w \<leftarrow> z_field ob ''gateway'' (GatewayConfigSchema url);
     u \<leftarrow> z_default ob ''auth'' default_auth AuthConfigSchema;
     _ \<leftarrow> z_default ob ''law'' () LawConfigSchema;
     l \<leftarrow> z_optional ob ''law_cache'' LawCacheConfigSchema;
     d \<leftarrow> z_default ob ''distributed'' default_distributed DistributedConfigSchema;
     c \<leftarrow> z_default ob ''consensus'' default_consensus ConsensusConfigSchema;
     s \<leftarrow> z_default ob ''sync'' default_sync SyncConfigSchema;
     b \<leftarrow> z_default ob ''bridge'' default_bridge (BridgeConfigSchema url);
     (let cfg = \<lparr>cf_archive = a, cf_genesis = g, cf_gateway = w, cf_auth = u, cf_law_cache = l, cf_distributed = d,
          cf_consensus = c, cf_sync = s, cf_bridge = b\<rparr>
      in if config_refined cfg then Some cfg else None) }"

definition parseBootstrapConfigToml :: "(string \<Rightarrow> bool) \<Rightarrow> (string \<Rightarrow> bool) \<Rightarrow> (string \<Rightarrow> json option) \<Rightarrow> string
    \<Rightarrow> bootstrap_config option" where
  "parseBootstrapConfigToml url uuid toml text' = Option.bind (toml text') (BootstrapConfigSchema url uuid)"

definition parseBootstrapConfig :: "(string \<Rightarrow> bool) \<Rightarrow> (string \<Rightarrow> bool) \<Rightarrow> json \<Rightarrow> bootstrap_config option" where
  "parseBootstrapConfig url uuid input = BootstrapConfigSchema url uuid input"

end
