(* ===== verification/Bridge_Adapters.thy ===== *)
theory Bridge_Adapters
  imports Core_Bootstrap Js_Time Seal_Crypto
begin

text \<open>
  \<open>packages/bridge/src/types.ts\<close> and \<open>adapters/*.ts\<close>: how a message of a foreign system becomes an envelope and back, for the six
  protocols. The payloads have the shape the adapters declare for them; \<open>now_ms\<close> is \<open>Date.now()\<close>. The broker connections are not
  modelled: an adapter is connected or not, and what NATS is handed to publish is recorded.
\<close>

section \<open>types.ts\<close>

record foreign_metadata =
  fm_protocol :: bridge_protocol
  fm_adapterId :: string
  fm_subjectOrTopic :: string
  fm_headers :: "(string \<times> string) list"
  fm_publisherId :: "string option"
  fm_timestampIso :: iso

text \<open>\<open>TranslationResult\<close>: the error with its code and message, or the document.\<close>

type_synonym translation = "(string \<times> string) + envelope"

text \<open>The part of an adapter's configuration that translation reads; \<open>trust_provenance\<close> and \<open>metadata_mode\<close> are optional in the
  input type of the schema.\<close>

record adapter_config =
  ac_id :: string
  ac_protocol :: bridge_protocol
  ac_target_genre :: string
  ac_trust_provenance :: "bool option"
  ac_metadata_compat :: "bool option"
  ac_idempotency_header :: "string option"

definition replace_char :: "char \<Rightarrow> char \<Rightarrow> string \<Rightarrow> string" where
  "replace_char a b s = map (\<lambda>c. if c = a then b else c) s"

definition bridge_actor :: "adapter_config \<Rightarrow> string" where
  "bridge_actor c = ''bridge:'' @ ac_id c"

definition foreign_document :: "adapter_config \<Rightarrow> string \<Rightarrow> obj \<Rightarrow> iso \<Rightarrow> obj \<Rightarrow> envelope" where
  "foreign_document c i payload at_iso metadata =
     \<lparr>e_id = i, e_genre = ac_target_genre c, e_payload = payload, e_actor_id = bridge_actor c, e_actor_role = ''bridge_adapter'',
      e_submittedAt = at_iso, e_metadata = metadata\<rparr>"

text \<open>\<open>trusted: this.config.trust_provenance\<close> is left out of the object when it is undefined; the adapters that write
  \<open>?? false\<close> pass \<open>Some\<close>.\<close>

definition foreign_meta :: "string \<Rightarrow> string \<Rightarrow> string \<Rightarrow> bool option \<Rightarrow> obj" where
  "foreign_meta key destination foreign trusted =
     [(''idempotency_key'', JStr key), (''routing'', JObj [(''destination'', JStr destination)]),
      (''provenance'', JObj ((''foreign'', JStr foreign) # (case trusted of None \<Rightarrow> [] | Some t \<Rightarrow> [(''trusted'', JBool t)])))]"

definition or_false :: "bool option \<Rightarrow> bool" where
  "or_false b = (case b of None \<Rightarrow> False | Some x \<Rightarrow> x)"

section \<open>adapters/nats.ts\<close>

record nats_payload =
  np_subject :: string
  np_data :: json
  np_headers :: "(string \<times> string) list"
  np_publisherId :: "string option"

definition nats_extractIdempotencyKey :: "adapter_config \<Rightarrow> nats_payload \<Rightarrow> foreign_metadata \<Rightarrow> string" where
  "nats_extractIdempotencyKey c p m =
     (let header = (case ac_idempotency_header c of None \<Rightarrow> ''Nats-Msg-Id'' | Some h \<Rightarrow> h)
      in case map_of (np_headers p) header of Some v \<Rightarrow> v
         | None \<Rightarrow> (case map_of (fm_headers m) header of Some v \<Rightarrow> v
           | None \<Rightarrow> np_subject p @ '':'' @ fm_timestampIso m))"

definition nats_into :: "adapter_config \<Rightarrow> int \<Rightarrow> nats_payload \<Rightarrow> foreign_metadata \<Rightarrow> translation" where
  "nats_into c now_ms p m =
     (case as_obj (Some (np_data p)) of
        None \<Rightarrow> Inl (''invalid-payload'', ''nats payload must be a JSON object'')
      | Some ob \<Rightarrow>
        (let idempotency = nats_extractIdempotencyKey c p m
         in Inr (foreign_document c (if idempotency = [] then ''nats-'' @ int_str now_ms else idempotency) ob (fm_timestampIso m)
              (foreign_meta idempotency (replace_char (CHR ''.'') (CHR ''/'') (np_subject p)) ''nats'' (ac_trust_provenance c)))))"

definition nats_verifyProvenance :: "adapter_config \<Rightarrow> foreign_metadata \<Rightarrow> bool" where
  "nats_verifyProvenance c m \<longleftrightarrow> or_false (ac_trust_provenance c) \<or> fm_publisherId m = Some ''attested''"

record nats_message =
  nm_subject :: string
  nm_headers :: "(string \<times> string) list"
  nm_data :: obj

text \<open>\<open>document.metadata?.routing?.destination\<close>, its first element when it is an array; \<open>replaceAll\<close> throws on what is no string.\<close>

definition nats_destination :: "envelope \<Rightarrow> json option" where
  "nats_destination d =
     (case obj_get (e_metadata d) ''routing'' of
        Some (JObj r) \<Rightarrow> (case obj_get r ''destination'' of
            Some (JArr xs) \<Rightarrow> first_row xs
          | x \<Rightarrow> x)
      | _ \<Rightarrow> None)"

definition nats_from :: "envelope \<Rightarrow> err + nats_message" where
  "nats_from d =
     (case nullish (nats_destination d) (JStr (e_genre d @ ''.events'')) of
        JStr dest \<Rightarrow> Inr \<lparr>nm_subject = replace_char (CHR ''/'') (CHR ''.'') dest,
            nm_headers = [(''Wenyan-Seal-6-Hash'', e_id d), (''Imperial-Authority'', ''true'')], nm_data = e_payload d\<rparr>
      | _ \<Rightarrow> Inl (Error_msg ''TypeError''))"

definition nats_reconcile :: "nats_message \<Rightarrow> envelope \<Rightarrow> nats_message" where
  "nats_reconcile local remote = local\<lparr>nm_data := e_payload remote\<rparr>"

text \<open>The connection: \<open>None\<close> before \<open>start\<close> and after \<open>stop\<close>, else what was published on it.\<close>

type_synonym nats_connection = "(string \<times> string) list option"

definition nats_publishOutbound :: "envelope \<Rightarrow> nats_connection \<Rightarrow> (nats_connection, string) out" where
  "nats_publishOutbound d nc =
     (case nc of None \<Rightarrow> Fail (Error_msg ''nats adapter not connected'') nc
      | Some sent \<Rightarrow>
        (case nats_from d of Inl e \<Rightarrow> Fail e nc
         | Inr mapped \<Rightarrow> Done (nm_subject mapped @ '':'' @ e_id d)
             (Some (sent @ [(nm_subject mapped, stringify (JObj (nm_data mapped)))]))))"

definition nats_health :: "nats_connection \<Rightarrow> bool \<times> string option" where
  "nats_health nc = (case nc of None \<Rightarrow> (False, Some ''not-connected'') | Some _ \<Rightarrow> (True, None))"

text \<open>\<open>handleMessage\<close>: a NATS header may list several values, of which the first is taken; a body that is no JSON text is wrapped.
  The result is what \<open>ctx.onInbound\<close> is called with.\<close>

definition nats_handleMessage :: "adapter_config \<Rightarrow> iso \<Rightarrow> string \<Rightarrow> (string \<times> string list) list \<Rightarrow> string
    \<Rightarrow> nats_payload \<times> foreign_metadata" where
  "nats_handleMessage c nowIso subject msg_headers text' =
     (let headers = fold (\<lambda>(k, vs) hs. obj_put k (case first_row vs of None \<Rightarrow> [] | Some v \<Rightarrow> v) hs) msg_headers [];
          parsed = (case json_parse text' of Some j \<Rightarrow> j | None \<Rightarrow> JObj [(''raw'', JStr text')])
      in (\<lparr>np_subject = subject, np_data = parsed, np_headers = headers, np_publisherId = None\<rparr>,
          \<lparr>fm_protocol = Nats, fm_adapterId = ac_id c, fm_subjectOrTopic = subject, fm_headers = headers, fm_publisherId = None,
           fm_timestampIso = nowIso\<rparr>))"

section \<open>adapters/kafka.ts\<close>

record kafka_payload =
  kp_topic :: string
  kp_partition :: int
  kp_offset :: string
  kp_key :: "string option"
  kp_value :: obj
  kp_headers :: "(string \<times> string) list"

definition kafka_extractIdempotencyKey :: "kafka_payload \<Rightarrow> string" where
  "kafka_extractIdempotencyKey p = kp_topic p @ '':'' @ int_str (kp_partition p) @ '':'' @ kp_offset p"

definition kafka_into :: "adapter_config \<Rightarrow> kafka_payload \<Rightarrow> foreign_metadata \<Rightarrow> translation" where
  "kafka_into c p m =
     (let key = kafka_extractIdempotencyKey p;
          base = foreign_meta key (kp_topic p @ ''/'' @ int_str (kp_partition p)) ''kafka'' (ac_trust_provenance c);
          extra = (if or_false (ac_metadata_compat c)
            then [(''kafka'', JObj [(''topic'', JStr (kp_topic p)), (''partition'', json_int (kp_partition p)),
                (''offset'', JStr (kp_offset p))])] else [])
      in Inr (foreign_document c key (kp_value p) (fm_timestampIso m) (base @ extra)))"

definition kafka_verifyProvenance :: "adapter_config \<Rightarrow> bool" where
  "kafka_verifyProvenance c = or_false (ac_trust_provenance c)"

definition kafka_from :: "int \<Rightarrow> envelope \<Rightarrow> kafka_payload" where
  "kafka_from now_ms d = \<lparr>kp_topic = e_genre d, kp_partition = 0, kp_offset = int_str now_ms, kp_key = None, kp_value = e_payload d,
     kp_headers = [(''Wenyan-Seal-6-Hash'', e_id d)]\<rparr>"

definition kafka_reconcile :: "kafka_payload \<Rightarrow> envelope \<Rightarrow> kafka_payload" where
  "kafka_reconcile local remote = local\<lparr>kp_value := e_payload remote\<rparr>"

definition kafka_publishOutbound :: "int \<Rightarrow> envelope \<Rightarrow> string" where
  "kafka_publishOutbound now_ms d =
     (let msg = kafka_from now_ms d in kp_topic msg @ '':'' @ int_str (kp_partition msg) @ '':'' @ kp_offset msg)"

text \<open>\<open>start\<close>, \<open>stop\<close> and \<open>health\<close> of the five adapters that hold a flag; \<open>what\<close> is the detail of the class.\<close>

definition flag_health :: "string \<Rightarrow> bool \<Rightarrow> bool \<times> string option" where
  "flag_health what running = (if running then (True, Some what) else (False, Some ''stopped''))"

definition kafka_simulateInbound :: "adapter_config \<Rightarrow> iso \<Rightarrow> kafka_payload \<Rightarrow> kafka_payload \<times> foreign_metadata" where
  "kafka_simulateInbound c nowIso p = (p, \<lparr>fm_protocol = Kafka, fm_adapterId = ac_id c, fm_subjectOrTopic = kp_topic p,
     fm_headers = kp_headers p, fm_publisherId = None, fm_timestampIso = nowIso\<rparr>)"

section \<open>adapters/mqtt.ts\<close>

record mqtt_payload =
  mq_topic :: string
  mq_payload :: obj
  mq_qos :: int
  mq_retain :: "bool option"
  mq_headers :: "(string \<times> string) list"

definition mqtt_extractIdempotencyKey :: "mqtt_payload \<Rightarrow> string" where
  "mqtt_extractIdempotencyKey p = mq_topic p @ '':'' @ stringify (JObj (mq_payload p))"

definition mqtt_into :: "adapter_config \<Rightarrow> mqtt_payload \<Rightarrow> foreign_metadata \<Rightarrow> translation" where
  "mqtt_into c p m =
     (let key = mqtt_extractIdempotencyKey p;
          base = foreign_meta key (replace_char (CHR ''/'') (CHR ''.'') (mq_topic p)) ''mqtt'' (ac_trust_provenance c);
          extra = (if or_false (ac_metadata_compat c)
            then [(''mqtt'', JObj [(''qos'', json_int (mq_qos p)), (''retain'', JBool (mq_retain p = Some True))])] else [])
      in Inr (foreign_document c key (mq_payload p) (fm_timestampIso m) (base @ extra)))"

definition mqtt_verifyProvenance :: "adapter_config \<Rightarrow> bool" where
  "mqtt_verifyProvenance c = or_false (ac_trust_provenance c)"

definition mqtt_from :: "envelope \<Rightarrow> mqtt_payload" where
  "mqtt_from d = \<lparr>mq_topic = replace_char (CHR ''.'') (CHR ''/'') (e_genre d), mq_payload = e_payload d, mq_qos = 1,
     mq_retain = Some True, mq_headers = [(''Wenyan-Seal-6-Hash'', e_id d)]\<rparr>"

definition mqtt_reconcile :: "mqtt_payload \<Rightarrow> envelope \<Rightarrow> mqtt_payload" where
  "mqtt_reconcile local remote = local\<lparr>mq_payload := e_payload remote\<rparr>"

definition mqtt_publishOutbound :: "int \<Rightarrow> envelope \<Rightarrow> string" where
  "mqtt_publishOutbound now_ms d = mq_topic (mqtt_from d) @ '':'' @ int_str now_ms"

definition mqtt_simulateInbound :: "adapter_config \<Rightarrow> iso \<Rightarrow> mqtt_payload \<Rightarrow> mqtt_payload \<times> foreign_metadata" where
  "mqtt_simulateInbound c nowIso p = (p, \<lparr>fm_protocol = Mqtt, fm_adapterId = ac_id c, fm_subjectOrTopic = mq_topic p,
     fm_headers = mq_headers p, fm_publisherId = None, fm_timestampIso = nowIso\<rparr>)"

section \<open>adapters/erp-http.ts, payroll-http.ts, regulatory-mqtt.ts\<close>

record erp_payload =
  ep_purchase_order_id :: string
  ep_material_spec :: string
  ep_quantity :: "int \<times> nat"              \<comment> \<open>a decimal, as in \<open>JNum\<close>\<close>
  ep_vendor_id :: string

definition erp_extractIdempotencyKey :: "erp_payload \<Rightarrow> string" where
  "erp_extractIdempotencyKey p = ''erp:'' @ ep_purchase_order_id p"

definition erp_into :: "adapter_config \<Rightarrow> erp_payload \<Rightarrow> foreign_metadata \<Rightarrow> translation" where
  "erp_into c p m = Inr (foreign_document c (erp_extractIdempotencyKey p)
     [(''material_spec'', JStr (ep_material_spec p)), (''quantity'', JNum (fst (ep_quantity p)) (snd (ep_quantity p))), (''vendor_id'', JStr (ep_vendor_id p))]
     (fm_timestampIso m)
     (foreign_meta (erp_extractIdempotencyKey p) ''erp/purchase-order'' ''erp'' (Some (or_false (ac_trust_provenance c)))))"

definition erp_verifyProvenance :: "adapter_config \<Rightarrow> bool" where
  "erp_verifyProvenance c = or_false (ac_trust_provenance c)"

text \<open>A property of the payload that is missing is left out of the object.\<close>

definition taken :: "string \<Rightarrow> envelope \<Rightarrow> obj" where
  "taken k d = (case obj_get (e_payload d) k of None \<Rightarrow> [] | Some v \<Rightarrow> [(k, v)])"

definition erp_from :: "envelope \<Rightarrow> obj" where
  "erp_from d = [(''po_ref'', JStr (e_id d))] @ taken ''material_spec'' d @ taken ''quantity'' d @ taken ''vendor_id'' d
     @ [(''tier_masked'', JBool True)]"

definition erp_reconcile :: "obj \<Rightarrow> envelope \<Rightarrow> obj" where
  "erp_reconcile local remote = obj_spread local (e_payload remote)"

definition erp_publishOutbound :: "envelope \<Rightarrow> string" where
  "erp_publishOutbound d = ''erp:'' @ e_id d"

record payroll_payload =
  pp_transfer_id :: string
  pp_worker_id :: string
  pp_amount :: "int \<times> nat"
  pp_transaction_hash :: string

definition payroll_extractIdempotencyKey :: "payroll_payload \<Rightarrow> string" where
  "payroll_extractIdempotencyKey p = ''payroll:'' @ pp_transfer_id p"

definition payroll_into :: "adapter_config \<Rightarrow> payroll_payload \<Rightarrow> foreign_metadata \<Rightarrow> translation" where
  "payroll_into c p m = Inr (foreign_document c (payroll_extractIdempotencyKey p)
     [(''worker_id'', JStr (pp_worker_id p)), (''amount'', JNum (fst (pp_amount p)) (snd (pp_amount p))),
      (''transaction_hash'', JStr (pp_transaction_hash p))]
     (fm_timestampIso m)
     (foreign_meta (payroll_extractIdempotencyKey p) ''payroll/receipt'' ''payroll'' (Some (or_false (ac_trust_provenance c)))))"

definition payroll_verifyProvenance :: "adapter_config \<Rightarrow> bool" where
  "payroll_verifyProvenance c = or_false (ac_trust_provenance c)"

definition payroll_from :: "envelope \<Rightarrow> obj" where
  "payroll_from d = [(''transfer_ref'', JStr (e_id d))] @ taken ''worker_id'' d @ taken ''amount'' d
     @ [(''masked_bank_account'', JStr ''***'')]"

definition payroll_reconcile :: "obj \<Rightarrow> envelope \<Rightarrow> obj" where
  "payroll_reconcile local remote = obj_spread local (e_payload remote)"

definition payroll_publishOutbound :: "envelope \<Rightarrow> string" where
  "payroll_publishOutbound d = ''payroll:'' @ e_id d"

record regulatory_payload =
  rp_alert_id :: string
  rp_severity :: string
  rp_location :: string

definition regulatory_extractIdempotencyKey :: "regulatory_payload \<Rightarrow> string" where
  "regulatory_extractIdempotencyKey p = ''regulatory:'' @ rp_alert_id p"

definition regulatory_into :: "adapter_config \<Rightarrow> regulatory_payload \<Rightarrow> foreign_metadata \<Rightarrow> translation" where
  "regulatory_into c p m = Inr (foreign_document c (regulatory_extractIdempotencyKey p)
     [(''severity'', JStr (rp_severity p)), (''location'', JStr (rp_location p))]
     (fm_timestampIso m)
     (foreign_meta (regulatory_extractIdempotencyKey p) ''regulatory/safety'' ''regulatory'' (Some (or_false (ac_trust_provenance c)))))"

definition regulatory_verifyProvenance :: "adapter_config \<Rightarrow> bool" where
  "regulatory_verifyProvenance c = or_false (ac_trust_provenance c)"

definition regulatory_from :: "envelope \<Rightarrow> obj" where
  "regulatory_from d = [(''alert_ref'', JStr (e_id d))] @ taken ''severity'' d @ taken ''location'' d
     @ [(''readonly_mirror'', JBool True)]"

definition regulatory_reconcile :: "obj \<Rightarrow> obj" where
  "regulatory_reconcile local = local"

definition regulatory_publishOutbound :: "envelope \<Rightarrow> string" where
  "regulatory_publishOutbound d = ''regulatory:'' @ e_id d"

section \<open>The contract of translation\<close>

text \<open>
  Every \<open>IntoWenyan\<close> keeps one contract, on which the gateway and the archive rely: the document is filed under the idempotency key
  of the message, in the genre and under the actor of the adapter, and says where it comes from.
\<close>

locale into_wenyan =
  fixes config :: adapter_config
    and translate :: "'p \<Rightarrow> foreign_metadata \<Rightarrow> translation"
    and key :: "'p \<Rightarrow> foreign_metadata \<Rightarrow> string"
    and trusts :: "foreign_metadata \<Rightarrow> bool"
  assumes translated: "translate p m = Inr d \<Longrightarrow>
      e_genre d = ac_target_genre config \<and> e_actor_id d = bridge_actor config \<and> e_actor_role d = ''bridge_adapter''
      \<and> e_submittedAt d = fm_timestampIso m \<and> obj_get (e_metadata d) ''idempotency_key'' = Some (JStr (key p m))"
    and filed: "translate p m = Inr d \<Longrightarrow> key p m \<noteq> [] \<Longrightarrow> e_id d = key p m"
    and trust_config: "ac_trust_provenance config = Some True \<Longrightarrow> trusts m"
begin

text \<open>A message that is delivered twice becomes the same document, so that the archive refuses the second.\<close>

lemma redelivered:
  assumes "translate p m = Inr d" "translate p' m' = Inr d'" "key p m = key p' m'" "key p m \<noteq> []"
  shows "e_id d = e_id d'"
  using assms filed [of p m d] filed [of p' m' d'] by simp

lemma actor_never_anonymous: "translate p m = Inr d \<Longrightarrow> e_actor_id d \<noteq> []"
  by (simp add: translated bridge_actor_def)

end

lemma foreign_document_sel [simp]:
  "e_id (foreign_document c i p t m) = i" "e_genre (foreign_document c i p t m) = ac_target_genre c"
  "e_payload (foreign_document c i p t m) = p" "e_actor_id (foreign_document c i p t m) = bridge_actor c"
  "e_actor_role (foreign_document c i p t m) = ''bridge_adapter''" "e_submittedAt (foreign_document c i p t m) = t"
  "e_metadata (foreign_document c i p t m) = m"
  by (simp_all add: foreign_document_def)

lemma foreign_meta_key [simp]: "obj_get (foreign_meta k dest f t @ extra) ''idempotency_key'' = Some (JStr k)"
  by (simp add: foreign_meta_def obj_get_def)

lemma foreign_meta_key' [simp]: "obj_get (foreign_meta k dest f t) ''idempotency_key'' = Some (JStr k)"
  by (simp add: foreign_meta_def obj_get_def)

interpretation nats: into_wenyan c "nats_into c now_ms" "nats_extractIdempotencyKey c" "nats_verifyProvenance c" for c now_ms
  by unfold_locales (auto simp: nats_into_def Let_def nats_verifyProvenance_def or_false_def split: option.splits)

interpretation kafka: into_wenyan c "kafka_into c" "\<lambda>p m. kafka_extractIdempotencyKey p" "\<lambda>m. kafka_verifyProvenance c" for c
  by unfold_locales (auto simp: kafka_into_def Let_def kafka_verifyProvenance_def or_false_def)

interpretation mqtt: into_wenyan c "mqtt_into c" "\<lambda>p m. mqtt_extractIdempotencyKey p" "\<lambda>m. mqtt_verifyProvenance c" for c
  by unfold_locales (auto simp: mqtt_into_def Let_def mqtt_verifyProvenance_def or_false_def)

interpretation erp: into_wenyan c "erp_into c" "\<lambda>p m. erp_extractIdempotencyKey p" "\<lambda>m. erp_verifyProvenance c" for c
  by unfold_locales (auto simp: erp_into_def erp_verifyProvenance_def or_false_def)

interpretation payroll: into_wenyan c "payroll_into c" "\<lambda>p m. payroll_extractIdempotencyKey p" "\<lambda>m. payroll_verifyProvenance c" for c
  by unfold_locales (auto simp: payroll_into_def payroll_verifyProvenance_def or_false_def)

interpretation regulatory: into_wenyan c "regulatory_into c" "\<lambda>p m. regulatory_extractIdempotencyKey p"
    "\<lambda>m. regulatory_verifyProvenance c" for c
  by unfold_locales (auto simp: regulatory_into_def regulatory_verifyProvenance_def or_false_def)

section \<open>Properties\<close>

lemma replace_char_back: "b \<notin> set s \<Longrightarrow> replace_char b a (replace_char a b s) = s"
  by (induction s) (auto simp: replace_char_def)

text \<open>A document that names a destination without dots goes out on NATS and comes back, with the message id header set, as the
  document with the same id, payload and destination, in the genre and under the actor of the adapter.\<close>

theorem nats_round_trip:
  assumes "obj_get (e_metadata d) ''routing'' = Some (JObj r)" "obj_get r ''destination'' = Some (JStr dest)"
    and "CHR ''.'' \<notin> set dest" "e_id d \<noteq> []" "ac_idempotency_header c = None"
  shows "\<exists>m d'. nats_from d = Inr m
    \<and> nats_into c now_ms \<lparr>np_subject = nm_subject m, np_data = JObj (nm_data m),
         np_headers = [(''Nats-Msg-Id'', e_id d)], np_publisherId = None\<rparr> meta = Inr d'
    \<and> e_id d' = e_id d \<and> e_payload d' = e_payload d \<and> nats_destination d' = Some (JStr dest)
    \<and> e_genre d' = ac_target_genre c \<and> e_actor_id d' = bridge_actor c"
proof -
  have dest: "nats_destination d = Some (JStr dest)" using assms by (simp add: nats_destination_def)
  have "nats_destination (foreign_document c i p t (foreign_meta k x f tr)) = Some (JStr x)" for i p t k x f tr
    by (simp add: nats_destination_def foreign_meta_def obj_get_def)
  with assms dest show ?thesis
    by (simp add: nats_from_def nullish_def nats_into_def nats_extractIdempotencyKey_def Let_def replace_char_back)
qed

definition demo_nats_document :: envelope where
  "demo_nats_document = \<lparr>e_id = ''d1'', e_genre = ''memo'', e_payload = [(''x'', JNum 1 0)], e_actor_id = ''a'', e_actor_role = ''clerk'',
     e_submittedAt = ''t'', e_metadata = [(''routing'', JObj [(''destination'', JStr ''office/east'')])]\<rparr>"

theorem nats_round_trip_witness:
  "\<exists>m d'. nats_from demo_nats_document = Inr m \<and> nm_subject m = ''office.east'' \<and> nats_destination d' = Some (JStr ''office/east'')
    \<and> nats_into \<lparr>ac_id = ''n'', ac_protocol = Nats, ac_target_genre = ''memo'', ac_trust_provenance = None, ac_metadata_compat = None,
         ac_idempotency_header = None\<rparr> 0 \<lparr>np_subject = nm_subject m, np_data = JObj (nm_data m),
         np_headers = [(''Nats-Msg-Id'', ''d1'')], np_publisherId = None\<rparr>
         \<lparr>fm_protocol = Nats, fm_adapterId = ''n'', fm_subjectOrTopic = ''s'', fm_headers = [], fm_publisherId = None,
          fm_timestampIso = ''t''\<rparr> = Inr d'"
proof -
  have from': "nats_from demo_nats_document = Inr \<lparr>nm_subject = ''office.east'',
      nm_headers = [(''Wenyan-Seal-6-Hash'', ''d1''), (''Imperial-Authority'', ''true'')], nm_data = [(''x'', JNum 1 0)]\<rparr>"
    by (simp add: nats_from_def demo_nats_document_def nats_destination_def obj_get_def nullish_def replace_char_def)
  have "e_id demo_nats_document = ''d1''" by (simp add: demo_nats_document_def)
  with nats_round_trip [of demo_nats_document "[(''destination'', JStr ''office/east'')]" "''office/east''"
      "\<lparr>ac_id = ''n'', ac_protocol = Nats, ac_target_genre = ''memo'', ac_trust_provenance = None, ac_metadata_compat = None,
         ac_idempotency_header = None\<rparr>" 0 "\<lparr>fm_protocol = Nats, fm_adapterId = ''n'', fm_subjectOrTopic = ''s'', fm_headers = [],
          fm_publisherId = None, fm_timestampIso = ''t''\<rparr>"]
  show ?thesis by (auto simp: demo_nats_document_def obj_get_def from' [unfolded demo_nats_document_def])
qed

text \<open>The NATS adapter never sees an attested publisher: what \<open>handleMessage\<close> passes on carries no publisher, so a message is
  trusted exactly when the adapter is configured to trust everything.\<close>

theorem nats_never_attested:
  "nats_verifyProvenance c (snd (nats_handleMessage c nowIso subject hs body)) \<longleftrightarrow> ac_trust_provenance c = Some True"
  by (simp add: nats_verifyProvenance_def nats_handleMessage_def Let_def or_false_def split: option.split)

end
