(* ===== verification/Bridge_Gateway.thy ===== *)
theory Bridge_Gateway
  imports Archive_Queues Archive_Laws Bridge_Adapters
begin

text \<open>
  \<open>packages/bridge/src/gateway.ts\<close>: the gateway between the archive and the foreign systems. The HTTP API it calls and the brokers
  behind its adapters are parameters: \<open>api\<close> is what the API answers during an operation, an adapter is its translation and what
  publishing a document on it does. \<open>now_ms\<close> is the clock during an operation. \<open>bg_published\<close> records what was published where.
\<close>

section \<open>Adapters, the API and the state\<close>

record 'p bridge_adapter =
  ba_id :: string
  ba_protocol :: bridge_protocol
  ba_translate :: "'p \<Rightarrow> foreign_metadata \<Rightarrow> translation"
  ba_extractIdempotencyKey :: "'p \<Rightarrow> foreign_metadata \<Rightarrow> string"
  ba_verifyProvenance :: "'p \<Rightarrow> foreign_metadata \<Rightarrow> bool"
  ba_payload_json :: "'p \<Rightarrow> json"                     \<comment> \<open>\<open>JSON.stringify(payload)\<close> prints it\<close>
  ba_publishOutbound :: "envelope \<Rightarrow> err + string"
  ba_health :: "bool \<times> string option"

record replay_event =
  re_at :: iso
  re_type :: string
  re_messageId :: string

text \<open>\<open>GET /messages/:id\<close>: the request fails, the answer is not ok, or it is ok and has a message or none.\<close>

datatype message_reply = Unreachable | Refused | Answered "envelope option"

text \<open>\<open>POST /messages\<close>: the request fails, or a status with the \<open>id\<close> and \<open>error\<close> of the body, if any.\<close>

datatype post_reply = Post_unreachable | Post_reply bool int "string option" "string option"

text \<open>\<open>api_replay\<close> is \<open>None\<close> when the request fails, the answer is not ok or its body is no JSON.\<close>

record api =
  api_replay :: "iso \<Rightarrow> replay_event list option"
  api_message :: "bool \<Rightarrow> string \<Rightarrow> message_reply"     \<comment> \<open>with the authorization header or without\<close>
  api_post :: "envelope \<Rightarrow> post_reply"

record breaker_state =
  br_outcomes :: "bool list"
  br_pausedUntil :: int

record bridge_metrics =
  bm_foreign_bytes_in :: nat
  bm_wenyan_bytes_archived :: nat
  bm_information_loss_ratio :: rat


text \<open>The failure rate threshold is the decimal of the configuration.\<close>

record bridge_config =
  bc_enabled :: bool
  bc_sync_mode :: sync_mode
  bc_batch_size :: int
  bc_failure_rate_threshold :: rat
  bc_cool_down_ms :: int
  bc_target_genres :: "string list"

record bridge_gateway =
  bg_archive :: db
  bg_lastStreamAt :: iso
  bg_breaker :: "(string \<times> breaker_state) list"
  bg_metrics :: bridge_metrics
  bg_polling :: bool
  bg_published :: "(string \<times> string) list"

definition bridge_new :: "db \<Rightarrow> bridge_gateway" where
  "bridge_new d = \<lparr>bg_archive = d, bg_lastStreamAt = iso_of_ms 0, bg_breaker = [],
     bg_metrics = \<lparr>bm_foreign_bytes_in = 0, bm_wenyan_bytes_archived = 0, bm_information_loss_ratio = 0\<rparr>,
     bg_polling = False, bg_published = []\<rparr>"

section \<open>Routing and sanitising\<close>

definition asStringArray :: "json option \<Rightarrow> string list" where
  "asStringArray input =
     (case input of
        Some (JStr s) \<Rightarrow> if s = [] then [] else [s]
      | Some (JArr xs) \<Rightarrow> List.map_filter (\<lambda>x. case x of JStr s \<Rightarrow> if s = [] then None else Some s | _ \<Rightarrow> None) xs
      | _ \<Rightarrow> [])"

definition matchesRoutingTarget :: "envelope \<Rightarrow> 'p bridge_adapter \<Rightarrow> bool" where
  "matchesRoutingTarget d a =
     (let routing = (case obj_get (e_metadata d) ''routing'' of Some (JObj r) \<Rightarrow> r | _ \<Rightarrow> []);
          foreignTargets = asStringArray (obj_get routing ''foreign_system'');
          adapterTargets = asStringArray (obj_get routing ''bridge_adapter'');
          protocolTargets = asStringArray (obj_get routing ''protocol'');
          targets = foreignTargets @ protocolTargets
      in if adapterTargets = [] \<and> targets = [] then True
         else if ba_id a \<in> set adapterTargets then True
         else protocol_str (ba_protocol a) \<in> set targets)"

definition sanitizedEnvelope :: "envelope \<Rightarrow> string \<Rightarrow> envelope" where
  "sanitizedEnvelope d idempotencyKey = d\<lparr>e_metadata :=
     [(''idempotency_key'', JStr idempotencyKey),
      (''routing'', nullish (obj_get (e_metadata d) ''routing'') (JObj [])),
      (''provenance'', nullish (obj_get (e_metadata d) ''provenance'') (JObj []))]\<rparr>"

definition MAX_FOREIGN_TOPIC_LENGTH :: nat where "MAX_FOREIGN_TOPIC_LENGTH = 256"
definition MAX_FOREIGN_HEADER_VALUE :: nat where "MAX_FOREIGN_HEADER_VALUE = 2048"

definition safe_topic_char :: "char \<Rightarrow> bool" where
  "safe_topic_char c \<longleftrightarrow> (let n = (of_char c :: nat) in
     97 \<le> n \<and> n \<le> 122 \<or> 65 \<le> n \<and> n \<le> 90 \<or> 48 \<le> n \<and> n \<le> 57 \<or> c \<in> set ''._:/-'')"

definition SAFE_TOPIC :: "string \<Rightarrow> bool" where
  "SAFE_TOPIC s \<longleftrightarrow> s \<noteq> [] \<and> list_all safe_topic_char s"

text \<open>\<open>trim\<close> and \<open>toLowerCase\<close> on U+0000..U+00FF.\<close>

definition js_space :: "char \<Rightarrow> bool" where
  "js_space c \<longleftrightarrow> (of_char c :: nat) \<in> {9, 10, 11, 12, 13, 32, 160}"

definition js_trim :: "string \<Rightarrow> string" where
  "js_trim s = rev (dropWhile js_space (rev (dropWhile js_space s)))"

definition js_lower_char :: "char \<Rightarrow> char" where
  "js_lower_char c = (let n = (of_char c :: nat) in
     if 65 \<le> n \<and> n \<le> 90 \<or> 192 \<le> n \<and> n \<le> 222 \<and> n \<noteq> 215 then char_of (n + 32) else c)"

definition js_lower :: "string \<Rightarrow> string" where
  "js_lower s = map js_lower_char s"

definition header_kept :: "string \<Rightarrow> string \<Rightarrow> bool" where
  "header_kept key value' \<longleftrightarrow> key \<noteq> [] \<and> js_lower key \<notin> {''__proto__'', ''constructor'', ''prototype''}
     \<and> length value' \<le> MAX_FOREIGN_HEADER_VALUE"

definition safe_headers :: "(string \<times> string) list \<Rightarrow> (string \<times> string) list" where
  "safe_headers hs = fold (\<lambda>(k, v) out. if header_kept (js_trim k) v then obj_put (js_trim k) v out else out) hs []"

text \<open>\<open>None\<close> is the error \<open>foreign-metadata-invalid-topic\<close>.\<close>

definition sanitizeForeignMetadata :: "foreign_metadata \<Rightarrow> foreign_metadata option" where
  "sanitizeForeignMetadata m =
     (let subject = fm_subjectOrTopic m
      in if subject = [] \<or> MAX_FOREIGN_TOPIC_LENGTH < length subject \<or> \<not> SAFE_TOPIC subject then None
         else Some (m\<lparr>fm_headers := safe_headers (fm_headers m)\<rparr>))"

section \<open>The circuit breaker\<close>

definition breaker_update :: "string \<Rightarrow> (breaker_state \<Rightarrow> breaker_state) \<Rightarrow> bridge_gateway \<Rightarrow> bridge_gateway" where
  "breaker_update i f g = (case map_of (bg_breaker g) i of None \<Rightarrow> g
     | Some s \<Rightarrow> g\<lparr>bg_breaker := obj_put i (f s) (bg_breaker g)\<rparr>)"

definition push_outcome :: "bool \<Rightarrow> bool list \<Rightarrow> bool list" where
  "push_outcome b outcomes = (let os = outcomes @ [b] in if 100 < length os then tl os else os)"

definition recordSuccess :: "string \<Rightarrow> bridge_gateway \<Rightarrow> bridge_gateway" where
  "recordSuccess adapterId g = breaker_update adapterId (\<lambda>s. s\<lparr>br_outcomes := push_outcome True (br_outcomes s)\<rparr>) g"

definition failure_rate :: "bool list \<Rightarrow> rat" where
  "failure_rate os = (if os = [] then 0 else of_nat (length (filter (\<lambda>x. \<not> x) os)) / of_nat (length os))"

definition recordFailure :: "bridge_config \<Rightarrow> int \<Rightarrow> string \<Rightarrow> bridge_gateway \<Rightarrow> bridge_gateway" where
  "recordFailure c now_ms adapterId g = breaker_update adapterId (\<lambda>s.
     let os = push_outcome False (br_outcomes s)
     in s\<lparr>br_outcomes := os,
          br_pausedUntil := (if bc_failure_rate_threshold c < failure_rate os then now_ms + bc_cool_down_ms c else br_pausedUntil s)\<rparr>) g"

definition isBreakerOpen :: "int \<Rightarrow> string \<Rightarrow> bridge_gateway \<Rightarrow> bool" where
  "isBreakerOpen now_ms adapterId g =
     (case map_of (bg_breaker g) adapterId of None \<Rightarrow> False | Some s \<Rightarrow> now_ms < br_pausedUntil s)"

section \<open>Outbound\<close>

definition fetchMessage :: "api \<Rightarrow> string \<Rightarrow> envelope option" where
  "fetchMessage A i =
     (case api_message A False i of
        Unreachable \<Rightarrow> None
      | Answered m \<Rightarrow> m
      | Refused \<Rightarrow> (case api_message A True i of Answered m \<Rightarrow> m | _ \<Rightarrow> None))"

fun enqueue_for :: "'p bridge_adapter list \<Rightarrow> envelope \<Rightarrow> string \<Rightarrow> iso \<Rightarrow> db \<Rightarrow> (db, unit) out" where
  "enqueue_for [] m messageId nowIso d = Done () d"
| "enqueue_for (a # as) m messageId nowIso d =
     (if \<not> matchesRoutingTarget m a then enqueue_for as m messageId nowIso d
      else and_then (enqueueBridgeOutbound (ba_id a) messageId nowIso d) (\<lambda>_. enqueue_for as m messageId nowIso))"

text \<open>The events are taken in turn inside one \<open>try\<close>: the first error ends the capture, and is dropped.\<close>

fun capture_events :: "api \<Rightarrow> 'p bridge_adapter list \<Rightarrow> iso \<Rightarrow> replay_event list \<Rightarrow> bridge_gateway \<Rightarrow> bridge_gateway" where
  "capture_events A as nowIso [] g = g"
| "capture_events A as nowIso (e # es) g =
     (let g1 = g\<lparr>bg_lastStreamAt := re_at e\<rparr> in
      if re_type e \<noteq> ''archive.appended'' \<and> re_type e \<noteq> ''transition.committed'' then capture_events A as nowIso es g1
      else (case fetchMessage A (re_messageId e) of
          None \<Rightarrow> capture_events A as nowIso es g1
        | Some m \<Rightarrow>
          (case enqueue_for as m (re_messageId e) nowIso (bg_archive g1) of
             Done _ d \<Rightarrow> capture_events A as nowIso es (g1\<lparr>bg_archive := d\<rparr>)
           | Fail _ d \<Rightarrow> g1\<lparr>bg_archive := d\<rparr>)))"

definition captureOutboundEvents :: "api \<Rightarrow> 'p bridge_adapter list \<Rightarrow> iso \<Rightarrow> bridge_gateway \<Rightarrow> bridge_gateway" where
  "captureOutboundEvents A as nowIso g =
     (case api_replay A (bg_lastStreamAt g) of None \<Rightarrow> g | Some events \<Rightarrow> capture_events A as nowIso events g)"

fun err_message :: "err \<Rightarrow> string" where
  "err_message (Error_msg s) = s"
| "err_message (Constraint s) = s @ '' constraint failed''"
| "err_message (Schema_undefined s) = s"
| "err_message (Pbft_validation s) = s"
| "err_message _ = ''error''"

definition on_archive :: "(db \<Rightarrow> db) \<Rightarrow> bridge_gateway \<Rightarrow> bridge_gateway" where
  "on_archive f g = g\<lparr>bg_archive := f (bg_archive g)\<rparr>"

definition mark_failed :: "iso \<Rightarrow> nat \<Rightarrow> string \<Rightarrow> bridge_gateway \<Rightarrow> bridge_gateway" where
  "mark_failed nowIso i reason g = on_archive (markBridgeOutboundResult nowIso i Failed_status (Some reason)) g"

text \<open>The \<open>catch\<close> of \<open>syncOnce\<close>.\<close>

definition publish_failed :: "bridge_config \<Rightarrow> int \<Rightarrow> outbound_row \<Rightarrow> string \<Rightarrow> bridge_gateway \<Rightarrow> bridge_gateway" where
  "publish_failed c now_ms item reason g =
     recordFailure c now_ms (bo_adapterId item)
       (on_archive (appendBridgeDeadLetter
          \<lparr>de_adapterId = bo_adapterId item, de_messageId = Some (bo_messageId item),
           de_payloadJson = stringify (JObj [(''messageId'', JStr (bo_messageId item)), (''adapterId'', JStr (bo_adapterId item))]),
           de_reason = reason, de_attempts = bo_attempts item + 1, de_nextRetryAt = iso_of_ms (now_ms + bc_cool_down_ms c),
           de_createdAt = iso_of_ms now_ms\<rparr>)
         (mark_failed (iso_of_ms now_ms) (bo_id item) reason g))"

definition sync_state :: "'p bridge_adapter \<Rightarrow> string \<Rightarrow> string \<Rightarrow> iso \<Rightarrow> foreign_sync_row" where
  "sync_state a documentId foreignId nowIso =
     \<lparr>fs_documentId = documentId, fs_adapterId = ba_id a, fs_adapterProtocol = protocol_str (ba_protocol a),
      fs_foreignId = foreignId, fs_foreignVectorClockJson = None, fs_lastSyncAt = nowIso,
      fs_conflictStatus = ''resolved'', fs_lastError = None\<rparr>"

text \<open>One item of the batch, and whether it counts as pushed.\<close>

definition sync_item :: "api \<Rightarrow> bridge_config \<Rightarrow> 'p bridge_adapter list \<Rightarrow> int \<Rightarrow> string option \<Rightarrow> outbound_row
    \<Rightarrow> bridge_gateway \<Rightarrow> bool \<times> bridge_gateway" where
  "sync_item A c as now_ms target item g =
     (let nowIso = iso_of_ms now_ms in
      if (case target of None \<Rightarrow> False | Some t \<Rightarrow> t \<noteq> [] \<and> t \<noteq> bo_adapterId item) then (False, g)
      else (case find (\<lambda>a. ba_id a = bo_adapterId item) as of
          None \<Rightarrow> (False, mark_failed nowIso (bo_id item) ''adapter-not-found'' g)
        | Some a \<Rightarrow>
          (if isBreakerOpen now_ms (ba_id a) g then (False, mark_failed nowIso (bo_id item) ''circuit-open'' g)
           else (case fetchMessage A (bo_messageId item) of
               None \<Rightarrow> (False, recordFailure c now_ms (ba_id a) (mark_failed nowIso (bo_id item) ''message-not-found'' g))
             | Some m \<Rightarrow>
               (case ba_publishOutbound a m of
                  Inl e \<Rightarrow> (False, publish_failed c now_ms item (err_message e) g)
                | Inr foreignId \<Rightarrow>
                  (let g1 = g\<lparr>bg_published := bg_published g @ [(ba_id a, e_id m)]\<rparr> in
                   case upsertForeignSyncState (sync_state a (e_id m) foreignId nowIso) (bg_archive g1) of
                     Fail e d \<Rightarrow> (False, publish_failed c now_ms item (err_message e) (g1\<lparr>bg_archive := d\<rparr>))
                   | Done _ d \<Rightarrow>
                     (True, recordSuccess (ba_id a)
                        (on_archive (markBridgeOutboundResult nowIso (bo_id item) Sent None) (g1\<lparr>bg_archive := d\<rparr>)))))))))"

fun sync_items :: "api \<Rightarrow> bridge_config \<Rightarrow> 'p bridge_adapter list \<Rightarrow> int \<Rightarrow> string option \<Rightarrow> outbound_row list
    \<Rightarrow> bridge_gateway \<Rightarrow> nat \<times> bridge_gateway" where
  "sync_items A c as now_ms target [] g = (0, g)"
| "sync_items A c as now_ms target (item # items) g =
     (case sync_item A c as now_ms target item g of (pushed, g1) \<Rightarrow>
        (case sync_items A c as now_ms target items g1 of (n, g2) \<Rightarrow> (if pushed then n + 1 else n, g2)))"

definition syncOnce :: "api \<Rightarrow> bridge_config \<Rightarrow> 'p bridge_adapter list \<Rightarrow> int \<Rightarrow> string option \<Rightarrow> bridge_gateway \<Rightarrow> nat \<times> bridge_gateway" where
  "syncOnce A c as now_ms target g =
     (if \<not> bc_enabled c then (0, g)
      else (let g1 = captureOutboundEvents A as (iso_of_ms now_ms) g;
                queue = dequeueBridgeOutbound (iso_of_ms now_ms) (bc_batch_size c) (bg_archive g1)
            in sync_items A c as now_ms target queue g1))"

section \<open>Inbound\<close>

definition metadata_json :: "foreign_metadata \<Rightarrow> json" where
  "metadata_json m = JObj ([(''protocol'', JStr (protocol_str (fm_protocol m))), (''adapterId'', JStr (fm_adapterId m)),
     (''subjectOrTopic'', JStr (fm_subjectOrTopic m)), (''headers'', JObj (map (\<lambda>(k, v). (k, JStr v)) (fm_headers m)))]
     @ (case fm_publisherId m of None \<Rightarrow> [] | Some p \<Rightarrow> [(''publisherId'', JStr p)])
     @ [(''timestampIso'', JStr (fm_timestampIso m))])"

definition byteLength :: "string \<Rightarrow> nat" where
  "byteLength s = length (utf8ToBytes s)"

definition add_metrics :: "nat \<Rightarrow> nat \<Rightarrow> bridge_metrics \<Rightarrow> bridge_metrics" where
  "add_metrics foreign archived m =
     (let bytes_in = bm_foreign_bytes_in m + foreign; bytes_out = bm_wenyan_bytes_archived m + archived
      in \<lparr>bm_foreign_bytes_in = bytes_in, bm_wenyan_bytes_archived = bytes_out,
          bm_information_loss_ratio = (if bytes_in = 0 then 0 else (of_nat bytes_in - of_nat bytes_out) / of_nat bytes_in)\<rparr>)"

definition reject_foreign :: "'p bridge_adapter \<Rightarrow> 'p \<Rightarrow> string \<Rightarrow> string \<Rightarrow> string option \<Rightarrow> iso \<Rightarrow> bridge_gateway
    \<Rightarrow> (bridge_gateway, unit) out" where
  "reject_foreign a payload code detail foreignId nowIso g =
     Done () (on_archive (appendForeignRejected
       \<lparr>fj_adapterId = ba_id a, fj_foreignId = foreignId, fj_reasonCode = code, fj_reasonDetail = Some detail,
        fj_payloadJson = Some (stringify (ba_payload_json a payload)), fj_receivedAt = nowIso\<rparr>) g)"

definition record_sync :: "'p bridge_adapter \<Rightarrow> string \<Rightarrow> string \<Rightarrow> iso \<Rightarrow> bridge_gateway \<Rightarrow> (bridge_gateway, unit) out" where
  "record_sync a messageId key nowIso g =
     (case upsertForeignSyncState (sync_state a messageId key nowIso) (bg_archive g) of
        Done _ d \<Rightarrow> Done () (g\<lparr>bg_archive := d\<rparr>)
      | Fail e d \<Rightarrow> Fail e (g\<lparr>bg_archive := d\<rparr>))"

text \<open>The request to the API and what follows it.\<close>

definition post_inbound :: "api \<Rightarrow> 'p bridge_adapter \<Rightarrow> 'p \<Rightarrow> string \<Rightarrow> envelope \<Rightarrow> iso \<Rightarrow> bridge_gateway \<Rightarrow> (bridge_gateway, unit) out" where
  "post_inbound A a payload key clean nowIso g =
     (case api_post A clean of
        Post_unreachable \<Rightarrow> Fail (Error_msg ''fetch failed'') g
      | Post_reply ok status body_id body_error \<Rightarrow>
        (if \<not> ok
         then reject_foreign a payload ''gateway-rejected''
           (case body_error of None \<Rightarrow> ''status-'' @ int_str status | Some e \<Rightarrow> e) (Some key) nowIso g
         else record_sync a (case body_id of None \<Rightarrow> e_id clean | Some i \<Rightarrow> i) key nowIso g))"

definition onInbound :: "api \<Rightarrow> int \<Rightarrow> 'p bridge_adapter \<Rightarrow> 'p \<Rightarrow> foreign_metadata \<Rightarrow> bridge_gateway \<Rightarrow> (bridge_gateway, unit) out" where
  "onInbound A now_ms a payload metadata g =
     (let nowIso = iso_of_ms now_ms in
      case sanitizeForeignMetadata metadata of
        None \<Rightarrow> reject_foreign a payload ''invalid-foreign-metadata'' ''foreign-metadata-invalid-topic'' None nowIso g
      | Some safe \<Rightarrow>
        (if \<not> ba_verifyProvenance a payload safe
         then reject_foreign a payload ''untrusted-provenance'' (''publisher is not attested for adapter '' @ ba_id a) None nowIso g
         else
          (let key = ba_extractIdempotencyKey a payload safe in
           case ba_translate a payload safe of
             Inl (code, message) \<Rightarrow> reject_foreign a payload code message (Some key) nowIso g
           | Inr document \<Rightarrow>
             (let foreignBytes = byteLength (stringify (JObj [(''payload'', ba_payload_json a payload), (''metadata'', metadata_json safe)]));
                  clean = sanitizedEnvelope document key;
                  wenyanBytes = byteLength (stringify (envelope_json clean))
              in post_inbound A a payload key clean nowIso
                   (g\<lparr>bg_metrics := add_metrics foreignBytes wenyanBytes (bg_metrics g)\<rparr>)))))"

section \<open>Start, stop, status, dry run\<close>

text \<open>\<open>ensureTargetGenres\<close>: the first genre without a definition in force.\<close>

definition ensureTargetGenres :: "bridge_config \<Rightarrow> iso \<Rightarrow> db \<Rightarrow> string option" where
  "ensureTargetGenres c nowIso d =
     find (\<lambda>genre. genre \<noteq> ''edict'' \<and> genre \<noteq> ''ti_definition'' \<and> getCurrentTiDefinition genre nowIso d = None) (bc_target_genres c)"

text \<open>\<open>starts a\<close> is the error \<open>adapter.start\<close> throws, if any. The adapters before it are started and have a breaker.\<close>

fun start_adapters :: "('p bridge_adapter \<Rightarrow> err option) \<Rightarrow> 'p bridge_adapter list \<Rightarrow> bridge_gateway \<Rightarrow> (bridge_gateway, unit) out" where
  "start_adapters starts [] g = Done () g"
| "start_adapters starts (a # as) g =
     (case starts a of Some e \<Rightarrow> Fail e g
      | None \<Rightarrow> start_adapters starts as (g\<lparr>bg_breaker := obj_put (ba_id a) \<lparr>br_outcomes = [], br_pausedUntil = 0\<rparr> (bg_breaker g)\<rparr>))"

definition bridge_start :: "api \<Rightarrow> bridge_config \<Rightarrow> ('p bridge_adapter \<Rightarrow> err option) \<Rightarrow> 'p bridge_adapter list \<Rightarrow> int \<Rightarrow> bridge_gateway
    \<Rightarrow> (bridge_gateway, unit) out" where
  "bridge_start A c starts as now_ms g =
     (if \<not> bc_enabled c then Done () g
      else (case ensureTargetGenres c (iso_of_ms now_ms) (bg_archive g) of
          Some genre \<Rightarrow> Fail (Error_msg (''bridge target genre undefined: '' @ genre)) g
        | None \<Rightarrow> and_then (start_adapters starts as g) (\<lambda>_ g1.
            let g2 = (if bc_sync_mode c = Push then g1 else g1\<lparr>bg_polling := True\<rparr>)
            in Done () (snd (syncOnce A c as now_ms None g2)))))"

definition bridge_stop :: "bridge_gateway \<Rightarrow> bridge_gateway" where
  "bridge_stop g = g\<lparr>bg_polling := False\<rparr>"

definition bridge_status :: "bridge_config \<Rightarrow> 'p bridge_adapter list \<Rightarrow> bridge_gateway
    \<Rightarrow> bool \<times> (string \<times> bridge_protocol \<times> bool \<times> string option) list \<times> bridge_metrics" where
  "bridge_status c as g = (bc_enabled c, map (\<lambda>a. (ba_id a, ba_protocol a, ba_health a)) as, bg_metrics g)"

definition dryRun :: "'p bridge_adapter list \<Rightarrow> iso \<Rightarrow> string \<Rightarrow> 'p \<Rightarrow> err + envelope" where
  "dryRun as nowIso adapterId payload =
     (case find (\<lambda>a. ba_id a = adapterId) as of
        None \<Rightarrow> Inl (Error_msg (''bridge adapter not found: '' @ adapterId))
      | Some a \<Rightarrow>
        (let metadata = \<lparr>fm_protocol = ba_protocol a, fm_adapterId = adapterId,
               fm_subjectOrTopic = protocol_str (ba_protocol a), fm_headers = [], fm_publisherId = None, fm_timestampIso = nowIso\<rparr>;
             key = ba_extractIdempotencyKey a payload metadata
         in case ba_translate a payload metadata of
              Inl (code, _) \<Rightarrow> Inl (Error_msg (''dry-run translation failed: '' @ code))
            | Inr document \<Rightarrow> Inr (sanitizedEnvelope document key)))"

text \<open>The token the gateway authorises itself with.\<close>

definition createBridgeToken :: "crypto \<Rightarrow> int \<Rightarrow> string \<Rightarrow> string \<Rightarrow> string option \<Rightarrow> string" where
  "createBridgeToken C now_ms issuer audience jwt_secret =
     (let now = now_ms div 1000;
          header = base64UrlEncode (stringify (JObj [(''alg'', JStr ''HS256''), (''typ'', JStr ''JWT'')]));
          payload = base64UrlEncode (stringify (JObj [(''iss'', JStr issuer), (''aud'', JStr audience), (''sub'', JStr ''wenyan-bridge''),
            (''role'', JStr ''genesis_admin''), (''iat'', json_int now), (''exp'', json_int (now + 3600))]));
          secret = (case jwt_secret of None \<Rightarrow> ''wenyan-local-jwt-secret'' | Some s \<Rightarrow> s);
          sig = base64UrlEncodeBytes (hmac_sha256 C (utf8ToBytes secret) (utf8ToBytes (header @ ''.'' @ payload)))
      in header @ ''.'' @ payload @ ''.'' @ sig)"

end
