(* ===== verification/Bridge_Correct.thy ===== *)
theory Bridge_Correct
  imports Bridge_Gateway Gossip
begin

text \<open>
  What the bridge gateway promises: the outbound queue loses nothing, an open breaker stops publishing, foreign input is bounded
  before it is used; and where it falls short, repeated capture and the metadata that never leaves.
\<close>

section \<open>The outbound queue\<close>

definition bo_ref :: "outbound_row \<Rightarrow> nat \<times> string \<times> string" where
  "bo_ref r = (bo_id r, bo_adapterId r, bo_messageId r)"

definition queued :: "bridge_gateway \<Rightarrow> (nat \<times> string \<times> string) set" where
  "queued g = bo_ref ` set (db_outbound (bg_archive g))"

text \<open>The message of a queued row was published on the adapter of the row, and its synchronisation is on record.\<close>

fun delivered :: "api \<Rightarrow> nat \<times> string \<times> string \<Rightarrow> bridge_gateway \<Rightarrow> bool" where
  "delivered A (i, a, mid) g \<longleftrightarrow> (\<exists>m. fetchMessage A mid = Some m \<and> (a, e_id m) \<in> set (bg_published g)
     \<and> e_id m \<in> fs_documentId ` set (db_foreign_sync (bg_archive g)))"

definition outbound_ok :: "db \<Rightarrow> bool" where
  "outbound_ok d \<longleftrightarrow> distinct (map bo_id (db_outbound d)) \<and> (\<forall>r\<in>set (db_outbound d). bo_id r < next_id ''bridge_outbound_queue'' d)"

text \<open>What no step takes back.\<close>

definition kept :: "bridge_gateway \<Rightarrow> bridge_gateway \<Rightarrow> bool" where
  "kept g g' \<longleftrightarrow> set (bg_published g) \<subseteq> set (bg_published g')
     \<and> fs_documentId ` set (db_foreign_sync (bg_archive g)) \<subseteq> fs_documentId ` set (db_foreign_sync (bg_archive g'))"

lemma kept_refl [simp]: "kept g g"
  by (simp add: kept_def)

lemma kept_trans: "kept g h \<Longrightarrow> kept h k \<Longrightarrow> kept g k"
  unfolding kept_def by (elim conjE) (intro conjI; erule (1) subset_trans)

lemma delivered_kept: "delivered A r g \<Longrightarrow> kept g g' \<Longrightarrow> delivered A r g'"
  unfolding kept_def by (cases r) (simp, blast)

text \<open>The breaker is beside the archive and the record of what was published.\<close>

lemma breaker_frame [simp]:
  "bg_archive (breaker_update i f g) = bg_archive g" "bg_published (breaker_update i f g) = bg_published g"
  "bg_archive (recordSuccess i g) = bg_archive g" "bg_published (recordSuccess i g) = bg_published g"
  "bg_archive (recordFailure c t i g) = bg_archive g" "bg_published (recordFailure c t i g) = bg_published g"
  by (simp_all add: breaker_update_def recordSuccess_def recordFailure_def split: option.split)

lemma on_archive_frame [simp]:
  "bg_archive (on_archive f g) = f (bg_archive g)" "bg_published (on_archive f g) = bg_published g"
  "bg_breaker (on_archive f g) = bg_breaker g" "bg_metrics (on_archive f g) = bg_metrics g"
  by (simp_all add: on_archive_def)

lemma mark_failed_rows: "map bo_ref (db_outbound (markBridgeOutboundResult now i Failed_status e d)) = map bo_ref (db_outbound d)"
  by (simp add: markBridgeOutboundResult_def map_update_where bo_ref_def)

lemma mark_frame [simp]:
  "db_foreign_sync (markBridgeOutboundResult now i s e d) = db_foreign_sync d"
  "next_id x (markBridgeOutboundResult now i s e d) = next_id x d"
  "message_ids (markBridgeOutboundResult now i s e d) = message_ids d"
  by (simp_all add: markBridgeOutboundResult_def next_id_def message_ids_def)

lemma dead_letter_frame [simp]:
  "db_outbound (appendBridgeDeadLetter e d) = db_outbound d" "db_foreign_sync (appendBridgeDeadLetter e d) = db_foreign_sync d"
  "message_ids (appendBridgeDeadLetter e d) = message_ids d"
  by (simp_all add: appendBridgeDeadLetter_def use_id_def message_ids_def)

lemma mark_failed_queued [simp]:
  "queued (mark_failed now i e g) = queued g" "bg_published (mark_failed now i e g) = bg_published g"
  "db_foreign_sync (bg_archive (mark_failed now i e g)) = db_foreign_sync (bg_archive g)"
proof -
  have "set (map bo_ref (db_outbound (markBridgeOutboundResult now i Failed_status (Some e) (bg_archive g))))
      = set (map bo_ref (db_outbound (bg_archive g)))" by (simp only: mark_failed_rows)
  then show "queued (mark_failed now i e g) = queued g" by (simp add: queued_def mark_failed_def)
qed (simp_all add: mark_failed_def)

lemma publish_failed_queued [simp]:
  "queued (publish_failed c t item e g) = queued g" "bg_published (publish_failed c t item e g) = bg_published g"
  "db_foreign_sync (bg_archive (publish_failed c t item e g)) = db_foreign_sync (bg_archive g)"
proof -
  show "queued (publish_failed c t item e g) = queued g"
    using mark_failed_queued(1) [of "iso_of_ms t" "bo_id item" e g] by (simp add: publish_failed_def queued_def)
qed (simp_all add: publish_failed_def)

lemma upsert_sync_frame:
  "upsertForeignSyncState e d = Fail x d' \<Longrightarrow> d' = d"
  "upsertForeignSyncState e d = Done u d' \<Longrightarrow> db_outbound d' = db_outbound d \<and> next_id t d' = next_id t d
     \<and> fs_documentId ` set (db_foreign_sync d') = insert (fs_documentId e) (fs_documentId ` set (db_foreign_sync d))"
proof -
  have "set (map fs_documentId (upsert fs_documentId e (\<lambda>_. e) rows)) = insert (fs_documentId e) (fs_documentId ` set rows)" for rows
    by (subst map_key_upsert) auto
  then have ups: "fs_documentId ` set (upsert fs_documentId e (\<lambda>_. e) rows) = insert (fs_documentId e) (fs_documentId ` set rows)" for rows
    by (simp only: set_map)
  assume "upsertForeignSyncState e d = Done u d'"
  then have "d' = d\<lparr>db_foreign_sync := upsert fs_documentId e (\<lambda>_. e) (db_foreign_sync d)\<rparr>"
    by (simp add: upsertForeignSyncState_def split: if_splits)
  then show "db_outbound d' = db_outbound d \<and> next_id t d' = next_id t d
     \<and> fs_documentId ` set (db_foreign_sync d') = insert (fs_documentId e) (fs_documentId ` set (db_foreign_sync d))"
    by (simp add: next_id_def ups)
qed (auto simp: upsertForeignSyncState_def split: if_splits)

lemma find_adapter: "find (\<lambda>a. ba_id a = i) as = Some a \<Longrightarrow> ba_id a = i \<and> a \<in> set as"
  by (auto simp: find_Some_iff)

text \<open>An item of the batch either stays in the queue, whatever happened to it, or its row is the one that is gone and it is
  delivered.\<close>

lemma sync_item_cases:
  assumes "sync_item A c as t target item g = (pushed, g')"
  obtains (stays) "\<not> pushed" "queued g' = queued g" "kept g g'"
  | (sent) pushed "queued g' = {r \<in> queued g. fst r \<noteq> bo_id item}" "kept g g'" "delivered A (bo_ref item) g'"
proof -
  consider (skip) "(case target of None \<Rightarrow> False | Some t \<Rightarrow> t \<noteq> [] \<and> t \<noteq> bo_adapterId item)"
    | (unknown) "\<not> (case target of None \<Rightarrow> False | Some t \<Rightarrow> t \<noteq> [] \<and> t \<noteq> bo_adapterId item)" "find (\<lambda>a. ba_id a = bo_adapterId item) as = None"
    | (adapter) a where "\<not> (case target of None \<Rightarrow> False | Some t \<Rightarrow> t \<noteq> [] \<and> t \<noteq> bo_adapterId item)"
        "find (\<lambda>a. ba_id a = bo_adapterId item) as = Some a"
    by (cases "find (\<lambda>a. ba_id a = bo_adapterId item) as") auto
  then show thesis
  proof cases
    case skip
    with assms show thesis by (intro stays) (simp_all add: sync_item_def)
  next
    case unknown
    with assms show thesis by (intro stays) (auto simp: sync_item_def kept_def)
  next
    case adapter
    let ?i = "ba_id a" and ?iso = "iso_of_ms t"
    have a: "?i = bo_adapterId item" using find_adapter [OF adapter(2)] by simp
    have q: "queued (recordFailure c t i h) = queued h" "kept h (recordFailure c t i h)" for i h by (simp_all add: queued_def kept_def)
    show thesis
    proof (cases "isBreakerOpen t ?i g")
      case True
      with adapter assms show thesis by (intro stays) (auto simp: sync_item_def kept_def)
    next
      case closed: False
      show thesis
      proof (cases "fetchMessage A (bo_messageId item)")
        case None
        with closed adapter assms show thesis by (intro stays) (auto simp: sync_item_def kept_def q)
      next
        case (Some m)
        let ?g1 = "g\<lparr>bg_published := bg_published g @ [(?i, e_id m)]\<rparr>"
        have q1: "queued ?g1 = queued g" "kept g ?g1" by (auto simp: queued_def kept_def)
        show thesis
        proof (cases "ba_publishOutbound a m")
          case (Inl e)
          with Some closed adapter assms show thesis by (intro stays) (auto simp: sync_item_def kept_def)
        next
          case (Inr foreignId)
          show thesis
          proof (cases "upsertForeignSyncState (sync_state a (e_id m) foreignId ?iso) (bg_archive ?g1)")
            case (Fail e d)
            with upsert_sync_frame(1) [OF Fail] Inr Some closed adapter assms q1 show thesis
              by (intro stays) (auto simp: sync_item_def kept_def Let_def)
          next
            case (Done u d)
            let ?g2 = "recordSuccess ?i (on_archive (markBridgeOutboundResult ?iso (bo_id item) Sent None) (?g1\<lparr>bg_archive := d\<rparr>))"
            note D = upsert_sync_frame(2) [OF Done]
            have r: "(pushed, g') = (True, ?g2)"
              using Done Inr Some closed adapter assms by (simp add: sync_item_def Let_def)
            have fs: "fs_documentId ` set (db_foreign_sync (bg_archive g')) = insert (e_id m) (fs_documentId ` set (db_foreign_sync (bg_archive g)))"
              using r D by (simp add: sync_state_def)
            have "queued g' = {x \<in> queued g. fst x \<noteq> bo_id item}"
              using r D by (auto simp: queued_def markBridgeOutboundResult_def bo_ref_def)
            moreover have "bg_published g' = bg_published g @ [(?i, e_id m)]" using r by simp
            moreover have "delivered A (bo_ref item) g'" using calculation(2) Some a fs by (auto simp: bo_ref_def)
            ultimately show thesis using r fs by (intro sent) (auto simp: kept_def)
          qed
        qed
      qed
    qed
  qed
qed

lemma sync_items_keep:
  assumes "inj_on fst (queued g)" "bo_ref ` set items \<subseteq> queued g" "distinct (map bo_id items)"
    "sync_items A c as t target items g = (n, g')"
  shows "queued g' \<subseteq> queued g \<and> card (queued g') + n = card (queued g) \<and> kept g g'
    \<and> (\<forall>r\<in>queued g. r \<in> queued g' \<or> delivered A r g')"
  using assms
proof (induction items arbitrary: g n g')
  case (Cons item items)
  obtain pushed g1 where one: "sync_item A c as t target item g = (pushed, g1)" by (cases "sync_item A c as t target item g")
  obtain k g2 where rest: "sync_items A c as t target items g1 = (k, g2)" by (cases "sync_items A c as t target items g1")
  have g': "g' = g2" "n = (if pushed then k + 1 else k)" using Cons.prems(4) one rest by simp_all
  have item: "bo_ref item \<in> queued g" using Cons.prems(2) by simp
  have fin: "finite (queued g)" by (simp add: queued_def)
  from one show ?case
  proof (cases rule: sync_item_cases)
    case stays
    then have "queued g2 \<subseteq> queued g1 \<and> card (queued g2) + k = card (queued g1) \<and> kept g1 g2
        \<and> (\<forall>r\<in>queued g1. r \<in> queued g2 \<or> delivered A r g2)"
      using Cons.prems rest by (intro Cons.IH) simp_all
    with stays g' kept_trans [OF stays(3)] show ?thesis by simp
  next
    case sent
    have q1: "queued g1 = queued g - {bo_ref item}"
      using sent(2) inj_onD [OF Cons.prems(1)] item by (auto simp: bo_ref_def)
    have "bo_ref x \<noteq> bo_ref item" if "x \<in> set items" for x
    proof -
      have "bo_id x \<in> bo_id ` set items" using that by simp
      with Cons.prems(3) have "bo_id x \<noteq> bo_id item" by auto
      then show ?thesis by (simp add: bo_ref_def)
    qed
    then have "queued g2 \<subseteq> queued g1 \<and> card (queued g2) + k = card (queued g1) \<and> kept g1 g2
        \<and> (\<forall>r\<in>queued g1. r \<in> queued g2 \<or> delivered A r g2)"
      using Cons.prems rest q1 by (intro Cons.IH) (auto intro: inj_on_subset)
    moreover have "Suc (card (queued g1)) = card (queued g)"
      using card.remove [OF fin item] q1 by simp
    ultimately show ?thesis using g' q1 sent kept_trans [OF sent(3)] delivered_kept [OF sent(4)] by auto
  qed
qed simp

section \<open>Invariants of the gateway\<close>

lemma closed_frame [simp]:
  "isBreakerOpen t b (g\<lparr>bg_published := p\<rparr>) = isBreakerOpen t b g" "isBreakerOpen t b (g\<lparr>bg_archive := d\<rparr>) = isBreakerOpen t b g"
  "isBreakerOpen t b (on_archive f g) = isBreakerOpen t b g" "isBreakerOpen t b (mark_failed now i e g) = isBreakerOpen t b g"
  "isBreakerOpen t b (g\<lparr>bg_lastStreamAt := x\<rparr>) = isBreakerOpen t b g"
  by (simp_all add: isBreakerOpen_def mark_failed_def)

text \<open>What the pieces of \<open>syncOnce\<close> keep, \<open>syncOnce\<close> keeps: publishing and counting happen on an adapter whose breaker is closed.\<close>

locale sync_invariant =
  fixes I :: "bridge_gateway \<Rightarrow> bool" and c :: bridge_config and t :: int
  assumes mark: "I g \<Longrightarrow> I (on_archive (markBridgeOutboundResult now i s e) g)"
    and letter: "I g \<Longrightarrow> I (on_archive (appendBridgeDeadLetter l) g)"
    and sync: "I g \<Longrightarrow> upsertForeignSyncState x (bg_archive g) = Done u d \<Longrightarrow> I (g\<lparr>bg_archive := d\<rparr>)"
    and enqueue: "I g \<Longrightarrow> enqueueBridgeOutbound a m now (bg_archive g) = Done u d \<Longrightarrow> I (g\<lparr>bg_archive := d\<rparr>)"
    and stream: "I g \<Longrightarrow> I (g\<lparr>bg_lastStreamAt := at_iso\<rparr>)"
    and publish: "I g \<Longrightarrow> \<not> isBreakerOpen t b g \<Longrightarrow> I (g\<lparr>bg_published := bg_published g @ [(b, m)]\<rparr>)"
    and success: "I g \<Longrightarrow> \<not> isBreakerOpen t b g \<Longrightarrow> I (recordSuccess b g)"
    and failure: "I g \<Longrightarrow> \<not> isBreakerOpen t b g \<Longrightarrow> I (recordFailure c t b g)"
begin

lemma keeps_mark_failed: "I g \<Longrightarrow> I (mark_failed now i e g)"
  unfolding mark_failed_def by (rule mark)

lemma keeps_enqueue_for: "I (g\<lparr>bg_archive := d\<rparr>) \<Longrightarrow> I (g\<lparr>bg_archive := out_state (enqueue_for as m mid now d)\<rparr>)"
proof (induction as arbitrary: d)
  case (Cons a as)
  show ?case
  proof (cases "enqueueBridgeOutbound (ba_id a) mid now d")
    case (Done v d1)
    then have "I (g\<lparr>bg_archive := d1\<rparr>)" using enqueue [OF Cons.prems, of "ba_id a" mid now v d1] by simp
    from Cons.IH [OF this] Cons.IH [OF Cons.prems] Done show ?thesis by simp
  next
    case (Fail y d1)
    then have "d1 = d" by (auto simp: enqueueBridgeOutbound_def split: if_splits)
    with Fail Cons.prems Cons.IH [OF Cons.prems] show ?thesis by simp
  qed
qed simp

lemma keeps_capture_events: "I g \<Longrightarrow> I (capture_events A as now es g)"
proof (induction es arbitrary: g)
  case (Cons e es)
  let ?g1 = "g\<lparr>bg_lastStreamAt := re_at e\<rparr>"
  have g1: "I ?g1" by (rule stream [OF Cons.prems])
  have d: "enqueue_for as m (re_messageId e) now (bg_archive g) = Done u d \<Longrightarrow> I (?g1\<lparr>bg_archive := d\<rparr>)"
    "enqueue_for as m (re_messageId e) now (bg_archive g) = Fail x d \<Longrightarrow> I (?g1\<lparr>bg_archive := d\<rparr>)" for m d u x
    using keeps_enqueue_for [where g = ?g1 and d = "bg_archive g" and as = as and m = m and mid = "re_messageId e" and now = now] g1
    by simp_all
  show ?case using Cons.IH g1 d by (auto simp: Let_def split: option.split out.split)
qed simp

lemma keeps_capture: "I g \<Longrightarrow> I (captureOutboundEvents A as now g)"
  by (simp add: captureOutboundEvents_def keeps_capture_events split: option.split)

lemma keeps_publish_failed: "I g \<Longrightarrow> \<not> isBreakerOpen t (bo_adapterId item) g \<Longrightarrow> I (publish_failed c t item e g)"
  unfolding publish_failed_def by (intro failure letter keeps_mark_failed) simp_all

lemma keeps_sync_item:
  assumes "I g" shows "I (snd (sync_item A c as t target item g))"
proof -
  have a: "find (\<lambda>a. ba_id a = bo_adapterId item) as = Some a \<Longrightarrow> ba_id a = bo_adapterId item" for a
    by (drule find_adapter) simp
  have sent: "I (recordSuccess b (on_archive (markBridgeOutboundResult now i s e) (g\<lparr>bg_published := p, bg_archive := d\<rparr>)))"
    if o: "\<not> isBreakerOpen t b g" "upsertForeignSyncState x (bg_archive g) = Done u d" "p = bg_published g @ [(b, m)]"
    for b p d x u m now i s e
  proof -
    have "I (g\<lparr>bg_published := p\<rparr>)" using publish [OF assms o(1), of m] o(3) by simp
    then have "I (g\<lparr>bg_published := p, bg_archive := d\<rparr>)" using sync [of "g\<lparr>bg_published := p\<rparr>" x u d] o(2) by simp
    then show ?thesis by (intro success mark) (simp_all add: o(1))
  qed
  have undelivered: "I (publish_failed c t item e (g\<lparr>bg_published := p, bg_archive := d\<rparr>))"
    if "\<not> isBreakerOpen t (bo_adapterId item) g" "upsertForeignSyncState x (bg_archive g) = Fail y d"
      "p = bg_published g @ [(bo_adapterId item, m)]" for p d x y m e
  proof -
    have "d = bg_archive g" by (rule upsert_sync_frame(1) [OF that(2)])
    moreover have "I (g\<lparr>bg_published := p\<rparr>)" using publish [OF assms that(1), of m] that(3) by simp
    moreover have "\<not> isBreakerOpen t (bo_adapterId item) (g\<lparr>bg_published := p\<rparr>)" using that(1) by simp
    ultimately show ?thesis using keeps_publish_failed [of "g\<lparr>bg_published := p\<rparr>" item e] by simp
  qed
  show ?thesis
  proof (cases "find (\<lambda>a. ba_id a = bo_adapterId item) as")
    case None
    with assms show ?thesis by (simp add: sync_item_def Let_def keeps_mark_failed)
  next
    case (Some b)
    note b = this a [OF Some]
    show ?thesis
    proof (cases "isBreakerOpen t (ba_id b) g")
      case True
      with assms b(1) show ?thesis by (simp add: sync_item_def Let_def keeps_mark_failed)
    next
      case closed: False
      show ?thesis
      proof (cases "fetchMessage A (bo_messageId item)")
        case None
        with assms b(1) closed show ?thesis by (simp add: sync_item_def Let_def keeps_mark_failed failure)
      next
        case (Some m)
        show ?thesis
        proof (cases "ba_publishOutbound b m")
          case (Inl e)
          with assms b closed Some show ?thesis by (simp add: sync_item_def Let_def keeps_publish_failed)
        next
          case (Inr foreignId)
          with assms b closed Some show ?thesis
            by (cases "upsertForeignSyncState (sync_state b (e_id m) foreignId (iso_of_ms t)) (bg_archive g)")
              (simp_all add: sync_item_def Let_def sent undelivered)
        qed
      qed
    qed
  qed
qed

lemma keeps_sync_items: "I g \<Longrightarrow> I (snd (sync_items A c as t target items g))"
proof (induction items arbitrary: g)
  case (Cons item items)
  from Cons.IH [OF keeps_sync_item [OF Cons.prems, of A as target item]] show ?case by (simp add: case_prod_beta)
qed simp

lemma keeps_syncOnce: "I g \<Longrightarrow> I (snd (syncOnce A c as t target g))"
  by (simp add: syncOnce_def Let_def keeps_sync_items keeps_capture)

end

text \<open>With the operations that receive, start and stop.\<close>

locale gateway_invariant =
  fixes I :: "bridge_gateway \<Rightarrow> bool" and c :: bridge_config
  assumes at_time: "sync_invariant I c t"
    and rejects: "I g \<Longrightarrow> I (on_archive (appendForeignRejected x) g)"
    and measures: "I g \<Longrightarrow> I (g\<lparr>bg_metrics := add_metrics m n (bg_metrics g)\<rparr>)"
    and new_breaker: "I g \<Longrightarrow> I (g\<lparr>bg_breaker := obj_put b \<lparr>br_outcomes = [], br_pausedUntil = 0\<rparr> (bg_breaker g)\<rparr>)"
    and polls: "I g \<Longrightarrow> I (g\<lparr>bg_polling := p\<rparr>)"

sublocale gateway_invariant \<subseteq> sync_invariant I c t for t
  by (rule at_time)

inductive gateway_step :: "bridge_config \<Rightarrow> 'p bridge_adapter list \<Rightarrow> bridge_gateway \<Rightarrow> bridge_gateway \<Rightarrow> bool" for c as where
  step_sync: "gateway_step c as g (snd (syncOnce A c as t target g))"
| step_inbound: "a \<in> set as \<Longrightarrow> gateway_step c as g (out_state (onInbound A t a payload metadata g))"
| step_start: "gateway_step c as g (out_state (bridge_start A c starts as t g))"
| step_stop: "gateway_step c as g (bridge_stop g)"

inductive_cases gateway_stepE: "gateway_step c as g g'"

inductive gateway_reachable :: "bridge_config \<Rightarrow> 'p bridge_adapter list \<Rightarrow> bridge_gateway \<Rightarrow> bool" for c as where
  reach_bridge: "outbound_ok d \<Longrightarrow> gateway_reachable c as (bridge_new d)"
| reach_bridge_step: "gateway_reachable c as g \<Longrightarrow> gateway_step c as g g' \<Longrightarrow> gateway_reachable c as g'"

context gateway_invariant begin

lemma keeps_reject: "I g \<Longrightarrow> I (out_state (reject_foreign a p code detail i now g))"
  by (simp add: reject_foreign_def rejects)

lemma keeps_record_sync: "I g \<Longrightarrow> I (out_state (record_sync a i key now g))"
proof (cases "upsertForeignSyncState (sync_state a i key now) (bg_archive g)")
  case (Done u d)
  assume "I g"
  from sync [OF this Done] Done show ?thesis by (simp add: record_sync_def)
next
  case (Fail e d)
  assume "I g"
  with Fail upsert_sync_frame(1) [OF Fail] show ?thesis by (simp add: record_sync_def)
qed

lemma keeps_post_inbound: "I g \<Longrightarrow> I (out_state (post_inbound A a p key clean now g))"
  by (simp add: post_inbound_def keeps_reject keeps_record_sync split: post_reply.split)

lemma keeps_inbound: "I g \<Longrightarrow> I (out_state (onInbound A t a p m g))"
  unfolding onInbound_def Let_def
  by (simp add: keeps_reject keeps_post_inbound measures split: option.split sum.split prod.split)

lemma keeps_start_adapters: "I g \<Longrightarrow> I (out_state (start_adapters starts as g))"
  by (induction as arbitrary: g) (simp_all add: new_breaker split: option.split)

lemma keeps_start: "I g \<Longrightarrow> I (out_state (bridge_start A c starts as t g))"
proof -
  assume "I g"
  have "I (snd (syncOnce A c as t None (if bc_sync_mode c = Push then h else h\<lparr>bg_polling := True\<rparr>)))" if "I h" for h
    using that polls [OF that, of True] by (simp add: keeps_syncOnce)
  then have "I (out_state (and_then (start_adapters starts as g) (\<lambda>_ g1. let g2 = (if bc_sync_mode c = Push then g1 else g1\<lparr>bg_polling := True\<rparr>)
      in Done () (snd (syncOnce A c as t None g2)))))"
    using keeps_start_adapters [OF \<open>I g\<close>, of starts as] by (cases "start_adapters starts as g") (simp_all add: Let_def)
  with \<open>I g\<close> show ?thesis by (simp add: bridge_start_def split: option.split)
qed

lemma keeps_step: "gateway_step c as g g' \<Longrightarrow> I g \<Longrightarrow> I g'"
  by (erule gateway_stepE) (simp_all add: keeps_syncOnce keeps_inbound keeps_start bridge_stop_def polls)

lemma keeps_reachable: "gateway_reachable c as g \<Longrightarrow> (\<And>d. outbound_ok d \<Longrightarrow> I (bridge_new d)) \<Longrightarrow> I g"
  by (induction rule: gateway_reachable.induct) (simp_all add: keeps_step)

end

definition breakers_ok :: "(string \<times> breaker_state) list \<Rightarrow> bool" where
  "breakers_ok bs \<longleftrightarrow> (\<forall>s\<in>snd ` set bs. length (br_outcomes s) \<le> 100)"

definition ratio_ok :: "bridge_metrics \<Rightarrow> bool" where
  "ratio_ok m \<longleftrightarrow> bm_information_loss_ratio m = (if bm_foreign_bytes_in m = 0 then 0
     else (of_nat (bm_foreign_bytes_in m) - of_nat (bm_wenyan_bytes_archived m)) / of_nat (bm_foreign_bytes_in m))"

definition gateway_ok :: "bridge_gateway \<Rightarrow> bool" where
  "gateway_ok g \<longleftrightarrow> outbound_ok (bg_archive g) \<and> breakers_ok (bg_breaker g) \<and> ratio_ok (bg_metrics g)"

lemma ratio_ok_add [simp]: "ratio_ok (add_metrics m n x)"
  by (simp add: ratio_ok_def add_metrics_def Let_def)

lemma outbound_ok_ids:
  assumes "map bo_id (db_outbound d') = map bo_id (db_outbound d)" "next_id ''bridge_outbound_queue'' d' = next_id ''bridge_outbound_queue'' d"
  shows "outbound_ok d' = outbound_ok d"
proof -
  have "outbound_ok x \<longleftrightarrow> distinct (map bo_id (db_outbound x))
      \<and> (\<forall>j\<in>set (map bo_id (db_outbound x)). j < next_id ''bridge_outbound_queue'' x)" for x by (simp add: outbound_ok_def)
  then show ?thesis by (simp only: assms)
qed

lemma outbound_ok_ops:
  assumes "outbound_ok d"
  shows "outbound_ok (markBridgeOutboundResult now i s e d)" "outbound_ok (appendBridgeDeadLetter l d)"
    "outbound_ok (appendForeignRejected f d)" "upsertForeignSyncState x d = Done u d1 \<Longrightarrow> outbound_ok d1"
    "enqueueBridgeOutbound a m now d = Done u d1 \<Longrightarrow> outbound_ok d1"
proof -
  show "outbound_ok (markBridgeOutboundResult now i s e d)"
  proof (cases "s = Sent")
    case True
    then have "map bo_id (db_outbound (markBridgeOutboundResult now i s e d)) = filter (\<lambda>j. j \<noteq> i) (map bo_id (db_outbound d))"
      by (simp add: markBridgeOutboundResult_def filter_map comp_def)
    with assms True show ?thesis by (auto simp: outbound_ok_def distinct_filter markBridgeOutboundResult_def next_id_def
        simp del: filter_map)
  next
    case False
    then have "map bo_id (db_outbound (markBridgeOutboundResult now i s e d)) = map bo_id (db_outbound d)"
      by (simp add: markBridgeOutboundResult_def map_update_where)
    from outbound_ok_ids [OF this] assms show ?thesis by simp
  qed
  show "outbound_ok (appendBridgeDeadLetter l d)" "outbound_ok (appendForeignRejected f d)"
    using assms by (simp_all add: outbound_ok_def appendBridgeDeadLetter_def appendForeignRejected_def use_id_def next_id_def)
  show "upsertForeignSyncState x d = Done u d1 \<Longrightarrow> outbound_ok d1"
    using assms by (auto simp: outbound_ok_def upsertForeignSyncState_def next_id_def split: if_splits)
  show "enqueueBridgeOutbound a m now d = Done u d1 \<Longrightarrow> outbound_ok d1"
    using assms by (fastforce simp: outbound_ok_def enqueueBridgeOutbound_def use_id_def next_id_def split: if_splits)
qed

lemma set_obj_put: "set (obj_put k v ps) \<subseteq> insert (k, v) (set ps)"
  by (induction k v ps rule: obj_put.induct) (auto split: if_splits)

lemma push_outcome_length: "length os \<le> 100 \<Longrightarrow> length (push_outcome b os) \<le> 100"
  by (auto simp: push_outcome_def Let_def)

lemma breakers_ok_put: "breakers_ok bs \<Longrightarrow> length (br_outcomes x) \<le> 100 \<Longrightarrow> breakers_ok (obj_put b x bs)"
  using set_obj_put [of b x bs] by (auto simp: breakers_ok_def)

lemma breakers_ok_update:
  assumes "breakers_ok (bg_breaker g)" "\<And>s. length (br_outcomes s) \<le> 100 \<Longrightarrow> length (br_outcomes (f s)) \<le> 100"
  shows "breakers_ok (bg_breaker (breaker_update b f g))"
proof (cases "map_of (bg_breaker g) b")
  case None
  then show ?thesis using assms(1) by (simp add: breaker_update_def)
next
  case (Some s)
  then have "s \<in> snd ` set (bg_breaker g)" by (force dest: map_of_SomeD)
  with assms have "length (br_outcomes (f s)) \<le> 100" unfolding breakers_ok_def by blast
  from breakers_ok_put [OF assms(1) this] Some show ?thesis by (simp add: breaker_update_def)
qed

lemma record_breakers:
  assumes "breakers_ok (bg_breaker g)"
  shows "breakers_ok (bg_breaker (recordSuccess b g))" "breakers_ok (bg_breaker (recordFailure c t b g))"
  unfolding recordSuccess_def recordFailure_def
  by (rule breakers_ok_update [OF assms], simp add: push_outcome_length Let_def)+

lemma metrics_frame [simp]: "bg_metrics (breaker_update b f g) = bg_metrics g"
  by (simp add: breaker_update_def split: option.split)

lemma record_frame: "bg_metrics (recordSuccess b g) = bg_metrics g" "bg_metrics (recordFailure c t b g) = bg_metrics g"
  by (simp_all add: recordSuccess_def recordFailure_def)

interpretation gateway: gateway_invariant gateway_ok c for c
proof unfold_locales
  fix g b t' and m :: string assume g: "gateway_ok g"
  then have ok: "outbound_ok (bg_archive g)" "breakers_ok (bg_breaker g)" "ratio_ok (bg_metrics g)" by (simp_all add: gateway_ok_def)
  show "gateway_ok (recordSuccess b g)" "gateway_ok (recordFailure c t' b g)"
    unfolding gateway_ok_def record_frame breaker_frame using ok record_breakers [OF ok(2)] by blast+
  show "gateway_ok (g\<lparr>bg_breaker := obj_put b \<lparr>br_outcomes = [], br_pausedUntil = 0\<rparr> (bg_breaker g)\<rparr>)"
    using g by (simp add: gateway_ok_def breakers_ok_put)
  fix now i s e and l :: dead_letter and x :: foreign_rejected
  show "gateway_ok (on_archive (markBridgeOutboundResult now i s e) g)" "gateway_ok (on_archive (appendBridgeDeadLetter l) g)"
    "gateway_ok (on_archive (appendForeignRejected x) g)"
    using g by (simp_all add: gateway_ok_def outbound_ok_ops(1-3))
next
  fix g x u d assume "gateway_ok g" "upsertForeignSyncState x (bg_archive g) = Done u d"
  then show "gateway_ok (g\<lparr>bg_archive := d\<rparr>)" by (auto simp: gateway_ok_def intro: outbound_ok_ops(4))
next
  fix g a m now u d assume "gateway_ok g" "enqueueBridgeOutbound a m now (bg_archive g) = Done u d"
  then show "gateway_ok (g\<lparr>bg_archive := d\<rparr>)" by (auto simp: gateway_ok_def intro: outbound_ok_ops(5))
qed (simp_all add: gateway_ok_def)

interpretation outbound_rows: sync_invariant "\<lambda>g. outbound_ok (bg_archive g)" c t for c t
  by unfold_locales (auto intro: outbound_ok_ops)

lemma breaker_other: "i \<noteq> b \<Longrightarrow> isBreakerOpen t b (breaker_update i f g) = isBreakerOpen t b g"
  by (simp add: isBreakerOpen_def breaker_update_def split: option.split)

lemma open_other: "isBreakerOpen t b g \<Longrightarrow> \<not> isBreakerOpen t i g \<Longrightarrow> isBreakerOpen t b (breaker_update i f g)"
  by (cases "i = b") (simp_all add: breaker_other)

interpretation blocked: sync_invariant "\<lambda>g. isBreakerOpen t b g \<and> filter (\<lambda>p. fst p = b) (bg_published g) = sent" c t for t b sent c
  by unfold_locales (auto simp: recordSuccess_def recordFailure_def open_other)

section \<open>Capturing events\<close>

lemma enqueue_outbound:
  "bo_ref ` set (db_outbound d) \<subseteq> bo_ref ` set (db_outbound (out_state (enqueueBridgeOutbound a m now d)))"
  "message_ids (out_state (enqueueBridgeOutbound a m now d)) = message_ids d"
  by (auto simp: enqueueBridgeOutbound_def use_id_def message_ids_def)

lemma enqueue_for_outbound:
  "bo_ref ` set (db_outbound d) \<subseteq> bo_ref ` set (db_outbound (out_state (enqueue_for as m mid now d)))
    \<and> message_ids (out_state (enqueue_for as m mid now d)) = message_ids d"
proof (induction as arbitrary: d)
  case (Cons a as)
  show ?case
  proof (cases "enqueueBridgeOutbound (ba_id a) mid now d")
    case (Done u d1)
    with enqueue_outbound [where d = d and a = "ba_id a" and m = mid and now = now]
    have d1: "bo_ref ` set (db_outbound d) \<subseteq> bo_ref ` set (db_outbound d1)" "message_ids d1 = message_ids d" by simp_all
    with subset_trans [OF d1(1)] Cons.IH [of d] Cons.IH [of d1] Done show ?thesis by simp
  next
    case (Fail e d1)
    with Cons.IH [of d] enqueue_outbound [where d = d and a = "ba_id a" and m = mid and now = now] show ?thesis by simp
  qed
qed simp

lemma capture_events_queued: "queued g \<subseteq> queued (capture_events A as now es g)"
proof (induction es arbitrary: g)
  case (Cons e es)
  let ?g1 = "g\<lparr>bg_lastStreamAt := re_at e\<rparr>"
  have q: "queued (h\<lparr>bg_lastStreamAt := x\<rparr>) = queued h" "queued (h\<lparr>bg_lastStreamAt := x, bg_archive := d\<rparr>) = bo_ref ` set (db_outbound d)" for h x d
    by (simp_all add: queued_def)
  have d: "queued g \<subseteq> bo_ref ` set (db_outbound (out_state (enqueue_for as m mid now (bg_archive g))))" for m mid
    using enqueue_for_outbound [of "bg_archive g" as m mid now] by (simp add: queued_def)
  have via: "queued g \<subseteq> queued (capture_events A as now es h)" if "queued g \<subseteq> queued h" for h
    using that Cons.IH by (rule subset_trans)
  show ?case
  proof (cases "fetchMessage A (re_messageId e)")
    case None
    then show ?thesis using via [of ?g1] by (simp add: Let_def q)
  next
    case (Some m)
    then show ?thesis using via [of ?g1] via d [of m "re_messageId e"]
      by (cases "enqueue_for as m (re_messageId e) now (bg_archive g)") (simp_all add: Let_def q)
  qed
qed simp

lemma capture_queued: "queued g \<subseteq> queued (captureOutboundEvents A as now g)"
  by (simp add: captureOutboundEvents_def capture_events_queued split: option.split)

lemma outbound_ok_queue:
  assumes "outbound_ok (bg_archive g)"
  shows "inj_on fst (queued g)" "bo_ref ` set (dequeueBridgeOutbound now n (bg_archive g)) \<subseteq> queued g"
    "distinct (map bo_id (dequeueBridgeOutbound now n (bg_archive g)))"
proof -
  let ?rows = "db_outbound (bg_archive g)"
  have d: "distinct ?rows" "inj_on bo_id (set ?rows)" using assms by (simp_all add: outbound_ok_def distinct_map)
  have "inj_on (fst \<circ> bo_ref) (set ?rows)" using d(2) by (simp add: comp_def bo_ref_def)
  then show "inj_on fst (queued g)" unfolding queued_def by (rule inj_on_imageI)
  have sub: "set (dequeueBridgeOutbound now n (bg_archive g)) \<subseteq> set ?rows"
    unfolding dequeueBridgeOutbound_def by (rule subset_trans [OF set_limit_rows]) auto
  then show "bo_ref ` set (dequeueBridgeOutbound now n (bg_archive g)) \<subseteq> queued g"
    unfolding queued_def by (rule image_mono)
  have "distinct (dequeueBridgeOutbound now n (bg_archive g))"
    using d(1) by (simp add: dequeueBridgeOutbound_def limit_rows_def order_asc_def)
  with inj_on_subset [OF d(2) sub] show "distinct (map bo_id (dequeueBridgeOutbound now n (bg_archive g)))"
    by (simp add: distinct_map)
qed

section \<open>Properties\<close>

text \<open>C35: Whatever bridges and messages come and whatever the API and the brokers answer, in every state the gateway reaches the
  outbound queue has unique ids below the next one, every breaker remembers at most 100 outcomes, and the loss ratio is the one of
  the bytes counted.\<close>

theorem gateway_keeps_invariant:
  assumes "gateway_reachable c as g"
  shows "outbound_ok (bg_archive g) \<and> breakers_ok (bg_breaker g) \<and> ratio_ok (bg_metrics g)"
proof -
  have "gateway_ok (bridge_new d)" if "outbound_ok d" for d
    using that by (simp add: gateway_ok_def bridge_new_def breakers_ok_def ratio_ok_def)
  from gateway.keeps_reachable [OF assms this] show ?thesis by (simp add: gateway_ok_def)
qed

text \<open>C34: A synchronisation loses no queued message: each row that was queued is still queued afterwards, or its message was
  published on its adapter and its synchronisation recorded. The number returned is the number of rows that left the queue.\<close>

theorem syncOnce_no_loss:
  assumes "outbound_ok (bg_archive g)" "syncOnce A c as t target g = (n, g')"
  shows "(\<forall>r\<in>queued g. r \<in> queued g' \<or> delivered A r g')
    \<and> card (queued g') + n = card (queued (if bc_enabled c then captureOutboundEvents A as (iso_of_ms t) g else g))"
proof (cases "bc_enabled c")
  case True
  let ?g1 = "captureOutboundEvents A as (iso_of_ms t) g"
  have "outbound_ok (bg_archive ?g1)" by (rule outbound_rows.keeps_capture [OF assms(1)])
  note keep = sync_items_keep [OF outbound_ok_queue [OF this]]
  have "sync_items A c as t target (dequeueBridgeOutbound (iso_of_ms t) (bc_batch_size c) (bg_archive ?g1)) ?g1 = (n, g')"
    using assms(2) True by (simp add: syncOnce_def Let_def)
  from keep [OF this] True capture_queued [of g A as "iso_of_ms t"] show ?thesis by auto
next
  case False
  with assms(2) show ?thesis by (simp add: syncOnce_def)
qed

text \<open>While the breaker of an adapter is open, a synchronisation publishes nothing on it and leaves the breaker open, whatever the
  other adapters do.\<close>

theorem open_breaker_blocks:
  assumes "isBreakerOpen t b g"
  shows "filter (\<lambda>p. fst p = b) (bg_published (snd (syncOnce A c as t target g))) = filter (\<lambda>p. fst p = b) (bg_published g)
    \<and> isBreakerOpen t b (snd (syncOnce A c as t target g))"
  using blocked.keeps_syncOnce [of t b g "filter (\<lambda>p. fst p = b) (bg_published g)" A c as target] assms by simp

end
