(* ===== verification/Bridge_Findings.thy ===== *)
theory Bridge_Findings
  imports Bridge_Correct
begin

text \<open>
  The bridge on concrete inputs, what happens to foreign input, and the properties of the bridge that are not invariants of its
  steps: sanitising, repeated capture, the token.
\<close>

section \<open>A gateway with one queued message\<close>

definition demo_adapter :: "unit bridge_adapter" where
  "demo_adapter = \<lparr>ba_id = ''n'', ba_protocol = Nats, ba_translate = (\<lambda>p m. Inl (''none'', ''none'')),
     ba_extractIdempotencyKey = (\<lambda>p m. ''k''), ba_verifyProvenance = (\<lambda>p m. True), ba_payload_json = (\<lambda>p. JNull),
     ba_publishOutbound = (\<lambda>d. Inr ''f''), ba_health = (True, None)\<rparr>"

definition demo_message :: envelope where
  "demo_message = \<lparr>e_id = ''m1'', e_genre = ''memo'', e_payload = [], e_actor_id = ''a'', e_actor_role = ''clerk'',
     e_submittedAt = ''t'', e_metadata = []\<rparr>"

definition demo_api :: api where
  "demo_api = \<lparr>api_replay = (\<lambda>since. None), api_message = (\<lambda>auth i. Answered (Some demo_message)),
     api_post = (\<lambda>d. Post_reply True 201 (Some ''m1'') None)\<rparr>"

definition demo_config :: bridge_config where
  "demo_config = \<lparr>bc_enabled = True, bc_sync_mode = Hybrid, bc_batch_size = 100, bc_failure_rate_threshold = 1 / 20,
     bc_cool_down_ms = 30000, bc_target_genres = []\<rparr>"

definition demo_outbound :: outbound_row where
  "demo_outbound = \<lparr>bo_id = 1, bo_adapterId = ''n'', bo_messageId = ''m1'', bo_attempts = 0, bo_availableAt = [],
     bo_lastError = None, bo_status = Queued\<rparr>"

definition demo_gateway :: bridge_gateway where
  "demo_gateway = (bridge_new ((demo_db (\<lambda>x. x))\<lparr>db_outbound := [demo_outbound], db_seq := (\<lambda>_. 1)\<rparr>))
     \<lparr>bg_breaker := [(''n'', \<lparr>br_outcomes = [], br_pausedUntil = 0\<rparr>)]\<rparr>"

lemma demo_gateway_ok: "outbound_ok (bg_archive demo_gateway)"
  by (simp add: demo_gateway_def bridge_new_def outbound_ok_def next_id_def demo_outbound_def)

lemma demo_queue: "dequeueBridgeOutbound now 100 (bg_archive demo_gateway) = [demo_outbound]"
  by (simp add: dequeueBridgeOutbound_def demo_gateway_def bridge_new_def demo_outbound_def order_asc_def limit_rows_def)

lemma demo_capture: "captureOutboundEvents demo_api as now g = g"
  by (simp add: captureOutboundEvents_def demo_api_def)

lemma demo_sync_item:
  "sync_item demo_api demo_config [demo_adapter] 0 None demo_outbound demo_gateway =
    (True, recordSuccess ''n'' (on_archive (markBridgeOutboundResult (iso_of_ms 0) 1 Sent None)
      (demo_gateway\<lparr>bg_published := [(''n'', ''m1'')], bg_archive := (bg_archive demo_gateway)\<lparr>db_foreign_sync :=
        [sync_state demo_adapter ''m1'' ''f'' (iso_of_ms 0)]\<rparr>\<rparr>)))"
proof -
  let ?d = "bg_archive demo_gateway"
  have "''m1'' \<in> message_ids ?d" "db_foreign_sync ?d = []"
    using demo_db_ids(1) [of "\<lambda>x. x"]
    by (simp_all add: demo_gateway_def bridge_new_def message_ids_def demo_db_def appendMessage_def empty_db_def)
  then have "upsertForeignSyncState (sync_state demo_adapter ''m1'' ''f'' i) ?d
      = Done () (?d\<lparr>db_foreign_sync := [sync_state demo_adapter ''m1'' ''f'' i]\<rparr>)" for i
    by (simp add: upsertForeignSyncState_def sync_state_def upsert_def)
  then show ?thesis
    by (simp add: sync_item_def Let_def demo_outbound_def demo_adapter_def isBreakerOpen_def fetchMessage_def demo_api_def
        demo_message_def) (simp add: demo_gateway_def bridge_new_def)
qed

lemma demo_sync: "syncOnce demo_api demo_config [demo_adapter] 0 None demo_gateway =
    (1, snd (sync_item demo_api demo_config [demo_adapter] 0 None demo_outbound demo_gateway))"
proof -
  have "bc_enabled demo_config" "bc_batch_size demo_config = 100" by (simp_all add: demo_config_def)
  then show ?thesis by (simp add: syncOnce_def Let_def demo_capture demo_queue demo_sync_item)
qed

theorem gateway_keeps_invariant_witness:
  "breakers_ok (bg_breaker (out_state (bridge_start demo_api demo_config (\<lambda>a. None) [demo_adapter] 0 (bridge_new empty_db))))"
proof -
  have "outbound_ok empty_db" by (simp add: outbound_ok_def empty_db_def)
  then have "gateway_reachable demo_config [demo_adapter] (bridge_new empty_db)" by (rule reach_bridge)
  from gateway_keeps_invariant [OF reach_bridge_step [OF this step_start]] show ?thesis by simp
qed

theorem syncOnce_no_loss_witness:
  "\<exists>g'. syncOnce demo_api demo_config [demo_adapter] 0 None demo_gateway = (1, g') \<and> queued g' = {}
    \<and> delivered demo_api (1, ''n'', ''m1'') g'"
proof -
  let ?g = "snd (sync_item demo_api demo_config [demo_adapter] 0 None demo_outbound demo_gateway)"
  have one: "bo_ref demo_outbound = (1, ''n'', ''m1'')" "queued demo_gateway = {(1, ''n'', ''m1'')}"
    by (simp_all add: queued_def demo_gateway_def bridge_new_def bo_ref_def demo_outbound_def)
  from syncOnce_no_loss [OF demo_gateway_ok demo_sync]
  have keep: "\<forall>r\<in>queued demo_gateway. r \<in> queued ?g \<or> delivered demo_api r ?g" "card (queued ?g) + 1 = card (queued demo_gateway)"
    by (simp_all add: demo_capture demo_config_def)
  then have "card (queued ?g) = 0" by (simp add: one)
  then have "queued ?g = {}" by (simp add: queued_def)
  with keep(1) one demo_sync show ?thesis by simp
qed

theorem open_breaker_blocks_witness:
  "filter (\<lambda>p. fst p = ''n'') (bg_published (snd (syncOnce demo_api demo_config [demo_adapter] 5 None
     (demo_gateway\<lparr>bg_breaker := [(''n'', \<lparr>br_outcomes = [False], br_pausedUntil = 6\<rparr>)]\<rparr>)))) = []"
proof -
  let ?g = "demo_gateway\<lparr>bg_breaker := [(''n'', \<lparr>br_outcomes = [False], br_pausedUntil = 6\<rparr>)]\<rparr>"
  have "isBreakerOpen 5 ''n'' ?g" by (simp add: isBreakerOpen_def)
  moreover have "bg_published ?g = []" by (simp add: demo_gateway_def bridge_new_def)
  ultimately show ?thesis using open_breaker_blocks [of 5 "''n''" ?g demo_api demo_config "[demo_adapter]" None] by simp
qed

section \<open>Foreign input\<close>

lemma dropWhile_idem: "dropWhile P (dropWhile P xs) = dropWhile P xs"
  by (induction xs) auto

lemma js_trim_idem [simp]: "js_trim (js_trim s) = js_trim s"
proof -
  let ?t = "dropWhile js_space s"
  let ?u = "rev (dropWhile js_space (rev ?t))"
  have "rev (takeWhile js_space (rev ?t) @ dropWhile js_space (rev ?t)) = ?t" by (simp only: takeWhile_dropWhile_id rev_rev_ident)
  then have t: "?u @ rev (takeWhile js_space (rev ?t)) = ?t" by (simp only: rev_append)
  have "dropWhile js_space ?u = ?u"
  proof (cases ?u)
    case (Cons c cs)
    then have "hd ?t = c" using t by (metis append_Cons list.sel(1))
    moreover have "?t \<noteq> []" using Cons t by force
    ultimately have "\<not> js_space c" using hd_dropWhile by metis
    with Cons show ?thesis by simp
  next
    case Nil
    show ?thesis unfolding Nil by simp
  qed
  then show ?thesis by (simp add: js_trim_def dropWhile_idem)
qed

definition headers_safe :: "(string \<times> string) list \<Rightarrow> bool" where
  "headers_safe hs \<longleftrightarrow> distinct (map fst hs) \<and> list_all (\<lambda>(k, v). header_kept k v \<and> js_trim k = k) hs"

lemma headers_safe_put:
  assumes "headers_safe out" "header_kept (js_trim k) v"
  shows "headers_safe (obj_put (js_trim k) v out)"
  using assms set_obj_put [of "js_trim k" v out] by (fastforce simp: headers_safe_def list_all_iff)

lemma safe_headers_safe: "headers_safe (safe_headers hs)"
proof -
  have "headers_safe (fold (\<lambda>(k, v) out. if header_kept (js_trim k) v then obj_put (js_trim k) v out else out) hs out)"
    if "headers_safe out" for out
    using that by (induction hs arbitrary: out) (auto simp: headers_safe_put)
  then show ?thesis by (simp add: safe_headers_def headers_safe_def)
qed

lemma safe_headers_id:
  assumes "headers_safe hs" shows "safe_headers hs = hs"
proof -
  have "list_all (\<lambda>(k, v). header_kept k v \<and> js_trim k = k) hs" using assms by (simp add: headers_safe_def)
  then have "fold (\<lambda>(k, v) out. if header_kept (js_trim k) v then obj_put (js_trim k) v out else out) hs out
      = fold (\<lambda>(k, v). obj_put k v) hs out" for out
    by (induction hs arbitrary: out) auto
  then show ?thesis using obj_spread_id [of "[]" hs] assms by (simp add: safe_headers_def obj_spread_def headers_safe_def)
qed

text \<open>C40: Metadata that passes the sanitiser has a topic of at most 256 safe characters, headers with distinct trimmed names, none
  of which reaches the prototype, and values of at most 2048 characters; sanitising it again changes nothing.\<close>

theorem sanitized_metadata:
  assumes "sanitizeForeignMetadata m = Some m'"
  shows "SAFE_TOPIC (fm_subjectOrTopic m') \<and> length (fm_subjectOrTopic m') \<le> 256
    \<and> distinct (map fst (fm_headers m'))
    \<and> list_all (\<lambda>(k, v). k \<noteq> [] \<and> js_trim k = k \<and> js_lower k \<notin> {''__proto__'', ''constructor'', ''prototype''} \<and> length v \<le> 2048) (fm_headers m')
    \<and> sanitizeForeignMetadata m' = Some m'"
proof -
  have m': "m' = m\<lparr>fm_headers := safe_headers (fm_headers m)\<rparr>" "SAFE_TOPIC (fm_subjectOrTopic m)"
    "length (fm_subjectOrTopic m) \<le> 256" "fm_subjectOrTopic m \<noteq> []"
    using assms by (auto simp: sanitizeForeignMetadata_def Let_def MAX_FOREIGN_TOPIC_LENGTH_def split: if_splits)
  have "headers_safe (fm_headers m')" by (simp add: m' safe_headers_safe)
  moreover from this have "sanitizeForeignMetadata m' = Some m'"
    using m' by (simp add: sanitizeForeignMetadata_def Let_def MAX_FOREIGN_TOPIC_LENGTH_def safe_headers_id [OF safe_headers_safe])
  ultimately show ?thesis using m' by (auto simp: headers_safe_def header_kept_def MAX_FOREIGN_HEADER_VALUE_def list_all_iff)
qed

definition demo_metadata :: foreign_metadata where
  "demo_metadata = \<lparr>fm_protocol = Nats, fm_adapterId = ''n'', fm_subjectOrTopic = ''a.b'',
     fm_headers = [('' __Proto__ '', ''x''), ('' k '', ''1''), (''k'', ''2'')], fm_publisherId = None, fm_timestampIso = ''t''\<rparr>"

theorem sanitized_metadata_witness:
  "\<exists>m'. sanitizeForeignMetadata demo_metadata = Some m' \<and> fm_headers m' = [(''k'', ''2'')] \<and> sanitizeForeignMetadata m' = Some m'"
proof -
  have "sanitizeForeignMetadata demo_metadata = Some (demo_metadata\<lparr>fm_headers := [(''k'', ''2'')]\<rparr>)"
    by code_simp
  with sanitized_metadata [OF this] show ?thesis by (auto simp: demo_metadata_def)
qed

text \<open>Every foreign message the gateway handles to the end is on record: either exactly one rejection of its adapter is added, or
  the API accepted its document, with sanitised metadata and attested provenance, and the synchronisation is recorded. When the
  handler throws, neither is.\<close>

theorem inbound_accounted:
  "case onInbound A t a p m g of
     Done _ g' \<Rightarrow> (\<exists>row. db_foreign_rejected (bg_archive g') = db_foreign_rejected (bg_archive g) @ [row] \<and> fr_adapterId row = ba_id a
         \<and> db_foreign_sync (bg_archive g') = db_foreign_sync (bg_archive g))
       \<or> (\<exists>safe d status i x. sanitizeForeignMetadata m = Some safe \<and> ba_verifyProvenance a p safe \<and> ba_translate a p safe = Inr d
         \<and> api_post A (sanitizedEnvelope d (ba_extractIdempotencyKey a p safe)) = Post_reply True status i x
         \<and> (case i of None \<Rightarrow> e_id d | Some j \<Rightarrow> j) \<in> fs_documentId ` set (db_foreign_sync (bg_archive g'))
         \<and> db_foreign_rejected (bg_archive g') = db_foreign_rejected (bg_archive g))
   | Fail _ g' \<Rightarrow> bg_archive g' = bg_archive g"
proof -
  have added: "db_foreign_rejected (appendForeignRejected r d) = db_foreign_rejected d @ [x] \<longleftrightarrow> x = last (db_foreign_rejected (appendForeignRejected r d))"
    "fr_adapterId (last (db_foreign_rejected (appendForeignRejected r d))) = fj_adapterId r"
    "db_foreign_sync (appendForeignRejected r d) = db_foreign_sync d" for r d x
    by (auto simp: appendForeignRejected_def use_id_def)
  have rec: "(\<exists>g'. record_sync a i k now h = Done () g' \<and> i \<in> fs_documentId ` set (db_foreign_sync (bg_archive g'))
        \<and> db_foreign_rejected (bg_archive g') = db_foreign_rejected (bg_archive h))
      \<or> (\<exists>e g'. record_sync a i k now h = Fail e g' \<and> bg_archive g' = bg_archive h)" for i k now h
  proof (cases "upsertForeignSyncState (sync_state a i k now) (bg_archive h)")
    case (Done u d)
    then have "db_foreign_rejected d = db_foreign_rejected (bg_archive h)"
      by (auto simp: upsertForeignSyncState_def split: if_splits)
    with Done upsert_sync_frame(2) [OF Done] show ?thesis by (simp add: record_sync_def sync_state_def)
  next
    case (Fail e d)
    with upsert_sync_frame(1) [OF Fail] show ?thesis by (simp add: record_sync_def)
  qed
  show ?thesis
  proof (cases "sanitizeForeignMetadata m")
    case None
    then show ?thesis by (simp add: onInbound_def reject_foreign_def added)
  next
    case (Some safe)
    show ?thesis
    proof (cases "ba_verifyProvenance a p safe")
      case False
      with Some show ?thesis by (simp add: onInbound_def Let_def reject_foreign_def added)
    next
      case verified: True
      show ?thesis
      proof (cases "ba_translate a p safe")
        case (Inl x)
        with Some verified show ?thesis by (cases x) (simp add: onInbound_def Let_def reject_foreign_def added)
      next
        case (Inr d)
        let ?key = "ba_extractIdempotencyKey a p safe"
        obtain h where h: "onInbound A t a p m g = post_inbound A a p ?key (sanitizedEnvelope d ?key) (iso_of_ms t) h"
          "bg_archive h = bg_archive g"
          using Inr Some verified by (simp add: onInbound_def Let_def)
        show ?thesis
        proof (cases "api_post A (sanitizedEnvelope d ?key)")
          case Post_unreachable
          with h show ?thesis by (simp add: post_inbound_def)
        next
          case (Post_reply ok status i x)
          have "e_id (sanitizedEnvelope d ?key) = e_id d" by (simp add: sanitizedEnvelope_def)
          then have "post_inbound A a p ?key (sanitizedEnvelope d ?key) (iso_of_ms t) h
              = record_sync a (case i of None \<Rightarrow> e_id d | Some j \<Rightarrow> j) ?key (iso_of_ms t) h" if ok
            using that Post_reply by (simp add: post_inbound_def split: option.split)
          moreover have "\<exists>r. post_inbound A a p ?key (sanitizedEnvelope d ?key) (iso_of_ms t) h = Done () (on_archive (appendForeignRejected r) h)
              \<and> fj_adapterId r = ba_id a" if "\<not> ok"
            using that Post_reply by (simp add: post_inbound_def reject_foreign_def) (rule exI, rule conjI, rule refl, simp)
          ultimately show ?thesis
            using h rec [of "case i of None \<Rightarrow> e_id d | Some j \<Rightarrow> j" ?key "iso_of_ms t" h] Post_reply Some verified Inr
            by (cases ok) (auto simp: added)
        qed
      qed
    qed
  qed
qed

section \<open>Repeated capture\<close>

fun event_type_str :: "event_type \<Rightarrow> string" where
  "event_type_str Transition_committed = ''transition.committed''"
| "event_type_str Message_rejected = ''message.rejected''"
| "event_type_str Archive_appended = ''archive.appended''"

definition event_of :: "channel_event \<Rightarrow> replay_event" where
  "event_of e = \<lparr>re_at = ev_at e, re_type = event_type_str (ev_type e), re_messageId = ev_messageId e\<rparr>"

definition outbound_count :: "string \<Rightarrow> string \<Rightarrow> db \<Rightarrow> nat" where
  "outbound_count a mid d = length (filter (\<lambda>r. bo_adapterId r = a \<and> bo_messageId r = mid) (db_outbound d))"

text \<open>Capturing only adds to the queue.\<close>

definition captured :: "db \<Rightarrow> db \<Rightarrow> bool" where
  "captured d d' \<longleftrightarrow> message_ids d' = message_ids d \<and> (\<forall>b x. outbound_count b x d \<le> outbound_count b x d')"

lemma captured_refl [simp]: "captured d d"
  by (simp add: captured_def)

lemma captured_trans: "captured d d1 \<Longrightarrow> captured d1 d2 \<Longrightarrow> captured d d2"
  unfolding captured_def using le_trans by metis

lemma captured_less:
  "captured d d1 \<Longrightarrow> outbound_count b x d1 < k \<Longrightarrow> outbound_count b x d < k"
  "captured d d1 \<Longrightarrow> k < outbound_count b x d \<Longrightarrow> k < outbound_count b x d1"
  by (auto simp: captured_def intro: le_less_trans less_le_trans)

lemma enqueue_count:
  assumes "mid \<in> message_ids d"
  shows "\<exists>d'. enqueueBridgeOutbound b mid now d = Done () d' \<and> captured d d' \<and> outbound_count b mid d < outbound_count b mid d'"
  using assms by (simp add: enqueueBridgeOutbound_def captured_def use_id_def message_ids_def outbound_count_def)

lemma enqueue_for_count:
  assumes "mid \<in> message_ids d"
  shows "\<exists>d'. enqueue_for as m mid now d = Done () d' \<and> captured d d'
    \<and> (a \<in> set as \<and> matchesRoutingTarget m a \<longrightarrow> outbound_count (ba_id a) mid d < outbound_count (ba_id a) mid d')"
  using assms
proof (induction as arbitrary: d)
  case (Cons a' as)
  show ?case
  proof (cases "matchesRoutingTarget m a'")
    case True
    obtain d1 where d1: "enqueueBridgeOutbound (ba_id a') mid now d = Done () d1" "captured d d1"
      "outbound_count (ba_id a') mid d < outbound_count (ba_id a') mid d1"
      using enqueue_count [OF Cons.prems] by blast
    then have "mid \<in> message_ids d1" using Cons.prems by (simp add: captured_def)
    from Cons.IH [OF this] obtain d2 where d2: "enqueue_for as m mid now d1 = Done () d2" "captured d1 d2"
      "a \<in> set as \<and> matchesRoutingTarget m a \<longrightarrow> outbound_count (ba_id a) mid d1 < outbound_count (ba_id a) mid d2" by blast
    have "enqueue_for (a' # as) m mid now d = Done () d2" using True d1(1) d2(1) by simp
    moreover have "outbound_count (ba_id a) mid d < outbound_count (ba_id a) mid d2" if "a \<in> set (a' # as)" "matchesRoutingTarget m a"
    proof (cases "a = a'")
      case True
      with d1(3) captured_less(2) [OF d2(2)] show ?thesis by blast
    next
      case False
      with that d2(3) captured_less(1) [OF d1(2)] show ?thesis by simp
    qed
    ultimately show ?thesis using captured_trans [OF d1(2) d2(2)] by blast
  next
    case False
    then have "enqueue_for (a' # as) m mid now d = enqueue_for as m mid now d" by simp
    with False Cons.IH [OF Cons.prems] show ?thesis by auto
  qed
qed simp

text \<open>Events of messages the archive has are all captured.\<close>

definition capturable :: "api \<Rightarrow> replay_event \<Rightarrow> bool" where
  "capturable A e \<longleftrightarrow> re_type e \<in> {''archive.appended'', ''transition.committed''} \<and> fetchMessage A (re_messageId e) \<noteq> None"

lemma capture_events_count:
  assumes "\<forall>e\<in>set es. re_messageId e \<in> message_ids (bg_archive g)"
  shows "captured (bg_archive g) (bg_archive (capture_events A as now es g))
    \<and> bg_lastStreamAt (capture_events A as now es g) = (if es = [] then bg_lastStreamAt g else re_at (last es))
    \<and> (e \<in> set es \<and> capturable A e \<and> a \<in> set as \<and> matchesRoutingTarget (the (fetchMessage A (re_messageId e))) a \<longrightarrow>
       outbound_count (ba_id a) (re_messageId e) (bg_archive g)
         < outbound_count (ba_id a) (re_messageId e) (bg_archive (capture_events A as now es g)))"
  using assms
proof (induction es arbitrary: g)
  case (Cons e' es)
  let ?g1 = "g\<lparr>bg_lastStreamAt := re_at e'\<rparr>"
  show ?case
  proof (cases "capturable A e'")
    case False
    then have "capture_events A as now (e' # es) g = capture_events A as now es ?g1" by (auto simp: Let_def capturable_def split: option.split)
    with Cons.IH [of ?g1] Cons.prems False show ?thesis by auto
  next
    case True
    then obtain m' where m': "fetchMessage A (re_messageId e') = Some m'" by (auto simp: capturable_def)
    have mid: "re_messageId e' \<in> message_ids (bg_archive g)" using Cons.prems by simp
    obtain d' where d': "enqueue_for as m' (re_messageId e') now (bg_archive g) = Done () d'" "captured (bg_archive g) d'"
      "a \<in> set as \<and> matchesRoutingTarget m' a \<longrightarrow> outbound_count (ba_id a) (re_messageId e') (bg_archive g) < outbound_count (ba_id a) (re_messageId e') d'"
      using enqueue_for_count [OF mid, of as m' now a] by blast
    let ?g2 = "?g1\<lparr>bg_archive := d'\<rparr>" and ?r = "capture_events A as now es (?g1\<lparr>bg_archive := d'\<rparr>)"
    have eq: "capture_events A as now (e' # es) g = ?r"
      using True m' d'(1) by (auto simp: Let_def capturable_def)
    have known: "\<forall>e\<in>set es. re_messageId e \<in> message_ids (bg_archive ?g2)" using Cons.prems d'(2) by (simp add: captured_def)
    note IH = Cons.IH [OF known]
    have r: "captured d' (bg_archive ?r)" using IH by simp
    have "outbound_count (ba_id a) (re_messageId e) (bg_archive g) < outbound_count (ba_id a) (re_messageId e) (bg_archive ?r)"
      if "e \<in> set (e' # es)" "capturable A e" "a \<in> set as" "matchesRoutingTarget (the (fetchMessage A (re_messageId e))) a"
    proof (cases "e = e'")
      case True
      with that m' d'(3) captured_less(2) [OF r] show ?thesis by simp
    next
      case False
      with that IH captured_less(1) [OF d'(2)] show ?thesis by simp
    qed
    moreover have "bg_lastStreamAt ?r = re_at (last (e' # es))" using IH by simp
    ultimately show ?thesis unfolding eq using captured_trans [OF d'(2) r] by simp
  qed
qed simp

text \<open>The stream of the API is replayed from the time of the last event seen, that event included, and nothing remembers which
  events were captured: while nothing new happens, every poll queues the last message again for every adapter it is routed to.\<close>

theorem capture_repeats:
  assumes api: "\<And>since. api_replay A since = Some (map event_of (channel_replay since ch))"
    and log: "ch_log ch = before @ [e]" "ev_type e \<noteq> Message_rejected"
    and known: "\<forall>x\<in>set (ch_log ch). ev_messageId x \<in> message_ids (bg_archive g)"
    and target: "fetchMessage A (ev_messageId e) = Some m" "a \<in> set as" "matchesRoutingTarget m a"
    and "bg_lastStreamAt g \<le> ev_at e"
  shows "outbound_count (ba_id a) (ev_messageId e) (bg_archive g) + n
    \<le> outbound_count (ba_id a) (ev_messageId e) (bg_archive ((captureOutboundEvents A as now ^^ n) g))"
  using known assms(8)
proof (induction n arbitrary: g)
  case (Suc n)
  let ?g' = "captureOutboundEvents A as now g"
  let ?es = "map event_of (channel_replay (bg_lastStreamAt g) ch)"
  have es: "?es = map event_of (filter (\<lambda>e. bg_lastStreamAt g \<le> ev_at e) before) @ [event_of e]"
    using log Suc.prems(2) by (simp add: channel_replay_def)
  have g': "?g' = capture_events A as now ?es g" by (simp add: captureOutboundEvents_def api)
  have known': "\<forall>x\<in>set ?es. re_messageId x \<in> message_ids (bg_archive g)"
    using Suc.prems(1) by (auto simp: channel_replay_def event_of_def)
  have e: "re_messageId (event_of e) = ev_messageId e" "re_at (event_of e) = ev_at e" by (simp_all add: event_of_def)
  have cap: "capturable A (event_of e)" using log(2) target(1) by (cases "ev_type e") (simp_all add: capturable_def event_of_def)
  note count = capture_events_count [OF known', of A as now "event_of e" a, folded g']
  have last: "last ?es = event_of e" "?es \<noteq> []" "event_of e \<in> set ?es" unfolding es by simp_all
  from count e target last cap
  have "outbound_count (ba_id a) (ev_messageId e) (bg_archive g) < outbound_count (ba_id a) (ev_messageId e) (bg_archive ?g')" by simp
  moreover have "outbound_count (ba_id a) (ev_messageId e) (bg_archive ?g') + n
      \<le> outbound_count (ba_id a) (ev_messageId e) (bg_archive ((captureOutboundEvents A as now ^^ n) ?g'))"
    using count last e Suc.prems(1) by (intro Suc.IH) (simp_all add: captured_def)
  ultimately show ?case by (simp add: funpow_Suc_right del: funpow.simps)
qed simp

definition demo_bridge :: bridge_gateway where
  "demo_bridge = (bridge_new (demo_db (\<lambda>x. x)))\<lparr>bg_lastStreamAt := ''1970-01-01T00:00:00.000Z''\<rparr>"

definition demo_event_channel :: channel where
  "demo_event_channel = \<lparr>ch_subscribers = [], ch_seen = [''e''], ch_log = [\<lparr>ev_id = ''e'', ev_type = Archive_appended, ev_messageId = ''m1'',
     ev_payload = [], ev_at = ''9'', ev_traceparent = None, ev_tracestate = None\<rparr>], ch_calls = []\<rparr>"

theorem capture_repeats_witness:
  "outbound_count ''n'' ''m1'' (bg_archive ((captureOutboundEvents
      (demo_api\<lparr>api_replay := (\<lambda>since. Some (map event_of (channel_replay since demo_event_channel)))\<rparr>) [demo_adapter] ''t'' ^^ 5)
      demo_bridge)) \<ge> 5"
proof -
  let ?A = "demo_api\<lparr>api_replay := (\<lambda>since. Some (map event_of (channel_replay since demo_event_channel)))\<rparr>"
  let ?e = "\<lparr>ev_id = ''e'', ev_type = Archive_appended, ev_messageId = ''m1'', ev_payload = [], ev_at = ''9'', ev_traceparent = None,
     ev_tracestate = None\<rparr>"
  have "api_replay ?A since = Some (map event_of (channel_replay since demo_event_channel))" for since by simp
  moreover have "ch_log demo_event_channel = [] @ [?e]" by (simp add: demo_event_channel_def)
  moreover have "ev_type ?e \<noteq> Message_rejected" by simp
  moreover have "\<forall>x\<in>set (ch_log demo_event_channel). ev_messageId x \<in> message_ids (bg_archive demo_bridge)"
    by (simp add: demo_event_channel_def demo_bridge_def bridge_new_def demo_db_ids)
  moreover have "fetchMessage ?A (ev_messageId ?e) = Some demo_message" by (simp add: fetchMessage_def demo_api_def)
  moreover have "demo_adapter \<in> set [demo_adapter]" by simp
  moreover have "matchesRoutingTarget demo_message demo_adapter"
    by (simp add: matchesRoutingTarget_def demo_message_def obj_get_def asStringArray_def)
  moreover have "bg_lastStreamAt demo_bridge \<le> ev_at ?e"
    by (simp add: demo_bridge_def less_eq_char_def)
  ultimately have "outbound_count (ba_id demo_adapter) (ev_messageId ?e) (bg_archive demo_bridge) + 5
    \<le> outbound_count (ba_id demo_adapter) (ev_messageId ?e) (bg_archive ((captureOutboundEvents ?A [demo_adapter] ''t'' ^^ 5) demo_bridge))"
    by (rule capture_repeats)
  then show ?thesis by (simp add: demo_adapter_def del: funpow.simps)
qed

section \<open>The bridge's own token, and metadata that is dropped\<close>

text \<open>The token the gateway makes when it is constructed is accepted by the API under the same secret, issuer and audience for an
  hour and refused as expired from then on; it is never renewed, so after an hour every request of the bridge is refused.\<close>

theorem bridge_token_expires:
  "verifyJwtHs256 C later_ms (createBridgeToken C now_ms issuer audience (Some secret)) secret
      \<lparr>jo_alg = Some ''HS256'', jo_aud = Some audience, jo_iss = Some issuer, jo_sub = None, jo_nowSeconds = None, jo_requireIat = True\<rparr> =
    (if later_ms div 1000 + 30 < now_ms div 1000 then Jwt_fail ''iat-future''
     else if now_ms div 1000 + 3600 < later_ms div 1000 then Jwt_fail ''expired''
     else Jwt_ok [(''iss'', JStr issuer), (''aud'', JStr audience), (''sub'', JStr ''wenyan-bridge''), (''role'', JStr ''genesis_admin''),
            (''iat'', json_int (now_ms div 1000)), (''exp'', json_int (now_ms div 1000 + 3600))])"
proof -
  let ?claims = "[(''iss'', JStr issuer), (''aud'', JStr audience), (''sub'', JStr ''wenyan-bridge''), (''role'', JStr ''genesis_admin''),
            (''iat'', json_int (now_ms div 1000)), (''exp'', json_int (now_ms div 1000 + 3600))]"
  have token: "createBridgeToken C now_ms issuer audience (Some secret) = encodeJwtHs256 C ?claims secret []"
    by (simp add: createBridgeToken_def encodeJwtHs256_def Let_def obj_spread_def)
  have "json_wf (JObj ?claims)" by (simp add: json_int_def)
  then show ?thesis unfolding token
    by (subst verify_encoded) (simp_all add: check_claims_def Let_def obj_get_def is_num_def num_above_def num_below_def mismatch_def json_int_def)
qed

text \<open>The gateway passes on three fields of the metadata only, so the compat mode of the Kafka and MQTT adapters, which adds the
  partition and offset or the quality of service, makes no difference to what the archive gets.\<close>

theorem compat_metadata_dropped:
  "map_sum id (\<lambda>d. sanitizedEnvelope d key) (kafka_into (c\<lparr>ac_metadata_compat := x\<rparr>) kp m)
      = map_sum id (\<lambda>d. sanitizedEnvelope d key) (kafka_into c kp m)
    \<and> map_sum id (\<lambda>d. sanitizedEnvelope d key) (mqtt_into (c\<lparr>ac_metadata_compat := x\<rparr>) mp m)
      = map_sum id (\<lambda>d. sanitizedEnvelope d key) (mqtt_into c mp m)"
proof -
  have get: "obj_get (ps @ qs) k = obj_get ps k" if "k \<in> fst ` set ps" for k and ps qs :: obj
    using that by (auto simp: obj_get_def map_add_def dom_map_of_conv_image_fst [symmetric] split: option.split)
  have keys: "''routing'' \<in> fst ` set (foreign_meta k d f t)" "''provenance'' \<in> fst ` set (foreign_meta k d f t)" for k d f t
    by (simp_all add: foreign_meta_def)
  show ?thesis
    by (simp add: kafka_into_def mqtt_into_def Let_def foreign_document_def sanitizedEnvelope_def get keys bridge_actor_def)
qed

end
