(* ===== verification/Gateway_Auth.thy ===== *)
theory Gateway_Auth
  imports Pipeline
begin

text \<open>
  \<open>packages/gateway/src/index.ts\<close>, the parts before the routes: the limits on headers, who a request comes from, and what the
  admission, protocol and access-control laws say about it. Headers are the entries of the request, names in lower case.
  \<open>verifyAsync\<close> of \<open>@noble/ed25519\<close> is the parameter \<open>ed\<close> on bytes, \<open>None\<close> where it throws. A role or key id that names a property of
  \<open>Object.prototype\<close> is read as absent.
\<close>

section \<open>Limits\<close>

type_synonym headers = "(string \<times> string) list"

definition MAX_JSON_BODY_BYTES :: nat where "MAX_JSON_BODY_BYTES = 256 * 1024"
definition MAX_HEADER_VALUE_BYTES :: nat where "MAX_HEADER_VALUE_BYTES = 8 * 1024"
definition MAX_TOTAL_HEADER_BYTES :: nat where "MAX_TOTAL_HEADER_BYTES = 32 * 1024"

fun headers_loop :: "headers \<Rightarrow> nat \<Rightarrow> bool" where
  "headers_loop [] acc = True"
| "headers_loop ((k, v) # hs) acc =
     (let vb = length (utf8ToBytes v); acc' = acc + (length (utf8ToBytes k) + vb) in
      if MAX_HEADER_VALUE_BYTES < vb then False
      else if MAX_TOTAL_HEADER_BYTES < acc' then False
      else headers_loop hs acc')"

definition headersWithinLimits :: "headers \<Rightarrow> bool" where
  "headersWithinLimits hs = headers_loop hs 0"

definition contentLengthWithinLimit :: "headers \<Rightarrow> bool" where
  "contentLengthWithinLimit hs =
     (case map_of hs ''content-length'' of
        None \<Rightarrow> True
      | Some raw \<Rightarrow>
        (if raw = [] then True
         else case str_Number raw of
             None \<Rightarrow> False
           | Some n \<Rightarrow> (if n < 0 then False else n \<le> of_nat MAX_JSON_BODY_BYTES)))"

section \<open>The actor of a request\<close>

record read_actor =
  ra_id :: string
  ra_role :: string

record auth_options =
  ao_jwtIssuer :: string
  ao_jwtAudience :: string
  ao_eddsa :: bool                                  \<comment> \<open>\<open>jwtAlg\<close> is \<open>EdDSA\<close>, not \<open>HS256\<close>\<close>
  ao_jwtSecret :: "string option"
  ao_jwtPublicKeys :: "(string \<times> string) list option"
  ao_allowHeaderActor :: bool

definition default_auth_options :: auth_options where
  "default_auth_options = \<lparr>ao_jwtIssuer = ''wenyan.local'', ao_jwtAudience = ''wenyan-gateway'', ao_eddsa = False,
     ao_jwtSecret = Some ''wenyan-local-jwt-secret'', ao_jwtPublicKeys = None, ao_allowHeaderActor = False\<rparr>"

text \<open>
  \<open>Buffer.from(s, 'base64')\<close>: characters outside both alphabets are skipped, a pad character ends the text, an incomplete group
  gives the bytes it determines. \<open>toString('utf8')\<close> of bytes that are no text of the model counts as text that does not parse.
\<close>

definition buffer_base64 :: "string \<Rightarrow> nat list" where
  "buffer_base64 s = octets (concat (map (\<lambda>c. case b64_val (std_char c) of None \<Rightarrow> [] | Some v \<Rightarrow> [v]) (takeWhile (\<lambda>c. c \<noteq> CHR ''='') s)))"

definition decodeBase64Url :: "string \<Rightarrow> string option" where
  "decodeBase64Url input = utf8_decode (buffer_base64 (url_padded input))"

definition unauthenticated :: "read_actor option \<times> string option" where
  "unauthenticated = (None, Some ''read-unauthenticated'')"

definition actor_of_claims :: "obj \<Rightarrow> read_actor option \<times> string option" where
  "actor_of_claims claims =
     (case (obj_get claims ''sub'', obj_get claims ''role'') of
        (Some (JStr sub), Some (JStr role)) \<Rightarrow> (Some \<lparr>ra_id = sub, ra_role = role\<rparr>, None)
      | _ \<Rightarrow> unauthenticated)"

definition hs256_actor :: "crypto \<Rightarrow> int \<Rightarrow> auth_options \<Rightarrow> string \<Rightarrow> err + (read_actor option \<times> string option)" where
  "hs256_actor C now_ms cfg token =
     (case (case ao_jwtSecret cfg of None \<Rightarrow> [] | Some s \<Rightarrow> s) of
        [] \<Rightarrow> Inr (None, Some ''auth-config-invalid'')
      | secret \<Rightarrow>
        (case verifyJwtHs256 C now_ms token secret \<lparr>jo_alg = None, jo_aud = Some (ao_jwtAudience cfg),
              jo_iss = Some (ao_jwtIssuer cfg), jo_sub = None, jo_nowSeconds = None, jo_requireIat = True\<rparr> of
           Jwt_throw \<Rightarrow> Inl (Error_msg ''jwt'')
         | Jwt_fail _ \<Rightarrow> Inr unauthenticated
         | Jwt_ok claims \<Rightarrow> Inr (actor_of_claims claims)))"

text \<open>The claims of an \<open>EdDSA\<close> token whose signature holds.\<close>

definition eddsa_claims :: "auth_options \<Rightarrow> int \<Rightarrow> obj \<Rightarrow> read_actor option \<times> string option" where
  "eddsa_claims cfg now claims =
     (if obj_get claims ''aud'' \<noteq> Some (JStr (ao_jwtAudience cfg)) \<or> obj_get claims ''iss'' \<noteq> Some (JStr (ao_jwtIssuer cfg))
      then unauthenticated
      else if \<not> is_num (obj_get claims ''iat'') \<or> num_above (obj_get claims ''iat'') (now + 30) \<or> num_below (obj_get claims ''exp'') now
      then unauthenticated
      else actor_of_claims claims)"

definition eddsa_key :: "auth_options \<Rightarrow> obj \<Rightarrow> string option" where
  "eddsa_key cfg header =
     (let keyMap = (case ao_jwtPublicKeys cfg of None \<Rightarrow> [] | Some ks \<Rightarrow> ks);
          kid = as_str (obj_get header ''kid'')
      in case (if kid = None \<or> kid = Some [] then map_option snd (first_row keyMap) else map_of keyMap (the kid)) of
           None \<Rightarrow> None | Some k \<Rightarrow> if k = [] then None else Some k)"

definition eddsa_actor :: "(bytes \<Rightarrow> bytes \<Rightarrow> string \<Rightarrow> bool option) \<Rightarrow> int \<Rightarrow> auth_options \<Rightarrow> string
    \<Rightarrow> err + (read_actor option \<times> string option)" where
  "eddsa_actor ed now_ms cfg token =
     (case split_on (CHR ''.'') token of
        headEnc # bodyEnc # sigEnc # _ \<Rightarrow>
          (if headEnc = [] \<or> bodyEnc = [] \<or> sigEnc = [] then Inr unauthenticated
           else case (Option.bind (decodeBase64Url headEnc) json_parse, Option.bind (decodeBase64Url bodyEnc) json_parse) of
               (Some header, Some claims) \<Rightarrow>
                 (case props_of header of
                    None \<Rightarrow> Inl (Error_msg ''TypeError'')
                  | Some hs \<Rightarrow>
                    (if obj_get hs ''alg'' \<noteq> Some (JStr ''EdDSA'') then Inr unauthenticated
                     else case eddsa_key cfg hs of
                         None \<Rightarrow> Inr (None, Some ''auth-config-invalid'')
                       | Some publicKeyHex \<Rightarrow>
                         (if \<not> is_hex publicKeyHex then Inl (Error_msg ''hex'')
                          else case ed (map of_nat (buffer_base64 (url_padded sigEnc))) (utf8ToBytes (headEnc @ ''.'' @ bodyEnc)) publicKeyHex of
                              None \<Rightarrow> Inl (Error_msg ''ed25519'')
                            | Some False \<Rightarrow> Inr unauthenticated
                            | Some True \<Rightarrow>
                              (case props_of claims of
                                 None \<Rightarrow> Inl (Error_msg ''TypeError'')
                               | Some cs \<Rightarrow> Inr (eddsa_claims cfg (now_ms div 1000) cs)))))
             | _ \<Rightarrow> Inr unauthenticated)
      | _ \<Rightarrow> Inr unauthenticated)"

text \<open>\<open>test_mode\<close>: \<open>NODE_ENV\<close> is \<open>test\<close> or \<open>WENYAN_ALLOW_HEADER_ACTOR\<close> is \<open>true\<close>.\<close>

definition header_text :: "headers \<Rightarrow> string \<Rightarrow> string" where
  "header_text hs k = (case map_of hs k of None \<Rightarrow> [] | Some v \<Rightarrow> v)"

definition bearer :: "headers \<Rightarrow> string option" where
  "bearer hs =
     (case map_of hs ''authorization'' of
        None \<Rightarrow> None
      | Some a \<Rightarrow> if take 7 a = ''Bearer '' then Some (js_trim (drop 7 a)) else None)"

definition actorFromHeaders :: "crypto \<Rightarrow> (bytes \<Rightarrow> bytes \<Rightarrow> string \<Rightarrow> bool option) \<Rightarrow> int \<Rightarrow> bool \<Rightarrow> auth_options \<Rightarrow> headers
    \<Rightarrow> err + (read_actor option \<times> string option)" where
  "actorFromHeaders C ed now_ms test_mode cfg hs =
     (let i = header_text hs ''x-wenyan-actor-id''; r = header_text hs ''x-wenyan-actor-role'' in
      if ao_allowHeaderActor cfg \<and> test_mode \<and> i \<noteq> [] \<and> r \<noteq> [] then Inr (Some \<lparr>ra_id = i, ra_role = r\<rparr>, None)
      else case bearer hs of
          None \<Rightarrow> Inr unauthenticated
        | Some token \<Rightarrow>
          (if token = [] then Inr unauthenticated
           else if \<not> ao_eddsa cfg then hs256_actor C now_ms cfg token
           else eddsa_actor ed now_ms cfg token))"

section \<open>The laws a request meets\<close>

definition requiredOffices :: "envelope \<Rightarrow> string list" where
  "requiredOffices m =
     (case obj_get (e_payload m) ''routing'' of
        Some (JObj routing) \<Rightarrow>
          (case obj_get routing ''destination'' of
             Some (JArr vs) \<Rightarrow> map js_String vs | Some (JStr s) \<Rightarrow> [s] | _ \<Rightarrow> [])
      | _ \<Rightarrow> [])"

definition gateway_law_errors :: "string \<Rightarrow> strict_errors" where
  "gateway_law_errors t = \<lparr>se_missing = ''law-missing-'' @ t, se_ambiguous = ''law-ambiguous-'' @ t, se_invalid = ''law-invalid-'' @ t\<rparr>"

text \<open>What the admission law answers to a genre.\<close>

definition admitted :: "string list \<Rightarrow> string \<Rightarrow> bool" where
  "admitted allowed genre \<longleftrightarrow> ''*'' \<in> set allowed \<or> genre \<in> set allowed"

definition admissionCheck :: "db \<Rightarrow> int \<Rightarrow> iso \<Rightarrow> envelope \<Rightarrow> law_resolver \<Rightarrow> (err + unit) \<times> law_resolver" where
  "admissionCheck d nowMs atIso m r =
     (if e_genre m = ''ti_definition'' \<or> e_genre m = ''edict'' then (Inr (), r)
      else case loadLawContent AdmissionLawContentSchema (gateway_law_errors ''admission'') d nowMs Admission atIso r of
          (Inl e, r1) \<Rightarrow> (Inl e, r1)
        | (Inr (Inl e), r1) \<Rightarrow> (Inl (Error_msg e), r1)
        | (Inr (Inr allowed), r1) \<Rightarrow>
            (if admitted allowed (e_genre m) then Inr () else Inl (Error_msg ''genre-not-admitted''), r1))"

definition protocolRequiredAcks :: "db \<Rightarrow> int \<Rightarrow> iso \<Rightarrow> envelope \<Rightarrow> law_resolver \<Rightarrow> (err + nat) \<times> law_resolver" where
  "protocolRequiredAcks d nowMs atIso m r =
     (let base = (let n = length (requiredOffices m) in if n = 0 then 1 else n) in
      case loadLawContent ProtocolLawContentSchema (gateway_law_errors ''protocol'') d nowMs Protocol atIso r of
        (Inl e, r1) \<Rightarrow> (Inl e, r1)
      | (Inr (Inl e), r1) \<Rightarrow> (Inl (Error_msg e), r1)
      | (Inr (Inr content), r1) \<Rightarrow> (Inr (case map_of content (e_genre m) of Some n \<Rightarrow> n | None \<Rightarrow> base), r1))"

text \<open>What the access-control law answers: \<open>None\<close> allows, \<open>Some\<close> is the reason it does not.\<close>

definition may_read :: "access_control_law \<Rightarrow> read_actor option \<Rightarrow> string \<Rightarrow> string option" where
  "may_read law actor genre =
     (case actor of
        None \<Rightarrow> if ac_anonymous_read law then None else Some ''read-unauthenticated''
      | Some a \<Rightarrow>
        (let allowed = (case map_of (ac_read_permissions law) (ra_role a) of None \<Rightarrow> [] | Some g \<Rightarrow> g) in
         if ''*'' \<in> set allowed \<or> genre \<in> set allowed then None else Some ''read-forbidden''))"

definition checkReadAccess :: "db \<Rightarrow> int \<Rightarrow> iso \<Rightarrow> read_actor option \<Rightarrow> string \<Rightarrow> law_resolver
    \<Rightarrow> (err + string option) \<times> law_resolver" where
  "checkReadAccess d nowMs atIso actor genre r =
     (case loadLawContent AccessControlLawContentSchema (gateway_law_errors ''access-control'') d nowMs Access_control atIso r of
        (Inl e, r1) \<Rightarrow> (Inl e, r1)
      | (Inr (Inl e), r1) \<Rightarrow> (Inr (Some e), r1)
      | (Inr (Inr law), r1) \<Rightarrow> (Inr (may_read law actor genre), r1))"

end
