(* ===== verification/Censorate.thy ===== *)
theory Censorate
  imports Archive_Audit
begin

text \<open>
  \<open>packages/censorate/src\<close>: the anomaly detector, the signed read receipts (\<open>seal 0\<close>) and the audit checkpoints. The readings of
  the clock are arguments. A number that JavaScript computes by division or square root is a rational, and \<open>fl\<close> is its JSON text;
  \<open>None\<close> is \<open>NaN\<close> or an infinity. The spans of OpenTelemetry have no effect on the program and are left out.
\<close>

section \<open>anomaly.ts\<close>

record velocity_sample =
  vs_actorId :: string
  vs_timestampIso :: iso

record temporal_sample =
  ts_nodeId :: string
  ts_claimed :: iso
  ts_observed :: iso

record geographic_sample =
  gs_actorId :: string
  gs_from :: string
  gs_to :: string
  gs_distanceKm :: rat
  gs_deltaSeconds :: rat

record coalition_sample =
  co_genre :: string
  co_offices :: "string list"
  co_observed :: rat
  co_baseline :: rat

record anomaly_alert =
  an_id :: string
  an_alert_type :: string
  an_severity :: string
  an_actor_id :: "string option"
  an_node_id :: "string option"
  an_evidence :: obj
  an_created_at :: iso
  an_action_taken :: "string option"

definition emit :: "int \<Rightarrow> iso \<Rightarrow> string \<Rightarrow> string \<Rightarrow> string option \<Rightarrow> string option \<Rightarrow> obj \<Rightarrow> string \<Rightarrow> db
    \<Rightarrow> (db, anomaly_alert option) out" where
  "emit now_ms createdAt alertType severity actorId nodeId evidence action d =
     and_then (appendCensorateAlert now_ms
         \<lparr>ca_id = None, ca_alertType = alertType, ca_severity = severity, ca_actorId = actorId, ca_nodeId = nodeId,
          ca_evidence = evidence, ca_createdAt = createdAt, ca_actionTaken = Some action\<rparr> d)
       (\<lambda>_. Done (Some \<lparr>an_id = alertType @ '':'' @ int_str now_ms, an_alert_type = alertType, an_severity = severity,
          an_actor_id = actorId, an_node_id = nodeId, an_evidence = evidence, an_created_at = createdAt,
          an_action_taken = Some action\<rparr>))"

text \<open>The map of the samples by actor, in the order the actors appear; a sample whose time does not parse is dropped.\<close>

fun by_actor :: "velocity_sample list \<Rightarrow> (string \<times> int list) list \<Rightarrow> (string \<times> int list) list" where
  "by_actor [] acc = acc"
| "by_actor (s # ss) acc =
     (case ms_of_iso (vs_timestampIso s) of
        None \<Rightarrow> by_actor ss acc
      | Some ts \<Rightarrow> by_actor ss (obj_put (vs_actorId s)
          ((case map_of acc (vs_actorId s) of None \<Rightarrow> [] | Some arr \<Rightarrow> arr) @ [ts]) acc))"

definition span_ms :: "int list \<Rightarrow> int" where
  "span_ms sorted_ts = max (last sorted_ts - hd sorted_ts) 1000"

definition rate_per_minute :: "int list \<Rightarrow> rat" where
  "rate_per_minute sorted_ts = of_nat (length sorted_ts * 60000) / of_int (span_ms sorted_ts)"

definition too_fast :: "nat \<Rightarrow> int list \<Rightarrow> bool" where
  "too_fast threshold sorted_ts \<longleftrightarrow> threshold < length sorted_ts \<and> of_nat threshold < rate_per_minute sorted_ts"

text \<open>\<open>Number(x.toFixed(2))\<close>.\<close>

definition to_fixed2 :: "rat \<Rightarrow> json" where
  "to_fixed2 x = (let (m, e) = norm_num \<lfloor>x * 100 + 1 / 2\<rfloor> 2 in JNum m e)"

fun first_fast :: "nat \<Rightarrow> (string \<times> int list) list \<Rightarrow> (string \<times> int list) option" where
  "first_fast threshold [] = None"
| "first_fast threshold ((actorId, timestamps) # rest) =
     (let ts = sort timestamps in
      if timestamps \<noteq> [] \<and> too_fast threshold ts then Some (actorId, ts) else first_fast threshold rest)"

definition detectVelocity :: "int \<Rightarrow> iso \<Rightarrow> velocity_sample list \<Rightarrow> nat \<Rightarrow> db \<Rightarrow> (db, anomaly_alert option) out" where
  "detectVelocity now_ms createdAt samples thresholdPerMinute d =
     (if samples = [] then Done None d
      else case first_fast thresholdPerMinute (by_actor samples []) of
          None \<Rightarrow> Done None d
        | Some (actorId, ts) \<Rightarrow> emit now_ms createdAt ''velocity'' ''critical'' (Some actorId) None
            [(''count'', json_int (int (length ts))), (''threshold_per_minute'', json_int (int thresholdPerMinute)),
             (''rate_per_minute'', to_fixed2 (rate_per_minute ts)), (''span_ms'', json_int (span_ms ts))]
            ''quarantine'' d)"

definition time_drift :: "iso \<Rightarrow> iso \<Rightarrow> int option" where
  "time_drift a b = (case (ms_of_iso a, ms_of_iso b) of (Some x, Some y) \<Rightarrow> Some \<bar>x - y\<bar> | _ \<Rightarrow> None)"

text \<open>A drift that is \<open>NaN\<close> is not within the threshold.\<close>

definition detectTemporal :: "int \<Rightarrow> iso \<Rightarrow> temporal_sample \<Rightarrow> int \<Rightarrow> db \<Rightarrow> (db, anomaly_alert option) out" where
  "detectTemporal now_ms createdAt s driftMsThreshold d =
     (let drift = time_drift (ts_claimed s) (ts_observed s) in
      if (case drift of Some n \<Rightarrow> n \<le> driftMsThreshold | None \<Rightarrow> False) then Done None d
      else emit now_ms createdAt ''temporal_anomaly'' ''critical'' None (Some (ts_nodeId s))
        [(''drift_ms'', json_nan_int drift), (''threshold_ms'', json_int driftMsThreshold)] ''log'' d)"

definition speed_kmh :: "geographic_sample \<Rightarrow> rat option" where
  "speed_kmh s = (if gs_deltaSeconds s \<le> 0 then None else Some (gs_distanceKm s / gs_deltaSeconds s * 3600))"

definition detectGeographic :: "(rat option \<Rightarrow> json) \<Rightarrow> int \<Rightarrow> iso \<Rightarrow> geographic_sample \<Rightarrow> rat \<Rightarrow> db
    \<Rightarrow> (db, anomaly_alert option) out" where
  "detectGeographic fl now_ms createdAt s maxKmh d =
     (if (case speed_kmh s of None \<Rightarrow> False | Some v \<Rightarrow> v \<le> maxKmh) then Done None d
      else emit now_ms createdAt ''geographic_impossibility'' ''critical'' (Some (gs_actorId s)) None
        [(''from'', JStr (gs_from s)), (''to'', JStr (gs_to s)), (''speed_kmh'', fl (speed_kmh s)), (''max_kmh'', fl (Some maxKmh))]
        ''quarantine'' d)"

definition variance :: "coalition_sample \<Rightarrow> rat" where
  "variance s = max (co_baseline s * (1 - co_baseline s)) (1 / 10000)"

text \<open>
  \<open>z > zThreshold\<close> for \<open>z = (observed - baseline) / sqrt variance\<close>, without the square root (\<open>z_exceeds_real\<close>).
\<close>

definition z_exceeds :: "coalition_sample \<Rightarrow> rat \<Rightarrow> bool" where
  "z_exceeds s zThreshold \<longleftrightarrow>
     (let delta = co_observed s - co_baseline s; bound = zThreshold * zThreshold * variance s in
      if 0 \<le> zThreshold then 0 < delta \<and> bound < delta * delta else 0 \<le> delta \<or> delta * delta < bound)"

definition detectCoalition :: "(coalition_sample \<Rightarrow> json) \<Rightarrow> (rat option \<Rightarrow> json) \<Rightarrow> int \<Rightarrow> iso \<Rightarrow> coalition_sample \<Rightarrow> rat \<Rightarrow> db
    \<Rightarrow> (db, anomaly_alert option) out" where
  "detectCoalition z_score fl now_ms createdAt s zThreshold d =
     (if \<not> z_exceeds s zThreshold then Done None d
      else emit now_ms createdAt ''coalition'' ''warning'' None None
        [(''genre'', JStr (co_genre s)), (''offices'', JArr (map JStr (co_offices s))),
         (''observed_probability'', fl (Some (co_observed s))), (''baseline_probability'', fl (Some (co_baseline s))),
         (''z_score'', z_score s)] ''log'' d)"

section \<open>audit.ts\<close>

definition bytes_hex :: "bytes \<Rightarrow> string" where
  "bytes_hex bs = concat (map (\<lambda>b. [hex_digit (unat b div 16), hex_digit (unat b mod 16)]) bs)"

definition sign_hex :: "crypto \<Rightarrow> string \<Rightarrow> string \<Rightarrow> string" where
  "sign_hex C input secret = bytes_hex (hmac_sha256 C (utf8ToBytes secret) (utf8ToBytes input))"

text \<open>A property whose value is \<open>undefined\<close> is left out of the text.\<close>

definition prop_if :: "string \<Rightarrow> string option \<Rightarrow> obj" where
  "prop_if k v = (case v of None \<Rightarrow> [] | Some s \<Rightarrow> [(k, JStr s)])"

definition seal0_signed :: "seal0_row \<Rightarrow> json" where
  "seal0_signed r = JObj ([(''id'', JStr (s0_id r)), (''document_id'', opt_json (s0_document_id r)),
     (''actor_id'', JStr (s0_actor_id r)), (''query_timestamp'', JStr (s0_query_timestamp r)),
     (''query_parameters_hash'', JStr (s0_query_parameters_hash r)), (''result_hash'', JStr (s0_result_hash r)),
     (''result_status'', JStr (s0_result_status r))]
     @ prop_if ''reason'' (s0_reason r) @ prop_if ''trace_id'' (s0_trace_id r) @ prop_if ''node_id'' (s0_node_id r))"

record seal0_input =
  ri_documentId :: "string option"
  ri_actor :: string
  ri_genre :: "string option"
  ri_queryParameters :: obj
  ri_result :: json
  ri_allowed :: bool
  ri_reason :: "string option"
  ri_traceId :: "string option"
  ri_nodeId :: "string option"
  ri_atIso :: "iso option"

definition receipt_of :: "crypto \<Rightarrow> string \<Rightarrow> int \<Rightarrow> iso \<Rightarrow> seal0_input \<Rightarrow> seal0_row" where
  "receipt_of C secret now_ms now input =
     (let body = \<lparr>
        s0_id = ''seal0:'' @ (case ri_documentId input of None \<Rightarrow> ''none'' | Some x \<Rightarrow> x) @ '':'' @ ri_actor input @ '':'' @ int_str now_ms,
        s0_document_id = ri_documentId input, s0_actor_id = ri_actor input, s0_genre = ri_genre input,
        s0_query_timestamp = (case ri_atIso input of None \<Rightarrow> now | Some t \<Rightarrow> t),
        s0_query_parameters_hash = sha256 C (stringify (JObj (ri_queryParameters input))),
        s0_result_hash = sha256 C (stringify (ri_result input)),
        s0_result_status = (if ri_allowed input then ''allowed'' else ''denied''),
        s0_reason = ri_reason input, s0_signature = [], s0_trace_id = ri_traceId input, s0_node_id = ri_nodeId input\<rparr>
      in body\<lparr>s0_signature := sign_hex C (stringify (seal0_signed body)) secret\<rparr>)"

definition createReadReceipt :: "crypto \<Rightarrow> string \<Rightarrow> int \<Rightarrow> iso \<Rightarrow> seal0_input \<Rightarrow> db \<Rightarrow> (db, seal0_row) out" where
  "createReadReceipt C secret now_ms now input d =
     (if ri_actor input = [] then Fail (Error_msg ''seal0-actor-required'') d
      else (let receipt = receipt_of C secret now_ms now input
            in and_then (appendSeal0Receipt receipt d) (\<lambda>_. Done receipt)))"

definition verifySeal0 :: "crypto \<Rightarrow> string \<Rightarrow> seal0_row \<Rightarrow> bool" where
  "verifySeal0 C secret r \<longleftrightarrow> s0_signature r = sign_hex C (stringify (seal0_signed r)) secret"

section \<open>checkpoint.ts\<close>

definition createCheckpoint :: "(string \<Rightarrow> string) \<Rightarrow> iso \<Rightarrow> iso \<Rightarrow> scope \<Rightarrow> string list \<Rightarrow> int \<Rightarrow> db \<Rightarrow> (db, audit_checkpoint) out" where
  "createCheckpoint sha root_at createdAt scope nodeSignatures sealCount d =
     (let (rt, d1) = getMerkleRoot sha root_at scope d;
          checkpoint = \<lparr>ac_id = Some (''checkpoint:'' @ scope_str scope @ '':'' @ createdAt), ac_scope = scope, ac_merkleRoot = rt,
            ac_sealCount = sealCount, ac_nodeSignatures = nodeSignatures, ac_createdAt = createdAt\<rparr>
      in and_then (appendAuditCheckpoint checkpoint d1) (\<lambda>_. Done checkpoint))"

text \<open>\<open>typed.checkpoint?.merkleRoot\<close> is truthy.\<close>

definition has_root :: "json option \<Rightarrow> bool" where
  "has_root c = (case c of Some (JObj ps) \<Rightarrow> (case obj_get ps ''merkleRoot'' of Some j \<Rightarrow> truthy j | None \<Rightarrow> False) | _ \<Rightarrow> False)"

definition verifyBundle :: "(string \<Rightarrow> string) \<Rightarrow> json \<Rightarrow> bool" where
  "verifyBundle sha bundle =
     (case bundle of
        JObj ps \<Rightarrow>
          (if \<not> has_root (obj_get ps ''checkpoint'') \<or> \<not> (case obj_get ps ''digest'' of Some j \<Rightarrow> truthy j | None \<Rightarrow> False) then False
           else if (case obj_get ps ''verification_scope'' of Some j \<Rightarrow> truthy j \<and> j \<noteq> JStr ''checkpoint-digest-only'' | None \<Rightarrow> False)
           then False
           else obj_get ps ''digest'' = Some (JStr (sha (stringify (the (obj_get ps ''checkpoint''))))))
      | _ \<Rightarrow> False)"

end
