(* ===== verification/Genesis.thy ===== *)
theory Genesis
  imports Gateway_Auth Censorate Core_Bootstrap
begin

text \<open>
  \<open>packages/genesis/src/apply.ts\<close>: the first documents of an archive and the configuration file. The readings of the clock and the
  random ids are arguments: one record \<open>genesis_item\<close> for each document. The files and \<open>migrate\<close> are left out; \<open>applyGenesisFromDir\<close>
  starts from the text of \<open>wenyan.toml\<close> and the archive.
\<close>

section \<open>The seal context\<close>

definition DEV_SEAL_CONTEXT :: seal_context where
  "DEV_SEAL_CONTEXT = \<lparr>c_draftPrivateKeyHex = replicate 64 (CHR ''1''), c_draftPublicKeyHex = None,
     c_masterPrivateKeyHex = replicate 64 (CHR ''2''), c_masterPublicKeyHex = None, c_capabilitySecret = ''wenyan-capability-secret'',
     c_lamportClock = 1, c_routeKey = ''local.default.route'',
     c_provenance = Some (Agent_actor ''wenyan-local-agent'' ''local-dev-mtls-fingerprint''),
     c_imperialSignatures = Some [''local-dev''], c_thresholdOverrides = None\<rparr>"

definition keyHexFromBase64 :: "string \<Rightarrow> err + string" where
  "keyHexFromBase64 base64 =
     (let raw = buffer_base64 base64 in
      if length raw \<noteq> 32 then Inl (Error_msg ''genesis.genesis_key must decode to 32 bytes for ed25519 seed'')
      else Inr (bytes_hex (map of_nat raw)))"

definition genesisSealContext :: "bootstrap_config \<Rightarrow> err + seal_context" where
  "genesisSealContext config =
     (case keyHexFromBase64 (cf_genesis_key (cf_genesis config)) of
        Inl e \<Rightarrow> Inl e
      | Inr keyHex \<Rightarrow> Inr (DEV_SEAL_CONTEXT\<lparr>c_draftPrivateKeyHex := keyHex, c_masterPrivateKeyHex := keyHex,
          c_capabilitySecret := ''genesis-'' @ cf_node_id (cf_genesis config),
          c_routeKey := ''genesis.'' @ cf_node_id (cf_genesis config), c_lamportClock := 1,
          c_imperialSignatures := Some [''genesis''], c_thresholdOverrides := Some [(''ti_definition'', 1), (''edict'', 1)]\<rparr>))"

section \<open>The documents\<close>

record genesis_item =
  gi_uuid :: string
  gi_effective :: iso
  gi_submitted :: iso
  gi_received :: iso
  gi_seal :: "seal_stage \<Rightarrow> iso"
  gi_verify_ms :: int
  gi_sealedAt :: iso
  gi_at :: iso

definition genesis_metadata :: obj where
  "genesis_metadata = [(''constitutional'', JBool True), (''genesis'', JBool True)]"

definition makeTiDefinition :: "string \<Rightarrow> obj \<Rightarrow> string \<Rightarrow> genesis_item \<Rightarrow> envelope" where
  "makeTiDefinition targetGenre schema actorId it =
     \<lparr>e_id = ''ti-'' @ targetGenre @ ''-'' @ gi_uuid it, e_genre = ''ti_definition'',
      e_payload = [(''target_genre'', JStr targetGenre), (''version'', JStr ''1.0.0''), (''schema'', JObj schema)],
      e_actor_id = actorId, e_actor_role = ''genesis_admin'', e_submittedAt = gi_submitted it, e_metadata = genesis_metadata\<rparr>"

definition makeEdict :: "law_type \<Rightarrow> obj \<Rightarrow> string \<Rightarrow> genesis_item \<Rightarrow> envelope" where
  "makeEdict lawType content actorId it =
     \<lparr>e_id = ''edict-'' @ law_type_str lawType @ ''-'' @ gi_uuid it, e_genre = ''edict'',
      e_payload = [(''law_type'', JStr (law_type_str lawType)), (''version'', JStr ''1.0.0''), (''content'', JObj content),
        (''precedence'', JNum 0 0), (''effective_date'', JStr (gi_effective it))],
      e_actor_id = actorId, e_actor_role = ''genesis_admin'', e_submittedAt = gi_submitted it, e_metadata = genesis_metadata\<rparr>"

fun store_seals :: "seal_record list \<Rightarrow> db \<Rightarrow> (db, unit) out" where
  "store_seals [] d = Done () d"
| "store_seals (s # ss) d = and_then (appendSeal s d) (\<lambda>_. store_seals ss)"

text \<open>The message, its seals, and one transition from \<open>pending\<close> to \<open>archived\<close>.\<close>

definition appendArchived :: "crypto \<Rightarrow> seal_context \<Rightarrow> genesis_item \<Rightarrow> envelope \<Rightarrow> db \<Rightarrow> (db, unit) out" where
  "appendArchived C ctx it m d =
     and_then (appendMessage (sha256 C) (gi_received it) m d) (\<lambda>_ d1.
       case createSealChain C m ctx (gi_seal it) ''GENESIS'' of
         Inl e \<Rightarrow> Fail e d1
       | Inr seals \<Rightarrow>
           (case verifySealChain C m seals ctx (gi_verify_ms it) of
              None \<Rightarrow> Fail (Error_msg ''Error'') d1
            | Some False \<Rightarrow> Fail (Error_msg ''invalid-seal-chain'') d1
            | Some True \<Rightarrow> and_then (store_seals seals d1) (\<lambda>_.
                appendTransition (sha256 C) \<lparr>t_messageId = e_id m, t_fromState = Pending, t_toState = Archived, t_sequenceNo = 1,
                  t_actorId = Some (e_actor_id m), t_reason = None, t_sealedAt = Some (gi_sealedAt it),
                  t_prevTransitionHash = Some ''GENESIS'', t_at = gi_at it\<rparr>)))"

section \<open>applyGenesis\<close>

record genesis_clock =
  gn_now :: iso                              \<comment> \<open>\<open>nowIso\<close>, the time of the law lookups\<close>
  gn_ti_now :: "string \<Rightarrow> iso"                 \<comment> \<open>the time of the lookup of a definition\<close>
  gn_ti :: "string \<Rightarrow> genesis_item"
  gn_law :: "law_type \<Rightarrow> genesis_item"

definition ti_ti_schema :: obj where
  "ti_ti_schema = [(''type'', JStr ''object''), (''required'', JArr (map JStr [''target_genre'', ''version'', ''schema'']))]"

definition ti_edict_schema :: obj where
  "ti_edict_schema = [(''type'', JStr ''object''),
     (''required'', JArr (map JStr [''law_type'', ''version'', ''content'', ''precedence'', ''effective_date'']))]"

definition lawDefaults :: "law_type \<Rightarrow> obj" where
  "lawDefaults t = (case t of
     Appointment \<Rightarrow> [(''roles'', JObj [(''genesis_admin'', JObj [(''permissions'', JArr (map JStr [''draft'', ''review'', ''authorize''])),
        (''allowed_genres'', JArr [JStr ''*'']), (''max_pending'', JNum 1000 0)])])]
   | Classification \<Rightarrow> [(''levels'', JArr (map JStr [''open'', ''inner'', ''secret'', ''top''])), (''hierarchy'', JStr ''strict''),
        (''compartmentalization'', JBool True)]
   | Routing \<Rightarrow> [(''table'', JObj []), (''broadcast_policy'', JStr ''hierarchical'')]
   | Admission \<Rightarrow> [(''allowed_genres'', JArr [JStr ''*''])]
   | Protocol \<Rightarrow> [(''required_acks_by_genre'', JObj [])]
   | Regulation \<Rightarrow> [(''retention_days'', JNum 3650 0), (''rate_limits'', JObj [])]
   | Access_control \<Rightarrow> [(''read_permissions'', JObj [(''genesis_admin'', JArr [JStr ''*''])]), (''anonymous_read'', JBool True),
        (''query_hash_only'', JBool True)]
   | _ \<Rightarrow> [])"

definition seededLawTypes :: "law_type list" where
  "seededLawTypes = [Appointment, Classification, Routing, Admission, Protocol, Regulation, Access_control]"

text \<open>The counters are \<open>applied\<close> and \<open>skipped\<close>.\<close>

definition ensure_ti :: "crypto \<Rightarrow> seal_context \<Rightarrow> string \<Rightarrow> genesis_clock \<Rightarrow> string \<Rightarrow> obj \<Rightarrow> nat \<times> nat \<Rightarrow> db \<Rightarrow> (db, nat \<times> nat) out" where
  "ensure_ti C ctx actorId clk genre schema n d =
     (case getCurrentTiDefinition genre (gn_ti_now clk genre) d of
        Some _ \<Rightarrow> Done (fst n, snd n + 1) d
      | None \<Rightarrow> and_then (appendArchived C ctx (gn_ti clk genre) (makeTiDefinition genre schema actorId (gn_ti clk genre)) d)
          (\<lambda>_. Done (fst n + 1, snd n)))"

fun ensure_laws :: "crypto \<Rightarrow> seal_context \<Rightarrow> string \<Rightarrow> genesis_clock \<Rightarrow> law_type list \<Rightarrow> nat \<times> nat \<Rightarrow> db \<Rightarrow> (db, nat \<times> nat) out" where
  "ensure_laws C ctx actorId clk [] n d = Done n d"
| "ensure_laws C ctx actorId clk (t # ts) n d =
     (case getCurrentLaw t (gn_now clk) d of
        Inl e \<Rightarrow> Fail e d
      | Inr (Some _) \<Rightarrow> ensure_laws C ctx actorId clk ts (fst n, snd n + 1) d
      | Inr None \<Rightarrow> and_then (appendArchived C ctx (gn_law clk t) (makeEdict t (lawDefaults t) actorId (gn_law clk t)) d)
          (\<lambda>_. ensure_laws C ctx actorId clk ts (fst n + 1, snd n)))"

definition applyGenesis_with :: "crypto \<Rightarrow> seal_context \<Rightarrow> bootstrap_config \<Rightarrow> genesis_clock \<Rightarrow> db \<Rightarrow> (db, nat \<times> nat) out" where
  "applyGenesis_with C ctx config clk d =
     (let actorId = ''genesis:'' @ cf_node_id (cf_genesis config) in
      and_then (ensure_ti C ctx actorId clk ''ti_definition'' ti_ti_schema (0, 0) d) (\<lambda>n1 d1.
        and_then (ensure_ti C ctx actorId clk ''edict'' ti_edict_schema n1 d1) (\<lambda>n2 d2.
          ensure_laws C ctx actorId clk seededLawTypes n2 d2)))"

definition applyGenesis :: "crypto \<Rightarrow> bootstrap_config \<Rightarrow> genesis_clock \<Rightarrow> db \<Rightarrow> (db, nat \<times> nat) out" where
  "applyGenesis C config clk d =
     (case genesisSealContext config of Inl e \<Rightarrow> Fail e d | Inr ctx \<Rightarrow> applyGenesis_with C ctx config clk d)"

definition applyGenesisFromDir :: "(string \<Rightarrow> bool) \<Rightarrow> (string \<Rightarrow> bool) \<Rightarrow> (string \<Rightarrow> json option) \<Rightarrow> crypto \<Rightarrow> string \<Rightarrow> genesis_clock \<Rightarrow> db
    \<Rightarrow> (db, nat \<times> nat) out" where
  "applyGenesisFromDir url uuid toml C text' clk d =
     (case parseBootstrapConfigToml url uuid toml text' of None \<Rightarrow> Fail Zod_invalid d | Some config \<Rightarrow> applyGenesis C config clk d)"

section \<open>The configuration file\<close>

definition quoted :: "string \<Rightarrow> string \<Rightarrow> string" where
  "quoted k v = k @ '' = \"'' @ v @ ''\"''"

definition bare_value :: "string \<Rightarrow> string \<Rightarrow> string" where
  "bare_value k v = k @ '' = '' @ v"

fun engine_str :: "archive_engine \<Rightarrow> string" where
  "engine_str Sqlite = ''sqlite''"
| "engine_str Cloudflare = ''cloudflare''"

fun alg_str :: "jwt_alg \<Rightarrow> string" where
  "alg_str HS256 = ''HS256''"
| "alg_str EdDSA = ''EdDSA''"

fun bridge_mode_str :: "bridge_mode \<Rightarrow> string" where
  "bridge_mode_str Embedded = ''embedded''"
| "bridge_mode_str Standalone = ''standalone''"

definition bool_text :: "bool \<Rightarrow> string" where
  "bool_text b = (if b then ''true'' else ''false'')"

text \<open>The lines of \<open>buildConfigText\<close>; each ends with a line feed.\<close>

definition config_lines :: "bootstrap_config \<Rightarrow> string list" where
  "config_lines c =
     (let cache = cf_law_cache c;
          preload = join_with '', '' (map (\<lambda>t. ''\"'' @ law_type_str t @ ''\"'')
            (case cache of None \<Rightarrow> [Appointment, Classification] | Some l \<Rightarrow> cf_preload_types l));
          ttl = (case cache of None \<Rightarrow> 60 | Some l \<Rightarrow> cf_ttl_seconds l);
          upstream = (case cf_upstream (cf_gateway c) of None \<Rightarrow> ''http://127.0.0.1:8787'' | Some u \<Rightarrow> u)
      in [''[archive]'', quoted ''engine'' (engine_str (cf_engine (cf_archive c))), quoted ''path'' (cf_path (cf_archive c)), [],
          ''[genesis]'', quoted ''node_id'' (cf_node_id (cf_genesis c)), quoted ''genesis_key'' (cf_genesis_key (cf_genesis c)), [],
          ''[gateway]'', quoted ''upstream'' upstream, [],
          ''[gateway.listen]'', quoted ''host'' (cf_host (cf_gateway c)), bare_value ''port'' (nat_str (cf_port (cf_gateway c))), [],
          ''[auth]'', quoted ''jwt_issuer'' (cf_jwt_issuer (cf_auth c)), quoted ''jwt_audience'' (cf_jwt_audience (cf_auth c)),
          quoted ''jwt_alg'' (alg_str (cf_jwt_alg (cf_auth c))),
          quoted ''jwt_secret'' (case cf_jwt_secret (cf_auth c) of None \<Rightarrow> [] | Some s \<Rightarrow> s),
          bare_value ''allow_header_actor'' (bool_text (cf_allow_header_actor (cf_auth c))), [],
          ''[law]'', quoted ''mode'' ''strict'', [],
          ''[law_cache]'', bare_value ''ttl_seconds'' (nat_str ttl), bare_value ''preload_types'' (''['' @ preload @ '']''), [],
          ''[bridge]'', bare_value ''enabled'' (bool_text (cf_enabled (cf_bridge c))),
          quoted ''mode'' (bridge_mode_str (cf_bridge_mode (cf_bridge c)))])"

definition buildConfigText :: "bootstrap_config \<Rightarrow> string" where
  "buildConfigText c = concat (map (\<lambda>l. l @ [CHR 0x0A]) (config_lines c))"

definition defaultConfig :: "string \<Rightarrow> string \<Rightarrow> string \<Rightarrow> bootstrap_config" where
  "defaultConfig uuid key secret = \<lparr>
     cf_archive = \<lparr>cf_engine = Sqlite, cf_path = ''./wenyan.dang'' @ [CHR 0x27] @ ''an''\<rparr>,
     cf_genesis = \<lparr>cf_node_id = uuid, cf_genesis_key = key\<rparr>,
     cf_gateway = \<lparr>cf_host = ''127.0.0.1'', cf_port = 8787, cf_upstream = Some ''http://127.0.0.1:8787''\<rparr>,
     cf_auth = \<lparr>cf_jwt_issuer = ''wenyan.local'', cf_jwt_audience = ''wenyan-gateway'', cf_jwt_alg = HS256, cf_jwt_secret = Some secret,
       cf_jwt_public_keys = None, cf_allow_header_actor = False\<rparr>,
     cf_law_cache = Some \<lparr>cf_ttl_seconds = 60, cf_preload_types = [Appointment, Classification]\<rparr>,
     cf_distributed = \<lparr>cf_mode = Single, cf_local_node = ''local-node'', cf_bind_gossip = ''127.0.0.1:7946'', cf_seeds = [],
       cf_fanout = 3, cf_suspicion_timeout_ms = 5000\<rparr>,
     cf_consensus = \<lparr>cf_kind = No_consensus, cf_replica_set = [], cf_constitutional_threshold = 3, cf_view_change_timeout_ms = 5000,
       cf_allow_single_replica = False\<rparr>,
     cf_sync = \<lparr>cf_batch_size = 200, cf_max_inflight = 4, cf_retry_backoff_ms = 300\<rparr>,
     cf_bridge = \<lparr>cf_enabled = False, cf_bridge_mode = Standalone, cf_adapters = [],
       cf_bridge_sync = \<lparr>cf_sync_mode = Hybrid, cf_poll_interval_ms = 1000, cf_sync_batch_size = 100\<rparr>,
       cf_circuit_breaker = \<lparr>cf_failure_rate_threshold = 5 / 100, cf_cool_down_ms = 30000, cf_max_retries = 10\<rparr>\<rparr>\<rparr>"

end
