(* ===== verification/Bootstrap_Types.thy ===== *)
theory Bootstrap_Types
  imports Core_Bootstrap Genesis
begin

text \<open>
  What a parsed configuration is known to satisfy. \<open>yields p P\<close> says that the parser \<open>p\<close> only returns values with \<open>P\<close>; the rules below
  compose it along the combinators of the schemas.
\<close>

section \<open>Parsers and what they yield\<close>

definition yields :: "(json \<Rightarrow> 'a option) \<Rightarrow> ('a \<Rightarrow> bool) \<Rightarrow> bool" where
  "yields p P \<longleftrightarrow> (\<forall>j x. p j = Some x \<longrightarrow> P x)"

named_theorems yields_intros

lemma yieldsD: "yields p P \<Longrightarrow> p j = Some x \<Longrightarrow> P x"
  by (simp add: yields_def)

lemma yields_string1 [yields_intros]: "yields z_string1 (\<lambda>s. s \<noteq> [])"
  by (simp add: yields_def z_string1_Some)

lemma yields_string_if [yields_intros]: "yields (z_string_if p) p"
  by (auto simp: yields_def z_string_if_def split: option.splits if_splits)

definition safe_positive :: "nat \<Rightarrow> bool" where
  "safe_positive n \<longleftrightarrow> 0 < n \<and> int n \<le> max_safe"

lemma z_int_bound: "z_int j = Some i \<Longrightarrow> \<bar>i\<bar> \<le> max_safe"
  by (cases j) (auto split: if_splits)

lemma yields_positive [yields_intros]: "yields z_positive safe_positive"
  by (auto simp: yields_def z_positive_def safe_positive_def dest: z_int_bound split: option.splits if_splits)

lemma yields_nonneg [yields_intros]: "yields z_nonneg (\<lambda>n. int n \<le> max_safe)"
  by (auto simp: yields_def z_nonneg_def dest: z_int_bound split: option.splits if_splits)

lemma yields_qos [yields_intros]: "yields z_qos (\<lambda>n. n \<le> 2)"
  by (auto simp: yields_def z_qos_def split: option.splits if_splits)

lemma yields_rate [yields_intros]: "yields z_rate (\<lambda>r. 0 < r \<and> r \<le> 1)"
  by (auto simp: yields_def z_rate_def split: option.splits if_splits)

lemma all_some_yields: "all_some (map p xs) = Some ys \<Longrightarrow> (\<And>x y. p x = Some y \<Longrightarrow> P y) \<Longrightarrow> list_all P ys"
proof (induction xs arbitrary: ys)
  case (Cons x xs)
  then show ?case by (cases "p x"; cases "all_some (map p xs)") auto
qed simp

lemma yields_array [yields_intros]: "yields p P \<Longrightarrow> yields (z_array p) (list_all P)"
proof -
  assume p: "yields p P"
  have "z_array p j = Some ys \<Longrightarrow> list_all P ys" for j ys
    by (cases j) (simp_all add: all_some_yields [OF _ yieldsD [OF p]])
  then show ?thesis by (simp add: yields_def)
qed

lemma yields_array1 [yields_intros]:
  assumes "yields p P"
  shows "yields (z_array1 p) (\<lambda>xs. xs \<noteq> [] \<and> list_all P xs)"
proof -
  have "xs \<noteq> [] \<and> list_all P xs" if "z_array1 p j = Some xs" for j xs
  proof -
    have "z_array p j = Some xs" "xs \<noteq> []" using that by (auto simp: z_array1_def split: option.splits list.splits)
    then show ?thesis using yieldsD [OF yields_array [OF assms]] by blast
  qed
  then show ?thesis by (simp add: yields_def)
qed

lemma yields_record_of [yields_intros]:
  assumes "yields p P"
  shows "yields (z_record_of p) (list_all (\<lambda>kx. P (snd kx)))"
proof -
  have one: "(case kj of (k, j) \<Rightarrow> map_option (Pair k) (p j)) = Some kx \<Longrightarrow> P (snd kx)" for kj kx
    using yieldsD [OF assms] by (cases kj) auto
  have "z_record_of p j = Some ys \<Longrightarrow> list_all (\<lambda>kx. P (snd kx)) ys" for j ys
    by (cases j) (simp_all add: all_some_yields [OF _ one])
  then show ?thesis by (simp add: yields_def)
qed

lemma field_yields: "z_field ob k p = Some x \<Longrightarrow> yields p P \<Longrightarrow> P x"
  by (auto simp: z_field_def yields_def split: Option.bind_splits)

lemma default_yields: "z_default ob k d p = Some x \<Longrightarrow> yields p P \<Longrightarrow> P d \<Longrightarrow> P x"
  by (auto simp: z_default_def yields_def split: option.splits)

lemma optional_yields: "z_optional ob k p = Some x \<Longrightarrow> yields p P \<Longrightarrow> case x of None \<Rightarrow> True | Some y \<Rightarrow> P y"
  by (auto simp: z_optional_def yields_def split: option.splits)

section \<open>Well-formed configurations\<close>

definition archive_wf :: "archive_config \<Rightarrow> bool" where
  "archive_wf a \<longleftrightarrow> cf_path a \<noteq> []"

definition genesis_wf :: "(string \<Rightarrow> bool) \<Rightarrow> genesis_config \<Rightarrow> bool" where
  "genesis_wf uuid g \<longleftrightarrow> uuid (cf_node_id g) \<and> cf_genesis_key g \<noteq> []"

definition gateway_wf :: "(string \<Rightarrow> bool) \<Rightarrow> gateway_config \<Rightarrow> bool" where
  "gateway_wf url g \<longleftrightarrow> cf_host g \<noteq> [] \<and> safe_positive (cf_port g) \<and> (case cf_upstream g of None \<Rightarrow> True | Some u \<Rightarrow> url u)"

definition auth_wf :: "auth_config \<Rightarrow> bool" where
  "auth_wf a \<longleftrightarrow> cf_jwt_issuer a \<noteq> [] \<and> cf_jwt_audience a \<noteq> []
     \<and> (case cf_jwt_alg a of
          HS256 \<Rightarrow> (case cf_jwt_secret a of None \<Rightarrow> False | Some s \<Rightarrow> s \<noteq> [])
        | EdDSA \<Rightarrow> (case cf_jwt_public_keys a of None \<Rightarrow> False | Some ks \<Rightarrow> ks \<noteq> [] \<and> list_all (\<lambda>kx. snd kx \<noteq> []) ks))"

definition law_cache_wf :: "law_cache_config \<Rightarrow> bool" where
  "law_cache_wf l \<longleftrightarrow> safe_positive (cf_ttl_seconds l)"

definition distributed_wf :: "distributed_config \<Rightarrow> bool" where
  "distributed_wf d \<longleftrightarrow> cf_local_node d \<noteq> [] \<and> cf_bind_gossip d \<noteq> [] \<and> list_all (\<lambda>s. s \<noteq> []) (cf_seeds d)
     \<and> safe_positive (cf_fanout d) \<and> safe_positive (cf_suspicion_timeout_ms d)"

definition consensus_wf :: "consensus_config \<Rightarrow> bool" where
  "consensus_wf c \<longleftrightarrow> list_all (\<lambda>s. s \<noteq> []) (cf_replica_set c) \<and> safe_positive (cf_constitutional_threshold c)
     \<and> safe_positive (cf_view_change_timeout_ms c)"

definition sync_wf :: "peer_sync_config \<Rightarrow> bool" where
  "sync_wf s \<longleftrightarrow> safe_positive (cf_batch_size s) \<and> safe_positive (cf_max_inflight s) \<and> safe_positive (cf_retry_backoff_ms s)"

definition adapter_wf :: "(string \<Rightarrow> bool) \<Rightarrow> bridge_adapter_config \<Rightarrow> bool" where
  "adapter_wf url a \<longleftrightarrow> ab_id (config_base a) \<noteq> [] \<and> ab_target_genre (config_base a) \<noteq> []
     \<and> (case a of
          Nats_config _ u ss h \<Rightarrow> u \<noteq> [] \<and> ss \<noteq> [] \<and> list_all (\<lambda>s. s \<noteq> []) ss \<and> h \<noteq> []
        | Kafka_config _ bs ts g \<Rightarrow> bs \<noteq> [] \<and> list_all (\<lambda>s. s \<noteq> []) bs \<and> ts \<noteq> [] \<and> list_all (\<lambda>s. s \<noteq> []) ts \<and> g \<noteq> []
        | Mqtt_config _ u ts q \<Rightarrow> u \<noteq> [] \<and> ts \<noteq> [] \<and> list_all (\<lambda>s. s \<noteq> []) ts \<and> q \<le> 2
        | Erp_config _ e p \<Rightarrow> url e \<and> p \<noteq> []
        | Payroll_config _ e p \<Rightarrow> url e \<and> p \<noteq> []
        | Regulatory_config _ u t \<Rightarrow> u \<noteq> [] \<and> t \<noteq> [])"

definition bridge_wf :: "(string \<Rightarrow> bool) \<Rightarrow> bridge_section \<Rightarrow> bool" where
  "bridge_wf url b \<longleftrightarrow> list_all (adapter_wf url) (cf_adapters b) \<and> distinct (map (\<lambda>a. ab_id (config_base a)) (cf_adapters b))
     \<and> safe_positive (cf_poll_interval_ms (cf_bridge_sync b)) \<and> safe_positive (cf_sync_batch_size (cf_bridge_sync b))
     \<and> 0 < cf_failure_rate_threshold (cf_circuit_breaker b) \<and> cf_failure_rate_threshold (cf_circuit_breaker b) \<le> 1
     \<and> safe_positive (cf_cool_down_ms (cf_circuit_breaker b))"

definition config_wf :: "(string \<Rightarrow> bool) \<Rightarrow> (string \<Rightarrow> bool) \<Rightarrow> bootstrap_config \<Rightarrow> bool" where
  "config_wf url uuid c \<longleftrightarrow> archive_wf (cf_archive c) \<and> genesis_wf uuid (cf_genesis c) \<and> gateway_wf url (cf_gateway c) \<and> auth_wf (cf_auth c)
     \<and> (case cf_law_cache c of None \<Rightarrow> True | Some l \<Rightarrow> law_cache_wf l) \<and> distributed_wf (cf_distributed c)
     \<and> consensus_wf (cf_consensus c) \<and> sync_wf (cf_sync c) \<and> bridge_wf url (cf_bridge c)
     \<and> (cf_mode (cf_distributed c) = Consort \<and> cf_kind (cf_consensus c) = Pbft \<and> cf_constitutional_threshold (cf_consensus c) = 1
          \<longrightarrow> cf_allow_single_replica (cf_consensus c))"

section \<open>Each section\<close>

lemma bind_SomeD: "Option.bind x f = Some y \<Longrightarrow> \<exists>a. x = Some a \<and> f a = Some y"
  by (cases x) auto

lemma archive_yields [yields_intros]: "yields ArchiveConfigSchema archive_wf"
  by (auto simp: yields_def ArchiveConfigSchema_def archive_wf_def dest!: bind_SomeD dest: field_yields [OF _ yields_string1])

lemma genesis_yields [yields_intros]: "yields (GenesisConfigSchema uuid) (genesis_wf uuid)"
  by (auto simp: yields_def GenesisConfigSchema_def genesis_wf_def dest!: bind_SomeD
      dest: field_yields [OF _ yields_string1] field_yields [OF _ yields_string_if])

lemma gateway_yields [yields_intros]: "yields (GatewayConfigSchema url) (gateway_wf url)"
proof -
  have l: "yields GatewayListenSchema (\<lambda>l. fst l \<noteq> [] \<and> safe_positive (snd l))"
    by (auto simp: yields_def GatewayListenSchema_def dest!: bind_SomeD
        dest: field_yields [OF _ yields_string1] field_yields [OF _ yields_positive])
  show ?thesis
    by (auto simp: yields_def GatewayConfigSchema_def gateway_wf_def dest!: bind_SomeD
        dest: field_yields [OF _ l] optional_yields [OF _ yields_string_if])
qed

lemma auth_yields [yields_intros]: "yields AuthConfigSchema auth_wf"
proof -
  have keys: "z_optional ob k (z_record_of z_string1) = Some x \<Longrightarrow> case x of None \<Rightarrow> True | Some ks \<Rightarrow> list_all (\<lambda>kx. snd kx \<noteq> []) ks" for ob k x
    by (rule optional_yields [OF _ yields_record_of [OF yields_string1]])
  have "auth_wf a" if "AuthConfigSchema j = Some a" for j a
  proof -
    from that obtain ob i u l s k h where parts: "z_default ob ''jwt_issuer'' ''wenyan.local'' z_string1 = Some i"
      "z_default ob ''jwt_audience'' ''wenyan-gateway'' z_string1 = Some u" "z_optional ob ''jwt_secret'' z_string1 = Some s"
      "z_optional ob ''jwt_public_keys'' (z_record_of z_string1) = Some k"
      and a: "a = \<lparr>cf_jwt_issuer = i, cf_jwt_audience = u, cf_jwt_alg = l, cf_jwt_secret = s, cf_jwt_public_keys = k,
        cf_allow_header_actor = h\<rparr>" "auth_refined a"
      by (auto simp: AuthConfigSchema_def Let_def dest!: bind_SomeD split: if_splits)
    have "i \<noteq> []" "u \<noteq> []" using parts(1,2) by (auto dest: default_yields [OF _ yields_string1])
    moreover note keys [OF parts(4)]
    ultimately show ?thesis using a
      by (cases l; cases s; cases k) (simp_all add: auth_wf_def auth_refined_def)
  qed
  then show ?thesis by (simp add: yields_def)
qed

lemma law_cache_yields [yields_intros]: "yields LawCacheConfigSchema law_cache_wf"
  by (auto simp: yields_def LawCacheConfigSchema_def law_cache_wf_def safe_positive_def max_safe_def dest!: bind_SomeD
      dest: default_yields [OF _ yields_positive])

lemma defaults_positive [simp]: "safe_positive (numeral n) \<longleftrightarrow> int (numeral n) \<le> max_safe"
  by (simp add: safe_positive_def)

lemma distributed_yields [yields_intros]: "yields DistributedConfigSchema distributed_wf"
  by (auto simp: yields_def DistributedConfigSchema_def distributed_wf_def max_safe_def dest!: bind_SomeD
      dest: default_yields [OF _ yields_positive] default_yields [OF _ yields_string1] default_yields [OF _ yields_array [OF yields_string1]])

lemma consensus_yields [yields_intros]: "yields ConsensusConfigSchema consensus_wf"
  by (auto simp: yields_def ConsensusConfigSchema_def consensus_wf_def max_safe_def dest!: bind_SomeD
      dest: default_yields [OF _ yields_positive] default_yields [OF _ yields_array [OF yields_string1]])

lemma sync_yields [yields_intros]: "yields SyncConfigSchema sync_wf"
  by (auto simp: yields_def SyncConfigSchema_def sync_wf_def max_safe_def dest!: bind_SomeD dest: default_yields [OF _ yields_positive])

lemma default_qos: "z_default ob k (Suc 0) z_qos = Some q \<Longrightarrow> q \<le> 2"
  by (erule default_yields [OF _ yields_qos]) simp

lemma adapter_yields [yields_intros]: "yields (BridgeAdapterConfigSchema url) (adapter_wf url)"
proof -
  have base: "yields (\<lambda>j. Option.bind (z_record j) BaseBridgeAdapterConfigSchema) (\<lambda>b. ab_id b \<noteq> [] \<and> ab_target_genre b \<noteq> [])"
    by (auto simp: yields_def BaseBridgeAdapterConfigSchema_def dest!: bind_SomeD field_yields [OF _ yields_string1])
  have fields: "adapter_wf url a" if "adapter_fields url ob b p = Some a" "ab_id b \<noteq> []" "ab_target_genre b \<noteq> []" for ob b p a
    using that
    by (cases p) (auto simp: adapter_fields_def adapter_wf_def dest!: bind_SomeD
        dest: field_yields [OF _ yields_string1] default_yields [OF _ yields_string1] field_yields [OF _ yields_array1 [OF yields_string1]]
          default_qos field_yields [OF _ yields_string_if])
  have "adapter_wf url a" if parse: "BridgeAdapterConfigSchema url j = Some a" for j a
  proof -
    from parse obtain ob p b where j: "z_record j = Some ob" "BaseBridgeAdapterConfigSchema ob = Some b" "adapter_fields url ob b p = Some a"
      by (auto simp: BridgeAdapterConfigSchema_def dest!: bind_SomeD)
    have "ab_id b \<noteq> [] \<and> ab_target_genre b \<noteq> []" by (rule yieldsD [OF base, of j]) (simp add: j)
    with fields [OF j(3)] show ?thesis by blast
  qed
  then show ?thesis by (simp add: yields_def)
qed

lemma bridge_sync_yields: "yields BridgeSyncConfigSchema (\<lambda>s. safe_positive (cf_poll_interval_ms s) \<and> safe_positive (cf_sync_batch_size s))"
  by (auto simp: yields_def BridgeSyncConfigSchema_def max_safe_def dest!: bind_SomeD dest: default_yields [OF _ yields_positive])

lemma breaker_yields: "yields BridgeCircuitBreakerSchema
    (\<lambda>c. 0 < cf_failure_rate_threshold c \<and> cf_failure_rate_threshold c \<le> 1 \<and> safe_positive (cf_cool_down_ms c))"
  by (auto simp: yields_def BridgeCircuitBreakerSchema_def max_safe_def dest!: bind_SomeD
      dest: default_yields [OF _ yields_positive] default_yields [OF _ yields_rate])

lemma default_bridge_sync_yields:
  "z_default ob k default_bridge_sync BridgeSyncConfigSchema = Some s \<Longrightarrow> safe_positive (cf_poll_interval_ms s) \<and> safe_positive (cf_sync_batch_size s)"
  by (erule default_yields [OF _ bridge_sync_yields]) (simp add: default_bridge_sync_def max_safe_def)

lemma default_breaker_yields:
  "z_default ob k default_breaker BridgeCircuitBreakerSchema = Some c \<Longrightarrow>
    0 < cf_failure_rate_threshold c \<and> cf_failure_rate_threshold c \<le> 1 \<and> safe_positive (cf_cool_down_ms c)"
  by (erule default_yields [OF _ breaker_yields]) (simp add: default_breaker_def max_safe_def)

lemma adapters_yield: "z_default ob k [] (z_array (BridgeAdapterConfigSchema url)) = Some as \<Longrightarrow> list_all (adapter_wf url) as"
  by (erule default_yields [OF _ yields_array [OF adapter_yields]]) simp

lemma bridge_yields [yields_intros]: "yields (BridgeConfigSchema url) (bridge_wf url)"
  by (auto simp: yields_def BridgeConfigSchema_def bridge_wf_def bridge_refined_def Let_def dest!: bind_SomeD default_bridge_sync_yields
        default_breaker_yields adapters_yield split: if_splits)

section \<open>Properties\<close>

lemma defaults_wf: "auth_wf default_auth" "distributed_wf default_distributed" "consensus_wf default_consensus" "sync_wf default_sync"
  "bridge_wf url default_bridge"
  by (simp_all add: auth_wf_def default_auth_def distributed_wf_def default_distributed_def consensus_wf_def default_consensus_def
      sync_wf_def default_sync_def bridge_wf_def default_bridge_def default_bridge_sync_def default_breaker_def max_safe_def)

lemma schema_wf:
  assumes "BootstrapConfigSchema url uuid j = Some c"
  shows "config_wf url uuid c"
proof -
  from assms obtain ob where ob: "z_field ob ''archive'' ArchiveConfigSchema = Some (cf_archive c)"
      "z_field ob ''genesis'' (GenesisConfigSchema uuid) = Some (cf_genesis c)"
      "z_field ob ''gateway'' (GatewayConfigSchema url) = Some (cf_gateway c)"
      "z_default ob ''auth'' default_auth AuthConfigSchema = Some (cf_auth c)"
      "z_optional ob ''law_cache'' LawCacheConfigSchema = Some (cf_law_cache c)"
      "z_default ob ''distributed'' default_distributed DistributedConfigSchema = Some (cf_distributed c)"
      "z_default ob ''consensus'' default_consensus ConsensusConfigSchema = Some (cf_consensus c)"
      "z_default ob ''sync'' default_sync SyncConfigSchema = Some (cf_sync c)"
      "z_default ob ''bridge'' default_bridge (BridgeConfigSchema url) = Some (cf_bridge c)" "config_refined c"
    by (auto simp: BootstrapConfigSchema_def Let_def dest!: bind_SomeD split: if_splits)
  note sections = field_yields [OF ob(1) archive_yields] field_yields [OF ob(2) genesis_yields] field_yields [OF ob(3) gateway_yields]
    default_yields [OF ob(4) auth_yields defaults_wf(1)] optional_yields [OF ob(5) law_cache_yields]
    default_yields [OF ob(6) distributed_yields defaults_wf(2)] default_yields [OF ob(7) consensus_yields defaults_wf(3)]
    default_yields [OF ob(8) sync_yields defaults_wf(4)] default_yields [OF ob(9) bridge_yields defaults_wf(5)]
  show ?thesis using sections ob(10) by (simp add: config_wf_def config_refined_def)
qed

text \<open>C15: 
  A configuration that has parsed is well formed in every section: names are not empty, ids and addresses have the form asked for, numbers
  are positive and exact, the signing algorithm has its key, adapters have different ids, and a single replica is only accepted on request.
\<close>

theorem parsed_config_wf:
  assumes "parseBootstrapConfigToml url uuid toml text' = Some c"
  shows "config_wf url uuid c"
  using assms schema_wf by (auto simp: parseBootstrapConfigToml_def dest!: bind_SomeD)

text \<open>The smallest file.\<close>

definition office_json :: json where
  "office_json = JObj [(''archive'', JObj [(''engine'', JStr ''sqlite''), (''path'', JStr ''a'')]),
     (''genesis'', JObj [(''node_id'', JStr ''n1''), (''genesis_key'', JStr ''k'')]),
     (''gateway'', JObj [(''listen'', JObj [(''host'', JStr ''h''), (''port'', JNum 8787 0)])])]"

theorem parsed_config_wf_witness:
  "\<exists>c. parseBootstrapConfigToml (\<lambda>_. True) (\<lambda>_. True) (\<lambda>_. Some office_json) ''f'' = Some c \<and> config_wf (\<lambda>_. True) (\<lambda>_. True) c
    \<and> cf_bridge c = default_bridge \<and> cf_jwt_secret (cf_auth c) = Some ''wenyan-local-jwt-secret''"
proof -
  have "\<exists>c. parseBootstrapConfigToml (\<lambda>_. True) (\<lambda>_. True) (\<lambda>_. Some office_json) ''f'' = Some c
      \<and> cf_bridge c = default_bridge \<and> cf_jwt_secret (cf_auth c) = Some ''wenyan-local-jwt-secret''"
    by (simp add: parseBootstrapConfigToml_def BootstrapConfigSchema_def office_json_def z_field_def obj_get_def ArchiveConfigSchema_def
        z_enum_def GenesisConfigSchema_def z_string_if_def GatewayConfigSchema_def GatewayListenSchema_def z_positive_def max_safe_def
        z_optional_def z_default_def config_refined_def default_distributed_def default_auth_def Let_def)
  with parsed_config_wf show ?thesis by blast
qed

text \<open>
  The file \<open>genesis\<close> writes for a configuration whose tokens are signed with keys: it has \<open>jwt_alg = "EdDSA"\<close>, an empty secret and no keys,
  and such a section is refused.
\<close>

theorem EdDSA_file_refused:
  "AuthConfigSchema (JObj [(''jwt_issuer'', JStr i), (''jwt_audience'', JStr u), (''jwt_alg'', JStr (alg_str EdDSA)), (''jwt_secret'', JStr []),
     (''allow_header_actor'', JBool b)]) = None"
  by (simp add: AuthConfigSchema_def z_default_def z_optional_def obj_get_def z_enum_def split: Option.bind_splits)

end
