(* ===== verification/Archive_Export.thy ===== *)
theory Archive_Export
  imports Archive_Audit
begin

text \<open>
  \<open>sqlite.ts\<close>, \<open>exportAuditBundle\<close>: the reads, archived messages, transitions, seals and proofs of a period with the newest audit
  checkpoint, as the JSON value that is returned. \<open>String(null)\<close> is \<open>null\<close>, and \<open>Number\<close> of the text that identifies a read is
  \<open>NaN\<close>, which prints as \<open>null\<close>; an id that is the text of a fraction does not occur.
\<close>

record bundle_input =
  bi_start :: "iso option"
  bi_end :: "iso option"
  bi_merkleRoot :: "string option"

definition in_period :: "bundle_input \<Rightarrow> iso \<Rightarrow> bool" where
  "in_period input t \<longleftrightarrow> (case bi_start input of None \<Rightarrow> True | Some a \<Rightarrow> a \<le> t) \<and> (case bi_end input of None \<Rightarrow> True | Some b \<Rightarrow> t \<le> b)"

definition String_column :: "string option \<Rightarrow> json" where
  "String_column v = JStr (case v of None \<Rightarrow> ''null'' | Some s \<Rightarrow> s)"

text \<open>\<open>x ? String(x) : undefined\<close>; the property is left out of the text.\<close>

definition truthy_prop :: "string \<Rightarrow> string option \<Rightarrow> obj" where
  "truthy_prop k v = (case v of None \<Rightarrow> [] | Some s \<Rightarrow> if s = [] then [] else [(k, JStr s)])"

definition number_json :: "rat option \<Rightarrow> json" where
  "number_json x = (case x of None \<Rightarrow> JNull | Some r \<Rightarrow> if r = of_int \<lfloor>r\<rfloor> then json_int \<lfloor>r\<rfloor> else JNull)"

definition read_json :: "seal0_row \<Rightarrow> json" where
  "read_json r = JObj ([(''id'', number_json (str_Number (s0_id r))), (''document_id'', String_column (s0_document_id r)),
     (''actor_id'', JStr (s0_actor_id r)), (''query_timestamp'', JStr (s0_query_timestamp r)),
     (''query_parameters_hash'', JStr (s0_query_parameters_hash r)), (''result_hash'', JStr (s0_result_hash r)),
     (''result_status'', JStr (s0_result_status r)), (''signature'', JStr (s0_signature r))]
     @ truthy_prop ''trace_id'' (s0_trace_id r) @ truthy_prop ''node_id'' (s0_node_id r))"

definition message_json :: "message_row \<Rightarrow> json" where
  "message_json r = (let m = mr_message r in JObj [
     (''id'', JStr (mr_id r)), (''genre'', String_column (mr_genre r)), (''payload'', JObj (e_payload m)),
     (''actor'', JObj [(''id'', JStr (e_actor_id m)), (''role'', JStr (e_actor_role m))]),
     (''submitted_at'', String_column (mr_submitted_at r)), (''metadata'', JObj (e_metadata m)),
     (''archived_at'', String_column (mr_archived_at r))])"

definition transition_row_json :: "transition_row \<Rightarrow> json" where
  "transition_row_json r = JObj ([(''message_id'', JStr (tr_messageId r)), (''from_state'', JStr (state_str (tr_fromState r))),
     (''to_state'', JStr (state_str (tr_toState r))), (''sequence_no'', json_int (tr_sequenceNo r))]
     @ truthy_prop ''actor_id'' (tr_actorId r) @ truthy_prop ''sealed_at'' (tr_sealedAt r) @ truthy_prop ''reason'' (tr_reason r)
     @ truthy_prop ''prev_transition_hash'' (tr_prevHash r) @ [(''at'', JStr (tr_at r))])"

definition seal_row_json :: "seal_record \<Rightarrow> json" where
  "seal_row_json s = JObj [(''message_id'', JStr (s_messageId s)), (''seal_id'', JStr (s_sealId s)), (''stage'', JStr (stage_str (s_stage s))),
     (''prev_hash'', JStr (s_prevHash s)), (''hash'', JStr (s_hash s)), (''signature'', JStr (s_signature s)),
     (''created_at'', JStr (s_createdAt s)), (''payload'', case s_payload s of None \<Rightarrow> JNull | Some p \<Rightarrow> JObj p)]"

definition checkpoint_json :: "checkpoint_row \<Rightarrow> json" where
  "checkpoint_json c = JObj [(''id'', JStr (ck_id c)), (''scope'', JStr (ck_scope c)), (''merkleRoot'', JStr (ck_merkleRoot c)),
     (''sealCount'', json_int (ck_sealCount c)), (''nodeSignatures'', JArr (map JStr (ck_nodeSignatures c))),
     (''createdAt'', JStr (ck_createdAt c))]"

fun side_str :: "side \<Rightarrow> string" where
  "side_str Left_side = ''left''"
| "side_str Right_side = ''right''"

definition proof_json :: "string \<times> merkle_proof \<Rightarrow> json" where
  "proof_json ip = (let (i, p) = ip in JObj [(''messageId'', JStr i), (''leafHash'', JStr (mp_leafHash p)), (''rootHash'', JStr (mp_rootHash p)),
     (''path'', JArr (map (\<lambda>s. JObj [(''siblingHash'', JStr (ps_siblingHash s)), (''side'', JStr (side_str (ps_side s)))]) (mp_path p)))])"

definition export_reads :: "bundle_input \<Rightarrow> db \<Rightarrow> seal0_row list" where
  "export_reads input d = order_asc s0_query_timestamp (filter (\<lambda>r. in_period input (s0_query_timestamp r)) (db_seal0 d))"

definition export_messages :: "bundle_input \<Rightarrow> db \<Rightarrow> message_row list" where
  "export_messages input d = order_asc (\<lambda>r. (the (mr_archived_at r), mr_id r))
     (filter (\<lambda>r. case mr_archived_at r of None \<Rightarrow> False | Some t \<Rightarrow> in_period input t) (db_messages d))"

definition export_transitions :: "string list \<Rightarrow> db \<Rightarrow> transition_row list" where
  "export_transitions ids d = order_asc (\<lambda>r. (tr_messageId r, tr_sequenceNo r)) (filter (\<lambda>r. tr_messageId r \<in> set ids) (db_transitions d))"

definition export_seals :: "string list \<Rightarrow> db \<Rightarrow> seal_record list" where
  "export_seals ids d = order_asc (\<lambda>s. (s_messageId s, s_createdAt s)) (filter (\<lambda>s. s_messageId s \<in> set ids) (db_seals d))"

definition export_checkpoint :: "bundle_input \<Rightarrow> db \<Rightarrow> checkpoint_row option" where
  "export_checkpoint input d = first_row (order_desc ck_createdAt
     (case bi_merkleRoot input of
        Some r \<Rightarrow> if r = [] then db_checkpoints d else filter (\<lambda>c. ck_merkleRoot c = r) (db_checkpoints d)
      | None \<Rightarrow> db_checkpoints d))"

fun export_proofs :: "(string \<Rightarrow> string) \<Rightarrow> db \<Rightarrow> string list \<Rightarrow> err + (string \<times> merkle_proof) list" where
  "export_proofs sha d [] = Inr []"
| "export_proofs sha d (i # is) =
     (case getMerkleProof sha i d of
        Inl e \<Rightarrow> Inl e
      | Inr p \<Rightarrow> (case export_proofs sha d is of
          Inl e \<Rightarrow> Inl e
        | Inr ps \<Rightarrow> Inr (case p of None \<Rightarrow> ps | Some x \<Rightarrow> (i, x) # ps)))"

definition exportAuditBundle :: "(string \<Rightarrow> string) \<Rightarrow> bundle_input \<Rightarrow> db \<Rightarrow> err + json" where
  "exportAuditBundle sha input d =
     (let messageRows = export_messages input d; messageIds = map mr_id messageRows;
          checkpoint = export_checkpoint input d
      in case export_proofs sha d messageIds of
           Inl e \<Rightarrow> Inl e
         | Inr proofs \<Rightarrow>
             (let bundleCore =
                (case checkpoint of None \<Rightarrow> [] | Some c \<Rightarrow> [(''checkpoint'', checkpoint_json c)])
                @ [(''reads'', JArr (map read_json (export_reads input d))), (''messages'', JArr (map message_json messageRows)),
                   (''transitions'', JArr (map transition_row_json (export_transitions messageIds d))),
                   (''seals'', JArr (map seal_row_json (export_seals messageIds d))), (''proofs'', JArr (map proof_json proofs))]
              in Inr (JObj (bundleCore @ [
                (''digest'', JStr (sha (stringify (case checkpoint of None \<Rightarrow> JObj [] | Some c \<Rightarrow> checkpoint_json c)))),
                (''bundle_digest'', JStr (sha (stringify (JObj bundleCore)))),
                (''verification_scope'', JStr ''checkpoint-digest-only''),
                (''cryptographic_completeness'', JStr ''partial'')]))))"

end
