(* ===== verification/Censorate_Correct.thy ===== *)
theory Censorate_Correct
  imports Censorate Archive_Export
begin

text \<open>
  What a read receipt, an audit bundle and an alert promise: a receipt verifies and its signature fixes every field but the genre;
  an exported bundle verifies exactly when it holds a checkpoint; the velocity and coalition rules are the rates they stand for.
\<close>

section \<open>Receipts\<close>

lemma bytes_hex_Cons: "bytes_hex (b # bs) = hex_digit (unat b div 16) # hex_digit (unat b mod 16) # bytes_hex bs"
  by (simp add: bytes_hex_def)

lemma byte_digits: "unat (b :: 8 word) div 16 < 16" "unat b mod 16 < 16"
  using unsigned_less [of b, where 'a = nat] by auto

lemma hex_digit_inject: "a < 16 \<Longrightarrow> b < 16 \<Longrightarrow> hex_digit a = hex_digit b \<Longrightarrow> a = b"
  using hex_val_hex_digit by (metis option.inject)

lemma bytes_hex_inject: "bytes_hex xs = bytes_hex ys \<Longrightarrow> xs = ys"
proof (induction xs arbitrary: ys)
  case Nil
  then show ?case by (cases ys) (auto simp: bytes_hex_def)
next
  case (Cons x xs)
  then obtain y zs where ys: "ys = y # zs" by (cases ys) (auto simp: bytes_hex_def)
  have "unat x div 16 = unat y div 16" "unat x mod 16 = unat y mod 16"
    using Cons.prems by (auto simp: ys bytes_hex_Cons intro: hex_digit_inject byte_digits)
  then have "unat x = unat y" by (metis div_mod_decomp)
  then show ?case using Cons by (simp add: ys bytes_hex_Cons word_unat_eq_iff)
qed

lemma prop_if_keys: "fst ` set (prop_if k v) \<subseteq> {k}"
  by (auto simp: prop_if_def split: option.split)

lemma seal0_signed_wf: "json_wf (seal0_signed r)"
  by (auto simp: seal0_signed_def prop_if_def opt_json_def split: option.split)

lemma seal0_signed_inject:
  assumes "seal0_signed r = seal0_signed r'" "s0_signature r = s0_signature r'"
  shows "r' = r\<lparr>s0_genre := s0_genre r'\<rparr>"
proof -
  have reason: "s0_reason r = s0_reason r'" and trace: "s0_trace_id r = s0_trace_id r'" and node: "s0_node_id r = s0_node_id r'"
    using assms(1) by (auto simp: seal0_signed_def prop_if_def split: option.splits)
  show ?thesis
    using assms reason trace node by (cases r; cases r') (simp add: seal0_signed_def)
qed

lemma createReadReceipt_Done:
  assumes "createReadReceipt C secret now_ms now input d = Done r d'"
  shows "r = receipt_of C secret now_ms now input" "appendSeal0Receipt r d = Done () d'"
  using assms by (auto simp: createReadReceipt_def Let_def out_simps split: if_splits)

lemma verify_receipt: "verifySeal0 C secret (receipt_of C secret now_ms now input)"
  by (simp add: verifySeal0_def receipt_of_def seal0_signed_def)

lemma verify_ignores_genre: "verifySeal0 C secret (r\<lparr>s0_genre := g\<rparr>) = verifySeal0 C secret r"
  by (simp add: verifySeal0_def seal0_signed_def)

section \<open>Bundles\<close>

lemma getMerkleProof_total: "getMerkleProof sha i d \<noteq> Inl e"
proof -
  obtain leaves rows where c: "collectMerkleLeaves sha All_scope d = (leaves, rows)"
    by (cases "collectMerkleLeaves sha All_scope d")
  then have "length rows \<le> length leaves" by (auto simp: collectMerkleLeaves_def Let_def)
  then show ?thesis
    using find_index_Some [of "\<lambda>r. fst r = i" rows]
    by (auto simp: getMerkleProof_def c buildMerkleProofFromLeaves_def split: option.splits if_splits prod.splits)
qed

lemma export_proofs_total: "\<exists>ps. export_proofs sha d is = Inr ps"
proof (induction "is")
  case (Cons i "is")
  have "getMerkleProof sha i d \<noteq> Inl e" for e
    using getMerkleProof_total [of sha i d] by auto
  then show ?case using Cons by (cases "getMerkleProof sha i d") (auto split: option.split)
qed simp

section \<open>Alerts\<close>

lemma by_actor_single:
  assumes "\<forall>s\<in>set ss. vs_actorId s = a \<and> ms_of_iso (vs_timestampIso s) \<noteq> None" "ss \<noteq> []"
  shows "by_actor ss [] = [(a, map (\<lambda>s. the (ms_of_iso (vs_timestampIso s))) ss)]"
proof -
  have "by_actor ss [(a, ts)] = [(a, ts @ map (\<lambda>s. the (ms_of_iso (vs_timestampIso s))) ss)]"
    if "\<forall>s\<in>set ss. vs_actorId s = a \<and> ms_of_iso (vs_timestampIso s) \<noteq> None" for ss ts
    using that by (induction ss arbitrary: ts) auto
  then show ?thesis using assms by (cases ss) auto
qed

lemma sqrt_less:
  fixes a b v :: real
  assumes "0 < v"
  shows "a * sqrt v < b \<longleftrightarrow> (if 0 \<le> a then 0 < b \<and> a * a * v < b * b else 0 \<le> b \<or> b * b < a * a * v)"
proof -
  have sq: "(a * sqrt v) * (a * sqrt v) = a * a * v" using assms by (simp add: mult.assoc mult.left_commute)
  have pos: "0 \<le> a * sqrt v \<longleftrightarrow> 0 \<le> a" using assms by (simp add: zero_le_mult_iff)
  have nonneg: "x < y \<longleftrightarrow> 0 < y \<and> x * x < y * y" if "0 \<le> x" for x y :: real
  proof
    show "0 < y \<and> x * x < y * y" if "x < y" using that \<open>0 \<le> x\<close> mult_strict_mono' [of x y x y] by auto
    show "x < y" if "0 < y \<and> x * x < y * y" using that mult_mono [of y x y x] by (cases "x < y") auto
  qed
  show ?thesis
  proof (cases "0 \<le> a")
    case True
    then show ?thesis using nonneg [of "a * sqrt v" b] pos by (simp add: sq)
  next
    case neg: False
    then have "a * sqrt v < 0" using pos by simp
    moreover have "a * sqrt v < b \<longleftrightarrow> b * b < a * a * v" if "b < 0"
      using nonneg [of "- b" "- (a * sqrt v)"] that \<open>a * sqrt v < 0\<close> sq by simp
    ultimately show ?thesis using neg by (cases "0 \<le> b") auto
  qed
qed

lemma variance_pos: "0 < variance s"
  by (simp add: variance_def less_max_iff_disj)

section \<open>Properties\<close>

text \<open>
  The rational test of \<open>detectCoalition\<close> is the z-score test of the code: the observed probability lies more than \<open>zThreshold\<close>
  standard deviations above the baseline.
\<close>

theorem coalition_is_z_score:
  "z_exceeds s zThreshold \<longleftrightarrow>
     real_of_rat zThreshold < (real_of_rat (co_observed s) - real_of_rat (co_baseline s)) / sqrt (real_of_rat (variance s))"
proof -
  have v: "0 < real_of_rat (variance s)" using variance_pos by simp
  have "real_of_rat zThreshold < real_of_rat (co_observed s - co_baseline s) / sqrt (real_of_rat (variance s))
    \<longleftrightarrow> real_of_rat zThreshold * sqrt (real_of_rat (variance s)) < real_of_rat (co_observed s - co_baseline s)"
    using v by (simp add: pos_less_divide_eq)
  also have "\<dots> \<longleftrightarrow> z_exceeds s zThreshold"
    unfolding sqrt_less [OF v] z_exceeds_def Let_def of_rat_mult [symmetric] of_rat_less
    by (simp only: zero_le_of_rat_iff zero_less_of_rat_iff)
  finally show ?thesis by (simp add: of_rat_diff)
qed

text \<open>
  A read receipt verifies under the key it was made with, is in the archive, and carries the digests of the query and of the
  result that was returned.
\<close>

theorem receipt_verifies:
  assumes "createReadReceipt C secret now_ms now input d = Done r d'"
  shows "verifySeal0 C secret r \<and> r \<in> set (db_seal0 d') \<and> s0_actor_id r = ri_actor input \<and> s0_document_id r = ri_documentId input
    \<and> s0_query_parameters_hash r = sha256 C (stringify (JObj (ri_queryParameters input)))
    \<and> s0_result_hash r = sha256 C (stringify (ri_result input))
    \<and> sha256 C (s0_query_timestamp r @ '':'' @ s0_id r @ '':'' @ s0_result_hash r)
        \<in> set (fst (collectMerkleLeaves (sha256 C) All_scope d'))"
proof -
  note r = createReadReceipt_Done [OF assms]
  have "r \<in> set (db_seal0 d')" using r(2) by (auto simp: appendSeal0Receipt_def split: if_splits)
  moreover have "verifySeal0 C secret r" by (simp add: r(1) verify_receipt)
  moreover have "s0_actor_id r = ri_actor input" "s0_document_id r = ri_documentId input"
    "s0_query_parameters_hash r = sha256 C (stringify (JObj (ri_queryParameters input)))"
    "s0_result_hash r = sha256 C (stringify (ri_result input))"
    by (simp_all add: r(1) receipt_of_def Let_def)
  ultimately show ?thesis by (simp add: receipt_leaves [OF r(2)])
qed

definition demo_read :: seal0_input where
  "demo_read = \<lparr>ri_documentId = Some ''m1'', ri_actor = ''anonymous'', ri_genre = Some ''memo'',
     ri_queryParameters = [(''id'', JStr ''m1'')], ri_result = JObj [(''denied'', JBool True)], ri_allowed = False,
     ri_reason = Some ''read-unauthenticated'', ri_traceId = None, ri_nodeId = None, ri_atIso = None\<rparr>"

definition demo_receipt :: seal0_row where
  "demo_receipt = receipt_of demo_crypto ''key'' 5 ''2024-02-29T12:34:56.789Z'' demo_read"

definition demo_read_db :: db where
  "demo_read_db = empty_db\<lparr>db_seal0 := [demo_receipt]\<rparr>"

lemma demo_read_Done:
  "createReadReceipt demo_crypto ''key'' 5 ''2024-02-29T12:34:56.789Z'' demo_read empty_db = Done demo_receipt demo_read_db"
  by (simp add: createReadReceipt_def Let_def appendSeal0Receipt_def demo_receipt_def demo_read_db_def empty_db_def)
    (simp add: demo_read_def)

theorem receipt_verifies_witness:
  "verifySeal0 demo_crypto ''key'' demo_receipt \<and> demo_receipt \<in> set (db_seal0 demo_read_db)"
  using receipt_verifies [OF demo_read_Done] by blast

text \<open>
  Two receipts that verify and have one signature agree in every field except the genre, which is not signed, unless the keyed
  digest maps their two texts to one value.
\<close>

theorem seal0_signature_binds:
  assumes "verifySeal0 C secret r" "verifySeal0 C secret r'" "s0_signature r = s0_signature r'"
    and "inj_on (\<lambda>j. hmac_sha256 C (utf8ToBytes secret) (utf8ToBytes (stringify j))) {seal0_signed r, seal0_signed r'}"
  shows "r' = r\<lparr>s0_genre := s0_genre r'\<rparr> \<and> verifySeal0 C secret (r\<lparr>s0_genre := g\<rparr>)"
proof -
  have eq: "hmac_sha256 C (utf8ToBytes secret) (utf8ToBytes (stringify (seal0_signed r)))
      = hmac_sha256 C (utf8ToBytes secret) (utf8ToBytes (stringify (seal0_signed r')))"
    using assms(1-3) by (simp add: verifySeal0_def sign_hex_def bytes_hex_inject)
  have "seal0_signed r = seal0_signed r'" by (rule inj_onD [OF assms(4)]) (use eq in blast)+
  from seal0_signed_inject [OF this assms(3)] assms(1) show ?thesis by (simp add: verify_ignores_genre)
qed

theorem seal0_signature_binds_witness:
  "verifySeal0 demo_crypto ''key'' (demo_receipt\<lparr>s0_genre := Some ''edict''\<rparr>)"
proof -
  have "verifySeal0 demo_crypto ''key'' demo_receipt" by (simp add: demo_receipt_def verify_receipt)
  moreover from this have "verifySeal0 demo_crypto ''key'' (demo_receipt\<lparr>s0_genre := None\<rparr>)" by (simp add: verify_ignores_genre)
  moreover have "inj_on (\<lambda>j. hmac_sha256 demo_crypto (utf8ToBytes ''key'') (utf8ToBytes (stringify j)))
      {seal0_signed demo_receipt, seal0_signed (demo_receipt\<lparr>s0_genre := None\<rparr>)}"
    by (simp add: seal0_signed_def)
  ultimately show ?thesis
    using seal0_signature_binds [of demo_crypto "''key''" demo_receipt "demo_receipt\<lparr>s0_genre := None\<rparr>"] by simp
qed

text \<open>
  A second read of one document by one actor within the same millisecond throws: the id of a receipt is made of the document, the
  actor and the clock, and the archive refuses an id it has.
\<close>

theorem second_read_throws:
  assumes "createReadReceipt C secret now_ms now input d = Done r d'"
    and "ri_documentId input' = ri_documentId input" "ri_actor input' = ri_actor input"
  shows "createReadReceipt C secret now_ms now' input' d' = Fail (Constraint ''UNIQUE seal_0_log.id'') d'"
proof -
  have "r \<in> set (db_seal0 d')" "s0_id r = s0_id (receipt_of C secret now_ms now' input')"
    using createReadReceipt_Done [OF assms(1)] assms(2,3)
    by (auto simp: appendSeal0Receipt_def receipt_of_def split: if_splits)
  then have "s0_id (receipt_of C secret now_ms now' input') \<in> s0_id ` set (db_seal0 d')" by (metis imageI)
  moreover have "ri_actor input' \<noteq> []" using assms by (auto simp: createReadReceipt_def split: if_splits)
  ultimately show ?thesis by (simp add: createReadReceipt_def Let_def appendSeal0Receipt_def)
qed

theorem second_read_throws_witness:
  "createReadReceipt demo_crypto ''key'' 5 ''2024-02-29T12:34:56.790Z'' (demo_read\<lparr>ri_allowed := True\<rparr>) demo_read_db
    = Fail (Constraint ''UNIQUE seal_0_log.id'') demo_read_db"
  by (rule second_read_throws [OF demo_read_Done]) simp_all

text \<open>
  \<open>exportAuditBundle\<close> always returns a bundle, and the bundle verifies exactly when the archive has a checkpoint to put in it whose
  root is not empty. Nothing but the checkpoint is checked: the bundle verifies just the same with any other property replaced.
\<close>

theorem bundle_verifies:
  assumes "\<And>s. sha s \<noteq> []" "k \<notin> {''checkpoint'', ''digest'', ''verification_scope''}"
  shows "\<exists>ps. exportAuditBundle sha input d = Inr (JObj ps)
    \<and> verifyBundle sha (JObj ps) = (case export_checkpoint input d of None \<Rightarrow> False | Some c \<Rightarrow> ck_merkleRoot c \<noteq> [])
    \<and> verifyBundle sha (JObj (obj_put k v ps)) = verifyBundle sha (JObj ps)"
proof -
  obtain qs where "export_proofs sha d (map mr_id (export_messages input d)) = Inr qs" using export_proofs_total by blast
  then obtain ps where ps: "exportAuditBundle sha input d = Inr (JObj ps)"
    and get: "map_of ps ''checkpoint'' = map_option checkpoint_json (export_checkpoint input d)"
      "map_of ps ''verification_scope'' = Some (JStr ''checkpoint-digest-only'')"
      "map_of ps ''digest'' = Some (JStr (sha (stringify (case export_checkpoint input d of None \<Rightarrow> JObj [] | Some c \<Rightarrow> checkpoint_json c))))"
    by (cases "export_checkpoint input d") (simp_all add: exportAuditBundle_def Let_def)
  have root: "has_root (Some (checkpoint_json c)) \<longleftrightarrow> ck_merkleRoot c \<noteq> []" for c
    by (simp add: has_root_def checkpoint_json_def obj_get_def)
  have "verifyBundle sha (JObj ps) = (case export_checkpoint input d of None \<Rightarrow> False | Some c \<Rightarrow> ck_merkleRoot c \<noteq> [])"
    using assms(1) root by (cases "export_checkpoint input d") (simp_all add: verifyBundle_def obj_get_def get has_root_def)
  moreover have "verifyBundle sha (JObj (obj_put k v ps)) = verifyBundle sha (JObj ps)"
  proof -
    have "''checkpoint'' \<noteq> k" "''digest'' \<noteq> k" "''verification_scope'' \<noteq> k" using assms(2) by auto
    then show ?thesis by (simp only: verifyBundle_def obj_get_def json.case map_of_obj_put fun_upd_apply if_False)
  qed
  ultimately show ?thesis using ps by blast
qed

definition demo_checkpoint_db :: db where
  "demo_checkpoint_db = demo_read_db\<lparr>db_checkpoints := [\<lparr>ck_id = ''c1'', ck_scope = ''all'', ck_merkleRoot = ''ab'', ck_sealCount = 6,
     ck_nodeSignatures = [], ck_createdAt = ''2024-03-01T00:00:00.000Z''\<rparr>]\<rparr>"

theorem bundle_verifies_witness:
  "\<exists>ps. exportAuditBundle (\<lambda>s. ''x'' @ s) \<lparr>bi_start = None, bi_end = None, bi_merkleRoot = None\<rparr> demo_checkpoint_db = Inr (JObj ps)
    \<and> verifyBundle (\<lambda>s. ''x'' @ s) (JObj (obj_put ''reads'' (JArr []) ps))"
proof -
  have "export_checkpoint \<lparr>bi_start = None, bi_end = None, bi_merkleRoot = None\<rparr> demo_checkpoint_db = Some (hd (db_checkpoints demo_checkpoint_db))"
    by (simp add: export_checkpoint_def demo_checkpoint_db_def order_desc_def first_row_def)
  then show ?thesis
    using bundle_verifies [of "\<lambda>s. ''x'' @ s" "''reads''" "\<lparr>bi_start = None, bi_end = None, bi_merkleRoot = None\<rparr>" demo_checkpoint_db "JArr []"]
    by (auto simp: demo_checkpoint_db_def)
qed

text \<open>
  When the samples are those of one actor within a minute, \<open>detectVelocity\<close> raises its alert exactly when there are more of them
  than the threshold: the rate it also tests then exceeds the threshold by itself.
\<close>

theorem velocity_counts_window:
  assumes "\<forall>s\<in>set samples. vs_actorId s = a \<and> (\<exists>t. ms_of_iso (vs_timestampIso s) = Some t \<and> lo \<le> t \<and> t < lo + 60000)"
    and "''velocity:'' @ int_str now_ms \<notin> al_id ` set (db_alerts d)"
  shows "case detectVelocity now_ms createdAt samples threshold d of
      Fail e d' \<Rightarrow> False
    | Done None d' \<Rightarrow> length samples \<le> threshold \<and> d' = d
    | Done (Some alert) d' \<Rightarrow> threshold < length samples \<and> an_actor_id alert = Some a \<and> an_action_taken alert = Some ''quarantine''"
proof (cases "samples = []")
  case False
  define ts where "ts = map (\<lambda>s. the (ms_of_iso (vs_timestampIso s))) samples"
  have grouped: "by_actor samples [] = [(a, ts)]"
    unfolding ts_def using assms(1) False by (intro by_actor_single) auto
  have ne: "ts \<noteq> []" "length ts = length samples" using False by (auto simp: ts_def)
  have "set ts \<subseteq> {lo..<lo + 60000}" using assms(1) by (force simp: ts_def)
  then have "hd (sort ts) \<in> {lo..<lo + 60000}" "last (sort ts) \<in> {lo..<lo + 60000}"
    using hd_in_set [of "sort ts"] last_in_set [of "sort ts"] ne by (metis set_sort set_empty subsetD)+
  then have span: "span_ms (sort ts) < 60000" "0 < span_ms (sort ts)" by (auto simp: span_ms_def)
  have "of_nat threshold < rate_per_minute (sort ts)" if "threshold < length ts"
  proof -
    have "threshold * span_ms (sort ts) < length ts * (60000 :: int)"
      using that span by (intro mult_strict_mono) auto
    then have "(of_int (threshold * span_ms (sort ts)) :: rat) < of_int (length ts * 60000)" by (simp only: of_int_less_iff)
    then show ?thesis using span by (simp add: rate_per_minute_def pos_less_divide_eq)
  qed
  then have "first_fast threshold [(a, ts)] = (if threshold < length ts then Some (a, sort ts) else None)"
    using ne by (auto simp: too_fast_def Let_def)
  then show ?thesis
    using assms(2) ne False by (simp add: detectVelocity_def grouped emit_def appendCensorateAlert_def Let_def)
qed (simp add: detectVelocity_def)

theorem velocity_counts_window_witness:
  "case detectVelocity 5 ''2024-02-29T12:35:00.000Z''
      [\<lparr>vs_actorId = ''a'', vs_timestampIso = ''2024-02-29T12:34:56.789Z''\<rparr>,
       \<lparr>vs_actorId = ''a'', vs_timestampIso = ''2024-02-29T12:34:56.789Z''\<rparr>] 1 empty_db of
      Fail e d' \<Rightarrow> False
    | Done None d' \<Rightarrow> False
    | Done (Some alert) d' \<Rightarrow> an_actor_id alert = Some ''a''"
  using velocity_counts_window [of "[\<lparr>vs_actorId = ''a'', vs_timestampIso = ''2024-02-29T12:34:56.789Z''\<rparr>,
      \<lparr>vs_actorId = ''a'', vs_timestampIso = ''2024-02-29T12:34:56.789Z''\<rparr>]" "''a''" 1709210096789 5 empty_db
      1 "''2024-02-29T12:35:00.000Z''"]
  by (simp add: ms_of_iso_example empty_db_def split: out.splits option.splits)

end
