(* ===== verification/Gateway.thy ===== *)
theory Gateway
  imports Gateway_Auth Censorate Archive_Export Gossip
begin

text \<open>
  \<open>packages/gateway/src/index.ts\<close>: the state behind \<open>buildGateway\<close> and its routes. A handler returns its response or throws
  (\<open>Fail\<close>), which the server answers with status 500. The settings are the record \<open>gateway_env\<close>, the readings of the clock in
  one request the record \<open>gw_clock\<close>. Handlers are atomic, and the run of the worker that \<open>POST /messages\<close> starts is a step of its
  own. The spans of the tracer are left out.
\<close>

section \<open>State\<close>

record gateway_env =
  ge_crypto :: crypto
  ge_ed :: "bytes \<Rightarrow> bytes \<Rightarrow> string \<Rightarrow> bool option"
  ge_dt :: "string \<Rightarrow> bool"                         \<comment> \<open>\<open>z.string().datetime()\<close>\<close>
  ge_issues :: json                               \<comment> \<open>the issues of a validation error, as zod lists them\<close>
  ge_fl :: "rat option \<Rightarrow> json"                      \<comment> \<open>the text of a double\<close>
  ge_z_score :: "coalition_sample \<Rightarrow> json"
  ge_before :: "string \<Rightarrow> string \<Rightarrow> bool"             \<comment> \<open>\<open>a.localeCompare(b) <= 0\<close>\<close>
  ge_seal_context :: seal_context
  ge_pipe :: pipe_options
  ge_lawResolver :: "law_resolver option"
  ge_cacheTtl :: "int option"
  ge_preload :: "law_type list option"
  ge_auth :: "auth_options option"
  ge_test_mode :: bool
  ge_seal0_secret :: "string option"               \<comment> \<open>\<open>WENYAN_SEAL0_SECRET\<close>\<close>
  ge_gossip :: bool                               \<comment> \<open>\<open>onSealGossip\<close> is given\<close>
  ge_mesh_join :: "(string \<Rightarrow> bool \<times> json) option"
  ge_mesh_sync :: "(string \<Rightarrow> string \<Rightarrow> rat \<Rightarrow> bool \<times> json) option"
  ge_mesh_members :: "json option"
  ge_mesh_partitioned :: "bool option"

record gateway =
  gw_pipe :: pipe
  gw_ti :: ti_resolver
  gw_channel :: channel
  gw_ready :: bool                                \<comment> \<open>\<open>runtimeRepo\<close> is set\<close>
  gw_worker :: bool                               \<comment> \<open>\<open>workerInterval\<close> is set\<close>
  gw_recent :: "(string \<times> int list) list"          \<comment> \<open>\<open>recentSeal6ByActor\<close>\<close>
  gw_quarantined :: "string list"                 \<comment> \<open>\<open>quarantinedActors\<close>\<close>
  gw_amendment :: bool                            \<comment> \<open>\<open>constitutionalAmendmentInProgress\<close>\<close>
  gw_gossiped :: "(string \<times> int) list"             \<comment> \<open>what \<open>onSealGossip\<close> was called with\<close>

record gw_clock =
  gk_now :: iso
  gk_ms :: int
  gk_law_ms :: int
  gk_law_at :: iso
  gk_alert_ms :: "nat \<Rightarrow> int"                        \<comment> \<open>temporal, geographic, coalition, safety, velocity\<close>
  gk_alert_at :: "nat \<Rightarrow> iso"
  gk_preload_ms :: "law_type \<Rightarrow> int"
  gk_pipe :: pipe_clock
  gk_trace :: "string option"                      \<comment> \<open>the id of the current trace\<close>

record response =
  rs_status :: nat
  rs_body :: json
  rs_location :: "string option"

definition answer :: "nat \<Rightarrow> obj \<Rightarrow> response" where
  "answer status body = \<lparr>rs_status = status, rs_body = JObj body, rs_location = None\<rparr>"

definition error_answer :: "nat \<Rightarrow> string \<Rightarrow> response" where
  "error_answer status text' = answer status [(''error'', JStr text')]"

definition gw_db :: "gateway \<Rightarrow> db" where
  "gw_db g = pp_db (gw_pipe g)"

definition gw_set_db :: "db \<Rightarrow> gateway \<Rightarrow> gateway" where
  "gw_set_db d g = g\<lparr>gw_pipe := (gw_pipe g)\<lparr>pp_db := d\<rparr>\<rparr>"

definition on_pipe :: "(pipe \<Rightarrow> (pipe, 'a) out) \<Rightarrow> gateway \<Rightarrow> (gateway, 'a) out" where
  "on_pipe f g = (case f (gw_pipe g) of Done a p \<Rightarrow> Done a (g\<lparr>gw_pipe := p\<rparr>) | Fail e p \<Rightarrow> Fail e (g\<lparr>gw_pipe := p\<rparr>))"

definition on_archive :: "(db \<Rightarrow> (db, 'a) out) \<Rightarrow> gateway \<Rightarrow> (gateway, 'a) out" where
  "on_archive f = on_pipe (on_db f)"

text \<open>A question to the law resolver.\<close>

definition ask_law :: "(db \<Rightarrow> law_resolver \<Rightarrow> (err + 'a) \<times> law_resolver) \<Rightarrow> gateway \<Rightarrow> (gateway, 'a) out" where
  "ask_law f g =
     (case f (gw_db g) (pp_resolver (gw_pipe g)) of
        (Inl e, r) \<Rightarrow> Fail e (g\<lparr>gw_pipe := (gw_pipe g)\<lparr>pp_resolver := r\<rparr>\<rparr>)
      | (Inr x, r) \<Rightarrow> Done x (g\<lparr>gw_pipe := (gw_pipe g)\<lparr>pp_resolver := r\<rparr>\<rparr>))"

text \<open>A check that may answer the request, and the rest of the handler.\<close>

definition unless_answered :: "(gateway, response option) out \<Rightarrow> (gateway \<Rightarrow> (gateway, response) out) \<Rightarrow> (gateway, response) out" where
  "unless_answered m k = and_then m (\<lambda>r g. case r of Some resp \<Rightarrow> Done resp g | None \<Rightarrow> k g)"

definition refuse_if :: "bool \<Rightarrow> nat \<Rightarrow> string \<Rightarrow> gateway \<Rightarrow> (gateway, response option) out" where
  "refuse_if b status text' g = Done (if b then Some (error_answer status text') else None) g"

definition auth_of :: "gateway_env \<Rightarrow> auth_options" where
  "auth_of E = (case ge_auth E of None \<Rightarrow> default_auth_options | Some a \<Rightarrow> a)"

definition seal0_secret_of :: "gateway_env \<Rightarrow> string" where
  "seal0_secret_of E = (case ge_seal0_secret E of None \<Rightarrow> ''wenyan-seal0-local-secret''
     | Some s \<Rightarrow> if s = [] then ''wenyan-seal0-local-secret'' else s)"

definition ttl_of :: "gateway_env \<Rightarrow> int" where
  "ttl_of E = (case ge_cacheTtl E of None \<Rightarrow> 60 | Some t \<Rightarrow> t)"

text \<open>The first request makes the resolvers and fills the law cache; the timer of the worker starts when that succeeds.\<close>

definition resolveRuntime :: "gateway_env \<Rightarrow> gw_clock \<Rightarrow> gateway \<Rightarrow> (gateway, unit) out" where
  "resolveRuntime E clk g =
     (if gw_ready g then Done () g
      else (let r = resolverFor (ge_lawResolver E) (Some Strict_mode) (Some (ttl_of E)) (ge_preload E);
                g1 = g\<lparr>gw_pipe := (gw_pipe g)\<lparr>pp_resolver := r\<rparr>, gw_ti := \<lparr>tv_ttlSeconds = ttl_of E, tv_cache = (\<lambda>_. None)\<rparr>,
                       gw_ready := True\<rparr>
            in and_then (ask_law (\<lambda>d. law_preload d (gk_preload_ms clk) (gk_law_at clk)) g1)
                 (\<lambda>_ g2. Done () (g2\<lparr>gw_worker := True\<rparr>))))"

definition on_ready :: "gateway_env \<Rightarrow> gw_clock \<Rightarrow> gateway \<Rightarrow> (gateway \<Rightarrow> (gateway, 'a) out) \<Rightarrow> (gateway, 'a) out" where
  "on_ready E clk g k = and_then (resolveRuntime E clk g) (\<lambda>_. k)"

section \<open>The worker\<close>

text \<open>The rejection the worker writes when the pipeline threw, with the error's reason.\<close>

definition failure_reason :: "err \<Rightarrow> string" where
  "failure_reason e =
     (case e of
        Insufficient_imperial_authority \<Rightarrow> ''insufficient-imperial-authority''
      | Seal_invalid \<Rightarrow> ''invalid-seal-chain''
      | Error_msg m \<Rightarrow> (if m = [] then ''processing-error'' else m)
      | Constraint m \<Rightarrow> (if m = [] then ''processing-error'' else m)
      | _ \<Rightarrow> ''processing-error'')"

definition last_prev_hash :: "transition list \<Rightarrow> string option" where
  "last_prev_hash ts = (if ts = [] then Some ''GENESIS'' else t_prevTransitionHash (last ts))"

definition reject_failed :: "crypto \<Rightarrow> iso \<Rightarrow> string \<Rightarrow> string \<Rightarrow> gateway \<Rightarrow> (gateway, pipeline_result) out" where
  "reject_failed C nowIso messageId reason g =
     (let fromState = current_state messageId (gw_pipe g);
          transitions = getTransitions messageId (gw_db g);
          result = \<lparr>pr_messageId = messageId, pr_finalState = Rejected, pr_reason = Some reason\<rparr>
      in if fromState = Rejected then Done result g
         else and_then (on_archive (appendTransition (sha256 C)
             \<lparr>t_messageId = messageId, t_fromState = fromState, t_toState = Rejected, t_sequenceNo = int (length transitions + 1),
              t_actorId = Some ''gateway-worker'', t_reason = Some reason, t_sealedAt = Some nowIso,
              t_prevTransitionHash = last_prev_hash transitions, t_at = nowIso\<rparr>) g)
           (\<lambda>_. Done result))"

definition run_item :: "gateway_env \<Rightarrow> gw_clock \<Rightarrow> string \<Rightarrow> gateway \<Rightarrow> (gateway, pipeline_result) out" where
  "run_item E clk messageId g =
     (case on_pipe (processDocketMessage (ge_crypto E) (ge_dt E) (ge_seal_context E) (ge_pipe E) (gk_pipe clk) messageId) g of
        Done result g1 \<Rightarrow> Done result g1
      | Fail e g1 \<Rightarrow> reject_failed (ge_crypto E) (gk_now clk) messageId (failure_reason e) g1)"

definition set_amendment :: "envelope option \<Rightarrow> pipeline_result \<Rightarrow> gateway \<Rightarrow> gateway" where
  "set_amendment processed result g =
     (case processed of
        Some m \<Rightarrow> if e_genre m = ''blueprint_change'' then g\<lparr>gw_amendment := (pr_finalState result = Pending)\<rparr> else g
      | None \<Rightarrow> g)"

text \<open>An archived TI definition is counted against its author and drops the cached definition of its genre.\<close>

definition count_ti :: "gw_clock \<Rightarrow> envelope \<Rightarrow> gateway \<Rightarrow> (gateway, unit) out" where
  "count_ti clk m g =
     (let nowMs = gk_ms clk; actorId = e_actor_id m;
          samples = filter (\<lambda>ts. nowMs - ts < 60000) (case map_of (gw_recent g) actorId of None \<Rightarrow> [] | Some ts \<Rightarrow> ts) @ [nowMs];
          g1 = g\<lparr>gw_recent := obj_put actorId samples (gw_recent g)\<rparr>
      in and_then (on_archive (detectVelocity (gk_alert_ms clk 4) (gk_alert_at clk 4)
             (map (\<lambda>ts. \<lparr>vs_actorId = actorId, vs_timestampIso = iso_of_ms ts\<rparr>) samples) 10) g1)
           (\<lambda>velocity g2.
             let g3 = (case velocity of
                 Some a \<Rightarrow> if an_action_taken a = Some ''quarantine''
                   then g2\<lparr>gw_quarantined := set_add actorId (gw_quarantined g2)\<rparr> else g2
               | None \<Rightarrow> g2)
             in Done () (g3\<lparr>gw_ti := ti_invalidate (as_str (obj_get (e_payload m) ''target_genre'')) (gw_ti g3)\<rparr>)))"

definition drop_law :: "envelope \<Rightarrow> gateway \<Rightarrow> gateway" where
  "drop_law m g = g\<lparr>gw_pipe := (gw_pipe g)\<lparr>pp_resolver :=
     law_invalidate (Option.bind (as_str (obj_get (e_payload m) ''law_type'')) law_type_of) (pp_resolver (gw_pipe g))\<rparr>\<rparr>"

definition gossip_seals :: "gateway_env \<Rightarrow> string \<Rightarrow> pipeline_result \<Rightarrow> gateway \<Rightarrow> gateway" where
  "gossip_seals E messageId result g =
     (if po_consort (ge_pipe E) \<and> ge_gossip E
      then g\<lparr>gw_gossiped := gw_gossiped g @ [(messageId, 5)] @ (if pr_finalState result = Archived then [(messageId, 6)] else [])\<rparr>
      else g)"

definition result_json :: "pipeline_result \<Rightarrow> json" where
  "result_json r = JObj ([(''messageId'', JStr (pr_messageId r)), (''finalState'', JStr (state_str (pr_finalState r)))]
     @ prop_if ''reason'' (pr_reason r))"

definition announce :: "gw_clock \<Rightarrow> string \<Rightarrow> pipeline_result \<Rightarrow> gateway \<Rightarrow> gateway" where
  "announce clk messageId result g =
     (let transitions = getTransitions messageId (gw_db g) in
      if transitions = [] then g
      else g\<lparr>gw_channel := snd (publish
        \<lparr>ev_id = messageId @ '':'' @ int_str (t_sequenceNo (last transitions)),
         ev_type = (if pr_finalState result = Rejected then Message_rejected else Archive_appended),
         ev_messageId = messageId, ev_payload = [(''result'', result_json result)], ev_at = gk_now clk,
         ev_traceparent = None, ev_tracestate = None\<rparr> (gw_channel g))\<rparr>)"

definition after_item :: "gateway_env \<Rightarrow> gw_clock \<Rightarrow> string \<Rightarrow> pipeline_result \<Rightarrow> gateway \<Rightarrow> (gateway, unit) out" where
  "after_item E clk messageId result g =
     (let processed = getMessage messageId (gw_db g); g1 = set_amendment processed result g in
      and_then (case processed of
          Some m \<Rightarrow> if pr_finalState result = Archived \<and> e_genre m = ''ti_definition'' then count_ti clk m g1 else Done () g1
        | None \<Rightarrow> Done () g1)
        (\<lambda>_ g2. let g3 = (case processed of
             Some m \<Rightarrow> if e_genre m = ''edict'' \<and> pr_finalState result = Archived then drop_law m g2 else g2
           | None \<Rightarrow> g2)
         in Done () (announce clk messageId result (gossip_seals E messageId result g3))))"

definition work_item :: "gateway_env \<Rightarrow> gw_clock \<Rightarrow> string \<Rightarrow> gateway \<Rightarrow> (gateway, unit) out" where
  "work_item E clk messageId g = and_then (run_item E clk messageId g) (after_item E clk messageId)"

text \<open>One turn of the loop: \<open>None\<close> when no item is due.\<close>

definition worker_turn :: "gateway_env \<Rightarrow> gw_clock \<Rightarrow> gateway \<Rightarrow> (gateway, unit) out option" where
  "worker_turn E clk g =
     (case dequeueDocket (gk_now clk) (gw_db g) of
        (None, _) \<Rightarrow> None
      | (Some item, d) \<Rightarrow> Some (work_item E clk (dk_messageId item) (gw_set_db d g)))"

text \<open>The loop; an exception ends it. \<open>clk n\<close> is the clock of the \<open>n\<close>-th turn.\<close>

fun worker_loop :: "gateway_env \<Rightarrow> (nat \<Rightarrow> gw_clock) \<Rightarrow> nat \<Rightarrow> nat \<Rightarrow> gateway \<Rightarrow> gateway option" where
  "worker_loop E clk 0 n g = None"
| "worker_loop E clk (Suc fuel) n g =
     (case worker_turn E (clk n) g of
        None \<Rightarrow> Some g
      | Some (Fail e g') \<Rightarrow> Some g'
      | Some (Done _ g') \<Rightarrow> worker_loop E clk fuel (Suc n) g')"

definition processDocketLoop :: "gateway_env \<Rightarrow> gw_clock \<Rightarrow> (nat \<Rightarrow> gw_clock) \<Rightarrow> gateway \<Rightarrow> gateway option" where
  "processDocketLoop E clk0 clk g =
     (case resolveRuntime E clk0 g of
        Fail e g1 \<Rightarrow> Some g1
      | Done _ g1 \<Rightarrow> worker_loop E clk (Suc (length (db_docket (gw_db g1)))) 0 g1)"

end
