(* ===== verification/Gateway_Submit.thy ===== *)
theory Gateway_Submit
  imports Gateway
begin

text \<open>
  The routes of \<open>buildGateway\<close> that write: submission, approvals and the emergency switch. A body is \<open>None\<close> when it is no JSON. The
  body fields of the emergency route are texts.
\<close>

section \<open>POST /messages\<close>

text \<open>A missing schema of the genre is an error of the submission; an object whose schema is \<open>null\<close> is a type error.\<close>

definition validateByArchivedTi :: "(string \<Rightarrow> bool) \<Rightarrow> gw_clock \<Rightarrow> bool \<Rightarrow> envelope \<Rightarrow> gateway \<Rightarrow> (gateway, unit) out" where
  "validateByArchivedTi dt clk requireDefinedGenreSchema m g =
     (if e_genre m = ''ti_definition'' then if validateTiDefinition dt m then Done () g else Fail Zod_invalid g
      else if e_genre m = ''edict'' then if EdictSchema dt (envelope_json m) \<noteq> None then Done () g else Fail Zod_invalid g
      else case resolver_getCurrentTiDefinition (gw_db g) (gk_law_ms clk) (e_genre m) (gk_law_at clk) (gw_ti g) of
          (Inl e, r) \<Rightarrow> Fail e (g\<lparr>gw_ti := r\<rparr>)
        | (Inr None, r) \<Rightarrow>
            if requireDefinedGenreSchema then Fail (Schema_undefined (e_genre m)) (g\<lparr>gw_ti := r\<rparr>) else Done () (g\<lparr>gw_ti := r\<rparr>)
        | (Inr (Some ti), r) \<Rightarrow>
            if tr_def_schema ti = JNull then Fail (Error_msg ''TypeError'') (g\<lparr>gw_ti := r\<rparr>)
            else if list_ex (\<lambda>key. \<not> key_in key (e_payload m)) (required_keys (tr_def_schema ti))
            then Fail (Error_msg ''schema-noncompliant'') (g\<lparr>gw_ti := r\<rparr>)
            else Done () (g\<lparr>gw_ti := r\<rparr>))"

definition tongzhengSi :: "(string \<Rightarrow> bool) \<Rightarrow> gw_clock \<Rightarrow> json \<Rightarrow> gateway \<Rightarrow> (gateway, envelope) out" where
  "tongzhengSi dt clk input g =
     (case MessageEnvelopeSchema dt input of
        None \<Rightarrow> Fail Zod_invalid g
      | Some m \<Rightarrow>
          and_then (validateByArchivedTi dt clk True m g) (\<lambda>_ g1.
            and_then (ask_law (\<lambda>d. admissionCheck d (gk_law_ms clk) (gk_law_at clk) m) g1) (\<lambda>_. Done m)))"

definition check_hierarchy :: "envelope \<Rightarrow> gateway \<Rightarrow> (gateway, response option) out" where
  "check_hierarchy m g = refuse_if (isImperialWorksGenre (e_genre m) \<and> \<not> canDraftGenre (e_actor_role m) (e_genre m)) 403 ''hierarchy_violation'' g"

definition check_amendment :: "envelope \<Rightarrow> gateway \<Rightarrow> (gateway, response option) out" where
  "check_amendment m g = refuse_if (gw_amendment g \<and> e_genre m = ''blueprint_change'' \<and> startsWith (e_actor_role m) ''worker_'')
     403 ''constitutional_amendment_in_progress'' g"

definition check_site :: "envelope \<Rightarrow> gateway \<Rightarrow> (gateway, response option) out" where
  "check_site m g = refuse_if (getSiteStatus (gw_db g) = Quarantined \<and> e_genre m \<noteq> ''safety_incident'' \<and> e_genre m \<noteq> ''edict'') 423 ''site_quarantined'' g"

definition check_quarantine :: "envelope \<Rightarrow> gateway \<Rightarrow> (gateway, response option) out" where
  "check_quarantine m g = refuse_if (e_actor_id m \<in> set (gw_quarantined g)) 403 ''actor-quarantined'' g"

definition node_of :: "gateway_env \<Rightarrow> string" where
  "node_of E = (case po_nodeId (ge_pipe E) of None \<Rightarrow> ''local-node'' | Some n \<Rightarrow> n)"

definition drifted :: "gw_clock \<Rightarrow> iso \<Rightarrow> bool" where
  "drifted clk claimed = (case ms_of_iso claimed of None \<Rightarrow> False | Some t \<Rightarrow> 5000 < \<bar>t - gk_ms clk\<bar>)"

definition check_temporal :: "gateway_env \<Rightarrow> gw_clock \<Rightarrow> envelope \<Rightarrow> gateway \<Rightarrow> (gateway, response option) out" where
  "check_temporal E clk m g =
     (case obj_get (e_metadata m) ''claimed_timestamp'' of
        Some (JStr claimed) \<Rightarrow>
          and_then (on_archive (detectTemporal (gk_alert_ms clk 0) (gk_alert_at clk 0)
              \<lparr>ts_nodeId = node_of E, ts_claimed = claimed, ts_observed = gk_now clk\<rparr> 5000) g)
            (\<lambda>temporal. refuse_if (temporal \<noteq> None \<and> drifted clk claimed) 422 ''temporal_anomaly'')
      | _ \<Rightarrow> Done None g)"

definition num_of :: "json option \<Rightarrow> rat option" where
  "num_of j = (case j of Some (JNum a e) \<Rightarrow> Some (of_int a / 10 ^ e) | _ \<Rightarrow> None)"

definition geographic_of :: "envelope \<Rightarrow> geographic_sample option" where
  "geographic_of m =
     (case obj_get (e_metadata m) ''geography'' of
        Some (JObj geo) \<Rightarrow>
          (case (as_str (obj_get geo ''actor_id''), as_str (obj_get geo ''from''), as_str (obj_get geo ''to''),
                 num_of (obj_get geo ''distance_km''), num_of (obj_get geo ''delta_seconds'')) of
             (Some a, Some f, Some t, Some km, Some s) \<Rightarrow>
               Some \<lparr>gs_actorId = a, gs_from = f, gs_to = t, gs_distanceKm = km, gs_deltaSeconds = s\<rparr>
           | _ \<Rightarrow> None)
      | _ \<Rightarrow> None)"

definition check_geographic :: "gateway_env \<Rightarrow> gw_clock \<Rightarrow> envelope \<Rightarrow> gateway \<Rightarrow> (gateway, response option) out" where
  "check_geographic E clk m g =
     (case geographic_of m of
        None \<Rightarrow> Done None g
      | Some s \<Rightarrow>
          and_then (on_archive (detectGeographic (ge_fl E) (gk_alert_ms clk 1) (gk_alert_at clk 1) s 1000) g)
            (\<lambda>geographic g1. case geographic of
               None \<Rightarrow> Done None g1
             | Some _ \<Rightarrow> Done (Some (error_answer 422 ''geographic_impossibility''))
                 (g1\<lparr>gw_quarantined := set_add (gs_actorId s) (gw_quarantined g1)\<rparr>)))"

definition coalition_of :: "envelope \<Rightarrow> coalition_sample option" where
  "coalition_of m =
     (case obj_get (e_metadata m) ''coalition'' of
        Some (JObj c) \<Rightarrow>
          (case (as_str (obj_get c ''genre''), obj_get c ''offices'', num_of (obj_get c ''observed_probability''),
                 num_of (obj_get c ''baseline_probability'')) of
             (Some gn, Some (JArr offices), Some ob, Some b) \<Rightarrow>
               Some \<lparr>co_genre = gn, co_offices = map js_String offices, co_observed = ob, co_baseline = b\<rparr>
           | _ \<Rightarrow> None)
      | _ \<Rightarrow> None)"

definition note_coalition :: "gateway_env \<Rightarrow> gw_clock \<Rightarrow> envelope \<Rightarrow> gateway \<Rightarrow> (gateway, response option) out" where
  "note_coalition E clk m g =
     (case coalition_of m of
        None \<Rightarrow> Done None g
      | Some s \<Rightarrow> and_then (on_archive (detectCoalition (ge_z_score E) (ge_fl E) (gk_alert_ms clk 2) (gk_alert_at clk 2) s 3) g)
          (\<lambda>_. Done None))"

definition severity_of :: "string \<Rightarrow> severity" where
  "severity_of s = (if s = ''critical'' then Critical else if s = ''high'' then High else if s = ''medium'' then Medium else Low)"

definition raise_emergency :: "gw_clock \<Rightarrow> envelope \<Rightarrow> gateway \<Rightarrow> (gateway, unit) out" where
  "raise_emergency clk m g =
     (if e_genre m = ''safety_incident''
      then and_then (on_archive (routeSafetyIncident (gk_alert_ms clk 3) (gk_alert_at clk 3)
          \<lparr>si_messageId = e_id m,
           si_severity = severity_of (js_String (nullish (obj_get (e_payload m) ''severity_level'') (JStr ''critical''))),
           si_location = js_String (nullish (obj_get (e_payload m) ''location'') (JStr ''unknown'')), si_actorId = e_actor_id m\<rparr>) g)
        (\<lambda>_. Done ())
      else Done () g)"

definition accept_body :: "envelope \<Rightarrow> iso \<Rightarrow> json" where
  "accept_body m nowIso = JObj [(''id'', JStr (e_id m)), (''acceptedAt'', JStr nowIso)]"

definition remember :: "gw_clock \<Rightarrow> string \<Rightarrow> json \<Rightarrow> gateway \<Rightarrow> gateway" where
  "remember clk key body g =
     (if key = [] then g
      else gw_set_db (putIdempotency (gk_now clk) key (stringify body) (iso_of_ms (gk_ms clk + 24 * 60 * 60 * 1000)) (gw_db g)) g)"

definition accept_message :: "gateway_env \<Rightarrow> gw_clock \<Rightarrow> string \<Rightarrow> envelope \<Rightarrow> gateway \<Rightarrow> (gateway, response) out" where
  "accept_message E clk key m g =
     and_then (on_archive (appendMessage (sha256 (ge_crypto E)) (gk_now clk) m) g) (\<lambda>_ g1.
       and_then (on_archive (enqueueDocket (gk_ms clk) (gk_now clk) (e_id m)) g1) (\<lambda>_ g2.
         and_then (raise_emergency clk m g2) (\<lambda>_ g3.
           Done \<lparr>rs_status = 202, rs_body = accept_body m (gk_now clk), rs_location = Some (''/api/wenyan/messages/'' @ e_id m)\<rparr>
             (remember clk key (accept_body m (gk_now clk)) g3))))"

definition submit_message :: "gateway_env \<Rightarrow> gw_clock \<Rightarrow> string \<Rightarrow> envelope \<Rightarrow> gateway \<Rightarrow> (gateway, response) out" where
  "submit_message E clk key m g =
     unless_answered (check_hierarchy m g) (\<lambda>g.
     unless_answered (check_amendment m g) (\<lambda>g.
     unless_answered (check_site m g) (\<lambda>g.
     unless_answered (check_quarantine m g) (\<lambda>g.
     unless_answered (check_temporal E clk m g) (\<lambda>g.
     unless_answered (check_geographic E clk m g) (\<lambda>g.
     unless_answered (note_coalition E clk m g) (accept_message E clk key m)))))))"

text \<open>The idempotency lookup, and then the message.\<close>

definition submit_body :: "gateway_env \<Rightarrow> gw_clock \<Rightarrow> string \<Rightarrow> json option \<Rightarrow> gateway \<Rightarrow> (gateway, response) out" where
  "submit_body E clk key body g =
     (case (if key = [] then None else getIdempotency key (gk_now clk) (gw_db g)) of
        Some (_, responseJson, _) \<Rightarrow>
          (case json_parse responseJson of
             None \<Rightarrow> Fail (Error_msg ''SyntaxError'') g
           | Some j \<Rightarrow> Done \<lparr>rs_status = 200, rs_body = j, rs_location = None\<rparr> g)
      | None \<Rightarrow>
          (case body of
             None \<Rightarrow> Fail (Error_msg ''SyntaxError'') g
           | Some j \<Rightarrow> and_then (tongzhengSi (ge_dt E) clk j g) (submit_message E clk key)))"

definition starts_law :: "string \<Rightarrow> bool" where
  "starts_law s \<longleftrightarrow> startsWith s ''law-''"

definition submit_error :: "gateway_env \<Rightarrow> err \<Rightarrow> response" where
  "submit_error E e =
     (case e of
        Zod_invalid \<Rightarrow> answer 400 [(''error'', JStr ''invalid-payload''), (''issues'', ge_issues E)]
      | Schema_undefined genre \<Rightarrow> answer 503 [(''error'', JStr ''Schema Undefined''), (''genre'', JStr genre)]
      | Insufficient_imperial_authority \<Rightarrow> error_answer 403 ''insufficient-imperial-authority''
      | Seal_invalid \<Rightarrow> error_answer 403 ''invalid-seal-chain''
      | Error_msg s \<Rightarrow>
          (if s = ''schema-noncompliant'' then error_answer 400 s
           else if s = ''genre-not-admitted'' then error_answer 403 s
           else if starts_law s then error_answer 503 s
           else error_answer 500 ''internal-error'')
      | _ \<Rightarrow> error_answer 500 ''internal-error'')"

text \<open>The limits both write routes test first.\<close>

definition oversized :: "headers \<Rightarrow> response option" where
  "oversized hs =
     (if \<not> headersWithinLimits hs then Some (error_answer 431 ''headers-too-large'')
      else if \<not> contentLengthWithinLimit hs then Some (error_answer 413 ''payload-too-large'')
      else None)"

definition postMessage :: "gateway_env \<Rightarrow> gw_clock \<Rightarrow> headers \<Rightarrow> json option \<Rightarrow> gateway \<Rightarrow> response \<times> gateway" where
  "postMessage E clk hs body g =
     (case oversized hs of
        Some resp \<Rightarrow> (resp, g)
      | None \<Rightarrow>
          (case on_ready E clk g (submit_body E clk (header_text hs ''x-idempotency-key'') body) of
             Done resp g' \<Rightarrow> (resp, g')
           | Fail e g' \<Rightarrow> (submit_error E e, g')))"

section \<open>POST /messages/:id/approvals\<close>

definition approval_state :: "message_state \<Rightarrow> string list \<Rightarrow> nat \<Rightarrow> response" where
  "approval_state st approvals required = answer 200 [(''state'', JStr (state_str st)),
     (''approvals'', JArr (map JStr approvals)), (''required'', json_int (int required))]"

definition finalize_error :: "err \<Rightarrow> response" where
  "finalize_error e =
     (case e of
        Insufficient_imperial_authority \<Rightarrow> error_answer 403 ''insufficient-imperial-authority''
      | Seal_invalid \<Rightarrow> error_answer 403 ''invalid-seal-chain''
      | Error_msg s \<Rightarrow> if starts_law s then error_answer 503 s else error_answer 500 ''internal-error''
      | _ \<Rightarrow> error_answer 500 ''internal-error'')"

definition approve_office :: "gateway_env \<Rightarrow> gw_clock \<Rightarrow> string \<Rightarrow> envelope \<Rightarrow> string \<Rightarrow> gateway \<Rightarrow> (gateway, response) out" where
  "approve_office E clk i m office g =
     and_then (on_archive (addOfficeApproval (gk_now clk) i office) g) (\<lambda>_ g1.
       let approvals = getOfficeApprovals i (gw_db g1) in
       and_then (ask_law (\<lambda>d. protocolRequiredAcks d (gk_law_ms clk) (gk_law_at clk) m) g1) (\<lambda>required g2.
         if length approvals < required then Done (approval_state Pending approvals required) g2
         else case on_pipe (finalizePendingMessage (ge_crypto E) (ge_seal_context E) (ge_pipe E) (gk_pipe clk) i) g2 of
             Done result g3 \<Rightarrow> Done (approval_state (pr_finalState result) approvals required) g3
           | Fail e g3 \<Rightarrow> Done (finalize_error e) g3))"

text \<open>A property of a body that is not an object is \<open>undefined\<close>, of \<open>null\<close> it is an exception.\<close>

definition with_body :: "json option \<Rightarrow> gateway \<Rightarrow> (obj \<Rightarrow> gateway \<Rightarrow> (gateway, 'a) out) \<Rightarrow> (gateway, 'a) out" where
  "with_body body g k =
     (case body of
        None \<Rightarrow> Fail (Error_msg ''SyntaxError'') g
      | Some j \<Rightarrow> (case props_of j of None \<Rightarrow> Fail (Error_msg ''TypeError'') g | Some ps \<Rightarrow> k ps g))"

definition postApproval :: "gateway_env \<Rightarrow> gw_clock \<Rightarrow> headers \<Rightarrow> string \<Rightarrow> json option \<Rightarrow> gateway \<Rightarrow> (gateway, response) out" where
  "postApproval E clk hs i body g =
     (case oversized hs of
        Some resp \<Rightarrow> Done resp g
      | None \<Rightarrow> on_ready E clk g (\<lambda>g.
          case getMessage i (gw_db g) of
            None \<Rightarrow> Done (error_answer 404 ''not-found'') g
          | Some m \<Rightarrow> with_body body g (\<lambda>ps g.
              case obj_get ps ''office'' of
                None \<Rightarrow> Done (error_answer 400 ''office-required'') g
              | Some office \<Rightarrow>
                  (if \<not> truthy office then Done (error_answer 400 ''office-required'') g
                   else case office of
                       JStr s \<Rightarrow> if s \<in> set (requiredOffices m) then approve_office E clk i m s g
                                 else Done (error_answer 400 ''office-not-required'') g
                     | _ \<Rightarrow> Done (error_answer 400 ''office-not-required'') g))))"

section \<open>POST /emergency/safety-incident\<close>

definition text_field :: "obj \<Rightarrow> string \<Rightarrow> string \<Rightarrow> string" where
  "text_field ps k d = (case obj_get ps k of Some (JStr s) \<Rightarrow> s | _ \<Rightarrow> d)"

definition postEmergency :: "gateway_env \<Rightarrow> gw_clock \<Rightarrow> json option \<Rightarrow> gateway \<Rightarrow> (gateway, response) out" where
  "postEmergency E clk body g = on_ready E clk g (\<lambda>g.
     with_body (Some (case body of None \<Rightarrow> JObj [] | Some j \<Rightarrow> j)) g (\<lambda>ps g.
       let i = text_field ps ''id'' [] in
       if i = [] then Done (error_answer 400 ''message-id-required'') g
       else and_then (on_archive (routeSafetyIncident (gk_alert_ms clk 3) (gk_alert_at clk 3)
              \<lparr>si_messageId = i, si_severity = severity_of (text_field ps ''severity'' ''critical''),
               si_location = text_field ps ''location'' ''unknown'', si_actorId = text_field ps ''actorId'' ''unknown''\<rparr>) g)
            (\<lambda>(routedTo, quarantined) g1.
              Done (answer 202 [(''routedTo'', JArr (map JStr routedTo)), (''quarantined'', JBool quarantined)])
                (gw_set_db (setSiteStatus (gk_now clk) Quarantined (Some (''safety:'' @ i)) (gw_db g1)) g1))))"

end
