(* ===== verification/Gateway_Routes.thy ===== *)
theory Gateway_Routes
  imports Gateway_Submit
begin

text \<open>
  The routes of \<open>buildGateway\<close> that read: documents with their receipts, replay, the constitution, the mesh and the audit routes. The
  open stream of \<open>GET /stream\<close> is represented by what it replays (\<open>streamReplay\<close>) and by \<open>Gossip.subscribe\<close>. The body fields of the
  mesh routes are texts.
\<close>

section \<open>Reading\<close>

definition transition_json_full :: "transition \<Rightarrow> json" where
  "transition_json_full t = JObj ([(''messageId'', JStr (t_messageId t)), (''fromState'', JStr (state_str (t_fromState t))),
     (''toState'', JStr (state_str (t_toState t))), (''sequenceNo'', json_int (t_sequenceNo t))]
     @ prop_if ''actorId'' (t_actorId t) @ prop_if ''sealedAt'' (t_sealedAt t) @ prop_if ''reason'' (t_reason t)
     @ prop_if ''prevTransitionHash'' (t_prevTransitionHash t) @ [(''at'', JStr (t_at t))])"

definition seal_json_full :: "seal_record \<Rightarrow> json" where
  "seal_json_full s = JObj ([(''sealId'', JStr (s_sealId s)), (''messageId'', JStr (s_messageId s)), (''stage'', JStr (stage_str (s_stage s))),
     (''prevHash'', JStr (s_prevHash s)), (''hash'', JStr (s_hash s)), (''signature'', JStr (s_signature s)), (''createdAt'', JStr (s_createdAt s))]
     @ [(''payload'', case s_payload s of None \<Rightarrow> JNull | Some p \<Rightarrow> JObj p)])"

definition document_json :: "string \<Rightarrow> envelope \<Rightarrow> db \<Rightarrow> obj" where
  "document_json i m d = [(''message'', envelope_json m),
     (''state'', JStr (state_str (case snapshotState i d of None \<Rightarrow> Pending | Some s \<Rightarrow> s))),
     (''transitions'', JArr (map transition_json_full (getTransitions i d))), (''seals'', JArr (map seal_json_full (getSeals i d))),
     (''approvals'', JArr (map JStr (getOfficeApprovals i d)))]"

definition actor_name :: "read_actor option \<Rightarrow> string" where
  "actor_name actor = (case actor of None \<Rightarrow> ''anonymous'' | Some a \<Rightarrow> ra_id a)"

definition write_receipt :: "gateway_env \<Rightarrow> gw_clock \<Rightarrow> seal0_input \<Rightarrow> gateway \<Rightarrow> (gateway, unit) out" where
  "write_receipt E clk input g =
     and_then (on_archive (createReadReceipt (ge_crypto E) (seal0_secret_of E) (gk_ms clk) (gk_now clk) input) g) (\<lambda>_. Done ())"

definition receipt_input :: "gateway_env \<Rightarrow> gw_clock \<Rightarrow> string option \<Rightarrow> read_actor option \<Rightarrow> string option \<Rightarrow> obj \<Rightarrow> json \<Rightarrow> string option
    \<Rightarrow> seal0_input" where
  "receipt_input E clk documentId actor genre query result denied =
     \<lparr>ri_documentId = documentId, ri_actor = actor_name actor, ri_genre = genre, ri_queryParameters = query,
      ri_result = result, ri_allowed = (denied = None), ri_reason = denied, ri_traceId = gk_trace clk,
      ri_nodeId = po_nodeId (ge_pipe E), ri_atIso = None\<rparr>"

definition denied_json :: json where
  "denied_json = JObj [(''denied'', JBool True)]"

definition forbidden :: "string \<Rightarrow> response" where
  "forbidden reason = answer 403 [(''error'', JStr ''forbidden''), (''reason'', JStr reason)]"

text \<open>From the message on: the actor, the law, the receipt, the answer.\<close>

definition read_document :: "gateway_env \<Rightarrow> gw_clock \<Rightarrow> headers \<Rightarrow> string \<Rightarrow> envelope \<Rightarrow> gateway \<Rightarrow> (gateway, response) out" where
  "read_document E clk hs i m g =
     (case actorFromHeaders (ge_crypto E) (ge_ed E) (gk_ms clk) (ge_test_mode E) (auth_of E) hs of
        Inl e \<Rightarrow> Fail e g
      | Inr (actor, _) \<Rightarrow>
          and_then (ask_law (\<lambda>d. checkReadAccess d (gk_law_ms clk) (gk_law_at clk) actor (e_genre m)) g) (\<lambda>access g1.
            case access of
              Some reason \<Rightarrow>
                and_then (write_receipt E clk (receipt_input E clk (Some i) actor (Some (e_genre m)) [(''id'', JStr i)] denied_json (Some reason)) g1)
                  (\<lambda>_. Done (forbidden reason))
            | None \<Rightarrow>
                (let payload = document_json i m (gw_db g1) in
                 and_then (write_receipt E clk (receipt_input E clk (Some i) actor (Some (e_genre m)) [(''id'', JStr i)] (JObj payload) None) g1)
                   (\<lambda>_. Done (answer 200 payload)))))"

text \<open>The worker runs before the document is looked up, also when the runtime could not be started.\<close>

definition getMessageRoute :: "gateway_env \<Rightarrow> gw_clock \<Rightarrow> (nat \<Rightarrow> gw_clock) \<Rightarrow> headers \<Rightarrow> string \<Rightarrow> gateway \<Rightarrow> (gateway, response) out" where
  "getMessageRoute E clk loop_clk hs i g =
     (let started = resolveRuntime E clk g; g0 = out_state started;
          g1 = (case processDocketLoop E clk loop_clk g0 of Some g' \<Rightarrow> g' | None \<Rightarrow> g0)
      in case started of
           Fail e _ \<Rightarrow> Fail e g1
         | Done _ _ \<Rightarrow>
           (case getMessage i (gw_db g1) of
              None \<Rightarrow> Done (error_answer 404 ''not-found'') g1
            | Some m \<Rightarrow> read_document E clk hs i m g1))"

definition listMessages :: "gateway_env \<Rightarrow> gw_clock \<Rightarrow> headers \<Rightarrow> string option \<Rightarrow> string option \<Rightarrow> gateway \<Rightarrow> (gateway, response) out" where
  "listMessages E clk hs st genre g = on_ready E clk g (\<lambda>g.
     case actorFromHeaders (ge_crypto E) (ge_ed E) (gk_ms clk) (ge_test_mode E) (auth_of E) hs of
       Inl e \<Rightarrow> Fail e g
     | Inr (actor, _) \<Rightarrow>
        (let s = (case st of None \<Rightarrow> [] | Some x \<Rightarrow> x); gn = (case genre of None \<Rightarrow> [] | Some x \<Rightarrow> x);
             query = prop_if ''state'' st @ prop_if ''genre'' genre; body = [(''state'', JStr s), (''items'', JArr [])] in
         if s = [] then Done (error_answer 400 ''state-query-required'') g
         else if gn = []
         then and_then (write_receipt E clk (receipt_input E clk None actor genre query (JObj body) None) g) (\<lambda>_. Done (answer 200 body))
         else and_then (ask_law (\<lambda>d. checkReadAccess d (gk_law_ms clk) (gk_law_at clk) actor gn) g) (\<lambda>access g1.
           case access of
             Some reason \<Rightarrow> and_then (write_receipt E clk (receipt_input E clk None actor genre query denied_json (Some reason)) g1)
               (\<lambda>_. Done (forbidden reason))
           | None \<Rightarrow> and_then (write_receipt E clk (receipt_input E clk None actor genre query (JObj body) None) g1)
               (\<lambda>_. Done (answer 200 body)))))"

section \<open>The stream and the constitution\<close>

fun event_type_str :: "event_type \<Rightarrow> string" where
  "event_type_str Transition_committed = ''transition.committed''"
| "event_type_str Message_rejected = ''message.rejected''"
| "event_type_str Archive_appended = ''archive.appended''"

definition event_json :: "channel_event \<Rightarrow> json" where
  "event_json e = JObj ([(''id'', JStr (ev_id e)), (''type'', JStr (event_type_str (ev_type e))), (''messageId'', JStr (ev_messageId e)),
     (''payload'', JObj (ev_payload e)), (''at'', JStr (ev_at e))]
     @ prop_if ''traceparent'' (ev_traceparent e) @ prop_if ''tracestate'' (ev_tracestate e))"

definition since_or_minute :: "gw_clock \<Rightarrow> string option \<Rightarrow> iso" where
  "since_or_minute clk since = (case since of None \<Rightarrow> iso_of_ms (gk_ms clk - 60000) | Some s \<Rightarrow> s)"

definition streamReplay :: "gw_clock \<Rightarrow> string option \<Rightarrow> gateway \<Rightarrow> response" where
  "streamReplay clk since g = answer 200 [(''events'', JArr (map event_json (channel_replay (since_or_minute clk since) (gw_channel g))))]"

text \<open>\<open>channel/src/merkle.ts\<close>; a stable sort by the locale order.\<close>

fun insert_by :: "('a \<Rightarrow> 'a \<Rightarrow> bool) \<Rightarrow> 'a \<Rightarrow> 'a list \<Rightarrow> 'a list" where
  "insert_by before x [] = [x]"
| "insert_by before x (y # ys) = (if before x y then x # y # ys else y # insert_by before x ys)"

definition sort_by :: "('a \<Rightarrow> 'a \<Rightarrow> bool) \<Rightarrow> 'a list \<Rightarrow> 'a list" where
  "sort_by before xs = foldr (insert_by before) xs []"

definition doc_before :: "(string \<Rightarrow> string \<Rightarrow> bool) \<Rightarrow> string \<times> iso \<Rightarrow> string \<times> iso \<Rightarrow> bool" where
  "doc_before le a b \<longleftrightarrow> (if le (snd a) (snd b) \<and> le (snd b) (snd a) then le (fst a) (fst b) else le (snd a) (snd b))"

definition constitutionalMerkleRoot :: "(string \<Rightarrow> string \<Rightarrow> bool) \<Rightarrow> (string \<Rightarrow> string) \<Rightarrow> db \<Rightarrow> string" where
  "constitutionalMerkleRoot le sha d =
     channel_merkleRoot sha (map (\<lambda>(i, archivedAt). archivedAt @ '':'' @ i) (sort_by (doc_before le) (getConstitutionalDocuments d)))"

definition constitutionRoot :: "gateway_env \<Rightarrow> gw_clock \<Rightarrow> gateway \<Rightarrow> (gateway, response) out" where
  "constitutionRoot E clk g = on_ready E clk g (\<lambda>g.
     Done (answer 200 [(''root'', JStr (constitutionalMerkleRoot (ge_before E) (sha256 (ge_crypto E)) (gw_db g))),
       (''count'', json_int (int (length (getConstitutionalDocuments (gw_db g)))))]) g)"

section \<open>The mesh\<close>

definition no_mesh :: response where
  "no_mesh = error_answer 503 ''mesh-not-configured''"

definition meshMerkleRoot :: "gateway_env \<Rightarrow> gw_clock \<Rightarrow> gateway \<Rightarrow> (gateway, response) out" where
  "meshMerkleRoot E clk g =
     (if \<not> po_consort (ge_pipe E) then Done no_mesh g
      else on_ready E clk g (\<lambda>g. let (root, d) = getMerkleRoot (sha256 (ge_crypto E)) (gk_now clk) All_scope (gw_db g) in
        Done (answer 200 [(''mode'', JStr ''consort''), (''root'', JStr root)]) (gw_set_db d g)))"

definition meshStatus :: "gateway_env \<Rightarrow> response" where
  "meshStatus E =
     (if \<not> po_consort (ge_pipe E) then no_mesh
      else answer 200 [(''mode'', JStr ''consort''), (''partitioned'', JBool (case ge_mesh_partitioned E of None \<Rightarrow> False | Some b \<Rightarrow> b)),
        (''members'', case ge_mesh_members E of None \<Rightarrow> JArr [] | Some j \<Rightarrow> j)])"

definition meshJoin :: "gateway_env \<Rightarrow> json option \<Rightarrow> gateway \<Rightarrow> (gateway, response) out" where
  "meshJoin E body g =
     (if \<not> po_consort (ge_pipe E) then Done no_mesh g
      else with_body body g (\<lambda>ps g.
        let peer = text_field ps ''peer'' [] in
        if peer = [] then Done (error_answer 400 ''peer-required'') g
        else case ge_mesh_join E of
            None \<Rightarrow> Done no_mesh g
          | Some join \<Rightarrow> (let (ok, j) = join peer in
              Done \<lparr>rs_status = (if ok then 200 else 409), rs_body = j, rs_location = None\<rparr> g)))"

definition limit_of :: "obj \<Rightarrow> rat" where
  "limit_of ps = (case obj_get ps ''limit'' of Some (JNum m e) \<Rightarrow> of_int m / 10 ^ e | _ \<Rightarrow> 200)"

definition meshSync :: "gateway_env \<Rightarrow> gw_clock \<Rightarrow> json option \<Rightarrow> gateway \<Rightarrow> (gateway, response) out" where
  "meshSync E clk body g =
     (if \<not> po_consort (ge_pipe E) then Done no_mesh g
      else with_body body g (\<lambda>ps g.
        let peer = text_field ps ''peer'' []; fromCursor = text_field ps ''fromCursor'' ''0''; limit = limit_of ps in
        if peer = [] then Done (error_answer 400 ''peer-required'') g
        else case (if peer = ''local'' then None else ge_mesh_sync E) of
            None \<Rightarrow> on_ready E clk g (\<lambda>g.
              if limit \<noteq> of_int \<lfloor>limit\<rfloor> then Fail (Constraint ''datatype mismatch'') g
              else Done (answer 200 [(''ok'', JBool True),
                (''transitions'', JArr (map transition_json_full (getSyncRange fromCursor \<lfloor>limit\<rfloor> (gw_db g))))]) g)
          | Some sync \<Rightarrow> (let (ok, j) = sync peer fromCursor limit in
              Done \<lparr>rs_status = (if ok then 200 else 409), rs_body = j, rs_location = None\<rparr> g)))"

section \<open>The audit routes\<close>

definition receipt_json :: "seal0_row \<Rightarrow> json" where
  "receipt_json r = JObj ([(''id'', JStr (s0_id r)), (''document_id'', opt_json (s0_document_id r)), (''actor_id'', JStr (s0_actor_id r))]
     @ prop_if ''genre'' (s0_genre r)
     @ [(''query_timestamp'', JStr (s0_query_timestamp r)), (''query_parameters_hash'', JStr (s0_query_parameters_hash r)),
        (''result_hash'', JStr (s0_result_hash r)), (''result_status'', JStr (s0_result_status r))]
     @ prop_if ''reason'' (s0_reason r) @ [(''signature'', JStr (s0_signature r))]
     @ prop_if ''trace_id'' (s0_trace_id r) @ prop_if ''node_id'' (s0_node_id r))"

text \<open>\<open>Number(limit ?? '100')\<close>; SQLite refuses a limit that is no integer.\<close>

definition query_limit :: "string option \<Rightarrow> int option" where
  "query_limit q = (case str_Number (case q of None \<Rightarrow> ''100'' | Some s \<Rightarrow> s) of
     None \<Rightarrow> None | Some r \<Rightarrow> if r = of_int \<lfloor>r\<rfloor> then Some \<lfloor>r\<rfloor> else None)"

record who_read_query =
  wq_document :: "string option"
  wq_genre :: "string option"
  wq_since :: "iso option"
  wq_actor :: "string option"
  wq_limit :: "string option"

definition whoRead :: "gateway_env \<Rightarrow> gw_clock \<Rightarrow> who_read_query \<Rightarrow> gateway \<Rightarrow> (gateway, response) out" where
  "whoRead E clk q g = on_ready E clk g (\<lambda>g.
     let doc = (case wq_document q of None \<Rightarrow> [] | Some s \<Rightarrow> s); gn = (case wq_genre q of None \<Rightarrow> [] | Some s \<Rightarrow> s) in
     if doc = [] \<and> gn = [] then Done (error_answer 400 ''document-or-genre-required'') g
     else case query_limit (wq_limit q) of
         None \<Rightarrow> Fail (Constraint ''datatype mismatch'') g
       | Some n \<Rightarrow>
          (let f = \<lparr>rf_since = wq_since q, rf_actorId = wq_actor q, rf_limit = Some n\<rparr>;
               items = (if doc \<noteq> [] then querySeal0ByDocument doc f (gw_db g) else querySeal0ByGenre gn f (gw_db g))
           in Done (answer 200 [(''items'', JArr (map receipt_json items))]) g))"

definition alert_json :: "alert_row \<Rightarrow> json" where
  "alert_json r = JObj ([(''id'', JStr (al_id r)), (''alertType'', JStr (al_alertType r)), (''severity'', JStr (al_severity r))]
     @ prop_if ''actorId'' (al_actorId r) @ prop_if ''nodeId'' (al_nodeId r)
     @ [(''evidence'', JObj (al_evidence r)), (''createdAt'', JStr (al_createdAt r))] @ prop_if ''actionTaken'' (al_actionTaken r))"

definition auditAnomaly :: "gateway_env \<Rightarrow> gw_clock \<Rightarrow> iso option \<Rightarrow> string option \<Rightarrow> string option \<Rightarrow> gateway \<Rightarrow> (gateway, response) out" where
  "auditAnomaly E clk since kind bound g = on_ready E clk g (\<lambda>g.
     case query_limit bound of
       None \<Rightarrow> Fail (Constraint ''datatype mismatch'') g
     | Some n \<Rightarrow> Done (answer 200 [(''items'', JArr (map alert_json
         (queryCensorateAlerts \<lparr>aw_since = since, aw_limit = Some n, aw_type = kind\<rparr> (gw_db g))))]) g)"

definition span_json :: "string \<Rightarrow> nat \<Rightarrow> json" where
  "span_json name n = JObj [(''name'', JStr name), (''count'', json_int (int n))]"

definition auditTrace :: "gateway_env \<Rightarrow> gw_clock \<Rightarrow> string \<Rightarrow> gateway \<Rightarrow> (gateway, response) out" where
  "auditTrace E clk i g = on_ready E clk g (\<lambda>g.
     case getMessage i (gw_db g) of
       None \<Rightarrow> Done (error_answer 404 ''not-found'') g
     | Some _ \<Rightarrow>
        (let transitions = getTransitions i (gw_db g); seals = getSeals i (gw_db g) in
         Done (answer 200 [(''messageId'', JStr i),
           (''spans'', JArr [span_json ''wenyan.pipeline.caoni'' 1, span_json ''wenyan.pipeline.shenfu'' 1,
              span_json ''wenyan.pipeline.pizhun'' 1, span_json ''wenyan.archive.commit'' (length transitions + length seals)]),
           (''transitions'', JArr (map transition_json_full transitions)), (''seals'', JArr (map seal_json_full seals))]) g))"

definition auditExport :: "gateway_env \<Rightarrow> gw_clock \<Rightarrow> bundle_input \<Rightarrow> gateway \<Rightarrow> (gateway, response) out" where
  "auditExport E clk input g = on_ready E clk g (\<lambda>g.
     case exportAuditBundle (sha256 (ge_crypto E)) input (gw_db g) of
       Inl e \<Rightarrow> Fail e g
     | Inr bundle \<Rightarrow> Done \<lparr>rs_status = 200, rs_body = bundle, rs_location = None\<rparr> g)"

definition scope_of_str :: "string \<Rightarrow> scope" where
  "scope_of_str s = (if s = ''all'' then All_scope else if s = ''constitutional'' then Constitutional else if s = ''legislative'' then Legislative
     else Other_scope s)"

text \<open>The fields of the body are of the types the code declares for them.\<close>

definition texts_of :: "json option \<Rightarrow> string list" where
  "texts_of j = (case j of Some (JArr xs) \<Rightarrow> concat (map (\<lambda>x. case x of JStr s \<Rightarrow> [s] | _ \<Rightarrow> []) xs) | _ \<Rightarrow> [])"

definition count_of :: "json option \<Rightarrow> int" where
  "count_of j = (case j of Some (JNum m e) \<Rightarrow> if e = 0 then m else 0 | _ \<Rightarrow> 0)"

definition auditCheckpoint :: "gateway_env \<Rightarrow> gw_clock \<Rightarrow> json option \<Rightarrow> gateway \<Rightarrow> (gateway, response) out" where
  "auditCheckpoint E clk body g = on_ready E clk g (\<lambda>g.
     with_body (Some (case body of None \<Rightarrow> JObj [] | Some j \<Rightarrow> j)) g (\<lambda>ps g.
       and_then (on_archive (createCheckpoint (sha256 (ge_crypto E)) (gk_now clk) (gk_now clk)
           (scope_of_str (text_field ps ''scope'' ''all'')) (texts_of (obj_get ps ''signatures'')) (count_of (obj_get ps ''sealCount''))) g)
         (\<lambda>cp. Done (answer 201 [(''id'', JStr (case ac_id cp of None \<Rightarrow> [] | Some i \<Rightarrow> i)), (''scope'', JStr (scope_str (ac_scope cp))),
           (''merkleRoot'', JStr (ac_merkleRoot cp)), (''sealCount'', json_int (ac_sealCount cp)),
           (''nodeSignatures'', JArr (map JStr (ac_nodeSignatures cp))), (''createdAt'', JStr (ac_createdAt cp))]))))"

end
