(* ===== verification/Pipeline_Frame.thy ===== *)
theory Pipeline_Frame
  imports Pipeline
begin

text \<open>
  What the pipeline leaves alone: it writes to the archive through \<open>appendTransition\<close> and \<open>appendSeal\<close> only. The locale
  \<open>write_invariant\<close> is the contract of a property both of them keep, and proves that both entry points keep it whatever they return
  or throw.
\<close>

lemma on_db_state: "pp_db (out_state (on_db f p)) = out_state (f (pp_db p))"
  by (simp add: on_db_def split: out.split)

lemma consult_db: "pp_db (out_state (consult schema errors now t m p)) = pp_db p"
  by (auto simp: consult_def split: prod.split sum.split)

lemma gate_db: "pp_db (out_state (gate f o')) = pp_db (out_state o')"
  by (cases o') (auto simp: gate_def split: sum.split)

locale write_invariant =
  fixes sha :: "string \<Rightarrow> string" and I :: "db \<Rightarrow> bool"
  assumes transition_keeps: "I d \<Longrightarrow> I (out_state (appendTransition sha t d))"
    and seal_keeps: "I d \<Longrightarrow> I (out_state (appendSeal s d))"
begin

lemma next_keeps:
  "sha256 C = sha \<Longrightarrow> I (pp_db p) \<Longrightarrow> I (pp_db (out_state (appendNextTransition C clock m s q reason p)))"
  by (simp add: appendNextTransition_def Let_def on_db_state transition_keeps)

lemma seals_keep: "I (pp_db p) \<Longrightarrow> I (pp_db (out_state (append_seals ss p)))"
proof (induction ss arbitrary: p)
  case (Cons s ss)
  have "I (pp_db (out_state (on_db (appendSeal s) p)))" using Cons.prems by (simp add: on_db_state seal_keeps)
  then show ?case using Cons.IH by (cases "on_db (appendSeal s) p") auto
qed simp

lemma bind_keeps:
  "I (pp_db (out_state m)) \<Longrightarrow> (\<And>a p. I (pp_db p) \<Longrightarrow> I (pp_db (out_state (k a p)))) \<Longrightarrow> I (pp_db (out_state (and_then m k)))"
  by (cases m) auto

lemma reject_keeps: "sha256 C = sha \<Longrightarrow> I (pp_db p) \<Longrightarrow> I (pp_db (out_state (reject_with C clock i m s reason p)))"
  unfolding reject_with_def by (rule bind_keeps) (simp_all add: next_keeps)

lemma gate_keeps: "I (pp_db p) \<Longrightarrow> I (pp_db (out_state (gate f (consult schema errors now t m p))))"
  by (simp add: gate_db consult_db)

lemma archive_keeps: "sha256 C = sha \<Longrightarrow> I (pp_db p) \<Longrightarrow> I (pp_db (out_state (applySealsAndArchive C ctx clock m p)))"
  unfolding applySealsAndArchive_def
  by (auto split: sum.split intro!: bind_keeps seals_keep next_keeps)

lemma seal_or_reject_keeps:
  assumes "sha256 C = sha" "I (pp_db p)"
  shows "I (pp_db (out_state (seal_or_reject C ctx clock i m p)))"
proof -
  have "I (pp_db (out_state (applySealsAndArchive C ctx clock m p)))" by (rule archive_keeps [OF assms])
  then show ?thesis
    by (cases "applySealsAndArchive C ctx clock m p") (auto simp: seal_or_reject_def reject_keeps assms split: option.split)
qed

lemma finalize_keeps:
  assumes "sha256 C = sha" "I (pp_db p)"
  shows "I (pp_db (out_state (finalizePendingMessage C ctx opts clock i p)))"
  using assms unfolding finalizePendingMessage_def Let_def requiredAcksByLaw_def
  by (auto split: option.split sum.split intro!: bind_keeps gate_keeps seal_or_reject_keeps)

lemma acked_keeps: "sha256 C = sha \<Longrightarrow> I (pp_db p) \<Longrightarrow> I (pp_db (out_state (process_acked C ctx opts clock i m acks p)))"
  unfolding process_acked_def by (auto split: sum.split intro!: bind_keeps next_keeps reject_keeps seal_or_reject_keeps)

lemma authorized_keeps: "sha256 C = sha \<Longrightarrow> I (pp_db p) \<Longrightarrow> I (pp_db (out_state (process_authorized C ctx opts clock i m auth p)))"
  unfolding process_authorized_def requiredAcksByLaw_def
  by (auto split: sum.split intro!: bind_keeps gate_keeps reject_keeps acked_keeps)

lemma classified_keeps: "sha256 C = sha \<Longrightarrow> I (pp_db p) \<Longrightarrow> I (pp_db (out_state (process_classified C ctx opts clock i m c p)))"
  unfolding process_classified_def authorizeByLaw_def
  by (auto split: sum.split intro!: bind_keeps gate_keeps next_keeps reject_keeps authorized_keeps)

lemma reviewed_keeps: "sha256 C = sha \<Longrightarrow> I (pp_db p) \<Longrightarrow> I (pp_db (out_state (process_reviewed C ctx opts clock i m r p)))"
  unfolding process_reviewed_def classificationCheck_def
  by (auto split: sum.split intro!: bind_keeps gate_keeps reject_keeps classified_keeps)

lemma validated_keeps: "sha256 C = sha \<Longrightarrow> I (pp_db p) \<Longrightarrow> I (pp_db (out_state (process_validated C dt ctx opts clock i m p)))"
  unfolding process_validated_def reviewByLaw_def
  by (auto split: sum.split intro!: bind_keeps gate_keeps reject_keeps reviewed_keeps)

lemma docket_keeps:
  assumes "sha256 C = sha" "I (pp_db p)"
  shows "I (pp_db (out_state (processDocketMessage C dt ctx opts clock i p)))"
  using assms unfolding processDocketMessage_def Let_def applyRoutingLaw_def
  by (auto split: option.split sum.split intro!: bind_keeps gate_keeps reject_keeps next_keeps validated_keeps)

end

lemma index_frame:
  "db_docket (out_state (indexArchivedMessage i t d)) = db_docket d"
  "db_seal0 (out_state (indexArchivedMessage i t d)) = db_seal0 d"
  "db_idempotency (out_state (indexArchivedMessage i t d)) = db_idempotency d"
  "db_alerts (out_state (indexArchivedMessage i t d)) = db_alerts d"
  by (auto simp: indexArchivedMessage_def update_message_def Let_def split: option.splits)

lemma appendTransition_tables:
  "db_docket (out_state (appendTransition sha t d)) = db_docket d"
  "db_seal0 (out_state (appendTransition sha t d)) = db_seal0 d"
  "db_idempotency (out_state (appendTransition sha t d)) = db_idempotency d"
  "db_alerts (out_state (appendTransition sha t d)) = db_alerts d"
  by (auto simp: appendTransition_def Let_def use_id_def index_frame update_message_def)

lemma appendSeal_tables:
  "db_docket (out_state (appendSeal s d)) = db_docket d"
  "db_seal0 (out_state (appendSeal s d)) = db_seal0 d"
  "db_idempotency (out_state (appendSeal s d)) = db_idempotency d"
  "db_alerts (out_state (appendSeal s d)) = db_alerts d"
  by (auto simp: appendSeal_def Let_def update_message_def)

section \<open>The properties both writers keep\<close>

interpretation tables: write_invariant sha "archive_inv sha" for sha
  by unfold_locales (rule appendTransition_inv, assumption, rule appendSeal_inv)

interpretation docket_table: write_invariant sha "\<lambda>d. db_docket d = x" for sha x
  by unfold_locales (simp_all add: appendTransition_tables appendSeal_tables)

interpretation receipts_table: write_invariant sha "\<lambda>d. db_seal0 d = x" for sha x
  by unfold_locales (simp_all add: appendTransition_tables appendSeal_tables)

end
