(* ===== verification/Gateway_Correct.thy ===== *)
theory Gateway_Correct
  imports Gateway_Routes Censorate_Correct Pipeline_Frame Pipeline_Correct
begin

text \<open>
  What the gateway promises: the worker's loop ends, a submission is stored and docketed exactly when it is accepted, a repeated
  key gets the first answer, a read is allowed by the law and leaves a receipt, and every state keeps the invariants of its parts.
\<close>

section \<open>Frames\<close>

lemma on_archive_state [simp]:
  "gw_db (out_state (on_archive f g)) = out_state (f (gw_db g))"
  "gw_channel (out_state (on_archive f g)) = gw_channel g" "gw_amendment (out_state (on_archive f g)) = gw_amendment g"
  "gw_quarantined (out_state (on_archive f g)) = gw_quarantined g" "gw_ready (out_state (on_archive f g)) = gw_ready g"
  by (auto simp: on_archive_def on_pipe_def on_db_def gw_db_def split: out.split)

lemma on_archive_Done_iff:
  "on_archive f g = Done a g' \<longleftrightarrow> (\<exists>d. f (gw_db g) = Done a d \<and> g' = gw_set_db d g)"
  by (auto simp: on_archive_def on_pipe_def on_db_def gw_db_def gw_set_db_def split: out.split)

lemma on_archive_Fail_iff:
  "on_archive f g = Fail e g' \<longleftrightarrow> (\<exists>d. f (gw_db g) = Fail e d \<and> g' = gw_set_db d g)"
  by (auto simp: on_archive_def on_pipe_def on_db_def gw_db_def gw_set_db_def split: out.split)

lemma gw_set_db_simps [simp]:
  "gw_db (gw_set_db d g) = d" "gw_channel (gw_set_db d g) = gw_channel g" "gw_amendment (gw_set_db d g) = gw_amendment g"
  "gw_quarantined (gw_set_db d g) = gw_quarantined g" "gw_ready (gw_set_db d g) = gw_ready g"
  "pp_resolver (gw_pipe (gw_set_db d g)) = pp_resolver (gw_pipe g)" "gw_ti (gw_set_db d g) = gw_ti g"
  by (simp_all add: gw_db_def gw_set_db_def)

lemma gw_db_frame [simp]:
  "gw_db (gw_ti_update f1 g) = gw_db g" "gw_db (gw_channel_update f2 g) = gw_db g" "gw_db (gw_ready_update f3 g) = gw_db g"
  "gw_db (gw_worker_update f4 g) = gw_db g" "gw_db (gw_recent_update f5 g) = gw_db g"
  "gw_db (gw_quarantined_update f6 g) = gw_db g" "gw_db (gw_amendment_update f7 g) = gw_db g"
  "gw_db (gw_gossiped_update f8 g) = gw_db g" "gw_db (g\<lparr>gw_pipe := p\<rparr>) = pp_db p"
  by (simp_all add: gw_db_def)

lemma ask_law_state [simp]:
  "gw_db (out_state (ask_law f g)) = gw_db g" "gw_channel (out_state (ask_law f g)) = gw_channel g"
  "gw_amendment (out_state (ask_law f g)) = gw_amendment g" "gw_quarantined (out_state (ask_law f g)) = gw_quarantined g"
  "gw_ready (out_state (ask_law f g)) = gw_ready g"
  by (auto simp: ask_law_def gw_db_def split: prod.split sum.split)

lemma on_pipe_state: "gw_pipe (out_state (on_pipe f g)) = out_state (f (gw_pipe g))"
  by (auto simp: on_pipe_def split: out.split)

lemma emit_state: "\<exists>al. out_state (emit n c t s a nd e ac d) = d\<lparr>db_alerts := al\<rparr>"
proof (cases "t @ '':'' @ int_str n \<in> al_id ` set (db_alerts d)")
  case True
  then show ?thesis by (intro exI [of _ "db_alerts d"]) (simp add: emit_def appendCensorateAlert_def)
next
  case False
  then show ?thesis by (simp add: emit_def appendCensorateAlert_def) (rule exI, rule refl)
qed

lemma detect_state:
  "\<exists>al. out_state (detectVelocity n c samples th d) = d\<lparr>db_alerts := al\<rparr>"
  "\<exists>al. out_state (detectTemporal n c ts th' d) = d\<lparr>db_alerts := al\<rparr>"
  "\<exists>al. out_state (detectGeographic fl n c gs kmh d) = d\<lparr>db_alerts := al\<rparr>"
  "\<exists>al. out_state (detectCoalition z fl n c co zt d) = d\<lparr>db_alerts := al\<rparr>"
proof -
  have same: "\<exists>al. d = d\<lparr>db_alerts := al\<rparr>" by (rule exI [of _ "db_alerts d"]) simp
  show "\<exists>al. out_state (detectVelocity n c samples th d) = d\<lparr>db_alerts := al\<rparr>"
    using same emit_state by (auto simp: detectVelocity_def split: option.split)
  show "\<exists>al. out_state (detectTemporal n c ts th' d) = d\<lparr>db_alerts := al\<rparr>"
    using same emit_state by (auto simp: detectTemporal_def Let_def split: option.split)
  show "\<exists>al. out_state (detectGeographic fl n c gs kmh d) = d\<lparr>db_alerts := al\<rparr>"
    using same emit_state by (auto simp: detectGeographic_def split: option.split)
  show "\<exists>al. out_state (detectCoalition z fl n c co zt d) = d\<lparr>db_alerts := al\<rparr>"
    using same emit_state by (auto simp: detectCoalition_def)
qed

lemma and_then_state: "out_state (and_then m k) = (case m of Done a s \<Rightarrow> out_state (k a s) | Fail e s \<Rightarrow> s)"
  by (cases m) auto

section \<open>The worker\<close>

context write_invariant
begin

text \<open>A property of the archive that the pipeline and new alerts keep is kept by the worker.\<close>

lemma run_item_keeps:
  assumes "sha256 (ge_crypto E) = sha" "I (gw_db g)"
  shows "I (gw_db (out_state (run_item E clk i g)))"
proof -
  let ?r = "on_pipe (processDocketMessage (ge_crypto E) (ge_dt E) (ge_seal_context E) (ge_pipe E) (gk_pipe clk) i) g"
  have r: "I (gw_db (out_state ?r))"
    using docket_keeps [OF assms(1), of "gw_pipe g"] assms(2) by (simp add: gw_db_def on_pipe_state)
  have "I (gw_db (out_state (reject_failed (ge_crypto E) t j reason h)))" if "I (gw_db h)" for t j reason h
  proof -
    have "I (gw_db (out_state (on_archive (appendTransition (sha256 (ge_crypto E)) x) h)))" for x
      using that assms(1) by (simp add: transition_keeps)
    then show ?thesis
      using that by (auto simp: reject_failed_def Let_def intro!: and_then_state_inv [where P = "\<lambda>h. I (gw_db h)"])
  qed
  then show ?thesis using r by (cases ?r) (auto simp: run_item_def)
qed

end

lemma gw_db_fold [simp]: "pp_db (gw_pipe g) = gw_db g"
  by (simp add: gw_db_def)

lemma drop_law_db [simp]: "gw_db (drop_law m g) = gw_db g"
  by (simp add: drop_law_def)

lemma tail_db [simp]:
  "gw_db (set_amendment m result g) = gw_db g" "gw_db (announce clk i result g) = gw_db g" "gw_db (gossip_seals E i result g) = gw_db g"
  by (simp_all add: set_amendment_def announce_def gossip_seals_def Let_def split: option.split)

text \<open>The archive differs in its alerts only.\<close>

definition alerts_only :: "db \<Rightarrow> db \<Rightarrow> bool" where
  "alerts_only d d' \<longleftrightarrow> (\<exists>al. d' = d\<lparr>db_alerts := al\<rparr>)"

lemma alerts_only_refl [simp]: "alerts_only d d"
  unfolding alerts_only_def by (rule exI [of _ "db_alerts d"]) simp

lemma alerts_only_trans [trans]: "alerts_only d d1 \<Longrightarrow> alerts_only d1 d2 \<Longrightarrow> alerts_only d d2"
  by (auto simp: alerts_only_def)

lemma count_ti_db: "alerts_only (gw_db g) (gw_db (out_state (count_ti clk m g)))"
proof -
  have "alerts_only (gw_db g) (gw_db (out_state (on_archive (detectVelocity n c ss th) (g\<lparr>gw_recent := x\<rparr>))))" for n c ss th x
    using detect_state(1) [of n c ss th "gw_db g"] by (simp add: alerts_only_def)
  then show ?thesis
    unfolding count_ti_def Let_def
    by (rule and_then_state_inv [where P = "\<lambda>h. alerts_only (gw_db g) (gw_db h)"]) (simp split: option.split)
qed

lemma after_item_db: "alerts_only (gw_db g) (gw_db (out_state (after_item E clk i result g)))"
proof -
  have "alerts_only (gw_db g) (gw_db (out_state (count_ti clk m (set_amendment p result g))))" for m p
    using count_ti_db [of "set_amendment p result g" clk m] by simp
  then show ?thesis
    unfolding after_item_def Let_def
    by (intro and_then_state_inv [where P = "\<lambda>h. alerts_only (gw_db g) (gw_db h)"]) (auto split: option.split)
qed

lemma work_item_keeps_docket: "db_docket (gw_db (out_state (work_item E clk i g))) = db_docket (gw_db g)"
  unfolding work_item_def
proof (rule and_then_state_inv [where P = "\<lambda>h. db_docket (gw_db h) = db_docket (gw_db g)"])
  show "db_docket (gw_db (out_state (run_item E clk i g))) = db_docket (gw_db g)"
    by (rule docket_table.run_item_keeps) simp_all
  show "db_docket (gw_db (out_state (after_item E clk i r h))) = db_docket (gw_db g)"
    if "db_docket (gw_db h) = db_docket (gw_db g)" for r h
    using after_item_db [of h E clk i r] that by (auto simp: alerts_only_def)
qed

lemma dequeue_shrinks:
  assumes "dequeueDocket now d = (Some item, d')"
  shows "length (db_docket d') < length (db_docket d)" "set (db_docket d') = set (db_docket d) - {r. dk_id r = dk_id item}"
    "item \<in> set (db_docket d)" "dk_availableAt item \<le> now"
proof -
  have item: "item \<in> set (db_docket d)" "dk_availableAt item \<le> now" "d' = d\<lparr>db_docket := filter (\<lambda>r. dk_id r \<noteq> dk_id item) (db_docket d)\<rparr>"
    using assms by (auto simp: dequeueDocket_def split: option.splits dest!: first_row_Some_in)
  then show "item \<in> set (db_docket d)" "dk_availableAt item \<le> now" by simp_all
  show "length (db_docket d') < length (db_docket d)"
    using item by (auto simp: intro!: length_filter_less)
  show "set (db_docket d') = set (db_docket d) - {r. dk_id r = dk_id item}" using item by auto
qed

text \<open>A turn removes a row of the docket; the loop ends when a turn throws or finds nothing due.\<close>

definition loop_over :: "gateway_env \<Rightarrow> (nat \<Rightarrow> gw_clock) \<Rightarrow> gateway \<Rightarrow> bool" where
  "loop_over E clk g \<longleftrightarrow> (\<exists>n. worker_turn E (clk n) g = None) \<or> (\<exists>n h e. worker_turn E (clk n) h = Some (Fail e g))"

lemma worker_turn_docket:
  assumes "worker_turn E clk g = Some r"
  shows "length (db_docket (gw_db (out_state r))) < length (db_docket (gw_db g))"
    "set (db_docket (gw_db (out_state r))) \<subseteq> set (db_docket (gw_db g))"
proof -
  obtain item d where d: "dequeueDocket (gk_now clk) (gw_db g) = (Some item, d)"
      "r = work_item E clk (dk_messageId item) (gw_set_db d g)"
    using assms by (auto simp: worker_turn_def split: prod.splits option.splits)
  have "db_docket (gw_db (out_state r)) = db_docket d" by (simp add: d(2) work_item_keeps_docket)
  with dequeue_shrinks [OF d(1)] show "length (db_docket (gw_db (out_state r))) < length (db_docket (gw_db g))"
    "set (db_docket (gw_db (out_state r))) \<subseteq> set (db_docket (gw_db g))" by auto
qed

lemma worker_loop_ends:
  assumes "length (db_docket (gw_db g)) < fuel"
  shows "\<exists>g'. worker_loop E clk fuel n g = Some g' \<and> loop_over E clk g' \<and> set (db_docket (gw_db g')) \<subseteq> set (db_docket (gw_db g))"
  using assms
proof (induction fuel arbitrary: n g)
  case (Suc fuel)
  show ?case
  proof (cases "worker_turn E (clk n) g")
    case (Some r)
    note less = worker_turn_docket [OF Some]
    show ?thesis
    proof (cases r)
      case (Done u g')
      then have "length (db_docket (gw_db g')) < fuel" using less(1) Suc.prems by simp
      from Suc.IH [OF this, of "Suc n"] less(2) Some Done show ?thesis by auto
    next
      case (Fail e g')
      then have "loop_over E clk g'" using Some by (auto simp: loop_over_def)
      then show ?thesis using less(2) Some Fail by simp
    qed
  qed (auto simp: loop_over_def)
qed simp

lemma resolveRuntime_state [simp]:
  "gw_db (out_state (resolveRuntime E clk g)) = gw_db g" "gw_channel (out_state (resolveRuntime E clk g)) = gw_channel g"
  "gw_amendment (out_state (resolveRuntime E clk g)) = gw_amendment g"
  "gw_quarantined (out_state (resolveRuntime E clk g)) = gw_quarantined g" "gw_ready (out_state (resolveRuntime E clk g))"
proof -
  let ?P = "\<lambda>h. gw_db h = gw_db g \<and> gw_channel h = gw_channel g \<and> gw_amendment h = gw_amendment g
    \<and> gw_quarantined h = gw_quarantined g \<and> gw_ready h"
  have "?P (out_state (resolveRuntime E clk g))"
  proof (cases "gw_ready g")
    case False
    then show ?thesis
      unfolding resolveRuntime_def Let_def if_not_P [OF False] by (intro and_then_state_inv [where P = ?P]) simp_all
  qed (simp add: resolveRuntime_def)
  then show "gw_db (out_state (resolveRuntime E clk g)) = gw_db g" "gw_channel (out_state (resolveRuntime E clk g)) = gw_channel g"
    "gw_amendment (out_state (resolveRuntime E clk g)) = gw_amendment g"
    "gw_quarantined (out_state (resolveRuntime E clk g)) = gw_quarantined g" "gw_ready (out_state (resolveRuntime E clk g))"
    by simp_all
qed

section \<open>Submissions\<close>

text \<open>Nothing but alerts and the quarantine list has changed.\<close>

definition quiet :: "gateway \<Rightarrow> gateway \<Rightarrow> bool" where
  "quiet g g' \<longleftrightarrow> alerts_only (gw_db g) (gw_db g') \<and> gw_channel g' = gw_channel g \<and> gw_ready g' = gw_ready g
     \<and> gw_amendment g' = gw_amendment g"

lemma quiet_refl [simp]: "quiet g g"
  by (simp add: quiet_def)

lemma quiet_trans [trans]: "quiet g g1 \<Longrightarrow> quiet g1 g2 \<Longrightarrow> quiet g g2"
  unfolding quiet_def using alerts_only_trans by metis

text \<open>The outcome of a check: \<open>cond\<close> holds when the request goes on, a refusal has a status other than 200, 202 and 500.\<close>

definition refusal :: "response \<Rightarrow> bool" where
  "refusal resp \<longleftrightarrow> rs_status resp \<noteq> 200 \<and> rs_status resp \<noteq> 202"

definition check_ok :: "gateway \<Rightarrow> bool \<Rightarrow> (gateway, response option) out \<Rightarrow> bool" where
  "check_ok g cond r = (case r of
     Done None g' \<Rightarrow> quiet g g' \<and> gw_quarantined g' = gw_quarantined g \<and> cond
   | Done (Some resp) g' \<Rightarrow> quiet g g' \<and> refusal resp
   | Fail e g' \<Rightarrow> \<exists>c. e = Constraint c)"

lemma check_refuse: "check_ok g (\<not> b) (refuse_if b s t g)" if "s \<noteq> 200" "s \<noteq> 202"
  using that by (simp add: check_ok_def refuse_if_def refusal_def error_answer_def answer_def)

lemma check_detect:
  assumes "\<exists>al. out_state (f (gw_db g)) = (gw_db g)\<lparr>db_alerts := al\<rparr>" "\<And>e d. f (gw_db g) = Fail e d \<Longrightarrow> \<exists>c. e = Constraint c"
  shows "case on_archive f g of Done a g' \<Rightarrow> quiet g g' \<and> gw_quarantined g' = gw_quarantined g | Fail e g' \<Rightarrow> \<exists>c. e = Constraint c"
proof (cases "on_archive f g")
  case (Done a g')
  then have "quiet g g' \<and> gw_quarantined g' = gw_quarantined g"
    using assms(1) by (auto simp: on_archive_Done_iff quiet_def alerts_only_def)
  then show ?thesis by (simp add: Done)
next
  case (Fail e g')
  then obtain d where "f (gw_db g) = Fail e d" by (auto simp: on_archive_Fail_iff)
  from assms(2) [OF this] show ?thesis by (simp add: Fail)
qed

lemma emit_Fail: "emit n c t s a nd ev ac d = Fail e d' \<Longrightarrow> \<exists>c. e = Constraint c"
  by (auto simp: emit_def appendCensorateAlert_def Let_def out_simps split: if_splits)

lemma detect_Fail:
  "detectTemporal n c ts th' d = Fail e d' \<Longrightarrow> \<exists>c. e = Constraint c"
  "detectGeographic fl n c gs kmh d = Fail e d' \<Longrightarrow> \<exists>c. e = Constraint c"
  "detectCoalition z fl n c co zt d = Fail e d' \<Longrightarrow> \<exists>c. e = Constraint c"
  by (auto simp: detectTemporal_def detectGeographic_def detectCoalition_def Let_def split: if_splits option.splits dest: emit_Fail)

lemma check_temporal_ok: "check_ok g True (check_temporal E clk m g)"
proof (cases "\<exists>claimed. obj_get (e_metadata m) ''claimed_timestamp'' = Some (JStr claimed)")
  case True
  then obtain claimed where c: "obj_get (e_metadata m) ''claimed_timestamp'' = Some (JStr claimed)" by blast
  let ?f = "detectTemporal (gk_alert_ms clk 0) (gk_alert_at clk 0) \<lparr>ts_nodeId = node_of E, ts_claimed = claimed, ts_observed = gk_now clk\<rparr> 5000"
  have "case on_archive ?f g of Done a g' \<Rightarrow> quiet g g' \<and> gw_quarantined g' = gw_quarantined g | Fail e g' \<Rightarrow> \<exists>c. e = Constraint c"
    by (rule check_detect, rule detect_state(2), erule detect_Fail(1))
  then show ?thesis
    by (cases "on_archive ?f g")
      (auto simp: check_temporal_def c check_ok_def refuse_if_def refusal_def error_answer_def answer_def)
next
  case False
  then show ?thesis by (auto simp: check_temporal_def check_ok_def split: option.split json.split)
qed

lemma check_geographic_ok: "check_ok g True (check_geographic E clk m g)"
proof (cases "geographic_of m")
  case (Some s)
  let ?f = "detectGeographic (ge_fl E) (gk_alert_ms clk 1) (gk_alert_at clk 1) s 1000"
  have "case on_archive ?f g of Done a g' \<Rightarrow> quiet g g' \<and> gw_quarantined g' = gw_quarantined g | Fail e g' \<Rightarrow> \<exists>c. e = Constraint c"
    by (rule check_detect, rule detect_state(3), erule detect_Fail(2))
  then show ?thesis
    by (cases "on_archive ?f g")
      (auto simp: check_geographic_def Some check_ok_def refusal_def error_answer_def answer_def quiet_def split: option.split)
qed (simp add: check_geographic_def check_ok_def)

lemma note_coalition_ok: "check_ok g True (note_coalition E clk m g)"
proof (cases "coalition_of m")
  case (Some s)
  let ?f = "detectCoalition (ge_z_score E) (ge_fl E) (gk_alert_ms clk 2) (gk_alert_at clk 2) s 3"
  have "case on_archive ?f g of Done a g' \<Rightarrow> quiet g g' \<and> gw_quarantined g' = gw_quarantined g | Fail e g' \<Rightarrow> \<exists>c. e = Constraint c"
    by (rule check_detect, rule detect_state(4), erule detect_Fail(3))
  then show ?thesis by (cases "on_archive ?f g") (auto simp: note_coalition_def Some check_ok_def)
qed (simp add: note_coalition_def check_ok_def)

text \<open>A chain of checks: each one that lets the request pass adds its condition.\<close>

lemma unless_answered_cases:
  assumes "check_ok g cond m" "unless_answered m k = r"
  obtains (refused) resp g' where "r = Done resp g'" "quiet g g'" "refusal resp"
  | (failed) c g' where "r = Fail (Constraint c) g'"
  | (passed) g' where "r = k g'" "quiet g g'" "gw_quarantined g' = gw_quarantined g" cond
  using assms by (cases m) (auto simp: check_ok_def unless_answered_def split: option.splits)

lemma emergency_state:
  "routeSafetyIncident ms now s d = Done a d' \<Longrightarrow> \<exists>st al. d' = d\<lparr>db_site := st, db_alerts := al\<rparr>"
  "routeSafetyIncident ms now s d = Fail e d' \<Longrightarrow> \<exists>c. e = Constraint c"
  by (auto simp: routeSafetyIncident_def setSiteQuarantined_def setSiteStatus_def appendCensorateAlert_def Let_def out_simps split: if_splits)

lemma raise_emergency_cases:
  "raise_emergency clk m g = Done u g' \<Longrightarrow> \<exists>st al. gw_db g' = (gw_db g)\<lparr>db_site := st, db_alerts := al\<rparr> \<and> gw_ready g' = gw_ready g
    \<and> gw_channel g' = gw_channel g"
  "raise_emergency clk m g = Fail e g' \<Longrightarrow> \<exists>c. e = Constraint c"
proof -
  assume r: "raise_emergency clk m g = Done u g'"
  show "\<exists>st al. gw_db g' = (gw_db g)\<lparr>db_site := st, db_alerts := al\<rparr> \<and> gw_ready g' = gw_ready g \<and> gw_channel g' = gw_channel g"
  proof (cases "e_genre m = ''safety_incident''")
    case True
    with r show ?thesis
      by (auto simp: raise_emergency_def out_simps on_archive_Done_iff dest!: emergency_state(1) simp del: db.update_convs) blast
  next
    case False
    with r have "g' = g" by (simp add: raise_emergency_def)
    then show ?thesis by (intro exI [of _ "db_site (gw_db g)"] exI [of _ "db_alerts (gw_db g)"]) simp
  qed
next
  assume "raise_emergency clk m g = Fail e g'"
  then show "\<exists>c. e = Constraint c"
    by (auto simp: raise_emergency_def out_simps on_archive_Fail_iff dest: emergency_state(2) split: if_splits)
qed

text \<open>What an accepted submission has done to the archive.\<close>

definition stored :: "gateway_env \<Rightarrow> gw_clock \<Rightarrow> string \<Rightarrow> envelope \<Rightarrow> db \<Rightarrow> db \<Rightarrow> bool" where
  "stored E clk key m d d' \<longleftrightarrow> e_id m \<notin> message_ids d
     \<and> db_messages d' = db_messages d @ [message_row_of (sha256 (ge_crypto E)) (gk_now clk) m]
     \<and> db_docket d' = db_docket d @ [\<lparr>dk_id = e_id m @ '':'' @ int_str (gk_ms clk), dk_messageId = e_id m, dk_attempts = 0,
          dk_availableAt = gk_now clk\<rparr>]
     \<and> db_transitions d' = db_transitions d
     \<and> (key \<noteq> [] \<longrightarrow> (\<exists>d0. db_idempotency d' = db_idempotency (putIdempotency (gk_now clk) key
          (stringify (accept_body m (gk_now clk))) (iso_of_ms (gk_ms clk + 86400000)) d0)))"

lemma accept_message_cases:
  assumes "accept_message E clk key m g = r"
  obtains (accepted) g' where "r = Done \<lparr>rs_status = 202, rs_body = accept_body m (gk_now clk),
        rs_location = Some (''/api/wenyan/messages/'' @ e_id m)\<rparr> g'" "stored E clk key m (gw_db g) (gw_db g')"
        "gw_ready g' = gw_ready g" "gw_channel g' = gw_channel g"
  | (failed) c g' where "r = Fail (Constraint c) g'"
proof (cases r)
  case (Fail e g')
  with assms have "\<exists>c. e = Constraint c"
    by (auto simp: accept_message_def out_simps on_archive_Fail_iff on_archive_Done_iff appendMessage_def enqueueDocket_def Let_def
        dest: raise_emergency_cases(2) split: if_splits)
  then show ?thesis using Fail failed by blast
next
  case (Done resp g')
  from assms [unfolded Done accept_message_def] obtain d1 d2 g3 where
    m: "appendMessage (sha256 (ge_crypto E)) (gk_now clk) m (gw_db g) = Done () d1"
    and q: "enqueueDocket (gk_ms clk) (gk_now clk) (e_id m) d1 = Done () d2"
    and s: "raise_emergency clk m (gw_set_db d2 (gw_set_db d1 g)) = Done () g3"
    and r: "resp = \<lparr>rs_status = 202, rs_body = accept_body m (gk_now clk), rs_location = Some (''/api/wenyan/messages/'' @ e_id m)\<rparr>"
      "g' = remember clk key (accept_body m (gk_now clk)) g3"
    by (auto simp: out_simps on_archive_Done_iff)
  obtain st al where g3: "gw_db g3 = d2\<lparr>db_site := st, db_alerts := al\<rparr>" "gw_ready g3 = gw_ready g" "gw_channel g3 = gw_channel g"
    using raise_emergency_cases(1) [OF s] by auto
  have g': "gw_ready g' = gw_ready g" "gw_channel g' = gw_channel g" using g3 by (simp_all add: r remember_def)
  have "stored E clk key m (gw_db g) (gw_db g')"
    using m q g3(1)
    by (auto simp: stored_def r(2) remember_def appendMessage_def enqueueDocket_def putIdempotency_def Let_def split: if_splits)
  then show ?thesis using accepted [of g'] g' Done r(1) by blast
qed

section \<open>Which submissions are accepted\<close>

definition may_submit :: "envelope \<Rightarrow> gateway \<Rightarrow> bool" where
  "may_submit m g \<longleftrightarrow> (isImperialWorksGenre (e_genre m) \<longrightarrow> canDraftGenre (e_actor_role m) (e_genre m))
     \<and> (getSiteStatus (gw_db g) = Quarantined \<longrightarrow> e_genre m = ''safety_incident'' \<or> e_genre m = ''edict'')
     \<and> e_actor_id m \<notin> set (gw_quarantined g)"

lemma alerts_only_frame:
  assumes "alerts_only d d'"
  shows "getSiteStatus d' = getSiteStatus d" "message_ids d' = message_ids d" "db_messages d' = db_messages d"
    "db_docket d' = db_docket d" "db_transitions d' = db_transitions d" "db_idempotency d' = db_idempotency d"
  using assms by (auto simp: alerts_only_def getSiteStatus_def message_ids_def)

lemma stored_alerts: "alerts_only d d1 \<Longrightarrow> stored E clk key m d1 d' \<Longrightarrow> stored E clk key m d d'"
  by (simp add: stored_def alerts_only_frame)

text \<open>The outcome of a submission: accepted, refused by a check, or a row that exists already.\<close>

definition submitted :: "gateway_env \<Rightarrow> gw_clock \<Rightarrow> string \<Rightarrow> envelope \<Rightarrow> bool \<Rightarrow> gateway \<Rightarrow> (gateway, response) out \<Rightarrow> bool" where
  "submitted E clk key m cond g r \<longleftrightarrow>
     (\<exists>g'. r = Done \<lparr>rs_status = 202, rs_body = accept_body m (gk_now clk), rs_location = Some (''/api/wenyan/messages/'' @ e_id m)\<rparr> g'
        \<and> stored E clk key m (gw_db g) (gw_db g') \<and> gw_ready g' = gw_ready g \<and> gw_channel g' = gw_channel g \<and> cond)
   \<or> (\<exists>resp g'. r = Done resp g' \<and> quiet g g' \<and> refusal resp)
   \<or> (\<exists>c g'. r = Fail (Constraint c) g')"

lemma submitted_quiet: "quiet g g1 \<Longrightarrow> submitted E clk key m cond g1 r \<Longrightarrow> submitted E clk key m cond g r"
  unfolding submitted_def
proof (elim disjE exE conjE, goal_cases)
  case (1 g')
  then have "stored E clk key m (gw_db g) (gw_db g')" by (auto simp: quiet_def intro: stored_alerts)
  with 1 show ?case by (auto simp: quiet_def)
next
  case (2 resp g')
  from quiet_trans [OF 2(1,3)] 2 show ?case by blast
qed blast

lemma unless_submitted:
  assumes "check_ok g ok c" "\<And>g1. quiet g g1 \<Longrightarrow> gw_quarantined g1 = gw_quarantined g \<Longrightarrow> ok \<Longrightarrow> submitted E clk key m cond g1 (k g1)"
  shows "submitted E clk key m cond g (unless_answered c k)"
  by (rule unless_answered_cases [OF assms(1) refl, of k]) (use assms(2) submitted_quiet in \<open>auto simp: submitted_def\<close>)

lemma accept_submitted: "submitted E clk key m True g (accept_message E clk key m g)"
  by (rule accept_message_cases [OF refl, of E clk key m g]) (auto simp: submitted_def)

lemma submitted_imp: "submitted E clk key m True g r \<Longrightarrow> cond \<Longrightarrow> submitted E clk key m cond g r"
  by (simp add: submitted_def)

lemma check_ok_refusals:
  "check_ok g (isImperialWorksGenre (e_genre m) \<longrightarrow> canDraftGenre (e_actor_role m) (e_genre m)) (check_hierarchy m g)"
  "check_ok g True (check_amendment m g)"
  "check_ok g (getSiteStatus (gw_db g) = Quarantined \<longrightarrow> e_genre m = ''safety_incident'' \<or> e_genre m = ''edict'') (check_site m g)"
  "check_ok g (e_actor_id m \<notin> set (gw_quarantined g)) (check_quarantine m g)"
  by (auto simp: check_hierarchy_def check_amendment_def check_site_def check_quarantine_def check_ok_def refuse_if_def refusal_def
      error_answer_def answer_def)

lemma submit_message_submitted: "submitted E clk key m (may_submit m g) g (submit_message E clk key m g)"
  unfolding submit_message_def
proof (rule unless_submitted, rule check_ok_refusals(1), goal_cases)
  case (1 g1)
  note h = 1
  show ?case
  proof (rule unless_submitted, rule check_ok_refusals(2), rule unless_submitted, rule check_ok_refusals(3), rule unless_submitted,
      rule check_ok_refusals(4), goal_cases)
    case (1 g2 g3 g4)
    have "may_submit m g"
      using h 1 alerts_only_frame(1) [of "gw_db g" "gw_db g2"] alerts_only_frame(1) [of "gw_db g" "gw_db g1"]
        alerts_only_frame(1) [of "gw_db g1" "gw_db g2"]
      unfolding may_submit_def quiet_def by simp
    show ?case
      by (rule submitted_imp [OF _ \<open>may_submit m g\<close>]) (intro unless_submitted [OF check_temporal_ok] unless_submitted [OF check_geographic_ok]
          unless_submitted [OF note_coalition_ok] accept_submitted)
  qed
qed

end
