(* ===== verification/Gateway_Contract.thy ===== *)
theory Gateway_Contract
  imports Gateway_Correct
begin

text \<open>
  The properties of the gateway: the worker's loop returns, a submission is stored exactly when the answer is 202, a repeated key
  gets the first answer, the actor of a request is the signer of its token, a document is read under the law and leaves a receipt.
\<close>

section \<open>The worker\<close>

text \<open>C10: 
  The run of the worker returns for every docket: it stops at once when the runtime does not start, and otherwise at a turn that
  throws or finds nothing due. It never adds to the docket.
\<close>

theorem docket_loop_ends:
  "\<exists>g'. processDocketLoop E clk0 clk g = Some g' \<and> set (db_docket (gw_db g')) \<subseteq> set (db_docket (gw_db g))
    \<and> (case resolveRuntime E clk0 g of Fail e g1 \<Rightarrow> g' = g1 | Done _ _ \<Rightarrow> loop_over E clk g')"
proof (cases "resolveRuntime E clk0 g")
  case (Done u g1)
  then have db: "gw_db g1 = gw_db g" using resolveRuntime_state(1) [of E clk0 g] by simp
  then show ?thesis
    using worker_loop_ends [of g1 "Suc (length (db_docket (gw_db g1)))" E clk 0]
    by (auto simp add: processDocketLoop_def Done simp del: worker_loop.simps)
next
  case (Fail e g1)
  then have "gw_db g1 = gw_db g" using resolveRuntime_state(1) [of E clk0 g] by simp
  then show ?thesis by (simp add: processDocketLoop_def Fail)
qed

section \<open>Frames of a request\<close>

text \<open>The parts of the state that asking the laws and reading a definition leave alone.\<close>

definition same_parts :: "gateway \<Rightarrow> gateway \<Rightarrow> bool" where
  "same_parts g g' \<longleftrightarrow> gw_db g' = gw_db g \<and> gw_channel g' = gw_channel g \<and> gw_quarantined g' = gw_quarantined g
     \<and> gw_amendment g' = gw_amendment g \<and> (gw_ready g \<longrightarrow> gw_ready g')"

lemma same_parts_refl [simp]: "same_parts g g"
  by (simp add: same_parts_def)

lemma same_parts_trans [trans]: "same_parts g g1 \<Longrightarrow> same_parts g1 g2 \<Longrightarrow> same_parts g g2"
  by (simp add: same_parts_def)

lemma ask_law_same [simp]: "same_parts g (out_state (ask_law f g))"
  by (simp add: same_parts_def)

lemma runtime_same [simp]: "same_parts g (out_state (resolveRuntime E clk g))"
  by (simp add: same_parts_def)

lemma validate_same: "same_parts g (out_state (validateByArchivedTi dt clk req m g))"
  by (auto simp: validateByArchivedTi_def same_parts_def split: prod.splits sum.splits option.splits)

lemma tongzheng_same: "same_parts g (out_state (tongzhengSi dt clk j g))"
  unfolding tongzhengSi_def
  by (auto split: option.split intro!: and_then_state_inv [where P = "same_parts g"] validate_same intro: same_parts_trans)

lemma tongzheng_Done: "tongzhengSi dt clk j g = Done m g' \<Longrightarrow> MessageEnvelopeSchema dt j = Some m \<and> same_parts g g'"
  using tongzheng_same [of g dt clk j] by (auto simp: tongzhengSi_def out_simps split: option.splits)

lemma same_stored: "same_parts g g1 \<Longrightarrow> stored E clk key m (gw_db g1) d = stored E clk key m (gw_db g) d"
  by (simp add: same_parts_def)

lemma same_may_submit: "same_parts g g1 \<Longrightarrow> may_submit m g1 = may_submit m g"
  by (simp add: same_parts_def may_submit_def)

section \<open>POST /messages\<close>

definition is_accepted :: "gateway_env \<Rightarrow> gw_clock \<Rightarrow> headers \<Rightarrow> json option \<Rightarrow> gateway \<Rightarrow> response \<Rightarrow> gateway \<Rightarrow> bool" where
  "is_accepted E clk hs body g resp g' \<longleftrightarrow>
     (\<exists>j m. body = Some j \<and> MessageEnvelopeSchema (ge_dt E) j = Some m \<and> may_submit m g \<and> gw_ready g' \<and> gw_channel g' = gw_channel g
        \<and> stored E clk (header_text hs ''x-idempotency-key'') m (gw_db g) (gw_db g')
        \<and> resp = \<lparr>rs_status = 202, rs_body = accept_body m (gk_now clk), rs_location = Some (''/api/wenyan/messages/'' @ e_id m)\<rparr>)"

text \<open>Every outcome of the route: accepted, refused with nothing but alerts written, answered from the key, or a failed write.\<close>

lemma postMessage_cases:
  assumes "postMessage E clk hs body g = (resp, g')"
  shows "is_accepted E clk hs body g resp g' \<or> (rs_status resp \<noteq> 202 \<and> alerts_only (gw_db g) (gw_db g')) \<or> rs_status resp = 500"
proof (cases "oversized hs")
  case (Some r)
  with assms show ?thesis
    by (auto simp: postMessage_def oversized_def error_answer_def answer_def split: if_splits)
next
  case None
  note big = None
  let ?key = "header_text hs ''x-idempotency-key''"
  show ?thesis
  proof (cases "resolveRuntime E clk g")
    case (Fail e g1)
    have "gw_db g1 = gw_db g" using resolveRuntime_state(1) [of E clk g] by (simp add: Fail)
    moreover have "resp = submit_error E e" "g' = g1" using assms by (simp_all add: postMessage_def big on_ready_def Fail)
    ultimately show ?thesis
      by (cases e) (auto simp: submit_error_def error_answer_def answer_def)
  next
    case (Done u g1)
    then have s1: "same_parts g g1" "gw_ready g1" using runtime_same [of g E clk] resolveRuntime_state(5) [of E clk g] by simp_all
    define r where "r = submit_body E clk ?key body g1"
    have out: "(resp, g') = (case r of Done resp g' \<Rightarrow> (resp, g') | Fail e g' \<Rightarrow> (submit_error E e, g'))"
      using assms by (simp add: postMessage_def big on_ready_def Done r_def)
    have err: "rs_status (submit_error E e) \<noteq> 202" for e
      by (cases e) (auto simp: submit_error_def error_answer_def answer_def)
    show ?thesis
    proof (cases "if ?key = [] then None else getIdempotency ?key (gk_now clk) (gw_db g1)")
      case (Some hit)
      then have "out_state r = g1" "\<And>x h. r = Done x h \<Longrightarrow> rs_status x \<noteq> 202"
        by (auto simp: r_def submit_body_def split: prod.splits option.splits)
      then show ?thesis using out err s1 by (cases r) (auto simp: same_parts_def)
    next
      case miss: None
      show ?thesis
      proof (cases body)
        case None
        then have "r = Fail (Error_msg ''SyntaxError'') g1" using miss by (simp add: r_def submit_body_def)
        then show ?thesis using out err s1 by (auto simp: same_parts_def)
      next
        case (Some j)
        then have r: "r = and_then (tongzhengSi (ge_dt E) clk j g1) (submit_message E clk ?key)"
          using miss by (simp add: r_def submit_body_def)
        show ?thesis
        proof (cases "tongzhengSi (ge_dt E) clk j g1")
          case (Fail e g2)
          then have "same_parts g g2" using tongzheng_same [of g1 "ge_dt E" clk j] same_parts_trans [OF s1(1)] by simp
          then show ?thesis using out err r Fail by (auto simp: same_parts_def)
        next
          case (Done m g2)
          then have m: "MessageEnvelopeSchema (ge_dt E) j = Some m" and s12: "same_parts g1 g2" using tongzheng_Done by blast+
          have s2: "same_parts g g2" "gw_ready g2" using same_parts_trans [OF s1(1) s12] s12 s1(2) by (simp_all add: same_parts_def)
          have "submitted E clk ?key m (may_submit m g2) g2 r" using submit_message_submitted [of E clk ?key m g2] by (simp add: r Done)
          then show ?thesis
          proof (unfold submitted_def, elim disjE exE conjE, goal_cases)
            case (1 h)
            then have "is_accepted E clk hs body g resp g'"
              using out m Some s2 same_may_submit [OF s2(1)] same_stored [OF s2(1)]
              by (auto simp: is_accepted_def same_parts_def)
            then show ?case by blast
          next
            case (2 x h)
            then have "alerts_only (gw_db g) (gw_db g')" using out s2 by (auto simp: quiet_def same_parts_def)
            then show ?case using 2 out by (auto simp: refusal_def)
          next
            case (3 c h)
            then show ?case using out by (simp add: submit_error_def error_answer_def answer_def)
          qed
        qed
      qed
    qed
  qed
qed

text \<open>C9: 
  A submission is answered with 202 only when its body is an envelope whose author the hierarchy, the state of the site and the
  quarantine list allow, and then exactly this message is new in the archive and due in the docket, with its answer kept under the
  idempotency key. Any other answer, internal errors apart, has changed nothing in the archive but the list of alerts.
\<close>

theorem accepted_submission:
  assumes "postMessage E clk hs body g = (resp, g')" "rs_status resp \<noteq> 500"
  shows "if rs_status resp = 202 then is_accepted E clk hs body g resp g' else alerts_only (gw_db g) (gw_db g')"
  using postMessage_cases [OF assms(1)] assms(2) by (auto simp: is_accepted_def)

text \<open>A concrete gateway with an empty archive, and the submission of an edict to it.\<close>

definition hall_env :: gateway_env where
  "hall_env = \<lparr>ge_crypto = demo_crypto, ge_ed = \<lambda>_ _ _. None, ge_dt = \<lambda>_. True, ge_issues = JArr [], ge_fl = \<lambda>_. JNull,
     ge_z_score = \<lambda>_. JNull, ge_before = \<lambda>_ _. True, ge_seal_context = demo_context, ge_pipe = court_options, ge_lawResolver = None,
     ge_cacheTtl = None, ge_preload = None, ge_auth = None, ge_test_mode = False, ge_seal0_secret = None, ge_gossip = False,
     ge_mesh_join = None, ge_mesh_sync = None, ge_mesh_members = None, ge_mesh_partitioned = None\<rparr>"

definition hall_clock :: gw_clock where
  "hall_clock = \<lparr>gk_now = ''2024-02-28T12:34:56.789Z'', gk_ms = 1709123696789, gk_law_ms = 0, gk_law_at = ''2024-02-29T00:00:00.000Z'',
     gk_alert_ms = (\<lambda>_. 0), gk_alert_at = (\<lambda>_. ''2024-02-29T00:00:00.000Z''), gk_preload_ms = (\<lambda>_. 0), gk_pipe = court_clock, gk_trace = None\<rparr>"

definition hall :: gateway where
  "hall = \<lparr>gw_pipe = \<lparr>pp_db = empty_db, pp_resolver = new_LawResolver None None None\<rparr>, gw_ti = \<lparr>tv_ttlSeconds = 60, tv_cache = (\<lambda>_. None)\<rparr>,
     gw_channel = channel_new, gw_ready = True, gw_worker = True, gw_recent = [], gw_quarantined = [], gw_amendment = False, gw_gossiped = []\<rparr>"

definition hall_edict :: envelope where
  "hall_edict = demo_edict ''e1'' 1"

definition hall_headers :: headers where
  "hall_headers = [(''x-idempotency-key'', ''k1'')]"

definition hall_submission :: "response \<times> gateway" where
  "hall_submission = postMessage hall_env hall_clock hall_headers (Some (envelope_json hall_edict)) hall"

lemma hall_edict_parses: "MessageEnvelopeSchema (\<lambda>_. True) (envelope_json hall_edict) = Some hall_edict"
  by (rule MessageEnvelopeSchema_envelope_json) (simp add: envelope_ok_def hall_edict_def demo_edict_def)

lemma hall_edict_valid: "EdictSchema (\<lambda>_. True) (envelope_json hall_edict) \<noteq> None"
proof -
  have "\<not> Option.is_none (EdictPayloadSchema (\<lambda>_. True) (JObj (e_payload hall_edict)))" by code_simp
  then obtain p where "EdictPayloadSchema (\<lambda>_. True) (JObj (e_payload hall_edict)) = Some p" by (auto simp: Option.is_none_def)
  moreover have "z_literal ''edict'' (JStr (e_genre hall_edict)) \<noteq> None" by (simp add: hall_edict_def demo_edict_def z_literal_def)
  ultimately show ?thesis unfolding EdictSchema_def hall_edict_parses by (auto simp: bind_eq_None_conv)
qed

text \<open>A message without the metadata the detectors read, with a fresh id, is accepted by the checks and stored.\<close>

lemma ordinary_accepted:
  assumes "may_submit m g" "\<not> gw_amendment g" "e_metadata m = []" "e_genre m \<noteq> ''safety_incident''"
    and "e_id m \<notin> message_ids (gw_db g)" "superseded_by_of (e_payload m) = None"
    and "e_id m @ '':'' @ int_str (gk_ms clk) \<notin> dk_id ` set (db_docket (gw_db g))"
  shows "\<exists>g'. submit_message E clk key m g = Done \<lparr>rs_status = 202, rs_body = accept_body m (gk_now clk),
    rs_location = Some (''/api/wenyan/messages/'' @ e_id m)\<rparr> g'"
proof -
  have "submit_message E clk key m g = accept_message E clk key m g"
    using assms(1-4)
    by (auto simp: submit_message_def check_hierarchy_def check_amendment_def check_site_def check_quarantine_def check_temporal_def
        check_geographic_def note_coalition_def geographic_of_def coalition_of_def refuse_if_def unless_answered_def obj_get_def may_submit_def)
  moreover have "on_archive (appendMessage (sha256 (ge_crypto E)) (gk_now clk) m) g = Done ()
      (gw_set_db ((gw_db g)\<lparr>db_messages := db_messages (gw_db g) @ [message_row_of (sha256 (ge_crypto E)) (gk_now clk) m]\<rparr>) g)"
    using assms(5,6) by (simp add: on_archive_Done_iff appendMessage_def fk_ok_def)
  ultimately show ?thesis
    using assms(4,7) by (simp add: accept_message_def on_archive_def on_pipe_def on_db_def enqueueDocket_def raise_emergency_def
        message_ids_def message_row_of_def Let_def)
qed

lemma hall_db: "gw_db hall = empty_db"
  by (simp add: gw_db_def hall_def del: gw_db_fold)

lemma hall_submit: "\<exists>r h. submit_message hall_env hall_clock ''k1'' hall_edict hall = Done r h \<and> rs_status r = 202"
proof -
  have "may_submit hall_edict hall"
    by (simp add: may_submit_def hall_db empty_db_def getSiteStatus_def hall_edict_def demo_edict_def isImperialWorksGenre_def
        IMPERIAL_WORKS_GENRES_def) (simp add: hall_def)
  moreover have "\<not> gw_amendment hall" by (simp add: hall_def)
  moreover have "superseded_by_of (e_payload hall_edict) = None" by (simp add: hall_edict_def demo_edict_def superseded_by_of_def obj_get_def)
  ultimately show ?thesis
    using ordinary_accepted [of hall_edict hall hall_clock hall_env "''k1''"]
    by (simp add: hall_db empty_db_def message_ids_def) (auto simp: hall_edict_def demo_edict_def)
qed

lemma hall_accepted: "rs_status (fst hall_submission) = 202"
proof -
  have t: "tongzhengSi (ge_dt hall_env) hall_clock (envelope_json hall_edict) hall = Done hall_edict hall"
    using hall_edict_valid
    by (simp add: tongzhengSi_def hall_env_def hall_edict_parses validateByArchivedTi_def admissionCheck_def ask_law_def)
      (simp add: hall_edict_def demo_edict_def)
  moreover have "resolveRuntime hall_env hall_clock hall = Done () hall" by (simp add: resolveRuntime_def hall_def)
  moreover have "oversized hall_headers = None" by code_simp
  moreover have "getIdempotency ''k1'' (gk_now hall_clock) (gw_db hall) = None"
    by (simp add: hall_db empty_db_def getIdempotency_def find_row_def)
  ultimately show ?thesis
    using hall_submit
    by (auto simp: hall_submission_def postMessage_def on_ready_def submit_body_def hall_headers_def header_text_def)
qed

theorem accepted_submission_witness:
  "is_accepted hall_env hall_clock hall_headers (Some (envelope_json hall_edict)) hall (fst hall_submission) (snd hall_submission)"
  using accepted_submission [of hall_env hall_clock hall_headers "Some (envelope_json hall_edict)" hall "fst hall_submission" "snd hall_submission"]
    hall_accepted
  by (simp add: hall_submission_def)

section \<open>Idempotency\<close>

text \<open>C26: 
  A second request with an accepted request's key gets the answer of the first, whatever its own body is, until the 24 hours are over,
  and changes nothing.
\<close>

theorem retry_gets_first_answer:
  assumes "postMessage E clk hs body g = (resp, g1)" "rs_status resp = 202"
    and "header_text hs ''x-idempotency-key'' \<noteq> []"
    and "header_text hs' ''x-idempotency-key'' = header_text hs ''x-idempotency-key''" "oversized hs' = None"
    and "gk_now clk' \<le> iso_of_ms (gk_ms clk + 86400000)"
  shows "postMessage E clk' hs' body' g1 = (\<lparr>rs_status = 200, rs_body = rs_body resp, rs_location = None\<rparr>, g1)"
proof -
  let ?key = "header_text hs ''x-idempotency-key''" and ?until = "iso_of_ms (gk_ms clk + 86400000)"
  obtain m where m: "gw_ready g1" "stored E clk ?key m (gw_db g) (gw_db g1)" "rs_body resp = accept_body m (gk_now clk)"
    using postMessage_cases [OF assms(1)] assms(2) by (auto simp: is_accepted_def)
  then obtain d0 where d0: "db_idempotency (gw_db g1) = db_idempotency (putIdempotency (gk_now clk) ?key (stringify (rs_body resp)) ?until d0)"
    using assms(3) by (auto simp: stored_def)
  have "getIdempotency ?key (gk_now clk') (gw_db g1) = getIdempotency ?key (gk_now clk')
      (putIdempotency (gk_now clk) ?key (stringify (rs_body resp)) ?until d0)"
    by (simp add: getIdempotency_def d0)
  also have "\<dots> = Some (?key, stringify (rs_body resp), ?until)"
    using assms(6) by (simp add: idempotency_get_put)
  finally have hit: "getIdempotency ?key (gk_now clk') (gw_db g1) = Some (?key, stringify (rs_body resp), ?until)" .
  have "json_wf (rs_body resp)" by (simp add: m(3) accept_body_def)
  then have "json_parse (stringify (rs_body resp)) = Some (rs_body resp)" by (rule json_parse_stringify)
  then show ?thesis
    using m(1) assms(3-5) hit by (simp add: postMessage_def on_ready_def resolveRuntime_def submit_body_def)
qed

lemma iso_example: "iso_of_ms 1709210096789 = ''2024-02-29T12:34:56.789Z''"
proof -
  have civil: "civil_from_days 19782 = (2024, 2, 29)" by code_simp
  have digits: "digit_char 0 = CHR ''0''" "digit_char 1 = CHR ''1''" "digit_char (Suc 0) = CHR ''1''" "digit_char 2 = CHR ''2''"
    "digit_char 3 = CHR ''3''" "digit_char 4 = CHR ''4''" "digit_char 5 = CHR ''5''" "digit_char 6 = CHR ''6''" "digit_char 7 = CHR ''7''"
    "digit_char 8 = CHR ''8''" "digit_char 9 = CHR ''9''"
    by code_simp+
  have p2: "pad_str 2 n = [digit_char (n div 10 mod 10), digit_char (n mod 10)]" for n
    by (simp add: numeral_2_eq_2)
  have p3: "pad_str 3 n = pad_str 2 (n div 10) @ [digit_char (n mod 10)]" for n
    using pad_str.simps(2) [of 2 n] by (simp del: pad_str.simps)
  have p4: "pad_str 4 n = pad_str 3 (n div 10) @ [digit_char (n mod 10)]" for n
    using pad_str.simps(2) [of 3 n] by (simp del: pad_str.simps)
  show ?thesis by (simp add: iso_of_ms_def civil Let_def p2 p3 p4 digits del: pad_str.simps)
qed

theorem retry_gets_first_answer_witness:
  "postMessage hall_env hall_clock hall_headers None (snd hall_submission) =
    (\<lparr>rs_status = 200, rs_body = rs_body (fst hall_submission), rs_location = None\<rparr>, snd hall_submission)"
proof (rule retry_gets_first_answer [of hall_env hall_clock hall_headers "Some (envelope_json hall_edict)" hall])
  show "postMessage hall_env hall_clock hall_headers (Some (envelope_json hall_edict)) hall = (fst hall_submission, snd hall_submission)"
    by (simp add: hall_submission_def)
  show "oversized hall_headers = None" by code_simp
  have "gk_ms hall_clock + 86400000 = 1709210096789" by (simp add: hall_clock_def)
  moreover have "gk_now hall_clock \<le> ''2024-02-29T12:34:56.789Z''" by code_simp
  ultimately show "gk_now hall_clock \<le> iso_of_ms (gk_ms hall_clock + 86400000)" by (simp only: iso_example)
qed (simp_all add: hall_accepted, simp_all add: hall_headers_def header_text_def)

end
