(* ===== verification/Gateway_Reads.thy ===== *)
theory Gateway_Reads
  imports Gateway_Contract
begin

text \<open>
  Who a request comes from, and what a read gives: the token of an actor is signed with the secret, the law decides, and every read
  leaves a receipt that verifies.
\<close>

section \<open>The actor\<close>

lemma hs256_cases:
  assumes "hs256_actor C now_ms cfg token = Inr (Some actor, e)"
  obtains secret h b sig cs claims where "ao_jwtSecret cfg = Some secret" "secret \<noteq> []" "token = h @ ''.'' @ b @ ''.'' @ sig"
    "base64ToBytes (url_padded sig) = Some (hmac_sha256 C (utf8ToBytes secret) (utf8ToBytes (h @ ''.'' @ b)))"
    "Option.bind (base64UrlDecode b) json_parse = Some cs" "props_of cs = Some claims"
    "obj_get claims ''sub'' = Some (JStr (ra_id actor))" "obj_get claims ''role'' = Some (JStr (ra_role actor))"
    "\<not> num_below (obj_get claims ''exp'') (now_ms div 1000)"
    "\<not> mismatch (Some (ao_jwtAudience cfg)) (obj_get claims ''aud'')" "\<not> mismatch (Some (ao_jwtIssuer cfg)) (obj_get claims ''iss'')"
proof -
  let ?o = "\<lparr>jo_alg = None, jo_aud = Some (ao_jwtAudience cfg), jo_iss = Some (ao_jwtIssuer cfg), jo_sub = None,
    jo_nowSeconds = None, jo_requireIat = True\<rparr>"
  obtain secret claims where s: "ao_jwtSecret cfg = Some secret" "secret \<noteq> []" "verifyJwtHs256 C now_ms token secret ?o = Jwt_ok claims"
      "actor_of_claims claims = (Some actor, e)"
    using assms by (auto simp: hs256_actor_def unauthenticated_def split: option.splits list.splits jwt_result.splits)
  have a: "obj_get claims ''sub'' = Some (JStr (ra_id actor))" "obj_get claims ''role'' = Some (JStr (ra_role actor))"
    using s(4) by (auto simp: actor_of_claims_def unauthenticated_def split: option.splits json.splits)
  show thesis
    using s(3)
  proof (cases rule: verify_ok_cases)
    case (1 h b sig hh cs)
    from 1(8) have "\<not> num_below (obj_get claims ''exp'') (now_ms div 1000)"
      "\<not> mismatch (Some (ao_jwtAudience cfg)) (obj_get claims ''aud'')" "\<not> mismatch (Some (ao_jwtIssuer cfg)) (obj_get claims ''iss'')"
      by (auto simp: check_claims_def Let_def split: if_splits)
    with 1 s(1,2) a show ?thesis by (intro that) blast+
  qed
qed

lemma eddsa_key_configured:
  "eddsa_key cfg hs = Some key \<Longrightarrow> \<exists>keys kid. ao_jwtPublicKeys cfg = Some keys \<and> (kid, key) \<in> set keys \<and> key \<noteq> []
    \<and> (\<forall>k. obj_get hs ''kid'' = Some (JStr k) \<longrightarrow> k \<noteq> [] \<longrightarrow> kid = k)"
  by (auto simp: eddsa_key_def Let_def first_row_def map_of_SomeD split: option.splits if_splits list.splits json.splits)

lemma eddsa_cases:
  assumes "eddsa_actor ed now_ms cfg token = Inr (Some actor, e)"
  obtains h b sig rest header hs cs claims keys kid key where "split_on (CHR ''.'') token = h # b # sig # rest"
    "Option.bind (decodeBase64Url h) json_parse = Some header" "props_of header = Some hs"
    "obj_get hs ''alg'' = Some (JStr ''EdDSA'')"
    "ao_jwtPublicKeys cfg = Some keys" "(kid, key) \<in> set keys"
    "\<forall>k. obj_get hs ''kid'' = Some (JStr k) \<longrightarrow> k \<noteq> [] \<longrightarrow> kid = k"
    "ed (map of_nat (buffer_base64 (url_padded sig))) (utf8ToBytes (h @ ''.'' @ b)) key = Some True"
    "Option.bind (decodeBase64Url b) json_parse = Some cs" "props_of cs = Some claims"
    "obj_get claims ''sub'' = Some (JStr (ra_id actor))" "obj_get claims ''role'' = Some (JStr (ra_role actor))"
    "\<not> num_below (obj_get claims ''exp'') (now_ms div 1000)"
    "obj_get claims ''aud'' = Some (JStr (ao_jwtAudience cfg))" "obj_get claims ''iss'' = Some (JStr (ao_jwtIssuer cfg))"
proof -
  obtain h b sig rest header cs hs key claims where "split_on (CHR ''.'') token = h # b # sig # rest"
    "Option.bind (decodeBase64Url h) json_parse = Some header" "Option.bind (decodeBase64Url b) json_parse = Some cs"
    "props_of header = Some hs" "obj_get hs ''alg'' = Some (JStr ''EdDSA'')" "eddsa_key cfg hs = Some key"
    "ed (map of_nat (buffer_base64 (url_padded sig))) (utf8ToBytes (h @ ''.'' @ b)) key = Some True"
    "props_of cs = Some claims" "eddsa_claims cfg (now_ms div 1000) claims = (Some actor, e)"
    using assms unfolding eddsa_actor_def
    by (auto simp: unauthenticated_def split: list.splits option.splits if_splits bool.splits)
  note X = this
  from X(9) have "obj_get claims ''sub'' = Some (JStr (ra_id actor))" "obj_get claims ''role'' = Some (JStr (ra_role actor))"
    "\<not> num_below (obj_get claims ''exp'') (now_ms div 1000)"
    "obj_get claims ''aud'' = Some (JStr (ao_jwtAudience cfg))" "obj_get claims ''iss'' = Some (JStr (ao_jwtIssuer cfg))"
    by (auto simp: eddsa_claims_def actor_of_claims_def unauthenticated_def split: if_splits option.splits json.splits)
  moreover from eddsa_key_configured [OF X(6)] obtain keys kid where "ao_jwtPublicKeys cfg = Some keys" "(kid, key) \<in> set keys"
    "\<forall>k. obj_get hs ''kid'' = Some (JStr k) \<longrightarrow> k \<noteq> [] \<longrightarrow> kid = k" by blast
  ultimately show thesis using X by (intro that) assumption+
qed


text \<open>
  The secret the code falls back to is in its source: whoever has read it can sign as any actor in any role, and a gateway without
  authentication settings accepts the token.
\<close>

definition forged_claims :: "string \<Rightarrow> string \<Rightarrow> int \<Rightarrow> obj" where
  "forged_claims i r now = [(''iss'', JStr ''wenyan.local''), (''aud'', JStr ''wenyan-gateway''), (''sub'', JStr i), (''role'', JStr r),
     (''iat'', json_int now)]"

definition forged_token :: "crypto \<Rightarrow> string \<Rightarrow> string \<Rightarrow> int \<Rightarrow> string" where
  "forged_token C i r now = encodeJwtHs256 C (forged_claims i r now) ''wenyan-local-jwt-secret'' []"

lemma forged_accepted:
  "hs256_actor C now_ms default_auth_options (forged_token C i r (now_ms div 1000)) = Inr (Some \<lparr>ra_id = i, ra_role = r\<rparr>, None)"
proof -
  have "json_wf (JObj (forged_claims i r (now_ms div 1000)))" by (simp add: forged_claims_def)
  then show ?thesis
    by (simp add: hs256_actor_def default_auth_options_def forged_token_def verify_encoded Let_def check_claims_def)
      (simp add: forged_claims_def obj_get_def is_num_def num_above_def num_below_def mismatch_def json_int_def actor_of_claims_def)
qed

definition forged_headers :: "int \<Rightarrow> headers" where
  "forged_headers now = [(''authorization'', ''Bearer '' @ forged_token court_crypto ''u1'' ''genesis_admin'' now)]"

lemma url_char_not_space: "i < 64 \<Longrightarrow> \<not> js_space (url_char (b64_char i))"
  by (auto simp: url_char_def js_space_def of_char_b64)

lemma encode_not_space: "c \<in> set (base64UrlEncode s) \<Longrightarrow> \<not> js_space c"
  using url_text [OF utf8_lt, of s] sextets_lt [OF utf8_lt, of s] url_char_not_space
  by (auto simp: base64UrlEncode_def bytesToBase64_def unat_utf8ToBytes)

lemma js_trim_id: "\<forall>c\<in>set s. \<not> js_space c \<Longrightarrow> js_trim s = s"
  by (simp add: js_trim_def dropWhile_eq_self_iff last_in_set hd_in_set) (metis dropWhile_eq_self_iff hd_in_set rev_rev_ident set_rev)

lemma forged_bearer: "bearer (forged_headers n) = Some (forged_token court_crypto ''u1'' ''genesis_admin'' n)"
proof -
  have "base64UrlEncodeBytes [] = []" by code_simp
  moreover have "\<not> js_space (CHR ''.'')" by (simp add: js_space_def)
  ultimately have "js_trim (forged_token court_crypto ''u1'' ''genesis_admin'' n) = forged_token court_crypto ''u1'' ''genesis_admin'' n"
    using encode_not_space
    by (intro js_trim_id) (auto simp: forged_token_def encodeJwtHs256_def Let_def court_crypto_def)
  then show ?thesis by (simp add: bearer_def forged_headers_def)
qed


section \<open>Reading\<close>

text \<open>What the access-control law says of a reader: with no actor, whether anyone may read; with one, whether the role is listed
  with the genre or with the star.\<close>

definition law_lets_read :: "access_control_law \<Rightarrow> read_actor option \<Rightarrow> string \<Rightarrow> bool" where
  "law_lets_read law actor genre \<longleftrightarrow>
     (actor = None \<and> ac_anonymous_read law)
     \<or> (\<exists>a genres. actor = Some a \<and> map_of (ac_read_permissions law) (ra_role a) = Some genres
        \<and> (genre \<in> set genres \<or> ''*'' \<in> set genres))"

lemma may_read_law: "may_read law actor genre = None \<longleftrightarrow> law_lets_read law actor genre"
  by (auto simp: may_read_def law_lets_read_def Let_def split: option.split dest: sym)

lemma law_get_now: "fst (law_get (getCurrentLaw t atIso d) now t atIso r) = law_heard r d atIso [now] t"
  using law_get_heard [OF heard_at_start] by simp

lemma read_access_by_law:
  assumes "checkReadAccess d now atIso actor genre r = (Inr access, r')"
  shows "access = None \<longleftrightarrow> (\<exists>law. law_text AccessControlLawContentSchema (law_heard r d atIso [now] Access_control) = Some law
    \<and> law_lets_read law actor genre)"
proof -
  obtain r1 where g: "law_get (getCurrentLaw Access_control atIso d) now Access_control atIso r
      = (law_heard r d atIso [now] Access_control, r1)"
    using law_get_now by (metis prod.collapse)
  show ?thesis
    using assms unfolding checkReadAccess_def loadLawContent_def g law_text_def
    by (auto simp: may_read_law split: sum.splits option.splits if_splits)
qed

lemma write_receipt_Done:
  assumes "write_receipt E clk input g = Done u g'"
  shows "\<exists>row. db_seal0 (gw_db g') = db_seal0 (gw_db g) @ [row] \<and> verifySeal0 (ge_crypto E) (seal0_secret_of E) row
    \<and> row = receipt_of (ge_crypto E) (seal0_secret_of E) (gk_ms clk) (gk_now clk) input"
proof -
  obtain row d where row: "createReadReceipt (ge_crypto E) (seal0_secret_of E) (gk_ms clk) (gk_now clk) input (gw_db g) = Done row d"
      "g' = gw_set_db d g"
    using assms by (auto simp: write_receipt_def out_simps on_archive_Done_iff)
  note r = createReadReceipt_Done [OF row(1)]
  have "db_seal0 d = db_seal0 (gw_db g) @ [row]" using r(2) by (auto simp: appendSeal0Receipt_def split: if_splits)
  then show ?thesis using r(1) row(2) by (auto simp: verify_receipt)
qed

text \<open>C12: 
  A read that returns has an authenticated or anonymous actor and has appended one receipt, which verifies and names the actor and
  the document. The document is returned exactly when the access-control law that is heard lets the actor read the genre: its role is
  listed with the genre or with the star, or nobody is named and the law allows anonymous reads. The law heard is the cached one while
  its entry has not expired, and otherwise the one in force in the archive. The receipt of an allowed read carries
  the digest of what was returned; otherwise the answer is the reason alone and the receipt says so.
\<close>

theorem read_under_law:
  assumes "read_document E clk hs i m g = Done resp g'"
  shows "\<exists>actor e row. actorFromHeaders (ge_crypto E) (ge_ed E) (gk_ms clk) (ge_test_mode E) (auth_of E) hs = Inr (actor, e)
    \<and> db_seal0 (gw_db g') = db_seal0 (gw_db g) @ [row] \<and> verifySeal0 (ge_crypto E) (seal0_secret_of E) row
    \<and> s0_actor_id row = actor_name actor \<and> s0_document_id row = Some i
    \<and> (if \<exists>law. law_text AccessControlLawContentSchema
            (law_heard (pp_resolver (gw_pipe g)) (gw_db g) (gk_law_at clk) [gk_law_ms clk] Access_control) = Some law
          \<and> law_lets_read law actor (e_genre m)
       then resp = answer 200 (document_json i m (gw_db g)) \<and> s0_result_status row = ''allowed''
         \<and> s0_result_hash row = sha256 (ge_crypto E) (stringify (rs_body resp))
       else s0_result_status row = ''denied'' \<and> (\<exists>reason. resp = forbidden reason \<and> s0_reason row = Some reason))"
proof -
  obtain actor e where a: "actorFromHeaders (ge_crypto E) (ge_ed E) (gk_ms clk) (ge_test_mode E) (auth_of E) hs = Inr (actor, e)"
    using assms(1) by (auto simp: read_document_def split: sum.splits)
  let ?ask = "checkReadAccess (gw_db g) (gk_law_ms clk) (gk_law_at clk) actor (e_genre m)"
  obtain access g1 where ask: "ask_law (\<lambda>d. checkReadAccess d (gk_law_ms clk) (gk_law_at clk) actor (e_genre m)) g = Done access g1"
    using assms(1) by (auto simp: read_document_def a out_simps)
  then have db: "gw_db g1 = gw_db g" using ask_law_state(1) by (metis out_state_simps(1))
  from ask obtain r' where "?ask (pp_resolver (gw_pipe g)) = (Inr access, r')"
    by (auto simp: ask_law_def split: prod.splits sum.splits)
  note law = read_access_by_law [OF this]
  show ?thesis
  proof (cases access)
    case None
    then have "\<exists>u. write_receipt E clk (receipt_input E clk (Some i) actor (Some (e_genre m)) [(''id'', JStr i)]
        (JObj (document_json i m (gw_db g))) None) g1 = Done u g'" "resp = answer 200 (document_json i m (gw_db g))"
      using assms(1) by (auto simp: read_document_def a ask out_simps db Let_def)
    then show ?thesis
      using a None law db by (auto dest!: write_receipt_Done simp: receipt_of_def receipt_input_def answer_def Let_def)
  next
    case (Some reason)
    then have "\<exists>u. write_receipt E clk (receipt_input E clk (Some i) actor (Some (e_genre m)) [(''id'', JStr i)]
        denied_json (Some reason)) g1 = Done u g'" "resp = forbidden reason"
      using assms(1) by (auto simp: read_document_def a ask out_simps)
    then show ?thesis
      using a Some law db by (auto dest!: write_receipt_Done simp: receipt_of_def receipt_input_def Let_def)
  qed
qed

definition open_law :: obj where
  "open_law = [(''anonymous_read'', JBool True)]"

definition open_hall :: gateway where
  "open_hall = hall\<lparr>gw_pipe := \<lparr>pp_db = empty_db\<lparr>
       db_messages := map court_message [court_memo ''memo'', court_law ''access_control'' open_law],
       db_edicts := [court_edict ''access_control'' open_law]\<rparr>, pp_resolver = new_LawResolver None None None\<rparr>\<rparr>"

lemma open_hall_db: "gw_db open_hall = empty_db\<lparr>
    db_messages := map court_message [court_memo ''memo'', court_law ''access_control'' open_law],
    db_edicts := [court_edict ''access_control'' open_law]\<rparr>"
  by (simp add: gw_db_def open_hall_def del: gw_db_fold)

lemma open_hall_law: "law_text AccessControlLawContentSchema (getCurrentLaw Access_control (gk_law_at hall_clock) (gw_db open_hall))
    = Some \<lparr>ac_read_permissions = [], ac_anonymous_read = True, ac_query_hash_only = True\<rparr>"
  unfolding open_hall_db by code_simp

lemma open_hall_heard: "law_heard (pp_resolver (gw_pipe open_hall)) d at' nows t = getCurrentLaw t at' d"
  by (simp add: open_hall_def fresh_heard)

theorem read_under_law_witness:
  "\<exists>g' row. read_document hall_env hall_clock [] ''m1'' (court_memo ''memo'') open_hall =
      Done (answer 200 (document_json ''m1'' (court_memo ''memo'') (gw_db open_hall))) g'
    \<and> db_seal0 (gw_db g') = [row] \<and> verifySeal0 demo_crypto ''wenyan-seal0-local-secret'' row \<and> s0_actor_id row = ''anonymous''"
proof -
  have anonymous: "actorFromHeaders C ed now t cfg [] = Inr unauthenticated" for C ed now t cfg
    by (simp add: actorFromHeaders_def header_text_def bearer_def)
  have law: "getCurrentLaw Access_control (gk_law_at hall_clock) (gw_db open_hall) = Inr (Some l) \<Longrightarrow> truthy (rw_content l)
      \<Longrightarrow> AccessControlLawContentSchema (rw_content l) = Some \<lparr>ac_read_permissions = [], ac_anonymous_read = True, ac_query_hash_only = True\<rparr>" for l
    using open_hall_law by (simp add: law_text_def)
  obtain l where l: "getCurrentLaw Access_control (gk_law_at hall_clock) (gw_db open_hall) = Inr (Some l)" "truthy (rw_content l)"
    using open_hall_law by (auto simp: law_text_def split: sum.splits option.splits if_splits)
  obtain r where "law_get (getCurrentLaw Access_control (gk_law_at hall_clock) (gw_db open_hall)) (gk_law_ms hall_clock) Access_control
      (gk_law_at hall_clock) (pp_resolver (gw_pipe open_hall)) = (Inr (Some l), r)"
    using law_get_now [of Access_control "gk_law_at hall_clock" "gw_db open_hall" "gk_law_ms hall_clock" "pp_resolver (gw_pipe open_hall)"]
      open_hall_heard l(1) by (metis prod.collapse)
  then have "checkReadAccess (gw_db open_hall) (gk_law_ms hall_clock) (gk_law_at hall_clock) None ''memo'' (pp_resolver (gw_pipe open_hall))
      = (Inr None, r)"
    using law [OF l] l by (simp add: checkReadAccess_def loadLawContent_def may_read_def)
  then obtain g' where g': "read_document hall_env hall_clock [] ''m1'' (court_memo ''memo'') open_hall =
      Done (answer 200 (document_json ''m1'' (court_memo ''memo'') (gw_db open_hall))) g'"
    by (simp add: read_document_def anonymous unauthenticated_def ask_law_def court_memo_def write_receipt_def receipt_input_def
        createReadReceipt_def actor_name_def appendSeal0Receipt_def open_hall_db empty_db_def Let_def on_archive_def on_pipe_def on_db_def)
  have "db_seal0 (gw_db open_hall) = []" by (simp add: open_hall_db empty_db_def)
  with g' read_under_law [OF g'] show ?thesis
    by (auto simp: anonymous unauthenticated_def actor_name_def hall_env_def seal0_secret_of_def)
qed

end
