(* ===== verification/Gateway_State.thy ===== *)
theory Gateway_State
  imports Gateway_Reads
begin

text \<open>
  The reachable states of the gateway. The locale \<open>archive_keeper\<close> is the contract of a property of the archive that every write of
  the gateway keeps, and proves that every route and the worker keep it; it is interpreted for the invariant of the state.
\<close>

section \<open>The tables beside the log\<close>

text \<open>Only alerts, the site, approvals, idempotency keys, checkpoints and the stored roots differ.\<close>

definition bare :: "db \<Rightarrow> db" where
  "bare d = d\<lparr>db_alerts := [], db_site := [], db_approvals := [], db_idempotency := [], db_checkpoints := [], db_state := []\<rparr>"

definition side :: "db \<Rightarrow> db \<Rightarrow> bool" where
  "side d d' \<longleftrightarrow> bare d' = bare d"

lemma sideI [simp]:
  "side d (d\<lparr>db_alerts := a\<rparr>)" "side d (d\<lparr>db_site := s\<rparr>)" "side d (d\<lparr>db_approvals := p\<rparr>)" "side d (d\<lparr>db_idempotency := i\<rparr>)"
  "side d (d\<lparr>db_checkpoints := c\<rparr>)" "side d (d\<lparr>db_state := r\<rparr>)" "side d d"
  by (simp_all add: side_def bare_def)

lemma side_trans [trans]: "side d d1 \<Longrightarrow> side d1 d2 \<Longrightarrow> side d d2"
  by (simp add: side_def)

lemma side_alerts: "alerts_only d d' \<Longrightarrow> side d d'"
  by (auto simp: alerts_only_def)

lemma side_writes [simp]:
  "side d (out_state (addOfficeApproval now i office d))" "side d (setSiteStatus now st reason d)"
  "side d (putIdempotency now key response expires d)" "side d (snd (getMerkleRoot sha now scope d))"
  "side d (out_state (appendCensorateAlert n a d))" "side d (out_state (appendAuditCheckpoint e d))"
  by (simp_all add: addOfficeApproval_def setSiteStatus_def putIdempotency_def getMerkleRoot_def appendCensorateAlert_def
      appendAuditCheckpoint_def Let_def)

lemma side_emergency [simp]: "side d (out_state (routeSafetyIncident n now s d))"
  unfolding routeSafetyIncident_def Let_def setSiteQuarantined_def
  by (rule and_then_state_inv [where P = "side d"]) (auto intro: side_trans side_writes)

lemma side_checkpoint [simp]: "side d (out_state (createCheckpoint sha at' now scope sigs n d))"
proof -
  obtain rt d1 where r: "getMerkleRoot sha at' scope d = (rt, d1)" by (cases "getMerkleRoot sha at' scope d")
  then have "side d d1" using side_writes(4) [of d sha at' scope] by simp
  then have "side d (out_state (appendAuditCheckpoint e d1))" for e using side_trans side_writes(6) by blast
  then show ?thesis
    unfolding createCheckpoint_def Let_def r prod.case by (rule and_then_state_inv [where P = "side d"]) simp
qed

section \<open>The contract of an archive property\<close>

locale archive_keeper = write_invariant sha P for sha :: "string \<Rightarrow> string" and P :: "db \<Rightarrow> bool" +
  fixes E :: gateway_env
  assumes sha: "sha256 (ge_crypto E) = sha"
    and bare_keeps: "P (bare d) \<longleftrightarrow> P d"
    and message_keeps: "P d \<Longrightarrow> P (out_state (appendMessage sha now m d))"
    and enqueue_keeps: "P d \<Longrightarrow> P (out_state (enqueueDocket ms now i d))"
    and dequeue_keeps: "P d \<Longrightarrow> P (snd (dequeueDocket now d))"
    and receipt_keeps: "P d \<Longrightarrow> P (out_state (createReadReceipt (ge_crypto E) (seal0_secret_of E) ms now input d))"
begin

lemma side_keeps: "side d d' \<Longrightarrow> P d \<Longrightarrow> P d'"
  using bare_keeps by (metis side_def)

abbreviation held :: "gateway \<Rightarrow> bool" where
  "held g \<equiv> P (gw_db g)"

lemma archive_bind:
  "held g \<Longrightarrow> (\<And>d. P d \<Longrightarrow> P (out_state (f d))) \<Longrightarrow> (\<And>a h. held h \<Longrightarrow> held (out_state (k a h)))
    \<Longrightarrow> held (out_state (and_then (on_archive f g) k))"
  by (rule and_then_state_inv [where P = held]) simp_all

lemma law_bind: "held g \<Longrightarrow> (\<And>a h. held h \<Longrightarrow> held (out_state (k a h))) \<Longrightarrow> held (out_state (and_then (ask_law f g) k))"
  by (rule and_then_state_inv [where P = held]) simp_all

lemma ready_keeps: "held g \<Longrightarrow> (\<And>h. held h \<Longrightarrow> held (out_state (k h))) \<Longrightarrow> held (out_state (on_ready E clk g k))"
  unfolding on_ready_def by (rule and_then_state_inv [where P = held]) simp_all

lemma body_keeps: "held g \<Longrightarrow> (\<And>ps h. held h \<Longrightarrow> held (out_state (k ps h))) \<Longrightarrow> held (out_state (with_body body g k))"
  by (auto simp: with_body_def split: option.split)

lemma answered_keeps:
  "held (out_state m) \<Longrightarrow> (\<And>h. held h \<Longrightarrow> held (out_state (k h))) \<Longrightarrow> held (out_state (unless_answered m k))"
  unfolding unless_answered_def by (rule and_then_state_inv [where P = held]) (auto split: option.split)

lemma emergency_keeps: "held g \<Longrightarrow> held (out_state (raise_emergency clk m g))"
  unfolding raise_emergency_def using side_keeps [OF side_emergency] by (auto intro!: archive_bind)

lemma accept_keeps: "held g \<Longrightarrow> held (out_state (accept_message E clk key m g))"
  unfolding accept_message_def remember_def
  using side_keeps [OF side_writes(3)] message_keeps enqueue_keeps
  by (auto simp: sha intro!: archive_bind and_then_state_inv [where P = held] emergency_keeps)

lemma checks_keep:
  assumes "held g"
  shows "held (out_state (check_hierarchy m g))" "held (out_state (check_amendment m g))" "held (out_state (check_site m g))"
    "held (out_state (check_quarantine m g))" "held (out_state (check_temporal E clk m g))" "held (out_state (check_geographic E clk m g))"
    "held (out_state (note_coalition E clk m g))"
proof -
  have refuse: "held h \<Longrightarrow> held (out_state (refuse_if b s t h))" for b s t h by (simp add: refuse_if_def)
  show "held (out_state (check_hierarchy m g))" "held (out_state (check_amendment m g))" "held (out_state (check_site m g))"
    "held (out_state (check_quarantine m g))"
    using assms refuse
    by (simp_all add: check_hierarchy_def check_amendment_def check_site_def check_quarantine_def)
  have detect: "P d \<Longrightarrow> P (out_state (detectTemporal n c ts th d))" "P d \<Longrightarrow> P (out_state (detectGeographic fl n c gs kmh d))"
    "P d \<Longrightarrow> P (out_state (detectCoalition z fl n c co zt d))" for n c ts th fl gs kmh z co zt d
    using detect_state(2-4) by (metis side_keeps sideI(1))+
  show "held (out_state (check_temporal E clk m g))"
    unfolding check_temporal_def using assms detect refuse by (auto split: option.split json.split intro!: archive_bind)
  show "held (out_state (check_geographic E clk m g))"
    unfolding check_geographic_def using assms detect by (auto split: option.split intro!: archive_bind)
  show "held (out_state (note_coalition E clk m g))"
    unfolding note_coalition_def using assms detect by (auto split: option.split intro!: archive_bind)
qed

lemma submit_keeps: "held g \<Longrightarrow> held (out_state (submit_message E clk key m g))"
  unfolding submit_message_def by (intro answered_keeps checks_keep accept_keeps; assumption?)

lemma post_keeps: "held g \<Longrightarrow> held (snd (postMessage E clk hs body g))"
proof -
  assume g: "held g"
  have "held (out_state (tongzhengSi dt clk j h))" if "held h" for dt j h
    using tongzheng_same [of h dt clk j] that by (simp add: same_parts_def)
  then have "held (out_state (submit_body E clk key body h))" if "held h" for key h
    unfolding submit_body_def
    using that by (auto split: option.split prod.split intro!: and_then_state_inv [where P = held] submit_keeps)
  from ready_keeps [OF g this] have run: "held (out_state (on_ready E clk g (submit_body E clk (header_text hs ''x-idempotency-key'') body)))" .
  show ?thesis
  proof (cases "oversized hs")
    case None
    then show ?thesis using run by (cases "on_ready E clk g (submit_body E clk (header_text hs ''x-idempotency-key'') body)")
      (simp_all add: postMessage_def)
  qed (simp add: postMessage_def g)
qed

lemma approve_keeps: "held g \<Longrightarrow> held (out_state (approve_office E clk i m office g))"
  unfolding approve_office_def Let_def
proof (rule archive_bind, assumption, goal_cases)
  case (1 d)
  then show ?case using side_keeps [OF side_writes(1)] by blast
next
  case (2 n h)
  have fin: "held (out_state (on_pipe (finalizePendingMessage (ge_crypto E) (ge_seal_context E) (ge_pipe E) (gk_pipe clk) i) h))" if "held h" for h
    using finalize_keeps [of "ge_crypto E" "gw_pipe h"] that sha on_pipe_state [of _ h] gw_db_fold by metis
  show ?case
  proof (rule law_bind [OF 2(2)], goal_cases)
    case (1 required h)
    show ?case
      using fin [OF 1] 1
      by (cases "on_pipe (finalizePendingMessage (ge_crypto E) (ge_seal_context E) (ge_pipe E) (gk_pipe clk) i) h") simp_all
  qed
qed

lemma approval_keeps: "held g \<Longrightarrow> held (out_state (postApproval E clk hs i body g))"
  unfolding postApproval_def
  by (auto split: option.split json.split intro!: ready_keeps body_keeps approve_keeps)

lemma emergency_route_keeps: "held g \<Longrightarrow> held (out_state (postEmergency E clk body g))"
  unfolding postEmergency_def Let_def
  using side_keeps [OF side_emergency] side_keeps [OF side_writes(2)]
  by (auto intro!: ready_keeps body_keeps archive_bind)

lemma receipt_route_keeps: "held g \<Longrightarrow> held (out_state (write_receipt E clk input g))"
  unfolding write_receipt_def using receipt_keeps by (auto intro!: archive_bind)

lemma read_keeps: "held g \<Longrightarrow> held (out_state (read_document E clk hs i m g))"
  unfolding read_document_def Let_def
  by (auto split: sum.split option.split intro!: law_bind and_then_state_inv [where P = held] receipt_route_keeps)

lemma list_keeps: "held g \<Longrightarrow> held (out_state (listMessages E clk hs st genre g))"
  unfolding listMessages_def Let_def
  by (auto split: sum.split option.split intro!: ready_keeps law_bind and_then_state_inv [where P = held] receipt_route_keeps)

lemma turn_keeps: "held g \<Longrightarrow> worker_turn E clk g = Some r \<Longrightarrow> held (out_state r)"
proof -
  assume g: "held g" and "worker_turn E clk g = Some r"
  then obtain item d where t: "dequeueDocket (gk_now clk) (gw_db g) = (Some item, d)"
      "r = work_item E clk (dk_messageId item) (gw_set_db d g)"
    by (auto simp: worker_turn_def split: prod.splits option.splits)
  then have "P d" using dequeue_keeps [of "gw_db g" "gk_now clk"] g by simp
  then show ?thesis
    unfolding t(2) work_item_def
    by (intro and_then_state_inv [where P = held] run_item_keeps sha) (auto intro: side_keeps [OF side_alerts [OF after_item_db]])
qed

lemma loop_keeps: "held g \<Longrightarrow> worker_loop E clk fuel n g = Some g' \<Longrightarrow> held g'"
proof (induction fuel arbitrary: n g)
  case (Suc fuel)
  show ?case
  proof (cases "worker_turn E (clk n) g")
    case (Some r)
    then have "held (out_state r)" by (rule turn_keeps [OF Suc.prems(1)])
    then show ?thesis using Suc.IH Suc.prems(2) Some by (cases r) auto
  qed (use Suc.prems in simp)
qed simp

lemma process_keeps: "held g \<Longrightarrow> processDocketLoop E clk0 clk g = Some g' \<Longrightarrow> held g'"
proof (cases "resolveRuntime E clk0 g")
  case (Done u g1)
  assume "held g" "processDocketLoop E clk0 clk g = Some g'"
  moreover have "gw_db g1 = gw_db g" using resolveRuntime_state(1) [of E clk0 g] by (simp add: Done)
  ultimately show ?thesis using loop_keeps [of g1] by (simp add: processDocketLoop_def Done del: worker_loop.simps)
next
  case (Fail e g1)
  assume "held g" "processDocketLoop E clk0 clk g = Some g'"
  moreover have "gw_db g1 = gw_db g" using resolveRuntime_state(1) [of E clk0 g] by (simp add: Fail)
  ultimately show ?thesis by (simp add: processDocketLoop_def Fail)
qed

lemma get_keeps: "held g \<Longrightarrow> held (out_state (getMessageRoute E clk loop_clk hs i g))"
proof -
  assume g: "held g"
  let ?g0 = "out_state (resolveRuntime E clk g)"
  let ?g1 = "case processDocketLoop E clk loop_clk ?g0 of Some g' \<Rightarrow> g' | None \<Rightarrow> ?g0"
  have "held ?g1" using g process_keeps [of ?g0 clk loop_clk] by (auto split: option.split)
  then show ?thesis
    unfolding getMessageRoute_def Let_def by (auto split: out.split option.split intro: read_keeps simp del: resolveRuntime_state)
qed

lemma quiet_routes_keep:
  assumes "held g"
  shows "held (out_state (constitutionRoot E clk g))" "held (out_state (meshMerkleRoot E clk g))" "held (out_state (meshJoin E body g))"
    "held (out_state (meshSync E clk body g))" "held (out_state (whoRead E clk q g))" "held (out_state (auditAnomaly E clk since kind bound g))"
    "held (out_state (auditTrace E clk i g))" "held (out_state (auditExport E clk input g))" "held (out_state (auditCheckpoint E clk body g))"
proof -
  show "held (out_state (constitutionRoot E clk g))" using assms by (simp add: constitutionRoot_def ready_keeps)
  have "P (snd (getMerkleRoot sha now All_scope d))" if "P d" for now d using side_keeps [OF side_writes(4) that] .
  then show "held (out_state (meshMerkleRoot E clk g))"
    using assms by (auto simp: meshMerkleRoot_def Let_def sha split_beta intro!: ready_keeps)
  show "held (out_state (meshJoin E body g))"
    using assms by (auto simp: meshJoin_def Let_def split: option.split prod.split intro!: body_keeps)
  show "held (out_state (meshSync E clk body g))"
    using assms by (auto simp: meshSync_def Let_def split: option.split prod.split intro!: ready_keeps body_keeps)
  show "held (out_state (whoRead E clk q g))"
    using assms by (auto simp: whoRead_def Let_def split: option.split intro!: ready_keeps)
  show "held (out_state (auditAnomaly E clk since kind bound g))"
    using assms by (auto simp: auditAnomaly_def split: option.split intro!: ready_keeps)
  show "held (out_state (auditTrace E clk i g))"
    using assms by (auto simp: auditTrace_def Let_def split: option.split intro!: ready_keeps)
  show "held (out_state (auditExport E clk input g))"
    using assms by (auto simp: auditExport_def split: sum.split intro!: ready_keeps)
  show "held (out_state (auditCheckpoint E clk body g))"
    unfolding auditCheckpoint_def using assms side_keeps [OF side_checkpoint] by (auto intro!: ready_keeps body_keeps archive_bind)
qed

end

section \<open>The reachable gateways\<close>

definition buildGateway :: "channel \<Rightarrow> db \<Rightarrow> gateway" where
  "buildGateway ch d = \<lparr>gw_pipe = \<lparr>pp_db = d, pp_resolver = new_LawResolver None None None\<rparr>,
     gw_ti = \<lparr>tv_ttlSeconds = 60, tv_cache = (\<lambda>_. None)\<rparr>, gw_channel = ch, gw_ready = False, gw_worker = False, gw_recent = [],
     gw_quarantined = [], gw_amendment = False, gw_gossiped = []\<rparr>"

text \<open>One request, one run of the worker, or a subscriber of the stream that comes or goes.\<close>

inductive gateway_step :: "gateway_env \<Rightarrow> gateway \<Rightarrow> gateway \<Rightarrow> bool" for E where
  gr_post: "gateway_step E g (snd (postMessage E clk hs body g))"
| gr_approve: "gateway_step E g (out_state (postApproval E clk hs i body g))"
| gr_emergency: "gateway_step E g (out_state (postEmergency E clk body g))"
| gr_worker: "processDocketLoop E clk turns g = Some g' \<Longrightarrow> gateway_step E g g'"
| gr_get: "gateway_step E g (out_state (getMessageRoute E clk turns hs i g))"
| gr_list: "gateway_step E g (out_state (listMessages E clk hs st genre g))"
| gr_stream: "gateway_step E g (g\<lparr>gw_channel := subscribe f (gw_channel g)\<rparr>)"
| gr_close: "gateway_step E g (g\<lparr>gw_channel := unsubscribe f (gw_channel g)\<rparr>)"
| gr_constitution: "gateway_step E g (out_state (constitutionRoot E clk g))"
| gr_root: "gateway_step E g (out_state (meshMerkleRoot E clk g))"
| gr_join: "gateway_step E g (out_state (meshJoin E body g))"
| gr_sync: "gateway_step E g (out_state (meshSync E clk body g))"
| gr_who: "gateway_step E g (out_state (whoRead E clk q g))"
| gr_anomaly: "gateway_step E g (out_state (auditAnomaly E clk since kind bound g))"
| gr_trace: "gateway_step E g (out_state (auditTrace E clk i g))"
| gr_export: "gateway_step E g (out_state (auditExport E clk input g))"
| gr_checkpoint: "gateway_step E g (out_state (auditCheckpoint E clk body g))"

context archive_keeper
begin

lemma step_held: "gateway_step E g g' \<Longrightarrow> P (gw_db g) \<Longrightarrow> P (gw_db g')"
  by (induction rule: gateway_step.induct)
    (simp_all add: post_keeps approval_keeps emergency_route_keeps get_keeps list_keeps quiet_routes_keep process_keeps)

lemma steps_held: "(gateway_step E)\<^sup>*\<^sup>* g g' \<Longrightarrow> P (gw_db g) \<Longrightarrow> P (gw_db g')"
  by (induction rule: rtranclp_induct) (simp_all add: step_held)

end

section \<open>The invariant\<close>

text \<open>The log and its indexes are consistent, receipts are unique and verify, and a docket row is unique and names a stored message.\<close>

definition db_ok :: "gateway_env \<Rightarrow> db \<Rightarrow> bool" where
  "db_ok E d \<longleftrightarrow> archive_inv (sha256 (ge_crypto E)) d
     \<and> distinct (map s0_id (db_seal0 d)) \<and> (\<forall>r\<in>set (db_seal0 d). verifySeal0 (ge_crypto E) (seal0_secret_of E) r)
     \<and> distinct (map dk_id (db_docket d)) \<and> dk_messageId ` set (db_docket d) \<subseteq> message_ids d"

lemma index_messages: "message_ids (out_state (indexArchivedMessage i t d)) = message_ids d"
  by (auto simp: indexArchivedMessage_def Let_def split: option.split)

lemma writers_messages:
  "message_ids (out_state (appendTransition sha t d)) = message_ids d" "message_ids (out_state (appendSeal s d)) = message_ids d"
  by (auto simp: appendTransition_def appendSeal_def Let_def use_id_def index_messages)

lemma bare_simps [simp]:
  "db_messages (bare d) = db_messages d" "db_transitions (bare d) = db_transitions d" "db_seals (bare d) = db_seals d"
  "db_edicts (bare d) = db_edicts d" "db_ti (bare d) = db_ti d" "db_seq (bare d) = db_seq d" "db_seal0 (bare d) = db_seal0 d"
  "db_docket (bare d) = db_docket d" "message_ids (bare d) = message_ids d"
  by (simp_all add: bare_def message_ids_def)

interpretation gateway_archive: archive_keeper "sha256 (ge_crypto E)" "db_ok E" E for E
proof
  fix d t s now m ms i input
  assume ok: "db_ok E d"
  let ?sha = "sha256 (ge_crypto E)"
  show "db_ok E (out_state (appendTransition ?sha t d))"
    using ok by (simp add: db_ok_def appendTransition_tables writers_messages appendTransition_inv)
  show "db_ok E (out_state (appendSeal s d))"
    using ok by (simp add: db_ok_def appendSeal_tables writers_messages appendSeal_inv)
  show "db_ok E (out_state (appendMessage ?sha now m d))"
    using ok appendMessage_inv [of ?sha d now m] by (auto simp: db_ok_def appendMessage_def message_ids_def)
  show "db_ok E (out_state (enqueueDocket ms now i d))"
    using ok by (auto simp: db_ok_def enqueueDocket_def Let_def archive_inv_def message_ids_def)
  show "db_ok E (snd (dequeueDocket now d))"
    using ok by (auto simp: db_ok_def dequeueDocket_def archive_inv_def message_ids_def distinct_map inj_on_def split: option.split)
  show "db_ok E (out_state (createReadReceipt (ge_crypto E) (seal0_secret_of E) ms now input d))"
    using ok by (auto simp: db_ok_def createReadReceipt_def Let_def appendSeal0Receipt_def archive_inv_def message_ids_def verify_receipt)
qed (simp_all add: db_ok_def archive_inv_def)

lemma db_ok_empty: "db_ok E empty_db"
  using archive_inv_empty by (simp add: db_ok_def empty_db_def)

text \<open>What is written once is never changed: a message, a transition, a seal, a receipt.\<close>

lemma index_seals: "db_seals (out_state (indexArchivedMessage i t d)) = db_seals d"
  by (auto simp: indexArchivedMessage_def Let_def frame_simps split: option.split)

lemma getMessage_cong: "db_messages d = db_messages d' \<Longrightarrow> getMessage i d = getMessage i d'"
  by (simp add: getMessage_def)

lemma transition_message: "getMessage i (out_state (appendTransition sha t d)) = getMessage i d"
  by (simp add: appendTransition_def Let_def index_getMessage use_id_def)

lemma seal_message: "getMessage i (out_state (appendSeal s d)) = getMessage i d"
proof -
  have "getMessage i (update_message j (\<lambda>r. r\<lparr>mr_seal_chain := x\<rparr>) (d\<lparr>db_seals := y\<rparr>)) = getMessage i (d\<lparr>db_seals := y\<rparr>)" for j x y
    by (rule getMessage_update) simp_all
  then show ?thesis by (simp add: appendSeal_def Let_def getMessage_cong [of "d\<lparr>db_seals := y\<rparr>" d for y])
qed

lemma queue_tables [simp]:
  "db_messages (out_state (enqueueDocket ms now i d)) = db_messages d" "db_messages (snd (dequeueDocket now d)) = db_messages d"
  "db_transitions (out_state (enqueueDocket ms now i d)) = db_transitions d" "db_transitions (snd (dequeueDocket now d)) = db_transitions d"
  "db_seals (out_state (enqueueDocket ms now i d)) = db_seals d" "db_seals (snd (dequeueDocket now d)) = db_seals d"
  "db_seal0 (out_state (enqueueDocket ms now i d)) = db_seal0 d" "db_seal0 (snd (dequeueDocket now d)) = db_seal0 d"
  by (simp_all add: enqueueDocket_def dequeueDocket_def Let_def split: option.split)

lemma receipt_tables [simp]:
  "db_messages (out_state (createReadReceipt C secret ms now input d)) = db_messages d"
  "db_transitions (out_state (createReadReceipt C secret ms now input d)) = db_transitions d"
  "db_seals (out_state (createReadReceipt C secret ms now input d)) = db_seals d"
  "set (db_seal0 d) \<subseteq> set (db_seal0 (out_state (createReadReceipt C secret ms now input d)))"
  by (auto simp: createReadReceipt_def Let_def appendSeal0Receipt_def)

lemma message_tables [simp]:
  "db_transitions (out_state (appendMessage sha now m d)) = db_transitions d" "db_seals (out_state (appendMessage sha now m d)) = db_seals d"
  "db_seal0 (out_state (appendMessage sha now m d)) = db_seal0 d"
  by (simp_all add: appendMessage_def)

lemma writers_grow:
  "set (db_transitions d) \<subseteq> set (db_transitions (out_state (appendTransition sha t d)))"
  "db_seals (out_state (appendTransition sha t d)) = db_seals d"
  "db_transitions (out_state (appendSeal s d)) = db_transitions d"
  "set (db_seals d) \<subseteq> set (db_seals (out_state (appendSeal s d)))"
  by (auto simp: appendTransition_def appendSeal_def Let_def use_id_def index_transitions index_seals frame_simps)

interpretation message_kept: archive_keeper "sha256 (ge_crypto E)" "\<lambda>d. getMessage i d = Some m" E for E i m
proof
  fix now x d
  assume m: "getMessage i d = Some m"
  then have "i \<in> message_ids d" by (rule getMessage_id)
  with m show "getMessage i (out_state (appendMessage (sha256 (ge_crypto E)) now x d)) = Some m"
    by (auto simp: appendMessage_def getMessage_def find_row_append message_row_of_def message_ids_def)
qed (simp_all add: transition_message seal_message getMessage_cong [OF queue_tables(1)] getMessage_cong [OF queue_tables(2)]
    getMessage_cong [OF receipt_tables(1)] getMessage_cong [OF bare_simps(1)])

interpretation transition_kept: archive_keeper "sha256 (ge_crypto E)" "\<lambda>d. r \<in> set (db_transitions d)" E for E r
  by unfold_locales (simp_all add: writers_grow subsetD [OF writers_grow(1)] subsetD [OF writers_grow(4)])

interpretation seal_kept: archive_keeper "sha256 (ge_crypto E)" "\<lambda>d. s \<in> set (db_seals d)" E for E s
  by unfold_locales (simp_all add: writers_grow subsetD [OF writers_grow(1)] subsetD [OF writers_grow(4)])

interpretation receipt_kept: archive_keeper "sha256 (ge_crypto E)" "\<lambda>d. r \<in> set (db_seal0 d)" E for E r
  by unfold_locales (simp_all add: appendTransition_tables appendSeal_tables subsetD [OF receipt_tables(4)])

section \<open>Properties\<close>

text \<open>C6: 
  Whatever requests a gateway answers and however often its worker runs, its archive keeps unique keys, hashes that cover their rows and
  references that exist, every receipt in it verifies under the gateway's secret, and every docket row names a stored message.
\<close>

theorem gateway_archive_invariant:
  assumes "(gateway_step E)\<^sup>*\<^sup>* (buildGateway ch empty_db) g"
  shows "db_ok E (gw_db g)"
proof -
  have "gw_db (buildGateway ch empty_db) = empty_db" by (simp add: gw_db_def buildGateway_def del: gw_db_fold)
  then show ?thesis using gateway_archive.steps_held [OF assms] db_ok_empty by simp
qed

theorem gateway_archive_invariant_witness:
  "db_ok hall_env (gw_db (snd (postMessage hall_env hall_clock hall_headers (Some (envelope_json hall_edict)) (buildGateway channel_new empty_db))))"
  by (rule gateway_archive_invariant [of _ channel_new], rule r_into_rtranclp, rule gr_post)

text \<open>C7: 
  Nothing the gateway does changes or removes what it has recorded: a stored message reads back as submitted, and transitions, seals
  and read receipts stay in the archive.
\<close>

theorem gateway_history_kept:
  assumes "(gateway_step E)\<^sup>*\<^sup>* g g'"
  shows "(getMessage i (gw_db g) = Some m \<longrightarrow> getMessage i (gw_db g') = Some m)
    \<and> set (db_transitions (gw_db g)) \<subseteq> set (db_transitions (gw_db g')) \<and> set (db_seals (gw_db g)) \<subseteq> set (db_seals (gw_db g'))
    \<and> set (db_seal0 (gw_db g)) \<subseteq> set (db_seal0 (gw_db g'))"
  using message_kept.steps_held [OF assms] transition_kept.steps_held [OF assms] seal_kept.steps_held [OF assms]
    receipt_kept.steps_held [OF assms] by blast

theorem gateway_history_kept_witness:
  "getMessage ''m1'' (gw_db (snd (postMessage hall_env hall_clock hall_headers (Some (envelope_json hall_edict)) open_hall)))
    = Some (court_memo ''memo'')"
proof -
  have "getMessage ''m1'' (gw_db open_hall) = Some (court_memo ''memo'')"
    by (simp add: open_hall_db getMessage_def court_message_def court_memo_def message_row_of_def)
  moreover have "(gateway_step hall_env)\<^sup>*\<^sup>* open_hall
      (snd (postMessage hall_env hall_clock hall_headers (Some (envelope_json hall_edict)) open_hall))"
    by (rule r_into_rtranclp, rule gr_post)
  ultimately show ?thesis using gateway_history_kept [of hall_env open_hall] by blast
qed

end
