(* ===== verification/Gateway_Findings.thy ===== *)
theory Gateway_Findings
  imports Gateway_State
begin

text \<open>
  What the model shows of the gateway that its authors may not intend: the row the worker writes after an exception does not continue the
  hash chain, an approval that archives is not announced, the amendment guard cannot refuse, a claimed time that is no date passes.
\<close>

section \<open>The rejection of a failed run\<close>

text \<open>
  When a run throws, the worker appends a rejection whose link is the link of the row before it, not that row's hash: both rows then
  name the same predecessor, and the log is no chain any more. It does so from any state, archived included.
\<close>

theorem failed_run_forks_chain:
  assumes "reject_failed C now i reason g = Done r g'" "archive_inv (sha256 C) (gw_db g)" "numbered i (gw_db g)"
    and "getTransitions i (gw_db g) \<noteq> []" "current_state i (gw_pipe g) \<noteq> Rejected"
  shows "\<exists>t. getTransitions i (gw_db g') = getTransitions i (gw_db g) @ [t] \<and> t_toState t = Rejected
    \<and> t_fromState t = current_state i (gw_pipe g) \<and> t_reason t = Some reason
    \<and> t_prevTransitionHash t = t_prevTransitionHash (last (getTransitions i (gw_db g)))"
proof -
  let ?ts = "getTransitions i (gw_db g)"
  let ?t = "\<lparr>t_messageId = i, t_fromState = current_state i (gw_pipe g), t_toState = Rejected, t_sequenceNo = int (length ?ts + 1),
    t_actorId = Some ''gateway-worker'', t_reason = Some reason, t_sealedAt = Some now, t_prevTransitionHash = last_prev_hash ?ts, t_at = now\<rparr>"
  obtain d where d: "appendTransition (sha256 C) ?t (gw_db g) = Done () d" "gw_db g' = d"
    using assms(1,5) by (auto simp: reject_failed_def Let_def out_simps on_archive_Done_iff)
  have "above_log ?t (gw_db g)" using assms(3) by (rule numbered_above) (simp_all add: getTransitions_log)
  from appendTransition_log [OF assms(2) d(1) this]
  have log: "log_of i (gw_db g') = log_of i (gw_db g) @
      [transition_row_of (sha256 C) (next_id ''transitions'' (gw_db g)) ?t (prev_hash_for ?t (gw_db g))]" by (simp add: d(2))
  have "log_of i (gw_db g) \<noteq> []" using assms(4) by (simp add: getTransitions_log)
  then have "row_ok (sha256 C) (last (log_of i (gw_db g)))" using log_ok(2) [OF assms(2) last_in_set] by blast
  then obtain h where h: "t_prevTransitionHash (last ?ts) = Some h"
    using \<open>log_of i (gw_db g) \<noteq> []\<close> by (auto simp: getTransitions_log row_ok_def transition_of_row_def last_map)
  show ?thesis
    using assms(4) h
    by (simp add: getTransitions_log log prev_hash_for_def last_prev_hash_def transition_of_row_def transition_row_of_def)
qed

definition annals_start :: db where
  "annals_start = out_state (appendMessage court_digest [] (demo_edict ''a'' 1) empty_db)"

definition annals_row :: transition_row where
  "annals_row = transition_row_of court_digest 1 (seal_transition ''a'' Pending Authorized 1) ''GENESIS''"

definition annals :: gateway where
  "annals = buildGateway channel_new (out_state (appendTransition court_digest (seal_transition ''a'' Pending Authorized 1) annals_start))"

lemma annals_db: "gw_db annals = use_id ''transitions'' (annals_start\<lparr>db_transitions := [annals_row]\<rparr>)"
  "message_ids annals_start = {''a''}" "db_transitions annals_start = []"
proof -
  have start: "annals_start = empty_db\<lparr>db_messages := [message_row_of court_digest [] (demo_edict ''a'' 1)]\<rparr>"
    by (simp add: annals_start_def appendMessage_def empty_db_def message_ids_def fk_ok_def superseded_by_of_def demo_edict_def obj_get_def)
  show ids: "message_ids annals_start = {''a''}" "db_transitions annals_start = []"
    by (simp_all add: start message_ids_def message_row_of_def demo_edict_def empty_db_def)
  have "rows_of ''a'' annals_start = []" "last_row ''a'' annals_start = None" "next_id ''transitions'' annals_start = 1"
    by (simp_all add: rows_of_def last_row_def ids(2) start next_id_def empty_db_def order_desc_def first_row_def)
  then show "gw_db annals = use_id ''transitions'' (annals_start\<lparr>db_transitions := [annals_row]\<rparr>)"
    by (simp add: annals_def buildGateway_def gw_db_def appendTransition_def snapshotState_def seal_transition_def ids prev_hash_for_def
        annals_row_def canTransition_def del: gw_db_fold)
qed

lemma annals_inv: "archive_inv court_digest (gw_db annals)"
proof -
  have "gw_db annals = out_state (appendTransition court_digest (seal_transition ''a'' Pending Authorized 1) annals_start)"
    by (simp add: annals_def buildGateway_def gw_db_def del: gw_db_fold)
  then show ?thesis
    using appendMessage_inv [OF archive_inv_empty, of court_digest "[]" "demo_edict ''a'' 1"]
    by (simp add: annals_start_def appendTransition_inv)
qed

lemma annals_log: "log_of ''a'' (gw_db annals) = [annals_row]"
  by (simp add: log_of_def rows_of_def annals_db use_id_def annals_row_def transition_row_of_def seal_transition_def order_asc_def)

lemma annals_state: "current_state ''a'' (gw_pipe annals) = Authorized"
  using last_row_log [OF annals_inv, of "''a''"]
  by (simp add: current_state_def snapshotState_def annals_log) (simp add: annals_row_def transition_row_of_def seal_transition_def)

theorem failed_run_forks_chain_witness:
  "\<exists>r g' t. reject_failed court_crypto ''2024-03-01T00:00:00Z'' ''a'' ''processing-error'' annals = Done r g'
    \<and> getTransitions ''a'' (gw_db g') = getTransitions ''a'' (gw_db annals) @ [t] \<and> t_toState t = Rejected
    \<and> t_prevTransitionHash t = t_prevTransitionHash (last (getTransitions ''a'' (gw_db annals)))"
proof -
  have "rows_of ''a'' (gw_db annals) = [annals_row]" "message_ids (gw_db annals) = {''a''}"
    using annals_db(2) by (simp_all add: rows_of_def annals_db(1) use_id_def annals_row_def transition_row_of_def seal_transition_def message_ids_def)
  moreover have "tr_sequenceNo annals_row = 1" by (simp add: annals_row_def transition_row_of_def seal_transition_def)
  ultimately have "\<exists>r g'. reject_failed court_crypto ''2024-03-01T00:00:00Z'' ''a'' ''processing-error'' annals = Done r g'"
    using annals_state
    by (simp add: reject_failed_def Let_def on_archive_def on_pipe_def on_db_def getTransitions_log annals_log appendTransition_def
        current_state_def)
  then obtain r g' where r: "reject_failed court_crypto ''2024-03-01T00:00:00Z'' ''a'' ''processing-error'' annals = Done r g'" by blast
  have "archive_inv (sha256 court_crypto) (gw_db annals)" "numbered ''a'' (gw_db annals)" "getTransitions ''a'' (gw_db annals) \<noteq> []"
    using annals_inv \<open>tr_sequenceNo annals_row = 1\<close> by (simp_all add: court_crypto_def numbered_def annals_log getTransitions_log)
  then show ?thesis
    using failed_run_forks_chain [OF r] annals_state r by auto
qed

section \<open>Approvals\<close>

text \<open>
  The route that collects approvals archives the message when the last one arrives, but tells no one: no event is published, so neither
  the stream nor the bridge learns of it, and the cached definition of its genre stays, which the worker would have dropped.
\<close>

theorem approval_not_announced:
  "gw_channel (out_state (postApproval E clk hs i body g)) = gw_channel g
    \<and> gw_ti (out_state (postApproval E clk hs i body g)) \<in> {gw_ti g, gw_ti (out_state (resolveRuntime E clk g))}"
proof -
  define same :: "gateway \<Rightarrow> bool" where
    "same h \<longleftrightarrow> gw_channel h = gw_channel g \<and> gw_ti h \<in> {gw_ti g, gw_ti (out_state (resolveRuntime E clk g))}" for h
  have pipe: "same (out_state (on_pipe f h))" if "same h" for h and f :: "pipe \<Rightarrow> (pipe, 'x) out"
    using that by (auto simp: same_def on_pipe_def split: out.split)
  have law: "same (out_state (ask_law f h))" if "same h" for h and f :: "db \<Rightarrow> law_resolver \<Rightarrow> (err + 'x) \<times> law_resolver"
    using that by (auto simp: same_def ask_law_def split: prod.split sum.split)
  have ready: "same (out_state (resolveRuntime E clk g))"
    by (simp add: same_def)
  have finish: "same (out_state (case on_pipe f h of Done r h' \<Rightarrow> Done (k r) h' | Fail e h' \<Rightarrow> Done (k' e) h'))"
    if "same h" for h and f :: "pipe \<Rightarrow> (pipe, 'x) out" and k :: "'x \<Rightarrow> response" and k' :: "err \<Rightarrow> response"
    using pipe [OF that, of f] by (cases "on_pipe f h") simp_all
  have office: "same (out_state (approve_office E clk i m office h))" if "same h" for m office h
    unfolding approve_office_def Let_def on_archive_def
    by (rule and_then_state_inv [where P = same], rule pipe [OF that], rule and_then_state_inv [where P = same], erule law)
      (auto intro: finish)
  have "same (out_state (postApproval E clk hs i body g))"
  proof (cases "oversized hs")
    case None
    show ?thesis
      unfolding postApproval_def None option.case on_ready_def
      by (rule and_then_state_inv [where P = same], rule ready) (auto simp: with_body_def intro: office split: option.split json.split)
  qed (simp add: postApproval_def same_def)
  then show ?thesis by (simp add: same_def)
qed

section \<open>Guards that do not guard\<close>

text \<open>The amendment guard of \<open>POST /messages\<close> never refuses: a worker that it would stop is stopped by the hierarchy before.\<close>

lemma amendment_guard_dead:
  assumes "check_hierarchy m g = Done None g1"
  shows "check_amendment m g2 = Done None g2"
proof -
  have "\<not> canDraftGenre role ''blueprint_change''" if "startsWith role ''worker_''" for role
    using that by (simp add: canDraftGenre_def workerRole_def)
  moreover have "isImperialWorksGenre ''blueprint_change''" by (simp add: isImperialWorksGenre_def IMPERIAL_WORKS_GENRES_def)
  ultimately show ?thesis using assms by (auto simp: check_hierarchy_def check_amendment_def refuse_if_def)
qed

text \<open>A claimed time that is no date raises the alert and lets the message pass.\<close>

lemma undated_claim_passes:
  assumes "ms_of_iso claimed = None" "obj_get (e_metadata m) ''claimed_timestamp'' = Some (JStr claimed)"
    and "check_temporal E clk m g = Done r g'"
  shows "r = None"
  using assms by (auto simp: check_temporal_def out_simps refuse_if_def drifted_def)

end
