(* ===== verification/Cloudflare.thy ===== *)
theory Cloudflare
  imports Archive_Export
begin

text \<open>
  \<open>packages/archive/src/cloudflare.ts\<close>: the archive on Cloudflare D1, over the tables of \<open>Archive_Db\<close>. Its schema declares no foreign
  keys, its \<open>sha256\<close> is a rolling 32-bit hash, and a column that is read with \<open>x ? String(x) : undefined\<close> loses an empty string. A method
  is one step here: the statements of two requests do not interleave. \<open>initialize\<close> and \<open>migrate\<close> are left out.
\<close>

section \<open>The hash\<close>

fun js_hex :: "nat \<Rightarrow> string" where
  "js_hex n = (if n < 16 then [hex_digit n] else js_hex (n div 16) @ [hex_digit (n mod 16)])"

declare js_hex.simps [simp del]

definition padStart :: "nat \<Rightarrow> char \<Rightarrow> string \<Rightarrow> string" where
  "padStart n c s = replicate (n - length s) c @ s"

definition d1_rolling :: "32 word \<Rightarrow> string \<Rightarrow> 32 word" where
  "d1_rolling h input = foldl (\<lambda>h c. h * 31 + of_nat (of_char c)) h input"

definition d1_sha256 :: "string \<Rightarrow> string" where
  "d1_sha256 input = padStart 8 (CHR ''0'') (js_hex (unat (d1_rolling 0 input)))"

text \<open>\<open>x ? String(x) : undefined\<close>\<close>

definition text_or_undefined :: "string option \<Rightarrow> string option" where
  "text_or_undefined x = (case x of Some s \<Rightarrow> if s = [] then None else Some s | None \<Rightarrow> None)"

section \<open>Messages, transitions and seals\<close>

definition d1_appendMessage :: "iso \<Rightarrow> envelope \<Rightarrow> db \<Rightarrow> (db, unit) out" where
  "d1_appendMessage now m d =
     (let originNodeId = origin_node_of m;
          row = \<lparr>mr_id = e_id m, mr_genre = Some (e_genre m), mr_message = m, mr_seal_chain = [],
            mr_origin_node_id = Some originNodeId, mr_vector_clock = Some (vector_clock_of m),
            mr_content_hash = Some (d1_sha256 (stringify (JObj (e_payload m)))), mr_constitutional = is_constitutional m,
            mr_superseded_by = superseded_by_of (e_payload m), mr_received_at = now, mr_submitted_at = Some (e_submittedAt m),
            mr_archived_at = None\<rparr>
      in if e_id m \<in> message_ids d then Fail (Constraint ''UNIQUE messages.id'') d
         else Done () (d\<lparr>db_messages := db_messages d @ [row]\<rparr>))"

definition d1_getMessage :: "string \<Rightarrow> db \<Rightarrow> envelope option" where
  "d1_getMessage messageId d = map_option mr_message (find_row mr_id messageId (db_messages d))"

definition d1_snapshotState :: "string \<Rightarrow> db \<Rightarrow> message_state option" where
  "d1_snapshotState messageId d =
     map_option tr_toState (first_row (order_desc tr_sequenceNo (filter (\<lambda>r. tr_messageId r = messageId) (db_transitions d))))"

definition d1_indexArchivedMessage :: "string \<Rightarrow> iso \<Rightarrow> db \<Rightarrow> (db, unit) out" where
  "d1_indexArchivedMessage messageId sealedAt d =
     (case d1_getMessage messageId d of
        None \<Rightarrow> Done () d
      | Some m \<Rightarrow>
        (let payload = e_payload m;
             d1 = update_message messageId
               (\<lambda>r. r\<lparr>mr_constitutional := is_constitutional m, mr_superseded_by := superseded_by_of payload\<rparr>) d
         in if e_genre m = ''edict'' then
              (case as_str (obj_get payload ''law_type'') of
                 None \<Rightarrow> Done () d1
               | Some lawType \<Rightarrow>
                   (case js_Number (nullish (obj_get payload ''precedence'') (JNum 0 0)) of
                      None \<Rightarrow> Fail (Constraint ''NOT NULL edict_index.precedence'') d1
                    | Some p \<Rightarrow>
                        (let row = (edict_row_of m lawType p sealedAt)\<lparr>er_messageId := messageId\<rparr>
                         in Done () (d1\<lparr>db_edicts := upsert er_messageId row (\<lambda>_. row) (db_edicts d1)\<rparr>))))
            else if e_genre m = ''ti_definition'' then
              (case as_str (obj_get payload ''target_genre'') of
                 None \<Rightarrow> Done () d1
               | Some targetGenre \<Rightarrow>
                   (let row = (ti_row_of m targetGenre sealedAt)\<lparr>ti_messageId := messageId\<rparr>
                    in Done () (d1\<lparr>db_ti := upsert ti_messageId row (\<lambda>_. row) (db_ti d1)\<rparr>)))
            else Done () d1))"

definition d1_appendTransition :: "transition \<Rightarrow> db \<Rightarrow> (db, unit) out" where
  "d1_appendTransition t d =
     (let current = (case d1_snapshotState (t_messageId t) d of None \<Rightarrow> Pending | Some s \<Rightarrow> s);
          own = filter (\<lambda>r. tr_messageId r = t_messageId t) (db_transitions d)
      in if \<not> canTransition current (t_toState t) \<and> current \<noteq> t_fromState t
         then Fail (Error_msg (''Invalid transition '' @ state_str current @ '' -> '' @ state_str (t_toState t))) d
         else
          (let prev = first_row (order_desc tr_sequenceNo own);
               prevTransitionHash = (case t_prevTransitionHash t of Some h \<Rightarrow> h
                 | None \<Rightarrow> (case prev of Some r \<Rightarrow> tr_hash r | None \<Rightarrow> ''GENESIS''));
               row = \<lparr>tr_id = next_id ''transitions'' d, tr_messageId = t_messageId t, tr_fromState = t_fromState t,
                 tr_toState = t_toState t, tr_sequenceNo = t_sequenceNo t, tr_actorId = t_actorId t, tr_sealedAt = t_sealedAt t,
                 tr_reason = t_reason t, tr_prevHash = Some prevTransitionHash,
                 tr_hash = d1_sha256 (stringify (transition_json t prevTransitionHash)), tr_at = t_at t\<rparr>
           in if t_sequenceNo t \<in> tr_sequenceNo ` set own
              then Fail (Constraint ''UNIQUE transitions.message_id, transitions.sequence_no'') d
              else
               (let d1 = use_id ''transitions'' (d\<lparr>db_transitions := db_transitions d @ [row]\<rparr>)
                in if t_toState t = Archived
                   then (let sealedAt = (case t_sealedAt t of Some s \<Rightarrow> s | None \<Rightarrow> t_at t)
                         in d1_indexArchivedMessage (t_messageId t) sealedAt
                              (update_message (t_messageId t) (\<lambda>r. r\<lparr>mr_archived_at := Some sealedAt\<rparr>) d1))
                   else Done () d1)))"

definition d1_getTransitions :: "string \<Rightarrow> db \<Rightarrow> transition list" where
  "d1_getTransitions messageId d =
     map (\<lambda>r. \<lparr>t_messageId = tr_messageId r, t_fromState = tr_fromState r, t_toState = tr_toState r,
         t_sequenceNo = tr_sequenceNo r, t_actorId = text_or_undefined (tr_actorId r), t_reason = text_or_undefined (tr_reason r),
         t_sealedAt = text_or_undefined (tr_sealedAt r), t_prevTransitionHash = text_or_undefined (tr_prevHash r), t_at = tr_at r\<rparr>)
       (order_asc tr_sequenceNo (filter (\<lambda>r. tr_messageId r = messageId) (db_transitions d)))"

definition d1_stateAt :: "string \<Rightarrow> iso \<Rightarrow> db \<Rightarrow> message_state option" where
  "d1_stateAt messageId timestampIso d =
     map_option tr_toState (first_row (order_desc tr_sequenceNo
       (filter (\<lambda>r. tr_messageId r = messageId \<and> (case tr_sealedAt r of None \<Rightarrow> False | Some s \<Rightarrow> s \<le> timestampIso)) (db_transitions d))))"

definition d1_getSeals :: "string \<Rightarrow> db \<Rightarrow> seal_record list" where
  "d1_getSeals messageId d = order_asc s_createdAt (filter (\<lambda>s. s_messageId s = messageId) (db_seals d))"

definition d1_appendSeal :: "seal_record \<Rightarrow> db \<Rightarrow> (db, unit) out" where
  "d1_appendSeal seal d =
     (if s_sealId seal \<in> s_sealId ` set (db_seals d) then Fail (Constraint ''UNIQUE seals.seal_id'') d
      else (let d1 = d\<lparr>db_seals := db_seals d @ [seal]\<rparr>; seals = d1_getSeals (s_messageId seal) d1
            in Done () (update_message (s_messageId seal) (\<lambda>r. r\<lparr>mr_seal_chain := seals\<rparr>) d1)))"

section \<open>Docket, idempotency keys, approvals\<close>

definition d1_enqueueDocket :: "int \<Rightarrow> iso \<Rightarrow> string \<Rightarrow> db \<Rightarrow> (db, unit) out" where
  "d1_enqueueDocket now_ms nowIso messageId d =
     (let i = messageId @ '':'' @ int_str now_ms in
      if i \<in> dk_id ` set (db_docket d) then Fail (Constraint ''UNIQUE docket.id'') d
      else Done () (d\<lparr>db_docket := db_docket d @
        [\<lparr>dk_id = i, dk_messageId = messageId, dk_attempts = 0, dk_availableAt = nowIso\<rparr>]\<rparr>))"

definition d1_dequeueDocket :: "iso \<Rightarrow> db \<Rightarrow> docket_row option \<times> db" where
  "d1_dequeueDocket nowIso d =
     (case first_row (order_asc dk_availableAt (filter (\<lambda>r. dk_availableAt r \<le> nowIso) (db_docket d))) of
        None \<Rightarrow> (None, d)
      | Some row \<Rightarrow> (Some row, d\<lparr>db_docket := filter (\<lambda>r. dk_id r \<noteq> dk_id row) (db_docket d)\<rparr>))"

definition d1_getIdempotency :: "string \<Rightarrow> iso \<Rightarrow> db \<Rightarrow> (string \<times> string \<times> iso) option" where
  "d1_getIdempotency key nowIso d =
     (case find_row ik_key key (db_idempotency d) of
        None \<Rightarrow> None
      | Some row \<Rightarrow> (if ik_expiresAt row < nowIso then None else Some (ik_key row, ik_responseJson row, ik_expiresAt row)))"

definition d1_putIdempotency :: "iso \<Rightarrow> string \<Rightarrow> string \<Rightarrow> iso \<Rightarrow> db \<Rightarrow> db" where
  "d1_putIdempotency now key responseJson expiresAt d =
     d\<lparr>db_idempotency := upsert ik_key
         \<lparr>ik_key = key, ik_responseJson = responseJson, ik_expiresAt = expiresAt, ik_createdAt = now\<rparr>
         (\<lambda>r. r\<lparr>ik_responseJson := responseJson, ik_expiresAt := expiresAt\<rparr>) (db_idempotency d)\<rparr>"

definition d1_addOfficeApproval :: "iso \<Rightarrow> string \<Rightarrow> string \<Rightarrow> db \<Rightarrow> nat \<times> db" where
  "d1_addOfficeApproval now messageId office d =
     (let d1 = (if list_ex (\<lambda>r. oa_messageId r = messageId \<and> oa_office r = office) (db_approvals d) then d
            else d\<lparr>db_approvals := db_approvals d @ [\<lparr>oa_messageId = messageId, oa_office = office, oa_approvedAt = now\<rparr>]\<rparr>)
      in (length (filter (\<lambda>r. oa_messageId r = messageId) (db_approvals d1)), d1))"

definition d1_getOfficeApprovals :: "string \<Rightarrow> db \<Rightarrow> string list" where
  "d1_getOfficeApprovals messageId d =
     map oa_office (order_asc oa_office (filter (\<lambda>r. oa_messageId r = messageId) (db_approvals d)))"

section \<open>Definitions and laws\<close>

definition d1_getCurrentTiDefinition :: "string \<Rightarrow> iso \<Rightarrow> db \<Rightarrow> ti_definition_record option" where
  "d1_getCurrentTiDefinition genre atIso d =
     (let current = filter (\<lambda>t. ti_targetGenre t = genre \<and> ti_sealedAt t \<le> atIso
            \<and> \<not> list_ex (\<lambda>s. ti_targetGenre s = ti_targetGenre t \<and> ti_supersededBy s = Some (ti_messageId t) \<and> ti_sealedAt s \<le> atIso)
                (db_ti d)) (db_ti d)
      in map_option (\<lambda>t. \<lparr>tr_def_messageId = ti_messageId t, tr_def_targetGenre = ti_targetGenre t, tr_def_version = ti_version t,
           tr_def_schema = ti_schema t, tr_def_sealedAt = ti_sealedAt t\<rparr>)
         (first_row (order_desc (\<lambda>t. (ti_sealedAt t, ti_messageId t)) current)))"

definition d1_getActiveGenreSchema :: "string \<Rightarrow> iso \<Rightarrow> db \<Rightarrow> json option" where
  "d1_getActiveGenreSchema targetGenre now d = map_option tr_def_schema (d1_getCurrentTiDefinition targetGenre now d)"

definition d1_law_rows :: "law_type \<Rightarrow> iso \<Rightarrow> db \<Rightarrow> edict_row list" where
  "d1_law_rows lawType atIso d =
     order_desc (\<lambda>e. Law_rank (er_precedence e) (er_effectiveDate e) (er_sealedAt e) (er_messageId e))
       (filter (\<lambda>e. er_lawType e = law_type_str lawType \<and> er_effectiveDate e \<le> atIso
          \<and> \<not> list_ex (\<lambda>s. er_lawType s = er_lawType e \<and> er_supersededEdictId s = Some (er_messageId e) \<and> er_effectiveDate s \<le> atIso)
              (db_edicts d)) (db_edicts d))"

definition d1_getCurrentLaw :: "law_type \<Rightarrow> iso \<Rightarrow> db \<Rightarrow> err + resolved_law option" where
  "d1_getCurrentLaw lawType atIso d =
     (let resultRows = limit_rows 2 (d1_law_rows lawType atIso d);
          ambiguous = (case resultRows of
              a # b # _ \<Rightarrow> er_precedence a = er_precedence b \<and> er_effectiveDate a = er_effectiveDate b \<and> er_sealedAt a = er_sealedAt b
            | _ \<Rightarrow> False)
      in case resultRows of
           [] \<Rightarrow> Inr None
         | best # _ \<Rightarrow>
             if ambiguous then Inl (Error_msg ''ambiguous-law'')
             else Inr (Some \<lparr>rw_messageId = er_messageId best, rw_lawType = lawType, rw_version = er_version best,
               rw_content = er_content best, rw_precedence = er_precedence best, rw_effectiveDate = er_effectiveDate best,
               rw_sealedAt = er_sealedAt best\<rparr>))"

fun d1_law_set_loop :: "law_type list \<Rightarrow> iso \<Rightarrow> db \<Rightarrow> err + (law_type \<times> resolved_law option) list" where
  "d1_law_set_loop [] atIso d = Inr []"
| "d1_law_set_loop (t # ts) atIso d =
     (case d1_getCurrentLaw t atIso d of Inl e \<Rightarrow> Inl e
      | Inr l \<Rightarrow> (case d1_law_set_loop ts atIso d of Inl e \<Rightarrow> Inl e | Inr ls \<Rightarrow> Inr ((t, l) # ls)))"

definition d1_getLawSet :: "iso \<Rightarrow> db \<Rightarrow> err + (law_type \<times> resolved_law option) list" where
  "d1_getLawSet atIso d = d1_law_set_loop EdictLawTypeValues atIso d"

definition d1_getConstitutionalDocuments :: "db \<Rightarrow> (string \<times> iso) list" where
  "d1_getConstitutionalDocuments d =
     map (\<lambda>r. (mr_id r, the (mr_archived_at r)))
       (order_asc (\<lambda>r. (the (mr_archived_at r), mr_id r))
         (filter (\<lambda>r. mr_constitutional r \<and> mr_archived_at r \<noteq> None) (db_messages d)))"

section \<open>Merkle root, proofs and the sync range\<close>

text \<open>The leaves of the reads, alerts and checkpoints use the hash of this file, the tree that of \<open>merkle-dag.ts\<close>.\<close>

definition d1_collectMerkleLeaves :: "scope \<Rightarrow> db \<Rightarrow> string list \<times> (string \<times> string) list" where
  "d1_collectMerkleLeaves scope d =
     (let messageLeafRows = map (\<lambda>r. (mr_id r, case mr_content_hash r of Some h \<Rightarrow> h | None \<Rightarrow> mr_id r))
            (order_asc (\<lambda>r. (the (mr_archived_at r), mr_id r))
              (filter (\<lambda>r. mr_archived_at r \<noteq> None \<and> (scope = Constitutional \<longrightarrow> mr_constitutional r)
                 \<and> (scope = Legislative \<longrightarrow> mr_genre r = Some ''edict'')) (db_messages d)));
          leaves = map snd messageLeafRows;
          readRows = order_asc (\<lambda>r. (s0_query_timestamp r, s0_id r)) (db_seal0 d);
          alertRows = order_asc (\<lambda>a. (al_createdAt a, al_id a)) (db_alerts d);
          checkpointRows = order_asc (\<lambda>c. (ck_createdAt c, ck_id c)) (db_checkpoints d)
      in if scope = All_scope
         then (leaves @ map (\<lambda>r. d1_sha256 (s0_query_timestamp r @ '':'' @ s0_id r @ '':'' @ s0_result_hash r)) readRows
                 @ map (\<lambda>a. d1_sha256 (al_createdAt a @ '':'' @ al_id a)) alertRows
                 @ map (\<lambda>c. d1_sha256 (ck_createdAt c @ '':'' @ ck_id c)) checkpointRows, messageLeafRows)
         else (leaves, messageLeafRows))"

definition d1_getMerkleRoot :: "(string \<Rightarrow> string) \<Rightarrow> iso \<Rightarrow> scope \<Rightarrow> db \<Rightarrow> string \<times> db" where
  "d1_getMerkleRoot sha now scope d =
     (let rt = merkleRootForLeaves sha (fst (d1_collectMerkleLeaves scope d));
          row = \<lparr>as_scope = scope_str scope, as_merkleRoot = rt, as_updatedAt = now\<rparr>
      in (rt, d\<lparr>db_state := upsert as_scope row (\<lambda>r. r\<lparr>as_merkleRoot := rt, as_updatedAt := now\<rparr>) (db_state d)\<rparr>))"

definition d1_getMerkleProof :: "(string \<Rightarrow> string) \<Rightarrow> string \<Rightarrow> db \<Rightarrow> err + merkle_proof option" where
  "d1_getMerkleProof sha messageId d =
     (let (leaves, messageLeafRows) = d1_collectMerkleLeaves All_scope d in
      case find_index (\<lambda>r. fst r = messageId) messageLeafRows of
        None \<Rightarrow> Inr None
      | Some idx \<Rightarrow> (case buildMerkleProofFromLeaves sha leaves (int idx) of Inl e \<Rightarrow> Inl e | Inr p \<Rightarrow> Inr (Some p)))"

definition d1_getSyncRange :: "string \<Rightarrow> int \<Rightarrow> db \<Rightarrow> transition list" where
  "d1_getSyncRange fromCursor limit d =
     (let cursor = (case str_Number fromCursor of None \<Rightarrow> 0 | Some n \<Rightarrow> n) in
      map (\<lambda>r. \<lparr>t_messageId = tr_messageId r, t_fromState = tr_fromState r, t_toState = tr_toState r,
          t_sequenceNo = tr_sequenceNo r, t_actorId = text_or_undefined (tr_actorId r), t_reason = text_or_undefined (tr_reason r),
          t_sealedAt = text_or_undefined (tr_sealedAt r), t_prevTransitionHash = text_or_undefined (tr_prevHash r), t_at = tr_at r\<rparr>)
        (limit_rows limit (order_asc tr_id (filter (\<lambda>r. cursor < of_nat (tr_id r)) (db_transitions d)))))"

section \<open>Content store, gossip log and the tables of the bridge\<close>

definition d1_upsertContentBlob :: "string \<Rightarrow> content_payload \<Rightarrow> db \<Rightarrow> db" where
  "d1_upsertContentBlob hash payload d =
     (let raw = (case payload of Text_payload s \<Rightarrow> utf8ToBytes s | Bytes_payload b \<Rightarrow> b)
      in d\<lparr>db_content := upsert cs_hash \<lparr>cs_hash = hash, cs_blob = raw, cs_refCount = 1\<rparr>
           (\<lambda>r. r\<lparr>cs_refCount := cs_refCount r + 1\<rparr>) (db_content d)\<rparr>)"

definition d1_getContentBlob :: "string \<Rightarrow> db \<Rightarrow> bytes option" where
  "d1_getContentBlob hash d = map_option cs_blob (find_row cs_hash hash (db_content d))"

definition d1_appendGossipLog :: "gossip_entry \<Rightarrow> db \<Rightarrow> db" where
  "d1_appendGossipLog e d = use_id ''gossip_log'' (d\<lparr>db_gossip := db_gossip d @
     [\<lparr>gl_id = next_id ''gossip_log'' d, gl_messageId = ge_messageId e, gl_peerNodeId = ge_peerNodeId e,
       gl_sealSeq = ge_sealSeq e, gl_receivedAt = ge_receivedAt e, gl_kind = ge_kind e\<rparr>]\<rparr>)"

definition d1_appendForeignRejected :: "foreign_rejected \<Rightarrow> db \<Rightarrow> db" where
  "d1_appendForeignRejected e d = use_id ''foreign_rejected'' (d\<lparr>db_foreign_rejected := db_foreign_rejected d @
     [\<lparr>fr_id = next_id ''foreign_rejected'' d, fr_adapterId = fj_adapterId e, fr_foreignId = fj_foreignId e,
       fr_reasonCode = fj_reasonCode e, fr_reasonDetail = fj_reasonDetail e, fr_payloadJson = fj_payloadJson e,
       fr_receivedAt = fj_receivedAt e\<rparr>]\<rparr>)"

definition d1_upsertForeignSyncState :: "foreign_sync_row \<Rightarrow> db \<Rightarrow> db" where
  "d1_upsertForeignSyncState e d = d\<lparr>db_foreign_sync := upsert fs_documentId e (\<lambda>_. e) (db_foreign_sync d)\<rparr>"

definition d1_getForeignSyncState :: "string \<Rightarrow> db \<Rightarrow> foreign_sync_row option" where
  "d1_getForeignSyncState documentId d = find_row fs_documentId documentId (db_foreign_sync d)"

definition d1_enqueueBridgeOutbound :: "string \<Rightarrow> string \<Rightarrow> iso \<Rightarrow> db \<Rightarrow> db" where
  "d1_enqueueBridgeOutbound adapterId messageId availableAt d =
     use_id ''bridge_outbound_queue'' (d\<lparr>db_outbound := db_outbound d @
       [\<lparr>bo_id = next_id ''bridge_outbound_queue'' d, bo_adapterId = adapterId, bo_messageId = messageId,
         bo_attempts = 0, bo_availableAt = availableAt, bo_lastError = None, bo_status = Queued\<rparr>]\<rparr>)"

definition d1_dequeueBridgeOutbound :: "iso \<Rightarrow> int \<Rightarrow> db \<Rightarrow> outbound_row list" where
  "d1_dequeueBridgeOutbound nowIso limit d =
     map (\<lambda>r. r\<lparr>bo_lastError := text_or_undefined (bo_lastError r)\<rparr>)
       (limit_rows limit (order_asc (\<lambda>r. (bo_availableAt r, bo_id r))
         (filter (\<lambda>r. bo_availableAt r \<le> nowIso \<and> bo_status r \<in> {Queued, Failed_status}) (db_outbound d))))"

definition d1_markBridgeOutboundResult :: "iso \<Rightarrow> nat \<Rightarrow> outbound_status \<Rightarrow> string option \<Rightarrow> db \<Rightarrow> db" where
  "d1_markBridgeOutboundResult now i status lastError d =
     (if status = Sent then d\<lparr>db_outbound := filter (\<lambda>r. bo_id r \<noteq> i) (db_outbound d)\<rparr>
      else d\<lparr>db_outbound := update_where (\<lambda>r. bo_id r = i)
        (\<lambda>r. r\<lparr>bo_status := status, bo_attempts := bo_attempts r + 1, bo_lastError := lastError, bo_availableAt := now\<rparr>)
        (db_outbound d)\<rparr>)"

definition d1_setSiteStatus :: "iso \<Rightarrow> site_status \<Rightarrow> string option \<Rightarrow> db \<Rightarrow> db" where
  "d1_setSiteStatus now status reason d =
     (let v = JObj [(''status'', JStr (site_str status)), (''reason'', opt_json reason)]
      in d\<lparr>db_site := upsert sr_key \<lparr>sr_key = ''site_status'', sr_value = v, sr_updatedAt = now\<rparr>
           (\<lambda>r. r\<lparr>sr_value := v, sr_updatedAt := now\<rparr>) (db_site d)\<rparr>)"

definition d1_getSiteStatus :: "db \<Rightarrow> site_status" where
  "d1_getSiteStatus d =
     (case find_row sr_key ''site_status'' (db_site d) of
        None \<Rightarrow> Active
      | Some row \<Rightarrow>
          (case sr_value row of
             JObj ps \<Rightarrow>
               (if obj_get ps ''status'' = Some (JStr ''ACTIVE'') then Active
                else if obj_get ps ''status'' = Some (JStr ''QUARANTINED'') then Quarantined
                else if obj_get ps ''status'' = Some (JStr ''RESUMED'') then Resumed
                else Active)
           | _ \<Rightarrow> Active))"

definition d1_appendBridgeDeadLetter :: "dead_letter \<Rightarrow> db \<Rightarrow> db" where
  "d1_appendBridgeDeadLetter e d = use_id ''bridge_dead_letter'' (d\<lparr>db_dead_letter := db_dead_letter d @
     [\<lparr>dl_id = next_id ''bridge_dead_letter'' d, dl_adapterId = de_adapterId e, dl_messageId = de_messageId e,
       dl_payloadJson = de_payloadJson e, dl_reason = de_reason e, dl_attempts = de_attempts e,
       dl_nextRetryAt = de_nextRetryAt e, dl_createdAt = de_createdAt e\<rparr>]\<rparr>)"

definition d1_dequeueBridgeDeadLetter :: "iso \<Rightarrow> int \<Rightarrow> db \<Rightarrow> dead_letter_row list" where
  "d1_dequeueBridgeDeadLetter nowIso limit d =
     map (\<lambda>r. r\<lparr>dl_messageId := text_or_undefined (dl_messageId r)\<rparr>)
       (limit_rows limit (order_asc (\<lambda>r. (dl_nextRetryAt r, dl_id r)) (filter (\<lambda>r. dl_nextRetryAt r \<le> nowIso) (db_dead_letter d))))"

definition d1_markBridgeDeadLetterResult :: "iso \<Rightarrow> nat \<Rightarrow> bool \<Rightarrow> iso option \<Rightarrow> string option \<Rightarrow> db \<Rightarrow> db" where
  "d1_markBridgeDeadLetterResult now i success nextRetryAt reason d =
     (if success then d\<lparr>db_dead_letter := filter (\<lambda>r. dl_id r \<noteq> i) (db_dead_letter d)\<rparr>
      else d\<lparr>db_dead_letter := update_where (\<lambda>r. dl_id r = i)
        (\<lambda>r. r\<lparr>dl_attempts := dl_attempts r + 1, dl_nextRetryAt := (case nextRetryAt of None \<Rightarrow> now | Some t \<Rightarrow> t),
               dl_reason := (case reason of None \<Rightarrow> ''retry'' | Some x \<Rightarrow> x)\<rparr>) (db_dead_letter d)\<rparr>)"

section \<open>Read receipts, alerts, checkpoints and the bundle\<close>

definition d1_appendSeal0Receipt :: "seal0_row \<Rightarrow> db \<Rightarrow> (db, unit) out" where
  "d1_appendSeal0Receipt r d =
     (if s0_id r \<in> s0_id ` set (db_seal0 d) then Fail (Constraint ''UNIQUE seal_0_log.id'') d
      else Done () (d\<lparr>db_seal0 := db_seal0 d @ [r]\<rparr>))"

definition d1_querySeal0ByDocument :: "string \<Rightarrow> receipt_filters \<Rightarrow> db \<Rightarrow> seal0_row list" where
  "d1_querySeal0ByDocument documentId filters d =
     limit_rows (or_limit (rf_limit filters)) (order_desc s0_query_timestamp
       (filter (\<lambda>r. s0_document_id r = Some documentId
          \<and> (case rf_since filters of None \<Rightarrow> True | Some t \<Rightarrow> t \<le> s0_query_timestamp r)
          \<and> (case rf_actorId filters of None \<Rightarrow> True | Some a \<Rightarrow> s0_actor_id r = a)) (db_seal0 d)))"

definition d1_querySeal0ByGenre :: "string \<Rightarrow> receipt_filters \<Rightarrow> db \<Rightarrow> seal0_row list" where
  "d1_querySeal0ByGenre genre filters d =
     limit_rows (or_limit (rf_limit filters)) (order_desc s0_query_timestamp
       (filter (\<lambda>r. s0_genre r = Some genre
          \<and> (case rf_since filters of None \<Rightarrow> True | Some t \<Rightarrow> t \<le> s0_query_timestamp r)
          \<and> (case rf_actorId filters of None \<Rightarrow> True | Some a \<Rightarrow> s0_actor_id r = a)) (db_seal0 d)))"

definition d1_appendCensorateAlert :: "int \<Rightarrow> censorate_alert \<Rightarrow> db \<Rightarrow> (db, unit) out" where
  "d1_appendCensorateAlert now_ms a d =
     (let i = (case ca_id a of Some x \<Rightarrow> x | None \<Rightarrow> ca_alertType a @ '':'' @ int_str now_ms) in
      if i \<in> al_id ` set (db_alerts d) then Fail (Constraint ''UNIQUE censorate_alerts.id'') d
      else Done () (d\<lparr>db_alerts := db_alerts d @
        [\<lparr>al_id = i, al_alertType = ca_alertType a, al_severity = ca_severity a, al_actorId = ca_actorId a,
          al_nodeId = ca_nodeId a, al_evidence = ca_evidence a, al_createdAt = ca_createdAt a,
          al_actionTaken = ca_actionTaken a\<rparr>]\<rparr>))"

definition d1_queryCensorateAlerts :: "alert_window \<Rightarrow> db \<Rightarrow> alert_row list" where
  "d1_queryCensorateAlerts window d =
     limit_rows (or_limit (aw_limit window)) (order_desc al_createdAt
       (filter (\<lambda>r. (case aw_since window of None \<Rightarrow> True | Some t \<Rightarrow> t \<le> al_createdAt r)
          \<and> (case aw_type window of None \<Rightarrow> True | Some t \<Rightarrow> al_alertType r = t)) (db_alerts d)))"

definition d1_appendAuditCheckpoint :: "audit_checkpoint \<Rightarrow> db \<Rightarrow> (db, unit) out" where
  "d1_appendAuditCheckpoint e d =
     (let i = (case ac_id e of Some x \<Rightarrow> x | None \<Rightarrow> ''checkpoint:'' @ scope_str (ac_scope e) @ '':'' @ ac_createdAt e) in
      if i \<in> ck_id ` set (db_checkpoints d) then Fail (Constraint ''UNIQUE audit_checkpoints.id'') d
      else Done () (d\<lparr>db_checkpoints := db_checkpoints d @
        [\<lparr>ck_id = i, ck_scope = scope_str (ac_scope e), ck_merkleRoot = ac_merkleRoot e, ck_sealCount = ac_sealCount e,
          ck_nodeSignatures = ac_nodeSignatures e, ck_createdAt = ac_createdAt e\<rparr>]\<rparr>))"

fun d1_export_proofs :: "(string \<Rightarrow> string) \<Rightarrow> db \<Rightarrow> string list \<Rightarrow> err + (string \<times> merkle_proof) list" where
  "d1_export_proofs sha d [] = Inr []"
| "d1_export_proofs sha d (i # is) =
     (case d1_getMerkleProof sha i d of
        Inl e \<Rightarrow> Inl e
      | Inr p \<Rightarrow> (case d1_export_proofs sha d is of
          Inl e \<Rightarrow> Inl e
        | Inr ps \<Rightarrow> Inr (case p of None \<Rightarrow> ps | Some x \<Rightarrow> (i, x) # ps)))"

text \<open>\<open>row.submittedAt ?? row.submitted_at ?? ''\<close>: the first column does not exist.\<close>

definition d1_message_json :: "message_row \<Rightarrow> json" where
  "d1_message_json r = (let m = mr_message r in JObj [
     (''id'', JStr (mr_id r)), (''genre'', String_column (mr_genre r)), (''payload'', JObj (e_payload m)),
     (''actor'', JObj [(''id'', JStr (e_actor_id m)), (''role'', JStr (e_actor_role m))]),
     (''submitted_at'', JStr (case mr_submitted_at r of None \<Rightarrow> [] | Some s \<Rightarrow> s)), (''metadata'', JObj (e_metadata m)),
     (''archived_at'', String_column (mr_archived_at r))])"

definition d1_exportAuditBundle :: "(string \<Rightarrow> string) \<Rightarrow> bundle_input \<Rightarrow> db \<Rightarrow> err + json" where
  "d1_exportAuditBundle sha input d =
     (let readRows = order_asc s0_query_timestamp (filter (\<lambda>r. in_period input (s0_query_timestamp r)) (db_seal0 d));
          messageRows = order_asc (\<lambda>r. (the (mr_archived_at r), mr_id r))
            (filter (\<lambda>r. case mr_archived_at r of None \<Rightarrow> False | Some t \<Rightarrow> in_period input t) (db_messages d));
          messageIds = map mr_id messageRows;
          transitionRows = (if messageIds = [] then []
            else order_asc (\<lambda>r. (tr_messageId r, tr_sequenceNo r)) (filter (\<lambda>r. tr_messageId r \<in> set messageIds) (db_transitions d)));
          sealRows = (if messageIds = [] then []
            else order_asc (\<lambda>s. (s_messageId s, s_createdAt s)) (filter (\<lambda>s. s_messageId s \<in> set messageIds) (db_seals d)));
          by_root = (case bi_merkleRoot input of None \<Rightarrow> (\<lambda>c. True) | Some r \<Rightarrow> (\<lambda>c. r = [] \<or> ck_merkleRoot c = r));
          checkpoint = first_row (order_desc ck_createdAt (filter by_root (db_checkpoints d)));
          normalizedCheckpoint = map_option checkpoint_json checkpoint
      in case d1_export_proofs sha d messageIds of
           Inl e \<Rightarrow> Inl e
         | Inr proofs \<Rightarrow>
             (let bundleCore =
                (case normalizedCheckpoint of None \<Rightarrow> [] | Some c \<Rightarrow> [(''checkpoint'', c)])
                @ [(''reads'', JArr (map read_json readRows)), (''messages'', JArr (map d1_message_json messageRows)),
                   (''transitions'', JArr (map transition_row_json transitionRows)),
                   (''seals'', JArr (map seal_row_json sealRows)), (''proofs'', JArr (map proof_json proofs))]
              in Inr (JObj (bundleCore @ [
                (''digest'', JStr (d1_sha256 (stringify (case normalizedCheckpoint of None \<Rightarrow> JObj [] | Some c \<Rightarrow> c)))),
                (''bundle_digest'', JStr (d1_sha256 (stringify (JObj bundleCore)))),
                (''verification_scope'', JStr ''checkpoint-digest-only''),
                (''cryptographic_completeness'', JStr ''partial'')]))))"

end
