(* ===== verification/Cloudflare_Correct.thy ===== *)
theory Cloudflare_Correct
  imports Cloudflare
begin

text \<open>
  The two implementations of \<open>ArchiveRepository\<close> against each other. Every write of D1 is the write of the SQLite store with the rolling hash
  in place of SHA-256, except where SQLite refuses a dangling reference; what a repository promises about messages and their states is the
  locale \<open>message_store\<close>, of which both are instances, and \<open>referential_store\<close>, of which only SQLite is one.
\<close>

section \<open>Reads\<close>

named_theorems d1_reads

lemma d1_getMessage [d1_reads]: "d1_getMessage = getMessage"
  by (simp add: fun_eq_iff d1_getMessage_def getMessage_def)

lemma d1_snapshotState [d1_reads]: "d1_snapshotState = snapshotState"
  by (simp add: fun_eq_iff d1_snapshotState_def snapshotState_def last_row_def rows_of_def)

lemma d1_getSeals [d1_reads]: "d1_getSeals = getSeals"
  by (simp add: fun_eq_iff d1_getSeals_def getSeals_def)

lemma d1_stateAt [d1_reads]: "d1_stateAt = stateAt"
  by (simp add: fun_eq_iff d1_stateAt_def stateAt_def rows_of_def conj_commute)

lemma d1_getIdempotency [d1_reads]: "d1_getIdempotency = getIdempotency"
  by (simp add: fun_eq_iff d1_getIdempotency_def getIdempotency_def)

lemma d1_getOfficeApprovals [d1_reads]: "d1_getOfficeApprovals = getOfficeApprovals"
  by (simp add: fun_eq_iff d1_getOfficeApprovals_def getOfficeApprovals_def)

lemma d1_getCurrentTiDefinition [d1_reads]: "d1_getCurrentTiDefinition = getCurrentTiDefinition"
  by (simp add: fun_eq_iff d1_getCurrentTiDefinition_def getCurrentTiDefinition_def ti_candidates_def ti_superseding_def [abs_def])

lemma d1_getCurrentLaw [d1_reads]: "d1_getCurrentLaw = getCurrentLaw"
proof (intro ext)
  fix t now d
  have rows: "d1_law_rows t now d = order_desc edict_rank (law_candidates t now d)"
    unfolding d1_law_rows_def law_candidates_def in_force_def superseding_def edict_rank_def [abs_def] by (simp add: conj_ac)
  show "d1_getCurrentLaw t now d = getCurrentLaw t now d"
    unfolding d1_getCurrentLaw_def getCurrentLaw_def rows Let_def
    by (auto simp: tied_def law_of_row_def split: list.split)
qed

lemma d1_getLawSet [d1_reads]: "d1_getLawSet = getLawSet"
proof -
  have "d1_law_set_loop ts now d = law_set_loop ts now d" for ts now d
    by (induction ts) (simp_all add: d1_getCurrentLaw split: sum.splits)
  then show ?thesis by (simp add: fun_eq_iff d1_getLawSet_def getLawSet_def)
qed

lemma d1_getConstitutionalDocuments [d1_reads]: "d1_getConstitutionalDocuments = getConstitutionalDocuments"
  by (simp add: fun_eq_iff d1_getConstitutionalDocuments_def getConstitutionalDocuments_def)

lemma d1_collectMerkleLeaves: "d1_collectMerkleLeaves = collectMerkleLeaves d1_sha256"
  by (simp add: fun_eq_iff d1_collectMerkleLeaves_def collectMerkleLeaves_def message_leaf_rows_def Let_def)

lemma d1_queries [d1_reads]:
  "d1_querySeal0ByDocument = querySeal0ByDocument" "d1_querySeal0ByGenre = querySeal0ByGenre"
  "d1_queryCensorateAlerts = queryCensorateAlerts" "d1_getSiteStatus = getSiteStatus" "d1_getForeignSyncState = getForeignSyncState"
  "d1_getContentBlob = getContentBlob"
  by (auto simp: fun_eq_iff d1_querySeal0ByDocument_def querySeal0ByDocument_def d1_querySeal0ByGenre_def querySeal0ByGenre_def receipt_matches_def
      d1_queryCensorateAlerts_def queryCensorateAlerts_def d1_getSiteStatus_def getSiteStatus_def d1_getForeignSyncState_def
      getForeignSyncState_def d1_getContentBlob_def getContentBlob_def split: option.split json.split)

text \<open>Columns read with a truth test lose the empty string.\<close>

definition without_empty :: "transition \<Rightarrow> transition" where
  "without_empty t = t\<lparr>t_actorId := text_or_undefined (t_actorId t), t_reason := text_or_undefined (t_reason t),
     t_sealedAt := text_or_undefined (t_sealedAt t), t_prevTransitionHash := text_or_undefined (t_prevTransitionHash t)\<rparr>"

lemma d1_getTransitions: "d1_getTransitions i d = map without_empty (getTransitions i d)"
  by (simp add: d1_getTransitions_def getTransitions_def rows_of_def without_empty_def transition_of_row_def)

lemma d1_getSyncRange: "d1_getSyncRange c n d = map without_empty (getSyncRange c n d)"
  by (simp add: d1_getSyncRange_def getSyncRange_def cursor_of_def Let_def without_empty_def transition_of_row_def)

section \<open>Writes\<close>

text \<open>The two agree on a step: the same outcome, or SQLite has refused a reference.\<close>

definition same_or_dangling :: "('s, 'a) out \<Rightarrow> ('s, 'a) out \<Rightarrow> bool" where
  "same_or_dangling sqlite d1 \<longleftrightarrow> sqlite = d1 \<or> (\<exists>d. sqlite = Fail (Constraint ''FOREIGN KEY'') d)"

lemma same_refl [simp]: "same_or_dangling x x"
  by (simp add: same_or_dangling_def)

lemma dangling [simp]: "same_or_dangling (Fail (Constraint ''FOREIGN KEY'') d) y"
  by (simp add: same_or_dangling_def)

lemma same_if: "(b \<Longrightarrow> same_or_dangling x x') \<Longrightarrow> (\<not> b \<Longrightarrow> same_or_dangling y y') \<Longrightarrow>
    same_or_dangling (if b then x else y) (if b then x' else y')"
  by simp

lemma d1_message: "same_or_dangling (appendMessage d1_sha256 now m d) (d1_appendMessage now m d)"
  by (simp add: appendMessage_def d1_appendMessage_def message_row_of_def Let_def)

lemma d1_index: "same_or_dangling (indexArchivedMessage i t d) (d1_indexArchivedMessage i t d)"
  by (cases "getMessage i d") (simp_all add: indexArchivedMessage_def d1_indexArchivedMessage_def d1_reads Let_def)

lemma d1_transition: "same_or_dangling (appendTransition d1_sha256 t d) (d1_appendTransition t d)"
proof -
  define own where "own = rows_of (t_messageId t) d"
  have own: "filter (\<lambda>r. tr_messageId r = t_messageId t) (db_transitions d) = own" by (simp add: own_def rows_of_def)
  show ?thesis
    unfolding appendTransition_def d1_appendTransition_def d1_reads own Let_def transition_row_of_def prev_hash_for_def last_row_def
      own_def [symmetric]
    using d1_index by (cases "t_messageId t \<in> message_ids d") simp_all
qed

lemma d1_seal: "same_or_dangling (appendSeal s d) (d1_appendSeal s d)"
  by (simp add: appendSeal_def d1_appendSeal_def d1_reads Let_def)

lemma d1_enqueue: "same_or_dangling (enqueueDocket ms now i d) (d1_enqueueDocket ms now i d)"
  by (simp add: enqueueDocket_def d1_enqueueDocket_def Let_def)

lemma d1_receipt: "d1_appendSeal0Receipt r d = appendSeal0Receipt r d"
  by (simp add: d1_appendSeal0Receipt_def appendSeal0Receipt_def)

lemma d1_alert: "d1_appendCensorateAlert ms a d = appendCensorateAlert ms a d"
  by (simp add: d1_appendCensorateAlert_def appendCensorateAlert_def)

lemma d1_checkpoint: "d1_appendAuditCheckpoint e d = appendAuditCheckpoint e d"
  by (simp add: d1_appendAuditCheckpoint_def appendAuditCheckpoint_def)

lemma d1_plain_writes:
  "d1_dequeueDocket = dequeueDocket" "d1_putIdempotency = putIdempotency" "d1_upsertContentBlob = upsertContentBlob"
  "d1_appendGossipLog = appendGossipLog" "d1_appendForeignRejected = appendForeignRejected"
  "d1_markBridgeOutboundResult = markBridgeOutboundResult" "d1_setSiteStatus = setSiteStatus"
  "d1_appendBridgeDeadLetter = appendBridgeDeadLetter" "d1_markBridgeDeadLetterResult = markBridgeDeadLetterResult"
  by (auto simp: fun_eq_iff d1_dequeueDocket_def dequeueDocket_def d1_putIdempotency_def putIdempotency_def d1_upsertContentBlob_def
      upsertContentBlob_def d1_appendGossipLog_def appendGossipLog_def d1_appendForeignRejected_def appendForeignRejected_def
      d1_markBridgeOutboundResult_def markBridgeOutboundResult_def d1_setSiteStatus_def setSiteStatus_def
      d1_appendBridgeDeadLetter_def appendBridgeDeadLetter_def d1_markBridgeDeadLetterResult_def markBridgeDeadLetterResult_def)

text \<open>The writes of the interface, and what each store does with them. The counts and rows they return are dropped.\<close>

datatype archive_write =
    W_message iso envelope
  | W_transition transition
  | W_seal seal_record
  | W_docket int iso string
  | W_dequeue iso
  | W_idempotency iso string string iso
  | W_approval iso string string
  | W_blob string content_payload
  | W_gossip gossip_entry
  | W_rejected foreign_rejected
  | W_sync_state foreign_sync_row
  | W_outbound string string iso
  | W_mark_outbound iso nat outbound_status "string option"
  | W_site iso site_status "string option"
  | W_letter dead_letter
  | W_mark_letter iso nat bool "iso option" "string option"
  | W_receipt seal0_row
  | W_alert int censorate_alert
  | W_checkpoint audit_checkpoint

fun no_result :: "(db, 'a) out \<Rightarrow> (db, unit) out" where
  "no_result (Done x d) = Done () d"
| "no_result (Fail e d) = Fail e d"

fun sqlite_write :: "(string \<Rightarrow> string) \<Rightarrow> archive_write \<Rightarrow> db \<Rightarrow> (db, unit) out" where
  "sqlite_write sha (W_message now m) d = appendMessage sha now m d"
| "sqlite_write sha (W_transition t) d = appendTransition sha t d"
| "sqlite_write sha (W_seal s) d = appendSeal s d"
| "sqlite_write sha (W_docket ms now i) d = enqueueDocket ms now i d"
| "sqlite_write sha (W_dequeue now) d = Done () (snd (dequeueDocket now d))"
| "sqlite_write sha (W_idempotency now k r x) d = Done () (putIdempotency now k r x d)"
| "sqlite_write sha (W_approval now i office) d = no_result (addOfficeApproval now i office d)"
| "sqlite_write sha (W_blob h b) d = Done () (upsertContentBlob h b d)"
| "sqlite_write sha (W_gossip g) d = Done () (appendGossipLog g d)"
| "sqlite_write sha (W_rejected r) d = Done () (appendForeignRejected r d)"
| "sqlite_write sha (W_sync_state e) d = upsertForeignSyncState e d"
| "sqlite_write sha (W_outbound a i now) d = enqueueBridgeOutbound a i now d"
| "sqlite_write sha (W_mark_outbound now i st e) d = Done () (markBridgeOutboundResult now i st e d)"
| "sqlite_write sha (W_site now st r) d = Done () (setSiteStatus now st r d)"
| "sqlite_write sha (W_letter l) d = Done () (appendBridgeDeadLetter l d)"
| "sqlite_write sha (W_mark_letter now i b t r) d = Done () (markBridgeDeadLetterResult now i b t r d)"
| "sqlite_write sha (W_receipt r) d = appendSeal0Receipt r d"
| "sqlite_write sha (W_alert ms a) d = appendCensorateAlert ms a d"
| "sqlite_write sha (W_checkpoint e) d = appendAuditCheckpoint e d"

fun d1_write :: "archive_write \<Rightarrow> db \<Rightarrow> (db, unit) out" where
  "d1_write (W_message now m) d = d1_appendMessage now m d"
| "d1_write (W_transition t) d = d1_appendTransition t d"
| "d1_write (W_seal s) d = d1_appendSeal s d"
| "d1_write (W_docket ms now i) d = d1_enqueueDocket ms now i d"
| "d1_write (W_dequeue now) d = Done () (snd (d1_dequeueDocket now d))"
| "d1_write (W_idempotency now k r x) d = Done () (d1_putIdempotency now k r x d)"
| "d1_write (W_approval now i office) d = Done () (snd (d1_addOfficeApproval now i office d))"
| "d1_write (W_blob h b) d = Done () (d1_upsertContentBlob h b d)"
| "d1_write (W_gossip g) d = Done () (d1_appendGossipLog g d)"
| "d1_write (W_rejected r) d = Done () (d1_appendForeignRejected r d)"
| "d1_write (W_sync_state e) d = Done () (d1_upsertForeignSyncState e d)"
| "d1_write (W_outbound a i now) d = Done () (d1_enqueueBridgeOutbound a i now d)"
| "d1_write (W_mark_outbound now i st e) d = Done () (d1_markBridgeOutboundResult now i st e d)"
| "d1_write (W_site now st r) d = Done () (d1_setSiteStatus now st r d)"
| "d1_write (W_letter l) d = Done () (d1_appendBridgeDeadLetter l d)"
| "d1_write (W_mark_letter now i b t r) d = Done () (d1_markBridgeDeadLetterResult now i b t r d)"
| "d1_write (W_receipt r) d = d1_appendSeal0Receipt r d"
| "d1_write (W_alert ms a) d = d1_appendCensorateAlert ms a d"
| "d1_write (W_checkpoint e) d = d1_appendAuditCheckpoint e d"

fun run_writes :: "(archive_write \<Rightarrow> db \<Rightarrow> (db, unit) out) \<Rightarrow> archive_write list \<Rightarrow> db \<Rightarrow> (db, unit) out" where
  "run_writes step [] d = Done () d"
| "run_writes step (w # ws) d = and_then (step w d) (\<lambda>_. run_writes step ws)"

lemma d1_step: "same_or_dangling (sqlite_write d1_sha256 w d) (d1_write w d)"
proof (cases w)
  case (W_approval now i office)
  then show ?thesis by (simp add: addOfficeApproval_def d1_addOfficeApproval_def Let_def)
next
  case (W_sync_state e)
  then show ?thesis by (simp add: upsertForeignSyncState_def d1_upsertForeignSyncState_def)
next
  case (W_outbound a i now)
  then show ?thesis by (simp add: enqueueBridgeOutbound_def d1_enqueueBridgeOutbound_def)
qed (simp_all add: d1_message d1_transition d1_seal d1_enqueue d1_receipt d1_alert d1_checkpoint d1_plain_writes)

section \<open>What a repository promises about messages\<close>

locale message_store =
  fixes add_message :: "iso \<Rightarrow> envelope \<Rightarrow> db \<Rightarrow> (db, unit) out"
    and add_transition :: "transition \<Rightarrow> db \<Rightarrow> (db, unit) out"
    and find_message :: "string \<Rightarrow> db \<Rightarrow> envelope option"
    and current_state :: "string \<Rightarrow> db \<Rightarrow> message_state option"
    and numbers :: "string \<Rightarrow> db \<Rightarrow> int set"
  assumes message_found: "add_message now m d = Done u d' \<Longrightarrow> find_message (e_id m) d' = Some m"
    and message_state_kept: "add_message now m d = Done u d' \<Longrightarrow> current_state i d' = current_state i d \<and> numbers i d' = numbers i d"
    and transition_moves: "add_transition t d = Done u d' \<Longrightarrow> \<forall>n\<in>numbers (t_messageId t) d. n < t_sequenceNo t
      \<Longrightarrow> current_state (t_messageId t) d' = Some (t_toState t)"
    and transition_numbers: "add_transition t d = Done u d' \<Longrightarrow> numbers (t_messageId t) d' = insert (t_sequenceNo t) (numbers (t_messageId t) d)"
    and transition_messages: "add_transition t d = Done u d' \<Longrightarrow> find_message i d' = find_message i d"
begin

fun walk :: "transition list \<Rightarrow> db \<Rightarrow> (db, unit) out" where
  "walk [] d = Done () d"
| "walk (t # ts) d = and_then (add_transition t d) (\<lambda>_. walk ts)"

lemma walk_messages: "walk ts d = Done u d' \<Longrightarrow> find_message i d' = find_message i d"
proof (induction ts arbitrary: d)
  case (Cons t ts)
  from Cons.prems obtain d1 where "add_transition t d = Done () d1" "walk ts d1 = Done u d'"
    by (cases "add_transition t d") auto
  with Cons.IH transition_messages show ?case by metis
qed simp

lemma walk_reaches:
  assumes "walk ts d = Done u d'" "\<forall>t\<in>set ts. t_messageId t = i" "sorted_wrt (<) (map t_sequenceNo ts)" "ts \<noteq> []"
    "\<forall>n\<in>numbers i d. \<forall>t\<in>set ts. n < t_sequenceNo t"
  shows "current_state i d' = Some (t_toState (last ts))"
  using assms
proof (induction ts arbitrary: d)
  case (Cons t ts)
  from Cons.prems(1) obtain d1 where d1: "add_transition t d = Done () d1" "walk ts d1 = Done u d'"
    by (cases "add_transition t d") auto
  have i: "t_messageId t = i" using Cons.prems(2) by simp
  show ?case
  proof (cases "ts = []")
    case True
    with d1 transition_moves [OF d1(1)] Cons.prems(5) i show ?thesis by simp
  next
    case False
    have "numbers i d1 = insert (t_sequenceNo t) (numbers i d)" using transition_numbers [OF d1(1)] i by simp
    then have "current_state i d' = Some (t_toState (last ts))"
      using Cons.prems False by (intro Cons.IH [OF d1(2)]) auto
    with False show ?thesis by simp
  qed
qed simp

end

locale referential_store = message_store +
  assumes transition_known: "add_transition t d = Done u d' \<Longrightarrow> find_message (t_messageId t) d \<noteq> None"
begin

lemma walk_known:
  assumes "walk ts d = Done u d'" "t \<in> set ts"
  shows "find_message (t_messageId t) d' \<noteq> None"
  using assms
proof (induction ts arbitrary: d)
  case (Cons x ts)
  from Cons.prems(1) obtain d1 where d1: "add_transition x d = Done () d1" "walk ts d1 = Done u d'"
    by (cases "add_transition x d") auto
  show ?case
  proof (cases "t \<in> set ts")
    case True
    with Cons.IH [OF d1(2)] show ?thesis by simp
  next
    case False
    with Cons.prems(2) have "t = x" by simp
    with transition_known [OF d1(1)] transition_messages [OF d1(1)] walk_messages [OF d1(2)] show ?thesis by simp
  qed
qed simp

end

section \<open>Both stores keep the promise\<close>

definition sequence_numbers :: "string \<Rightarrow> db \<Rightarrow> int set" where
  "sequence_numbers i d = tr_sequenceNo ` set (rows_of i d)"

definition adds_row :: "transition \<Rightarrow> db \<Rightarrow> db \<Rightarrow> bool" where
  "adds_row t d d' \<longleftrightarrow> (\<exists>sha k p. db_transitions d' = db_transitions d @ [transition_row_of sha k t p]) \<and> (\<forall>j. getMessage j d' = getMessage j d)"

lemma adds_rows:
  assumes "adds_row t d d'"
  obtains sha k p where "rows_of (t_messageId t) d' = rows_of (t_messageId t) d @ [transition_row_of sha k t p]"
proof -
  from assms obtain sha k p where "db_transitions d' = db_transitions d @ [transition_row_of sha k t p]" by (auto simp: adds_row_def)
  moreover have "tr_messageId (transition_row_of sha k t p) = t_messageId t" by (simp add: transition_row_of_def)
  ultimately show thesis by (intro that [of sha k p]) (simp add: rows_of_def)
qed

lemma adds_numbers: "adds_row t d d' \<Longrightarrow> sequence_numbers (t_messageId t) d' = insert (t_sequenceNo t) (sequence_numbers (t_messageId t) d)"
  by (erule adds_rows) (auto simp: sequence_numbers_def transition_row_of_def)

lemma adds_messages: "adds_row t d d' \<Longrightarrow> getMessage j d' = getMessage j d"
  by (simp add: adds_row_def)

lemma adds_moves:
  assumes "adds_row t d d'" "\<forall>n\<in>sequence_numbers (t_messageId t) d. n < t_sequenceNo t"
  shows "snapshotState (t_messageId t) d' = Some (t_toState t)"
proof -
  obtain sha k p where rows: "rows_of (t_messageId t) d' = rows_of (t_messageId t) d @ [transition_row_of sha k t p]"
    using adds_rows [OF assms(1)] .
  have "first_row (order_desc tr_sequenceNo (rows_of (t_messageId t) d @ [transition_row_of sha k t p])) = Some (transition_row_of sha k t p)"
    using assms(2) by (intro first_row_order_desc_snoc) (auto simp: sequence_numbers_def transition_row_of_def)
  then show ?thesis by (simp add: snapshotState_def last_row_def rows transition_row_of_def)
qed

lemma sqlite_adds:
  assumes "appendTransition sha t d = Done u d'"
  shows "adds_row t d d'"
proof -
  have "db_transitions d' = db_transitions d @ [transition_row_of sha (next_id ''transitions'' d) t (prev_hash_for t d)]"
    using assms by (auto simp: appendTransition_def Let_def use_id_def frame_simps split: if_splits dest!: index_Done)
  moreover have "\<forall>j. getMessage j d' = getMessage j d" using assms by (simp add: appendTransition_getMessage)
  ultimately show ?thesis unfolding adds_row_def by blast
qed

lemma d1_index_frame:
  "db_transitions (out_state (d1_indexArchivedMessage i t d)) = db_transitions d \<and> getMessage j (out_state (d1_indexArchivedMessage i t d)) = getMessage j d"
proof -
  have frame: "getMessage j (db_edicts_update f e) = getMessage j e" "getMessage j (db_ti_update g e) = getMessage j e"
    for f g e by (simp_all add: getMessage_def)
  show ?thesis
    by (cases "getMessage i d") (auto simp: d1_indexArchivedMessage_def d1_reads Let_def frame frame_simps split: option.split)
qed

lemma d1_index_Done:
  assumes "d1_indexArchivedMessage i t d = Done u d'"
  shows "db_transitions d' = db_transitions d \<and> getMessage j d' = getMessage j d"
  using d1_index_frame [of i t d j] unfolding assms by simp

lemma d1_adds:
  assumes "d1_appendTransition t d = Done u d'"
  shows "adds_row t d d'"
proof -
  define row where "row = transition_row_of d1_sha256 (next_id ''transitions'' d) t (prev_hash_for t d)"
  define e where "e = use_id ''transitions'' (d\<lparr>db_transitions := db_transitions d @ [row]\<rparr>)"
  have own: "filter (\<lambda>r. tr_messageId r = t_messageId t) (db_transitions d) = rows_of (t_messageId t) d" by (simp add: rows_of_def)
  have e: "db_transitions e = db_transitions d @ [row]" "getMessage j e = getMessage j d" for j
    by (simp_all add: e_def use_id_def getMessage_def)
  have "d1_appendTransition t d = (if t_toState t = Archived
      then d1_indexArchivedMessage (t_messageId t) (case t_sealedAt t of Some s \<Rightarrow> s | None \<Rightarrow> t_at t)
        (update_message (t_messageId t) (\<lambda>r. r\<lparr>mr_archived_at := Some (case t_sealedAt t of Some s \<Rightarrow> s | None \<Rightarrow> t_at t)\<rparr>) e)
      else Done () e)"
    using assms unfolding d1_appendTransition_def own e_def row_def transition_row_of_def prev_hash_for_def last_row_def Let_def
    by (simp split: if_splits)
  with assms have "db_transitions d' = db_transitions e \<and> getMessage j d' = getMessage j e" for j
    by (auto simp: frame_simps split: if_splits dest!: d1_index_Done [of _ _ _ _ _ j])
  then have "db_transitions d' = db_transitions d @ [row]" "\<forall>j. getMessage j d' = getMessage j d" using e by simp_all
  then show ?thesis unfolding adds_row_def row_def by blast
qed

lemma message_row_state: "snapshotState i (d\<lparr>db_messages := x\<rparr>) = snapshotState i d" "sequence_numbers i (d\<lparr>db_messages := x\<rparr>) = sequence_numbers i d"
  by (simp_all add: snapshotState_def last_row_def sequence_numbers_def rows_of_def)

lemma message_appended:
  assumes "mr_id r = e_id m" "mr_message r = m" "e_id m \<notin> message_ids d"
  shows "getMessage (e_id m) (d\<lparr>db_messages := db_messages d @ [r]\<rparr>) = Some m"
proof -
  have "find_row mr_id (e_id m) (db_messages d) = None" using assms(3) by (simp add: find_row_None_iff message_ids_def)
  then show ?thesis using assms(1,2) by (simp add: getMessage_def find_row_append)
qed

interpretation sqlite_store: referential_store "appendMessage sha" "appendTransition sha" getMessage snapshotState sequence_numbers
  for sha :: "string \<Rightarrow> string"
proof unfold_locales
  show "appendMessage sha now m d = Done u d' \<Longrightarrow> getMessage (e_id m) d' = Some m" for now m d u d'
    by (auto simp: message_row_of_def dest!: appendMessage_Done intro!: message_appended)
  show "appendMessage sha now m d = Done u d' \<Longrightarrow> snapshotState i d' = snapshotState i d \<and> sequence_numbers i d' = sequence_numbers i d"
    for now m d u d' i by (auto simp: message_row_state dest!: appendMessage_Done)
  show "appendTransition sha t d = Done u d' \<Longrightarrow> getMessage (t_messageId t) d \<noteq> None" for t d u d'
    by (auto simp: getMessage_def message_ids_def find_row_None_iff dest!: rows_new_distinct)
qed (simp_all add: adds_numbers [OF sqlite_adds] adds_messages [OF sqlite_adds] adds_moves [OF sqlite_adds])

interpretation d1_store: message_store d1_appendMessage d1_appendTransition d1_getMessage d1_snapshotState sequence_numbers
proof unfold_locales
  show "d1_appendMessage now m d = Done u d' \<Longrightarrow> d1_getMessage (e_id m) d' = Some m" for now m d u d'
    by (auto simp: d1_appendMessage_def d1_reads Let_def split: if_splits intro!: message_appended)
  show "d1_appendMessage now m d = Done u d' \<Longrightarrow> d1_snapshotState i d' = d1_snapshotState i d \<and> sequence_numbers i d' = sequence_numbers i d"
    for now m d u d' i by (auto simp: d1_appendMessage_def d1_reads Let_def message_row_state split: if_splits)
qed (simp_all add: d1_reads adds_numbers [OF d1_adds] adds_messages [OF d1_adds] adds_moves [OF d1_adds])

lemma sqlite_walk: "run_writes (sqlite_write sha) (map W_transition ts) = sqlite_store.walk sha ts"
proof (induction ts)
  case (Cons t ts)
  then show ?case by (intro ext) simp
qed (simp add: fun_eq_iff)

lemma d1_walk: "run_writes d1_write (map W_transition ts) = d1_store.walk ts"
proof (induction ts)
  case (Cons t ts)
  then show ?case by (intro ext) simp
qed (simp add: fun_eq_iff)

section \<open>The rolling hash\<close>

lemma rolling_append: "d1_rolling h (a @ b) = d1_rolling (d1_rolling h a) b"
  by (simp add: d1_rolling_def)

lemma rolling_swap: "d1_rolling h ''Aa'' = d1_rolling h ''BB''"
  by (simp add: d1_rolling_def algebra_simps)

lemma d1_sha256_swap: "d1_sha256 (a @ ''Aa'' @ b) = d1_sha256 (a @ ''BB'' @ b)"
  unfolding d1_sha256_def rolling_append rolling_swap ..

lemma js_hex_length: "n < 16 ^ k \<Longrightarrow> 0 < k \<Longrightarrow> length (js_hex n) \<le> k"
proof (induction k arbitrary: n)
  case (Suc k)
  show ?case
  proof (cases "n < 16")
    case False
    then have "0 < k" using Suc.prems by (cases k) auto
    moreover have "n div 16 < 16 ^ k" using Suc.prems(1) by (simp add: less_mult_imp_div_less mult.commute)
    ultimately have "length (js_hex (n div 16)) \<le> k" by (rule Suc.IH [rotated])
    with False show ?thesis by (subst js_hex.simps) simp
  qed (subst js_hex.simps, simp)
qed simp

section \<open>Properties\<close>

text \<open>C8: 
  Any sequence of writes has the same outcome on D1 as on the SQLite store with the same hash, or the SQLite store has refused one of them for
  a reference to a document it does not have.
\<close>

theorem d1_refines_sqlite:
  "run_writes (sqlite_write d1_sha256) ws d = run_writes d1_write ws d
     \<or> (\<exists>d'. run_writes (sqlite_write d1_sha256) ws d = Fail (Constraint ''FOREIGN KEY'') d')"
proof (induction ws arbitrary: d)
  case (Cons w ws)
  have "sqlite_write d1_sha256 w d = d1_write w d \<or> (\<exists>d'. sqlite_write d1_sha256 w d = Fail (Constraint ''FOREIGN KEY'') d')"
    using d1_step unfolding same_or_dangling_def .
  then show ?case
  proof
    assume "sqlite_write d1_sha256 w d = d1_write w d"
    with Cons.IH show ?thesis by (cases "d1_write w d") simp_all
  qed auto
qed simp

text \<open>
  A document stored on D1 and moved by transitions with rising numbers ends in the target state of the last one, and is still what was
  stored.
\<close>

theorem d1_walk_reaches:
  assumes "run_writes d1_write (W_message now m # map W_transition ts) d = Done () d'" "\<forall>t\<in>set ts. t_messageId t = e_id m"
    "sorted_wrt (<) (map t_sequenceNo ts)" "ts \<noteq> []" "sequence_numbers (e_id m) d = {}"
  shows "d1_snapshotState (e_id m) d' = Some (t_toState (last ts)) \<and> d1_getMessage (e_id m) d' = Some m"
proof -
  from assms(1) obtain d1 where d1: "d1_appendMessage now m d = Done () d1" "d1_store.walk ts d1 = Done () d'"
    by (cases "d1_appendMessage now m d") (auto simp: d1_walk)
  have "sequence_numbers (e_id m) d1 = {}" using d1_store.message_state_kept [OF d1(1)] assms(5) by simp
  then have "d1_snapshotState (e_id m) d' = Some (t_toState (last ts))"
    using assms(2-4) by (intro d1_store.walk_reaches [OF d1(2)]) simp_all
  moreover have "d1_getMessage (e_id m) d' = Some m"
    using d1_store.message_found [OF d1(1)] d1_store.walk_messages [OF d1(2)] by simp
  ultimately show ?thesis ..
qed

definition d1_demo_steps :: "transition list" where
  "d1_demo_steps = [\<lparr>t_messageId = ''m1'', t_fromState = Pending, t_toState = Validated, t_sequenceNo = 1, t_actorId = None, t_reason = None,
      t_sealedAt = None, t_prevTransitionHash = None, t_at = ''2''\<rparr>,
    \<lparr>t_messageId = ''m1'', t_fromState = Validated, t_toState = Archived, t_sequenceNo = 2, t_actorId = None, t_reason = None,
      t_sealedAt = None, t_prevTransitionHash = None, t_at = ''3''\<rparr>]"

lemma d1_demo_run: "\<exists>d'. run_writes d1_write (W_message ''1'' demo_memo # map W_transition d1_demo_steps) empty_db = Done () d'"
  by (simp add: d1_demo_steps_def d1_appendMessage_def d1_appendTransition_def d1_snapshotState_def d1_indexArchivedMessage_def d1_getMessage_def
      demo_memo_def empty_db_def Let_def message_ids_def use_id_def order_desc_def update_message_def update_where_def)

theorem d1_walk_reaches_witness:
  "\<exists>d'. run_writes d1_write (W_message ''1'' demo_memo # map W_transition d1_demo_steps) empty_db = Done () d'
    \<and> d1_snapshotState ''m1'' d' = Some Archived \<and> d1_getMessage ''m1'' d' = Some demo_memo"
proof -
  obtain d' where d': "run_writes d1_write (W_message ''1'' demo_memo # map W_transition d1_demo_steps) empty_db = Done () d'"
    using d1_demo_run by blast
  have "d1_snapshotState (e_id demo_memo) d' = Some (t_toState (last d1_demo_steps)) \<and> d1_getMessage (e_id demo_memo) d' = Some demo_memo"
    by (rule d1_walk_reaches [OF d']) (simp_all add: d1_demo_steps_def demo_memo_def sequence_numbers_def rows_of_def empty_db_def)
  with d' show ?thesis by (simp add: d1_demo_steps_def demo_memo_def)
qed

text \<open>The SQLite store has the document of every transition it has accepted.\<close>

theorem sqlite_knows_its_documents:
  assumes "run_writes (sqlite_write sha) (map W_transition ts) d = Done () d'" "t \<in> set ts"
  shows "getMessage (t_messageId t) d' \<noteq> None"
  using assms sqlite_store.walk_known unfolding sqlite_walk by blast

lemma sqlite_demo_run:
  "\<exists>d1 d'. appendMessage sha ''1'' demo_memo empty_db = Done () d1 \<and> run_writes (sqlite_write sha) (map W_transition d1_demo_steps) d1 = Done () d'"
  by (simp add: d1_demo_steps_def appendMessage_def appendTransition_def snapshotState_def last_row_def rows_of_def indexArchivedMessage_def
      getMessage_def demo_memo_def empty_db_def Let_def message_ids_def use_id_def order_desc_def update_message_def update_where_def
      superseded_by_of_def fk_ok_def obj_get_def message_row_of_def transition_row_of_def)

theorem sqlite_knows_its_documents_witness:
  "\<exists>d1 d'. appendMessage (\<lambda>x. x) ''1'' demo_memo empty_db = Done () d1
    \<and> run_writes (sqlite_write (\<lambda>x. x)) (map W_transition d1_demo_steps) d1 = Done () d' \<and> getMessage ''m1'' d' \<noteq> None"
proof -
  obtain d1 d' where d: "appendMessage (\<lambda>x. x) ''1'' demo_memo empty_db = Done () d1"
    "run_writes (sqlite_write (\<lambda>x. x)) (map W_transition d1_demo_steps) d1 = Done () d'" using sqlite_demo_run by blast
  moreover have "getMessage (t_messageId (hd d1_demo_steps)) d' \<noteq> None"
    by (rule sqlite_knows_its_documents [OF d(2)]) (simp add: d1_demo_steps_def)
  ultimately show ?thesis by (auto simp: d1_demo_steps_def)
qed

text \<open>D1 archives a document it does not have: a transition out of \<open>pending\<close> with an unknown id is stored and sets its state.\<close>

theorem d1_accepts_orphans:
  assumes "d1_getMessage (t_messageId t) d = None" "rows_of (t_messageId t) d = []" "t_fromState t = Pending"
  shows "\<exists>d'. d1_write (W_transition t) d = Done () d' \<and> d1_snapshotState (t_messageId t) d' = Some (t_toState t)
    \<and> d1_getMessage (t_messageId t) d' = None \<and> sqlite_write d1_sha256 (W_transition t) d = Fail (Constraint ''FOREIGN KEY'') d"
proof -
  have own: "filter (\<lambda>r. tr_messageId r = t_messageId t) (db_transitions d) = []" using assms(2) by (simp add: rows_of_def)
  have none: "d1_getMessage (t_messageId t) (update_message (t_messageId t) f (use_id s (d\<lparr>db_transitions := x\<rparr>))) = None"
    if "\<And>r. mr_id (f r) = mr_id r" "\<And>r. mr_message (f r) = mr_message r" for f s x
    using assms(1) that by (simp add: d1_reads)
  have skip: "d1_indexArchivedMessage i at' e = Done () e" if "d1_getMessage i e = None" for i at' e
    using that by (simp add: d1_indexArchivedMessage_def)
  have "\<exists>d'. d1_appendTransition t d = Done () d'"
    by (cases "t_toState t = Archived") (simp_all add: d1_appendTransition_def own d1_snapshotState_def assms(3) Let_def skip [OF none])
  then obtain d' where d': "d1_appendTransition t d = Done () d'" ..
  have "d1_snapshotState (t_messageId t) d' = Some (t_toState t)"
    using d1_store.transition_moves [OF d'] assms(2) by (simp add: sequence_numbers_def)
  moreover have "d1_getMessage (t_messageId t) d' = None" using d1_store.transition_messages [OF d'] assms(1) by simp
  moreover have "t_messageId t \<notin> message_ids d" using assms(1) by (simp add: d1_reads getMessage_def find_row_None_iff message_ids_def)
  then have "appendTransition d1_sha256 t d = Fail (Constraint ''FOREIGN KEY'') d"
    using assms(2,3) by (simp add: appendTransition_def Let_def snapshotState_def last_row_def)
  ultimately show ?thesis using d' by auto
qed

theorem d1_accepts_orphans_witness:
  "\<exists>d'. d1_write (W_transition (hd d1_demo_steps)) empty_db = Done () d' \<and> d1_snapshotState ''m1'' d' = Some Validated
    \<and> d1_getMessage ''m1'' d' = None"
  using d1_accepts_orphans [of "hd d1_demo_steps" empty_db]
  by (auto simp: d1_demo_steps_def d1_getMessage_def rows_of_def empty_db_def)

text \<open>The hash is always eight digits.\<close>

theorem d1_sha256_length: "length (d1_sha256 s) = 8"
  using js_hex_length [of "unat (d1_rolling 0 s)" 8] unsigned_less [of "d1_rolling 0 s", where 'a = nat]
  by (simp add: d1_sha256_def padStart_def)

text \<open>
  The content hash of D1 does not bind the content: swapping \<open>Aa\<close> for \<open>BB\<close> anywhere in a text leaves the stored hash, and with it the Merkle
  root of the archive, as it is.
\<close>

theorem d1_content_hash_collides:
  "d1_sha256 (stringify (JObj [(k, JStr (a @ ''Aa'' @ b))])) = d1_sha256 (stringify (JObj [(k, JStr (a @ ''BB'' @ b))]))"
proof -
  have e: "escape_char (CHR ''A'') = ''A''" "escape_char (CHR ''a'') = ''a''" "escape_char (CHR ''B'') = ''B''"
    by (simp_all add: escape_char_def Let_def)
  have s: "stringify (JObj [(k, JStr (a @ x @ b))]) = (''{'' @ quote_str k @ '':'' @ [CHR 0x22] @ concat (map escape_char a))
      @ concat (map escape_char x) @ (concat (map escape_char b) @ [CHR 0x22] @ ''}'')" for x
    by (simp add: quote_str_def)
  have "concat (map escape_char ''Aa'') = ''Aa''" "concat (map escape_char ''BB'') = ''BB''" by (simp_all add: e)
  then show ?thesis unfolding s by (simp only: d1_sha256_swap)
qed

end
