(* ===== verification/Core_Schemas.thy ===== *)
theory Core_Schemas
  imports Gateway_Routes Bootstrap_Types
begin

text \<open>
  The schemas of \<open>core/src/ti.ts\<close>, \<open>law.ts\<close> and \<open>censorate.ts\<close> that the other parts do not parse with: law snapshots, the consort metadata,
  transitions, detection rules, read receipts, audit queries, anomaly rules and alerts, and the configuration of the censorate.
\<close>

section \<open>ti.ts\<close>

definition LawSnapshotSchema :: "(string \<Rightarrow> bool) \<Rightarrow> json \<Rightarrow> iso option" where
  "LawSnapshotSchema dt j = do { ob \<leftarrow> z_record j; z_field ob ''at'' (z_datetime dt) }"

definition VectorClockSchema :: "json \<Rightarrow> (string \<times> nat) list option" where
  "VectorClockSchema = z_record_of z_nonneg"

record consort_meta =
  cm_origin_node_id :: string
  cm_vector_clock :: "(string \<times> nat) list"
  cm_gossip_seq :: nat

definition ConsortEnvelopeMetaSchema :: "json \<Rightarrow> consort_meta option" where
  "ConsortEnvelopeMetaSchema j = do {
     ob \<leftarrow> z_record j;
     n \<leftarrow> z_field ob ''origin_node_id'' z_string1;
     v \<leftarrow> z_default ob ''vector_clock'' [] VectorClockSchema;
     s \<leftarrow> z_default ob ''gossip_seq'' 0 z_nonneg;
     Some \<lparr>cm_origin_node_id = n, cm_vector_clock = v, cm_gossip_seq = s\<rparr> }"

definition TransitionSchema :: "(string \<Rightarrow> bool) \<Rightarrow> json \<Rightarrow> transition option" where
  "TransitionSchema dt j = do {
     ob \<leftarrow> z_record j;
     m \<leftarrow> z_field ob ''messageId'' z_string1;
     p \<leftarrow> z_field ob ''fromState'' MessageStateSchema;
     q \<leftarrow> z_field ob ''toState'' MessageStateSchema;
     n \<leftarrow> z_field ob ''sequenceNo'' z_nonneg;
     a \<leftarrow> z_optional ob ''actorId'' z_string1;
     r \<leftarrow> z_optional ob ''reason'' z_string;
     s \<leftarrow> z_optional ob ''sealedAt'' (z_datetime dt);
     h \<leftarrow> z_optional ob ''prevTransitionHash'' z_string1;
     t \<leftarrow> z_field ob ''at'' (z_datetime dt);
     Some \<lparr>t_messageId = m, t_fromState = p, t_toState = q, t_sequenceNo = int n, t_actorId = a, t_reason = r, t_sealedAt = s,
       t_prevTransitionHash = h, t_at = t\<rparr> }"

section \<open>law.ts: detection rules\<close>

datatype detection_type = Velocity | Temporal_anomaly | Geographic_impossibility | Coalition
datatype detection_action = Log_action | Quarantine_action | Circuit_break_action

record detection_rule =
  dr_type :: detection_type
  dr_enabled :: bool
  dr_threshold :: "rat option"
  dr_window_seconds :: "nat option"
  dr_action :: detection_action

definition z_positive_number :: "json \<Rightarrow> rat option" where
  "z_positive_number j = (case z_number j of Some r \<Rightarrow> if 0 < r then Some r else None | None \<Rightarrow> None)"

definition detection_types :: "(string \<times> detection_type) list" where
  "detection_types = [(''velocity'', Velocity), (''temporal_anomaly'', Temporal_anomaly),
     (''geographic_impossibility'', Geographic_impossibility), (''coalition'', Coalition)]"

definition DetectionRuleSchema :: "json \<Rightarrow> detection_rule option" where
  "DetectionRuleSchema j = do {
     ob \<leftarrow> z_record j;
     t \<leftarrow> z_field ob ''type'' (z_enum detection_types);
     e \<leftarrow> z_default ob ''enabled'' True z_bool;
     h \<leftarrow> z_optional ob ''threshold'' z_positive_number;
     w \<leftarrow> z_optional ob ''window_seconds'' z_positive;
     a \<leftarrow> z_default ob ''action'' Log_action
            (z_enum [(''log'', Log_action), (''quarantine'', Quarantine_action), (''circuit_break'', Circuit_break_action)]);
     Some \<lparr>dr_type = t, dr_enabled = e, dr_threshold = h, dr_window_seconds = w, dr_action = a\<rparr> }"

definition DetectionRuleLawContentSchema :: "json \<Rightarrow> detection_rule list option" where
  "DetectionRuleLawContentSchema j = do { ob \<leftarrow> z_record j; z_default ob ''rules'' [] (z_array DetectionRuleSchema) }"

datatype conflict_resolution = Lww | Manual_schism

definition LawConflictResolutionSchema :: "json \<Rightarrow> conflict_resolution option" where
  "LawConflictResolutionSchema = z_enum [(''lww'', Lww), (''manual_schism'', Manual_schism)]"

section \<open>censorate.ts\<close>

definition z_nullable :: "(json \<Rightarrow> 'a option) \<Rightarrow> json \<Rightarrow> 'a option option" where
  "z_nullable p j = (if j = JNull then Some None else map_option Some (p j))"

definition result_statuses :: "(string \<times> string) list" where
  "result_statuses = [(''allowed'', ''allowed''), (''denied'', ''denied'')]"

definition Seal0ReceiptSchema :: "(string \<Rightarrow> bool) \<Rightarrow> json \<Rightarrow> seal0_row option" where
  "Seal0ReceiptSchema dt j = do {
     ob \<leftarrow> z_record j;
     i \<leftarrow> z_field ob ''id'' z_string1;
     d \<leftarrow> z_field ob ''document_id'' (z_nullable z_string1);
     a \<leftarrow> z_field ob ''actor_id'' z_string1;
     g \<leftarrow> z_optional ob ''genre'' z_string1;
     t \<leftarrow> z_field ob ''query_timestamp'' (z_datetime dt);
     p \<leftarrow> z_field ob ''query_parameters_hash'' z_string1;
     h \<leftarrow> z_field ob ''result_hash'' z_string1;
     s \<leftarrow> z_field ob ''result_status'' (z_enum result_statuses);
     r \<leftarrow> z_optional ob ''reason'' z_string1;
     x \<leftarrow> z_field ob ''signature'' z_string1;
     c \<leftarrow> z_optional ob ''trace_id'' z_string1;
     n \<leftarrow> z_optional ob ''node_id'' z_string1;
     Some \<lparr>s0_id = i, s0_document_id = d, s0_actor_id = a, s0_genre = g, s0_query_timestamp = t, s0_query_parameters_hash = p,
       s0_result_hash = h, s0_result_status = s, s0_reason = r, s0_signature = x, s0_trace_id = c, s0_node_id = n\<rparr> }"

record audit_query =
  aq_documentId :: "string option"
  aq_genre :: "string option"
  aq_since :: "iso option"

definition AuditQuerySchema :: "(string \<Rightarrow> bool) \<Rightarrow> json \<Rightarrow> audit_query option" where
  "AuditQuerySchema dt j = do {
     ob \<leftarrow> z_record j;
     d \<leftarrow> z_optional ob ''documentId'' z_string1;
     g \<leftarrow> z_optional ob ''genre'' z_string1;
     s \<leftarrow> z_optional ob ''since'' (z_datetime dt);
     Some \<lparr>aq_documentId = d, aq_genre = g, aq_since = s\<rparr> }"

datatype severity = Info | Warning | Critical

definition AnomalySeveritySchema :: "json \<Rightarrow> severity option" where
  "AnomalySeveritySchema = z_enum [(''info'', Info), (''warning'', Warning), (''critical'', Critical)]"

datatype anomaly_type = Detection detection_type | Ghost_worker | Material_diversion | Schedule_impossible | Structural_cabal

record anomaly_rule =
  an_type :: anomaly_type
  an_threshold :: rat
  an_windowSeconds :: nat
  an_enabled :: bool

definition AnomalyRuleSchema :: "json \<Rightarrow> anomaly_rule option" where
  "AnomalyRuleSchema j = do {
     ob \<leftarrow> z_record j;
     t \<leftarrow> z_field ob ''type'' (z_enum (map (\<lambda>(k, t). (k, Detection t)) detection_types
            @ [(''ghost_worker'', Ghost_worker), (''material_diversion'', Material_diversion),
               (''schedule_impossible'', Schedule_impossible), (''structural_cabal'', Structural_cabal)]));
     h \<leftarrow> z_field ob ''threshold'' z_positive_number;
     w \<leftarrow> z_default ob ''windowSeconds'' 60 z_positive;
     e \<leftarrow> z_default ob ''enabled'' True z_bool;
     Some \<lparr>an_type = t, an_threshold = h, an_windowSeconds = w, an_enabled = e\<rparr> }"

record alert_document =
  aa_id :: string
  aa_alert_type :: string
  aa_severity :: severity
  aa_actor_id :: "string option"
  aa_node_id :: "string option"
  aa_evidence :: obj
  aa_created_at :: iso
  aa_action_taken :: "string option"

definition AnomalyAlertSchema :: "(string \<Rightarrow> bool) \<Rightarrow> json \<Rightarrow> alert_document option" where
  "AnomalyAlertSchema dt j = do {
     ob \<leftarrow> z_record j;
     i \<leftarrow> z_field ob ''id'' z_string1;
     t \<leftarrow> z_field ob ''alert_type'' z_string1;
     s \<leftarrow> z_field ob ''severity'' AnomalySeveritySchema;
     a \<leftarrow> z_optional ob ''actor_id'' z_string1;
     n \<leftarrow> z_optional ob ''node_id'' z_string1;
     e \<leftarrow> z_default ob ''evidence'' [] z_record;
     c \<leftarrow> z_field ob ''created_at'' (z_datetime dt);
     k \<leftarrow> z_optional ob ''action_taken'' z_string1;
     Some \<lparr>aa_id = i, aa_alert_type = t, aa_severity = s, aa_actor_id = a, aa_node_id = n, aa_evidence = e, aa_created_at = c,
       aa_action_taken = k\<rparr> }"

record sampling =
  sm_constitutional :: rat
  sm_legislative :: rat
  sm_telemetry :: rat

definition z_fraction :: "json \<Rightarrow> rat option" where
  "z_fraction j = (case z_number j of Some r \<Rightarrow> if 0 \<le> r \<and> r \<le> 1 then Some r else None | None \<Rightarrow> None)"

definition default_sampling :: sampling where
  "default_sampling = \<lparr>sm_constitutional = 1, sm_legislative = 1 / 2, sm_telemetry = 1 / 10\<rparr>"

definition SamplingSchema :: "json \<Rightarrow> sampling option" where
  "SamplingSchema j = do {
     ob \<leftarrow> z_record j;
     c \<leftarrow> z_default ob ''constitutional'' 1 z_fraction;
     l \<leftarrow> z_default ob ''legislative'' (1 / 2) z_fraction;
     t \<leftarrow> z_default ob ''telemetry'' (1 / 10) z_fraction;
     Some \<lparr>sm_constitutional = c, sm_legislative = l, sm_telemetry = t\<rparr> }"

record censorate_config =
  cc_enabled :: bool
  cc_otlp_endpoint :: "string option"
  cc_seal0_required :: bool
  cc_seal0_retention_days :: nat
  cc_anomaly_detection :: bool
  cc_sampling :: sampling

definition CensorateRuntimeConfigSchema :: "(string \<Rightarrow> bool) \<Rightarrow> json \<Rightarrow> censorate_config option" where
  "CensorateRuntimeConfigSchema url j = do {
     ob \<leftarrow> z_record j;
     e \<leftarrow> z_default ob ''enabled'' True z_bool;
     o' \<leftarrow> z_optional ob ''otlp_endpoint'' (z_string_if url);
     r \<leftarrow> z_default ob ''seal0_required'' True z_bool;
     d \<leftarrow> z_default ob ''seal0_retention_days'' 365 z_positive;
     a \<leftarrow> z_default ob ''anomaly_detection'' True z_bool;
     s \<leftarrow> z_default ob ''sampling'' default_sampling SamplingSchema;
     Some \<lparr>cc_enabled = e, cc_otlp_endpoint = o', cc_seal0_required = r, cc_seal0_retention_days = d, cc_anomaly_detection = a,
       cc_sampling = s\<rparr> }"

section \<open>What the routes return is what the schemas accept\<close>

lemma obj_get_append: "obj_get (xs @ ys) k = (case obj_get xs k of Some j \<Rightarrow> Some j | None \<Rightarrow> obj_get ys k)"
  by (simp add: obj_get_def map_add_def split: option.splits)

lemma obj_get_prop_if: "obj_get (prop_if k v) k' = (if k = k' then map_option JStr v else None)"
  by (simp add: prop_if_def obj_get_def split: option.split)

lemma obj_get_pair: "obj_get ((k, j) # xs) k' = (if k = k' then Some j else obj_get xs k')" "obj_get [] k' = None"
  by (simp_all add: obj_get_def)

lemmas printed_fields = obj_get_append obj_get_prop_if obj_get_pair

lemma optional_printed: "obj_get ob k = map_option JStr v \<Longrightarrow> z_optional ob k p = (case v of None \<Rightarrow> Some None | Some s \<Rightarrow> map_option Some (p (JStr s)))"
  by (simp add: z_optional_def split: option.split)

lemma field_printed: "obj_get ob k = Some j \<Longrightarrow> z_field ob k p = p j"
  by (simp add: z_field_def)

definition filled :: "string option \<Rightarrow> bool" where
  "filled v \<longleftrightarrow> v \<noteq> Some []"

definition receipt_wf :: "(string \<Rightarrow> bool) \<Rightarrow> seal0_row \<Rightarrow> bool" where
  "receipt_wf dt r \<longleftrightarrow> s0_id r \<noteq> [] \<and> s0_actor_id r \<noteq> [] \<and> dt (s0_query_timestamp r) \<and> s0_query_parameters_hash r \<noteq> []
     \<and> s0_result_hash r \<noteq> [] \<and> s0_result_status r \<in> {''allowed'', ''denied''} \<and> s0_signature r \<noteq> []
     \<and> list_all filled [s0_document_id r, s0_genre r, s0_reason r, s0_trace_id r, s0_node_id r]"

lemma string1_optional: "(case v of None \<Rightarrow> Some None | Some s \<Rightarrow> map_option Some (z_string1 (JStr s))) = (if filled v then Some v else None)"
  by (auto simp: filled_def split: option.split)

lemma nullable_printed: "z_nullable z_string1 (opt_json v) = (if filled v then Some v else None)"
  by (auto simp: z_nullable_def opt_json_def filled_def split: option.split)

lemma status_printed: "z_enum result_statuses (JStr s) = (if s \<in> {''allowed'', ''denied''} then Some s else None)"
  by (simp add: z_enum_def result_statuses_def)

lemma datetime_printed: "z_datetime dt (JStr s) = (if dt s then Some s else None)"
  by (simp add: z_datetime_def)

lemma receipt_parsed: "Seal0ReceiptSchema dt (receipt_json r) = (if receipt_wf dt r then Some r else None)"
proof -
  define ob where "ob = (case receipt_json r of JObj ps \<Rightarrow> ps | _ \<Rightarrow> [])"
  have json: "z_record (receipt_json r) = Some ob" by (simp add: ob_def receipt_json_def)
  have fields: "obj_get ob ''id'' = Some (JStr (s0_id r))" "obj_get ob ''document_id'' = Some (opt_json (s0_document_id r))"
    "obj_get ob ''actor_id'' = Some (JStr (s0_actor_id r))" "obj_get ob ''query_timestamp'' = Some (JStr (s0_query_timestamp r))"
    "obj_get ob ''query_parameters_hash'' = Some (JStr (s0_query_parameters_hash r))" "obj_get ob ''result_hash'' = Some (JStr (s0_result_hash r))"
    "obj_get ob ''result_status'' = Some (JStr (s0_result_status r))" "obj_get ob ''signature'' = Some (JStr (s0_signature r))"
    and options: "obj_get ob ''genre'' = map_option JStr (s0_genre r)" "obj_get ob ''reason'' = map_option JStr (s0_reason r)"
    "obj_get ob ''trace_id'' = map_option JStr (s0_trace_id r)" "obj_get ob ''node_id'' = map_option JStr (s0_node_id r)"
    by (simp_all add: ob_def receipt_json_def printed_fields split: option.split)
  show ?thesis
    unfolding Seal0ReceiptSchema_def json
    by (simp add: field_printed [OF fields(1)] field_printed [OF fields(2)] field_printed [OF fields(3)] field_printed [OF fields(4)]
        field_printed [OF fields(5)] field_printed [OF fields(6)] field_printed [OF fields(7)] field_printed [OF fields(8)]
        optional_printed [OF options(1)] optional_printed [OF options(2)] optional_printed [OF options(3)] optional_printed [OF options(4)]
        string1_optional nullable_printed status_printed datetime_printed receipt_wf_def)
qed

definition transition_wf :: "(string \<Rightarrow> bool) \<Rightarrow> transition \<Rightarrow> bool" where
  "transition_wf dt t \<longleftrightarrow> t_messageId t \<noteq> [] \<and> 0 \<le> t_sequenceNo t \<and> t_sequenceNo t \<le> max_safe \<and> filled (t_actorId t)
     \<and> filled (t_prevTransitionHash t) \<and> dt (t_at t) \<and> (case t_sealedAt t of None \<Rightarrow> True | Some s \<Rightarrow> dt s)"

lemma nonneg_printed: "z_nonneg (json_int i) = (if 0 \<le> i \<and> i \<le> max_safe then Some (nat i) else None)"
  by (simp add: z_nonneg_def json_int_def)

lemma plain_optional: "(case v of None \<Rightarrow> Some None | Some s \<Rightarrow> map_option Some (z_string (JStr s))) = Some v"
  by (simp split: option.split)

lemma datetime_optional: "(case v of None \<Rightarrow> Some None | Some s \<Rightarrow> map_option Some (z_datetime dt (JStr s)))
    = (if (case v of None \<Rightarrow> True | Some s \<Rightarrow> dt s) then Some v else None)"
  by (simp add: datetime_printed split: option.split)

lemma transition_parsed: "TransitionSchema dt (transition_json_full t) = (if transition_wf dt t then Some t else None)"
proof -
  define ob where "ob = (case transition_json_full t of JObj ps \<Rightarrow> ps | _ \<Rightarrow> [])"
  have json: "z_record (transition_json_full t) = Some ob" by (simp add: ob_def transition_json_full_def)
  have fields: "obj_get ob ''messageId'' = Some (JStr (t_messageId t))" "obj_get ob ''fromState'' = Some (JStr (state_str (t_fromState t)))"
    "obj_get ob ''toState'' = Some (JStr (state_str (t_toState t)))" "obj_get ob ''sequenceNo'' = Some (json_int (t_sequenceNo t))"
    "obj_get ob ''at'' = Some (JStr (t_at t))"
    and options: "obj_get ob ''actorId'' = map_option JStr (t_actorId t)" "obj_get ob ''reason'' = map_option JStr (t_reason t)"
    "obj_get ob ''sealedAt'' = map_option JStr (t_sealedAt t)" "obj_get ob ''prevTransitionHash'' = map_option JStr (t_prevTransitionHash t)"
    by (simp_all add: ob_def transition_json_full_def printed_fields split: option.split)
  show ?thesis
    unfolding TransitionSchema_def json
    by (simp add: field_printed [OF fields(1)] field_printed [OF fields(2)] field_printed [OF fields(3)] field_printed [OF fields(4)]
        field_printed [OF fields(5)] optional_printed [OF options(1)] optional_printed [OF options(2)] optional_printed [OF options(3)]
        optional_printed [OF options(4)] string1_optional datetime_optional plain_optional datetime_printed nonneg_printed transition_wf_def)
qed

section \<open>Properties\<close>

text \<open>C39: 
  A read receipt printed by the audit route parses back to itself exactly when its fields are filled in, its time is one and its status is
  allowed or denied.
\<close>

theorem receipt_round_trip: "Seal0ReceiptSchema dt (receipt_json r) = Some r \<longleftrightarrow> receipt_wf dt r"
  by (simp add: receipt_parsed)

text \<open>A transition printed by the document route parses back to itself exactly when it is one the schema describes.\<close>

theorem transition_round_trip: "TransitionSchema dt (transition_json_full t) = Some t \<longleftrightarrow> transition_wf dt t"
  by (simp add: transition_parsed)

text \<open>A sampling rate that has parsed is a fraction.\<close>

lemma yields_fraction: "yields z_fraction (\<lambda>r. 0 \<le> r \<and> r \<le> 1)"
  by (auto simp: yields_def z_fraction_def split: option.splits if_splits)

definition sampling_wf :: "sampling \<Rightarrow> bool" where
  "sampling_wf s \<longleftrightarrow> 0 \<le> sm_constitutional s \<and> sm_constitutional s \<le> 1 \<and> 0 \<le> sm_legislative s \<and> sm_legislative s \<le> 1
     \<and> 0 \<le> sm_telemetry s \<and> sm_telemetry s \<le> 1"

lemma fraction_default: "z_default ob k d z_fraction = Some r \<Longrightarrow> 0 \<le> d \<and> d \<le> 1 \<Longrightarrow> 0 \<le> r \<and> r \<le> 1"
  by (rule default_yields [OF _ yields_fraction])

lemma yields_sampling: "yields SamplingSchema sampling_wf"
  by (auto simp: yields_def SamplingSchema_def sampling_wf_def dest!: bind_SomeD fraction_default)

lemma censorate_config_wf:
  assumes "CensorateRuntimeConfigSchema url j = Some c"
  shows "sampling_wf (cc_sampling c) \<and> safe_positive (cc_seal0_retention_days c)"
proof -
  from assms obtain ob where ob: "z_default ob ''seal0_retention_days'' 365 z_positive = Some (cc_seal0_retention_days c)"
    "z_default ob ''sampling'' default_sampling SamplingSchema = Some (cc_sampling c)"
    by (auto simp: CensorateRuntimeConfigSchema_def dest!: bind_SomeD)
  then show ?thesis
    using default_yields [OF ob(2) yields_sampling] default_yields [OF ob(1) yields_positive]
    by (simp add: default_sampling_def sampling_wf_def max_safe_def)
qed

end
