(* ===== verification/Mobile_Foreman.thy ===== *)
theory Mobile_Foreman
  imports Seal_Crypto Js_Time
begin

text \<open>
  \<open>packages/mobile-foreman/src/index.ts\<close>: the offline queue of a foreman and its synchronisation with the minister. The store is passed and
  returned; the functions that change it in place return the same object. \<open>sha\<close> is SHA-256 in hex, and a time that \<open>Date\<close> cannot read is
  \<open>None\<close>, which is smaller than nothing.
\<close>

record offline_item =
  oi_messageId :: string
  oi_seals2to5 :: "string list"
  oi_pendingImperial :: bool
  oi_createdAt :: iso

record offline_store =
  os_queue :: "offline_item list"
  os_conflicts :: "(string \<times> string) list"

definition createOfflineStore :: offline_store where
  "createOfflineStore = \<lparr>os_queue = [], os_conflicts = []\<rparr>"

definition queueReviewSeal :: "iso \<Rightarrow> string \<Rightarrow> string list \<Rightarrow> offline_store \<Rightarrow> offline_store" where
  "queueReviewSeal now messageId seals store = store\<lparr>os_queue := os_queue store @
     [\<lparr>oi_messageId = messageId, oi_seals2to5 = seals, oi_pendingImperial = True, oi_createdAt = now\<rparr>]\<rparr>"

text \<open>The first item of the message.\<close>

fun mark_imperial :: "string \<Rightarrow> offline_item list \<Rightarrow> offline_item list" where
  "mark_imperial i [] = []"
| "mark_imperial i (x # xs) = (if oi_messageId x = i then x\<lparr>oi_pendingImperial := True\<rparr> # xs else x # mark_imperial i xs)"

definition queueImperialRequest :: "string \<Rightarrow> offline_store \<Rightarrow> offline_store" where
  "queueImperialRequest messageId store = store\<lparr>os_queue := mark_imperial messageId (os_queue store)\<rparr>"

definition queue_json :: "offline_item list \<Rightarrow> json" where
  "queue_json items = JArr (map (\<lambda>x. JObj [(''id'', JStr (oi_messageId x)), (''seals'', JArr (map JStr (oi_seals2to5 x)))]) items)"

definition queue_digest :: "(string \<Rightarrow> string) \<Rightarrow> offline_item list \<Rightarrow> string" where
  "queue_digest sha items = sha (stringify (queue_json items))"

definition syncWithMinister :: "(string \<Rightarrow> string) \<Rightarrow> offline_store \<Rightarrow> string \<Rightarrow> string \<Rightarrow> nat \<times> bool \<times> string" where
  "syncWithMinister sha store localRoot remoteRoot =
     (let nextRoot = queue_digest sha (os_queue store); converged = (localRoot = remoteRoot \<or> remoteRoot = nextRoot)
      in (length (os_queue store), converged, nextRoot))"

definition not_later :: "int option \<Rightarrow> int option \<Rightarrow> bool" where
  "not_later a b \<longleftrightarrow> (case (a, b) of (Some x, Some y) \<Rightarrow> x \<le> y | _ \<Rightarrow> False)"

definition resolveConcurrentReview :: "string \<Rightarrow> string \<Rightarrow> iso \<Rightarrow> iso \<Rightarrow> string \<times> string \<times> bool" where
  "resolveConcurrentReview firstReviewer secondReviewer firstAtIso secondAtIso =
     (if not_later (ms_of_iso firstAtIso) (ms_of_iso secondAtIso) then (firstReviewer, ''first'', True)
      else (secondReviewer, ''second'', True))"

section \<open>Properties\<close>

lemma marked_same [simp]: "map oi_messageId (mark_imperial i xs) = map oi_messageId xs" "map oi_seals2to5 (mark_imperial i xs) = map oi_seals2to5 xs"
  by (induction xs) auto

lemma queue_json_marked [simp]: "queue_json (mark_imperial i xs) = queue_json xs"
  by (induction xs) (auto simp: queue_json_def)

lemma marked_length [simp]: "length (mark_imperial i xs) = length xs"
  by (induction xs) auto

text \<open>An imperial request changes neither the digest nor what is transferred: the minister cannot learn from them that one is pending.\<close>

theorem imperial_request_unseen:
  "syncWithMinister sha (queueImperialRequest i store) localRoot remoteRoot = syncWithMinister sha store localRoot remoteRoot"
  by (simp add: syncWithMinister_def queueImperialRequest_def queue_digest_def Let_def)

text \<open>
  Two foremen that name the reviews in opposite order agree on the winner exactly when both times can be read and differ, or the reviewer
  is the same.
\<close>

theorem review_order_free:
  "fst (resolveConcurrentReview a b s t) = fst (resolveConcurrentReview b a t s)
     \<longleftrightarrow> a = b \<or> (\<exists>x y. ms_of_iso s = Some x \<and> ms_of_iso t = Some y \<and> x \<noteq> y)"
  by (auto simp: resolveConcurrentReview_def not_later_def split: option.splits)

text \<open>Equal roots mean the same messages with the same seals in the same order, unless the digest collides.\<close>

theorem foreman_root_binds:
  assumes "queue_digest sha xs = queue_digest sha ys" "inj_on sha {stringify (queue_json xs), stringify (queue_json ys)}"
  shows "map oi_messageId xs = map oi_messageId ys \<and> map oi_seals2to5 xs = map oi_seals2to5 ys"
proof -
  have strings: "map JStr a = map JStr b \<longleftrightarrow> a = b" for a b by (rule inj_map_eq_map) (simp add: inj_def)
  have wf: "json_wf (queue_json zs)" for zs by (auto simp: queue_json_def)
  from assms have "stringify (queue_json xs) = stringify (queue_json ys)"
    unfolding queue_digest_def by (meson inj_onD insertCI)
  then have "json_parse (stringify (queue_json xs)) = json_parse (stringify (queue_json ys))" by (rule arg_cong)
  then have "queue_json xs = queue_json ys" unfolding json_parse_stringify [OF wf] by simp
  then show ?thesis
  proof (induction xs arbitrary: ys)
    case Nil
    then show ?case by (cases ys) (simp_all add: queue_json_def)
  next
    case (Cons x xs)
    then obtain y ys' where ys: "ys = y # ys'" by (cases ys) (simp_all add: queue_json_def)
    have "oi_messageId x = oi_messageId y \<and> oi_seals2to5 x = oi_seals2to5 y" "queue_json xs = queue_json ys'"
      using Cons.prems strings by (simp_all add: ys queue_json_def)
    with Cons.IH [of ys'] ys show ?case by simp
  qed
qed

theorem foreman_root_binds_witness:
  "map oi_messageId (os_queue (queueReviewSeal ''1'' ''m'' [''s''] createOfflineStore)) = [''m'']"
proof -
  let ?a = "queueReviewSeal ''1'' ''m'' [''s''] createOfflineStore" and ?b = "queueReviewSeal [] ''m'' [''s''] createOfflineStore"
  have "queue_digest id (os_queue ?a) = queue_digest id (os_queue ?b)"
    by (simp add: queue_digest_def queue_json_def queueReviewSeal_def createOfflineStore_def)
  then have "map oi_messageId (os_queue ?a) = map oi_messageId (os_queue ?b)"
    using foreman_root_binds [of id "os_queue ?a" "os_queue ?b"] by simp
  then show ?thesis by (simp add: queueReviewSeal_def createOfflineStore_def)
qed

end
