(* ===== verification/Server_Boot.thy ===== *)
theory Server_Boot
  imports Bootstrap_Types Gateway_Auth Bridge_Gateway Dedup
begin

text \<open>
  \<open>packages/server/src/index.ts\<close>: the worker that hosts the gateway, from the variables of its environment to a configuration, the seal
  context and the options of the gateway, and its metrics. A variable is \<open>env ''WENYAN_...''\<close>; \<open>createRepository\<close> and the start of the
  embedded bridge are parameters that may throw. The law mode is not kept: \<open>strict\<close> is the only one. Latencies are kept in milliseconds and
  their sum is exact.
\<close>

section \<open>Reading variables\<close>

type_synonym server_env = "string \<Rightarrow> string option"

definition DEFAULT_NODE_ID :: string where
  "DEFAULT_NODE_ID = ''00000000-0000-4000-8000-000000000000''"

definition DEFAULT_GENESIS_KEY :: string where
  "DEFAULT_GENESIS_KEY = ''MDEyMzQ1Njc4OWFiY2RlZjAxMjM0NTY3ODlhYmNkZWY=''"

definition env_or :: "server_env \<Rightarrow> string \<Rightarrow> string \<Rightarrow> string" where
  "env_or env k d = (case env k of None \<Rightarrow> d | Some s \<Rightarrow> s)"

definition env_truthy :: "server_env \<Rightarrow> string \<Rightarrow> string option" where
  "env_truthy env k = (case env k of Some s \<Rightarrow> if s = [] then None else Some s | None \<Rightarrow> None)"

text \<open>\<open>Number(undefined)\<close> is \<open>NaN\<close>.\<close>

definition parsePositiveInt :: "string option \<Rightarrow> int \<Rightarrow> int" where
  "parsePositiveInt raw fallback =
     (case Option.bind raw str_Number of
        None \<Rightarrow> fallback
      | Some n \<Rightarrow> if n \<le> 0 then fallback else \<lfloor>n\<rfloor>)"

definition parseBoolean :: "string option \<Rightarrow> bool \<Rightarrow> bool" where
  "parseBoolean raw fallback =
     (case raw of
        None \<Rightarrow> fallback
      | Some s \<Rightarrow>
          (if s = [] then fallback
           else (let normalized = js_lower (Bridge_Gateway.js_trim s) in
             if normalized = ''true'' then True else if normalized = ''false'' then False else fallback)))"

definition parseCsv :: "string option \<Rightarrow> string list" where
  "parseCsv raw = (case raw of None \<Rightarrow> []
     | Some s \<Rightarrow> if s = [] then [] else filter (\<lambda>v. v \<noteq> []) (map Bridge_Gateway.js_trim (split_on (CHR '','') s)))"

definition parseLawPreload :: "string option \<Rightarrow> string list option" where
  "parseLawPreload raw =
     (case raw of
        None \<Rightarrow> None
      | Some s \<Rightarrow>
          (if s = [] then None
           else (let vs = filter (\<lambda>v. v \<in> {''appointment'', ''classification'', ''routing'', ''admission'', ''protocol'', ''regulation'',
                         ''access_control'', ''detection_rule''}) (map Bridge_Gateway.js_trim (split_on (CHR '','') s))
                 in if vs = [] then None else Some vs)))"

definition parseBridgeAdapters :: "string option \<Rightarrow> json list" where
  "parseBridgeAdapters raw =
     (case raw of
        None \<Rightarrow> []
      | Some s \<Rightarrow> if s = [] then [] else (case json_parse s of Some (JArr xs) \<Rightarrow> xs | _ \<Rightarrow> []))"

definition parseStringMap :: "string option \<Rightarrow> (string \<times> string) list" where
  "parseStringMap raw =
     (case raw of
        None \<Rightarrow> []
      | Some s \<Rightarrow>
          (if s = [] then []
           else (case json_parse s of
               Some (JObj ps) \<Rightarrow> concat (map (\<lambda>(k, v). case v of JStr t \<Rightarrow> (if t = [] then [] else [(k, t)]) | _ \<Rightarrow> []) ps)
             | _ \<Rightarrow> [])))"

definition metricsEnabled :: "server_env \<Rightarrow> bool" where
  "metricsEnabled env = (case env_truthy env ''WENYAN_METRICS_ENABLED'' of None \<Rightarrow> True | Some raw \<Rightarrow> js_lower raw \<noteq> ''false'')"

section \<open>resolveBootstrap\<close>

text \<open>A JavaScript number as JSON; \<open>NaN\<close> becomes \<open>null\<close>, which the schema refuses as well.\<close>

definition rat_json :: "rat option \<Rightarrow> json" where
  "rat_json r =
     (case r of
        None \<Rightarrow> JNull
      | Some x \<Rightarrow>
          (let (p, q) = quotient_of x in
           case find (\<lambda>k. q dvd 10 ^ k) [0..<nat q + 1] of
             None \<Rightarrow> JNull
           | Some k \<Rightarrow> JNum (p * (10 ^ k div q)) k))"

definition bootstrap_input :: "server_env \<Rightarrow> bool \<Rightarrow> json" where
  "bootstrap_input env has_db =
     (let str = (\<lambda>k d. JStr (env_or env k d)); num = (\<lambda>k d. json_int (parsePositiveInt (env k) d));
          jwtPublicKeys = (case env_truthy env ''WENYAN_AUTH_JWT_PUBLIC_KEYS_JSON'' of
             None \<Rightarrow> []
           | Some s \<Rightarrow> (case json_parse s of Some (JObj ps) \<Rightarrow> [(''jwt_public_keys'', JObj ps)] | _ \<Rightarrow> []))
      in JObj [
        (''archive'', JObj [
           (''engine'', JStr (env_or env ''WENYAN_ARCHIVE_ENGINE'' (if has_db then ''cloudflare'' else ''sqlite''))),
           (''path'', str ''WENYAN_ARCHIVE_PATH'' (''./wenyan.dang'' @ [CHR 0x27] @ ''an''))]),
        (''genesis'', JObj [(''node_id'', str ''WENYAN_NODE_ID'' DEFAULT_NODE_ID), (''genesis_key'', str ''WENYAN_GENESIS_KEY'' DEFAULT_GENESIS_KEY)]),
        (''gateway'', JObj ([(''listen'', JObj [(''host'', str ''WENYAN_GATEWAY_HOST'' ''127.0.0.1''), (''port'', num ''WENYAN_GATEWAY_PORT'' 8787)])]
           @ (case env_truthy env ''WENYAN_UPSTREAM'' of None \<Rightarrow> [] | Some u \<Rightarrow> [(''upstream'', JStr u)]) @ [(''stream_mode'', JStr ''sse'')])),
        (''auth'', JObj ([(''jwt_issuer'', str ''WENYAN_AUTH_JWT_ISSUER'' ''wenyan.local''),
           (''jwt_audience'', str ''WENYAN_AUTH_JWT_AUDIENCE'' ''wenyan-gateway''), (''jwt_alg'', str ''WENYAN_AUTH_JWT_ALG'' ''HS256''),
           (''jwt_secret'', str ''WENYAN_AUTH_JWT_SECRET'' ''wenyan-local-jwt-secret'')] @ jwtPublicKeys
           @ [(''allow_header_actor'', JBool (parseBoolean (env ''WENYAN_AUTH_ALLOW_HEADER_ACTOR'') False))])),
        (''law'', JObj [(''mode'', str ''WENYAN_LAW_MODE'' ''strict'')]),
        (''law_cache'', JObj [(''ttl_seconds'', num ''WENYAN_LAW_CACHE_TTL_SECONDS'' 60),
           (''preload_types'', JArr (map JStr (case parseLawPreload (env ''WENYAN_LAW_PRELOAD_TYPES'') of
              None \<Rightarrow> [''appointment'', ''classification''] | Some vs \<Rightarrow> vs)))]),
        (''distributed'', JObj [(''mode'', str ''WENYAN_DISTRIBUTED_MODE'' ''single''),
           (''node_id'', str ''WENYAN_DISTRIBUTED_NODE_ID'' (env_or env ''WENYAN_NODE_ID'' DEFAULT_NODE_ID)),
           (''bind_gossip'', str ''WENYAN_DISTRIBUTED_BIND_GOSSIP'' ''127.0.0.1:7946''),
           (''seeds'', JArr (map JStr (parseCsv (env ''WENYAN_DISTRIBUTED_SEEDS'')))), (''fanout'', num ''WENYAN_DISTRIBUTED_FANOUT'' 3),
           (''suspicion_timeout_ms'', num ''WENYAN_DISTRIBUTED_SUSPICION_TIMEOUT_MS'' 5000)]),
        (''consensus'', JObj [(''kind'', str ''WENYAN_CONSENSUS_KIND'' ''none''),
           (''replica_set'', JArr (map JStr (parseCsv (env ''WENYAN_CONSENSUS_REPLICA_SET'')))),
           (''constitutional_threshold'', num ''WENYAN_CONSENSUS_THRESHOLD'' 3),
           (''view_change_timeout_ms'', num ''WENYAN_CONSENSUS_VIEW_CHANGE_TIMEOUT_MS'' 5000),
           (''allow_single_replica'', JBool (parseBoolean (env ''WENYAN_CONSENSUS_ALLOW_SINGLE_REPLICA'') False))]),
        (''sync'', JObj [(''batch_size'', num ''WENYAN_SYNC_BATCH_SIZE'' 200), (''max_inflight'', num ''WENYAN_SYNC_MAX_INFLIGHT'' 4),
           (''retry_backoff_ms'', num ''WENYAN_SYNC_RETRY_BACKOFF_MS'' 300)]),
        (''bridge'', JObj [(''enabled'', JBool (env ''WENYAN_BRIDGE_ENABLED'' = Some ''true'')), (''mode'', str ''WENYAN_BRIDGE_MODE'' ''standalone''),
           (''adapters'', JArr (parseBridgeAdapters (env ''WENYAN_BRIDGE_ADAPTERS_JSON''))),
           (''sync'', JObj [(''mode'', str ''WENYAN_BRIDGE_SYNC_MODE'' ''hybrid''),
              (''poll_interval_ms'', num ''WENYAN_BRIDGE_SYNC_POLL_INTERVAL_MS'' 1000), (''batch_size'', num ''WENYAN_BRIDGE_SYNC_BATCH_SIZE'' 100)]),
           (''circuit_breaker'', JObj [
              (''failure_rate_threshold'', rat_json (case env ''WENYAN_BRIDGE_BREAKER_FAILURE_RATE'' of None \<Rightarrow> Some (5 / 100) | Some s \<Rightarrow> str_Number s)),
              (''cool_down_ms'', num ''WENYAN_BRIDGE_BREAKER_COOL_DOWN_MS'' 30000), (''max_retries'', num ''WENYAN_BRIDGE_BREAKER_MAX_RETRIES'' 10)])])])"

definition resolveBootstrap :: "(string \<Rightarrow> bool) \<Rightarrow> (string \<Rightarrow> bool) \<Rightarrow> server_env \<Rightarrow> bool \<Rightarrow> bootstrap_config option" where
  "resolveBootstrap url uuid env has_db = parseBootstrapConfig url uuid (bootstrap_input env has_db)"

section \<open>The seal context\<close>

definition isPlaceholderGenesisKey :: "string \<Rightarrow> bool" where
  "isPlaceholderGenesisKey key = (let compact = filter (\<lambda>c. c \<noteq> CHR ''='') key in compact \<noteq> [] \<and> list_all (\<lambda>c. c = CHR ''A'') compact)"

definition buildSealContextFromBootstrap :: "crypto \<Rightarrow> server_env \<Rightarrow> bootstrap_config \<Rightarrow> err + seal_context" where
  "buildSealContextFromBootstrap C env b =
     (let key = cf_genesis_key (cf_genesis b); node = cf_local_node (cf_distributed b) in
      if isPlaceholderGenesisKey key then Inl (Error_msg ''invalid genesis key: placeholder value is not allowed'')
      else
       (let keyBytes = buffer_base64 key in
        if length keyBytes < 32 then Inl (Error_msg ''invalid genesis key: expected at least 32 bytes (base64 encoded)'')
        else
         (let privateKeyHex = bytes_hex (map of_nat (take 32 keyBytes)) in
          if privateKeyHex = replicate 64 (CHR ''1'') \<or> privateKeyHex = replicate 64 (CHR ''2'')
          then Inl (Error_msg ''invalid genesis key: development placeholder key material is not allowed'')
          else Inr \<lparr>c_draftPrivateKeyHex = privateKeyHex, c_draftPublicKeyHex = None, c_masterPrivateKeyHex = privateKeyHex,
            c_masterPublicKeyHex = None,
            c_capabilitySecret = (case env ''WENYAN_CAPABILITY_SECRET'' of Some s \<Rightarrow> s
               | None \<Rightarrow> take 32 (sha256 C (''wenyan-capability:'' @ key))),
            c_lamportClock = 1, c_routeKey = node @ ''.default.route'',
            c_provenance = Some (Agent_actor node (take 32 (sha256 C node))), c_imperialSignatures = Some [node],
            c_thresholdOverrides = None\<rparr>)))"

section \<open>Initialisation\<close>

record server_options =
  so_distributed :: distributed_mode
  so_consensus :: consensus_kind
  so_nodeId :: "string option"
  so_ttl_seconds :: nat
  so_preload :: "law_type list option"
  so_auth :: "auth_options option"

definition initial_options :: server_options where
  "initial_options = \<lparr>so_distributed = Single, so_consensus = No_consensus, so_nodeId = None, so_ttl_seconds = 60,
     so_preload = Some [Appointment, Classification], so_auth = None\<rparr>"

text \<open>
  \<open>buildGateway\<close> is called when the module is loaded, with the options as they are then, and it reads \<open>options.auth\<close> at once into a constant;
  the other options it reads per request.
\<close>

definition build_auth :: "server_options \<Rightarrow> auth_options" where
  "build_auth options = (case so_auth options of None \<Rightarrow> default_auth_options | Some a \<Rightarrow> a)"

text \<open>\<open>wenyanArchiveInit\<close> is the promise of the initialisation: none yet, fulfilled or rejected.\<close>

datatype init_promise = Not_started | Fulfilled | Rejected_with err

record worker =
  wk_init :: init_promise
  wk_options :: server_options
  wk_gateway_auth :: auth_options                \<comment> \<open>\<open>authConfig\<close> of \<open>wenyanGateway\<close>\<close>
  wk_seal :: "seal_context option"
  wk_archive :: "db option"
  wk_bridge :: bool

definition new_worker :: worker where
  "new_worker = \<lparr>wk_init = Not_started, wk_options = initial_options, wk_gateway_auth = build_auth initial_options, wk_seal = None, wk_archive = None, wk_bridge = False\<rparr>"

record runtime =
  rt_env :: server_env
  rt_has_db :: bool
  rt_url :: "string \<Rightarrow> bool"
  rt_uuid :: "string \<Rightarrow> bool"
  rt_crypto :: crypto
  rt_create :: "archive_engine \<Rightarrow> string \<Rightarrow> err + db"     \<comment> \<open>\<open>createRepository\<close>\<close>
  rt_node_runtime :: bool
  rt_bridge_start :: "bootstrap_config \<Rightarrow> err option"

definition options_of :: "bootstrap_config \<Rightarrow> server_options" where
  "options_of b = \<lparr>so_distributed = cf_mode (cf_distributed b), so_consensus = cf_kind (cf_consensus b),
     so_nodeId = Some (cf_local_node (cf_distributed b)),
     so_ttl_seconds = (case cf_law_cache b of None \<Rightarrow> 60 | Some l \<Rightarrow> cf_ttl_seconds l),
     so_preload = map_option cf_preload_types (cf_law_cache b),
     so_auth = Some \<lparr>ao_jwtIssuer = cf_jwt_issuer (cf_auth b), ao_jwtAudience = cf_jwt_audience (cf_auth b),
       ao_eddsa = (cf_jwt_alg (cf_auth b) = EdDSA), ao_jwtSecret = cf_jwt_secret (cf_auth b),
       ao_jwtPublicKeys = cf_jwt_public_keys (cf_auth b), ao_allowHeaderActor = cf_allow_header_actor (cf_auth b)\<rparr>\<rparr>"

definition resolveStorageAdapter :: "runtime \<Rightarrow> archive_engine \<Rightarrow> string \<Rightarrow> err + db" where
  "resolveStorageAdapter R kind sqlitePath =
     (if kind = Cloudflare \<and> \<not> rt_has_db R then Inl (Error_msg ''cloudflare adapter requires DB binding'') else rt_create R kind sqlitePath)"

definition refuse_disabled :: "bootstrap_config \<Rightarrow> err option" where
  "refuse_disabled b =
     (if cf_mode (cf_distributed b) = Consort then Some (Error_msg ''Feature Disabled: distributed consort is disabled in v1.0.1'')
      else if cf_kind (cf_consensus b) = Pbft then Some (Error_msg ''Feature Disabled: PBFT is disabled in v1.0.1'')
      else None)"

definition start_bridge :: "runtime \<Rightarrow> bootstrap_config \<Rightarrow> worker \<Rightarrow> (worker, unit) out" where
  "start_bridge R b w =
     (if cf_enabled (cf_bridge b) \<and> cf_bridge_mode (cf_bridge b) = Embedded \<and> rt_node_runtime R
      then (case rt_bridge_start R b of None \<Rightarrow> Done () (w\<lparr>wk_bridge := True\<rparr>) | Some e \<Rightarrow> Fail e (w\<lparr>wk_bridge := True\<rparr>))
      else Done () w)"

definition initialise :: "runtime \<Rightarrow> worker \<Rightarrow> (worker, unit) out" where
  "initialise R w =
     (case resolveBootstrap (rt_url R) (rt_uuid R) (rt_env R) (rt_has_db R) of
        None \<Rightarrow> Fail Zod_invalid w
      | Some b \<Rightarrow>
         (let w1 = w\<lparr>wk_options := options_of b\<rparr> in
          case buildSealContextFromBootstrap (rt_crypto R) (rt_env R) b of
            Inl e \<Rightarrow> Fail e w1
          | Inr ctx \<Rightarrow>
             (let w2 = w1\<lparr>wk_seal := Some ctx\<rparr> in
              case resolveStorageAdapter R (cf_engine (cf_archive b)) (cf_path (cf_archive b)) of
                Inl e \<Rightarrow> Fail e w2
              | Inr d \<Rightarrow>
                 (let w3 = w2\<lparr>wk_archive := Some d\<rparr> in
                  case refuse_disabled b of Some e \<Rightarrow> Fail e w3 | None \<Rightarrow> start_bridge R b w3))))"

text \<open>The middleware: every request waits for the one promise.\<close>

definition await_init :: "runtime \<Rightarrow> worker \<Rightarrow> (worker, unit) out" where
  "await_init R w =
     (case wk_init w of
        Fulfilled \<Rightarrow> Done () w
      | Rejected_with e \<Rightarrow> Fail e w
      | Not_started \<Rightarrow>
          (case initialise R w of
             Done _ w' \<Rightarrow> Done () (w'\<lparr>wk_init := Fulfilled\<rparr>)
           | Fail e w' \<Rightarrow> Fail e (w'\<lparr>wk_init := Rejected_with e\<rparr>)))"

fun await_all :: "runtime list \<Rightarrow> worker \<Rightarrow> worker" where
  "await_all [] w = w"
| "await_all (R # Rs) w = await_all Rs (out_state (await_init R w))"

section \<open>Metrics\<close>

record metrics_state =
  ms_sealsTotal :: nat
  ms_latencies :: "nat list"           \<comment> \<open>milliseconds\<close>
  ms_byzantine :: nat
  ms_lastMerkleUpdateAt :: int

definition recordSealLatency :: "nat \<Rightarrow> metrics_state \<Rightarrow> metrics_state" where
  "recordSealLatency ms m =
     (let xs = ms_latencies m @ [ms] in m\<lparr>ms_latencies := (if length xs > 5000 then tl xs else xs)\<rparr>)"

definition on_channel_event :: "int \<Rightarrow> string \<Rightarrow> metrics_state \<Rightarrow> metrics_state" where
  "on_channel_event now_ms kind m =
     (if kind = ''archive.appended'' then m\<lparr>ms_sealsTotal := ms_sealsTotal m + 6, ms_lastMerkleUpdateAt := now_ms\<rparr> else m)"

definition HISTOGRAM_BUCKETS :: "(string \<times> nat) list" where
  "HISTOGRAM_BUCKETS = [(''0.005'', 5), (''0.01'', 10), (''0.05'', 50), (''0.1'', 100), (''0.5'', 500), (''1'', 1000), (''5'', 5000)]"

definition seconds_str :: "nat \<Rightarrow> string" where
  "seconds_str ms = (case rat_json (Some (of_nat ms / 1000)) of JNum m e \<Rightarrow> num_str m e | _ \<Rightarrow> [])"

definition metric_lines :: "int \<Rightarrow> metrics_state \<Rightarrow> string list" where
  "metric_lines now_ms m =
     (let xs = ms_latencies m in
      [''# HELP wenyan_seals_total Total processed seals.'', ''# TYPE wenyan_seals_total counter'',
       ''wenyan_seals_total '' @ nat_str (ms_sealsTotal m),
       ''# HELP wenyan_seal_latency_seconds Seal pipeline latency histogram.'', ''# TYPE wenyan_seal_latency_seconds histogram'']
      @ map (\<lambda>(label, b). ''wenyan_seal_latency_seconds_bucket{le=\"'' @ label @ ''\"} '' @ nat_str (length (filter (\<lambda>x. x \<le> b) xs))) HISTOGRAM_BUCKETS
      @ [''wenyan_seal_latency_seconds_bucket{le=\"+Inf\"} '' @ nat_str (length xs), ''wenyan_seal_latency_seconds_count '' @ nat_str (length xs),
         ''wenyan_seal_latency_seconds_sum '' @ seconds_str (sum_list xs),
         ''# HELP wenyan_byzantine_suspicions Number of suspected/dead members in current view.'', ''# TYPE wenyan_byzantine_suspicions gauge'',
         ''wenyan_byzantine_suspicions '' @ nat_str (ms_byzantine m),
         ''# HELP wenyan_merkle_root_age_seconds Age of last archive merkle update in seconds.'', ''# TYPE wenyan_merkle_root_age_seconds gauge'',
         ''wenyan_merkle_root_age_seconds '' @ int_str (max 0 ((now_ms - ms_lastMerkleUpdateAt m) div 1000))])"

text \<open>The separator is a backslash and an n.\<close>

definition renderMetricsText :: "int \<Rightarrow> metrics_state \<Rightarrow> string" where
  "renderMetricsText now_ms m = join_with [CHR 0x5C, CHR ''n''] (metric_lines now_ms m) @ [CHR 0x5C, CHR ''n'']"

end
