(* ===== verification/Genesis_Correct.thy ===== *)
theory Genesis_Correct
  imports Genesis Archive_Sync Pipeline_Archive
begin

text \<open>
  A fresh archive gets two definitions and seven laws from \<open>applyGenesis\<close>, all in force at once, and a second run adds nothing.
\<close>

section \<open>Sealing\<close>

definition sealing_ok :: "crypto \<Rightarrow> seal_context \<Rightarrow> genesis_item \<Rightarrow> bool" where
  "sealing_ok C ctx it \<longleftrightarrow> crypto_law C \<and> keys_ok C ctx \<and> provenance_ok (c_provenance ctx)
     \<and> (\<exists>iat. unix_seconds (gi_seal it Shenfu3) = Some iat \<and> in_window iat (gi_verify_ms it))"

lemma sealing_chain:
  assumes "sealing_ok C ctx it" "required_signatures m ctx \<le> provided_signatures ctx"
  obtains ss where "createSealChain C m ctx (gi_seal it) ''GENESIS'' = Inr ss" "verifySealChain C m ss ctx (gi_verify_ms it) = Some True"
proof -
  from assms(1) obtain iat where ok: "crypto_law C" "keys_ok C ctx" "provenance_ok (c_provenance ctx)"
    "unix_seconds (gi_seal it Shenfu3) = Some iat" "in_window iat (gi_verify_ms it)" by (auto simp: sealing_ok_def)
  obtain ss where ss: "createSealChain C m ctx (gi_seal it) ''GENESIS'' = Inr ss"
    using seal_loop_total [OF ok(1,2)] assms(2) unfolding createSealChain_def by blast
  have "length ss = 6" using length_created [OF ss [unfolded createSealChain_def]] by (simp add: stageOrder_def)
  moreover have "verify_loop C m ctx (gi_verify_ms it) ''GENESIS'' stageOrder ss = Some True"
    using verify_created [where clock = "gi_seal it", OF ok(1-4) ss [unfolded createSealChain_def]] ok(5) by simp
  ultimately show thesis using that ss by (simp add: verifySealChain_def)
qed

section \<open>One document\<close>

text \<open>The ids an archive uses start with one of the keys.\<close>

definition uses :: "string list \<Rightarrow> string \<Rightarrow> bool" where
  "uses ks x \<longleftrightarrow> (\<exists>k\<in>set ks. take (length k) x = k)"

definition only_keys :: "string list \<Rightarrow> db \<Rightarrow> bool" where
  "only_keys ks d \<longleftrightarrow> (\<forall>i\<in>message_ids d. uses ks i) \<and> (\<forall>s\<in>set (db_seals d). uses ks (s_sealId s))
     \<and> (\<forall>r\<in>set (db_transitions d). uses ks (tr_messageId r)) \<and> (\<forall>e\<in>set (db_edicts d). uses ks (er_messageId e))
     \<and> (\<forall>t\<in>set (db_ti d). uses ks (ti_messageId t))"

definition apart :: "string \<Rightarrow> string list \<Rightarrow> bool" where
  "apart k ks \<longleftrightarrow> (\<forall>j\<in>set ks. take (length k) j \<noteq> k \<and> take (length j) k \<noteq> j)"

lemma apart_unused: "apart k ks \<Longrightarrow> \<not> uses ks (k @ x)"
proof
  assume "apart k ks" "uses ks (k @ x)"
  then obtain j where j: "take (length j) (k @ x) = j" "take (length k) j \<noteq> k" "take (length j) k \<noteq> j"
    by (auto simp: uses_def apart_def)
  show False
  proof (cases "length j \<le> length k")
    case False
    then have "take (length k) (take (length j) (k @ x)) = take (length k) (k @ x)" unfolding take_take using False by (simp only: min_absorb1 not_le less_imp_le)
    moreover have "take (length k) j = take (length k) (take (length j) (k @ x))" by (simp only: j(1))
    moreover have "take (length k) (k @ x) = k" by simp
    ultimately show False using j(2) by (simp only:)
  qed (use j in simp)
qed

lemma uses_own [simp]: "uses (k # ks) (k @ x)"
  by (simp add: uses_def)

lemma uses_more: "uses ks x \<Longrightarrow> uses (k # ks) x"
  by (auto simp: uses_def)

lemma seals_frame [simp]: "getMessage j (d\<lparr>db_seals := x\<rparr>) = getMessage j d"
  by (simp add: getMessage_def)

lemma store_seals_Done:
  assumes "distinct (map s_sealId ss)" "\<forall>s\<in>set ss. s_messageId s = i" "i \<in> message_ids d"
    "s_sealId ` set ss \<inter> s_sealId ` set (db_seals d) = {}"
  shows "\<exists>d'. store_seals ss d = Done () d' \<and> db_seals d' = db_seals d @ ss \<and> message_ids d' = message_ids d
    \<and> (\<forall>j. getMessage j d' = getMessage j d) \<and> db_transitions d' = db_transitions d \<and> db_edicts d' = db_edicts d \<and> db_ti d' = db_ti d"
  using assms
proof (induction ss arbitrary: d)
  case (Cons s ss)
  obtain d1 where one: "appendSeal s d = Done () d1" "db_seals d1 = db_seals d @ [s]" "message_ids d1 = message_ids d"
    "\<And>j. getMessage j d1 = getMessage j d" "db_transitions d1 = db_transitions d" "db_edicts d1 = db_edicts d" "db_ti d1 = db_ti d"
    using Cons.prems by (auto simp: appendSeal_def Let_def frame_simps)
  have "\<exists>d'. store_seals ss d1 = Done () d' \<and> db_seals d' = db_seals d1 @ ss \<and> message_ids d' = message_ids d1
    \<and> (\<forall>j. getMessage j d' = getMessage j d1) \<and> db_transitions d' = db_transitions d1 \<and> db_edicts d' = db_edicts d1 \<and> db_ti d' = db_ti d1"
    by (rule Cons.IH) (use Cons.prems one in auto)
  with one show ?case by auto
qed simp

text \<open>A row of the index of an archived document.\<close>

definition document_indexed :: "envelope \<Rightarrow> iso \<Rightarrow> db \<Rightarrow> db \<Rightarrow> bool" where
  "document_indexed m sealedAt d d' \<longleftrightarrow>
     (if e_genre m = ''edict''
      then db_ti d' = db_ti d \<and> (\<exists>l p. as_str (obj_get (e_payload m) ''law_type'') = Some l
        \<and> js_Number (nullish (obj_get (e_payload m) ''precedence'') (JNum 0 0)) = Some p \<and> db_edicts d' = db_edicts d @ [edict_row_of m l p sealedAt])
      else db_edicts d' = db_edicts d \<and> (\<exists>g. as_str (obj_get (e_payload m) ''target_genre'') = Some g
        \<and> db_ti d' = db_ti d @ [ti_row_of m g sealedAt]))"

definition genesis_document :: "envelope \<Rightarrow> bool" where
  "genesis_document m \<longleftrightarrow> superseded_by_of (e_payload m) = None
     \<and> (if e_genre m = ''edict'' then as_str (obj_get (e_payload m) ''law_type'') \<noteq> None
          \<and> js_Number (nullish (obj_get (e_payload m) ''precedence'') (JNum 0 0)) \<noteq> None
        else e_genre m = ''ti_definition'' \<and> as_str (obj_get (e_payload m) ''target_genre'') \<noteq> None)"

lemma index_new:
  assumes "genesis_document m" "getMessage (e_id m) d = Some m" "e_id m \<notin> er_messageId ` set (db_edicts d)"
    "e_id m \<notin> ti_messageId ` set (db_ti d)"
  shows "\<exists>d'. indexArchivedMessage (e_id m) sealedAt d = Done () d' \<and> document_indexed m sealedAt d d' \<and> message_ids d' = message_ids d
    \<and> db_seals d' = db_seals d \<and> db_transitions d' = db_transitions d"
  using assms
  by (auto simp: indexArchivedMessage_def Let_def genesis_document_def fk_ok_def document_indexed_def upsert_def edict_row_of_def ti_row_of_def
      frame_simps split: if_splits)

lemma archived_new:
  assumes ok: "sealing_ok C ctx it" "required_signatures m ctx \<le> provided_signatures ctx" and doc: "genesis_document m"
    and keys: "only_keys ks d" "apart k ks" "e_id m = k @ u"
  shows "\<exists>d'. appendArchived C ctx it m d = Done () d' \<and> document_indexed m (gi_sealedAt it) d d' \<and> only_keys (k # ks) d'"
proof -
  let ?i = "e_id m"
  have new: "\<not> uses ks (?i @ x)" for x using apart_unused [OF keys(2)] keys(3) by simp
  then have new0: "\<not> uses ks ?i" using new [of "[]"] by simp
  obtain ss where ss: "createSealChain C m ctx (gi_seal it) ''GENESIS'' = Inr ss" "verifySealChain C m ss ctx (gi_verify_ms it) = Some True"
    using sealing_chain [OF ok] .
  let ?d1 = "d\<lparr>db_messages := db_messages d @ [message_row_of (sha256 C) (gi_received it) m]\<rparr>"
  have fresh: "?i \<notin> message_ids d" using new0 keys(1) by (auto simp: only_keys_def)
  moreover from this have "getMessage ?i d = None" using getMessage_id by (cases "getMessage ?i d") auto
  ultimately have m1: "appendMessage (sha256 C) (gi_received it) m d = Done () ?d1" "message_ids ?d1 = insert ?i (message_ids d)"
      "getMessage ?i ?d1 = Some m"
    using doc getMessage_new [where i = "e_id m" and d = d and m = m]
    by (simp_all add: appendMessage_def genesis_document_def fk_ok_def message_ids_def message_row_of_def)
  have ids: "\<forall>s\<in>set ss. \<exists>x. s_sealId s = ?i @ x"
  proof -
    from conjunct1 [OF seal_loop_ids [OF ss(1) [unfolded createSealChain_def]]]
    have "set (map s_sealId ss) = set (map (\<lambda>t. ?i @ ''-'' @ stage_str t @ ''-'' @ gi_seal it t) stageOrder)" by (rule arg_cong)
    then have "s_sealId ` set ss = (\<lambda>t. ?i @ ''-'' @ stage_str t @ ''-'' @ gi_seal it t) ` set stageOrder" by (simp only: list.set_map)
    then show ?thesis by blast
  qed
  obtain d2 where d2: "store_seals ss ?d1 = Done () d2" "db_seals d2 = db_seals ?d1 @ ss" "message_ids d2 = message_ids ?d1"
    "getMessage ?i d2 = Some m" "db_transitions d2 = db_transitions d" "db_edicts d2 = db_edicts d" "db_ti d2 = db_ti d"
  proof -
    have "s_sealId ` set ss \<inter> s_sealId ` set (db_seals ?d1) = {}" 
    proof (intro equals0I)
      fix y assume "y \<in> s_sealId ` set ss \<inter> s_sealId ` set (db_seals ?d1)"
      then obtain s t where y: "s \<in> set ss" "y = s_sealId s" "t \<in> set (db_seals d)" "y = s_sealId t" by auto
      obtain x where x: "s_sealId s = ?i @ x" using ids y(1) by blast
      have "uses ks (s_sealId t)" using keys(1) y(3) unfolding only_keys_def by blast
      then have "uses ks (?i @ x)" using y(2,4) x by (simp only:)
      with new show False by blast
    qed
    from store_seals_Done [OF created_ids [OF ss(1)] _ this] m1 that show thesis by auto
  qed
  let ?t = "\<lparr>t_messageId = ?i, t_fromState = Pending, t_toState = Archived, t_sequenceNo = 1, t_actorId = Some (e_actor_id m), t_reason = None,
    t_sealedAt = Some (gi_sealedAt it), t_prevTransitionHash = Some ''GENESIS'', t_at = gi_at it\<rparr>"
  have rows: "rows_of ?i d2 = []" using new0 keys(1) d2(5) by (auto simp: rows_of_def only_keys_def filter_empty_conv)
  then have pending: "snapshotState ?i d2 = None" by (simp add: snapshotState_def last_row_def)
  define d3 where "d3 = update_message ?i (\<lambda>r. r\<lparr>mr_archived_at := Some (gi_sealedAt it)\<rparr>)
    (use_id ''transitions'' (d2\<lparr>db_transitions := db_transitions d2 @ [transition_row_of (sha256 C) (next_id ''transitions'' d2) ?t ''GENESIS'']\<rparr>))"
  have tr: "appendTransition (sha256 C) ?t d2 = indexArchivedMessage ?i (gi_sealedAt it) d3"
    using pending rows m1(2) d2(3) by (simp add: appendTransition_def Let_def prev_hash_for_def d3_def)
  have g3: "getMessage ?i d3 = Some m" using d2(4) by (simp add: d3_def)
  have f3: "message_ids d3 = message_ids d2" "db_edicts d3 = db_edicts d" "db_ti d3 = db_ti d"
    "db_seals d3 = db_seals d2" "set (db_transitions d3) = insert (transition_row_of (sha256 C) (next_id ''transitions'' d2) ?t ''GENESIS'') (set (db_transitions d))"
    using d2 by (simp_all add: d3_def frame_simps use_id_def)
  have "?i \<notin> er_messageId ` set (db_edicts d3)" "?i \<notin> ti_messageId ` set (db_ti d3)"
    using new0 keys(1) f3 by (auto simp: only_keys_def)
  from index_new [OF doc g3 this, of "gi_sealedAt it"] obtain d' where d': "indexArchivedMessage ?i (gi_sealedAt it) d3 = Done () d'"
    "document_indexed m (gi_sealedAt it) d3 d'" "message_ids d' = message_ids d3" "db_seals d' = db_seals d3" "db_transitions d' = db_transitions d3"
    by blast
  have "appendArchived C ctx it m d = Done () d'"
    using m1 ss d2(1) tr d'(1) by (simp add: appendArchived_def)
  moreover have ind: "document_indexed m (gi_sealedAt it) d d'" using d'(2) unfolding document_indexed_def f3(2,3) .
  moreover have "only_keys (k # ks) d'"
  proof -
    have "uses (k # ks) ?i" "\<And>s. s \<in> set ss \<Longrightarrow> uses (k # ks) (s_sealId s)" using ids keys(3) by auto
    moreover have "e \<in> set (db_edicts d') \<Longrightarrow> e \<in> set (db_edicts d) \<or> er_messageId e = ?i" for e
      using ind by (auto simp: document_indexed_def edict_row_of_def Let_def split: if_splits)
    moreover have "t \<in> set (db_ti d') \<Longrightarrow> t \<in> set (db_ti d) \<or> ti_messageId t = ?i" for t
      using ind by (auto simp: document_indexed_def ti_row_of_def Let_def split: if_splits)
    ultimately show ?thesis
      using keys(1) d'(3-5) f3(1,4,5) d2(2,3) m1(2)
      by (auto simp: only_keys_def transition_row_of_def intro: uses_more) (metis uses_more)+
  qed
  ultimately show ?thesis by blast
qed

section \<open>The definitions and the laws\<close>

definition ti_key :: "string \<Rightarrow> string" where
  "ti_key g = ''ti-'' @ g @ ''-''"

definition law_id_key :: "law_type \<Rightarrow> string" where
  "law_id_key t = ''edict-'' @ law_type_str t @ ''-''"

definition genesis_law :: "string \<Rightarrow> genesis_clock \<Rightarrow> law_type \<Rightarrow> edict_row" where
  "genesis_law actorId clk t =
     edict_row_of (makeEdict t (lawDefaults t) actorId (gn_law clk t)) (law_type_str t) 0 (gi_sealedAt (gn_law clk t))"

definition genesis_ti :: "string \<Rightarrow> genesis_clock \<Rightarrow> string \<Rightarrow> obj \<Rightarrow> ti_row" where
  "genesis_ti actorId clk g schema = ti_row_of (makeTiDefinition g schema actorId (gn_ti clk g)) g (gi_sealedAt (gn_ti clk g))"

lemma genesis_law_fields [simp]:
  "er_lawType (genesis_law a clk t) = law_type_str t" "er_supersededEdictId (genesis_law a clk t) = None"
  "er_effectiveDate (genesis_law a clk t) = gi_effective (gn_law clk t)"
  by (simp_all add: genesis_law_def edict_row_of_def makeEdict_def Let_def nullish_def obj_get_def)

lemma genesis_ti_fields [simp]:
  "ti_targetGenre (genesis_ti a clk g s) = g" "ti_supersededBy (genesis_ti a clk g s) = None"
  "ti_sealedAt (genesis_ti a clk g s) = gi_sealedAt (gn_ti clk g)"
  by (simp_all add: genesis_ti_def ti_row_of_def makeTiDefinition_def Let_def obj_get_def)

lemma makeEdict_document: "genesis_document (makeEdict t c a it)"
  by (simp add: genesis_document_def makeEdict_def superseded_by_of_def nullish_def obj_get_def)

lemma makeTi_document: "genesis_document (makeTiDefinition g c a it)"
  by (simp add: genesis_document_def makeTiDefinition_def superseded_by_of_def obj_get_def)

lemma makeEdict_indexed:
  "document_indexed (makeEdict t c a it) sealed d d' \<longleftrightarrow>
     db_ti d' = db_ti d \<and> db_edicts d' = db_edicts d @ [edict_row_of (makeEdict t c a it) (law_type_str t) 0 sealed]"
  by (simp add: document_indexed_def makeEdict_def nullish_def obj_get_def)

lemma makeTi_indexed:
  "document_indexed (makeTiDefinition g c a it) sealed d d' \<longleftrightarrow>
     db_edicts d' = db_edicts d \<and> db_ti d' = db_ti d @ [ti_row_of (makeTiDefinition g c a it) g sealed]"
  by (simp add: document_indexed_def makeTiDefinition_def obj_get_def)

lemma law_absent: "law_type_str t \<notin> er_lawType ` set (db_edicts d) \<Longrightarrow> getCurrentLaw t now d = Inr None"
proof -
  assume "law_type_str t \<notin> er_lawType ` set (db_edicts d)"
  then have "\<forall>e\<in>set (db_edicts d). er_lawType e \<noteq> law_type_str t" by (metis imageI)
  then have "law_candidates t now d = []" by (simp add: law_candidates_def in_force_def filter_empty_conv)
  then show ?thesis by (simp add: getCurrentLaw_cases)
qed

lemma apart_Cons [simp]: "apart k (j # ks) \<longleftrightarrow> take (length k) j \<noteq> k \<and> take (length j) k \<noteq> j \<and> apart k ks"
  by (auto simp: apart_def)

lemma apart_Nil [simp]: "apart k []"
  by (simp add: apart_def)

lemma ensure_ti_new:
  assumes "sealing_ok C ctx (gn_ti clk g)" "\<And>m. e_genre m = ''ti_definition'' \<Longrightarrow> required_signatures m ctx \<le> provided_signatures ctx"
    "only_keys ks d" "apart (ti_key g) ks" "g \<notin> ti_targetGenre ` set (db_ti d)"
  shows "\<exists>d'. ensure_ti C ctx a clk g schema n d = Done (fst n + 1, snd n) d' \<and> only_keys (ti_key g # ks) d'
    \<and> db_edicts d' = db_edicts d \<and> db_ti d' = db_ti d @ [genesis_ti a clk g schema]"
proof -
  let ?m = "makeTiDefinition g schema a (gn_ti clk g)"
  have "ti_candidates g (gn_ti_now clk g) d = []" using assms(5) by (auto simp: ti_candidates_def filter_empty_conv)
  then have absent: "getCurrentTiDefinition g (gn_ti_now clk g) d = None" by (simp add: getCurrentTiDefinition_def first_row_def)
  have "e_id ?m = ti_key g @ gi_uuid (gn_ti clk g)" "e_genre ?m = ''ti_definition''"
    by (simp_all add: makeTiDefinition_def ti_key_def)
  from archived_new [OF assms(1) assms(2) [OF this(2)] makeTi_document assms(3,4) this(1)]
  show ?thesis by (auto simp: ensure_ti_def absent makeTi_indexed genesis_ti_def)
qed

lemma ensure_laws_new:
  assumes "\<And>t. t \<in> set ts \<Longrightarrow> sealing_ok C ctx (gn_law clk t)"
    "\<And>m. e_genre m = ''edict'' \<Longrightarrow> required_signatures m ctx \<le> provided_signatures ctx"
    "only_keys ks d" "\<And>t. t \<in> set ts \<Longrightarrow> apart (law_id_key t) ks" "sorted_wrt (\<lambda>t u. apart (law_id_key u) [law_id_key t]) ts"
    "distinct (map law_type_str ts)" "law_type_str ` set ts \<inter> er_lawType ` set (db_edicts d) = {}"
  shows "\<exists>d'. ensure_laws C ctx a clk ts n d = Done (fst n + length ts, snd n) d'
    \<and> db_ti d' = db_ti d \<and> db_edicts d' = db_edicts d @ map (genesis_law a clk) ts"
  using assms
proof (induction ts arbitrary: n d ks)
  case (Cons t ts)
  let ?m = "makeEdict t (lawDefaults t) a (gn_law clk t)"
  have absent: "getCurrentLaw t (gn_now clk) d = Inr None" using Cons.prems(7) by (intro law_absent) auto
  have id: "e_id ?m = law_id_key t @ gi_uuid (gn_law clk t)" "e_genre ?m = ''edict''" by (simp_all add: makeEdict_def law_id_key_def)
  have ok: "sealing_ok C ctx (gn_law clk t)" "apart (law_id_key t) ks" using Cons.prems(1,4) by simp_all
  from archived_new [OF ok(1) Cons.prems(2) [OF id(2)] makeEdict_document Cons.prems(3) ok(2) id(1)] obtain d1 where
    d1: "appendArchived C ctx (gn_law clk t) ?m d = Done () d1" "db_ti d1 = db_ti d" "db_edicts d1 = db_edicts d @ [genesis_law a clk t]"
      "only_keys (law_id_key t # ks) d1" by (auto simp: makeEdict_indexed genesis_law_def)
  have "\<exists>d'. ensure_laws C ctx a clk ts (fst n + 1, snd n) d1 = Done (fst (fst n + 1, snd n) + length ts, snd (fst n + 1, snd n)) d'
    \<and> db_ti d' = db_ti d1 \<and> db_edicts d' = db_edicts d1 @ map (genesis_law a clk) ts"
    by (rule Cons.IH) (use Cons.prems d1 in auto)
  then show ?case using d1 by (auto simp: absent)
qed auto

text \<open>What the two runs read back.\<close>

lemma law_alone:
  assumes "map law_type_str ts = map law_type_str us" "distinct (map law_type_str ts)" "t \<in> set ts" "gi_effective (gn_law clk t) \<le> now"
    "db_edicts d = map (genesis_law a clk) ts"
  shows "getCurrentLaw t now d = Inr (Some (law_of_row t (genesis_law a clk t)))"
proof -
  have "list_ex (superseding t now e) (map (genesis_law a clk) ts) \<longleftrightarrow> False" for e
    by (auto simp: list_ex_iff superseding_def)
  then have "law_candidates t now d = map (genesis_law a clk) (filter (\<lambda>u. law_type_str u = law_type_str t \<and> gi_effective (gn_law clk u) \<le> now) ts)"
    by (simp add: law_candidates_def assms(5) filter_map comp_def in_force_def)
  also have "filter (\<lambda>u. law_type_str u = law_type_str t \<and> gi_effective (gn_law clk u) \<le> now) ts = [t]"
    using assms(2-4)
  proof (induction ts)
    case (Cons u us)
    then show ?case
      by (cases "u = t") (auto simp: filter_empty_conv rev_image_eqI)
  qed simp
  finally show ?thesis by (simp add: getCurrentLaw_cases order_desc_def)
qed

lemma ti_found:
  assumes "t \<in> set (db_ti d)" "ti_targetGenre t = g" "ti_sealedAt t \<le> now" "\<forall>s\<in>set (db_ti d). ti_supersededBy s = None"
  shows "getCurrentTiDefinition g now d \<noteq> None"
proof -
  have "t \<in> set (ti_candidates g now d)" using assms by (auto simp: ti_candidates_def list_ex_iff ti_superseding_def)
  then have "order_desc (\<lambda>t. (ti_sealedAt t, ti_messageId t)) (ti_candidates g now d) \<noteq> []" by (metis empty_iff list.set(1) order_Nil_iff(2))
  then show ?thesis by (auto simp: getCurrentTiDefinition_def first_row_def split: list.split)
qed

lemma ensure_laws_again:
  "(\<And>t. t \<in> set ts \<Longrightarrow> \<exists>l. getCurrentLaw t (gn_now clk) d = Inr (Some l)) \<Longrightarrow>
    ensure_laws C ctx a clk ts n d = Done (fst n, snd n + length ts) d"
proof (induction ts arbitrary: n)
  case (Cons t ts)
  have "\<exists>l. getCurrentLaw t (gn_now clk) d = Inr (Some l)" by (rule Cons.prems) simp
  then obtain l where "getCurrentLaw t (gn_now clk) d = Inr (Some l)" ..
  with Cons show ?case by simp
qed simp

lemma seeded_distinct: "distinct (map law_type_str seededLawTypes)"
  by (simp add: seededLawTypes_def)

lemma is_hex_bytes: "is_hex (bytes_hex bs)"
proof (induction bs)
  case (Cons b bs)
  have "unat b < 256" using unsigned_less [of b, where ?'a = nat] by simp
  then have "unat b div 16 < 16" by linarith
  then show ?case using Cons by (auto simp: bytes_hex_def is_hex_def hex_val_hex_digit)
qed (simp add: bytes_hex_def is_hex_def)

lemma genesis_context:
  assumes "genesisSealContext config = Inr ctx" "crypto_law C"
  shows "keys_ok C ctx \<and> provenance_ok (c_provenance ctx) \<and> provided_signatures ctx = 1
    \<and> c_thresholdOverrides ctx = Some [(''ti_definition'', 1), (''edict'', 1)]"
  using assms
  by (auto simp: genesisSealContext_def keyHexFromBase64_def Let_def keys_ok_def DEV_SEAL_CONTEXT_def provenance_ok_def provided_signatures_def is_hex_bytes
      split: if_splits sum.splits)

text \<open>How many bytes a key has.\<close>

definition b64_digits :: "string \<Rightarrow> nat" where
  "b64_digits s = sum_list (map (\<lambda>c. if b64_val (std_char c) = None then 0 else 1) s)"

lemma length_octets: "length (octets xs) = 3 * length xs div 4"
  by (induction xs rule: octets.induct) (simp_all add: Let_def)

lemma length_buffer_base64: "length (buffer_base64 s) = 3 * b64_digits (takeWhile (\<lambda>c. c \<noteq> CHR ''='') s) div 4"
proof -
  have "length (concat (map (\<lambda>c. case b64_val (std_char c) of None \<Rightarrow> [] | Some v \<Rightarrow> [v]) t)) = b64_digits t" for t
    by (induction t) (auto simp: b64_digits_def split: option.splits)
  then show ?thesis by (simp add: buffer_base64_def length_octets)
qed

section \<open>Properties\<close>

text \<open>Only the times of a run matter: the capability seal of each document has to be within its window when the chain is verified.\<close>

definition timely :: "genesis_item \<Rightarrow> bool" where
  "timely it \<longleftrightarrow> (\<exists>iat. unix_seconds (gi_seal it Shenfu3) = Some iat \<and> in_window iat (gi_verify_ms it))"

definition genesis_items :: "genesis_clock \<Rightarrow> genesis_item list" where
  "genesis_items clk = map (gn_ti clk) [''ti_definition'', ''edict''] @ map (gn_law clk) seededLawTypes"

definition later_run :: "genesis_clock \<Rightarrow> genesis_clock \<Rightarrow> bool" where
  "later_run clk clk2 \<longleftrightarrow> list_all (\<lambda>g. gi_sealedAt (gn_ti clk g) \<le> gn_ti_now clk2 g) [''ti_definition'', ''edict'']
     \<and> list_all (\<lambda>t. gi_effective (gn_law clk t) \<le> gn_now clk2) seededLawTypes"

definition untouched :: "db \<Rightarrow> bool" where
  "untouched d \<longleftrightarrow> db_messages d = [] \<and> db_seals d = [] \<and> db_transitions d = [] \<and> db_edicts d = [] \<and> db_ti d = []"

lemma genesis_first_run:
  assumes "genesisSealContext config = Inr ctx" "crypto_law C" "list_all timely (genesis_items clk)" "untouched d"
  shows "\<exists>d'. applyGenesis C config clk d = Done (9, 0) d'
    \<and> db_edicts d' = map (genesis_law (''genesis:'' @ cf_node_id (cf_genesis config)) clk) seededLawTypes
    \<and> db_ti d' = [genesis_ti (''genesis:'' @ cf_node_id (cf_genesis config)) clk ''ti_definition'' ti_ti_schema,
        genesis_ti (''genesis:'' @ cf_node_id (cf_genesis config)) clk ''edict'' ti_edict_schema]"
proof -
  let ?a = "''genesis:'' @ cf_node_id (cf_genesis config)"
  note ctx = genesis_context [OF assms(1,2)]
  have sealing: "timely it \<Longrightarrow> sealing_ok C ctx it" for it using ctx assms(2) by (simp add: sealing_ok_def timely_def)
  have required: "e_genre m \<in> {''ti_definition'', ''edict''} \<Longrightarrow> required_signatures m ctx \<le> provided_signatures ctx" for m
    using ctx by (auto simp: required_signatures_def resolveRequiredImperialSignatures_def DEFAULT_THRESHOLD_POLICY_def obj_spread_def)
  have items: "sealing_ok C ctx (gn_ti clk ''ti_definition'')" "sealing_ok C ctx (gn_ti clk ''edict'')"
    "t \<in> set seededLawTypes \<Longrightarrow> sealing_ok C ctx (gn_law clk t)" for t
    using assms(3) by (auto simp: genesis_items_def list_all_iff intro: sealing)
  have "only_keys [] d" using assms(4) by (simp add: only_keys_def untouched_def message_ids_def)
  from ensure_ti_new [OF items(1) required this, of ?a ti_ti_schema "(0, 0)"] assms(4) obtain d1 where
    d1: "ensure_ti C ctx ?a clk ''ti_definition'' ti_ti_schema (0, 0) d = Done (1, 0) d1" "only_keys [ti_key ''ti_definition''] d1"
      "db_edicts d1 = []" "db_ti d1 = [genesis_ti ?a clk ''ti_definition'' ti_ti_schema]" by (auto simp: untouched_def)
  from ensure_ti_new [OF items(2) required d1(2), of ?a ti_edict_schema "(1, 0)"] d1(3,4) obtain d2 where
    d2: "ensure_ti C ctx ?a clk ''edict'' ti_edict_schema (1, 0) d1 = Done (2, 0) d2" "only_keys [ti_key ''edict'', ti_key ''ti_definition''] d2"
      "db_edicts d2 = []" "db_ti d2 = [genesis_ti ?a clk ''ti_definition'' ti_ti_schema, genesis_ti ?a clk ''edict'' ti_edict_schema]"
    by (auto simp: ti_key_def)
  have "t \<in> set seededLawTypes \<Longrightarrow> apart (law_id_key t) [ti_key ''edict'', ti_key ''ti_definition'']" for t
    by (cases t) (simp_all add: law_id_key_def ti_key_def)
  moreover have "sorted_wrt (\<lambda>t u. apart (law_id_key u) [law_id_key t]) seededLawTypes"
    by (simp add: seededLawTypes_def law_id_key_def)
  ultimately have "\<exists>d3. ensure_laws C ctx ?a clk seededLawTypes (2, 0) d2 = Done (fst (2, 0 :: nat) + length seededLawTypes, snd (2 :: nat, 0)) d3
    \<and> db_ti d3 = db_ti d2 \<and> db_edicts d3 = db_edicts d2 @ map (genesis_law ?a clk) seededLawTypes"
    by (intro ensure_laws_new [OF items(3) required d2(2)]) (use d2(3) seeded_distinct in auto)
  with d1(1) d2 show ?thesis by (auto simp: applyGenesis_def assms(1) applyGenesis_with_def Let_def seededLawTypes_def)
qed

text \<open>C14: 
  \<open>applyGenesis\<close> on an archive without documents stores nine, after which every seeded law is the current one and a later run,
  whatever its configuration, skips all nine and changes nothing.
\<close>

theorem genesis_is_idempotent:
  assumes "genesisSealContext config = Inr ctx" "genesisSealContext config2 = Inr ctx2" "crypto_law C" "list_all timely (genesis_items clk)"
    "untouched d" "later_run clk clk2"
  shows "\<exists>d'. applyGenesis C config clk d = Done (9, 0) d'
    \<and> (\<forall>t\<in>set seededLawTypes. getCurrentLaw t (gn_now clk2) d'
         = Inr (Some (law_of_row t (genesis_law (''genesis:'' @ cf_node_id (cf_genesis config)) clk t))))
    \<and> applyGenesis C2 config2 clk2 d' = Done (0, 9) d'"
proof -
  from genesis_first_run [OF assms(1,3-5)] obtain d' where d': "applyGenesis C config clk d = Done (9, 0) d'"
    "db_edicts d' = map (genesis_law (''genesis:'' @ cf_node_id (cf_genesis config)) clk) seededLawTypes"
    "db_ti d' = [genesis_ti (''genesis:'' @ cf_node_id (cf_genesis config)) clk ''ti_definition'' ti_ti_schema,
        genesis_ti (''genesis:'' @ cf_node_id (cf_genesis config)) clk ''edict'' ti_edict_schema]" by blast
  have law: "getCurrentLaw t (gn_now clk2) d'
      = Inr (Some (law_of_row t (genesis_law (''genesis:'' @ cf_node_id (cf_genesis config)) clk t)))" if "t \<in> set seededLawTypes" for t
    using assms(6) that by (intro law_alone [OF refl seeded_distinct that _ d'(2)]) (auto simp: later_run_def list_all_iff)
  have ti: "getCurrentTiDefinition g (gn_ti_now clk2 g) d' \<noteq> None" if "g \<in> {''ti_definition'', ''edict''}" for g
  proof -
    obtain t where t: "t \<in> set (db_ti d')" "ti_targetGenre t = g" "ti_sealedAt t = gi_sealedAt (gn_ti clk g)"
    proof (cases "g = ''ti_definition''")
      case True
      show thesis by (rule that [of "genesis_ti (''genesis:'' @ cf_node_id (cf_genesis config)) clk ''ti_definition'' ti_ti_schema"])
          (simp_all add: d'(3) True)
    next
      case False
      then have "g = ''edict''" using \<open>g \<in> _\<close> by simp
      then show thesis by (intro that [of "genesis_ti (''genesis:'' @ cf_node_id (cf_genesis config)) clk ''edict'' ti_edict_schema"])
          (simp_all add: d'(3))
    qed
    moreover have "gi_sealedAt (gn_ti clk g) \<le> gn_ti_now clk2 g" using assms(6) that unfolding later_run_def by (auto simp del: less_eq_list_code)
    moreover have "\<forall>s\<in>set (db_ti d'). ti_supersededBy s = None" by (simp add: d'(3))
    ultimately show ?thesis using ti_found [OF t(1,2)] unfolding t(3) by blast
  qed
  obtain r r' where r: "getCurrentTiDefinition ''ti_definition'' (gn_ti_now clk2 ''ti_definition'') d' = Some r"
    "getCurrentTiDefinition ''edict'' (gn_ti_now clk2 ''edict'') d' = Some r'" using ti by (metis insertCI not_None_eq)
  have "ensure_laws C2 ctx2 act clk2 seededLawTypes n d' = Done (fst n, snd n + length seededLawTypes) d'" for act n
    by (rule ensure_laws_again) (use law in blast)
  then have "applyGenesis C2 config2 clk2 d' = Done (0, 9) d'"
    by (simp add: applyGenesis_def assms(2) applyGenesis_with_def ensure_ti_def r) (simp add: seededLawTypes_def)
  with d'(1) law show ?thesis by blast
qed

text \<open>An office seeded with the demonstration signatures; the second run comes a minute later.\<close>

definition office_item :: "iso \<Rightarrow> genesis_item" where
  "office_item now = \<lparr>gi_uuid = ''u'', gi_effective = now, gi_submitted = now, gi_received = now, gi_seal = \<lambda>_. ''1970-01-01T00:00:01.000Z'',
     gi_verify_ms = 2000, gi_sealedAt = now, gi_at = now\<rparr>"

definition office_clock :: "iso \<Rightarrow> genesis_clock" where
  "office_clock now = \<lparr>gn_now = now, gn_ti_now = \<lambda>_. now, gn_ti = \<lambda>_. office_item now, gn_law = \<lambda>_. office_item now\<rparr>"

definition office_key :: string where
  "office_key = ''AAAAAAAAAAAAAAAAAAAAAAAAAAAAAAAAAAAAAAAAAAA=''"

definition office_config :: bootstrap_config where
  "office_config = defaultConfig ''n1'' office_key ''s''"

lemma office_context: "\<exists>ctx. genesisSealContext office_config = Inr ctx"
proof -
  have "length (buffer_base64 office_key) = 32"
    by (simp add: length_buffer_base64 office_key_def b64_digits_def std_char_def b64_val_def)
  then show ?thesis
    by (simp add: office_config_def genesisSealContext_def defaultConfig_def keyHexFromBase64_def)
qed

theorem genesis_is_idempotent_witness:
  "\<exists>d'. applyGenesis demo_crypto office_config (office_clock ''1970-01-01T00:00:01.000Z'') empty_db = Done (9, 0) d'
    \<and> getCurrentLaw Routing ''1970-01-01T00:01:01.000Z'' d' = Inr (Some (law_of_row Routing
        (genesis_law ''genesis:n1'' (office_clock ''1970-01-01T00:00:01.000Z'') Routing)))
    \<and> applyGenesis demo_crypto office_config (office_clock ''1970-01-01T00:01:01.000Z'') d' = Done (0, 9) d'"
proof -
  obtain ctx where ctx: "genesisSealContext office_config = Inr ctx" using office_context by blast
  have t: "list_all timely (genesis_items (office_clock ''1970-01-01T00:00:01.000Z''))"
  proof -
    have "unix_seconds ''1970-01-01T00:00:01.000Z'' = Some 1" by code_simp
    then have "timely (office_item now)" for now by (simp add: timely_def office_item_def in_window_def)
    then show ?thesis by (simp add: genesis_items_def office_clock_def seededLawTypes_def)
  qed
  have u: "untouched empty_db" by (simp add: untouched_def empty_db_def)
  have l: "later_run (office_clock ''1970-01-01T00:00:01.000Z'') (office_clock ''1970-01-01T00:01:01.000Z'')"
    by (simp add: later_run_def office_clock_def office_item_def seededLawTypes_def)
  have id: "cf_node_id (cf_genesis office_config) = ''n1''" by (simp add: office_config_def defaultConfig_def)
  from genesis_is_idempotent [OF ctx ctx demo_crypto_law t u l, where ?C2.0 = demo_crypto] show ?thesis
    unfolding id by (auto simp: seededLawTypes_def office_clock_def)
qed

text \<open>
  What \<open>buildConfigText\<close> leaves out: a configuration differing only in its distributed, consensus, sync and adapter parts has the same
  file. And a configuration without a shared secret (EdDSA) is written with an empty one, which the schema of the file refuses.
\<close>

lemma config_text_forgets:
  "buildConfigText (c\<lparr>cf_distributed := x, cf_consensus := y, cf_sync := z\<rparr>) = buildConfigText c"
  by (simp add: buildConfigText_def config_lines_def)

lemma config_text_empty_secret:
  "cf_jwt_secret (cf_auth c) = None \<Longrightarrow> quoted ''jwt_secret'' [] \<in> set (config_lines c)"
  by (simp add: config_lines_def Let_def)

end
