(* ===== verification/Server_Correct.thy ===== *)
theory Server_Correct
  imports Server_Boot Genesis_Correct Gateway_Reads
begin

text \<open>
  The host of the gateway: what a successful initialisation establishes, what a failed one leaves for ever, what the context it builds
  can seal, and its metrics.
\<close>

section \<open>Initialisation\<close>

text \<open>A digest is 64 characters long.\<close>

definition sha_length :: "crypto \<Rightarrow> bool" where
  "sha_length C \<longleftrightarrow> (\<forall>s. length (sha256 C s) = 64)"

lemma seal_context_parts:
  assumes "buildSealContextFromBootstrap C env b = Inr ctx"
  shows "keys_ok C ctx" "provided_signatures ctx = 1" "c_thresholdOverrides ctx = None"
    "c_imperialSignatures ctx = Some [cf_local_node (cf_distributed b)]"
    "c_provenance ctx = Some (Agent_actor (cf_local_node (cf_distributed b)) (take 32 (sha256 C (cf_local_node (cf_distributed b)))))"
    "c_draftPrivateKeyHex ctx = c_masterPrivateKeyHex ctx" "\<not> isPlaceholderGenesisKey (cf_genesis_key (cf_genesis b))"
  using assms
  by (auto simp: buildSealContextFromBootstrap_def Let_def keys_ok_def provided_signatures_def is_hex_bytes split: if_splits)

lemma initialise_done:
  assumes "initialise R w = Done () w'"
  obtains b ctx d where "resolveBootstrap (rt_url R) (rt_uuid R) (rt_env R) (rt_has_db R) = Some b"
    "buildSealContextFromBootstrap (rt_crypto R) (rt_env R) b = Inr ctx" "refuse_disabled b = None"
    "wk_options w' = options_of b" "wk_seal w' = Some ctx" "wk_archive w' = Some d"
  using assms
  by (auto simp: initialise_def Let_def start_bridge_def split: option.splits sum.splits if_splits)

definition booted :: "runtime \<Rightarrow> worker \<Rightarrow> bool" where
  "booted R w \<longleftrightarrow> (\<exists>b ctx d. config_wf (rt_url R) (rt_uuid R) b \<and> wk_options w = options_of b
     \<and> so_distributed (wk_options w) = Single \<and> so_consensus (wk_options w) = No_consensus
     \<and> wk_seal w = Some ctx \<and> keys_ok (rt_crypto R) ctx \<and> provenance_ok (c_provenance ctx) \<and> provided_signatures ctx = 1
     \<and> c_thresholdOverrides ctx = None \<and> \<not> isPlaceholderGenesisKey (cf_genesis_key (cf_genesis b)) \<and> wk_archive w = Some d)"

lemma initialise_boots:
  assumes "initialise R w = Done () w'" "sha_length (rt_crypto R)"
  shows "booted R (w'\<lparr>wk_init := i\<rparr>)"
proof -
  from assms(1) obtain b ctx d where parts: "resolveBootstrap (rt_url R) (rt_uuid R) (rt_env R) (rt_has_db R) = Some b"
    "buildSealContextFromBootstrap (rt_crypto R) (rt_env R) b = Inr ctx" "refuse_disabled b = None"
    "wk_options w' = options_of b" "wk_seal w' = Some ctx" "wk_archive w' = Some d" by (rule initialise_done)
  have wf: "config_wf (rt_url R) (rt_uuid R) b" using parts(1) schema_wf by (simp add: resolveBootstrap_def parseBootstrapConfig_def)
  then have "cf_local_node (cf_distributed b) \<noteq> []" by (simp add: config_wf_def distributed_wf_def)
  moreover have "take 32 (sha256 (rt_crypto R) s) \<noteq> []" for s
    using assms(2) by (metis sha_length_def length_0_conv take_eq_Nil zero_neq_numeral)
  ultimately have "provenance_ok (c_provenance ctx)" using seal_context_parts(5) [OF parts(2)] by (simp add: provenance_ok_def)
  moreover have "cf_mode (cf_distributed b) = Single" "cf_kind (cf_consensus b) = No_consensus"
    using parts(3) by (cases "cf_mode (cf_distributed b)"; cases "cf_kind (cf_consensus b)"; simp add: refuse_disabled_def)+
  ultimately show ?thesis
    using parts wf seal_context_parts [OF parts(2)] by (auto simp: booted_def options_of_def)
qed

text \<open>C16: 
  When the first request of a worker gets through the initialisation, the gateway runs alone and without consensus, its options are those of a
  well-formed configuration, the archive is open, and its seal context has hex keys, an accepted provenance, a key that is not a placeholder,
  exactly one imperial signature and the default thresholds.
\<close>

theorem boot_establishes:
  assumes "await_init R new_worker = Done () w" "sha_length (rt_crypto R)"
  shows "booted R w"
proof -
  from assms(1) obtain w' where "initialise R new_worker = Done () w'" "w = w'\<lparr>wk_init := Fulfilled\<rparr>"
    by (auto simp: await_init_def new_worker_def split: out.splits)
  with initialise_boots assms(2) show ?thesis by blast
qed

text \<open>A runtime with no variable set, and an empty archive.\<close>

definition plain_runtime :: "server_env \<Rightarrow> runtime" where
  "plain_runtime env = \<lparr>rt_env = env, rt_has_db = False, rt_url = (\<lambda>_. True), rt_uuid = (\<lambda>_. True),
     rt_crypto = demo_crypto\<lparr>sha256 := (\<lambda>_. replicate 64 (CHR ''0''))\<rparr>, rt_create = (\<lambda>_ _. Inr empty_db), rt_node_runtime = True,
     rt_bridge_start = (\<lambda>_. None)\<rparr>"

lemmas schema_defs = BootstrapConfigSchema_def z_field_def z_default_def z_optional_def obj_get_def z_enum_def z_string_if_def z_positive_def
  z_nonneg_def max_safe_def ArchiveConfigSchema_def GenesisConfigSchema_def GatewayConfigSchema_def GatewayListenSchema_def
  AuthConfigSchema_def auth_refined_def LawConfigSchema_def LawModeSchema_def LawCacheConfigSchema_def DistributedConfigSchema_def
  DistributedModeSchema_def ConsensusConfigSchema_def ConsensusKindSchema_def SyncConfigSchema_def BridgeConfigSchema_def BridgeModeSchema_def
  BridgeSyncConfigSchema_def BridgeSyncModeSchema_def BridgeCircuitBreakerSchema_def bridge_refined_def config_refined_def

lemma default_rate: "rat_json (Some (1 / 20)) = JNum 5 2"
  by code_simp

lemma default_preload: "all_some [Option.bind (z_string (JStr ''appointment'')) law_type_of, Option.bind (z_string (JStr ''classification'')) law_type_of]
    = Some [Appointment, Classification]"
  by code_simp

lemma default_threshold: "z_rate (JNum 5 2) = Some (5 / 100)"
  by (simp add: z_rate_def)

lemma default_bootstrap: "\<exists>b. resolveBootstrap (\<lambda>_. True) (\<lambda>_. True) (\<lambda>_. None) False = Some b \<and> refuse_disabled b = None
    \<and> cf_genesis_key (cf_genesis b) = DEFAULT_GENESIS_KEY \<and> \<not> cf_enabled (cf_bridge b) \<and> cf_engine (cf_archive b) = Sqlite"
  using default_preload
  by (simp add: resolveBootstrap_def parseBootstrapConfig_def bootstrap_input_def Let_def env_or_def env_truthy_def parsePositiveInt_def
      parseBoolean_def parseCsv_def parseLawPreload_def parseBridgeAdapters_def json_int_def default_rate refuse_disabled_def default_threshold
      schema_defs DEFAULT_NODE_ID_def DEFAULT_GENESIS_KEY_def)

text \<open>The default key is the base64 text of 32 printable characters, and passes the checks of the key.\<close>

lemma default_key_context: "cf_genesis_key (cf_genesis b) = DEFAULT_GENESIS_KEY \<Longrightarrow> \<exists>ctx. buildSealContextFromBootstrap C env b = Inr ctx"
proof -
  have "bytes_hex (map of_nat (take 32 (buffer_base64 DEFAULT_GENESIS_KEY))) = concat (map (\<lambda>c. [CHR ''3'', c]) ''0123456789'')
      @ concat (map (\<lambda>c. [CHR ''6'', c]) ''123456'') @ concat (map (\<lambda>c. [CHR ''3'', c]) ''0123456789'') @ concat (map (\<lambda>c. [CHR ''6'', c]) ''123456'')"
    by (simp add: DEFAULT_GENESIS_KEY_def buffer_base64_def b64_val_def std_char_def bytes_hex_def hex_digit_def char_of_eq_iff)
  moreover have "length (buffer_base64 DEFAULT_GENESIS_KEY) = 32"
    by (simp add: length_buffer_base64 DEFAULT_GENESIS_KEY_def b64_digits_def std_char_def b64_val_def)
  moreover have "\<not> isPlaceholderGenesisKey DEFAULT_GENESIS_KEY" by (simp add: isPlaceholderGenesisKey_def DEFAULT_GENESIS_KEY_def)
  moreover have "CHR ''3'' # s \<noteq> replicate 64 c" if "c \<noteq> CHR ''3''" for s c
    using that by (metis hd_replicate list.sel(1) zero_neq_numeral)
  ultimately show "cf_genesis_key (cf_genesis b) = DEFAULT_GENESIS_KEY \<Longrightarrow> \<exists>ctx. buildSealContextFromBootstrap C env b = Inr ctx"
    by (simp add: buildSealContextFromBootstrap_def Let_def)
qed

lemma default_boot: "\<exists>w. await_init (plain_runtime (\<lambda>_. None)) new_worker = Done () w"
proof -
  obtain b where b: "resolveBootstrap (\<lambda>_. True) (\<lambda>_. True) (\<lambda>_. None) False = Some b" "refuse_disabled b = None"
    "cf_genesis_key (cf_genesis b) = DEFAULT_GENESIS_KEY" "\<not> cf_enabled (cf_bridge b)" "cf_engine (cf_archive b) = Sqlite"
    using default_bootstrap by blast
  obtain ctx where "buildSealContextFromBootstrap (rt_crypto (plain_runtime (\<lambda>_. None))) (\<lambda>_. None) b = Inr ctx"
    using default_key_context [OF b(3)] by blast
  with b show ?thesis
    by (simp add: await_init_def new_worker_def initialise_def plain_runtime_def resolveStorageAdapter_def start_bridge_def)
qed

theorem boot_establishes_witness:
  "\<exists>w. await_init (plain_runtime (\<lambda>_. None)) new_worker = Done () w \<and> booted (plain_runtime (\<lambda>_. None)) w"
proof -
  obtain w where w: "await_init (plain_runtime (\<lambda>_. None)) new_worker = Done () w" using default_boot by blast
  have "sha_length (rt_crypto (plain_runtime (\<lambda>_. None)))" by (simp add: sha_length_def plain_runtime_def)
  with boot_establishes [OF w] w show ?thesis by blast
qed

section \<open>A failed initialisation\<close>

text \<open>
  The promise of the initialisation is kept when it is rejected: after a first request that failed, every later request of the worker fails
  with the same error and changes nothing, whatever variables, bindings and bridge it brings.
\<close>

theorem failed_boot_is_final:
  assumes "await_init R w = Fail e w'"
  shows "await_init R' (await_all Rs w') = Fail e w'"
proof -
  from assms have "wk_init w' = Rejected_with e" by (auto simp: await_init_def split: init_promise.splits out.splits)
  then have step: "await_init Q w' = Fail e w'" for Q by (simp add: await_init_def)
  have "await_all Rs w' = w'" by (induction Rs) (simp_all add: step)
  then show ?thesis by (simp add: step)
qed

text \<open>A worker whose first request came without its database, and a second request that has it.\<close>

theorem failed_boot_is_final_witness:
  "\<exists>e w. await_init (plain_runtime ((\<lambda>_. None)(''WENYAN_ARCHIVE_ENGINE'' \<mapsto> ''d1''))) new_worker = Fail e w
     \<and> await_init (plain_runtime (\<lambda>_. None)) (await_all [plain_runtime (\<lambda>_. None)] w) = Fail e w"
proof -
  let ?env = "(\<lambda>_. None)(''WENYAN_ARCHIVE_ENGINE'' \<mapsto> ''d1'') :: server_env"
  have "resolveBootstrap (\<lambda>_. True) (\<lambda>_. True) ?env False = None"
    by (simp add: resolveBootstrap_def parseBootstrapConfig_def BootstrapConfigSchema_def bootstrap_input_def Let_def env_or_def z_field_def
        obj_get_def ArchiveConfigSchema_def z_enum_def)
  then have "await_init (plain_runtime ?env) new_worker = Fail Zod_invalid (new_worker\<lparr>wk_init := Rejected_with Zod_invalid\<rparr>)"
    by (simp add: await_init_def new_worker_def initialise_def plain_runtime_def)
  with failed_boot_is_final show ?thesis by blast
qed

section \<open>What the server can seal\<close>

text \<open>
  The context of the server carries one signature and no override of the thresholds: it seals every document except a TI definition, which
  asks for three signatures.
\<close>

theorem server_never_defines_ti:
  assumes "await_init R new_worker = Done () w" "sha_length (rt_crypto R)" "crypto_law (rt_crypto R)" "wk_seal w = Some ctx"
  shows "(\<exists>seals. createSealChain (rt_crypto R) m ctx clock start = Inr seals) \<longleftrightarrow> e_genre m \<noteq> ''ti_definition''"
proof -
  from assms(1) obtain w' where "initialise R new_worker = Done () w'" "w = w'\<lparr>wk_init := Fulfilled\<rparr>"
    by (auto simp: await_init_def new_worker_def split: out.splits)
  then have "booted R w" using initialise_boots assms(2) by blast
  with assms(4) have ctx: "keys_ok (rt_crypto R) ctx" "provided_signatures ctx = 1" "c_thresholdOverrides ctx = None" by (auto simp: booted_def)
  have required: "required_signatures m ctx = (if e_genre m = ''ti_definition'' then 3 else 1)"
    by (simp add: required_signatures_def resolveRequiredImperialSignatures_def DEFAULT_THRESHOLD_POLICY_def obj_spread_def ctx(3))
  show ?thesis
  proof (cases "e_genre m = ''ti_definition''")
    case True
    then have "createSealChain (rt_crypto R) m ctx clock start = Inl Insufficient_imperial_authority"
      unfolding createSealChain_def using ctx required by (intro seal_loop_refuses assms(3)) (simp_all add: stageOrder_def)
    with True show ?thesis by simp
  next
    case False
    then show ?thesis unfolding createSealChain_def using seal_loop_total [OF assms(3) ctx(1)] ctx(2) required by simp
  qed
qed

theorem server_never_defines_ti_witness:
  "\<exists>w ctx. await_init (plain_runtime (\<lambda>_. None)) new_worker = Done () w \<and> wk_seal w = Some ctx
     \<and> \<not> (\<exists>seals. createSealChain (rt_crypto (plain_runtime (\<lambda>_. None))) (demo_memo\<lparr>e_genre := ''ti_definition''\<rparr>) ctx (\<lambda>_. []) [] = Inr seals)"
proof -
  obtain w where w: "await_init (plain_runtime (\<lambda>_. None)) new_worker = Done () w" using default_boot by blast
  have laws: "sha_length (rt_crypto (plain_runtime (\<lambda>_. None)))" "crypto_law (rt_crypto (plain_runtime (\<lambda>_. None)))"
    by (simp_all add: sha_length_def plain_runtime_def crypto_law_def demo_crypto_def is_hex_def hex_val_def)
  obtain w' where "initialise (plain_runtime (\<lambda>_. None)) new_worker = Done () w'" "w = w'\<lparr>wk_init := Fulfilled\<rparr>"
    using w by (auto simp: await_init_def new_worker_def split: out.splits)
  then have "booted (plain_runtime (\<lambda>_. None)) w" using initialise_boots laws(1) by blast
  then obtain ctx where ctx: "wk_seal w = Some ctx" by (auto simp: booted_def)
  with server_never_defines_ti [OF w laws ctx, of "demo_memo\<lparr>e_genre := ''ti_definition''\<rparr>" "\<lambda>_. []" "[]"] w show ?thesis by auto
qed

section \<open>Whose tokens the server accepts\<close>

lemma gateway_auth_kept: "wk_gateway_auth (out_state (await_init R w)) = wk_gateway_auth w"
  by (auto simp: await_init_def initialise_def start_bridge_def Let_def split: init_promise.splits option.splits sum.splits out.splits)

lemma gateway_auth_kept_all: "wk_gateway_auth (await_all Rs w) = wk_gateway_auth w"
  by (induction Rs arbitrary: w) (simp_all add: gateway_auth_kept)

text \<open>
  The gateway of the server was built before any variable was read, and keeps the secret of the source: whatever secret, algorithm, issuer and
  audience the environment configures, it accepts a token that anybody can sign, for any actor and role.
\<close>

theorem server_ignores_secret:
  "hs256_actor C now_ms (wk_gateway_auth (await_all Rs new_worker)) (forged_token C i r (now_ms div 1000))
     = Inr (Some \<lparr>ra_id = i, ra_role = r\<rparr>, None)"
  by (simp add: gateway_auth_kept_all new_worker_def build_auth_def initial_options_def forged_accepted)

section \<open>Numbers and metrics\<close>

text \<open>The text of a variable that is positive and below one becomes the number zero, which the schemas of the configuration refuse.\<close>

lemma parsePositiveInt_nonneg: "0 \<le> d \<Longrightarrow> 0 \<le> parsePositiveInt raw d"
  by (auto simp: parsePositiveInt_def split: option.splits)

lemma half_is_zero: "parsePositiveInt (Some ''0.5'') 8787 = 0"
  by code_simp

definition no_newline :: "string \<Rightarrow> bool" where
  "no_newline s \<longleftrightarrow> CHR 0x0A \<notin> set s"

lemma no_newline_append [simp]: "no_newline (a @ b) \<longleftrightarrow> no_newline a \<and> no_newline b" "no_newline []"
  "no_newline (c # s) \<longleftrightarrow> c \<noteq> CHR 0x0A \<and> no_newline s"
  by (auto simp: no_newline_def)

lemma digits_no_newline [simp]: "no_newline (nat_str n)" "no_newline (pad_str k n)" "no_newline (int_str i)" "no_newline (num_str i e)"
proof -
  have "\<not> is_digit (CHR 0x0A)" by (simp add: is_digit_def)
  then show n: "no_newline (nat_str n)" "no_newline (pad_str k n)" for n k
    unfolding no_newline_def using digits_nat_str digits_pad_str by blast+
  show i: "no_newline (int_str i)" for i using n by (simp add: int_str_def)
  show "no_newline (num_str i e)" using n i by (simp add: num_str_def)
qed

lemma no_newline_join: "no_newline s \<Longrightarrow> list_all no_newline xs \<Longrightarrow> no_newline (join_with s xs)"
  by (induction s xs rule: join_with.induct) auto

lemma metric_lines_plain: "list_all no_newline (metric_lines now m)"
  by (simp add: metric_lines_def Let_def HISTOGRAM_BUCKETS_def seconds_str_def split: json.splits)

text \<open>
  The metrics come as one line whatever the state: the lines are joined with a backslash and an n where the text format asks for a line feed.
\<close>

theorem metrics_one_line: "CHR 0x0A \<notin> set (renderMetricsText now m)"
proof -
  have "no_newline (renderMetricsText now m)"
    by (simp add: renderMetricsText_def no_newline_join metric_lines_plain)
  then show ?thesis by (simp add: no_newline_def)
qed

text \<open>At most 5000 latencies are kept, the most recent ones.\<close>

lemma latencies_window:
  "ms_latencies (fold recordSealLatency xs m) = drop (length (ms_latencies m) + length xs - 5000) (ms_latencies m @ xs)"
  if "length (ms_latencies m) \<le> 5000"
  using that
proof (induction xs arbitrary: m)
  case (Cons x xs)
  show ?case
  proof (cases "length (ms_latencies m) = 5000")
    case True
    then obtain y ys where m: "ms_latencies m = y # ys" "length ys = 4999" by (cases "ms_latencies m") auto
    then show ?thesis using Cons.IH [of "recordSealLatency x m"] by (simp add: recordSealLatency_def Let_def)
  next
    case False
    have "length xs - 4999 = (if length xs < 5000 then 0 else Suc (length xs - 5000))" by arith
    with False Cons show ?thesis by (simp add: recordSealLatency_def Let_def)
  qed
qed simp

end
