(* ===== verification/Workspace_Db.thy ===== *)
theory Workspace_Db
  imports Gateway Bridge_Gateway
begin

text \<open>
  \<open>packages/server/src/database/workspaces/schema.ts\<close>: the tables of the application around the gateway (workspaces, projects, documents, issues
  and rules) as the rows of a record, and the statements of the query builder on them. Every table has a key that is never used twice; a
  foreign key is checked when a row is stored, and deleting a row deletes the rows that name it (\<open>onDelete: cascade\<close>). The last section has the
  frame of a handler: the session it runs under, its environment and the answer its \<open>catch\<close> makes of an exception.
\<close>

section \<open>Rows\<close>

record workspace_row =
  ws_id :: int
  ws_name :: string
  ws_ownerId :: string
  ws_isPersonal :: bool
  ws_allRules :: bool
  ws_createdAt :: int
  ws_updatedAt :: int

record project_row =
  pj_id :: int
  pj_name :: string
  pj_description :: "string option"
  pj_workspaceId :: int
  pj_createdAt :: int
  pj_updatedAt :: int

record document_row =
  dc_id :: int
  dc_projectId :: int
  dc_filename :: string
  dc_fileType :: string
  dc_content :: "string option"
  dc_url :: "string option"
  dc_storageKey :: "string option"
  dc_status :: string
  dc_createdAt :: int
  dc_updatedAt :: int

record issue_row =
  iu_id :: int
  iu_title :: string
  iu_description :: "string option"
  iu_priority :: string
  iu_status :: string
  iu_origin :: string
  iu_projectId :: int
  iu_markedBy :: "string option"
  iu_markedAt :: "int option"
  iu_createdAt :: int
  iu_updatedAt :: int

record rule_row =
  ru_id :: int
  ru_code :: string
  ru_name :: string
  ru_description :: "string option"
  ru_createdBy :: string
  ru_createdAt :: int
  ru_updatedAt :: int

record rule_set_row =
  se_id :: int
  se_name :: string
  se_description :: "string option"
  se_createdAt :: int
  se_updatedAt :: int

text \<open>A row of a table that links two others, and of the one from issues to documents, with its anchor.\<close>

record link_row =
  ln_id :: int
  ln_from :: int
  ln_to :: int

record anchor_row =
  an_id :: int
  an_issueId :: int
  an_documentId :: int
  an_type :: "string option"
  an_start :: "int option"
  an_end :: "int option"
  an_text :: "string option"

datatype app_table =
    Workspaces | Projects | Documents | Issues | Rules | Rule_sets
  | Project_rules | Workspace_rules | Rule_set_rules | Project_rule_sets | Issue_documents | Issue_rules

text \<open>\<open>ap_next\<close> has the next key of each table (\<open>autoIncrement\<close>).\<close>

record app_db =
  ap_next :: "app_table \<Rightarrow> int"
  ap_workspaces :: "workspace_row list"
  ap_projects :: "project_row list"
  ap_documents :: "document_row list"
  ap_issues :: "issue_row list"
  ap_rules :: "rule_row list"
  ap_ruleSets :: "rule_set_row list"
  ap_projectRules :: "link_row list"
  ap_workspaceRules :: "link_row list"
  ap_ruleSetRules :: "link_row list"
  ap_projectRuleSets :: "link_row list"
  ap_issueDocuments :: "anchor_row list"
  ap_issueRules :: "link_row list"

definition empty_app :: app_db where
  "empty_app = \<lparr>ap_next = (\<lambda>_. 1), ap_workspaces = [], ap_projects = [], ap_documents = [], ap_issues = [], ap_rules = [], ap_ruleSets = [],
     ap_projectRules = [], ap_workspaceRules = [], ap_ruleSetRules = [], ap_projectRuleSets = [], ap_issueDocuments = [], ap_issueRules = []\<rparr>"

section \<open>Statements\<close>

definition bump :: "app_table \<Rightarrow> app_db \<Rightarrow> app_db" where
  "bump t d = d\<lparr>ap_next := (ap_next d)(t := ap_next d t + 1)\<rparr>"

definition insert_workspace :: "int \<Rightarrow> string \<Rightarrow> string \<Rightarrow> bool \<Rightarrow> bool \<Rightarrow> app_db \<Rightarrow> workspace_row \<times> app_db" where
  "insert_workspace now name owner personal allRules d =
     (let row = \<lparr>ws_id = ap_next d Workspaces, ws_name = name, ws_ownerId = owner, ws_isPersonal = personal, ws_allRules = allRules,
          ws_createdAt = now, ws_updatedAt = now\<rparr>
      in (row, (bump Workspaces d)\<lparr>ap_workspaces := ap_workspaces d @ [row]\<rparr>))"

definition foreign_key :: err where
  "foreign_key = Constraint ''FOREIGN KEY''"

definition unique_key :: err where
  "unique_key = Constraint ''UNIQUE''"

definition insert_project :: "int \<Rightarrow> string \<Rightarrow> string option \<Rightarrow> int \<Rightarrow> app_db \<Rightarrow> (app_db, project_row) out" where
  "insert_project now name description workspaceId d =
     (if workspaceId \<notin> set (map ws_id (ap_workspaces d)) then Fail foreign_key d
      else (let row = \<lparr>pj_id = ap_next d Projects, pj_name = name, pj_description = description, pj_workspaceId = workspaceId,
                pj_createdAt = now, pj_updatedAt = now\<rparr>
            in Done row ((bump Projects d)\<lparr>ap_projects := ap_projects d @ [row]\<rparr>)))"

definition insert_document :: "int \<Rightarrow> int \<Rightarrow> string \<Rightarrow> string \<Rightarrow> string option \<Rightarrow> string option \<Rightarrow> string option \<Rightarrow> string \<Rightarrow> app_db
    \<Rightarrow> (app_db, document_row) out" where
  "insert_document now projectId filename fileType content url storageKey status d =
     (if projectId \<notin> set (map pj_id (ap_projects d)) then Fail foreign_key d
      else (let row = \<lparr>dc_id = ap_next d Documents, dc_projectId = projectId, dc_filename = filename, dc_fileType = fileType, dc_content = content,
                dc_url = url, dc_storageKey = storageKey, dc_status = status, dc_createdAt = now, dc_updatedAt = now\<rparr>
            in Done row ((bump Documents d)\<lparr>ap_documents := ap_documents d @ [row]\<rparr>)))"

definition insert_issue :: "int \<Rightarrow> string \<Rightarrow> string option \<Rightarrow> string \<Rightarrow> string \<Rightarrow> string \<Rightarrow> int \<Rightarrow> app_db \<Rightarrow> (app_db, issue_row) out" where
  "insert_issue now title description priority status origin projectId d =
     (if projectId \<notin> set (map pj_id (ap_projects d)) then Fail foreign_key d
      else (let row = \<lparr>iu_id = ap_next d Issues, iu_title = title, iu_description = description, iu_priority = priority, iu_status = status,
                iu_origin = origin, iu_projectId = projectId, iu_markedBy = None, iu_markedAt = None, iu_createdAt = now, iu_updatedAt = now\<rparr>
            in Done row ((bump Issues d)\<lparr>ap_issues := ap_issues d @ [row]\<rparr>)))"

definition insert_rule :: "int \<Rightarrow> string \<Rightarrow> string \<Rightarrow> string option \<Rightarrow> string \<Rightarrow> app_db \<Rightarrow> (app_db, rule_row) out" where
  "insert_rule now code name description createdBy d =
     (if code \<in> set (map ru_code (ap_rules d)) then Fail unique_key d
      else (let row = \<lparr>ru_id = ap_next d Rules, ru_code = code, ru_name = name, ru_description = description, ru_createdBy = createdBy,
                ru_createdAt = now, ru_updatedAt = now\<rparr>
            in Done row ((bump Rules d)\<lparr>ap_rules := ap_rules d @ [row]\<rparr>)))"

definition insert_rule_set :: "int \<Rightarrow> string \<Rightarrow> string option \<Rightarrow> app_db \<Rightarrow> rule_set_row \<times> app_db" where
  "insert_rule_set now name description d =
     (let row = \<lparr>se_id = ap_next d Rule_sets, se_name = name, se_description = description, se_createdAt = now, se_updatedAt = now\<rparr>
      in (row, (bump Rule_sets d)\<lparr>ap_ruleSets := ap_ruleSets d @ [row]\<rparr>))"

text \<open>
  The five tables that link two others: their rows, the keys they refer to, and whether a pair may occur once only. A statement that stores
  several rows stores all of them or none.
\<close>

fun links :: "app_table \<Rightarrow> app_db \<Rightarrow> link_row list" where
  "links Project_rules d = ap_projectRules d"
| "links Workspace_rules d = ap_workspaceRules d"
| "links Rule_set_rules d = ap_ruleSetRules d"
| "links Project_rule_sets d = ap_projectRuleSets d"
| "links Issue_rules d = ap_issueRules d"
| "links _ d = []"

fun set_links :: "app_table \<Rightarrow> link_row list \<Rightarrow> app_db \<Rightarrow> app_db" where
  "set_links Project_rules xs d = d\<lparr>ap_projectRules := xs\<rparr>"
| "set_links Workspace_rules xs d = d\<lparr>ap_workspaceRules := xs\<rparr>"
| "set_links Rule_set_rules xs d = d\<lparr>ap_ruleSetRules := xs\<rparr>"
| "set_links Project_rule_sets xs d = d\<lparr>ap_projectRuleSets := xs\<rparr>"
| "set_links Issue_rules xs d = d\<lparr>ap_issueRules := xs\<rparr>"
| "set_links _ xs d = d"

fun from_keys :: "app_table \<Rightarrow> app_db \<Rightarrow> int list" where
  "from_keys Project_rules d = map pj_id (ap_projects d)"
| "from_keys Workspace_rules d = map ws_id (ap_workspaces d)"
| "from_keys Rule_set_rules d = map se_id (ap_ruleSets d)"
| "from_keys Project_rule_sets d = map pj_id (ap_projects d)"
| "from_keys Issue_rules d = map iu_id (ap_issues d)"
| "from_keys _ d = []"

fun to_keys :: "app_table \<Rightarrow> app_db \<Rightarrow> int list" where
  "to_keys Project_rule_sets d = map se_id (ap_ruleSets d)"
| "to_keys _ d = map ru_id (ap_rules d)"

definition insert_link :: "app_table \<Rightarrow> int \<Rightarrow> int \<Rightarrow> app_db \<Rightarrow> (app_db, unit) out" where
  "insert_link t a b d =
     (if t \<noteq> Issue_rules \<and> list_ex (\<lambda>l. ln_from l = a \<and> ln_to l = b) (links t d) then Fail unique_key d
      else if a \<notin> set (from_keys t d) \<or> b \<notin> set (to_keys t d) then Fail foreign_key d
      else Done () (set_links t (links t d @ [\<lparr>ln_id = ap_next d t, ln_from = a, ln_to = b\<rparr>]) (bump t d)))"

fun insert_links_from :: "app_table \<Rightarrow> int \<Rightarrow> int list \<Rightarrow> app_db \<Rightarrow> (app_db, unit) out" where
  "insert_links_from t a [] d = Done () d"
| "insert_links_from t a (b # bs) d = and_then (insert_link t a b d) (\<lambda>_. insert_links_from t a bs)"

text \<open>A statement leaves the tables alone when it fails.\<close>

fun atomically :: "('s \<Rightarrow> ('s, 'a) out) \<Rightarrow> 's \<Rightarrow> ('s, 'a) out" where
  "atomically f s = (case f s of Done a s' \<Rightarrow> Done a s' | Fail e _ \<Rightarrow> Fail e s)"

definition insert_links :: "app_table \<Rightarrow> int \<Rightarrow> int list \<Rightarrow> app_db \<Rightarrow> (app_db, unit) out" where
  "insert_links t a bs = atomically (insert_links_from t a bs)"

definition delete_links :: "app_table \<Rightarrow> (link_row \<Rightarrow> bool) \<Rightarrow> app_db \<Rightarrow> app_db" where
  "delete_links t P d = set_links t (filter (\<lambda>l. \<not> P l) (links t d)) d"

definition insert_anchor :: "int \<Rightarrow> int \<Rightarrow> string option \<Rightarrow> string option \<Rightarrow> app_db \<Rightarrow> (app_db, unit) out" where
  "insert_anchor i j kind text' d =
     (if i \<notin> set (map iu_id (ap_issues d)) \<or> j \<notin> set (map dc_id (ap_documents d)) then Fail foreign_key d
      else Done () ((bump Issue_documents d)\<lparr>ap_issueDocuments := ap_issueDocuments d @
        [\<lparr>an_id = ap_next d Issue_documents, an_issueId = i, an_documentId = j, an_type = kind, an_start = None, an_end = None, an_text = text'\<rparr>]\<rparr>))"

fun insert_anchors_from :: "int \<Rightarrow> (int \<times> string option \<times> string option) list \<Rightarrow> app_db \<Rightarrow> (app_db, unit) out" where
  "insert_anchors_from i [] d = Done () d"
| "insert_anchors_from i ((j, kind, text') # as) d = and_then (insert_anchor i j kind text' d) (\<lambda>_. insert_anchors_from i as)"

definition insert_anchors :: "int \<Rightarrow> (int \<times> string option \<times> string option) list \<Rightarrow> app_db \<Rightarrow> (app_db, unit) out" where
  "insert_anchors i as = atomically (insert_anchors_from i as)"

section \<open>Deletion\<close>

definition drop_links :: "app_table \<Rightarrow> int list \<Rightarrow> app_db \<Rightarrow> app_db" where
  "drop_links t gone = delete_links t (\<lambda>l. ln_from l \<in> set gone)"

definition drop_links_to :: "app_table \<Rightarrow> int list \<Rightarrow> app_db \<Rightarrow> app_db" where
  "drop_links_to t gone = delete_links t (\<lambda>l. ln_to l \<in> set gone)"

definition delete_issues :: "(issue_row \<Rightarrow> bool) \<Rightarrow> app_db \<Rightarrow> app_db" where
  "delete_issues P d =
     (let gone = map iu_id (filter P (ap_issues d)) in
      drop_links Issue_rules gone (d\<lparr>ap_issues := filter (\<lambda>r. \<not> P r) (ap_issues d),
        ap_issueDocuments := filter (\<lambda>a. an_issueId a \<notin> set gone) (ap_issueDocuments d)\<rparr>))"

definition delete_documents :: "(document_row \<Rightarrow> bool) \<Rightarrow> app_db \<Rightarrow> app_db" where
  "delete_documents P d =
     (let gone = map dc_id (filter P (ap_documents d)) in
      d\<lparr>ap_documents := filter (\<lambda>r. \<not> P r) (ap_documents d),
        ap_issueDocuments := filter (\<lambda>a. an_documentId a \<notin> set gone) (ap_issueDocuments d)\<rparr>)"

definition delete_projects :: "(project_row \<Rightarrow> bool) \<Rightarrow> app_db \<Rightarrow> app_db" where
  "delete_projects P d =
     (let gone = map pj_id (filter P (ap_projects d)) in
      drop_links Project_rules gone (drop_links Project_rule_sets gone
        (delete_issues (\<lambda>r. iu_projectId r \<in> set gone) (delete_documents (\<lambda>r. dc_projectId r \<in> set gone)
          (d\<lparr>ap_projects := filter (\<lambda>r. \<not> P r) (ap_projects d)\<rparr>)))))"

definition delete_workspaces :: "(workspace_row \<Rightarrow> bool) \<Rightarrow> app_db \<Rightarrow> app_db" where
  "delete_workspaces P d =
     (let gone = map ws_id (filter P (ap_workspaces d)) in
      drop_links Workspace_rules gone (delete_projects (\<lambda>r. pj_workspaceId r \<in> set gone)
        (d\<lparr>ap_workspaces := filter (\<lambda>r. \<not> P r) (ap_workspaces d)\<rparr>)))"

definition delete_rules :: "(rule_row \<Rightarrow> bool) \<Rightarrow> app_db \<Rightarrow> app_db" where
  "delete_rules P d =
     (let gone = map ru_id (filter P (ap_rules d)) in
      drop_links_to Project_rules gone (drop_links_to Workspace_rules gone (drop_links_to Rule_set_rules gone
        (drop_links_to Issue_rules gone (d\<lparr>ap_rules := filter (\<lambda>r. \<not> P r) (ap_rules d)\<rparr>)))))"

definition delete_rule_sets :: "(rule_set_row \<Rightarrow> bool) \<Rightarrow> app_db \<Rightarrow> app_db" where
  "delete_rule_sets P d =
     (let gone = map se_id (filter P (ap_ruleSets d)) in
      drop_links Rule_set_rules gone (drop_links_to Project_rule_sets gone (d\<lparr>ap_ruleSets := filter (\<lambda>r. \<not> P r) (ap_ruleSets d)\<rparr>)))"

end
