(* ===== verification/Workspace_Access.thy ===== *)
theory Workspace_Access
  imports Workspace_Db
begin

text \<open>
  Who may touch what in the application: the session of a request (\<open>server/src/middleware/auth.ts\<close>), \<open>server/src/utils/validation.ts\<close>,
  \<open>server/src/utils/workspaces/workspaceAccess.ts\<close> and \<open>ensurePersonalWorkspace.ts\<close>, and the \<open>catch\<close> the handlers share.
\<close>

section \<open>The session\<close>

record session_user =
  su_id :: string
  su_email :: string
  su_name :: string
  su_roles :: "int list"
  su_actions :: "string list"

datatype auth_context = Service_auth | User_auth "session_user option"

text \<open>
  What a handler reads beside the tables: the clock in seconds, the texts of the exceptions that the database, the JSON parser and an update
  without columns throw, and whether the query builder writes the columns of a subquery with their tables (if not, a name is that of the
  inner table). \<open>ae_fault\<close> is what the driver throws at a statement of the copy of a workspace although the constraints are met.
\<close>

datatype copy_statement = Insert_copy | Select_links | Insert_links | Delete_copy

record app_env =
  ae_now :: int
  ae_unique :: string
  ae_foreign :: string
  ae_syntax :: string
  ae_no_values :: string
  ae_qualified :: bool
  ae_fault :: "copy_statement \<Rightarrow> err option"

definition unauthorized :: err where
  "unauthorized = Error_msg ''Unauthorized''"

definition forbidden :: err where
  "forbidden = Error_msg ''Forbidden''"

fun js_includes :: "string \<Rightarrow> string \<Rightarrow> bool" where
  "js_includes [] pat \<longleftrightarrow> pat = []"
| "js_includes (c # s) pat \<longleftrightarrow> take (length pat) (c # s) = pat \<or> js_includes s pat"

definition err_message :: "app_env \<Rightarrow> err \<Rightarrow> string" where
  "err_message E e =
     (case e of Error_msg s \<Rightarrow> s | Constraint c \<Rightarrow> (if c = ''UNIQUE'' then ae_unique E else ae_foreign E) | _ \<Rightarrow> [])"

definition fail_answer :: "nat \<Rightarrow> string \<Rightarrow> response" where
  "fail_answer status text' = answer status [(''success'', JBool False), (''error'', JStr text')]"

definition ok_answer :: "nat \<Rightarrow> json \<Rightarrow> response" where
  "ok_answer status data = answer status [(''success'', JBool True), (''data'', data)]"

text \<open>The answer of the \<open>catch\<close>; the list of issues that zod adds is left out.\<close>

definition catch_answer :: "app_env \<Rightarrow> string option \<Rightarrow> err \<Rightarrow> response" where
  "catch_answer E conflict e =
     (let text' = err_message E e in
      if e = Zod_invalid then fail_answer 400 ''Validation error''
      else if conflict \<noteq> None \<and> js_includes text' ''UNIQUE'' then fail_answer 409 (the conflict)
      else if text' = ''Forbidden'' then fail_answer 403 ''Forbidden''
      else fail_answer (if text' = ''Unauthorized'' then 401 else 500) text')"

definition settle :: "app_env \<Rightarrow> string option \<Rightarrow> (app_db, response) out \<Rightarrow> response \<times> app_db" where
  "settle E conflict r = (case r of Done a d \<Rightarrow> (a, d) | Fail e d \<Rightarrow> (catch_answer E conflict e, d))"

section \<open>Numbers in paths\<close>

text \<open>\<open>parseInt(value, 10)\<close>: blanks, a sign, and the digits up to the first other character.\<close>

definition js_parseInt :: "string \<Rightarrow> int option" where
  "js_parseInt s =
     (let t = dropWhile js_space s;
          (neg, u) = (case t of c # r \<Rightarrow> if c = CHR ''-'' then (True, r) else if c = CHR ''+'' then (False, r) else (False, t) | [] \<Rightarrow> (False, []));
          ds = takeWhile is_digit u
      in if ds = [] then None else Some (if neg then - int (digits_val ds) else int (digits_val ds)))"

text \<open>\<open>parseInt(value)\<close> without a radix reads \<open>0x\<close> as hexadecimal.\<close>

definition js_parseInt_auto :: "string \<Rightarrow> int option" where
  "js_parseInt_auto s =
     (let t = dropWhile js_space s;
          neg = (t \<noteq> [] \<and> hd t = CHR ''-'');
          u = (if t \<noteq> [] \<and> (hd t = CHR ''-'' \<or> hd t = CHR ''+'') then tl t else t)
      in if take 2 u = ''0x'' \<or> take 2 u = ''0X''
         then (let hs = takeWhile (\<lambda>c. hex_val c \<noteq> None) (drop 2 u);
                   v = int (foldl (\<lambda>n c. 16 * n + the (hex_val c)) 0 hs)
               in if hs = [] then None else Some (if neg then - v else v))
         else js_parseInt s)"

definition validatePositiveInt :: "string option \<Rightarrow> int option" where
  "validatePositiveInt value' =
     (case value' of
        None \<Rightarrow> None
      | Some s \<Rightarrow>
          (if s = [] then None
           else case js_parseInt s of None \<Rightarrow> None | Some num \<Rightarrow> if num \<le> 0 then None else Some num))"

section \<open>Access to workspaces and projects\<close>

definition getUserEmail :: "auth_context \<Rightarrow> err + string" where
  "getUserEmail auth =
     (case auth of
        Service_auth \<Rightarrow> Inl unauthorized
      | User_auth None \<Rightarrow> Inl unauthorized
      | User_auth (Some u) \<Rightarrow> if su_email u = [] then Inl unauthorized else Inr (js_lower (Bridge_Gateway.js_trim (su_email u))))"

definition find_workspace :: "int \<Rightarrow> app_db \<Rightarrow> workspace_row option" where
  "find_workspace i d = find (\<lambda>r. ws_id r = i) (ap_workspaces d)"

definition find_project :: "int \<Rightarrow> app_db \<Rightarrow> project_row option" where
  "find_project i d = find (\<lambda>r. pj_id r = i) (ap_projects d)"

text \<open>\<open>email || getUserEmail(c)\<close>\<close>

definition email_or :: "auth_context \<Rightarrow> string option \<Rightarrow> err + string" where
  "email_or auth email = (case email of None \<Rightarrow> getUserEmail auth | Some e \<Rightarrow> if e = [] then getUserEmail auth else Inr e)"

definition canAccessWorkspace :: "auth_context \<Rightarrow> int \<Rightarrow> string option \<Rightarrow> app_db \<Rightarrow> err + bool" where
  "canAccessWorkspace auth workspaceId email d =
     (case email_or auth email of
        Inl e \<Rightarrow> Inl e
      | Inr userEmail \<Rightarrow>
          (case find_workspace workspaceId d of
             None \<Rightarrow> Inr False
           | Some w \<Rightarrow> Inr (js_lower (Bridge_Gateway.js_trim (ws_ownerId w)) = userEmail)))"

definition getAccessibleWorkspaceIds :: "auth_context \<Rightarrow> string option \<Rightarrow> app_db \<Rightarrow> err + int list" where
  "getAccessibleWorkspaceIds auth email d =
     (case email_or auth email of
        Inl e \<Rightarrow> Inl e
      | Inr userEmail \<Rightarrow> Inr (map ws_id (filter (\<lambda>w. ws_ownerId w = userEmail) (ap_workspaces d))))"

definition assertWorkspaceAccess :: "auth_context \<Rightarrow> int \<Rightarrow> app_db \<Rightarrow> (app_db, unit) out" where
  "assertWorkspaceAccess auth workspaceId d =
     (case canAccessWorkspace auth workspaceId None d of
        Inl e \<Rightarrow> Fail e d | Inr hasAccess \<Rightarrow> if hasAccess then Done () d else Fail forbidden d)"

definition canAccessProject :: "auth_context \<Rightarrow> int \<Rightarrow> app_db \<Rightarrow> err + bool" where
  "canAccessProject auth projectId d =
     (case find_project projectId d of None \<Rightarrow> Inr False | Some p \<Rightarrow> canAccessWorkspace auth (pj_workspaceId p) None d)"

definition assertProjectAccess :: "auth_context \<Rightarrow> int \<Rightarrow> app_db \<Rightarrow> (app_db, unit) out" where
  "assertProjectAccess auth projectId d =
     (case canAccessProject auth projectId d of
        Inl e \<Rightarrow> Fail e d | Inr hasAccess \<Rightarrow> if hasAccess then Done () d else Fail forbidden d)"

definition getAccessibleProjectIds :: "auth_context \<Rightarrow> string option \<Rightarrow> app_db \<Rightarrow> err + int list" where
  "getAccessibleProjectIds auth email d =
     (case email_or auth email of
        Inl e \<Rightarrow> Inl e
      | Inr userEmail \<Rightarrow>
          (case getAccessibleWorkspaceIds auth (Some userEmail) d of
             Inl e \<Rightarrow> Inl e
           | Inr workspaceIds \<Rightarrow> Inr (map pj_id (filter (\<lambda>p. pj_workspaceId p \<in> set workspaceIds) (ap_projects d)))))"

section \<open>The personal workspace\<close>

definition ensurePersonalWorkspace :: "int \<Rightarrow> string \<Rightarrow> app_db \<Rightarrow> (app_db, int) out" where
  "ensurePersonalWorkspace now email d =
     (let normalizedEmail = js_lower (Bridge_Gateway.js_trim email) in
      case find (\<lambda>w. ws_ownerId w = normalizedEmail \<and> ws_isPersonal w) (ap_workspaces d) of
        Some existing \<Rightarrow> Done (ws_id existing) d
      | None \<Rightarrow>
          (let (row, d1) = insert_workspace now ''My Personal Workspace'' normalizedEmail True True d in
           and_then (insert_project now ''Default Project'' (Some ''Your default project for document analysis'') (ws_id row) d1)
             (\<lambda>_. Done (ws_id row))))"

text \<open>The middleware of the workspace list: an exception does not stop the request.\<close>

definition ensurePersonalWorkspaceMiddleware :: "int \<Rightarrow> auth_context \<Rightarrow> app_db \<Rightarrow> app_db" where
  "ensurePersonalWorkspaceMiddleware now auth d =
     (case auth of
        User_auth (Some u) \<Rightarrow> if su_email u = [] then d else out_state (ensurePersonalWorkspace now (su_email u) d)
      | _ \<Rightarrow> d)"

end
