(* ===== verification/Workspace_Routes.thy ===== *)
theory Workspace_Routes
  imports Workspace_Access
begin

text \<open>
  \<open>server/src/routes/workspaces\<close>: the handlers of the workspaces. A body that is no JSON is \<open>None\<close>. The rows of a query
  without an order come as they were stored, those of a join in the order of its first table.
\<close>

section \<open>Bodies and rows\<close>

definition read_body :: "app_env \<Rightarrow> json option \<Rightarrow> 's \<Rightarrow> ('s, json) out" where
  "read_body E body d = (case body of None \<Rightarrow> Fail (Error_msg (ae_syntax E)) d | Some j \<Rightarrow> Done j d)"

definition parse_as :: "(json \<Rightarrow> 'a option) \<Rightarrow> json \<Rightarrow> 's \<Rightarrow> ('s, 'a) out" where
  "parse_as p j d = (case p j of None \<Rightarrow> Fail Zod_invalid d | Some x \<Rightarrow> Done x d)"

definition z_text :: "nat \<Rightarrow> nat \<Rightarrow> json \<Rightarrow> string option" where
  "z_text lo hi j = (case z_string j of None \<Rightarrow> None | Some s \<Rightarrow> if lo \<le> length s \<and> length s \<le> hi then Some s else None)"

definition json_opt :: "string option \<Rightarrow> json" where
  "json_opt x = (case x of None \<Rightarrow> JNull | Some s \<Rightarrow> JStr s)"

definition workspace_json :: "workspace_row \<Rightarrow> json" where
  "workspace_json w = JObj [(''id'', json_int (ws_id w)), (''name'', JStr (ws_name w)), (''ownerId'', JStr (ws_ownerId w)),
     (''isPersonal'', JBool (ws_isPersonal w)), (''allRulesAvailableInWorkspace'', JBool (ws_allRules w)),
     (''createdAt'', json_int (ws_createdAt w)), (''updatedAt'', json_int (ws_updatedAt w))]"

section \<open>List and create\<close>

definition list_workspaces :: "app_env \<Rightarrow> auth_context \<Rightarrow> app_db \<Rightarrow> response \<times> app_db" where
  "list_workspaces E auth d0 =
     (let d = ensurePersonalWorkspaceMiddleware (ae_now E) auth d0 in
      settle E None
       (case getUserEmail auth of
          Inl e \<Rightarrow> Fail e d
        | Inr email \<Rightarrow>
            (case getAccessibleWorkspaceIds auth (Some email) d of
               Inl e \<Rightarrow> Fail e d
             | Inr [] \<Rightarrow> Done (ok_answer 200 (JArr [])) d
             | Inr _ \<Rightarrow> Done (ok_answer 200 (JArr (map workspace_json (filter (\<lambda>w. ws_ownerId w = email) (ap_workspaces d))))) d)))"

definition createWorkspaceSchema :: "json \<Rightarrow> (string \<times> bool option) option" where
  "createWorkspaceSchema j = do {
     ob \<leftarrow> z_record j;
     n \<leftarrow> z_field ob ''name'' (z_text 1 100);
     a \<leftarrow> z_optional ob ''allRulesAvailableInWorkspace'' z_bool;
     Some (n, a) }"

definition create_workspace :: "app_env \<Rightarrow> auth_context \<Rightarrow> json option \<Rightarrow> app_db \<Rightarrow> response \<times> app_db" where
  "create_workspace E auth body d0 =
     (let d = ensurePersonalWorkspaceMiddleware (ae_now E) auth d0 in
      settle E None
       (case getUserEmail auth of
          Inl e \<Rightarrow> Fail e d
        | Inr email \<Rightarrow>
            and_then (read_body E body d) (\<lambda>j d1. and_then (parse_as createWorkspaceSchema j d1) (\<lambda>(name, allRules) d2.
              let (row, d3) = insert_workspace (ae_now E) name email False (case allRules of None \<Rightarrow> True | Some b \<Rightarrow> b) d2
              in Done (ok_answer 201 (workspace_json row)) d3))))"

section \<open>One workspace\<close>

definition get_workspace :: "app_env \<Rightarrow> auth_context \<Rightarrow> string \<Rightarrow> app_db \<Rightarrow> response \<times> app_db" where
  "get_workspace E auth param d =
     (case validatePositiveInt (Some param) of
        None \<Rightarrow> (fail_answer 400 ''Invalid workspace ID: must be a positive integer'', d)
      | Some i \<Rightarrow>
          settle E None (and_then (assertWorkspaceAccess auth i d) (\<lambda>_ d1.
            case find_workspace i d1 of
              None \<Rightarrow> Done (fail_answer 404 ''Workspace not found'') d1
            | Some w \<Rightarrow> Done (ok_answer 200 (workspace_json w)) d1)))"

definition updateWorkspaceSchema :: "json \<Rightarrow> (string option \<times> bool option) option" where
  "updateWorkspaceSchema j = do {
     ob \<leftarrow> z_record j;
     n \<leftarrow> z_optional ob ''name'' (z_text 1 100);
     a \<leftarrow> z_optional ob ''allRulesAvailableInWorkspace'' z_bool;
     Some (n, a) }"

definition set_workspace :: "string option \<Rightarrow> bool option \<Rightarrow> workspace_row \<Rightarrow> workspace_row" where
  "set_workspace n a w = w\<lparr>ws_name := (case n of None \<Rightarrow> ws_name w | Some s \<Rightarrow> s), ws_allRules := (case a of None \<Rightarrow> ws_allRules w | Some b \<Rightarrow> b)\<rparr>"

definition update_workspace :: "app_env \<Rightarrow> auth_context \<Rightarrow> string \<Rightarrow> json option \<Rightarrow> app_db \<Rightarrow> response \<times> app_db" where
  "update_workspace E auth param body d =
     (case validatePositiveInt (Some param) of
        None \<Rightarrow> (fail_answer 400 ''Invalid workspace ID: must be a positive integer'', d)
      | Some i \<Rightarrow>
          settle E None (and_then (assertWorkspaceAccess auth i d) (\<lambda>_ d1. and_then (read_body E body d1) (\<lambda>j d2.
            and_then (parse_as updateWorkspaceSchema j d2) (\<lambda>(n, a) d3.
              if n = None \<and> a = None then Done (fail_answer 400 ''No fields to update'') d3
              else (let d4 = d3\<lparr>ap_workspaces := map (\<lambda>w. if ws_id w = i then set_workspace n a w else w) (ap_workspaces d3)\<rparr> in
                case find_workspace i d4 of
                  None \<Rightarrow> Done (fail_answer 404 ''Workspace not found'') d4
                | Some w \<Rightarrow> Done (ok_answer 200 (workspace_json w)) d4))))))"

definition ADMIN_ROLE_ID :: int where
  "ADMIN_ROLE_ID = 1"

definition isAdmin :: "int list \<Rightarrow> bool" where
  "isAdmin roleIds \<longleftrightarrow> ADMIN_ROLE_ID \<in> set roleIds"

definition auth_user :: "auth_context \<Rightarrow> session_user option" where
  "auth_user auth = (case auth of Service_auth \<Rightarrow> None | User_auth u \<Rightarrow> u)"

definition delete_workspace :: "app_env \<Rightarrow> auth_context \<Rightarrow> string \<Rightarrow> app_db \<Rightarrow> response \<times> app_db" where
  "delete_workspace E auth param d =
     (case validatePositiveInt (Some param) of
        None \<Rightarrow> (fail_answer 400 ''Invalid workspace ID: must be a positive integer'', d)
      | Some i \<Rightarrow>
          settle E None (and_then (assertWorkspaceAccess auth i d) (\<lambda>_ d1.
            case auth_user auth of
              None \<Rightarrow> Done (fail_answer 401 ''Unauthorized'') d1
            | Some u \<Rightarrow>
                (case find_workspace i d1 of
                   None \<Rightarrow> Done (fail_answer 404 ''Workspace not found'') d1
                 | Some w \<Rightarrow>
                     (if \<not> isAdmin (su_roles u) \<and> ws_ownerId w \<noteq> [] \<and> su_email u \<noteq> ws_ownerId w
                      then Done (fail_answer 403 ''Forbidden'') d1
                      else if ws_isPersonal w then Done (fail_answer 400 ''Cannot delete personal workspace'') d1
                      else Done (answer 200 [(''success'', JBool True), (''message'', JStr ''Workspace deleted successfully'')])
                             (delete_workspaces (\<lambda>r. ws_id r = i) d1))))))"

section \<open>Copies\<close>

definition buildCloneName :: "string \<Rightarrow> string" where
  "buildCloneName sourceName =
     (let prefix = ''Copy of ''; base = (let t = Bridge_Gateway.js_trim sourceName in if t = [] then ''Workspace'' else t)
      in prefix @ take (100 - length prefix) base)"

text \<open>The statements after the insert of the copy, and the \<open>catch\<close> that deletes it again; that deletion may fail as well.\<close>

definition copy_links :: "app_env \<Rightarrow> int \<Rightarrow> int \<Rightarrow> app_db \<Rightarrow> (app_db, unit) out" where
  "copy_links E sourceId createdId d =
     (case ae_fault E Select_links of
        Some e \<Rightarrow> Fail e d
      | None \<Rightarrow>
          (let ruleIds = map ln_to (filter (\<lambda>l. ln_from l = sourceId) (ap_workspaceRules d)) in
           if ruleIds = [] then Done () d
           else case ae_fault E Insert_links of
               Some e \<Rightarrow> Fail e d
             | None \<Rightarrow> insert_links Workspace_rules createdId ruleIds d))"

definition clone_into :: "app_env \<Rightarrow> workspace_row \<Rightarrow> string \<Rightarrow> app_db \<Rightarrow> (app_db, response) out" where
  "clone_into E source email d =
     (case ae_fault E Insert_copy of
        Some e \<Rightarrow> Fail e d
      | None \<Rightarrow>
          (let (created, d1) = insert_workspace (ae_now E) (buildCloneName (ws_name source)) email False (ws_allRules source) d in
           case copy_links E (ws_id source) (ws_id created) d1 of
             Done _ d2 \<Rightarrow> Done (ok_answer 201 (workspace_json created)) d2
           | Fail e d2 \<Rightarrow> Fail e (if ae_fault E Delete_copy = None then delete_workspaces (\<lambda>w. ws_id w = ws_id created) d2 else d2)))"

definition clone_workspace :: "app_env \<Rightarrow> auth_context \<Rightarrow> string \<Rightarrow> app_db \<Rightarrow> response \<times> app_db" where
  "clone_workspace E auth param d =
     (case str_Number param of
        None \<Rightarrow> (fail_answer 400 ''Invalid workspace id'', d)
      | Some n \<Rightarrow>
          settle E None
            (let (i, q) = quotient_of n in
             if q \<noteq> 1 then (case getUserEmail auth of Inl e \<Rightarrow> Fail e d | Inr _ \<Rightarrow> Fail forbidden d)
             else and_then (assertWorkspaceAccess auth i d) (\<lambda>_ d1.
               case find_workspace i d1 of
                 None \<Rightarrow> Done (fail_answer 404 ''Workspace not found'') d1
               | Some w \<Rightarrow> (case getUserEmail auth of Inl e \<Rightarrow> Fail e d1 | Inr email \<Rightarrow> clone_into E w email d1))))"

section \<open>Rules of a workspace\<close>

definition rule_json :: "rule_row \<Rightarrow> json" where
  "rule_json r = JObj [(''id'', json_int (ru_id r)), (''name'', JStr (ru_name r)), (''description'', json_opt (ru_description r)),
     (''createdAt'', json_int (ru_createdAt r)), (''updatedAt'', json_int (ru_updatedAt r))]"

definition coded_rule_json :: "rule_row \<Rightarrow> json" where
  "coded_rule_json r = JObj [(''id'', json_int (ru_id r)), (''code'', JStr (ru_code r)), (''name'', JStr (ru_name r)),
     (''description'', json_opt (ru_description r)), (''createdAt'', json_int (ru_createdAt r)), (''updatedAt'', json_int (ru_updatedAt r))]"

text \<open>\<open>innerJoin(rules, eq(link.ruleId, rules.id))\<close>\<close>

definition joined_rules :: "link_row list \<Rightarrow> app_db \<Rightarrow> rule_row list" where
  "joined_rules ls d = concat (map (\<lambda>l. filter (\<lambda>r. ru_id r = ln_to l) (ap_rules d)) ls)"

definition list_workspace_rules :: "app_env \<Rightarrow> auth_context \<Rightarrow> string \<Rightarrow> app_db \<Rightarrow> response \<times> app_db" where
  "list_workspace_rules E auth param d =
     (case validatePositiveInt (Some param) of
        None \<Rightarrow> (fail_answer 400 ''Invalid workspace ID'', d)
      | Some i \<Rightarrow>
          settle E None (and_then (assertWorkspaceAccess auth i d) (\<lambda>_ d1.
            Done (ok_answer 200 (JArr (map coded_rule_json (joined_rules (filter (\<lambda>l. ln_from l = i) (ap_workspaceRules d1)) d1)))) d1)))"

definition linkRuleSchema :: "string \<Rightarrow> json \<Rightarrow> int option" where
  "linkRuleSchema key j = do {
     ob \<leftarrow> z_record j;
     n \<leftarrow> z_field ob key z_positive;
     Some (int n) }"

definition ok_only :: "nat \<Rightarrow> response" where
  "ok_only status = answer status [(''success'', JBool True)]"

definition link_workspace_rule :: "app_env \<Rightarrow> auth_context \<Rightarrow> string \<Rightarrow> json option \<Rightarrow> app_db \<Rightarrow> response \<times> app_db" where
  "link_workspace_rule E auth param body d =
     (case validatePositiveInt (Some param) of
        None \<Rightarrow> (fail_answer 400 ''Invalid workspace ID'', d)
      | Some i \<Rightarrow>
          settle E (Some ''Rule already linked to workspace'')
            (and_then (read_body E body d) (\<lambda>j d1. and_then (parse_as (linkRuleSchema ''ruleId'') j d1) (\<lambda>ruleId d2.
              and_then (assertWorkspaceAccess auth i d2) (\<lambda>_ d3.
                if ruleId \<notin> set (map ru_id (ap_rules d3)) then Done (fail_answer 404 ''Rule not found'') d3
                else and_then (insert_links Workspace_rules i [ruleId] d3) (\<lambda>_. Done (ok_only 201)))))))"

definition unlink_workspace_rule :: "app_env \<Rightarrow> auth_context \<Rightarrow> string \<Rightarrow> string \<Rightarrow> app_db \<Rightarrow> response \<times> app_db" where
  "unlink_workspace_rule E auth param ruleParam d =
     (case (validatePositiveInt (Some param), validatePositiveInt (Some ruleParam)) of
        (Some i, Some r) \<Rightarrow>
          settle E None (and_then (assertWorkspaceAccess auth i d) (\<lambda>_ d1.
            Done (ok_only 200) (delete_links Workspace_rules (\<lambda>l. ln_from l = i \<and> ln_to l = r) d1)))
      | _ \<Rightarrow> (fail_answer 400 ''Invalid workspace or rule ID'', d))"

end
