(* ===== verification/Project_Routes.thy ===== *)
theory Project_Routes
  imports Workspace_Routes
begin

text \<open>
  \<open>server/src/routes/projects\<close>: the handlers of the projects, of their rules and rule sets, and \<open>server/src/utils/rules/effectiveRules.ts\<close>.
\<close>

section \<open>Rows\<close>

text \<open>
  The three counts are subqueries such as \<open>select count(*) from documents where documents.project_id = projects.id\<close>; when the names are written
  without their tables, the second one is the key of the inner table.
\<close>

definition count_of :: "app_env \<Rightarrow> ('r \<Rightarrow> int) \<Rightarrow> ('r \<Rightarrow> int) \<Rightarrow> 'r list \<Rightarrow> int \<Rightarrow> nat" where
  "count_of E key project rows i = length (filter (\<lambda>r. project r = (if ae_qualified E then i else key r)) rows)"

definition plain_project :: "project_row \<Rightarrow> obj" where
  "plain_project p = [(''id'', json_int (pj_id p)), (''name'', JStr (pj_name p)), (''description'', json_opt (pj_description p)),
     (''workspaceId'', json_int (pj_workspaceId p)), (''createdAt'', json_int (pj_createdAt p)), (''updatedAt'', json_int (pj_updatedAt p))]"

definition with_counts :: "project_row \<Rightarrow> nat \<Rightarrow> nat \<Rightarrow> nat \<Rightarrow> json" where
  "with_counts p documentsCount rulesCount issuesCount =
     JObj (plain_project p @ [(''documentsCount'', json_int (int documentsCount)), (''rulesCount'', json_int (int rulesCount)),
       (''issuesCount'', json_int (int issuesCount))])"

definition project_json :: "app_env \<Rightarrow> app_db \<Rightarrow> project_row \<Rightarrow> json" where
  "project_json E d p = with_counts p (count_of E dc_id dc_projectId (ap_documents d) (pj_id p))
     (count_of E ln_id ln_from (ap_projectRules d) (pj_id p)) (count_of E iu_id iu_projectId (ap_issues d) (pj_id p))"

section \<open>Projects\<close>

definition list_projects :: "app_env \<Rightarrow> auth_context \<Rightarrow> string option \<Rightarrow> app_db \<Rightarrow> response \<times> app_db" where
  "list_projects E auth workspaceIdParam d =
     settle E None
       (case getUserEmail auth of
          Inl e \<Rightarrow> Fail e d
        | Inr email \<Rightarrow>
            (let all_accessible =
               (case getAccessibleWorkspaceIds auth (Some email) d of
                  Inl e \<Rightarrow> Fail e d
                | Inr [] \<Rightarrow> Done (ok_answer 200 (JArr [])) d
                | Inr ids \<Rightarrow> Done (ok_answer 200 (JArr (map (project_json E d) (filter (\<lambda>p. pj_workspaceId p \<in> set ids) (ap_projects d))))) d)
             in case workspaceIdParam of
                  None \<Rightarrow> all_accessible
                | Some s \<Rightarrow>
                    (if s = [] then all_accessible
                     else case js_parseInt_auto s of
                         None \<Rightarrow> Done (fail_answer 400 ''Invalid workspace_id parameter. Must be a positive integer.'') d
                       | Some i \<Rightarrow>
                           (if i \<le> 0 then Done (fail_answer 400 ''Invalid workspace_id parameter. Must be a positive integer.'') d
                            else and_then (assertWorkspaceAccess auth i d) (\<lambda>_ d1.
                              Done (ok_answer 200 (JArr (map (project_json E d1) (filter (\<lambda>p. pj_workspaceId p = i) (ap_projects d1))))) d1)))))"

definition createProjectSchema :: "json \<Rightarrow> (string \<times> string option \<times> int) option" where
  "createProjectSchema j = do {
     ob \<leftarrow> z_record j;
     n \<leftarrow> z_field ob ''name'' (z_text 1 100);
     t \<leftarrow> z_optional ob ''description'' (z_text 0 500);
     w \<leftarrow> z_field ob ''workspaceId'' z_positive;
     Some (n, t, int w) }"

text \<open>The last query names the project by its value, so its counts are those of the project.\<close>

definition create_project :: "app_env \<Rightarrow> auth_context \<Rightarrow> json option \<Rightarrow> app_db \<Rightarrow> response \<times> app_db" where
  "create_project E auth body d =
     settle E None (and_then (read_body E body d) (\<lambda>j d1. and_then (parse_as createProjectSchema j d1) (\<lambda>(name, description, workspaceId) d2.
       and_then (assertWorkspaceAccess auth workspaceId d2) (\<lambda>_ d3.
         and_then (insert_project (ae_now E) name description workspaceId d3) (\<lambda>row d4.
           let ruleIds = map ln_to (filter (\<lambda>l. ln_from l = workspaceId) (ap_workspaceRules d4)) in
           and_then (if ruleIds = [] then Done () d4 else insert_links Project_rules (pj_id row) ruleIds d4) (\<lambda>_ d5.
             Done (ok_answer 201 (with_counts row (length (filter (\<lambda>r. dc_projectId r = pj_id row) (ap_documents d5)))
               (length (filter (\<lambda>r. ln_from r = pj_id row) (ap_projectRules d5)))
               (length (filter (\<lambda>r. iu_projectId r = pj_id row) (ap_issues d5))))) d5))))))"

definition get_project :: "app_env \<Rightarrow> auth_context \<Rightarrow> string \<Rightarrow> app_db \<Rightarrow> response \<times> app_db" where
  "get_project E auth param d =
     (case validatePositiveInt (Some param) of
        None \<Rightarrow> (fail_answer 400 ''Invalid project ID: must be a positive integer'', d)
      | Some i \<Rightarrow>
          settle E None (and_then (assertProjectAccess auth i d) (\<lambda>_ d1.
            case find_project i d1 of
              None \<Rightarrow> Done (fail_answer 404 ''Project not found'') d1
            | Some p \<Rightarrow> Done (ok_answer 200 (project_json E d1 p)) d1)))"

definition updateProjectSchema :: "json \<Rightarrow> (string option \<times> string option) option" where
  "updateProjectSchema j = do {
     ob \<leftarrow> z_record j;
     n \<leftarrow> z_optional ob ''name'' (z_text 1 100);
     t \<leftarrow> z_optional ob ''description'' (z_text 0 500);
     Some (n, t) }"

definition set_project :: "string option \<Rightarrow> string option \<Rightarrow> project_row \<Rightarrow> project_row" where
  "set_project n t p = p\<lparr>pj_name := (case n of None \<Rightarrow> pj_name p | Some s \<Rightarrow> s),
     pj_description := (case t of None \<Rightarrow> pj_description p | Some s \<Rightarrow> Some s)\<rparr>"

definition update_project :: "app_env \<Rightarrow> auth_context \<Rightarrow> string \<Rightarrow> json option \<Rightarrow> app_db \<Rightarrow> response \<times> app_db" where
  "update_project E auth param body d =
     (case validatePositiveInt (Some param) of
        None \<Rightarrow> (fail_answer 400 ''Invalid project ID: must be a positive integer'', d)
      | Some i \<Rightarrow>
          settle E None (and_then (assertProjectAccess auth i d) (\<lambda>_ d1. and_then (read_body E body d1) (\<lambda>j d2.
            and_then (parse_as updateProjectSchema j d2) (\<lambda>(n, t) d3.
              if n = None \<and> t = None
              then Done (fail_answer 400 ''At least one field must be provided for updating (name or description)'') d3
              else (let d4 = d3\<lparr>ap_projects := map (\<lambda>p. if pj_id p = i then set_project n t p else p) (ap_projects d3)\<rparr> in
                case find_project i d4 of
                  None \<Rightarrow> Done (fail_answer 404 ''Project not found'') d4
                | Some p \<Rightarrow> Done (ok_answer 200 (project_json E d4 p)) d4))))))"

definition delete_project :: "app_env \<Rightarrow> auth_context \<Rightarrow> string \<Rightarrow> app_db \<Rightarrow> response \<times> app_db" where
  "delete_project E auth param d =
     (case validatePositiveInt (Some param) of
        None \<Rightarrow> (fail_answer 400 ''Invalid project ID: must be a positive integer'', d)
      | Some i \<Rightarrow>
          settle E None (and_then (assertProjectAccess auth i d) (\<lambda>_ d1.
            case find_project i d1 of
              None \<Rightarrow> Done (fail_answer 404 ''Project not found'') d1
            | Some _ \<Rightarrow> Done (answer 200 [(''success'', JBool True), (''message'', JStr ''Project deleted successfully'')])
                          (delete_projects (\<lambda>p. pj_id p = i) d1))))"

section \<open>Rules of a project\<close>

definition list_project_rules :: "app_env \<Rightarrow> auth_context \<Rightarrow> string \<Rightarrow> app_db \<Rightarrow> response \<times> app_db" where
  "list_project_rules E auth param d =
     (case validatePositiveInt (Some param) of
        None \<Rightarrow> (fail_answer 400 ''Invalid project ID'', d)
      | Some i \<Rightarrow>
          settle E None (and_then (assertProjectAccess auth i d) (\<lambda>_ d1.
            Done (ok_answer 200 (JArr (map rule_json (joined_rules (filter (\<lambda>l. ln_from l = i) (ap_projectRules d1)) d1)))) d1)))"

definition link_project_rule :: "app_env \<Rightarrow> auth_context \<Rightarrow> string \<Rightarrow> json option \<Rightarrow> app_db \<Rightarrow> response \<times> app_db" where
  "link_project_rule E auth param body d =
     (case validatePositiveInt (Some param) of
        None \<Rightarrow> (fail_answer 400 ''Invalid project ID'', d)
      | Some i \<Rightarrow>
          settle E (Some ''Rule already linked to project'')
            (and_then (read_body E body d) (\<lambda>j d1. and_then (parse_as (linkRuleSchema ''ruleId'') j d1) (\<lambda>ruleId d2.
              and_then (assertProjectAccess auth i d2) (\<lambda>_ d3.
                if find_project i d3 = None then Done (fail_answer 404 ''Project not found'') d3
                else if ruleId \<notin> set (map ru_id (ap_rules d3)) then Done (fail_answer 404 ''Rule not found'') d3
                else and_then (insert_links Project_rules i [ruleId] d3) (\<lambda>_. Done (ok_only 201)))))))"

definition unlink_project_rule :: "app_env \<Rightarrow> auth_context \<Rightarrow> string \<Rightarrow> string \<Rightarrow> app_db \<Rightarrow> response \<times> app_db" where
  "unlink_project_rule E auth param ruleParam d =
     (case (validatePositiveInt (Some param), validatePositiveInt (Some ruleParam)) of
        (Some i, Some r) \<Rightarrow>
          settle E None (and_then (assertProjectAccess auth i d) (\<lambda>_ d1.
            Done (ok_only 200) (delete_links Project_rules (\<lambda>l. ln_from l = i \<and> ln_to l = r) d1)))
      | _ \<Rightarrow> (fail_answer 400 ''Invalid project or rule ID'', d))"

section \<open>Rule sets of a project\<close>

definition rule_set_json :: "rule_set_row \<Rightarrow> json" where
  "rule_set_json s = JObj [(''id'', json_int (se_id s)), (''name'', JStr (se_name s)), (''description'', json_opt (se_description s)),
     (''createdAt'', json_int (se_createdAt s)), (''updatedAt'', json_int (se_updatedAt s))]"

definition list_project_rule_sets :: "app_env \<Rightarrow> auth_context \<Rightarrow> string \<Rightarrow> app_db \<Rightarrow> response \<times> app_db" where
  "list_project_rule_sets E auth param d =
     (case validatePositiveInt (Some param) of
        None \<Rightarrow> (fail_answer 400 ''Invalid project ID'', d)
      | Some i \<Rightarrow>
          settle E None (and_then (assertProjectAccess auth i d) (\<lambda>_ d1.
            Done (ok_answer 200 (JArr (map rule_set_json
              (concat (map (\<lambda>l. filter (\<lambda>s. se_id s = ln_to l) (ap_ruleSets d1)) (filter (\<lambda>l. ln_from l = i) (ap_projectRuleSets d1))))))) d1)))"

definition link_project_rule_set :: "app_env \<Rightarrow> auth_context \<Rightarrow> string \<Rightarrow> json option \<Rightarrow> app_db \<Rightarrow> response \<times> app_db" where
  "link_project_rule_set E auth param body d =
     (case validatePositiveInt (Some param) of
        None \<Rightarrow> (fail_answer 400 ''Invalid project ID'', d)
      | Some i \<Rightarrow>
          settle E (Some ''Rule set already linked to project'')
            (and_then (read_body E body d) (\<lambda>j d1. and_then (parse_as (linkRuleSchema ''ruleSetId'') j d1) (\<lambda>ruleSetId d2.
              and_then (assertProjectAccess auth i d2) (\<lambda>_ d3.
                if find_project i d3 = None then Done (fail_answer 404 ''Project not found'') d3
                else if ruleSetId \<notin> set (map se_id (ap_ruleSets d3)) then Done (fail_answer 404 ''Rule set not found'') d3
                else and_then (insert_links Project_rule_sets i [ruleSetId] d3) (\<lambda>_. Done (ok_only 201)))))))"

definition unlink_project_rule_set :: "app_env \<Rightarrow> auth_context \<Rightarrow> string \<Rightarrow> string \<Rightarrow> app_db \<Rightarrow> response \<times> app_db" where
  "unlink_project_rule_set E auth param setParam d =
     (case (validatePositiveInt (Some param), validatePositiveInt (Some setParam)) of
        (Some i, Some r) \<Rightarrow>
          settle E None (and_then (assertProjectAccess auth i d) (\<lambda>_ d1.
            Done (ok_only 200) (delete_links Project_rule_sets (\<lambda>l. ln_from l = i \<and> ln_to l = r) d1)))
      | _ \<Rightarrow> (fail_answer 400 ''Invalid project or rule set ID'', d))"

section \<open>Effective rules\<close>

text \<open>A JavaScript \<open>Map\<close>: a key keeps its first place and its last value.\<close>

fun map_put :: "('r \<Rightarrow> int) \<Rightarrow> 'r \<Rightarrow> 'r list \<Rightarrow> 'r list" where
  "map_put key x [] = [x]"
| "map_put key x (y # ys) = (if key y = key x then x # ys else y # map_put key x ys)"

definition getEffectiveRulesForProject :: "int \<Rightarrow> app_db \<Rightarrow> rule_row list" where
  "getEffectiveRulesForProject projectId d =
     (let directRules = joined_rules (filter (\<lambda>l. ln_from l = projectId) (ap_projectRules d)) d;
          ruleSetIds = map ln_to (filter (\<lambda>l. ln_from l = projectId) (ap_projectRuleSets d));
          ruleSetRules = (if ruleSetIds = [] then [] else joined_rules (filter (\<lambda>l. ln_from l \<in> set ruleSetIds) (ap_ruleSetRules d)) d)
      in fold (map_put ru_id) ruleSetRules (fold (map_put ru_id) directRules []))"

definition list_effective_rules :: "app_env \<Rightarrow> auth_context \<Rightarrow> string \<Rightarrow> app_db \<Rightarrow> response \<times> app_db" where
  "list_effective_rules E auth param d =
     (case validatePositiveInt (Some param) of
        None \<Rightarrow> (fail_answer 400 ''Invalid project ID'', d)
      | Some i \<Rightarrow>
          settle E None (and_then (assertProjectAccess auth i d) (\<lambda>_ d1.
            Done (ok_answer 200 (JArr (map rule_json (getEffectiveRulesForProject i d1)))) d1)))"

end
