(* ===== verification/Rule_Routes.thy ===== *)
theory Rule_Routes
  imports Project_Routes Core_Schemas
begin

text \<open>
  \<open>server/src/routes/rules\<close> and \<open>server/src/routes/rule-sets\<close>: the rules and the rule sets, which belong to nobody; every handler
  asks only that the user owns some workspace. The routes that ask a language model are not here.
\<close>

section \<open>Guards and rows\<close>

definition with_workspaces :: "auth_context \<Rightarrow> (app_db \<Rightarrow> (app_db, response) out) \<Rightarrow> app_db \<Rightarrow> (app_db, response) out" where
  "with_workspaces auth k d =
     (case getAccessibleWorkspaceIds auth None d of
        Inl e \<Rightarrow> Fail e d
      | Inr [] \<Rightarrow> Done (fail_answer 403 ''Forbidden'') d
      | Inr _ \<Rightarrow> k d)"

text \<open>A number of a query string is the key of a workspace only when it is an integer.\<close>

definition assertWorkspaceNumber :: "auth_context \<Rightarrow> rat \<Rightarrow> app_db \<Rightarrow> (app_db, unit) out" where
  "assertWorkspaceNumber auth n d =
     (let (i, q) = quotient_of n in
      if q = 1 then assertWorkspaceAccess auth i d
      else case getUserEmail auth of Inl e \<Rightarrow> Fail e d | Inr _ \<Rightarrow> Fail Workspace_Access.forbidden d)"

definition find_rule :: "int \<Rightarrow> app_db \<Rightarrow> rule_row option" where
  "find_rule i d = find (\<lambda>r. ru_id r = i) (ap_rules d)"

definition find_rule_set :: "int \<Rightarrow> app_db \<Rightarrow> rule_set_row option" where
  "find_rule_set i d = find (\<lambda>r. se_id r = i) (ap_ruleSets d)"

definition full_rule_json :: "rule_row \<Rightarrow> json" where
  "full_rule_json r = JObj [(''id'', json_int (ru_id r)), (''code'', JStr (ru_code r)), (''name'', JStr (ru_name r)),
     (''description'', json_opt (ru_description r)), (''createdBy'', JStr (ru_createdBy r)), (''createdAt'', json_int (ru_createdAt r)),
     (''updatedAt'', json_int (ru_updatedAt r))]"

section \<open>Rules\<close>

definition list_rules :: "app_env \<Rightarrow> auth_context \<Rightarrow> string option \<Rightarrow> app_db \<Rightarrow> response \<times> app_db" where
  "list_rules E auth workspaceIdParam d =
     (let rest = (\<lambda>d1. case getAccessibleWorkspaceIds auth None d1 of
            Inl e \<Rightarrow> Fail e d1
          | Inr [] \<Rightarrow> Done (ok_answer 200 (JArr [])) d1
          | Inr _ \<Rightarrow> Done (ok_answer 200 (JArr (map full_rule_json (ap_rules d1)))) d1)
      in case workspaceIdParam of
           None \<Rightarrow> settle E None (rest d)
         | Some s \<Rightarrow>
             (if s = [] then settle E None (rest d)
              else case str_Number s of
                  None \<Rightarrow> (fail_answer 400 ''Invalid workspaceId'', d)
                | Some n \<Rightarrow>
                    (if n \<le> 0 then (fail_answer 400 ''Invalid workspaceId'', d)
                     else settle E None (and_then (assertWorkspaceNumber auth n d) (\<lambda>_. rest)))))"

definition createRuleSchema :: "json \<Rightarrow> (string \<times> string \<times> string option) option" where
  "createRuleSchema j = do {
     ob \<leftarrow> z_record j;
     c \<leftarrow> z_field ob ''code'' (z_text 1 120);
     n \<leftarrow> z_field ob ''name'' (z_text 1 120);
     t \<leftarrow> z_optional ob ''description'' (z_text 0 2000);
     Some (c, n, t) }"

definition create_rule :: "app_env \<Rightarrow> auth_context \<Rightarrow> json option \<Rightarrow> app_db \<Rightarrow> response \<times> app_db" where
  "create_rule E auth body d =
     (case auth_user auth of
        None \<Rightarrow> (fail_answer 401 ''Unauthorized'', d)
      | Some u \<Rightarrow>
          settle E None (and_then (read_body E body d) (\<lambda>j d1. and_then (parse_as createRuleSchema j d1) (\<lambda>(code, name, description) d2.
            with_workspaces auth (\<lambda>d3.
              and_then (insert_rule (ae_now E) code name description (su_email u) d3) (\<lambda>row. Done (ok_answer 201 (full_rule_json row)))) d2))))"

definition get_rule :: "app_env \<Rightarrow> auth_context \<Rightarrow> string \<Rightarrow> app_db \<Rightarrow> response \<times> app_db" where
  "get_rule E auth param d =
     (case validatePositiveInt (Some param) of
        None \<Rightarrow> (fail_answer 400 ''Invalid rule ID'', d)
      | Some i \<Rightarrow>
          settle E None
            (case find_rule i d of
               None \<Rightarrow> Done (fail_answer 404 ''Rule not found'') d
             | Some row \<Rightarrow> with_workspaces auth (Done (ok_answer 200 (full_rule_json row))) d))"

definition updateRuleSchema :: "json \<Rightarrow> (string option \<times> string option \<times> string option) option" where
  "updateRuleSchema j = do {
     ob \<leftarrow> z_record j;
     c \<leftarrow> z_optional ob ''code'' (z_text 1 120);
     n \<leftarrow> z_optional ob ''name'' (z_text 1 120);
     t \<leftarrow> z_optional ob ''description'' (z_text 0 2000);
     if c \<noteq> None \<or> n \<noteq> None \<or> t \<noteq> None then Some (c, n, t) else None }"

definition set_rule :: "string option \<Rightarrow> string option \<Rightarrow> string option \<Rightarrow> rule_row \<Rightarrow> rule_row" where
  "set_rule c n t r = r\<lparr>ru_code := (case c of None \<Rightarrow> ru_code r | Some s \<Rightarrow> s), ru_name := (case n of None \<Rightarrow> ru_name r | Some s \<Rightarrow> s),
     ru_description := (case t of None \<Rightarrow> ru_description r | Some s \<Rightarrow> Some s)\<rparr>"

text \<open>The new code may not be that of another rule.\<close>

definition write_rule :: "int \<Rightarrow> string option \<Rightarrow> string option \<Rightarrow> string option \<Rightarrow> app_db \<Rightarrow> (app_db, unit) out" where
  "write_rule i c n t d =
     (if c \<noteq> None \<and> list_ex (\<lambda>r. ru_id r \<noteq> i \<and> Some (ru_code r) = c) (ap_rules d) then Fail unique_key d
      else Done () (d\<lparr>ap_rules := map (\<lambda>r. if ru_id r = i then set_rule c n t r else r) (ap_rules d)\<rparr>))"

definition update_rule :: "app_env \<Rightarrow> auth_context \<Rightarrow> string \<Rightarrow> json option \<Rightarrow> app_db \<Rightarrow> response \<times> app_db" where
  "update_rule E auth param body d =
     (case validatePositiveInt (Some param) of
        None \<Rightarrow> (fail_answer 400 ''Invalid rule ID'', d)
      | Some i \<Rightarrow>
          (case body of
             None \<Rightarrow> (fail_answer 400 ''Invalid JSON body'', d)
           | Some j \<Rightarrow>
               settle E None (and_then (parse_as updateRuleSchema j d) (\<lambda>(c, n, t) d1.
                 case find_rule i d1 of
                   None \<Rightarrow> Done (fail_answer 404 ''Rule not found'') d1
                 | Some row \<Rightarrow>
                     with_workspaces auth (\<lambda>d2. and_then (write_rule i c n t d2) (\<lambda>_.
                       Done (ok_answer 200 (full_rule_json (set_rule c n t row))))) d1))))"

definition delete_rule :: "app_env \<Rightarrow> auth_context \<Rightarrow> string \<Rightarrow> app_db \<Rightarrow> response \<times> app_db" where
  "delete_rule E auth param d =
     (case validatePositiveInt (Some param) of
        None \<Rightarrow> (fail_answer 400 ''Invalid rule ID'', d)
      | Some i \<Rightarrow>
          settle E None
            (case find_rule i d of
               None \<Rightarrow> Done (fail_answer 404 ''Rule not found'') d
             | Some row \<Rightarrow>
                 with_workspaces auth (\<lambda>d1.
                   Done (answer 200 [(''success'', JBool True), (''message'', JStr ''Rule deleted successfully'')])
                     (delete_rules (\<lambda>r. ru_id r = i) d1)) d))"

section \<open>Rule sets\<close>

definition list_rule_sets :: "app_env \<Rightarrow> auth_context \<Rightarrow> app_db \<Rightarrow> response \<times> app_db" where
  "list_rule_sets E auth d =
     settle E None
       (case getAccessibleWorkspaceIds auth None d of
          Inl e \<Rightarrow> Fail e d
        | Inr [] \<Rightarrow> Done (ok_answer 200 (JArr [])) d
        | Inr _ \<Rightarrow> Done (ok_answer 200 (JArr (map rule_set_json (ap_ruleSets d)))) d)"

definition createRuleSetSchema :: "json \<Rightarrow> (string \<times> string option option) option" where
  "createRuleSetSchema j = do {
     ob \<leftarrow> z_record j;
     n \<leftarrow> z_field ob ''name'' (z_text 1 120);
     t \<leftarrow> z_optional ob ''description'' (z_nullable (z_text 0 2000));
     Some (n, t) }"

definition create_rule_set :: "app_env \<Rightarrow> auth_context \<Rightarrow> json option \<Rightarrow> app_db \<Rightarrow> response \<times> app_db" where
  "create_rule_set E auth body d =
     settle E None (and_then (read_body E body d) (\<lambda>j d1. and_then (parse_as createRuleSetSchema j d1) (\<lambda>(name, description) d2.
       with_workspaces auth (\<lambda>d3.
         let (row, d4) = insert_rule_set (ae_now E) name (case description of None \<Rightarrow> None | Some t \<Rightarrow> t) d3
         in Done (ok_answer 201 (rule_set_json row)) d4) d2)))"

definition get_rule_set :: "app_env \<Rightarrow> auth_context \<Rightarrow> string \<Rightarrow> app_db \<Rightarrow> response \<times> app_db" where
  "get_rule_set E auth param d =
     (case validatePositiveInt (Some param) of
        None \<Rightarrow> (fail_answer 400 ''Invalid rule set ID'', d)
      | Some i \<Rightarrow>
          settle E None
            (case find_rule_set i d of
               None \<Rightarrow> Done (fail_answer 404 ''Rule set not found'') d
             | Some row \<Rightarrow> with_workspaces auth (Done (ok_answer 200 (rule_set_json row))) d))"

definition updateRuleSetSchema :: "json \<Rightarrow> (string option \<times> string option option) option" where
  "updateRuleSetSchema j = do {
     ob \<leftarrow> z_record j;
     n \<leftarrow> z_optional ob ''name'' (z_text 1 120);
     t \<leftarrow> z_optional ob ''description'' (z_nullable (z_text 0 2000));
     Some (n, t) }"

definition set_rule_set :: "string option \<Rightarrow> string option option \<Rightarrow> rule_set_row \<Rightarrow> rule_set_row" where
  "set_rule_set n t s = s\<lparr>se_name := (case n of None \<Rightarrow> se_name s | Some x \<Rightarrow> x),
     se_description := (case t of None \<Rightarrow> se_description s | Some x \<Rightarrow> x)\<rparr>"

text \<open>The query builder refuses to write an update without columns.\<close>

definition no_values :: "app_env \<Rightarrow> err" where
  "no_values E = Error_msg (ae_no_values E)"

definition update_rule_set :: "app_env \<Rightarrow> auth_context \<Rightarrow> string \<Rightarrow> json option \<Rightarrow> app_db \<Rightarrow> response \<times> app_db" where
  "update_rule_set E auth param body d =
     (case validatePositiveInt (Some param) of
        None \<Rightarrow> (fail_answer 400 ''Invalid rule set ID'', d)
      | Some i \<Rightarrow>
          settle E None (and_then (read_body E body d) (\<lambda>j d1. and_then (parse_as updateRuleSetSchema j d1) (\<lambda>(n, t) d2.
            case find_rule_set i d2 of
              None \<Rightarrow> Done (fail_answer 404 ''Rule set not found'') d2
            | Some row \<Rightarrow>
                with_workspaces auth (\<lambda>d3.
                  if n = None \<and> t = None then Fail (no_values E) d3
                  else Done (ok_answer 200 (rule_set_json (set_rule_set n t row)))
                         (d3\<lparr>ap_ruleSets := map (\<lambda>s. if se_id s = i then set_rule_set n t s else s) (ap_ruleSets d3)\<rparr>)) d2))))"

definition delete_rule_set :: "app_env \<Rightarrow> auth_context \<Rightarrow> string \<Rightarrow> app_db \<Rightarrow> response \<times> app_db" where
  "delete_rule_set E auth param d =
     (case validatePositiveInt (Some param) of
        None \<Rightarrow> (fail_answer 400 ''Invalid rule set ID'', d)
      | Some i \<Rightarrow>
          settle E None
            (case find_rule_set i d of
               None \<Rightarrow> Done (fail_answer 404 ''Rule set not found'') d
             | Some row \<Rightarrow> with_workspaces auth (\<lambda>d1. Done (ok_only 200) (delete_rule_sets (\<lambda>s. se_id s = i) d1)) d))"

section \<open>Rules of a rule set\<close>

definition list_rule_set_rules :: "app_env \<Rightarrow> auth_context \<Rightarrow> string \<Rightarrow> app_db \<Rightarrow> response \<times> app_db" where
  "list_rule_set_rules E auth param d =
     (case validatePositiveInt (Some param) of
        None \<Rightarrow> (fail_answer 400 ''Invalid rule set ID'', d)
      | Some i \<Rightarrow>
          settle E None
            (case find_rule_set i d of
               None \<Rightarrow> Done (fail_answer 404 ''Rule set not found'') d
             | Some row \<Rightarrow>
                 with_workspaces auth (\<lambda>d1.
                   Done (ok_answer 200 (JArr (map rule_json (joined_rules (filter (\<lambda>l. ln_from l = i) (ap_ruleSetRules d1)) d1)))) d1) d))"

definition link_rule_set_rule :: "app_env \<Rightarrow> auth_context \<Rightarrow> string \<Rightarrow> json option \<Rightarrow> app_db \<Rightarrow> response \<times> app_db" where
  "link_rule_set_rule E auth param body d =
     (case validatePositiveInt (Some param) of
        None \<Rightarrow> (fail_answer 400 ''Invalid rule set ID'', d)
      | Some i \<Rightarrow>
          settle E (Some ''Rule already linked to rule set'')
            (and_then (read_body E body d) (\<lambda>j d1. and_then (parse_as (linkRuleSchema ''ruleId'') j d1) (\<lambda>ruleId d2.
              case find_rule_set i d2 of
                None \<Rightarrow> Done (fail_answer 404 ''Rule set not found'') d2
              | Some _ \<Rightarrow>
                  with_workspaces auth (\<lambda>d3.
                    if ruleId \<notin> set (map ru_id (ap_rules d3)) then Done (fail_answer 404 ''Rule not found'') d3
                    else and_then (insert_links Rule_set_rules i [ruleId] d3) (\<lambda>_. Done (ok_only 201))) d2))))"

definition unlink_rule_set_rule :: "app_env \<Rightarrow> auth_context \<Rightarrow> string \<Rightarrow> string \<Rightarrow> app_db \<Rightarrow> response \<times> app_db" where
  "unlink_rule_set_rule E auth param ruleParam d =
     (case (validatePositiveInt (Some param), validatePositiveInt (Some ruleParam)) of
        (Some i, Some r) \<Rightarrow>
          settle E None
            (case find_rule_set i d of
               None \<Rightarrow> Done (fail_answer 404 ''Rule set not found'') d
             | Some _ \<Rightarrow>
                 with_workspaces auth (\<lambda>d1. Done (ok_only 200) (delete_links Rule_set_rules (\<lambda>l. ln_from l = i \<and> ln_to l = r) d1)) d)
      | _ \<Rightarrow> (fail_answer 400 ''Invalid rule set or rule ID'', d))"

end
