(* ===== verification/Issue_Routes.thy ===== *)
theory Issue_Routes
  imports Rule_Routes
begin

text \<open>
  \<open>server/src/routes/issues.ts\<close>: the issues. The router asks only that the request is authenticated. A body is read without a schema, so its
  properties may have any type: reading a property of \<open>null\<close> throws, one of another value that is no object is \<open>undefined\<close>. The keys of
  documents are integers; an element of another type fails the statement that stores it, and an object in the place of an array is read as one
  without a \<open>length\<close>. The order by time keeps the order of the table where times agree.
\<close>

section \<open>Bodies\<close>

definition type_error :: err where
  "type_error = Error_msg ''is not a function''"

fun body_object :: "json \<Rightarrow> 's \<Rightarrow> ('s, obj) out" where
  "body_object JNull d = Fail type_error d"
| "body_object (JObj ps) d = Done ps d"
| "body_object _ d = Done [] d"

definition issue_error :: "nat \<Rightarrow> string \<Rightarrow> string \<Rightarrow> response" where
  "issue_error status message code = answer status [(''error'', JObj [(''message'', JStr message), (''code'', JStr code)])]"

definition settle_issue :: "string \<Rightarrow> string \<Rightarrow> (app_db, response) out \<Rightarrow> response \<times> app_db" where
  "settle_issue message code r = (case r of Done a d \<Rightarrow> (a, d) | Fail _ d \<Rightarrow> (issue_error 500 message code, d))"

text \<open>\<open>!body.title || body.title.trim() === ""\<close>\<close>

definition required_title :: "json option \<Rightarrow> 's \<Rightarrow> ('s, string option) out" where
  "required_title j d =
     (case j of
        None \<Rightarrow> Done None d
      | Some x \<Rightarrow>
          (if \<not> truthy x then Done None d
           else case x of JStr s \<Rightarrow> (let t = Bridge_Gateway.js_trim s in Done (if t = [] then None else Some t) d) | _ \<Rightarrow> Fail type_error d))"

text \<open>\<open>body.description?.trim() || null\<close>\<close>

definition trimmed_text :: "json option \<Rightarrow> 's \<Rightarrow> ('s, string option) out" where
  "trimmed_text j d =
     (case j of
        None \<Rightarrow> Done None d
      | Some JNull \<Rightarrow> Done None d
      | Some (JStr s) \<Rightarrow> (let t = Bridge_Gateway.js_trim s in Done (if t = [] then None else Some t) d)
      | Some _ \<Rightarrow> Fail type_error d)"

definition validPriorities :: "string list" where
  "validPriorities = [''low'', ''medium'', ''high'', ''critical'']"

definition validStatuses :: "string list" where
  "validStatuses = [''open'', ''in_progress'', ''resolved'', ''closed'']"

definition one_of :: "string list \<Rightarrow> json \<Rightarrow> string option" where
  "one_of valid j = (case j of JStr s \<Rightarrow> if s \<in> set valid then Some s else None | _ \<Rightarrow> None)"

definition choice :: "string list \<Rightarrow> string \<Rightarrow> json option \<Rightarrow> string option" where
  "choice valid dflt j = one_of valid (case j of None \<Rightarrow> JStr dflt | Some x \<Rightarrow> if truthy x then x else JStr dflt)"

section \<open>Linked documents\<close>

definition json_opt_int :: "int option \<Rightarrow> json" where
  "json_opt_int x = (case x of None \<Rightarrow> JNull | Some i \<Rightarrow> json_int i)"

definition issue_obj :: "issue_row \<Rightarrow> obj" where
  "issue_obj r = [(''id'', json_int (iu_id r)), (''title'', JStr (iu_title r)), (''description'', json_opt (iu_description r)),
     (''priority'', JStr (iu_priority r)), (''status'', JStr (iu_status r)), (''origin'', JStr (iu_origin r)),
     (''projectId'', json_int (iu_projectId r)), (''markedAsNonissueBy'', json_opt (iu_markedBy r)),
     (''markedAsNonissueAt'', json_opt_int (iu_markedAt r)), (''createdAt'', json_int (iu_createdAt r)), (''updatedAt'', json_int (iu_updatedAt r))]"

text \<open>\<open>and(...documentIds.map((id) => eq(documents.id, id)))\<close>: a row has to have every one of the keys.\<close>

definition matching_documents :: "int list \<Rightarrow> app_db \<Rightarrow> document_row list" where
  "matching_documents ids d = filter (\<lambda>r. list_all (\<lambda>i. dc_id r = i) ids) (ap_documents d)"

definition plain_document :: "document_row \<Rightarrow> obj" where
  "plain_document r = [(''id'', json_int (dc_id r)), (''filename'', JStr (dc_filename r))]"

definition linked_document :: "anchor_row \<Rightarrow> document_row \<Rightarrow> json" where
  "linked_document a r = JObj (plain_document r @
     [(''anchor'', JObj [(''type'', json_opt (anchor_row.an_type a)), (''start'', json_opt_int (an_start a)), (''end'', json_opt_int (an_end a)),
        (''text'', json_opt (an_text a))])])"

definition linked_documents :: "int \<Rightarrow> app_db \<Rightarrow> json list" where
  "linked_documents i d =
     (let docLinks = filter (\<lambda>a. an_issueId a = i) (ap_issueDocuments d);
          docsRows = (if docLinks = [] then [] else matching_documents (map an_documentId docLinks) d)
      in concat (map (\<lambda>a. case find (\<lambda>r. dc_id r = an_documentId a) docsRows of None \<Rightarrow> [] | Some r \<Rightarrow> [linked_document a r]) docLinks))"

definition issue_json :: "app_db \<Rightarrow> issue_row \<Rightarrow> json" where
  "issue_json d r = JObj (issue_obj r @ [(''documents'', JArr (linked_documents (iu_id r) d)),
     (''ruleIds'', JArr (map (\<lambda>l. json_int (ln_to l)) (filter (\<lambda>l. ln_from l = iu_id r) (ap_issueRules d))))])"

section \<open>List and get\<close>

definition data_answer :: "nat \<Rightarrow> json \<Rightarrow> response" where
  "data_answer status j = answer status [(''data'', j)]"

definition newest_first :: "issue_row list \<Rightarrow> issue_row list" where
  "newest_first rows = sort_key (\<lambda>r. - iu_createdAt r) rows"

definition list_issues :: "string option \<Rightarrow> app_db \<Rightarrow> response \<times> app_db" where
  "list_issues projectIdParam d =
     (let answer_rows = (\<lambda>P. (data_answer 200 (JArr (map (issue_json d) (newest_first (filter P (ap_issues d))))), d)) in
      case projectIdParam of
        None \<Rightarrow> answer_rows (\<lambda>_. True)
      | Some s \<Rightarrow>
          (if s = [] then answer_rows (\<lambda>_. True)
           else case validatePositiveInt (Some s) of
               None \<Rightarrow> (issue_error 400 ''Invalid project_id parameter'' ''INVALID_PARAMETER'', d)
             | Some projectId \<Rightarrow> answer_rows (\<lambda>r. iu_projectId r = projectId)))"

definition find_issue :: "int \<Rightarrow> app_db \<Rightarrow> issue_row option" where
  "find_issue i d = find (\<lambda>r. iu_id r = i) (ap_issues d)"

definition get_issue :: "string \<Rightarrow> app_db \<Rightarrow> response \<times> app_db" where
  "get_issue param d =
     (case validatePositiveInt (Some param) of
        None \<Rightarrow> (issue_error 400 ''Invalid issue ID'' ''INVALID_ID'', d)
      | Some i \<Rightarrow>
          (case find_issue i d of
             None \<Rightarrow> (issue_error 404 ''Issue not found'' ''NOT_FOUND'', d)
           | Some r \<Rightarrow> (data_answer 200 (issue_json d r), d)))"

section \<open>Create\<close>

fun document_key :: "json \<Rightarrow> int option" where
  "document_key (JNum m e) = (if e = 0 then Some m else None)"
| "document_key _ = None"

definition link_documents :: "int \<Rightarrow> json list \<Rightarrow> app_db \<Rightarrow> (app_db, unit) out" where
  "link_documents i xs d =
     (case all_some (map document_key xs) of
        None \<Rightarrow> Fail type_error d
      | Some ids \<Rightarrow> insert_anchors i (map (\<lambda>j. (j, None, None)) ids) d)"

text \<open>What \<open>ids.length > 0\<close> and \<open>ids.map\<close> make of a value.\<close>

fun list_elements :: "json \<Rightarrow> 's \<Rightarrow> ('s, json list) out" where
  "list_elements JNull d = Fail type_error d"
| "list_elements (JArr xs) d = Done xs d"
| "list_elements (JStr s) d = (if s = [] then Done [] d else Fail type_error d)"
| "list_elements _ d = Done [] d"

definition create_issue :: "app_env \<Rightarrow> json option \<Rightarrow> app_db \<Rightarrow> response \<times> app_db" where
  "create_issue E body d =
     settle_issue ''Failed to create issue'' ''CREATE_ERROR''
       (and_then (read_body E body d) (\<lambda>j d1. and_then (body_object j d1) (\<lambda>ob d2.
          and_then (required_title (obj_get ob ''title'') d2) (\<lambda>title d3.
            case title of
              None \<Rightarrow> Done (issue_error 400 ''Title is required'' ''VALIDATION_ERROR'') d3
            | Some t \<Rightarrow>
                (case obj_get ob ''projectId'' of
                   Some (JNum m e) \<Rightarrow>
                     (if m \<le> 0 then Done (issue_error 400 ''Valid projectId is required'' ''VALIDATION_ERROR'') d3
                      else case choice validPriorities ''medium'' (obj_get ob ''priority'') of
                          None \<Rightarrow> Done (issue_error 400 ''Invalid priority value'' ''VALIDATION_ERROR'') d3
                        | Some priority \<Rightarrow>
                            (case choice validStatuses ''open'' (obj_get ob ''status'') of
                               None \<Rightarrow> Done (issue_error 400 ''Invalid status value'' ''VALIDATION_ERROR'') d3
                             | Some status \<Rightarrow>
                                 and_then (trimmed_text (obj_get ob ''description'') d3) (\<lambda>description d4.
                                 and_then (if e = 0 then insert_issue (ae_now E) t description priority status ''manual'' m d4 else Fail foreign_key d4)
                                   (\<lambda>newIssue d5.
                                 and_then (case obj_get ob ''documentIds'' of
                                             None \<Rightarrow> Done [] d5
                                           | Some x \<Rightarrow> if truthy x then list_elements x d5 else Done [] d5) (\<lambda>xs d6.
                                 and_then (if xs = [] then Done () d6 else link_documents (iu_id newIssue) xs d6) (\<lambda>_ d7.
                                   let linkedDocs = (if xs = [] then [] else matching_documents (map (\<lambda>x. the (document_key x)) xs) d7)
                                   in Done (data_answer 201 (JObj (issue_obj newIssue @
                                        [(''documents'', JArr (map (\<lambda>r. JObj (plain_document r)) linkedDocs))]))) d7))))))
                 | _ \<Rightarrow> Done (issue_error 400 ''Valid projectId is required'' ''VALIDATION_ERROR'') d3)))))"

section \<open>Update and delete\<close>

text \<open>The assignments to \<open>updateData\<close>; an update without any throws.\<close>

type_synonym issue_patch = "(issue_row \<Rightarrow> issue_row) list"

definition getUser :: "auth_context \<Rightarrow> err + session_user" where
  "getUser auth = (case auth of User_auth (Some u) \<Rightarrow> Inr u | _ \<Rightarrow> Inl unauthorized)"

definition title_patch :: "json option \<Rightarrow> 's \<Rightarrow> ('s, issue_patch) out" where
  "title_patch j d =
     (case j of None \<Rightarrow> Done [] d | Some (JStr s) \<Rightarrow> Done [\<lambda>r. r\<lparr>iu_title := Bridge_Gateway.js_trim s\<rparr>] d | Some _ \<Rightarrow> Fail type_error d)"

definition description_patch :: "json option \<Rightarrow> 's \<Rightarrow> ('s, issue_patch) out" where
  "description_patch j d =
     (case j of None \<Rightarrow> Done [] d | Some x \<Rightarrow> and_then (trimmed_text (Some x) d) (\<lambda>t. Done [\<lambda>r. r\<lparr>iu_description := t\<rparr>]))"

definition priority_patch :: "json option \<Rightarrow> issue_patch option" where
  "priority_patch j = (case j of None \<Rightarrow> Some [] | Some x \<Rightarrow> map_option (\<lambda>s. [\<lambda>r. r\<lparr>iu_priority := s\<rparr>]) (one_of validPriorities x))"

definition status_patch :: "json option \<Rightarrow> issue_patch option" where
  "status_patch j = (case j of None \<Rightarrow> Some [] | Some x \<Rightarrow> map_option (\<lambda>s. [\<lambda>r. r\<lparr>iu_status := s\<rparr>]) (one_of validStatuses x))"

definition mark_patch :: "app_env \<Rightarrow> auth_context \<Rightarrow> json option \<Rightarrow> 's \<Rightarrow> ('s, issue_patch) out" where
  "mark_patch E auth j d =
     (case j of
        None \<Rightarrow> Done [] d
      | Some x \<Rightarrow>
          (if truthy x
           then (case getUser auth of
                   Inl e \<Rightarrow> Fail e d
                 | Inr u \<Rightarrow> Done [\<lambda>r. r\<lparr>iu_markedBy := Some (su_email u), iu_markedAt := Some (ae_now E)\<rparr>] d)
           else Done [\<lambda>r. r\<lparr>iu_markedBy := None, iu_markedAt := None\<rparr>] d))"

definition apply_patch :: "issue_patch \<Rightarrow> issue_row \<Rightarrow> issue_row" where
  "apply_patch ps r = fold (\<lambda>f. f) ps r"

definition write_issue :: "app_env \<Rightarrow> int \<Rightarrow> issue_patch \<Rightarrow> app_db \<Rightarrow> (app_db, unit) out" where
  "write_issue E i ps d =
     (if ps = [] then Fail (no_values E) d
      else Done () (d\<lparr>ap_issues := map (\<lambda>r. if iu_id r = i then apply_patch ps r else r) (ap_issues d)\<rparr>))"

definition replace_documents :: "int \<Rightarrow> json option \<Rightarrow> app_db \<Rightarrow> (app_db, unit) out" where
  "replace_documents i j d =
     (case j of
        None \<Rightarrow> Done () d
      | Some x \<Rightarrow>
          (let d1 = d\<lparr>ap_issueDocuments := filter (\<lambda>a. an_issueId a \<noteq> i) (ap_issueDocuments d)\<rparr> in
           and_then (list_elements x d1) (\<lambda>xs d2. if xs = [] then Done () d2 else link_documents i xs d2)))"

definition update_issue :: "app_env \<Rightarrow> auth_context \<Rightarrow> string \<Rightarrow> json option \<Rightarrow> app_db \<Rightarrow> response \<times> app_db" where
  "update_issue E auth param body d =
     (case validatePositiveInt (Some param) of
        None \<Rightarrow> (issue_error 400 ''Invalid issue ID'' ''INVALID_ID'', d)
      | Some i \<Rightarrow>
          settle_issue ''Failed to update issue'' ''UPDATE_ERROR''
            (and_then (read_body E body d) (\<lambda>j d1.
               case find_issue i d1 of
                 None \<Rightarrow> Done (issue_error 404 ''Issue not found'' ''NOT_FOUND'') d1
               | Some existing \<Rightarrow>
                   and_then (body_object j d1) (\<lambda>ob d2.
                   and_then (title_patch (obj_get ob ''title'') d2) (\<lambda>p1 d3.
                   and_then (description_patch (obj_get ob ''description'') d3) (\<lambda>p2 d4.
                     case priority_patch (obj_get ob ''priority'') of
                       None \<Rightarrow> Done (issue_error 400 ''Invalid priority value'' ''VALIDATION_ERROR'') d4
                     | Some p3 \<Rightarrow>
                         (case status_patch (obj_get ob ''status'') of
                            None \<Rightarrow> Done (issue_error 400 ''Invalid status value'' ''VALIDATION_ERROR'') d4
                          | Some p4 \<Rightarrow>
                              and_then (mark_patch E auth (obj_get ob ''markNonIssue'') d4) (\<lambda>p5 d5.
                                let ps = p1 @ p2 @ p3 @ p4 @ p5 in
                                and_then (write_issue E i ps d5) (\<lambda>_ d6.
                                and_then (replace_documents i (obj_get ob ''documentIds'') d6) (\<lambda>_ d7.
                                  Done (data_answer 200 (issue_json d7 (apply_patch ps existing))) d7))))))))))"

definition delete_issue :: "string \<Rightarrow> app_db \<Rightarrow> response \<times> app_db" where
  "delete_issue param d =
     (case validatePositiveInt (Some param) of
        None \<Rightarrow> (issue_error 400 ''Invalid issue ID'' ''INVALID_ID'', d)
      | Some i \<Rightarrow>
          (case find_issue i d of
             None \<Rightarrow> (issue_error 404 ''Issue not found'' ''NOT_FOUND'', d)
           | Some _ \<Rightarrow> (ok_only 200, delete_issues (\<lambda>r. iu_id r = i) d)))"

end
