(* ===== verification/Document_Routes.thy ===== *)
theory Document_Routes
  imports Issue_Routes
begin

text \<open>
  \<open>server/src/routes/documents.ts\<close>, \<open>server/src/services/documents\<close> and the upload limit of \<open>server/src/utils/app-config.ts\<close>: documents of
  projects. The analysis of inconsistencies, which asks a language model, is not here. The key-value store of the configuration is a map, the
  bucket of files and the queue of conversions are the answers they give to one request.
\<close>

section \<open>The request\<close>

record doc_env =
  de_requestId :: string
  de_now_ms :: nat
  de_iso :: string
  de_uuid :: string
  de_url :: "string \<Rightarrow> bool"

definition find_document :: "int \<Rightarrow> app_db \<Rightarrow> document_row option" where
  "find_document i d = find (\<lambda>r. dc_id r = i) (ap_documents d)"

definition documents_middleware :: "app_env \<Rightarrow> auth_context \<Rightarrow> app_db \<Rightarrow> app_db" where
  "documents_middleware E auth d =
     (case getUserEmail auth of Inl _ \<Rightarrow> d | Inr email \<Rightarrow> out_state (ensurePersonalWorkspace (ae_now E) email d))"

definition with_document :: "auth_context \<Rightarrow> int \<Rightarrow> (document_row \<Rightarrow> app_db \<Rightarrow> (app_db, response) out) \<Rightarrow> app_db \<Rightarrow> (app_db, response) out" where
  "with_document auth i k d =
     (case find_document i d of
        None \<Rightarrow> Done (fail_answer 404 ''Document not found'') d
      | Some doc \<Rightarrow> and_then (assertProjectAccess auth (dc_projectId doc) d) (\<lambda>_. k doc))"

definition tracked_answer :: "nat \<Rightarrow> doc_env \<Rightarrow> obj \<Rightarrow> response" where
  "tracked_answer status D ps = answer status ((''success'', JBool True) # ps @ [(''requestId'', JStr (de_requestId D))])"

section \<open>List, status, content and deletion\<close>

definition listed_document :: "document_row \<Rightarrow> json" where
  "listed_document r = JObj [(''id'', json_int (dc_id r)), (''projectId'', json_int (dc_projectId r)), (''filename'', JStr (dc_filename r)),
     (''fileType'', JStr (dc_fileType r)), (''status'', JStr (dc_status r)), (''createdAt'', json_int (dc_createdAt r)),
     (''updatedAt'', json_int (dc_updatedAt r))]"

definition document_list :: "doc_env \<Rightarrow> document_row list \<Rightarrow> response" where
  "document_list D rows = tracked_answer 200 D [(''data'', JArr (map listed_document rows)), (''total'', json_int (int (length rows)))]"

definition handleDocumentList :: "app_env \<Rightarrow> doc_env \<Rightarrow> auth_context \<Rightarrow> string option \<Rightarrow> app_db \<Rightarrow> response \<times> app_db" where
  "handleDocumentList E D auth projectIdParam d =
     settle E None
       (case getAccessibleProjectIds auth None d of
          Inl e \<Rightarrow> Fail e d
        | Inr accessible \<Rightarrow>
            (if accessible = [] then Done (document_list D []) d
             else case (case projectIdParam of None \<Rightarrow> None | Some s \<Rightarrow> if s = [] then None else js_parseInt_auto s) of
                 Some projectId \<Rightarrow>
                   (if projectId \<notin> set accessible then Done (fail_answer 403 ''Forbidden'') d
                    else Done (document_list D (filter (\<lambda>r. dc_projectId r = projectId) (ap_documents d))) d)
               | None \<Rightarrow> Done (document_list D (filter (\<lambda>r. dc_projectId r \<in> set accessible) (ap_documents d))) d))"

definition handleDocumentStatus :: "app_env \<Rightarrow> doc_env \<Rightarrow> auth_context \<Rightarrow> string \<Rightarrow> app_db \<Rightarrow> response \<times> app_db" where
  "handleDocumentStatus E D auth param d =
     (case js_parseInt_auto param of
        None \<Rightarrow> (fail_answer 400 ''Invalid document ID'', d)
      | Some i \<Rightarrow>
          settle E None (with_document auth i (\<lambda>doc. Done (tracked_answer 200 D [(''data'', JObj [
            (''documentId'', json_int (dc_id doc)), (''projectId'', json_int (dc_projectId doc)), (''filename'', JStr (dc_filename doc)),
            (''fileType'', JStr (dc_fileType doc)), (''status'', JStr (dc_status doc)), (''uploadedAt'', json_int (dc_createdAt doc)),
            (''analyzedAt'', json_int (dc_updatedAt doc))])])) d))"

definition handleDocumentContent :: "app_env \<Rightarrow> auth_context \<Rightarrow> string \<Rightarrow> app_db \<Rightarrow> response \<times> app_db" where
  "handleDocumentContent E auth param d =
     (case js_parseInt_auto param of
        None \<Rightarrow> (fail_answer 400 ''Invalid document ID'', d)
      | Some i \<Rightarrow>
          settle E None (with_document auth i (\<lambda>doc. Done (ok_answer 200 (JObj [
            (''id'', json_int (dc_id doc)), (''projectId'', json_int (dc_projectId doc)), (''filename'', JStr (dc_filename doc)),
            (''fileType'', JStr (dc_fileType doc)), (''content'', json_opt (dc_content doc)), (''status'', JStr (dc_status doc)),
            (''createdAt'', json_int (dc_createdAt doc)), (''updatedAt'', json_int (dc_updatedAt doc))]))) d))"

definition handleDocumentDelete :: "app_env \<Rightarrow> doc_env \<Rightarrow> auth_context \<Rightarrow> string \<Rightarrow> app_db \<Rightarrow> response \<times> app_db" where
  "handleDocumentDelete E D auth param d =
     (case js_parseInt_auto param of
        None \<Rightarrow> (fail_answer 400 ''Invalid document ID'', d)
      | Some i \<Rightarrow>
          settle E None (with_document auth i (\<lambda>_ d1.
            Done (tracked_answer 200 D [(''message'', JStr (''Document '' @ int_str i @ '' deleted successfully''))])
              (delete_documents (\<lambda>r. dc_id r = i) d1)) d))"

section \<open>Analysis\<close>

definition analysisRequestSchema :: "json \<Rightarrow> string option" where
  "analysisRequestSchema j = do {
     ob \<leftarrow> z_record j;
     t \<leftarrow> z_field ob ''analysisType'' (one_of [''summary'', ''sentiment'', ''entities'', ''keywords'', ''full'']);
     _ \<leftarrow> z_optional ob ''options'' (\<lambda>o'. do {
            ps \<leftarrow> z_record o';
            l \<leftarrow> z_default ps ''language'' ''en'' z_string;
            v \<leftarrow> z_default ps ''detailLevel'' ''basic'' (one_of [''basic'', ''detailed'', ''comprehensive'']);
            Some (l, v) });
     Some t }"

definition set_status :: "int \<Rightarrow> string \<Rightarrow> app_db \<Rightarrow> app_db" where
  "set_status i s d = d\<lparr>ap_documents := map (\<lambda>r. if dc_id r = i then r\<lparr>dc_status := s\<rparr> else r) (ap_documents d)\<rparr>"

definition handleDocumentAnalyze :: "app_env \<Rightarrow> doc_env \<Rightarrow> auth_context \<Rightarrow> string \<Rightarrow> json option \<Rightarrow> app_db \<Rightarrow> response \<times> app_db" where
  "handleDocumentAnalyze E D auth param body d =
     (case js_parseInt_auto param of
        None \<Rightarrow> (fail_answer 400 ''Invalid document ID'', d)
      | Some i \<Rightarrow>
          settle E None (and_then (read_body E body d) (\<lambda>j d1. and_then (parse_as analysisRequestSchema j d1) (\<lambda>analysisType.
            with_document auth i (\<lambda>_ d2.
              Done (tracked_answer 200 D [(''data'', JObj [(''analysisId'', JStr (''analysis-'' @ nat_str (de_now_ms D))),
                 (''documentId'', json_int i), (''analysisType'', JStr analysisType), (''status'', JStr ''processing''),
                 (''startedAt'', JStr (de_iso D))])]) (set_status i ''processing'' d2))))))"

definition handleDocumentAnalysisResults :: "app_env \<Rightarrow> doc_env \<Rightarrow> auth_context \<Rightarrow> string \<Rightarrow> string \<Rightarrow> app_db \<Rightarrow> response \<times> app_db" where
  "handleDocumentAnalysisResults E D auth param analysisId d =
     (case js_parseInt_auto param of
        None \<Rightarrow> (fail_answer 400 ''Invalid document ID'', d)
      | Some i \<Rightarrow>
          settle E None (with_document auth i (\<lambda>_. Done (tracked_answer 200 D [(''data'', JObj [
            (''analysisId'', JStr analysisId), (''documentId'', json_int i), (''status'', JStr ''completed''),
            (''results'', JObj [(''summary'', JStr ''This is a sample summary of the document analysis.''),
               (''sentiment'', JObj [(''overall'', JStr ''neutral''), (''confidence'', JNum 75 2)]),
               (''entities'', JArr [JObj [(''text'', JStr ''Sample Company''), (''type'', JStr ''ORGANIZATION''), (''confidence'', JNum 9 1)]]),
               (''keywords'', JArr [JStr ''analysis'', JStr ''document'', JStr ''sample''])]),
            (''completedAt'', JStr (de_iso D))])])) d))"

section \<open>Upload\<close>

definition getConfigValue :: "(string \<Rightarrow> string option) \<Rightarrow> string \<Rightarrow> string option" where
  "getConfigValue cfg key = cfg key"

definition getDocUploadConfig :: "(string \<Rightarrow> string option) \<Rightarrow> rat option" where
  "getDocUploadConfig cfg =
     (case getConfigValue cfg ''doc_upload_max_mb'' of
        None \<Rightarrow> None
      | Some s \<Rightarrow>
          (if s = [] then None
           else case str_Number s of None \<Rightarrow> None | Some parsed \<Rightarrow> if parsed \<le> 0 then None else Some parsed))"

definition getDocxConversionConfig :: "(string \<Rightarrow> string option) \<Rightarrow> string option \<times> string option" where
  "getDocxConversionConfig cfg = (getConfigValue cfg ''docx_conversion_url'', getConfigValue cfg ''docx_conversion_token'')"

definition z_url :: "doc_env \<Rightarrow> json \<Rightarrow> string option" where
  "z_url D j = (case z_string j of None \<Rightarrow> None | Some s \<Rightarrow> if de_url D s then Some s else None)"

definition uploadDocumentSchema :: "doc_env \<Rightarrow> json \<Rightarrow> (int \<times> string \<times> string \<times> string option \<times> string option) option" where
  "uploadDocumentSchema D j = do {
     ob \<leftarrow> z_record j;
     p \<leftarrow> z_field ob ''projectId'' z_positive;
     n \<leftarrow> z_field ob ''filename'' z_string1;
     t \<leftarrow> z_field ob ''fileType'' (one_of [''pdf'', ''docx'', ''txt'', ''md'']);
     c \<leftarrow> z_optional ob ''content'' z_string;
     u \<leftarrow> z_optional ob ''url'' (z_url D);
     Some (int p, n, t, c, u) }"

definition safe_name :: "string \<Rightarrow> string" where
  "safe_name filename = take 80 (map (\<lambda>c.
     if CHR ''a'' \<le> c \<and> c \<le> CHR ''z'' \<or> CHR ''A'' \<le> c \<and> c \<le> CHR ''Z'' \<or> is_digit c \<or> c \<in> {CHR ''.'', CHR ''_'', CHR ''-''}
     then c else CHR ''_'') filename)"

definition storage_key :: "doc_env \<Rightarrow> int \<Rightarrow> string \<Rightarrow> string" where
  "storage_key D projectId filename =
     ''projects/'' @ int_str projectId @ ''/'' @ nat_str (de_now_ms D) @ ''-'' @ de_uuid D @ ''-'' @ safe_name filename"

definition uploaded_json :: "document_row \<Rightarrow> json" where
  "uploaded_json r = JObj [(''id'', json_int (dc_id r)), (''projectId'', json_int (dc_projectId r)), (''filename'', JStr (dc_filename r)),
     (''fileType'', JStr (dc_fileType r)), (''status'', JStr (dc_status r)), (''createdAt'', json_int (dc_createdAt r))]"

text \<open>A document in a JSON body; the limit in bytes is compared with the number of characters.\<close>

definition upload_json :: "app_env \<Rightarrow> doc_env \<Rightarrow> auth_context \<Rightarrow> rat \<Rightarrow> json option \<Rightarrow> app_db \<Rightarrow> (app_db, response) out" where
  "upload_json E D auth maxUploadBytes body d =
     and_then (read_body E body d) (\<lambda>j d1. and_then (parse_as (uploadDocumentSchema D) j d1) (\<lambda>(projectId, filename, fileType, content, url) d2.
       if (case content of None \<Rightarrow> False | Some c \<Rightarrow> maxUploadBytes < of_nat (length c)) then Done (fail_answer 413 ''File too large'') d2
       else and_then (assertProjectAccess auth projectId d2) (\<lambda>_ d3.
         and_then (insert_document (ae_now E) projectId filename fileType content url (Some (storage_key D projectId filename)) ''uploaded'' d3)
           (\<lambda>row. Done (tracked_answer 200 D [(''data'', uploaded_json row)])))))"

text \<open>A multipart form: the text of its project, and its file with the size in bytes. What the bucket and the queue answer comes with it.\<close>

datatype enqueue_answer = Enqueue_status nat | Enqueue_payload bool

record upload_form =
  uf_projectId :: "string option"
  uf_file :: "(string \<times> nat \<times> string) option"
  uf_stored :: bool
  uf_queue :: enqueue_answer

definition ends_with :: "string \<Rightarrow> string \<Rightarrow> bool" where
  "ends_with suf s \<longleftrightarrow> length suf \<le> length s \<and> drop (length s - length suf) s = suf"

definition file_type :: "string \<Rightarrow> string" where
  "file_type filename =
     (let lower = js_lower filename in if ends_with ''.docx'' lower then ''docx'' else if ends_with ''.md'' lower then ''md'' else ''txt'')"

definition upload_docx :: "app_env \<Rightarrow> doc_env \<Rightarrow> (string \<Rightarrow> string option) \<Rightarrow> upload_form \<Rightarrow> int \<Rightarrow> string \<Rightarrow> app_db \<Rightarrow> (app_db, response) out" where
  "upload_docx E D cfg F projectId filename d =
     (case fst (getDocxConversionConfig cfg) of
        None \<Rightarrow> Done (fail_answer 500 ''Docx conversion is not configured'') d
      | Some u \<Rightarrow>
          (if u = [] then Done (fail_answer 500 ''Docx conversion is not configured'') d
           else if \<not> de_url D u then Done (fail_answer 500 ''Docx conversion URL is invalid'') d
           else if \<not> uf_stored F then Done (fail_answer 500 ''Failed to store document'') d
           else and_then (insert_document (ae_now E) projectId filename ''docx'' None None (Some (storage_key D projectId filename)) ''processing'' d)
                  (\<lambda>row d1.
                    case uf_queue F of
                      Enqueue_status n \<Rightarrow>
                        Fail (Error_msg (''Failed to enqueue conversion (HTTP '' @ nat_str n @ '')'')) (set_status (dc_id row) ''error'' d1)
                    | Enqueue_payload ok \<Rightarrow>
                        (if \<not> ok then Fail (Error_msg ''Failed to enqueue conversion'') (set_status (dc_id row) ''error'' d1)
                         else Done (tracked_answer 201 D [(''data'', uploaded_json row)]) d1))))"

definition upload_multipart :: "app_env \<Rightarrow> doc_env \<Rightarrow> (string \<Rightarrow> string option) \<Rightarrow> auth_context \<Rightarrow> rat \<Rightarrow> upload_form \<Rightarrow> app_db
    \<Rightarrow> (app_db, response) out" where
  "upload_multipart E D cfg auth maxUploadBytes F d =
     (case uf_projectId F of
        None \<Rightarrow> Done (fail_answer 400 ''projectId is required'') d
      | Some s \<Rightarrow>
          (if s = [] then Done (fail_answer 400 ''projectId is required'') d
           else case str_Number s of
               None \<Rightarrow> Done (fail_answer 400 ''Invalid projectId'') d
             | Some n \<Rightarrow>
                 (if n \<le> 0 then Done (fail_answer 400 ''Invalid projectId'') d
                  else case uf_file F of
                      None \<Rightarrow> Done (fail_answer 400 ''file is required'') d
                    | Some (filename, size', content) \<Rightarrow>
                        (let (projectId, q) = quotient_of n in
                         if maxUploadBytes < of_nat size' then Done (fail_answer 413 ''File too large'') d
                         else if q \<noteq> 1 then Fail Workspace_Access.forbidden d
                         else and_then (assertProjectAccess auth projectId d) (\<lambda>_ d1.
                           if file_type filename = ''docx'' then upload_docx E D cfg F projectId filename d1
                           else and_then (insert_document (ae_now E) projectId filename (file_type filename) (Some content) None None ''uploaded'' d1)
                                  (\<lambda>row. Done (tracked_answer 201 D [(''data'', uploaded_json row)])))))))"

datatype upload_request = Multipart upload_form | Json_upload "json option"

definition handleDocumentUpload :: "app_env \<Rightarrow> doc_env \<Rightarrow> (string \<Rightarrow> string option) \<Rightarrow> auth_context \<Rightarrow> upload_request \<Rightarrow> app_db
    \<Rightarrow> response \<times> app_db" where
  "handleDocumentUpload E D cfg auth req d =
     (case getDocUploadConfig cfg of
        None \<Rightarrow> (fail_answer 500 ''Upload limit is not configured'', d)
      | Some maxMb \<Rightarrow>
          (let maxUploadBytes = maxMb * 1024 * 1024 in
           settle E None (case req of
             Multipart F \<Rightarrow> upload_multipart E D cfg auth maxUploadBytes F d
           | Json_upload body \<Rightarrow> upload_json E D auth maxUploadBytes body d)))"

end
