(* ===== verification/Server_Access.thy ===== *)
theory Server_Access
  imports Document_Routes
begin

text \<open>
  Sign-in and access control of the application: \<open>server/src/auth\<close> (\<open>email.ts\<close>, \<open>db.ts\<close>, the callback of \<open>microsoft.ts\<close>),
  \<open>server/src/middleware/auth.ts\<close> and the handlers of \<open>server/src/routes/access-control\<close>. The tables are those of the migrations: they have no
  foreign keys, and only the code of an action is unique. The sealing of the session cookie and the answers of the identity provider are
  parameters. Identifiers of roles and actions are integers; the schemas of the bodies would also take a fraction, which no row has.
\<close>

section \<open>Email addresses\<close>

fun replace_first :: "string \<Rightarrow> string \<Rightarrow> string \<Rightarrow> string" where
  "replace_first pat rep [] = (if pat = [] then rep else [])"
| "replace_first pat rep (c # s) =
     (if take (length pat) (c # s) = pat then rep @ drop (length pat) (c # s) else c # replace_first pat rep s)"

definition guest_suffix :: string where
  "guest_suffix = ''#ext#@globalmaximallc.onmicrosoft.com''"

definition normalizeEmail :: "string \<Rightarrow> string" where
  "normalizeEmail email =
     (let result = js_lower (Bridge_Gateway.js_trim email) in
      if ends_with guest_suffix result
      then (let r1 = replace_first guest_suffix [] result in
            if ends_with ''_corepoweryoga.com'' r1 then replace_first ''_corepoweryoga.com'' ''@corepoweryoga.com'' r1 else r1)
      else result)"

section \<open>Tables\<close>

record role_row =
  rl_id :: int
  rl_name :: string
  rl_description :: "string option"

record action_row =
  ca_id :: int
  ca_code :: string
  ca_name :: string
  ca_description :: "string option"

record grant_row =
  gr_id :: int
  gr_roleId :: int
  gr_actionId :: int

record user_role_row =
  ur_id :: int
  ur_userId :: string
  ur_roleId :: int

record domain_row =
  dm_domain :: string
  dm_isActive :: bool

record access_db =
  xs_nextRole :: int
  xs_nextAction :: int
  xs_nextGrant :: int
  xs_nextUser :: int
  xs_roles :: "role_row list"
  xs_actions :: "action_row list"
  xs_grants :: "grant_row list"
  xs_users :: "user_role_row list"
  xs_domains :: "domain_row list"

section \<open>Sign-in\<close>

text \<open>\<open>[...new Set(xs)]\<close>: the first of equal elements.\<close>

definition js_unique :: "'a list \<Rightarrow> 'a list" where
  "js_unique xs = rev (remdups (rev xs))"

definition getUserRoles :: "access_db \<Rightarrow> string \<Rightarrow> int list" where
  "getUserRoles x email =
     (let normalized = normalizeEmail email in js_unique (map ur_roleId (filter (\<lambda>r. ur_userId r = normalized) (xs_users x))))"

definition getControlledActions :: "access_db \<Rightarrow> int list \<Rightarrow> string list" where
  "getControlledActions x roleIds =
     (if roleIds = [] then []
      else js_unique (concat (map (\<lambda>a. map (\<lambda>_. ca_code a) (filter (\<lambda>g. gr_actionId g = ca_id a \<and> gr_roleId g \<in> set roleIds) (xs_grants x)))
             (xs_actions x))))"

definition hasApprovedDomains :: "access_db \<Rightarrow> bool" where
  "hasApprovedDomains x = list_ex dm_isActive (xs_domains x)"

record access_check =
  ak_allowed :: bool
  ak_roles :: "int list"
  ak_actions :: "string list"
  ak_reason :: "string option"

definition checkAccess :: "access_db \<Rightarrow> string \<Rightarrow> access_check" where
  "checkAccess x email =
     (if \<not> hasApprovedDomains x then \<lparr>ak_allowed = False, ak_roles = [], ak_actions = [], ak_reason = Some ''no_approved_domains''\<rparr>
      else let roles = getUserRoles x email in
        if roles = [] then \<lparr>ak_allowed = False, ak_roles = [], ak_actions = [], ak_reason = Some ''no_roles''\<rparr>
        else let actions = getControlledActions x roles in
          if actions = [] then \<lparr>ak_allowed = False, ak_roles = roles, ak_actions = [], ak_reason = Some ''no_permissions''\<rparr>
          else \<lparr>ak_allowed = True, ak_roles = roles, ak_actions = actions, ak_reason = None\<rparr>)"

text \<open>The user the identity provider names; an empty text counts as none.\<close>

record ms_user =
  ms_id :: string
  ms_mail :: "string option"
  ms_userPrincipalName :: "string option"
  ms_email :: "string option"
  ms_displayName :: "string option"
  ms_givenName :: "string option"
  ms_surname :: "string option"

definition or_else :: "string option \<Rightarrow> string option \<Rightarrow> string option" where
  "or_else a b = (case a of None \<Rightarrow> b | Some s \<Rightarrow> if s = [] then b else a)"

definition text_or :: "string \<Rightarrow> string option \<Rightarrow> string" where
  "text_or dflt a = (case a of None \<Rightarrow> dflt | Some s \<Rightarrow> if s = [] then dflt else s)"

definition getFrontendUrl :: "string option \<Rightarrow> string \<Rightarrow> string" where
  "getFrontendUrl frontendUrl environment =
     text_or (if environment = ''development'' then ''http://localhost:5175'' else ''https://harmonia.andrei-kokoev.workers.dev'') frontendUrl"

text \<open>
  What the callback reads: the query and the cookie, the two entries of the key-value store for a state, the exchange of the code and the profile
  with its exception, whether the session can be sealed, and \<open>encodeURIComponent\<close>.
\<close>

record sign_in_env =
  si_frontend :: string
  si_code :: "string option"
  si_state :: "string option"
  si_savedState :: "string option"
  si_verifier :: "string \<Rightarrow> string option"
  si_return :: "string \<Rightarrow> string option"
  si_profile :: "string \<Rightarrow> string \<Rightarrow> string + ms_user"
  si_seal_error :: "string option"
  si_encode :: "string \<Rightarrow> string"

definition filled_text :: "string option \<Rightarrow> bool" where
  "filled_text v \<longleftrightarrow> v \<noteq> None \<and> v \<noteq> Some []"

definition ms_session :: "ms_user \<Rightarrow> string \<Rightarrow> access_check \<Rightarrow> session_user" where
  "ms_session m email access =
     \<lparr>su_id = ms_id m, su_email = email,
      su_name = text_or (Bridge_Gateway.js_trim (text_or [] (ms_givenName m) @ '' '' @ text_or [] (ms_surname m))) (ms_displayName m),
      su_roles = ak_roles access, su_actions = ak_actions access\<rparr>"

text \<open>The redirect, the session it sets, and the tables of the application with the personal workspace.\<close>

definition handleMicrosoftCallback :: "app_env \<Rightarrow> sign_in_env \<Rightarrow> access_db \<Rightarrow> app_db \<Rightarrow> string \<times> session_user option \<times> app_db" where
  "handleMicrosoftCallback E S x d =
     (let refuse = (\<lambda>why. (si_frontend S @ ''/sign-in?error='' @ why, None, d)) in
      if \<not> filled_text (si_code S) \<or> \<not> filled_text (si_state S) \<or> si_state S \<noteq> si_savedState S then refuse ''invalid_state''
      else if \<not> filled_text (si_verifier S (the (si_state S))) then refuse ''code_expired''
      else let returnTo = text_or ''/'' (si_return S (the (si_state S))) in
        case si_profile S (the (si_code S)) (the (si_verifier S (the (si_state S)))) of
          Inl message \<Rightarrow> refuse (''oauth_failed&details='' @ si_encode S message)
        | Inr m \<Rightarrow>
            (let rawEmail = or_else (ms_mail m) (or_else (ms_userPrincipalName m) (ms_email m)) in
             if \<not> filled_text rawEmail then refuse ''no_email''
             else let email = normalizeEmail (the rawEmail); access = checkAccess x email in
               if \<not> ak_allowed access then refuse (text_or [] (ak_reason access))
               else case si_seal_error S of
                   Some message \<Rightarrow> refuse (''oauth_failed&details='' @ si_encode S message)
                 | None \<Rightarrow> (si_frontend S @ returnTo, Some (ms_session m email access), out_state (ensurePersonalWorkspace (ae_now E) email d))))"

definition dev_user :: session_user where
  "dev_user = \<lparr>su_id = ''dev-user-001'', su_email = ''dev@localhost'', su_name = ''Development User'', su_roles = [1],
     su_actions = [''view_debug_output'', ''manage_access_control'', ''manage_roles'', ''manage_controlled_actions'', ''manage_external_users'']\<rparr>"

text \<open>The session of the development login, and its refusal elsewhere.\<close>

definition dev_login :: "string \<Rightarrow> response + session_user" where
  "dev_login environment =
     (if environment \<noteq> ''development'' then Inl (answer 403 [(''error'', JStr ''Dev login only available in development mode'')])
      else Inr dev_user)"

text \<open>The two routes of \<open>auth/routes.ts\<close> that set a session, and the session they set.\<close>

datatype sign_in_request = Callback sign_in_env | Dev_login string

fun sign_in :: "app_env \<Rightarrow> access_db \<Rightarrow> app_db \<Rightarrow> sign_in_request \<Rightarrow> session_user option" where
  "sign_in E x d (Callback S) = (let (url, user, d') = handleMicrosoftCallback E S x d in user)"
| "sign_in E x d (Dev_login environment) = (case dev_login environment of Inl _ \<Rightarrow> None | Inr user \<Rightarrow> Some user)"

section \<open>Middleware\<close>

datatype admission = Refused response | Admitted auth_context

text \<open>\<open>replace(/^Bearer\s+/i, "")\<close>\<close>

definition strip_bearer :: "string \<Rightarrow> string" where
  "strip_bearer h =
     (let r = drop 6 h in if js_lower (take 6 h) = ''bearer'' \<and> r \<noteq> [] \<and> js_space (hd r) then dropWhile js_space r else h)"

definition json_unauthorized :: response where
  "json_unauthorized = answer 401 [(''error'', JStr ''Unauthorized'')]"

definition authMiddleware :: "(string \<Rightarrow> session_user option option) \<Rightarrow> string option \<Rightarrow> string option \<Rightarrow> string option \<Rightarrow> admission" where
  "authMiddleware unseal service_token header cookie =
     (let token = map_option strip_bearer header in
      if filled_text token \<and> token = service_token then Admitted Service_auth
      else if \<not> filled_text cookie then Refused json_unauthorized
      else case unseal (the cookie) of
          None \<Rightarrow> Refused json_unauthorized
        | Some user \<Rightarrow> Admitted (User_auth user))"

definition requireAuth :: "auth_context option \<Rightarrow> response option" where
  "requireAuth auth = (case auth of None \<Rightarrow> Some json_unauthorized | Some _ \<Rightarrow> None)"

definition requirePermission :: "string \<Rightarrow> auth_context option \<Rightarrow> response option" where
  "requirePermission action auth =
     (case auth of
        Some Service_auth \<Rightarrow> None
      | Some (User_auth (Some u)) \<Rightarrow>
          (if action \<in> set (su_actions u) then None
           else Some (answer 403 [(''error'', JStr ''Forbidden''), (''required'', JStr action)]))
      | _ \<Rightarrow> Some json_unauthorized)"

section \<open>Answers of the access-control routes\<close>

definition success_answer :: "nat \<Rightarrow> json \<Rightarrow> response" where
  "success_answer status data = answer status [(''ok'', JBool True), (''data'', data)]"

definition api_error :: "nat \<Rightarrow> string \<Rightarrow> string \<Rightarrow> response" where
  "api_error status code message =
     answer status [(''ok'', JBool False), (''error'', JObj [(''code'', JStr code), (''message'', JStr message)])]"

text \<open>
  A failed schema is answered by the handler (the details are left out); any other exception by the application, whose answer also has the id of
  the request and the time.
\<close>

definition settle_access :: "app_env \<Rightarrow> (access_db, response) out \<Rightarrow> response \<times> access_db" where
  "settle_access E r =
     (case r of
        Done a x \<Rightarrow> (a, x)
      | Fail e x \<Rightarrow>
          (if e = Zod_invalid then (api_error 400 ''VALIDATION_ERROR'' ''Invalid request body'', x)
           else (answer 500 [(''error'', JObj [(''message'', JStr (err_message E e))])], x)))"

definition deleted_json :: json where
  "deleted_json = JObj [(''deleted'', JBool True)]"

section \<open>Roles\<close>

definition role_json :: "role_row \<Rightarrow> json" where
  "role_json r = JObj [(''id'', json_int (rl_id r)), (''name'', JStr (rl_name r)), (''description'', json_opt (rl_description r))]"

definition PROTECTED_ROLE_IDS :: "int list" where
  "PROTECTED_ROLE_IDS = [1, 2, 3]"

definition isProtectedRole :: "int \<Rightarrow> bool" where
  "isProtectedRole roleId \<longleftrightarrow> roleId \<in> set PROTECTED_ROLE_IDS"

definition listRoles :: "access_db \<Rightarrow> response \<times> access_db" where
  "listRoles x = (success_answer 200 (JArr (map role_json (xs_roles x))), x)"

definition roleSchema :: "json \<Rightarrow> (string \<times> string option) option" where
  "roleSchema j = do {
     ob \<leftarrow> z_record j;
     n \<leftarrow> z_field ob ''name'' z_string1;
     t \<leftarrow> z_optional ob ''description'' z_string;
     Some (n, t) }"

definition createRole :: "app_env \<Rightarrow> json option \<Rightarrow> access_db \<Rightarrow> response \<times> access_db" where
  "createRole E body x =
     settle_access E (and_then (read_body E body x) (\<lambda>j x1. and_then (parse_as roleSchema j x1) (\<lambda>(name, description) x2.
       let role = \<lparr>rl_id = xs_nextRole x2, rl_name = name, rl_description = description\<rparr>
       in Done (success_answer 201 (role_json role)) (x2\<lparr>xs_nextRole := xs_nextRole x2 + 1, xs_roles := xs_roles x2 @ [role]\<rparr>))))"

definition rolePatchSchema :: "json \<Rightarrow> (string option \<times> string option) option" where
  "rolePatchSchema j = do {
     ob \<leftarrow> z_record j;
     n \<leftarrow> z_optional ob ''name'' (z_text 1 50);
     t \<leftarrow> z_optional ob ''description'' (z_text 0 256);
     Some (n, t) }"

definition set_role :: "string option \<Rightarrow> string option \<Rightarrow> role_row \<Rightarrow> role_row" where
  "set_role n t r = r\<lparr>rl_name := (case n of None \<Rightarrow> rl_name r | Some s \<Rightarrow> s),
     rl_description := (case t of None \<Rightarrow> rl_description r | Some s \<Rightarrow> Some s)\<rparr>"

definition updateRole :: "app_env \<Rightarrow> string \<Rightarrow> json option \<Rightarrow> access_db \<Rightarrow> response \<times> access_db" where
  "updateRole E param body x =
     (case js_parseInt param of
        None \<Rightarrow> (api_error 400 ''INVALID_ID'' ''Invalid role id'', x)
      | Some i \<Rightarrow>
          (if isProtectedRole i then (api_error 403 ''PROTECTED_ROLE'' ''Cannot modify protected system role'', x)
           else settle_access E (and_then (read_body E body x) (\<lambda>j x1. and_then (parse_as rolePatchSchema j x1) (\<lambda>(n, t) x2.
             if n = None \<and> t = None then Done (api_error 400 ''VALIDATION_ERROR'' ''At least one field must be provided'') x2
             else case find (\<lambda>r. rl_id r = i) (xs_roles x2) of
                 None \<Rightarrow> Done (api_error 404 ''NOT_FOUND'' ''Role not found'') x2
               | Some r \<Rightarrow> Done (success_answer 200 (role_json (set_role n t r)))
                             (x2\<lparr>xs_roles := map (\<lambda>r. if rl_id r = i then set_role n t r else r) (xs_roles x2)\<rparr>))))))"

definition deleteRole :: "string \<Rightarrow> access_db \<Rightarrow> response \<times> access_db" where
  "deleteRole param x =
     (case js_parseInt param of
        None \<Rightarrow> (api_error 400 ''INVALID_ID'' ''Invalid role id'', x)
      | Some i \<Rightarrow>
          (if isProtectedRole i then (api_error 403 ''PROTECTED_ROLE'' ''Cannot delete protected system role'', x)
           else if i \<notin> set (map rl_id (xs_roles x)) then (api_error 404 ''NOT_FOUND'' ''Role not found'', x)
           else (success_answer 200 deleted_json, x\<lparr>xs_roles := filter (\<lambda>r. rl_id r \<noteq> i) (xs_roles x)\<rparr>)))"

section \<open>Controlled actions\<close>

definition action_json :: "action_row \<Rightarrow> json" where
  "action_json a = JObj [(''id'', json_int (ca_id a)), (''code'', JStr (ca_code a)), (''name'', JStr (ca_name a)),
     (''description'', json_opt (ca_description a))]"

definition listControlledActions :: "access_db \<Rightarrow> response \<times> access_db" where
  "listControlledActions x = (success_answer 200 (JArr (map action_json (xs_actions x))), x)"

definition actionSchema :: "json \<Rightarrow> (string \<times> string \<times> string option) option" where
  "actionSchema j = do {
     ob \<leftarrow> z_record j;
     c \<leftarrow> z_field ob ''code'' z_string1;
     n \<leftarrow> z_field ob ''name'' z_string1;
     t \<leftarrow> z_optional ob ''description'' z_string;
     Some (c, n, t) }"

definition createControlledAction :: "app_env \<Rightarrow> json option \<Rightarrow> access_db \<Rightarrow> response \<times> access_db" where
  "createControlledAction E body x =
     settle_access E (and_then (read_body E body x) (\<lambda>j x1. and_then (parse_as actionSchema j x1) (\<lambda>(code, name, description) x2.
       if code \<in> set (map ca_code (xs_actions x2)) then Fail unique_key x2
       else (let action = \<lparr>ca_id = xs_nextAction x2, ca_code = code, ca_name = name, ca_description = description\<rparr>
             in Done (success_answer 201 (action_json action))
                  (x2\<lparr>xs_nextAction := xs_nextAction x2 + 1, xs_actions := xs_actions x2 @ [action]\<rparr>)))))"

definition actionPatchSchema :: "json \<Rightarrow> (string option \<times> string option \<times> string option) option" where
  "actionPatchSchema j = do {
     ob \<leftarrow> z_record j;
     c \<leftarrow> z_optional ob ''code'' z_string1;
     n \<leftarrow> z_optional ob ''name'' z_string1;
     t \<leftarrow> z_optional ob ''description'' z_string;
     Some (c, n, t) }"

definition set_action :: "string option \<Rightarrow> string option \<Rightarrow> string option \<Rightarrow> action_row \<Rightarrow> action_row" where
  "set_action c n t a = a\<lparr>ca_code := (case c of None \<Rightarrow> ca_code a | Some s \<Rightarrow> s), ca_name := (case n of None \<Rightarrow> ca_name a | Some s \<Rightarrow> s),
     ca_description := (case t of None \<Rightarrow> ca_description a | Some s \<Rightarrow> Some s)\<rparr>"

definition updateControlledAction :: "app_env \<Rightarrow> string \<Rightarrow> json option \<Rightarrow> access_db \<Rightarrow> response \<times> access_db" where
  "updateControlledAction E param body x =
     (case js_parseInt param of
        None \<Rightarrow> (api_error 400 ''INVALID_ID'' ''Invalid controlled action id'', x)
      | Some i \<Rightarrow>
          settle_access E (and_then (read_body E body x) (\<lambda>j x1. and_then (parse_as actionPatchSchema j x1) (\<lambda>(c, n, t) x2.
            if c = None \<and> n = None \<and> t = None then Fail (no_values E) x2
            else case find (\<lambda>a. ca_id a = i) (xs_actions x2) of
                None \<Rightarrow> Done (api_error 404 ''NOT_FOUND'' ''Controlled action not found'') x2
              | Some a \<Rightarrow>
                  (if c \<noteq> None \<and> list_ex (\<lambda>b. ca_id b \<noteq> i \<and> Some (ca_code b) = c) (xs_actions x2) then Fail unique_key x2
                   else Done (success_answer 200 (action_json (set_action c n t a)))
                          (x2\<lparr>xs_actions := map (\<lambda>b. if ca_id b = i then set_action c n t b else b) (xs_actions x2)\<rparr>))))))"

definition deleteControlledAction :: "string \<Rightarrow> access_db \<Rightarrow> response \<times> access_db" where
  "deleteControlledAction param x =
     (case js_parseInt param of
        None \<Rightarrow> (api_error 400 ''INVALID_ID'' ''Invalid controlled action id'', x)
      | Some i \<Rightarrow>
          (if i \<notin> set (map ca_id (xs_actions x)) then (api_error 404 ''NOT_FOUND'' ''Controlled action not found'', x)
           else (success_answer 200 deleted_json, x\<lparr>xs_actions := filter (\<lambda>a. ca_id a \<noteq> i) (xs_actions x)\<rparr>)))"

section \<open>Mappings\<close>

fun z_id :: "json \<Rightarrow> int option" where
  "z_id (JNum m e) = (if e = 0 then Some m else None)"
| "z_id _ = None"

definition grant_json :: "grant_row \<Rightarrow> json" where
  "grant_json g = JObj [(''id'', json_int (gr_id g)), (''roleId'', json_int (gr_roleId g)), (''controlledActionId'', json_int (gr_actionId g))]"

definition listRolesRelControlledActions :: "access_db \<Rightarrow> response \<times> access_db" where
  "listRolesRelControlledActions x = (success_answer 200 (JArr (map grant_json (xs_grants x))), x)"

definition grantSchema :: "json \<Rightarrow> (int \<times> int) option" where
  "grantSchema j = do {
     ob \<leftarrow> z_record j;
     r \<leftarrow> z_field ob ''roleId'' z_id;
     a \<leftarrow> z_field ob ''controlledActionId'' z_id;
     Some (r, a) }"

definition createRoleRelControlledAction :: "app_env \<Rightarrow> json option \<Rightarrow> access_db \<Rightarrow> response \<times> access_db" where
  "createRoleRelControlledAction E body x =
     settle_access E (and_then (read_body E body x) (\<lambda>j x1. and_then (parse_as grantSchema j x1) (\<lambda>(r, a) x2.
       let mapping = \<lparr>gr_id = xs_nextGrant x2, gr_roleId = r, gr_actionId = a\<rparr>
       in Done (success_answer 201 (grant_json mapping)) (x2\<lparr>xs_nextGrant := xs_nextGrant x2 + 1, xs_grants := xs_grants x2 @ [mapping]\<rparr>))))"

definition deleteRoleRelControlledAction :: "string \<Rightarrow> access_db \<Rightarrow> response \<times> access_db" where
  "deleteRoleRelControlledAction param x =
     (case js_parseInt param of
        None \<Rightarrow> (api_error 400 ''INVALID_ID'' ''Invalid id'', x)
      | Some i \<Rightarrow>
          (if i \<notin> set (map gr_id (xs_grants x)) then (api_error 404 ''NOT_FOUND'' ''Mapping not found'', x)
           else (success_answer 200 deleted_json, x\<lparr>xs_grants := filter (\<lambda>g. gr_id g \<noteq> i) (xs_grants x)\<rparr>)))"

definition user_role_json :: "user_role_row \<Rightarrow> json" where
  "user_role_json u = JObj [(''id'', json_int (ur_id u)), (''externalUserId'', JStr (ur_userId u)), (''roleId'', json_int (ur_roleId u))]"

definition listExternalUserIdsRelRoles :: "access_db \<Rightarrow> response \<times> access_db" where
  "listExternalUserIdsRelRoles x = (success_answer 200 (JArr (map user_role_json (xs_users x))), x)"

definition userRoleSchema :: "json \<Rightarrow> (string \<times> int) option" where
  "userRoleSchema j = do {
     ob \<leftarrow> z_record j;
     u \<leftarrow> z_field ob ''externalUserId'' z_string1;
     r \<leftarrow> z_field ob ''roleId'' z_id;
     Some (u, r) }"

definition createExternalUserIdRelRole :: "app_env \<Rightarrow> json option \<Rightarrow> access_db \<Rightarrow> response \<times> access_db" where
  "createExternalUserIdRelRole E body x =
     settle_access E (and_then (read_body E body x) (\<lambda>j x1. and_then (parse_as userRoleSchema j x1) (\<lambda>(externalUserId, roleId) x2.
       let mapping = \<lparr>ur_id = xs_nextUser x2, ur_userId = externalUserId, ur_roleId = roleId\<rparr>
       in Done (success_answer 201 (user_role_json mapping)) (x2\<lparr>xs_nextUser := xs_nextUser x2 + 1, xs_users := xs_users x2 @ [mapping]\<rparr>))))"

definition deleteExternalUserIdRelRole :: "string \<Rightarrow> access_db \<Rightarrow> response \<times> access_db" where
  "deleteExternalUserIdRelRole param x =
     (case js_parseInt param of
        None \<Rightarrow> (api_error 400 ''INVALID_ID'' ''Invalid mapping id'', x)
      | Some i \<Rightarrow>
          (if i \<notin> set (map ur_id (xs_users x)) then (api_error 404 ''NOT_FOUND'' ''Mapping not found'', x)
           else (success_answer 200 deleted_json, x\<lparr>xs_users := filter (\<lambda>u. ur_id u \<noteq> i) (xs_users x)\<rparr>)))"

end
