(* ===== verification/User_Settings.thy ===== *)
theory User_Settings
  imports Server_Access
begin

text \<open>
  \<open>shared/src/schemas/user-settings.ts\<close>, \<open>server/src/utils/userSettings.ts\<close> and \<open>server/src/routes/me/settings\<close>: the settings of a user
  in a key-value store of JSON values. Version 4 of zod, which the packages use, applies the default of a field inside an optional one, so an
  update always has a theme and a display of the schedule. An hour is kept as the JSON number it was given as.
\<close>

section \<open>Settings\<close>

record provider_texts =
  pt_anthropic :: "string option"
  pt_huggingface :: "string option"
  pt_moonshot :: "string option"

record provider_flags =
  pf_anthropic :: "bool option"
  pf_huggingface :: "bool option"
  pf_moonshot :: "bool option"

record ai_settings =
  as_preferredProvider :: string
  as_apiKeys :: provider_texts
  as_apiKeysPresent :: provider_flags
  as_baseUrls :: provider_texts

record user_settings =
  us_userId :: string
  us_themeMode :: string
  us_themeId :: string
  us_ai :: ai_settings
  us_lastStudioId :: "int option"
  us_dayStart :: json
  us_dayEnd :: json

definition no_texts :: provider_texts where
  "no_texts = \<lparr>pt_anthropic = None, pt_huggingface = None, pt_moonshot = None\<rparr>"

definition no_flags :: provider_flags where
  "no_flags = \<lparr>pf_anthropic = None, pf_huggingface = None, pf_moonshot = None\<rparr>"

definition default_ai :: ai_settings where
  "default_ai = \<lparr>as_preferredProvider = ''cloudflare'', as_apiKeys = no_texts, as_apiKeysPresent = no_flags, as_baseUrls = no_texts\<rparr>"

section \<open>Schemas\<close>

definition z_texts :: "(json \<Rightarrow> string option) \<Rightarrow> json \<Rightarrow> provider_texts option" where
  "z_texts p j = do {
     ob \<leftarrow> z_record j;
     a \<leftarrow> z_optional ob ''anthropic'' p;
     h \<leftarrow> z_optional ob ''huggingface'' p;
     m \<leftarrow> z_optional ob ''moonshot'' p;
     Some \<lparr>pt_anthropic = a, pt_huggingface = h, pt_moonshot = m\<rparr> }"

definition z_flags :: "json \<Rightarrow> provider_flags option" where
  "z_flags j = do {
     ob \<leftarrow> z_record j;
     a \<leftarrow> z_optional ob ''anthropic'' z_bool;
     h \<leftarrow> z_optional ob ''huggingface'' z_bool;
     m \<leftarrow> z_optional ob ''moonshot'' z_bool;
     Some \<lparr>pf_anthropic = a, pf_huggingface = h, pf_moonshot = m\<rparr> }"

definition AiSettingsSchema :: "json \<Rightarrow> ai_settings option" where
  "AiSettingsSchema j = do {
     ob \<leftarrow> z_record j;
     p \<leftarrow> z_default ob ''preferredProvider'' ''cloudflare'' z_string1;
     k \<leftarrow> z_default ob ''apiKeys'' no_texts (z_texts z_string1);
     f \<leftarrow> z_default ob ''apiKeysPresent'' no_flags z_flags;
     b \<leftarrow> z_default ob ''baseUrls'' no_texts (z_texts z_string1);
     Some \<lparr>as_preferredProvider = p, as_apiKeys = k, as_apiKeysPresent = f, as_baseUrls = b\<rparr> }"

definition ThemeModeValues :: "string list" where
  "ThemeModeValues = [''light'', ''dark'', ''system'']"

definition z_hour :: "json \<Rightarrow> json option" where
  "z_hour j = (case z_number j of None \<Rightarrow> None | Some r \<Rightarrow> if 0 \<le> r \<and> r \<le> 23 then Some j else None)"

definition scheduleDisplay :: "json \<Rightarrow> (json \<times> json) option" where
  "scheduleDisplay j = do {
     ob \<leftarrow> z_record j;
     s \<leftarrow> z_field ob ''dayStartHour'' z_hour;
     e \<leftarrow> z_field ob ''dayEndHour'' z_hour;
     (if the (z_number s) < the (z_number e) then Some (s, e) else None) }"

definition default_schedule :: "json \<times> json" where
  "default_schedule = (JNum 5 0, JNum 23 0)"

definition UserSettingsSchemaBase :: "obj \<Rightarrow> user_settings option" where
  "UserSettingsSchemaBase ob = do {
     u \<leftarrow> z_field ob ''userId'' z_string1;
     m \<leftarrow> z_default ob ''themeMode'' ''system'' (one_of ThemeModeValues);
     t \<leftarrow> z_default ob ''themeId'' ''default'' z_string1;
     a \<leftarrow> z_default ob ''ai'' default_ai AiSettingsSchema;
     l \<leftarrow> z_optional ob ''lastStudioId'' z_positive;
     (s, e) \<leftarrow> z_default ob ''scheduleDisplay'' default_schedule scheduleDisplay;
     Some \<lparr>us_userId = u, us_themeMode = m, us_themeId = t, us_ai = a, us_lastStudioId = map_option int l, us_dayStart = s, us_dayEnd = e\<rparr> }"

text \<open>Settings of earlier versions: \<open>theme\<close> for the mode, and the provider of an \<open>ai\<close> object with its models.\<close>

definition obj_del :: "string list \<Rightarrow> obj \<Rightarrow> obj" where
  "obj_del ks ob = filter (\<lambda>(k, _). k \<notin> set ks) ob"

definition older_theme :: "obj \<Rightarrow> obj" where
  "older_theme data =
     (case (obj_get data ''theme'', obj_get data ''themeMode'') of
        (Some (JStr s), None) \<Rightarrow> obj_del [''theme''] (obj_put ''themeMode'' (JStr s) data)
      | _ \<Rightarrow> data)"

definition older_ai :: "obj \<Rightarrow> obj" where
  "older_ai data =
     (case obj_get data ''ai'' of
        Some (JObj ai) \<Rightarrow>
          (let named = (case (obj_get ai ''preferredProvider'', obj_get ai ''provider'') of
                 (None, Some (JStr s)) \<Rightarrow> obj_put ''preferredProvider'' (JStr s) ai
               | _ \<Rightarrow> ai)
           in obj_put ''ai'' (JObj (obj_del [''provider'', ''modelId'', ''modeId'', ''models''] named)) data)
      | _ \<Rightarrow> data)"

definition themed :: "obj \<Rightarrow> obj" where
  "themed data = (if obj_get data ''themeId'' = None then obj_put ''themeId'' (JStr ''default'') data else data)"

definition UserSettingsSchema :: "json \<Rightarrow> user_settings option" where
  "UserSettingsSchema j = (case j of JObj ps \<Rightarrow> UserSettingsSchemaBase (themed (older_ai (older_theme ps))) | _ \<Rightarrow> None)"

record ai_patch =
  ap_preferredProvider :: "string option"
  ap_apiKeys :: "provider_texts option"
  ap_baseUrls :: "provider_texts option"

record settings_patch =
  sp_themeMode :: string
  sp_themeId :: string
  sp_ai :: "ai_patch option"
  sp_lastStudioId :: "int option"
  sp_schedule :: "json \<times> json"

definition AiSettingsUpdateSchema :: "json \<Rightarrow> ai_patch option" where
  "AiSettingsUpdateSchema j = do {
     ob \<leftarrow> z_record j;
     p \<leftarrow> z_optional ob ''preferredProvider'' z_string1;
     k \<leftarrow> z_optional ob ''apiKeys'' (z_texts z_string);
     b \<leftarrow> z_optional ob ''baseUrls'' (z_texts z_string);
     Some \<lparr>ap_preferredProvider = p, ap_apiKeys = k, ap_baseUrls = b\<rparr> }"

definition UserSettingsUpdateSchema :: "json \<Rightarrow> settings_patch option" where
  "UserSettingsUpdateSchema j = do {
     ob \<leftarrow> z_record j;
     m \<leftarrow> z_default ob ''themeMode'' ''system'' (one_of ThemeModeValues);
     t \<leftarrow> z_default ob ''themeId'' ''default'' z_string1;
     a \<leftarrow> z_optional ob ''ai'' AiSettingsUpdateSchema;
     l \<leftarrow> z_optional ob ''lastStudioId'' z_positive;
     s \<leftarrow> z_default ob ''scheduleDisplay'' default_schedule scheduleDisplay;
     Some \<lparr>sp_themeMode = m, sp_themeId = t, sp_ai = a, sp_lastStudioId = map_option int l, sp_schedule = s\<rparr> }"

definition getDefaultUserSettings :: "string \<Rightarrow> user_settings option" where
  "getDefaultUserSettings userId = UserSettingsSchema (JObj [(''userId'', JStr userId)])"

definition getKvPathForUserSettings :: "string \<Rightarrow> string option" where
  "getKvPathForUserSettings userId = (if userId = [] then None else Some (''user:settings:'' @ userId))"

section \<open>Printing\<close>

definition opt_field :: "string \<Rightarrow> ('a \<Rightarrow> json) \<Rightarrow> 'a option \<Rightarrow> obj" where
  "opt_field k f x = (case x of None \<Rightarrow> [] | Some v \<Rightarrow> [(k, f v)])"

definition texts_json :: "provider_texts \<Rightarrow> json" where
  "texts_json x = JObj (opt_field ''anthropic'' JStr (pt_anthropic x) @ opt_field ''huggingface'' JStr (pt_huggingface x)
     @ opt_field ''moonshot'' JStr (pt_moonshot x))"

definition flags_json :: "provider_flags \<Rightarrow> json" where
  "flags_json x = JObj (opt_field ''anthropic'' JBool (pf_anthropic x) @ opt_field ''huggingface'' JBool (pf_huggingface x)
     @ opt_field ''moonshot'' JBool (pf_moonshot x))"

definition ai_json :: "ai_settings \<Rightarrow> json" where
  "ai_json a = JObj [(''preferredProvider'', JStr (as_preferredProvider a)), (''apiKeys'', texts_json (as_apiKeys a)),
     (''apiKeysPresent'', flags_json (as_apiKeysPresent a)), (''baseUrls'', texts_json (as_baseUrls a))]"

definition settings_with :: "json \<Rightarrow> user_settings \<Rightarrow> json" where
  "settings_with ai s = JObj ([(''userId'', JStr (us_userId s)), (''themeMode'', JStr (us_themeMode s)), (''themeId'', JStr (us_themeId s)),
     (''ai'', ai)] @ opt_field ''lastStudioId'' json_int (us_lastStudioId s) @
     [(''scheduleDisplay'', JObj [(''dayStartHour'', us_dayStart s), (''dayEndHour'', us_dayEnd s)])])"

definition settings_json :: "user_settings \<Rightarrow> json" where
  "settings_json s = settings_with (ai_json (us_ai s)) s"

section \<open>Merging\<close>

definition present :: "string option \<Rightarrow> bool" where
  "present v \<longleftrightarrow> v \<noteq> None \<and> v \<noteq> Some []"

definition stripAiSecrets :: "user_settings \<Rightarrow> user_settings" where
  "stripAiSecrets s =
     (let k = as_apiKeys (us_ai s) in
      s\<lparr>us_ai := (us_ai s)\<lparr>as_apiKeys := no_texts,
          as_apiKeysPresent := \<lparr>pf_anthropic = Some (present (pt_anthropic k)), pf_huggingface = Some (present (pt_huggingface k)),
             pf_moonshot = Some (present (pt_moonshot k))\<rparr>\<rparr>\<rparr>)"

text \<open>One key of \<open>mergeStringMap\<close>: an empty text deletes it, an absent one keeps it.\<close>

definition merge_text :: "string option \<Rightarrow> string option \<Rightarrow> string option" where
  "merge_text current patch = (case patch of None \<Rightarrow> current | Some v \<Rightarrow> if v = [] then None else Some v)"

definition mergeStringMap :: "provider_texts \<Rightarrow> provider_texts option \<Rightarrow> provider_texts" where
  "mergeStringMap current patch =
     (case patch of
        None \<Rightarrow> current
      | Some p \<Rightarrow> \<lparr>pt_anthropic = merge_text (pt_anthropic current) (pt_anthropic p),
          pt_huggingface = merge_text (pt_huggingface current) (pt_huggingface p),
          pt_moonshot = merge_text (pt_moonshot current) (pt_moonshot p)\<rparr>)"

definition merged_ai_json :: "ai_settings \<Rightarrow> ai_patch option \<Rightarrow> json" where
  "merged_ai_json current patch =
     (case patch of
        None \<Rightarrow> ai_json current
      | Some p \<Rightarrow> JObj [
          (''preferredProvider'', JStr (case ap_preferredProvider p of None \<Rightarrow> as_preferredProvider current | Some x \<Rightarrow> x)),
          (''apiKeys'', texts_json (mergeStringMap (as_apiKeys current) (ap_apiKeys p))),
          (''baseUrls'', texts_json (mergeStringMap (as_baseUrls current) (ap_baseUrls p)))])"

definition mergeUserSettings :: "user_settings \<Rightarrow> settings_patch \<Rightarrow> user_settings option" where
  "mergeUserSettings current patch =
     (let base = current\<lparr>us_themeMode := sp_themeMode patch, us_themeId := sp_themeId patch,
        us_lastStudioId := (case sp_lastStudioId patch of None \<Rightarrow> us_lastStudioId current | Some i \<Rightarrow> Some i),
        us_dayStart := fst (sp_schedule patch), us_dayEnd := snd (sp_schedule patch)\<rparr>
      in UserSettingsSchema (settings_with (merged_ai_json (us_ai current) (sp_ai patch)) base))"

section \<open>The store\<close>

type_synonym settings_store = "string \<Rightarrow> json option"

definition settings_email :: "auth_context \<Rightarrow> err + string" where
  "settings_email auth =
     (case auth of
        User_auth (Some u) \<Rightarrow> if su_email u = [] then Inl Workspace_Access.unauthorized else Inr (js_lower (Bridge_Gateway.js_trim (su_email u)))
      | _ \<Rightarrow> Inl Workspace_Access.unauthorized)"

definition no_key :: err where
  "no_key = Error_msg ''Key for user settings is not available''"

text \<open>An address of blanks has no key. The default settings of a user are always valid.\<close>

definition loadUserSettings :: "bool \<Rightarrow> auth_context \<Rightarrow> settings_store \<Rightarrow> err + user_settings" where
  "loadUserSettings includeSecrets auth kv =
     (case settings_email auth of
        Inl e \<Rightarrow> Inl e
      | Inr email \<Rightarrow>
          (case getKvPathForUserSettings email of
             None \<Rightarrow> Inl no_key
           | Some key \<Rightarrow>
               (case getDefaultUserSettings email of
                  None \<Rightarrow> Inl Zod_invalid
                | Some fallback \<Rightarrow>
                    (let resolved = (case kv key of
                           None \<Rightarrow> fallback
                         | Some stored \<Rightarrow> (case UserSettingsSchema stored of None \<Rightarrow> fallback | Some s \<Rightarrow> s))
                     in Inr (if includeSecrets then resolved else stripAiSecrets resolved)))))"

definition saveUserSettings :: "auth_context \<Rightarrow> user_settings \<Rightarrow> settings_store \<Rightarrow> (settings_store, unit) out" where
  "saveUserSettings auth s kv =
     (case settings_email auth of
        Inl e \<Rightarrow> Fail e kv
      | Inr email \<Rightarrow>
          (case getKvPathForUserSettings email of
             None \<Rightarrow> Fail no_key kv
           | Some key \<Rightarrow> Done () (kv(key \<mapsto> settings_json s))))"

section \<open>Routes\<close>

definition error_only :: "nat \<Rightarrow> string \<Rightarrow> response" where
  "error_only status text' = answer status [(''error'', JStr text')]"

definition getSettings :: "auth_context \<Rightarrow> settings_store \<Rightarrow> response" where
  "getSettings auth kv =
     (if auth_user auth = None then error_only 401 ''Unauthorized''
      else case loadUserSettings False auth kv of
          Inl _ \<Rightarrow> error_only 500 ''Failed to load user settings''
        | Inr s \<Rightarrow> \<lparr>rs_status = 200, rs_body = settings_json s, rs_location = None\<rparr>)"

definition saved_answer :: "user_settings \<Rightarrow> response" where
  "saved_answer s = answer 200 [(''success'', JBool True), (''settings'', settings_json (stripAiSecrets s))]"

text \<open>The details of a failed schema are left out. An exception of the first handler is answered by the application.\<close>

definition patchSettings :: "app_env \<Rightarrow> auth_context \<Rightarrow> json option \<Rightarrow> settings_store \<Rightarrow> response \<times> settings_store" where
  "patchSettings E auth body kv =
     (let failed = (\<lambda>e. (answer 500 [(''error'', JObj [(''message'', JStr (err_message E e))])], kv)) in
      if auth_user auth = None then (error_only 401 ''Unauthorized'', kv)
      else case loadUserSettings True auth kv of
          Inl e \<Rightarrow> failed e
        | Inr current \<Rightarrow>
            (case body of
               None \<Rightarrow> failed (Error_msg (ae_syntax E))
             | Some j \<Rightarrow>
                 (case UserSettingsUpdateSchema j of
                    None \<Rightarrow> (error_only 400 ''Invalid settings update'', kv)
                  | Some patch \<Rightarrow>
                      (case mergeUserSettings current patch of
                         None \<Rightarrow> failed Zod_invalid
                       | Some s \<Rightarrow>
                           (case saveUserSettings auth s kv of
                              Fail e _ \<Rightarrow> failed e
                            | Done _ kv' \<Rightarrow> (saved_answer s, kv'))))))"

definition putSettings :: "auth_context \<Rightarrow> json option \<Rightarrow> settings_store \<Rightarrow> response \<times> settings_store" where
  "putSettings auth body kv =
     (let failed = (error_only 500 ''Failed to save user settings'', kv) in
      if auth_user auth = None then (error_only 401 ''Unauthorized'', kv)
      else case body of
          None \<Rightarrow> failed
        | Some j \<Rightarrow>
            (case UserSettingsUpdateSchema j of
               None \<Rightarrow> (error_only 400 ''Invalid settings update'', kv)
             | Some patch \<Rightarrow>
                 (case loadUserSettings True auth kv of
                    Inl _ \<Rightarrow> failed
                  | Inr current \<Rightarrow>
                      (case mergeUserSettings current patch of
                         None \<Rightarrow> failed
                       | Some s \<Rightarrow>
                           (case saveUserSettings auth s kv of
                              Fail _ _ \<Rightarrow> failed
                            | Done _ kv' \<Rightarrow> (saved_answer s, kv'))))))"

section \<open>Valid settings\<close>

definition texts_ok :: "provider_texts \<Rightarrow> bool" where
  "texts_ok x \<longleftrightarrow> pt_anthropic x \<noteq> Some [] \<and> pt_huggingface x \<noteq> Some [] \<and> pt_moonshot x \<noteq> Some []"

definition settings_ok :: "user_settings \<Rightarrow> bool" where
  "settings_ok s \<longleftrightarrow> us_userId s \<noteq> [] \<and> us_themeMode s \<in> set ThemeModeValues \<and> us_themeId s \<noteq> []
     \<and> as_preferredProvider (us_ai s) \<noteq> [] \<and> texts_ok (as_apiKeys (us_ai s)) \<and> texts_ok (as_baseUrls (us_ai s))
     \<and> (case us_lastStudioId s of None \<Rightarrow> True | Some i \<Rightarrow> 0 < i \<and> i \<le> max_safe)
     \<and> z_hour (us_dayStart s) = Some (us_dayStart s) \<and> z_hour (us_dayEnd s) = Some (us_dayEnd s)
     \<and> the (z_number (us_dayStart s)) < the (z_number (us_dayEnd s))"

lemma z_texts_ok: "z_texts z_string1 j = Some x \<Longrightarrow> texts_ok x"
  by (auto simp: z_texts_def texts_ok_def z_optional_def z_string1_Some Option.bind_eq_Some_conv split: option.splits)

lemma AiSettingsSchema_ok: "AiSettingsSchema j = Some a \<Longrightarrow> as_preferredProvider a \<noteq> [] \<and> texts_ok (as_apiKeys a) \<and> texts_ok (as_baseUrls a)"
  by (auto simp: AiSettingsSchema_def z_default_def z_string1_Some Option.bind_eq_Some_conv texts_ok_def no_texts_def
      dest!: z_texts_ok split: option.splits)

lemma z_positive_Some: "z_positive j = Some n \<Longrightarrow> 0 < n \<and> int n \<le> max_safe"
  by (cases j) (auto simp: z_positive_def split: if_splits)

lemma one_of_Some: "one_of vs j = Some s \<longleftrightarrow> j = JStr s \<and> s \<in> set vs"
  by (cases j) (auto simp: one_of_def)

lemma z_hour_Some: "z_hour j = Some h \<Longrightarrow> h = j"
  by (auto simp: z_hour_def split: option.splits if_splits)

lemma scheduleDisplay_ok:
  "scheduleDisplay j = Some (s, e) \<Longrightarrow> z_hour s = Some s \<and> z_hour e = Some e \<and> the (z_number s) < the (z_number e)"
  by (auto simp: scheduleDisplay_def z_field_def Option.bind_eq_Some_conv split: if_splits dest: z_hour_Some)

lemma default_hours_ok: "z_hour (JNum 5 0) = Some (JNum 5 0)" "z_hour (JNum 23 0) = Some (JNum 23 0)"
  by (simp_all add: z_hour_def)

lemma schedule_field_ok:
  "z_default ob k default_schedule scheduleDisplay = Some (s, e)
   \<Longrightarrow> z_hour s = Some s \<and> z_hour e = Some e \<and> the (z_number s) < the (z_number e)"
  by (auto simp: z_default_def default_schedule_def default_hours_ok dest: scheduleDisplay_ok split: option.splits)

lemma default_ai_ok: "as_preferredProvider default_ai \<noteq> [] \<and> texts_ok (as_apiKeys default_ai) \<and> texts_ok (as_baseUrls default_ai)"
  by (simp add: default_ai_def no_texts_def texts_ok_def)

lemma ai_field_ok:
  "z_default ob k default_ai AiSettingsSchema = Some a \<Longrightarrow> as_preferredProvider a \<noteq> [] \<and> texts_ok (as_apiKeys a) \<and> texts_ok (as_baseUrls a)"
  using default_ai_ok AiSettingsSchema_ok by (auto simp: z_default_def split: option.splits)

lemma studio_field_ok:
  "z_optional ob k z_positive = Some l \<Longrightarrow> (case map_option int l of None \<Rightarrow> True | Some i \<Rightarrow> 0 < i \<and> i \<le> max_safe)"
  by (auto simp: z_optional_def dest: z_positive_Some split: option.splits)

lemma base_ok: "UserSettingsSchemaBase ob = Some s \<Longrightarrow> settings_ok s"
  by (auto simp: UserSettingsSchemaBase_def Option.bind_eq_Some_conv settings_ok_def z_string1_Some z_field_def one_of_Some ThemeModeValues_def
      dest: ai_field_ok schedule_field_ok split: prod.splits)
    (auto simp: z_default_def z_string1_Some one_of_Some z_optional_def dest: z_positive_Some split: option.splits)

lemma schema_ok: "UserSettingsSchema j = Some s \<Longrightarrow> settings_ok s"
  by (auto simp: UserSettingsSchema_def base_ok split: json.splits)

section \<open>Round trip\<close>

lemma obj_get_opt_field [simp]:
  "obj_get (opt_field k f x @ ob) k' = (if k = k' \<and> x \<noteq> None then Some (f (the x)) else obj_get ob k')"
  by (simp add: opt_field_def obj_get_def split: option.splits)

lemma obj_get_opt_field_last [simp]: "obj_get (opt_field k f x) k' = (if k = k' \<and> x \<noteq> None then Some (f (the x)) else None)"
  by (simp add: opt_field_def obj_get_def split: option.splits)

lemma obj_get_Cons [simp]: "obj_get ((k, v) # ob) k' = (if k = k' then Some v else obj_get ob k')"
  by (simp add: obj_get_def)

lemma obj_get_Nil [simp]: "obj_get [] k = None"
  by (simp add: obj_get_def)

lemma texts_round_trip: "texts_ok x \<Longrightarrow> z_texts z_string1 (texts_json x) = Some x"
  by (cases x; cases "pt_anthropic x"; cases "pt_huggingface x"; cases "pt_moonshot x")
    (simp_all add: z_texts_def texts_json_def z_optional_def texts_ok_def)

lemma flags_round_trip: "z_flags (flags_json x) = Some x"
  by (cases x) (auto simp: z_flags_def flags_json_def z_optional_def)

lemma ai_round_trip:
  assumes "as_preferredProvider a \<noteq> []" "texts_ok (as_apiKeys a)" "texts_ok (as_baseUrls a)"
  shows "AiSettingsSchema (ai_json a) = Some a"
  using assms by (cases a) (simp add: AiSettingsSchema_def ai_json_def z_default_def texts_round_trip flags_round_trip)

text \<open>Settings whose \<open>ai\<close> is printed in any form that has no older property.\<close>

lemma settings_with_parses:
  assumes "settings_ok s" "AiSettingsSchema (JObj ai) = Some a" "obj_get ai ''preferredProvider'' \<noteq> None"
    "obj_del [''provider'', ''modelId'', ''modeId'', ''models''] ai = ai"
  shows "UserSettingsSchema (settings_with (JObj ai) s) = Some (s\<lparr>us_ai := a\<rparr>)"
proof -
  let ?tail = "opt_field ''lastStudioId'' json_int (us_lastStudioId s) @
     [(''scheduleDisplay'', JObj [(''dayStartHour'', us_dayStart s), (''dayEndHour'', us_dayEnd s)])]"
  let ?ob = "[(''userId'', JStr (us_userId s)), (''themeMode'', JStr (us_themeMode s)), (''themeId'', JStr (us_themeId s)),
     (''ai'', JObj ai)] @ ?tail"
  have "older_theme ?ob = ?ob" by (simp add: older_theme_def)
  moreover have "older_ai ?ob = ?ob" using assms(3,4) by (auto simp: older_ai_def split: option.splits json.splits)
  moreover have "themed ?ob = ?ob" by (simp add: themed_def)
  moreover have "scheduleDisplay (JObj [(''dayStartHour'', us_dayStart s), (''dayEndHour'', us_dayEnd s)]) = Some (us_dayStart s, us_dayEnd s)"
    using assms(1) by (simp add: scheduleDisplay_def z_field_def settings_ok_def)
  moreover have "z_optional ?ob ''lastStudioId'' z_positive = Some (map_option nat (us_lastStudioId s))"
    using assms(1) by (auto simp: z_optional_def json_int_def z_positive_def settings_ok_def split: option.splits)
  moreover have "map_option (int \<circ> nat) (us_lastStudioId s) = us_lastStudioId s"
    using assms(1) by (auto simp: settings_ok_def split: option.splits)
  ultimately show ?thesis
    using assms(1,2) by (simp add: UserSettingsSchema_def settings_with_def UserSettingsSchemaBase_def z_field_def z_default_def
        settings_ok_def one_of_def option.map_comp)
qed

lemma same_ai: "s\<lparr>us_ai := us_ai s\<rparr> = (s :: user_settings)"
  by (cases s) simp

lemma settings_round_trip:
  assumes "settings_ok s"
  shows "UserSettingsSchema (settings_json s) = Some s"
proof -
  have "AiSettingsSchema (ai_json (us_ai s)) = Some (us_ai s)" using assms by (intro ai_round_trip) (simp_all add: settings_ok_def)
  then have "UserSettingsSchema (settings_json s) = Some (s\<lparr>us_ai := us_ai s\<rparr>)"
    using assms unfolding settings_json_def ai_json_def by (rule_tac settings_with_parses) (simp_all add: obj_del_def)
  then show ?thesis by (simp only: same_ai)
qed

section \<open>Updates\<close>

lemma merged_texts_ok: "texts_ok x \<Longrightarrow> texts_ok (mergeStringMap x p)"
  by (auto simp: mergeStringMap_def texts_ok_def merge_text_def split: option.splits)

definition patch_ok :: "settings_patch \<Rightarrow> bool" where
  "patch_ok p \<longleftrightarrow> sp_themeMode p \<in> set ThemeModeValues \<and> sp_themeId p \<noteq> []
     \<and> (case sp_lastStudioId p of None \<Rightarrow> True | Some i \<Rightarrow> 0 < i \<and> i \<le> max_safe)
     \<and> z_hour (fst (sp_schedule p)) = Some (fst (sp_schedule p)) \<and> z_hour (snd (sp_schedule p)) = Some (snd (sp_schedule p))
     \<and> the (z_number (fst (sp_schedule p))) < the (z_number (snd (sp_schedule p)))
     \<and> (case sp_ai p of None \<Rightarrow> True | Some a \<Rightarrow> ap_preferredProvider a \<noteq> Some [])"

lemma mode_field_ok: "z_default ob k ''system'' (one_of ThemeModeValues) = Some m \<Longrightarrow> m \<in> set ThemeModeValues"
  by (auto simp: z_default_def one_of_Some ThemeModeValues_def split: option.splits)

lemma theme_field_ok: "z_default ob k ''default'' z_string1 = Some t \<Longrightarrow> t \<noteq> []"
  by (auto simp: z_default_def z_string1_Some split: option.splits)

lemma ai_patch_ok: "z_optional ob k AiSettingsUpdateSchema = Some a \<Longrightarrow> (case a of None \<Rightarrow> True | Some x \<Rightarrow> ap_preferredProvider x \<noteq> Some [])"
  by (auto simp: z_optional_def AiSettingsUpdateSchema_def Option.bind_eq_Some_conv z_string1_Some split: option.splits)

lemma update_ok:
  assumes "UserSettingsUpdateSchema j = Some p"
  shows "patch_ok p"
proof -
  obtain ob m t a l s e where f: "z_default ob ''themeMode'' ''system'' (one_of ThemeModeValues) = Some m"
    "z_default ob ''themeId'' ''default'' z_string1 = Some t" "z_optional ob ''ai'' AiSettingsUpdateSchema = Some a"
    "z_optional ob ''lastStudioId'' z_positive = Some l" "z_default ob ''scheduleDisplay'' default_schedule scheduleDisplay = Some (s, e)"
    "p = \<lparr>sp_themeMode = m, sp_themeId = t, sp_ai = a, sp_lastStudioId = map_option int l, sp_schedule = (s, e)\<rparr>"
    using assms by (auto simp: UserSettingsUpdateSchema_def Option.bind_eq_Some_conv)
  show ?thesis
    using mode_field_ok[OF f(1)] theme_field_ok[OF f(2)] ai_patch_ok[OF f(3)] studio_field_ok[OF f(4)] schedule_field_ok[OF f(5)]
    by (simp add: f(6) patch_ok_def)
qed

text \<open>What an update means for a text of a provider: an absent one is kept, an empty one deletes it, and another replaces it.\<close>

definition text_after :: "(provider_texts \<Rightarrow> string option) \<Rightarrow> provider_texts \<Rightarrow> provider_texts option \<Rightarrow> string option" where
  "text_after f old patch =
     (case Option.bind patch f of None \<Rightarrow> f old | Some v \<Rightarrow> if v = [] then None else Some v)"

definition texts_after :: "provider_texts \<Rightarrow> provider_texts option \<Rightarrow> provider_texts" where
  "texts_after old patch = \<lparr>pt_anthropic = text_after pt_anthropic old patch, pt_huggingface = text_after pt_huggingface old patch,
     pt_moonshot = text_after pt_moonshot old patch\<rparr>"

lemma merge_is_texts_after: "mergeStringMap old patch = texts_after old patch"
  by (cases old) (auto simp: mergeStringMap_def merge_text_def texts_after_def text_after_def split: option.split)

definition updated_ai :: "ai_settings \<Rightarrow> ai_patch option \<Rightarrow> ai_settings" where
  "updated_ai a patch =
     (case patch of
        None \<Rightarrow> a
      | Some p \<Rightarrow> \<lparr>as_preferredProvider = (case ap_preferredProvider p of None \<Rightarrow> as_preferredProvider a | Some x \<Rightarrow> x),
          as_apiKeys = texts_after (as_apiKeys a) (ap_apiKeys p), as_apiKeysPresent = no_flags,
          as_baseUrls = texts_after (as_baseUrls a) (ap_baseUrls p)\<rparr>)"

definition updated :: "user_settings \<Rightarrow> settings_patch \<Rightarrow> user_settings" where
  "updated s p = s\<lparr>us_themeMode := sp_themeMode p, us_themeId := sp_themeId p, us_ai := updated_ai (us_ai s) (sp_ai p),
     us_lastStudioId := (case sp_lastStudioId p of None \<Rightarrow> us_lastStudioId s | Some i \<Rightarrow> Some i),
     us_dayStart := fst (sp_schedule p), us_dayEnd := snd (sp_schedule p)\<rparr>"

text \<open>A valid update of valid settings never fails.\<close>

lemma merge_updates:
  assumes "settings_ok s" "patch_ok p"
  shows "mergeUserSettings s p = Some (updated s p)"
proof (cases "sp_ai p")
  case None
  have "settings_ok (updated s p)"
    using assms None by (auto simp: settings_ok_def patch_ok_def updated_def updated_ai_def split: option.splits)
  then show ?thesis
    using settings_round_trip[of "updated s p"] None
    by (simp add: mergeUserSettings_def merged_ai_json_def updated_def updated_ai_def settings_json_def settings_with_def Let_def)
next
  case (Some a)
  let ?base = "s\<lparr>us_themeMode := sp_themeMode p, us_themeId := sp_themeId p,
     us_lastStudioId := (case sp_lastStudioId p of None \<Rightarrow> us_lastStudioId s | Some i \<Rightarrow> Some i),
     us_dayStart := fst (sp_schedule p), us_dayEnd := snd (sp_schedule p)\<rparr>"
  have ok: "settings_ok ?base" using assms by (auto simp: settings_ok_def patch_ok_def split: option.splits)
  have t: "texts_ok (mergeStringMap (as_apiKeys (us_ai s)) (ap_apiKeys a))" "texts_ok (mergeStringMap (as_baseUrls (us_ai s)) (ap_baseUrls a))"
    using assms(1) by (simp_all add: merged_texts_ok settings_ok_def)
  have "as_preferredProvider (us_ai s) \<noteq> []" "ap_preferredProvider a \<noteq> Some []"
    using assms Some by (simp_all add: settings_ok_def patch_ok_def)
  then have "UserSettingsSchema (settings_with (merged_ai_json (us_ai s) (Some a)) ?base) = Some (?base\<lparr>us_ai := updated_ai (us_ai s) (Some a)\<rparr>)"
    unfolding merged_ai_json_def option.case
    by (intro settings_with_parses[OF ok])
      (auto simp: obj_del_def AiSettingsSchema_def z_default_def texts_round_trip[OF t(1)] texts_round_trip[OF t(2)] updated_ai_def
        merge_is_texts_after [symmetric] split: option.splits)
  then show ?thesis using Some by (simp add: mergeUserSettings_def updated_def Let_def)
qed

lemma default_settings: "u \<noteq> [] \<Longrightarrow> \<exists>s. getDefaultUserSettings u = Some s"
  by (simp add: getDefaultUserSettings_def UserSettingsSchema_def older_theme_def older_ai_def themed_def UserSettingsSchemaBase_def
      z_field_def z_default_def z_optional_def default_schedule_def)

lemma loaded_ok:
  assumes "loadUserSettings True auth kv = Inr s"
  shows "settings_ok s"
  using assms schema_ok
  by (auto simp: loadUserSettings_def Let_def getDefaultUserSettings_def split: sum.splits option.splits)

section \<open>Properties\<close>

lemma load_cases:
  assumes "settings_email auth = Inr email" "email \<noteq> []"
  obtains s where "loadUserSettings True auth kv = Inr s" "settings_ok s"
proof -
  obtain s0 where "getDefaultUserSettings email = Some s0" using default_settings assms(2) by blast
  then have "\<exists>s. loadUserSettings True auth kv = Inr s"
    using assms by (simp add: loadUserSettings_def getKvPathForUserSettings_def Let_def split: option.splits)
  then show thesis using that loaded_ok by blast
qed

lemma load_saved:
  assumes "settings_email auth = Inr email" "email \<noteq> []" "settings_ok s"
  shows "loadUserSettings True auth (kv(''user:settings:'' @ email \<mapsto> settings_json s)) = Inr s"
proof -
  obtain s0 where "getDefaultUserSettings email = Some s0" using default_settings assms(2) by blast
  then show ?thesis
    using assms by (simp add: loadUserSettings_def getKvPathForUserSettings_def settings_round_trip)
qed

lemma updated_ok:
  assumes "settings_ok s" "patch_ok p"
  shows "settings_ok (updated s p)"
  using merge_updates[OF assms] schema_ok by (auto simp: mergeUserSettings_def Let_def)

lemma email_user: "settings_email auth = Inr email \<Longrightarrow> auth_user auth \<noteq> None"
  by (auto simp: settings_email_def auth_user_def split: auth_context.splits option.splits)

lemma update_stored:
  assumes "settings_email auth = Inr email" "email \<noteq> []" "UserSettingsUpdateSchema j = Some p"
    "patchSettings E auth (Some j) kv = (r, kv')"
  shows "\<exists>s. loadUserSettings True auth kv = Inr s \<and> settings_ok (updated s p) \<and> r = saved_answer (updated s p)
    \<and> kv' = kv(''user:settings:'' @ email \<mapsto> settings_json (updated s p))"
proof -
  obtain s where s: "loadUserSettings True auth kv = Inr s" "settings_ok s" using load_cases[OF assms(1,2)] by blast
  have p: "patch_ok p" by (rule update_ok[OF assms(3)])
  have "r = saved_answer (updated s p) \<and> kv' = kv(''user:settings:'' @ email \<mapsto> settings_json (updated s p))"
    using assms s(1) merge_updates[OF s(2) p] email_user[OF assms(1)]
    by (auto simp: patchSettings_def saveUserSettings_def getKvPathForUserSettings_def Let_def)
  then show ?thesis using s(1) updated_ok[OF s(2) p] by blast
qed

text \<open>An update that does not name the theme resets it.\<close>

lemma update_resets_theme:
  assumes "settings_email auth = Inr email" "email \<noteq> []" "UserSettingsUpdateSchema (JObj ob) = Some p" "obj_get ob ''themeMode'' = None"
    "patchSettings E auth (Some (JObj ob)) kv = (r, kv')"
  shows "\<exists>s. loadUserSettings True auth kv' = Inr s \<and> us_themeMode s = ''system''"
proof -
  have "sp_themeMode p = ''system''"
    using assms(3,4) by (auto simp: UserSettingsUpdateSchema_def z_default_def Option.bind_eq_Some_conv)
  then show ?thesis using update_stored[OF assms(1-3,5)] load_saved[OF assms(1,2)] by (auto simp: updated_def)
qed

text \<open>The settings a handler answers have no key of a provider.\<close>

lemma stripped_keys: "as_apiKeys (us_ai (stripAiSecrets s)) = no_texts"
  by (simp add: stripAiSecrets_def Let_def)

lemma answered_settings_hide_keys:
  assumes "rs_status (getSettings auth kv) = 200"
  shows "\<exists>s. rs_body (getSettings auth kv) = settings_json (stripAiSecrets s)"
  using assms by (auto simp: getSettings_def error_only_def answer_def loadUserSettings_def Let_def split: if_splits sum.splits option.splits)

text \<open>Settings without the keys of the providers, in their place whether there is one.\<close>

definition without_keys :: "user_settings \<Rightarrow> user_settings" where
  "without_keys s =
     (let k = as_apiKeys (us_ai s) in
      s\<lparr>us_ai := \<lparr>as_preferredProvider = as_preferredProvider (us_ai s), as_apiKeys = no_texts,
          as_apiKeysPresent = \<lparr>pf_anthropic = Some (pt_anthropic k \<noteq> None), pf_huggingface = Some (pt_huggingface k \<noteq> None),
             pf_moonshot = Some (pt_moonshot k \<noteq> None)\<rparr>,
          as_baseUrls = as_baseUrls (us_ai s)\<rparr>\<rparr>)"

lemma strip_is_without_keys: "settings_ok s \<Longrightarrow> stripAiSecrets s = without_keys s"
  by (auto simp: stripAiSecrets_def without_keys_def Let_def settings_ok_def texts_ok_def present_def)

lemma without_keys_ok: "settings_ok s \<Longrightarrow> settings_ok (without_keys s)"
  by (simp add: settings_ok_def without_keys_def Let_def texts_ok_def no_texts_def)

text \<open>C25: 
  A valid update of a user with an address is saved: it is what the user's settings are from then on, with the keys the update does not name
  kept and those it empties deleted, and no other user's settings change. The answer is a success with the printed settings, which parse to the
  updated ones without a key of any provider: in place of the keys it says which of them are set.
\<close>

theorem valid_update_is_saved:
  assumes "settings_email auth = Inr email" "email \<noteq> []" "UserSettingsUpdateSchema j = Some p"
    "patchSettings E auth (Some j) kv = (r, kv')"
  shows "\<exists>s. loadUserSettings True auth kv = Inr s \<and> loadUserSettings True auth kv' = Inr (updated s p)
    \<and> r = answer 200 [(''success'', JBool True), (''settings'', settings_json (without_keys (updated s p)))]
    \<and> UserSettingsSchema (settings_json (without_keys (updated s p))) = Some (without_keys (updated s p))
    \<and> as_apiKeys (us_ai (without_keys (updated s p))) = \<lparr>pt_anthropic = None, pt_huggingface = None, pt_moonshot = None\<rparr>
    \<and> (\<forall>k. k \<noteq> ''user:settings:'' @ email \<longrightarrow> kv' k = kv k)"
proof -
  obtain s where s: "loadUserSettings True auth kv = Inr s" "settings_ok (updated s p)" "r = saved_answer (updated s p)"
      "kv' = kv(''user:settings:'' @ email \<mapsto> settings_json (updated s p))"
    using update_stored[OF assms] by blast
  have "as_apiKeys (us_ai (without_keys (updated s p))) = \<lparr>pt_anthropic = None, pt_huggingface = None, pt_moonshot = None\<rparr>"
    by (simp add: without_keys_def Let_def no_texts_def)
  then show ?thesis
    using s load_saved[OF assms(1,2) s(2)] settings_round_trip[OF without_keys_ok[OF s(2)]] strip_is_without_keys[OF s(2)]
    by (auto simp: saved_answer_def)
qed

definition demo_user :: auth_context where
  "demo_user = User_auth (Some \<lparr>su_id = ''1'', su_email = ''al '', su_name = ''Al'', su_roles = [2], su_actions = [''view_documents'']\<rparr>)"

definition quiet_env :: app_env where
  "quiet_env = \<lparr>ae_now = 5, ae_unique = ''UNIQUE constraint failed'', ae_foreign = ''FOREIGN KEY constraint failed'', ae_syntax = ''SyntaxError'',
     ae_no_values = ''No values to set'', ae_qualified = True, ae_fault = (\<lambda>_. None)\<rparr>"

definition demo_update :: json where
  "demo_update = JObj [(''themeMode'', JStr ''dark''), (''ai'', JObj [(''apiKeys'', JObj [(''anthropic'', JStr ''k'')])])]"

theorem valid_update_is_saved_witness:
  "\<exists>p s r kv' u. UserSettingsUpdateSchema demo_update = Some p
    \<and> patchSettings quiet_env demo_user (Some demo_update) (\<lambda>_. None) = (r, kv')
    \<and> loadUserSettings True demo_user kv' = Inr (updated s p) \<and> pt_anthropic (as_apiKeys (us_ai (updated s p))) = Some ''k''
    \<and> rs_body r = JObj [(''success'', JBool True), (''settings'', settings_json u)] \<and> pt_anthropic (as_apiKeys (us_ai u)) = None
    \<and> kv' ''x'' = None"
proof -
  have e: "settings_email demo_user = Inr ''al''"
    by (simp add: settings_email_def demo_user_def Bridge_Gateway.js_trim_def Bridge_Gateway.js_space_def js_lower_def js_lower_char_def)
  let ?p = "\<lparr>sp_themeMode = ''dark'', sp_themeId = ''default'', sp_ai = Some \<lparr>ap_preferredProvider = None,
      ap_apiKeys = Some \<lparr>pt_anthropic = Some ''k'', pt_huggingface = None, pt_moonshot = None\<rparr>, ap_baseUrls = None\<rparr>,
      sp_lastStudioId = None, sp_schedule = (JNum 5 0, JNum 23 0)\<rparr>"
  have p: "UserSettingsUpdateSchema demo_update = Some ?p"
    by (simp add: UserSettingsUpdateSchema_def demo_update_def z_default_def z_optional_def one_of_def ThemeModeValues_def AiSettingsUpdateSchema_def
        z_texts_def default_schedule_def)
  obtain r kv' where r: "patchSettings quiet_env demo_user (Some demo_update) (\<lambda>_. None) = (r, kv')"
    by (cases "patchSettings quiet_env demo_user (Some demo_update) (\<lambda>_. None)")
  obtain s where s: "loadUserSettings True demo_user kv' = Inr (updated s ?p)"
      "r = answer 200 [(''success'', JBool True), (''settings'', settings_json (without_keys (updated s ?p)))]"
      "as_apiKeys (us_ai (without_keys (updated s ?p))) = \<lparr>pt_anthropic = None, pt_huggingface = None, pt_moonshot = None\<rparr>"
      "\<forall>k. k \<noteq> ''user:settings:'' @ ''al'' \<longrightarrow> kv' k = None"
    using valid_update_is_saved[OF e _ p r] by auto
  have "kv' ''x'' = None" using s(4) by simp
  moreover have "pt_anthropic (as_apiKeys (us_ai (updated s ?p))) = Some ''k''"
    by (simp add: updated_def updated_ai_def texts_after_def text_after_def)
  moreover have "pt_anthropic (as_apiKeys (us_ai (without_keys (updated s ?p)))) = None" by (simp add: s(3))
  moreover have "rs_body r = JObj [(''success'', JBool True), (''settings'', settings_json (without_keys (updated s ?p)))]"
    by (simp add: s(2) answer_def)
  ultimately show ?thesis using s(1) p r by blast
qed

end
