(* ===== verification/Issue_Analysis.thy ===== *)
theory Issue_Analysis
  imports User_Settings
begin

text \<open>
  \<open>server/src/routes/projects/[id]/issues/analyze.post.ts\<close> with \<open>analyze/[jobId]\<close>, \<open>server/src/utils/issues/analysis.ts\<close>, \<open>httpJobs.ts\<close>, the
  choice of a responder in \<open>utils/ai/providers.ts\<close> and \<open>shared/src/schemas/ai/issues.ts\<close>: an analysis asks a language model for issues, as a job
  of a worker that is not part of this repository, and a later request stores what the model answered. The repair of malformed JSON
  (\<open>jsonrepair\<close>, \<open>JSON5\<close>), the worker and the character U+2014 of the prompt are parameters.
\<close>

section \<open>Environment and state\<close>

text \<open>
  \<open>ie_saved\<close> and \<open>ie_bucket\<close> tell whether the key-value store and the bucket accept what is written; \<open>ie_ai\<close> whether the model binding is there;
  \<open>ie_reply\<close> is the answer of the worker: ok, status and body (none when it is not JSON); \<open>ie_now_ms\<close> the clock of the key-value store.
\<close>

record analysis_env =
  ie_dash :: char
  ie_repair :: "string \<Rightarrow> json option"
  ie_ai :: bool
  ie_saved :: bool
  ie_bucket :: bool
  ie_development :: bool
  ie_reply :: "bool \<times> nat \<times> json option"
  ie_now_ms :: nat

record responder_row =
  rp_id :: int
  rp_purpose :: string
  rp_providerKey :: string
  rp_model :: string
  rp_modelType :: string
  rp_maxOutputTokens :: "int option"
  rp_settingsJson :: "string option"
  rp_sortOrder :: int

record http_job =
  hj_id :: string
  hj_projectId :: int
  hj_requestJson :: string
  hj_status :: string
  hj_responseStatus :: "int option"
  hj_responseKey :: "string option"
  hj_error :: "string option"
  hj_createdAt :: int
  hj_updatedAt :: int

record job_result =
  jr_httpStatus :: int
  jr_body :: "string option"

text \<open>The tables and stores the handlers read: responders, providers with their addresses, the configuration, settings, jobs and their results.\<close>

record analysis_data =
  nd_responders :: "responder_row list"
  nd_providers :: "(string \<times> string option) list"
  nd_config :: "string \<Rightarrow> string option"
  nd_settings :: settings_store
  nd_jobs :: "http_job list"
  nd_results :: "string \<Rightarrow> job_result option"

text \<open>What they write: the tables, the provider of a job and its mark, the lists of skipped findings, and the requests given to the worker.\<close>

text \<open>A mark in the key-value store has a value and the time at which it expires; what has expired is not found.\<close>

type_synonym kv_marks = "string \<Rightarrow> (string \<times> nat) option"

definition kv_get :: "nat \<Rightarrow> kv_marks \<Rightarrow> string \<Rightarrow> string option" where
  "kv_get now_ms marks k = (case marks k of None \<Rightarrow> None | Some (v, expires) \<Rightarrow> if now_ms < expires then Some v else None)"

text \<open>\<open>expirationTtl: 60 * 60 * 24 * 30\<close>, in milliseconds\<close>

definition mark_life :: nat where
  "mark_life = 60 * 60 * 24 * 30 * 1000"

definition kv_put :: "nat \<Rightarrow> string \<Rightarrow> string \<Rightarrow> kv_marks \<Rightarrow> kv_marks" where
  "kv_put now_ms k v marks = marks(k \<mapsto> (v, now_ms + mark_life))"

record analysis_store =
  nv_app :: app_db
  nv_provider :: kv_marks
  nv_consumed :: kv_marks
  nv_skipped :: "(string \<times> json) list"
  nv_requests :: "json list"

definition with_app :: "(app_db \<Rightarrow> (app_db, 'a) out) \<Rightarrow> analysis_store \<Rightarrow> (analysis_store, 'a) out" where
  "with_app f S = (case f (nv_app S) of Done a d \<Rightarrow> Done a (S\<lparr>nv_app := d\<rparr>) | Fail e d \<Rightarrow> Fail e (S\<lparr>nv_app := d\<rparr>))"

text \<open>The answer of the \<open>catch\<close> of both handlers: \<open>Forbidden\<close> has no status of its own.\<close>

definition settle_analysis :: "app_env \<Rightarrow> ('s, response) out \<Rightarrow> response \<times> 's" where
  "settle_analysis E r =
     (case r of
        Done a s \<Rightarrow> (a, s)
      | Fail e s \<Rightarrow>
          ((if e = Zod_invalid then fail_answer 400 ''Validation error''
            else fail_answer (if err_message E e = ''Unauthorized'' then 401 else 500) (err_message E e)), s))"

section \<open>Responders\<close>

definition parseModeSettings :: "string option \<Rightarrow> obj" where
  "parseModeSettings raw =
     (case raw of
        None \<Rightarrow> []
      | Some s \<Rightarrow>
          (if s = [] then []
           else case json_parse s of
               Some (JObj ps) \<Rightarrow> ps
             | Some (JArr xs) \<Rightarrow> zip (map nat_str [0..<length xs]) xs
             | _ \<Rightarrow> []))"

definition js_round :: "rat \<Rightarrow> int" where
  "js_round r = \<lfloor>r + 1 / 2\<rfloor>"

definition parseContextWindowTokens :: "string option \<Rightarrow> int option" where
  "parseContextWindowTokens raw =
     (case Option.bind (obj_get (parseModeSettings raw) ''contextWindowTokens'') z_number of
        None \<Rightarrow> None
      | Some v \<Rightarrow> if 0 < v then Some (js_round v) else None)"

definition normalizeModelType :: "string \<Rightarrow> string option" where
  "normalizeModelType v = (if v \<in> {''chat'', ''prompt'', ''embedding''} then Some v else None)"

record responder_selection =
  rx_providerKey :: string
  rx_modelName :: string
  rx_baseUrl :: "string option"
  rx_modeSettings :: obj
  rx_maxOutputTokens :: "int option"
  rx_modelType :: string
  rx_contextWindow :: "int option"

definition resolveResponderSelection :: "analysis_data \<Rightarrow> string \<Rightarrow> string \<Rightarrow> err + responder_selection" where
  "resolveResponderSelection N purpose providerKey =
     (case sort_key rp_sortOrder (sort_key rp_id
             (filter (\<lambda>r. rp_purpose r = purpose \<and> rp_providerKey r = providerKey) (nd_responders N))) of
        [] \<Rightarrow> Inl (Error_msg (''No AI responder configured for '' @ purpose @ '' with provider '' @ providerKey))
      | r # _ \<Rightarrow>
          Inr \<lparr>rx_providerKey = rp_providerKey r, rx_modelName = rp_model r,
            rx_baseUrl = Option.bind (map_of (nd_providers N) (rp_providerKey r)) id,
            rx_modeSettings = parseModeSettings (rp_settingsJson r), rx_maxOutputTokens = rp_maxOutputTokens r,
            rx_modelType = (case normalizeModelType (rp_modelType r) of None \<Rightarrow> ''chat'' | Some t \<Rightarrow> t),
            rx_contextWindow = parseContextWindowTokens (rp_settingsJson r)\<rparr>)"

text \<open>\<open>a || b\<close> on texts that may be absent\<close>

definition first_text :: "string option \<Rightarrow> string option \<Rightarrow> string option" where
  "first_text a b = (if present a then a else b)"

definition provider_name :: "string \<Rightarrow> string" where
  "provider_name k = (if k = ''anthropic'' then ''Anthropic'' else if k = ''huggingface'' then ''Hugging Face'' else ''Moonshot'')"

definition provider_text :: "string \<Rightarrow> provider_texts \<Rightarrow> string option" where
  "provider_text k x = (if k = ''anthropic'' then pt_anthropic x else if k = ''huggingface'' then pt_huggingface x else pt_moonshot x)"

definition config_text :: "analysis_data \<Rightarrow> string \<Rightarrow> string \<Rightarrow> string option" where
  "config_text N k what = getConfigValue (nd_config N) (''ai_'' @ k @ ''_'' @ what)"

definition provider_key :: "analysis_data \<Rightarrow> user_settings \<Rightarrow> string \<Rightarrow> string option" where
  "provider_key N s k = first_text (provider_text k (as_apiKeys (us_ai s))) (config_text N k ''api_key'')"

text \<open>The selection of \<open>createAiProviderForPurpose\<close>; the client it makes beside is not used by the analysis.\<close>

definition createAiProviderForPurpose :: "analysis_env \<Rightarrow> analysis_data \<Rightarrow> user_settings \<Rightarrow> string \<Rightarrow> err + responder_selection" where
  "createAiProviderForPurpose I N s purpose =
     (let preferred = (if as_preferredProvider (us_ai s) = [] then ''cloudflare'' else as_preferredProvider (us_ai s)) in
      case resolveResponderSelection N purpose preferred of
        Inl e \<Rightarrow> Inl e
      | Inr x \<Rightarrow>
          (let k = rx_providerKey x in
           if k \<in> {''anthropic'', ''huggingface'', ''moonshot''}
           then if rx_modelType x \<noteq> ''chat'' then Inl (Error_msg (provider_name k @ '' provider only supports chat models''))
                else if \<not> present (provider_key N s k) then Inl (Error_msg (provider_name k @ '' API key is not configured''))
                else Inr x
           else if k \<noteq> ''cloudflare'' then Inl (Error_msg (''AI provider '' @ [CHR 0x27] @ k @ [CHR 0x27] @ '' is not supported''))
           else if \<not> ie_ai I then Inl (Error_msg ''AI binding not available'')
           else Inr x))"

section \<open>The prompt\<close>

text \<open>The texts of the code with quotes: a back quote stands for one.\<close>

definition with_quotes :: "string \<Rightarrow> string" where
  "with_quotes s = map (\<lambda>c. if c = CHR 0x60 then CHR 0x22 else c) s"

definition nl :: string where
  "nl = [CHR 0x0A]"

text \<open>\<open>` \<dots> ${description}`\<close> behind a dash, when there is one\<close>

definition dashed :: "analysis_env \<Rightarrow> string option \<Rightarrow> string" where
  "dashed I x = (if present x then '' '' @ [ie_dash I] @ '' '' @ the x else [])"

definition answer_format :: "string list" where
  "answer_format = map with_quotes [
     ''Return ONLY valid JSON in this format.'',
     ''Use ONLY quote anchors: anchor.type must be `quote` and include anchor.text with an exact snippet from the document.'',
     ''Do NOT use line/span anchors.'',
     ''Keep title <= 200 characters and description <= 4000 characters.'',
     ''documentId values MUST be one of the numeric IDs listed in the Documents section.'',
     ''{'',
     ''  `issues`: ['',
     ''    {'',
     ''      `title`: `Short title`,'',
     ''      `description`: `Clear description`,'',
     ''      `severity`: `low|medium|high|critical`,'',
     ''      `confidence`: 0.0-1.0,'',
     ''      `ruleIds`: [1, 2],'',
     ''      `documents`: ['',
     ''        {'',
     ''          `documentId`: 123,'',
     ''          `anchor`: {'',
     ''            `type`: `quote`,'',
     ''            `text`: `exact quoted snippet`'',
     ''          }'',
     ''        }'',
     ''      ],'',
     ''      `evidence`: [`optional supporting note`]'',
     ''    }'',
     ''  ]'',
     ''}'']"

definition buildPrompt :: "analysis_env \<Rightarrow> rule_row list \<Rightarrow> document_row list \<Rightarrow> (string \<times> string option) list \<Rightarrow> string" where
  "buildPrompt I rules documents existing =
     (let rulesText = join_with nl (map (\<lambda>r. ''Rule '' @ int_str (ru_id r) @ '': '' @ ru_name r @ dashed I (ru_description r)) rules);
          existingText = join_with nl (map (\<lambda>(t, x). ''- '' @ t @ dashed I x) existing);
          docsText = join_with (nl @ nl @ ''---'' @ nl @ nl) (map (\<lambda>r. ''Document '' @ int_str (dc_id r) @ '' ('' @ dc_filename r @ ''):'' @ nl
            @ (case dc_content r of None \<Rightarrow> [] | Some x \<Rightarrow> x)) documents)
      in Bridge_Gateway.js_trim (join_with nl ([[],
           ''You are a compliance analyst. Identify issues by applying the rules to the documents.'',
           ''Be comprehensive and return as many issues as you can find, without repeating existing ones.'',
           ''Only return NEW issues that are not already listed below.'', [],
           ''Rules:'', rulesText, [],
           ''Existing issues (do not repeat):'', (if existingText = [] then ''None'' else existingText), [],
           ''Documents:'', docsText, []] @ answer_format @ [[]])))"

section \<open>The budget of tokens\<close>

definition estimateTokensFromText :: "string \<Rightarrow> int" where
  "estimateTokensFromText text' = max 1 ((int (length text') + 3) div 4)"

definition effort_factor :: "string \<Rightarrow> rat" where
  "effort_factor effort =
     (if effort = ''sample'' then 1 / 4 else if effort = ''low'' then 2 / 5 else if effort = ''medium'' then 1 / 2
      else if effort = ''high'' then 3 / 4 else 1)"

text \<open>\<open>availableOutputTokens\<close>: a window above 1000 tokens keeps 1000 in reserve.\<close>

definition available_output :: "int option \<Rightarrow> int \<Rightarrow> int option" where
  "available_output contextWindow estimated =
     (case contextWindow of
        None \<Rightarrow> None
      | Some w \<Rightarrow> (let w' = (if 1000 < w then w - 1000 else w) in if 0 < w' then Some (max 0 (w' - estimated)) else None))"

definition capped :: "int option \<Rightarrow> int \<Rightarrow> int" where
  "capped available n = (case available of None \<Rightarrow> n | Some a \<Rightarrow> min n (max 300 a))"

text \<open>\<open>finalMaxTokens\<close>; \<open>None\<close> when the input leaves fewer than 300 tokens.\<close>

definition output_budget :: "int option \<Rightarrow> int option \<Rightarrow> string \<Rightarrow> int option \<Rightarrow> int \<Rightarrow> int option" where
  "output_budget maxOutputTokens contextWindow effort maxTokens estimated =
     (let providerMax = (case maxOutputTokens of None \<Rightarrow> 1800 | Some m \<Rightarrow> m);
          computed = min (js_round (of_int providerMax * effort_factor effort)) providerMax;
          available = available_output contextWindow estimated
      in if (case available of None \<Rightarrow> False | Some a \<Rightarrow> a < 300) then None
         else Some (capped available (case maxTokens of None \<Rightarrow> capped available computed | Some n \<Rightarrow> n)))"

section \<open>The request of an analysis\<close>

definition default_base :: "string \<Rightarrow> string" where
  "default_base k = (if k = ''anthropic'' then ''https://api.anthropic.com'' else if k = ''huggingface'' then ''https://router.huggingface.co/v1''
     else ''https://api.moonshot.ai/v1'')"

text \<open>One slash at the end of an address is removed.\<close>

definition without_slash :: "string \<Rightarrow> string" where
  "without_slash s = (if s \<noteq> [] \<and> last s = CHR ''/'' then butlast s else s)"

definition base_url :: "analysis_data \<Rightarrow> user_settings \<Rightarrow> responder_selection \<Rightarrow> string" where
  "base_url N s x =
     (let k = rx_providerKey x in
      case first_text (provider_text k (as_baseUrls (us_ai s))) (first_text (config_text N k ''base_url'') (first_text (rx_baseUrl x) (Some (default_base k)))) of
        None \<Rightarrow> [] | Some u \<Rightarrow> u)"

definition analysisSystemPrompt :: string where
  "analysisSystemPrompt = ''You are a compliance analyst that returns strict JSON only. Do not include prose outside JSON.''"

definition chat_message :: "string \<Rightarrow> string \<Rightarrow> json" where
  "chat_message role content = JObj [(''role'', JStr role), (''content'', JStr content)]"

text \<open>The address, the headers and the payload.\<close>

definition getProviderRequestConfig :: "analysis_data \<Rightarrow> responder_selection \<Rightarrow> user_settings \<Rightarrow> int \<Rightarrow> json \<Rightarrow> string \<Rightarrow> string + (string \<times> obj \<times> obj)" where
  "getProviderRequestConfig N x s maxTokens temperature prompt =
     (let k = rx_providerKey x;
          apiKey = provider_key N s k;
          content_type = (''Content-Type'', JStr ''application/json'');
          sized = obj_spread (rx_modeSettings x) [(''model'', JStr (rx_modelName x)), (''max_tokens'', json_int maxTokens), (''temperature'', temperature)]
      in if k \<notin> {''anthropic'', ''huggingface'', ''moonshot''}
         then Inl (''Async analysis is not configured for provider '' @ [CHR 0x27] @ k @ [CHR 0x27] @ ''.'')
         else if \<not> present apiKey then Inl (provider_name k @ '' API key is not configured.'')
         else if k = ''anthropic''
         then Inr (without_slash (base_url N s x) @ ''/v1/messages'',
                [content_type, (''x-api-key'', JStr (the apiKey)), (''anthropic-version'', JStr ''2023-06-01'')],
                obj_spread sized [(''system'', JStr analysisSystemPrompt), (''messages'', JArr [chat_message ''user'' prompt])])
         else Inr (without_slash (base_url N s x) @ ''/chat/completions'',
                [content_type, (''Authorization'', JStr (''Bearer '' @ the apiKey))],
                obj_spread sized [(''messages'', JArr [chat_message ''system'' analysisSystemPrompt, chat_message ''user'' prompt])]))"

section \<open>Jobs\<close>

definition http_failed :: "nat \<Rightarrow> err" where
  "http_failed status = Error_msg (''Failed to enqueue job (HTTP '' @ nat_str status @ '')'')"

text \<open>The answer of the worker; the key of the job is a property that may be missing.\<close>

definition enqueueHttpJob :: "bool \<times> nat \<times> json option \<Rightarrow> err + json option" where
  "enqueueHttpJob reply =
     (let (ok, status, data) = reply in
      case data of
        None \<Rightarrow> Inl (http_failed status)
      | Some j \<Rightarrow>
          (if \<not> truthy j then Inl (http_failed status)
           else case j of
               JObj ob \<Rightarrow>
                 (case obj_get ob ''ok'' of
                    None \<Rightarrow> Inl (http_failed status)
                  | Some v \<Rightarrow>
                      (if \<not> truthy v
                       then (case obj_get ob ''error'' of
                               Some (JObj er) \<Rightarrow>
                                 (case obj_get er ''error'' of
                                    Some t \<Rightarrow> Inl (Error_msg (if truthy t then js_String t else ''Failed to enqueue job''))
                                  | None \<Rightarrow> Inl (Error_msg ''Failed to enqueue job''))
                             | _ \<Rightarrow> Inl (Error_msg ''Failed to enqueue job''))
                       else if \<not> ok then Inl (http_failed status)
                       else (case obj_get ob ''data'' of
                               None \<Rightarrow> Inl type_error
                             | Some JNull \<Rightarrow> Inl type_error
                             | Some (JObj inner) \<Rightarrow> Inr (obj_get inner ''jobId'')
                             | Some _ \<Rightarrow> Inr None)))
             | JArr _ \<Rightarrow> Inl (http_failed status)
             | _ \<Rightarrow> Inl type_error))"

definition job_request :: "string \<Rightarrow> obj \<Rightarrow> obj \<Rightarrow> int \<Rightarrow> string \<Rightarrow> json" where
  "job_request url headers payload projectId requestedBy = JObj [(''method'', JStr ''POST''), (''url'', JStr url), (''headers'', JObj headers),
     (''body'', JStr (stringify (JObj payload))), (''timeoutSeconds'', json_int 300), (''responseMaxBytes'', json_int 2000000),
     (''meta'', JObj [(''projectId'', json_int projectId), (''requestedBy'', JStr requestedBy)])]"

definition find_job :: "string \<Rightarrow> analysis_data \<Rightarrow> http_job option" where
  "find_job i N = find (\<lambda>j. hj_id j = i) (nd_jobs N)"

definition not_available :: err where
  "not_available = Error_msg ''Result not available''"

definition fetchHttpJobResult :: "analysis_data \<Rightarrow> string \<Rightarrow> err + job_result" where
  "fetchHttpJobResult N i =
     (case find_job i N of
        None \<Rightarrow> Inl not_available
      | Some j \<Rightarrow>
          (if \<not> present (hj_responseKey j) then Inl not_available
           else case nd_results N (the (hj_responseKey j)) of None \<Rightarrow> Inl not_available | Some r \<Rightarrow> Inr r))"

definition job_json :: "http_job \<Rightarrow> json" where
  "job_json j = JObj [(''jobId'', JStr (hj_id j)), (''status'', JStr (hj_status j)), (''httpStatus'', json_opt_int (hj_responseStatus j)),
     (''responseKey'', json_opt (hj_responseKey j)), (''error'', json_opt (hj_error j)), (''createdAt'', json_int (hj_createdAt j)),
     (''updatedAt'', json_int (hj_updatedAt j))]"

text \<open>The job of a project that the path names.\<close>

definition named_job :: "analysis_data \<Rightarrow> int \<Rightarrow> string \<Rightarrow> http_job option" where
  "named_job N projectId i = (case find_job i N of None \<Rightarrow> None | Some j \<Rightarrow> if hj_projectId j = projectId then Some j else None)"

definition analysis_status :: "app_env \<Rightarrow> auth_context \<Rightarrow> analysis_data \<Rightarrow> string \<Rightarrow> string \<Rightarrow> app_db \<Rightarrow> response \<times> app_db" where
  "analysis_status E auth N param jobParam d =
     (case validatePositiveInt (Some param) of
        None \<Rightarrow> (fail_answer 400 ''Invalid project ID'', d)
      | Some projectId \<Rightarrow>
          settle E None (and_then (assertProjectAccess auth projectId d) (\<lambda>_ d1.
            let jobId = Bridge_Gateway.js_trim jobParam in
            if jobId = [] then Done (fail_answer 400 ''Invalid job ID'') d1
            else case named_job N projectId jobId of
                None \<Rightarrow> Done (fail_answer 404 ''Job not found'') d1
              | Some j \<Rightarrow> Done (ok_answer 200 (job_json j)) d1)))"

section \<open>Starting an analysis\<close>

record analyze_params =
  yp_documentIds :: "int list option"
  yp_maxTokens :: "int option"
  yp_temperature :: json
  yp_mode :: string
  yp_effort :: string

definition modes :: "string list" where
  "modes = [''replace_all'', ''replace_ai'', ''incremental'']"

definition z_ids :: "json \<Rightarrow> int list option" where
  "z_ids j = map_option (map int) (z_array z_positive j)"

definition z_unit :: "json \<Rightarrow> json option" where
  "z_unit j = (case z_number j of None \<Rightarrow> None | Some r \<Rightarrow> if 0 \<le> r \<and> r \<le> 1 then Some j else None)"

text \<open>The body with the defaults the handler gives: 0.2, \<open>replace_ai\<close> and \<open>medium\<close>.\<close>

definition analyzeIssuesSchema :: "json \<Rightarrow> analyze_params option" where
  "analyzeIssuesSchema j = do {
     ob \<leftarrow> z_record j;
     ids \<leftarrow> z_optional ob ''documentIds'' z_ids;
     n \<leftarrow> z_optional ob ''maxTokens'' z_positive;
     t \<leftarrow> z_default ob ''temperature'' (JNum 2 1) z_unit;
     m \<leftarrow> z_default ob ''mode'' ''replace_ai'' (one_of modes);
     e \<leftarrow> z_default ob ''effort'' ''medium'' (one_of [''sample'', ''low'', ''medium'', ''high'', ''extra_high'']);
     Some \<lparr>yp_documentIds = ids, yp_maxTokens = map_option int n, yp_temperature = t, yp_mode = m, yp_effort = e\<rparr> }"

text \<open>The documents of the project, or those that are named; an empty list names all.\<close>

definition chosen_documents :: "int \<Rightarrow> int list option \<Rightarrow> app_db \<Rightarrow> document_row list" where
  "chosen_documents projectId ids d =
     (let rows = filter (\<lambda>r. dc_projectId r = projectId) (ap_documents d) in
      case ids of None \<Rightarrow> rows | Some is \<Rightarrow> if is = [] then rows else filter (\<lambda>r. dc_id r \<in> set is) rows)"

definition known_issues :: "string \<Rightarrow> int \<Rightarrow> app_db \<Rightarrow> (string \<times> string option) list" where
  "known_issues mode projectId d =
     (if mode = ''incremental'' then map (\<lambda>r. (iu_title r, iu_description r)) (filter (\<lambda>r. iu_projectId r = projectId) (ap_issues d)) else [])"

definition sent_request :: "responder_selection \<Rightarrow> int \<Rightarrow> json \<Rightarrow> string \<Rightarrow> json" where
  "sent_request x maxTokens temperature prompt = JObj [(''provider'', JStr (rx_providerKey x)), (''model'', JStr (rx_modelName x)),
     (''modelType'', JStr (rx_modelType x)), (''maxTokens'', json_int maxTokens), (''temperature'', temperature),
     (''system'', JStr analysisSystemPrompt), (''user'', JStr prompt)]"

definition queued_answer :: "bool \<Rightarrow> json option \<Rightarrow> json \<Rightarrow> response" where
  "queued_answer development jobId sent = ok_answer 202 (JObj ((case jobId of None \<Rightarrow> [] | Some j \<Rightarrow> [(''jobId'', j)]) @ [(''status'', JStr ''queued'')]
     @ (if development then [(''sent_request'', sent)] else [])))"

text \<open>The request goes to the worker, and the provider of its job is remembered.\<close>

definition enqueue_analysis :: "analysis_env \<Rightarrow> auth_context \<Rightarrow> responder_selection \<Rightarrow> int \<Rightarrow> string \<times> obj \<times> obj \<Rightarrow> json \<Rightarrow> analysis_store
    \<Rightarrow> (analysis_store, response) out" where
  "enqueue_analysis I auth x projectId request sent S =
     (case getUserEmail auth of
        Inl e \<Rightarrow> Fail e S
      | Inr email \<Rightarrow>
          (let (url, headers, payload) = request;
               S1 = S\<lparr>nv_requests := nv_requests S @ [job_request url headers payload projectId email]\<rparr>
           in case enqueueHttpJob (ie_reply I) of
                Inl e \<Rightarrow> Fail e S1
              | Inr jobId \<Rightarrow>
                  (let key = (case jobId of None \<Rightarrow> ''undefined'' | Some j \<Rightarrow> js_String j) in
                   Done (queued_answer (ie_development I) jobId sent)
                     (if ie_saved I then S1\<lparr>nv_provider := kv_put (ie_now_ms I) key (rx_providerKey x) (nv_provider S1)\<rparr> else S1))))"

definition too_large :: response where
  "too_large = fail_answer 400 ''Input too large for the model context window. Reduce documents or rules and try again.''"

definition start_analysis :: "analysis_env \<Rightarrow> auth_context \<Rightarrow> analysis_data \<Rightarrow> int \<Rightarrow> analyze_params \<Rightarrow> analysis_store \<Rightarrow> (analysis_store, response) out" where
  "start_analysis I auth N projectId params S =
     (let d = nv_app S;
          docs = chosen_documents projectId (yp_documentIds params) d;
          rules = getEffectiveRulesForProject projectId d;
          prompt = buildPrompt I rules docs (known_issues (yp_mode params) projectId d)
      in if docs = [] then Done (fail_answer 400 ''No documents available for analysis'') S
         else if rules = [] then Done (fail_answer 400 ''No rules available for analysis'') S
         else case loadUserSettings True auth (nd_settings N) of
             Inl e \<Rightarrow> Fail e S
           | Inr s \<Rightarrow>
               (case createAiProviderForPurpose I N s ''issue_analysis'' of
                  Inl e \<Rightarrow> Fail e S
                | Inr x \<Rightarrow>
                    (case output_budget (rx_maxOutputTokens x) (rx_contextWindow x) (yp_effort params) (yp_maxTokens params)
                            (estimateTokensFromText prompt) of
                       None \<Rightarrow> Done too_large S
                     | Some n \<Rightarrow>
                         (case getProviderRequestConfig N x s n (yp_temperature params) prompt of
                            Inl e \<Rightarrow> Done (fail_answer 400 e) S
                          | Inr request \<Rightarrow> enqueue_analysis I auth x projectId request (sent_request x n (yp_temperature params) prompt) S))))"

text \<open>A body that is not JSON is an empty object.\<close>

definition analyze_issues :: "app_env \<Rightarrow> analysis_env \<Rightarrow> auth_context \<Rightarrow> analysis_data \<Rightarrow> string \<Rightarrow> json option \<Rightarrow> analysis_store
    \<Rightarrow> response \<times> analysis_store" where
  "analyze_issues E I auth N param body S =
     (case validatePositiveInt (Some param) of
        None \<Rightarrow> (fail_answer 400 ''Invalid project ID'', S)
      | Some projectId \<Rightarrow>
          settle_analysis E (and_then (with_app (assertProjectAccess auth projectId) S) (\<lambda>_ S1.
            and_then (parse_as analyzeIssuesSchema (case body of None \<Rightarrow> JObj [] | Some j \<Rightarrow> j) S1) (start_analysis I auth N projectId))))"

section \<open>The answer of the model\<close>

text \<open>\<open>x?.k\<close> on a JSON value; an array has the key of its first element.\<close>

definition opt_prop :: "string \<Rightarrow> json option \<Rightarrow> json option" where
  "opt_prop k x =
     (case x of
        Some (JObj ps) \<Rightarrow> obj_get ps k
      | Some (JArr xs) \<Rightarrow> if k = ''0'' \<and> xs \<noteq> [] then Some (hd xs) else None
      | _ \<Rightarrow> None)"

definition model_text :: "string \<Rightarrow> json option \<Rightarrow> err + string" where
  "model_text missing x =
     (case x of
        None \<Rightarrow> Inl (Error_msg missing)
      | Some j \<Rightarrow> if \<not> truthy j then Inl (Error_msg missing) else (case j of JStr s \<Rightarrow> Inr s | _ \<Rightarrow> Inl type_error))"

fun find_text :: "json list \<Rightarrow> err + json option" where
  "find_text [] = Inr None"
| "find_text (JNull # xs) = Inl type_error"
| "find_text (x # xs) = (if opt_prop ''type'' (Some x) = Some (JStr ''text'') then Inr (opt_prop ''text'' (Some x)) else find_text xs)"

text \<open>The first text of a reply of Anthropic, and the first choice of the others; \<open>missing\<close> is the text of the exception.\<close>

definition anthropic_reply :: "string \<Rightarrow> json \<Rightarrow> err + string" where
  "anthropic_reply missing j =
     (case opt_prop ''content'' (Some j) of
        None \<Rightarrow> Inl (Error_msg missing)
      | Some JNull \<Rightarrow> Inl (Error_msg missing)
      | Some (JArr xs) \<Rightarrow> (case find_text xs of Inl e \<Rightarrow> Inl e | Inr t \<Rightarrow> model_text missing t)
      | Some _ \<Rightarrow> Inl type_error)"

definition chat_reply :: "string \<Rightarrow> json \<Rightarrow> err + string" where
  "chat_reply missing j = model_text missing
     (opt_prop ''content'' (opt_prop ''message'' (opt_prop ''0'' (opt_prop ''choices'' (Some j)))))"

definition extractAnthropicText :: "app_env \<Rightarrow> string \<Rightarrow> err + string" where
  "extractAnthropicText E body =
     (case json_parse body of
        None \<Rightarrow> Inl (Error_msg (ae_syntax E))
      | Some j \<Rightarrow> anthropic_reply ''Anthropic response missing text'' j)"

definition extractHuggingFaceText :: "app_env \<Rightarrow> string \<Rightarrow> err + string" where
  "extractHuggingFaceText E body =
     (case json_parse body of
        None \<Rightarrow> Inl (Error_msg (ae_syntax E))
      | Some j \<Rightarrow> chat_reply ''Hugging Face response missing text'' j)"

definition detectProviderFromRequest :: "string \<Rightarrow> string" where
  "detectProviderFromRequest requestJson =
     (case (if requestJson = [] then None else json_parse requestJson) of
        None \<Rightarrow> ''unknown''
      | Some j \<Rightarrow>
          (case opt_prop ''url'' (Some j) of
             Some (JStr u) \<Rightarrow>
               (let url = js_lower u in
                if js_includes url ''api.anthropic.com'' \<or> js_includes url ''/v1/messages'' then ''anthropic''
                else if js_includes url ''huggingface.co'' \<or> js_includes url ''/chat/completions'' then ''huggingface''
                else if js_includes url ''moonshot.ai'' then ''moonshot''
                else ''unknown'')
           | _ \<Rightarrow> ''unknown''))"

section \<open>Findings\<close>

text \<open>
  The fence of \<open>extractJson\<close>: its pattern is written with doubled backslashes, so what it finds is three back quotes, \<open>json\<close>, a backslash, letters
  \<open>s\<close>, a run of backslashes and letters \<open>s\<close>, which is the group, and three back quotes.
\<close>

definition fence_quotes :: string where
  "fence_quotes = [CHR 0x60, CHR 0x60, CHR 0x60]"

definition fence_char :: "char \<Rightarrow> bool" where
  "fence_char c \<longleftrightarrow> c = CHR 0x5C \<or> c = CHR ''s'' \<or> c = CHR ''S''"

definition fence_open :: "string \<Rightarrow> bool" where
  "fence_open s \<longleftrightarrow> js_lower (take 8 s) = fence_quotes @ ''json'' @ [CHR 0x5C]"

fun fence_match :: "string \<Rightarrow> string option" where
  "fence_match [] = None"
| "fence_match (c # s) =
     (if fence_open (c # s) \<and> take 3 (dropWhile fence_char (drop 8 s)) = fence_quotes
      then Some (dropWhile (\<lambda>x. x = CHR ''s'' \<or> x = CHR ''S'') (takeWhile fence_char (drop 8 s)))
      else fence_match s)"

definition extractJson :: "app_env \<Rightarrow> analysis_env \<Rightarrow> string \<Rightarrow> err + json" where
  "extractJson E I raw =
     (let text' = Bridge_Gateway.js_trim raw;
          cleaned = (case fence_match text' of None \<Rightarrow> text' | Some g \<Rightarrow> Bridge_Gateway.js_trim g)
      in case ie_repair I cleaned of None \<Rightarrow> Inl (Error_msg (ae_syntax E)) | Some j \<Rightarrow> Inr j)"

definition shortened :: "nat \<Rightarrow> string \<Rightarrow> obj \<Rightarrow> obj" where
  "shortened n k ob = (case obj_get ob k of Some (JStr s) \<Rightarrow> obj_put k (JStr (take n (Bridge_Gateway.js_trim s))) ob | _ \<Rightarrow> ob)"

fun normalized_issue :: "json \<Rightarrow> json" where
  "normalized_issue (JObj ob) = JObj (shortened 4000 ''description'' (shortened 200 ''title'' ob))"
| "normalized_issue j = j"

definition normalizeIssuePayload :: "json \<Rightarrow> json" where
  "normalizeIssuePayload payload =
     (case payload of
        JObj ob \<Rightarrow> (case obj_get ob ''issues'' of Some (JArr xs) \<Rightarrow> JObj (obj_put ''issues'' (JArr (map normalized_issue xs)) ob) | _ \<Rightarrow> payload)
      | _ \<Rightarrow> payload)"

record finding_anchor =
  fa_type :: string
  fa_start :: "int option"
  fa_end :: "int option"
  fa_text :: "string option"

record issue_finding =
  fg_title :: string
  fg_description :: string
  fg_severity :: string
  fg_ruleIds :: "int list"
  fg_documents :: "(int \<times> finding_anchor option) list"

definition issueAnchorSchema :: "json \<Rightarrow> finding_anchor option" where
  "issueAnchorSchema j = do {
     ob \<leftarrow> z_record j;
     t \<leftarrow> z_field ob ''type'' (one_of [''line'', ''span'', ''quote'']);
     s \<leftarrow> z_optional ob ''start'' z_nonneg;
     e \<leftarrow> z_optional ob ''end'' z_nonneg;
     x \<leftarrow> z_optional ob ''text'' z_string1;
     (if (if t = ''quote'' then x \<noteq> None else s \<noteq> None \<and> e \<noteq> None)
      then Some \<lparr>fa_type = t, fa_start = map_option int s, fa_end = map_option int e, fa_text = x\<rparr> else None) }"

definition issueDocumentReferenceSchema :: "json \<Rightarrow> (int \<times> finding_anchor option) option" where
  "issueDocumentReferenceSchema j = do {
     ob \<leftarrow> z_record j;
     i \<leftarrow> z_field ob ''documentId'' z_int;
     a \<leftarrow> z_optional ob ''anchor'' issueAnchorSchema;
     Some (i, a) }"

definition issueFindingSchema :: "json \<Rightarrow> issue_finding option" where
  "issueFindingSchema j = do {
     ob \<leftarrow> z_record j;
     t \<leftarrow> z_field ob ''title'' (z_text 1 200);
     x \<leftarrow> z_field ob ''description'' (z_text 1 4000);
     s \<leftarrow> z_field ob ''severity'' (one_of validPriorities);
     _ \<leftarrow> z_field ob ''confidence'' z_unit;
     rs \<leftarrow> z_field ob ''ruleIds'' (z_array1 z_int);
     ds \<leftarrow> z_field ob ''documents'' (z_array1 issueDocumentReferenceSchema);
     _ \<leftarrow> z_optional ob ''evidence'' (z_array z_string1);
     Some \<lparr>fg_title = t, fg_description = x, fg_severity = s, fg_ruleIds = rs, fg_documents = ds\<rparr> }"

definition issueFindingResponseSchema :: "json \<Rightarrow> issue_finding list option" where
  "issueFindingResponseSchema j = do {
     ob \<leftarrow> z_record j;
     fs \<leftarrow> z_field ob ''issues'' (z_array issueFindingSchema);
     _ \<leftarrow> z_optional ob ''modelMeta'' (\<lambda>m. do {
            ps \<leftarrow> z_record m;
            a \<leftarrow> z_optional ps ''model'' z_string;
            b \<leftarrow> z_optional ps ''promptTokens'' z_int;
            c \<leftarrow> z_optional ps ''completionTokens'' z_int;
            Some (a, b, c) });
     Some fs }"

definition validateIssuePayload :: "app_env \<Rightarrow> analysis_env \<Rightarrow> string \<Rightarrow> err + issue_finding list" where
  "validateIssuePayload E I rawText =
     (case extractJson E I rawText of
        Inl e \<Rightarrow> Inl e
      | Inr parsed \<Rightarrow> (case issueFindingResponseSchema (normalizeIssuePayload parsed) of None \<Rightarrow> Inl Zod_invalid | Some fs \<Rightarrow> Inr fs))"

definition normalizeAnchor :: "finding_anchor option \<Rightarrow> (string \<times> string) option" where
  "normalizeAnchor a =
     (case a of
        None \<Rightarrow> None
      | Some x \<Rightarrow> if fa_type x \<noteq> ''quote'' \<or> \<not> present (fa_text x) then None else Some (''quote'', the (fa_text x)))"

section \<open>Storing the findings\<close>

definition anchor_json :: "finding_anchor \<Rightarrow> json" where
  "anchor_json a = JObj ([(''type'', JStr (fa_type a))] @ opt_field ''start'' json_int (fa_start a) @ opt_field ''end'' json_int (fa_end a)
     @ opt_field ''text'' JStr (fa_text a))"

definition reference_json :: "int \<times> finding_anchor option \<Rightarrow> json" where
  "reference_json r = JObj ((''documentId'', json_int (fst r)) # opt_field ''anchor'' anchor_json (snd r))"

definition created_json :: "issue_row \<Rightarrow> issue_finding \<Rightarrow> json" where
  "created_json r f = JObj (issue_obj r @ [(''ruleIds'', JArr (map json_int (fg_ruleIds f))), (''documents'', JArr (map reference_json (fg_documents f)))])"

definition skipped_json :: "nat \<Rightarrow> bool \<Rightarrow> bool \<Rightarrow> issue_finding \<Rightarrow> json" where
  "skipped_json index no_rules no_documents f = JObj [(''index'', json_int (int index)), (''title'', JStr (fg_title f)),
     (''reason'', JStr (if no_rules \<and> no_documents then ''No valid ruleIds or documentIds''
        else if no_rules then ''No valid ruleIds'' else ''No valid documentIds'')),
     (''ruleIds'', JArr (map json_int (fg_ruleIds f))), (''documentIds'', JArr (map (\<lambda>r. json_int (fst r)) (fg_documents f)))]"

text \<open>The rules and the references of a finding that belong to the project.\<close>

definition valid_rules :: "int list \<Rightarrow> issue_finding \<Rightarrow> int list" where
  "valid_rules ruleIds f = filter (\<lambda>i. i \<in> set ruleIds) (fg_ruleIds f)"

definition valid_references :: "int list \<Rightarrow> issue_finding \<Rightarrow> (int \<times> finding_anchor option) list" where
  "valid_references docIds f = filter (\<lambda>r. fst r \<in> set docIds) (fg_documents f)"

definition anchor_of :: "int \<times> finding_anchor option \<Rightarrow> int \<times> string option \<times> string option" where
  "anchor_of r = (fst r, map_option fst (normalizeAnchor (snd r)), map_option snd (normalizeAnchor (snd r)))"

definition store_finding :: "app_env \<Rightarrow> int \<Rightarrow> int list \<Rightarrow> int list \<Rightarrow> issue_finding \<Rightarrow> app_db \<Rightarrow> (app_db, issue_row) out" where
  "store_finding E projectId ruleIds docIds f d =
     and_then (insert_issue (ae_now E) (fg_title f) (Some (fg_description f)) (fg_severity f) ''open'' ''ai'' projectId d) (\<lambda>row d1.
     and_then (insert_anchors (iu_id row) (map anchor_of (valid_references docIds f)) d1) (\<lambda>_ d2.
     and_then (insert_links Issue_rules (iu_id row) (valid_rules ruleIds f) d2) (\<lambda>_. Done row)))"

fun store_findings :: "app_env \<Rightarrow> int \<Rightarrow> int list \<Rightarrow> int list \<Rightarrow> nat \<Rightarrow> issue_finding list \<Rightarrow> app_db \<Rightarrow> (app_db, json list \<times> json list) out" where
  "store_findings E projectId ruleIds docIds index [] d = Done ([], []) d"
| "store_findings E projectId ruleIds docIds index (f # fs) d =
     (if valid_rules ruleIds f = [] \<or> valid_references docIds f = []
      then and_then (store_findings E projectId ruleIds docIds (Suc index) fs d) (\<lambda>(created, skipped).
             Done (created, skipped_json index (valid_rules ruleIds f = []) (valid_references docIds f = []) f # skipped))
      else and_then (store_finding E projectId ruleIds docIds f d) (\<lambda>row d1.
             and_then (store_findings E projectId ruleIds docIds (Suc index) fs d1) (\<lambda>(created, skipped).
               Done (created_json row f # created, skipped))))"

definition clear_issues :: "string \<Rightarrow> int \<Rightarrow> app_db \<Rightarrow> app_db" where
  "clear_issues mode projectId d =
     (if mode = ''replace_all'' then delete_issues (\<lambda>r. iu_projectId r = projectId) d
      else if mode = ''replace_ai'' then delete_issues (\<lambda>r. iu_projectId r = projectId \<and> iu_origin r = ''ai'') d
      else d)"

definition consumeSchema :: "json \<Rightarrow> (string \<times> int list option) option" where
  "consumeSchema j = do {
     ob \<leftarrow> z_record j;
     m \<leftarrow> z_default ob ''mode'' ''replace_ai'' (one_of modes);
     ids \<leftarrow> z_optional ob ''documentIds'' z_ids;
     Some (m, ids) }"

definition consumed_answer :: "json list \<Rightarrow> nat \<Rightarrow> bool \<Rightarrow> response" where
  "consumed_answer created skippedCount already =
     ok_answer 200 (JObj [(''issues'', JArr created), (''skippedCount'', json_int (int skippedCount)), (''alreadyConsumed'', JBool already)])"

definition skipped_list :: "doc_env \<Rightarrow> int \<Rightarrow> json list \<Rightarrow> json list \<Rightarrow> string \<times> json" where
  "skipped_list D projectId created skipped =
     (''ai-errors/issues/'' @ int_str projectId @ ''/'' @ nat_str (de_now_ms D) @ ''-'' @ de_uuid D @ ''.json'',
      JObj [(''projectId'', json_int projectId), (''skippedCount'', json_int (int (length skipped))), (''skippedIssues'', JArr skipped),
        (''createdCount'', json_int (int (length created)))])"

text \<open>The findings are stored one after the other; the list of the skipped ones and the mark of the job come last.\<close>

definition keep_findings :: "app_env \<Rightarrow> doc_env \<Rightarrow> analysis_env \<Rightarrow> int \<Rightarrow> string \<Rightarrow> string \<Rightarrow> int list \<Rightarrow> int list \<Rightarrow> issue_finding list \<Rightarrow> analysis_store
    \<Rightarrow> (analysis_store, response) out" where
  "keep_findings E D I projectId mode jobId ruleIds docIds fs S =
     and_then (with_app (\<lambda>d. store_findings E projectId ruleIds docIds 0 fs (clear_issues mode projectId d)) S) (\<lambda>(created, skipped) S1.
       let S2 = (if skipped \<noteq> [] \<and> ie_bucket I then S1\<lparr>nv_skipped := nv_skipped S1 @ [skipped_list D projectId created skipped]\<rparr> else S1);
           S3 = (if ie_saved I then S2\<lparr>nv_consumed := kv_put (ie_now_ms I) jobId (nat_str (de_now_ms D)) (nv_consumed S2)\<rparr> else S2)
       in Done (consumed_answer created (length skipped) False) S3)"

definition reply_text :: "app_env \<Rightarrow> string \<Rightarrow> string \<Rightarrow> err + string" where
  "reply_text E provider body =
     (if provider = ''anthropic'' then extractAnthropicText E body
      else if provider = ''huggingface'' \<or> provider = ''moonshot'' then extractHuggingFaceText E body
      else Inl (Error_msg ''Unsupported analysis provider in job result''))"

definition consume_result :: "app_env \<Rightarrow> doc_env \<Rightarrow> analysis_env \<Rightarrow> int \<Rightarrow> string \<Rightarrow> int list option \<Rightarrow> http_job \<Rightarrow> job_result \<Rightarrow> analysis_store
    \<Rightarrow> (analysis_store, response) out" where
  "consume_result E D I projectId mode ids job result S =
     (if \<not> present (jr_body result) then Done (fail_answer 400 ''Analysis result is empty'') S
      else if 400 \<le> jr_httpStatus result
      then Done (answer 400 [(''success'', JBool False), (''error'', JStr (''Analysis request failed (HTTP '' @ int_str (jr_httpStatus result) @ '')'')),
             (''details'', JStr (the (jr_body result)))]) S
      else let provider = (case kv_get (ie_now_ms I) (nv_provider S) (hj_id job) of
                 Some p \<Rightarrow> if p = [] then detectProviderFromRequest (hj_requestJson job) else p
               | None \<Rightarrow> detectProviderFromRequest (hj_requestJson job))
        in case reply_text E provider (the (jr_body result)) of
             Inl e \<Rightarrow> Fail e S
           | Inr aiText \<Rightarrow>
               (case validateIssuePayload E I aiText of
                  Inl e \<Rightarrow> Fail e S
                | Inr fs \<Rightarrow>
                    (let docs = map dc_id (chosen_documents projectId ids (nv_app S));
                         rules = map ru_id (getEffectiveRulesForProject projectId (nv_app S))
                     in if docs = [] then Done (fail_answer 400 ''No documents available for analysis'') S
                        else if rules = [] then Done (fail_answer 400 ''No rules available for analysis'') S
                        else keep_findings E D I projectId mode (hj_id job) rules docs fs S)))"

definition consume_analysis :: "app_env \<Rightarrow> doc_env \<Rightarrow> analysis_env \<Rightarrow> auth_context \<Rightarrow> analysis_data \<Rightarrow> string \<Rightarrow> string \<Rightarrow> json option \<Rightarrow> analysis_store
    \<Rightarrow> response \<times> analysis_store" where
  "consume_analysis E D I auth N param jobParam body S =
     (case validatePositiveInt (Some param) of
        None \<Rightarrow> (fail_answer 400 ''Invalid project ID'', S)
      | Some projectId \<Rightarrow>
          settle_analysis E (and_then (with_app (assertProjectAccess auth projectId) S) (\<lambda>_ S1.
            let jobId = Bridge_Gateway.js_trim jobParam in
            if jobId = [] then Done (fail_answer 400 ''Invalid job ID'') S1
            else and_then (parse_as consumeSchema (case body of None \<Rightarrow> JObj [] | Some j \<Rightarrow> j) S1) (\<lambda>(mode, ids) S2.
              case named_job N projectId jobId of
                None \<Rightarrow> Done (fail_answer 404 ''Job not found'') S2
              | Some job \<Rightarrow>
                  (if present (kv_get (ie_now_ms I) (nv_consumed S2) jobId) then Done (consumed_answer [] 0 True) S2
                   else case fetchHttpJobResult N jobId of
                       Inl e \<Rightarrow> Fail e S2
                     | Inr result \<Rightarrow> consume_result E D I projectId mode ids job result S2)))))"

end
