(* ===== verification/Rule_Ai.thy ===== *)
theory Rule_Ai
  imports Issue_Analysis
begin

text \<open>
  \<open>server/src/routes/rules/ai.post.ts\<close> and \<open>ai-duplicates.post.ts\<close> with the clients of \<open>server/src/utils/ai/providers.ts\<close>: a language model is asked
  for rules, or which of some proposed rules are there already. Both answer what the model says and write nothing. What the network and the
  model binding answer is a parameter.
\<close>

section \<open>The clients of the providers\<close>

record ai_message =
  am_system :: string
  am_user :: string
  am_maxTokens :: int
  am_temperature :: json
  am_format :: "json option"

text \<open>\<open>al_fetch\<close> answers an address, headers and a body with ok, status and text (none where reading it throws); \<open>al_run\<close> answers a model and a
  payload with the property \<open>response\<close> of what the binding returns.\<close>

record ai_client =
  al_fetch :: "string \<Rightarrow> obj \<Rightarrow> json \<Rightarrow> err + (bool \<times> nat \<times> string option)"
  al_run :: "string \<Rightarrow> json \<Rightarrow> err + json option"

definition api_failed :: "string \<Rightarrow> nat \<Rightarrow> string option \<Rightarrow> err" where
  "api_failed name status text' =
     (let errorText = (case text' of None \<Rightarrow> [] | Some t \<Rightarrow> t) in
      Error_msg (name @ '' API error (HTTP '' @ nat_str status @ '')'' @ (if errorText = [] then [] else '' - '' @ take 500 errorText)))"

definition fetched :: "app_env \<Rightarrow> string \<Rightarrow> (string \<Rightarrow> json \<Rightarrow> err + string) \<Rightarrow> err + (bool \<times> nat \<times> string option) \<Rightarrow> err + string" where
  "fetched E name reply answer' =
     (case answer' of
        Inl e \<Rightarrow> Inl e
      | Inr (ok, status, text') \<Rightarrow>
          (if \<not> ok then Inl (api_failed name status text')
           else case Option.bind text' json_parse of
               None \<Rightarrow> Inl (Error_msg (ae_syntax E))
             | Some j \<Rightarrow> reply (name @ '' API returned empty response'') j))"

definition text_parts :: "json list \<Rightarrow> string list" where
  "text_parts xs = filter (\<lambda>t. t \<noteq> []) (map (\<lambda>x. case x of
     JObj ps \<Rightarrow> (case obj_get ps ''text'' of Some (JStr s) \<Rightarrow> s | _ \<Rightarrow> []) | _ \<Rightarrow> []) xs)"

definition parts_of :: "obj \<Rightarrow> string \<Rightarrow> string list" where
  "parts_of ob k = (case obj_get ob k of Some (JArr xs) \<Rightarrow> text_parts xs | _ \<Rightarrow> [])"

definition normalizeResponse :: "json option \<Rightarrow> string" where
  "normalizeResponse raw =
     (case raw of
        None \<Rightarrow> stringify (JStr [])
      | Some JNull \<Rightarrow> stringify (JStr [])
      | Some (JStr s) \<Rightarrow> s
      | Some (JObj ob) \<Rightarrow>
          (case obj_get ob ''text'' of
             Some (JStr s) \<Rightarrow> s
           | _ \<Rightarrow>
               (case obj_get ob ''message'' of
                  Some (JObj ps) \<Rightarrow>
                    (case obj_get ps ''text'' of
                       Some (JStr s) \<Rightarrow> s
                     | _ \<Rightarrow> if parts_of ob ''output'' \<noteq> [] then join_with nl (parts_of ob ''output'')
                            else if parts_of ob ''responses'' \<noteq> [] then join_with nl (parts_of ob ''responses'') else stringify (JObj ob))
                | _ \<Rightarrow> if parts_of ob ''output'' \<noteq> [] then join_with nl (parts_of ob ''output'')
                       else if parts_of ob ''responses'' \<noteq> [] then join_with nl (parts_of ob ''responses'') else stringify (JObj ob)))
      | Some j \<Rightarrow> stringify j)"

definition cloudflare_payload :: "string \<Rightarrow> ai_message \<Rightarrow> json" where
  "cloudflare_payload modelType m = JObj (
     (if modelType = ''prompt''
      then [(''prompt'', JStr (Bridge_Gateway.js_trim (am_system m @ nl @ nl @ am_user m)))]
      else [(''messages'', JArr [chat_message ''system'' (am_system m), chat_message ''user'' (am_user m)])])
     @ [(''max_tokens'', json_int (am_maxTokens m)), (''temperature'', am_temperature m)]
     @ (case am_format m of None \<Rightarrow> [] | Some f \<Rightarrow> [(''response_format'', f)]))"

text \<open>\<open>run\<close> of the provider that \<open>createAiProviderForPurpose\<close> chose.\<close>

definition provider_run :: "app_env \<Rightarrow> analysis_data \<Rightarrow> ai_client \<Rightarrow> user_settings \<Rightarrow> responder_selection \<Rightarrow> ai_message \<Rightarrow> err + string" where
  "provider_run E N A s x m =
     (let k = rx_providerKey x;
          apiKey = (case provider_key N s k of None \<Rightarrow> [] | Some t \<Rightarrow> t);
          content_type = (''Content-Type'', JStr ''application/json'')
      in if k = ''anthropic''
         then fetched E ''Anthropic'' anthropic_reply (al_fetch A (base_url N s x @ ''/v1/messages'')
                [content_type, (''x-api-key'', JStr apiKey), (''anthropic-version'', JStr ''2023-06-01'')]
                (JObj (obj_spread (rx_modeSettings x) [(''model'', JStr (rx_modelName x)), (''max_tokens'', json_int (am_maxTokens m)),
                  (''temperature'', am_temperature m), (''system'', JStr (am_system m)), (''messages'', JArr [chat_message ''user'' (am_user m)])])))
         else if k = ''huggingface'' \<or> k = ''moonshot''
         then fetched E (provider_name k) chat_reply (al_fetch A (without_slash (base_url N s x) @ ''/chat/completions'')
                [content_type, (''Authorization'', JStr (''Bearer '' @ apiKey))]
                (JObj (obj_spread (rx_modeSettings x) [(''model'', JStr (rx_modelName x)),
                  (''messages'', JArr [chat_message ''system'' (am_system m), chat_message ''user'' (am_user m)]),
                  (''max_tokens'', json_int (am_maxTokens m)), (''temperature'', am_temperature m)])))
         else (case al_run A (rx_modelName x) (cloudflare_payload (rx_modelType x) m) of
                 Inl e \<Rightarrow> Inl e
               | Inr raw \<Rightarrow> Inr (normalizeResponse raw)))"

section \<open>Proposing rules\<close>

record proposed_rule =
  pr_code :: string
  pr_name :: string
  pr_description :: "string option"

definition proposedRuleSchema :: "json \<Rightarrow> proposed_rule option" where
  "proposedRuleSchema j = do {
     ob \<leftarrow> z_record j;
     c \<leftarrow> z_field ob ''code'' (z_text 1 120);
     n \<leftarrow> z_field ob ''name'' (z_text 1 120);
     t \<leftarrow> z_optional ob ''description'' (z_text 0 2000);
     Some \<lparr>pr_code = c, pr_name = n, pr_description = t\<rparr> }"

definition proposed_json :: "proposed_rule \<Rightarrow> json" where
  "proposed_json r = JObj ([(''code'', JStr (pr_code r)), (''name'', JStr (pr_name r))] @ opt_field ''description'' JStr (pr_description r))"

record rule_request =
  rq_prompt :: string
  rq_references :: "int list option"
  rq_maxTokens :: "int option"
  rq_temperature :: json

definition aiRuleRequestSchema :: "json \<Rightarrow> rule_request option" where
  "aiRuleRequestSchema j = do {
     ob \<leftarrow> z_record j;
     p \<leftarrow> z_field ob ''prompt'' (z_text 3 4000);
     ids \<leftarrow> z_optional ob ''referenceRuleIds'' z_ids;
     n \<leftarrow> z_optional ob ''maxTokens'' z_positive;
     t \<leftarrow> z_default ob ''temperature'' (JNum 2 1) z_unit;
     Some \<lparr>rq_prompt = p, rq_references = ids, rq_maxTokens = map_option int n, rq_temperature = t\<rparr> }"

definition aiRuleResponseSchema :: "json \<Rightarrow> proposed_rule list option" where
  "aiRuleResponseSchema j = do {
     ob \<leftarrow> z_record j;
     z_field ob ''rules'' (z_array proposedRuleSchema) }"

definition typed :: "string \<Rightarrow> json" where
  "typed t = JObj [(''type'', JStr t)]"

definition object_schema :: "obj \<Rightarrow> string list \<Rightarrow> json" where
  "object_schema properties required = JObj [(''type'', JStr ''object''), (''properties'', JObj properties), (''required'', JArr (map JStr required))]"

definition array_schema :: "json \<Rightarrow> json" where
  "array_schema items = JObj [(''type'', JStr ''array''), (''items'', items)]"

definition ruleResponseFormatSchema :: json where
  "ruleResponseFormatSchema = JObj [(''type'', JStr ''json_schema''), (''json_schema'', object_schema
     [(''rules'', array_schema (object_schema [(''code'', typed ''string''), (''name'', typed ''string''), (''description'', typed ''string'')] [''code'', ''name'']))]
     [''rules''])]"

text \<open>The text itself, or what lies between its first opening and its last closing brace.\<close>

definition braced :: "string \<Rightarrow> string option" where
  "braced s =
     (let t = dropWhile (\<lambda>c. c \<noteq> CHR ''{'') s; u = rev (dropWhile (\<lambda>c. c \<noteq> CHR ''}'') (rev t)) in if u = [] then None else Some u)"

definition extractJson :: "app_env \<Rightarrow> string \<Rightarrow> err + json" where
  "extractJson E text' =
     (case json_parse text' of
        Some j \<Rightarrow> Inr j
      | None \<Rightarrow>
          (case braced text' of
             None \<Rightarrow> Inl (Error_msg ''No JSON object found in response'')
           | Some t \<Rightarrow> (case json_parse t of None \<Rightarrow> Inl (Error_msg (ae_syntax E)) | Some j \<Rightarrow> Inr j)))"

definition json_only :: string where
  "json_only = ''Return strict JSON only. Do not include any prose.''"

definition rule_prompt :: "analysis_env \<Rightarrow> string \<Rightarrow> rule_row list \<Rightarrow> string" where
  "rule_prompt I prompt references =
     Bridge_Gateway.js_trim (join_with nl [[],
       ''You are a policy rule writer. Create rules based on the user request.'',
       ''Return ONLY valid JSON with this shape:'',
       ''{'',
       with_quotes ''  `rules`: ['',
       with_quotes ''    { `code`: `snake_case_code`, `name`: `Rule name`, `description`: `Optional description` }'',
       ''  ]'',
       ''}'', [],
       ''User request:'', prompt, [],
       ''Referenced rules:'',
       (if references = [] then ''None''
        else join_with nl (map (\<lambda>r. ''- '' @ ru_code r @ '': '' @ ru_name r @ dashed I (ru_description r)) references)), [],
       ''Rules must be concise, distinct, and ready to use.'', []])"

text \<open>What both handlers do first and in the middle; the text of the model is given to \<open>use\<close>.\<close>

definition ask_model :: "app_env \<Rightarrow> analysis_env \<Rightarrow> auth_context \<Rightarrow> analysis_data \<Rightarrow> ai_client \<Rightarrow> string \<Rightarrow> string \<Rightarrow> int option \<Rightarrow> json \<Rightarrow> json
    \<Rightarrow> (string \<Rightarrow> (app_db, response) out) \<Rightarrow> app_db \<Rightarrow> (app_db, response) out" where
  "ask_model E I auth N A purpose prompt maxTokens temperature format use d =
     (case loadUserSettings True auth (nd_settings N) of
        Inl e \<Rightarrow> Fail e d
      | Inr s \<Rightarrow>
          (case createAiProviderForPurpose I N s purpose of
             Inl e \<Rightarrow> Fail e d
           | Inr x \<Rightarrow>
               (let n = (case maxTokens of Some n \<Rightarrow> n | None \<Rightarrow> (case rx_maxOutputTokens x of Some n \<Rightarrow> n | None \<Rightarrow> 1200));
                    m = \<lparr>am_system = json_only, am_user = prompt, am_maxTokens = n, am_temperature = temperature,
                      am_format = (if rx_providerKey x = ''cloudflare'' then Some format else None)\<rparr>
                in case provider_run E N A s x m of Inl e \<Rightarrow> Fail e d | Inr rawText \<Rightarrow> use rawText)))"

definition invalid_reply :: response where
  "invalid_reply = fail_answer 400 ''Invalid AI response''"

definition propose_rules :: "app_env \<Rightarrow> analysis_env \<Rightarrow> auth_context \<Rightarrow> analysis_data \<Rightarrow> ai_client \<Rightarrow> json option \<Rightarrow> app_db \<Rightarrow> response \<times> app_db" where
  "propose_rules E I auth N A body d =
     (if auth_user auth = None then (fail_answer 401 ''Unauthorized'', d)
      else settle_analysis E (and_then (parse_as aiRuleRequestSchema (case body of None \<Rightarrow> JObj [] | Some j \<Rightarrow> j) d) (\<lambda>q.
        with_workspaces auth (\<lambda>d1.
          let references = (case rq_references q of None \<Rightarrow> [] | Some ids \<Rightarrow> filter (\<lambda>r. ru_id r \<in> set ids) (ap_rules d1)) in
          ask_model E I auth N A ''rule_generation'' (rule_prompt I (rq_prompt q) references) (rq_maxTokens q) (rq_temperature q)
            ruleResponseFormatSchema
            (\<lambda>rawText. case extractJson E rawText of
               Inl e \<Rightarrow> Fail e d1
             | Inr parsed \<Rightarrow>
                 (case aiRuleResponseSchema parsed of
                    None \<Rightarrow> Done invalid_reply d1
                  | Some rs \<Rightarrow> Done (ok_answer 200 (JObj [(''rules'', JArr (map proposed_json rs))])) d1)) d1))))"

section \<open>Looking for duplicates\<close>

record rule_match =
  rm_id :: int
  rm_code :: string
  rm_name :: string
  rm_description :: "string option"
  rm_similarity :: json
  rm_reason :: "string option"

definition matchSchema :: "json \<Rightarrow> rule_match option" where
  "matchSchema j = do {
     ob \<leftarrow> z_record j;
     i \<leftarrow> z_field ob ''id'' z_positive;
     c \<leftarrow> z_field ob ''code'' z_string;
     n \<leftarrow> z_field ob ''name'' z_string;
     t \<leftarrow> z_field ob ''description'' (z_nullable z_string);
     s \<leftarrow> z_field ob ''similarity'' z_unit;
     r \<leftarrow> z_optional ob ''reason'' z_string;
     Some \<lparr>rm_id = int i, rm_code = c, rm_name = n, rm_description = t, rm_similarity = s, rm_reason = r\<rparr> }"

definition duplicateSchema :: "json \<Rightarrow> (nat \<times> rule_match list) option" where
  "duplicateSchema j = do {
     ob \<leftarrow> z_record j;
     i \<leftarrow> z_field ob ''proposedIndex'' z_nonneg;
     ms \<leftarrow> z_field ob ''matches'' (z_array matchSchema);
     Some (i, ms) }"

definition duplicatesResponseSchema :: "json \<Rightarrow> (nat \<times> rule_match list) list option" where
  "duplicatesResponseSchema j = do {
     ob \<leftarrow> z_record j;
     z_field ob ''duplicates'' (z_array duplicateSchema) }"

definition match_json :: "rule_match \<Rightarrow> json" where
  "match_json m = JObj ([(''id'', json_int (rm_id m)), (''code'', JStr (rm_code m)), (''name'', JStr (rm_name m)),
     (''description'', json_opt (rm_description m)), (''similarity'', rm_similarity m)] @ opt_field ''reason'' JStr (rm_reason m))"

definition duplicate_json :: "nat \<times> rule_match list \<Rightarrow> json" where
  "duplicate_json x = JObj [(''proposedIndex'', json_int (int (fst x))), (''matches'', JArr (map match_json (snd x)))]"

definition duplicatesRequestSchema :: "json \<Rightarrow> (proposed_rule list \<times> json) option" where
  "duplicatesRequestSchema j = do {
     ob \<leftarrow> z_record j;
     ps \<leftarrow> z_field ob ''proposed'' (z_array1 proposedRuleSchema);
     t \<leftarrow> z_default ob ''threshold'' (JNum 8 1) z_unit;
     (if length ps \<le> 50 then Some (ps, t) else None) }"

definition duplicatesResponseFormatSchema :: json where
  "duplicatesResponseFormatSchema = JObj [(''type'', JStr ''json_schema''), (''json_schema'', object_schema
     [(''duplicates'', array_schema (object_schema
        [(''proposedIndex'', typed ''integer''),
         (''matches'', array_schema (object_schema
            [(''id'', typed ''integer''), (''code'', typed ''string''), (''name'', typed ''string''),
             (''description'', JObj [(''type'', JArr [JStr ''string'', JStr ''null''])]), (''similarity'', typed ''number''), (''reason'', typed ''string'')]
            [''id'', ''code'', ''name'', ''similarity'', ''reason'']))]
        [''proposedIndex'', ''matches'']))]
     [''duplicates''])]"

text \<open>\<open>/^`{3,}\s*(?:json5?|json)\s*([\s\S]*?)\s*`{3,}$/i\<close> on the trimmed text\<close>

definition is_tick :: "char \<Rightarrow> bool" where
  "is_tick c \<longleftrightarrow> c = CHR 0x60"

definition stripCodeFence :: "string \<Rightarrow> string" where
  "stripCodeFence text' =
     (let t = Bridge_Gateway.js_trim text';
          a = dropWhile Bridge_Gateway.js_space (dropWhile is_tick t);
          b = (let r = drop 4 a in if r \<noteq> [] \<and> hd r = CHR ''5'' then tl r else r);
          c = dropWhile Bridge_Gateway.js_space b;
          ticks = takeWhile is_tick (rev c)
      in if 3 \<le> length (takeWhile is_tick t) \<and> js_lower (take 4 a) = ''json'' \<and> 3 \<le> length ticks
         then Bridge_Gateway.js_trim (rev (drop (length ticks) (rev c))) else text')"

definition findJsonCandidate :: "string \<Rightarrow> string" where
  "findJsonCandidate text' =
     (let fenced = stripCodeFence text' in
      if fenced \<noteq> text' then fenced
      else case dropWhile (\<lambda>c. c \<noteq> CHR ''{'' \<and> c \<noteq> CHR ''['') text' of
          [] \<Rightarrow> text'
        | c # t \<Rightarrow>
            (let endChar = (if c = CHR ''['' then CHR '']'' else CHR ''}'');
                 u = rev (dropWhile (\<lambda>x. x \<noteq> endChar) (rev (c # t)))
             in if u = [] then text' else u))"

definition extractRepaired :: "app_env \<Rightarrow> analysis_env \<Rightarrow> string \<Rightarrow> err + json" where
  "extractRepaired E I text' =
     (let candidate = findJsonCandidate text' in
      case json_parse candidate of
        Some j \<Rightarrow> Inr j
      | None \<Rightarrow> (case ie_repair I candidate of None \<Rightarrow> Inl (Error_msg (ae_syntax E)) | Some j \<Rightarrow> Inr j))"

text \<open>The elements of a list with their index.\<close>

definition indexed :: "'a list \<Rightarrow> (nat \<times> 'a) list" where
  "indexed xs = zip [0..<length xs] xs"

definition duplicates_prompt :: "analysis_env \<Rightarrow> json \<Rightarrow> rule_row list \<Rightarrow> proposed_rule list \<Rightarrow> string" where
  "duplicates_prompt I threshold existing proposed =
     Bridge_Gateway.js_trim (join_with nl ([[],
       ''You are checking for duplicate rules.'',
       ''Identify proposed rules that are duplicates of existing ones at similarity >= '' @ js_String threshold @ ''.'',
       ''Use a 0..1 similarity score. Only return matches that meet the threshold.'',
       ''Return JSON:'']
       @ map with_quotes [''{'', ''  `duplicates`: ['', ''    {'', ''      `proposedIndex`: number,'', ''      `matches`: ['', ''        {'',
         ''          `id`: number,'', ''          `code`: string,'', ''          `name`: string,'', ''          `description`: string|null,'',
         ''          `similarity`: number,'', ''          `reason`: string'', ''        }'', ''      ]'', ''    }'', ''  ]'', ''}'']
       @ [[], ''Existing rules:'',
       (if existing = [] then ''None'' else join_with nl (map (\<lambda>r. ''- ['' @ int_str (ru_id r) @ ''] '' @ ru_code r @ '': '' @ ru_name r
          @ dashed I (ru_description r)) existing)), [],
       ''Proposed rules:'',
       join_with nl (map (\<lambda>(i, r). ''#'' @ nat_str i @ '' '' @ pr_code r @ '': '' @ pr_name r @ dashed I (pr_description r)) (indexed proposed)), []]))"

definition find_duplicates :: "app_env \<Rightarrow> analysis_env \<Rightarrow> auth_context \<Rightarrow> analysis_data \<Rightarrow> ai_client \<Rightarrow> json option \<Rightarrow> app_db \<Rightarrow> response \<times> app_db" where
  "find_duplicates E I auth N A body d =
     (if auth_user auth = None then (fail_answer 401 ''Unauthorized'', d)
      else settle_analysis E (and_then (parse_as duplicatesRequestSchema (case body of None \<Rightarrow> JObj [] | Some j \<Rightarrow> j) d) (\<lambda>(proposed, threshold).
        with_workspaces auth (\<lambda>d1.
          ask_model E I auth N A ''rule_duplicate_check'' (duplicates_prompt I threshold (ap_rules d1) proposed) None (JNum 1 1)
            duplicatesResponseFormatSchema
            (\<lambda>rawText. case extractRepaired E I rawText of
               Inl e \<Rightarrow> Fail e d1
             | Inr parsed \<Rightarrow>
                 (case duplicatesResponseSchema parsed of
                    None \<Rightarrow> Done invalid_reply d1
                  | Some ds \<Rightarrow> Done (ok_answer 200 (JObj [(''duplicates'', JArr (map duplicate_json ds))])) d1)) d1))))"

section \<open>Both only read\<close>

lemma settle_analysis_state: "snd (settle_analysis E r) = out_state r"
  by (cases r) (simp_all add: settle_analysis_def)

lemma ask_model_state: "(\<And>t. out_state (use t) = d) \<Longrightarrow> out_state (ask_model E I auth N A purpose prompt n temperature format use d) = d"
  by (simp add: ask_model_def Let_def split: sum.split)

lemma with_workspaces_reads: "out_state (k d) = d \<Longrightarrow> out_state (with_workspaces auth k d) = d"
  by (simp add: with_workspaces_def split: sum.split list.split)

lemma parse_reads: "(\<And>x. out_state (k x d) = d) \<Longrightarrow> out_state (and_then (parse_as p j d) k) = d"
  by (simp add: parse_as_def split: option.split)

lemma propose_rules_state: "snd (propose_rules E I auth N A body d) = d"
  unfolding propose_rules_def Let_def
  by (simp add: settle_analysis_state) (intro impI parse_reads with_workspaces_reads ask_model_state, simp split: sum.split option.split)

lemma find_duplicates_state: "snd (find_duplicates E I auth N A body d) = d"
  unfolding find_duplicates_def
  by (simp add: settle_analysis_state) (intro impI parse_reads, clarsimp, intro with_workspaces_reads ask_model_state,
      simp split: sum.split option.split)

end
