(* ===== verification/Document_Analysis.thy ===== *)
theory Document_Analysis
  imports Rule_Ai
begin

text \<open>
  \<open>server/src/services/documents/inconsistencies.ts\<close>: a language model is asked for the contradictions between three texts of the request. The
  handler reads and writes no table. What the binding answers is a parameter, and so is the model the environment names.
\<close>

section \<open>The request\<close>

record compared_text =
  ct_id :: string
  ct_name :: string
  ct_content :: string

text \<open>\<open>z.string().min(1)\<close>\<close>

definition filled :: "json \<Rightarrow> string option" where
  "filled j = (case z_string j of None \<Rightarrow> None | Some s \<Rightarrow> if s = [] then None else Some s)"

definition comparedSchema :: "json \<Rightarrow> compared_text option" where
  "comparedSchema j = do {
     ob \<leftarrow> z_record j;
     i \<leftarrow> z_field ob ''id'' filled;
     n \<leftarrow> z_field ob ''name'' filled;
     t \<leftarrow> z_field ob ''content'' filled;
     Some \<lparr>ct_id = i, ct_name = n, ct_content = t\<rparr> }"

definition inconsistencyConfigSchema :: "json \<Rightarrow> (string \<times> string option) option" where
  "inconsistencyConfigSchema j = do {
     ob \<leftarrow> z_record j;
     k \<leftarrow> z_default ob ''analysisType'' ''comprehensive'' (one_of [''factual'', ''temporal'', ''semantic'', ''comprehensive'']);
     _ \<leftarrow> z_default ob ''outputFormat'' ''detailed'' (one_of [''summary'', ''detailed'', ''structured'']);
     c \<leftarrow> z_optional ob ''customInstructions'' z_string;
     Some (k, c) }"

definition inconsistencyAnalysisSchema :: "json \<Rightarrow> (compared_text list \<times> string \<times> string option) option" where
  "inconsistencyAnalysisSchema j = do {
     ob \<leftarrow> z_record j;
     docs \<leftarrow> z_field ob ''documents'' (z_array comparedSchema);
     config \<leftarrow> (if length docs = 3 then z_field ob ''config'' inconsistencyConfigSchema else None);
     Some (docs, config) }"

section \<open>The prompt\<close>

definition focus :: "string \<Rightarrow> string" where
  "focus analysisType =
     (if analysisType = ''factual''
      then ''Focus specifically on factual inconsistencies - dates, numbers, names, events, and other verifiable information.'' @ nl
      else if analysisType = ''temporal''
      then ''Focus specifically on temporal inconsistencies - timelines, sequence of events, date contradictions.'' @ nl
      else if analysisType = ''semantic''
      then ''Focus specifically on semantic inconsistencies - contradictory statements, different interpretations, conflicting meanings.'' @ nl
      else if analysisType = ''comprehensive''
      then ''Provide a comprehensive analysis covering all types of inconsistencies: factual, temporal, and semantic.'' @ nl
      else [])"

definition buildAnalysisPrompt :: "compared_text list \<Rightarrow> string \<times> string option \<Rightarrow> string" where
  "buildAnalysisPrompt docs config =
     (let docTexts = join_with (nl @ nl @ ''---'' @ nl @ nl)
            (map (\<lambda>(i, t). ''Document '' @ nat_str (Suc i) @ '' ('' @ ct_name t @ ''):'' @ nl @ ct_content t) (indexed docs))
      in ''Analyze the following 3 documents for inconsistencies:'' @ nl @ nl @ docTexts @ nl @ nl @ focus (fst config)
         @ (if present (snd config) then nl @ ''Additional instructions: '' @ the (snd config) @ nl else [])
         @ join_with nl ([[], ''Please identify and categorize inconsistencies using this JSON format:'']
             @ map with_quotes [''{'', ''  `inconsistencies`: ['', ''    {'', ''      `id`: `unique-id`,'', ''      `type`: `Factual|Temporal|Semantic`,'',
               ''      `documents`: [`doc-1`, `doc-2`],'', ''      `description`: `Clear description of the inconsistency`,'',
               ''      `severity`: `low|medium|high|critical`,'', ''      `suggestion`: `Recommendation for resolution`'', ''    }'', ''  ],'',
               ''  `summary`: `Brief summary of findings`'', ''}'']
             @ [[], ''Respond only with valid JSON.'']))"

section \<open>The answer of the model\<close>

definition suspect :: "string \<Rightarrow> bool" where
  "suspect line \<longleftrightarrow> js_includes (js_lower line) ''inconsist'' \<or> js_includes (js_lower line) ''conflict''"

definition extractInconsistenciesFromText :: "string \<Rightarrow> compared_text list \<Rightarrow> json list" where
  "extractInconsistenciesFromText text' docs =
     map (\<lambda>(i, line). JObj [(''id'', JStr (''inc-'' @ nat_str i)), (''type'', JStr ''Mixed''), (''documents'', JArr (map (\<lambda>t. JStr (ct_id t)) docs)),
         (''description'', JStr (Bridge_Gateway.js_trim line)), (''severity'', JStr ''medium''),
         (''suggestion'', JStr ''Review documents for clarification'')])
       (filter (\<lambda>(i, line). suspect line) (indexed (split_on (hd nl) text')))"

definition or_json :: "json option \<Rightarrow> json \<Rightarrow> json" where
  "or_json x dflt = (case x of None \<Rightarrow> dflt | Some j \<Rightarrow> if truthy j then j else dflt)"

text \<open>The inconsistencies and the summary; a reply that is not a text is turned into one by \<open>JSON.parse\<close>, and cannot be split when that fails.\<close>

definition parseAnalysisResults :: "json option \<Rightarrow> compared_text list \<Rightarrow> err + json \<times> json" where
  "parseAnalysisResults aiResponse docs =
     (case Option.bind aiResponse (\<lambda>r. json_parse (js_String r)) of
        Some parsed \<Rightarrow>
          (if parsed = JNull then
             (case aiResponse of
                Some (JStr s) \<Rightarrow> Inr (JArr (extractInconsistenciesFromText s docs), JStr (take 200 s @ ''...''))
              | _ \<Rightarrow> Inl type_error)
           else Inr (or_json (opt_prop ''inconsistencies'' (Some parsed)) (JArr []), or_json (opt_prop ''summary'' (Some parsed)) (JStr ''Analysis completed'')))
      | None \<Rightarrow>
          (case aiResponse of
             Some (JStr s) \<Rightarrow> Inr (JArr (extractInconsistenciesFromText s docs), JStr (take 200 s @ ''...''))
           | _ \<Rightarrow> Inl type_error))"

section \<open>The handler\<close>

definition comparison_system :: string where
  "comparison_system = ''You are an expert document analyst specializing in identifying inconsistencies across multiple documents. Provide detailed, actionable analysis.''"

definition comparison_failed :: response where
  "comparison_failed = answer 500 [(''error'', JStr ''Failed to analyze documents'')]"

definition compare_texts :: "analysis_env \<Rightarrow> ai_client \<Rightarrow> string option \<Rightarrow> compared_text list \<Rightarrow> string \<times> string option \<Rightarrow> err + json \<times> json" where
  "compare_texts I A aiModel docs config =
     (if \<not> ie_ai I then Inl (Error_msg ''AI binding not available'')
      else case al_run A (if present aiModel then the aiModel else ''@cf/meta/llama-3.1-8b-instruct'')
               (JObj [(''messages'', JArr [chat_message ''system'' comparison_system, chat_message ''user'' (buildAnalysisPrompt docs config)]),
                  (''max_tokens'', json_int 2000), (''temperature'', JNum 3 1)]) of
          Inl e \<Rightarrow> Inl e
        | Inr raw \<Rightarrow> parseAnalysisResults raw docs)"

definition handleAnalyzeInconsistencies :: "doc_env \<Rightarrow> analysis_env \<Rightarrow> ai_client \<Rightarrow> string option \<Rightarrow> json option \<Rightarrow> response" where
  "handleAnalyzeInconsistencies D I A aiModel body =
     (case body of
        None \<Rightarrow> comparison_failed
      | Some j \<Rightarrow>
          (case inconsistencyAnalysisSchema j of
             None \<Rightarrow> fail_answer 400 ''Validation error''
           | Some (docs, config) \<Rightarrow>
               (case compare_texts I A aiModel docs config of
                  Inl e \<Rightarrow> comparison_failed
                | Inr (inconsistencies, summary) \<Rightarrow>
                    answer 200 [(''inconsistencies'', inconsistencies), (''summary'', summary),
                      (''analysisId'', JStr (''analysis-'' @ nat_str (de_now_ms D) @ ''-'' @ de_uuid D)), (''timestamp'', JStr (de_iso D))])))"

section \<open>What it makes of a plain text\<close>

text \<open>Every suspect line of a plain text becomes one inconsistency, and nothing else does.\<close>

lemma text_inconsistencies: "length (extractInconsistenciesFromText s docs) = length (filter suspect (split_on (hd nl) s))"
proof -
  have "length (filter (\<lambda>(i, line). suspect line) (zip [0..<length xs] xs)) = length (filter suspect xs)" for xs :: "string list"
  proof -
    have "filter suspect xs = map snd (filter (\<lambda>(i, line). suspect line) (zip [0..<length xs] xs))"
      by (subst map_snd_zip[of "[0..<length xs]" xs, symmetric]) (simp_all add: filter_map comp_def case_prod_unfold del: map_snd_zip)
    then show ?thesis by simp
  qed
  then show ?thesis by (simp add: extractInconsistenciesFromText_def indexed_def)
qed

end
