(* ===== verification/App_Routes.thy ===== *)
theory App_Routes
  imports Document_Analysis
begin

text \<open>
  The routes of the application as \<open>server/src/index.ts\<close> and \<open>server/src/routes/documents.ts\<close> register them: a request that has passed
  \<open>authMiddleware\<close> is given to its handler. The parts of a request are the parameters of its path, its query and its body. A request that
  involves a language model also carries what its handler finds outside the tables of the application: its environment, the tables of responders and
  jobs, the clients, and the marks of the jobs in the key-value store.
\<close>

record model_world =
  mw_env :: analysis_env
  mw_data :: analysis_data
  mw_client :: ai_client
  mw_provider :: kv_marks
  mw_consumed :: kv_marks

definition store_of :: "model_world \<Rightarrow> app_db \<Rightarrow> analysis_store" where
  "store_of W d = \<lparr>nv_app = d, nv_provider = mw_provider W, nv_consumed = mw_consumed W, nv_skipped = [], nv_requests = []\<rparr>"

datatype app_request =
    List_workspaces
  | Create_workspace "json option"
  | Get_workspace string
  | Update_workspace string "json option"
  | Delete_workspace string
  | Clone_workspace string
  | List_workspace_rules string
  | Link_workspace_rule string "json option"
  | Unlink_workspace_rule string string
  | List_projects "string option"
  | Create_project "json option"
  | Get_project string
  | Update_project string "json option"
  | Delete_project string
  | List_project_rules string
  | Link_project_rule string "json option"
  | Unlink_project_rule string string
  | List_project_rule_sets string
  | Link_project_rule_set string "json option"
  | Unlink_project_rule_set string string
  | List_effective_rules string
  | Analyze_issues model_world string "json option"
  | Analysis_status model_world string string
  | Consume_analysis model_world string string "json option"
  | Propose_rules model_world "json option"
  | Find_duplicates model_world "json option"
  | Document_upload "string \<Rightarrow> string option" upload_request
  | Document_status string
  | Document_content string
  | Document_analyze string "json option"
  | Document_results string string
  | Document_list "string option"
  | Document_delete string
  | Document_inconsistencies model_world "string option" "json option"
  | List_rules "string option"
  | Create_rule "json option"
  | Get_rule string
  | Update_rule string "json option"
  | Delete_rule string
  | List_rule_sets
  | Create_rule_set "json option"
  | Get_rule_set string
  | Update_rule_set string "json option"
  | Delete_rule_set string
  | List_rule_set_rules string
  | Link_rule_set_rule string "json option"
  | Unlink_rule_set_rule string string
  | List_issues "string option"
  | Get_issue string
  | Create_issue "json option"
  | Update_issue string "json option"
  | Delete_issue string

fun workspace_route :: "app_env \<Rightarrow> auth_context \<Rightarrow> app_request \<Rightarrow> app_db \<Rightarrow> response \<times> app_db" where
  "workspace_route E auth List_workspaces d = list_workspaces E auth d"
| "workspace_route E auth (Create_workspace b) d = create_workspace E auth b d"
| "workspace_route E auth (Get_workspace i) d = get_workspace E auth i d"
| "workspace_route E auth (Update_workspace i b) d = update_workspace E auth i b d"
| "workspace_route E auth (Delete_workspace i) d = delete_workspace E auth i d"
| "workspace_route E auth (Clone_workspace i) d = clone_workspace E auth i d"
| "workspace_route E auth (List_workspace_rules i) d = list_workspace_rules E auth i d"
| "workspace_route E auth (Link_workspace_rule i b) d = link_workspace_rule E auth i b d"
| "workspace_route E auth (Unlink_workspace_rule i r) d = unlink_workspace_rule E auth i r d"
| "workspace_route E auth _ d = (fail_answer 404 ''Endpoint not found'', d)"

fun project_route :: "app_env \<Rightarrow> auth_context \<Rightarrow> app_request \<Rightarrow> app_db \<Rightarrow> response \<times> app_db" where
  "project_route E auth (List_projects q) d = list_projects E auth q d"
| "project_route E auth (Create_project b) d = create_project E auth b d"
| "project_route E auth (Get_project i) d = get_project E auth i d"
| "project_route E auth (Update_project i b) d = update_project E auth i b d"
| "project_route E auth (Delete_project i) d = delete_project E auth i d"
| "project_route E auth (List_project_rules i) d = list_project_rules E auth i d"
| "project_route E auth (Link_project_rule i b) d = link_project_rule E auth i b d"
| "project_route E auth (Unlink_project_rule i r) d = unlink_project_rule E auth i r d"
| "project_route E auth (List_project_rule_sets i) d = list_project_rule_sets E auth i d"
| "project_route E auth (Link_project_rule_set i b) d = link_project_rule_set E auth i b d"
| "project_route E auth (Unlink_project_rule_set i r) d = unlink_project_rule_set E auth i r d"
| "project_route E auth (List_effective_rules i) d = list_effective_rules E auth i d"
| "project_route E auth _ d = (fail_answer 404 ''Endpoint not found'', d)"

fun document_handler :: "app_env \<Rightarrow> doc_env \<Rightarrow> auth_context \<Rightarrow> app_request \<Rightarrow> app_db \<Rightarrow> response \<times> app_db" where
  "document_handler E D auth (Document_upload cfg req) d = handleDocumentUpload E D cfg auth req d"
| "document_handler E D auth (Document_status i) d = handleDocumentStatus E D auth i d"
| "document_handler E D auth (Document_content i) d = handleDocumentContent E auth i d"
| "document_handler E D auth (Document_analyze i b) d = handleDocumentAnalyze E D auth i b d"
| "document_handler E D auth (Document_results i a) d = handleDocumentAnalysisResults E D auth i a d"
| "document_handler E D auth (Document_list q) d = handleDocumentList E D auth q d"
| "document_handler E D auth (Document_delete i) d = handleDocumentDelete E D auth i d"
| "document_handler E D auth (Document_inconsistencies W m b) d = (handleAnalyzeInconsistencies D (mw_env W) (mw_client W) m b, d)"
| "document_handler E D auth _ d = (fail_answer 404 ''Endpoint not found'', d)"

text \<open>The router of the documents runs its middleware before every handler.\<close>

definition document_route :: "app_env \<Rightarrow> doc_env \<Rightarrow> auth_context \<Rightarrow> app_request \<Rightarrow> app_db \<Rightarrow> response \<times> app_db" where
  "document_route E D auth q d = document_handler E D auth q (documents_middleware E auth d)"

fun rule_route :: "app_env \<Rightarrow> auth_context \<Rightarrow> app_request \<Rightarrow> app_db \<Rightarrow> response \<times> app_db" where
  "rule_route E auth (List_rules q) d = list_rules E auth q d"
| "rule_route E auth (Create_rule b) d = create_rule E auth b d"
| "rule_route E auth (Get_rule i) d = get_rule E auth i d"
| "rule_route E auth (Update_rule i b) d = update_rule E auth i b d"
| "rule_route E auth (Delete_rule i) d = delete_rule E auth i d"
| "rule_route E auth List_rule_sets d = list_rule_sets E auth d"
| "rule_route E auth (Create_rule_set b) d = create_rule_set E auth b d"
| "rule_route E auth (Get_rule_set i) d = get_rule_set E auth i d"
| "rule_route E auth (Update_rule_set i b) d = update_rule_set E auth i b d"
| "rule_route E auth (Delete_rule_set i) d = delete_rule_set E auth i d"
| "rule_route E auth (List_rule_set_rules i) d = list_rule_set_rules E auth i d"
| "rule_route E auth (Link_rule_set_rule i b) d = link_rule_set_rule E auth i b d"
| "rule_route E auth (Unlink_rule_set_rule i r) d = unlink_rule_set_rule E auth i r d"
| "rule_route E auth _ d = (fail_answer 404 ''Endpoint not found'', d)"

fun issue_route :: "app_env \<Rightarrow> auth_context \<Rightarrow> app_request \<Rightarrow> app_db \<Rightarrow> response \<times> app_db" where
  "issue_route E auth (List_issues q) d = list_issues q d"
| "issue_route E auth (Get_issue i) d = get_issue i d"
| "issue_route E auth (Create_issue b) d = create_issue E b d"
| "issue_route E auth (Update_issue i b) d = update_issue E auth i b d"
| "issue_route E auth (Delete_issue i) d = delete_issue i d"
| "issue_route E auth _ d = (fail_answer 404 ''Endpoint not found'', d)"

fun model_route :: "app_env \<Rightarrow> doc_env \<Rightarrow> auth_context \<Rightarrow> app_request \<Rightarrow> app_db \<Rightarrow> response \<times> app_db" where
  "model_route E D auth (Analyze_issues W i b) d = (let (r, S) = analyze_issues E (mw_env W) auth (mw_data W) i b (store_of W d) in (r, nv_app S))"
| "model_route E D auth (Analysis_status W i j) d = analysis_status E auth (mw_data W) i j d"
| "model_route E D auth (Consume_analysis W i j b) d =
     (let (r, S) = consume_analysis E D (mw_env W) auth (mw_data W) i j b (store_of W d) in (r, nv_app S))"
| "model_route E D auth (Propose_rules W b) d = propose_rules E (mw_env W) auth (mw_data W) (mw_client W) b d"
| "model_route E D auth (Find_duplicates W b) d = find_duplicates E (mw_env W) auth (mw_data W) (mw_client W) b d"
| "model_route E D auth _ d = (fail_answer 404 ''Endpoint not found'', d)"

fun is_workspace_request :: "app_request \<Rightarrow> bool" where
  "is_workspace_request List_workspaces = True"
| "is_workspace_request (Create_workspace _) = True"
| "is_workspace_request (Get_workspace _) = True"
| "is_workspace_request (Update_workspace _ _) = True"
| "is_workspace_request (Delete_workspace _) = True"
| "is_workspace_request (Clone_workspace _) = True"
| "is_workspace_request (List_workspace_rules _) = True"
| "is_workspace_request (Link_workspace_rule _ _) = True"
| "is_workspace_request (Unlink_workspace_rule _ _) = True"
| "is_workspace_request _ = False"

fun is_project_request :: "app_request \<Rightarrow> bool" where
  "is_project_request (List_projects _) = True"
| "is_project_request (Create_project _) = True"
| "is_project_request (Get_project _) = True"
| "is_project_request (Update_project _ _) = True"
| "is_project_request (Delete_project _) = True"
| "is_project_request (List_project_rules _) = True"
| "is_project_request (Link_project_rule _ _) = True"
| "is_project_request (Unlink_project_rule _ _) = True"
| "is_project_request (List_project_rule_sets _) = True"
| "is_project_request (Link_project_rule_set _ _) = True"
| "is_project_request (Unlink_project_rule_set _ _) = True"
| "is_project_request (List_effective_rules _) = True"
| "is_project_request _ = False"

fun is_document_request :: "app_request \<Rightarrow> bool" where
  "is_document_request (Document_upload _ _) = True"
| "is_document_request (Document_status _) = True"
| "is_document_request (Document_content _) = True"
| "is_document_request (Document_analyze _ _) = True"
| "is_document_request (Document_results _ _) = True"
| "is_document_request (Document_list _) = True"
| "is_document_request (Document_delete _) = True"
| "is_document_request (Document_inconsistencies _ _ _) = True"
| "is_document_request _ = False"

fun is_issue_request :: "app_request \<Rightarrow> bool" where
  "is_issue_request (List_issues _) = True"
| "is_issue_request (Get_issue _) = True"
| "is_issue_request (Create_issue _) = True"
| "is_issue_request (Update_issue _ _) = True"
| "is_issue_request (Delete_issue _) = True"
| "is_issue_request _ = False"

fun is_model_request :: "app_request \<Rightarrow> bool" where
  "is_model_request (Analyze_issues _ _ _) = True"
| "is_model_request (Analysis_status _ _ _) = True"
| "is_model_request (Consume_analysis _ _ _ _) = True"
| "is_model_request (Propose_rules _ _) = True"
| "is_model_request (Find_duplicates _ _) = True"
| "is_model_request _ = False"

definition app_step :: "app_env \<Rightarrow> doc_env \<Rightarrow> auth_context \<Rightarrow> app_request \<Rightarrow> app_db \<Rightarrow> response \<times> app_db" where
  "app_step E D auth q d =
     (if is_workspace_request q then workspace_route E auth q d
      else if is_project_request q then project_route E auth q d
      else if is_model_request q then model_route E D auth q d
      else if is_document_request q then document_route E D auth q d
      else if is_issue_request q then issue_route E auth q d
      else rule_route E auth q d)"

text \<open>What each of several requests finds: its clock and texts, and who sends it.\<close>

record app_call =
  cl_env :: app_env
  cl_doc :: doc_env
  cl_auth :: auth_context
  cl_request :: app_request

definition app_call_step :: "app_call \<Rightarrow> app_db \<Rightarrow> response \<times> app_db" where
  "app_call_step q d = app_step (cl_env q) (cl_doc q) (cl_auth q) (cl_request q) d"

fun app_run :: "app_call list \<Rightarrow> app_db \<Rightarrow> response list \<times> app_db" where
  "app_run [] d = ([], d)"
| "app_run (q # qs) d = (let (a, d1) = app_call_step q d; (as, d2) = app_run qs d1 in (a # as, d2))"

end
