(* ===== verification/App_Correct.thy ===== *)
theory App_Correct
  imports App_Routes
begin

text \<open>
  The application around the gateway: what every request keeps of the tables (keys used once, valid foreign keys, unique pairs), and what the
  requests of one user keep of what the others own.
\<close>

section \<open>Tables in order\<close>

definition keys_fit :: "int \<Rightarrow> int list \<Rightarrow> bool" where
  "keys_fit n ks \<longleftrightarrow> distinct ks \<and> 0 < n \<and> list_all (\<lambda>k. 0 < k \<and> k < n) ks"

definition linked_ok :: "int \<Rightarrow> link_row list \<Rightarrow> int list \<Rightarrow> int list \<Rightarrow> bool \<Rightarrow> bool" where
  "linked_ok n ls fs ts once \<longleftrightarrow> keys_fit n (map ln_id ls) \<and> set (map ln_from ls) \<subseteq> set fs \<and> set (map ln_to ls) \<subseteq> set ts
     \<and> (once \<longrightarrow> distinct (map (\<lambda>l. (ln_from l, ln_to l)) ls))"

definition inside :: "int list \<Rightarrow> int list \<Rightarrow> bool" where
  "inside xs ks \<longleftrightarrow> set xs \<subseteq> set ks"

definition app_wf :: "app_db \<Rightarrow> bool" where
  "app_wf d \<longleftrightarrow>
     keys_fit (ap_next d Workspaces) (map ws_id (ap_workspaces d)) \<and> keys_fit (ap_next d Projects) (map pj_id (ap_projects d))
     \<and> keys_fit (ap_next d Documents) (map dc_id (ap_documents d)) \<and> keys_fit (ap_next d Issues) (map iu_id (ap_issues d))
     \<and> keys_fit (ap_next d Rules) (map ru_id (ap_rules d)) \<and> keys_fit (ap_next d Rule_sets) (map se_id (ap_ruleSets d))
     \<and> distinct (map ru_code (ap_rules d))
     \<and> inside (map pj_workspaceId (ap_projects d)) (map ws_id (ap_workspaces d))
     \<and> inside (map dc_projectId (ap_documents d)) (map pj_id (ap_projects d))
     \<and> inside (map iu_projectId (ap_issues d)) (map pj_id (ap_projects d))
     \<and> linked_ok (ap_next d Project_rules) (ap_projectRules d) (map pj_id (ap_projects d)) (map ru_id (ap_rules d)) True
     \<and> linked_ok (ap_next d Workspace_rules) (ap_workspaceRules d) (map ws_id (ap_workspaces d)) (map ru_id (ap_rules d)) True
     \<and> linked_ok (ap_next d Rule_set_rules) (ap_ruleSetRules d) (map se_id (ap_ruleSets d)) (map ru_id (ap_rules d)) True
     \<and> linked_ok (ap_next d Project_rule_sets) (ap_projectRuleSets d) (map pj_id (ap_projects d)) (map se_id (ap_ruleSets d)) True
     \<and> linked_ok (ap_next d Issue_rules) (ap_issueRules d) (map iu_id (ap_issues d)) (map ru_id (ap_rules d)) False
     \<and> keys_fit (ap_next d Issue_documents) (map an_id (ap_issueDocuments d))
     \<and> inside (map an_issueId (ap_issueDocuments d)) (map iu_id (ap_issues d))
     \<and> inside (map an_documentId (ap_issueDocuments d)) (map dc_id (ap_documents d))"

lemma empty_app_wf: "app_wf empty_app"
  by (simp add: app_wf_def keys_fit_def linked_ok_def inside_def empty_app_def)

subsection \<open>Rules for the parts\<close>

named_theorems wf_parts

lemma keys_snoc [wf_parts]: "keys_fit n ks \<Longrightarrow> keys_fit (n + 1) (ks @ [n])"
  by (auto simp: keys_fit_def list_all_iff)

lemma keys_filter [wf_parts]: "keys_fit n (map f rs) \<Longrightarrow> keys_fit n (map f (filter P rs))"
  by (auto simp: keys_fit_def list_all_iff distinct_map inj_on_def)

lemma distinct_map_filter' [wf_parts]: "distinct (map f rs) \<Longrightarrow> distinct (map f (filter P rs))"
  by (rule distinct_map_filter)

lemma inside_snoc [wf_parts]: "inside xs ks \<Longrightarrow> k \<in> set ks \<Longrightarrow> inside (xs @ [k]) ks"
  by (simp add: inside_def)

lemma inside_more [wf_parts]: "inside xs ks \<Longrightarrow> inside xs (ks @ [k])"
  by (auto simp: inside_def)

lemma inside_filter [wf_parts]: "inside (map f rs) ks \<Longrightarrow> inside (map f (filter P rs)) ks"
  by (auto simp: inside_def)

lemma inside_cascade [wf_parts]:
  "inside (map f rs) (map g qs) \<Longrightarrow> inside (map f (filter (\<lambda>r. f r \<notin> g ` {x \<in> set qs. Q x}) rs)) (map g (filter (\<lambda>q. \<not> Q q) qs))"
  by (fastforce simp: inside_def)

lemma linked_filter [wf_parts]: "linked_ok n ls fs ts once \<Longrightarrow> linked_ok n (filter P ls) fs ts once"
  by (auto simp: linked_ok_def intro: wf_parts)

lemma linked_from [wf_parts]:
  assumes "linked_ok n ls (map g qs) ts once"
  shows "linked_ok n (filter (\<lambda>l. ln_from l \<notin> g ` {x \<in> set qs. Q x}) ls) (map g (filter (\<lambda>q. \<not> Q q) qs)) ts once"
  using linked_filter[OF assms] inside_cascade[of ln_from ls g qs Q] assms by (simp add: linked_ok_def inside_def)

lemma linked_to [wf_parts]:
  assumes "linked_ok n ls fs (map g qs) once"
  shows "linked_ok n (filter (\<lambda>l. ln_to l \<notin> g ` {x \<in> set qs. Q x}) ls) fs (map g (filter (\<lambda>q. \<not> Q q) qs)) once"
  using linked_filter[OF assms] inside_cascade[of ln_to ls g qs Q] assms by (simp add: linked_ok_def inside_def)

lemma linked_more_from [wf_parts]: "linked_ok n ls fs ts once \<Longrightarrow> linked_ok n ls (fs @ [k]) ts once"
  by (auto simp: linked_ok_def)

lemma linked_more_to [wf_parts]: "linked_ok n ls fs ts once \<Longrightarrow> linked_ok n ls fs (ts @ [k]) once"
  by (auto simp: linked_ok_def)

lemma link_appended:
  assumes "linked_ok n ls fs ts once" "a \<in> set fs" "b \<in> set ts" "once \<Longrightarrow> \<not> list_ex (\<lambda>l. ln_from l = a \<and> ln_to l = b) ls"
  shows "linked_ok (n + 1) (ls @ [\<lparr>ln_id = n, ln_from = a, ln_to = b\<rparr>]) fs ts once"
  using assms keys_snoc[of n "map ln_id ls"] by (auto simp: linked_ok_def list_ex_iff)

section \<open>Statements keep the tables in order\<close>

lemma insert_workspace_wf:
  assumes "app_wf d"
  shows "app_wf (snd (insert_workspace now n ow p a d))"
  using assms by (simp add: app_wf_def insert_workspace_def bump_def Let_def wf_parts)

lemma insert_project_wf:
  assumes "app_wf d" "insert_project now n t w d = Done row d'"
  shows "app_wf d'"
  using assms by (auto simp: app_wf_def insert_project_def bump_def Let_def wf_parts split: if_splits)

lemma insert_document_wf:
  assumes "app_wf d" "insert_document now p f ty c u k s d = Done row d'"
  shows "app_wf d'"
  using assms by (auto simp: app_wf_def insert_document_def bump_def Let_def wf_parts split: if_splits)

lemma insert_issue_wf:
  assumes "app_wf d" "insert_issue now ti de pr st og p d = Done row d'"
  shows "app_wf d'"
  using assms by (auto simp: app_wf_def insert_issue_def bump_def Let_def wf_parts split: if_splits)

lemma insert_rule_wf:
  assumes "app_wf d" "insert_rule now c n t u d = Done row d'"
  shows "app_wf d'"
  using assms by (auto simp: app_wf_def insert_rule_def bump_def Let_def wf_parts split: if_splits)

lemma insert_rule_set_wf:
  assumes "app_wf d"
  shows "app_wf (snd (insert_rule_set now n t d))"
  using assms by (simp add: app_wf_def insert_rule_set_def bump_def Let_def wf_parts)

lemma insert_link_wf:
  assumes "app_wf d" "insert_link t a b d = Done u d'"
  shows "app_wf d'"
  using assms by (cases t) (auto simp: app_wf_def insert_link_def bump_def wf_parts split: if_splits intro!: link_appended)

lemma insert_links_from_wf:
  assumes "app_wf d" "insert_links_from t a bs d = Done u d'"
  shows "app_wf d'"
  using assms by (induction bs arbitrary: d) (auto simp: and_then_Done_iff intro: insert_link_wf)

lemma insert_anchors_from_wf:
  assumes "app_wf d" "insert_anchors_from i as d = Done u d'"
  shows "app_wf d'"
  using assms
proof (induction i as d rule: insert_anchors_from.induct)
  case (2 i j kind text' as d)
  then obtain d1 where "insert_anchor i j kind text' d = Done () d1" "insert_anchors_from i as d1 = Done u d'"
    by (auto simp: and_then_Done_iff)
  moreover have "app_wf d1" using calculation(1) 2(2)
    by (auto simp: app_wf_def insert_anchor_def bump_def wf_parts split: if_splits)
  ultimately show ?case using 2(1) by blast
qed simp

text \<open>A statement that fails has changed nothing.\<close>

lemma atomically_wf:
  assumes "P d" "\<And>u d'. f d = Done u d' \<Longrightarrow> P d'"
  shows "P (out_state (atomically f d))"
  using assms by (cases "f d") auto

lemma insert_links_wf: "app_wf d \<Longrightarrow> app_wf (out_state (insert_links t a bs d))"
  unfolding insert_links_def by (rule atomically_wf) (auto intro: insert_links_from_wf)

lemma insert_anchors_wf: "app_wf d \<Longrightarrow> app_wf (out_state (insert_anchors i as d))"
  unfolding insert_anchors_def by (rule atomically_wf) (auto intro: insert_anchors_from_wf)

section \<open>Deletion keeps the tables in order\<close>

lemma delete_links_wf: "app_wf d \<Longrightarrow> app_wf (delete_links t P d)"
  by (cases t) (simp_all add: app_wf_def delete_links_def wf_parts)

lemmas delete_defs = delete_issues_def delete_documents_def delete_projects_def delete_workspaces_def delete_rules_def delete_rule_sets_def
  drop_links_def drop_links_to_def delete_links_def Let_def

lemma delete_issues_wf: "app_wf d \<Longrightarrow> app_wf (delete_issues P d)"
  by (simp add: app_wf_def delete_defs wf_parts)

lemma delete_documents_wf: "app_wf d \<Longrightarrow> app_wf (delete_documents P d)"
  by (simp add: app_wf_def delete_defs wf_parts)

lemma delete_rules_wf: "app_wf d \<Longrightarrow> app_wf (delete_rules P d)"
  by (simp add: app_wf_def delete_defs wf_parts)

lemma delete_rule_sets_wf: "app_wf d \<Longrightarrow> app_wf (delete_rule_sets P d)"
  by (simp add: app_wf_def delete_defs wf_parts)

lemma delete_projects_wf: "app_wf d \<Longrightarrow> app_wf (delete_projects P d)"
  by (simp add: app_wf_def delete_defs wf_parts del: filter_filter)

lemma delete_workspaces_wf: "app_wf d \<Longrightarrow> app_wf (delete_workspaces P d)"
  by (simp add: app_wf_def delete_defs wf_parts del: filter_filter)

end
