(* ===== verification/App_Isolation.thy ===== *)
theory App_Isolation
  imports App_Correct
begin

text \<open>
  What the workspaces, projects and documents of other users keep while one user sends requests: the rows of the others as a view of the tables,
  one lemma per statement that it spares them, and one per handler.
\<close>

section \<open>What the others own\<close>

definition owner_of :: "workspace_row \<Rightarrow> string" where
  "owner_of w = js_lower (Bridge_Gateway.js_trim (ws_ownerId w))"

definition their_workspaces :: "string \<Rightarrow> app_db \<Rightarrow> workspace_row list" where
  "their_workspaces e d = filter (\<lambda>w. owner_of w \<noteq> e) (ap_workspaces d)"

definition their_places :: "string \<Rightarrow> app_db \<Rightarrow> int set" where
  "their_places e d = ws_id ` set (their_workspaces e d)"

definition their_projects :: "string \<Rightarrow> app_db \<Rightarrow> project_row list" where
  "their_projects e d = filter (\<lambda>p. pj_workspaceId p \<in> their_places e d) (ap_projects d)"

definition their_plans :: "string \<Rightarrow> app_db \<Rightarrow> int set" where
  "their_plans e d = pj_id ` set (their_projects e d)"

text \<open>Their workspaces, projects, documents and issues, and the rules they gave to their workspaces and projects.\<close>

definition theirs :: "string \<Rightarrow> app_db \<Rightarrow> workspace_row list \<times> project_row list \<times> document_row list \<times> issue_row list \<times> link_row list \<times> link_row list
    \<times> link_row list" where
  "theirs e d = (their_workspaces e d, their_projects e d, filter (\<lambda>r. dc_projectId r \<in> their_plans e d) (ap_documents d),
     filter (\<lambda>r. iu_projectId r \<in> their_plans e d) (ap_issues d),
     filter (\<lambda>l. ln_from l \<in> their_places e d) (ap_workspaceRules d), filter (\<lambda>l. ln_from l \<in> their_plans e d) (ap_projectRules d),
     filter (\<lambda>l. ln_from l \<in> their_plans e d) (ap_projectRuleSets d))"

definition spares :: "string \<Rightarrow> app_db \<Rightarrow> app_db \<Rightarrow> bool" where
  "spares e d d' \<longleftrightarrow> app_wf d' \<and> theirs e d' = theirs e d"

text \<open>The requests of a user are those of his normalised address; a service acts as nobody.\<close>

definition acts_as :: "string \<Rightarrow> auth_context \<Rightarrow> bool" where
  "acts_as e auth \<longleftrightarrow> (case getUserEmail auth of Inl _ \<Rightarrow> True | Inr e' \<Rightarrow> e' = e)"

lemma spares_refl: "app_wf d \<Longrightarrow> spares e d d"
  by (simp add: spares_def)

lemma spares_trans: "spares e d d1 \<Longrightarrow> spares e d1 d2 \<Longrightarrow> spares e d d2"
  by (simp add: spares_def)

lemma spares_wf: "spares e d d1 \<Longrightarrow> app_wf d1"
  by (simp add: spares_def)

lemma their_places_spared: "spares e d d1 \<Longrightarrow> their_places e d1 = their_places e d"
  by (simp add: spares_def theirs_def their_places_def)

lemma their_plans_spared: "spares e d d1 \<Longrightarrow> their_plans e d1 = their_plans e d"
  by (simp add: spares_def theirs_def their_plans_def)

text \<open>It is enough to compare the tables by the keys the others have before.\<close>

lemma sparesI:
  assumes "app_wf d'" and "their_workspaces e d' = their_workspaces e d"
    and "filter (\<lambda>p. pj_workspaceId p \<in> their_places e d) (ap_projects d') = filter (\<lambda>p. pj_workspaceId p \<in> their_places e d) (ap_projects d)"
    and "filter (\<lambda>r. dc_projectId r \<in> their_plans e d) (ap_documents d') = filter (\<lambda>r. dc_projectId r \<in> their_plans e d) (ap_documents d)"
    and "filter (\<lambda>r. iu_projectId r \<in> their_plans e d) (ap_issues d') = filter (\<lambda>r. iu_projectId r \<in> their_plans e d) (ap_issues d)"
    and "filter (\<lambda>l. ln_from l \<in> their_places e d) (ap_workspaceRules d') = filter (\<lambda>l. ln_from l \<in> their_places e d) (ap_workspaceRules d)"
    and "filter (\<lambda>l. ln_from l \<in> their_plans e d) (ap_projectRules d') = filter (\<lambda>l. ln_from l \<in> their_plans e d) (ap_projectRules d)"
    and "filter (\<lambda>l. ln_from l \<in> their_plans e d) (ap_projectRuleSets d') = filter (\<lambda>l. ln_from l \<in> their_plans e d) (ap_projectRuleSets d)"
  shows "spares e d d'"
proof -
  have places: "their_places e d' = their_places e d" using assms(2) by (simp add: their_places_def)
  have projects: "their_projects e d' = their_projects e d" using assms(3) by (simp add: their_projects_def places)
  have "their_plans e d' = their_plans e d" by (simp add: their_plans_def projects)
  then show ?thesis using assms by (simp add: spares_def theirs_def places projects)
qed

section \<open>Normal form of an address\<close>

lemma js_space_code: "Bridge_Gateway.js_space c \<longleftrightarrow> (of_char c :: nat) \<in> {9, 10, 11, 12, 13, 32, 160}"
  by (simp add: Bridge_Gateway.js_space_def)

lemma lower_space: "Bridge_Gateway.js_space (js_lower_char c) \<longleftrightarrow> Bridge_Gateway.js_space c"
proof -
  have "(of_char c :: nat) < 256" by simp
  then show ?thesis by (auto simp: js_space_code js_lower_char_def Let_def)
qed

lemma lower_lower: "js_lower_char (js_lower_char c) = js_lower_char c"
proof -
  have "(of_char c :: nat) < 256" by simp
  then show ?thesis by (auto simp: js_lower_char_def Let_def)
qed

lemma dropWhile_lower: "dropWhile Bridge_Gateway.js_space (js_lower s) = js_lower (dropWhile Bridge_Gateway.js_space s)"
  by (simp add: js_lower_def dropWhile_map comp_def lower_space)

lemma trim_lower: "Bridge_Gateway.js_trim (js_lower s) = js_lower (Bridge_Gateway.js_trim s)"
proof -
  have r: "rev (js_lower t) = js_lower (rev t)" for t by (simp add: js_lower_def rev_map)
  show ?thesis by (simp add: Bridge_Gateway.js_trim_def dropWhile_lower r)
qed

lemma trimmed_twice: "dropWhile P (rev (dropWhile P (rev (dropWhile P s)))) = rev (dropWhile P (rev (dropWhile P s)))"
proof (cases "dropWhile P s")
  case (Cons c t)
  then have "\<not> P c" by (metis dropWhile_eq_Cons_conv)
  then obtain u where "dropWhile P (rev t @ [c]) = u @ [c]" by (metis dropWhile_append3 dropWhile.simps(2) dropWhile_append1 dropWhile_append2)
  then show ?thesis using Cons \<open>\<not> P c\<close> by simp
next
  case Nil
  then show ?thesis by (simp only:) simp
qed

lemma trim_trim: "Bridge_Gateway.js_trim (Bridge_Gateway.js_trim s) = Bridge_Gateway.js_trim s"
  by (simp add: Bridge_Gateway.js_trim_def trimmed_twice)

lemma norm_norm: "js_lower (Bridge_Gateway.js_trim (js_lower (Bridge_Gateway.js_trim s))) = js_lower (Bridge_Gateway.js_trim s)"
  by (simp add: trim_lower trim_trim) (simp add: js_lower_def lower_lower)

lemma acts_as_norm: "acts_as e auth \<Longrightarrow> getUserEmail auth = Inr e' \<Longrightarrow> e' = e \<and> js_lower (Bridge_Gateway.js_trim e) = e"
  by (auto simp: acts_as_def getUserEmail_def norm_norm split: auth_context.splits option.splits if_splits)

section \<open>Statements on one's own rows\<close>

lemma insert_workspace_spares:
  assumes "app_wf d" "js_lower (Bridge_Gateway.js_trim ow) = e"
  shows "spares e d (snd (insert_workspace now n ow p a d))"
  using assms insert_workspace_wf[OF assms(1)]
  by (intro sparesI) (simp_all add: insert_workspace_def bump_def Let_def their_workspaces_def owner_of_def)

lemma insert_project_spares:
  assumes "app_wf d" "insert_project now n t w d = Done row d'" "w \<notin> their_places e d"
  shows "spares e d d'"
  using assms insert_project_wf[OF assms(1,2)]
  by (intro sparesI) (auto simp: insert_project_def bump_def Let_def their_workspaces_def split: if_splits)

lemma insert_document_spares:
  assumes "app_wf d" "insert_document now p f ty c u k s d = Done row d'" "p \<notin> their_plans e d"
  shows "spares e d d'"
  using assms insert_document_wf[OF assms(1,2)]
  by (intro sparesI) (auto simp: insert_document_def bump_def Let_def their_workspaces_def split: if_splits)

text \<open>Whose rows a link belongs to.\<close>

definition others_link :: "string \<Rightarrow> app_table \<Rightarrow> int \<Rightarrow> app_db \<Rightarrow> bool" where
  "others_link e t a d \<longleftrightarrow> (t = Workspace_rules \<and> a \<in> their_places e d) \<or> (t \<in> {Project_rules, Project_rule_sets} \<and> a \<in> their_plans e d)"

lemma insert_link_spares:
  assumes "app_wf d" "insert_link t a b d = Done u d'" "\<not> others_link e t a d"
  shows "spares e d d'"
  using assms insert_link_wf[OF assms(1,2)]
  by (intro sparesI) (cases t; auto simp: others_link_def insert_link_def bump_def their_workspaces_def split: if_splits)+

lemma others_link_spared: "spares e d d1 \<Longrightarrow> others_link e t a d1 = others_link e t a d"
  by (simp add: others_link_def their_places_spared their_plans_spared)

lemma insert_links_from_spares:
  assumes "app_wf d" "insert_links_from t a bs d = Done u d'" "\<not> others_link e t a d"
  shows "spares e d d'"
  using assms
proof (induction bs arbitrary: d)
  case (Cons b bs)
  then obtain d1 where 1: "insert_link t a b d = Done () d1" "insert_links_from t a bs d1 = Done u d'" by (auto simp: and_then_Done_iff)
  have s: "spares e d d1" by (rule insert_link_spares[OF Cons.prems(1) 1(1) Cons.prems(3)])
  then show ?case using Cons.IH[OF spares_wf[OF s] 1(2)] Cons.prems(3) by (auto simp: others_link_spared intro: spares_trans)
qed (simp add: spares_refl)

lemma insert_links_spares: "app_wf d \<Longrightarrow> \<not> others_link e t a d \<Longrightarrow> spares e d (out_state (insert_links t a bs d))"
  unfolding insert_links_def by (rule atomically_wf) (auto intro: spares_refl insert_links_from_spares)

lemma filter_unaffected: "(\<And>x. Q x \<Longrightarrow> \<not> P x) \<Longrightarrow> filter P (filter (\<lambda>x. \<not> Q x) xs) = filter P xs"
  by (induction xs) auto

lemma delete_links_spares:
  assumes "app_wf d" "\<And>l. Q l \<Longrightarrow> \<not> others_link e t (ln_from l) d"
  shows "spares e d (delete_links t Q d)"
proof -
  have w: "t = Workspace_rules \<Longrightarrow> filter (\<lambda>l. ln_from l \<in> their_places e d) (filter (\<lambda>l. \<not> Q l) ls) = filter (\<lambda>l. ln_from l \<in> their_places e d) ls"
    and p: "t \<in> {Project_rules, Project_rule_sets} \<Longrightarrow>
      filter (\<lambda>l. ln_from l \<in> their_plans e d) (filter (\<lambda>l. \<not> Q l) ls) = filter (\<lambda>l. ln_from l \<in> their_plans e d) ls" for ls
    using assms(2) by (rule_tac [!] filter_unaffected) (auto simp: others_link_def)
  show ?thesis
    by (rule sparesI[OF delete_links_wf[OF assms(1)]]; cases t)
      (simp_all add: delete_links_def their_workspaces_def w p del: filter_filter)
qed

text \<open>A row of another user is not the row with a key of one's own.\<close>

lemma own_document:
  assumes "app_wf d" "find_document i d = Some doc" "dc_projectId doc \<notin> their_plans e d" "r \<in> set (ap_documents d)" "dc_id r = i"
  shows "dc_projectId r \<notin> their_plans e d"
proof -
  have "doc \<in> set (ap_documents d)" "dc_id doc = i" using assms(2) by (auto simp: find_document_def find_Some_iff)
  moreover have "distinct (map dc_id (ap_documents d))" using assms(1) by (simp add: app_wf_def keys_fit_def)
  ultimately show ?thesis using assms(3-5) by (metis distinct_map inj_onD)
qed

lemma delete_documents_spares:
  assumes "app_wf d" "find_document i d = Some doc" "dc_projectId doc \<notin> their_plans e d"
  shows "spares e d (delete_documents (\<lambda>r. dc_id r = i) d)"
  using own_document[OF assms]
  by (intro sparesI delete_documents_wf assms(1)) (auto simp: delete_documents_def Let_def their_workspaces_def intro!: filter_cong)

lemma filter_gone: "\<forall>x\<in>G. x \<notin> S \<Longrightarrow> filter (\<lambda>r. f r \<in> S) (filter (\<lambda>r. f r \<notin> G) rs) = filter (\<lambda>r. f r \<in> S) rs"
  by (induction rs) auto

lemma delete_projects_spares:
  assumes "app_wf d" and gone: "\<And>p. p \<in> set (ap_projects d) \<Longrightarrow> P p \<Longrightarrow> pj_id p \<notin> their_plans e d"
  shows "spares e d (delete_projects P d)"
proof -
  have places: "filter (\<lambda>p. pj_workspaceId p \<in> their_places e d) (filter (\<lambda>p. \<not> P p) (ap_projects d))
      = filter (\<lambda>p. pj_workspaceId p \<in> their_places e d) (ap_projects d)"
    using gone by (auto simp: their_plans_def their_projects_def intro!: filter_cong)
  have plans: "\<forall>x\<in>pj_id ` {p \<in> set (ap_projects d). P p}. x \<notin> their_plans e d" using gone by auto
  show ?thesis
    by (rule sparesI[OF delete_projects_wf[OF assms(1)]])
      (simp_all add: delete_defs their_workspaces_def places filter_gone[OF plans] del: filter_filter)
qed

lemma delete_workspaces_spares:
  assumes wf: "app_wf d" and gone: "\<And>w. w \<in> set (ap_workspaces d) \<Longrightarrow> P w \<Longrightarrow> ws_id w \<notin> their_places e d"
  shows "spares e d (delete_workspaces P d)"
proof -
  let ?ws = "ws_id ` {w \<in> set (ap_workspaces d). P w}"
  have mine: "their_workspaces e (delete_workspaces P d) = their_workspaces e d"
    using gone by (auto simp: delete_defs their_workspaces_def their_places_def intro!: filter_cong)
  have places: "\<forall>x\<in>?ws. x \<notin> their_places e d" using gone by auto
  have "pj_id p \<notin> their_plans e d" if p: "p \<in> set (ap_projects d)" "pj_workspaceId p \<in> ?ws" for p
  proof -
    have "pj_workspaceId p \<notin> their_places e d" using places p(2) by blast
    moreover have "distinct (map pj_id (ap_projects d))" using wf by (simp add: app_wf_def keys_fit_def)
    ultimately show ?thesis using p(1) by (auto simp: their_plans_def their_projects_def distinct_map dest: inj_onD)
  qed
  then have plans: "\<forall>x\<in>pj_id ` {p \<in> set (ap_projects d). pj_workspaceId p \<in> ?ws}. x \<notin> their_plans e d" by auto
  show ?thesis
    by (rule sparesI[OF delete_workspaces_wf[OF wf] mine])
      (simp_all add: delete_defs filter_gone[OF places] filter_gone[OF plans] del: filter_filter)
qed

lemma same_keys: "(\<And>x. f (g x) = f x) \<Longrightarrow> map f (map g xs) = map f xs"
  by simp

lemma set_workspace_wf:
  assumes "app_wf d"
  shows "app_wf (d\<lparr>ap_workspaces := map (\<lambda>w. if ws_id w = i then set_workspace n a w else w) (ap_workspaces d)\<rparr>)"
proof -
  have "ws_id (if ws_id w = i then set_workspace n a w else w) = ws_id w" for w by (simp add: set_workspace_def)
  then show ?thesis using assms by (simp add: app_wf_def comp_def)
qed

lemma set_project_wf:
  assumes "app_wf d"
  shows "app_wf (d\<lparr>ap_projects := map (\<lambda>p. if pj_id p = i then set_project n t p else p) (ap_projects d)\<rparr>)"
proof -
  have "pj_id (if pj_id p = i then set_project n t p else p) = pj_id p"
    "pj_workspaceId (if pj_id p = i then set_project n t p else p) = pj_workspaceId p" for p by (simp_all add: set_project_def)
  then show ?thesis using assms by (simp add: app_wf_def comp_def)
qed

lemma set_status_wf:
  assumes "app_wf d"
  shows "app_wf (set_status i s d)"
proof -
  have k: "dc_id (if dc_id r = i then r\<lparr>dc_status := s\<rparr> else r) = dc_id r"
    "dc_projectId (if dc_id r = i then r\<lparr>dc_status := s\<rparr> else r) = dc_projectId r" for r by simp_all
  show ?thesis using assms by (simp add: app_wf_def comp_def set_status_def k)
qed

text \<open>A change of rows that keeps a predicate and leaves the rows with it alone.\<close>

lemma filter_changed: "(\<And>x. x \<in> set xs \<Longrightarrow> P x \<Longrightarrow> g x = x) \<Longrightarrow> (\<And>x. x \<in> set xs \<Longrightarrow> P (g x) = P x) \<Longrightarrow> filter P (map g xs) = filter P xs"
  by (induction xs) auto

lemma set_workspace_spares:
  assumes "app_wf d" "i \<notin> their_places e d"
  shows "spares e d (d\<lparr>ap_workspaces := map (\<lambda>w. if ws_id w = i then set_workspace n a w else w) (ap_workspaces d)\<rparr>)"
proof -
  have "filter (\<lambda>w. owner_of w \<noteq> e) (map (\<lambda>w. if ws_id w = i then set_workspace n a w else w) (ap_workspaces d))
      = filter (\<lambda>w. owner_of w \<noteq> e) (ap_workspaces d)"
    using assms(2) by (intro filter_changed) (auto simp: set_workspace_def owner_of_def their_places_def their_workspaces_def)
  then show ?thesis by (intro sparesI set_workspace_wf assms(1)) (simp_all add: their_workspaces_def)
qed

lemma set_project_spares:
  assumes "app_wf d" "i \<notin> their_plans e d"
  shows "spares e d (d\<lparr>ap_projects := map (\<lambda>p. if pj_id p = i then set_project n t p else p) (ap_projects d)\<rparr>)"
proof -
  have "filter (\<lambda>p. pj_workspaceId p \<in> their_places e d) (map (\<lambda>p. if pj_id p = i then set_project n t p else p) (ap_projects d))
      = filter (\<lambda>p. pj_workspaceId p \<in> their_places e d) (ap_projects d)"
    using assms(2) by (intro filter_changed) (auto simp: set_project_def their_plans_def their_projects_def)
  then show ?thesis by (intro sparesI set_project_wf assms(1)) (simp_all add: their_workspaces_def)
qed

lemma set_status_spares:
  assumes "app_wf d" "\<And>r. r \<in> set (ap_documents d) \<Longrightarrow> dc_id r = i \<Longrightarrow> dc_projectId r \<notin> their_plans e d"
  shows "spares e d (set_status i s d)"
proof -
  have "filter (\<lambda>r. dc_projectId r \<in> their_plans e d) (map (\<lambda>r. if dc_id r = i then r\<lparr>dc_status := s\<rparr> else r) (ap_documents d))
      = filter (\<lambda>r. dc_projectId r \<in> their_plans e d) (ap_documents d)"
    using assms(2) by (intro filter_changed) auto
  then show ?thesis by (intro sparesI set_status_wf assms(1)) (simp_all add: set_status_def their_workspaces_def)
qed

end
