(* ===== verification/App_Requests.thy ===== *)
theory App_Requests
  imports App_Isolation
begin

text \<open>
  Every handler of the workspaces, projects and documents spares what the others own; every handler keeps the tables in order.
\<close>

section \<open>Frames of handlers\<close>

named_theorems handler_simps

lemma settle_state [handler_simps]: "snd (settle E c r) = out_state r"
  by (cases r) (simp_all add: settle_def)

lemma settle_issue_state [handler_simps]: "snd (settle_issue m c r) = out_state r"
  by (cases r) (simp_all add: settle_issue_def)

lemma assert_workspace_state [handler_simps]:
  "out_state (and_then (assertWorkspaceAccess auth i d) k) = (if canAccessWorkspace auth i None d = Inr True then out_state (k () d) else d)"
  by (simp add: assertWorkspaceAccess_def split: sum.split)

lemma assert_project_state [handler_simps]:
  "out_state (and_then (assertProjectAccess auth i d) k) = (if canAccessProject auth i d = Inr True then out_state (k () d) else d)"
  by (simp add: assertProjectAccess_def split: sum.split)

lemma read_body_state [handler_simps]:
  "out_state (and_then (read_body E b d) k) = (case b of None \<Rightarrow> d | Some j \<Rightarrow> out_state (k j d))"
  by (simp add: read_body_def split: option.split)

lemma parse_as_state [handler_simps]:
  "out_state (and_then (parse_as p j d) k) = (case p j of None \<Rightarrow> d | Some x \<Rightarrow> out_state (k x d))"
  by (simp add: parse_as_def split: option.split)

lemma with_workspaces_state [handler_simps]:
  "out_state (with_workspaces auth k d) = (case getAccessibleWorkspaceIds auth None d of Inr (w # ws) \<Rightarrow> out_state (k d) | _ \<Rightarrow> d)"
  by (simp add: with_workspaces_def split: sum.split list.split)

lemma with_document_state [handler_simps]:
  "out_state (with_document auth i k d) =
     (case find_document i d of None \<Rightarrow> d | Some doc \<Rightarrow> if canAccessProject auth (dc_projectId doc) d = Inr True then out_state (k doc d) else d)"
  by (simp add: with_document_def assert_project_state split: option.split)

lemma canAccess_owner:
  assumes "canAccessWorkspace auth i None d = Inr True" "acts_as e auth"
  shows "\<exists>w. find_workspace i d = Some w \<and> owner_of w = e"
proof -
  obtain e' where e': "getUserEmail auth = Inr e'" using assms(1) by (auto simp: canAccessWorkspace_def email_or_def split: sum.splits)
  then have "e' = e" using assms(2) by (simp add: acts_as_def)
  then show ?thesis using assms(1) e' by (auto simp: canAccessWorkspace_def email_or_def owner_of_def split: option.splits)
qed

lemma own_place:
  assumes "app_wf d" "acts_as e auth" "canAccessWorkspace auth i None d = Inr True"
  shows "i \<notin> their_places e d"
proof -
  obtain w where w: "find_workspace i d = Some w" "owner_of w = e" using canAccess_owner[OF assms(3,2)] by blast
  then have "w \<in> set (ap_workspaces d)" "ws_id w = i" by (auto simp: find_workspace_def find_Some_iff)
  moreover have "distinct (map ws_id (ap_workspaces d))" using assms(1) by (simp add: app_wf_def keys_fit_def)
  ultimately have "owner_of v = e" if "v \<in> set (ap_workspaces d)" "ws_id v = i" for v
    using that w(2) by (metis distinct_map inj_onD)
  then show ?thesis by (auto simp: their_places_def their_workspaces_def)
qed

lemma own_plan:
  assumes "app_wf d" "acts_as e auth" "canAccessProject auth i d = Inr True"
  shows "i \<notin> their_plans e d"
proof -
  obtain p where p: "find_project i d = Some p" "canAccessWorkspace auth (pj_workspaceId p) None d = Inr True"
    using assms(3) by (auto simp: canAccessProject_def split: option.splits)
  have "p \<in> set (ap_projects d)" "pj_id p = i" using p(1) by (auto simp: find_project_def find_Some_iff)
  moreover have "distinct (map pj_id (ap_projects d))" using assms(1) by (simp add: app_wf_def keys_fit_def)
  ultimately have "q = p" if "q \<in> set (ap_projects d)" "pj_id q = i" for q
    using that by (metis distinct_map inj_onD)
  then show ?thesis using own_place[OF assms(1,2) p(2)] by (auto simp: their_plans_def their_projects_def)
qed

lemma spares_and_then:
  assumes "spares e d (out_state m)" "\<And>a s. m = Done a s \<Longrightarrow> spares e d s \<Longrightarrow> spares e d (out_state (k a s))"
  shows "spares e d (out_state (and_then m k))"
  using assms by (cases m) auto

lemma insert_project_out:
  "app_wf d \<Longrightarrow> w \<notin> their_places e d \<Longrightarrow> spares e d (out_state (insert_project now n t w d))"
  using insert_project_spares[of d now n t w] by (cases "insert_project now n t w d") (auto simp: insert_project_def Let_def spares_refl split: if_splits)

lemma insert_document_out:
  "app_wf d \<Longrightarrow> p \<notin> their_plans e d \<Longrightarrow> spares e d (out_state (insert_document now p f ty c u k s d))"
  using insert_document_spares[of d now p f ty c u k s]
  by (cases "insert_document now p f ty c u k s d") (auto simp: insert_document_def Let_def spares_refl split: if_splits)

lemma new_plan: "app_wf d \<Longrightarrow> insert_project now n t w d = Done row d' \<Longrightarrow> pj_id row \<notin> their_plans e d"
  by (auto simp: insert_project_def Let_def app_wf_def keys_fit_def list_all_iff their_plans_def their_projects_def split: if_splits)

lemma new_place: "app_wf d \<Longrightarrow> insert_workspace now n ow p a d = (row, d') \<Longrightarrow> ws_id row \<notin> their_places e d"
  by (auto simp: insert_workspace_def Let_def app_wf_def keys_fit_def list_all_iff their_places_def their_workspaces_def)

section \<open>Workspaces\<close>

lemma personal_spares:
  assumes "app_wf d" "js_lower (Bridge_Gateway.js_trim email) = e" "js_lower (Bridge_Gateway.js_trim e) = e"
  shows "spares e d (out_state (ensurePersonalWorkspace now email d))"
proof (cases "find (\<lambda>w. ws_ownerId w = e \<and> ws_isPersonal w) (ap_workspaces d)")
  case None
  obtain row d1 where i: "insert_workspace now ''My Personal Workspace'' e True True d = (row, d1)" by fastforce
  have s: "spares e d d1" using insert_workspace_spares[OF assms(1,3)] i by (metis snd_conv)
  then have "ws_id row \<notin> their_places e d1" using new_place[OF assms(1) i] by (simp add: their_places_spared)
  then have "spares e d1 (out_state (insert_project now ''Default Project'' (Some ''Your default project for document analysis'') (ws_id row) d1))"
    by (rule insert_project_out[OF spares_wf[OF s]])
  then have "spares e d (out_state (insert_project now ''Default Project'' (Some ''Your default project for document analysis'') (ws_id row) d1))"
    using s by (rule spares_trans[rotated])
  then show ?thesis using None i by (auto simp: ensurePersonalWorkspace_def assms(2) Let_def intro: spares_and_then)
qed (simp add: ensurePersonalWorkspace_def assms spares_refl)

lemma middleware_spares:
  assumes "app_wf d" "acts_as e auth"
  shows "spares e d (ensurePersonalWorkspaceMiddleware now auth d)"
  using assms personal_spares[OF assms(1)]
  by (auto simp: ensurePersonalWorkspaceMiddleware_def acts_as_def getUserEmail_def norm_norm spares_refl split: auth_context.splits option.splits)

lemma list_workspaces_spares:
  assumes "app_wf d" "acts_as e auth"
  shows "spares e d (snd (list_workspaces E auth d))"
  using middleware_spares[OF assms] by (auto simp: list_workspaces_def Let_def handler_simps split: sum.split list.split)

lemma create_workspace_spares:
  assumes "app_wf d" "acts_as e auth"
  shows "spares e d (snd (create_workspace E auth b d))"
proof -
  let ?d = "ensurePersonalWorkspaceMiddleware (ae_now E) auth d"
  have s: "spares e d ?d" by (rule middleware_spares[OF assms])
  have "spares e d (snd (insert_workspace (ae_now E) n e' False a ?d))" if "getUserEmail auth = Inr e'" for n a e'
    using acts_as_norm[OF assms(2) that] insert_workspace_spares[OF spares_wf[OF s], of e'] s by (blast intro: spares_trans)
  then show ?thesis using s
    by (auto simp: create_workspace_def Let_def handler_simps case_prod_unfold split: sum.split option.split)
qed

lemma get_workspace_state: "snd (get_workspace E auth i d) = d"
  by (simp add: get_workspace_def handler_simps split: option.split)

lemma update_workspace_spares:
  assumes "app_wf d" "acts_as e auth"
  shows "spares e d (snd (update_workspace E auth i b d))"
  using assms
  by (auto simp: update_workspace_def Let_def handler_simps spares_refl own_place split: option.split intro!: set_workspace_spares)

lemma delete_workspace_spares:
  assumes "app_wf d" "acts_as e auth"
  shows "spares e d (snd (delete_workspace E auth i d))"
  using assms own_place[OF assms]
  by (auto simp: delete_workspace_def handler_simps spares_refl split: option.split intro!: delete_workspaces_spares)

lemma clone_into_spares:
  assumes "app_wf d" "js_lower (Bridge_Gateway.js_trim email) = e"
  shows "spares e d (out_state (clone_into E w email d))"
proof -
  obtain row d1 where i: "insert_workspace (ae_now E) (buildCloneName (ws_name w)) email False (ws_allRules w) d = (row, d1)" by fastforce
  have s: "spares e d d1" using insert_workspace_spares[OF assms] i by (metis snd_conv)
  have n: "ws_id row \<notin> their_places e d" by (rule new_place[OF assms(1) i])
  have l: "spares e d (out_state (insert_links Workspace_rules (ws_id row) ids d1))" for ids
    using insert_links_spares[OF spares_wf[OF s], of e Workspace_rules "ws_id row" ids] n s
    by (auto simp: others_link_def their_places_spared intro: spares_trans)
  have gone: "spares e d (delete_workspaces (\<lambda>v. ws_id v = ws_id row) d2)" if "spares e d d2" for d2
    using delete_workspaces_spares[OF spares_wf[OF that], of "\<lambda>v. ws_id v = ws_id row" e] n that
    by (auto simp: their_places_spared intro: spares_trans)
  have "spares e d (out_state (copy_links E (ws_id w) (ws_id row) d1))"
    using s l by (simp add: copy_links_def Let_def split: option.split)
  then show ?thesis using i gone
    by (cases "copy_links E (ws_id w) (ws_id row) d1") (simp_all add: clone_into_def assms(1) spares_refl split: option.split)
qed

lemma clone_workspace_spares:
  assumes "app_wf d" "acts_as e auth"
  shows "spares e d (snd (clone_workspace E auth i d))"
  using assms acts_as_norm[OF assms(2)]
  by (auto simp: clone_workspace_def handler_simps spares_refl split: option.split sum.split prod.split intro!: clone_into_spares)

lemma list_workspace_rules_state: "snd (list_workspace_rules E auth i d) = d"
  by (simp add: list_workspace_rules_def handler_simps split: option.split)

lemma insert_links_state [handler_simps]:
  "out_state (and_then (insert_links t a bs d) (\<lambda>_. Done r)) = out_state (insert_links t a bs d)"
  by (cases "insert_links t a bs d") simp_all

lemma link_workspace_rule_spares:
  assumes "app_wf d" "acts_as e auth"
  shows "spares e d (snd (link_workspace_rule E auth i b d))"
  using assms own_place[OF assms]
  by (auto simp: link_workspace_rule_def handler_simps spares_refl others_link_def split: option.split intro!: insert_links_spares)

lemma unlink_workspace_rule_spares:
  assumes "app_wf d" "acts_as e auth"
  shows "spares e d (snd (unlink_workspace_rule E auth i r d))"
  using assms own_place[OF assms]
  by (auto simp: unlink_workspace_rule_def handler_simps spares_refl others_link_def split: option.split intro!: delete_links_spares)

lemma workspace_route_spares:
  assumes "app_wf d" "acts_as e auth"
  shows "spares e d (snd (workspace_route E auth q d))"
  using assms
  by (cases q) (simp_all add: spares_refl list_workspaces_spares create_workspace_spares get_workspace_state update_workspace_spares
      delete_workspace_spares clone_workspace_spares list_workspace_rules_state link_workspace_rule_spares unlink_workspace_rule_spares)

section \<open>Projects\<close>

lemma list_projects_state: "snd (list_projects E auth q d) = d"
  by (simp add: list_projects_def Let_def handler_simps split: sum.split list.split option.split)

lemma create_project_spares:
  assumes "app_wf d" "acts_as e auth"
  shows "spares e d (snd (create_project E auth b d))"
proof -
  have step: "spares e d (out_state (and_then (insert_project now n t w d) (\<lambda>row d4.
      and_then (if filter (\<lambda>l. ln_from l = w) (ap_workspaceRules d4) = [] then Done () d4
                else insert_links Project_rules (pj_id row) (map ln_to (filter (\<lambda>l. ln_from l = w) (ap_workspaceRules d4))) d4)
        (\<lambda>_ d5. Done (f row d5) d5))))"
    if w: "w \<notin> their_places e d" for now n t w and f :: "project_row \<Rightarrow> app_db \<Rightarrow> response"
  proof (rule spares_and_then[OF insert_project_out[OF assms(1) w]])
    fix row d4
    assume i: "insert_project now n t w d = Done row d4" and s: "spares e d d4"
    have "spares e d4 (out_state (insert_links Project_rules (pj_id row) ids d4))" for ids
      using insert_links_spares[OF spares_wf[OF s], of e Project_rules "pj_id row" ids] new_plan[OF assms(1) i, of e] s
      by (simp add: others_link_def their_plans_spared)
    then have "spares e d (out_state (insert_links Project_rules (pj_id row) ids d4))" for ids using s by (blast intro: spares_trans)
    then show "spares e d (out_state (and_then (if filter (\<lambda>l. ln_from l = w) (ap_workspaceRules d4) = [] then Done () d4
        else insert_links Project_rules (pj_id row) (map ln_to (filter (\<lambda>l. ln_from l = w) (ap_workspaceRules d4))) d4)
        (\<lambda>_ d5. Done (f row d5) d5)))"
      using s by (auto intro!: spares_and_then)
  qed
  show ?thesis
    using assms own_place[OF assms]
    by (auto simp: create_project_def handler_simps spares_refl split: option.split intro!: step)
qed

lemma get_project_state: "snd (get_project E auth i d) = d"
  by (simp add: get_project_def handler_simps split: option.split)

lemma update_project_spares:
  assumes "app_wf d" "acts_as e auth"
  shows "spares e d (snd (update_project E auth i b d))"
  using assms own_plan[OF assms]
  by (auto simp: update_project_def Let_def handler_simps spares_refl split: option.split intro!: set_project_spares)

lemma delete_project_spares:
  assumes "app_wf d" "acts_as e auth"
  shows "spares e d (snd (delete_project E auth i d))"
  using assms own_plan[OF assms]
  by (auto simp: delete_project_def handler_simps spares_refl split: option.split intro!: delete_projects_spares)

lemma list_project_rules_state: "snd (list_project_rules E auth i d) = d" "snd (list_project_rule_sets E auth i d) = d"
    "snd (list_effective_rules E auth i d) = d"
  by (simp_all add: list_project_rules_def list_project_rule_sets_def list_effective_rules_def handler_simps split: option.split)

lemma link_project_spares:
  assumes "app_wf d" "acts_as e auth"
  shows "spares e d (snd (link_project_rule E auth i b d))" "spares e d (snd (link_project_rule_set E auth i b d))"
  using assms own_plan[OF assms]
  by (auto simp: link_project_rule_def link_project_rule_set_def handler_simps spares_refl others_link_def split: option.split
      intro!: insert_links_spares)

lemma unlink_project_spares:
  assumes "app_wf d" "acts_as e auth"
  shows "spares e d (snd (unlink_project_rule E auth i r d))" "spares e d (snd (unlink_project_rule_set E auth i r d))"
  using assms own_plan[OF assms]
  by (auto simp: unlink_project_rule_def unlink_project_rule_set_def handler_simps spares_refl others_link_def split: option.split
      intro!: delete_links_spares)

lemma project_route_spares:
  assumes "app_wf d" "acts_as e auth"
  shows "spares e d (snd (project_route E auth q d))"
  using assms
  by (cases q) (simp_all add: spares_refl list_projects_state create_project_spares get_project_state update_project_spares
      delete_project_spares list_project_rules_state link_project_spares unlink_project_spares)

section \<open>Documents\<close>

lemma documents_middleware_spares:
  assumes "app_wf d" "acts_as e auth"
  shows "spares e d (documents_middleware E auth d)"
  using acts_as_norm[OF assms(2)] personal_spares[OF assms(1)]
  by (auto simp: documents_middleware_def spares_refl assms(1) split: sum.split)

lemma read_documents_state: "snd (handleDocumentList E D auth q d) = d" "snd (handleDocumentStatus E D auth i d) = d"
    "snd (handleDocumentContent E auth i d) = d" "snd (handleDocumentAnalysisResults E D auth i a d) = d"
  by (simp_all add: handleDocumentList_def handleDocumentStatus_def handleDocumentContent_def handleDocumentAnalysisResults_def handler_simps
      split: option.split sum.split)

lemma delete_document_spares:
  assumes "app_wf d" "acts_as e auth"
  shows "spares e d (snd (handleDocumentDelete E D auth i d))"
  using assms own_plan[OF assms]
  by (auto simp: handleDocumentDelete_def handler_simps spares_refl split: option.split intro: delete_documents_spares)

lemma analyze_document_spares:
  assumes "app_wf d" "acts_as e auth"
  shows "spares e d (snd (handleDocumentAnalyze E D auth i b d))"
  using assms own_plan[OF assms]
  by (auto simp: handleDocumentAnalyze_def handler_simps spares_refl split: option.split intro!: set_status_spares) (metis own_document)

lemma new_document: "insert_document now p f ty c u k s d = Done row d' \<Longrightarrow> row \<in> set (ap_documents d') \<and> dc_projectId row = p"
  by (auto simp: insert_document_def Let_def split: if_splits)

lemma own_rows:
  assumes "app_wf d" "doc \<in> set (ap_documents d)" "dc_projectId doc \<notin> S" "r \<in> set (ap_documents d)" "dc_id r = dc_id doc"
  shows "dc_projectId r \<notin> S"
proof -
  have "distinct (map dc_id (ap_documents d))" using assms(1) by (simp add: app_wf_def keys_fit_def)
  then show ?thesis using assms(2-5) by (metis distinct_map inj_onD)
qed

lemma upload_docx_spares:
  assumes "app_wf d" "p \<notin> their_plans e d"
  shows "spares e d (out_state (upload_docx E D cfg F p f d))"
proof -
  have "spares e d (set_status (dc_id row) s d1)"
    if i: "insert_document n p f ty c u k st d = Done row d1" and sp: "spares e d d1" for n ty c u k st row d1 s
    using set_status_spares[OF spares_wf[OF sp], of "dc_id row" e s] own_rows[OF spares_wf[OF sp]] new_document[OF i] assms(2) sp
    by (auto simp: their_plans_spared intro: spares_trans)
  then show ?thesis using assms
    by (auto simp: upload_docx_def spares_refl insert_document_out split: option.split enqueue_answer.split intro!: spares_and_then)
qed

lemma upload_spares:
  assumes "app_wf d" "acts_as e auth"
  shows "spares e d (snd (handleDocumentUpload E D cfg auth q d))"
  using assms own_plan[OF assms]
  by (auto simp: handleDocumentUpload_def upload_multipart_def upload_json_def Let_def handler_simps spares_refl insert_document_out
      split: option.split upload_request.split prod.split intro!: upload_docx_spares spares_and_then)

lemma document_route_spares:
  assumes "app_wf d" "acts_as e auth"
  shows "spares e d (snd (document_route E D auth q d))"
proof -
  let ?d = "documents_middleware E auth d"
  have s: "spares e d ?d" by (rule documents_middleware_spares[OF assms])
  note wf = spares_wf[OF s]
  have "spares e ?d (snd (document_handler E D auth q ?d))"
    using wf assms(2) by (cases q) (simp_all add: spares_refl read_documents_state delete_document_spares analyze_document_spares upload_spares)
  then show ?thesis using s unfolding document_route_def by (blast intro: spares_trans)
qed

section \<open>Rules and rule sets\<close>

lemma set_rule_code: "ru_code (set_rule c n t r) = (case c of None \<Rightarrow> ru_code r | Some x \<Rightarrow> x)" "ru_id (set_rule c n t r) = ru_id r"
  by (simp_all add: set_rule_def)

lemma distinct_rewritten:
  assumes "distinct (map f rs)" "distinct (map k rs)" "\<forall>r\<in>set rs. k r \<noteq> i \<longrightarrow> f r \<noteq> x"
  shows "distinct (map (\<lambda>r. if k r = i then x else f r) rs)"
  using assms by (induction rs) (auto simp: image_iff)

lemma write_rule_wf:
  assumes "app_wf d" "write_rule i c n t d = Done u d'"
  shows "app_wf d'"
proof -
  have ids: "ru_id (if ru_id r = i then set_rule c n t r else r) = ru_id r" for r by (simp add: set_rule_code)
  have codes: "distinct (map ru_code (ap_rules d))" "distinct (map ru_id (ap_rules d))" using assms(1) by (simp_all add: app_wf_def keys_fit_def)
  have "distinct (map (\<lambda>r. ru_code (if ru_id r = i then set_rule c n t r else r)) (ap_rules d))"
  proof (cases c)
    case None
    then have "map (\<lambda>r. ru_code (if ru_id r = i then set_rule c n t r else r)) (ap_rules d) = map ru_code (ap_rules d)"
      by (simp add: set_rule_code)
    then show ?thesis using codes(1) by (simp only:)
  next
    case (Some x)
    then have "map (\<lambda>r. ru_code (if ru_id r = i then set_rule c n t r else r)) (ap_rules d) = map (\<lambda>r. if ru_id r = i then x else ru_code r) (ap_rules d)"
      by (simp add: set_rule_code)
    moreover have "\<forall>r\<in>set (ap_rules d). ru_id r \<noteq> i \<longrightarrow> ru_code r \<noteq> x"
      using assms(2) Some by (auto simp: write_rule_def list_ex_iff split: if_splits)
    ultimately show ?thesis using distinct_rewritten[OF codes] by (simp only:)
  qed
  moreover have "d' = d\<lparr>ap_rules := map (\<lambda>r. if ru_id r = i then set_rule c n t r else r) (ap_rules d)\<rparr>"
    using assms(2) by (simp add: write_rule_def split: if_splits)
  ultimately show ?thesis using assms(1) by (simp add: app_wf_def comp_def ids)
qed

lemma set_rule_set_wf:
  assumes "app_wf d"
  shows "app_wf (d\<lparr>ap_ruleSets := map (\<lambda>r. if se_id r = i then set_rule_set n t r else r) (ap_ruleSets d)\<rparr>)"
proof -
  have k: "se_id (if se_id r = i then set_rule_set n t r else r) = se_id r" for r by (simp add: set_rule_set_def)
  show ?thesis using assms by (simp add: app_wf_def comp_def k)
qed

lemma assert_number_state:
  "out_state (k () d) = d \<Longrightarrow> out_state (and_then (assertWorkspaceNumber auth n d) k) = d"
  by (auto simp: assertWorkspaceNumber_def assert_workspace_state split: prod.split sum.split)

lemma rules_listed_state:
  "out_state (case getAccessibleWorkspaceIds auth None d of Inl e \<Rightarrow> Fail e d | Inr [] \<Rightarrow> Done a d | Inr (w # ws) \<Rightarrow> Done b d) = d"
  by (simp split: sum.split list.split)

lemma list_rules_state: "snd (list_rules E auth q d) = d"
  by (simp add: list_rules_def Let_def settle_state rules_listed_state assert_number_state split: option.split)

lemma and_then_wf:
  assumes "app_wf (out_state m)" "\<And>a s. m = Done a s \<Longrightarrow> app_wf s \<Longrightarrow> app_wf (out_state (k a s))"
  shows "app_wf (out_state (and_then m k))"
  using assms by (cases m) auto

lemma insert_rule_out: "app_wf d \<Longrightarrow> app_wf (out_state (insert_rule now c n t u d))"
  using insert_rule_wf[of d now c n t u] by (cases "insert_rule now c n t u d") (auto simp: insert_rule_def Let_def split: if_splits)

lemma write_rule_out: "app_wf d \<Longrightarrow> app_wf (out_state (write_rule i c n t d))"
  using write_rule_wf[of d i c n t] by (cases "write_rule i c n t d") (auto simp: write_rule_def split: if_splits)

lemma rule_writes_wf:
  assumes "app_wf d"
  shows "app_wf (snd (create_rule E auth b d))" "app_wf (snd (update_rule E auth i b d))" "app_wf (snd (delete_rule E auth i d))"
  using assms
  by (auto simp: create_rule_def update_rule_def delete_rule_def handler_simps split: option.split sum.split list.split
      intro!: and_then_wf insert_rule_out write_rule_out delete_rules_wf)

lemma rule_set_writes_wf:
  assumes "app_wf d"
  shows "app_wf (snd (create_rule_set E auth b d))" "app_wf (snd (update_rule_set E auth i b d))" "app_wf (snd (delete_rule_set E auth i d))"
  using assms insert_rule_set_wf[OF assms]
  by (auto simp: create_rule_set_def update_rule_set_def delete_rule_set_def handler_simps case_prod_unfold Let_def
      split: option.split sum.split list.split intro!: delete_rule_sets_wf set_rule_set_wf)

lemma rule_reads_state: "snd (get_rule E auth i d) = d" "snd (list_rule_sets E auth d) = d" "snd (get_rule_set E auth i d) = d"
    "snd (list_rule_set_rules E auth i d) = d"
  by (simp_all add: get_rule_def list_rule_sets_def get_rule_set_def list_rule_set_rules_def handler_simps
      split: option.split sum.split list.split)

lemma rule_set_links_wf:
  assumes "app_wf d"
  shows "app_wf (snd (link_rule_set_rule E auth i b d))" "app_wf (snd (unlink_rule_set_rule E auth i r d))"
  using assms
  by (auto simp: link_rule_set_rule_def unlink_rule_set_rule_def handler_simps split: option.split sum.split list.split
      intro!: insert_links_wf delete_links_wf)

lemma rule_route_wf: "app_wf d \<Longrightarrow> app_wf (snd (rule_route E auth q d))"
  by (cases q) (simp_all add: list_rules_state rule_writes_wf rule_set_writes_wf rule_reads_state rule_set_links_wf)

section \<open>Issues\<close>

definition tame :: "issue_patch \<Rightarrow> bool" where
  "tame ps \<longleftrightarrow> (\<forall>f\<in>set ps. \<forall>r. iu_id (f r) = iu_id r \<and> iu_projectId (f r) = iu_projectId r)"

lemma tame_apply: "tame ps \<Longrightarrow> iu_id (apply_patch ps r) = iu_id r \<and> iu_projectId (apply_patch ps r) = iu_projectId r"
  unfolding apply_patch_def by (induction ps arbitrary: r) (auto simp: tame_def)

lemma tame_append: "tame (ps @ qs) \<longleftrightarrow> tame ps \<and> tame qs"
  by (auto simp: tame_def)

lemma patches_tame:
  "title_patch j d = Done ps d' \<Longrightarrow> tame ps \<and> d' = d" "description_patch j d = Done ps d' \<Longrightarrow> tame ps \<and> d' = d"
  "mark_patch E auth j d = Done ps d' \<Longrightarrow> tame ps \<and> d' = d"
  "priority_patch j = Some ps \<Longrightarrow> tame ps" "status_patch j = Some ps \<Longrightarrow> tame ps"
  by (auto simp: tame_def title_patch_def description_patch_def trimmed_text_def mark_patch_def priority_patch_def status_patch_def Let_def
      split: option.splits json.splits if_splits sum.splits)

lemma out_state_and_then: "out_state (and_then m k) = (case m of Done a s \<Rightarrow> out_state (k a s) | Fail e s \<Rightarrow> s)"
  by (cases m) auto

lemma patch_states: "out_state (title_patch j d) = d" "out_state (description_patch j d) = d" "out_state (mark_patch E auth j d) = d"
    "out_state (body_object x d) = d" "out_state (required_title j d) = d" "out_state (trimmed_text j d) = d" "out_state (list_elements x d) = d"
  by (auto simp: title_patch_def description_patch_def trimmed_text_def mark_patch_def required_title_def Let_def out_state_and_then
      split: option.split json.split sum.split) (cases x; simp)+

lemma write_issue_wf:
  assumes "app_wf d" "tame ps"
  shows "app_wf (out_state (write_issue E i ps d))"
proof -
  have k: "iu_id (if iu_id r = i then apply_patch ps r else r) = iu_id r"
    "iu_projectId (if iu_id r = i then apply_patch ps r else r) = iu_projectId r" for r using tame_apply[OF assms(2)] by simp_all
  show ?thesis using assms(1) by (simp add: write_issue_def app_wf_def comp_def k)
qed

lemma link_documents_wf: "app_wf d \<Longrightarrow> app_wf (out_state (link_documents i xs d))"
  by (simp add: link_documents_def insert_anchors_wf split: option.split)

lemma drop_anchors_wf: "app_wf d \<Longrightarrow> app_wf (d\<lparr>ap_issueDocuments := filter P (ap_issueDocuments d)\<rparr>)"
  by (simp add: app_wf_def wf_parts)

lemma replace_documents_wf: "app_wf d \<Longrightarrow> app_wf (out_state (replace_documents i j d))"
  by (auto simp: replace_documents_def Let_def patch_states drop_anchors_wf link_documents_wf split: option.split intro!: and_then_wf)

lemma insert_issue_out: "app_wf d \<Longrightarrow> app_wf (out_state (insert_issue now ti de pr st og p d))"
  using insert_issue_wf[of d now ti de pr st og p]
  by (cases "insert_issue now ti de pr st og p d") (auto simp: insert_issue_def Let_def split: if_splits)

lemma create_issue_wf: "app_wf d \<Longrightarrow> app_wf (snd (create_issue E b d))"
  by (auto simp: create_issue_def Let_def handler_simps patch_states insert_issue_out link_documents_wf
      split: option.split json.split intro!: and_then_wf)

lemma update_issue_wf: "app_wf d \<Longrightarrow> app_wf (snd (update_issue E auth i b d))"
  by (auto simp: update_issue_def Let_def handler_simps patch_states replace_documents_wf tame_append split: option.split
      intro!: and_then_wf write_issue_wf) (blast dest: patches_tame)+

lemma issue_route_wf: "app_wf d \<Longrightarrow> app_wf (snd (issue_route E auth q d))"
  by (cases q) (simp_all add: list_issues_def get_issue_def delete_issue_def Let_def create_issue_wf update_issue_wf delete_issues_wf
      split: option.split)

end
