(* ===== verification/Analysis_Correct.thy ===== *)
theory Analysis_Correct
  imports App_Requests
begin

text \<open>
  The analysis of issues: the request fits the window of the model, its findings are stored without a failure and linked to nothing outside the
  project, a job is consumed once, and what the others own is spared.
\<close>

section \<open>Links of a stored finding\<close>

definition only_issues :: "app_db \<Rightarrow> app_db \<Rightarrow> bool" where
  "only_issues d d' \<longleftrightarrow> ap_workspaces d' = ap_workspaces d \<and> ap_projects d' = ap_projects d \<and> ap_documents d' = ap_documents d
     \<and> ap_rules d' = ap_rules d \<and> ap_ruleSets d' = ap_ruleSets d \<and> ap_workspaceRules d' = ap_workspaceRules d
     \<and> ap_projectRules d' = ap_projectRules d \<and> ap_ruleSetRules d' = ap_ruleSetRules d \<and> ap_projectRuleSets d' = ap_projectRuleSets d"

lemma only_issues_trans: "only_issues d d1 \<Longrightarrow> only_issues d1 d2 \<Longrightarrow> only_issues d d2"
  by (simp add: only_issues_def)

definition rule_pairs :: "app_db \<Rightarrow> (int \<times> int) list" where
  "rule_pairs d = map (\<lambda>l. (ln_from l, ln_to l)) (ap_issueRules d)"

definition document_pairs :: "app_db \<Rightarrow> (int \<times> int) list" where
  "document_pairs d = map (\<lambda>a. (an_issueId a, an_documentId a)) (ap_issueDocuments d)"

lemma anchors_from_stored:
  assumes "i \<in> set (map iu_id (ap_issues d))" "\<forall>x\<in>set as. fst x \<in> set (map dc_id (ap_documents d))"
  shows "\<exists>d'. insert_anchors_from i as d = Done () d' \<and> only_issues d d' \<and> ap_issues d' = ap_issues d \<and> rule_pairs d' = rule_pairs d
    \<and> ap_next d' Issues = ap_next d Issues \<and> document_pairs d' = document_pairs d @ map (\<lambda>x. (i, fst x)) as"
  using assms
proof (induction i as d rule: insert_anchors_from.induct)
  case (2 i j kind text' as d)
  obtain d1 where 1: "insert_anchor i j kind text' d = Done () d1" "only_issues d d1" "ap_issues d1 = ap_issues d" "rule_pairs d1 = rule_pairs d"
    "ap_next d1 Issues = ap_next d Issues" "document_pairs d1 = document_pairs d @ [(i, j)]"
    using 2(2,3) by (auto simp: insert_anchor_def bump_def only_issues_def rule_pairs_def document_pairs_def)
  then have "i \<in> set (map iu_id (ap_issues d1))" "\<forall>x\<in>set as. fst x \<in> set (map dc_id (ap_documents d1))"
    using 2(2,3) by (auto simp: only_issues_def)
  from 2(1)[OF this] obtain d2 where "insert_anchors_from i as d1 = Done () d2" "only_issues d1 d2" "ap_issues d2 = ap_issues d1"
    "rule_pairs d2 = rule_pairs d1" "ap_next d2 Issues = ap_next d1 Issues" "document_pairs d2 = document_pairs d1 @ map (\<lambda>x. (i, fst x)) as"
    by blast
  then show ?case using 1 by (auto intro: only_issues_trans)
qed (simp add: only_issues_def)

lemma links_from_stored:
  assumes "i \<in> set (map iu_id (ap_issues d))" "set rs \<subseteq> set (map ru_id (ap_rules d))"
  shows "\<exists>d'. insert_links_from Issue_rules i rs d = Done () d' \<and> only_issues d d' \<and> ap_issues d' = ap_issues d
    \<and> document_pairs d' = document_pairs d \<and> ap_next d' Issues = ap_next d Issues \<and> rule_pairs d' = rule_pairs d @ map (Pair i) rs"
  using assms
proof (induction rs arbitrary: d)
  case (Cons r rs)
  obtain d1 where 1: "insert_link Issue_rules i r d = Done () d1" "only_issues d d1" "ap_issues d1 = ap_issues d"
    "document_pairs d1 = document_pairs d" "ap_next d1 Issues = ap_next d Issues" "rule_pairs d1 = rule_pairs d @ [(i, r)]"
    using Cons.prems by (auto simp: insert_link_def bump_def only_issues_def rule_pairs_def document_pairs_def)
  then have "i \<in> set (map iu_id (ap_issues d1))" "set rs \<subseteq> set (map ru_id (ap_rules d1))" using Cons.prems by (auto simp: only_issues_def)
  from Cons.IH[OF this] obtain d2 where "insert_links_from Issue_rules i rs d1 = Done () d2" "only_issues d1 d2" "ap_issues d2 = ap_issues d1"
    "document_pairs d2 = document_pairs d1" "ap_next d2 Issues = ap_next d1 Issues" "rule_pairs d2 = rule_pairs d1 @ map (Pair i) rs" by blast
  then show ?case using 1 by (auto intro: only_issues_trans)
qed (simp add: only_issues_def)

section \<open>A stored finding\<close>

definition finding_row :: "app_env \<Rightarrow> int \<Rightarrow> int \<Rightarrow> issue_finding \<Rightarrow> issue_row" where
  "finding_row E projectId i f = \<lparr>iu_id = i, iu_title = fg_title f, iu_description = Some (fg_description f), iu_priority = fg_severity f,
     iu_status = ''open'', iu_origin = ''ai'', iu_projectId = projectId, iu_markedBy = None, iu_markedAt = None, iu_createdAt = ae_now E,
     iu_updatedAt = ae_now E\<rparr>"

definition storable :: "int \<Rightarrow> int list \<Rightarrow> int list \<Rightarrow> app_db \<Rightarrow> bool" where
  "storable projectId ruleIds docIds d \<longleftrightarrow> projectId \<in> set (map pj_id (ap_projects d)) \<and> set ruleIds \<subseteq> set (map ru_id (ap_rules d))
     \<and> set docIds \<subseteq> set (map dc_id (ap_documents d))"

lemma storable_kept: "storable p rs ds d \<Longrightarrow> only_issues d d' \<Longrightarrow> storable p rs ds d'"
  by (simp add: storable_def only_issues_def)

lemma store_finding_stores:
  assumes "storable p rs ds d"
  shows "\<exists>d'. store_finding E p rs ds f d = Done (finding_row E p (ap_next d Issues) f) d' \<and> only_issues d d'
    \<and> ap_issues d' = ap_issues d @ [finding_row E p (ap_next d Issues) f] \<and> ap_next d' Issues = ap_next d Issues + 1
    \<and> rule_pairs d' = rule_pairs d @ map (Pair (ap_next d Issues)) (valid_rules rs f)
    \<and> document_pairs d' = document_pairs d @ map (\<lambda>r. (ap_next d Issues, fst r)) (valid_references ds f)"
proof -
  let ?i = "ap_next d Issues"
  let ?row = "finding_row E p ?i f"
  let ?d1 = "(bump Issues d)\<lparr>ap_issues := ap_issues d @ [?row]\<rparr>"
  have 1: "insert_issue (ae_now E) (fg_title f) (Some (fg_description f)) (fg_severity f) ''open'' ''ai'' p d = Done ?row ?d1"
    using assms by (auto simp: insert_issue_def storable_def finding_row_def Let_def)
  have f1: "only_issues d ?d1" "ap_next ?d1 Issues = ?i + 1" "rule_pairs ?d1 = rule_pairs d" "document_pairs ?d1 = document_pairs d"
    by (simp_all add: only_issues_def bump_def rule_pairs_def document_pairs_def)
  have "?i \<in> set (map iu_id (ap_issues ?d1))" by (simp add: finding_row_def)
  moreover have "\<forall>x\<in>set (map anchor_of (valid_references ds f)). fst x \<in> set (map dc_id (ap_documents ?d1))"
    using assms f1(1) by (auto simp: storable_def anchor_of_def valid_references_def only_issues_def)
  ultimately obtain d2 where 2: "insert_anchors_from ?i (map anchor_of (valid_references ds f)) ?d1 = Done () d2" "only_issues ?d1 d2"
    "ap_issues d2 = ap_issues ?d1" "rule_pairs d2 = rule_pairs ?d1" "ap_next d2 Issues = ?i + 1"
    "document_pairs d2 = document_pairs ?d1 @ map (\<lambda>x. (?i, fst x)) (map anchor_of (valid_references ds f))"
    using anchors_from_stored[of ?i ?d1] f1(2) by metis
  have "?i \<in> set (map iu_id (ap_issues d2))" using 2(3) by (simp add: finding_row_def)
  moreover have "set (valid_rules rs f) \<subseteq> set (map ru_id (ap_rules d2))"
    using assms 2(2) f1(1) by (auto simp: storable_def valid_rules_def only_issues_def)
  ultimately obtain d3 where 3: "insert_links_from Issue_rules ?i (valid_rules rs f) d2 = Done () d3" "only_issues d2 d3"
    "ap_issues d3 = ap_issues d2" "document_pairs d3 = document_pairs d2" "ap_next d3 Issues = ap_next d2 Issues"
    "rule_pairs d3 = rule_pairs d2 @ map (Pair ?i) (valid_rules rs f)"
    using links_from_stored by metis
  have "iu_id ?row = ?i" by (simp add: finding_row_def)
  then have "store_finding E p rs ds f d = Done ?row d3"
    using 1 2(1) 3(1) by (simp add: store_finding_def insert_anchors_def insert_links_def)
  moreover have "only_issues d d3" using f1(1) 2(2) 3(2) by (blast intro: only_issues_trans)
  moreover have "ap_issues d3 = ap_issues d @ [?row]" using 2(3) 3(3) by simp
  ultimately show ?thesis using 2 3 f1 by (auto simp: comp_def anchor_of_def)
qed

section \<open>All findings\<close>

definition is_valid :: "int list \<Rightarrow> int list \<Rightarrow> issue_finding \<Rightarrow> bool" where
  "is_valid rs ds f \<longleftrightarrow> valid_rules rs f \<noteq> [] \<and> valid_references ds f \<noteq> []"

text \<open>The issues get the next keys in the order of the findings.\<close>

fun keyed :: "int \<Rightarrow> 'a list \<Rightarrow> (int \<times> 'a) list" where
  "keyed n [] = []"
| "keyed n (x # xs) = (n, x) # keyed (n + 1) xs"

lemma store_findings_stores:
  assumes "storable p rs ds d"
  shows "\<exists>created skipped d'. store_findings E p rs ds k fs d = Done (created, skipped) d' \<and> only_issues d d'
    \<and> length created = length (filter (is_valid rs ds) fs) \<and> length skipped = length (filter (\<lambda>f. \<not> is_valid rs ds f) fs)
    \<and> ap_issues d' = ap_issues d @ map (\<lambda>(i, f). finding_row E p i f) (keyed (ap_next d Issues) (filter (is_valid rs ds) fs))
    \<and> rule_pairs d' = rule_pairs d @ concat (map (\<lambda>(i, f). map (Pair i) (valid_rules rs f)) (keyed (ap_next d Issues) (filter (is_valid rs ds) fs)))
    \<and> document_pairs d' = document_pairs d
        @ concat (map (\<lambda>(i, f). map (\<lambda>r. (i, fst r)) (valid_references ds f)) (keyed (ap_next d Issues) (filter (is_valid rs ds) fs)))"
  using assms
proof (induction fs arbitrary: k d)
  case Nil
  then show ?case by (simp add: only_issues_def)
next
  case (Cons f fs)
  show ?case
  proof (cases "is_valid rs ds f")
    case False
    then have v: "valid_rules rs f = [] \<or> valid_references ds f = []" by (simp add: is_valid_def)
    obtain c s d' where r: "store_findings E p rs ds (Suc k) fs d = Done (c, s) d'" using Cons.IH[OF Cons.prems] by blast
    show ?thesis using Cons.IH[OF Cons.prems, of "Suc k"] r v False by auto
  next
    case True
    then have v: "\<not> (valid_rules rs f = [] \<or> valid_references ds f = [])" by (simp add: is_valid_def)
    obtain d1 where 1: "store_finding E p rs ds f d = Done (finding_row E p (ap_next d Issues) f) d1" "only_issues d d1"
      "ap_issues d1 = ap_issues d @ [finding_row E p (ap_next d Issues) f]" "ap_next d1 Issues = ap_next d Issues + 1"
      "rule_pairs d1 = rule_pairs d @ map (Pair (ap_next d Issues)) (valid_rules rs f)"
      "document_pairs d1 = document_pairs d @ map (\<lambda>r. (ap_next d Issues, fst r)) (valid_references ds f)"
      using store_finding_stores[OF Cons.prems] by blast
    have "storable p rs ds d1" by (rule storable_kept[OF Cons.prems 1(2)])
    from Cons.IH[OF this, of "Suc k"] show ?thesis using 1 v True by (auto intro: only_issues_trans)
  qed
qed

section \<open>Consuming a result\<close>

lemma map_put_subset: "set (map_put key x ys) \<subseteq> insert x (set ys)"
  by (induction ys) auto

lemma fold_map_put_subset: "set (fold (map_put key) xs acc) \<subseteq> set xs \<union> set acc"
proof (induction xs arbitrary: acc)
  case (Cons x xs)
  show ?case using Cons.IH[of "map_put key x acc"] map_put_subset[of key x acc] by auto
qed simp

lemma joined_rules_subset: "set (joined_rules ls d) \<subseteq> set (ap_rules d)"
  by (auto simp: joined_rules_def find_Some_iff split: option.splits)

lemma effective_rules_subset: "set (getEffectiveRulesForProject p d) \<subseteq> set (ap_rules d)"
  by (auto simp: getEffectiveRulesForProject_def Let_def dest!: fold_map_put_subset [THEN subsetD] joined_rules_subset [THEN subsetD] split: if_splits)

lemma chosen_documents_subset: "set (chosen_documents p ids d) \<subseteq> {r \<in> set (ap_documents d). dc_projectId r = p}"
  by (auto simp: chosen_documents_def Let_def split: option.splits)

lemma clear_issues_frame: "only_issues d (clear_issues mode p d)"
  by (simp add: clear_issues_def delete_issues_def drop_links_def delete_links_def only_issues_def Let_def)

lemma project_storable:
  assumes "p \<in> set (map pj_id (ap_projects d))"
  shows "storable p (map ru_id (getEffectiveRulesForProject p d)) (map dc_id (chosen_documents p ids d)) (clear_issues mode p d)"
proof -
  have "storable p (map ru_id (getEffectiveRulesForProject p d)) (map dc_id (chosen_documents p ids d)) d"
    using assms effective_rules_subset[of p d] chosen_documents_subset[of p ids d] by (auto simp: storable_def)
  then show ?thesis by (rule storable_kept[OF _ clear_issues_frame])
qed

text \<open>The issues a mode leaves alone: those of other projects, and those of the project that are not to be replaced.\<close>

definition survives :: "string \<Rightarrow> int \<Rightarrow> issue_row \<Rightarrow> bool" where
  "survives mode p r \<longleftrightarrow> iu_projectId r \<noteq> p \<or> mode \<noteq> ''replace_all'' \<and> (mode = ''replace_ai'' \<longrightarrow> iu_origin r \<noteq> ''ai'')"

definition replaced_ids :: "string \<Rightarrow> int \<Rightarrow> app_db \<Rightarrow> int set" where
  "replaced_ids mode p d = iu_id ` {r \<in> set (ap_issues d). \<not> survives mode p r}"

lemma replaced_listed: "replaced_ids mode p d = set (map iu_id (filter (\<lambda>r. \<not> survives mode p r) (ap_issues d)))"
  by (auto simp: replaced_ids_def)

lemma clear_issues_kept:
  "ap_issues (clear_issues mode p d) = filter (survives mode p) (ap_issues d)"
  "ap_next (clear_issues mode p d) = ap_next d"
  by (auto simp: clear_issues_def delete_issues_def drop_links_def delete_links_def survives_def Let_def intro!: filter_cong)

lemma delete_issues_pairs:
  "rule_pairs (delete_issues P d) = filter (\<lambda>l. fst l \<notin> iu_id ` {r \<in> set (ap_issues d). P r}) (rule_pairs d)"
  "document_pairs (delete_issues P d) = filter (\<lambda>l. fst l \<notin> iu_id ` {r \<in> set (ap_issues d). P r}) (document_pairs d)"
  by (simp_all add: delete_issues_def drop_links_def delete_links_def rule_pairs_def document_pairs_def Let_def filter_map comp_def)

lemma clear_issues_pairs:
  "rule_pairs (clear_issues mode p d) = filter (\<lambda>l. fst l \<notin> replaced_ids mode p d) (rule_pairs d)"
  "document_pairs (clear_issues mode p d) = filter (\<lambda>l. fst l \<notin> replaced_ids mode p d) (document_pairs d)"
  by (simp_all add: clear_issues_def delete_issues_pairs replaced_ids_def survives_def)

lemma is_valid_names: "is_valid rs ds f \<longleftrightarrow> set (fg_ruleIds f) \<inter> set rs \<noteq> {} \<and> fst ` set (fg_documents f) \<inter> set ds \<noteq> {}"
  by (auto simp: is_valid_def valid_rules_def valid_references_def filter_empty_conv)

lemma findings_stored_by_run:
  assumes "p \<in> set (map pj_id (ap_projects (nv_app S)))"
  shows "let d = nv_app S; ruleIds = map ru_id (getEffectiveRulesForProject p d); docIds = map dc_id (chosen_documents p ids d);
      new = keyed (ap_next d Issues)
        (filter (\<lambda>f. set (fg_ruleIds f) \<inter> set ruleIds \<noteq> {} \<and> fst ` set (fg_documents f) \<inter> set docIds \<noteq> {}) fs)
    in \<exists>r S'. keep_findings E D I p mode jobId ruleIds docIds fs S = Done r S' \<and> rs_status r = 200 \<and> only_issues d (nv_app S')
      \<and> ap_issues (nv_app S') = filter (survives mode p) (ap_issues d) @ map (\<lambda>(i, f). finding_row E p i f) new
      \<and> rule_pairs (nv_app S') = filter (\<lambda>l. fst l \<notin> replaced_ids mode p d) (rule_pairs d)
          @ concat (map (\<lambda>(i, f). map (Pair i) (filter (\<lambda>k. k \<in> set ruleIds) (fg_ruleIds f))) new)
      \<and> document_pairs (nv_app S') = filter (\<lambda>l. fst l \<notin> replaced_ids mode p d) (document_pairs d)
          @ concat (map (\<lambda>(i, f). map (Pair i) (filter (\<lambda>k. k \<in> set docIds) (map fst (fg_documents f)))) new)"
proof -
  let ?rs = "map ru_id (getEffectiveRulesForProject p (nv_app S))" and ?ds = "map dc_id (chosen_documents p ids (nv_app S))"
  let ?d0 = "clear_issues mode p (nv_app S)"
  obtain created skipped d' where r: "store_findings E p ?rs ?ds 0 fs ?d0 = Done (created, skipped) d'" "only_issues ?d0 d'"
    "ap_issues d' = ap_issues ?d0 @ map (\<lambda>(i, f). finding_row E p i f) (keyed (ap_next ?d0 Issues) (filter (is_valid ?rs ?ds) fs))"
    "rule_pairs d' = rule_pairs ?d0
      @ concat (map (\<lambda>(i, f). map (Pair i) (valid_rules ?rs f)) (keyed (ap_next ?d0 Issues) (filter (is_valid ?rs ?ds) fs)))"
    "document_pairs d' = document_pairs ?d0
      @ concat (map (\<lambda>(i, f). map (\<lambda>r. (i, fst r)) (valid_references ?ds f)) (keyed (ap_next ?d0 Issues) (filter (is_valid ?rs ?ds) fs)))"
    using store_findings_stores[OF project_storable[OF assms, of ids mode], of E 0 fs] by blast
  have refs: "map (\<lambda>r. (i, fst r)) (valid_references ds f) = map (Pair i) (filter (\<lambda>k. k \<in> set ds) (map fst (fg_documents f)))" for i ds f
    by (simp add: valid_references_def filter_map comp_def)
  have "only_issues (nv_app S) d'" by (rule only_issues_trans[OF clear_issues_frame r(2)])
  moreover have "\<exists>a S'. keep_findings E D I p mode jobId ?rs ?ds fs S = Done a S' \<and> rs_status a = 200 \<and> nv_app S' = d'"
    using r(1) by (simp add: keep_findings_def with_app_def Let_def consumed_answer_def ok_answer_def answer_def)
  ultimately show ?thesis
    using r(3-5) unfolding Let_def refs clear_issues_kept clear_issues_pairs valid_rules_def is_valid_names[abs_def] by blast
qed

lemma keep_findings_answer:
  assumes "p \<in> set (map pj_id (ap_projects (nv_app S)))"
  shows "\<exists>created k S'. keep_findings E D I p mode jobId (map ru_id (getEffectiveRulesForProject p (nv_app S)))
    (map dc_id (chosen_documents p ids (nv_app S))) fs S = Done (consumed_answer created k False) S'"
proof -
  obtain c s d' where "store_findings E p (map ru_id (getEffectiveRulesForProject p (nv_app S))) (map dc_id (chosen_documents p ids (nv_app S))) 0 fs
      (clear_issues mode p (nv_app S)) = Done (c, s) d'"
    using store_findings_stores[OF project_storable[OF assms, of ids mode], of E 0 fs] by blast
  then show ?thesis by (auto simp: keep_findings_def with_app_def Let_def)
qed

text \<open>
  Storing the findings of a model never fails. What is left of the issues of the project is those its mode does not replace (\<open>replace_all\<close>
  replaces them all, \<open>replace_ai\<close> those of an earlier analysis, and any other mode none), the issues of the other projects are left as they
  are, and so are the links of all of them; then comes one issue for each finding that names a rule and a document of the project, with the
  next keys and linked to exactly those rules and documents. The workspaces, projects, documents and rules stay as they are.
\<close>

theorem findings_are_stored:
  assumes "p \<in> set (map pj_id (ap_projects (nv_app S)))"
  shows "let d = nv_app S; ruleIds = map ru_id (getEffectiveRulesForProject p d); docIds = map dc_id (chosen_documents p ids d);
      new = keyed (ap_next d Issues)
        (filter (\<lambda>f. set (fg_ruleIds f) \<inter> set ruleIds \<noteq> {} \<and> fst ` set (fg_documents f) \<inter> set docIds \<noteq> {}) fs)
    in \<exists>r S'. keep_findings E D I p mode jobId ruleIds docIds fs S = Done r S' \<and> rs_status r = 200 \<and> only_issues d (nv_app S')
      \<and> ap_issues (nv_app S') = filter (survives mode p) (ap_issues d) @ map (\<lambda>(i, f). finding_row E p i f) new
      \<and> rule_pairs (nv_app S') = filter (\<lambda>l. fst l \<notin> replaced_ids mode p d) (rule_pairs d)
          @ concat (map (\<lambda>(i, f). map (Pair i) (filter (\<lambda>k. k \<in> set ruleIds) (fg_ruleIds f))) new)
      \<and> document_pairs (nv_app S') = filter (\<lambda>l. fst l \<notin> replaced_ids mode p d) (document_pairs d)
          @ concat (map (\<lambda>(i, f). map (Pair i) (filter (\<lambda>k. k \<in> set docIds) (map fst (fg_documents f)))) new)"
  using assms by (rule findings_stored_by_run)

section \<open>A job is consumed once\<close>

lemma with_assert: "with_app (assertProjectAccess auth p) S = (case canAccessProject auth p (nv_app S) of
    Inl e \<Rightarrow> Fail e S | Inr ok \<Rightarrow> if ok then Done () S else Fail Workspace_Access.forbidden S)"
  by (simp add: with_app_def assertProjectAccess_def split: sum.splits)

lemma settle_analysis_200: "rs_status (fst (settle_analysis E r)) = 200 \<Longrightarrow> \<exists>a s. r = Done a s \<and> settle_analysis E r = (a, s)"
  by (cases r) (auto simp: settle_analysis_def fail_answer_def answer_def split: if_splits)

lemma nat_str_not_empty: "nat_str n \<noteq> []"
  by (subst nat_str.simps) simp

lemma kv_get_put: "now < later + mark_life \<Longrightarrow> kv_get now (kv_put later k v marks) k = Some v"
  by (simp add: kv_get_def kv_put_def)

text \<open>The answer of a request that stored the findings, apart from that of one that found the mark.\<close>

lemma keep_findings_marks:
  "keep_findings E D I p mode jobId rs ds fs S = Done r S' \<Longrightarrow> ie_saved I \<Longrightarrow> \<exists>v. v \<noteq> [] \<and> nv_consumed S' jobId = Some (v, ie_now_ms I + mark_life)"
  by (auto simp: keep_findings_def with_app_def Let_def kv_put_def nat_str_not_empty and_then_Done_iff split: out.splits)

lemma consume_result_marks:
  assumes "consume_result E D I p mode ids job res S = Done (consumed_answer created k False) S'" "ie_saved I"
  shows "\<exists>v. v \<noteq> [] \<and> nv_consumed S' (hj_id job) = Some (v, ie_now_ms I + mark_life)"
  using assms keep_findings_marks
  by (auto simp: consume_result_def Let_def fail_answer_def answer_def consumed_answer_def ok_answer_def split: if_splits sum.splits)

lemma named_result_marks:
  assumes "named_job N p i = Some job" "consume_result E D I p mode ids job res S = Done (consumed_answer created k False) S'" "ie_saved I"
  shows "\<exists>v. v \<noteq> [] \<and> nv_consumed S' i = Some (v, ie_now_ms I + mark_life)"
proof -
  have "hj_id job = i" using assms(1) by (auto simp: named_job_def find_job_def find_Some_iff split: option.splits if_splits)
  then show ?thesis using consume_result_marks[OF assms(2,3)] by simp
qed

lemma consumed_stays:
  assumes "present (kv_get (ie_now_ms I) (nv_consumed S) (Bridge_Gateway.js_trim jobParam))"
  shows "snd (consume_analysis E D I auth N param jobParam body S) = S"
  using assms by (auto simp: consume_analysis_def settle_analysis_state with_assert parse_as_def Let_def split: option.splits sum.splits)

lemma consume_analysis_marks:
  assumes "consume_analysis E D I auth N param jobParam body S = (consumed_answer created k False, S')" "ie_saved I"
  shows "\<exists>v. v \<noteq> [] \<and> nv_consumed S' (Bridge_Gateway.js_trim jobParam) = Some (v, ie_now_ms I + mark_life)"
proof -
  have ok: "rs_status (fst (consume_analysis E D I auth N param jobParam body S)) = 200"
    by (simp add: assms(1) consumed_answer_def ok_answer_def answer_def)
  then obtain p where p: "validatePositiveInt (Some param) = Some p"
    by (auto simp: consume_analysis_def fail_answer_def answer_def split: option.splits)
  have m: "\<exists>v. v \<noteq> [] \<and> nv_consumed S' (Bridge_Gateway.js_trim jobParam) = Some (v, ie_now_ms I + mark_life)"
    if "named_job N p (Bridge_Gateway.js_trim jobParam) = Some job"
      "consume_result E D I p mode ids job res S = Done (consumed_answer created k False) S'" for mode ids job res
    by (rule named_result_marks[OF that assms(2)])
  from settle_analysis_200[OF ok[unfolded consume_analysis_def p option.case]] show ?thesis
    using assms(1)
    by (auto simp: consume_analysis_def p with_assert parse_as_def Let_def fail_answer_def answer_def consumed_answer_def ok_answer_def
        dest: m[unfolded consumed_answer_def ok_answer_def answer_def] split: option.splits sum.splits if_splits)
qed


section \<open>The window of the model\<close>

lemma output_budget_fits:
  assumes "output_budget m (Some w) eff mt est = Some n" "0 < w"
  shows "n + est \<le> (if 1000 < w then w - 1000 else w)"
  using assms by (auto simp: output_budget_def available_output_def capped_def Let_def split: if_splits option.splits)

lemma request_payload:
  assumes "getProviderRequestConfig N x s n t prompt = Inr (url, headers, payload)"
  shows "obj_get payload ''max_tokens'' = Some (json_int n)
    \<and> (\<exists>ms. obj_get payload ''messages'' = Some (JArr ms) \<and> chat_message ''user'' prompt \<in> set ms)"
  using assms by (auto simp: getProviderRequestConfig_def Let_def obj_get_def map_of_obj_spread split: if_splits)

lemma start_analysis_202:
  assumes "start_analysis I auth N p params S = Done r S'" "rs_status r = 202"
  shows "\<exists>s x n url headers payload email.
    let prompt = buildPrompt I (getEffectiveRulesForProject p (nv_app S)) (chosen_documents p (yp_documentIds params) (nv_app S))
          (known_issues (yp_mode params) p (nv_app S))
    in loadUserSettings True auth (nd_settings N) = Inr s \<and> createAiProviderForPurpose I N s ''issue_analysis'' = Inr x
      \<and> output_budget (rx_maxOutputTokens x) (rx_contextWindow x) (yp_effort params) (yp_maxTokens params) (estimateTokensFromText prompt) = Some n
      \<and> getProviderRequestConfig N x s n (yp_temperature params) prompt = Inr (url, headers, payload)
      \<and> nv_requests S' = nv_requests S @ [job_request url headers payload p email]"
  using assms
  by (auto simp: start_analysis_def Let_def enqueue_analysis_def fail_answer_def answer_def too_large_def
      split: if_splits sum.splits option.splits prod.splits)

lemma settle_analysis_202: "settle_analysis E m = (r, S') \<Longrightarrow> rs_status r = 202 \<Longrightarrow> m = Done r S'"
  by (cases m) (auto simp: settle_analysis_def fail_answer_def answer_def split: if_splits)

lemma analyze_issues_202:
  assumes "analyze_issues E I auth N param body S = (r, S')" "rs_status r = 202"
  obtains p params where "start_analysis I auth N p params S = Done r S'"
  using assms
  by (auto simp: analyze_issues_def with_assert parse_as_def fail_answer_def answer_def dest!: settle_analysis_202
      split: option.splits sum.splits if_splits)

text \<open>C24: 
  A request that the handler accepts leaves room for its own answer: the estimate of its prompt and the tokens it asks for stay within the window
  of the model, less the 1000 tokens kept in reserve, whatever number of tokens the user named.
\<close>

theorem analysis_fits_window:
  assumes "analyze_issues E I auth N param body S = (r, S')" "rs_status r = 202"
    "loadUserSettings True auth (nd_settings N) = Inr s" "createAiProviderForPurpose I N s ''issue_analysis'' = Inr x"
    "rx_contextWindow x = Some w" "0 < w"
  shows "\<exists>prompt n url headers payload ms p email. nv_requests S' = nv_requests S @ [job_request url headers payload p email]
    \<and> obj_get payload ''max_tokens'' = Some (json_int n) \<and> obj_get payload ''messages'' = Some (JArr ms) \<and> chat_message ''user'' prompt \<in> set ms
    \<and> n + estimateTokensFromText prompt \<le> (if 1000 < w then w - 1000 else w)"
proof -
  obtain p params where st: "start_analysis I auth N p params S = Done r S'" by (rule analyze_issues_202[OF assms(1,2)])
  let ?prompt = "buildPrompt I (getEffectiveRulesForProject p (nv_app S)) (chosen_documents p (yp_documentIds params) (nv_app S))
    (known_issues (yp_mode params) p (nv_app S))"
  obtain n url headers payload email where
    b: "output_budget (rx_maxOutputTokens x) (Some w) (yp_effort params) (yp_maxTokens params) (estimateTokensFromText ?prompt) = Some n"
    and c: "getProviderRequestConfig N x s n (yp_temperature params) ?prompt = Inr (url, headers, payload)"
    and q: "nv_requests S' = nv_requests S @ [job_request url headers payload p email]"
    using start_analysis_202[OF st assms(2)] assms(3-5) by (auto simp: Let_def)
  obtain ms where "obj_get payload ''max_tokens'' = Some (json_int n)" "obj_get payload ''messages'' = Some (JArr ms)" "chat_message ''user'' ?prompt \<in> set ms"
    using request_payload[OF c] by blast
  then show ?thesis using q output_budget_fits[OF b assms(6)] by blast
qed

section \<open>Tables in order, others spared\<close>

lemma insert_issue_theirs:
  assumes "app_wf d" "p \<notin> their_plans e d"
  shows "spares e d (out_state (insert_issue now t x pr st og p d))"
proof (cases "insert_issue now t x pr st og p d")
  case (Done row d')
  then show ?thesis using assms insert_issue_wf[OF assms(1) Done]
    by (auto simp: insert_issue_def bump_def Let_def their_workspaces_def split: if_splits intro!: sparesI)
qed (use assms in \<open>auto simp: insert_issue_def Let_def spares_refl split: if_splits\<close>)

lemma insert_anchors_from_tables:
  "insert_anchors_from i as d = Done u d' \<Longrightarrow> only_issues d d' \<and> ap_issues d' = ap_issues d"
proof (induction i as d rule: insert_anchors_from.induct)
  case (2 i j kind text' as d)
  then show ?case by (auto simp: and_then_Done_iff insert_anchor_def bump_def only_issues_def split: if_splits)
qed (simp add: only_issues_def)

lemma only_issues_spares:
  assumes "app_wf d'" "only_issues d d'" "filter (\<lambda>r. iu_projectId r \<in> their_plans e d) (ap_issues d') = filter (\<lambda>r. iu_projectId r \<in> their_plans e d) (ap_issues d)"
  shows "spares e d d'"
  using assms by (intro sparesI) (simp_all add: only_issues_def their_workspaces_def)

lemma insert_anchors_out: "app_wf d \<Longrightarrow> spares e d (out_state (insert_anchors i as d))"
  unfolding insert_anchors_def
proof (rule atomically_wf)
  fix u d' assume "app_wf d" "insert_anchors_from i as d = Done u d'"
  then show "spares e d d'" using insert_anchors_from_tables[of i as d u d'] insert_anchors_from_wf[of d i as u d']
    by (intro only_issues_spares) simp_all
qed (rule spares_refl)

lemma insert_issue_rules_out: "app_wf d \<Longrightarrow> spares e d (out_state (insert_links Issue_rules i rs d))"
  by (rule insert_links_spares) (simp_all add: others_link_def)

lemma clear_issues_spares:
  assumes "app_wf d" "p \<notin> their_plans e d"
  shows "spares e d (clear_issues mode p d)"
proof (rule only_issues_spares[OF _ clear_issues_frame])
  show "app_wf (clear_issues mode p d)" using assms(1) delete_issues_wf by (simp add: clear_issues_def)
  show "filter (\<lambda>r. iu_projectId r \<in> their_plans e d) (ap_issues (clear_issues mode p d)) = filter (\<lambda>r. iu_projectId r \<in> their_plans e d) (ap_issues d)"
    using assms(2) by (auto simp: clear_issues_def delete_issues_def drop_links_def delete_links_def Let_def intro!: filter_cong)
qed

lemma store_finding_out:
  assumes "app_wf d" "p \<notin> their_plans e d"
  shows "spares e d (out_state (store_finding E p rs ds f d))"
  unfolding store_finding_def
  by (intro spares_and_then insert_issue_theirs[OF assms])
    (auto intro: spares_and_then spares_trans dest: spares_wf insert_anchors_out insert_issue_rules_out)

lemma store_findings_out:
  assumes "app_wf d" "p \<notin> their_plans e d"
  shows "spares e d (out_state (store_findings E p rs ds k fs d))"
  using assms
proof (induction fs arbitrary: k d)
  case (Cons f fs)
  have one: "spares e d d1" if "store_finding E p rs ds f d = Done row d1" for row d1
    using store_finding_out[OF Cons.prems, of E rs ds f] that by simp
  have rest: "spares e d1 (out_state (store_findings E p rs ds (Suc k) fs d1))" if "spares e d d1" for d1
    using that Cons.prems(2) by (intro Cons.IH) (simp_all add: spares_wf their_plans_spared)
  show ?case
  proof (cases "valid_rules rs f = [] \<or> valid_references ds f = []")
    case True
    have "out_state (and_then m (\<lambda>(c, s). Done (g c, h s))) = out_state m" for m :: "(app_db, json list \<times> json list) out" and g h :: "json list \<Rightarrow> json list"
      by (cases m) auto
    then show ?thesis using True Cons.IH[OF Cons.prems, of "Suc k"]
      by (cases "store_findings E p rs ds (Suc k) fs d") auto
  next
    case False
    show ?thesis
    proof (cases "store_finding E p rs ds f d")
      case (Done row d1)
      then show ?thesis using False spares_trans[OF one[OF Done] rest[OF one[OF Done]]]
        by (cases "store_findings E p rs ds (Suc k) fs d1") auto
    next
      case (Fail er d1)
      then show ?thesis using False store_finding_out[OF Cons.prems, of E rs ds f] by simp
    qed
  qed
qed (simp add: spares_refl)

lemma keep_findings_out:
  assumes "app_wf (nv_app S)" "p \<notin> their_plans e (nv_app S)"
  shows "spares e (nv_app S) (nv_app (out_state (keep_findings E D I p mode jobId rs ds fs S)))"
proof -
  let ?d0 = "clear_issues mode p (nv_app S)"
  have s: "spares e (nv_app S) ?d0" by (rule clear_issues_spares[OF assms])
  have "spares e ?d0 (out_state (store_findings E p rs ds 0 fs ?d0))"
    using assms(2) s by (intro store_findings_out) (simp_all add: spares_wf their_plans_spared)
  then have t: "spares e (nv_app S) (out_state (store_findings E p rs ds 0 fs ?d0))" by (rule spares_trans[OF s])
  then show ?thesis
    by (cases "store_findings E p rs ds 0 fs ?d0") (auto simp: keep_findings_def with_app_def Let_def)
qed

lemma consume_result_out:
  assumes "app_wf (nv_app S)" "p \<notin> their_plans e (nv_app S)"
  shows "spares e (nv_app S) (nv_app (out_state (consume_result E D I p mode ids job res S)))"
  using keep_findings_out[OF assms] spares_refl[OF assms(1)] by (auto simp: consume_result_def Let_def split: sum.splits)

text \<open>Consuming a result keeps the tables in order and spares what the others own; starting an analysis does not touch the tables.\<close>

lemma consume_analysis_spares:
  assumes "app_wf (nv_app S)" "acts_as e auth"
  shows "spares e (nv_app S) (nv_app (snd (consume_analysis E D I auth N param jobParam body S)))"
  using own_plan[OF assms] consume_result_out[OF assms(1)] spares_refl[OF assms(1)]
  by (auto simp: consume_analysis_def settle_analysis_state with_assert parse_as_def Let_def split: option.splits sum.splits)

lemma start_analysis_app: "nv_app (out_state (start_analysis I auth N p params S)) = nv_app S"
  by (simp add: start_analysis_def enqueue_analysis_def Let_def split: sum.split option.split prod.split)

lemma analyze_issues_app: "nv_app (snd (analyze_issues E I auth N param body S)) = nv_app S"
  by (simp add: analyze_issues_def settle_analysis_state with_assert parse_as_def start_analysis_app split: option.split sum.split)

lemma analysis_status_state: "snd (analysis_status E auth N param jobParam d) = d"
  by (auto simp: analysis_status_def handler_simps Let_def split: option.split sum.split)

lemma model_route_spares:
  assumes "app_wf d" "acts_as e auth"
  shows "spares e d (snd (model_route E D auth q d))"
proof -
  have c: "spares e d (nv_app (snd (consume_analysis E D (mw_env W) auth (mw_data W) i j b (store_of W d))))" for W i j b
    using consume_analysis_spares[of "store_of W d" e auth E D "mw_env W" "mw_data W" i j b] assms by (simp add: store_of_def)
  have a: "nv_app (snd (analyze_issues E (mw_env W) auth (mw_data W) i b (store_of W d))) = d" for W i b
    by (simp add: analyze_issues_app store_of_def)
  show ?thesis
    using c a by (cases q) (simp_all add: case_prod_unfold Let_def spares_refl assms(1) analysis_status_state propose_rules_state find_duplicates_state)
qed

section \<open>What the analysis gets wrong\<close>

text \<open>A reply in a fence of Markdown is not found: what is found has a backslash behind \<open>json\<close>.\<close>

lemma lower_backslash:
  assumes "js_lower_char x = CHR 0x5C"
  shows "x = CHR 0x5C"
proof (rule ccontr)
  let ?n = "of_char x :: nat"
  assume "x \<noteq> CHR 0x5C"
  then have r: "65 \<le> ?n \<and> ?n \<le> 90 \<or> 192 \<le> ?n \<and> ?n \<le> 222" "char_of (?n + 32) = CHR 0x5C"
    using assms by (auto simp: js_lower_char_def Let_def split: if_splits)
  from r(2) have "(of_char (char_of (?n + 32) :: char) :: nat) = of_char (CHR 0x5C)" by (rule arg_cong)
  then have "(?n + 32) mod 256 = 92" by simp
  then show False using r(1) by auto
qed

lemma fence_needs_backslash: "fence_match s \<noteq> None \<Longrightarrow> CHR 0x5C \<in> set s"
proof (induction s)
  case (Cons c s)
  show ?case
  proof (cases "fence_open (c # s)")
    case True
    then have "CHR 0x5C \<in> js_lower_char ` set (take 8 (c # s))" by (simp only: fence_open_def js_lower_def flip: set_map) simp
    then obtain x where "x \<in> set (take 8 (c # s))" "js_lower_char x = CHR 0x5C" by (metis imageE)
    then show ?thesis using lower_backslash by (blast dest: in_set_takeD)
  qed (use Cons in auto)
qed simp

text \<open>A user without access is answered 500, not 403.\<close>

lemma forbidden_analysis_500:
  assumes "validatePositiveInt (Some param) = Some p" "canAccessProject auth p (nv_app S) = Inr False"
  shows "rs_status (fst (analyze_issues E I auth N param body S)) = 500"
  using assms by (simp add: analyze_issues_def with_assert settle_analysis_def Workspace_Access.forbidden_def Workspace_Access.err_message_def
      fail_answer_def answer_def)

text \<open>The replaced issues are gone although nothing the model found is valid.\<close>

lemma replaced_by_nothing:
  fixes S :: analysis_store and p :: int and ids :: "int list option"
  defines "rs \<equiv> map ru_id (getEffectiveRulesForProject p (nv_app S))" and "ds \<equiv> map dc_id (chosen_documents p ids (nv_app S))"
  assumes "p \<in> set (map pj_id (ap_projects (nv_app S)))" "\<forall>f\<in>set fs. \<not> is_valid rs ds f"
  shows "\<exists>r S'. keep_findings E D I p ''replace_all'' jobId rs ds fs S = Done r S' \<and> filter (\<lambda>r. iu_projectId r = p) (ap_issues (nv_app S')) = []"
proof -
  let ?d0 = "clear_issues ''replace_all'' p (nv_app S)"
  have none: "filter (is_valid rs ds) fs = []" using assms(4) by (simp add: filter_empty_conv)
  obtain created skipped d' where "store_findings E p rs ds 0 fs ?d0 = Done (created, skipped) d'" "ap_issues d' = ap_issues ?d0"
    using store_findings_stores[OF project_storable[OF assms(3), of ids "''replace_all''"], of E 0 fs] none unfolding rs_def ds_def by auto
  then show ?thesis
    by (auto simp: keep_findings_def with_app_def Let_def clear_issues_def delete_issues_def drop_links_def delete_links_def filter_empty_conv)
qed

text \<open>With no window known, the number of tokens a user names is not bounded by that of the model.\<close>

lemma tokens_unbounded: "output_budget (Some m) None effort (Some n) est = Some n"
  by (simp add: output_budget_def available_output_def capped_def)

text \<open>The provider of everyone who has not chosen one cannot analyse.\<close>

lemma default_provider_refused:
  assumes "rx_providerKey x = ''cloudflare''"
  shows "getProviderRequestConfig N x s n t prompt = Inl (''Async analysis is not configured for provider '' @ [CHR 0x27] @ ''cloudflare'' @ [CHR 0x27] @ ''.'')"
  using assms by (simp add: getProviderRequestConfig_def Let_def)

section \<open>An analysis of a small project\<close>

definition small_app :: app_db where
  "small_app = empty_app\<lparr>ap_next := (\<lambda>_. 9),
     ap_workspaces := [\<lparr>ws_id = 1, ws_name = ''w'', ws_ownerId = ''al'', ws_isPersonal = True, ws_allRules = True, ws_createdAt = 0, ws_updatedAt = 0\<rparr>],
     ap_projects := [\<lparr>pj_id = 1, pj_name = ''p'', pj_description = None, pj_workspaceId = 1, pj_createdAt = 0, pj_updatedAt = 0\<rparr>],
     ap_documents := [\<lparr>dc_id = 1, dc_projectId = 1, dc_filename = ''a.txt'', dc_fileType = ''txt'', dc_content = Some ''x'', dc_url = None,
        dc_storageKey = None, dc_status = ''uploaded'', dc_createdAt = 0, dc_updatedAt = 0\<rparr>],
     ap_rules := [\<lparr>ru_id = 1, ru_code = ''R1'', ru_name = ''r'', ru_description = None, ru_createdBy = ''al'', ru_createdAt = 0, ru_updatedAt = 0\<rparr>],
     ap_projectRules := [\<lparr>ln_id = 1, ln_from = 1, ln_to = 1\<rparr>]\<rparr>"

definition small_store :: analysis_store where
  "small_store = \<lparr>nv_app = small_app, nv_provider = (\<lambda>_. None), nv_consumed = (\<lambda>_. None), nv_skipped = [], nv_requests = []\<rparr>"

definition small_finding :: json where
  "small_finding = JObj [(''title'', JStr ''t''), (''description'', JStr ''d''), (''severity'', JStr ''low''), (''confidence'', JNum 5 1),
     (''ruleIds'', JArr [json_int 1, json_int 7]), (''documents'', JArr [JObj [(''documentId'', json_int 1)]])]"

definition small_env :: analysis_env where
  "small_env = \<lparr>ie_dash = CHR ''-'', ie_repair = (\<lambda>_. Some (JObj [(''issues'', JArr [small_finding])])), ie_ai = True, ie_saved = True, ie_bucket = True,
     ie_development = False, ie_reply = (True, 200, Some (JObj [(''ok'', JBool True), (''data'', JObj [(''jobId'', JStr ''j'')])])),
     ie_now_ms = 0\<rparr>"

definition small_doc :: doc_env where
  "small_doc = \<lparr>de_requestId = ''r'', de_now_ms = 5000, de_iso = ''1970-01-01T00:00:05.000Z'', de_uuid = ''u'', de_url = (\<lambda>_. True)\<rparr>"

definition small_settings :: user_settings where
  "small_settings = \<lparr>us_userId = ''al'', us_themeMode = ''dark'', us_themeId = ''default'',
     us_ai = \<lparr>as_preferredProvider = ''anthropic'', as_apiKeys = \<lparr>pt_anthropic = Some ''k'', pt_huggingface = None, pt_moonshot = None\<rparr>,
       as_apiKeysPresent = no_flags, as_baseUrls = no_texts\<rparr>,
     us_lastStudioId = None, us_dayStart = json_int 5, us_dayEnd = json_int 23\<rparr>"

definition small_data :: analysis_data where
  "small_data = \<lparr>nd_responders = [\<lparr>rp_id = 1, rp_purpose = ''issue_analysis'', rp_providerKey = ''anthropic'', rp_model = ''m'', rp_modelType = ''chat'',
        rp_maxOutputTokens = Some 2000, rp_settingsJson = Some (with_quotes ''{`contextWindowTokens`:9000}''), rp_sortOrder = 0\<rparr>],
     nd_providers = [], nd_config = (\<lambda>_. None), nd_settings = (\<lambda>_. Some (settings_json small_settings)),
     nd_jobs = [\<lparr>hj_id = ''j'', hj_projectId = 1, hj_requestJson = with_quotes ''{`url`:`https://api.anthropic.com/v1/messages`}'', hj_status = ''completed'',
        hj_responseStatus = Some 200, hj_responseKey = Some ''k'', hj_error = None, hj_createdAt = 0, hj_updatedAt = 0\<rparr>],
     nd_results = (\<lambda>_. Some \<lparr>jr_httpStatus = 200, jr_body = Some (with_quotes ''{`content`:[{`type`:`text`,`text`:`x`}]}'')\<rparr>)\<rparr>"

lemma small_access: "validatePositiveInt (Some ''1'') = Some 1" "canAccessProject demo_user 1 small_app = Inr True"
    "Bridge_Gateway.js_trim ''j'' = ''j''" "settings_email demo_user = Inr ''al''" "getUserEmail demo_user = Inr ''al''"
  by code_simp+

lemma small_rows: "map ru_id (getEffectiveRulesForProject 1 small_app) = [1]" "map dc_id (chosen_documents 1 None small_app) = [1]"
  by code_simp+

lemma small_repair: "ie_repair small_env x = Some (JObj [(''issues'', JArr [small_finding])])"
  by (simp add: small_env_def)

lemma small_consumed: "\<exists>created k S'. consume_analysis quiet_env small_doc small_env demo_user small_data ''1'' ''j'' None small_store
    = (consumed_answer created k False, S')"
proof -
  let ?body = "with_quotes ''{`content`:[{`type`:`text`,`text`:`x`}]}''"
  obtain job where job: "named_job small_data 1 ''j'' = Some job" "hj_id job = ''j''"
    "hj_requestJson job = with_quotes ''{`url`:`https://api.anthropic.com/v1/messages`}''"
    by (simp add: named_job_def find_job_def small_data_def)
  have res: "fetchHttpJobResult small_data ''j'' = Inr \<lparr>jr_httpStatus = 200, jr_body = Some ?body\<rparr>"
    by (simp add: fetchHttpJobResult_def find_job_def small_data_def present_def)
  have provider: "detectProviderFromRequest (with_quotes ''{`url`:`https://api.anthropic.com/v1/messages`}'') = ''anthropic''" by code_simp
  have reply: "extractAnthropicText quiet_env ?body = Inr ''x''" by code_simp
  have "issueFindingSchema (normalized_issue small_finding) \<noteq> None" by code_simp
  then obtain f where "issueFindingSchema (normalized_issue small_finding) = Some f" by blast
  then have fs: "validateIssuePayload quiet_env small_env ''x'' = Inr [f]"
    by (simp add: validateIssuePayload_def Issue_Analysis.extractJson_def Let_def small_repair normalizeIssuePayload_def issueFindingResponseSchema_def z_field_def
        z_optional_def)
  have "\<exists>created k S'. keep_findings quiet_env small_doc small_env 1 ''replace_ai'' ''j'' (map ru_id (getEffectiveRulesForProject 1 small_app))
      (map dc_id (chosen_documents 1 None small_app)) [f] small_store = Done (consumed_answer created k False) S'"
    using keep_findings_answer[of 1 small_store quiet_env small_doc small_env "''replace_ai''" "''j''" None "[f]"] by (simp add: small_store_def small_app_def)
  moreover have "present (Some ?body)" by (simp add: present_def with_quotes_def)
  ultimately show ?thesis
    by (auto simp: kv_get_def consume_analysis_def small_access with_assert small_store_def parse_as_def consumeSchema_def z_default_def z_optional_def
        job res consume_result_def Let_def provider reply_text_def reply fs small_rows settle_analysis_def present_def) blast
qed


text \<open>A project with an issue of an earlier analysis and one of a user, and another project with an issue of its own analysis.\<close>

definition issue_of :: "int \<Rightarrow> string \<Rightarrow> int \<Rightarrow> issue_row" where
  "issue_of i origin p = \<lparr>iu_id = i, iu_title = ''t'', iu_description = None, iu_priority = ''low'', iu_status = ''open'', iu_origin = origin,
     iu_projectId = p, iu_markedBy = None, iu_markedAt = None, iu_createdAt = 0, iu_updatedAt = 0\<rparr>"

definition marked_app :: app_db where
  "marked_app = small_app\<lparr>ap_issues := [issue_of 1 ''ai'' 1, issue_of 2 ''user'' 1, issue_of 3 ''ai'' 2],
     ap_issueRules := [\<lparr>ln_id = 1, ln_from = 1, ln_to = 1\<rparr>, \<lparr>ln_id = 2, ln_from = 2, ln_to = 1\<rparr>]\<rparr>"

definition two_findings :: "issue_finding list" where
  "two_findings = [\<lparr>fg_title = ''a'', fg_description = ''d'', fg_severity = ''low'', fg_ruleIds = [7], fg_documents = [(1, None)]\<rparr>,
     \<lparr>fg_title = ''b'', fg_description = ''d'', fg_severity = ''high'', fg_ruleIds = [7, 1], fg_documents = [(1, None), (5, None)]\<rparr>]"

theorem findings_are_stored_witness:
  "let S = small_store\<lparr>nv_app := marked_app\<rparr>
   in \<exists>r S'. keep_findings quiet_env small_doc small_env 1 ''replace_ai'' ''j'' [1] [1] two_findings S = Done r S' \<and> rs_status r = 200
      \<and> ap_issues (nv_app S') = [issue_of 2 ''user'' 1, issue_of 3 ''ai'' 2, finding_row quiet_env 1 9 (two_findings ! 1)]
      \<and> rule_pairs (nv_app S') = [(2, 1), (9, 1)] \<and> document_pairs (nv_app S') = [(9, 1)]"
proof -
  let ?S = "small_store\<lparr>nv_app := marked_app\<rparr>"
  have rows: "map ru_id (getEffectiveRulesForProject 1 marked_app) = [1]" "map dc_id (chosen_documents 1 None marked_app) = [1]" by code_simp+
  have old: "filter (survives ''replace_ai'' 1) (ap_issues marked_app) = [issue_of 2 ''user'' 1, issue_of 3 ''ai'' 2]"
    "filter (\<lambda>l. fst l \<notin> replaced_ids ''replace_ai'' 1 marked_app) (rule_pairs marked_app) = [(2, 1)]" "document_pairs marked_app = []"
    "ap_next marked_app Issues = 9"
    by (simp_all add: marked_app_def small_app_def empty_app_def survives_def issue_of_def replaced_listed rule_pairs_def document_pairs_def)
  have "1 \<in> set (map pj_id (ap_projects (nv_app ?S)))" by (simp add: marked_app_def small_app_def)
  note stored = findings_are_stored[OF this, where ids = None and E = quiet_env and D = small_doc and I = small_env and mode = "''replace_ai''"
    and jobId = "''j''" and fs = two_findings]
  have app: "nv_app ?S = marked_app" by simp
  have one: "keyed 9 (filter (\<lambda>f. set (fg_ruleIds f) \<inter> set [1] \<noteq> {} \<and> fst ` set (fg_documents f) \<inter> set [1] \<noteq> {}) two_findings)
    = [(9, two_findings ! 1)]" by (simp add: two_findings_def)
  have named: "fg_ruleIds (two_findings ! 1) = [7, 1]" "fg_documents (two_findings ! 1) = [(1, None), (5, None)]" by (simp_all add: two_findings_def)
  show ?thesis using stored unfolding Let_def app rows old one by (simp add: named[simplified]) blast
qed

definition small_selection :: responder_selection where
  "small_selection = \<lparr>rx_providerKey = ''anthropic'', rx_modelName = ''m'', rx_baseUrl = None, rx_modeSettings = [(''contextWindowTokens'', JNum 9000 0)],
     rx_maxOutputTokens = Some 2000, rx_modelType = ''chat'', rx_contextWindow = Some 9000\<rparr>"

lemma small_selected: "createAiProviderForPurpose small_env small_data small_settings ''issue_analysis'' = Inr small_selection"
  by code_simp

lemma small_loaded: "loadUserSettings True demo_user (nd_settings small_data) = Inr small_settings"
proof -
  have "settings_ok small_settings" by code_simp
  then have "UserSettingsSchema (settings_json small_settings) = Some small_settings" by (rule settings_round_trip)
  moreover obtain s0 where "getDefaultUserSettings ''al'' = Some s0" using default_settings[of "''al''"] by auto
  ultimately show ?thesis by (simp add: loadUserSettings_def small_access getKvPathForUserSettings_def small_data_def)
qed

lemma small_budget: "output_budget (Some 2000) (Some 9000) ''medium'' None (estimateTokensFromText (buildPrompt small_env
    (getEffectiveRulesForProject 1 small_app) (chosen_documents 1 None small_app) (known_issues ''replace_ai'' 1 small_app))) = Some 1000"
  by code_simp

lemma small_started: "rs_status (fst (analyze_issues quiet_env small_env demo_user small_data ''1'' None small_store)) = 202"
proof -
  have params: "analyzeIssuesSchema (JObj []) = Some \<lparr>yp_documentIds = None, yp_maxTokens = None, yp_temperature = JNum 2 1, yp_mode = ''replace_ai'',
      yp_effort = ''medium''\<rparr>" by code_simp
  have rows: "getEffectiveRulesForProject 1 small_app \<noteq> []" "chosen_documents 1 None small_app \<noteq> []" using small_rows by auto
  obtain url headers payload where "getProviderRequestConfig small_data small_selection small_settings 1000 (JNum 2 1) (buildPrompt small_env
    (getEffectiveRulesForProject 1 small_app) (chosen_documents 1 None small_app) (known_issues ''replace_ai'' 1 small_app)) = Inr (url, headers, payload)"
    by (simp add: getProviderRequestConfig_def Let_def small_selection_def provider_key_def first_text_def provider_text_def small_settings_def present_def)
  moreover have "rx_maxOutputTokens small_selection = Some 2000" "rx_contextWindow small_selection = Some 9000" by (simp_all add: small_selection_def)
  moreover have "enqueueHttpJob (ie_reply small_env) = Inr (Some (JStr ''j''))" by (simp add: small_env_def enqueueHttpJob_def)
  moreover have "nv_app small_store = small_app" by (simp add: small_store_def)
  ultimately have "\<exists>r S'. start_analysis small_env demo_user small_data 1 \<lparr>yp_documentIds = None, yp_maxTokens = None, yp_temperature = JNum 2 1,
      yp_mode = ''replace_ai'', yp_effort = ''medium''\<rparr> small_store = Done r S' \<and> rs_status r = 202"
    using small_budget rows
    by (simp add: start_analysis_def Let_def small_loaded small_selected enqueue_analysis_def small_access queued_answer_def ok_answer_def answer_def)
  then show ?thesis
    using \<open>nv_app small_store = small_app\<close> by (auto simp: analyze_issues_def small_access with_assert parse_as_def params settle_analysis_def)
qed

theorem analysis_fits_window_witness:
  "\<exists>p n url headers payload ms prompt email. nv_requests (snd (analyze_issues quiet_env small_env demo_user small_data ''1'' None small_store))
      = [job_request url headers payload p email]
    \<and> obj_get payload ''messages'' = Some (JArr ms) \<and> chat_message ''user'' prompt \<in> set ms \<and> n + estimateTokensFromText prompt \<le> 8000"
proof -
  have "rx_contextWindow small_selection = Some 9000" "(0 :: int) < 9000" by (simp_all add: small_selection_def)
  from analysis_fits_window[OF prod.collapse[symmetric] small_started small_loaded small_selected this]
  have "\<exists>prompt n url headers payload ms p email. nv_requests (snd (analyze_issues quiet_env small_env demo_user small_data ''1'' None small_store))
      = [job_request url headers payload p email] \<and> obj_get payload ''max_tokens'' = Some (json_int n)
    \<and> obj_get payload ''messages'' = Some (JArr ms) \<and> chat_message ''user'' prompt \<in> set ms \<and> n + estimateTokensFromText prompt \<le> 8000"
    by (simp only: small_store_def analysis_store.select_convs append_Nil) simp
  then show ?thesis by blast
qed

end
