(* ===== verification/App_Properties.thy ===== *)
theory App_Properties
  imports Analysis_Correct
begin

text \<open>
  The application as a whole: any sequence of requests keeps the tables in order and spares what others own, copies of a workspace carry its
  rules, the effective rules of a project are those it was given, a session is granted only to a user with a role and an action; and what the
  issues and the access-control routes let any user do.
\<close>

section \<open>Sequences of requests\<close>

fun run_steps :: "('q \<Rightarrow> 's \<Rightarrow> 'a \<times> 's) \<Rightarrow> 'q list \<Rightarrow> 's \<Rightarrow> 's" where
  "run_steps step [] d = d"
| "run_steps step (q # qs) d = run_steps step qs (snd (step q d))"

text \<open>Steps that keep an invariant, and the good ones among them a view of the state.\<close>

locale request_isolation =
  fixes step :: "'q \<Rightarrow> 's \<Rightarrow> 'a \<times> 's"
    and good :: "'q \<Rightarrow> bool"
    and wf :: "'s \<Rightarrow> bool"
    and view :: "'s \<Rightarrow> 'v"
  assumes step_wf: "wf d \<Longrightarrow> wf (snd (step q d))"
    and step_view: "wf d \<Longrightarrow> good q \<Longrightarrow> view (snd (step q d)) = view d"
begin

lemma run_wf: "wf d \<Longrightarrow> wf (run_steps step qs d)"
  by (induction qs arbitrary: d) (simp_all add: step_wf)

lemma run_view: "wf d \<Longrightarrow> list_all good qs \<Longrightarrow> view (run_steps step qs d) = view d"
  by (induction qs arbitrary: d) (simp_all add: step_wf step_view)

end

text \<open>A request of the user with this address to the workspaces, the projects, the documents or the routes that ask a model.\<close>

definition own_call :: "string \<Rightarrow> app_call \<Rightarrow> bool" where
  "own_call e q \<longleftrightarrow> acts_as e (cl_auth q)
     \<and> (is_workspace_request (cl_request q) \<or> is_project_request (cl_request q) \<or> is_document_request (cl_request q)
       \<or> is_model_request (cl_request q))"

lemma own_call_spares:
  assumes "app_wf d" "own_call e q"
  shows "spares e d (snd (app_call_step q d))"
  using assms workspace_route_spares[of d e] project_route_spares[of d e] document_route_spares[of d e]
    model_route_spares[of d e]
  by (auto simp: own_call_def app_call_step_def app_step_def)

lemma app_call_wf:
  assumes "app_wf d"
  shows "app_wf (snd (app_call_step q d))"
proof -
  have "acts_as (case getUserEmail (cl_auth q) of Inl _ \<Rightarrow> [] | Inr e \<Rightarrow> e) (cl_auth q)" by (simp add: acts_as_def split: sum.split)
  then obtain e where a: "acts_as e (cl_auth q)" by blast
  note [simp] = workspace_route_spares[OF assms a, THEN spares_wf] project_route_spares[OF assms a, THEN spares_wf]
    document_route_spares[OF assms a, THEN spares_wf] model_route_spares[OF assms a, THEN spares_wf] issue_route_wf[OF assms] rule_route_wf[OF assms]
  show ?thesis by (simp add: app_call_step_def app_step_def)
qed

interpretation calls: request_isolation app_call_step "own_call e" app_wf "theirs e" for e
  by unfold_locales (auto simp: app_call_wf dest: own_call_spares simp: spares_def)

lemma app_run_steps: "snd (app_run qs d) = run_steps app_call_step qs d"
  by (induction qs arbitrary: d) (simp_all add: Let_def case_prod_unfold)

lemma run_steps_append: "run_steps step (ps @ qs) d = run_steps step qs (run_steps step ps d)"
  by (induction ps arbitrary: d) simp_all

text \<open>C18: 
  Whatever requests arrive at the routes of \<open>index.ts\<close> for workspaces, projects, documents, issues, rules and rule sets, those that ask a model
  included, from whomever, in whatever order and with whatever the model, its worker and the key-value store answer, the tables stay in
  order: keys are used once and come from the counters, every row refers to rows that are there, a rule is linked to a project, a workspace
  or a rule set at most once, and no two rules share a code.
\<close>

theorem app_tables_in_order: "app_wf (snd (app_run qs empty_app))"
  by (simp add: app_run_steps calls.run_wf empty_app_wf)

text \<open>C17: 
  Requests of one user to the workspaces, projects and documents, and to the routes that ask a model, leave what the others own as it was,
  whatever was requested before: their workspaces and projects, the documents and issues in them, and the rules and rule sets linked to them.
\<close>

theorem own_requests_spare_others:
  assumes "list_all (own_call e) qs"
  shows "theirs e (snd (app_run (ps @ qs) empty_app)) = theirs e (snd (app_run ps empty_app))"
  using assms by (simp add: app_run_steps run_steps_append calls.run_view calls.run_wf empty_app_wf)

definition demo_env :: app_env where
  "demo_env = \<lparr>ae_now = 5, ae_unique = ''UNIQUE constraint failed'', ae_foreign = ''FOREIGN KEY constraint failed'', ae_syntax = ''SyntaxError'',
     ae_no_values = ''No values to set'', ae_qualified = True, ae_fault = (\<lambda>_. None)\<rparr>"

definition demo_doc :: doc_env where
  "demo_doc = \<lparr>de_requestId = ''r'', de_now_ms = 5000, de_iso = ''1970-01-01T00:00:05.000Z'', de_uuid = ''u'', de_url = (\<lambda>_. True)\<rparr>"

definition user_named :: "string \<Rightarrow> auth_context" where
  "user_named m = User_auth (Some \<lparr>su_id = m, su_email = m, su_name = m, su_roles = [2], su_actions = [''view_documents'']\<rparr>)"

definition demo_call :: "string \<Rightarrow> app_request \<Rightarrow> app_call" where
  "demo_call m q = \<lparr>cl_env = demo_env, cl_doc = demo_doc, cl_auth = user_named m, cl_request = q\<rparr>"

lemma named_email: "getUserEmail (user_named ''b'') = Inr ''b''"
  by (simp add: getUserEmail_def user_named_def Bridge_Gateway.js_trim_def Bridge_Gateway.js_space_def js_lower_def js_lower_char_def)

theorem own_requests_spare_others_witness:
  "theirs ''b'' (snd (app_run ([demo_call ''a'' List_workspaces] @ [demo_call ''b'' (Delete_workspace ''1''), demo_call ''b'' (Document_delete ''1'')]) empty_app))
     = theirs ''b'' (snd (app_run [demo_call ''a'' List_workspaces] empty_app))"
  by (rule own_requests_spare_others) (simp add: own_call_def demo_call_def acts_as_def named_email)

section \<open>Copies\<close>

lemma links_appended:
  assumes "distinct bs" "a \<in> set (map ws_id (ap_workspaces d))" "set bs \<subseteq> set (map ru_id (ap_rules d))"
    "\<forall>l\<in>set (ap_workspaceRules d). ln_from l = a \<longrightarrow> ln_to l \<notin> set bs"
  shows "\<exists>d'. insert_links_from Workspace_rules a bs d = Done () d'
    \<and> map ln_to (filter (\<lambda>l. ln_from l = a) (ap_workspaceRules d')) = map ln_to (filter (\<lambda>l. ln_from l = a) (ap_workspaceRules d)) @ bs"
  using assms
proof (induction bs arbitrary: d)
  case (Cons b bs)
  let ?d = "set_links Workspace_rules (links Workspace_rules d @ [\<lparr>ln_id = ap_next d Workspace_rules, ln_from = a, ln_to = b\<rparr>]) (bump Workspace_rules d)"
  have 1: "insert_link Workspace_rules a b d = Done () ?d"
    using Cons.prems by (auto simp: insert_link_def list_ex_iff)
  have "\<exists>d'. insert_links_from Workspace_rules a bs ?d = Done () d'
    \<and> map ln_to (filter (\<lambda>l. ln_from l = a) (ap_workspaceRules d')) = map ln_to (filter (\<lambda>l. ln_from l = a) (ap_workspaceRules ?d)) @ bs"
    using Cons.prems by (intro Cons.IH) (auto simp: bump_def)
  then show ?case using 1 by (auto simp: bump_def)
qed simp

lemma distinct_targets: "distinct (map (\<lambda>l. (ln_from l, ln_to l)) ls) \<Longrightarrow> distinct (map ln_to (filter (\<lambda>l. ln_from l = a) ls))"
  by (auto simp: distinct_map inj_on_def)

definition copied_from :: "workspace_row \<Rightarrow> string \<Rightarrow> app_db \<Rightarrow> app_db \<Rightarrow> bool" where
  "copied_from w email d d' \<longleftrightarrow>
     (case find_workspace (ap_next d Workspaces) d' of
        None \<Rightarrow> False
      | Some c \<Rightarrow> ap_workspaces d' = ap_workspaces d @ [c] \<and> ws_ownerId c = email \<and> \<not> ws_isPersonal c \<and> ws_allRules c = ws_allRules w
          \<and> map ln_to (filter (\<lambda>l. ln_from l = ws_id c) (ap_workspaceRules d'))
            = map ln_to (filter (\<lambda>l. ln_from l = ws_id w) (ap_workspaceRules d)))"

text \<open>The same rows in every table; the counters of the keys may have moved on.\<close>

definition same_rows :: "app_db \<Rightarrow> app_db \<Rightarrow> bool" where
  "same_rows d d' \<longleftrightarrow> d'\<lparr>ap_next := ap_next d\<rparr> = d"

lemma linked_workspaces: "insert_links_from Workspace_rules a bs d = Done () d' \<Longrightarrow> ap_workspaces d' = ap_workspaces d"
  by (induction bs arbitrary: d) (auto simp: and_then_Done_iff insert_link_def bump_def split: if_splits)

lemma find_last: "\<forall>y\<in>set xs. \<not> P y \<Longrightarrow> P x \<Longrightarrow> find P (xs @ [x]) = Some x"
  by (induction xs) auto

lemma delete_no_projects:
  assumes "\<forall>p\<in>set (ap_projects d). \<not> P p"
  shows "delete_projects P d = d"
proof -
  have "filter P (ap_projects d) = []" "filter (\<lambda>p. \<not> P p) (ap_projects d) = ap_projects d" using assms by (simp_all add: filter_empty_conv)
  then show ?thesis by (simp add: delete_projects_def delete_issues_def delete_documents_def drop_links_def delete_links_def Let_def)
qed

text \<open>What \<open>insert\<close> makes of the tables, and what the \<open>catch\<close> makes of that.\<close>

definition with_copy :: "workspace_row \<Rightarrow> app_db \<Rightarrow> app_db" where
  "with_copy c d = (bump Workspaces d)\<lparr>ap_workspaces := ap_workspaces d @ [c]\<rparr>"

lemma copy_removed:
  assumes "app_wf d" "ws_id c = ap_next d Workspaces"
  shows "delete_workspaces (\<lambda>w. ws_id w = ap_next d Workspaces) (with_copy c d) = bump Workspaces d"
proof -
  have "keys_fit (ap_next d Workspaces) (map ws_id (ap_workspaces d))" and within: "inside (map pj_workspaceId (ap_projects d)) (map ws_id (ap_workspaces d))"
    "set (map ln_from (ap_workspaceRules d)) \<subseteq> set (map ws_id (ap_workspaces d))"
    using assms(1) by (simp_all add: app_wf_def linked_ok_def)
  then have new: "ap_next d Workspaces \<notin> set (map ws_id (ap_workspaces d))" by (auto simp: keys_fit_def list_all_iff)
  have fresh: "\<forall>v\<in>set (ap_workspaces d). ws_id v \<noteq> ap_next d Workspaces" "\<forall>p\<in>set (ap_projects d). pj_workspaceId p \<noteq> ap_next d Workspaces"
    "\<forall>l\<in>set (ap_workspaceRules d). ln_from l \<noteq> ap_next d Workspaces"
    using new within unfolding inside_def set_map by (metis image_eqI subsetD)+
  have keep: "filter (\<lambda>w. ws_id w = ap_next d Workspaces) (ap_workspaces d) = []"
    "filter (\<lambda>w. ws_id w \<noteq> ap_next d Workspaces) (ap_workspaces d) = ap_workspaces d"
    "filter (\<lambda>l. ln_from l \<noteq> ap_next d Workspaces) (ap_workspaceRules d) = ap_workspaceRules d"
    using fresh by (simp_all add: filter_empty_conv)
  show ?thesis using fresh(2) assms(2)
    by (simp add: delete_workspaces_def with_copy_def bump_def keep delete_no_projects drop_links_def delete_links_def Let_def)
qed

lemma linking_the_copy:
  assumes "app_wf d" "ws_id c = ap_next d Workspaces"
  obtains d2 where "insert_links Workspace_rules (ws_id c) (map ln_to (filter (\<lambda>l. ln_from l = ws_id w) (ap_workspaceRules d))) (with_copy c d) = Done () d2"
    "ap_workspaces d2 = ap_workspaces d @ [c]"
    "map ln_to (filter (\<lambda>l. ln_from l = ws_id c) (ap_workspaceRules d2)) = map ln_to (filter (\<lambda>l. ln_from l = ws_id w) (ap_workspaceRules d))"
proof -
  let ?ids = "map ln_to (filter (\<lambda>l. ln_from l = ws_id w) (ap_workspaceRules d))" and ?d = "with_copy c d"
  have fresh: "\<forall>v\<in>set (ap_workspaces d). ws_id v \<noteq> ap_next d Workspaces"
    using assms(1) by (auto simp: app_wf_def keys_fit_def list_all_iff)
  have l: "linked_ok (ap_next d Workspace_rules) (ap_workspaceRules d) (map ws_id (ap_workspaces d)) (map ru_id (ap_rules d)) True"
    using assms(1) by (simp add: app_wf_def)
  then have d': "distinct ?ids" by (intro distinct_targets) (simp add: linked_ok_def)
  have "\<forall>k\<in>set (ap_workspaceRules d). ln_from k \<noteq> ws_id c" using l fresh assms(2) by (auto simp: linked_ok_def)
  then have none: "filter (\<lambda>l. ln_from l = ws_id c) (ap_workspaceRules ?d) = []"
    by (auto simp: with_copy_def bump_def filter_empty_conv)
  have ids: "set ?ids \<subseteq> set (map ru_id (ap_rules d))" using l by (auto simp: linked_ok_def)
  have "\<exists>d2. insert_links_from Workspace_rules (ws_id c) ?ids ?d = Done () d2
    \<and> map ln_to (filter (\<lambda>l. ln_from l = ws_id c) (ap_workspaceRules d2)) = map ln_to (filter (\<lambda>l. ln_from l = ws_id c) (ap_workspaceRules ?d)) @ ?ids"
    by (rule links_appended[OF d']) (use ids none in \<open>auto simp: with_copy_def bump_def filter_empty_conv\<close>)
  then obtain d2 where "insert_links_from Workspace_rules (ws_id c) ?ids ?d = Done () d2"
    "map ln_to (filter (\<lambda>l. ln_from l = ws_id c) (ap_workspaceRules d2)) = ?ids" unfolding none by auto
  moreover from linked_workspaces[OF this(1)] have "ap_workspaces d2 = ap_workspaces d @ [c]" by (simp add: with_copy_def)
  ultimately show thesis using that by (simp add: insert_links_def)
qed

text \<open>C19: 
  Whatever statement of it fails, a copy of a workspace is made whole or not at all. When it is answered, the copy is the one new workspace, it
  belongs to the user, is not personal, keeps the setting of its source, and is linked to exactly the rules of the source. It fails only when
  the database fails at a statement, with that failure, and then every table has the rows it had before, unless the deletion in the \<open>catch\<close>
  fails as well: then what may be left is the copy without its links.
\<close>

theorem clone_copies_rules:
  assumes "app_wf d"
  shows "case clone_into E w email d of
      Done r d' \<Rightarrow> rs_status r = 201 \<and> copied_from w email d d'
    | Fail e d' \<Rightarrow> (\<exists>s. s \<noteq> Delete_copy \<and> ae_fault E s = Some e)
        \<and> (same_rows d d' \<or> ae_fault E Delete_copy \<noteq> None \<and> (\<exists>c. same_rows (d\<lparr>ap_workspaces := ap_workspaces d @ [c]\<rparr>) d' \<and> ws_ownerId c = email))"
proof -
  define c where "c = \<lparr>ws_id = ap_next d Workspaces, ws_name = buildCloneName (ws_name w), ws_ownerId = email, ws_isPersonal = False,
    ws_allRules = ws_allRules w, ws_createdAt = ae_now E, ws_updatedAt = ae_now E\<rparr>"
  have ins: "insert_workspace (ae_now E) (buildCloneName (ws_name w)) email False (ws_allRules w) d = (c, with_copy c d)"
    by (simp add: insert_workspace_def c_def with_copy_def Let_def)
  have c: "ws_id c = ap_next d Workspaces" "ws_ownerId c = email" "\<not> ws_isPersonal c" "ws_allRules c = ws_allRules w" by (simp_all add: c_def)
  let ?ids = "map ln_to (filter (\<lambda>l. ln_from l = ws_id w) (ap_workspaceRules d))"
  obtain d2 where d2: "insert_links Workspace_rules (ws_id c) ?ids (with_copy c d) = Done () d2" "ap_workspaces d2 = ap_workspaces d @ [c]"
    "map ln_to (filter (\<lambda>l. ln_from l = ws_id c) (ap_workspaceRules d2)) = ?ids"
    by (rule linking_the_copy[OF assms c(1)])
  have fresh: "\<forall>v\<in>set (ap_workspaces d). ws_id v \<noteq> ap_next d Workspaces"
    using assms by (auto simp: app_wf_def keys_fit_def list_all_iff)
  have "\<forall>k\<in>set (ap_workspaceRules d). ln_from k \<noteq> ap_next d Workspaces" using assms fresh by (auto simp: app_wf_def linked_ok_def)
  then have alone: "filter (\<lambda>l. ln_from l = ws_id c) (ap_workspaceRules (with_copy c d)) = []"
    by (auto simp: with_copy_def bump_def filter_empty_conv c(1))
  have rules: "ap_workspaceRules (with_copy c d) = ap_workspaceRules d" "ap_workspaces (with_copy c d) = ap_workspaces d @ [c]"
    by (simp_all add: with_copy_def bump_def)
  have copied: "copied_from w email d d3" if "ap_workspaces d3 = ap_workspaces d @ [c]"
    "map ln_to (filter (\<lambda>l. ln_from l = ws_id c) (ap_workspaceRules d3)) = ?ids" for d3
    using fresh that c by (simp add: copied_from_def find_workspace_def find_last)
  have restored: "same_rows d (bump Workspaces d)" "same_rows (d\<lparr>ap_workspaces := ap_workspaces d @ [c]\<rparr>) (with_copy c d)" "same_rows d d"
    by (simp_all add: same_rows_def bump_def with_copy_def)
  note removed = copy_removed[OF assms c(1), folded c(1)]
  consider (fault) e where "copy_links E (ws_id w) (ws_id c) (with_copy c d) = Fail e (with_copy c d)" "\<exists>s. s \<noteq> Delete_copy \<and> ae_fault E s = Some e"
    | (whole) d3 where "copy_links E (ws_id w) (ws_id c) (with_copy c d) = Done () d3" "copied_from w email d d3"
    using d2(1) copied[OF d2(2,3)] copied[OF rules(2)] alone
    by (cases "ae_fault E Select_links"; cases "ae_fault E Insert_links"; cases "?ids = []") (auto simp: copy_links_def Let_def rules)
  then show ?thesis
  proof cases
    case fault
    then show ?thesis using restored removed c(2)
      by (cases "ae_fault E Insert_copy"; cases "ae_fault E Delete_copy") (auto simp: clone_into_def ins)
  next
    case whole
    then show ?thesis using restored(3)
      by (cases "ae_fault E Insert_copy") (auto simp: clone_into_def ins ok_answer_def answer_def)
  qed
qed

definition ruled_app :: app_db where
  "ruled_app = empty_app\<lparr>ap_next := (\<lambda>_. 9),
     ap_workspaces := [\<lparr>ws_id = 1, ws_name = ''w'', ws_ownerId = ''a'', ws_isPersonal = True, ws_allRules = True, ws_createdAt = 0, ws_updatedAt = 0\<rparr>],
     ap_projects := [\<lparr>pj_id = 1, pj_name = ''p'', pj_description = None, pj_workspaceId = 1, pj_createdAt = 0, pj_updatedAt = 0\<rparr>],
     ap_rules := [\<lparr>ru_id = 1, ru_code = ''R1'', ru_name = ''r'', ru_description = None, ru_createdBy = ''a'', ru_createdAt = 0, ru_updatedAt = 0\<rparr>],
     ap_ruleSets := [\<lparr>se_id = 1, se_name = ''s'', se_description = None, se_createdAt = 0, se_updatedAt = 0\<rparr>],
     ap_workspaceRules := [\<lparr>ln_id = 1, ln_from = 1, ln_to = 1\<rparr>],
     ap_projectRules := [\<lparr>ln_id = 1, ln_from = 1, ln_to = 1\<rparr>],
     ap_ruleSetRules := [\<lparr>ln_id = 1, ln_from = 1, ln_to = 1\<rparr>],
     ap_projectRuleSets := [\<lparr>ln_id = 1, ln_from = 1, ln_to = 1\<rparr>]\<rparr>"

lemma ruled_app_wf: "app_wf ruled_app"
  by (simp add: ruled_app_def empty_app_def app_wf_def keys_fit_def linked_ok_def inside_def)

definition failing_env :: app_env where
  "failing_env = demo_env\<lparr>ae_fault := (\<lambda>s. if s = Insert_links then Some (Error_msg ''D1_ERROR'') else None)\<rparr>"

lemma demo_copy:
  "\<exists>r d'. clone_into demo_env (hd (ap_workspaces ruled_app)) ''b'' ruled_app = Done r d'"
  "\<exists>d'. clone_into failing_env (hd (ap_workspaces ruled_app)) ''b'' ruled_app = Fail (Error_msg ''D1_ERROR'') d'"
  by (simp_all add: clone_into_def copy_links_def insert_links_def insert_link_def insert_workspace_def bump_def failing_env_def demo_env_def ruled_app_def empty_app_def Let_def)

theorem clone_copies_rules_witness:
  "\<exists>r d1 e d2. clone_into demo_env (hd (ap_workspaces ruled_app)) ''b'' ruled_app = Done r d1 \<and> copied_from (hd (ap_workspaces ruled_app)) ''b'' ruled_app d1
    \<and> clone_into failing_env (hd (ap_workspaces ruled_app)) ''b'' ruled_app = Fail e d2 \<and> same_rows ruled_app d2"
proof -
  let ?w = "hd (ap_workspaces ruled_app)"
  obtain r d1 d2 where 1: "clone_into demo_env ?w ''b'' ruled_app = Done r d1"
    and 2: "clone_into failing_env ?w ''b'' ruled_app = Fail (Error_msg ''D1_ERROR'') d2" using demo_copy by blast
  have "ae_fault failing_env Delete_copy = None" by (simp add: failing_env_def)
  then show ?thesis
    using 1 2 clone_copies_rules[OF ruled_app_wf, where E = demo_env and w = ?w and email = "''b''"]
      clone_copies_rules[OF ruled_app_wf, where E = failing_env and w = ?w and email = "''b''"] by simp
qed

section \<open>Effective rules\<close>

lemma map_put_set:
  assumes "inj_on key (insert x (set ys))" "distinct (map key ys)"
  shows "set (map_put key x ys) = insert x (set ys) \<and> distinct (map key (map_put key x ys))"
  using assms
proof (induction ys)
  case (Cons y ys)
  have i: "inj_on key (insert x (set ys))" using Cons.prems(1) by (auto intro: inj_on_subset)
  show ?case
  proof (cases "key y = key x")
    case True
    moreover have "y \<in> insert x (set (y # ys))" "x \<in> insert x (set (y # ys))" by simp_all
    ultimately have "y = x" by (rule inj_onD[OF Cons.prems(1)])
    then show ?thesis using Cons.prems(2) by auto
  next
    case False
    then show ?thesis using Cons.IH[OF i] Cons.prems(2) by auto
  qed
qed simp

lemma fold_map_put:
  assumes "inj_on key R" "set xs \<subseteq> R" "set acc \<subseteq> R" "distinct (map key acc)"
  shows "set (fold (map_put key) xs acc) = set xs \<union> set acc \<and> distinct (map key (fold (map_put key) xs acc))"
  using assms(2-)
proof (induction xs arbitrary: acc)
  case (Cons x xs)
  have "insert x (set acc) \<subseteq> R" using Cons.prems(1,2) by auto
  then have "inj_on key (insert x (set acc))" by (rule inj_on_subset[OF assms(1)])
  then show ?case using map_put_set[of key x acc] Cons.IH[of "map_put key x acc"] Cons.prems by auto
qed simp

lemma joined_rules_set: "set (joined_rules ls d) = {r \<in> set (ap_rules d). \<exists>l\<in>set ls. ru_id r = ln_to l}"
  by (auto simp: joined_rules_def)

definition given_to :: "int \<Rightarrow> app_db \<Rightarrow> rule_row \<Rightarrow> bool" where
  "given_to p d r \<longleftrightarrow>
     list_ex (\<lambda>l. ln_from l = p \<and> ln_to l = ru_id r) (ap_projectRules d)
     \<or> list_ex (\<lambda>s. ln_from s = p \<and> list_ex (\<lambda>l. ln_from l = ln_to s \<and> ln_to l = ru_id r) (ap_ruleSetRules d)) (ap_projectRuleSets d)"

text \<open>C20: 
  The effective rules of a project are the rules linked to it and those of the rule sets linked to it, each of them once.
\<close>

theorem effective_rules_exact:
  assumes "app_wf d"
  shows "distinct (map ru_id (getEffectiveRulesForProject p d))
    \<and> set (getEffectiveRulesForProject p d) = {r \<in> set (ap_rules d). given_to p d r}"
proof -
  let ?direct = "joined_rules (filter (\<lambda>l. ln_from l = p) (ap_projectRules d)) d"
  let ?sets = "map ln_to (filter (\<lambda>l. ln_from l = p) (ap_projectRuleSets d))"
  let ?more = "if ?sets = [] then [] else joined_rules (filter (\<lambda>l. ln_from l \<in> set ?sets) (ap_ruleSetRules d)) d"
  have inj: "inj_on ru_id (set (ap_rules d))" using assms by (simp add: app_wf_def keys_fit_def distinct_map)
  have m: "set ?more = {r \<in> set (ap_rules d). \<exists>l\<in>set (filter (\<lambda>l. ln_from l \<in> set ?sets) (ap_ruleSetRules d)). ru_id r = ln_to l}"
    by (auto simp: joined_rules_set filter_empty_conv)
  have 1: "set (fold (map_put ru_id) ?direct []) = set ?direct \<and> distinct (map ru_id (fold (map_put ru_id) ?direct []))"
    using fold_map_put[OF inj, of ?direct "[]"] by (auto simp: joined_rules_set)
  have "set (fold (map_put ru_id) ?more (fold (map_put ru_id) ?direct [])) = set ?more \<union> set ?direct
    \<and> distinct (map ru_id (fold (map_put ru_id) ?more (fold (map_put ru_id) ?direct [])))"
    using fold_map_put[OF inj, of ?more "fold (map_put ru_id) ?direct []"] 1 m by (auto simp: joined_rules_set)
  moreover have "set ?more \<union> set ?direct = {r \<in> set (ap_rules d). given_to p d r}"
    unfolding m by (auto simp: joined_rules_set given_to_def list_ex_iff) metis+
  ultimately show ?thesis by (simp add: getEffectiveRulesForProject_def Let_def)
qed

theorem effective_rules_exact_witness:
  "distinct (map ru_id (getEffectiveRulesForProject 1 ruled_app))
    \<and> set (getEffectiveRulesForProject 1 ruled_app) = {r \<in> set (ap_rules ruled_app). given_to 1 ruled_app r}"
  by (rule effective_rules_exact) (rule ruled_app_wf)

section \<open>Sign-in\<close>


definition demo_access :: access_db where
  "demo_access = \<lparr>xs_nextRole = 9, xs_nextAction = 9, xs_nextGrant = 9, xs_nextUser = 9,
     xs_roles = [\<lparr>rl_id = 2, rl_name = ''user'', rl_description = None\<rparr>],
     xs_actions = [\<lparr>ca_id = 1, ca_code = ''view'', ca_name = ''View'', ca_description = None\<rparr>],
     xs_grants = [\<lparr>gr_id = 1, gr_roleId = 2, gr_actionId = 1\<rparr>],
     xs_users = [\<lparr>ur_id = 1, ur_userId = ''b'', ur_roleId = 2\<rparr>],
     xs_domains = [\<lparr>dm_domain = ''a.com'', dm_isActive = True\<rparr>]\<rparr>"

definition demo_sign_in :: sign_in_env where
  "demo_sign_in = \<lparr>si_frontend = ''f'', si_code = Some ''c'', si_state = Some ''s'', si_savedState = Some ''s'',
     si_verifier = (\<lambda>_. Some ''v''), si_return = (\<lambda>_. None),
     si_profile = (\<lambda>_ _. Inr \<lparr>ms_id = ''1'', ms_mail = Some ''b'', ms_userPrincipalName = None, ms_email = None, ms_displayName = Some ''B'',
        ms_givenName = None, ms_surname = None\<rparr>), si_seal_error = None, si_encode = (\<lambda>s. s)\<rparr>"

lemma normal_b: "normalizeEmail ''b'' = ''b''"
  by (simp add: normalizeEmail_def ends_with_def guest_suffix_def Bridge_Gateway.js_trim_def Bridge_Gateway.js_space_def js_lower_def
      js_lower_char_def)

lemma demo_checked: "checkAccess demo_access ''b'' = \<lparr>ak_allowed = True, ak_roles = [2], ak_actions = [''view''], ak_reason = None\<rparr>"
  by (simp add: checkAccess_def hasApprovedDomains_def getUserRoles_def normal_b getControlledActions_def js_unique_def demo_access_def)

definition demo_session :: session_user where
  "demo_session = \<lparr>su_id = ''1'', su_email = ''b'', su_name = ''B'', su_roles = [2], su_actions = [''view'']\<rparr>"

lemma demo_callback: "sign_in demo_env demo_access empty_app (Callback demo_sign_in) = Some demo_session"
  by (simp add: handleMicrosoftCallback_def demo_sign_in_def filled_text_def or_else_def text_or_def normal_b demo_checked ms_session_def
      demo_session_def Let_def)


section \<open>What any user may do\<close>

text \<open>The address of a mapping is stored as it is written, but looked up in its normal form: a mapping with capitals gives no role.\<close>

lemma capital_mapping_useless:
  assumes "\<And>r. r \<in> set (xs_users x) \<Longrightarrow> ur_userId r \<noteq> normalizeEmail m" "normalizeEmail m \<noteq> m" "m \<noteq> []"
  shows "getUserRoles (snd (createExternalUserIdRelRole E (Some (JObj [(''externalUserId'', JStr m), (''roleId'', JNum 2 0)])) x)) m = []"
  using assms
  by (auto simp: createExternalUserIdRelRole_def settle_access_def read_body_def parse_as_def userRoleSchema_def z_field_def obj_get_def
      getUserRoles_def js_unique_def filter_empty_conv Let_def)

text \<open>The handler of the mappings does not look at the session: a user may give himself the role of an administrator.\<close>

lemma any_user_grants_himself_admin:
  assumes "normalizeEmail m = m" "m \<noteq> []"
  shows "ADMIN_ROLE_ID \<in> set (getUserRoles (snd (createExternalUserIdRelRole E (Some (JObj [(''externalUserId'', JStr m), (''roleId'', JNum 1 0)])) x)) m)"
  using assms
  by (auto simp: createExternalUserIdRelRole_def settle_access_def read_body_def parse_as_def userRoleSchema_def z_field_def obj_get_def
      getUserRoles_def js_unique_def ADMIN_ROLE_ID_def Let_def)

text \<open>An approved domain lets the addresses of every other domain in.\<close>

lemma approved_domain_not_compared: "ak_allowed (checkAccess (demo_access\<lparr>xs_domains := [\<lparr>dm_domain = dmn, dm_isActive = True\<rparr>]\<rparr>) ''b'')"
  by (simp add: checkAccess_def hasApprovedDomains_def getUserRoles_def normal_b getControlledActions_def js_unique_def demo_access_def)

text \<open>Deleting a role leaves it to those who have it.\<close>

lemma deleted_role_still_held: "getUserRoles (snd (deleteRole p x)) m = getUserRoles x m"
  by (simp add: deleteRole_def getUserRoles_def split: option.split)

text \<open>An issue linked to two documents is shown with none.\<close>

lemma two_documents_hide_each_other:
  assumes "a \<in> set (ap_issueDocuments d)" "b \<in> set (ap_issueDocuments d)" "an_issueId a = i" "an_issueId b = i" "an_documentId a \<noteq> an_documentId b"
  shows "linked_documents i d = []"
proof -
  have "\<exists>c\<in>set (ap_issueDocuments d). an_issueId c = i \<and> k \<noteq> an_documentId c" for k using assms by metis
  then have "matching_documents (map an_documentId (filter (\<lambda>a. an_issueId a = i) (ap_issueDocuments d))) d = []"
    by (auto simp: matching_documents_def filter_empty_conv list_all_iff)
  then show ?thesis by (simp add: linked_documents_def Let_def)
qed

text \<open>A request that only changes the documents of an issue always fails, and changes nothing.\<close>

lemma document_only_patch_fails:
  assumes "validatePositiveInt (Some param) = Some i" "find_issue i d = Some r"
  shows "update_issue E auth param (Some (JObj [(''documentIds'', x)])) d = (issue_error 500 ''Failed to update issue'' ''UPDATE_ERROR'', d)"
  using assms
  by (simp add: update_issue_def read_body_def obj_get_def title_patch_def description_patch_def priority_patch_def status_patch_def
      mark_patch_def write_issue_def settle_issue_def Let_def)

text \<open>The issues of another user can be deleted.\<close>

definition shared_app :: app_db where
  "shared_app = ruled_app\<lparr>ap_issues := [\<lparr>iu_id = 1, iu_title = ''t'', iu_description = None, iu_priority = ''low'', iu_status = ''open'',
     iu_origin = ''manual'', iu_projectId = 1, iu_markedBy = None, iu_markedAt = None, iu_createdAt = 0, iu_updatedAt = 0\<rparr>]\<rparr>"

lemma positive_one: "validatePositiveInt (Some ''1'') = Some 1"
  by (simp add: validatePositiveInt_def js_parseInt_def Bridge_Gateway.js_space_def Pipeline.js_space_def is_digit_def digits_val_def char_digit_def)

lemma trailing_letters_ignored: "validatePositiveInt (Some ''1abc'') = Some 1"
  by (simp add: validatePositiveInt_def js_parseInt_def Bridge_Gateway.js_space_def Pipeline.js_space_def is_digit_def digits_val_def char_digit_def)

lemma issue_of_another_deleted: "theirs ''b'' (snd (app_call_step (demo_call ''b'' (Delete_issue ''1'')) shared_app)) \<noteq> theirs ''b'' shared_app"
  by (simp add: app_call_step_def demo_call_def app_step_def delete_issue_def positive_one find_issue_def shared_app_def ruled_app_def
      empty_app_def delete_issues_def drop_links_def delete_links_def Let_def theirs_def their_plans_def their_projects_def
      their_places_def their_workspaces_def owner_of_def Bridge_Gateway.js_trim_def Bridge_Gateway.js_space_def js_lower_def js_lower_char_def)

end
