(* ===== verification/Spec2Isabelle.thy ===== *)
theory Spec2Isabelle
  imports Pipeline_Correct Archive_Audit Archive_Queues Archive_Sync Crdt Gossip Consensus Bridge_Sync Bridge_Findings Bootstrap_Types Censorate_Correct Gateway_Findings Cloudflare_Correct Core_Schemas Mobile_Foreman Server_Correct App_Properties Analysis_Correct
begin

text \<open>
  Wenyan is an office for documents: a message is submitted to a gateway, put in a docket, checked by a pipeline against the laws in
  force, sealed in six stages and archived; laws and genre definitions are themselves archived documents. This library models the
  packages under \<open>src/packages\<close> and proves what makes them correct. Each theory opens with the files it models; a definition has the
  name of the function it translates, or that name with a prefix (\<open>d1_\<close>, \<open>nats_\<close>, \<open>swim_\<close>) where two packages share it.

  Conventions. A function that may throw returns \<open>err + 'a\<close>, an operation on a state \<open>('s, 'a) out\<close>: a value or an error, each with
  the state it leaves (\<open>Wenyan_Prelude\<close>). Strings are \<open>char list\<close>, one character for one UTF-16 unit below U+0100. A JavaScript number
  is an \<open>int\<close>, a \<open>nat\<close> where it counts, a \<open>rat\<close> where it is a fraction, and a decimal \<open>JNum m e\<close> in JSON (\<open>Js_Json\<close>); machine words
  are used where the code wraps (\<open>Cloudflare.d1_rolling\<close>) or reads bytes. Objects are lists of properties in their order. Clock readings,
  random ids and the answers of other systems are arguments. SHA-256, HMAC and Ed25519 are the record \<open>crypto\<close> of parameters (\<open>Seal_Crypto\<close>);
  theorems name what they ask of it: \<open>crypto_law\<close> (signing and verifying agree), or that a digest does not collide on the texts at hand.

  The parts, in the order they use each other.

  Data. \<open>Core_Envelope\<close> (core: kinds.ts, ti.ts, law.ts) has the states, envelopes and laws with their zod schemas; \<open>Core_Schemas\<close> the
  schemas of receipts, alerts, detection rules and distribution metadata (ti.ts, law.ts, censorate.ts); \<open>Core_Bootstrap\<close> the configuration
  (bootstrap.ts), whose parser \<open>Bootstrap_Types\<close> shows to return well-formed configurations only. \<open>Js_Json\<close> and \<open>Js_Time\<close> are
  \<open>JSON\<close> and \<open>Date\<close> with the round trip of printing and parsing.

  Cryptography. \<open>Merkle\<close> (archive/merkle-dag.ts, channel/merkle.ts, seal/merkle.ts) has the three trees over one locale \<open>merkle_root\<close>,
  and the inclusion proofs; \<open>Seal_Crypto\<close> (seal/crypto.ts) base64, UTF-8 and HS256 tokens; \<open>Seal_Chain\<close> (seal/chain.ts, thresholds.ts)
  creation and verification of the six seals. The locale \<open>hash_chain\<close> of \<open>Hash_Chain\<close> gives tamper evidence once, for the seals of a
  message and for its transitions.

  Archive. \<open>Archive_Db\<close> is the state of the SQLite store: a record with a list of rows per table. \<open>Archive_Log\<close> (messages, transitions,
  seals, replay), \<open>Archive_Laws\<close> (laws and definitions in force), \<open>Archive_Queues\<close> (docket, idempotency keys, approvals, outbound queue,
  site), \<open>Archive_Sync\<close> (Merkle root, proofs, pulling from a peer), \<open>Archive_Audit\<close> and \<open>Archive_Export\<close> (receipts, alerts,
  checkpoints, the bundle) are the operations of archive/sqlite.ts. \<open>archive_inv\<close> is the invariant every write keeps. \<open>Cloudflare\<close>
  (archive/cloudflare.ts) is the second implementation of the same interface; \<open>Cloudflare_Correct\<close> proves that it refines the first for every
  sequence of writes, up to the foreign keys it does not have, and states the common contract as the locales \<open>message_store\<close> and
  \<open>referential_store\<close>.

  Pipeline. \<open>Law_Resolver\<close> has the caches of laws and definitions over the locale \<open>ttl_cache\<close> (pipeline/law-resolver.ts, law-access.ts,
  archive/ti-resolver.ts), \<open>Imperial_Works\<close> the roles, the router of emergencies and the detectors (imperial-works, actor). \<open>Pipeline\<close>
  (pipeline/index.ts) is \<open>processDocketMessage\<close> and \<open>finalizePendingMessage\<close>. \<open>Pipeline_Log\<close> shows under which laws a run archives,
  \<open>Pipeline_Archive\<close> that a lawful message is archived, \<open>Pipeline_Frame\<close> what a run leaves alone (locale \<open>write_invariant\<close>),
  \<open>Pipeline_Correct\<close> and \<open>Pipeline_Demo\<close> evaluate a run.

  Gateway. \<open>Censorate\<close> is the anomaly detector, the read receipts and checkpoints (censorate). \<open>Gateway_Auth\<close> has the limits and actors of a
  request, \<open>Gateway\<close> the runtime and the worker, \<open>Gateway_Submit\<close> and \<open>Gateway_Routes\<close> the routes of gateway/index.ts. \<open>Gateway_Contract\<close> and
  \<open>Gateway_Reads\<close> state what a request is answered and changes, \<open>Gateway_State\<close> what every reachable state satisfies (locale
  \<open>archive_keeper\<close>, interpreted for the invariant and for each kind of history), \<open>Gateway_Findings\<close> where the code falls short.

  Distribution. \<open>Crdt\<close> (vector clocks, merging), \<open>Gossip\<close> (membership, broadcast, and the channel), \<open>Consensus\<close> (PBFT, locale \<open>quorums\<close>).
  \<open>Dedup\<close> is the contract of the receivers that drop what they have seen.

  Bridge. \<open>Bridge_Adapters\<close> has the six protocols over the locale \<open>into_wenyan\<close>, \<open>Bridge_Sync\<close> the resolution of conflicts, \<open>Bridge_Gateway\<close>
  the gateway to the foreign systems (bridge); \<open>Bridge_Correct\<close> proves its invariants in the locales \<open>sync_invariant\<close> and
  \<open>gateway_invariant\<close>.

  Start. \<open>Genesis\<close> (genesis/apply.ts) seeds the first documents and writes the configuration file; \<open>Server_Boot\<close> (server/index.ts) reads the
  environment, builds the options and the seal context and holds the one promise of the initialisation; \<open>Mobile_Foreman\<close> is the offline queue.

  Application. The server also carries a REST application on a D1 database of its own. \<open>Workspace_Db\<close> has its tables
  (server/src/database/workspaces/schema.ts) with foreign keys, unique pairs and cascades, \<open>Workspace_Access\<close> the session of a request and who
  may touch what (utils/workspaces, utils/validation.ts), \<open>Workspace_Routes\<close>, \<open>Project_Routes\<close>, \<open>Rule_Routes\<close>, \<open>Issue_Routes\<close> and
  \<open>Document_Routes\<close> the handlers under server/src/routes and services/documents, \<open>Server_Access\<close> sign-in, the middleware and the access-control
  routes (auth, middleware/auth.ts, routes/access-control), \<open>App_Routes\<close> which handler a request reaches. \<open>App_Correct\<close> proves that every
  statement keeps the tables in order (\<open>app_wf\<close>), \<open>App_Isolation\<close> and \<open>App_Requests\<close> that the handlers of workspaces, projects and
  documents spare what other users own, one lemma per statement and per handler; \<open>App_Properties\<close> lifts both to any sequence of requests in
  the locale \<open>request_isolation\<close>, interpreted on \<open>app_call_step\<close>, and has the copies, the effective rules and the session. Issues,
  rules and the access-control routes have no such guard; the same theory shows what any user can do with them. \<open>User_Settings\<close> has the
  settings of a user (shared/src/schemas/user-settings.ts, utils/userSettings.ts, routes/me/settings) with the round trip of printing and
  parsing them; \<open>Issue_Analysis\<close> the analysis of documents by a language model (routes/projects/[id]/issues, utils/issues, httpJobs.ts and the
  choice of a responder in utils/ai/providers.ts), and \<open>Analysis_Correct\<close> that its request fits the window of the model, that its findings are
  stored without a failure and at most once, and that nobody else's rows change.

  Bounds and fuel. All definitions terminate. The loop of the worker recurs on the length of the docket, which a turn that goes on shortens; the
  loop of a synchronisation on the transitions the peer returns; \<open>JSON.parse\<close> on the length of its text.

  Not modelled. The DDL of both stores, their migrations (which read JSON out of text columns), pragmas and file handling; the HTTP framework,
  timers, sockets and the drivers of NATS, Kafka and MQTT, whose calls are steps of the models; OpenTelemetry; the command line, the benchmarks and
  the deployment files. Of the REST application: the clients that
  call a model provider over HTTP and the routes that ask one for rules, themes in a key-value store, the administration of the configuration and
  of the providers, and the sealing of session cookies, which is a parameter of the middleware; the worker of HTTP jobs and the libraries that
  repair malformed JSON are not in this repository and are parameters of the analysis.
  Consequences for the statements: an exception of a driver is an argument, the open event stream of the gateway is represented by replay
  and subscription, and concurrency of requests is their order.
\<close>

end
